(* ===== verification/Prelude.thy ===== *)
theory Prelude
  imports Main "HOL-Library.Word" "HOL-Library.AList"
begin

text \<open>
  Shared vocabulary of the development: machine words with the saturating arithmetic of the
  Rust standard library, results as sums with the question-mark operator, hash maps as
  association lists with distinct keys, and the two contracts most components share: a state
  machine with an inductive invariant (\<open>safe_machine\<close>) and a keyed store whose entries
  expire (\<open>expiring_store\<close>).
\<close>

unbundle bit_operations_syntax

named_theorems unat_simps \<open>readings of word operations as operations on natural numbers\<close>
named_theorems result_simps \<open>evaluation of result combinators\<close>

section \<open>Machine integers\<close>

type_synonym u8 = "8 word"
type_synonym u16 = "16 word"
type_synonym u32 = "32 word"
type_synonym u64 = "64 word"
type_synonym u128 = "128 word"

text \<open>\<open>saturating_sub\<close> and \<open>saturating_add\<close> of the standard library.\<close>

definition saturating_sub :: "'a::len word \<Rightarrow> 'a word \<Rightarrow> 'a word" where
  "saturating_sub x y = (if y \<le> x then x - y else 0)"

definition saturating_add :: "'a::len word \<Rightarrow> 'a word \<Rightarrow> 'a word" where
  "saturating_add x y = (if unat x + unat y < 2 ^ LENGTH('a) then x + y else - 1)"

lemma unat_saturating_sub [unat_simps]: "unat (saturating_sub x y) = unat x - unat y"
  by (simp add: saturating_sub_def unat_sub word_le_nat_alt)

lemma unat_saturating_add [unat_simps]:
  fixes x y :: "'a::len word"
  shows "unat (saturating_add x y) = min (unat x + unat y) (2 ^ LENGTH('a) - 1)"
proof (cases "unat x + unat y < 2 ^ LENGTH('a)")
  case True
  then have "unat (x + y) = unat x + unat y" by (rule unat_add_lem [THEN iffD1])
  with True show ?thesis by (simp add: saturating_add_def)
next
  case False
  then show ?thesis by (simp add: saturating_add_def unsigned_minus_1_eq_mask mask_eq_exp_minus_1 not_less)
qed

lemmas word_order_nat = word_le_nat_alt word_less_nat_alt

lemma unat_max_word [unat_simps]: "unat (max x y) = max (unat x) (unat y)"
  by (simp add: max_def word_le_nat_alt)

lemma unat_pos_iff: "0 < unat x \<longleftrightarrow> x \<noteq> 0"
  by (simp add: unat_gt_0)

lemma unat_below: "unat w < 2 ^ LENGTH('a)" for w :: "'a::len word"
  by (rule unsigned_less)

lemma word_gt0_nat: "0 < (x :: 'a::len word) \<longleftrightarrow> 0 < unat x"
  by (simp add: word_less_nat_alt)

lemma unat_of_nat_small: "n < 2 ^ LENGTH('a) \<Longrightarrow> unat (of_nat n :: 'a::len word) = n"
  by (simp add: unsigned_of_nat take_bit_nat_eq_self)

lemma saturating_sub_mono: "x \<le> x' \<Longrightarrow> saturating_sub x y \<le> saturating_sub x' y"
  by (simp add: word_le_nat_alt unat_saturating_sub)

section \<open>Results\<close>

text \<open>
  A \<open>Result\<close> is a sum with the error on the left. \<open>and_then\<close> is the question-mark
  operator: it stops at the first error and otherwise continues with the value.
\<close>

definition and_then :: "'e + 'a \<Rightarrow> ('a \<Rightarrow> 'e + 'b) \<Rightarrow> 'e + 'b" where
  "and_then r f = (case r of Inl e \<Rightarrow> Inl e | Inr x \<Rightarrow> f x)"

lemma and_then_Inl [simp, result_simps]: "and_then (Inl e) f = Inl e"
  by (simp add: and_then_def)

lemma and_then_Inr [simp, result_simps]: "and_then (Inr x) f = f x"
  by (simp add: and_then_def)

lemma and_then_eq_Inr: "and_then r f = Inr y \<longleftrightarrow> (\<exists>x. r = Inr x \<and> f x = Inr y)"
  by (cases r) auto

lemma and_then_eq_Inl:
  "and_then r f = Inl e \<longleftrightarrow> r = Inl e \<or> (\<exists>x. r = Inr x \<and> f x = Inl e)"
  by (cases r) auto

lemma and_then_split:
  "P (and_then r f) \<longleftrightarrow> (\<forall>e. r = Inl e \<longrightarrow> P (Inl e)) \<and> (\<forall>x. r = Inr x \<longrightarrow> P (f x))"
  by (cases r) auto

text \<open>Collecting an iterator of results into a result of a list, stopping at the first error.\<close>

fun collect_results :: "('a \<Rightarrow> 'e + 'b) \<Rightarrow> 'a list \<Rightarrow> 'e + 'b list" where
  "collect_results f [] = Inr []"
| "collect_results f (x # xs) =
     and_then (f x) (\<lambda>y. and_then (collect_results f xs) (\<lambda>ys. Inr (y # ys)))"

lemma collect_results_Inr:
  "collect_results f xs = Inr ys \<longleftrightarrow> list_all2 (\<lambda>x y. f x = Inr y) xs ys"
proof (induction xs arbitrary: ys)
  case Nil
  then show ?case by auto
next
  case (Cons x xs)
  show ?case
    by (cases "f x"; cases "collect_results f xs")
      (auto simp: list_all2_Cons1 Cons.IH [symmetric])
qed

text \<open>\<open>Option::map\<close> followed by \<open>transpose\<close>: an absent value is accepted as absent.\<close>

definition map_transpose :: "('a \<Rightarrow> 'e + 'b) \<Rightarrow> 'a option \<Rightarrow> 'e + 'b option" where
  "map_transpose f v = (case v of None \<Rightarrow> Inr None | Some x \<Rightarrow> and_then (f x) (\<lambda>y. Inr (Some y)))"

lemma map_transpose_simps [simp, result_simps]:
  "map_transpose f None = Inr None"
  "map_transpose f (Some x) = and_then (f x) (\<lambda>y. Inr (Some y))"
  by (simp_all add: map_transpose_def)

definition is_ok :: "'e + 'a \<Rightarrow> bool" where
  "is_ok r = (case r of Inl _ \<Rightarrow> False | Inr _ \<Rightarrow> True)"

lemma is_ok_simps [simp]: "is_ok (Inl e) = False" "is_ok (Inr x) = True"
  by (simp_all add: is_ok_def)

section \<open>Hash maps\<close>

text \<open>
  A \<open>HashMap\<close> is an association list with distinct keys; the list order stands for the
  map's unspecified iteration order. \<open>get\<close> is \<^const>\<open>map_of\<close>, \<open>insert\<close> and an update
  through \<open>get_mut\<close> are \<^const>\<open>AList.update\<close>, \<open>remove\<close> is \<^const>\<open>AList.delete\<close>.
\<close>

type_synonym ('k, 'v) hash_map = "('k \<times> 'v) list"

definition wf_map :: "('k, 'v) hash_map \<Rightarrow> bool" where
  "wf_map m \<longleftrightarrow> distinct (map fst m)"

definition retain :: "('k \<Rightarrow> 'v \<Rightarrow> bool) \<Rightarrow> ('k, 'v) hash_map \<Rightarrow> ('k, 'v) hash_map" where
  "retain p m = filter (\<lambda>kv. p (fst kv) (snd kv)) m"

definition count_values :: "('v \<Rightarrow> bool) \<Rightarrow> ('k, 'v) hash_map \<Rightarrow> nat" where
  "count_values p m = length (filter p (map snd m))"

lemma wf_map_Nil [simp]: "wf_map []"
  by (simp add: wf_map_def)

lemma wf_map_update [simp]: "wf_map m \<Longrightarrow> wf_map (AList.update k v m)"
  by (simp add: wf_map_def distinct_update)

lemma wf_map_delete [simp]: "wf_map m \<Longrightarrow> wf_map (AList.delete k m)"
  by (simp add: wf_map_def distinct_delete)

lemma wf_map_retain [simp]: "wf_map m \<Longrightarrow> wf_map (retain p m)"
  unfolding wf_map_def retain_def by (induction m) auto

lemma map_of_retain:
  "wf_map m \<Longrightarrow> map_of (retain p m) k =
     (case map_of m k of None \<Rightarrow> None | Some v \<Rightarrow> if p k v then Some v else None)"
  unfolding wf_map_def retain_def
  by (induction m) (auto split: option.splits simp: map_of_eq_None_iff rev_image_eqI)

lemma length_retain_le: "length (retain p m) \<le> length m"
  by (simp add: retain_def)

lemma map_of_update [simp]: "map_of (AList.update k v m) = (map_of m)(k \<mapsto> v)"
  by (rule AList.update_conv')

lemma map_of_delete' [simp]: "map_of (AList.delete k m) = (map_of m)(k := None)"
  by (rule AList.delete_conv')

lemma update_fresh: "map_of m k = None \<Longrightarrow> AList.update k v m = m @ [(k, v)]"
  by (induction m) (auto split: if_splits)

lemma length_update:
  "length (AList.update k v m) = (if map_of m k = None then Suc (length m) else length m)"
  by (induction m) auto

lemma count_values_Nil [simp]: "count_values p [] = 0"
  by (simp add: count_values_def)

lemma count_values_Cons [simp]:
  "count_values p (kv # m) = (if p (snd kv) then 1 else 0) + count_values p m"
  by (simp add: count_values_def)

lemma count_values_append [simp]:
  "count_values p (m @ m') = count_values p m + count_values p m'"
  by (simp add: count_values_def)

lemma count_values_le_length: "count_values p m \<le> length m"
  by (induction m) auto

lemma count_values_mono:
  "(\<And>v. p v \<Longrightarrow> q v) \<Longrightarrow> count_values p m \<le> count_values q m"
  by (induction m) (auto simp: le_SucI)

lemma count_values_retain:
  "count_values p (retain q m) \<le> count_values p m"
  by (induction m) (auto simp: retain_def)

lemma count_values_delete: "count_values p (AList.delete k m) \<le> count_values p m"
  by (induction m) auto

text \<open>Overwriting an entry counts the new value in place of the old one.\<close>

lemma count_values_update:
  "map_of m k = Some v0 \<Longrightarrow>
     count_values p (AList.update k v m) + (if p v0 then 1 else 0)
       = count_values p m + (if p v then 1 else 0)"
  by (induction m) (auto split: if_splits)

lemma count_values_update_le:
  "map_of m k = Some v0 \<Longrightarrow> (p v \<Longrightarrow> p v0) \<Longrightarrow>
     count_values p (AList.update k v m) \<le> count_values p m"
  using count_values_update [of m k v0 p v] by (auto split: if_splits)

lemma count_values_insert_fresh:
  "map_of m k = None \<Longrightarrow>
     count_values p (AList.update k v m) = count_values p m + (if p v then 1 else 0)"
  by (simp add: update_fresh)

lemma count_values_insert_le:
  "count_values p (AList.update k v m) \<le> count_values p m + (if p v then 1 else 0)"
proof (cases "map_of m k")
  case None
  then show ?thesis by (simp add: count_values_insert_fresh)
next
  case (Some v0)
  then show ?thesis using count_values_update [of m k v0 p v] by (auto split: if_splits)
qed

lemma map_of_in_values: "map_of m k = Some v \<Longrightarrow> v \<in> snd ` set m"
  by (auto dest!: map_of_SomeD intro: rev_image_eqI)

lemma wf_map_SomeI: "wf_map m \<Longrightarrow> (k, v) \<in> set m \<Longrightarrow> map_of m k = Some v"
  by (simp add: wf_map_def)

text \<open>Counting entries is counting keys, whatever the order of iteration.\<close>

lemma count_values_card:
  "wf_map m \<Longrightarrow> count_values p m = card {k. \<exists>v. map_of m k = Some v \<and> p v}"
proof (induction m)
  case Nil
  then show ?case by simp
next
  case (Cons kv m)
  obtain k v where kv: "kv = (k, v)" by (cases kv)
  let ?K = "{k. \<exists>v. map_of m k = Some v \<and> p v}"
  have fresh: "map_of m k = None" and wf: "wf_map m"
    using Cons.prems by (auto simp: wf_map_def kv map_of_eq_None_iff)
  have "{k'. \<exists>v'. map_of (kv # m) k' = Some v' \<and> p v'} = (if p v then insert k ?K else ?K)"
    using fresh by (auto simp: kv split: if_splits)
  moreover have "finite ?K"
    by (rule finite_subset [OF _ finite_dom_map_of [of m]]) (auto simp: dom_def)
  moreover have "k \<notin> ?K" using fresh by simp
  ultimately show ?case using Cons.IH [OF wf] by (simp add: kv)
qed

text \<open>Removing a list of keys one by one, as the draining loops do.\<close>

definition remove_all :: "'k list \<Rightarrow> ('k, 'v) hash_map \<Rightarrow> ('k, 'v) hash_map" where
  "remove_all ks m = fold AList.delete ks m"

lemma map_of_remove_all:
  "map_of (remove_all ks m) k = (if k \<in> set ks then None else map_of m k)"
  unfolding remove_all_def by (induction ks arbitrary: m) auto

lemma wf_map_remove_all [simp]: "wf_map m \<Longrightarrow> wf_map (remove_all ks m)"
  unfolding remove_all_def by (induction ks arbitrary: m) auto

lemma count_values_remove_all: "count_values p (remove_all ks m) \<le> count_values p m"
  unfolding remove_all_def
  by (induction ks arbitrary: m) (auto intro: order_trans [OF _ count_values_delete])

section \<open>State machines with an inductive invariant\<close>

text \<open>
  The contract between a component's step relation and the safety arguments made about it:
  an invariant that holds initially and that every step keeps holds in every reachable
  state. Components interpret it on their own step relation and invariant.
\<close>

locale safe_machine =
  fixes init :: "'s \<Rightarrow> bool"
    and step :: "'s \<Rightarrow> 's \<Rightarrow> bool"
    and inv :: "'s \<Rightarrow> bool"
  assumes init_inv: "init s \<Longrightarrow> inv s"
    and step_inv: "inv s \<Longrightarrow> step s t \<Longrightarrow> inv t"
begin

lemma steps_inv: "step\<^sup>*\<^sup>* s t \<Longrightarrow> inv s \<Longrightarrow> inv t"
  by (induction rule: rtranclp_induct) (auto intro: step_inv)

lemma reachable_inv: "init s \<Longrightarrow> step\<^sup>*\<^sup>* s t \<Longrightarrow> inv t"
  by (rule steps_inv) (auto intro: init_inv)

text \<open>A property that every step from an invariant state keeps is kept along every run.\<close>

lemma steps_stable:
  assumes run: "step\<^sup>*\<^sup>* s t" and inv: "inv s" and start: "p s"
    and stable: "\<And>s t. inv s \<Longrightarrow> p s \<Longrightarrow> step s t \<Longrightarrow> p t"
  shows "p t"
proof -
  from run inv start have "inv t \<and> p t"
    by (induction rule: rtranclp_induct) (auto intro: step_inv stable)
  then show ?thesis ..
qed

end

section \<open>Stores whose entries expire\<close>

text \<open>
  What the session registry, the job registry and the rate limiter promise of their sweeps:
  a sweep removes exactly the entries that are dead at its clock reading, and an entry that
  is dead stays dead as the clock advances.
\<close>

locale expiring_store =
  fixes dead :: "'v \<Rightarrow> u64 \<Rightarrow> bool"
    and sweep :: "u64 \<Rightarrow> ('k, 'v) hash_map \<Rightarrow> ('k, 'v) hash_map"
  assumes sweep_lookup: "wf_map m \<Longrightarrow> map_of (sweep now m) k =
      (case map_of m k of None \<Rightarrow> None | Some v \<Rightarrow> if dead v now then None else Some v)"
    and sweep_wf: "wf_map m \<Longrightarrow> wf_map (sweep now m)"
    and dead_mono: "t \<le> t' \<Longrightarrow> dead v t \<Longrightarrow> dead v t'"
begin

lemma swept_alive: "wf_map m \<Longrightarrow> map_of (sweep now m) k = Some v \<Longrightarrow> \<not> dead v now"
  by (auto simp: sweep_lookup split: option.splits if_splits)

lemma swept_unchanged: "wf_map m \<Longrightarrow> map_of (sweep now m) k = Some v \<Longrightarrow> map_of m k = Some v"
  by (auto simp: sweep_lookup split: option.splits if_splits)

lemma alive_kept: "wf_map m \<Longrightarrow> map_of m k = Some v \<Longrightarrow> \<not> dead v now \<Longrightarrow>
    map_of (sweep now m) k = Some v"
  by (auto simp: sweep_lookup)

text \<open>Only the latest sweep counts: an earlier one in between changes nothing.\<close>

lemma sweep_sweep:
  assumes "wf_map m" and "t \<le> t'"
  shows "map_of (sweep t' (sweep t m)) = map_of (sweep t' m)"
proof
  fix k
  have "wf_map (sweep t m)" using assms(1) by (rule sweep_wf)
  then show "map_of (sweep t' (sweep t m)) k = map_of (sweep t' m) k"
    using assms dead_mono [OF assms(2)]
    by (auto simp: sweep_lookup split: option.splits)
qed

lemma sweep_idem: "wf_map m \<Longrightarrow> map_of (sweep t (sweep t m)) = map_of (sweep t m)"
  by (rule sweep_sweep) auto

end

end
