(* ===== verification/Text.thy ===== *)
theory Text
  imports Prelude
begin

text \<open>
  The string operations of the Rust standard library the gateway uses, on strings as their
  UTF-8 bytes: prefixes, splitting, trimming of Unicode white space, parsing and printing of
  unsigned decimal numbers, hexadecimal digits and the check that bytes are UTF-8.
\<close>

section \<open>Prefixes and splitting\<close>

fun strip_prefix :: "string \<Rightarrow> string \<Rightarrow> string option" where
  "strip_prefix [] s = Some s"
| "strip_prefix (p # ps) [] = None"
| "strip_prefix (p # ps) (c # cs) = (if p = c then strip_prefix ps cs else None)"

definition starts_with :: "string \<Rightarrow> string \<Rightarrow> bool" where
  "starts_with p s = (strip_prefix p s \<noteq> None)"

lemma strip_prefix_Some: "strip_prefix p s = Some r \<longleftrightarrow> s = p @ r"
  by (induction p s rule: strip_prefix.induct) auto

lemma strip_prefix_append [simp]: "strip_prefix p (p @ r) = Some r"
  by (simp add: strip_prefix_Some)

lemma starts_with_iff: "starts_with p s \<longleftrightarrow> (\<exists>r. s = p @ r)"
  by (cases "strip_prefix p s") (auto simp: starts_with_def strip_prefix_Some)

lemma starts_with_append [simp]: "starts_with p (p @ r)"
  by (simp add: starts_with_def)

text \<open>\<open>split_once\<close> cuts at the first occurrence; \<open>split\<close> always yields a first piece.\<close>

fun split_once :: "char \<Rightarrow> string \<Rightarrow> (string \<times> string) option" where
  "split_once d [] = None"
| "split_once d (c # cs) =
     (if c = d then Some ([], cs)
      else map_option (\<lambda>(a, b). (c # a, b)) (split_once d cs))"

fun split_on :: "char \<Rightarrow> string \<Rightarrow> string list" where
  "split_on d [] = [[]]"
| "split_on d (c # cs) =
     (if c = d then [] # split_on d cs
      else (case split_on d cs of [] \<Rightarrow> [[c]] | w # ws \<Rightarrow> (c # w) # ws))"

lemma split_once_Some: "split_once d s = Some (a, b) \<longleftrightarrow> s = a @ d # b \<and> d \<notin> set a"
proof (induction s arbitrary: a)
  case Nil
  then show ?case by simp
next
  case (Cons c s)
  show ?case
  proof (cases a)
    case Nil
    then show ?thesis by (auto split: option.splits)
  next
    case (Cons x a')
    then show ?thesis using Cons.IH [of a'] by auto
  qed
qed

lemma split_once_None: "split_once d s = None \<longleftrightarrow> d \<notin> set s"
  by (induction s) auto

lemma split_on_not_Nil [simp]: "split_on d s \<noteq> []"
  by (cases s) (auto split: list.splits)

section \<open>White space\<close>

text \<open>
  \<open>char::is_whitespace\<close> holds of 25 Unicode scalar values. \<open>ws_len\<close> is the number of bytes
  of the white-space character a string starts with, 0 when there is none.
\<close>

definition ws_codes :: "nat list list" where
  "ws_codes =
     [[9], [10], [11], [12], [13], [32], [194, 133], [194, 160], [225, 154, 128],
      [226, 128, 128], [226, 128, 129], [226, 128, 130], [226, 128, 131], [226, 128, 132],
      [226, 128, 133], [226, 128, 134], [226, 128, 135], [226, 128, 136], [226, 128, 137],
      [226, 128, 138], [226, 128, 168], [226, 128, 169], [226, 128, 175], [226, 129, 159],
      [227, 128, 128]]"

definition has_ws :: "nat list \<Rightarrow> bool" where
  "has_ws bs = List.member ws_codes bs"

definition ws_len :: "string \<Rightarrow> nat" where
  "ws_len s =
     (if has_ws (map of_char (take 1 s)) then 1
      else if has_ws (map of_char (take 2 s)) then 2
      else if has_ws (map of_char (take 3 s)) then 3 else 0)"

lemma ws_len_Nil [simp]: "ws_len [] = 0"
  by (simp add: ws_len_def has_ws_def ws_codes_def)

function trim_start :: "string \<Rightarrow> string" where
  "trim_start s = (if ws_len s = 0 then s else trim_start (drop (ws_len s) s))"
  by pat_completeness auto
termination
  by (relation "measure length") (auto, metis diff_less length_greater_0_conv ws_len_Nil gr0I)

declare trim_start.simps [simp del]

definition ws_len_end :: "string \<Rightarrow> nat" where
  "ws_len_end s =
     (if has_ws (map of_char (drop (length s - 1) s)) then 1
      else if has_ws (map of_char (drop (length s - 2) s)) then 2
      else if has_ws (map of_char (drop (length s - 3) s)) then 3 else 0)"

lemma ws_len_end_Nil [simp]: "ws_len_end [] = 0"
  by (simp add: ws_len_end_def has_ws_def ws_codes_def)

function trim_end :: "string \<Rightarrow> string" where
  "trim_end s = (if ws_len_end s = 0 then s else trim_end (take (length s - ws_len_end s) s))"
  by pat_completeness auto
termination
  by (relation "measure length") (auto, metis diff_less length_greater_0_conv ws_len_end_Nil gr0I)

declare trim_end.simps [simp del]

definition trim :: "string \<Rightarrow> string" where
  "trim s = trim_end (trim_start s)"

definition is_blank :: "string \<Rightarrow> bool" where
  "is_blank s = (trim s = [])"

lemma trim_start_Nil [simp]: "trim_start [] = []"
  by (simp add: trim_start.simps [of "[]"])

lemma trim_end_Nil [simp]: "trim_end [] = []"
  by (simp add: trim_end.simps [of "[]"])

lemma trim_Nil [simp]: "trim [] = []"
  by (simp add: trim_def)

section \<open>Decimal numbers\<close>

definition dec_digit :: "char \<Rightarrow> nat option" where
  "dec_digit c = (let n = of_char c in if 48 \<le> n \<and> n \<le> (57 :: nat) then Some (n - 48) else None)"

fun digits_value :: "nat \<Rightarrow> string \<Rightarrow> nat option" where
  "digits_value acc [] = Some acc"
| "digits_value acc (c # cs) =
     (case dec_digit c of None \<Rightarrow> None | Some d \<Rightarrow> digits_value (acc * 10 + d) cs)"

text \<open>
  \<open>str::parse\<close> at an unsigned type with \<open>bound\<close> values: one leading plus sign is accepted
  when digits follow, the empty string and any other character are refused, and so is a value
  that does not fit.
\<close>

definition parse_unsigned :: "nat \<Rightarrow> string \<Rightarrow> nat option" where
  "parse_unsigned bound s =
     (let ds = (case s of c # d # r \<Rightarrow> if c = CHR ''+'' then d # r else s | _ \<Rightarrow> s)
      in if ds = [] then None
         else (case digits_value 0 ds of
                 None \<Rightarrow> None
               | Some n \<Rightarrow> if n < bound then Some n else None))"

definition parse_bool :: "string \<Rightarrow> bool option" where
  "parse_bool s =
     (if s = ''true'' then Some True else if s = ''false'' then Some False else None)"

definition digit_char :: "nat \<Rightarrow> char" where
  "digit_char d = char_of (48 + d)"

fun show_nat :: "nat \<Rightarrow> string" where
  "show_nat n = (if n < 10 then [digit_char n] else show_nat (n div 10) @ [digit_char (n mod 10)])"

declare show_nat.simps [simp del]

text \<open>\<open>{n:0w}\<close>: decimal digits padded with zeros on the left to width \<open>w\<close>.\<close>

definition show_padded :: "nat \<Rightarrow> nat \<Rightarrow> string" where
  "show_padded w n = (let s = show_nat n in replicate (w - length s) (CHR ''0'') @ s)"

lemma dec_digit_char [simp]: "d < 10 \<Longrightarrow> dec_digit (digit_char d) = Some d"
  by (simp add: dec_digit_def digit_char_def Let_def)

lemma digits_value_append:
  "digits_value acc (s @ t) = Option.bind (digits_value acc s) (\<lambda>n. digits_value n t)"
  by (induction s arbitrary: acc) (auto split: option.splits)

lemma digits_value_show_nat [simp]: "digits_value 0 (show_nat n) = Some n"
proof (induction n rule: show_nat.induct)
  case (1 n)
  show ?case
  proof (cases "n < 10")
    case True
    then show ?thesis by (simp add: show_nat.simps [of n])
  next
    case False
    then show ?thesis
      using 1 by (simp add: show_nat.simps [of n] digits_value_append)
  qed
qed

lemma show_nat_not_Nil [simp]: "show_nat n \<noteq> []"
  by (subst show_nat.simps) simp

lemma show_nat_inject [simp]: "show_nat m = show_nat n \<longleftrightarrow> m = n"
  by (metis digits_value_show_nat option.inject)

lemma show_nat_digits: "c \<in> set (show_nat n) \<Longrightarrow> \<exists>d < 10. c = digit_char d"
proof (induction n arbitrary: c rule: show_nat.induct)
  case (1 n)
  then show ?case
  proof (cases "n < 10")
    case True
    then show ?thesis using "1.prems" by (auto simp: show_nat.simps [of n])
  next
    case False
    have last: "\<exists>d < 10. digit_char (n mod 10) = digit_char d"
      by (rule exI [of _ "n mod 10"]) simp
    from False "1.prems" have "c \<in> set (show_nat (n div 10)) \<or> c = digit_char (n mod 10)"
      by (auto simp: show_nat.simps [of n])
    then show ?thesis using "1.IH" [OF False] last by blast
  qed
qed

lemma dec_digit_plus [simp]: "dec_digit (CHR ''+'') = None"
  by (simp add: dec_digit_def)

lemma digit_char_not_plus: "d < 10 \<Longrightarrow> digit_char d \<noteq> CHR ''+''"
  by (metis dec_digit_char dec_digit_plus option.distinct(1))

text \<open>Printing a number and parsing it back gives the number, when it fits.\<close>

lemma parse_show_nat: "n < bound \<Longrightarrow> parse_unsigned bound (show_nat n) = Some n"
proof -
  assume n: "n < bound"
  have "hd (show_nat n) \<noteq> CHR ''+''"
    using show_nat_digits [of "hd (show_nat n)" n] digit_char_not_plus
    by (metis list.set_sel(1) show_nat_not_Nil)
  then have "(case show_nat n of c # d # r \<Rightarrow> if c = CHR ''+'' then d # r else show_nat n
      | _ \<Rightarrow> show_nat n) = show_nat n"
    by (auto split: list.splits)
  with n show ?thesis by (simp add: parse_unsigned_def Let_def)
qed

lemma parse_unsigned_bound: "parse_unsigned bound s = Some n \<Longrightarrow> n < bound"
  by (auto simp: parse_unsigned_def Let_def split: if_splits option.splits)

section \<open>Hexadecimal digits\<close>

definition hex_digit :: "nat \<Rightarrow> char" where
  "hex_digit n = ''0123456789abcdef'' ! n"

lemma hex_digit_inj: "m < 16 \<Longrightarrow> n < 16 \<Longrightarrow> hex_digit m = hex_digit n \<Longrightarrow> m = n"
proof -
  assume "m < 16" and "n < 16" and eq: "hex_digit m = hex_digit n"
  have "distinct ''0123456789abcdef''" by simp
  with \<open>m < 16\<close> \<open>n < 16\<close> eq show "m = n"
    by (simp add: hex_digit_def nth_eq_iff_index_eq)
qed

section \<open>UTF-8\<close>

text \<open>
  \<open>String::from_utf8\<close> accepts exactly the well-formed byte sequences of table 3-7 of the
  Unicode standard: no overlong form, no surrogate, nothing above U+10FFFF.
\<close>

definition is_tail :: "nat \<Rightarrow> bool" where
  "is_tail b = (128 \<le> b \<and> b \<le> 191)"

definition second_ok :: "nat \<Rightarrow> nat \<Rightarrow> bool" where
  "second_ok a b =
     (if a = 224 then 160 \<le> b \<and> b \<le> 191
      else if a = 237 then 128 \<le> b \<and> b \<le> 159
      else if a = 240 then 144 \<le> b \<and> b \<le> 191
      else if a = 244 then 128 \<le> b \<and> b \<le> 143
      else is_tail b)"

fun utf8_len :: "nat list \<Rightarrow> nat" where
  "utf8_len [] = 0"
| "utf8_len (a # r) =
     (if a \<le> 127 then 1
      else if 194 \<le> a \<and> a \<le> 223 then
        (case r of b # _ \<Rightarrow> if is_tail b then 2 else 0 | _ \<Rightarrow> 0)
      else if 224 \<le> a \<and> a \<le> 239 then
        (case r of b # c # _ \<Rightarrow> if second_ok a b \<and> is_tail c then 3 else 0 | _ \<Rightarrow> 0)
      else if 240 \<le> a \<and> a \<le> 244 then
        (case r of b # c # d # _ \<Rightarrow>
           if second_ok a b \<and> is_tail c \<and> is_tail d then 4 else 0 | _ \<Rightarrow> 0)
      else 0)"

fun utf8_fuel :: "nat \<Rightarrow> nat list \<Rightarrow> bool" where
  "utf8_fuel 0 bs = (bs = [])"
| "utf8_fuel (Suc f) bs =
     (if bs = [] then True
      else if utf8_len bs = 0 then False else utf8_fuel f (drop (utf8_len bs) bs))"

text \<open>Every accepted character drops a byte at least, so the length is fuel enough.\<close>

definition utf8_valid :: "string \<Rightarrow> bool" where
  "utf8_valid s = utf8_fuel (length s) (map of_char s)"

lemma utf8_len_ascii: "a \<le> 127 \<Longrightarrow> utf8_len (a # bs) = 1"
  by simp

lemma utf8_ascii: "\<forall>b \<in> set bs. b \<le> 127 \<Longrightarrow> length bs \<le> f \<Longrightarrow> utf8_fuel f bs"
proof (induction f arbitrary: bs)
  case 0
  then show ?case by simp
next
  case (Suc f)
  then show ?case by (cases bs) (simp_all add: utf8_len_ascii)
qed

end
