(* ===== verification/Errors.thy ===== *)
theory Errors
  imports Text
begin

text \<open>
  The error taxonomy: \<open>crates/gvm-gateway-domain/src/error.rs\<close>, the problem details the REST
  adapter answers with (\<open>crates/gvm-gateway-rest/src/error.rs\<close>) and the problem a failed job
  stores (\<open>JobProblem\<close> of \<open>crates/gvm-gateway-domain/src/jobs.rs\<close>).
\<close>

section \<open>Domain errors\<close>

datatype (plugins only: code size) GatewayErrorCode =
    CodeBackendUnavailable
  | CodeNotImplemented
  | CodeNotFound
  | CodeBadRequest
  | CodeUnauthorized
  | CodeSessionExpired
  | CodeSessionInvalidated
  | CodeForbidden
  | CodeConflict
  | CodeTooManyRequests
  | CodeInternalServerError
  | CodeGatewayTimeout

fun as_str :: "GatewayErrorCode \<Rightarrow> string" where
  "as_str CodeBackendUnavailable = ''backend_unavailable''"
| "as_str CodeNotImplemented = ''not_implemented''"
| "as_str CodeNotFound = ''not_found''"
| "as_str CodeBadRequest = ''bad_request''"
| "as_str CodeUnauthorized = ''unauthorized''"
| "as_str CodeSessionExpired = ''session_expired''"
| "as_str CodeSessionInvalidated = ''session_invalidated''"
| "as_str CodeForbidden = ''forbidden''"
| "as_str CodeConflict = ''conflict''"
| "as_str CodeTooManyRequests = ''too_many_requests''"
| "as_str CodeInternalServerError = ''internal_server_error''"
| "as_str CodeGatewayTimeout = ''gateway_timeout''"

fun problem_slug :: "GatewayErrorCode \<Rightarrow> string" where
  "problem_slug CodeBackendUnavailable = ''bad-gateway''"
| "problem_slug CodeNotImplemented = ''not-implemented''"
| "problem_slug CodeNotFound = ''not-found''"
| "problem_slug CodeBadRequest = ''bad-request''"
| "problem_slug CodeUnauthorized = ''unauthorized''"
| "problem_slug CodeSessionExpired = ''session-expired''"
| "problem_slug CodeSessionInvalidated = ''session-invalidated''"
| "problem_slug CodeForbidden = ''forbidden''"
| "problem_slug CodeConflict = ''conflict''"
| "problem_slug CodeTooManyRequests = ''too-many-requests''"
| "problem_slug CodeInternalServerError = ''internal-server-error''"
| "problem_slug CodeGatewayTimeout = ''gateway-timeout''"

datatype (plugins only: code size) GatewayError =
    BackendUnavailable string
  | NotImplemented string
  | NotFound string
  | InvalidInput string
  | Unauthorized string
  | SessionExpired string
  | SessionInvalidated string
  | Forbidden string
  | Conflict string
  | TooManyRequests string
  | Internal string
  | GatewayTimeout string

type_synonym 'a result = "GatewayError + 'a"

fun error_code :: "GatewayError \<Rightarrow> GatewayErrorCode" where
  "error_code (BackendUnavailable _) = CodeBackendUnavailable"
| "error_code (NotImplemented _) = CodeNotImplemented"
| "error_code (NotFound _) = CodeNotFound"
| "error_code (InvalidInput _) = CodeBadRequest"
| "error_code (Unauthorized _) = CodeUnauthorized"
| "error_code (SessionExpired _) = CodeSessionExpired"
| "error_code (SessionInvalidated _) = CodeSessionInvalidated"
| "error_code (Forbidden _) = CodeForbidden"
| "error_code (Conflict _) = CodeConflict"
| "error_code (TooManyRequests _) = CodeTooManyRequests"
| "error_code (Internal _) = CodeInternalServerError"
| "error_code (GatewayTimeout _) = CodeGatewayTimeout"

fun error_detail :: "GatewayError \<Rightarrow> string" where
  "error_detail (BackendUnavailable d) = d"
| "error_detail (NotImplemented d) = d"
| "error_detail (NotFound d) = d"
| "error_detail (InvalidInput d) = d"
| "error_detail (Unauthorized d) = d"
| "error_detail (SessionExpired d) = d"
| "error_detail (SessionInvalidated d) = d"
| "error_detail (Forbidden d) = d"
| "error_detail (Conflict d) = d"
| "error_detail (TooManyRequests d) = d"
| "error_detail (Internal d) = d"
| "error_detail (GatewayTimeout d) = d"

definition error_problem_slug :: "GatewayError \<Rightarrow> string" where
  "error_problem_slug e = problem_slug (error_code e)"

lemma as_str_inj: "as_str c = as_str c' \<Longrightarrow> c = c'"
  by (cases c; cases c') simp_all

lemma problem_slug_inj: "problem_slug c = problem_slug c' \<Longrightarrow> c = c'"
  by (cases c; cases c') simp_all

text \<open>An error is its code and its detail.\<close>

lemma gateway_error_eqI: "error_code e = error_code e' \<Longrightarrow> error_detail e = error_detail e' \<Longrightarrow> e = e'"
  by (cases e; cases e') simp_all

section \<open>Problem details of the REST adapter\<close>

definition PROBLEM_TYPE_BASE_URL :: string where
  "PROBLEM_TYPE_BASE_URL = ''https://gvm-gateway.greenbone.net/errors''"

record ProblemDetails =
  pd_type :: string
  pd_code :: string
  pd_title :: string
  pd_status :: u16
  pd_detail :: "string option"
  pd_instance :: "string option"

record RestError =
  re_status :: u16
  re_problem :: ProblemDetails

fun status_for_gateway_error :: "GatewayError \<Rightarrow> u16" where
  "status_for_gateway_error (BackendUnavailable _) = 502"
| "status_for_gateway_error (NotImplemented _) = 501"
| "status_for_gateway_error (NotFound _) = 404"
| "status_for_gateway_error (InvalidInput _) = 400"
| "status_for_gateway_error (Unauthorized _) = 401"
| "status_for_gateway_error (SessionExpired _) = 401"
| "status_for_gateway_error (SessionInvalidated _) = 401"
| "status_for_gateway_error (Forbidden _) = 403"
| "status_for_gateway_error (Conflict _) = 409"
| "status_for_gateway_error (TooManyRequests _) = 429"
| "status_for_gateway_error (Internal _) = 500"
| "status_for_gateway_error (GatewayTimeout _) = 504"

fun title_for_code :: "GatewayErrorCode \<Rightarrow> string" where
  "title_for_code CodeBackendUnavailable = ''Bad Gateway''"
| "title_for_code CodeNotImplemented = ''Not Implemented''"
| "title_for_code CodeNotFound = ''Not Found''"
| "title_for_code CodeBadRequest = ''Bad Request''"
| "title_for_code CodeUnauthorized = ''Unauthorized''"
| "title_for_code CodeSessionExpired = ''Session Expired''"
| "title_for_code CodeSessionInvalidated = ''Session Invalidated''"
| "title_for_code CodeForbidden = ''Forbidden''"
| "title_for_code CodeConflict = ''Conflict''"
| "title_for_code CodeTooManyRequests = ''Too Many Requests''"
| "title_for_code CodeInternalServerError = ''Internal Server Error''"
| "title_for_code CodeGatewayTimeout = ''Gateway Timeout''"

text \<open>The two kinds whose detail goes to the log only.\<close>

fun public_detail_for_gateway_error :: "GatewayError \<Rightarrow> string" where
  "public_detail_for_gateway_error (BackendUnavailable _) = ''The backend service is unavailable.''"
| "public_detail_for_gateway_error (Internal _) = ''An internal server error occurred.''"
| "public_detail_for_gateway_error e = error_detail e"

definition from_custom_parts ::
    "string \<Rightarrow> string \<Rightarrow> string \<Rightarrow> u16 \<Rightarrow> string option \<Rightarrow> string option \<Rightarrow> RestError" where
  "from_custom_parts slug code title status detail inst =
     \<lparr>re_status = status,
      re_problem =
        \<lparr>pd_type = PROBLEM_TYPE_BASE_URL @ ''/'' @ slug, pd_code = code, pd_title = title,
         pd_status = status, pd_detail = detail, pd_instance = inst\<rparr>\<rparr>"

definition from_parts ::
    "GatewayErrorCode \<Rightarrow> string \<Rightarrow> u16 \<Rightarrow> string option \<Rightarrow> string option \<Rightarrow> RestError" where
  "from_parts code title status detail inst =
     from_custom_parts (problem_slug code) (as_str code) title status detail inst"

definition from_gateway_error :: "GatewayError \<Rightarrow> string \<Rightarrow> RestError" where
  "from_gateway_error e inst =
     (let status = status_for_gateway_error e; code = error_code e
      in from_parts code (title_for_code code) status
           (Some (public_detail_for_gateway_error e)) (Some inst))"

definition rest_not_found :: "string \<Rightarrow> RestError" where
  "rest_not_found inst =
     from_parts CodeNotFound (title_for_code CodeNotFound) 404
       (Some ''The requested route does not exist.'') (Some inst)"

definition rest_method_not_allowed :: "string \<Rightarrow> RestError" where
  "rest_method_not_allowed inst =
     from_custom_parts ''method-not-allowed'' ''method_not_allowed'' ''Method Not Allowed'' 405
       (Some ''The requested HTTP method is not allowed for this route.'') (Some inst)"

definition rest_forbidden :: "string \<Rightarrow> string \<Rightarrow> RestError" where
  "rest_forbidden detail inst =
     from_parts CodeForbidden (title_for_code CodeForbidden) 403 (Some detail) (Some inst)"

definition rest_too_many_requests :: "string \<Rightarrow> string \<Rightarrow> RestError" where
  "rest_too_many_requests detail inst =
     from_parts CodeTooManyRequests (title_for_code CodeTooManyRequests) 429
       (Some detail) (Some inst)"

definition rest_service_unavailable :: "string \<Rightarrow> string \<Rightarrow> RestError" where
  "rest_service_unavailable detail inst =
     from_custom_parts ''service-unavailable'' ''service_unavailable'' ''Service Unavailable'' 503
       (Some detail) (Some inst)"

lemmas rest_error_defs =
  from_gateway_error_def from_parts_def from_custom_parts_def rest_not_found_def
  rest_method_not_allowed_def rest_forbidden_def rest_too_many_requests_def
  rest_service_unavailable_def

section \<open>Problems stored on failed jobs\<close>

fun status_for_code :: "GatewayErrorCode \<Rightarrow> u16" where
  "status_for_code CodeBackendUnavailable = 502"
| "status_for_code CodeNotImplemented = 501"
| "status_for_code CodeNotFound = 404"
| "status_for_code CodeBadRequest = 400"
| "status_for_code CodeUnauthorized = 401"
| "status_for_code CodeSessionExpired = 401"
| "status_for_code CodeSessionInvalidated = 401"
| "status_for_code CodeForbidden = 403"
| "status_for_code CodeConflict = 409"
| "status_for_code CodeTooManyRequests = 429"
| "status_for_code CodeInternalServerError = 500"
| "status_for_code CodeGatewayTimeout = 504"

fun job_title_for_code :: "GatewayErrorCode \<Rightarrow> string" where
  "job_title_for_code CodeBackendUnavailable = ''Bad Gateway''"
| "job_title_for_code CodeNotImplemented = ''Not Implemented''"
| "job_title_for_code CodeNotFound = ''Not Found''"
| "job_title_for_code CodeBadRequest = ''Bad Request''"
| "job_title_for_code CodeUnauthorized = ''Unauthorized''"
| "job_title_for_code CodeSessionExpired = ''Session Expired''"
| "job_title_for_code CodeSessionInvalidated = ''Session Invalidated''"
| "job_title_for_code CodeForbidden = ''Forbidden''"
| "job_title_for_code CodeConflict = ''Conflict''"
| "job_title_for_code CodeTooManyRequests = ''Too Many Requests''"
| "job_title_for_code CodeInternalServerError = ''Internal Server Error''"
| "job_title_for_code CodeGatewayTimeout = ''Gateway Timeout''"

record JobProblem =
  jp_type :: string
  jp_code :: string
  jp_title :: string
  jp_status :: u16
  jp_detail :: "string option"

definition job_problem_from_gateway_error :: "GatewayError \<Rightarrow> JobProblem" where
  "job_problem_from_gateway_error e =
     (let code = error_code e in
      \<lparr>jp_type = ''https://gvm-gateway.greenbone.net/errors/'' @ problem_slug code,
       jp_code = as_str code,
       jp_title = job_title_for_code code,
       jp_status = status_for_code code,
       jp_detail = Some (error_detail e)\<rparr>)"

lemma status_for_code_error [simp]: "status_for_code (error_code e) = status_for_gateway_error e"
  by (cases e) simp_all

lemma job_title_for_code_eq [simp]: "job_title_for_code c = title_for_code c"
  by (cases c) simp_all

definition is_private :: "GatewayError \<Rightarrow> bool" where
  "is_private e = (case e of BackendUnavailable _ \<Rightarrow> True | Internal _ \<Rightarrow> True | _ \<Rightarrow> False)"

lemma is_private_code: "is_private e = is_private e' \<or> error_code e \<noteq> error_code e'"
  by (cases e; cases e') (simp_all add: is_private_def)

lemma public_detail_not_private:
  "\<not> is_private e \<Longrightarrow> public_detail_for_gateway_error e = error_detail e"
  by (cases e) (simp_all add: is_private_def)

section \<open>Properties\<close>

text \<open>
  C20. The REST answer to an error hides what is private: two errors of the same code that are
  backend or internal failures produce the same answer whatever their details say, and every
  other error is answered with exactly its own detail, so that the answer determines the
  error.
\<close>

theorem rest_error_confidential:
  "(is_private e \<and> error_code e = error_code e' \<longrightarrow>
      from_gateway_error e inst = from_gateway_error e' inst)
   \<and> (\<not> is_private e \<and> from_gateway_error e inst = from_gateway_error e' inst \<longrightarrow> e = e')"
proof (intro conjI impI)
  assume a: "is_private e \<and> error_code e = error_code e'"
  then show "from_gateway_error e inst = from_gateway_error e' inst"
    by (cases e; cases e') (simp_all add: rest_error_defs is_private_def)
next
  assume a: "\<not> is_private e \<and> from_gateway_error e inst = from_gateway_error e' inst"
  then have code: "as_str (error_code e) = as_str (error_code e')"
    and detail: "public_detail_for_gateway_error e = public_detail_for_gateway_error e'"
    by (simp_all add: rest_error_defs Let_def)
  from code have c: "error_code e = error_code e'" by (rule as_str_inj)
  with a is_private_code [of e e'] have "\<not> is_private e'" by auto
  with a detail c show "e = e'" by (auto intro: gateway_error_eqI simp: public_detail_not_private)
qed

theorem rest_error_confidential_witness:
  "from_gateway_error (Internal ''lock poisoned'') ''/x''
     = from_gateway_error (Internal ''disk /var/lib'') ''/x''
   \<and> from_gateway_error (NotFound ''a'') ''/x'' \<noteq> from_gateway_error (NotFound ''b'') ''/x''"
  using rest_error_confidential [of "Internal ''lock poisoned''" "Internal ''disk /var/lib''" "''/x''"]
    rest_error_confidential [of "NotFound ''a''" "NotFound ''b''" "''/x''"]
  by (simp add: is_private_def)

text \<open>
  C21. The problem a failed job stores and the problem the REST adapter would answer for the
  same error agree on type, code, title and status for every error. They differ in the
  detail: the job keeps, and \<open>GET /jobs/{id}\<close> returns, the raw detail of every error, while
  the REST answer replaces it by a fixed text for backend and internal failures.
\<close>

theorem job_problem_vs_rest_problem:
  "jp_type (job_problem_from_gateway_error e) = pd_type (re_problem (from_gateway_error e inst))
   \<and> jp_code (job_problem_from_gateway_error e) = pd_code (re_problem (from_gateway_error e inst))
   \<and> jp_title (job_problem_from_gateway_error e) = pd_title (re_problem (from_gateway_error e inst))
   \<and> jp_status (job_problem_from_gateway_error e) = pd_status (re_problem (from_gateway_error e inst))
   \<and> jp_detail (job_problem_from_gateway_error e) = Some (error_detail e)
   \<and> pd_detail (re_problem (from_gateway_error e inst))
        = Some (if error_code e = CodeBackendUnavailable then ''The backend service is unavailable.''
                else if error_code e = CodeInternalServerError then ''An internal server error occurred.''
                else error_detail e)"
  by (cases e) (simp_all add: rest_error_defs job_problem_from_gateway_error_def
      PROBLEM_TYPE_BASE_URL_def)

end
