(* ===== verification/Peer_Addr.thy ===== *)
theory Peer_Addr
  imports Text
begin

unbundle bit_operations_syntax

text \<open>
  Client addresses and trusted proxies, \<open>crates/gvm-gateway-rest/src/peer_addr.rs\<close>: IP addresses
  with the parser and printer of the standard library, CIDR ranges, their masks and the
  membership test, and the parser of the configured ranges.
\<close>

section \<open>IP addresses\<close>

datatype Ipv4Addr = Ipv4Addr u8 u8 u8 u8

datatype Ipv6Addr = Ipv6Addr u16 u16 u16 u16 u16 u16 u16 u16

datatype IpAddr = V4 Ipv4Addr | V6 Ipv6Addr

fun octets4 :: "Ipv4Addr \<Rightarrow> u8 list" where
  "octets4 (Ipv4Addr a b c d) = [a, b, c, d]"

fun segments :: "Ipv6Addr \<Rightarrow> u16 list" where
  "segments (Ipv6Addr a b c d e f g h) = [a, b, c, d, e, f, g, h]"

definition be_bytes16 :: "u16 \<Rightarrow> u8 list" where
  "be_bytes16 w = [ucast (drop_bit 8 w), ucast w]"

definition octets6 :: "Ipv6Addr \<Rightarrow> u8 list" where
  "octets6 ip = concat (map be_bytes16 (segments ip))"

definition from_be_bytes :: "u8 list \<Rightarrow> 'a::len word" where
  "from_be_bytes bytes = foldl (\<lambda>acc b. push_bit 8 acc OR ucast b) 0 bytes"

definition ip_to_u32 :: "Ipv4Addr \<Rightarrow> u32" where
  "ip_to_u32 ip = from_be_bytes (octets4 ip)"

definition ip_to_u128 :: "Ipv6Addr \<Rightarrow> u128" where
  "ip_to_u128 ip = from_be_bytes (octets6 ip)"

section \<open>Parsing addresses\<close>

text \<open>
  The parser of the standard library, a reader that returns the value and the rest of the
  input: an octet has at most three decimal digits and no leading zero, an IPv6 group at most
  four hexadecimal digits, one \<open>::\<close> stands for at least one zero group, and the last two
  groups may be written as an IPv4 address.
\<close>

definition hex_value :: "char \<Rightarrow> nat option" where
  "hex_value c =
     (let n = of_char c in
      if 48 \<le> n \<and> n \<le> (57 :: nat) then Some (n - 48)
      else if 97 \<le> n \<and> n \<le> 102 then Some (n - 87)
      else if 65 \<le> n \<and> n \<le> 70 then Some (n - 55)
      else None)"

fun span_digits :: "(char \<Rightarrow> nat option) \<Rightarrow> string \<Rightarrow> nat list \<times> string" where
  "span_digits digit [] = ([], [])"
| "span_digits digit (c # cs) =
     (case digit c of
        None \<Rightarrow> ([], c # cs)
      | Some d \<Rightarrow> (let (ds, r) = span_digits digit cs in (d # ds, r)))"

definition read_number ::
    "(char \<Rightarrow> nat option) \<Rightarrow> nat \<Rightarrow> nat \<Rightarrow> bool \<Rightarrow> nat \<Rightarrow> string \<Rightarrow> (nat \<times> string) option" where
  "read_number digit radix max_digits allow_zero_prefix bound s =
     (let (ds, r) = span_digits digit s; n = foldl (\<lambda>acc d. acc * radix + d) 0 ds
      in if ds = [] \<or> max_digits < length ds \<or> (\<not> allow_zero_prefix \<and> hd ds = 0 \<and> 1 < length ds)
            \<or> bound \<le> n
         then None else Some (n, r))"

definition read_octet :: "string \<Rightarrow> (nat \<times> string) option" where
  "read_octet = read_number dec_digit 10 3 False 256"

definition read_given :: "char \<Rightarrow> string \<Rightarrow> string option" where
  "read_given d s = (case s of [] \<Rightarrow> None | c # cs \<Rightarrow> if c = d then Some cs else None)"

definition read_ipv4_addr :: "string \<Rightarrow> (Ipv4Addr \<times> string) option" where
  "read_ipv4_addr s =
     Option.bind (read_octet s) (\<lambda>(a, s).
     Option.bind (read_given (CHR ''.'') s) (\<lambda>s. Option.bind (read_octet s) (\<lambda>(b, s).
     Option.bind (read_given (CHR ''.'') s) (\<lambda>s. Option.bind (read_octet s) (\<lambda>(c, s).
     Option.bind (read_given (CHR ''.'') s) (\<lambda>s. Option.bind (read_octet s) (\<lambda>(d, s).
     Some (Ipv4Addr (of_nat a) (of_nat b) (of_nat c) (of_nat d), s))))))))"

definition read_separated :: "nat \<Rightarrow> (string \<Rightarrow> ('a \<times> string) option) \<Rightarrow> string \<Rightarrow> ('a \<times> string) option" where
  "read_separated index inner s =
     (if index = 0 then inner s else Option.bind (read_given (CHR '':'') s) inner)"

text \<open>\<open>read_groups left index\<close>: \<open>left\<close> slots are unused, \<open>index\<close> are filled.\<close>

fun read_groups :: "nat \<Rightarrow> nat \<Rightarrow> string \<Rightarrow> u16 list \<times> bool \<times> string" where
  "read_groups 0 index s = ([], False, s)"
| "read_groups (Suc left) index s =
     (case (if left = 0 then None else read_separated index read_ipv4_addr s) of
        Some (Ipv4Addr a b c d, r) \<Rightarrow> ([from_be_bytes [a, b], from_be_bytes [c, d]], True, r)
      | None \<Rightarrow>
          (case read_separated index (read_number hex_value 16 4 True 65536) s of
             None \<Rightarrow> ([], False, s)
           | Some (g, r) \<Rightarrow>
               (let (gs, v4, r) = read_groups left (Suc index) r in (of_nat g # gs, v4, r))))"

definition ipv6_of :: "u16 list \<Rightarrow> Ipv6Addr" where
  "ipv6_of g = Ipv6Addr (g ! 0) (g ! 1) (g ! 2) (g ! 3) (g ! 4) (g ! 5) (g ! 6) (g ! 7)"

definition read_ipv6_addr :: "string \<Rightarrow> (Ipv6Addr \<times> string) option" where
  "read_ipv6_addr s =
     (let (head, v4, r) = read_groups 8 0 s
      in if length head = 8 then Some (ipv6_of head, r)
         else if v4 then None
         else Option.bind (read_given (CHR '':'') r) (\<lambda>r.
              Option.bind (read_given (CHR '':'') r) (\<lambda>r.
                let (tail, _, r) = read_groups (8 - (length head + 1)) 0 r
                in Some (ipv6_of (head @ replicate (8 - length head - length tail) 0 @ tail), r))))"

definition parse_ip :: "string \<Rightarrow> IpAddr option" where
  "parse_ip s =
     (case read_ipv4_addr s of
        Some (ip, r) \<Rightarrow> if r = [] then Some (V4 ip) else None
      | None \<Rightarrow>
          (case read_ipv6_addr s of
             Some (ip, r) \<Rightarrow> if r = [] then Some (V6 ip) else None
           | None \<Rightarrow> None))"

section \<open>Printing addresses\<close>

fun join_with :: "string \<Rightarrow> string list \<Rightarrow> string" where
  "join_with sep [] = []"
| "join_with sep [s] = s"
| "join_with sep (s # t # ts) = s @ sep @ join_with sep (t # ts)"

fun show_hex :: "nat \<Rightarrow> string" where
  "show_hex n = (if n < 16 then [hex_digit n] else show_hex (n div 16) @ [hex_digit (n mod 16)])"

declare show_hex.simps [simp del]

definition show_ipv4 :: "Ipv4Addr \<Rightarrow> string" where
  "show_ipv4 ip = join_with ''.'' (map (\<lambda>b. show_nat (unat b)) (octets4 ip))"

text \<open>The first longest run of zero groups, as its start and length.\<close>

fun longest_zeroes :: "nat \<Rightarrow> nat \<times> nat \<Rightarrow> nat \<times> nat \<Rightarrow> u16 list \<Rightarrow> nat \<times> nat" where
  "longest_zeroes i longest current [] = longest"
| "longest_zeroes i longest (start, len) (g # gs) =
     (if g = 0
      then (let current = (if len = 0 then i else start, len + 1)
            in longest_zeroes (i + 1) (if snd longest < snd current then current else longest) current gs)
      else longest_zeroes (i + 1) longest (0, 0) gs)"

definition show_groups :: "u16 list \<Rightarrow> string" where
  "show_groups gs = join_with '':'' (map (\<lambda>g. show_hex (unat g)) gs)"

definition show_ipv6 :: "Ipv6Addr \<Rightarrow> string" where
  "show_ipv6 ip =
     (let gs = segments ip in
      if take 6 gs = [0, 0, 0, 0, 0, 0xFFFF]
      then ''::ffff:'' @ (case drop 12 (octets6 ip) of
             [a, b, c, d] \<Rightarrow> show_ipv4 (Ipv4Addr a b c d) | _ \<Rightarrow> [])
      else (let (start, len) = longest_zeroes 0 (0, 0) (0, 0) gs
            in if 1 < len
               then show_groups (take start gs) @ ''::'' @ show_groups (drop (start + len) gs)
               else show_groups gs))"

fun show_ip :: "IpAddr \<Rightarrow> string" where
  "show_ip (V4 ip) = show_ipv4 ip"
| "show_ip (V6 ip) = show_ipv6 ip"

section \<open>Trusted proxy ranges\<close>

record TrustedProxyCidr =
  cidr_network :: IpAddr
  cidr_prefix_len :: u8

text \<open>
  \<open>None\<close> is the underflow of the subtraction at \<open>u8\<close>, which \<open>from_str\<close> rules out. The shift
  count is then below the width.
\<close>

definition ipv4_mask :: "u8 \<Rightarrow> u32 option" where
  "ipv4_mask prefix_len =
     (if prefix_len = 0 then Some 0
      else if prefix_len > 32 then None
      else Some (push_bit (unat (32 - prefix_len)) (- 1)))"

definition ipv6_mask :: "u8 \<Rightarrow> u128 option" where
  "ipv6_mask prefix_len =
     (if prefix_len = 0 then Some 0
      else if prefix_len > 128 then None
      else Some (push_bit (unat (128 - prefix_len)) (- 1)))"

definition contains :: "TrustedProxyCidr \<Rightarrow> IpAddr \<Rightarrow> bool option" where
  "contains cidr ip =
     (case (cidr_network cidr, ip) of
        (V4 net, V4 ip) \<Rightarrow>
          map_option (\<lambda>mask. ip_to_u32 ip AND mask = ip_to_u32 net AND mask) (ipv4_mask (cidr_prefix_len cidr))
      | (V6 net, V6 ip) \<Rightarrow>
          map_option (\<lambda>mask. ip_to_u128 ip AND mask = ip_to_u128 net AND mask) (ipv6_mask (cidr_prefix_len cidr))
      | _ \<Rightarrow> Some False)"

definition cidr_from_str :: "string \<Rightarrow> string + TrustedProxyCidr" where
  "cidr_from_str s =
     (case split_once (CHR ''/'') (trim s) of
        None \<Rightarrow> Inl ''expected CIDR notation like 127.0.0.1/32''
      | Some (net, len) \<Rightarrow>
          (case parse_ip net of
             None \<Rightarrow> Inl (''invalid CIDR network address '' @ [CHR 0x27] @ net @ [CHR 0x27])
           | Some ip \<Rightarrow>
               (case parse_unsigned 256 len of
                  None \<Rightarrow> Inl (''invalid CIDR prefix length '' @ [CHR 0x27] @ len @ [CHR 0x27])
                | Some n \<Rightarrow>
                    (let max_prefix = (case ip of V4 _ \<Rightarrow> 32 | V6 _ \<Rightarrow> 128)
                     in if n > max_prefix
                        then Inl (''CIDR prefix length '' @ show_nat n @ '' exceeds maximum '' @ show_nat max_prefix)
                        else Inr \<lparr>cidr_network = ip, cidr_prefix_len = of_nat n\<rparr>))))"

section \<open>Masks and bit prefixes\<close>

text \<open>The bits of an address, most significant first.\<close>

definition byte_bits :: "u8 \<Rightarrow> bool list" where
  "byte_bits b = map (bit b) [7, 6, 5, 4, 3, 2, 1, 0]"

definition bytes_bits :: "u8 list \<Rightarrow> bool list" where
  "bytes_bits bs = concat (map byte_bits bs)"

definition ip_bits :: "IpAddr \<Rightarrow> bool list" where
  "ip_bits ip = (case ip of V4 a \<Rightarrow> bytes_bits (octets4 a) | V6 a \<Rightarrow> bytes_bits (octets6 a))"

definition same_family :: "IpAddr \<Rightarrow> IpAddr \<Rightarrow> bool" where
  "same_family a b = (case (a, b) of (V4 _, V4 _) \<Rightarrow> True | (V6 _, V6 _) \<Rightarrow> True | _ \<Rightarrow> False)"

lemma length_bytes_bits [simp]: "length (bytes_bits bs) = 8 * length bs"
  by (induction bs) (simp_all add: bytes_bits_def byte_bits_def)

lemma byte_bits_nth: "k < 8 \<Longrightarrow> byte_bits b ! k = bit b (7 - k)"
proof -
  assume "k < 8"
  then consider "k = 0" | "k = 1" | "k = 2" | "k = 3" | "k = 4" | "k = 5" | "k = 6" | "k = 7"
    by linarith
  then show ?thesis by cases (simp_all add: byte_bits_def)
qed

lemma from_be_bytes_snoc:
  "(from_be_bytes (bs @ [b]) :: 'a::len word) = push_bit 8 (from_be_bytes bs) OR ucast b"
  by (simp add: from_be_bytes_def)

lemma bytes_bits_snoc: "bytes_bits (bs @ [b]) = bytes_bits bs @ byte_bits b"
  by (simp add: bytes_bits_def)

text \<open>Bit \<open>k\<close> of the byte sequence is bit \<open>n - 1 - k\<close> of the integer it encodes.\<close>

lemma bit_from_be_bytes:
  "8 * length bs \<le> LENGTH('a) \<Longrightarrow> k < 8 * length bs \<Longrightarrow>
     bytes_bits bs ! k = bit (from_be_bytes bs :: 'a::len word) (8 * length bs - 1 - k)"
proof (induction bs rule: rev_induct)
  case Nil
  then show ?case by simp
next
  case (snoc b bs)
  let ?i = "8 * length (bs @ [b]) - 1 - k"
  have i: "?i < LENGTH('a)" using snoc.prems by simp
  show ?case
  proof (cases "k < 8 * length bs")
    case True
    then have ge: "8 \<le> ?i" and sub: "?i - 8 = 8 * length bs - 1 - k" by simp_all
    have "\<not> bit b ?i" using ge bit_imp_le_length [of b ?i] by auto
    then have "bit (from_be_bytes (bs @ [b]) :: 'a word) ?i = bit (from_be_bytes bs :: 'a word) (8 * length bs - 1 - k)"
      using i ge sub by (simp add: from_be_bytes_snoc bit_or_iff bit_push_bit_iff bit_ucast_iff)
    then show ?thesis using True snoc by (simp add: bytes_bits_snoc nth_append)
  next
    case False
    then have lt: "?i < 8" and rel: "?i = 7 - (k - 8 * length bs)" using snoc.prems by auto
    have "bit (from_be_bytes (bs @ [b]) :: 'a word) ?i = bit b ?i"
      using i lt by (simp add: from_be_bytes_snoc bit_or_iff bit_push_bit_iff bit_ucast_iff)
    then show ?thesis using False snoc.prems rel
      by (simp add: bytes_bits_snoc nth_append byte_bits_nth)
  qed
qed

lemma mask_eq_iff:
  fixes a b :: "'a::len word"
  shows "(a AND push_bit n (- 1) = b AND push_bit n (- 1)) \<longleftrightarrow> (\<forall>i < LENGTH('a). n \<le> i \<longrightarrow> bit a i = bit b i)"
  by (auto simp: bit_eq_iff bit_and_iff bit_not_iff bit_mask_iff dest: bit_imp_le_length)

lemma mask_zero: "(push_bit LENGTH('a) (- 1) :: 'a::len word) = 0"
  by (rule bit_eqI) (simp add: bit_not_iff bit_mask_iff)

lemma same_prefix_mask:
  assumes "8 * length bs = LENGTH('a)" and "length cs = length bs" and "p \<le> LENGTH('a)"
  shows "((from_be_bytes bs :: 'a::len word) AND push_bit (LENGTH('a) - p) (- 1)
      = from_be_bytes cs AND push_bit (LENGTH('a) - p) (- 1))
    \<longleftrightarrow> take p (bytes_bits bs) = take p (bytes_bits cs)"
proof -
  let ?N = "LENGTH('a)" and ?b = "from_be_bytes bs :: 'a word" and ?c = "from_be_bytes cs :: 'a word"
  have "take p (bytes_bits bs) = take p (bytes_bits cs)
      \<longleftrightarrow> (\<forall>k < p. bytes_bits bs ! k = bytes_bits cs ! k)"
    using assms by (auto simp: list_eq_iff_nth_eq)
  also have "\<dots> \<longleftrightarrow> (\<forall>k < p. bit ?b (?N - 1 - k) = bit ?c (?N - 1 - k))"
    using bit_from_be_bytes [of bs, where 'a = 'a] bit_from_be_bytes [of cs, where 'a = 'a] assms by simp
  also have "\<dots> \<longleftrightarrow> (\<forall>i < ?N. ?N - p \<le> i \<longrightarrow> bit ?b i = bit ?c i)"
  proof (rule iffI; intro allI impI)
    fix i assume "\<forall>k < p. bit ?b (?N - 1 - k) = bit ?c (?N - 1 - k)" and "i < ?N" and "?N - p \<le> i"
    moreover have "?N - 1 - (?N - 1 - i) = i" "?N - 1 - i < p" using \<open>i < ?N\<close> \<open>?N - p \<le> i\<close> assms(3) by auto
    ultimately show "bit ?b i = bit ?c i" by metis
  next
    fix k assume h: "\<forall>i < ?N. ?N - p \<le> i \<longrightarrow> bit ?b i = bit ?c i" and "k < p"
    then show "bit ?b (?N - 1 - k) = bit ?c (?N - 1 - k)" using assms(3) by auto
  qed
  finally show ?thesis unfolding mask_eq_iff by (rule sym)
qed

lemma length_octets [simp]: "length (octets4 a) = 4" "length (octets6 b) = 16"
  by (cases a; simp) (cases b; simp add: octets6_def be_bytes16_def)

lemma ipv4_mask_eq: "p \<le> 32 \<Longrightarrow> ipv4_mask p = Some (push_bit (32 - unat p) (- 1))"
  using mask_zero [where 'a = 32] by (cases "p = 0") (auto simp: ipv4_mask_def word_le_nat_alt word_less_nat_alt unat_sub)

lemma ipv6_mask_eq: "p \<le> 128 \<Longrightarrow> ipv6_mask p = Some (push_bit (128 - unat p) (- 1))"
  using mask_zero [where 'a = 128] by (cases "p = 0") (auto simp: ipv6_mask_def word_le_nat_alt word_less_nat_alt unat_sub)

lemma cidr_from_str_prefix:
  assumes "cidr_from_str s = Inr c"
  shows "cidr_prefix_len c \<le> (case cidr_network c of V4 _ \<Rightarrow> 32 | V6 _ \<Rightarrow> 128)"
proof -
  obtain net len ip n where split: "split_once (CHR ''/'') (trim s) = Some (net, len)"
    and ip: "parse_ip net = Some ip" and n: "parse_unsigned 256 len = Some n"
    and le: "n \<le> (case ip of V4 _ \<Rightarrow> 32 | V6 _ \<Rightarrow> 128)"
    and c: "c = \<lparr>cidr_network = ip, cidr_prefix_len = of_nat n\<rparr>"
    using assms by (auto simp: cidr_from_str_def Let_def split: option.splits if_splits prod.splits)
  have "unat (of_nat n :: u8) = n" using parse_unsigned_bound [OF n] by (simp add: unat_of_nat_small)
  then show ?thesis using le c by (cases ip) (simp_all add: word_le_nat_alt)
qed

text \<open>The octets of an IPv4 address printed and read back.\<close>

lemma of_char_digit: "d < 10 \<Longrightarrow> (of_char (digit_char d) :: nat) = 48 + d"
  by (simp add: digit_char_def)

lemma show_nat_three:
  assumes "n < 256"
  shows "\<exists>ds. show_nat n = map digit_char ds \<and> (\<forall>d \<in> set ds. d < 10) \<and> ds \<noteq> [] \<and> length ds \<le> 3
    \<and> (hd ds = 0 \<longrightarrow> length ds = 1) \<and> foldl (\<lambda>acc d. acc * 10 + d) 0 ds = n"
proof -
  consider "n < 10" | "10 \<le> n" "n < 100" | "100 \<le> n" by linarith
  then show ?thesis
  proof cases
    case 1
    then show ?thesis by (intro exI [of _ "[n]"]) (simp add: show_nat.simps [of n])
  next
    case 2
    then have "show_nat n = map digit_char [n div 10, n mod 10]"
      by (simp add: show_nat.simps [of n] show_nat.simps [of "n div 10"] div_less_iff_less_mult)
    then show ?thesis using 2
      by (intro exI [of _ "[n div 10, n mod 10]"]) (simp add: div_less_iff_less_mult div_eq_0_iff)
  next
    case 3
    have a: "10 \<le> n div 10" "n div 10 < 100" using 3 assms by (simp_all add: less_eq_div_iff_mult_less_eq div_less_iff_less_mult)
    have b: "n div 10 div 10 < 10" "n div 10 div 10 \<noteq> 0" using a by (simp_all add: div_less_iff_less_mult div_eq_0_iff)
    have "show_nat n = map digit_char [n div 10 div 10, n div 10 mod 10, n mod 10]"
      using 3 a b by (simp add: show_nat.simps [of n] show_nat.simps [of "n div 10"] show_nat.simps [of "n div 10 div 10"])
    moreover have "(n div 10 div 10 * 10 + n div 10 mod 10) * 10 + n mod 10 = n" by simp
    ultimately show ?thesis using b
      by (intro exI [of _ "[n div 10 div 10, n div 10 mod 10, n mod 10]"]) simp
  qed
qed

lemma dec_digit_slash: "dec_digit (CHR ''/'') = None"
  by (simp add: dec_digit_def)

lemma span_digits_map:
  "\<forall>d \<in> set ds. d < 10 \<Longrightarrow> r = [] \<or> dec_digit (hd r) = None \<Longrightarrow>
     span_digits dec_digit (map digit_char ds @ r) = (ds, r)"
  by (induction ds) (cases r; auto)+

lemma read_octet_show:
  "r = [] \<or> dec_digit (hd r) = None \<Longrightarrow> read_octet (show_nat (unat b) @ r) = Some (unat (b :: u8), r)"
proof -
  assume r: "r = [] \<or> dec_digit (hd r) = None"
  have n: "unat b < 256" using unat_below [of b] by simp
  obtain ds where ds: "show_nat (unat b) = map digit_char ds" "\<forall>d \<in> set ds. d < 10" "ds \<noteq> []" "length ds \<le> 3"
      "hd ds = 0 \<longrightarrow> length ds = 1" "foldl (\<lambda>acc d. acc * 10 + d) 0 ds = unat b"
    using show_nat_three [OF n] by (elim exE conjE) (rule that)
  show ?thesis
    unfolding read_octet_def read_number_def ds(1) span_digits_map [OF ds(2) r]
    using ds n by (auto simp: Let_def)
qed

lemma read_given_same [simp]: "read_given c (c # s) = Some s"
  by (simp add: read_given_def)

lemma read_ipv4_show: "r = [] \<or> dec_digit (hd r) = None \<Longrightarrow> read_ipv4_addr (show_ipv4 a @ r) = Some (a, r)"
proof (cases a)
  case (Ipv4Addr a b c d)
  assume r: "r = [] \<or> dec_digit (hd r) = None"
  have dot: "dec_digit (CHR ''.'') = None" by (simp add: dec_digit_def)
  show ?thesis
    using r by (simp add: Ipv4Addr show_ipv4_def read_ipv4_addr_def read_octet_show dot)
qed

lemma parse_show_ipv4: "parse_ip (show_ipv4 a) = Some (V4 a)"
  using read_ipv4_show [of "[]" a] by (simp add: parse_ip_def)

lemma split_show_ipv4:
  "\<forall>c \<in> set (show_ipv4 a). c \<noteq> CHR ''/'' \<and> (c = CHR ''.'' \<or> (\<exists>d < 10. c = digit_char d))"
proof (cases a)
  case (Ipv4Addr a b c d)
  have slash: "digit_char d \<noteq> CHR ''/''" if "d < 10" for d
    using that by (metis dec_digit_char option.distinct(1) dec_digit_slash)
  then show ?thesis
    by (auto simp: Ipv4Addr show_ipv4_def dest!: show_nat_digits)
qed

lemma has_ws_ends:
  "has_ws bs \<Longrightarrow> bs \<noteq> [] \<and> (hd bs \<le> 32 \<or> 128 \<le> hd bs) \<and> (last bs \<le> 32 \<or> 128 \<le> last bs)"
  by (auto simp: has_ws_def ws_codes_def)

lemma trim_graphic:
  assumes "(32 :: nat) < of_char (hd s)" "of_char (hd s) < (128 :: nat)"
    and "(32 :: nat) < of_char (last s)" "of_char (last s) < (128 :: nat)"
  shows "trim s = s"
proof -
  have a: "\<not> has_ws (map of_char (take k s))" for k
    using has_ws_ends [of "map of_char (take k s)"] assms(1,2) by (auto simp: hd_map hd_take)
  have b: "\<not> has_ws (map of_char (drop k s))" for k
    using has_ws_ends [of "map of_char (drop k s)"] assms(3,4) by (auto simp: last_map last_drop)
  have "ws_len s = 0" "ws_len_end s = 0" by (simp_all add: ws_len_def ws_len_end_def a b)
  then show ?thesis by (simp add: trim_def trim_start.simps [of s] trim_end.simps [of s])
qed

lemma digit_graphic: "d < 10 \<Longrightarrow> (32 :: nat) < of_char (digit_char d) \<and> of_char (digit_char d) < (128 :: nat)"
  by (simp add: of_char_digit)

lemma show_nat_ends:
  "\<exists>d < 10. hd (show_nat n) = digit_char d" "\<exists>d < 10. last (show_nat n) = digit_char d"
  using show_nat_digits [OF hd_in_set] show_nat_digits [OF last_in_set] by simp_all

lemma show_ipv4_ends:
  "show_ipv4 a \<noteq> []" "\<exists>d < 10. hd (show_ipv4 a) = digit_char d" "\<exists>d < 10. last (show_ipv4 a) = digit_char d"
  using show_nat_ends by (cases a; simp add: show_ipv4_def hd_append last_append)+

lemma trim_show_ipv4: "trim (show_ipv4 a) = show_ipv4 a"
proof -
  obtain d e where "d < 10" "hd (show_ipv4 a) = digit_char d" "e < 10" "last (show_ipv4 a) = digit_char e"
    using show_ipv4_ends by metis
  then show ?thesis using digit_graphic by (intro trim_graphic) simp_all
qed

section \<open>Properties\<close>

text \<open>
  C26. The membership test of a configured proxy range is exactly agreement on the first
  \<open>prefix_len\<close> bits within one address family, and no mask computation of a parsed range
  overflows.
\<close>

theorem trusted_range_is_bit_prefix:
  assumes "cidr_from_str s = Inr c"
  shows "contains c ip = Some (same_family (cidr_network c) ip
    \<and> take (unat (cidr_prefix_len c)) (ip_bits (cidr_network c)) = take (unat (cidr_prefix_len c)) (ip_bits ip))"
proof (cases "cidr_network c")
  case (V4 net)
  then have p: "cidr_prefix_len c \<le> 32" using cidr_from_str_prefix [OF assms] by simp
  then have "unat (cidr_prefix_len c) \<le> 32" by (simp add: word_le_nat_alt)
  then show ?thesis
    using V4 same_prefix_mask [where 'a = 32 and p = "unat (cidr_prefix_len c)"]
    by (cases ip) (auto simp: contains_def same_family_def ip_bits_def ip_to_u32_def ipv4_mask_eq [OF p])
next
  case (V6 net)
  then have p: "cidr_prefix_len c \<le> 128" using cidr_from_str_prefix [OF assms] by simp
  then have "unat (cidr_prefix_len c) \<le> 128" by (simp add: word_le_nat_alt)
  then show ?thesis
    using V6 same_prefix_mask [where 'a = 128 and p = "unat (cidr_prefix_len c)"]
    by (cases ip) (auto simp: contains_def same_family_def ip_bits_def ip_to_u128_def ipv6_mask_eq [OF p])
qed

theorem trusted_range_is_bit_prefix_witness:
  "\<exists>c. cidr_from_str ''10.1.0.0/9'' = Inr c \<and> contains c (V4 (Ipv4Addr 10 127 3 4)) = Some True
    \<and> contains c (V4 (Ipv4Addr 10 128 0 1)) = Some False \<and> contains c (V6 (ipv6_of (replicate 8 0))) = Some False"
proof -
  let ?c = "\<lparr>cidr_network = V4 (Ipv4Addr 10 1 0 0), cidr_prefix_len = 9\<rparr>"
  have "cidr_from_str ''10.1.0.0/9'' = Inr ?c" by code_simp
  from trusted_range_is_bit_prefix [OF this] this show ?thesis
    by (intro exI [of _ ?c]) (simp add: same_family_def ip_bits_def bytes_bits_def byte_bits_def bit_numeral_word_iff)
qed

text \<open>
  Every IPv4 range can be configured: the printed form of an address and a length up to
  32 is read back as exactly that range.
\<close>

lemma cidr_print_parse:
  assumes "n \<le> 32"
  shows "cidr_from_str (show_ipv4 a @ ''/'' @ show_nat n)
    = Inr \<lparr>cidr_network = V4 a, cidr_prefix_len = of_nat n\<rparr>"
proof -
  obtain d e where "d < 10" "hd (show_ipv4 a) = digit_char d" "e < 10" "last (show_nat n) = digit_char e"
    using show_ipv4_ends(2) show_nat_ends(2) by metis
  then have "trim (show_ipv4 a @ ''/'' @ show_nat n) = show_ipv4 a @ ''/'' @ show_nat n"
    using show_ipv4_ends(1) digit_graphic by (intro trim_graphic) (simp_all add: last_append)
  moreover have "split_once (CHR ''/'') (show_ipv4 a @ ''/'' @ show_nat n) = Some (show_ipv4 a, show_nat n)"
    using split_show_ipv4 [of a] by (auto simp: split_once_Some)
  ultimately show ?thesis
    using assms by (simp add: cidr_from_str_def parse_show_ipv4 parse_show_nat)
qed

lemma cidr_print_parse_witness:
  "cidr_from_str (show_ipv4 (Ipv4Addr 192 168 0 7) @ ''/'' @ show_nat 24)
    = Inr \<lparr>cidr_network = V4 (Ipv4Addr 192 168 0 7), cidr_prefix_len = 24\<rparr>"
  using cidr_print_parse [of 24 "Ipv4Addr 192 168 0 7"] by simp

end
