(* ===== verification/Http.thy ===== *)
theory Http
  imports Errors Peer_Addr
begin

text \<open>
  Requests and responses as the REST adapter uses them. A header map holds the first value of
  each lower-case name, which is all the gateway reads, and \<open>insert\<close> replaces it; a value is
  text when it consists of visible ASCII only. The path excludes the query. The library that
  parses and prints messages is not modelled; the body of a response is what is serialized.
\<close>

datatype HeaderValue = Text string | Opaque "u8 list"

type_synonym HeaderMap = "(string, HeaderValue) hash_map"

definition header_get :: "HeaderMap \<Rightarrow> string \<Rightarrow> HeaderValue option" where
  "header_get headers name = map_of headers name"

definition to_str :: "HeaderValue \<Rightarrow> string option" where
  "to_str v = (case v of Text s \<Rightarrow> Some s | Opaque _ \<Rightarrow> None)"

definition header_text :: "HeaderMap \<Rightarrow> string \<Rightarrow> string option" where
  "header_text headers name = Option.bind (header_get headers name) to_str"

definition contains_key :: "HeaderMap \<Rightarrow> string \<Rightarrow> bool" where
  "contains_key headers name = (header_get headers name \<noteq> None)"

record Request =
  rq_method :: string
  rq_path :: string
  rq_query :: "string option"
  rq_headers :: HeaderMap
  rq_peer :: "IpAddr option"
  rq_body :: "u8 list"

datatype 'j Body = NoBody | ProblemBody ProblemDetails | JsonBody 'j | BytesBody "u8 list"

record 'j Response =
  rp_status :: nat
  rp_headers :: "(string, string) hash_map"
  rp_body :: "'j Body"

definition set_header :: "string \<Rightarrow> string \<Rightarrow> (string, string) hash_map \<Rightarrow> (string, string) hash_map" where
  "set_header name v headers = AList.update name v headers"

definition is_success :: "nat \<Rightarrow> bool" where
  "is_success status = (200 \<le> status \<and> status < 300)"

text \<open>\<open>RestError::into_response\<close> and the responses of \<open>handler.rs\<close>.\<close>

definition error_response :: "RestError \<Rightarrow> 'j Response" where
  "error_response e =
     \<lparr>rp_status = unat (re_status e),
      rp_headers = [(''content-type'', ''application/problem+json'')],
      rp_body = ProblemBody (re_problem e)\<rparr>"

definition gateway_error :: "GatewayError \<Rightarrow> string \<Rightarrow> 'j Response" where
  "gateway_error error inst = error_response (from_gateway_error error inst)"

definition json_response :: "nat \<Rightarrow> 'j \<Rightarrow> 'j Response" where
  "json_response status v =
     \<lparr>rp_status = status, rp_headers = [(''content-type'', ''application/json'')], rp_body = JsonBody v\<rparr>"

definition ok_json :: "'j \<Rightarrow> 'j Response" where
  "ok_json v = json_response 200 v"

definition no_content :: "'j Response" where
  "no_content = \<lparr>rp_status = 204, rp_headers = [], rp_body = NoBody\<rparr>"

definition has_header :: "string \<Rightarrow> string \<Rightarrow> 'j Response \<Rightarrow> bool" where
  "has_header name v response = (map_of (rp_headers response) name = Some v)"

lemma header_text_update [simp]:
  "header_text (AList.update n v hs) m = (if m = n then to_str v else header_text hs m)"
  by (simp add: header_text_def header_get_def)

lemma to_str_simps [simp]: "to_str (Text s) = Some s" "to_str (Opaque bs) = None"
  by (simp_all add: to_str_def)

lemma map_of_set_header [simp]: "map_of (set_header n v hs) = (map_of hs)(n \<mapsto> v)"
  by (simp add: set_header_def)

lemma wf_set_header [simp]: "wf_map hs \<Longrightarrow> wf_map (set_header n v hs)"
  by (simp add: set_header_def)

lemma gateway_error_status:
  "rp_status (gateway_error e inst) = unat (status_for_gateway_error e)"
  by (simp add: gateway_error_def error_response_def rest_error_defs Let_def)

lemma gateway_error_not_success: "\<not> is_success (rp_status (gateway_error e inst))"
  by (cases e) (simp_all add: gateway_error_status is_success_def)

end
