(* ===== verification/Rest_Auth.thy ===== *)
theory Rest_Auth
  imports Http
begin

text \<open>
  Authentication at the REST adapter: the classification of routes
  (\<open>crates/gvm-gateway-rest/src/auth_policy.rs\<close>), bearer tokens (\<open>router.rs\<close>) and Basic
  credentials, which are read by two functions (\<open>security.rs\<close> and \<open>sessions.rs\<close>). The Base64
  decoder is a library: it is an argument, and answers the decoded bytes if there are any.
\<close>

section \<open>Route policies\<close>

datatype RestRouteAuthPolicy = Public | SessionCreate | SessionCurrent | Protected

definition classify_runtime_route :: "string \<Rightarrow> string \<Rightarrow> RestRouteAuthPolicy option" where
  "classify_runtime_route meth path =
     (if path \<in> {''/health'', ''/ready''} then Some Public
      else if path \<in> {''/api/v1/version'', ''/api/v1/openapi.json'', ''/api/v1/docs'',
                        ''/api/v1/docs/redoc.standalone.js''} then Some Public
      else if path = ''/api/v1/session'' \<and> meth = ''POST'' then Some SessionCreate
      else if path = ''/api/v1/session'' then Some SessionCurrent
      else if starts_with ''/api/v1/'' path then Some Protected
      else None)"

definition runtime_path_from_openapi_path :: "string \<Rightarrow> string" where
  "runtime_path_from_openapi_path path =
     (if path \<in> {''/health'', ''/ready''} then path
      else if path = ''/version'' then ''/api/v1/version''
      else if path = ''/openapi.json'' then ''/api/v1/openapi.json''
      else ''/api/v1'' @ path)"

section \<open>Credentials\<close>

definition bearer_token :: "HeaderMap \<Rightarrow> string result" where
  "bearer_token headers =
     (case header_text headers ''authorization'' of
        None \<Rightarrow> Inl (Unauthorized ''missing bearer token'')
      | Some v \<Rightarrow>
          (case strip_prefix ''Bearer '' v of
             None \<Rightarrow> Inl (Unauthorized ''missing bearer token'')
           | Some token \<Rightarrow> Inr token))"

definition is_basic_auth :: "HeaderMap \<Rightarrow> string option" where
  "is_basic_auth headers =
     Option.bind (header_text headers ''authorization'') (strip_prefix ''Basic '')"

definition decode_credentials ::
    "(string \<Rightarrow> string option) \<Rightarrow> string \<Rightarrow> (string \<times> string) result" where
  "decode_credentials decode encoded =
     (case decode encoded of
        None \<Rightarrow> Inl (Unauthorized ''invalid Base64 in credentials'')
      | Some decoded \<Rightarrow>
          if \<not> utf8_valid decoded then Inl (Unauthorized ''invalid UTF-8 in credentials'')
          else
            (case split_once (CHR '':'') decoded of
               None \<Rightarrow> Inl (Unauthorized ''malformed Basic credentials'')
             | Some (username, password) \<Rightarrow>
                 if username = [] then Inl (Unauthorized ''username must not be empty'')
                 else Inr (username, password)))"

definition basic_credentials ::
    "(string \<Rightarrow> string option) \<Rightarrow> HeaderMap \<Rightarrow> (string \<times> string) result" where
  "basic_credentials decode headers =
     (case is_basic_auth headers of
        None \<Rightarrow> Inl (Unauthorized ''expected Basic authentication'')
      | Some encoded \<Rightarrow> decode_credentials decode encoded)"

definition extract_basic_credentials ::
    "(string \<Rightarrow> string option) \<Rightarrow> HeaderMap \<Rightarrow> (string \<times> string) result" where
  "extract_basic_credentials decode headers =
     (case header_text headers ''authorization'' of
        None \<Rightarrow> Inl (Unauthorized ''missing Authorization header'')
      | Some v \<Rightarrow>
          (case strip_prefix ''Basic '' v of
             None \<Rightarrow> Inl (Unauthorized ''expected Basic authentication'')
           | Some encoded \<Rightarrow> decode_credentials decode encoded))"

definition uses_request_scoped_basic_auth :: "Request \<Rightarrow> bool" where
  "uses_request_scoped_basic_auth request =
     (is_basic_auth (rq_headers request) \<noteq> None
      \<and> classify_runtime_route (rq_method request) (rq_path request) = Some Protected)"

section \<open>Properties\<close>

text \<open>
  Protected is the default: a path below \<open>/api/v1/\<close> is protected unless it is one of the
  four public documents or the session itself, whatever the method; nothing outside
  \<open>/api/v1/\<close> but the two probes has a policy; and no request is served both ways, that is,
  request-scoped Basic credentials are honoured on protected routes only.
\<close>

lemma protected_by_default:
  "(classify_runtime_route m p = Some Protected)
     = (starts_with ''/api/v1/'' p \<and> p \<noteq> ''/api/v1/session''
        \<and> p \<notin> {''/api/v1/version'', ''/api/v1/openapi.json'', ''/api/v1/docs'', ''/api/v1/docs/redoc.standalone.js''})
   \<and> (classify_runtime_route m p = None) = (\<not> starts_with ''/api/v1/'' p \<and> p \<notin> {''/health'', ''/ready''})
   \<and> (uses_request_scoped_basic_auth q \<and> bearer_token (rq_headers q) = Inr t) = False"
proof (intro conjI)
  have prefixes: "starts_with ''/api/v1/'' ''/api/v1/session''" "starts_with ''/api/v1/'' ''/api/v1/version''"
    "starts_with ''/api/v1/'' ''/api/v1/openapi.json''" "starts_with ''/api/v1/'' ''/api/v1/docs''"
    "starts_with ''/api/v1/'' ''/api/v1/docs/redoc.standalone.js''"
    "\<not> starts_with ''/api/v1/'' ''/health''" "\<not> starts_with ''/api/v1/'' ''/ready''"
    by (simp_all add: starts_with_def)
  show "(classify_runtime_route m p = Some Protected)
     = (starts_with ''/api/v1/'' p \<and> p \<noteq> ''/api/v1/session''
        \<and> p \<notin> {''/api/v1/version'', ''/api/v1/openapi.json'', ''/api/v1/docs'', ''/api/v1/docs/redoc.standalone.js''})"
    using prefixes unfolding classify_runtime_route_def by auto
  show "(classify_runtime_route m p = None) = (\<not> starts_with ''/api/v1/'' p \<and> p \<notin> {''/health'', ''/ready''})"
    using prefixes unfolding classify_runtime_route_def by auto
  show "(uses_request_scoped_basic_auth q \<and> bearer_token (rq_headers q) = Inr t) = False"
    by (auto simp: uses_request_scoped_basic_auth_def is_basic_auth_def bearer_token_def strip_prefix_Some
        split: option.splits)
qed

text \<open>
  C34. Credentials survive the header: for every user name that is not empty and has no colon,
  and every password, colons included, encoding them as the client does gives back exactly
  this pair, from the middleware and from the session handler alike. The hypothesis is that
  the decoder inverts the client's encoder.
\<close>

theorem basic_credentials_roundtrip:
  assumes codec: "decode (encode (user @ '':'' @ password)) = Some (user @ '':'' @ password)"
    and header: "header_text headers ''authorization'' = Some (''Basic '' @ encode (user @ '':'' @ password))"
    and "utf8_valid (user @ '':'' @ password)" and "user \<noteq> []" and "CHR '':'' \<notin> set user"
  shows "basic_credentials decode headers = Inr (user, password)
    \<and> extract_basic_credentials decode headers = Inr (user, password)"
proof -
  have "split_once (CHR '':'') (user @ '':'' @ password) = Some (user, password)"
    using assms(5) by (simp add: split_once_Some)
  then have "decode_credentials decode (encode (user @ '':'' @ password)) = Inr (user, password)"
    using codec assms(3,4) by (simp add: decode_credentials_def)
  then show ?thesis
    using header strip_prefix_append [of "''Basic ''" "encode (user @ '':'' @ password)"]
    by (simp add: basic_credentials_def extract_basic_credentials_def is_basic_auth_def)
qed

theorem basic_credentials_roundtrip_witness:
  "basic_credentials (\<lambda>s. Some (rev s)) [(''authorization'', Text ''Basic c:b:nna'')] = Inr (''ann'', ''b:c'')"
proof -
  have u: "utf8_valid (''ann'' @ '':'' @ ''b:c'')" by code_simp
  show ?thesis
    using basic_credentials_roundtrip [where encode = rev and decode = "\<lambda>s. Some (rev s)" and user = "''ann''"
        and password = "''b:c''" and headers = "[(''authorization'', Text ''Basic c:b:nna'')]"] u
    by (simp add: header_text_def header_get_def)
qed

text \<open>The two readers differ only in the message for a missing header.\<close>

lemma credential_readers_agree:
  "header_text headers ''authorization'' \<noteq> None \<Longrightarrow>
     extract_basic_credentials decode headers = basic_credentials decode headers"
  by (auto simp: basic_credentials_def extract_basic_credentials_def is_basic_auth_def split: option.splits)

end
