(* ===== verification/Rest_Query.thy ===== *)
theory Rest_Query
  imports Text Errors
begin

text \<open>
  Query strings of the REST adapter, \<open>crates/gvm-gateway-rest/src/query.rs\<close>. The decoder of
  form-encoded pairs and the UUID parser are libraries: the functions below take the decoded
  pairs and the check as arguments.
\<close>

section \<open>Parsing\<close>

definition validate_uuid :: "(string \<Rightarrow> bool) \<Rightarrow> string \<Rightarrow> string \<Rightarrow> unit result" where
  "validate_uuid uuid_ok field s =
     (if uuid_ok s then Inr () else Inl (InvalidInput (field @ '' must be a valid UUID'')))"

record CollectionQueryParams =
  cq_filter_string :: "string option"
  cq_filter_id :: "string option"
  cq_page :: u32
  cq_per_page :: u32

record CollectionListQuery =
  cl_filter_string :: "string option"
  cl_filter_id :: "string option"
  cl_page :: u32
  cl_per_page :: u32

record FilterOnlyQueryParams =
  fq_filter_string :: "string option"
  fq_filter_id :: "string option"

text \<open>\<open>str::parse::<u32>\<close>.\<close>

definition parse_u32 :: "string \<Rightarrow> u32 option" where
  "parse_u32 s = map_option of_nat (parse_unsigned (2 ^ 32) s)"

text \<open>The variables of the loop: filter, filter id, page and page size.\<close>

type_synonym collection_vars = "string option \<times> string option \<times> u32 option \<times> u32 option"

fun collection_loop ::
    "(string \<Rightarrow> bool) \<Rightarrow> collection_vars \<Rightarrow> (string \<times> string) list \<Rightarrow> collection_vars result" where
  "collection_loop uuid_ok vars [] = Inr vars"
| "collection_loop uuid_ok (filter_string, filter_id, page, per_page) ((key, v) # pairs) =
     (if key = ''filter'' then collection_loop uuid_ok (Some v, filter_id, page, per_page) pairs
      else if key = ''filterId'' then
        and_then (validate_uuid uuid_ok ''filterId'' v) (\<lambda>_.
          collection_loop uuid_ok (filter_string, Some v, page, per_page) pairs)
      else if key = ''page'' then
        (case parse_u32 v of
           None \<Rightarrow> Inl (InvalidInput ''page must be a positive integer'')
         | Some p \<Rightarrow> collection_loop uuid_ok (filter_string, filter_id, Some p, per_page) pairs)
      else if key = ''perPage'' \<or> key = ''per_page'' then
        (case parse_u32 v of
           None \<Rightarrow> Inl (InvalidInput ''perPage must be a positive integer'')
         | Some n \<Rightarrow>
             if n = 0 \<or> n > 1000 then Inl (InvalidInput ''perPage must be between 1 and 1000'')
             else collection_loop uuid_ok (filter_string, filter_id, page, Some n) pairs)
      else collection_loop uuid_ok (filter_string, filter_id, page, per_page) pairs)"

definition parse_collection_query ::
    "(string \<Rightarrow> (string \<times> string) list) \<Rightarrow> (string \<Rightarrow> bool) \<Rightarrow> string \<Rightarrow> CollectionQueryParams result" where
  "parse_collection_query decode uuid_ok query =
     and_then (collection_loop uuid_ok (None, None, None, None) (decode query))
       (\<lambda>(filter_string, filter_id, page, per_page).
          let page = (case page of Some p \<Rightarrow> p | None \<Rightarrow> 1)
          in if page = 0 then Inl (InvalidInput ''page must be greater than or equal to 1'')
             else Inr \<lparr>cq_filter_string = filter_string, cq_filter_id = filter_id, cq_page = page,
                       cq_per_page = (case per_page of Some n \<Rightarrow> n | None \<Rightarrow> 25)\<rparr>)"

definition collection_list_query ::
    "(string \<Rightarrow> (string \<times> string) list) \<Rightarrow> (string \<Rightarrow> bool) \<Rightarrow> string \<Rightarrow> CollectionListQuery result" where
  "collection_list_query decode uuid_ok query =
     and_then (parse_collection_query decode uuid_ok query) (\<lambda>parsed.
       Inr \<lparr>cl_filter_string = cq_filter_string parsed, cl_filter_id = cq_filter_id parsed,
            cl_page = cq_page parsed, cl_per_page = cq_per_page parsed\<rparr>)"

fun filter_loop ::
    "(string \<Rightarrow> bool) \<Rightarrow> string option \<Rightarrow> string option \<Rightarrow> (string \<times> string) list
      \<Rightarrow> FilterOnlyQueryParams result" where
  "filter_loop uuid_ok filter_string filter_id [] =
     Inr \<lparr>fq_filter_string = filter_string, fq_filter_id = filter_id\<rparr>"
| "filter_loop uuid_ok filter_string filter_id ((key, v) # pairs) =
     (if key = ''filter'' then filter_loop uuid_ok (Some v) filter_id pairs
      else if key = ''filterId'' then
        and_then (validate_uuid uuid_ok ''filterId'' v) (\<lambda>_. filter_loop uuid_ok filter_string (Some v) pairs)
      else filter_loop uuid_ok filter_string filter_id pairs)"

definition parse_filter_only_query ::
    "(string \<Rightarrow> (string \<times> string) list) \<Rightarrow> (string \<Rightarrow> bool) \<Rightarrow> string \<Rightarrow> FilterOnlyQueryParams result" where
  "parse_filter_only_query decode uuid_ok query = filter_loop uuid_ok None None (decode query)"

fun ultimate_loop :: "bool \<Rightarrow> (string \<times> string) list \<Rightarrow> bool result" where
  "ultimate_loop ultimate [] = Inr ultimate"
| "ultimate_loop ultimate ((key, v) # pairs) =
     (if key = ''ultimate'' then
        (case parse_bool v of
           None \<Rightarrow> Inl (InvalidInput ''ultimate must be true or false'')
         | Some b \<Rightarrow> ultimate_loop b pairs)
      else ultimate_loop ultimate pairs)"

definition parse_delete_resource_query :: "(string \<Rightarrow> (string \<times> string) list) \<Rightarrow> string \<Rightarrow> bool result" where
  "parse_delete_resource_query decode query = ultimate_loop False (decode query)"

section \<open>The queries that are accepted\<close>

text \<open>
  The declarative reading: the last value of a key counts, and every occurrence of a checked
  key must be well formed.
\<close>

definition values_of :: "(string \<Rightarrow> bool) \<Rightarrow> (string \<times> string) list \<Rightarrow> string list" where
  "values_of is_key pairs = map snd (filter (\<lambda>(k, v). is_key k) pairs)"

definition last_value :: "'a option \<Rightarrow> (string \<Rightarrow> 'a) \<Rightarrow> (string \<Rightarrow> bool) \<Rightarrow> (string \<times> string) list \<Rightarrow> 'a option" where
  "last_value d f is_key pairs =
     (case rev (values_of is_key pairs) of [] \<Rightarrow> d | v # _ \<Rightarrow> Some (f v))"

definition is_page_size_key :: "string \<Rightarrow> bool" where
  "is_page_size_key k = (k = ''perPage'' \<or> k = ''per_page'')"

definition good_page_size :: "string \<Rightarrow> bool" where
  "good_page_size v = (case parse_u32 v of None \<Rightarrow> False | Some n \<Rightarrow> n \<noteq> 0 \<and> n \<le> 1000)"

definition well_formed :: "(string \<Rightarrow> bool) \<Rightarrow> (string \<times> string) list \<Rightarrow> bool" where
  "well_formed uuid_ok pairs \<longleftrightarrow>
     list_all uuid_ok (values_of (\<lambda>k. k = ''filterId'') pairs)
     \<and> list_all (\<lambda>v. parse_u32 v \<noteq> None) (values_of (\<lambda>k. k = ''page'') pairs)
     \<and> list_all good_page_size (values_of is_page_size_key pairs)"

lemma values_of_Cons [simp]:
  "values_of is_key [] = []"
  "values_of is_key ((k, v) # pairs) = (if is_key k then [v] else []) @ values_of is_key pairs"
  by (simp_all add: values_of_def)

lemma last_value_Cons [simp]:
  "last_value d f is_key [] = d"
  "last_value d f is_key ((k, v) # pairs) = last_value (if is_key k then Some (f v) else d) f is_key pairs"
  by (simp_all add: last_value_def split: list.splits)

lemma collection_loop_eq:
  "collection_loop uuid_ok (fs, fi, p, n) pairs = Inr vars \<longleftrightarrow>
     well_formed uuid_ok pairs
     \<and> vars = (last_value fs id (\<lambda>k. k = ''filter'') pairs, last_value fi id (\<lambda>k. k = ''filterId'') pairs,
               last_value p (\<lambda>v. the (parse_u32 v)) (\<lambda>k. k = ''page'') pairs,
               last_value n (\<lambda>v. the (parse_u32 v)) is_page_size_key pairs)"
proof (induction pairs arbitrary: fs fi p n)
  case Nil
  then show ?case by (auto simp: well_formed_def)
next
  case (Cons kv pairs)
  obtain k v where kv: "kv = (k, v)" by (cases kv)
  consider "k = ''filter''" | "k = ''filterId''" | "k = ''page''" | "is_page_size_key k"
    | "k \<noteq> ''filter''" "k \<noteq> ''filterId''" "k \<noteq> ''page''" "\<not> is_page_size_key k" by blast
  then show ?case
  proof cases
    case 1 then show ?thesis using Cons.IH by (simp add: kv well_formed_def is_page_size_key_def)
  next
    case 2 then show ?thesis using Cons.IH
      by (simp add: kv well_formed_def is_page_size_key_def validate_uuid_def)
  next
    case 3 then show ?thesis using Cons.IH
      by (cases "parse_u32 v") (simp_all add: kv well_formed_def is_page_size_key_def)
  next
    case 4
    then have "k = ''perPage'' \<or> k = ''per_page''" by (simp add: is_page_size_key_def)
    then have step: "collection_loop uuid_ok (fs, fi, p, n) (kv # pairs) =
      (case parse_u32 v of
         None \<Rightarrow> Inl (InvalidInput ''perPage must be a positive integer'')
       | Some m \<Rightarrow> if m = 0 \<or> m > 1000 then Inl (InvalidInput ''perPage must be between 1 and 1000'')
                  else collection_loop uuid_ok (fs, fi, p, Some m) pairs)"
      and ne: "k \<noteq> ''filter''" "k \<noteq> ''filterId''" "k \<noteq> ''page''"
      unfolding kv by (elim disjE; simp)+
    show ?thesis unfolding step using ne 4 Cons.IH [of fs fi p "parse_u32 v"]
      by (cases "parse_u32 v"; cases "\<exists>a. parse_u32 v = Some a \<and> 1000 < a")
        (auto simp: kv well_formed_def good_page_size_def not_le)
  next
    case 5 then show ?thesis using Cons.IH by (simp add: kv well_formed_def is_page_size_key_def)
  qed
qed

section \<open>Properties\<close>

text \<open>
  Which list queries are accepted, and what they mean: exactly those whose filter ids,
  pages and page sizes are all well formed and whose last page is not zero; the result takes
  the last value of every parameter, with page 1 of 25 by default. In particular the page is
  at least 1 and the page size between 1 and 1000.
\<close>

lemma collection_query_accepts:
  "(parse_collection_query decode uuid_ok query = Inr r) =
     (let pairs = decode query;
          page = (case last_value None (\<lambda>v. the (parse_u32 v)) (\<lambda>k. k = ''page'') pairs of Some p \<Rightarrow> p | None \<Rightarrow> 1)
      in well_formed uuid_ok pairs \<and> page \<noteq> 0
         \<and> r = \<lparr>cq_filter_string = last_value None id (\<lambda>k. k = ''filter'') pairs,
                 cq_filter_id = last_value None id (\<lambda>k. k = ''filterId'') pairs, cq_page = page,
                 cq_per_page = (case last_value None (\<lambda>v. the (parse_u32 v)) is_page_size_key pairs of
                                  Some n \<Rightarrow> n | None \<Rightarrow> 25)\<rparr>)"
proof (cases "collection_loop uuid_ok (None, None, None, None) (decode query)")
  case (Inl e)
  then have "\<not> well_formed uuid_ok (decode query)"
    using collection_loop_eq [of uuid_ok None None None None "decode query"] by (metis sum.distinct(1))
  then show ?thesis using Inl by (simp add: parse_collection_query_def)
next
  case (Inr vars)
  from Inr [unfolded collection_loop_eq] Inr show ?thesis
    by (auto simp: parse_collection_query_def Let_def)
qed

lemma last_value_mem:
  "last_value None f is_key pairs = Some x \<Longrightarrow> \<exists>v \<in> set (values_of is_key pairs). x = f v"
  by (auto simp: last_value_def split: list.splits)

lemma collection_query_accepted:
  "parse_collection_query decode uuid_ok query = Inr r \<Longrightarrow>
     cq_page r \<noteq> 0 \<and> cq_per_page r \<noteq> 0 \<and> cq_per_page r \<le> 1000"
proof -
  assume "parse_collection_query decode uuid_ok query = Inr r"
  then obtain fs fi p n where loop: "collection_loop uuid_ok (None, None, None, None) (decode query) = Inr (fs, fi, p, n)"
    and page: "cq_page r \<noteq> 0" and per: "cq_per_page r = (case n of Some n \<Rightarrow> n | None \<Rightarrow> 25)"
    by (auto simp: parse_collection_query_def and_then_eq_Inr Let_def split: if_splits)
  from loop have wf: "well_formed uuid_ok (decode query)"
    and n: "n = last_value None (\<lambda>v. the (parse_u32 v)) is_page_size_key (decode query)"
    by (simp_all add: collection_loop_eq)
  have "m \<noteq> 0 \<and> m \<le> 1000" if "n = Some m" for m
    using that last_value_mem [of "\<lambda>v. the (parse_u32 v)" is_page_size_key "decode query" m] wf n
    by (auto simp: well_formed_def good_page_size_def list_all_iff split: option.splits)
  then show ?thesis using page per by (cases n) auto
qed

text \<open>
  Paging parameters are always in range: an accepted list query has a page of at least 1
  and a page size between 1 and 1000, and its offset cannot overflow 64 bits.
\<close>

lemma collection_query_bounds:
  assumes "parse_collection_query decode uuid_ok query = Inr r"
  shows "1 \<le> unat (cq_page r) \<and> 1 \<le> unat (cq_per_page r) \<and> unat (cq_per_page r) \<le> 1000
    \<and> unat ((ucast (cq_page r - 1) :: u64) * ucast (cq_per_page r)) = (unat (cq_page r) - 1) * unat (cq_per_page r)"
proof -
  have p: "cq_page r \<noteq> 0" and n: "cq_per_page r \<noteq> 0" "cq_per_page r \<le> 1000"
    using collection_query_accepted [OF assms] by auto
  have lt: "unat (cq_page r) < 2 ^ 32" "unat (cq_per_page r) \<le> 1000" "1 \<le> unat (cq_page r)" "1 \<le> unat (cq_per_page r)"
    using unat_below [of "cq_page r"] p n by (simp_all add: word_le_nat_alt Suc_le_eq unat_gt_0)
  have pm: "unat (cq_page r - 1) = unat (cq_page r) - 1"
    using lt(3) by (simp add: unat_sub word_le_nat_alt)
  have "(unat (cq_page r) - 1) * unat (cq_per_page r) \<le> 2 ^ 32 * 1000"
    using lt by (intro mult_le_mono) simp_all
  then have "(unat (cq_page r) - 1) * unat (cq_per_page r) < 2 ^ 64" by simp
  then have "unat ((ucast (cq_page r - 1) :: u64) * ucast (cq_per_page r)) = (unat (cq_page r) - 1) * unat (cq_per_page r)"
    using lt take_bit_nat_eq_self [of "unat (cq_page r) - Suc 0" 64] take_bit_nat_eq_self [of "unat (cq_per_page r)" 64]
    by (simp add: unat_word_ariths pm unsigned_ucast_eq)
  then show ?thesis using lt by simp
qed

lemma collection_query_bounds_witness:
  "\<exists>r. parse_collection_query (\<lambda>q. [(''page'', ''0''), (''page'', ''3''), (''per_page'', ''100'')]) (\<lambda>s. False) [] = Inr r
    \<and> unat (cq_page r) = 3 \<and> unat (cq_per_page r) \<le> 1000"
proof -
  let ?r = "\<lparr>cq_filter_string = None, cq_filter_id = None, cq_page = 3, cq_per_page = 100\<rparr>"
  have r: "parse_collection_query (\<lambda>q. [(''page'', ''0''), (''page'', ''3''), (''per_page'', ''100'')]) (\<lambda>s. False) [] = Inr ?r"
    by (simp add: parse_collection_query_def parse_u32_def parse_unsigned_def dec_digit_def Let_def)
  from collection_query_bounds [OF r] r show ?thesis by (intro exI [of _ ?r]) simp
qed

end
