(* ===== verification/Sessions.thy ===== *)
theory Sessions
  imports Errors
begin

text \<open>
  The session registry of \<open>crates/gvm-gateway-domain/src/session.rs\<close>: a map from token
  digests to stored sessions behind a mutex, with idle expiry, capacity limits and holds.
  The clock reading, the random identifier and the SHA-256 function are arguments; the flag
  \<open>sm_poisoned\<close> says that the mutex is poisoned.
\<close>

section \<open>Value objects\<close>

datatype SessionState = Active | Expired

record Session =
  se_token :: string
  se_user :: string
  se_state :: SessionState

record SessionInfo =
  si_token :: string
  si_user :: string
  si_state :: SessionState
  si_created_at :: u64
  si_last_used_at :: u64
  si_expires_in :: int

type_synonym SessionTokenDigest = "u8 list"

definition from_token :: "(string \<Rightarrow> u8 list) \<Rightarrow> string \<Rightarrow> SessionTokenDigest" where
  "from_token sha token = sha token"

definition hex_prefix :: "u8 list \<Rightarrow> nat \<Rightarrow> string" where
  "hex_prefix bytes count =
     (let count = min count (length bytes)
      in concat (map (\<lambda>byte. [hex_digit (unat (drop_bit 4 byte)), hex_digit (unat (byte AND 15))])
           (take count bytes)))"

definition safe_id :: "SessionTokenDigest \<Rightarrow> string" where
  "safe_id digest = ''session:'' @ hex_prefix digest 8"

definition DEFAULT_MAX_GLOBAL_SESSIONS :: u64 where
  "DEFAULT_MAX_GLOBAL_SESSIONS = 1000"

definition DEFAULT_MAX_SESSIONS_PER_USER :: u64 where
  "DEFAULT_MAX_SESSIONS_PER_USER = 10"

record SessionLimits =
  max_global :: "u64 option"
  max_per_user :: "u64 option"

definition default_limits :: SessionLimits where
  "default_limits =
     \<lparr>max_global = Some DEFAULT_MAX_GLOBAL_SESSIONS,
      max_per_user = Some DEFAULT_MAX_SESSIONS_PER_USER\<rparr>"

record StoredSession =
  ss_user :: string
  ss_state :: SessionState
  ss_created_at :: u64
  ss_last_used_at :: u64
  ss_hold_count :: u64

definition is_expired_at :: "u64 \<Rightarrow> u64 \<Rightarrow> StoredSession \<Rightarrow> bool" where
  "is_expired_at now idle_timeout_secs s =
     (case ss_state s of
        Active \<Rightarrow>
          (if ss_hold_count s > 0 then False
           else saturating_sub now (ss_last_used_at s) \<ge> idle_timeout_secs)
      | Expired \<Rightarrow> True)"

section \<open>The registry\<close>

record SessionManager =
  sm_poisoned :: bool
  sm_sessions :: "(SessionTokenDigest, StoredSession) hash_map"
  sm_idle_timeout_secs :: u64
  sm_limits :: SessionLimits

definition with_limits :: "u64 \<Rightarrow> SessionLimits \<Rightarrow> SessionManager" where
  "with_limits idle limits =
     \<lparr>sm_poisoned = False, sm_sessions = [], sm_idle_timeout_secs = idle, sm_limits = limits\<rparr>"

definition new_manager :: "u64 \<Rightarrow> SessionManager" where
  "new_manager idle = with_limits idle default_limits"

definition default_manager :: SessionManager where
  "default_manager =
     \<lparr>sm_poisoned = False, sm_sessions = [], sm_idle_timeout_secs = 300,
      sm_limits = default_limits\<rparr>"

text \<open>Taking the lock: every operation starts with it and fails when it is poisoned.\<close>

definition registry_unavailable :: GatewayError where
  "registry_unavailable = BackendUnavailable ''session registry unavailable''"

definition missing_session :: GatewayError where
  "missing_session = SessionInvalidated ''missing session''"

definition session_expired :: GatewayError where
  "session_expired = SessionExpired ''session expired''"

definition enforce_session_limits ::
    "(SessionTokenDigest, StoredSession) hash_map \<Rightarrow> string \<Rightarrow> SessionLimits \<Rightarrow> u64 \<Rightarrow> u64
      \<Rightarrow> unit result" where
  "enforce_session_limits sessions user limits now idle =
     (let active_sessions = of_nat (count_values (\<lambda>s. \<not> is_expired_at now idle s) sessions);
          user_sessions =
            of_nat (count_values (\<lambda>s. ss_user s = user \<and> \<not> is_expired_at now idle s) sessions)
      in and_then
           (case max_global limits of
              Some mg \<Rightarrow>
                if active_sessions \<ge> mg
                then Inl (TooManyRequests ''global session limit exceeded'') else Inr ()
            | None \<Rightarrow> Inr ())
           (\<lambda>_. case max_per_user limits of
              Some mu \<Rightarrow>
                if user_sessions \<ge> mu
                then Inl (TooManyRequests ''per-user session limit exceeded'') else Inr ()
            | None \<Rightarrow> Inr ()))"

definition expired_session_digests ::
    "(SessionTokenDigest, StoredSession) hash_map \<Rightarrow> u64 \<Rightarrow> u64 \<Rightarrow> SessionTokenDigest list" where
  "expired_session_digests sessions now idle =
     map fst (filter (\<lambda>(digest, stored). is_expired_at now idle stored) sessions)"

definition new_session :: "string \<Rightarrow> u64 \<Rightarrow> StoredSession" where
  "new_session user now =
     \<lparr>ss_user = user, ss_state = Active, ss_created_at = now, ss_last_used_at = now,
      ss_hold_count = 0\<rparr>"

definition fresh_token :: "string \<Rightarrow> string" where
  "fresh_token uuid = ''gvm_sess_'' @ uuid"

definition create_draining_expired ::
    "(string \<Rightarrow> u8 list) \<Rightarrow> string \<Rightarrow> u64 \<Rightarrow> string \<Rightarrow> SessionManager
      \<Rightarrow> (Session \<times> SessionTokenDigest list) result \<times> SessionManager" where
  "create_draining_expired sha uuid now user m =
     (let token = fresh_token uuid;
          session = new_session user now;
          idle = sm_idle_timeout_secs m
      in if sm_poisoned m then (Inl registry_unavailable, m)
         else case enforce_session_limits (sm_sessions m) user (sm_limits m) now idle of
           Inl e \<Rightarrow> (Inl e, m)
         | Inr _ \<Rightarrow>
             (let expired_tokens = expired_session_digests (sm_sessions m) now idle;
                  sessions = remove_all expired_tokens (sm_sessions m);
                  sessions = AList.update (from_token sha token) session sessions
              in (Inr (\<lparr>se_token = token, se_user = user, se_state = Active\<rparr>, expired_tokens),
                  m\<lparr>sm_sessions := sessions\<rparr>)))"

definition create ::
    "(string \<Rightarrow> u8 list) \<Rightarrow> string \<Rightarrow> u64 \<Rightarrow> string \<Rightarrow> SessionManager
      \<Rightarrow> Session result \<times> SessionManager" where
  "create sha uuid now user m =
     (let (r, m') = create_draining_expired sha uuid now user m
      in (and_then r (\<lambda>(session, expired_tokens). Inr session), m'))"

definition session_get ::
    "(string \<Rightarrow> u8 list) \<Rightarrow> string \<Rightarrow> SessionManager \<Rightarrow> Session option result" where
  "session_get sha token m =
     (if sm_poisoned m then Inl registry_unavailable
      else Inr (map_option
        (\<lambda>stored. \<lparr>se_token = token, se_user = ss_user stored, se_state = ss_state stored\<rparr>)
        (map_of (sm_sessions m) (from_token sha token))))"

text \<open>\<open>as i64\<close> reads the 64 bits as a signed number.\<close>

definition get_info ::
    "(string \<Rightarrow> u8 list) \<Rightarrow> u64 \<Rightarrow> string \<Rightarrow> SessionManager \<Rightarrow> SessionInfo result" where
  "get_info sha now token m =
     (if sm_poisoned m then Inl registry_unavailable
      else case map_of (sm_sessions m) (from_token sha token) of
        None \<Rightarrow> Inl (NotFound ''session not found'')
      | Some stored \<Rightarrow>
          (let idle = sm_idle_timeout_secs m;
               (state, expires_in) =
                 (if is_expired_at now idle stored then (Expired, 0)
                  else if ss_hold_count stored > 0 then (Active, sint (max idle 1))
                  else
                    (let elapsed = saturating_sub now (ss_last_used_at stored);
                         remaining = sint (saturating_sub idle elapsed)
                     in (Active, remaining)))
           in Inr \<lparr>si_token = token, si_user = ss_user stored, si_state = state,
                   si_created_at = ss_created_at stored, si_last_used_at = ss_last_used_at stored,
                   si_expires_in = expires_in\<rparr>))"

definition put_session ::
    "SessionTokenDigest \<Rightarrow> StoredSession \<Rightarrow> SessionManager \<Rightarrow> SessionManager" where
  "put_session digest stored m = m\<lparr>sm_sessions := AList.update digest stored (sm_sessions m)\<rparr>"

definition touch ::
    "(string \<Rightarrow> u8 list) \<Rightarrow> u64 \<Rightarrow> string \<Rightarrow> SessionManager
      \<Rightarrow> Session result \<times> SessionManager" where
  "touch sha now token m =
     (if sm_poisoned m then (Inl registry_unavailable, m)
      else (let token_digest = from_token sha token in
        case map_of (sm_sessions m) token_digest of
          None \<Rightarrow> (Inl missing_session, m)
        | Some stored \<Rightarrow>
            if is_expired_at now (sm_idle_timeout_secs m) stored
            then (Inl session_expired, put_session token_digest (stored\<lparr>ss_state := Expired\<rparr>) m)
            else (Inr \<lparr>se_token = token, se_user = ss_user stored, se_state = Active\<rparr>,
                  put_session token_digest (stored\<lparr>ss_last_used_at := now\<rparr>) m)))"

text \<open>A hold is the digest whose count its \<open>drop\<close> gives back.\<close>

definition hold ::
    "(string \<Rightarrow> u8 list) \<Rightarrow> u64 \<Rightarrow> string \<Rightarrow> SessionManager
      \<Rightarrow> SessionTokenDigest result \<times> SessionManager" where
  "hold sha now token m =
     (if sm_poisoned m then (Inl registry_unavailable, m)
      else (let token_digest = from_token sha token in
        case map_of (sm_sessions m) token_digest of
          None \<Rightarrow> (Inl missing_session, m)
        | Some stored \<Rightarrow>
            if is_expired_at now (sm_idle_timeout_secs m) stored
            then (Inl session_expired, put_session token_digest (stored\<lparr>ss_state := Expired\<rparr>) m)
            else (Inr token_digest,
                  put_session token_digest
                    (stored\<lparr>ss_hold_count := saturating_add (ss_hold_count stored) 1,
                            ss_last_used_at := now\<rparr>) m)))"

definition drop_hold :: "SessionTokenDigest \<Rightarrow> SessionManager \<Rightarrow> SessionManager" where
  "drop_hold token_digest m =
     (if sm_poisoned m then m
      else case map_of (sm_sessions m) token_digest of
        None \<Rightarrow> m
      | Some session \<Rightarrow>
          put_session token_digest
            (session\<lparr>ss_hold_count := saturating_sub (ss_hold_count session) 1\<rparr>) m)"

definition expire ::
    "(string \<Rightarrow> u8 list) \<Rightarrow> string \<Rightarrow> SessionManager \<Rightarrow> unit result \<times> SessionManager" where
  "expire sha token m =
     (if sm_poisoned m then (Inl registry_unavailable, m)
      else (let token_digest = from_token sha token in
        case map_of (sm_sessions m) token_digest of
          None \<Rightarrow> (Inl missing_session, m)
        | Some stored \<Rightarrow> (Inr (), put_session token_digest (stored\<lparr>ss_state := Expired\<rparr>) m)))"

definition drain_expired ::
    "u64 \<Rightarrow> SessionManager \<Rightarrow> SessionTokenDigest list result \<times> SessionManager" where
  "drain_expired now m =
     (if sm_poisoned m then (Inl registry_unavailable, m)
      else (let expired_tokens =
                  expired_session_digests (sm_sessions m) now (sm_idle_timeout_secs m)
            in (Inr expired_tokens,
                m\<lparr>sm_sessions := remove_all expired_tokens (sm_sessions m)\<rparr>)))"

definition session_remove ::
    "(string \<Rightarrow> u8 list) \<Rightarrow> string \<Rightarrow> SessionManager
      \<Rightarrow> Session option result \<times> SessionManager" where
  "session_remove sha token m =
     (if sm_poisoned m then (Inl registry_unavailable, m)
      else (let digest = from_token sha token in
        (Inr (map_option
           (\<lambda>stored. \<lparr>se_token = token, se_user = ss_user stored, se_state = ss_state stored\<rparr>)
           (map_of (sm_sessions m) digest)),
         m\<lparr>sm_sessions := AList.delete digest (sm_sessions m)\<rparr>)))"

section \<open>Runs of the registry\<close>

text \<open>
  Every access goes through the mutex, so what concurrent clients do to the registry is a
  sequence of operations, each with its clock reading.
\<close>

datatype (plugins only: code size) SessionEvent =
    Create string string
  | Touch string
  | Hold string
  | DropHold SessionTokenDigest
  | Expire string
  | DrainExpired
  | Remove string

fun apply_event ::
    "(string \<Rightarrow> u8 list) \<Rightarrow> u64 \<Rightarrow> SessionEvent \<Rightarrow> SessionManager \<Rightarrow> SessionManager" where
  "apply_event sha now (Create uuid user) m = snd (create_draining_expired sha uuid now user m)"
| "apply_event sha now (Touch token) m = snd (touch sha now token m)"
| "apply_event sha now (Hold token) m = snd (hold sha now token m)"
| "apply_event sha now (DropHold digest) m = drop_hold digest m"
| "apply_event sha now (Expire token) m = snd (expire sha token m)"
| "apply_event sha now DrainExpired m = snd (drain_expired now m)"
| "apply_event sha now (Remove token) m = snd (session_remove sha token m)"

fun run_events ::
    "(string \<Rightarrow> u8 list) \<Rightarrow> (u64 \<times> SessionEvent) list \<Rightarrow> SessionManager \<Rightarrow> SessionManager" where
  "run_events sha [] m = m"
| "run_events sha ((now, ev) # evs) m = run_events sha evs (apply_event sha now ev m)"

text \<open>The same as a step relation on the registry and the clock, which does not go back.\<close>

inductive session_step ::
    "(string \<Rightarrow> u8 list) \<Rightarrow> SessionManager \<times> u64 \<Rightarrow> SessionManager \<times> u64 \<Rightarrow> bool"
  for sha where
  event: "t \<le> t' \<Longrightarrow> session_step sha (m, t) (apply_event sha t' ev m, t')"

inductive_cases session_stepE: "session_step sha s s'"
inductive_simps session_step_iff: "session_step sha (m, t) s'"

fun clock_ok :: "u64 \<Rightarrow> (u64 \<times> SessionEvent) list \<Rightarrow> bool" where
  "clock_ok t [] = True"
| "clock_ok t ((t', ev) # evs) = (t \<le> t' \<and> clock_ok t' evs)"

definition end_clock :: "u64 \<Rightarrow> (u64 \<times> SessionEvent) list \<Rightarrow> u64" where
  "end_clock t evs = (if evs = [] then t else fst (last evs))"

lemma run_events_steps:
  "clock_ok t evs \<Longrightarrow> (session_step sha)\<^sup>*\<^sup>* (m, t) (run_events sha evs m, end_clock t evs)"
proof (induction evs arbitrary: m t)
  case Nil
  then show ?case by (simp add: end_clock_def)
next
  case (Cons te evs)
  obtain t' ev where te: "te = (t', ev)" by (cases te)
  with Cons.prems have "session_step sha (m, t) (apply_event sha t' ev m, t')"
    by (auto intro: session_step.event)
  moreover have "end_clock t' evs = end_clock t (te # evs)" by (simp add: end_clock_def te)
  moreover have "(session_step sha)\<^sup>*\<^sup>* (apply_event sha t' ev m, t')
      (run_events sha evs (apply_event sha t' ev m), end_clock t' evs)"
    using Cons te by simp
  ultimately show ?case by (simp add: te converse_rtranclp_into_rtranclp)
qed

section \<open>What the operations do to the map\<close>

lemmas manager_defs =
  create_draining_expired_def touch_def hold_def drop_hold_def expire_def drain_expired_def
  session_remove_def put_session_def

lemma set_expired_session_digests:
  "wf_map ss \<Longrightarrow> d \<in> set (expired_session_digests ss now idle) \<longleftrightarrow>
     (\<exists>s. map_of ss d = Some s \<and> is_expired_at now idle s)"
  by (auto simp: expired_session_digests_def dest: wf_map_SomeI map_of_SomeD
      intro!: rev_image_eqI)

lemma distinct_expired_session_digests:
  "wf_map ss \<Longrightarrow> distinct (expired_session_digests ss now idle)"
  unfolding expired_session_digests_def wf_map_def
  by (induction ss) (auto simp: image_iff)

lemma apply_event_frame [simp]:
  "sm_poisoned (apply_event sha now ev m) = sm_poisoned m"
  "sm_idle_timeout_secs (apply_event sha now ev m) = sm_idle_timeout_secs m"
  "sm_limits (apply_event sha now ev m) = sm_limits m"
  by (cases ev; auto simp: manager_defs Let_def split: option.splits sum.splits)+

lemma apply_event_wf:
  "wf_map (sm_sessions m) \<Longrightarrow> wf_map (sm_sessions (apply_event sha now ev m))"
  by (cases ev) (auto simp: manager_defs Let_def split: option.splits sum.splits)

lemma run_events_frame [simp]:
  "sm_poisoned (run_events sha evs m) = sm_poisoned m"
  "sm_idle_timeout_secs (run_events sha evs m) = sm_idle_timeout_secs m"
  "sm_limits (run_events sha evs m) = sm_limits m"
  by (induction evs arbitrary: m) auto

lemma run_events_wf:
  "wf_map (sm_sessions m) \<Longrightarrow> wf_map (sm_sessions (run_events sha evs m))"
  by (induction evs arbitrary: m) (auto simp: apply_event_wf)

section \<open>Expiry\<close>

lemma is_expired_at_mono:
  "t \<le> t' \<Longrightarrow> is_expired_at t idle s \<Longrightarrow> is_expired_at t' idle s"
  by (auto simp: is_expired_at_def split: SessionState.splits if_splits
      intro: order_trans saturating_sub_mono)

lemma is_expired_at_Expired [simp]: "is_expired_at now idle (s\<lparr>ss_state := Expired\<rparr>)"
  by (simp add: is_expired_at_def)

lemma is_expired_at_held:
  "ss_state s = Active \<Longrightarrow> ss_hold_count s > 0 \<Longrightarrow> \<not> is_expired_at now idle s"
  by (simp add: is_expired_at_def)

definition sweep_sessions ::
    "u64 \<Rightarrow> u64 \<Rightarrow> (SessionTokenDigest, StoredSession) hash_map
      \<Rightarrow> (SessionTokenDigest, StoredSession) hash_map" where
  "sweep_sessions idle now ss = remove_all (expired_session_digests ss now idle) ss"

text \<open>Draining is a sweep in the sense of the prelude's contract.\<close>

interpretation session_store:
  expiring_store "\<lambda>s now. is_expired_at now idle s" "sweep_sessions idle" for idle
proof unfold_locales
  fix m :: "(SessionTokenDigest, StoredSession) hash_map" and now k
  assume "wf_map m"
  then show "map_of (sweep_sessions idle now m) k =
      (case map_of m k of None \<Rightarrow> None | Some v \<Rightarrow> if is_expired_at now idle v then None else Some v)"
    by (auto simp: sweep_sessions_def map_of_remove_all set_expired_session_digests
        split: option.splits)
qed (simp_all add: sweep_sessions_def is_expired_at_mono)

lemma drain_expired_sweeps:
  "\<not> sm_poisoned m \<Longrightarrow>
     sm_sessions (snd (drain_expired now m))
       = sweep_sessions (sm_idle_timeout_secs m) now (sm_sessions m)"
  by (simp add: drain_expired_def sweep_sessions_def Let_def)

section \<open>Capacity\<close>

text \<open>The sessions of the users in \<open>q\<close> that are active at a clock reading.\<close>

definition active_count :: "(string \<Rightarrow> bool) \<Rightarrow> SessionManager \<Rightarrow> u64 \<Rightarrow> nat" where
  "active_count q m now =
     count_values (\<lambda>s. q (ss_user s) \<and> \<not> is_expired_at now (sm_idle_timeout_secs m) s)
       (sm_sessions m)"

definition within_limits :: "SessionManager \<times> u64 \<Rightarrow> bool" where
  "within_limits = (\<lambda>(m, now). wf_map (sm_sessions m)
     \<and> (case max_global (sm_limits m) of None \<Rightarrow> True
         | Some mg \<Rightarrow> active_count (\<lambda>_. True) m now \<le> unat mg)
     \<and> (case max_per_user (sm_limits m) of None \<Rightarrow> True
         | Some mu \<Rightarrow> (\<forall>user. active_count (\<lambda>u. u = user) m now \<le> unat mu)))"

lemma active_count_mono: "t \<le> t' \<Longrightarrow> active_count q m t' \<le> active_count q m t"
  unfolding active_count_def
  by (rule count_values_mono) (auto dest: is_expired_at_mono)

lemma expired_after_touch:
  "is_expired_at now idle s \<Longrightarrow> \<not> is_expired_at now idle s' \<Longrightarrow>
     s' = s\<lparr>ss_hold_count := saturating_sub (ss_hold_count s) 1\<rparr> \<Longrightarrow> False"
  by (auto simp: is_expired_at_def word_gt0_nat unat_simps split: SessionState.splits if_splits)

lemma count_values_put:
  "map_of (sm_sessions m) d = Some s \<Longrightarrow>
     (q (ss_user s') \<and> \<not> is_expired_at now (sm_idle_timeout_secs m) s' \<Longrightarrow>
        q (ss_user s) \<and> \<not> is_expired_at now (sm_idle_timeout_secs m) s) \<Longrightarrow>
     active_count q (put_session d s' m) now \<le> active_count q m now"
  unfolding active_count_def put_session_def
  by simp (rule count_values_update_le; simp)

text \<open>Only creating a session makes one more active, and only for its user.\<close>

lemma active_count_event:
  assumes "\<And>uuid user. ev \<noteq> Create uuid user"
  shows "active_count q (apply_event sha now ev m) now \<le> active_count q m now"
proof (cases ev)
  case (Create uuid user)
  with assms show ?thesis by blast
next
  case DrainExpired
  then show ?thesis
    by (simp add: drain_expired_def Let_def active_count_def count_values_remove_all)
next
  case (Remove token)
  then show ?thesis
    by (simp add: session_remove_def Let_def active_count_def count_values_delete)
next
  case (Touch token)
  then show ?thesis
    by (auto simp: touch_def Let_def split: option.splits intro!: count_values_put)
next
  case (Hold token)
  then show ?thesis
    by (auto simp: hold_def Let_def split: option.splits intro!: count_values_put)
next
  case (DropHold digest)
  then show ?thesis
    by (auto simp: drop_hold_def split: option.splits intro!: count_values_put
        dest: expired_after_touch)
next
  case (Expire token)
  then show ?thesis
    by (auto simp: expire_def Let_def split: option.splits intro!: count_values_put)
qed

lemma active_count_create:
  assumes "create_draining_expired sha uuid now user m = (Inr (session, expired), m')"
  shows "active_count q m' now \<le> active_count q m now + (if q user then 1 else 0)"
proof -
  let ?p = "\<lambda>s. q (ss_user s) \<and> \<not> is_expired_at now (sm_idle_timeout_secs m) s"
  from assms have m': "m' = m\<lparr>sm_sessions :=
      AList.update (from_token sha (fresh_token uuid)) (new_session user now)
        (remove_all expired (sm_sessions m))\<rparr>"
    by (auto simp: create_draining_expired_def Let_def split: if_splits sum.splits)
  have "active_count q m' now
      \<le> count_values ?p (remove_all expired (sm_sessions m)) + (if q user then 1 else 0)"
    using count_values_insert_le [of ?p]
    by (fastforce simp: m' active_count_def new_session_def intro: order_trans)
  also have "count_values ?p (remove_all expired (sm_sessions m)) \<le> active_count q m now"
    by (simp add: active_count_def count_values_remove_all)
  finally show ?thesis by simp
qed

lemma below_u64: "c \<le> unat w \<Longrightarrow> \<not> w \<le> of_nat c \<Longrightarrow> c < unat w" for w :: u64
proof -
  assume le: "c \<le> unat w" and nle: "\<not> w \<le> of_nat c"
  have "unat w < 2 ^ LENGTH(64)" by (rule unsigned_less)
  with le have "c < 2 ^ LENGTH(64)" by (rule le_less_trans)
  then have "unat (of_nat c :: u64) = c" by (simp add: unat_of_nat_small)
  with nle show "c < unat w" by (simp add: word_le_nat_alt)
qed

lemma create_within_limits:
  assumes inv: "within_limits (m, now)"
    and ok: "create_draining_expired sha uuid now user m = (Inr (session, expired), m')"
  shows "within_limits (m', now)"
proof -
  note count = active_count_create [OF ok]
  have m': "m' = apply_event sha now (Create uuid user) m" using ok by simp
  have wf: "wf_map (sm_sessions m')" using inv unfolding m'
    by (intro apply_event_wf) (simp add: within_limits_def)
  have enforced: "enforce_session_limits (sm_sessions m) user (sm_limits m) now
      (sm_idle_timeout_secs m) = Inr ()"
    using ok by (auto simp: create_draining_expired_def Let_def split: if_splits sum.splits)
  have global: "active_count (\<lambda>_. True) m now < unat mg" if mg: "max_global (sm_limits m) = Some mg" for mg
    using inv enforced mg
    by (intro below_u64) (auto simp: within_limits_def enforce_session_limits_def Let_def
        active_count_def and_then_eq_Inr split: if_splits)
  have per_user: "active_count (\<lambda>u. u = user) m now < unat mu"
    if mu: "max_per_user (sm_limits m) = Some mu" for mu
    using inv enforced mu
    by (intro below_u64) (auto simp: within_limits_def enforce_session_limits_def Let_def
        active_count_def and_then_eq_Inr split: if_splits)
  have same: "sm_limits m' = sm_limits m" by (simp add: m' del: apply_event.simps)
  have "active_count (\<lambda>u. u = other) m' now \<le> unat mu"
    if mu: "max_per_user (sm_limits m) = Some mu" for mu other
  proof (cases "other = user")
    case True
    then show ?thesis using count [of "\<lambda>u. u = user"] per_user [OF mu] by simp
  next
    case False
    have "active_count (\<lambda>u. u = other) m now \<le> unat mu"
      using inv mu by (simp add: within_limits_def)
    then show ?thesis using count [of "\<lambda>u. u = other"] False by auto
  qed
  moreover have "active_count (\<lambda>_. True) m' now \<le> unat mg"
    if mg: "max_global (sm_limits m) = Some mg" for mg
    using count [of "\<lambda>_. True"] global [OF mg] by simp
  ultimately show ?thesis using wf by (simp add: within_limits_def same split: option.splits)
qed

lemma event_within_limits:
  assumes inv: "within_limits (m, now)"
  shows "within_limits (apply_event sha now ev m, now)"
proof (cases "\<exists>uuid user. ev = Create uuid user")
  case True
  then obtain uuid user where ev: "ev = Create uuid user" by blast
  obtain r m' where rm: "create_draining_expired sha uuid now user m = (r, m')"
    by (cases "create_draining_expired sha uuid now user m")
  show ?thesis
  proof (cases r)
    case (Inl e)
    then have "m' = m" using rm
      by (auto simp: create_draining_expired_def Let_def split: if_splits sum.splits)
    then show ?thesis using inv rm ev by simp
  next
    case (Inr p)
    then show ?thesis using create_within_limits [OF inv] rm ev by (cases p) simp
  qed
next
  case False
  then have le: "active_count q (apply_event sha now ev m) now \<le> active_count q m now" for q
    by (intro active_count_event) blast
  have wf: "wf_map (sm_sessions (apply_event sha now ev m))"
    using inv by (simp add: within_limits_def apply_event_wf)
  show ?thesis using inv wf le
    by (auto simp: within_limits_def split: option.splits intro: order_trans [OF le])
qed

lemma clock_within_limits: "within_limits (m, t) \<Longrightarrow> t \<le> t' \<Longrightarrow> within_limits (m, t')"
  using active_count_mono [of t t' _ m]
  by (auto simp: within_limits_def split: option.splits intro: order_trans)

definition fresh_registry :: "SessionManager \<times> u64 \<Rightarrow> bool" where
  "fresh_registry = (\<lambda>(m, t). sm_sessions m = [])"

interpretation session_machine: safe_machine fresh_registry "session_step sha" within_limits for sha
proof unfold_locales
  show "fresh_registry s \<Longrightarrow> within_limits s" for s
    by (auto simp: fresh_registry_def within_limits_def active_count_def split: option.splits)
  show "within_limits s \<Longrightarrow> session_step sha s t \<Longrightarrow> within_limits t" for s t
    by (auto elim!: session_stepE intro: event_within_limits clock_within_limits)
qed

section \<open>The registry as a map\<close>

text \<open>
  What the registry promises, on the partial map from digests to sessions alone: no lists, no
  iteration order, no counters of limited width.
\<close>

definition live :: "u64 \<Rightarrow> u64 \<Rightarrow> (SessionTokenDigest \<rightharpoonup> StoredSession) \<Rightarrow> SessionTokenDigest set" where
  "live idle now \<sigma> = {d. \<exists>s. \<sigma> d = Some s \<and> \<not> is_expired_at now idle s}"

definition live_of ::
    "string \<Rightarrow> u64 \<Rightarrow> u64 \<Rightarrow> (SessionTokenDigest \<rightharpoonup> StoredSession) \<Rightarrow> SessionTokenDigest set" where
  "live_of user idle now \<sigma> = {d. \<exists>s. \<sigma> d = Some s \<and> ss_user s = user \<and> \<not> is_expired_at now idle s}"

definition full :: "u64 option \<Rightarrow> nat \<Rightarrow> bool" where
  "full limit n = (case limit of None \<Rightarrow> False | Some l \<Rightarrow> unat l \<le> n)"

fun session_spec ::
    "(string \<Rightarrow> u8 list) \<Rightarrow> u64 \<Rightarrow> SessionLimits \<Rightarrow> u64 \<Rightarrow> SessionEvent
      \<Rightarrow> (SessionTokenDigest \<rightharpoonup> StoredSession) \<Rightarrow> (SessionTokenDigest \<rightharpoonup> StoredSession)" where
  "session_spec sha idle limits now (Create uuid user) \<sigma> =
     (if full (max_global limits) (card (live idle now \<sigma>))
         \<or> full (max_per_user limits) (card (live_of user idle now \<sigma>))
      then \<sigma>
      else (\<sigma> |` live idle now \<sigma>)(sha (fresh_token uuid) \<mapsto> new_session user now))"
| "session_spec sha idle limits now (Touch token) \<sigma> =
     (case \<sigma> (sha token) of None \<Rightarrow> \<sigma>
      | Some s \<Rightarrow> \<sigma>(sha token \<mapsto>
          if sha token \<in> live idle now \<sigma> then s\<lparr>ss_last_used_at := now\<rparr> else s\<lparr>ss_state := Expired\<rparr>))"
| "session_spec sha idle limits now (Hold token) \<sigma> =
     (case \<sigma> (sha token) of None \<Rightarrow> \<sigma>
      | Some s \<Rightarrow> \<sigma>(sha token \<mapsto>
          if sha token \<in> live idle now \<sigma>
          then s\<lparr>ss_hold_count := saturating_add (ss_hold_count s) 1, ss_last_used_at := now\<rparr>
          else s\<lparr>ss_state := Expired\<rparr>))"
| "session_spec sha idle limits now (DropHold d) \<sigma> =
     (case \<sigma> d of None \<Rightarrow> \<sigma>
      | Some s \<Rightarrow> \<sigma>(d \<mapsto> s\<lparr>ss_hold_count := saturating_sub (ss_hold_count s) 1\<rparr>))"
| "session_spec sha idle limits now (Expire token) \<sigma> =
     (case \<sigma> (sha token) of None \<Rightarrow> \<sigma> | Some s \<Rightarrow> \<sigma>(sha token \<mapsto> s\<lparr>ss_state := Expired\<rparr>))"
| "session_spec sha idle limits now DrainExpired \<sigma> = \<sigma> |` live idle now \<sigma>"
| "session_spec sha idle limits now (Remove token) \<sigma> = \<sigma>(sha token := None)"

lemma map_of_drained:
  "wf_map ss \<Longrightarrow>
     map_of (remove_all (expired_session_digests ss now idle) ss) = map_of ss |` live idle now (map_of ss)"
  by (auto simp: fun_eq_iff map_of_remove_all set_expired_session_digests live_def restrict_map_def
      split: option.splits)

lemma enforce_full:
  assumes "wf_map ss" and len: "length ss < 2 ^ 64"
  shows "enforce_session_limits ss user limits now idle
     = (if full (max_global limits) (card (live idle now (map_of ss)))
        then Inl (TooManyRequests ''global session limit exceeded'')
        else if full (max_per_user limits) (card (live_of user idle now (map_of ss)))
        then Inl (TooManyRequests ''per-user session limit exceeded'') else Inr ())"
proof -
  have small: "unat (of_nat (count_values p ss) :: u64) = count_values p ss" for p
    using count_values_le_length [of p ss] len by (simp add: unat_of_nat_small)
  have card:
    "card (live idle now (map_of ss)) = count_values (\<lambda>s. \<not> is_expired_at now idle s) ss"
    "card (live_of user idle now (map_of ss))
       = count_values (\<lambda>s. ss_user s = user \<and> \<not> is_expired_at now idle s) ss"
    by (simp_all add: live_def live_of_def count_values_card [OF assms(1)])
  show ?thesis
    by (simp add: card enforce_session_limits_def Let_def full_def word_le_nat_alt small
        split: option.splits)
qed

text \<open>Facts about one session that events do not change.\<close>

definition session_dead :: "SessionTokenDigest \<Rightarrow> SessionManager \<times> u64 \<Rightarrow> bool" where
  "session_dead d = (\<lambda>(m, t). case map_of (sm_sessions m) d of None \<Rightarrow> True
     | Some s \<Rightarrow> is_expired_at t (sm_idle_timeout_secs m) s)"

definition creates :: "(string \<Rightarrow> u8 list) \<Rightarrow> SessionTokenDigest \<Rightarrow> SessionEvent \<Rightarrow> bool" where
  "creates sha d ev =
     (case ev of Create uuid user \<Rightarrow> sha (fresh_token uuid) = d | _ \<Rightarrow> False)"

definition releases :: "(string \<Rightarrow> u8 list) \<Rightarrow> SessionTokenDigest \<Rightarrow> SessionEvent \<Rightarrow> bool" where
  "releases sha d ev =
     (case ev of DropHold d' \<Rightarrow> d' = d | Expire token \<Rightarrow> sha token = d
      | Remove token \<Rightarrow> sha token = d | _ \<Rightarrow> False)"

lemma apply_event_spec:
  assumes "\<not> sm_poisoned m" and "wf_map (sm_sessions m)" and "length (sm_sessions m) < 2 ^ 64"
  shows "map_of (sm_sessions (apply_event sha now ev m))
     = session_spec sha (sm_idle_timeout_secs m) (sm_limits m) now ev (map_of (sm_sessions m))"
  using assms
  by (cases ev) (auto simp: manager_defs Let_def from_token_def enforce_full map_of_drained live_def
      split: option.splits)

lemma apply_event_dead:
  assumes "wf_map (sm_sessions m)" and "session_dead d (m, t)" and "t \<le> t'" and "\<not> creates sha d ev"
  shows "session_dead d (apply_event sha t' ev m, t')"
proof -
  have dead: "session_dead d (m, t')"
    using assms(2,3) by (auto simp: session_dead_def split: option.splits dest: is_expired_at_mono)
  show ?thesis
  proof (cases ev)
    case (DropHold d')
    then show ?thesis using dead
      by (auto simp: session_dead_def drop_hold_def put_session_def split: option.splits
          dest: expired_after_touch)
  qed (use dead assms(1,4) in \<open>auto simp: session_dead_def manager_defs creates_def Let_def from_token_def
      map_of_drained restrict_map_def split: option.splits sum.splits if_splits\<close>)
qed

lemma run_events_dead:
  "wf_map (sm_sessions m) \<Longrightarrow> session_dead d (m, t) \<Longrightarrow> clock_ok t evs \<Longrightarrow>
     list_all (\<lambda>(t, ev). \<not> creates sha d ev) evs \<Longrightarrow>
     session_dead d (run_events sha evs m, end_clock t evs)"
proof (induction evs arbitrary: m t)
  case Nil
  then show ?case by (simp add: end_clock_def)
next
  case (Cons te evs)
  obtain t' ev where te: "te = (t', ev)" by (cases te)
  have "session_dead d (apply_event sha t' ev m, t')"
    using Cons.prems te by (intro apply_event_dead) auto
  with Cons have "session_dead d (run_events sha evs (apply_event sha t' ev m), end_clock t' evs)"
    by (intro Cons.IH) (auto simp: te apply_event_wf)
  then show ?case by (simp add: te end_clock_def split: if_splits)
qed

definition session_held :: "SessionTokenDigest \<Rightarrow> string \<Rightarrow> SessionManager \<Rightarrow> bool" where
  "session_held d user m =
     (case map_of (sm_sessions m) d of None \<Rightarrow> False
      | Some s \<Rightarrow> ss_user s = user \<and> ss_state s = Active \<and> ss_hold_count s > 0)"

lemma saturating_add_pos: "(0 :: u64) < saturating_add w 1"
  by (simp add: word_gt0_nat unat_simps)

lemma apply_event_held:
  assumes "wf_map (sm_sessions m)" and "session_held d user m"
    and "\<not> creates sha d ev" and "\<not> releases sha d ev"
  shows "session_held d user (apply_event sha now ev m)"
  using assms
  by (cases ev) (auto simp: session_held_def manager_defs creates_def releases_def Let_def
      from_token_def map_of_drained restrict_map_def live_def is_expired_at_held saturating_add_pos
      split: option.splits sum.splits if_splits)

lemma run_events_held:
  "wf_map (sm_sessions m) \<Longrightarrow> session_held d user m \<Longrightarrow>
     list_all (\<lambda>(t, ev). \<not> creates sha d ev \<and> \<not> releases sha d ev) evs \<Longrightarrow>
     session_held d user (run_events sha evs m)"
proof (induction evs arbitrary: m)
  case (Cons te evs)
  obtain t' ev where te: "te = (t', ev)" by (cases te)
  then have "session_held d user (apply_event sha t' ev m)"
    using Cons.prems by (intro apply_event_held) auto
  then show ?case using Cons te by (simp add: apply_event_wf)
qed simp

lemma held_not_expired:
  "session_held d user m \<Longrightarrow>
     \<exists>s. map_of (sm_sessions m) d = Some s \<and> ss_user s = user \<and> \<not> is_expired_at now idle s"
  by (auto simp: session_held_def is_expired_at_held split: option.splits)

lemma hold_held:
  "hold sha now token m = (Inr d, m') \<Longrightarrow>
     d = sha token \<and> \<not> sm_poisoned m'
     \<and> (\<exists>s. map_of (sm_sessions m) d = Some s \<and> session_held d (ss_user s) m')"
  by (auto simp: hold_def put_session_def session_held_def from_token_def Let_def saturating_add_pos
      is_expired_at_def split: if_splits option.splits SessionState.splits)

lemma hold_wf: "hold sha now token m = (r, m') \<Longrightarrow> wf_map (sm_sessions m) \<Longrightarrow> wf_map (sm_sessions m')"
  using apply_event_wf [of m sha now "Hold token"] by simp

section \<open>Properties\<close>

text \<open>
  C1. The session registry never exceeds its limits: after any sequence of operations with a
  clock that does not go back, from an empty registry, the sessions active at the last clock
  reading are at most \<open>max_global\<close>, and those of each user at most \<open>max_per_user\<close>.
\<close>

theorem session_capacity:
  assumes "clock_ok t evs"
  shows "(case max_global limits of None \<Rightarrow> True
     | Some mg \<Rightarrow> active_count (\<lambda>_. True) (run_events sha evs (with_limits idle limits)) (end_clock t evs) \<le> unat mg)
   \<and> (case max_per_user limits of None \<Rightarrow> True
     | Some mu \<Rightarrow> (\<forall>user. active_count (\<lambda>u. u = user) (run_events sha evs (with_limits idle limits)) (end_clock t evs)
         \<le> unat mu))"
proof -
  have "fresh_registry (with_limits idle limits, t)" by (simp add: fresh_registry_def with_limits_def)
  from session_machine.reachable_inv [OF this run_events_steps [OF assms]]
  show ?thesis by (simp add: within_limits_def) (simp add: with_limits_def)
qed

definition one_digest :: "string \<Rightarrow> u8 list" where
  "one_digest token = map of_char token"

theorem session_capacity_witness:
  "active_count (\<lambda>u. u = ''ann'')
     (run_events one_digest [(5, Create ''a'' ''ann''), (6, Create ''b'' ''ann''), (7, Create ''c'' ''ann'')]
       (with_limits 60 \<lparr>max_global = Some 3, max_per_user = Some 2\<rparr>)) 7 \<le> 2"
  using session_capacity [where t = 5 and evs = "[(5, Create ''a'' ''ann''), (6, Create ''b'' ''ann''), (7, Create ''c'' ''ann'')]"
      and limits = "\<lparr>max_global = Some 3, max_per_user = Some 2\<rparr>" and sha = one_digest and idle = 60]
  by (simp add: end_clock_def)

text \<open>
  C4. The registry implements its specification on partial maps: for every operation, the map
  after it is the specified one, with exact counts in place of the 64-bit counters and
  whatever the iteration order of the hash map.
\<close>

theorem session_registry_refines_map:
  assumes "\<not> sm_poisoned m" and "wf_map (sm_sessions m)" and "length (sm_sessions m) < 2 ^ 64"
  shows "map_of (sm_sessions (apply_event sha now ev m))
     = session_spec sha (sm_idle_timeout_secs m) (sm_limits m) now ev (map_of (sm_sessions m))"
  by (rule apply_event_spec) fact+

theorem session_registry_refines_map_witness:
  "map_of (sm_sessions (apply_event one_digest 9 (Create ''a'' ''ann'') (new_manager 60)))
     = session_spec one_digest 60 default_limits 9 (Create ''a'' ''ann'') Map.empty"
  using session_registry_refines_map [of "new_manager 60" one_digest 9 "Create ''a'' ''ann''"]
  by (simp add: new_manager_def with_limits_def del: apply_event.simps session_spec.simps)

text \<open>
  What creating a session answers. It fails, changing nothing, with the global limit's
  error when that many sessions are active, else with the user's error when that many of the
  user's are; otherwise it returns the new token and, without repetition, exactly the digests
  of the sessions that had expired, so that each of their connections is closed once.
\<close>

lemma create_draining_expired_result:
  assumes "\<not> sm_poisoned m" and "wf_map (sm_sessions m)" and "length (sm_sessions m) < 2 ^ 64"
    and "create_draining_expired sha uuid now user m = (r, m')"
  shows "case r of
      Inl e \<Rightarrow> m' = m \<and>
        (if full (max_global (sm_limits m)) (card (live (sm_idle_timeout_secs m) now (map_of (sm_sessions m))))
         then e = TooManyRequests ''global session limit exceeded''
         else full (max_per_user (sm_limits m))
                (card (live_of user (sm_idle_timeout_secs m) now (map_of (sm_sessions m))))
              \<and> e = TooManyRequests ''per-user session limit exceeded'')
    | Inr (session, digests) \<Rightarrow>
        session = \<lparr>se_token = fresh_token uuid, se_user = user, se_state = Active\<rparr>
        \<and> distinct digests
        \<and> set digests = dom (map_of (sm_sessions m))
            - live (sm_idle_timeout_secs m) now (map_of (sm_sessions m))"
  using assms
  by (auto simp: create_draining_expired_def Let_def enforce_full distinct_expired_session_digests
      set_expired_session_digests live_def split: if_splits)

lemma create_draining_expired_result_witness:
  "\<exists>session digests m'. create_draining_expired one_digest ''b'' 100 ''bob''
       (apply_event one_digest 9 (Create ''a'' ''ann'') (new_manager 60)) = (Inr (session, digests), m')
     \<and> digests = [one_digest (fresh_token ''a'')] \<and> distinct digests"
proof -
  let ?m = "apply_event one_digest 9 (Create ''a'' ''ann'') (new_manager 60)"
  let ?r = "create_draining_expired one_digest ''b'' 100 ''bob'' ?m"
  have ss: "sm_sessions ?m = [(one_digest (fresh_token ''a''), new_session ''ann'' 9)]"
    by (simp add: create_draining_expired_def new_manager_def with_limits_def default_limits_def
        DEFAULT_MAX_GLOBAL_SESSIONS_def DEFAULT_MAX_SESSIONS_PER_USER_def enforce_session_limits_def
        expired_session_digests_def remove_all_def from_token_def Let_def)
  have "fst ?r = Inr (\<lparr>se_token = fresh_token ''b'', se_user = ''bob'', se_state = Active\<rparr>,
      [one_digest (fresh_token ''a'')])"
    unfolding create_draining_expired_def ss apply_event_frame
    by (simp add: new_manager_def with_limits_def default_limits_def Let_def
        DEFAULT_MAX_GLOBAL_SESSIONS_def DEFAULT_MAX_SESSIONS_PER_USER_def enforce_session_limits_def
        expired_session_digests_def new_session_def is_expired_at_def saturating_sub_def)
  then obtain m' where r: "?r = (Inr (\<lparr>se_token = fresh_token ''b'', se_user = ''bob'', se_state = Active\<rparr>,
      [one_digest (fresh_token ''a'')]), m')" by (metis prod.collapse)
  have "\<not> sm_poisoned ?m" by (simp add: new_manager_def with_limits_def del: apply_event.simps)
  from create_draining_expired_result [OF this _ _ r] show ?thesis
    using r by (simp add: ss wf_map_def del: apply_event.simps)
qed

text \<open>
  C10. An expired session is never used again: once a session is gone or expired, no sequence
  of operations with a clock that does not go back, short of creating a session of the same
  digest, makes touching or holding its token succeed.
\<close>

theorem expired_session_stays_dead:
  assumes "wf_map (sm_sessions m)" and "session_dead (sha token) (m, t)" and "clock_ok t evs"
    and "list_all (\<lambda>(t, ev). \<not> creates sha (sha token) ev) evs" and "end_clock t evs \<le> t'"
  shows "\<not> is_ok (fst (touch sha t' token (run_events sha evs m)))
       \<and> \<not> is_ok (fst (hold sha t' token (run_events sha evs m)))"
proof -
  have "session_dead (sha token) (run_events sha evs m, end_clock t evs)"
    using assms(1-4) by (rule run_events_dead)
  then have "case map_of (sm_sessions (run_events sha evs m)) (sha token) of None \<Rightarrow> True
     | Some s \<Rightarrow> is_expired_at t' (sm_idle_timeout_secs m) s"
    using assms(5) by (auto simp: session_dead_def split: option.splits dest: is_expired_at_mono)
  then show ?thesis
    by (auto simp: touch_def hold_def from_token_def Let_def split: option.splits)
qed

theorem expired_session_stays_dead_witness:
  "\<not> is_ok (fst (touch one_digest 80 ''x'' (run_events one_digest [(70, Touch ''x''), (75, Hold ''x'')]
      ((new_manager 60)\<lparr>sm_sessions := [(one_digest ''x'', new_session ''ann'' 9)]\<rparr>))))"
  using expired_session_stays_dead [of "(new_manager 60)\<lparr>sm_sessions := [(one_digest ''x'', new_session ''ann'' 9)]\<rparr>"
      one_digest "''x''" 70 "[(70, Touch ''x''), (75, Hold ''x'')]" 80]
  by (simp add: wf_map_def session_dead_def new_manager_def with_limits_def new_session_def
      is_expired_at_def saturating_sub_def creates_def end_clock_def
      del: run_events.simps)

text \<open>
  C17. A hold keeps a session usable: after a successful hold, and until its own release, an
  explicit expiry or a removal, no operation at any clock reading, drains included, removes
  or expires the session, and touching its token succeeds.
\<close>

theorem held_session_survives:
  assumes "hold sha now token m = (Inr d, m')" and "wf_map (sm_sessions m)"
    and "list_all (\<lambda>(t, ev). \<not> creates sha d ev \<and> \<not> releases sha d ev) evs"
  shows "\<exists>s. map_of (sm_sessions m) d = Some s
     \<and> fst (touch sha t' token (run_events sha evs m'))
         = Inr \<lparr>se_token = token, se_user = ss_user s, se_state = Active\<rparr>"
proof -
  from hold_held [OF assms(1)] obtain s where d: "d = sha token" and "\<not> sm_poisoned m'"
    and s: "map_of (sm_sessions m) d = Some s" and held: "session_held d (ss_user s) m'" by blast
  have "session_held d (ss_user s) (run_events sha evs m')"
    using hold_wf [OF assms(1,2)] held assms(3) by (rule run_events_held)
  from held_not_expired [OF this, of t' "sm_idle_timeout_secs m'"] obtain s' where
    "map_of (sm_sessions (run_events sha evs m')) d = Some s'" "ss_user s' = ss_user s"
    "\<not> is_expired_at t' (sm_idle_timeout_secs m') s'" by blast
  then show ?thesis
    using \<open>\<not> sm_poisoned m'\<close> s by (simp add: touch_def Let_def from_token_def d)
qed

theorem held_session_survives_witness:
  "fst (touch one_digest 1000 ''x'' (run_events one_digest [(500, DrainExpired)]
      (snd (hold one_digest 10 ''x'' ((new_manager 60)\<lparr>sm_sessions := [(one_digest ''x'', new_session ''ann'' 9)]\<rparr>)))))
    = Inr \<lparr>se_token = ''x'', se_user = ''ann'', se_state = Active\<rparr>"
proof -
  let ?m = "(new_manager 60)\<lparr>sm_sessions := [(one_digest ''x'', new_session ''ann'' 9)]\<rparr>"
  have "fst (hold one_digest 10 ''x'' ?m) = Inr (one_digest ''x'')"
    by (simp add: hold_def new_manager_def with_limits_def from_token_def Let_def new_session_def
        is_expired_at_def saturating_sub_def word_le_nat_alt)
  then have h: "hold one_digest 10 ''x'' ?m = (Inr (one_digest ''x''), snd (hold one_digest 10 ''x'' ?m))"
    by (metis prod.collapse)
  from held_session_survives [OF h, of "[(500, DrainExpired)]" 1000] show ?thesis
    by (simp add: wf_map_def creates_def releases_def new_session_def del: run_events.simps)
qed

text \<open>
  The remaining time that session inspection reports is exact: for a session that is not
  held, last used no later than now, under an idle timeout below 2^63 seconds, a touch at a
  later time succeeds if and only if less than the reported number of seconds has passed, when
  nothing else uses the session in between.
\<close>

lemma get_info_deadline:
  assumes info: "get_info sha now token m = Inr i"
    and stored: "map_of (sm_sessions m) (sha token) = Some s"
    and free: "ss_hold_count s = 0" and used: "ss_last_used_at s \<le> now"
    and idle: "unat (sm_idle_timeout_secs m) < 2 ^ 63" and later: "now \<le> t'"
  shows "is_ok (fst (touch sha t' token m)) \<longleftrightarrow>
      si_state i = Active \<and> int (unat t') < int (unat now) + si_expires_in i"
proof -
  have sint: "sint w = int (unat w)" if "unat w \<le> unat (sm_idle_timeout_secs m)" for w :: u64
  proof -
    have "unat w < 2 ^ 63" using that idle by (rule le_less_trans)
    then have "int (unat w) < 2 ^ 63" by (simp flip: of_nat_less_iff [where 'a = int])
    then have "uint w < 2 ^ 63" by simp
    moreover have "- (2 ^ 63) \<le> uint w" by (rule order_trans [OF _ uint_ge_0]) simp
    ultimately show ?thesis
      by (simp add: sint_uint signed_take_bit_int_eq_self)
  qed
  have up: "is_ok (fst (touch sha t' token m)) \<longleftrightarrow> \<not> is_expired_at t' (sm_idle_timeout_secs m) s"
    using info stored by (auto simp: get_info_def touch_def from_token_def Let_def split: if_splits)
  have "unat (saturating_sub (sm_idle_timeout_secs m) w) \<le> unat (sm_idle_timeout_secs m)" for w
    by (simp add: unat_simps)
  note remaining = sint [OF this, unfolded unat_saturating_sub]
  show ?thesis
    unfolding up using info stored free used later
    by (auto simp: get_info_def from_token_def Let_def is_expired_at_def word_le_nat_alt remaining
        unat_saturating_sub simp del: of_nat_unat split: if_splits SessionState.splits)
qed

lemma get_info_deadline_witness:
  "\<exists>i. get_info one_digest 29 ''x''
      ((new_manager 60)\<lparr>sm_sessions := [(one_digest ''x'', new_session ''ann'' 9)]\<rparr>) = Inr i
    \<and> si_expires_in i = 40
    \<and> is_ok (fst (touch one_digest 68 ''x''
        ((new_manager 60)\<lparr>sm_sessions := [(one_digest ''x'', new_session ''ann'' 9)]\<rparr>)))"
proof -
  let ?m = "(new_manager 60)\<lparr>sm_sessions := [(one_digest ''x'', new_session ''ann'' 9)]\<rparr>"
  let ?i = "\<lparr>si_token = ''x'', si_user = ''ann'', si_state = Active, si_created_at = 9,
      si_last_used_at = 9, si_expires_in = 40\<rparr>"
  have i: "get_info one_digest 29 ''x'' ?m = Inr ?i"
    by (simp add: get_info_def new_manager_def with_limits_def from_token_def Let_def
        new_session_def is_expired_at_def saturating_sub_def)
  from get_info_deadline [OF i, of "new_session ''ann'' 9" 68] i show ?thesis
    by (simp add: new_session_def new_manager_def with_limits_def)
qed

end
