(* ===== verification/Rfc3339.thy ===== *)
theory Rfc3339
  imports Text "HOL-Library.Signed_Division"
begin

text \<open>
  Timestamps: \<open>format_rfc3339\<close> of \<open>crates/gvm-gateway-domain/src/time.rs\<close>, and its
  correctness against the Gregorian calendar given by its day-to-day successor function.
\<close>

section \<open>The code\<close>

text \<open>
  The civil date of a day number (days since 1970-01-01). The signed intermediate values are
  \<open>i64\<close> in the code with truncating division; none of them overflows, since a \<open>u64\<close> number
  of seconds is less than 2.2e14 days.
\<close>

definition civil_from_days :: "int \<Rightarrow> int \<times> nat \<times> nat" where
  "civil_from_days days =
     (let z = days + 719468;
          era = (if 0 \<le> z then z else z - 146096) sdiv 146097;
          doe = nat (z - era * 146097);
          yoe = (doe - doe div 1460 + doe div 36524 - doe div 146096) div 365;
          y = int yoe + era * 400;
          doy = doe - (365 * yoe + yoe div 4 - yoe div 100);
          mp = (5 * doy + 2) div 153;
          day = doy - (153 * mp + 2) div 5 + 1;
          month = (if mp < 10 then mp + 3 else mp - 9);
          year = (if month \<le> 2 then y + 1 else y)
      in (year, month, day))"

definition format_rfc3339 :: "u64 \<Rightarrow> string" where
  "format_rfc3339 epoch_secs =
     (let days = int (unat (epoch_secs div 86400));
          time_secs = unat (epoch_secs mod 86400);
          hours = time_secs div 3600;
          minutes = (time_secs mod 3600) div 60;
          seconds = time_secs mod 60;
          (year, month, day) = civil_from_days days
      in show_padded 4 (nat year) @ ''-'' @ show_padded 2 month @ ''-'' @ show_padded 2 day
         @ ''T'' @ show_padded 2 hours @ '':'' @ show_padded 2 minutes @ '':''
         @ show_padded 2 seconds @ ''Z'')"

section \<open>The calendar\<close>

definition leap :: "nat \<Rightarrow> bool" where
  "leap y \<longleftrightarrow> y mod 4 = 0 \<and> (y mod 100 \<noteq> 0 \<or> y mod 400 = 0)"

definition days_in_month :: "nat \<Rightarrow> nat \<Rightarrow> nat" where
  "days_in_month y m =
     (if m = 2 then (if leap y then 29 else 28)
      else if m = 4 \<or> m = 6 \<or> m = 9 \<or> m = 11 then 30 else 31)"

fun next_day :: "nat \<times> nat \<times> nat \<Rightarrow> nat \<times> nat \<times> nat" where
  "next_day (y, m, d) =
     (if d < days_in_month y m then (y, m, Suc d)
      else if m < 12 then (y, Suc m, 1) else (Suc y, 1, 1))"

text \<open>The date \<open>n\<close> days after the epoch, by walking there one day at a time.\<close>

definition calendar_date :: "nat \<Rightarrow> nat \<times> nat \<times> nat" where
  "calendar_date n = (next_day ^^ n) (1970, 1, 1)"

section \<open>Years that begin in March\<close>

text \<open>
  The algorithm counts years from 1 March, so that the leap day is the last of its year.
  \<open>march_start y\<close> is the day number, from 0000-03-01, on which the March year \<open>y\<close> starts.
\<close>

definition march_start :: "nat \<Rightarrow> nat" where
  "march_start y = 365 * y + y div 4 - y div 100 + y div 400"

definition march_len :: "nat \<Rightarrow> nat" where
  "march_len y = (if leap (Suc y) then 366 else 365)"

lemma div_Suc_mod: "0 < k \<Longrightarrow> Suc y div k = y div k + (if Suc y mod k = 0 then 1 else 0)"
  for y k :: nat
  by (simp add: div_Suc)

lemma march_start_Suc: "march_start (Suc y) = march_start y + march_len y"
proof -
  obtain k where k: "y div 4 = y div 100 + k"
    using div_le_mono2 [of 4 100 y] le_Suc_ex by auto
  have "Suc y mod 400 = 0 \<Longrightarrow> Suc y mod 100 = 0" "Suc y mod 100 = 0 \<Longrightarrow> Suc y mod 4 = 0"
    using mod_mod_cancel [of 100 400 "Suc y"] mod_mod_cancel [of 4 100 "Suc y"] by simp_all
  with k show ?thesis
    by (auto simp: march_start_def march_len_def leap_def div_Suc_mod)
qed

lemma march_start_mono: "y \<le> y' \<Longrightarrow> march_start y \<le> march_start y'"
  by (rule lift_Suc_mono_le) (simp_all add: march_start_Suc)

lemma march_len_pos: "0 < march_len y"
  by (simp add: march_len_def)

text \<open>A day number determines its March year and the day within it.\<close>

lemma march_unique:
  assumes "march_start y + d = march_start y' + d'" and "d < march_len y" and "d' < march_len y'"
  shows "y = y' \<and> d = d'"
proof -
  have "\<not> y < y'"
  proof
    assume "y < y'"
    then have "march_start (Suc y) \<le> march_start y'" by (simp add: march_start_mono)
    with assms show False by (simp add: march_start_Suc)
  qed
  moreover have "\<not> y' < y"
  proof
    assume "y' < y"
    then have "march_start (Suc y') \<le> march_start y" by (simp add: march_start_mono)
    with assms show False by (simp add: march_start_Suc)
  qed
  ultimately have "y = y'" by simp
  with assms(1) show ?thesis by simp
qed

lemma march_exists: "\<exists>y d. n = march_start y + d \<and> d < march_len y"
proof (induction n)
  case 0
  show ?case
    by (rule exI [of _ 0], rule exI [of _ 0]) (simp add: march_start_def march_len_def)
next
  case (Suc n)
  then obtain y d where n: "n = march_start y + d" "d < march_len y" by blast
  show ?case
  proof (cases "Suc d < march_len y")
    case True
    with n have "Suc n = march_start y + Suc d" by simp
    with True show ?thesis by blast
  next
    case False
    with n have "Suc n = march_start (Suc y) + 0" by (simp add: march_start_Suc)
    then show ?thesis using march_len_pos by blast
  qed
qed

text \<open>The cycle of 400 years.\<close>

lemma march_start_cycle: "march_start (400 * e + y) = 146097 * e + march_start y"
proof -
  have "(y + 4 * (100 * e)) div 4 = 100 * e + y div 4"
    "(y + 100 * (4 * e)) div 100 = 4 * e + y div 100" "(y + 400 * e) div 400 = e + y div 400"
    by (rule div_mult_self2, simp)+
  then have "(400 * e + y) div 4 = 100 * e + y div 4" "(400 * e + y) div 100 = 4 * e + y div 100"
    "(400 * e + y) div 400 = e + y div 400"
    by (simp_all add: algebra_simps)
  moreover obtain k where "y div 4 = y div 100 + k"
    using div_le_mono2 [of 4 100 y] le_Suc_ex by auto
  ultimately show ?thesis by (simp add: march_start_def)
qed

lemma march_len_cycle: "march_len (400 * e + y) = march_len y"
proof -
  have "(Suc y + 4 * (100 * e)) mod 4 = Suc y mod 4"
    "(Suc y + 100 * (4 * e)) mod 100 = Suc y mod 100" "(Suc y + 400 * e) mod 400 = Suc y mod 400"
    by (rule mod_mult_self2)+
  then have "Suc (400 * e + y) mod 4 = Suc y mod 4" "Suc (400 * e + y) mod 100 = Suc y mod 100"
    "Suc (400 * e + y) mod 400 = Suc y mod 400"
    by (simp_all add: algebra_simps)
  then show ?thesis by (simp add: march_len_def leap_def)
qed

text \<open>
  The year within the cycle. A year below 400 is \<open>100 c + 4 k + m\<close>; its days come after
  \<open>c\<close> centuries of 36524 days, \<open>k\<close> groups of 1461 days and \<open>m\<close> years of 365 days.
\<close>

definition yoe_of :: "nat \<Rightarrow> nat" where
  "yoe_of doe = (doe - doe div 1460 + doe div 36524 - doe div 146096) div 365"

lemma yoe_of_parts:
  assumes ckm: "c < 4" "k < 25" "m < 4"
    and d: "d < 365 \<or> m = 3 \<and> d = 365 \<and> (k < 24 \<or> c = 3)"
    and n: "n = 36524 * c + 1461 * k + 365 * m + d"
  shows "yoe_of n = 100 * c + 4 * k + m"
proof -
  define extra :: nat where "extra = (if 1460 \<le> 24 * c + k + 365 * m + d then 1 else 0)"
  define top :: nat where "top = (if c = 3 \<and> k = 24 \<and> m = 3 \<and> d = 365 then 1 else 0)"
  have "n div 1460 = 25 * c + k + extra"
    by (rule div_nat_eqI) (use ckm d n in \<open>auto simp: extra_def\<close>)
  moreover have "n div 36524 = c + top"
    by (rule div_nat_eqI) (use ckm d n in \<open>auto simp: top_def\<close>)
  moreover have "n div 146096 = top"
    by (rule div_nat_eqI) (use ckm d n in \<open>auto simp: top_def\<close>)
  moreover have "extra \<le> d" "d - extra < 365"
    using ckm d by (auto simp: extra_def split: if_splits)
  ultimately have "n - n div 1460 + n div 36524 - n div 146096
      = 365 * (100 * c + 4 * k + m) + (d - extra)"
    using n by simp
  with \<open>d - extra < 365\<close> show ?thesis by (simp add: yoe_of_def)
qed

lemma yoe_of_march:
  assumes "y < 400" and "d < march_len y"
  shows "yoe_of (march_start y + d) = y"
proof -
  define c where "c = y div 100"
  define k where "k = (y mod 100) div 4"
  define m where "m = y mod 4"
  have "y mod 100 mod 4 = m" by (simp add: m_def mod_mod_cancel)
  then have y: "y = 100 * c + 4 * k + m"
    using mult_div_mod_eq [of 100 y] mult_div_mod_eq [of 4 "y mod 100"]
    unfolding c_def k_def by linarith
  have bounds: "c < 4" "k < 25" "m < 4" using assms(1) by (auto simp: c_def k_def m_def)
  have "(m + 4 * (25 * c + k)) div 4 = 25 * c + k + m div 4" by (rule div_mult_self2) simp
  then have quarter: "y div 4 = 25 * c + k" using bounds y by (simp add: algebra_simps)
  have "y div 100 = c" "y div 400 = 0" using assms(1) by (simp_all add: c_def)
  then have start: "march_start y = 36524 * c + 1461 * k + 365 * m"
    using quarter y unfolding march_start_def by simp
  have "d < 365 \<or> m = 3 \<and> d = 365 \<and> (k < 24 \<or> c = 3)"
  proof (cases "leap (Suc y)")
    case False
    then show ?thesis using assms(2) by (simp add: march_len_def)
  next
    case True
    then have "Suc y mod 4 = 0" by (simp add: leap_def)
    then have "m = 3" unfolding m_def by presburger
    moreover have "k < 24 \<or> c = 3"
    proof (rule ccontr)
      assume "\<not> ?thesis"
      with bounds have "k = 24" "c < 3" by auto
      with y \<open>m = 3\<close> have "Suc y = 100 * Suc c" by simp
      with True \<open>c < 3\<close> have "(100 * Suc c) mod 400 = 0" by (simp add: leap_def)
      moreover have "c = 0 \<or> c = 1 \<or> c = 2" using \<open>c < 3\<close> by auto
      ultimately show False by auto
    qed
    ultimately show ?thesis using assms(2) True by (auto simp: march_len_def)
  qed
  from yoe_of_parts [OF bounds this] start y show ?thesis by simp
qed

section \<open>Dates of March years\<close>

definition month_day :: "nat \<Rightarrow> nat \<times> nat" where
  "month_day doy =
     (let mp = (5 * doy + 2) div 153;
          day = doy - (153 * mp + 2) div 5 + 1;
          month = (if mp < 10 then mp + 3 else mp - 9)
      in (month, day))"

definition march_date :: "nat \<Rightarrow> nat \<Rightarrow> nat \<times> nat \<times> nat" where
  "march_date y doy =
     (let (month, day) = month_day doy in (if month \<le> 2 then Suc y else y, month, day))"

lemma civil_from_days_march:
  assumes z: "n + 719468 = march_start y + d" and d: "d < march_len y"
  shows "civil_from_days (int n) = (let (y, m, d) = march_date y d in (int y, m, d))"
proof -
  define e where "e = y div 400"
  define y0 where "y0 = y mod 400"
  have y: "y = 400 * e + y0" and "y0 < 400" by (simp_all add: e_def y0_def)
  have len: "d < march_len y0" using d unfolding y by (simp add: march_len_cycle)
  have "march_start y0 + d < march_start (Suc y0)" using len by (simp add: march_start_Suc)
  also have "\<dots> \<le> march_start 400" using \<open>y0 < 400\<close> by (intro march_start_mono) simp
  also have "\<dots> = 146097" by (simp add: march_start_def)
  finally have doe: "march_start y0 + d < 146097" .
  have "n + 719468 = 146097 * e + (march_start y0 + d)"
    using z unfolding y by (simp add: march_start_cycle)
  then have zi: "int n + 719468 = 146097 * int e + int (march_start y0 + d)" by linarith
  have era: "(int n + 719468) sdiv 146097 = int e"
  proof -
    have "(int n + 719468) div 146097 = int e"
      using doe unfolding zi by (intro int_div_pos_eq [of _ _ _ "int (march_start y0 + d)"]) simp_all
    then show ?thesis by (simp add: signed_divide_int_def)
  qed
  have yoe: "yoe_of (march_start y0 + d) = y0" by (rule yoe_of_march) fact+
  have "y0 div 100 \<le> y0 div 4" by (simp add: div_le_mono2)
  then have doy: "march_start y0 + d - (365 * y0 + y0 div 4 - y0 div 100) = d"
    using \<open>y0 < 400\<close> by (simp add: march_start_def)
  have nat_doe: "nat (int n + 719468 - int e * 146097) = march_start y0 + d"
    using zi by simp
  have "0 \<le> int n + 719468" by simp
  then show ?thesis
    using yoe unfolding yoe_of_def civil_from_days_def Let_def
    by (simp only: if_True era nat_doe yoe doy)
      (simp add: march_date_def month_day_def y Let_def doy)
qed

text \<open>
  Within a March year, month number \<open>mp\<close> (0 is March) starts on day \<open>(153 mp + 2) div 5\<close>;
  the month of a day and the day of the month follow.
\<close>

definition month_start :: "nat \<Rightarrow> nat" where
  "month_start mp = (153 * mp + 2) div 5"

definition month_of :: "nat \<Rightarrow> nat" where
  "month_of mp = (if mp < 10 then mp + 3 else mp - 9)"

lemma month_day_at:
  assumes "month_start mp + d < month_start (Suc mp)"
  shows "month_day (month_start mp + d) = (month_of mp, Suc d)"
proof -
  have "153 * mp \<le> 5 * month_start mp + 2" "5 * month_start (Suc mp) \<le> 153 * Suc mp + 2"
    unfolding month_start_def using mult_div_mod_eq [of 5 "153 * mp + 2"]
      mod_less_divisor [of 5 "153 * mp + 2"] by simp_all
  with assms have "(5 * (month_start mp + d) + 2) div 153 = mp"
    by (intro div_nat_eqI) simp_all
  then show ?thesis
    unfolding month_day_def Let_def by (simp only: month_start_def [symmetric]) (simp add: month_of_def)
qed

lemma month_start_less: "month_start mp < month_start (Suc mp)"
proof -
  have "month_start mp < (153 * mp + 2 + 5) div 5" by (simp add: month_start_def)
  also have "\<dots> \<le> month_start (Suc mp)" unfolding month_start_def by (rule div_le_mono) simp
  finally show ?thesis .
qed

lemma month_start_values:
  "month_start 0 = 0" "month_start 11 = 337" "month_start 12 = 367"
  by (simp_all add: month_start_def)

lemma month_length:
  assumes "mp < 11"
  shows "month_start (Suc mp) = month_start mp + days_in_month y (month_of mp)"
    and "0 < days_in_month y (month_of mp)"
proof -
  from assms have "mp = 0 \<or> mp = 1 \<or> mp = 2 \<or> mp = 3 \<or> mp = 4 \<or> mp = 5 \<or> mp = 6
      \<or> mp = 7 \<or> mp = 8 \<or> mp = 9 \<or> mp = 10" by arith
  then show "month_start (Suc mp) = month_start mp + days_in_month y (month_of mp)"
    by (elim disjE) (simp_all add: month_start_def month_of_def days_in_month_def)
  show "0 < days_in_month y (month_of mp)" by (simp add: days_in_month_def)
qed

lemma month_exists:
  assumes "doy < 366"
  obtains mp d where "mp \<le> 11" "doy = month_start mp + d" "doy < month_start (Suc mp)"
proof -
  define mp where "mp = (5 * doy + 2) div 153"
  have bounds: "153 * mp \<le> 5 * doy + 2" "5 * doy + 2 < 153 * Suc mp"
    using mult_div_mod_eq [of 153 "5 * doy + 2"] mod_less_divisor [of 153 "5 * doy + 2"]
    unfolding mp_def [symmetric] by (simp_all only: mult_Suc_right)
  have "mp \<le> 11" using bounds assms by linarith
  moreover have "month_start mp \<le> doy"
    using bounds unfolding month_start_def by linarith
  moreover have "doy < month_start (Suc mp)"
    using bounds unfolding month_start_def by linarith
  ultimately show ?thesis using that [of mp "doy - month_start mp"] by simp
qed

lemma march_date_at:
  "month_start mp + d < month_start (Suc mp) \<Longrightarrow>
     march_date y (month_start mp + d)
       = (if month_of mp \<le> 2 then Suc y else y, month_of mp, Suc d)"
  by (simp add: march_date_def month_day_at)

text \<open>The day after a day of a March year, which may be the first day of the next.\<close>

lemma next_march_date:
  assumes doy: "doy < march_len y"
  shows "next_day (march_date y doy)
       = (if Suc doy < march_len y then march_date y (Suc doy) else march_date (Suc y) 0)"
proof -
  have "doy < 366" using doy by (auto simp: march_len_def split: if_splits)
  then obtain mp d where mp: "mp \<le> 11" and d: "doy = month_start mp + d"
    and lt: "doy < month_start (Suc mp)" by (rule month_exists)
  have date: "march_date y doy = (if month_of mp \<le> 2 then Suc y else y, month_of mp, Suc d)"
    using march_date_at lt d by simp
  show ?thesis
  proof (cases "mp = 11")
    case True
    have first: "march_date (Suc y) 0 = (Suc y, 3, 1)"
      using march_date_at [of 0 0 "Suc y"] by (simp add: month_start_def month_of_def)
    have later: "Suc doy < march_len y \<Longrightarrow> march_date y (Suc doy) = (Suc y, 2, Suc (Suc d))"
      using march_date_at [of 11 "Suc d" y] True d doy
      by (auto simp: month_start_values month_of_def march_len_def split: if_splits)
    from True d have "doy = 337 + d" by (simp add: month_start_values)
    then show ?thesis using date first later doy True
      by (auto simp: month_of_def days_in_month_def march_len_def split: if_splits)
  next
    case False
    then have "mp < 11" using mp by simp
    note len = month_length [OF this]
    have "Suc doy < march_len y"
    proof -
      have "month_start (Suc mp) \<le> month_start 11"
        using \<open>mp < 11\<close> unfolding month_start_def by (intro div_le_mono) simp
      with lt show ?thesis by (auto simp: month_start_values march_len_def)
    qed
    moreover have "next_day (march_date y doy) = march_date y (Suc doy)"
    proof (cases "Suc doy < month_start (Suc mp)")
      case True
      then show ?thesis
        using date march_date_at [of mp "Suc d" y] d len(1) [of y] len(1) [of "Suc y"] by auto
    next
      case False
      then have eq: "Suc doy = month_start (Suc mp) + 0" using lt by simp
      have "month_start (Suc mp) < month_start (Suc (Suc mp))"
        by (rule month_start_less)
      then have "march_date y (Suc doy)
          = (if month_of (Suc mp) \<le> 2 then Suc y else y, month_of (Suc mp), 1)"
        using march_date_at [of "Suc mp" 0 y] unfolding eq by simp
      moreover have "\<not> Suc d < days_in_month y' (month_of mp)" for y'
        using eq d len(1) [of y'] by simp
      moreover have "month_of (Suc mp) = (if month_of mp < 12 then Suc (month_of mp) else 1)"
        "(month_of mp \<le> 2 \<longrightarrow> month_of (Suc mp) = 2) \<and> (2 < month_of mp \<and> month_of mp < 12 \<longrightarrow> 2 < month_of (Suc mp))"
        using \<open>mp < 11\<close> by (auto simp: month_of_def)
      ultimately show ?thesis using date by auto
    qed
    ultimately show ?thesis by simp
  qed
qed

lemma march_date_calendar:
  "n + 719468 = march_start y + d \<Longrightarrow> d < march_len y \<Longrightarrow> march_date y d = calendar_date n"
proof (induction n arbitrary: y d)
  case 0
  have "(719468 :: nat) = march_start 1969 + 306" "306 < march_len 1969"
    by (simp_all add: march_start_def march_len_def leap_def)
  with march_unique [of y d 1969 306] 0 have "y = 1969" "d = 306" by simp_all
  then show ?case by (simp add: calendar_date_def march_date_def month_day_def Let_def)
next
  case (Suc n)
  obtain y' d' where n: "n + 719468 = march_start y' + d'" "d' < march_len y'"
    using march_exists by blast
  then have "next_day (march_date y' d') = calendar_date (Suc n)"
    using Suc.IH by (simp add: calendar_date_def)
  moreover have "march_date y d = next_day (march_date y' d')"
  proof (cases "Suc d' < march_len y'")
    case True
    then have "y = y' \<and> d = Suc d'"
      using march_unique [of y d y' "Suc d'"] Suc.prems n by simp
    then show ?thesis using next_march_date [OF n(2)] True by simp
  next
    case False
    then have "y = Suc y' \<and> d = 0"
      using march_unique [of y d "Suc y'" 0] Suc.prems n
      by (simp add: march_start_Suc march_len_pos)
    then show ?thesis using next_march_date [OF n(2)] False by simp
  qed
  ultimately show ?case by simp
qed

lemma civil_from_days_calendar:
  "civil_from_days (int n) = (let (y, m, d) = calendar_date n in (int y, m, d))"
proof -
  obtain y d where "n + 719468 = march_start y + d" "d < march_len y"
    using march_exists by blast
  then show ?thesis by (simp add: civil_from_days_march march_date_calendar)
qed

section \<open>Properties\<close>

text \<open>
  C22. A timestamp prints the calendar date of its day, reached from 1970-01-01 by the
  successor of dates, and the hour, minute and second of the rest, for every 64-bit number
  of seconds.
\<close>

theorem format_rfc3339_calendar:
  "format_rfc3339 t =
     (let (year, month, day) = calendar_date (unat t div 86400); s = unat t mod 86400
      in show_padded 4 year @ ''-'' @ show_padded 2 month @ ''-'' @ show_padded 2 day
         @ ''T'' @ show_padded 2 (s div 3600) @ '':'' @ show_padded 2 (s div 60 mod 60) @ '':''
         @ show_padded 2 (s mod 60) @ ''Z'')"
proof -
  have "(unat t mod 86400) mod 3600 div 60 = (unat t mod 86400) div 60 mod 60"
    using mod_mult2_eq [of "unat t mod 86400" 60 60] by simp
  then show ?thesis
    by (simp add: format_rfc3339_def Let_def unat_div unat_mod civil_from_days_calendar
        del: of_nat_div split: prod.split)
qed

end
