(* ===== verification/Jobs.thy ===== *)
theory Jobs
  imports Sessions Rfc3339
begin

text \<open>
  Asynchronous report export jobs: the domain types of
  \<open>crates/gvm-gateway-domain/src/jobs.rs\<close> and the registry, the worker and the reaper of
  \<open>crates/gvm-gateway-app/src/jobs.rs\<close>. An \<open>AbortHandle\<close> is the identifier of the
  worker it aborts; operations that abort return the handles they abort. The clock is read
  once for each critical section (\<open>cancel_job_record\<close> and \<open>cancel_jobs_for_session\<close> read
  it twice in a row, for the purge and for the new times).
\<close>

section \<open>Domain types\<close>

record GvmdReportFormatExportRequest =
  grf_report_format_id :: string
  grf_report_config_id :: "string option"
  grf_filter :: "string option"
  grf_filter_id :: "string option"

record JsonReportExportRequest =
  jre_filter :: "string option"
  jre_filter_id :: "string option"

datatype CreateReportExportRequest =
    GvmdReportFormat GvmdReportFormatExportRequest
  | Json JsonReportExportRequest

datatype (plugins only: code size) JobStatus = Queued | Running | Succeeded | Failed | Cancelling | Cancelled | JobExpired

definition is_terminal :: "JobStatus \<Rightarrow> bool" where
  "is_terminal s = (s = Succeeded \<or> s = Failed \<or> s = Cancelled \<or> s = JobExpired)"

record JobProgress =
  jg_percent :: "u8 option"
  jg_message :: "string option"

record JobResult =
  jt_content_type :: "string option"
  jt_filename :: "string option"
  jt_size :: "u64 option"
  jt_location :: "string option"

datatype ReportExportFormat = FormatGvmdReportFormat | FormatJson

record ResourceRef =
  rr_id :: string
  rr_name :: "string option"

record ReportExportJob =
  jb_id :: string
  jb_kind :: string
  jb_status :: JobStatus
  jb_progress :: "JobProgress option"
  jb_created_at :: string
  jb_started_at :: "string option"
  jb_completed_at :: "string option"
  jb_expires_at :: "string option"
  jb_result_location :: "string option"
  jb_error :: "JobProblem option"
  jb_report :: ResourceRef
  jb_format :: ReportExportFormat
  jb_report_format_id :: "string option"
  jb_result :: "JobResult option"

record JobArtifact =
  ja_bytes :: "u8 list"
  ja_content_type :: string
  ja_filename :: string

datatype JobCancelOutcome = CancellationRequested | AlreadyTerminal

section \<open>The registry\<close>

definition JOB_KIND_REPORT_EXPORT :: string where
  "JOB_KIND_REPORT_EXPORT = ''report_export''"

definition JSON_EXPORT_PAGE_SIZE :: u32 where
  "JSON_EXPORT_PAGE_SIZE = 1000"

record JobPolicy =
  max_jobs_total :: nat
  terminal_retention_secs :: u64

type_synonym AbortHandle = string

record JobRecord =
  jr_owner_user :: string
  jr_session_token_digest :: SessionTokenDigest
  jr_job :: ReportExportJob
  jr_artifact :: "JobArtifact option"
  jr_abort_handle :: "AbortHandle option"
  jr_purge_after :: "u64 option"

record JobRegistryState =
  js_poisoned :: bool
  js_jobs :: "(string, JobRecord) hash_map"
  js_policy :: JobPolicy

definition default_job_policy :: JobPolicy where
  "default_job_policy = \<lparr>max_jobs_total = 1000, terminal_retention_secs = 15 * 60\<rparr>"

definition new_job_registry :: JobRegistryState where
  "new_job_registry = \<lparr>js_poisoned = False, js_jobs = [], js_policy = default_job_policy\<rparr>"

definition job_lock_poisoned :: GatewayError where
  "job_lock_poisoned = Internal ''job registry lock poisoned''"

definition job_not_found :: "string \<Rightarrow> GatewayError" where
  "job_not_found job_id = NotFound (''job '' @ job_id @ '' not found'')"

definition progress :: "u8 \<Rightarrow> string \<Rightarrow> JobProgress option" where
  "progress percent message = Some \<lparr>jg_percent = Some percent, jg_message = Some message\<rparr>"

definition report_export_job ::
    "u64 \<Rightarrow> string \<Rightarrow> string \<Rightarrow> CreateReportExportRequest \<Rightarrow> ReportExportJob" where
  "report_export_job now job_id report_id request =
     (let (format, report_format_id) =
        (case request of
           GvmdReportFormat r \<Rightarrow> (FormatGvmdReportFormat, Some (grf_report_format_id r))
         | Json _ \<Rightarrow> (FormatJson, None))
      in \<lparr>jb_id = job_id, jb_kind = JOB_KIND_REPORT_EXPORT, jb_status = Queued,
          jb_progress = progress 0 ''queued'', jb_created_at = format_rfc3339 now,
          jb_started_at = None, jb_completed_at = None, jb_expires_at = None,
          jb_result_location = None, jb_error = None,
          jb_report = \<lparr>rr_id = report_id, rr_name = None\<rparr>, jb_format = format,
          jb_report_format_id = report_format_id, jb_result = None\<rparr>)"

definition job_expired_at :: "u64 \<Rightarrow> JobRecord \<Rightarrow> bool" where
  "job_expired_at now record =
     (case jr_purge_after record of Some purge_after \<Rightarrow> \<not> purge_after > now | None \<Rightarrow> False)"

definition purge_expired_jobs :: "u64 \<Rightarrow> JobRegistryState \<Rightarrow> nat \<times> JobRegistryState" where
  "purge_expired_jobs now st =
     (let before = length (js_jobs st);
          jobs = retain (\<lambda>_ record. \<not> job_expired_at now record) (js_jobs st)
      in (before - length jobs, st\<lparr>js_jobs := jobs\<rparr>))"

definition put_job :: "string \<Rightarrow> JobRecord \<Rightarrow> JobRegistryState \<Rightarrow> JobRegistryState" where
  "put_job job_id record st = st\<lparr>js_jobs := AList.update job_id record (js_jobs st)\<rparr>"

definition ensure_job_owner :: "JobRecord \<Rightarrow> string \<Rightarrow> string \<Rightarrow> unit result" where
  "ensure_job_owner record owner_user job_id =
     (if jr_owner_user record = owner_user then Inr () else Inl (job_not_found job_id))"

definition insert_job ::
    "u64 \<Rightarrow> string \<Rightarrow> SessionTokenDigest \<Rightarrow> ReportExportJob \<Rightarrow> JobRegistryState
      \<Rightarrow> unit result \<times> JobRegistryState" where
  "insert_job now owner_user digest job st =
     (if js_poisoned st then (Inl job_lock_poisoned, st)
      else (let st = snd (purge_expired_jobs now st)
        in if length (js_jobs st) \<ge> max_jobs_total (js_policy st)
           then (Inl (TooManyRequests (''job capacity exceeded; at most ''
                   @ show_nat (max_jobs_total (js_policy st)) @ '' jobs are retained'')), st)
           else (Inr (), put_job (jb_id job)
                   \<lparr>jr_owner_user = owner_user, jr_session_token_digest = digest, jr_job = job,
                    jr_artifact = None, jr_abort_handle = None, jr_purge_after = None\<rparr> st)))"

definition set_job_abort_handle ::
    "string \<Rightarrow> AbortHandle \<Rightarrow> JobRegistryState
      \<Rightarrow> unit result \<times> AbortHandle list \<times> JobRegistryState" where
  "set_job_abort_handle job_id handle st =
     (if js_poisoned st then (Inl job_lock_poisoned, [], st)
      else case map_of (js_jobs st) job_id of
        None \<Rightarrow> (Inl (job_not_found job_id), [], st)
      | Some record \<Rightarrow>
          if is_terminal (jb_status (jr_job record)) then (Inr (), [handle], st)
          else (Inr (), [], put_job job_id (record\<lparr>jr_abort_handle := Some handle\<rparr>) st))"

definition running_record :: "u64 \<Rightarrow> JobRecord \<Rightarrow> JobRecord" where
  "running_record now record =
     record\<lparr>jr_job := (jr_job record)
       \<lparr>jb_status := Running, jb_started_at := Some (format_rfc3339 now),
        jb_progress := progress 0 ''running''\<rparr>\<rparr>"

definition mark_job_running ::
    "u64 \<Rightarrow> string \<Rightarrow> JobRegistryState \<Rightarrow> unit result \<times> JobRegistryState" where
  "mark_job_running now job_id st =
     (if js_poisoned st then (Inl job_lock_poisoned, st)
      else case map_of (js_jobs st) job_id of
        None \<Rightarrow> (Inl (job_not_found job_id), st)
      | Some record \<Rightarrow>
          if jb_status (jr_job record) = Cancelled
          then (Inl (Conflict (''job '' @ job_id @ '' was cancelled'')), st)
          else (Inr (), put_job job_id (running_record now record) st))"

text \<open>
  The additions \<open>now + retention_secs\<close> are plain \<open>u64\<close> additions, which wrap in a release
  build.
\<close>

definition succeeded_record ::
    "u64 \<Rightarrow> u64 \<Rightarrow> string \<Rightarrow> JobArtifact \<Rightarrow> JobRecord \<Rightarrow> JobRecord" where
  "succeeded_record now retention_secs job_id artifact record =
     (let result_location = ''/api/v1/jobs/'' @ job_id @ ''/result'' in
      record
        \<lparr>jr_job := (jr_job record)
           \<lparr>jb_status := Succeeded,
            jb_completed_at := Some (format_rfc3339 now),
            jb_expires_at := Some (format_rfc3339 (now + retention_secs)),
            jb_result_location := Some result_location,
            jb_progress := progress 100 ''succeeded'',
            jb_result := Some
              \<lparr>jt_content_type = Some (ja_content_type artifact),
               jt_filename = Some (ja_filename artifact),
               jt_size = Some (of_nat (length (ja_bytes artifact))),
               jt_location = Some result_location\<rparr>\<rparr>,
         jr_artifact := Some artifact, jr_abort_handle := None,
         jr_purge_after := Some (now + retention_secs)\<rparr>)"

definition mark_job_succeeded ::
    "u64 \<Rightarrow> string \<Rightarrow> JobArtifact \<Rightarrow> JobRegistryState \<Rightarrow> unit result \<times> JobRegistryState" where
  "mark_job_succeeded now job_id artifact st =
     (if js_poisoned st then (Inl job_lock_poisoned, st)
      else (let retention_secs = terminal_retention_secs (js_policy st) in
        case map_of (js_jobs st) job_id of
          None \<Rightarrow> (Inl (job_not_found job_id), st)
        | Some record \<Rightarrow>
            if jb_status (jr_job record) = Cancelled then (Inr (), st)
            else (Inr (),
                  put_job job_id (succeeded_record now retention_secs job_id artifact record) st)))"

definition failed_record :: "u64 \<Rightarrow> u64 \<Rightarrow> GatewayError \<Rightarrow> JobRecord \<Rightarrow> JobRecord" where
  "failed_record now retention_secs error record =
     record
       \<lparr>jr_job := (jr_job record)
          \<lparr>jb_status := Failed,
           jb_completed_at := Some (format_rfc3339 now),
           jb_expires_at := Some (format_rfc3339 (now + retention_secs)),
           jb_progress := progress 100 ''failed'',
           jb_error := Some (job_problem_from_gateway_error error)\<rparr>,
        jr_abort_handle := None,
        jr_purge_after := Some (now + retention_secs)\<rparr>"

definition mark_job_failed ::
    "u64 \<Rightarrow> string \<Rightarrow> GatewayError \<Rightarrow> JobRegistryState \<Rightarrow> unit result \<times> JobRegistryState" where
  "mark_job_failed now job_id error st =
     (if js_poisoned st then (Inl job_lock_poisoned, st)
      else (let retention_secs = terminal_retention_secs (js_policy st) in
        case map_of (js_jobs st) job_id of
          None \<Rightarrow> (Inl (job_not_found job_id), st)
        | Some record \<Rightarrow>
            if jb_status (jr_job record) = Cancelled then (Inr (), st)
            else (Inr (), put_job job_id (failed_record now retention_secs error record) st)))"

definition job_snapshot ::
    "u64 \<Rightarrow> string \<Rightarrow> string \<Rightarrow> JobRegistryState \<Rightarrow> ReportExportJob result \<times> JobRegistryState" where
  "job_snapshot now owner_user job_id st =
     (if js_poisoned st then (Inl job_lock_poisoned, st)
      else (let st = snd (purge_expired_jobs now st) in
        case map_of (js_jobs st) job_id of
          None \<Rightarrow> (Inl (job_not_found job_id), st)
        | Some record \<Rightarrow>
            (and_then (ensure_job_owner record owner_user job_id) (\<lambda>_. Inr (jr_job record)), st)))"

text \<open>The record changes of the two ways to cancel; only the second drops the artifact.\<close>

definition cancelled_job :: "u64 \<Rightarrow> u64 \<Rightarrow> ReportExportJob \<Rightarrow> ReportExportJob" where
  "cancelled_job now retention_secs job =
     job\<lparr>jb_status := Cancelled,
         jb_completed_at := Some (format_rfc3339 now),
         jb_expires_at := Some (format_rfc3339 (now + retention_secs)),
         jb_progress := progress 100 ''cancelled''\<rparr>"

definition cancel_job_record ::
    "u64 \<Rightarrow> string \<Rightarrow> string \<Rightarrow> JobRegistryState
      \<Rightarrow> JobCancelOutcome result \<times> AbortHandle list \<times> JobRegistryState" where
  "cancel_job_record now owner_user job_id st =
     (if js_poisoned st then (Inl job_lock_poisoned, [], st)
      else (let st = snd (purge_expired_jobs now st);
                retention_secs = terminal_retention_secs (js_policy st) in
        case map_of (js_jobs st) job_id of
          None \<Rightarrow> (Inl (job_not_found job_id), [], st)
        | Some record \<Rightarrow>
            (case ensure_job_owner record owner_user job_id of
               Inl e \<Rightarrow> (Inl e, [], st)
             | Inr _ \<Rightarrow>
                 if is_terminal (jb_status (jr_job record)) then (Inr AlreadyTerminal, [], st)
                 else (Inr CancellationRequested,
                       (case jr_abort_handle record of None \<Rightarrow> [] | Some handle \<Rightarrow> [handle]),
                       put_job job_id
                         (record\<lparr>jr_job := cancelled_job now retention_secs (jr_job record),
                                 jr_abort_handle := None,
                                 jr_purge_after := Some (now + retention_secs)\<rparr>) st))))"

definition cancel_job_record_in_place ::
    "u64 \<Rightarrow> u64 \<Rightarrow> JobRecord \<Rightarrow> AbortHandle option \<times> JobRecord" where
  "cancel_job_record_in_place now retention_secs record =
     (jr_abort_handle record,
      record\<lparr>jr_job := cancelled_job now retention_secs (jr_job record),
             jr_artifact := None,
             jr_purge_after := Some (now + retention_secs),
             jr_abort_handle := None\<rparr>)"

text \<open>The loop over the values of the map, with its list of handles and its counter.\<close>

fun cancel_loop ::
    "SessionTokenDigest \<Rightarrow> u64 \<Rightarrow> u64 \<Rightarrow> (string, JobRecord) hash_map
      \<Rightarrow> AbortHandle list \<times> nat \<times> (string, JobRecord) hash_map" where
  "cancel_loop digest now retention_secs [] = ([], 0, [])"
| "cancel_loop digest now retention_secs ((job_id, record) # rest) =
     (let (handles, cancelled, jobs) = cancel_loop digest now retention_secs rest
      in if jr_session_token_digest record \<noteq> digest \<or> is_terminal (jb_status (jr_job record))
         then (handles, cancelled, (job_id, record) # jobs)
         else (let (handle, record') = cancel_job_record_in_place now retention_secs record
               in ((case handle of None \<Rightarrow> handles | Some h \<Rightarrow> h # handles),
                   Suc cancelled, (job_id, record') # jobs)))"

definition cancel_jobs_for_session ::
    "u64 \<Rightarrow> SessionTokenDigest \<Rightarrow> JobRegistryState
      \<Rightarrow> nat result \<times> AbortHandle list \<times> JobRegistryState" where
  "cancel_jobs_for_session now digest st =
     (if js_poisoned st then (Inl job_lock_poisoned, [], st)
      else (let st = snd (purge_expired_jobs now st);
                (handles, cancelled, jobs) =
                  cancel_loop digest now (terminal_retention_secs (js_policy st)) (js_jobs st)
            in (Inr cancelled, handles, st\<lparr>js_jobs := jobs\<rparr>)))"

definition job_artifact ::
    "u64 \<Rightarrow> string \<Rightarrow> string \<Rightarrow> JobRegistryState \<Rightarrow> JobArtifact result \<times> JobRegistryState" where
  "job_artifact now owner_user job_id st =
     (if js_poisoned st then (Inl job_lock_poisoned, st)
      else (let st = snd (purge_expired_jobs now st) in
        case map_of (js_jobs st) job_id of
          None \<Rightarrow> (Inl (job_not_found job_id), st)
        | Some record \<Rightarrow>
            (and_then (ensure_job_owner record owner_user job_id) (\<lambda>_.
               if jb_status (jr_job record) \<noteq> Succeeded
               then Inl (Conflict (''job '' @ job_id @ '' has not produced a downloadable result''))
               else (case jr_artifact record of
                       Some artifact \<Rightarrow> Inr artifact
                     | None \<Rightarrow> Inl (Internal (''job '' @ job_id @ '' artifact is missing'')))), st)))"

definition sweep_expired_jobs :: "u64 \<Rightarrow> JobRegistryState \<Rightarrow> nat result \<times> JobRegistryState" where
  "sweep_expired_jobs now st =
     (if js_poisoned st then (Inl job_lock_poisoned, st)
      else (let (n, st) = purge_expired_jobs now st in (Inr n, st)))"

lemmas job_op_defs =
  insert_job_def set_job_abort_handle_def mark_job_running_def mark_job_succeeded_def
  mark_job_failed_def job_snapshot_def cancel_job_record_def cancel_jobs_for_session_def
  job_artifact_def sweep_expired_jobs_def purge_expired_jobs_def put_job_def

section \<open>The cancelling loop\<close>

definition hit :: "SessionTokenDigest \<Rightarrow> JobRecord \<Rightarrow> bool" where
  "hit digest record \<longleftrightarrow>
     jr_session_token_digest record = digest \<and> \<not> is_terminal (jb_status (jr_job record))"

lemma cancel_loop_eq:
  "cancel_loop digest now ret jobs =
     (List.map_filter (\<lambda>(id, r). if hit digest r then jr_abort_handle r else None) jobs,
      count_values (hit digest) jobs,
      map (\<lambda>(id, r). (id, if hit digest r then snd (cancel_job_record_in_place now ret r) else r)) jobs)"
  by (induction digest now ret jobs rule: cancel_loop.induct)
    (auto simp: hit_def cancel_job_record_in_place_def Let_def List.map_filter_def
      split: option.splits)

lemma map_of_map_values: "map_of (map (\<lambda>(k, v). (k, f v)) m) k = map_option f (map_of m k)"
  by (induction m) auto

lemma wf_map_map_values: "wf_map (map (\<lambda>(k, v). (k, f v)) m) = wf_map m"
  by (simp add: wf_map_def comp_def case_prod_beta)

section \<open>Expiry of finished jobs\<close>

lemma job_expired_at_mono: "t \<le> t' \<Longrightarrow> job_expired_at t r \<Longrightarrow> job_expired_at t' r"
  by (auto simp: job_expired_at_def split: option.splits)

definition sweep_jobs :: "u64 \<Rightarrow> (string, JobRecord) hash_map \<Rightarrow> (string, JobRecord) hash_map" where
  "sweep_jobs now jobs = retain (\<lambda>_ record. \<not> job_expired_at now record) jobs"

text \<open>Purging is a sweep in the sense of the prelude's contract.\<close>

interpretation job_store: expiring_store "\<lambda>r now. job_expired_at now r" sweep_jobs
proof unfold_locales
  fix m :: "(string, JobRecord) hash_map" and now k
  assume "wf_map m"
  then show "map_of (sweep_jobs now m) k =
      (case map_of m k of None \<Rightarrow> None | Some r \<Rightarrow> if job_expired_at now r then None else Some r)"
    by (auto simp: sweep_jobs_def map_of_retain split: option.splits)
qed (auto simp: sweep_jobs_def intro: job_expired_at_mono)

lemma purge_expired_jobs_sweeps:
  "snd (purge_expired_jobs now st) = st\<lparr>js_jobs := sweep_jobs now (js_jobs st)\<rparr>"
  by (simp add: purge_expired_jobs_def sweep_jobs_def Let_def)

section \<open>Jobs and their workers\<close>

text \<open>
  \<open>enqueue_report_export_job\<close> spawns one worker for each inserted job, which runs
  \<open>run_report_export_job\<close>: mark the job running, export, and mark it succeeded or failed. A
  worker that is aborted stops at an await point. The system is the registry, the live
  workers with how far they are, the aborted handles and the identifiers handed out so far
  (random, so never twice). Everything else happens between the critical sections of the
  registry, so a run is a sequence of them in any order.
\<close>

datatype Stage = Spawned | Working

record JobSystem =
  sy_registry :: JobRegistryState
  sy_workers :: "(string, Stage) hash_map"
  sy_aborted :: "AbortHandle list"
  sy_ids :: "string list"

datatype (plugins only: code size) JobAction =
    Enqueue string SessionTokenDigest string CreateReportExportRequest string
  | AttachHandle string
  | WorkerRun string
  | WorkerSucceed string JobArtifact
  | WorkerFail string GatewayError
  | WorkerStop string
  | Snapshot string string
  | Cancel string string
  | CancelSession SessionTokenDigest
  | Artifact string string
  | Sweep

fun job_action :: "u64 \<Rightarrow> JobAction \<Rightarrow> JobSystem \<Rightarrow> JobSystem" where
  "job_action now (Enqueue owner digest report_id request job_id) s =
     (if List.member (sy_ids s) job_id then s
      else (let job = report_export_job now job_id report_id request;
                (r, st) = insert_job now owner digest job (sy_registry s)
            in if is_ok r
               then s\<lparr>sy_registry := st, sy_workers := AList.update job_id Spawned (sy_workers s),
                      sy_ids := job_id # sy_ids s\<rparr>
               else s\<lparr>sy_registry := st, sy_ids := job_id # sy_ids s\<rparr>))"
| "job_action now (AttachHandle job_id) s =
     (let (r, aborted, st) = set_job_abort_handle job_id job_id (sy_registry s)
      in s\<lparr>sy_registry := st, sy_aborted := aborted @ sy_aborted s\<rparr>)"
| "job_action now (WorkerRun job_id) s =
     (if map_of (sy_workers s) job_id \<noteq> Some Spawned then s
      else (let (r, st) = mark_job_running now job_id (sy_registry s)
            in if is_ok r
               then s\<lparr>sy_registry := st, sy_workers := AList.update job_id Working (sy_workers s)\<rparr>
               else s\<lparr>sy_registry := st, sy_workers := AList.delete job_id (sy_workers s)\<rparr>))"
| "job_action now (WorkerSucceed job_id artifact) s =
     (if map_of (sy_workers s) job_id \<noteq> Some Working then s
      else s\<lparr>sy_registry := snd (mark_job_succeeded now job_id artifact (sy_registry s)),
             sy_workers := AList.delete job_id (sy_workers s)\<rparr>)"
| "job_action now (WorkerFail job_id error) s =
     (if map_of (sy_workers s) job_id \<noteq> Some Working then s
      else s\<lparr>sy_registry := snd (mark_job_failed now job_id error (sy_registry s)),
             sy_workers := AList.delete job_id (sy_workers s)\<rparr>)"
| "job_action now (WorkerStop job_id) s =
     (if List.member (sy_aborted s) job_id
      then s\<lparr>sy_workers := AList.delete job_id (sy_workers s)\<rparr> else s)"
| "job_action now (Snapshot user job_id) s =
     s\<lparr>sy_registry := snd (job_snapshot now user job_id (sy_registry s))\<rparr>"
| "job_action now (Cancel user job_id) s =
     (let (r, aborted, st) = cancel_job_record now user job_id (sy_registry s)
      in s\<lparr>sy_registry := st, sy_aborted := aborted @ sy_aborted s\<rparr>)"
| "job_action now (CancelSession digest) s =
     (let (r, aborted, st) = cancel_jobs_for_session now digest (sy_registry s)
      in s\<lparr>sy_registry := st, sy_aborted := aborted @ sy_aborted s\<rparr>)"
| "job_action now (Artifact user job_id) s =
     s\<lparr>sy_registry := snd (job_artifact now user job_id (sy_registry s))\<rparr>"
| "job_action now Sweep s =
     s\<lparr>sy_registry := snd (sweep_expired_jobs now (sy_registry s))\<rparr>"

fun run_jobs :: "(u64 \<times> JobAction) list \<Rightarrow> JobSystem \<Rightarrow> JobSystem" where
  "run_jobs [] s = s"
| "run_jobs ((now, act) # acts) s = run_jobs acts (job_action now act s)"

definition new_job_system :: "JobPolicy \<Rightarrow> JobSystem" where
  "new_job_system policy =
     \<lparr>sy_registry = new_job_registry\<lparr>js_policy := policy\<rparr>, sy_workers = [], sy_aborted = [],
      sy_ids = []\<rparr>"

inductive job_step :: "JobSystem \<Rightarrow> JobSystem \<Rightarrow> bool" where
  action: "job_step s (job_action now act s)"

inductive_cases job_stepE: "job_step s s'"

lemma run_jobs_steps: "job_step\<^sup>*\<^sup>* s (run_jobs acts s)"
proof (induction acts arbitrary: s)
  case Nil
  then show ?case by simp
next
  case (Cons a acts)
  obtain now act where a: "a = (now, act)" by (cases a)
  have "job_step s (job_action now act s)" by (rule job_step.action)
  moreover have "job_step\<^sup>*\<^sup>* (job_action now act s) (run_jobs acts (job_action now act s))"
    by (rule Cons.IH)
  ultimately show ?case by (simp add: a converse_rtranclp_into_rtranclp)
qed

section \<open>The invariant\<close>

text \<open>What holds of one record: which fields go with which status.\<close>

definition record_ok :: "string \<Rightarrow> JobRecord \<Rightarrow> bool" where
  "record_ok job_id r \<longleftrightarrow>
     (let job = jr_job r; status = jb_status job
      in jb_id job = job_id
         \<and> status \<noteq> Cancelling \<and> status \<noteq> JobExpired
         \<and> is_terminal status = (jr_purge_after r \<noteq> None)
         \<and> is_terminal status = (jb_completed_at job \<noteq> None)
         \<and> is_terminal status = (jb_expires_at job \<noteq> None)
         \<and> (status = Succeeded) = (jr_artifact r \<noteq> None)
         \<and> (status = Succeeded) = (jb_result job \<noteq> None)
         \<and> (status = Succeeded) = (jb_result_location job \<noteq> None)
         \<and> (status = Failed) = (jb_error job \<noteq> None)
         \<and> (status = Queued \<longrightarrow> jb_started_at job = None)
         \<and> (status = Running \<or> status = Succeeded \<or> status = Failed \<longrightarrow> jb_started_at job \<noteq> None)
         \<and> (is_terminal status \<longrightarrow> jr_abort_handle r = None))"

text \<open>What holds of a record and its worker.\<close>

definition worker_ok :: "JobSystem \<Rightarrow> string \<Rightarrow> JobRecord \<Rightarrow> bool" where
  "worker_ok s job_id r \<longleftrightarrow>
     (let status = jb_status (jr_job r); worker = map_of (sy_workers s) job_id
      in (status = Queued \<longrightarrow> worker = Some Spawned)
         \<and> (status = Running \<longrightarrow> worker = Some Working)
         \<and> (status = Succeeded \<or> status = Failed \<longrightarrow> worker = None)
         \<and> (\<not> is_terminal status \<longrightarrow> job_id \<notin> set (sy_aborted s))
         \<and> (jr_abort_handle r = None \<or> jr_abort_handle r = Some job_id)
         \<and> job_id \<in> set (sy_ids s))"

definition job_inv :: "JobSystem \<Rightarrow> bool" where
  "job_inv s \<longleftrightarrow>
     \<not> js_poisoned (sy_registry s)
     \<and> wf_map (js_jobs (sy_registry s)) \<and> wf_map (sy_workers s)
     \<and> length (js_jobs (sy_registry s)) \<le> max_jobs_total (js_policy (sy_registry s))
     \<and> (\<forall>job_id r. map_of (js_jobs (sy_registry s)) job_id = Some r \<longrightarrow>
          record_ok job_id r \<and> worker_ok s job_id r)
     \<and> (\<forall>job_id w. map_of (sy_workers s) job_id = Some w \<longrightarrow> job_id \<in> set (sy_ids s))
     \<and> set (sy_aborted s) \<subseteq> set (sy_ids s)"

lemma job_invD:
  assumes "job_inv s"
  shows "\<not> js_poisoned (sy_registry s)" and "wf_map (js_jobs (sy_registry s))" and "wf_map (sy_workers s)"
    and "length (js_jobs (sy_registry s)) \<le> max_jobs_total (js_policy (sy_registry s))"
    and "map_of (js_jobs (sy_registry s)) job_id = Some r \<Longrightarrow> record_ok job_id r"
    and "map_of (js_jobs (sy_registry s)) job_id = Some r \<Longrightarrow> worker_ok s job_id r"
    and "map_of (sy_workers s) job_id = Some w \<Longrightarrow> job_id \<in> set (sy_ids s)"
    and "set (sy_aborted s) \<subseteq> set (sy_ids s)"
  using assms unfolding job_inv_def by blast+

lemma job_invI:
  assumes "\<not> js_poisoned (sy_registry s)" and "wf_map (js_jobs (sy_registry s))" and "wf_map (sy_workers s)"
    and "length (js_jobs (sy_registry s)) \<le> max_jobs_total (js_policy (sy_registry s))"
    and "\<And>job_id r. map_of (js_jobs (sy_registry s)) job_id = Some r \<Longrightarrow> record_ok job_id r"
    and "\<And>job_id r. map_of (js_jobs (sy_registry s)) job_id = Some r \<Longrightarrow> worker_ok s job_id r"
    and "\<And>job_id w. map_of (sy_workers s) job_id = Some w \<Longrightarrow> job_id \<in> set (sy_ids s)"
    and "set (sy_aborted s) \<subseteq> set (sy_ids s)"
  shows "job_inv s"
  using assms unfolding job_inv_def by blast

text \<open>Purging keeps the invariant.\<close>

lemma purge_lookup:
  "wf_map (js_jobs st) \<Longrightarrow>
     map_of (js_jobs (snd (purge_expired_jobs now st))) job_id =
       (case map_of (js_jobs st) job_id of None \<Rightarrow> None
        | Some r \<Rightarrow> if job_expired_at now r then None else Some r)"
  by (simp add: purge_expired_jobs_sweeps job_store.sweep_lookup)

lemma purge_frame [simp]:
  "js_poisoned (snd (purge_expired_jobs now st)) = js_poisoned st"
  "js_policy (snd (purge_expired_jobs now st)) = js_policy st"
  by (simp_all add: purge_expired_jobs_sweeps)

lemma snd_sweep [simp]:
  "snd (sweep_expired_jobs now st) = (if js_poisoned st then st else snd (purge_expired_jobs now st))"
  by (simp add: sweep_expired_jobs_def split: prod.splits)

lemma purge_wf: "wf_map (js_jobs st) \<Longrightarrow> wf_map (js_jobs (snd (purge_expired_jobs now st)))"
  by (simp add: purge_expired_jobs_sweeps job_store.sweep_wf)

lemma purge_length: "length (js_jobs (snd (purge_expired_jobs now st))) \<le> length (js_jobs st)"
  by (simp add: purge_expired_jobs_sweeps sweep_jobs_def length_retain_le)

lemma job_inv_purge:
  assumes "job_inv s"
  shows "job_inv (s\<lparr>sy_registry := snd (purge_expired_jobs now (sy_registry s))\<rparr>)"
proof (rule job_invI)
  note wf = job_invD(2) [OF assms]
  fix job_id r
  assume "map_of (js_jobs (sy_registry (s\<lparr>sy_registry := snd (purge_expired_jobs now (sy_registry s))\<rparr>))) job_id = Some r"
  then have r: "map_of (js_jobs (sy_registry s)) job_id = Some r"
    by (auto simp: purge_lookup [OF wf] split: option.splits if_splits)
  show "record_ok job_id r" using job_invD(5) [OF assms r] .
  show "worker_ok (s\<lparr>sy_registry := snd (purge_expired_jobs now (sy_registry s))\<rparr>) job_id r"
    using job_invD(6) [OF assms r] by (simp add: worker_ok_def)
qed (use assms job_invD [OF assms] purge_length [of now "sy_registry s"] in
    \<open>auto simp: purge_wf intro: order_trans\<close>)

text \<open>Replacing one record, and with it its own worker and its own abort handle.\<close>

lemma job_inv_put:
  assumes inv: "job_inv s" and r: "map_of (js_jobs (sy_registry s)) job_id = Some r"
    and ok: "record_ok job_id r'" "worker_ok s' job_id r'"
    and registry: "sy_registry s' = put_job job_id r' (sy_registry s)"
    and workers: "\<And>id. id \<noteq> job_id \<Longrightarrow> map_of (sy_workers s') id = map_of (sy_workers s) id"
      "wf_map (sy_workers s')"
    and aborted: "set (sy_aborted s') \<subseteq> insert job_id (set (sy_aborted s))"
    and ids: "sy_ids s' = sy_ids s"
  shows "job_inv s'"
proof (rule job_invI)
  fix id q
  assume q: "map_of (js_jobs (sy_registry s')) id = Some q"
  have "record_ok id q \<and> worker_ok s' id q"
  proof (cases "id = job_id")
    case True
    then show ?thesis using q ok by (simp add: registry put_job_def)
  next
    case False
    then have "map_of (js_jobs (sy_registry s)) id = Some q"
      using q by (simp add: registry put_job_def)
    then show ?thesis
      using job_invD(5,6) [OF inv] False workers(1) [OF False] aborted ids
      by (fastforce simp: worker_ok_def Let_def)
  qed
  then show "record_ok id q" "worker_ok s' id q" by simp_all
next
  fix id w
  assume w: "map_of (sy_workers s') id = Some w"
  show "id \<in> set (sy_ids s')"
  proof (cases "id = job_id")
    case True
    then show ?thesis using job_invD(6) [OF inv r] by (simp add: ids worker_ok_def Let_def)
  next
    case False
    then show ?thesis using w workers(1) job_invD(7) [OF inv] by (simp add: ids)
  qed
next
  show "length (js_jobs (sy_registry s')) \<le> max_jobs_total (js_policy (sy_registry s'))"
    using job_invD(4) [OF inv] r by (simp add: registry put_job_def length_update)
  show "\<not> js_poisoned (sy_registry s')" "wf_map (js_jobs (sy_registry s'))"
    using job_invD(1,2) [OF inv] by (simp_all add: registry put_job_def)
  show "wf_map (sy_workers s')" by (rule workers(2))
  show "set (sy_aborted s') \<subseteq> set (sy_ids s')"
    using aborted job_invD(6) [OF inv r] job_invD(8) [OF inv] by (auto simp: ids worker_ok_def Let_def)
qed

text \<open>A worker that stops, when its record does not need it any more.\<close>

lemma job_inv_stop:
  assumes inv: "job_inv s"
    and idle: "\<And>r. map_of (js_jobs (sy_registry s)) job_id = Some r \<Longrightarrow> is_terminal (jb_status (jr_job r))"
  shows "job_inv (s\<lparr>sy_workers := AList.delete job_id (sy_workers s)\<rparr>)"
proof (rule job_invI)
  fix id r
  assume "map_of (js_jobs (sy_registry (s\<lparr>sy_workers := AList.delete job_id (sy_workers s)\<rparr>))) id = Some r"
  then have r: "map_of (js_jobs (sy_registry s)) id = Some r" by simp
  show "record_ok id r" using job_invD(5) [OF inv r] .
  show "worker_ok (s\<lparr>sy_workers := AList.delete job_id (sy_workers s)\<rparr>) id r"
    using job_invD(6) [OF inv r] idle r
    by (auto simp: worker_ok_def Let_def is_terminal_def)
qed (use job_invD [OF inv] in \<open>auto split: if_splits\<close>)

lemma registry_same [simp]: "s\<lparr>sy_registry := sy_registry s\<rparr> = s"
  by simp

lemma job_inv_new: "job_inv (new_job_system policy)"
  by (simp add: job_inv_def new_job_system_def new_job_registry_def)

lemma record_ok_new: "record_ok job_id
    \<lparr>jr_owner_user = owner, jr_session_token_digest = digest,
     jr_job = report_export_job now job_id report_id request, jr_artifact = None,
     jr_abort_handle = None, jr_purge_after = None\<rparr>"
  by (cases request) (simp_all add: record_ok_def report_export_job_def is_terminal_def)

lemma report_export_job_simps [simp]:
  "jb_id (report_export_job now job_id report_id request) = job_id"
  "jb_status (report_export_job now job_id report_id request) = Queued"
  by (cases request; simp add: report_export_job_def)+

lemma job_inv_enqueue:
  assumes inv: "job_inv s"
  shows "job_inv (job_action now (Enqueue owner digest report_id request job_id) s)"
proof (cases "job_id \<in> set (sy_ids s)")
  case True
  then show ?thesis using inv by simp
next
  case False
  let ?st = "snd (purge_expired_jobs now (sy_registry s))"
  let ?p = "s\<lparr>sy_registry := ?st\<rparr>"
  have p: "job_inv ?p" by (rule job_inv_purge) (rule inv)
  have fresh: "map_of (js_jobs ?st) job_id = None"
  proof (rule ccontr)
    assume "map_of (js_jobs ?st) job_id \<noteq> None"
    then obtain r where "map_of (js_jobs (sy_registry ?p)) job_id = Some r" by auto
    with job_invD(6) [OF p] have "job_id \<in> set (sy_ids ?p)" by (simp add: worker_ok_def Let_def)
    with False show False by simp
  qed
  show ?thesis
  proof (cases "max_jobs_total (js_policy (sy_registry s)) \<le> length (js_jobs ?st)")
    case True
    have "job_inv (?p\<lparr>sy_ids := job_id # sy_ids s\<rparr>)"
      by (rule job_invI) (use job_invD [OF p] in \<open>auto simp: worker_ok_def Let_def\<close>)
    then show ?thesis
      using True False job_invD(1) [OF inv]
      by (simp add: insert_job_def Let_def)
  next
    case room: False
    let ?r = "\<lparr>jr_owner_user = owner, jr_session_token_digest = digest,
        jr_job = report_export_job now job_id report_id request, jr_artifact = None,
        jr_abort_handle = None, jr_purge_after = None\<rparr>"
    let ?s = "s\<lparr>sy_registry := put_job job_id ?r ?st,
        sy_workers := AList.update job_id Spawned (sy_workers s), sy_ids := job_id # sy_ids s\<rparr>"
    have step: "job_action now (Enqueue owner digest report_id request job_id) s = ?s"
      using room False job_invD(1) [OF inv] by (simp add: insert_job_def Let_def put_job_def)
    have "job_inv ?s"
    proof (rule job_invI)
      fix id q
      assume q: "map_of (js_jobs (sy_registry ?s)) id = Some q"
      have "record_ok id q \<and> worker_ok ?s id q"
      proof (cases "id = job_id")
        case True
        then have "q = ?r" using q by (simp add: put_job_def)
        then show ?thesis
          using True record_ok_new False job_invD(8) [OF inv]
          by (auto simp: worker_ok_def)
      next
        case other: False
        then have "map_of (js_jobs (sy_registry ?p)) id = Some q"
          using q by (simp add: put_job_def)
        then show ?thesis
          using job_invD(5,6) [OF p] other by (auto simp: worker_ok_def Let_def)
      qed
      then show "record_ok id q" "worker_ok ?s id q" by simp_all
    next
      show "length (js_jobs (sy_registry ?s)) \<le> max_jobs_total (js_policy (sy_registry ?s))"
        using room fresh by (simp add: put_job_def length_update)
    qed (use job_invD [OF inv] in \<open>auto simp: put_job_def purge_wf split: if_splits\<close>)
    then show ?thesis unfolding step .
  qed
qed

lemma is_terminal_simps [simp]:
  "is_terminal Succeeded" "is_terminal Failed" "is_terminal Cancelled" "is_terminal JobExpired"
  "\<not> is_terminal Queued" "\<not> is_terminal Running" "\<not> is_terminal Cancelling"
  by (simp_all add: is_terminal_def)

lemma status_cases:
  assumes "record_ok job_id r"
  obtains "jb_status (jr_job r) = Queued" | "jb_status (jr_job r) = Running"
    | "jb_status (jr_job r) = Succeeded" | "jb_status (jr_job r) = Failed"
    | "jb_status (jr_job r) = Cancelled"
  using assms by (cases "jb_status (jr_job r)") (auto simp: record_ok_def Let_def)

text \<open>The record updates of the operations keep a record in order.\<close>

lemma record_ok_attach:
  "record_ok job_id r \<Longrightarrow> \<not> is_terminal (jb_status (jr_job r)) \<Longrightarrow>
     record_ok job_id (r\<lparr>jr_abort_handle := h\<rparr>)"
  by (auto simp: record_ok_def Let_def)

lemma record_ok_running:
  "record_ok job_id r \<Longrightarrow> jb_status (jr_job r) = Queued \<Longrightarrow> record_ok job_id (running_record now r)"
  by (simp add: record_ok_def running_record_def Let_def)

lemma record_ok_succeeded:
  "record_ok job_id r \<Longrightarrow> jb_status (jr_job r) = Running \<Longrightarrow>
     record_ok job_id (succeeded_record now ret job_id artifact r)"
  by (simp add: record_ok_def succeeded_record_def Let_def)

lemma record_ok_failed:
  "record_ok job_id r \<Longrightarrow> jb_status (jr_job r) = Running \<Longrightarrow>
     record_ok job_id (failed_record now ret error r)"
  by (simp add: record_ok_def failed_record_def Let_def)

lemma record_status_simps [simp]:
  "jb_status (jr_job (running_record now r)) = Running"
  "jb_status (jr_job (succeeded_record now ret job_id artifact r)) = Succeeded"
  "jb_status (jr_job (failed_record now ret error r)) = Failed"
  "jr_abort_handle (running_record now r) = jr_abort_handle r"
  "jr_abort_handle (succeeded_record now ret job_id artifact r) = None"
  "jr_abort_handle (failed_record now ret error r) = None"
  by (simp_all add: running_record_def succeeded_record_def failed_record_def Let_def)

lemma job_inv_attach:
  assumes inv: "job_inv s"
  shows "job_inv (job_action now (AttachHandle job_id) s)"
proof (cases "map_of (js_jobs (sy_registry s)) job_id")
  case None
  then show ?thesis using inv job_invD(1) [OF inv] by (simp add: set_job_abort_handle_def)
next
  case (Some r)
  note ok = job_invD(5,6) [OF inv Some]
  show ?thesis
  proof (cases "is_terminal (jb_status (jr_job r))")
    case True
    have "job_inv (s\<lparr>sy_aborted := job_id # sy_aborted s\<rparr>)"
    proof (rule job_invI)
      fix id q
      assume "map_of (js_jobs (sy_registry (s\<lparr>sy_aborted := job_id # sy_aborted s\<rparr>))) id = Some q"
      then have q: "map_of (js_jobs (sy_registry s)) id = Some q" by simp
      show "record_ok id q" using job_invD(5) [OF inv q] .
      show "worker_ok (s\<lparr>sy_aborted := job_id # sy_aborted s\<rparr>) id q"
        using job_invD(6) [OF inv q] Some q True by (auto simp: worker_ok_def Let_def)
    next
      have "job_id \<in> set (sy_ids s)" using ok(2) by (simp add: worker_ok_def Let_def)
      then show "set (sy_aborted (s\<lparr>sy_aborted := job_id # sy_aborted s\<rparr>))
          \<subseteq> set (sy_ids (s\<lparr>sy_aborted := job_id # sy_aborted s\<rparr>))"
        using job_invD(8) [OF inv] by simp
    qed (use job_invD [OF inv] in auto)
    then show ?thesis using Some True job_invD(1) [OF inv] by (simp add: set_job_abort_handle_def)
  next
    case False
    have "record_ok job_id (r\<lparr>jr_abort_handle := Some job_id\<rparr>)"
      using ok(1) False by (rule record_ok_attach)
    then show ?thesis
      by (rule job_inv_put [OF inv Some])
        (use Some False job_invD(1,3) [OF inv] ok(2) in
          \<open>simp_all add: set_job_abort_handle_def worker_ok_def Let_def subset_insertI\<close>)
  qed
qed

lemma job_inv_run:
  assumes inv: "job_inv s"
  shows "job_inv (job_action now (WorkerRun job_id) s)"
proof (cases "map_of (sy_workers s) job_id = Some Spawned")
  case False
  then show ?thesis using inv by simp
next
  case worker: True
  show ?thesis
  proof (cases "map_of (js_jobs (sy_registry s)) job_id")
    case None
    then show ?thesis
      using worker job_inv_stop [OF inv, of job_id] job_invD(1) [OF inv]
      by (simp add: mark_job_running_def)
  next
    case (Some r)
    note ok = job_invD(5,6) [OF inv Some]
    have "jb_status (jr_job r) = Queued \<or> jb_status (jr_job r) = Cancelled"
      using ok(1) by (rule status_cases) (use worker ok(2) in \<open>auto simp: worker_ok_def Let_def\<close>)
    then show ?thesis
    proof
      assume "jb_status (jr_job r) = Cancelled"
      then show ?thesis
        using worker Some job_inv_stop [OF inv, of job_id] job_invD(1) [OF inv]
        by (simp add: mark_job_running_def)
    next
      assume queued: "jb_status (jr_job r) = Queued"
      have "record_ok job_id (running_record now r)" using ok(1) queued by (rule record_ok_running)
      then show ?thesis
        by (rule job_inv_put [OF inv Some])
          (use Some worker queued job_invD(1,3) [OF inv] ok(2) in
            \<open>simp_all add: mark_job_running_def worker_ok_def Let_def subset_insertI\<close>)
    qed
  qed
qed

lemma job_inv_finish:
  assumes inv: "job_inv s" and worker: "map_of (sy_workers s) job_id = Some Working"
    and Some: "map_of (js_jobs (sy_registry s)) job_id = Some r"
    and running: "jb_status (jr_job r) \<noteq> Cancelled \<Longrightarrow> record_ok job_id r' \<and> jr_abort_handle r' = None
      \<and> (jb_status (jr_job r') = Succeeded \<or> jb_status (jr_job r') = Failed)"
    and registry: "st = (if jb_status (jr_job r) = Cancelled then sy_registry s
      else put_job job_id r' (sy_registry s))"
  shows "job_inv (s\<lparr>sy_registry := st, sy_workers := AList.delete job_id (sy_workers s)\<rparr>)"
proof (cases "jb_status (jr_job r) = Cancelled")
  case True
  then show ?thesis using job_inv_stop [OF inv, of job_id] Some by (simp add: registry)
next
  case False
  note ok = job_invD(6) [OF inv Some]
  have "worker_ok (s\<lparr>sy_registry := st, sy_workers := AList.delete job_id (sy_workers s)\<rparr>) job_id r'"
    using running [OF False] ok unfolding worker_ok_def Let_def by (elim conjE disjE) simp_all
  then show ?thesis
    by (rule job_inv_put [OF inv Some, where r' = r', rotated])
      (use running [OF False] False job_invD(3) [OF inv] in \<open>auto simp: registry\<close>)
qed

lemma working_running:
  assumes "job_inv s" and "map_of (sy_workers s) job_id = Some Working"
    and "map_of (js_jobs (sy_registry s)) job_id = Some r"
  shows "jb_status (jr_job r) = Running \<or> jb_status (jr_job r) = Cancelled"
  using job_invD(5) [OF assms(1,3)]
  by (rule status_cases) (use job_invD(6) [OF assms(1,3)] assms(2) in \<open>auto simp: worker_ok_def Let_def\<close>)

lemma job_inv_succeed:
  assumes inv: "job_inv s"
  shows "job_inv (job_action now (WorkerSucceed job_id artifact) s)"
proof (cases "map_of (sy_workers s) job_id = Some Working")
  case worker: True
  show ?thesis
  proof (cases "map_of (js_jobs (sy_registry s)) job_id")
    case None
    then show ?thesis
      using worker job_inv_stop [OF inv, of job_id] job_invD(1) [OF inv]
      by (simp add: mark_job_succeeded_def)
  next
    case (Some r)
    note ok = job_invD(5) [OF inv Some]
    have running: "jb_status (jr_job r) = Running" if "jb_status (jr_job r) \<noteq> Cancelled"
      using that working_running [OF inv worker Some] by simp
    let ?r = "succeeded_record now (terminal_retention_secs (js_policy (sy_registry s))) job_id artifact r"
    have "job_inv (s\<lparr>sy_registry := if jb_status (jr_job r) = Cancelled then sy_registry s
          else put_job job_id ?r (sy_registry s), sy_workers := AList.delete job_id (sy_workers s)\<rparr>)"
      by (rule job_inv_finish [OF inv worker Some _ refl])
        (simp add: record_ok_succeeded [OF ok running])
    then show ?thesis
      using job_invD(1) [OF inv] Some worker by (simp add: mark_job_succeeded_def Let_def split: if_splits)
  qed
qed (use inv in simp)

lemma job_inv_fail:
  assumes inv: "job_inv s"
  shows "job_inv (job_action now (WorkerFail job_id error) s)"
proof (cases "map_of (sy_workers s) job_id = Some Working")
  case worker: True
  show ?thesis
  proof (cases "map_of (js_jobs (sy_registry s)) job_id")
    case None
    then show ?thesis
      using worker job_inv_stop [OF inv, of job_id] job_invD(1) [OF inv]
      by (simp add: mark_job_failed_def)
  next
    case (Some r)
    note ok = job_invD(5) [OF inv Some]
    have running: "jb_status (jr_job r) = Running" if "jb_status (jr_job r) \<noteq> Cancelled"
      using that working_running [OF inv worker Some] by simp
    let ?r = "failed_record now (terminal_retention_secs (js_policy (sy_registry s))) error r"
    have "job_inv (s\<lparr>sy_registry := if jb_status (jr_job r) = Cancelled then sy_registry s
          else put_job job_id ?r (sy_registry s), sy_workers := AList.delete job_id (sy_workers s)\<rparr>)"
      by (rule job_inv_finish [OF inv worker Some _ refl])
        (simp add: record_ok_failed [OF ok running])
    then show ?thesis
      using job_invD(1) [OF inv] Some worker by (simp add: mark_job_failed_def Let_def split: if_splits)
  qed
qed (use inv in simp)

lemma job_inv_worker_stop:
  assumes inv: "job_inv s"
  shows "job_inv (job_action now (WorkerStop job_id) s)"
proof (cases "job_id \<in> set (sy_aborted s)")
  case True
  have "job_inv (s\<lparr>sy_workers := AList.delete job_id (sy_workers s)\<rparr>)"
    by (rule job_inv_stop [OF inv]) (use True job_invD(6) [OF inv] in \<open>auto simp: worker_ok_def Let_def\<close>)
  then show ?thesis using True by simp
qed (use inv in simp)

lemma record_ok_cancelled:
  "record_ok job_id r \<Longrightarrow> \<not> is_terminal (jb_status (jr_job r)) \<Longrightarrow>
     record_ok job_id (r\<lparr>jr_job := cancelled_job now ret (jr_job r), jr_abort_handle := None,
       jr_purge_after := Some p\<rparr>)"
  by (cases "jb_status (jr_job r)"; simp add: record_ok_def cancelled_job_def Let_def is_terminal_def)

lemma job_inv_cancel:
  assumes inv: "job_inv s"
  shows "job_inv (job_action now (Cancel user job_id) s)"
proof -
  let ?st = "snd (purge_expired_jobs now (sy_registry s))"
  let ?p = "s\<lparr>sy_registry := ?st\<rparr>"
  have p: "job_inv ?p" by (rule job_inv_purge) (rule inv)
  show ?thesis
  proof (cases "map_of (js_jobs ?st) job_id")
    case None
    then show ?thesis using p job_invD(1) [OF inv] by (simp add: cancel_job_record_def Let_def)
  next
    case (Some r)
    then have r: "map_of (js_jobs (sy_registry ?p)) job_id = Some r" by simp
    show ?thesis
    proof (cases "jr_owner_user r = user \<and> \<not> is_terminal (jb_status (jr_job r))")
      case False
      then show ?thesis
        using p Some job_invD(1) [OF inv] by (auto simp: cancel_job_record_def ensure_job_owner_def Let_def)
    next
      case True
      note ok = job_invD(5,6) [OF p r]
      let ?r = "r\<lparr>jr_job := cancelled_job now (terminal_retention_secs (js_policy ?st)) (jr_job r),
          jr_abort_handle := None,
          jr_purge_after := Some (now + terminal_retention_secs (js_policy ?st))\<rparr>"
      have "record_ok job_id ?r" using ok(1) True by (simp add: record_ok_cancelled)
      then show ?thesis
        by (rule job_inv_put [OF p r])
          (use Some True job_invD(1,3) [OF inv] ok(2) in
            \<open>auto simp: cancel_job_record_def ensure_job_owner_def worker_ok_def Let_def
              cancelled_job_def split: option.splits\<close>)
    qed
  qed
qed

lemma cancel_in_place_ok:
  "record_ok job_id r \<Longrightarrow> \<not> is_terminal (jb_status (jr_job r)) \<Longrightarrow>
     record_ok job_id (snd (cancel_job_record_in_place now ret r))"
  by (cases "jb_status (jr_job r)"; simp add: record_ok_def cancel_job_record_in_place_def cancelled_job_def Let_def is_terminal_def)

lemma job_inv_cancel_session:
  assumes inv: "job_inv s"
  shows "job_inv (job_action now (CancelSession digest) s)"
proof -
  let ?st = "snd (purge_expired_jobs now (sy_registry s))"
  let ?p = "s\<lparr>sy_registry := ?st\<rparr>"
  let ?f = "\<lambda>r. if hit digest r
      then snd (cancel_job_record_in_place now (terminal_retention_secs (js_policy ?st)) r) else r"
  let ?handles = "List.map_filter (\<lambda>(id, r). if hit digest r then jr_abort_handle r else None) (js_jobs ?st)"
  let ?s = "s\<lparr>sy_registry := ?st\<lparr>js_jobs := map (\<lambda>(id, r). (id, ?f r)) (js_jobs ?st)\<rparr>,
      sy_aborted := ?handles @ sy_aborted s\<rparr>"
  have p: "job_inv ?p" by (rule job_inv_purge) (rule inv)
  have wf: "wf_map (js_jobs ?st)" using job_invD(2) [OF p] by simp
  have step: "job_action now (CancelSession digest) s = ?s"
    using job_invD(1) [OF inv] by (simp add: cancel_jobs_for_session_def Let_def cancel_loop_eq)
  have handles: "\<exists>r. map_of (js_jobs ?st) h = Some r \<and> hit digest r" if "h \<in> set ?handles" for h
  proof -
    from that obtain id r where mem: "(id, r) \<in> set (js_jobs ?st)" and r: "hit digest r"
      and h: "jr_abort_handle r = Some h"
      by (auto simp: List.map_filter_def split: if_splits)
    then have look: "map_of (js_jobs ?st) id = Some r" using wf by (simp add: wf_map_SomeI)
    then have "worker_ok ?p id r" using job_invD(6) [OF p] by simp
    then have "h = id" using h by (simp add: worker_ok_def Let_def)
    with look r show ?thesis by blast
  qed
  have "job_inv ?s"
  proof (rule job_invI)
    fix id q
    assume "map_of (js_jobs (sy_registry ?s)) id = Some q"
    then obtain r where r: "map_of (js_jobs ?st) id = Some r" and q: "q = ?f r"
      by (auto simp: map_of_map_values)
    have ok: "record_ok id r" "worker_ok ?p id r"
      using job_invD(5,6) [OF p] r by simp_all
    show "record_ok id q"
      using ok(1) by (auto simp: q hit_def cancel_in_place_ok)
    show "worker_ok ?s id q"
    proof (cases "hit digest r")
      case True
      then show ?thesis using ok(2)
        by (auto simp: q worker_ok_def Let_def cancel_job_record_in_place_def cancelled_job_def)
    next
      case False
      then have "id \<notin> set ?handles" using handles r by fastforce
      then show ?thesis using False ok(2) by (auto simp: q worker_ok_def Let_def)
    qed
  next
    have "h \<in> set (sy_ids s)" if h: "h \<in> set ?handles" for h
    proof -
      from handles [OF h] obtain r where "map_of (js_jobs (sy_registry ?p)) h = Some r" by auto
      from job_invD(6) [OF p this] show ?thesis by (simp add: worker_ok_def Let_def)
    qed
    then show "set (sy_aborted ?s) \<subseteq> set (sy_ids ?s)" using job_invD(8) [OF inv] by auto
  qed (use job_invD [OF p] in \<open>auto simp: wf_map_map_values\<close>)
  then show ?thesis unfolding step .
qed

lemma job_action_inv: "job_inv s \<Longrightarrow> job_inv (job_action now act s)"
proof (cases act)
  case (Enqueue owner digest report_id request job_id)
  then show "job_inv s \<Longrightarrow> ?thesis" by (simp only: job_inv_enqueue)
next
  case (AttachHandle job_id)
  then show "job_inv s \<Longrightarrow> ?thesis" by (simp only: job_inv_attach)
next
  case (WorkerRun job_id)
  then show "job_inv s \<Longrightarrow> ?thesis" by (simp only: job_inv_run)
next
  case (WorkerSucceed job_id artifact)
  then show "job_inv s \<Longrightarrow> ?thesis" by (simp only: job_inv_succeed)
next
  case (WorkerFail job_id error)
  then show "job_inv s \<Longrightarrow> ?thesis" by (simp only: job_inv_fail)
next
  case (WorkerStop job_id)
  then show "job_inv s \<Longrightarrow> ?thesis" by (simp only: job_inv_worker_stop)
next
  case (Cancel user job_id)
  then show "job_inv s \<Longrightarrow> ?thesis" by (simp only: job_inv_cancel)
next
  case (CancelSession digest)
  then show "job_inv s \<Longrightarrow> ?thesis" by (simp only: job_inv_cancel_session)
next
  case (Snapshot user job_id)
  then show "job_inv s \<Longrightarrow> ?thesis"
    using job_inv_purge [of s now] job_invD(1) [of s]
    by (auto simp: job_snapshot_def Let_def split: option.splits)
next
  case (Artifact user job_id)
  then show "job_inv s \<Longrightarrow> ?thesis"
    using job_inv_purge [of s now] job_invD(1) [of s]
    by (auto simp: job_artifact_def Let_def split: option.splits)
next
  case Sweep
  then show "job_inv s \<Longrightarrow> ?thesis"
    using job_inv_purge [of s now] job_invD(1) [of s]
    by (auto simp: sweep_expired_jobs_def Let_def split: prod.splits)
qed

definition empty_jobs :: "JobSystem \<Rightarrow> bool" where
  "empty_jobs s \<longleftrightarrow> (\<exists>policy. s = new_job_system policy)"

interpretation job_machine: safe_machine empty_jobs job_step job_inv
  by unfold_locales (auto simp: empty_jobs_def job_inv_new elim!: job_stepE intro: job_action_inv)

lemma run_jobs_inv: "job_inv s \<Longrightarrow> job_inv (run_jobs acts s)"
  by (rule job_machine.steps_inv [OF run_jobs_steps])

end
