(* ===== verification/Job_Runs.thy ===== *)
theory Job_Runs
  imports Jobs
begin

text \<open>
  What runs of the job system guarantee: finished jobs are final, unfinished ones are never
  lost and can always finish, jobs are private to their owners, and deleting a session
  cancels exactly its jobs.
\<close>

section \<open>Finished jobs and unfinished jobs\<close>

definition job_lookup :: "JobSystem \<Rightarrow> string \<Rightarrow> JobRecord option" where
  "job_lookup s job_id = map_of (js_jobs (sy_registry s)) job_id"

definition status_of :: "JobRecord \<Rightarrow> JobStatus" where
  "status_of r = jb_status (jr_job r)"

lemma purge_finished:
  "wf_map (js_jobs st) \<Longrightarrow> map_of (js_jobs st) job_id = Some r \<Longrightarrow>
     map_of (js_jobs (snd (purge_expired_jobs now st))) job_id = (if job_expired_at now r then None else Some r)"
  by (simp add: purge_lookup)

lemma put_job_lookup [simp]:
  "map_of (js_jobs (put_job job_id r st)) = (map_of (js_jobs st))(job_id \<mapsto> r)"
  by (simp add: put_job_def)

text \<open>A finished job is left as it is by every action, or removed when its time has come.\<close>

lemma finished_action:
  assumes inv: "job_inv s" and r: "job_lookup s job_id = Some r" and fin: "is_terminal (status_of r)"
  shows "job_lookup (job_action now act s) job_id = Some r
    \<or> job_expired_at now r \<and> job_lookup (job_action now act s) job_id = None"
proof -
  note D = job_invD [OF inv]
  have look: "map_of (js_jobs (sy_registry s)) job_id = Some r" using r by (simp add: job_lookup_def)
  have finished: "is_terminal (jb_status (jr_job r))" using fin by (simp add: status_of_def)
  note purge = purge_finished [OF D(2) look]
  have w: "map_of (sy_workers s) job_id \<noteq> None \<Longrightarrow> jb_status (jr_job r) = Cancelled"
    using D(5) [OF look] by (rule status_cases) (use D(6) [OF look] finished in \<open>auto simp: worker_ok_def Let_def\<close>)
  have used: "job_id \<in> set (sy_ids s)" using D(6) [OF look] by (simp add: worker_ok_def Let_def)
  show ?thesis
  proof (cases act)
    case (Enqueue owner digest report_id request id)
    then show ?thesis using purge look D(1) used
      by (auto simp: job_lookup_def insert_job_def Let_def)
  next
    case (AttachHandle id)
    then show ?thesis using look D(1) finished
      by (auto simp: job_lookup_def set_job_abort_handle_def split: option.splits)
  next
    case (WorkerRun id)
    then show ?thesis using look D(1) w
      by (auto simp: job_lookup_def mark_job_running_def split: option.splits)
  next
    case (WorkerSucceed id artifact)
    then show ?thesis using look D(1) w
      by (auto simp: job_lookup_def mark_job_succeeded_def Let_def split: option.splits)
  next
    case (WorkerFail id error)
    then show ?thesis using look D(1) w
      by (auto simp: job_lookup_def mark_job_failed_def Let_def split: option.splits)
  next
    case (WorkerStop id)
    then show ?thesis using look by (simp add: job_lookup_def)
  next
    case (Snapshot user id)
    then show ?thesis using purge D(1)
      by (auto simp: job_lookup_def job_snapshot_def Let_def split: option.splits)
  next
    case (Cancel user id)
    then show ?thesis using purge D(1) finished
      by (auto simp: job_lookup_def cancel_job_record_def ensure_job_owner_def Let_def
          split: option.splits if_splits)
  next
    case (CancelSession digest)
    then show ?thesis using purge D(1) finished
      by (auto simp: job_lookup_def cancel_jobs_for_session_def cancel_loop_eq map_of_map_values
          hit_def Let_def)
  next
    case (Artifact user id)
    then show ?thesis using purge D(1)
      by (auto simp: job_lookup_def job_artifact_def Let_def split: option.splits)
  next
    case Sweep
    then show ?thesis using purge D(1) by (simp add: job_lookup_def)
  qed
qed

lemma gone_action:
  assumes inv: "job_inv s" and "job_lookup s job_id = None" and used: "job_id \<in> set (sy_ids s)"
  shows "job_lookup (job_action now act s) job_id = None \<and> job_id \<in> set (sy_ids (job_action now act s))"
proof -
  note D = job_invD [OF inv]
  have look: "map_of (js_jobs (sy_registry s)) job_id = None" using assms(2) by (simp add: job_lookup_def)
  have purge: "map_of (js_jobs (snd (purge_expired_jobs now (sy_registry s)))) job_id = None"
    using look D(2) by (simp add: purge_lookup)
  show ?thesis
    by (cases act; use look purge used D(1) in \<open>auto simp: job_lookup_def insert_job_def
      set_job_abort_handle_def mark_job_running_def mark_job_succeeded_def mark_job_failed_def
      job_snapshot_def cancel_job_record_def job_artifact_def
      cancel_jobs_for_session_def cancel_loop_eq map_of_map_values ensure_job_owner_def Let_def
      split: option.splits prod.splits if_splits\<close>)
qed

lemma gone_run:
  "job_inv s \<Longrightarrow> job_lookup s job_id = None \<Longrightarrow> job_id \<in> set (sy_ids s) \<Longrightarrow>
     job_lookup (run_jobs acts s) job_id = None"
proof (induction acts arbitrary: s)
  case (Cons a acts)
  obtain now act where a: "a = (now, act)" by (cases a)
  from gone_action [OF Cons.prems, of now act] show ?case
    using Cons.IH [OF job_action_inv [OF Cons.prems(1)]] by (simp add: a)
qed simp

lemma sy_ids_mono: "set (sy_ids s) \<subseteq> set (sy_ids (job_action now act s))"
  by (cases act) (auto simp: Let_def split: prod.splits)

lemma lookup_used: "job_inv s \<Longrightarrow> job_lookup s job_id = Some r \<Longrightarrow> job_id \<in> set (sy_ids s)"
  using job_invD(6) [of s job_id r] by (simp add: job_lookup_def worker_ok_def Let_def)

lemma finished_run:
  assumes "job_inv s" and "job_lookup s job_id = Some r" and fin: "is_terminal (status_of r)"
  shows "job_lookup (run_jobs acts s) job_id = Some r
    \<or> (\<exists>(now, act) \<in> set acts. job_expired_at now r) \<and> job_lookup (run_jobs acts s) job_id = None"
  using assms(1,2)
proof (induction acts arbitrary: s)
  case Nil
  then show ?case by simp
next
  case (Cons a acts)
  obtain now act where a: "a = (now, act)" by (cases a)
  have inv: "job_inv (job_action now act s)" by (rule job_action_inv) (rule Cons.prems)
  from finished_action [OF Cons.prems fin, of now act] show ?case
  proof
    assume "job_lookup (job_action now act s) job_id = Some r"
    from Cons.IH [OF inv this] show ?thesis by (auto simp: a)
  next
    assume gone: "job_expired_at now r \<and> job_lookup (job_action now act s) job_id = None"
    moreover have "job_id \<in> set (sy_ids (job_action now act s))"
      using lookup_used [OF Cons.prems] sy_ids_mono by blast
    ultimately have "job_lookup (run_jobs acts (job_action now act s)) job_id = None"
      using gone_run [OF inv] by blast
    with gone show ?thesis by (auto simp: a)
  qed
qed

text \<open>An unfinished job stays in the registry, with its owner and its session.\<close>

definition same_job :: "JobRecord \<Rightarrow> JobRecord \<Rightarrow> bool" where
  "same_job r r' \<longleftrightarrow> jr_owner_user r' = jr_owner_user r
     \<and> jr_session_token_digest r' = jr_session_token_digest r
     \<and> jb_report (jr_job r') = jb_report (jr_job r) \<and> jb_created_at (jr_job r') = jb_created_at (jr_job r)"

lemma same_job_simps [simp]:
  "same_job r r" "same_job r (running_record now r)"
  "same_job r (succeeded_record now ret job_id artifact r)" "same_job r (failed_record now ret error r)"
  "same_job r (r\<lparr>jr_abort_handle := h\<rparr>)"
  "same_job r (r\<lparr>jr_job := cancelled_job now ret (jr_job r), jr_abort_handle := h, jr_purge_after := p\<rparr>)"
  "same_job r (snd (cancel_job_record_in_place now ret r))"
  by (simp_all add: same_job_def running_record_def succeeded_record_def failed_record_def
      cancelled_job_def cancel_job_record_in_place_def Let_def)

lemma same_job_trans: "same_job r r' \<Longrightarrow> same_job r' r'' \<Longrightarrow> same_job r r''"
  by (simp add: same_job_def)

lemma unfinished_action:
  assumes inv: "job_inv s" and r: "job_lookup s job_id = Some r" and unfin: "\<not> is_terminal (status_of r)"
  shows "\<exists>r'. job_lookup (job_action now act s) job_id = Some r' \<and> same_job r r'"
proof -
  note D = job_invD [OF inv]
  have look: "map_of (js_jobs (sy_registry s)) job_id = Some r" using r by (simp add: job_lookup_def)
  have "record_ok job_id r" using D(5) [OF look] .
  then have "\<not> job_expired_at now r"
    using unfin by (simp add: record_ok_def status_of_def Let_def job_expired_at_def)
  then have purge: "map_of (js_jobs (snd (purge_expired_jobs now (sy_registry s)))) job_id = Some r"
    using purge_finished [OF D(2) look] by simp
  have used: "job_id \<in> set (sy_ids s)" using lookup_used [OF inv r] .
  show ?thesis
    by (cases act; use look purge used D(1) in \<open>auto simp: job_lookup_def insert_job_def
      set_job_abort_handle_def mark_job_running_def mark_job_succeeded_def mark_job_failed_def
      job_snapshot_def cancel_job_record_def job_artifact_def
      cancel_jobs_for_session_def cancel_loop_eq map_of_map_values ensure_job_owner_def Let_def
      split: option.splits prod.splits if_splits\<close>)
qed

lemma unfinished_run:
  assumes "job_inv s" and "job_lookup s job_id = Some r" and "\<not> is_terminal (status_of r)"
  shows "(\<exists>r'. job_lookup (run_jobs acts s) job_id = Some r' \<and> same_job r r')
    \<or> (\<exists>acts1 acts2 q. acts = acts1 @ acts2 \<and> job_lookup (run_jobs acts1 s) job_id = Some q
        \<and> same_job r q \<and> is_terminal (status_of q) \<and> (\<exists>(now, act) \<in> set acts2. job_expired_at now q))"
  using assms
proof (induction acts arbitrary: s r)
  case Nil
  then show ?case by simp
next
  case (Cons a acts)
  obtain now act where a: "a = (now, act)" by (cases a)
  let ?s = "job_action now act s"
  have inv: "job_inv ?s" by (rule job_action_inv) (rule Cons.prems)
  obtain r' where r': "job_lookup ?s job_id = Some r'" "same_job r r'"
    using unfinished_action [OF Cons.prems] by blast
  have split: "a # acts = [a] @ acts" by simp
  have first: "job_lookup (run_jobs [a] s) job_id = Some r'" using r' by (simp add: a)
  show ?case
  proof (cases "is_terminal (status_of r')")
    case True
    from finished_run [OF inv r'(1) True, of acts] show ?thesis
    proof
      assume "job_lookup (run_jobs acts ?s) job_id = Some r'"
      then show ?thesis using r'(2) by (auto simp: a)
    next
      assume "(\<exists>(now, act) \<in> set acts. job_expired_at now r')
        \<and> job_lookup (run_jobs acts ?s) job_id = None"
      then show ?thesis using split first r'(2) True by blast
    qed
  next
    case False
    from Cons.IH [OF inv r'(1) False] show ?thesis
    proof
      assume "\<exists>r''. job_lookup (run_jobs acts ?s) job_id = Some r'' \<and> same_job r' r''"
      then show ?thesis using same_job_trans [OF r'(2)] by (auto simp: a)
    next
      assume "\<exists>acts1 acts2 q. acts = acts1 @ acts2 \<and> job_lookup (run_jobs acts1 ?s) job_id = Some q
        \<and> same_job r' q \<and> is_terminal (status_of q) \<and> (\<exists>(now, act) \<in> set acts2. job_expired_at now q)"
      then obtain acts1 acts2 q where *: "acts = acts1 @ acts2"
        "job_lookup (run_jobs acts1 ?s) job_id = Some q" "same_job r' q"
        "is_terminal (status_of q)" "\<exists>(now, act) \<in> set acts2. job_expired_at now q" by blast
      then have "a # acts = (a # acts1) @ acts2" "job_lookup (run_jobs (a # acts1) s) job_id = Some q"
        by (simp_all add: a)
      then show ?thesis using * same_job_trans [OF r'(2)] by blast
    qed
  qed
qed

section \<open>Properties\<close>

text \<open>
  C2. The life of a job, in every state the system reaches: a job is queued, running,
  succeeded, failed or cancelled; its completion time, expiry and purge time are there if and
  only if it is finished, its artifact, result metadata and location if and only if it
  succeeded, its problem if and only if it failed, and a start time if it runs or ran to an
  end; no finished job keeps an abort handle. A queued or running job has its own live worker
  at the matching stage, which nobody has aborted, so none is stuck; and there are never more
  jobs than the policy allows.
\<close>

theorem job_lifecycle:
  "let s = run_jobs acts (new_job_system policy) in
     list_all (\<lambda>(job_id, r). record_ok job_id r \<and> worker_ok s job_id r) (js_jobs (sy_registry s))
     \<and> length (js_jobs (sy_registry s)) \<le> max_jobs_total (js_policy (sy_registry s))"
proof -
  let ?s = "run_jobs acts (new_job_system policy)"
  have inv: "job_inv ?s"
    by (rule job_machine.reachable_inv [OF _ run_jobs_steps]) (auto simp: empty_jobs_def)
  note D = job_invD [OF inv]
  have "record_ok job_id r \<and> worker_ok ?s job_id r"
    if "(job_id, r) \<in> set (js_jobs (sy_registry ?s))" for job_id r
    using D(5,6) wf_map_SomeI [OF D(2) that] by blast
  then show ?thesis using D(4) by (auto simp: list_all_iff Let_def)
qed

text \<open>
  C5. A finished job is final: no later action of anyone changes a field of its record; it
  is only ever removed, and not before its purge time.
\<close>

theorem finished_job_final:
  fixes acts0 policy
  defines "s \<equiv> run_jobs acts0 (new_job_system policy)"
  assumes "job_lookup s job_id = Some r" and "is_terminal (status_of r)"
  shows "(job_lookup (run_jobs acts s) job_id = Some r \<or> job_lookup (run_jobs acts s) job_id = None)
    \<and> (list_all (\<lambda>(now, act). now < the (jr_purge_after r)) acts \<longrightarrow>
         job_lookup (run_jobs acts s) job_id = Some r)"
proof -
  have inv: "job_inv s" unfolding s_def by (rule run_jobs_inv) (rule job_inv_new)
  have "record_ok job_id r" using job_invD(5) [OF inv] assms(2) by (simp add: job_lookup_def)
  then obtain p where p: "jr_purge_after r = Some p"
    using assms(3) by (auto simp: record_ok_def status_of_def Let_def)
  have early: "\<not> list_all (\<lambda>(now, act). now < the (jr_purge_after r)) acts"
    if "\<exists>(now, act) \<in> set acts. job_expired_at now r"
    using that p by (force simp: list_all_iff job_expired_at_def)
  from finished_run [OF inv assms(2,3), of acts] show ?thesis
  proof
    assume "job_lookup (run_jobs acts s) job_id = Some r"
    then show ?thesis by simp
  next
    assume "(\<exists>(now, act) \<in> set acts. job_expired_at now r) \<and> job_lookup (run_jobs acts s) job_id = None"
    then show ?thesis using early by simp
  qed
qed

definition demo_policy :: JobPolicy where
  "demo_policy = \<lparr>max_jobs_total = 2, terminal_retention_secs = 60\<rparr>"

definition demo_request :: CreateReportExportRequest where
  "demo_request = Json \<lparr>jre_filter = None, jre_filter_id = None\<rparr>"

definition demo_artifact :: JobArtifact where
  "demo_artifact = \<lparr>ja_bytes = [1, 2], ja_content_type = ''application/json'', ja_filename = ''r''\<rparr>"

definition demo_start :: "(u64 \<times> JobAction) list" where
  "demo_start = [(5, Enqueue ''ann'' [7] ''rep'' demo_request ''j1'')]"

definition demo_finish :: "(u64 \<times> JobAction) list" where
  "demo_finish = [(6, WorkerRun ''j1''), (9, WorkerSucceed ''j1'' demo_artifact)]"

definition demo_record :: JobRecord where
  "demo_record =
     \<lparr>jr_owner_user = ''ann'', jr_session_token_digest = [7],
      jr_job = report_export_job 5 ''j1'' ''rep'' demo_request, jr_artifact = None,
      jr_abort_handle = None, jr_purge_after = None\<rparr>"

lemma demo_queued: "run_jobs demo_start (new_job_system demo_policy)
    = \<lparr>sy_registry = \<lparr>js_poisoned = False, js_jobs = [(''j1'', demo_record)], js_policy = demo_policy\<rparr>,
       sy_workers = [(''j1'', Spawned)], sy_aborted = [], sy_ids = [''j1'']\<rparr>"
  by (simp add: demo_start_def new_job_system_def new_job_registry_def insert_job_def
      purge_expired_jobs_def retain_def put_job_def demo_policy_def demo_record_def Let_def)

lemma demo_finished: "job_lookup (run_jobs demo_finish (run_jobs demo_start (new_job_system demo_policy))) ''j1''
    = Some (succeeded_record 9 60 ''j1'' demo_artifact (running_record 6 demo_record))"
  unfolding demo_queued
  by (simp add: demo_finish_def job_lookup_def mark_job_running_def mark_job_succeeded_def
      demo_policy_def demo_record_def running_record_def put_job_def Let_def del: put_job_lookup)

lemma run_jobs_append: "run_jobs (acts @ acts') s = run_jobs acts' (run_jobs acts s)"
  by (induction acts s rule: run_jobs.induct) simp_all

theorem finished_job_final_witness:
  "job_lookup (run_jobs [(20, Cancel ''ann'' ''j1''), (21, CancelSession [7]), (30, WorkerFail ''j1'' (Internal ''x''))]
      (run_jobs (demo_start @ demo_finish) (new_job_system demo_policy))) ''j1''
    = Some (succeeded_record 9 60 ''j1'' demo_artifact (running_record 6 demo_record))"
  using finished_job_final [of "demo_start @ demo_finish" demo_policy "''j1''"
      "succeeded_record 9 60 ''j1'' demo_artifact (running_record 6 demo_record)"
      "[(20, Cancel ''ann'' ''j1''), (21, CancelSession [7]), (30, WorkerFail ''j1'' (Internal ''x''))]"]
  by (simp add: run_jobs_append demo_finished status_of_def del: run_jobs.simps job_action.simps)
    (simp add: succeeded_record_def Let_def)

text \<open>
  C19. An unfinished job is never lost: whatever happens after it was accepted, its record is
  there with the same owner, session and report, or it was finished in between and removed
  only by a purge at or after the purge time it got when it finished.
\<close>

theorem unfinished_job_never_lost:
  fixes acts0 policy
  defines "s \<equiv> run_jobs acts0 (new_job_system policy)"
  assumes "job_lookup s job_id = Some r" and "\<not> is_terminal (status_of r)"
  shows "(\<exists>r'. job_lookup (run_jobs acts s) job_id = Some r' \<and> same_job r r')
    \<or> (\<exists>acts1 acts2 q. acts = acts1 @ acts2 \<and> job_lookup (run_jobs acts1 s) job_id = Some q
        \<and> same_job r q \<and> is_terminal (status_of q) \<and> (\<exists>(now, act) \<in> set acts2. job_expired_at now q))"
proof (rule unfinished_run [OF _ assms(2,3)])
  show "job_inv s" unfolding s_def by (rule run_jobs_inv) (rule job_inv_new)
qed

theorem unfinished_job_never_lost_witness:
  "\<exists>r'. job_lookup (run_jobs [(1000000, Sweep)] (run_jobs demo_start (new_job_system demo_policy))) ''j1'' = Some r'
     \<and> same_job demo_record r'"
proof -
  let ?s = "run_jobs demo_start (new_job_system demo_policy)"
  have "job_lookup ?s ''j1'' = Some demo_record" by (simp add: demo_queued job_lookup_def)
  moreover have "\<not> is_terminal (status_of demo_record)" by (simp add: demo_record_def status_of_def)
  ultimately have "(\<exists>r'. job_lookup (run_jobs [(1000000, Sweep)] ?s) ''j1'' = Some r' \<and> same_job demo_record r')
    \<or> (\<exists>acts1 acts2 q. [(1000000, Sweep)] = acts1 @ acts2 \<and> job_lookup (run_jobs acts1 ?s) ''j1'' = Some q
        \<and> same_job demo_record q \<and> is_terminal (status_of q) \<and> (\<exists>(now, act) \<in> set acts2. job_expired_at now q))"
    by (rule unfinished_job_never_lost)
  moreover have "job_lookup (run_jobs [(1000000, Sweep)] ?s) ''j1'' = Some demo_record"
    unfolding demo_queued by (simp add: job_lookup_def purge_expired_jobs_def retain_def
        job_expired_at_def demo_record_def Let_def)
  ultimately show ?thesis by auto
qed

text \<open>The worker of an unfinished job brings it to success, and the artifact is the owner's.\<close>

lemma worker_succeeds:
  assumes inv: "job_inv s" and r: "job_lookup s job_id = Some r" and unfin: "\<not> is_terminal (status_of r)"
  obtains q where "job_lookup (run_jobs [(t0, WorkerRun job_id), (t, WorkerSucceed job_id artifact)] s) job_id
      = Some (succeeded_record t (terminal_retention_secs (js_policy (sy_registry s))) job_id artifact q)"
    and "jr_owner_user q = jr_owner_user r"
proof -
  note D = job_invD [OF inv]
  have look: "map_of (js_jobs (sy_registry s)) job_id = Some r" using r by (simp add: job_lookup_def)
  note ok = D(5,6) [OF look]
  have "\<exists>q. job_lookup (run_jobs [(t0, WorkerRun job_id), (t, WorkerSucceed job_id artifact)] s) job_id
      = Some (succeeded_record t (terminal_retention_secs (js_policy (sy_registry s))) job_id artifact q)
      \<and> jr_owner_user q = jr_owner_user r"
    using ok(1)
  proof (rule status_cases)
    assume "jb_status (jr_job r) = Queued"
    then show ?thesis using ok(2) D(1) look
      by (auto simp: job_lookup_def worker_ok_def mark_job_running_def mark_job_succeeded_def Let_def put_job_def
          running_record_def)
  next
    assume "jb_status (jr_job r) = Running"
    then show ?thesis using ok(2) D(1) look
      by (auto simp: job_lookup_def worker_ok_def mark_job_succeeded_def Let_def put_job_def)
  qed (use unfin in \<open>simp_all add: status_of_def\<close>)
  then show ?thesis using that by blast
qed

lemma succeeded_simps [simp]:
  "is_terminal (status_of (succeeded_record t ret job_id artifact q))"
  "job_expired_at now (succeeded_record t ret job_id artifact q) \<longleftrightarrow> \<not> now < t + ret"
  by (simp_all add: succeeded_record_def status_of_def is_terminal_def job_expired_at_def Let_def)

lemma succeeded_artifact:
  assumes inv: "job_inv s" and q: "job_lookup s job_id = Some (succeeded_record t ret job_id artifact q)"
    and time: "t' < t + ret"
  shows "fst (job_artifact t' user job_id (sy_registry s))
    = (if jr_owner_user q = user then Inr artifact else Inl (job_not_found job_id))"
proof -
  note D = job_invD [OF inv]
  have look: "map_of (js_jobs (sy_registry s)) job_id = Some (succeeded_record t ret job_id artifact q)"
    using q by (simp add: job_lookup_def)
  have "map_of (js_jobs (snd (purge_expired_jobs t' (sy_registry s)))) job_id
      = Some (succeeded_record t ret job_id artifact q)"
    using purge_finished [OF D(2) look] time by (simp add: job_expired_at_def succeeded_record_def Let_def)
  then show ?thesis using D(1)
    by (simp add: job_artifact_def Let_def ensure_job_owner_def)
      (simp add: succeeded_record_def Let_def)
qed

text \<open>The policy of the registry never changes, and a worker that succeeds while its job runs delivers.\<close>

lemma job_action_policy: "js_policy (sy_registry (job_action now act s)) = js_policy (sy_registry s)"
  by (cases act) (auto simp: insert_job_def set_job_abort_handle_def mark_job_running_def mark_job_succeeded_def
      mark_job_failed_def job_snapshot_def cancel_job_record_def job_artifact_def cancel_jobs_for_session_def
      put_job_def ensure_job_owner_def Let_def split: option.splits prod.splits if_splits)

lemma run_jobs_policy: "js_policy (sy_registry (run_jobs acts s)) = js_policy (sy_registry s)"
  by (induction acts s rule: run_jobs.induct) (simp_all add: job_action_policy)

lemma running_job_kept:
  assumes inv: "job_inv s" and r: "job_lookup s job_id = Some r" and unfin: "\<not> is_terminal (status_of r)"
    and p: "job_lookup (run_jobs acts s) job_id = Some p" and running: "status_of p = Running"
  shows "same_job r p"
  using unfinished_run [OF inv r unfin, of acts]
proof
  assume "\<exists>r'. job_lookup (run_jobs acts s) job_id = Some r' \<and> same_job r r'"
  then show ?thesis using p by auto
next
  assume "\<exists>acts1 acts2 q. acts = acts1 @ acts2 \<and> job_lookup (run_jobs acts1 s) job_id = Some q
      \<and> same_job r q \<and> is_terminal (status_of q) \<and> (\<exists>(now, act) \<in> set acts2. job_expired_at now q)"
  then obtain acts1 acts2 q where acts: "acts = acts1 @ acts2" and q: "job_lookup (run_jobs acts1 s) job_id = Some q"
    "is_terminal (status_of q)" by blast
  from finished_run [OF run_jobs_inv [OF inv] q, of acts2] p
  have "p = q" by (auto simp: acts run_jobs_append)
  then show ?thesis using q(2) running by (simp add: is_terminal_def)
qed

lemma queued_worker_runs:
  assumes inv: "job_inv s" and r: "job_lookup s job_id = Some r" and queued: "status_of r = Queued"
  obtains p where "job_lookup (job_action t (WorkerRun job_id) s) job_id = Some p" "status_of p = Running"
proof -
  note D = job_invD [OF inv]
  have look: "map_of (js_jobs (sy_registry s)) job_id = Some r" using r by (simp add: job_lookup_def)
  show thesis using D(1) D(6) [OF look] look queued that [of "running_record t r"]
    by (simp add: job_lookup_def worker_ok_def mark_job_running_def status_of_def Let_def put_job_def
        running_record_def is_terminal_def)
qed

lemma running_worker_succeeds:
  assumes inv: "job_inv s" and p: "job_lookup s job_id = Some p" and running: "status_of p = Running"
  shows "job_lookup (job_action t (WorkerSucceed job_id artifact) s) job_id
    = Some (succeeded_record t (terminal_retention_secs (js_policy (sy_registry s))) job_id artifact p)"
proof -
  note D = job_invD [OF inv]
  have look: "map_of (js_jobs (sy_registry s)) job_id = Some p" using p by (simp add: job_lookup_def)
  show ?thesis using D(1) D(6) [OF look] look running
    by (simp add: job_lookup_def worker_ok_def mark_job_succeeded_def status_of_def Let_def put_job_def)
qed

text \<open>
  Every accepted job can still finish: from any reachable state, the worker of an
  unfinished job only has to take its own steps to bring it to success, and then its owner
  downloads the artifact the worker produced, until the purge time.
\<close>

lemma unfinished_job_can_finish:
  fixes acts0 policy
  defines "s \<equiv> run_jobs acts0 (new_job_system policy)"
  assumes "job_lookup s job_id = Some r" and "\<not> is_terminal (status_of r)"
    and "t' < t + terminal_retention_secs (js_policy (sy_registry s))"
  shows "fst (job_artifact t' (jr_owner_user r) job_id
      (sy_registry (run_jobs [(t0, WorkerRun job_id), (t, WorkerSucceed job_id artifact)] s)))
    = Inr artifact"
proof -
  have inv: "job_inv s" unfolding s_def by (rule run_jobs_inv) (rule job_inv_new)
  obtain q where "job_lookup (run_jobs [(t0, WorkerRun job_id), (t, WorkerSucceed job_id artifact)] s) job_id
      = Some (succeeded_record t (terminal_retention_secs (js_policy (sy_registry s))) job_id artifact q)"
    and "jr_owner_user q = jr_owner_user r"
    using worker_succeeds [OF inv assms(2,3)] .
  then show ?thesis
    using succeeded_artifact [OF run_jobs_inv [OF inv], where t = t and t' = t'] assms(4)
    by (simp del: run_jobs.simps)
qed

lemma unfinished_job_can_finish_witness:
  "fst (job_artifact 68 ''ann'' ''j1''
      (sy_registry (run_jobs [(6, WorkerRun ''j1''), (9, WorkerSucceed ''j1'' demo_artifact)]
        (run_jobs demo_start (new_job_system demo_policy))))) = Inr demo_artifact"
proof -
  let ?s = "run_jobs demo_start (new_job_system demo_policy)"
  have "job_lookup ?s ''j1'' = Some demo_record" by (simp add: demo_queued job_lookup_def)
  moreover have "\<not> is_terminal (status_of demo_record)" by (simp add: demo_record_def status_of_def)
  moreover have "68 < 9 + terminal_retention_secs (js_policy (sy_registry ?s))"
    by (simp add: demo_queued) (simp add: demo_policy_def)
  ultimately have "fst (job_artifact 68 (jr_owner_user demo_record) ''j1''
      (sy_registry (run_jobs [(6, WorkerRun ''j1''), (9, WorkerSucceed ''j1'' demo_artifact)] ?s)))
    = Inr demo_artifact"
    by (rule unfinished_job_can_finish)
  moreover have "jr_owner_user demo_record = ''ann''" by (simp add: demo_record_def)
  ultimately show ?thesis by simp
qed

text \<open>
  C11. A job is invisible to other users: for anyone but its owner, looking at a job,
  downloading its result and cancelling it are answered exactly as if the job did not exist,
  and cancelling it aborts nothing and leaves its record alone.
\<close>

theorem job_owner_isolation:
  assumes "\<not> js_poisoned st" and "wf_map (js_jobs st)"
    and "map_of (js_jobs st) job_id = Some r" and "jr_owner_user r \<noteq> user"
  shows "let absent = st\<lparr>js_jobs := AList.delete job_id (js_jobs st)\<rparr> in
     fst (job_snapshot now user job_id st) = fst (job_snapshot now user job_id absent)
     \<and> fst (job_artifact now user job_id st) = fst (job_artifact now user job_id absent)
     \<and> fst (cancel_job_record now user job_id st) = fst (cancel_job_record now user job_id absent)
     \<and> fst (snd (cancel_job_record now user job_id st)) = []
     \<and> map_of (js_jobs (snd (snd (cancel_job_record now user job_id st)))) job_id
         = (if job_expired_at now r then None else Some r)"
proof -
  note purge = purge_finished [OF assms(2,3), of now]
  have absent: "map_of (js_jobs (snd (purge_expired_jobs now
      (st\<lparr>js_jobs := AList.delete job_id (js_jobs st)\<rparr>)))) job_id = None"
    using assms(2) by (simp add: purge_lookup)
  show ?thesis
    using assms(1,4) purge absent
    by (auto simp: job_snapshot_def job_artifact_def cancel_job_record_def ensure_job_owner_def Let_def
        split: if_splits option.splits)
qed

theorem job_owner_isolation_witness:
  "fst (job_snapshot 7 ''bob'' ''j1''
      \<lparr>js_poisoned = False, js_jobs = [(''j1'', demo_record)], js_policy = demo_policy\<rparr>)
    = Inl (NotFound ''job j1 not found'')"
  using job_owner_isolation [of "\<lparr>js_poisoned = False, js_jobs = [(''j1'', demo_record)], js_policy = demo_policy\<rparr>"
      "''j1''" demo_record "''bob''" 7]
  by (simp add: demo_record_def Let_def wf_map_def)
    (simp add: job_snapshot_def purge_expired_jobs_def retain_def job_not_found_def Let_def)

lemma set_handles:
  assumes "wf_map (m :: (string \<times> JobRecord) list)"
  shows "set (List.map_filter (\<lambda>(id, r). if hit digest r then jr_abort_handle r else None) m)
    = {h. \<exists>id r. map_of m id = Some r \<and> hit digest r \<and> jr_abort_handle r = Some h}"
  using assms
  apply (auto simp: List.map_filter_def image_iff wf_map_def split: if_splits)
   apply (metis wf_map_SomeI map_of_SomeD wf_map_def)
  apply (metis (mono_tags, lifting) wf_map_SomeI map_of_SomeD wf_map_def case_prod_conv mem_Collect_eq option.sel)
  done

text \<open>
  C18. Deleting a session cancels its jobs and only them: after the cancellation no
  unfinished job of that session is left, each of them is cancelled with its purge time set
  and without artifact, the answer counts them, exactly their abort handles are aborted, and
  every other job that had not expired is untouched.
\<close>

theorem cancel_jobs_for_session_exact:
  assumes "\<not> js_poisoned st" and "wf_map (js_jobs st)"
    and "cancel_jobs_for_session now digest st = (res, handles, st')"
  shows "let jobs = map_of (js_jobs (snd (purge_expired_jobs now st)));
           hits = {id. \<exists>r. jobs id = Some r \<and> hit digest r}
     in res = Inr (card hits)
        \<and> set handles = {h. \<exists>id r. jobs id = Some r \<and> hit digest r \<and> jr_abort_handle r = Some h}
        \<and> (\<forall>id. (id \<notin> hits \<and> map_of (js_jobs st') id = jobs id)
             \<or> (id \<in> hits \<and> (\<exists>r'. map_of (js_jobs st') id = Some r' \<and> status_of r' = Cancelled
                  \<and> jr_artifact r' = None
                  \<and> jr_purge_after r' = Some (now + terminal_retention_secs (js_policy st)))))"
proof -
  let ?st = "snd (purge_expired_jobs now st)"
  let ?ret = "terminal_retention_secs (js_policy ?st)"
  have wf: "wf_map (js_jobs ?st)" using assms(2) by (rule purge_wf)
  have res: "res = Inr (count_values (hit digest) (js_jobs ?st))"
    and handles: "handles = List.map_filter (\<lambda>(id, r). if hit digest r then jr_abort_handle r else None) (js_jobs ?st)"
    and st': "\<And>id. map_of (js_jobs st') id = map_option (\<lambda>r. if hit digest r
        then snd (cancel_job_record_in_place now ?ret r) else r) (map_of (js_jobs ?st) id)"
    using assms(1,3) by (auto simp: cancel_jobs_for_session_def cancel_loop_eq map_of_map_values Let_def)
  have "set handles = {h. \<exists>id r. map_of (js_jobs ?st) id = Some r \<and> hit digest r \<and> jr_abort_handle r = Some h}"
    unfolding handles by (rule set_handles [OF wf])
  moreover have "(\<not> (\<exists>r. map_of (js_jobs ?st) id = Some r \<and> hit digest r)
        \<and> map_of (js_jobs st') id = map_of (js_jobs ?st) id)
      \<or> ((\<exists>r. map_of (js_jobs ?st) id = Some r \<and> hit digest r)
        \<and> (\<exists>r'. map_of (js_jobs st') id = Some r' \<and> status_of r' = Cancelled \<and> jr_artifact r' = None
          \<and> jr_purge_after r' = Some (now + terminal_retention_secs (js_policy st))))" for id
    by (cases "map_of (js_jobs ?st) id")
      (simp_all add: st' status_of_def cancel_job_record_in_place_def cancelled_job_def)
  ultimately show ?thesis
    unfolding Let_def mem_Collect_eq res count_values_card [OF wf] by blast
qed

theorem cancel_jobs_for_session_exact_witness:
  "fst (cancel_jobs_for_session 7 [7]
      \<lparr>js_poisoned = False, js_jobs = [(''j1'', demo_record)], js_policy = demo_policy\<rparr>) = Inr 1"
proof -
  let ?st = "\<lparr>js_poisoned = False, js_jobs = [(''j1'', demo_record)], js_policy = demo_policy\<rparr>"
  obtain res handles st' where r: "cancel_jobs_for_session 7 [7] ?st = (res, handles, st')"
    by (metis prod.collapse)
  have "snd (purge_expired_jobs 7 ?st) = ?st"
    by (simp add: purge_expired_jobs_def retain_def job_expired_at_def demo_record_def)
  moreover have "{id. \<exists>r. map_of (js_jobs ?st) id = Some r \<and> hit [7] r} = {''j1''}"
    by (auto simp: hit_def demo_record_def)
  ultimately have "res = Inr 1"
    using cancel_jobs_for_session_exact [OF _ _ r] by (simp add: Let_def wf_map_def)
  then show ?thesis by (simp add: r)
qed

end
