(* ===== verification/Adapter.thy ===== *)
theory Adapter
  imports Sessions
begin

text \<open>
  The gvmd adapter, \<open>crates/gvm-gateway-gvmd/src\<close>: the mapping of client errors to domain
  errors (\<open>conversions.rs\<close>), the paging helpers (\<open>gvmd_adapter/filters.rs\<close>) with the listing
  that falls back to paging on the client side (\<open>gvmd_adapter/ports/targets.rs\<close>), and the map
  from sessions to their connections (\<open>gvmd_adapter/mod.rs\<close>, \<open>session.rs\<close>, \<open>ports/auth.rs\<close>,
  \<open>ports/credentials.rs\<close>). The GMP client is a library: its answers are arguments.
\<close>

section \<open>Errors of the GMP client\<close>

text \<open>
  The error types of the client library as far as the gateway tells them apart; the last
  string of a constructor is what the error prints.
\<close>

datatype ParseError =
    ServerParseError int string string
  | OtherParseError string

datatype (plugins only: code size) GvmError =
    GvmParse ParseError
  | GvmUnsupportedCommand string string
  | GvmServer int string string
  | GvmTimeout string
  | GvmOther string

fun parse_error_text :: "ParseError \<Rightarrow> string" where
  "parse_error_text (ServerParseError status message text) = text"
| "parse_error_text (OtherParseError text) = text"

fun gvm_error_text :: "GvmError \<Rightarrow> string" where
  "gvm_error_text (GvmParse e) = parse_error_text e"
| "gvm_error_text (GvmUnsupportedCommand command text) = text"
| "gvm_error_text (GvmServer status message text) = text"
| "gvm_error_text (GvmTimeout duration) = duration"
| "gvm_error_text (GvmOther text) = text"

definition ascii_lower :: "char \<Rightarrow> char" where
  "ascii_lower c = (let n = of_char c in if 65 \<le> n \<and> n \<le> (90 :: nat) then char_of (n + 32) else c)"

definition eq_ignore_ascii_case :: "string \<Rightarrow> string \<Rightarrow> bool" where
  "eq_ignore_ascii_case s t = (map ascii_lower s = map ascii_lower t)"

definition is_authentication_failure :: "string \<Rightarrow> bool" where
  "is_authentication_failure message = eq_ignore_ascii_case message ''authentication failed''"

definition map_parse_error :: "ParseError \<Rightarrow> GatewayError" where
  "map_parse_error error =
     (case error of
        ServerParseError status message text \<Rightarrow>
          if status = 404 then NotFound message
          else if status = 400 \<and> is_authentication_failure message then Unauthorized message
          else if status = 400 then InvalidInput message
          else if status = 401 then Unauthorized message
          else if status = 403 then Forbidden message
          else BackendUnavailable text
      | OtherParseError text \<Rightarrow> BackendUnavailable text)"

definition map_gvm_error :: "GvmError \<Rightarrow> GatewayError" where
  "map_gvm_error error =
     (case error of
        GvmParse e \<Rightarrow> map_parse_error e
      | GvmUnsupportedCommand command text \<Rightarrow> NotImplemented text
      | GvmServer status message text \<Rightarrow>
          if status = 400 \<and> is_authentication_failure message then Unauthorized message
          else if status = 400 then InvalidInput message
          else if status = 401 then Unauthorized message
          else if status = 403 then Forbidden message
          else if status = 404 then NotFound message
          else BackendUnavailable text
      | GvmTimeout duration \<Rightarrow> GatewayTimeout (''gvmd timeout after '' @ duration)
      | GvmOther text \<Rightarrow> BackendUnavailable text)"

section \<open>Paging\<close>

record Pagination =
  pg_page :: u32
  pg_per_page :: u32
  pg_total :: u32
  pg_total_pages :: u32

text \<open>\<open>None\<close> is the panic of a division by a page size of zero.\<close>

definition paged_pagination :: "u32 \<Rightarrow> u32 \<Rightarrow> u32 \<Rightarrow> Pagination option" where
  "paged_pagination count page per_page =
     (if count = 0
      then Some \<lparr>pg_page = page, pg_per_page = per_page, pg_total = count, pg_total_pages = 0\<rparr>
      else if per_page = 0 then None
      else Some \<lparr>pg_page = page, pg_per_page = per_page, pg_total = count,
                 pg_total_pages = (count - 1) div per_page + 1\<rparr>)"

definition gvmd_total :: "u32 option \<Rightarrow> u32 option \<Rightarrow> nat \<Rightarrow> u32" where
  "gvmd_total filtered count current_len =
     (case filtered of Some n \<Rightarrow> n
      | None \<Rightarrow> (case count of Some n \<Rightarrow> n | None \<Rightarrow> of_nat current_len))"

text \<open>The offset is computed at 64 bits, where it always fits, and so does \<open>usize\<close>.\<close>

definition paged_slice :: "'a list \<Rightarrow> u32 \<Rightarrow> u32 \<Rightarrow> 'a list" where
  "paged_slice items page per_page =
     (let offset = (ucast (saturating_sub page 1) :: u64) * ucast per_page;
          start = unat offset
      in take (unat per_page) (drop start items))"

definition needs_client_side_pagination_fallback :: "'a list \<Rightarrow> u32 \<Rightarrow> u32 \<Rightarrow> bool" where
  "needs_client_side_pagination_fallback items count page = (page > 1 \<and> items = [] \<and> count = 0)"

definition backend_ignored_pagination :: "'a list \<Rightarrow> u32 \<Rightarrow> bool" where
  "backend_ignored_pagination items per_page = (length items > unat per_page)"

record 'a Counted =
  ct_items :: "'a list"
  ct_filtered :: "u32 option"
  ct_total :: "u32 option"

section \<open>Connections of sessions\<close>

datatype CredentialStoreCapability = Unknown | Supported | Unsupported

definition MAX_SESSION_COMMANDS_IN_FLIGHT_OR_WAITING :: nat where
  "MAX_SESSION_COMMANDS_IN_FLIGHT_OR_WAITING = 64"

text \<open>A session's client: its capability and the free permits of its command semaphore.\<close>

record SessionClient =
  cl_capability :: CredentialStoreCapability
  cl_free_slots :: nat

record GvmdAdapter =
  ga_poisoned :: bool
  ga_sessions :: "(SessionTokenDigest, SessionClient) hash_map"

definition new_client :: "CredentialStoreCapability \<Rightarrow> SessionClient" where
  "new_client capability =
     \<lparr>cl_capability = capability, cl_free_slots = MAX_SESSION_COMMANDS_IN_FLIGHT_OR_WAITING\<rparr>"

definition unix_socket :: GvmdAdapter where
  "unix_socket = \<lparr>ga_poisoned = False, ga_sessions = []\<rparr>"

text \<open>\<open>SessionClient::lock\<close> takes a permit or fails at once; the guard's drop gives it back.\<close>

definition client_lock :: "SessionClient \<Rightarrow> unit result \<times> SessionClient" where
  "client_lock client =
     (if cl_free_slots client = 0
      then (Inl (TooManyRequests ''session command queue saturated''), client)
      else (Inr (), client\<lparr>cl_free_slots := cl_free_slots client - 1\<rparr>))"

definition client_unlock :: "SessionClient \<Rightarrow> SessionClient" where
  "client_unlock client = client\<lparr>cl_free_slots := cl_free_slots client + 1\<rparr>"

fun contains_string :: "string \<Rightarrow> string \<Rightarrow> bool" where
  "contains_string p [] = (p = [])"
| "contains_string p (c # cs) = (starts_with p (c # cs) \<or> contains_string p cs)"

definition credential_store_command_disabled :: "string \<Rightarrow> bool" where
  "credential_store_command_disabled message =
     contains_string ''command disabled'' (map ascii_lower message)"

definition credential_store_capability_unavailable :: "GvmError \<Rightarrow> bool" where
  "credential_store_capability_unavailable error =
     (case error of
        GvmUnsupportedCommand command text \<Rightarrow> command = ''get_credential_stores''
      | GvmServer status message text \<Rightarrow> status = 503 \<and> credential_store_command_disabled message
      | GvmParse (ServerParseError status message text) \<Rightarrow>
          status = 503 \<and> credential_store_command_disabled message
      | _ \<Rightarrow> False)"

record CredentialStoreProbeOutcome =
  po_capability :: CredentialStoreCapability
  po_requires_reconnect :: bool

definition probe_credential_store_capability ::
    "GvmError + unit \<Rightarrow> GvmError + CredentialStoreProbeOutcome" where
  "probe_credential_store_capability answer =
     (case answer of
        Inr _ \<Rightarrow> Inr \<lparr>po_capability = Supported, po_requires_reconnect = False\<rparr>
      | Inl error \<Rightarrow>
          (case error of
             GvmUnsupportedCommand command text \<Rightarrow>
               if command = ''get_credential_stores''
               then Inr \<lparr>po_capability = Unsupported, po_requires_reconnect = False\<rparr>
               else if credential_store_capability_unavailable error
               then Inr \<lparr>po_capability = Unsupported, po_requires_reconnect = True\<rparr>
               else Inl error
           | _ \<Rightarrow>
               if credential_store_capability_unavailable error
               then Inr \<lparr>po_capability = Unsupported, po_requires_reconnect = True\<rparr>
               else Inl error))"

text \<open>
  What the backend does during one \<open>connect_session\<close>: the outcome of opening and
  authenticating the first connection (its negotiated version on success), the answer to the
  capability probe, and the outcome of the second connection.
\<close>

record Backend =
  be_connect :: "GvmError + string"
  be_stores :: "GvmError + unit"
  be_reconnect :: "GvmError + string"

definition connect_authenticated_client :: "GvmError + string \<Rightarrow> string result" where
  "connect_authenticated_client outcome =
     (case outcome of Inl e \<Rightarrow> Inl (map_gvm_error e) | Inr version \<Rightarrow> Inr version)"

definition store_unavailable :: GatewayError where
  "store_unavailable = BackendUnavailable ''session store unavailable''"

definition session_capability :: "Backend \<Rightarrow> CredentialStoreCapability result" where
  "session_capability backend =
     (case probe_credential_store_capability (be_stores backend) of
        Inr outcome \<Rightarrow>
          if po_requires_reconnect outcome
          then and_then (connect_authenticated_client (be_reconnect backend))
                 (\<lambda>_. Inr (po_capability outcome))
          else Inr (po_capability outcome)
      | Inl error \<Rightarrow>
          and_then (connect_authenticated_client (be_reconnect backend)) (\<lambda>_. Inr Unknown))"

definition connect_session ::
    "(string \<Rightarrow> u8 list) \<Rightarrow> Backend \<Rightarrow> string \<Rightarrow> GvmdAdapter \<Rightarrow> string result \<times> GvmdAdapter" where
  "connect_session sha backend session_token adapter =
     (case and_then (connect_authenticated_client (be_connect backend)) (\<lambda>negotiated.
             and_then (session_capability backend) (\<lambda>capability. Inr (negotiated, capability))) of
        Inl e \<Rightarrow> (Inl e, adapter)
      | Inr (negotiated, capability) \<Rightarrow>
          if ga_poisoned adapter then (Inl store_unavailable, adapter)
          else (Inr negotiated,
                adapter\<lparr>ga_sessions :=
                  AList.update (from_token sha session_token) (new_client capability)
                    (ga_sessions adapter)\<rparr>))"

definition disconnect_session ::
    "SessionTokenDigest \<Rightarrow> GvmdAdapter \<Rightarrow> unit result \<times> GvmdAdapter" where
  "disconnect_session session adapter =
     (if ga_poisoned adapter then (Inl store_unavailable, adapter)
      else (Inr (), adapter\<lparr>ga_sessions := AList.delete session (ga_sessions adapter)\<rparr>))"

definition session_client ::
    "(string \<Rightarrow> u8 list) \<Rightarrow> string \<Rightarrow> GvmdAdapter \<Rightarrow> SessionClient result" where
  "session_client sha session_token adapter =
     (if ga_poisoned adapter then Inl store_unavailable
      else (case map_of (ga_sessions adapter) (from_token sha session_token) of
              Some client \<Rightarrow> Inr client
            | None \<Rightarrow> Inl (SessionInvalidated ''missing gvmd session'')))"

definition ensure_credential_stores_supported :: "GatewayError \<Rightarrow> SessionClient \<Rightarrow> unit result" where
  "ensure_credential_stores_supported unsupported client =
     (if cl_capability client = Unsupported then Inl unsupported else Inr ())"

text \<open>\<open>call_with_session\<close>: \<open>answer\<close> is what the backend answers to the request.\<close>

definition call_with_session ::
    "(string \<Rightarrow> u8 list) \<Rightarrow> string \<Rightarrow> GvmError + 'r \<Rightarrow> GvmdAdapter \<Rightarrow> 'r result" where
  "call_with_session sha session_token answer adapter =
     and_then (session_client sha session_token adapter) (\<lambda>client.
       and_then (fst (client_lock client)) (\<lambda>_.
         case answer of Inl e \<Rightarrow> Inl (map_gvm_error e) | Inr response \<Rightarrow> Inr response))"

text \<open>\<open>probe_version\<close> and the readiness port.\<close>

definition probe_version :: "GvmError + string \<Rightarrow> GvmError + string \<Rightarrow> string result" where
  "probe_version connect answer =
     and_then (case connect of Inl e \<Rightarrow> Inl (map_gvm_error e) | Inr v \<Rightarrow> Inr v) (\<lambda>negotiated.
       and_then (case answer of Inl e \<Rightarrow> Inl (map_gvm_error e) | Inr v \<Rightarrow> Inr v) (\<lambda>version.
         if is_blank version then Inr negotiated else Inr version))"

record ReadinessStatus =
  rs_status :: string
  rs_reason :: "string option"

definition readiness :: "string result \<Rightarrow> ReadinessStatus result" where
  "readiness version =
     (case version of
        Inr _ \<Rightarrow> Inr \<lparr>rs_status = ''ready'', rs_reason = None\<rparr>
      | Inl error \<Rightarrow> Inr \<lparr>rs_status = ''notReady'', rs_reason = Some (error_detail error)\<rparr>)"

section \<open>The authentication port\<close>

text \<open>
  What the application layer relies on: a failed authentication leaves no connection behind,
  a successful one adds exactly the connection of its session, and a disconnect that succeeds
  removes exactly that of its session.
\<close>

locale auth_port =
  fixes authenticate :: "'b \<Rightarrow> string \<Rightarrow> 's \<Rightarrow> string result \<times> 's"
    and disconnect :: "SessionTokenDigest \<Rightarrow> 's \<Rightarrow> unit result \<times> 's"
    and connected :: "'s \<Rightarrow> SessionTokenDigest set"
    and healthy :: "'s \<Rightarrow> bool"
    and digest :: "string \<Rightarrow> SessionTokenDigest"
  assumes authenticate_error: "authenticate b token s = (Inl e, s') \<Longrightarrow> s' = s"
    and authenticate_ok: "authenticate b token s = (Inr v, s') \<Longrightarrow>
        connected s' = insert (digest token) (connected s)"
    and disconnect_ok: "healthy s \<Longrightarrow> disconnect d s = (r, s') \<Longrightarrow>
        is_ok r \<and> connected s' = connected s - {d}"
    and authenticate_healthy: "healthy (snd (authenticate b token s)) = healthy s"
    and disconnect_healthy: "healthy (snd (disconnect d s)) = healthy s"
begin

lemma authenticate_cases:
  obtains (error) e where "authenticate b token s = (Inl e, s)"
  | (ok) v s' where "authenticate b token s = (Inr v, s')"
      "connected s' = insert (digest token) (connected s)" "healthy s' = healthy s"
proof (cases "authenticate b token s")
  case (Pair r s')
  then have h: "healthy s' = healthy s" using authenticate_healthy [of b token s] by simp
  show thesis
    using Pair h authenticate_error [of b token s _ s'] authenticate_ok [of b token s _ s'] that
    by (cases r) auto
qed

lemma disconnect_connected:
  "healthy s \<Longrightarrow> connected (snd (disconnect d s)) = connected s - {d}"
  using disconnect_ok [of s d "fst (disconnect d s)" "snd (disconnect d s)"] by simp

end

definition connections :: "GvmdAdapter \<Rightarrow> SessionTokenDigest set" where
  "connections adapter = dom (map_of (ga_sessions adapter))"

lemma connect_session_cases:
  "(\<exists>e. connect_session sha backend token adapter = (Inl e, adapter)) \<or>
   (\<exists>v c. connect_session sha backend token adapter = (Inr v,
      adapter\<lparr>ga_sessions := AList.update (from_token sha token) (new_client c) (ga_sessions adapter)\<rparr>))"
  unfolding connect_session_def
  by (cases "and_then (connect_authenticated_client (be_connect backend)) (\<lambda>negotiated.
        and_then (session_capability backend) (\<lambda>capability. Inr (negotiated, capability)))")
    (auto split: prod.splits)

text \<open>The gvmd adapter keeps the contract.\<close>

interpretation gvmd: auth_port "connect_session sha" disconnect_session connections
    "\<lambda>a. \<not> ga_poisoned a" "from_token sha" for sha
proof unfold_locales
  fix b token s e s'
  assume "connect_session sha b token s = (Inl e, s')"
  then show "s' = s" using connect_session_cases [of sha b token s] by auto
next
  fix b token s v s'
  assume "connect_session sha b token s = (Inr v, s')"
  then show "connections s' = insert (from_token sha token) (connections s)"
    using connect_session_cases [of sha b token s] by (auto simp: connections_def)
next
  fix b token s
  show "(\<not> ga_poisoned (snd (connect_session sha b token s))) = (\<not> ga_poisoned s)"
    using connect_session_cases [of sha b token s] by auto
qed (auto simp: disconnect_session_def connections_def)

lemma client_slots_bounded:
  "cl_free_slots client \<le> MAX_SESSION_COMMANDS_IN_FLIGHT_OR_WAITING \<Longrightarrow>
     client_lock client = (Inr (), client') \<Longrightarrow>
     cl_free_slots client' < MAX_SESSION_COMMANDS_IN_FLIGHT_OR_WAITING \<and> client_unlock client' = client"
  by (auto simp: client_lock_def client_unlock_def split: if_splits)

section \<open>Properties of paging\<close>

lemma total_pages_nat:
  fixes n p :: nat
  assumes "0 < n" and "0 < p"
  shows "(n - 1) div p + 1 = (n + p - 1) div p"
proof -
  have "n + p - 1 = (n - 1) + p" using assms by simp
  then show ?thesis using div_add_self2 [of p "n - 1"] assms(2) by (simp only: neq0_conv)
qed

lemma unat_total_pages:
  fixes n p :: u32
  assumes "n \<noteq> 0" and "p \<noteq> 0"
  shows "unat ((n - 1) div p + 1) = (unat n + unat p - 1) div unat p"
proof -
  have n: "0 < unat n" and p: "0 < unat p" using assms by (simp_all add: unat_gt_0)
  have less: "(unat n - 1) div unat p + 1 \<le> unat n"
    using n div_le_dividend [of "unat n - 1" "unat p"] by linarith
  have m1: "unat (n - 1) = unat n - 1" using n by (simp add: unat_sub word_le_nat_alt Suc_leI)
  have "unat ((n - 1) div p + 1) = unat ((n - 1) div p) + 1"
  proof -
    have "unat ((n - 1) div p) + 1 < 2 ^ LENGTH(32)"
      using less unsigned_less [of n] unfolding unat_div m1 by (rule le_less_trans)
    then show ?thesis using unat_add_lem [of "(n - 1) div p" 1] by simp
  qed
  then show ?thesis using total_pages_nat [OF n p] by (simp add: unat_div m1)
qed

lemma paged_slice_eq:
  "page \<noteq> 0 \<Longrightarrow> paged_slice items page per_page = take (unat per_page) (drop ((unat page - 1) * unat per_page) items)"
proof -
  assume "page \<noteq> 0"
  have lt: "unat page < 2 ^ 32" "unat per_page < 2 ^ 32"
    using unat_below [of page] unat_below [of per_page] by simp_all
  have pm: "unat (saturating_sub page 1) = unat page - 1" by (simp add: unat_saturating_sub)
  have "(unat page - 1) * unat per_page < 2 ^ 32 * 2 ^ 32"
    using lt by (intro mult_strict_mono) simp_all
  then have "unat ((ucast (saturating_sub page 1) :: u64) * ucast per_page) = (unat page - 1) * unat per_page"
    using take_bit_nat_eq_self [of "unat page - Suc 0" 64] take_bit_nat_eq_self [of "unat per_page" 64] lt
    by (simp add: unat_word_ariths pm unsigned_ucast_eq)
  then show ?thesis by (simp add: paged_slice_def)
qed

lemma gvmd_total_list: "gvmd_total None None n = of_nat n" "gvmd_total (Some k) t n = k"
  by (simp_all add: gvmd_total_def)

lemma paged_pagination_len:
  assumes "len < 2 ^ 32" and "per_page \<noteq> 0"
  shows "\<exists>pg. paged_pagination (of_nat len) page per_page = Some pg
    \<and> unat (pg_total_pages pg) = (if len = 0 then 0 else (len + unat per_page - 1) div unat per_page)
    \<and> unat (pg_total pg) = len"
proof (cases "len = 0")
  case True
  then show ?thesis by (simp add: paged_pagination_def)
next
  case False
  have len: "unat (of_nat len :: u32) = len" using assms(1) by (simp add: unat_of_nat_small)
  then have "(of_nat len :: u32) \<noteq> 0" using False by (metis unsigned_0)
  then show ?thesis
    using unat_total_pages [OF _ assms(2), of "of_nat len"] False assms(2) len
    by (simp add: paged_pagination_def)
qed

text \<open>Page \<open>page\<close>, from 1, of a list.\<close>

definition page_of :: "'a list \<Rightarrow> nat \<Rightarrow> nat \<Rightarrow> 'a list" where
  "page_of xs per_page page = take per_page (drop ((page - 1) * per_page) xs)"

lemma concat_pages:
  assumes "0 < n"
  shows "concat (map (page_of xs n) [1..<Suc k]) = take (k * n) xs"
proof (induction k)
  case (Suc k)
  have "take (k * n) xs @ take n (drop (k * n) xs) = take (k * n + n) xs"
    by (simp add: take_add)
  with Suc show ?case by (simp add: page_of_def add.commute)
qed simp

lemma all_pages:
  assumes "0 < n"
  shows "length xs \<le> (length xs + n - 1) div n * n"
proof -
  have "(length xs + n - 1) mod n \<le> n - 1" using mod_less_divisor [OF assms, of "length xs + n - 1"] by linarith
  moreover have "(length xs + n - 1) div n * n + (length xs + n - 1) mod n = length xs + n - 1"
    by (rule div_mult_mod_eq)
  ultimately show ?thesis using assms by linarith
qed

text \<open>
  C27. Pages that the gateway cuts itself lose nothing: when the daemon ignores the page, the
  gateway cuts it from the whole list. The number of pages it reports is the same for each
  page, and the pages from 1 up to this number are, one after the other, all items in order.
\<close>

theorem cut_pages_are_complete:
  fixes items :: "'a list" and per_page :: u32
  assumes "length items < 2 ^ 32" and "per_page \<noteq> 0"
  shows "\<exists>pages. concat (map (\<lambda>p. paged_slice items (of_nat p) per_page) [1..<Suc pages]) = items
    \<and> (\<forall>page. \<exists>pg. paged_pagination (of_nat (length items)) page per_page = Some pg
         \<and> unat (pg_total_pages pg) = pages \<and> unat (pg_total pg) = length items)"
proof -
  let ?pages = "if length items = 0 then 0 else (length items + unat per_page - 1) div unat per_page"
  have n: "0 < unat per_page" using assms(2) by (simp add: unat_gt_0)
  have total: "\<exists>pg. paged_pagination (of_nat (length items)) page per_page = Some pg
      \<and> unat (pg_total_pages pg) = ?pages \<and> unat (pg_total pg) = length items" for page
    using assms by (rule paged_pagination_len)
  obtain pg :: Pagination where "unat (pg_total_pages pg) = ?pages" using total [of 1] by blast
  then have small: "?pages < 2 ^ LENGTH(32)" using unat_below [of "pg_total_pages pg"] by simp
  have "paged_slice items (of_nat p) per_page = page_of items (unat per_page) p"
    if "p \<in> set [1..<Suc ?pages]" for p
  proof -
    have "p < 2 ^ LENGTH(32)" and "1 \<le> p" using that small by auto
    then have p: "unat (of_nat p :: u32) = p" by (intro unat_of_nat_small)
    then have "(of_nat p :: u32) \<noteq> 0" using \<open>1 \<le> p\<close> by (metis not_one_le_zero unsigned_0)
    then show ?thesis by (simp add: paged_slice_eq page_of_def p)
  qed
  then have cut: "map (\<lambda>p. paged_slice items (of_nat p) per_page) [1..<Suc ?pages]
      = map (page_of items (unat per_page)) [1..<Suc ?pages]"
    by (rule map_cong [OF refl])
  have "concat (map (\<lambda>p. paged_slice items (of_nat p) per_page) [1..<Suc ?pages]) = items"
    unfolding cut using concat_pages [OF n, of items ?pages] all_pages [OF n, of items] by auto
  with total show ?thesis by blast
qed

theorem cut_pages_are_complete_witness:
  "\<exists>pages. concat (map (\<lambda>p. paged_slice [10, 20, 30 :: nat] (of_nat p) 2) [1..<Suc pages]) = [10, 20, 30]
    \<and> (\<forall>page. \<exists>pg. paged_pagination (of_nat (length [10, 20, 30 :: nat])) page 2 = Some pg
         \<and> unat (pg_total_pages pg) = pages \<and> unat (pg_total pg) = length [10, 20, 30 :: nat])"
  by (rule cut_pages_are_complete) simp_all

end
