(* ===== verification/Service.thy ===== *)
theory Service
  imports Job_Runs Adapter
begin

text \<open>
  The application service, \<open>crates/gvm-gateway-app/src/service.rs\<close> and \<open>session.rs\<close>: every use
  case touches its session first and leaves an audit trail; sessions are created, deleted and
  swept together with their backend connections and their jobs. The authentication port is a
  parameter with the contract \<open>auth_port\<close>, which the gvmd adapter keeps.
\<close>

section \<open>Audit events\<close>

text \<open>The logged error text is determined by the error, which the event keeps instead.\<close>

record AuditEvent =
  au_event :: string
  au_outcome :: string
  au_username :: string
  au_session_id :: string
  au_resource :: string
  au_action :: string
  au_error_category :: string
  au_error :: "GatewayError option"

fun error_category :: "GatewayError \<Rightarrow> string" where
  "error_category (BackendUnavailable _) = ''backend_unavailable''"
| "error_category (NotImplemented _) = ''not_implemented''"
| "error_category (NotFound _) = ''not_found''"
| "error_category (InvalidInput _) = ''invalid_input''"
| "error_category (Unauthorized _) = ''unauthorized''"
| "error_category (SessionExpired _) = ''session_expired''"
| "error_category (SessionInvalidated _) = ''session_invalidated''"
| "error_category (Forbidden _) = ''forbidden''"
| "error_category (Conflict _) = ''conflict''"
| "error_category (TooManyRequests _) = ''too_many_requests''"
| "error_category (Internal _) = ''internal_server_error''"
| "error_category (GatewayTimeout _) = ''gateway_timeout''"

definition unwrap_or :: "'a option \<Rightarrow> 'a \<Rightarrow> 'a" where
  "unwrap_or v d = (case v of None \<Rightarrow> d | Some x \<Rightarrow> x)"

definition safe_session_id :: "(string \<Rightarrow> u8 list) \<Rightarrow> string \<Rightarrow> string" where
  "safe_session_id sha token = safe_id (from_token sha token)"

definition audit_event_with_session_id ::
    "string \<Rightarrow> string \<Rightarrow> string \<Rightarrow> string \<Rightarrow> string option \<Rightarrow> string option
      \<Rightarrow> GatewayError option \<Rightarrow> AuditEvent" where
  "audit_event_with_session_id event outcome username session_id resource action error =
     \<lparr>au_event = event, au_outcome = outcome, au_username = username,
      au_session_id = session_id, au_resource = unwrap_or resource ''session'',
      au_action = unwrap_or action ''none'',
      au_error_category = unwrap_or (map_option error_category error) ''none'',
      au_error = error\<rparr>"

definition audit_event ::
    "(string \<Rightarrow> u8 list) \<Rightarrow> string \<Rightarrow> string \<Rightarrow> string \<Rightarrow> string option \<Rightarrow> string option
      \<Rightarrow> string option \<Rightarrow> GatewayError option \<Rightarrow> AuditEvent" where
  "audit_event sha event outcome username session_token resource action error =
     audit_event_with_session_id event outcome username
       (unwrap_or (map_option (safe_session_id sha) session_token) ''session:unknown'')
       resource action error"

section \<open>The service\<close>

record 's GatewayService =
  gs_sessions :: SessionManager
  gs_jobs :: JobSystem
  gs_auth :: 's
  gs_audit :: "AuditEvent list"

definition emit :: "AuditEvent \<Rightarrow> 's GatewayService \<Rightarrow> 's GatewayService" where
  "emit ev sv = sv\<lparr>gs_audit := gs_audit sv @ [ev]\<rparr>"

definition get_username_for_audit ::
    "(string \<Rightarrow> u8 list) \<Rightarrow> string \<Rightarrow> SessionManager \<Rightarrow> string option" where
  "get_username_for_audit sha token m =
     (case session_get sha token m of
        Inr (Some session) \<Rightarrow> Some (se_user session)
      | _ \<Rightarrow> None)"

definition touch_session_with_audit ::
    "(string \<Rightarrow> u8 list) \<Rightarrow> u64 \<Rightarrow> string \<Rightarrow> 's GatewayService \<Rightarrow> Session result \<times> 's GatewayService" where
  "touch_session_with_audit sha now token sv =
     (let (r, m) = touch sha now token (gs_sessions sv); sv = sv\<lparr>gs_sessions := m\<rparr>
      in case r of
           Inr session \<Rightarrow> (Inr session, sv)
         | Inl err \<Rightarrow>
             (let reason = (case err of SessionExpired _ \<Rightarrow> ''session.expired''
                            | SessionInvalidated _ \<Rightarrow> ''session.invalidated''
                            | _ \<Rightarrow> ''session.lookup_failed'')
              in (Inl err, emit (audit_event sha reason ''failure''
                   (unwrap_or (get_username_for_audit sha token m) ''unknown'')
                   (Some token) None None (Some err)) sv)))"

definition execute_with_resource ::
    "(string \<Rightarrow> u8 list) \<Rightarrow> u64 \<Rightarrow> string \<Rightarrow> string \<Rightarrow> string
      \<Rightarrow> (Session \<Rightarrow> 's GatewayService \<Rightarrow> 'a result \<times> 's GatewayService)
      \<Rightarrow> 's GatewayService \<Rightarrow> 'a result \<times> 's GatewayService" where
  "execute_with_resource sha now token action resource operation sv =
     (let user = get_username_for_audit sha token (gs_sessions sv);
          sv = emit (audit_event sha ''command.execution'' ''start'' (unwrap_or user ''unknown'')
                 (Some token) (Some resource) (Some action) None) sv;
          (r, sv) = touch_session_with_audit sha now token sv
      in case r of
           Inl err \<Rightarrow> (Inl err, sv)
         | Inr session \<Rightarrow>
             (let username = se_user session; (r, sv) = operation session sv
              in case r of
                   Inr x \<Rightarrow> (Inr x, emit (audit_event sha ''command.execution'' ''success'' username
                     (Some token) (Some resource) (Some action) None) sv)
                 | Inl err \<Rightarrow> (Inl err, emit (audit_event sha ''command.execution'' ''failure'' username
                     (Some token) (Some resource) (Some action) (Some err)) sv)))"

record SessionCreated =
  sc_token :: string
  sc_expires_in :: u64
  sc_gmp_version :: string

definition disconnect_one ::
    "(SessionTokenDigest \<Rightarrow> 's \<Rightarrow> unit result \<times> 's) \<Rightarrow> string \<Rightarrow> SessionTokenDigest
      \<Rightarrow> 's GatewayService \<Rightarrow> 's GatewayService" where
  "disconnect_one disconnect username session_digest sv =
     (let session_id = safe_id session_digest;
          sv = emit (audit_event_with_session_id ''session.expired'' ''cleanup'' username session_id
                 None (Some ''expire'') None) sv;
          (r, auth) = disconnect session_digest (gs_auth sv);
          sv = sv\<lparr>gs_auth := auth\<rparr>
      in case r of
           Inr _ \<Rightarrow> sv
         | Inl err \<Rightarrow> emit (audit_event_with_session_id ''session.disconnect'' ''failure'' username
             session_id None (Some ''disconnect'') (Some err)) sv)"

definition disconnect_expired_sessions ::
    "(SessionTokenDigest \<Rightarrow> 's \<Rightarrow> unit result \<times> 's) \<Rightarrow> string \<Rightarrow> SessionTokenDigest list
      \<Rightarrow> 's GatewayService \<Rightarrow> 's GatewayService" where
  "disconnect_expired_sessions disconnect username session_digests sv =
     fold (disconnect_one disconnect username) session_digests sv"

text \<open>
  Creating a session waits for the backend; \<open>meanwhile\<close> is what other tasks do to the service
  before its answer is there.
\<close>

definition create_session ::
    "('b \<Rightarrow> string \<Rightarrow> 's \<Rightarrow> string result \<times> 's) \<Rightarrow> (SessionTokenDigest \<Rightarrow> 's \<Rightarrow> unit result \<times> 's)
      \<Rightarrow> (string \<Rightarrow> u8 list) \<Rightarrow> ('s GatewayService \<Rightarrow> 's GatewayService)
      \<Rightarrow> u64 \<Rightarrow> string \<Rightarrow> string \<Rightarrow> 'b \<Rightarrow> 's GatewayService
      \<Rightarrow> SessionCreated result \<times> 's GatewayService" where
  "create_session authenticate disconnect sha meanwhile now uuid username backend sv =
     (let (r, m) = create_draining_expired sha uuid now username (gs_sessions sv);
          sv = sv\<lparr>gs_sessions := m\<rparr>
      in case r of
           Inl e \<Rightarrow> (Inl e, sv)
         | Inr (session, expired) \<Rightarrow>
             (let sv = disconnect_expired_sessions disconnect username expired sv;
                  sv = meanwhile sv;
                  token = se_token session;
                  (r, auth) = authenticate backend token (gs_auth sv);
                  sv = sv\<lparr>gs_auth := auth\<rparr>
              in case r of
                   Inl err \<Rightarrow>
                     (Inl err, emit (audit_event sha ''session.create'' ''failure'' username
                        (Some token) None None (Some err))
                        (sv\<lparr>gs_sessions := snd (session_remove sha token (gs_sessions sv))\<rparr>))
                 | Inr gmp_version \<Rightarrow>
                     (Inr \<lparr>sc_token = token,
                           sc_expires_in = sm_idle_timeout_secs (gs_sessions sv),
                           sc_gmp_version = gmp_version\<rparr>,
                      emit (audit_event sha ''session.create'' ''success'' username
                        (Some token) None None None) sv)))"

definition get_session ::
    "(string \<Rightarrow> u8 list) \<Rightarrow> u64 \<Rightarrow> string \<Rightarrow> 's GatewayService \<Rightarrow> SessionInfo result" where
  "get_session sha now token sv = get_info sha now token (gs_sessions sv)"

definition service_cancel_jobs ::
    "u64 \<Rightarrow> SessionTokenDigest \<Rightarrow> 's GatewayService \<Rightarrow> nat result \<times> 's GatewayService" where
  "service_cancel_jobs now digest sv =
     (let s = gs_jobs sv;
          (r, aborted, st) = cancel_jobs_for_session now digest (sy_registry s)
      in (r, sv\<lparr>gs_jobs := s\<lparr>sy_registry := st, sy_aborted := aborted @ sy_aborted s\<rparr>\<rparr>))"

definition delete_session ::
    "(SessionTokenDigest \<Rightarrow> 's \<Rightarrow> unit result \<times> 's) \<Rightarrow> (string \<Rightarrow> u8 list) \<Rightarrow> u64 \<Rightarrow> string
      \<Rightarrow> 's GatewayService \<Rightarrow> unit result \<times> 's GatewayService" where
  "delete_session disconnect sha now token sv =
     (let (r, m) = session_remove sha token (gs_sessions sv); sv = sv\<lparr>gs_sessions := m\<rparr>
      in case r of
           Inl e \<Rightarrow> (Inl e, sv)
         | Inr None \<Rightarrow>
             (let err = NotFound ''session not found''
              in (Inl err, emit (audit_event sha ''session.delete'' ''failure'' ''unknown''
                   (Some token) None None (Some err)) sv))
         | Inr (Some removed) \<Rightarrow>
             (let session_digest = from_token sha token;
                  (r, sv) = service_cancel_jobs now session_digest sv;
                  sv = (case r of
                          Inr _ \<Rightarrow> sv
                        | Inl err \<Rightarrow> emit (audit_event sha ''session.delete'' ''job_cancel_failed''
                            (se_user removed) (Some token) None None (Some err)) sv);
                  (r, auth) = disconnect session_digest (gs_auth sv);
                  sv = sv\<lparr>gs_auth := auth\<rparr>;
                  sv = (case r of
                          Inr _ \<Rightarrow> sv
                        | Inl err \<Rightarrow> emit (audit_event sha ''session.delete'' ''backend_disconnect_failed''
                            (se_user removed) (Some token) None None (Some err)) sv)
              in (Inr (), emit (audit_event sha ''session.delete'' ''success'' (se_user removed)
                   (Some token) None None None) sv)))"

text \<open>One tick of the session reaper.\<close>

definition sweep_once ::
    "(SessionTokenDigest \<Rightarrow> 's \<Rightarrow> unit result \<times> 's) \<Rightarrow> u64 \<Rightarrow> 's GatewayService \<Rightarrow> 's GatewayService" where
  "sweep_once disconnect now sv =
     (let (r, m) = drain_expired now (gs_sessions sv); sv = sv\<lparr>gs_sessions := m\<rparr>
      in case r of
           Inl err \<Rightarrow> sv
         | Inr session_digests \<Rightarrow> disconnect_expired_sessions disconnect ''unknown'' session_digests sv)"

text \<open>\<open>SessionReaper::spawn\<close>: the time between two ticks, in seconds.\<close>

definition reaper_interval :: "SessionManager \<Rightarrow> u64" where
  "reaper_interval m = max (sm_idle_timeout_secs m div 2) 1"

definition new_service :: "'s \<Rightarrow> SessionManager \<Rightarrow> 's GatewayService" where
  "new_service auth sessions =
     \<lparr>gs_sessions = sessions, gs_jobs = new_job_system default_job_policy, gs_auth = auth,
      gs_audit = []\<rparr>"

lemma emit_simps [simp]:
  "gs_sessions (emit ev sv) = gs_sessions sv" "gs_jobs (emit ev sv) = gs_jobs sv"
  "gs_auth (emit ev sv) = gs_auth sv" "gs_audit (emit ev sv) = gs_audit sv @ [ev]"
  by (simp_all add: emit_def)

section \<open>Runs of the service\<close>

text \<open>
  A login waits for the backend, and other operations run meanwhile: \<open>begin_login\<close> is
  \<open>create_session\<close> up to the wait, \<open>finish_login\<close> what it does with the answer.
\<close>

definition begin_login ::
    "(SessionTokenDigest \<Rightarrow> 's \<Rightarrow> unit result \<times> 's) \<Rightarrow> (string \<Rightarrow> u8 list) \<Rightarrow> u64 \<Rightarrow> string \<Rightarrow> string
      \<Rightarrow> 's GatewayService \<Rightarrow> Session result \<times> 's GatewayService" where
  "begin_login disconnect sha now uuid username sv =
     (let (r, m) = create_draining_expired sha uuid now username (gs_sessions sv);
          sv = sv\<lparr>gs_sessions := m\<rparr>
      in case r of
           Inl e \<Rightarrow> (Inl e, sv)
         | Inr (session, expired) \<Rightarrow> (Inr session, disconnect_expired_sessions disconnect username expired sv))"

definition finish_login ::
    "('b \<Rightarrow> string \<Rightarrow> 's \<Rightarrow> string result \<times> 's) \<Rightarrow> (string \<Rightarrow> u8 list) \<Rightarrow> string \<Rightarrow> string \<Rightarrow> 'b
      \<Rightarrow> 's GatewayService \<Rightarrow> SessionCreated result \<times> 's GatewayService" where
  "finish_login authenticate sha username token backend sv =
     (let (r, auth) = authenticate backend token (gs_auth sv);
          sv = sv\<lparr>gs_auth := auth\<rparr>
      in case r of
           Inl err \<Rightarrow>
             (Inl err, emit (audit_event sha ''session.create'' ''failure'' username
                (Some token) None None (Some err))
                (sv\<lparr>gs_sessions := snd (session_remove sha token (gs_sessions sv))\<rparr>))
         | Inr gmp_version \<Rightarrow>
             (Inr \<lparr>sc_token = token,
                   sc_expires_in = sm_idle_timeout_secs (gs_sessions sv),
                   sc_gmp_version = gmp_version\<rparr>,
              emit (audit_event sha ''session.create'' ''success'' username
                (Some token) None None None) sv))"

lemma create_session_steps:
  "create_session authenticate disconnect sha meanwhile now uuid username backend sv =
     (case begin_login disconnect sha now uuid username sv of
        (Inl e, sv) \<Rightarrow> (Inl e, sv)
      | (Inr session, sv) \<Rightarrow>
          finish_login authenticate sha username (se_token session) backend (meanwhile sv))"
  by (simp add: create_session_def begin_login_def finish_login_def Let_def split: prod.split sum.split)

text \<open>
  A run of the service: the logins that wait for the backend, with their token and user, and a
  record, for the statements only, of the logins that were accepted when their session was
  no longer registered. A request leaves the sessions alone; what it does to the adapter is given.
\<close>

record 's ServiceRun =
  sr_service :: "'s GatewayService"
  sr_pending :: "(SessionTokenDigest \<times> string \<times> string) list"
  sr_overtaken :: "SessionTokenDigest list"

datatype ('b, 's) ServiceAction =
    BeginLogin string string
  | FinishLogin SessionTokenDigest 'b
  | DeleteSession string
  | SweepSessions
  | Request string "unit result" "'s \<Rightarrow> 's"

definition registered :: "SessionManager \<Rightarrow> SessionTokenDigest set" where
  "registered m = dom (map_of (sm_sessions m))"

definition waiting :: "'s ServiceRun \<Rightarrow> SessionTokenDigest set" where
  "waiting run = dom (map_of (sr_pending run))"

lemma used_digests_code [code]:
  "registered m = fst ` set (sm_sessions m)" "waiting run = fst ` set (sr_pending run)"
  "connections a = fst ` set (ga_sessions a)"
  by (simp_all add: registered_def waiting_def connections_def dom_map_of_conv_image_fst)

fun service_action ::
    "('b \<Rightarrow> string \<Rightarrow> 's \<Rightarrow> string result \<times> 's) \<Rightarrow> (SessionTokenDigest \<Rightarrow> 's \<Rightarrow> unit result \<times> 's)
      \<Rightarrow> (string \<Rightarrow> u8 list) \<Rightarrow> u64 \<Rightarrow> ('b, 's) ServiceAction \<Rightarrow> 's ServiceRun \<Rightarrow> 's ServiceRun" where
  "service_action authenticate disconnect sha now (BeginLogin uuid username) run =
     (let (r, sv) = begin_login disconnect sha now uuid username (sr_service run)
      in case r of
           Inl e \<Rightarrow> run\<lparr>sr_service := sv\<rparr>
         | Inr session \<Rightarrow> run\<lparr>sr_service := sv,
             sr_pending := (from_token sha (se_token session), se_token session, username) # sr_pending run\<rparr>)"
| "service_action authenticate disconnect sha now (FinishLogin d backend) run =
     (case map_of (sr_pending run) d of
        None \<Rightarrow> run
      | Some (token, username) \<Rightarrow>
          (let (r, sv) = finish_login authenticate sha username token backend (sr_service run)
           in \<lparr>sr_service = sv, sr_pending = AList.delete d (sr_pending run),
               sr_overtaken = (if is_ok r \<and> map_of (sm_sessions (gs_sessions sv)) d = None
                 then d # sr_overtaken run else sr_overtaken run)\<rparr>))"
| "service_action authenticate disconnect sha now (DeleteSession token) run =
     run\<lparr>sr_service := snd (delete_session disconnect sha now token (sr_service run))\<rparr>"
| "service_action authenticate disconnect sha now SweepSessions run =
     run\<lparr>sr_service := sweep_once disconnect now (sr_service run)\<rparr>"
| "service_action authenticate disconnect sha now (Request token answer change) run =
     run\<lparr>sr_service := snd (execute_with_resource sha now token ''read'' ''target''
       (\<lambda>session sv. (answer, sv\<lparr>gs_auth := change (gs_auth sv)\<rparr>)) (sr_service run))\<rparr>"

fun run_service ::
    "('b \<Rightarrow> string \<Rightarrow> 's \<Rightarrow> string result \<times> 's) \<Rightarrow> (SessionTokenDigest \<Rightarrow> 's \<Rightarrow> unit result \<times> 's)
      \<Rightarrow> (string \<Rightarrow> u8 list) \<Rightarrow> (u64 \<times> ('b, 's) ServiceAction) list \<Rightarrow> 's ServiceRun \<Rightarrow> 's ServiceRun" where
  "run_service authenticate disconnect sha [] run = run"
| "run_service authenticate disconnect sha ((now, act) # acts) run =
     run_service authenticate disconnect sha acts
       (service_action authenticate disconnect sha now act run)"

definition new_run :: "'s GatewayService \<Rightarrow> 's ServiceRun" where
  "new_run sv = \<lparr>sr_service = sv, sr_pending = [], sr_overtaken = []\<rparr>"

text \<open>
  What holds of the actions of a run: a login gets a token whose digest is not in use, and a
  request opens and closes no connection.
\<close>

fun proper_run ::
    "('b \<Rightarrow> string \<Rightarrow> 's \<Rightarrow> string result \<times> 's) \<Rightarrow> (SessionTokenDigest \<Rightarrow> 's \<Rightarrow> unit result \<times> 's)
      \<Rightarrow> ('s \<Rightarrow> SessionTokenDigest set) \<Rightarrow> ('s \<Rightarrow> bool)
      \<Rightarrow> (string \<Rightarrow> u8 list) \<Rightarrow> (u64 \<times> ('b, 's) ServiceAction) list \<Rightarrow> 's ServiceRun \<Rightarrow> bool" where
  "proper_run authenticate disconnect connected healthy sha [] run = True"
| "proper_run authenticate disconnect connected healthy sha ((now, act) # acts) run =
     ((case act of
         BeginLogin uuid username \<Rightarrow>
           from_token sha (fresh_token uuid) \<notin> registered (gs_sessions (sr_service run))
           \<and> from_token sha (fresh_token uuid) \<notin> waiting run
           \<and> from_token sha (fresh_token uuid) \<notin> connected (gs_auth (sr_service run))
       | Request token answer change \<Rightarrow>
           connected (change (gs_auth (sr_service run))) = connected (gs_auth (sr_service run))
           \<and> healthy (change (gs_auth (sr_service run))) = healthy (gs_auth (sr_service run))
       | _ \<Rightarrow> True)
      \<and> proper_run authenticate disconnect connected healthy sha acts
          (service_action authenticate disconnect sha now act run))"

section \<open>Sessions and connections\<close>

text \<open>
  The adapter holds the connections of the registered sessions whose login is answered, and
  those of the logins that were overtaken.
\<close>

definition linked ::
    "('s \<Rightarrow> SessionTokenDigest set) \<Rightarrow> ('s \<Rightarrow> bool) \<Rightarrow> (string \<Rightarrow> u8 list) \<Rightarrow> 's ServiceRun \<Rightarrow> bool" where
  "linked connected healthy sha run \<longleftrightarrow>
     wf_map (sm_sessions (gs_sessions (sr_service run))) \<and> \<not> sm_poisoned (gs_sessions (sr_service run))
     \<and> healthy (gs_auth (sr_service run))
     \<and> (\<forall>d token user. map_of (sr_pending run) d = Some (token, user) \<longrightarrow> from_token sha token = d)
     \<and> set (sr_overtaken run) \<inter> (registered (gs_sessions (sr_service run)) \<union> waiting run) = {}
     \<and> connected (gs_auth (sr_service run))
         = (registered (gs_sessions (sr_service run)) - waiting run) \<union> set (sr_overtaken run)"

lemma linkedD:
  assumes "linked connected healthy sha run"
  shows "wf_map (sm_sessions (gs_sessions (sr_service run)))" "\<not> sm_poisoned (gs_sessions (sr_service run))"
    "healthy (gs_auth (sr_service run))"
    "map_of (sr_pending run) d = Some (token, user) \<Longrightarrow> from_token sha token = d"
    "set (sr_overtaken run) \<inter> (registered (gs_sessions (sr_service run)) \<union> waiting run) = {}"
    "connected (gs_auth (sr_service run))
       = (registered (gs_sessions (sr_service run)) - waiting run) \<union> set (sr_overtaken run)"
  using assms by (simp_all add: linked_def)

text \<open>A step that drops sessions together with their connections keeps this.\<close>

lemma linked_drop:
  assumes run: "linked connected healthy sha run"
    and sv: "wf_map (sm_sessions (gs_sessions sv))" "\<not> sm_poisoned (gs_sessions sv)" "healthy (gs_auth sv)"
    and drop: "ds \<subseteq> registered (gs_sessions (sr_service run))"
      "registered (gs_sessions sv) = registered (gs_sessions (sr_service run)) - ds"
      "connected (gs_auth sv) = connected (gs_auth (sr_service run)) - ds"
  shows "linked connected healthy sha (run\<lparr>sr_service := sv\<rparr>)"
  using linkedD(4-6) [OF run] sv drop unfolding linked_def waiting_def by auto

lemma registered_delete [simp]:
  "registered (m\<lparr>sm_sessions := AList.delete d (sm_sessions m)\<rparr>) = registered m - {d}"
  by (auto simp: registered_def)

lemma touch_dom:
  "touch sha now token m = (r, m') \<Longrightarrow>
     registered m' = registered m \<and> sm_poisoned m' = sm_poisoned m
     \<and> (wf_map (sm_sessions m) \<longrightarrow> wf_map (sm_sessions m'))"
  by (auto simp: touch_def put_session_def registered_def Let_def split: if_splits option.splits)

lemma touch_session_with_audit_frame:
  "touch_session_with_audit sha now token sv = (r, sv') \<Longrightarrow>
     gs_auth sv' = gs_auth sv \<and> gs_jobs sv' = gs_jobs sv
     \<and> registered (gs_sessions sv') = registered (gs_sessions sv)
     \<and> sm_poisoned (gs_sessions sv') = sm_poisoned (gs_sessions sv)
     \<and> (wf_map (sm_sessions (gs_sessions sv)) \<longrightarrow> wf_map (sm_sessions (gs_sessions sv')))
     \<and> r = fst (touch sha now token (gs_sessions sv))"
proof -
  assume run: "touch_session_with_audit sha now token sv = (r, sv')"
  obtain q m where t: "touch sha now token (gs_sessions sv) = (q, m)"
    by (cases "touch sha now token (gs_sessions sv)")
  from run have "r = q" and "gs_auth sv' = gs_auth sv" and "gs_jobs sv' = gs_jobs sv"
    and "gs_sessions sv' = m"
    by (cases q; simp add: touch_session_with_audit_def t Let_def; elim conjE; hypsubst; simp)+
  with touch_dom [OF t] t show ?thesis by simp
qed

lemma service_cancel_jobs_frame [simp]:
  "gs_auth (snd (service_cancel_jobs now d sv)) = gs_auth sv"
  "gs_sessions (snd (service_cancel_jobs now d sv)) = gs_sessions sv"
  by (auto simp: service_cancel_jobs_def Let_def split: prod.splits)

lemma dom_drained:
  "wf_map ss \<Longrightarrow> dom (map_of (remove_all (expired_session_digests ss now idle) ss))
     = dom (map_of ss) - set (expired_session_digests ss now idle)"
  by (auto simp: map_of_remove_all split: if_splits)

lemma delete_session_effect:
  assumes "delete_session disconnect sha now token sv = (Inr (), sv')"
  shows "gs_sessions sv' = (gs_sessions sv)\<lparr>sm_sessions := AList.delete (from_token sha token) (sm_sessions (gs_sessions sv))\<rparr>
    \<and> gs_auth sv' = snd (disconnect (from_token sha token) (gs_auth sv))
    \<and> sy_registry (gs_jobs sv') = snd (snd (cancel_jobs_for_session now (from_token sha token) (sy_registry (gs_jobs sv))))"
  using assms
  by (auto simp: delete_session_def session_remove_def service_cancel_jobs_def Let_def emit_def
      split: if_splits option.splits sum.splits prod.splits)

context auth_port
begin

lemma disconnect_one_effect:
  assumes "healthy (gs_auth sv)"
  shows "gs_sessions (disconnect_one disconnect user d sv) = gs_sessions sv
    \<and> healthy (gs_auth (disconnect_one disconnect user d sv))
    \<and> connected (gs_auth (disconnect_one disconnect user d sv)) = connected (gs_auth sv) - {d}"
proof -
  obtain r a where ra: "disconnect d (gs_auth sv) = (r, a)" by (cases "disconnect d (gs_auth sv)")
  show ?thesis
    using assms disconnect_connected [OF assms, of d] disconnect_healthy [of d "gs_auth sv"] ra
    by (auto simp: disconnect_one_def Let_def split: sum.splits)
qed

lemma disconnect_expired_effect:
  "healthy (gs_auth sv) \<Longrightarrow>
     gs_sessions (disconnect_expired_sessions disconnect user ds sv) = gs_sessions sv
     \<and> healthy (gs_auth (disconnect_expired_sessions disconnect user ds sv))
     \<and> connected (gs_auth (disconnect_expired_sessions disconnect user ds sv))
         = connected (gs_auth sv) - set ds"
  unfolding disconnect_expired_sessions_def
proof (induction ds arbitrary: sv)
  case (Cons d ds)
  then show ?case using disconnect_one_effect [of sv user d] by auto
qed simp

lemma begin_login_cases:
  assumes "wf_map (sm_sessions (gs_sessions sv))" "\<not> sm_poisoned (gs_sessions sv)" "healthy (gs_auth sv)"
  obtains (refused) e where "begin_login disconnect sha now uuid user sv = (Inl e, sv)"
  | (begun) session sv' ds where "begin_login disconnect sha now uuid user sv = (Inr session, sv')"
      "se_token session = fresh_token uuid" "wf_map (sm_sessions (gs_sessions sv'))"
      "\<not> sm_poisoned (gs_sessions sv')" "healthy (gs_auth sv')" "ds \<subseteq> registered (gs_sessions sv)"
      "registered (gs_sessions sv') = insert (from_token sha (fresh_token uuid)) (registered (gs_sessions sv) - ds)"
      "connected (gs_auth sv') = connected (gs_auth sv) - ds"
proof (cases "create_draining_expired sha uuid now user (gs_sessions sv)")
  case (Pair r m)
  note create = Pair
  let ?ss = "sm_sessions (gs_sessions sv)"
  show thesis
  proof (cases r)
    case (Inl e)
    then have "m = gs_sessions sv" using create
      by (auto simp: create_draining_expired_def Let_def split: if_splits sum.splits)
    then show thesis using create Inl by (intro refused [of e]) (simp add: begin_login_def)
  next
    case (Inr p)
    obtain session ds where p: "p = (session, ds)" by (cases p)
    have token: "se_token session = fresh_token uuid"
      and ds: "ds = expired_session_digests ?ss now (sm_idle_timeout_secs (gs_sessions sv))"
      and m: "m = (gs_sessions sv)\<lparr>sm_sessions := AList.update (from_token sha (fresh_token uuid))
        (new_session user now) (remove_all ds ?ss)\<rparr>"
      using create Inr p
      by (auto simp: create_draining_expired_def Let_def split: if_splits sum.splits)
    let ?sv = "disconnect_expired_sessions disconnect user ds (sv\<lparr>gs_sessions := m\<rparr>)"
    have eff: "gs_sessions ?sv = m" "healthy (gs_auth ?sv)" "connected (gs_auth ?sv) = connected (gs_auth sv) - set ds"
      using disconnect_expired_effect [of "sv\<lparr>gs_sessions := m\<rparr>" user ds] assms(3) by simp_all
    have mm: "wf_map (sm_sessions m)" "\<not> sm_poisoned m"
      "registered m = insert (from_token sha (fresh_token uuid)) (registered (gs_sessions sv) - set ds)"
      using assms by (simp_all add: m dom_drained ds registered_def)
    have "set ds \<subseteq> registered (gs_sessions sv)"
      using set_expired_session_digests [OF assms(1)] by (auto simp: ds registered_def)
    then show thesis using create Inr p token eff mm
      by (intro begun [of session ?sv "set ds"]) (simp_all add: begin_login_def)
  qed
qed

lemma begin_login_linked:
  assumes run: "linked connected healthy sha run"
    and fresh: "from_token sha (fresh_token uuid) \<notin> registered (gs_sessions (sr_service run))"
      "from_token sha (fresh_token uuid) \<notin> waiting run"
      "from_token sha (fresh_token uuid) \<notin> connected (gs_auth (sr_service run))"
  shows "linked connected healthy sha
    (service_action authenticate disconnect sha now (BeginLogin uuid user) run)"
  using linkedD(1-3) [OF run]
proof (cases rule: begin_login_cases [where sha = sha and now = now and uuid = uuid and user = user])
  case (refused e)
  then show ?thesis using run by simp
next
  case (begun session sv ds)
  then show ?thesis using linkedD(4-6) [OF run] fresh
    by (auto simp: linked_def waiting_def)
qed

lemma finish_login_linked:
  assumes run: "linked connected healthy sha run" and dig: "digest = from_token sha"
  shows "linked connected healthy sha
    (service_action authenticate disconnect sha now (FinishLogin d b) run)"
proof (cases "map_of (sr_pending run) d")
  case None
  then show ?thesis using run by simp
next
  case (Some p)
  obtain token user where p: "p = (token, user)" by (cases p)
  let ?sv = "sr_service run"
  note D = linkedD [OF run]
  have d: "from_token sha token = d" using D(4) Some p by simp
  have w: "d \<in> waiting run" using Some by (auto simp: waiting_def)
  show ?thesis
  proof (cases rule: authenticate_cases [of b token "gs_auth ?sv"])
    case (error e)
    have "registered (snd (session_remove sha token (gs_sessions ?sv))) = registered (gs_sessions ?sv) - {d}"
      "wf_map (sm_sessions (snd (session_remove sha token (gs_sessions ?sv))))"
      "\<not> sm_poisoned (snd (session_remove sha token (gs_sessions ?sv)))"
      using D(1,2) by (auto simp: session_remove_def d registered_def Let_def split: option.splits)
    then show ?thesis using Some p error D w
      by (auto simp: finish_login_def linked_def waiting_def delete_conv')
  next
    case (ok v a)
    then show ?thesis using Some p D w d dig
      by (auto simp: finish_login_def linked_def waiting_def delete_conv' registered_def)
  qed
qed

lemma delete_session_linked:
  assumes run: "linked connected healthy sha run"
  shows "linked connected healthy sha
    (service_action authenticate disconnect sha now (DeleteSession token) run)"
proof -
  let ?sv = "sr_service run" and ?d = "from_token sha token"
  note D = linkedD [OF run]
  show ?thesis
  proof (cases "map_of (sm_sessions (gs_sessions ?sv)) ?d")
    case None
    then have "?d \<notin> registered (gs_sessions ?sv)" by (simp add: registered_def domIff)
    then have "linked connected healthy sha (run\<lparr>sr_service := snd (delete_session disconnect sha now token ?sv)\<rparr>)"
      by (intro linked_drop [OF run, where ds = "{}"])
        (use None D in \<open>auto simp: delete_session_def session_remove_def Let_def\<close>)
    then show ?thesis by simp
  next
    case (Some stored)
    obtain r a where ra: "disconnect ?d (gs_auth ?sv) = (r, a)" by (cases "disconnect ?d (gs_auth ?sv)")
    have a: "healthy a" "connected a = connected (gs_auth ?sv) - {?d}"
      using disconnect_connected [OF D(3), of ?d] disconnect_healthy [of ?d "gs_auth ?sv"] D(3) ra by simp_all
    have in_use: "?d \<in> registered (gs_sessions ?sv)" using Some by (auto simp: registered_def)
    have "fst (delete_session disconnect sha now token ?sv) = Inr ()"
      using Some D(2) by (simp add: delete_session_def session_remove_def Let_def split: prod.split)
    then obtain sv' where del: "delete_session disconnect sha now token ?sv = (Inr (), sv')"
      by (cases "delete_session disconnect sha now token ?sv") auto
    have "linked connected healthy sha (run\<lparr>sr_service := sv'\<rparr>)"
      by (rule linked_drop [OF run, where ds = "{?d}"])
        (use delete_session_effect [OF del] ra a D(1,2) in_use in simp_all)
    then have "linked connected healthy sha (run\<lparr>sr_service := snd (delete_session disconnect sha now token ?sv)\<rparr>)"
      by (simp add: del)
    then show ?thesis by simp
  qed
qed

lemma sweep_linked:
  assumes run: "linked connected healthy sha run"
  shows "linked connected healthy sha
    (service_action authenticate disconnect sha now SweepSessions run)"
proof -
  let ?sv = "sr_service run"
  let ?ss = "sm_sessions (gs_sessions ?sv)"
  let ?ds = "expired_session_digests ?ss now (sm_idle_timeout_secs (gs_sessions ?sv))"
  note D = linkedD [OF run]
  let ?sv1 = "?sv\<lparr>gs_sessions := (gs_sessions ?sv)\<lparr>sm_sessions := remove_all ?ds ?ss\<rparr>\<rparr>"
  have "linked connected healthy sha (run\<lparr>sr_service := sweep_once disconnect now ?sv\<rparr>)"
    by (rule linked_drop [OF run, where ds = "set ?ds"])
      (use D(1-3) disconnect_expired_effect [of ?sv1 "''unknown''" ?ds] set_expired_session_digests [OF D(1)] in
        \<open>auto simp: sweep_once_def drain_expired_def Let_def registered_def dom_drained\<close>)
  then show ?thesis by simp
qed

lemma request_linked:
  assumes run: "linked connected healthy sha run"
    and change: "connected (change (gs_auth (sr_service run))) = connected (gs_auth (sr_service run))"
      "healthy (change (gs_auth (sr_service run))) = healthy (gs_auth (sr_service run))"
  shows "linked connected healthy sha
    (service_action authenticate disconnect sha now (Request token answer change) run)"
proof -
  let ?sv = "emit (audit_event sha ''command.execution'' ''start''
      (unwrap_or (get_username_for_audit sha token (gs_sessions (sr_service run))) ''unknown'')
      (Some token) (Some ''target'') (Some ''read'') None) (sr_service run)"
  obtain r sv' where t: "touch_session_with_audit sha now token ?sv = (r, sv')"
    by (cases "touch_session_with_audit sha now token ?sv")
  note D = linkedD [OF run]
  show ?thesis
    by (simp, rule linked_drop [OF run, where ds = "{}"])
      (use touch_session_with_audit_frame [OF t] D change in
        \<open>auto simp: execute_with_resource_def t Let_def split: sum.splits\<close>)
qed

lemma run_service_linked:
  "linked connected healthy sha run \<Longrightarrow> digest = from_token sha \<Longrightarrow>
     proper_run authenticate disconnect connected healthy sha acts run \<Longrightarrow>
     linked connected healthy sha (run_service authenticate disconnect sha acts run)"
proof (induction acts arbitrary: run)
  case (Cons a acts)
  obtain now act where a: "a = (now, act)" by (cases a)
  have "linked connected healthy sha (service_action authenticate disconnect sha now act run)"
    using Cons.prems
    by (cases act) (auto simp: a begin_login_linked finish_login_linked delete_session_linked sweep_linked
        request_linked simp del: service_action.simps)
  then show ?case using Cons by (simp add: a)
qed simp

end

definition demo_backend :: Backend where
  "demo_backend = \<lparr>be_connect = Inr ''22.4'', be_stores = Inr (), be_reconnect = Inr ''22.4''\<rparr>"

definition denied_backend :: Backend where
  "denied_backend = \<lparr>be_connect = Inl (GvmServer 400 ''Authentication failed'' ''x''),
     be_stores = Inr (), be_reconnect = Inr ''22.4''\<rparr>"

lemma cancel_jobs_leaves_none:
  assumes "cancel_jobs_for_session now digest st = (Inr n, handles, st')" and "wf_map (js_jobs st)"
    and "map_of (js_jobs st') k = Some r" and "jr_session_token_digest r = digest"
  shows "is_terminal (status_of r)"
proof -
  have "map_of (js_jobs st') k = map_option (\<lambda>r. if hit digest r
      then snd (cancel_job_record_in_place now (terminal_retention_secs (js_policy (snd (purge_expired_jobs now st)))) r) else r)
      (map_of (js_jobs (snd (purge_expired_jobs now st))) k)"
    using assms(1)
    by (auto simp: cancel_jobs_for_session_def cancel_loop_eq map_of_map_values Let_def split: if_splits)
  then show ?thesis using assms(3,4)
    by (cases "map_of (js_jobs (snd (purge_expired_jobs now st))) k")
      (auto simp: hit_def status_of_def cancel_job_record_in_place_def cancelled_job_def split: if_splits)
qed

lemma touch_missing:
  "\<not> sm_poisoned m \<Longrightarrow> from_token sha token \<notin> registered m \<Longrightarrow>
     fst (touch sha now token m) = Inl missing_session"
  by (auto simp: touch_def registered_def Let_def domIff)

lemma fresh_create_swept:
  assumes "create_draining_expired sha uuid now user m = (Inr (session, ds), m')"
    and "wf_map (sm_sessions m)" and "sm_idle_timeout_secs m \<le> saturating_sub t' now"
  shows "se_token session = fresh_token uuid \<and> \<not> sm_poisoned m' \<and> wf_map (sm_sessions m')
    \<and> from_token sha (fresh_token uuid) \<in> set (expired_session_digests (sm_sessions m') t' (sm_idle_timeout_secs m'))"
proof -
  have m': "m' = m\<lparr>sm_sessions := AList.update (from_token sha (fresh_token uuid))
      (new_session user now) (remove_all ds (sm_sessions m))\<rparr>" and ok: "se_token session = fresh_token uuid"
    "\<not> sm_poisoned m"
    using assms(1) by (auto simp: create_draining_expired_def Let_def split: if_splits sum.splits)
  have wf: "wf_map (sm_sessions m')" using assms(2) by (simp add: m')
  have "is_expired_at t' (sm_idle_timeout_secs m) (new_session user now)"
    using assms(3) by (simp add: is_expired_at_def new_session_def)
  then show ?thesis using wf ok by (simp add: set_expired_session_digests [OF wf]) (simp add: m')
qed

section \<open>Properties\<close>

text \<open>
  C23. Sessions and backend connections go together, in every interleaving of logins,
  deletions, sweeps and requests from a fresh gateway, with random tokens, whether the
  backend accepts or refuses the logins, and whatever happens while it is asked: each
  registered session whose login is answered has its connection, and a connection without
  a session belongs to a login that the backend accepted when its session was already swept or
  deleted. So when no login is overtaken in this way, the connections are those of the sessions.
\<close>

theorem connections_match_sessions:
  assumes "proper_run (connect_session sha) disconnect_session connections (\<lambda>a. \<not> ga_poisoned a) sha acts
      (new_run (new_service unix_socket (with_limits idle limits)))"
  shows "let run = run_service (connect_session sha) disconnect_session sha acts
           (new_run (new_service unix_socket (with_limits idle limits)));
         sessions = registered (gs_sessions (sr_service run))
     in connections (gs_auth (sr_service run)) = (sessions - waiting run) \<union> set (sr_overtaken run)
        \<and> set (sr_overtaken run) \<inter> (sessions \<union> waiting run) = {}"
proof -
  have "linked connections (\<lambda>a. \<not> ga_poisoned a) sha (new_run (new_service unix_socket (with_limits idle limits)))"
    by (simp add: linked_def new_run_def new_service_def unix_socket_def with_limits_def connections_def
        registered_def waiting_def)
  from gvmd.run_service_linked [OF this refl assms] show ?thesis by (simp add: linked_def Let_def)
qed

text \<open>Two logins at once: the first is denied, and the second is overtaken by a sweep.\<close>

definition demo_actions :: "(u64 \<times> (Backend, GvmdAdapter) ServiceAction) list" where
  "demo_actions =
     [(5, BeginLogin ''a'' ''ann''), (6, BeginLogin ''b'' ''bob''), (7, Request (fresh_token ''b'') (Inr ()) id),
      (8, FinishLogin (one_digest (fresh_token ''a'')) denied_backend), (90, SweepSessions),
      (91, FinishLogin (one_digest (fresh_token ''b'')) demo_backend)]"

theorem connections_match_sessions_witness:
  "let run = run_service (connect_session one_digest) disconnect_session one_digest demo_actions
         (new_run (new_service unix_socket (new_manager 60)))
   in sr_overtaken run = [one_digest (fresh_token ''b'')]
      \<and> connections (gs_auth (sr_service run))
          = (registered (gs_sessions (sr_service run)) - waiting run) \<union> {one_digest (fresh_token ''b'')}"
proof -
  have "proper_run (connect_session one_digest) disconnect_session connections (\<lambda>a. \<not> ga_poisoned a) one_digest
      demo_actions (new_run (new_service unix_socket (with_limits 60 default_limits)))"
    by code_simp
  note result = connections_match_sessions [OF this]
  have "sr_overtaken (run_service (connect_session one_digest) disconnect_session one_digest demo_actions
      (new_run (new_service unix_socket (with_limits 60 default_limits)))) = [one_digest (fresh_token ''b'')]"
    by code_simp
  with result show ?thesis by (simp add: new_manager_def Let_def)
qed

text \<open>
  An expired, removed or unknown session never reaches the backend: whatever the use
  case would do, it is not done. The answer is that the session expired or is invalid,
  connections and jobs are untouched, and the audit trail gets exactly two entries, the start
  and the refusal, which name the session by its safe identifier.
\<close>

lemma dead_session_never_reaches_backend:
  assumes "\<not> sm_poisoned (gs_sessions sv)" and "session_dead (sha token) (gs_sessions sv, now)"
  shows "\<exists>e sv' start refusal.
     (\<forall>operation. execute_with_resource sha now token action resource operation sv = (Inl e, sv'))
     \<and> (e = session_expired \<or> e = missing_session)
     \<and> gs_auth sv' = gs_auth sv \<and> gs_jobs sv' = gs_jobs sv
     \<and> gs_audit sv' = gs_audit sv @ [start, refusal]
     \<and> au_outcome start = ''start'' \<and> au_outcome refusal = ''failure''
     \<and> au_error refusal = Some e
     \<and> au_session_id start = safe_id (sha token) \<and> au_session_id refusal = safe_id (sha token)"
proof -
  obtain e m where t: "touch sha now token (gs_sessions sv) = (Inl e, m)"
    and e: "e = session_expired \<or> e = missing_session"
    using assms by (auto simp: touch_def session_dead_def from_token_def Let_def split: option.splits)
  show ?thesis
    using t e
    by (auto simp: execute_with_resource_def touch_session_with_audit_def Let_def emit_def
        audit_event_def audit_event_with_session_id_def unwrap_or_def safe_session_id_def from_token_def)
qed

lemma dead_session_never_reaches_backend_witness:
  "\<exists>e sv'. (\<forall>operation :: Session \<Rightarrow> GvmdAdapter GatewayService \<Rightarrow> unit result \<times> GvmdAdapter GatewayService.
    execute_with_resource one_digest 7 ''t'' ''read'' ''target'' operation
      (new_service unix_socket (new_manager 60)) = (Inl e, sv')) \<and> gs_auth sv' = unix_socket"
proof -
  have "\<not> sm_poisoned (gs_sessions (new_service unix_socket (new_manager 60)))"
    and "session_dead (one_digest ''t'') (gs_sessions (new_service unix_socket (new_manager 60)), 7)"
    by (simp_all add: new_service_def new_manager_def with_limits_def session_dead_def)
  from dead_session_never_reaches_backend [where sha = one_digest and token = "''t''" and now = 7
      and action = "''read''" and resource = "''target''", OF this]
  obtain e sv' where "\<forall>operation :: Session \<Rightarrow> GvmdAdapter GatewayService \<Rightarrow> unit result \<times> GvmdAdapter GatewayService.
      execute_with_resource one_digest 7 ''t'' ''read'' ''target'' operation
      (new_service unix_socket (new_manager 60)) = (Inl e, sv')"
    and "gs_auth sv' = gs_auth (new_service unix_socket (new_manager 60))" by blast
  then show ?thesis by (auto simp: new_service_def)
qed

text \<open>
  C24. Deleting a session is complete: when it succeeds, the token is refused from then on,
  its backend connection is closed while all others stay, and every job of the session that is
  still in the registry is finished.
\<close>

theorem delete_session_complete:
  assumes "delete_session disconnect_session sha now token sv = (Inr (), sv')"
    and "\<not> ga_poisoned (gs_auth sv)" and "\<not> sm_poisoned (gs_sessions sv)"
    and "\<not> js_poisoned (sy_registry (gs_jobs sv))" and "wf_map (js_jobs (sy_registry (gs_jobs sv)))"
  shows "fst (touch sha t' token (gs_sessions sv')) = Inl missing_session
     \<and> connections (gs_auth sv') = connections (gs_auth sv) - {sha token}
     \<and> (\<forall>(id, r) \<in> set (js_jobs (sy_registry (gs_jobs sv'))).
          jr_session_token_digest r = sha token \<longrightarrow> is_terminal (status_of r))"
proof -
  note eff = delete_session_effect [OF assms(1)]
  let ?c = "cancel_jobs_for_session now (from_token sha token) (sy_registry (gs_jobs sv))"
  obtain n handles st where c: "?c = (Inr n, handles, st)"
    using assms(4) by (auto simp: cancel_jobs_for_session_def cancel_loop_eq Let_def)
  have st: "wf_map (js_jobs st)"
    using c assms(4,5)
    by (auto simp: cancel_jobs_for_session_def cancel_loop_eq Let_def wf_map_map_values purge_wf)
  have "is_terminal (status_of r)" if "(id, r) \<in> set (js_jobs st)" "jr_session_token_digest r = sha token" for id r
    using cancel_jobs_leaves_none [OF c assms(5) wf_map_SomeI [OF st that(1)]] that(2)
    by (simp add: from_token_def)
  moreover have "connections (gs_auth sv') = connections (gs_auth sv) - {sha token}"
    using eff gvmd.disconnect_connected [OF assms(2), of "sha token"] by (simp add: from_token_def)
  moreover have "from_token sha token \<notin> registered (gs_sessions sv')" using eff by simp
  ultimately show ?thesis using eff assms(3) c touch_missing by auto
qed

theorem delete_session_complete_witness:
  "\<exists>sv'. delete_session disconnect_session one_digest 7 ''x''
      (new_service unix_socket ((new_manager 60)\<lparr>sm_sessions := [(one_digest ''x'', new_session ''ann'' 5)]\<rparr>))
      = (Inr (), sv') \<and> fst (touch one_digest 8 ''x'' (gs_sessions sv')) = Inl missing_session"
proof -
  let ?sv = "new_service unix_socket ((new_manager 60)\<lparr>sm_sessions := [(one_digest ''x'', new_session ''ann'' 5)]\<rparr>)"
  have "fst (delete_session disconnect_session one_digest 7 ''x'' ?sv) = Inr ()"
    by (simp add: delete_session_def new_service_def session_remove_def new_manager_def with_limits_def
        from_token_def Let_def split: prod.splits)
  then obtain sv' where d: "delete_session disconnect_session one_digest 7 ''x'' ?sv = (Inr (), sv')"
    by (metis prod.collapse)
  have "\<not> ga_poisoned (gs_auth ?sv)" "\<not> sm_poisoned (gs_sessions ?sv)"
    "\<not> js_poisoned (sy_registry (gs_jobs ?sv))" "wf_map (js_jobs (sy_registry (gs_jobs ?sv)))"
    by (simp_all add: new_service_def unix_socket_def new_manager_def with_limits_def
        new_job_system_def new_job_registry_def)
  from delete_session_complete [OF d this, of 8] d show ?thesis by blast
qed

text \<open>
  C28. A login races with the session reaper: when the backend takes at least the idle
  timeout to accept a login, and a sweep happens in between, the login still succeeds, but the
  token it returns is refused, and the new backend connection belongs to no session, so that
  no sweep and no deletion closes it any more.
\<close>

theorem slow_login_leaks_connection:
  assumes login: "create_session (connect_session sha) disconnect_session sha
      (sweep_once disconnect_session t') now uuid user b sv = (Inr created, sv')"
    and wf: "wf_map (sm_sessions (gs_sessions sv))"
    and slow: "sm_idle_timeout_secs (gs_sessions sv) \<le> saturating_sub t' now"
  shows "fst (touch sha t'' (sc_token created) (gs_sessions sv')) = Inl missing_session
     \<and> sha (sc_token created) \<in> connections (gs_auth sv')
     \<and> sha (sc_token created) \<notin> registered (gs_sessions sv')"
proof -
  obtain session ds m where c: "create_draining_expired sha uuid now user (gs_sessions sv) = (Inr (session, ds), m)"
    using login by (auto simp: create_session_def Let_def split: sum.splits prod.splits)
  note fresh = fresh_create_swept [OF c wf slow]
  let ?d = "from_token sha (fresh_token uuid)"
  let ?sv1 = "disconnect_expired_sessions disconnect_session user ds (sv\<lparr>gs_sessions := m\<rparr>)"
  have s1: "gs_sessions ?sv1 = m"
    unfolding disconnect_expired_sessions_def
    by (induction ds rule: rev_induct) (simp_all add: disconnect_one_def Let_def split: sum.splits prod.splits)
  let ?sv2 = "sweep_once disconnect_session t' ?sv1"
  have frame: "gs_sessions (disconnect_expired_sessions disconnect_session u es z) = gs_sessions z" for u es and z :: "GvmdAdapter GatewayService"
    unfolding disconnect_expired_sessions_def
    by (induction es rule: rev_induct) (simp_all add: disconnect_one_def Let_def split: sum.splits prod.splits)
  have s2: "gs_sessions ?sv2 = m\<lparr>sm_sessions :=
      remove_all (expired_session_digests (sm_sessions m) t' (sm_idle_timeout_secs m)) (sm_sessions m)\<rparr>"
    using fresh by (simp add: sweep_once_def drain_expired_def s1 frame Let_def)
  have gone: "?d \<notin> registered (gs_sessions ?sv2)" "\<not> sm_poisoned (gs_sessions ?sv2)"
    using fresh by (simp_all add: s2 registered_def map_of_remove_all domIff)
  obtain v a where auth: "connect_session sha b (fresh_token uuid) (gs_auth ?sv2) = (Inr v, a)"
    using login c fresh by (auto simp: create_session_def Let_def split: sum.splits prod.splits)
  then have "connections a = insert ?d (connections (gs_auth ?sv2))" by (rule gvmd.authenticate_ok)
  moreover have "gs_auth sv' = a" "gs_sessions sv' = gs_sessions ?sv2" "sc_token created = fresh_token uuid"
    using login c fresh auth by (auto simp: create_session_def Let_def emit_def)
  ultimately show ?thesis using gone touch_missing by (simp add: from_token_def)
qed

theorem slow_login_leaks_connection_witness:
  "\<exists>created sv'. create_session (connect_session one_digest) disconnect_session one_digest
      (sweep_once disconnect_session 70) 5 ''a'' ''ann'' demo_backend
      (new_service unix_socket (new_manager 60)) = (Inr created, sv')
    \<and> one_digest (sc_token created) \<in> connections (gs_auth sv')
    \<and> one_digest (sc_token created) \<notin> registered (gs_sessions sv')"
proof -
  let ?r = "create_session (connect_session one_digest) disconnect_session one_digest
      (sweep_once disconnect_session 70) 5 ''a'' ''ann'' demo_backend
      (new_service unix_socket (new_manager 60))"
  have "is_ok (fst ?r)"
    by (simp add: create_session_def create_draining_expired_def enforce_session_limits_def
        new_service_def new_manager_def with_limits_def default_limits_def
        DEFAULT_MAX_GLOBAL_SESSIONS_def DEFAULT_MAX_SESSIONS_PER_USER_def remove_all_def
        expired_session_digests_def disconnect_expired_sessions_def sweep_once_def drain_expired_def
        new_session_def is_expired_at_def saturating_sub_def disconnect_one_def disconnect_session_def
        unix_socket_def connect_session_def connect_authenticated_client_def session_capability_def
        probe_credential_store_capability_def demo_backend_def Let_def)
  then obtain created sv' where r: "?r = (Inr created, sv')" by (cases ?r; cases "fst ?r") auto
  have "wf_map (sm_sessions (gs_sessions (new_service unix_socket (new_manager 60))))"
    and "sm_idle_timeout_secs (gs_sessions (new_service unix_socket (new_manager 60))) \<le> saturating_sub 70 5"
    by (simp_all add: new_service_def new_manager_def with_limits_def saturating_sub_def)
  from slow_login_leaks_connection [OF r this] r show ?thesis by blast
qed

end
