(* ===== verification/Handlers.thy ===== *)
theory Handlers
  imports Rest_Auth Rest_Query Service
begin

text \<open>
  The request handlers shared by all REST resources, \<open>crates/gvm-gateway-rest/src/handler.rs\<close>,
  and those of sessions and probes (\<open>sessions.rs\<close>, \<open>system.rs\<close>). The use case a handler calls
  is an argument that works on the state \<open>'w\<close> of the application; the JSON parser, the UUID
  parser and the decoder of query pairs are library functions and arguments too.
\<close>

section \<open>Responses\<close>

datatype (plugins only: code size) 'j RestBody =
    ResourceBody 'j
  | ResourceCreatedBody string
  | SessionCreatedBody SessionCreated
  | SessionInfoBody string SessionState string string int
  | ReadinessBody bool "string option"
  | TimezonesBody "(string \<times> string option) list"
  | VersionBody string string
  | HealthBody

text \<open>\<open>parse_uuid\<close> prints the nil UUID for what is not a UUID.\<close>

definition NIL_UUID :: string where
  "NIL_UUID = ''00000000-0000-0000-0000-000000000000''"

definition parse_uuid :: "(string \<Rightarrow> string option) \<Rightarrow> string \<Rightarrow> string" where
  "parse_uuid uuid s = (case uuid s of Some u \<Rightarrow> u | None \<Rightarrow> NIL_UUID)"

definition trim_end_matches :: "char \<Rightarrow> string \<Rightarrow> string" where
  "trim_end_matches c s = rev (dropWhile (\<lambda>x. x = c) (rev s))"

definition created_resource_location :: "string \<Rightarrow> string \<Rightarrow> string" where
  "created_resource_location collection_path resource_id =
     trim_end_matches (CHR ''/'') collection_path @ ''/'' @ resource_id"

definition created_resource ::
    "(string \<Rightarrow> string option) \<Rightarrow> string \<Rightarrow> string \<Rightarrow> 'j RestBody Response" where
  "created_resource uuid collection_path new_id =
     (let r = json_response 201 (ResourceCreatedBody (parse_uuid uuid new_id))
      in r\<lparr>rp_headers := set_header ''location'' (created_resource_location collection_path new_id) (rp_headers r)\<rparr>)"

definition ok_resource :: "'j \<Rightarrow> 'j RestBody Response" where
  "ok_resource v = ok_json (ResourceBody v)"

section \<open>Handlers of resources\<close>

definition check_uuid :: "(string \<Rightarrow> string option) \<Rightarrow> string \<Rightarrow> string \<Rightarrow> unit result" where
  "check_uuid uuid field v = validate_uuid (\<lambda>s. uuid s \<noteq> None) field v"

definition parse_json_body_with ::
    "(u8 list \<Rightarrow> 'e + 'req) \<Rightarrow> ('e \<Rightarrow> GatewayError) \<Rightarrow> u8 list \<Rightarrow> 'req result" where
  "parse_json_body_with from_slice map_error body =
     (case from_slice body of Inl e \<Rightarrow> Inl (map_error e) | Inr v \<Rightarrow> Inr v)"

definition default_json_error :: "string \<Rightarrow> GatewayError" where
  "default_json_error e = InvalidInput (''invalid JSON body: '' @ e)"

definition query_text :: "Request \<Rightarrow> string" where
  "query_text q = (case rq_query q of Some s \<Rightarrow> s | None \<Rightarrow> [])"

text \<open>The end of every handler: the use case's answer becomes the response.\<close>

definition respond :: "Request \<Rightarrow> ('a \<Rightarrow> 'j Response) \<Rightarrow> 'a result \<times> 'w \<Rightarrow> 'j Response \<times> 'w" where
  "respond q success rw =
     (case rw of
        (Inr v, w) \<Rightarrow> (success v, w)
      | (Inl e, w) \<Rightarrow> (gateway_error e (rq_path q), w))"

definition list_resource ::
    "(string \<Rightarrow> 'q result) \<Rightarrow> (string \<Rightarrow> 'q \<Rightarrow> 'w \<Rightarrow> 't result \<times> 'w) \<Rightarrow> ('t \<Rightarrow> 'j)
      \<Rightarrow> Request \<Rightarrow> 'w \<Rightarrow> 'j RestBody Response \<times> 'w" where
  "list_resource parse_query operation to_dto q w =
     (case bearer_token (rq_headers q) of
        Inl e \<Rightarrow> (gateway_error e (rq_path q), w)
      | Inr session \<Rightarrow>
          (case parse_query (query_text q) of
             Inl e \<Rightarrow> (gateway_error e (rq_path q), w)
           | Inr query \<Rightarrow> respond q (\<lambda>v. ok_resource (to_dto v)) (operation session query w)))"

definition authenticated_resource ::
    "(string \<Rightarrow> 'w \<Rightarrow> 't result \<times> 'w) \<Rightarrow> ('t \<Rightarrow> 'j) \<Rightarrow> Request \<Rightarrow> 'w \<Rightarrow> 'j RestBody Response \<times> 'w" where
  "authenticated_resource operation to_dto q w =
     (case bearer_token (rq_headers q) of
        Inl e \<Rightarrow> (gateway_error e (rq_path q), w)
      | Inr session \<Rightarrow> respond q (\<lambda>v. ok_resource (to_dto v)) (operation session w))"

definition create_resource_with_json_error ::
    "('e \<Rightarrow> GatewayError) \<Rightarrow> (string \<Rightarrow> string option) \<Rightarrow> (u8 list \<Rightarrow> 'e + 'req)
      \<Rightarrow> ('req \<Rightarrow> 'i result) \<Rightarrow> (string \<Rightarrow> 'i \<Rightarrow> 'w \<Rightarrow> string result \<times> 'w)
      \<Rightarrow> Request \<Rightarrow> 'w \<Rightarrow> 'j RestBody Response \<times> 'w" where
  "create_resource_with_json_error map_json_error uuid from_slice validate_into operation q w =
     (case bearer_token (rq_headers q) of
        Inl e \<Rightarrow> (gateway_error e (rq_path q), w)
      | Inr session \<Rightarrow>
          (case parse_json_body_with from_slice map_json_error (rq_body q) of
             Inl e \<Rightarrow> (gateway_error e (rq_path q), w)
           | Inr req \<Rightarrow>
               (case validate_into req of
                  Inl e \<Rightarrow> (gateway_error e (rq_path q), w)
                | Inr input \<Rightarrow> respond q (created_resource uuid (rq_path q)) (operation session input w))))"

definition create_resource ::
    "(string \<Rightarrow> string option) \<Rightarrow> (u8 list \<Rightarrow> string + 'req)
      \<Rightarrow> ('req \<Rightarrow> 'i result) \<Rightarrow> (string \<Rightarrow> 'i \<Rightarrow> 'w \<Rightarrow> string result \<times> 'w)
      \<Rightarrow> Request \<Rightarrow> 'w \<Rightarrow> 'j RestBody Response \<times> 'w" where
  "create_resource = create_resource_with_json_error default_json_error"

definition clone_resource ::
    "(string \<Rightarrow> string option) \<Rightarrow> string \<Rightarrow> (string \<Rightarrow> string \<Rightarrow> 'w \<Rightarrow> string result \<times> 'w)
      \<Rightarrow> string \<Rightarrow> Request \<Rightarrow> 'w \<Rightarrow> 'j RestBody Response \<times> 'w" where
  "clone_resource uuid collection_path operation ident q w =
     (case check_uuid uuid ''id'' ident of
        Inl e \<Rightarrow> (gateway_error e (rq_path q), w)
      | Inr _ \<Rightarrow>
          (case bearer_token (rq_headers q) of
             Inl e \<Rightarrow> (gateway_error e (rq_path q), w)
           | Inr session \<Rightarrow> respond q (created_resource uuid collection_path) (operation session ident w)))"

definition get_resource ::
    "(string \<Rightarrow> string option) \<Rightarrow> (string \<Rightarrow> string \<Rightarrow> 'w \<Rightarrow> 't result \<times> 'w) \<Rightarrow> ('t \<Rightarrow> 'j)
      \<Rightarrow> string \<Rightarrow> Request \<Rightarrow> 'w \<Rightarrow> 'j RestBody Response \<times> 'w" where
  "get_resource uuid operation to_dto ident q w =
     (case check_uuid uuid ''id'' ident of
        Inl e \<Rightarrow> (gateway_error e (rq_path q), w)
      | Inr _ \<Rightarrow>
          (case bearer_token (rq_headers q) of
             Inl e \<Rightarrow> (gateway_error e (rq_path q), w)
           | Inr session \<Rightarrow> respond q (\<lambda>v. ok_resource (to_dto v)) (operation session ident w)))"

definition update_resource_with_json_error ::
    "('e \<Rightarrow> GatewayError) \<Rightarrow> (string \<Rightarrow> string option) \<Rightarrow> (u8 list \<Rightarrow> 'e + 'req)
      \<Rightarrow> ('req \<Rightarrow> 'i result) \<Rightarrow> (string \<Rightarrow> string \<Rightarrow> 'i \<Rightarrow> 'w \<Rightarrow> 't result \<times> 'w) \<Rightarrow> ('t \<Rightarrow> 'j)
      \<Rightarrow> string \<Rightarrow> Request \<Rightarrow> 'w \<Rightarrow> 'j RestBody Response \<times> 'w" where
  "update_resource_with_json_error map_json_error uuid from_slice validate_into operation to_dto ident q w =
     (case check_uuid uuid ''id'' ident of
        Inl e \<Rightarrow> (gateway_error e (rq_path q), w)
      | Inr _ \<Rightarrow>
          (case bearer_token (rq_headers q) of
             Inl e \<Rightarrow> (gateway_error e (rq_path q), w)
           | Inr session \<Rightarrow>
               (case parse_json_body_with from_slice map_json_error (rq_body q) of
                  Inl e \<Rightarrow> (gateway_error e (rq_path q), w)
                | Inr req \<Rightarrow>
                    (case validate_into req of
                       Inl e \<Rightarrow> (gateway_error e (rq_path q), w)
                     | Inr input \<Rightarrow>
                         respond q (\<lambda>v. ok_resource (to_dto v)) (operation session ident input w)))))"

definition update_resource ::
    "(string \<Rightarrow> string option) \<Rightarrow> (u8 list \<Rightarrow> string + 'req)
      \<Rightarrow> ('req \<Rightarrow> 'i result) \<Rightarrow> (string \<Rightarrow> string \<Rightarrow> 'i \<Rightarrow> 'w \<Rightarrow> 't result \<times> 'w) \<Rightarrow> ('t \<Rightarrow> 'j)
      \<Rightarrow> string \<Rightarrow> Request \<Rightarrow> 'w \<Rightarrow> 'j RestBody Response \<times> 'w" where
  "update_resource = update_resource_with_json_error default_json_error"

definition delete_resource ::
    "(string \<Rightarrow> string option) \<Rightarrow> (string \<Rightarrow> (string \<times> string) list)
      \<Rightarrow> (string \<Rightarrow> string \<Rightarrow> bool \<Rightarrow> 'w \<Rightarrow> unit result \<times> 'w)
      \<Rightarrow> string \<Rightarrow> Request \<Rightarrow> 'w \<Rightarrow> 'j RestBody Response \<times> 'w" where
  "delete_resource uuid decode operation ident q w =
     (case check_uuid uuid ''id'' ident of
        Inl e \<Rightarrow> (gateway_error e (rq_path q), w)
      | Inr _ \<Rightarrow>
          (case bearer_token (rq_headers q) of
             Inl e \<Rightarrow> (gateway_error e (rq_path q), w)
           | Inr session \<Rightarrow>
               (case parse_delete_resource_query decode (query_text q) of
                  Inl e \<Rightarrow> (gateway_error e (rq_path q), w)
                | Inr ultimate \<Rightarrow> respond q (\<lambda>_. no_content) (operation session ident ultimate w))))"

definition delete_resource_without_ultimate ::
    "(string \<Rightarrow> string option) \<Rightarrow> (string \<Rightarrow> string \<Rightarrow> 'w \<Rightarrow> unit result \<times> 'w)
      \<Rightarrow> string \<Rightarrow> Request \<Rightarrow> 'w \<Rightarrow> 'j RestBody Response \<times> 'w" where
  "delete_resource_without_ultimate uuid operation ident q w =
     (case check_uuid uuid ''id'' ident of
        Inl e \<Rightarrow> (gateway_error e (rq_path q), w)
      | Inr _ \<Rightarrow>
          (case bearer_token (rq_headers q) of
             Inl e \<Rightarrow> (gateway_error e (rq_path q), w)
           | Inr session \<Rightarrow> respond q (\<lambda>_. no_content) (operation session ident w)))"

section \<open>Sessions and probes\<close>

definition rest_create_session ::
    "(string \<Rightarrow> string option) \<Rightarrow> (string \<Rightarrow> string \<Rightarrow> 'w \<Rightarrow> SessionCreated result \<times> 'w)
      \<Rightarrow> Request \<Rightarrow> 'w \<Rightarrow> 'j RestBody Response \<times> 'w" where
  "rest_create_session decode create_op q w =
     (case extract_basic_credentials decode (rq_headers q) of
        Inl e \<Rightarrow> (gateway_error e (rq_path q), w)
      | Inr (username, password) \<Rightarrow>
          respond q (\<lambda>created.
            let r = json_response 201 (SessionCreatedBody created)
            in r\<lparr>rp_headers := set_header ''location'' (rq_path q) (rp_headers r)\<rparr>)
            (create_op username password w))"

definition rest_get_session ::
    "(string \<Rightarrow> 'w \<Rightarrow> SessionInfo result) \<Rightarrow> Request \<Rightarrow> 'w \<Rightarrow> 'j RestBody Response" where
  "rest_get_session get q w =
     (case bearer_token (rq_headers q) of
        Inl e \<Rightarrow> gateway_error e (rq_path q)
      | Inr token \<Rightarrow>
          (case get token w of
             Inl e \<Rightarrow> gateway_error e (rq_path q)
           | Inr info \<Rightarrow> ok_json (SessionInfoBody (si_user info) (si_state info)
               (format_rfc3339 (si_created_at info)) (format_rfc3339 (si_last_used_at info))
               (si_expires_in info))))"

definition rest_delete_session ::
    "(string \<Rightarrow> 'w \<Rightarrow> unit result \<times> 'w) \<Rightarrow> Request \<Rightarrow> 'w \<Rightarrow> 'j RestBody Response \<times> 'w" where
  "rest_delete_session delete q w =
     (case bearer_token (rq_headers q) of
        Inl e \<Rightarrow> (gateway_error e (rq_path q), w)
      | Inr token \<Rightarrow> respond q (\<lambda>_. no_content) (delete token w))"

definition rest_health :: "'j RestBody Response" where
  "rest_health = ok_json HealthBody"

definition rest_ready :: "bool \<Rightarrow> ReadinessStatus result \<Rightarrow> 'j RestBody Response" where
  "rest_ready shutting_down answer =
     (if shutting_down then json_response 503 (ReadinessBody False (Some ''shutdown in progress''))
      else case answer of
             Inr status \<Rightarrow>
               if rs_status status = ''ready'' then json_response 200 (ReadinessBody True (rs_reason status))
               else json_response 503 (ReadinessBody False (rs_reason status))
           | Inl e \<Rightarrow> gateway_error e ''/ready'')"

definition rest_version :: "string \<Rightarrow> string result \<Rightarrow> 'j RestBody Response" where
  "rest_version api_version gmp_version =
     (case gmp_version of
        Inr v \<Rightarrow> ok_json (VersionBody api_version v)
      | Inl e \<Rightarrow> gateway_error e ''/api/v1/version'')"

definition rest_list_timezones ::
    "(string \<Rightarrow> 'w \<Rightarrow> (string \<times> string option) list result \<times> 'w) \<Rightarrow> Request \<Rightarrow> 'w \<Rightarrow> 'j RestBody Response \<times> 'w" where
  "rest_list_timezones list q w =
     (case bearer_token (rq_headers q) of
        Inl e \<Rightarrow> (gateway_error e (rq_path q), w)
      | Inr session \<Rightarrow> respond q (\<lambda>tz. ok_json (TimezonesBody tz)) (list session w))"

section \<open>The contract of a handler\<close>

text \<open>
  Every resource handler first decides, without touching the application, whether it admits
  the request, and only then runs its use case; the response is a success exactly when both
  went well.
\<close>

locale resource_handler =
  fixes handler :: "Request \<Rightarrow> 'w \<Rightarrow> 'j Response \<times> 'w"
    and admit :: "Request \<Rightarrow> 'i result"
    and operate :: "'i \<Rightarrow> 'w \<Rightarrow> 'a result \<times> 'w"
    and success :: "Request \<Rightarrow> 'a \<Rightarrow> 'j Response"
  assumes handle: "handler q w =
      (case admit q of
         Inl e \<Rightarrow> (gateway_error e (rq_path q), w)
       | Inr i \<Rightarrow> respond q (success q) (operate i w))"
    and success_status: "is_success (rp_status (success q a))"
begin

lemma refused: "admit q = Inl e \<Longrightarrow> handler q w = (gateway_error e (rq_path q), w)"
  by (simp add: handle)

lemma admitted: "admit q = Inr i \<Longrightarrow> handler q w = respond q (success q) (operate i w)"
  by (simp add: handle)

lemma success_iff:
  "is_success (rp_status (fst (handler q w)))
     \<longleftrightarrow> (\<exists>i a. admit q = Inr i \<and> fst (operate i w) = Inr a)"
proof (cases "admit q")
  case (Inl e)
  then show ?thesis by (simp add: refused gateway_error_not_success)
next
  case (Inr i)
  obtain r w' where "operate i w = (r, w')" by (cases "operate i w")
  then show ?thesis
    by (cases r) (simp_all add: admitted [OF Inr] Inr respond_def success_status gateway_error_not_success)
qed

lemma effect: "snd (handler q w) = (case admit q of Inl e \<Rightarrow> w | Inr i \<Rightarrow> snd (operate i w))"
  by (cases "admit q") (auto simp: refused admitted respond_def split: prod.splits sum.splits)

lemma error_status:
  "admit q = Inr i \<Longrightarrow> fst (operate i w) = Inl e \<Longrightarrow>
     fst (handler q w) = gateway_error e (rq_path q)"
  by (cases "operate i w") (simp add: admitted respond_def)

end

text \<open>What each handler admits.\<close>

definition admit_list :: "(string \<Rightarrow> 'q result) \<Rightarrow> Request \<Rightarrow> (string \<times> 'q) result" where
  "admit_list parse_query q =
     and_then (bearer_token (rq_headers q)) (\<lambda>session.
       and_then (parse_query (query_text q)) (\<lambda>query. Inr (session, query)))"

definition admit_body ::
    "('e \<Rightarrow> GatewayError) \<Rightarrow> (u8 list \<Rightarrow> 'e + 'req) \<Rightarrow> ('req \<Rightarrow> 'i result)
      \<Rightarrow> Request \<Rightarrow> (string \<times> 'i) result" where
  "admit_body map_json_error from_slice validate_into q =
     and_then (bearer_token (rq_headers q)) (\<lambda>session.
       and_then (parse_json_body_with from_slice map_json_error (rq_body q)) (\<lambda>req.
         and_then (validate_into req) (\<lambda>input. Inr (session, input))))"

definition admit_id :: "(string \<Rightarrow> string option) \<Rightarrow> string \<Rightarrow> (Request \<Rightarrow> 'i result) \<Rightarrow> Request \<Rightarrow> 'i result" where
  "admit_id uuid ident admit q = and_then (check_uuid uuid ''id'' ident) (\<lambda>_. admit q)"

definition admit_token :: "Request \<Rightarrow> string result" where
  "admit_token q = bearer_token (rq_headers q)"

lemmas admit_defs = admit_list_def admit_body_def admit_id_def admit_token_def

lemma success_ok [simp]: "is_success (rp_status (ok_resource v))"
  by (simp add: ok_resource_def ok_json_def json_response_def is_success_def)

lemma success_created [simp]: "is_success (rp_status (created_resource uuid path new_id))"
  by (simp add: created_resource_def json_response_def is_success_def Let_def)

lemma success_no_content [simp]: "is_success (rp_status no_content)"
  by (simp add: no_content_def is_success_def)

text \<open>All handlers keep the contract.\<close>

interpretation list_handler: resource_handler "list_resource parse_query operation to_dto" "admit_list parse_query"
    "\<lambda>(session, query). operation session query" "\<lambda>q v. ok_resource (to_dto v)"
  for parse_query :: "string \<Rightarrow> 'q result" and operation :: "string \<Rightarrow> 'q \<Rightarrow> 'w \<Rightarrow> 't result \<times> 'w" and to_dto :: "'t \<Rightarrow> 'j"
  by unfold_locales (auto simp: list_resource_def admit_defs and_then_def split: sum.splits)

interpretation authenticated_handler: resource_handler "authenticated_resource operation to_dto" admit_token
    operation "\<lambda>q v. ok_resource (to_dto v)"
  for operation :: "string \<Rightarrow> 'w \<Rightarrow> 't result \<times> 'w" and to_dto :: "'t \<Rightarrow> 'j"
  by unfold_locales (auto simp: authenticated_resource_def admit_defs split: sum.splits)

interpretation create_handler: resource_handler
    "create_resource_with_json_error map_json_error uuid from_slice validate_into operation"
    "admit_body map_json_error from_slice validate_into"
    "\<lambda>(session, input). operation session input" "\<lambda>q. created_resource uuid (rq_path q)"
  for map_json_error uuid and from_slice :: "u8 list \<Rightarrow> 'e + 'req" and validate_into :: "'req \<Rightarrow> 'i result"
    and operation :: "string \<Rightarrow> 'i \<Rightarrow> 'w \<Rightarrow> string result \<times> 'w"
  by unfold_locales (auto simp: create_resource_with_json_error_def admit_defs and_then_def split: sum.splits)

interpretation clone_handler: resource_handler "clone_resource uuid path operation ident"
    "admit_id uuid ident admit_token" "\<lambda>session. operation session ident" "\<lambda>q. created_resource uuid path"
  for uuid path ident and operation :: "string \<Rightarrow> string \<Rightarrow> 'w \<Rightarrow> string result \<times> 'w"
  by unfold_locales (auto simp: clone_resource_def admit_defs and_then_def split: sum.splits)

interpretation get_handler: resource_handler "get_resource uuid operation to_dto ident"
    "admit_id uuid ident admit_token" "\<lambda>session. operation session ident" "\<lambda>q v. ok_resource (to_dto v)"
  for uuid ident and operation :: "string \<Rightarrow> string \<Rightarrow> 'w \<Rightarrow> 't result \<times> 'w" and to_dto :: "'t \<Rightarrow> 'j"
  by unfold_locales (auto simp: get_resource_def admit_defs and_then_def split: sum.splits)

interpretation update_handler: resource_handler
    "update_resource_with_json_error map_json_error uuid from_slice validate_into operation to_dto ident"
    "admit_id uuid ident (admit_body map_json_error from_slice validate_into)"
    "\<lambda>(session, input). operation session ident input" "\<lambda>q v. ok_resource (to_dto v)"
  for map_json_error uuid ident and from_slice :: "u8 list \<Rightarrow> 'e + 'req" and validate_into :: "'req \<Rightarrow> 'i result"
    and operation :: "string \<Rightarrow> string \<Rightarrow> 'i \<Rightarrow> 'w \<Rightarrow> 't result \<times> 'w" and to_dto :: "'t \<Rightarrow> 'j"
  by unfold_locales (auto simp: update_resource_with_json_error_def admit_defs and_then_def split: sum.splits)

interpretation delete_handler: resource_handler "delete_resource uuid decode operation ident"
    "admit_id uuid ident (admit_list (parse_delete_resource_query decode))"
    "\<lambda>(session, ultimate). operation session ident ultimate" "\<lambda>q v. no_content"
  for uuid decode ident and operation :: "string \<Rightarrow> string \<Rightarrow> bool \<Rightarrow> 'w \<Rightarrow> unit result \<times> 'w"
  by unfold_locales (auto simp: delete_resource_def admit_defs and_then_def split: sum.splits)

interpretation plain_delete_handler: resource_handler "delete_resource_without_ultimate uuid operation ident"
    "admit_id uuid ident admit_token" "\<lambda>session. operation session ident" "\<lambda>q v. no_content"
  for uuid ident and operation :: "string \<Rightarrow> string \<Rightarrow> 'w \<Rightarrow> unit result \<times> 'w"
  by unfold_locales (auto simp: delete_resource_without_ultimate_def admit_defs and_then_def split: sum.splits)

section \<open>Properties\<close>

text \<open>
  An update succeeds exactly when everything is in order: the id is a UUID, the request
  carries a bearer token, the body parses and validates, and the use case, called with this
  token, id and input, succeeds. Nothing else answers with a success status.
\<close>

lemma update_succeeds_iff:
  "is_success (rp_status (fst (update_resource uuid from_slice validate_into operation to_dto ident q w)))
     = (\<exists>token req input v. uuid ident \<noteq> None \<and> bearer_token (rq_headers q) = Inr token
          \<and> from_slice (rq_body q) = Inr req \<and> validate_into req = Inr input
          \<and> fst (operation token ident input w) = Inr v)"
  unfolding update_resource_def update_handler.success_iff
  by (auto simp: admit_defs check_uuid_def validate_uuid_def parse_json_body_with_def and_then_eq_Inr
      split: sum.splits if_splits)

text \<open>
  Without a bearer token nothing happens: whatever the id, the query and the body, no generic
  handler touches the application, and those that check the token first answer 401.
\<close>

lemma generic_handlers_need_token:
  assumes "bearer_token (rq_headers q) = Inl e"
  shows "list_resource parse_query op_lists to_dto q w = (gateway_error e (rq_path q), w)
    \<and> authenticated_resource op_auths to_dto q w = (gateway_error e (rq_path q), w)
    \<and> create_resource uuid from_slice validate_into op_creates q w = (gateway_error e (rq_path q), w)
    \<and> snd (clone_resource uuid path op_clones ident q w) = w
    \<and> snd (get_resource uuid op_gets to_dto ident q w) = w
    \<and> snd (update_resource uuid from_slice validate_into op_updates to_dto ident q w) = w
    \<and> snd (delete_resource uuid decode op_deletes ident q w) = w
    \<and> snd (delete_resource_without_ultimate uuid op_plains ident q w) = w
    \<and> rp_status (gateway_error e (rq_path q)) = 401"
proof -
  have "rp_status (gateway_error e (rq_path q)) = 401"
    using assms by (auto simp: bearer_token_def gateway_error_status split: option.splits)
  then show ?thesis
    using assms list_handler.refused [of parse_query q e] authenticated_handler.refused [of q e]
      create_handler.refused [of default_json_error from_slice validate_into q e]
    by (auto simp: create_resource_def update_resource_def admit_defs clone_handler.effect get_handler.effect
        update_handler.effect delete_handler.effect plain_delete_handler.effect and_then_def split: sum.splits)
qed

text \<open>
  The readiness probe: it answers 200 exactly when no shutdown is going on and the
  backend is ready. When the backend is not, the answer, which needs no authentication,
  carries the whole detail of the backend's error.
\<close>

lemma ready_iff:
  "(rp_status (rest_ready shutting_down (readiness answer)) = 200) = (\<not> shutting_down \<and> is_ok answer)
   \<and> rest_ready False (readiness (Inl e)) = json_response 503 (ReadinessBody False (Some (error_detail e)))"
  by (cases answer) (auto simp: rest_ready_def readiness_def json_response_def)

end
