(* ===== verification/Exports.thy ===== *)
theory Exports
  imports Service
begin

text \<open>
  Report exports, \<open>crates/gvm-gateway-app/src/jobs.rs\<close>: accepting an export with its hold on the
  session, and the work of the worker, in particular the loop that collects all result pages
  of a JSON export. What the report port answers and the JSON serializer are arguments.
\<close>

section \<open>The JSON export\<close>

text \<open>
  One page of results: the items and the number of pages the backend reports. The loop reads
  page after page until it is past the last one or a page is empty; the page number is a
  \<open>u32\<close>, and it is below the reported number of pages whenever it is incremented.
\<close>

function collect_pages ::
    "(u32 \<Rightarrow> ('i list \<times> u32) result) \<Rightarrow> u32 \<Rightarrow> 'i list \<Rightarrow> 'i list result" where
  "collect_pages get_results page results =
     (case get_results page of
        Inl e \<Rightarrow> Inl e
      | Inr (items, total_pages) \<Rightarrow>
          (let results = results @ items
           in if items = [] \<or> page \<ge> total_pages then Inr results
              else collect_pages get_results (page + 1) results))"
  by pat_completeness auto
termination
proof (relation "measure (\<lambda>(get_results, page, results). 2 ^ 32 - unat page)", goal_cases)
  case 1
  show ?case by simp
next
  case (2 get_results page results x items total_pages results')
  then have "page < total_pages" by (simp add: not_le)
  then have less: "unat page + 1 < 2 ^ LENGTH(32)"
    using unat_below [of total_pages] by (simp add: word_less_nat_alt)
  then have "unat (page + 1) = unat page + 1"
    using unat_add_lem [of page 1] by simp
  with less show ?case by simp
qed

declare collect_pages.simps [simp del]

record ReportExport =
  rx_bytes :: "u8 list"
  rx_content_type :: "string option"
  rx_extension :: "string option"

text \<open>A report is its metadata and its results; the export clears the results first.\<close>

definition export_report_json ::
    "('m \<times> 'i list) result \<Rightarrow> (u32 \<Rightarrow> ('i list \<times> u32) result)
      \<Rightarrow> ('m \<times> 'i list \<Rightarrow> 'i list \<Rightarrow> string \<Rightarrow> string + u8 list) \<Rightarrow> u64 \<Rightarrow> string \<Rightarrow> JobArtifact result" where
  "export_report_json get_report get_results to_vec now report_id =
     and_then get_report (\<lambda>(meta, _).
       let report = (meta, [])
       in and_then (collect_pages get_results 1 []) (\<lambda>results.
         and_then (case to_vec report results (format_rfc3339 now) of
             Inl err \<Rightarrow> Inl (Internal (''failed to serialize JSON report export: '' @ err))
           | Inr bytes \<Rightarrow> Inr bytes) (\<lambda>bytes.
         Inr \<lparr>ja_bytes = bytes, ja_content_type = ''application/json'',
              ja_filename = ''report-'' @ report_id @ ''.json''\<rparr>)))"

definition export_artifact :: "string \<Rightarrow> ReportExport \<Rightarrow> JobArtifact" where
  "export_artifact report_id ex =
     (let extension = unwrap_or (rx_extension ex) ''bin''
      in \<lparr>ja_bytes = rx_bytes ex,
          ja_content_type = unwrap_or (rx_content_type ex) ''application/octet-stream'',
          ja_filename = ''report-'' @ report_id @ ''.'' @ extension\<rparr>)"

text \<open>
  \<open>run_report_export_job\<close>. Between the critical sections other tasks run: the registry in
  which the outcome is recorded is \<open>meanwhile\<close> of the one the job was marked running in.
\<close>

definition run_report_export_job ::
    "(GvmdReportFormatExportRequest \<Rightarrow> ReportExport result) \<Rightarrow> (JsonReportExportRequest \<Rightarrow> JobArtifact result)
      \<Rightarrow> (JobRegistryState \<Rightarrow> JobRegistryState) \<Rightarrow> u64 \<Rightarrow> u64 \<Rightarrow> string \<Rightarrow> string
      \<Rightarrow> CreateReportExportRequest \<Rightarrow> JobRegistryState \<Rightarrow> JobRegistryState" where
  "run_report_export_job export_report export_json meanwhile start end job_id report_id request st =
     (let (r, st) = mark_job_running start job_id st
      in if \<not> is_ok r then st
         else (let st = meanwhile st;
                   res = (case request of
                      GvmdReportFormat req \<Rightarrow>
                        and_then (export_report req) (\<lambda>ex. Inr (export_artifact report_id ex))
                    | Json req \<Rightarrow> export_json req)
               in case res of
                    Inr artifact \<Rightarrow> snd (mark_job_succeeded end job_id artifact st)
                  | Inl error \<Rightarrow> snd (mark_job_failed end job_id error st)))"

section \<open>Accepting an export\<close>

text \<open>
  \<open>enqueue_report_export_job\<close>: the report must exist, the session is held for the worker, and
  the hold goes back (the guard is dropped) when the registry refuses the job.
\<close>

definition enqueue_report_export_job ::
    "unit result \<Rightarrow> (string \<Rightarrow> u8 list) \<Rightarrow> u64 \<Rightarrow> string \<Rightarrow> Session \<Rightarrow> string
      \<Rightarrow> CreateReportExportRequest \<Rightarrow> 's GatewayService
      \<Rightarrow> ReportExportJob result \<times> 's GatewayService" where
  "enqueue_report_export_job get_report sha now job_id session report_id request sv =
     (case get_report of
        Inl e \<Rightarrow> (Inl e, sv)
      | Inr _ \<Rightarrow>
          (let job = report_export_job now job_id report_id request;
               (h, m) = hold sha now (se_token session) (gs_sessions sv);
               sv = sv\<lparr>gs_sessions := m\<rparr>
           in case h of
                Inl e \<Rightarrow> (Inl e, sv)
              | Inr session_hold \<Rightarrow>
                  (let digest = from_token sha (se_token session);
                       s = gs_jobs sv;
                       (r, st) = insert_job now (se_user session) digest job (sy_registry s)
                   in case r of
                        Inl e \<Rightarrow>
                          (Inl e, sv\<lparr>gs_jobs := s\<lparr>sy_registry := st\<rparr>,
                                     gs_sessions := drop_hold session_hold (gs_sessions sv)\<rparr>)
                      | Inr _ \<Rightarrow>
                          (let (r, aborted, st) = set_job_abort_handle job_id job_id st;
                               s = s\<lparr>sy_registry := st,
                                     sy_workers := AList.update job_id Spawned (sy_workers s),
                                     sy_aborted := aborted @ sy_aborted s,
                                     sy_ids := job_id # sy_ids s\<rparr>
                           in (and_then r (\<lambda>_. Inr job), sv\<lparr>gs_jobs := s\<rparr>)))))"

section \<open>What the loop collects\<close>

text \<open>A report port whose pages of a thousand hold the results \<open>xs\<close> and do not change.\<close>

definition result_pages :: "(u32 \<Rightarrow> ('i list \<times> u32) result) \<Rightarrow> 'i list \<Rightarrow> bool" where
  "result_pages get_results xs \<longleftrightarrow>
     (\<forall>p. p \<noteq> 0 \<longrightarrow>
        get_results p = Inr (page_of xs 1000 (unat p), of_nat ((length xs + 999) div 1000)))"

lemma drop_page: "drop (k * n) xs = page_of xs n (Suc k) @ drop (Suc k * n) xs"
proof -
  have "drop (k * n) xs = take n (drop (k * n) xs) @ drop n (drop (k * n) xs)"
    by (rule append_take_drop_id [symmetric])
  then show ?thesis by (simp add: page_of_def del: append_take_drop_id)
qed

lemma collect_pages_rest:
  assumes "result_pages get_results xs" and "length xs < 2 ^ 32"
  shows "page \<noteq> 0 \<Longrightarrow>
     collect_pages get_results page results = Inr (results @ drop ((unat page - 1) * 1000) xs)"
proof (induction "2 ^ 32 - unat page" arbitrary: page results rule: less_induct)
  case less
  let ?pages = "(length xs + 999) div 1000"
  obtain k where k: "unat page = Suc k" using less.prems by (metis not0_implies_Suc unat_eq_zero)
  have pages: "unat (of_nat ?pages :: u32) = ?pages"
    using assms(2) by (intro unat_of_nat_small) simp
  have page: "get_results page = Inr (page_of xs 1000 (Suc k), of_nat ?pages)"
    using assms(1) less.prems k by (simp add: result_pages_def)
  have here: "collect_pages get_results page results =
      (if page_of xs 1000 (Suc k) = [] \<or> of_nat ?pages \<le> page
       then Inr (results @ page_of xs 1000 (Suc k))
       else collect_pages get_results (page + 1) (results @ page_of xs 1000 (Suc k)))"
    by (subst collect_pages.simps) (simp add: page Let_def)
  show ?case
  proof (cases "page_of xs 1000 (Suc k) = [] \<or> of_nat ?pages \<le> page")
    case True
    then have "length xs \<le> Suc k * 1000"
    proof
      assume "page_of xs 1000 (Suc k) = []"
      then show ?thesis by (simp add: page_of_def)
    next
      assume "of_nat ?pages \<le> page"
      then have "?pages \<le> Suc k" using pages k by (simp add: word_le_nat_alt)
      then have "?pages * 1000 \<le> Suc k * 1000" by simp
      moreover have "length xs \<le> ?pages * 1000" using all_pages [of 1000 xs] by simp
      ultimately show ?thesis by linarith
    qed
    then have "drop (k * 1000) xs = page_of xs 1000 (Suc k)" by (simp add: drop_page)
    then show ?thesis using here True k by simp
  next
    case False
    then have "page < of_nat ?pages" by (simp add: not_le)
    then have small: "unat page + 1 < 2 ^ LENGTH(32)"
      using unat_below [of "of_nat ?pages :: u32"] by (simp add: word_less_nat_alt)
    then have succ: "unat (page + 1) = Suc (unat page)"
      using unat_add_lem [of page 1] by simp
    then have "page + 1 \<noteq> 0" by (metis nat.distinct(1) unsigned_0)
    from less.hyps [OF _ this] succ small
    have "collect_pages get_results (page + 1) (results @ page_of xs 1000 (Suc k))
        = Inr ((results @ page_of xs 1000 (Suc k)) @ drop (unat page * 1000) xs)" by simp
    then show ?thesis using here False k drop_page [of k 1000 xs] by simp
  qed
qed

section \<open>Holds\<close>

lemma hold_drop_count:
  assumes "hold sha now token m = (Inr d, m')" and "map_of (sm_sessions m) k = Some s"
    and "ss_hold_count s < - 1"
  shows "\<exists>s'. map_of (sm_sessions (drop_hold d m')) k = Some s' \<and> ss_hold_count s' = ss_hold_count s"
proof -
  have same: "saturating_sub (saturating_add (ss_hold_count s) 1) 1 = ss_hold_count s"
  proof -
    have "unat (ss_hold_count s) < unat (- 1 :: u64)"
      using assms(3) by (simp only: word_less_nat_alt)
    then have "unat (saturating_sub (saturating_add (ss_hold_count s) 1) 1) = unat (ss_hold_count s)"
      by (simp add: unat_saturating_sub unat_saturating_add unsigned_minus_1_eq_mask mask_eq_exp_minus_1)
    then show ?thesis by (rule unsigned_word_eqI)
  qed
  show ?thesis
    using assms(1,2) same
    by (auto simp: hold_def drop_hold_def put_session_def Let_def split: if_splits option.splits)
qed

lemma hold_error_count:
  assumes "hold sha now token m = (Inl e, m')" and "map_of (sm_sessions m) k = Some s"
  shows "\<exists>s'. map_of (sm_sessions m') k = Some s' \<and> ss_hold_count s' = ss_hold_count s"
  using assms by (auto simp: hold_def put_session_def Let_def split: if_splits option.splits)

section \<open>Properties\<close>

text \<open>
  C25. The JSON export is complete and terminates: over a report whose pages do not change,
  the loop collects every result once and in order, for any number of results a page counter
  can address, an empty report included.
\<close>

theorem json_export_complete:
  assumes "result_pages get_results xs" and "length xs < 2 ^ 32"
    and "to_vec (meta, []) xs (format_rfc3339 now) = Inr bytes"
  shows "export_report_json (Inr (meta, old)) get_results to_vec now report_id
     = Inr \<lparr>ja_bytes = bytes, ja_content_type = ''application/json'',
            ja_filename = ''report-'' @ report_id @ ''.json''\<rparr>"
  using assms(3) collect_pages_rest [OF assms(1,2), of 1 "[]"]
  by (simp add: export_report_json_def Let_def)

theorem json_export_complete_witness:
  "export_report_json (Inr (''meta'', [9 :: nat])) (\<lambda>p. Inr (page_of [4, 5, 6] 1000 (unat p), 1))
      (\<lambda>report results time. Inr (map of_nat results)) 0 ''r''
    = Inr \<lparr>ja_bytes = [4, 5, 6], ja_content_type = ''application/json'', ja_filename = ''report-r.json''\<rparr>"
  using json_export_complete [where get_results = "\<lambda>p. Inr (page_of [4, 5, 6 :: nat] 1000 (unat p), 1)"
      and xs = "[4, 5, 6]" and to_vec = "\<lambda>report results time. Inr (map of_nat results)"
      and meta = "''meta''" and now = 0 and bytes = "[4, 5, 6]" and old = "[9]" and report_id = "''r''"]
  by (simp add: result_pages_def)

text \<open>
  A refused export leaves no hold: when accepting an export fails, for whatever reason,
  every session has the hold count it had before, so that a full job registry cannot keep
  sessions alive.
\<close>

lemma refused_export_leaves_no_hold:
  assumes "enqueue_report_export_job get_report sha now job_id session report_id request sv = (Inl e, sv')"
    and "\<not> js_poisoned (sy_registry (gs_jobs sv))"
    and "map_of (sm_sessions (gs_sessions sv)) k = Some s" and "ss_hold_count s < - 1"
  shows "\<exists>s'. map_of (sm_sessions (gs_sessions sv')) k = Some s' \<and> ss_hold_count s' = ss_hold_count s"
proof (cases get_report)
  case (Inl err)
  then show ?thesis using assms by (simp add: enqueue_report_export_job_def)
next
  case (Inr u)
  obtain h m where h: "hold sha now (se_token session) (gs_sessions sv) = (h, m)"
    by (cases "hold sha now (se_token session) (gs_sessions sv)")
  let ?insert = "insert_job now (se_user session) (from_token sha (se_token session))
      (report_export_job now job_id report_id request) (sy_registry (gs_jobs sv))"
  show ?thesis
  proof (cases h)
    case (Inl err)
    then have "gs_sessions sv' = m"
      using assms(1) Inr h by (auto simp: enqueue_report_export_job_def Let_def)
    then show ?thesis using hold_error_count [OF h [unfolded Inl] assms(3)] by simp
  next
    case hold: (Inr d)
    show ?thesis
    proof (cases "fst ?insert")
      case (Inl err)
      then have "gs_sessions sv' = drop_hold d m"
        using assms(1) Inr h hold
        by (cases ?insert) (auto simp: enqueue_report_export_job_def Let_def)
      then show ?thesis using hold_drop_count [OF h [unfolded hold] assms(3,4)] by simp
    next
      case ins: (Inr v)
      then have "fst (set_job_abort_handle job_id job_id (snd ?insert)) = Inr ()"
        using assms(2) by (auto simp: insert_job_def set_job_abort_handle_def put_job_def Let_def split: if_splits)
      then show ?thesis
        using assms(1) Inr h hold ins
        by (cases ?insert) (auto simp: enqueue_report_export_job_def Let_def split: prod.splits)
    qed
  qed
qed

definition full_service :: "unit GatewayService" where
  "full_service =
     \<lparr>gs_sessions = (new_manager 60)\<lparr>sm_sessions := [(one_digest ''x'', new_session ''ann'' 9)]\<rparr>,
      gs_jobs = new_job_system \<lparr>max_jobs_total = 0, terminal_retention_secs = 60\<rparr>,
      gs_auth = (), gs_audit = []\<rparr>"

lemma refused_export_leaves_no_hold_witness:
  "\<exists>e sv' s'. enqueue_report_export_job (Inr ()) one_digest 10 ''j''
      \<lparr>se_token = ''x'', se_user = ''ann'', se_state = Active\<rparr> ''r'' demo_request full_service = (Inl e, sv')
    \<and> map_of (sm_sessions (gs_sessions sv')) (one_digest ''x'') = Some s' \<and> ss_hold_count s' = 0"
proof -
  let ?r = "enqueue_report_export_job (Inr ()) one_digest 10 ''j''
      \<lparr>se_token = ''x'', se_user = ''ann'', se_state = Active\<rparr> ''r'' demo_request full_service"
  have "\<not> is_ok (fst ?r)"
    by (simp add: enqueue_report_export_job_def full_service_def hold_def new_manager_def with_limits_def
        from_token_def new_session_def is_expired_at_def saturating_sub_def insert_job_def Let_def
        purge_expired_jobs_def retain_def new_job_system_def new_job_registry_def word_le_nat_alt)
  then obtain e sv' where r: "?r = (Inl e, sv')" by (cases ?r; cases "fst ?r") auto
  have "\<not> js_poisoned (sy_registry (gs_jobs full_service))"
    and "map_of (sm_sessions (gs_sessions full_service)) (one_digest ''x'') = Some (new_session ''ann'' 9)"
    and "ss_hold_count (new_session ''ann'' 9) < - 1"
    by (simp_all add: full_service_def new_job_system_def new_job_registry_def new_manager_def
        with_limits_def new_session_def word_gt0_nat unsigned_minus_1_eq_mask mask_eq_exp_minus_1)
  from refused_export_leaves_no_hold [OF r this] r show ?thesis
    by (auto simp: new_session_def)
qed

end
