(* ===== verification/Rest_Jobs.thy ===== *)
theory Rest_Jobs
  imports Handlers Exports
begin

text \<open>
  The endpoints of report export jobs, \<open>crates/gvm-gateway-rest/src/jobs.rs\<close>, with the use cases
  they call (\<open>crates/gvm-gateway-app/src/jobs.rs\<close>). The deserializer of the request body, the
  UUID parser and the check of header values are library functions and arguments.
\<close>

section \<open>Request and response bodies\<close>

record GvmdReportFormatExportRequestBody =
  gb_report_format_id :: string
  gb_report_config_id :: "string option"
  gb_filter :: "string option"
  gb_filter_id :: "string option"

datatype JsonExportFormatBody = JsonFormat

record JsonReportExportRequestBody =
  jb_body_format :: JsonExportFormatBody
  jb_body_filter :: "string option"
  jb_body_filter_id :: "string option"

datatype CreateReportExportRequestBody =
    GvmdReportFormatBody GvmdReportFormatExportRequestBody
  | JsonExportBody JsonReportExportRequestBody

definition validate_optional_uuid :: "(string \<Rightarrow> string option) \<Rightarrow> string \<Rightarrow> string option \<Rightarrow> unit result" where
  "validate_optional_uuid uuid field v = (case v of None \<Rightarrow> Inr () | Some s \<Rightarrow> check_uuid uuid field s)"

definition into_domain ::
    "(string \<Rightarrow> string option) \<Rightarrow> CreateReportExportRequestBody \<Rightarrow> CreateReportExportRequest result" where
  "into_domain uuid body =
     (case body of
        GvmdReportFormatBody b \<Rightarrow>
          and_then (check_uuid uuid ''reportFormatId'' (gb_report_format_id b)) (\<lambda>_.
          and_then (validate_optional_uuid uuid ''reportConfigId'' (gb_report_config_id b)) (\<lambda>_.
          and_then (validate_optional_uuid uuid ''filterId'' (gb_filter_id b)) (\<lambda>_.
            Inr (GvmdReportFormat
              \<lparr>grf_report_format_id = gb_report_format_id b, grf_report_config_id = gb_report_config_id b,
               grf_filter = gb_filter b, grf_filter_id = gb_filter_id b\<rparr>))))
      | JsonExportBody b \<Rightarrow>
          and_then (validate_optional_uuid uuid ''filterId'' (jb_body_filter_id b)) (\<lambda>_.
            Inr (Json \<lparr>jre_filter = jb_body_filter b, jre_filter_id = jb_body_filter_id b\<rparr>)))"

record ResourceRefResponse =
  rrr_id :: string
  rrr_name :: "string option"

definition resource_ref_response :: "(string \<Rightarrow> string option) \<Rightarrow> ResourceRef \<Rightarrow> ResourceRefResponse" where
  "resource_ref_response uuid r = \<lparr>rrr_id = parse_uuid uuid (rr_id r), rrr_name = rr_name r\<rparr>"

text \<open>
  Progress, problem and result of the response have the fields of the domain types, which
  stand for them here.
\<close>

record ReportExportJobResponse =
  jo_id :: string
  jo_kind :: string
  jo_status :: JobStatus
  jo_progress :: "JobProgress option"
  jo_created_at :: string
  jo_started_at :: "string option"
  jo_completed_at :: "string option"
  jo_expires_at :: "string option"
  jo_result_location :: "string option"
  jo_error :: "JobProblem option"
  jo_report :: ResourceRefResponse
  jo_format :: ReportExportFormat
  jo_report_format_id :: "string option"
  jo_result :: "JobResult option"

definition report_export_job_response ::
    "(string \<Rightarrow> string option) \<Rightarrow> ReportExportJob \<Rightarrow> ReportExportJobResponse" where
  "report_export_job_response uuid job =
     \<lparr>jo_id = parse_uuid uuid (jb_id job), jo_kind = jb_kind job, jo_status = jb_status job,
      jo_progress = jb_progress job, jo_created_at = jb_created_at job, jo_started_at = jb_started_at job,
      jo_completed_at = jb_completed_at job, jo_expires_at = jb_expires_at job,
      jo_result_location = jb_result_location job, jo_error = jb_error job,
      jo_report = resource_ref_response uuid (jb_report job), jo_format = jb_format job,
      jo_report_format_id = Option.bind (jb_report_format_id job) uuid, jo_result = jb_result job\<rparr>"

section \<open>Use cases\<close>

definition create_report_export_job ::
    "unit result \<Rightarrow> (string \<Rightarrow> u8 list) \<Rightarrow> u64 \<Rightarrow> string \<Rightarrow> string \<Rightarrow> string
      \<Rightarrow> CreateReportExportRequest \<Rightarrow> 's GatewayService \<Rightarrow> ReportExportJob result \<times> 's GatewayService" where
  "create_report_export_job get_report sha now job_id session_token report_id request sv =
     execute_with_resource sha now session_token ''create'' ''report_export''
       (\<lambda>session. enqueue_report_export_job get_report sha now job_id session report_id request) sv"

text \<open>An operation of the registry run by the service.\<close>

definition on_registry ::
    "(JobRegistryState \<Rightarrow> 'a \<times> JobRegistryState) \<Rightarrow> 's GatewayService \<Rightarrow> 'a \<times> 's GatewayService" where
  "on_registry operation sv =
     (let s = gs_jobs sv; (r, st) = operation (sy_registry s) in (r, sv\<lparr>gs_jobs := s\<lparr>sy_registry := st\<rparr>\<rparr>))"

definition get_job ::
    "(string \<Rightarrow> u8 list) \<Rightarrow> u64 \<Rightarrow> string \<Rightarrow> string \<Rightarrow> 's GatewayService
      \<Rightarrow> ReportExportJob result \<times> 's GatewayService" where
  "get_job sha now session_token job_id sv =
     execute_with_resource sha now session_token ''read'' ''job''
       (\<lambda>session. on_registry (job_snapshot now (se_user session) job_id)) sv"

definition cancel_job ::
    "(string \<Rightarrow> u8 list) \<Rightarrow> u64 \<Rightarrow> string \<Rightarrow> string \<Rightarrow> 's GatewayService
      \<Rightarrow> JobCancelOutcome result \<times> 's GatewayService" where
  "cancel_job sha now session_token job_id sv =
     execute_with_resource sha now session_token ''cancel'' ''job''
       (\<lambda>session sv.
          let s = gs_jobs sv; (r, aborted, st) = cancel_job_record now (se_user session) job_id (sy_registry s)
          in (r, sv\<lparr>gs_jobs := s\<lparr>sy_registry := st, sy_aborted := aborted @ sy_aborted s\<rparr>\<rparr>)) sv"

definition download_job_result ::
    "(string \<Rightarrow> u8 list) \<Rightarrow> u64 \<Rightarrow> string \<Rightarrow> string \<Rightarrow> 's GatewayService
      \<Rightarrow> JobArtifact result \<times> 's GatewayService" where
  "download_job_result sha now session_token job_id sv =
     execute_with_resource sha now session_token ''read'' ''job_result''
       (\<lambda>session. on_registry (job_artifact now (se_user session) job_id)) sv"

section \<open>Handlers\<close>

definition accepted_job ::
    "(string \<Rightarrow> string option) \<Rightarrow> ReportExportJob \<Rightarrow> ReportExportJobResponse RestBody Response" where
  "accepted_job uuid job =
     (let r = json_response 202 (ResourceBody (report_export_job_response uuid job))
      in r\<lparr>rp_headers := set_header ''retry-after'' ''1''
             (set_header ''location'' (''/api/v1/jobs/'' @ jb_id job) (rp_headers r))\<rparr>)"

definition rest_create_report_export_job ::
    "(string \<Rightarrow> string option) \<Rightarrow> (u8 list \<Rightarrow> string + CreateReportExportRequestBody)
      \<Rightarrow> (string \<Rightarrow> string \<Rightarrow> CreateReportExportRequest \<Rightarrow> 'w \<Rightarrow> ReportExportJob result \<times> 'w)
      \<Rightarrow> string \<Rightarrow> Request \<Rightarrow> 'w \<Rightarrow> ReportExportJobResponse RestBody Response \<times> 'w" where
  "rest_create_report_export_job uuid from_slice operation ident q w =
     (case check_uuid uuid ''id'' ident of
        Inl e \<Rightarrow> (gateway_error e (rq_path q), w)
      | Inr _ \<Rightarrow>
          (case parse_json_body_with from_slice default_json_error (rq_body q) of
             Inl e \<Rightarrow> (gateway_error e (rq_path q), w)
           | Inr body \<Rightarrow>
               (case into_domain uuid body of
                  Inl e \<Rightarrow> (gateway_error e (rq_path q), w)
                | Inr request \<Rightarrow>
                    (case bearer_token (rq_headers q) of
                       Inl e \<Rightarrow> (gateway_error e (rq_path q), w)
                     | Inr session \<Rightarrow>
                         respond q (accepted_job uuid) (operation session ident request w)))))"

text \<open>The three handlers of one job check its identifier and the token in this order.\<close>

definition rest_get_job ::
    "(string \<Rightarrow> string option) \<Rightarrow> (string \<Rightarrow> string \<Rightarrow> 'w \<Rightarrow> ReportExportJob result \<times> 'w)
      \<Rightarrow> string \<Rightarrow> Request \<Rightarrow> 'w \<Rightarrow> ReportExportJobResponse RestBody Response \<times> 'w" where
  "rest_get_job uuid operation ident q w =
     (case check_uuid uuid ''id'' ident of
        Inl e \<Rightarrow> (gateway_error e (rq_path q), w)
      | Inr _ \<Rightarrow>
          (case bearer_token (rq_headers q) of
             Inl e \<Rightarrow> (gateway_error e (rq_path q), w)
           | Inr session \<Rightarrow>
               respond q (\<lambda>job. json_response 200 (ResourceBody (report_export_job_response uuid job)))
                 (operation session ident w)))"

fun cancel_response :: "JobCancelOutcome \<Rightarrow> 'j Response" where
  "cancel_response CancellationRequested = \<lparr>rp_status = 202, rp_headers = [], rp_body = NoBody\<rparr>"
| "cancel_response AlreadyTerminal = no_content"

definition rest_cancel_job ::
    "(string \<Rightarrow> string option) \<Rightarrow> (string \<Rightarrow> string \<Rightarrow> 'w \<Rightarrow> JobCancelOutcome result \<times> 'w)
      \<Rightarrow> string \<Rightarrow> Request \<Rightarrow> 'w \<Rightarrow> ReportExportJobResponse RestBody Response \<times> 'w" where
  "rest_cancel_job uuid operation ident q w =
     (case check_uuid uuid ''id'' ident of
        Inl e \<Rightarrow> (gateway_error e (rq_path q), w)
      | Inr _ \<Rightarrow>
          (case bearer_token (rq_headers q) of
             Inl e \<Rightarrow> (gateway_error e (rq_path q), w)
           | Inr session \<Rightarrow> respond q cancel_response (operation session ident w)))"

text \<open>
  A response of raw bytes; the default content type of bytes is replaced. \<open>header_ok\<close> says
  which strings the library takes as header values.
\<close>

definition artifact_response :: "(string \<Rightarrow> bool) \<Rightarrow> JobArtifact \<Rightarrow> 'j Response" where
  "artifact_response header_ok artifact =
     (let disposition = ''attachment; filename='' @ [CHR 0x22] @ ja_filename artifact @ [CHR 0x22]
      in \<lparr>rp_status = 200,
          rp_headers =
            set_header ''content-disposition''
              (if header_ok disposition then disposition else ''attachment'')
            (set_header ''content-type''
              (if header_ok (ja_content_type artifact) then ja_content_type artifact
               else ''application/octet-stream'')
            [(''content-type'', ''application/octet-stream'')]),
          rp_body = BytesBody (ja_bytes artifact)\<rparr>)"

definition rest_download_job_result ::
    "(string \<Rightarrow> string option) \<Rightarrow> (string \<Rightarrow> bool) \<Rightarrow> (string \<Rightarrow> string \<Rightarrow> 'w \<Rightarrow> JobArtifact result \<times> 'w)
      \<Rightarrow> string \<Rightarrow> Request \<Rightarrow> 'w \<Rightarrow> ReportExportJobResponse RestBody Response \<times> 'w" where
  "rest_download_job_result uuid header_ok operation ident q w =
     (case check_uuid uuid ''id'' ident of
        Inl e \<Rightarrow> (gateway_error e (rq_path q), w)
      | Inr _ \<Rightarrow>
          (case bearer_token (rq_headers q) of
             Inl e \<Rightarrow> (gateway_error e (rq_path q), w)
           | Inr session \<Rightarrow> respond q (artifact_response header_ok) (operation session ident w)))"

section \<open>The handlers keep the contract\<close>

definition admit_export ::
    "(string \<Rightarrow> string option) \<Rightarrow> (u8 list \<Rightarrow> string + CreateReportExportRequestBody) \<Rightarrow> string
      \<Rightarrow> Request \<Rightarrow> (string \<times> CreateReportExportRequest) result" where
  "admit_export uuid from_slice ident q =
     and_then (check_uuid uuid ''id'' ident) (\<lambda>_.
       and_then (parse_json_body_with from_slice default_json_error (rq_body q)) (\<lambda>body.
         and_then (into_domain uuid body) (\<lambda>request.
           and_then (bearer_token (rq_headers q)) (\<lambda>session. Inr (session, request)))))"

lemma success_statuses [simp]:
  "is_success (rp_status (accepted_job uuid job))" "is_success (rp_status (json_response 200 v))"
  "is_success (rp_status (cancel_response outcome))" "is_success (rp_status (artifact_response header_ok a))"
  by (simp_all add: accepted_job_def json_response_def artifact_response_def is_success_def Let_def)
    (cases outcome; simp add: no_content_def)

interpretation export_handler: resource_handler "rest_create_report_export_job uuid from_slice operation ident"
    "admit_export uuid from_slice ident" "\<lambda>(session, request). operation session ident request"
    "\<lambda>_. accepted_job uuid"
  for uuid from_slice operation ident
  by unfold_locales (simp_all add: rest_create_report_export_job_def admit_export_def and_then_def split: sum.splits)

interpretation get_job_handler: resource_handler "rest_get_job uuid operation ident"
    "admit_id uuid ident admit_token" "\<lambda>session. operation session ident"
    "\<lambda>_ job. json_response 200 (ResourceBody (report_export_job_response uuid job))"
  for uuid operation ident
  by unfold_locales (simp_all add: rest_get_job_def admit_defs and_then_def split: sum.splits)

interpretation cancel_job_handler: resource_handler "rest_cancel_job uuid operation ident"
    "admit_id uuid ident admit_token" "\<lambda>session. operation session ident" "\<lambda>_. cancel_response"
  for uuid operation ident
  by unfold_locales (simp_all add: rest_cancel_job_def admit_defs and_then_def split: sum.splits)

interpretation download_handler: resource_handler "rest_download_job_result uuid header_ok operation ident"
    "admit_id uuid ident admit_token" "\<lambda>session. operation session ident" "\<lambda>_. artifact_response header_ok"
  for uuid header_ok operation ident
  by unfold_locales (simp_all add: rest_download_job_result_def admit_defs and_then_def split: sum.splits)

section \<open>Use cases and the job machine\<close>

text \<open>A use case of a live session does what its operation does, on the touched registry.\<close>

lemma execute_touched:
  assumes "touch sha now token (gs_sessions sv) = (Inr session, m)"
  obtains trail where "fst (execute_with_resource sha now token action resource operation sv)
       = fst (operation session (sv\<lparr>gs_sessions := m, gs_audit := trail\<rparr>))"
    and "gs_jobs (snd (execute_with_resource sha now token action resource operation sv))
       = gs_jobs (snd (operation session (sv\<lparr>gs_sessions := m, gs_audit := trail\<rparr>)))"
    and "gs_sessions (snd (execute_with_resource sha now token action resource operation sv))
       = gs_sessions (snd (operation session (sv\<lparr>gs_sessions := m, gs_audit := trail\<rparr>)))"
proof -
  let ?trail = "gs_audit sv @ [audit_event sha ''command.execution'' ''start''
      (unwrap_or (get_username_for_audit sha token (gs_sessions sv)) ''unknown'')
      (Some token) (Some resource) (Some action) None]"
  let ?sv = "sv\<lparr>gs_sessions := m, gs_audit := ?trail\<rparr>"
  obtain r sv' where op: "operation session ?sv = (r, sv')" by (cases "operation session ?sv")
  have start: "touch_session_with_audit sha now token (emit (audit_event sha ''command.execution'' ''start''
      (unwrap_or (get_username_for_audit sha token (gs_sessions sv)) ''unknown'')
      (Some token) (Some resource) (Some action) None) sv) = (Inr session, ?sv)"
    using assms by (simp add: touch_session_with_audit_def emit_def)
  show ?thesis
    by (rule that [of ?trail]; cases r)
      (simp_all add: execute_with_resource_def Let_def start op)
qed

lemma on_registry_simps [simp]:
  "fst (on_registry f sv) = fst (f (sy_registry (gs_jobs sv)))"
  "gs_jobs (snd (on_registry f sv)) = (gs_jobs sv)\<lparr>sy_registry := snd (f (sy_registry (gs_jobs sv)))\<rparr>"
  "gs_sessions (snd (on_registry f sv)) = gs_sessions sv"
  by (simp_all add: on_registry_def Let_def split: prod.splits)

text \<open>Accepting an export is spawning its worker and attaching the handle.\<close>

lemma enqueue_runs:
  assumes "enqueue_report_export_job get_report sha now job_id session report_id request sv = (Inr job, sv')"
    and "job_id \<notin> set (sy_ids (gs_jobs sv))"
  shows "job = report_export_job now job_id report_id request
    \<and> gs_jobs sv' = run_jobs
        [(now, Enqueue (se_user session) (from_token sha (se_token session)) report_id request job_id),
         (now, AttachHandle job_id)] (gs_jobs sv)
    \<and> (\<exists>r. job_lookup (gs_jobs sv') job_id = Some r \<and> jr_owner_user r = se_user session
         \<and> status_of r = Queued \<and> jr_session_token_digest r = from_token sha (se_token session))
    \<and> sy_workers (gs_jobs sv') = AList.update job_id Spawned (sy_workers (gs_jobs sv))"
proof -
  obtain h m where h: "hold sha now (se_token session) (gs_sessions sv) = (h, m)"
    by (cases "hold sha now (se_token session) (gs_sessions sv)")
  obtain r st where i: "insert_job now (se_user session) (from_token sha (se_token session))
      (report_export_job now job_id report_id request) (sy_registry (gs_jobs sv)) = (r, st)"
    by (cases "insert_job now (se_user session) (from_token sha (se_token session))
      (report_export_job now job_id report_id request) (sy_registry (gs_jobs sv))")
  show ?thesis
    using assms
    by (cases get_report; cases h; cases r)
      (use i in \<open>auto simp: enqueue_report_export_job_def h i Let_def and_then_eq_Inr job_lookup_def status_of_def
        insert_job_def set_job_abort_handle_def report_export_job_def split: prod.splits if_splits\<close>)
qed

text \<open>A request accepted with 202 has spawned the job its response names.\<close>

lemma accepted_export:
  assumes post: "rest_create_report_export_job uuid from_slice
        (\<lambda>token report_id request. create_report_export_job get_report sha now job_id token report_id request)
        report_id q sv = (response, sv1)"
    and accepted: "rp_status response = 202"
    and caller: "bearer_token (rq_headers q) = Inr token" "touch sha now token (gs_sessions sv) = (Inr session, m)"
    and random: "job_id \<notin> set (sy_ids (gs_jobs sv))"
  obtains request r where
    "response = accepted_job uuid (report_export_job now job_id report_id request)"
    and "gs_jobs sv1 = run_jobs
        [(now, Enqueue (se_user session) (from_token sha (se_token session)) report_id request job_id),
         (now, AttachHandle job_id)] (gs_jobs sv)"
    and "job_lookup (gs_jobs sv1) job_id = Some r" "jr_owner_user r = se_user session" "status_of r = Queued"
proof -
  have success: "is_success (rp_status response)" using accepted by (simp add: is_success_def)
  obtain a where a: "admit_export uuid from_slice report_id q = Inr a"
    using export_handler.refused post success gateway_error_not_success
    by (cases "admit_export uuid from_slice report_id q") (auto simp: export_handler.handle)
  then obtain request where request: "a = (token, request)"
    using caller(1) by (auto simp: admit_export_def and_then_eq_Inr)
  let ?enqueue = "\<lambda>session. enqueue_report_export_job get_report sha now job_id session report_id request"
  obtain trail where run:
    "fst (create_report_export_job get_report sha now job_id token report_id request sv)
       = fst (?enqueue session (sv\<lparr>gs_sessions := m, gs_audit := trail\<rparr>))"
    "gs_jobs (snd (create_report_export_job get_report sha now job_id token report_id request sv))
       = gs_jobs (snd (?enqueue session (sv\<lparr>gs_sessions := m, gs_audit := trail\<rparr>)))"
    unfolding create_report_export_job_def by (rule execute_touched [OF caller(2)])
  obtain res sv' where e: "?enqueue session (sv\<lparr>gs_sessions := m, gs_audit := trail\<rparr>) = (res, sv')"
    by (cases "?enqueue session (sv\<lparr>gs_sessions := m, gs_audit := trail\<rparr>)")
  obtain res1 sv1' where c: "create_report_export_job get_report sha now job_id token report_id request sv = (res1, sv1')"
    by (cases "create_report_export_job get_report sha now job_id token report_id request sv")
  have "res1 = res" and jobs: "gs_jobs sv1' = gs_jobs sv'" using run e c by simp_all
  moreover have "respond q (accepted_job uuid) (res1, sv1') = (response, sv1)"
    using post a request c by (simp add: export_handler.handle)
  ultimately obtain job where job: "res = Inr job" "response = accepted_job uuid job" "sv1 = sv1'"
    using success gateway_error_not_success by (cases res) (auto simp: respond_def)
  from enqueue_runs [OF e [unfolded job(1)]] random that job jobs show ?thesis by auto
qed

section \<open>Properties\<close>

text \<open>
  C8. An export is delivered, end to end. A request accepted with 202 names the job's address;
  once its worker has delivered an artifact while the job was running, a download by any live
  session of the same user, at any time within the retention period, is answered 200 with
  exactly these bytes, while a live session of another user is answered 404. This holds whatever
  the clients, all workers and the reaper do before the artifact is there and after it.
\<close>

theorem export_is_delivered:
  fixes before policy
  assumes reached: "gs_jobs sv = run_jobs before (new_job_system policy)"
    and random: "job_id \<notin> set (sy_ids (gs_jobs sv))"
    and post: "rest_create_report_export_job uuid from_slice
        (\<lambda>token report_id request. create_report_export_job get_report sha now job_id token report_id request)
        report_id q sv = (response, sv1)"
    and accepted: "rp_status response = 202"
    and caller: "bearer_token (rq_headers q) = Inr token" "touch sha now token (gs_sessions sv) = (Inr session, m)"
    and running: "job_lookup (run_jobs acts1 (gs_jobs sv1)) job_id = Some p" "status_of p = Running"
    and later: "gs_jobs sv2 = run_jobs (acts1 @ (t, WorkerSucceed job_id artifact) # acts2) (gs_jobs sv1)"
    and in_time: "list_all (\<lambda>(now, act). now < t + terminal_retention_secs policy) acts2"
      "t' < t + terminal_retention_secs policy"
    and download: "uuid job_id = Some job_id" "bearer_token (rq_headers q') = Inr token'"
      "touch sha t' token' (gs_sessions sv2) = (Inr session', m')"
  shows "has_header ''location'' (''/api/v1/jobs/'' @ job_id) response
    \<and> fst (rest_download_job_result uuid header_ok (download_job_result sha t') job_id q' sv2)
      = (if se_user session' = se_user session then artifact_response header_ok artifact
         else gateway_error (job_not_found job_id) (rq_path q'))"
proof -
  let ?ret = "terminal_retention_secs policy" and ?run = "run_jobs acts1 (gs_jobs sv1)"
  obtain request r where response: "response = accepted_job uuid (report_export_job now job_id report_id request)"
    and jobs: "gs_jobs sv1 = run_jobs
        [(now, Enqueue (se_user session) (from_token sha (se_token session)) report_id request job_id),
         (now, AttachHandle job_id)] (gs_jobs sv)"
    and r: "job_lookup (gs_jobs sv1) job_id = Some r" "jr_owner_user r = se_user session" "status_of r = Queued"
    by (rule accepted_export [OF post accepted caller random])
  have inv: "job_inv (gs_jobs sv1)" unfolding jobs reached by (intro run_jobs_inv job_inv_new)
  have "\<not> is_terminal (status_of r)" using r(3) by (simp add: is_terminal_def)
  then have owner: "jr_owner_user p = jr_owner_user r"
    using running_job_kept [OF inv r(1) _ running] by (simp add: same_job_def)
  have "js_policy (sy_registry ?run) = policy"
    unfolding jobs reached by (simp add: run_jobs_policy new_job_system_def del: run_jobs.simps)
  then have delivered: "job_lookup (run_jobs [(t, WorkerSucceed job_id artifact)] ?run) job_id
      = Some (succeeded_record t ?ret job_id artifact p)"
    using running_worker_succeeds [OF run_jobs_inv [OF inv] running, of t artifact] by simp
  have sv2: "gs_jobs sv2 = run_jobs acts2 (run_jobs [(t, WorkerSucceed job_id artifact)] ?run)"
    unfolding later by (simp only: run_jobs_append run_jobs.simps)
  have inv': "job_inv (run_jobs [(t, WorkerSucceed job_id artifact)] ?run)" by (intro run_jobs_inv inv)
  have "job_lookup (gs_jobs sv2) job_id = Some (succeeded_record t ?ret job_id artifact p)"
    using finished_run [OF inv' delivered, of acts2] in_time(1)
    unfolding sv2 by (auto simp: list_all_iff simp del: run_jobs.simps)
  moreover have "job_inv (gs_jobs sv2)" unfolding later by (rule run_jobs_inv [OF inv])
  ultimately have answer: "fst (job_artifact t' (se_user session') job_id (sy_registry (gs_jobs sv2)))
      = (if se_user session' = se_user session then Inr artifact else Inl (job_not_found job_id))"
    using succeeded_artifact in_time(2) owner r(2) by metis
  obtain trail where run: "fst (download_job_result sha t' token' job_id sv2)
      = fst (on_registry (job_artifact t' (se_user session') job_id) (sv2\<lparr>gs_sessions := m', gs_audit := trail\<rparr>))"
    unfolding download_job_result_def by (rule execute_touched [OF download(3)])
  have "check_uuid uuid ''id'' job_id = Inr ()" using download(1) by (simp add: check_uuid_def validate_uuid_def)
  then have admitted: "admit_id uuid job_id admit_token q' = Inr token'"
    using download(2) by (simp add: admit_defs)
  have "fst (rest_download_job_result uuid header_ok (download_job_result sha t') job_id q' sv2)
      = (if se_user session' = se_user session then artifact_response header_ok artifact
         else gateway_error (job_not_found job_id) (rq_path q'))"
    using run answer
    by (cases "download_job_result sha t' token' job_id sv2")
      (auto simp: download_handler.admitted [OF admitted] respond_def)
  moreover have "has_header ''location'' (''/api/v1/jobs/'' @ job_id) response"
    by (simp add: response accepted_job_def has_header_def report_export_job_def Let_def split: CreateReportExportRequest.split)
  ultimately show ?thesis by blast
qed

definition demo_app :: "unit GatewayService" where
  "demo_app =
     \<lparr>gs_sessions = (new_manager 60)\<lparr>sm_sessions := [(one_digest ''x'', new_session ''ann'' 9)]\<rparr>,
      gs_jobs = new_job_system demo_policy, gs_auth = (), gs_audit = []\<rparr>"

definition demo_post :: Request where
  "demo_post =
     \<lparr>rq_method = ''POST'', rq_path = ''/api/v1/reports/r/exports'', rq_query = None,
      rq_headers = [(''authorization'', Text ''Bearer x'')], rq_peer = None, rq_body = []\<rparr>"

definition demo_create :: "Request \<Rightarrow> unit GatewayService \<Rightarrow> ReportExportJobResponse RestBody Response \<times> unit GatewayService" where
  "demo_create = rest_create_report_export_job Some
     (\<lambda>_. Inr (JsonExportBody \<lparr>jb_body_format = JsonFormat, jb_body_filter = None, jb_body_filter_id = None\<rparr>))
     (\<lambda>token report_id request. create_report_export_job (Inr ()) one_digest 10 ''j'' token report_id request) ''r''"

lemma demo_bearer: "bearer_token (rq_headers demo_post) = Inr ''x''"
  by (simp add: demo_post_def bearer_token_def header_text_def header_get_def)

lemmas demo_session_defs =
  touch_def hold_def new_manager_def with_limits_def from_token_def new_session_def is_expired_at_def
  saturating_sub_def put_session_def one_digest_def

lemma demo_created:
  "fst (demo_create demo_post demo_app) = accepted_job Some (report_export_job 10 ''j'' ''r'' demo_request)"
  "gs_sessions (snd (demo_create demo_post demo_app)) = (new_manager 60)\<lparr>sm_sessions :=
     [(one_digest ''x'', (new_session ''ann'' 9)\<lparr>ss_hold_count := saturating_add 0 1, ss_last_used_at := 10\<rparr>)]\<rparr>"
  "js_policy (sy_registry (gs_jobs (snd (demo_create demo_post demo_app)))) = demo_policy"
  by (simp_all add: demo_create_def rest_create_report_export_job_def check_uuid_def validate_uuid_def
      parse_json_body_with_def into_domain_def validate_optional_uuid_def demo_bearer create_report_export_job_def
      execute_with_resource_def touch_session_with_audit_def enqueue_report_export_job_def demo_session_defs
      demo_app_def respond_def insert_job_def purge_expired_jobs_def retain_def new_job_system_def
      new_job_registry_def demo_policy_def set_job_abort_handle_def put_job_def demo_request_def
      report_export_job_def Let_def word_le_nat_alt)

theorem export_is_delivered_witness:
  "\<exists>response sv1 (sv2 :: unit GatewayService). demo_create demo_post demo_app = (response, sv1)
     \<and> has_header ''location'' ''/api/v1/jobs/j'' response
     \<and> fst (rest_download_job_result Some (\<lambda>_. True) (download_job_result one_digest 13) ''j'' demo_post sv2)
         = artifact_response (\<lambda>_. True) demo_artifact"
proof -
  obtain response sv1 where post: "demo_create demo_post demo_app = (response, sv1)"
    by (cases "demo_create demo_post demo_app")
  let ?sv2 = "sv1\<lparr>gs_jobs := run_jobs ([(11, WorkerRun ''j'')]
      @ (12, WorkerSucceed ''j'' demo_artifact) # [(12, Sweep)]) (gs_jobs sv1)\<rparr>"
  obtain m where t: "touch one_digest 10 ''x'' (gs_sessions demo_app)
      = (Inr \<lparr>se_token = ''x'', se_user = ''ann'', se_state = Active\<rparr>, m)"
    by (simp add: demo_app_def demo_session_defs word_le_nat_alt Let_def)
  obtain m' where t': "touch one_digest 13 ''x'' (gs_sessions ?sv2)
      = (Inr \<lparr>se_token = ''x'', se_user = ''ann'', se_state = Active\<rparr>, m')"
    using demo_created(2) unfolding post by (simp add: demo_session_defs word_le_nat_alt Let_def)
  have accepted: "rp_status response = 202"
    using demo_created(1) unfolding post by (simp add: accepted_job_def json_response_def Let_def)
  have reached: "gs_jobs demo_app = run_jobs [] (new_job_system demo_policy)" by (simp add: demo_app_def)
  have random: "''j'' \<notin> set (sy_ids (gs_jobs demo_app))" by (simp add: demo_app_def new_job_system_def)
  have later: "gs_jobs ?sv2 = run_jobs ([(11, WorkerRun ''j'')]
      @ (12, WorkerSucceed ''j'' demo_artifact) # [(12, Sweep)]) (gs_jobs sv1)" by (simp del: run_jobs.simps)
  obtain request r where jobs: "gs_jobs sv1 = run_jobs
        [(10, Enqueue ''ann'' (from_token one_digest ''x'') ''r'' request ''j''), (10, AttachHandle ''j'')] (gs_jobs demo_app)"
    and queued: "job_lookup (gs_jobs sv1) ''j'' = Some r" "status_of r = Queued"
    by (rule accepted_export [OF post [unfolded demo_create_def] accepted demo_bearer t random]) (auto simp del: run_jobs.simps)
  have "job_inv (gs_jobs sv1)" unfolding jobs reached by (intro run_jobs_inv job_inv_new)
  then obtain p where running: "job_lookup (run_jobs [(11, WorkerRun ''j'')] (gs_jobs sv1)) ''j'' = Some p"
    "status_of p = Running"
    by (metis queued_worker_runs [OF _ queued] run_jobs.simps)
  have in_time: "list_all (\<lambda>(now, act). now < 12 + terminal_retention_secs demo_policy) [(12, Sweep)]"
    "(13 :: u64) < 12 + terminal_retention_secs demo_policy"
    by (simp_all add: demo_policy_def word_less_nat_alt)
  note result = export_is_delivered [OF reached random post [unfolded demo_create_def] accepted demo_bearer t
      running later in_time refl demo_bearer t', where header_ok = "\<lambda>_. True"]
  have "has_header ''location'' ''/api/v1/jobs/j'' response" using result by simp
  moreover have "fst (rest_download_job_result Some (\<lambda>_. True) (download_job_result one_digest 13) ''j'' demo_post ?sv2)
      = artifact_response (\<lambda>_. True) demo_artifact"
    using result by (simp del: run_jobs.simps append_Cons)
  ultimately show ?thesis
    by (intro exI [of _ response] exI [of _ sv1] exI [of _ ?sv2] conjI post)
qed

end
