(* ===== verification/Gateway_Runs.thy ===== *)
theory Gateway_Runs
  imports Rest_Jobs
begin

text \<open>
  The application as a whole: the use cases of sessions and jobs
  (\<open>crates/gvm-gateway-app/src/session.rs\<close>, \<open>jobs.rs\<close>), the workers and both reapers, in any order.
  A worker owns the hold that was taken on its session when its export was accepted
  (\<open>_session_hold\<close> of \<open>run_report_export_job\<close>) and gives it back when its future ends, whether
  it returns or is aborted.
\<close>

section \<open>The system\<close>

record 's System =
  ap_service :: "'s GatewayService"
  ap_holds :: "(string, SessionTokenDigest) hash_map"

datatype (plugins only: code size) 'b SystemAction =
    Login string string 'b
  | Logout string
  | ReapSessions
  | UseCase string "unit result"
  | Export string string string CreateReportExportRequest "unit result"
  | ReadJob string string
  | StopExport string string
  | Download string string
  | StartWork string
  | FinishWork string JobArtifact
  | FailWork string GatewayError
  | AbortWork string
  | ReapJobs

definition with_service :: "'s GatewayService \<Rightarrow> 's System \<Rightarrow> 's System" where
  "with_service sv sys = sys\<lparr>ap_service := sv\<rparr>"

text \<open>A step of a worker; when it ended the worker, its hold is dropped with its future.\<close>

definition worker_step :: "u64 \<Rightarrow> JobAction \<Rightarrow> string \<Rightarrow> 's System \<Rightarrow> 's System" where
  "worker_step now act job_id sys =
     (let sv = ap_service sys;
          s = job_action now act (gs_jobs sv);
          sv = sv\<lparr>gs_jobs := s\<rparr>
      in case (map_of (sy_workers s) job_id, map_of (ap_holds sys) job_id) of
           (None, Some d) \<Rightarrow>
             sys\<lparr>ap_service := sv\<lparr>gs_sessions := drop_hold d (gs_sessions sv)\<rparr>,
                 ap_holds := AList.delete job_id (ap_holds sys)\<rparr>
         | _ \<Rightarrow> sys\<lparr>ap_service := sv\<rparr>)"

fun system_action ::
    "('b \<Rightarrow> string \<Rightarrow> 's \<Rightarrow> string result \<times> 's) \<Rightarrow> (SessionTokenDigest \<Rightarrow> 's \<Rightarrow> unit result \<times> 's)
      \<Rightarrow> (string \<Rightarrow> u8 list) \<Rightarrow> u64 \<Rightarrow> 'b SystemAction \<Rightarrow> 's System \<Rightarrow> 's System" where
  "system_action authenticate disconnect sha now (Login uuid username b) sys =
     with_service (snd (create_session authenticate disconnect sha (\<lambda>sv. sv) now uuid username b (ap_service sys))) sys"
| "system_action authenticate disconnect sha now (Logout token) sys =
     with_service (snd (delete_session disconnect sha now token (ap_service sys))) sys"
| "system_action authenticate disconnect sha now ReapSessions sys =
     with_service (sweep_once disconnect now (ap_service sys)) sys"
| "system_action authenticate disconnect sha now (UseCase token answer) sys =
     with_service (snd (execute_with_resource sha now token ''read'' ''target''
       (\<lambda>session sv. (answer, sv)) (ap_service sys))) sys"
| "system_action authenticate disconnect sha now (Export job_id token report_id request get_report) sys =
     (case create_report_export_job get_report sha now job_id token report_id request (ap_service sys) of
        (Inl e, sv) \<Rightarrow> with_service sv sys
      | (Inr job, sv) \<Rightarrow>
          (with_service sv sys)\<lparr>ap_holds := AList.update job_id (from_token sha token) (ap_holds sys)\<rparr>)"
| "system_action authenticate disconnect sha now (ReadJob token job_id) sys =
     with_service (snd (get_job sha now token job_id (ap_service sys))) sys"
| "system_action authenticate disconnect sha now (StopExport token job_id) sys =
     with_service (snd (cancel_job sha now token job_id (ap_service sys))) sys"
| "system_action authenticate disconnect sha now (Download token job_id) sys =
     with_service (snd (download_job_result sha now token job_id (ap_service sys))) sys"
| "system_action authenticate disconnect sha now (StartWork job_id) sys = worker_step now (WorkerRun job_id) job_id sys"
| "system_action authenticate disconnect sha now (FinishWork job_id artifact) sys =
     worker_step now (WorkerSucceed job_id artifact) job_id sys"
| "system_action authenticate disconnect sha now (FailWork job_id error) sys =
     worker_step now (WorkerFail job_id error) job_id sys"
| "system_action authenticate disconnect sha now (AbortWork job_id) sys = worker_step now (WorkerStop job_id) job_id sys"
| "system_action authenticate disconnect sha now ReapJobs sys =
     with_service ((ap_service sys)\<lparr>gs_jobs := job_action now Sweep (gs_jobs (ap_service sys))\<rparr>) sys"

fun run_system ::
    "('b \<Rightarrow> string \<Rightarrow> 's \<Rightarrow> string result \<times> 's) \<Rightarrow> (SessionTokenDigest \<Rightarrow> 's \<Rightarrow> unit result \<times> 's)
      \<Rightarrow> (string \<Rightarrow> u8 list) \<Rightarrow> (u64 \<times> 'b SystemAction) list \<Rightarrow> 's System \<Rightarrow> 's System" where
  "run_system authenticate disconnect sha [] sys = sys"
| "run_system authenticate disconnect sha ((now, act) # acts) sys =
     run_system authenticate disconnect sha acts (system_action authenticate disconnect sha now act sys)"

text \<open>
  Random identifiers are new: no login draws a token whose digest is registered or held by a
  worker, and no export draws an identifier that was handed out before.
\<close>

definition random_ok :: "(string \<Rightarrow> u8 list) \<Rightarrow> 'b SystemAction \<Rightarrow> 's System \<Rightarrow> bool" where
  "random_ok sha act sys =
     (case act of
        Login uuid username b \<Rightarrow>
          (let d = from_token sha (fresh_token uuid)
           in map_of (sm_sessions (gs_sessions (ap_service sys))) d = None \<and> d \<notin> snd ` set (ap_holds sys))
      | Export job_id token report_id request get_report \<Rightarrow>
          job_id \<notin> set (sy_ids (gs_jobs (ap_service sys)))
      | _ \<Rightarrow> True)"

fun random_run ::
    "('b \<Rightarrow> string \<Rightarrow> 's \<Rightarrow> string result \<times> 's) \<Rightarrow> (SessionTokenDigest \<Rightarrow> 's \<Rightarrow> unit result \<times> 's)
      \<Rightarrow> (string \<Rightarrow> u8 list) \<Rightarrow> (u64 \<times> 'b SystemAction) list \<Rightarrow> 's System \<Rightarrow> bool" where
  "random_run authenticate disconnect sha [] sys = True"
| "random_run authenticate disconnect sha ((now, act) # acts) sys =
     (random_ok sha act sys
      \<and> random_run authenticate disconnect sha acts (system_action authenticate disconnect sha now act sys))"

definition new_system :: "'s \<Rightarrow> SessionManager \<Rightarrow> 's System" where
  "new_system auth sessions = \<lparr>ap_service = new_service auth sessions, ap_holds = []\<rparr>"

section \<open>Hold counts of the registry\<close>

definition counts :: "SessionManager \<Rightarrow> SessionTokenDigest \<Rightarrow> u64 option" where
  "counts m d = map_option ss_hold_count (map_of (sm_sessions m) d)"

definition sessions_ok :: "SessionManager \<Rightarrow> bool" where
  "sessions_ok m \<longleftrightarrow> \<not> sm_poisoned m \<and> wf_map (sm_sessions m)"

lemma counts_put: "counts (put_session d s m) = (counts m)(d \<mapsto> ss_hold_count s)"
  by (auto simp: counts_def put_session_def fun_eq_iff)

lemma counts_delete [simp]: "counts (m\<lparr>sm_sessions := AList.delete d (sm_sessions m)\<rparr>) = (counts m)(d := None)"
  by (auto simp: counts_def fun_eq_iff)

lemma sessions_ok_put: "sessions_ok m \<Longrightarrow> sessions_ok (put_session d s m)"
  by (simp add: sessions_ok_def put_session_def)

lemma touch_counts:
  assumes "touch sha now token m = (r, m')" and "sessions_ok m"
  shows "counts m' = counts m \<and> sessions_ok m'"
proof (cases "map_of (sm_sessions m) (from_token sha token)")
  case None
  then show ?thesis using assms by (simp add: touch_def sessions_ok_def)
next
  case (Some s)
  have "(counts m)(from_token sha token \<mapsto> ss_hold_count s) = counts m"
    using Some by (auto simp: counts_def fun_eq_iff)
  then show ?thesis using assms Some
    by (auto simp: touch_def sessions_ok_put counts_put sessions_ok_def [of m] Let_def split: if_splits)
qed

lemma drained_counts:
  assumes "sessions_ok m"
  shows "counts (m\<lparr>sm_sessions := remove_all ds (sm_sessions m)\<rparr>) \<subseteq>\<^sub>m counts m
    \<and> sessions_ok (m\<lparr>sm_sessions := remove_all ds (sm_sessions m)\<rparr>)"
  using assms by (auto simp: counts_def map_le_def map_of_remove_all sessions_ok_def wf_map_remove_all)

lemma hold_counts:
  assumes "hold sha now token m = (Inr d, m')" and "sessions_ok m"
  obtains c where "counts m d = Some c" and "d = from_token sha token"
    and "counts m' = (counts m)(d \<mapsto> saturating_add c 1)" and "sessions_ok m'"
proof -
  obtain s where "map_of (sm_sessions m) (from_token sha token) = Some s" and d: "d = from_token sha token"
    and "m' = put_session d (s\<lparr>ss_hold_count := saturating_add (ss_hold_count s) 1, ss_last_used_at := now\<rparr>) m"
    using assms by (auto simp: hold_def sessions_ok_def Let_def split: if_splits option.splits)
  then show ?thesis using assms(2)
    by (intro that [of "ss_hold_count s"]) (simp_all add: counts_put sessions_ok_put, simp add: counts_def)
qed

lemma drop_hold_counts:
  assumes "sessions_ok m"
  shows "counts (drop_hold d m) = (case counts m d of None \<Rightarrow> counts m
     | Some c \<Rightarrow> (counts m)(d \<mapsto> saturating_sub c 1)) \<and> sessions_ok (drop_hold d m)"
  using assms
  by (cases "map_of (sm_sessions m) d")
    (auto simp: drop_hold_def counts_put sessions_ok_put sessions_ok_def [of m] counts_def [of m d])

section \<open>What the operations do to sessions and jobs\<close>

lemma disconnect_expired_frame [simp]:
  "gs_sessions (disconnect_expired_sessions disconnect user ds sv) = gs_sessions sv"
  "gs_jobs (disconnect_expired_sessions disconnect user ds sv) = gs_jobs sv"
proof -
  have one: "gs_sessions (disconnect_one disconnect user d sv) = gs_sessions sv
      \<and> gs_jobs (disconnect_one disconnect user d sv) = gs_jobs sv" for d and sv :: "'a GatewayService"
    by (auto simp: disconnect_one_def Let_def split: prod.splits sum.splits)
  show "gs_sessions (disconnect_expired_sessions disconnect user ds sv) = gs_sessions sv"
    "gs_jobs (disconnect_expired_sessions disconnect user ds sv) = gs_jobs sv"
    unfolding disconnect_expired_sessions_def
    by (induction ds arbitrary: sv) (simp_all add: one)
qed

lemma create_session_effect:
  fixes sv :: "'s GatewayService"
  assumes "sessions_ok (gs_sessions sv)" and "counts (gs_sessions sv) d = None"
    and d: "d = from_token sha (fresh_token uuid)"
    and sv'_def: "sv' = snd (create_session authenticate disconnect sha (\<lambda>sv. sv) now uuid user b sv)"
  shows "gs_jobs sv' = gs_jobs sv \<and> sessions_ok (gs_sessions sv')
    \<and> counts (gs_sessions sv') \<subseteq>\<^sub>m (counts (gs_sessions sv))(d \<mapsto> 0)"
proof (cases "create_draining_expired sha uuid now user (gs_sessions sv)")
  case (Pair r m)
  note create = Pair
  show ?thesis
  proof (cases r)
    case (Inl e)
    then have "m = gs_sessions sv" using create
      by (auto simp: create_draining_expired_def Let_def split: if_splits sum.splits)
    then show ?thesis using create Inl assms
      by (simp add: create_session_def map_le_def dom_def)
  next
    case (Inr p)
    obtain session ds where p: "p = (session, ds)" by (cases p)
    have token: "se_token session = fresh_token uuid"
      and m: "m = (gs_sessions sv)\<lparr>sm_sessions := AList.update d (new_session user now)
        (remove_all ds (sm_sessions (gs_sessions sv)))\<rparr>"
      using create Inr p d by (auto simp: create_draining_expired_def Let_def split: if_splits sum.splits)
    let ?drained = "(gs_sessions sv)\<lparr>sm_sessions := remove_all ds (sm_sessions (gs_sessions sv))\<rparr>"
    have m_put: "m = put_session d (new_session user now) ?drained" by (simp add: m put_session_def)
    have drained: "counts ?drained \<subseteq>\<^sub>m counts (gs_sessions sv)" "sessions_ok ?drained"
      using drained_counts [OF assms(1)] by simp_all
    have ok: "sessions_ok m" unfolding m_put by (rule sessions_ok_put [OF drained(2)])
    have le: "counts m \<subseteq>\<^sub>m (counts (gs_sessions sv))(d \<mapsto> 0)"
      using drained(1) unfolding m_put counts_put
      by (auto simp: map_le_def new_session_def)
    have removed: "counts (m\<lparr>sm_sessions := AList.delete d (sm_sessions m)\<rparr>) \<subseteq>\<^sub>m (counts (gs_sessions sv))(d \<mapsto> 0)"
      "sessions_ok (m\<lparr>sm_sessions := AList.delete d (sm_sessions m)\<rparr>)"
      using le ok by (auto simp: map_le_def sessions_ok_def)
    let ?sv = "disconnect_expired_sessions disconnect user ds (sv\<lparr>gs_sessions := m\<rparr>)"
    obtain res auth where a: "authenticate b (fresh_token uuid) (gs_auth ?sv) = (res, auth)"
      by (cases "authenticate b (fresh_token uuid) (gs_auth ?sv)")
    show ?thesis
      using create Inr p token a ok le removed d
      by (cases res) (simp_all add: sv'_def create_session_def session_remove_def sessions_ok_def [of m] Let_def)
  qed
qed

text \<open>The actions of the job machine that neither spawn nor end a worker.\<close>

definition quiet :: "JobAction \<Rightarrow> bool" where
  "quiet act = (case act of Snapshot _ _ \<Rightarrow> True | Cancel _ _ \<Rightarrow> True | CancelSession _ \<Rightarrow> True
     | Artifact _ _ \<Rightarrow> True | Sweep \<Rightarrow> True | AttachHandle _ \<Rightarrow> True | _ \<Rightarrow> False)"

lemma quiet_workers: "quiet act \<Longrightarrow> sy_workers (job_action now act s) = sy_workers s"
  by (cases act) (auto simp: quiet_def Let_def split: prod.splits)

definition quiet_move :: "JobSystem \<Rightarrow> JobSystem \<Rightarrow> bool" where
  "quiet_move s s' \<longleftrightarrow> s' = s \<or> (\<exists>now act. quiet act \<and> s' = job_action now act s)"

lemma quiet_moveI: "quiet act \<Longrightarrow> quiet_move s (job_action now act s)"
  by (auto simp: quiet_move_def)

lemma quiet_move_refl [simp]: "quiet_move s s"
  by (simp add: quiet_move_def)

text \<open>What everything but logins, accepted exports and workers does.\<close>

definition keeps :: "'s GatewayService \<Rightarrow> 's GatewayService \<Rightarrow> bool" where
  "keeps sv sv' \<longleftrightarrow> quiet_move (gs_jobs sv) (gs_jobs sv') \<and> sessions_ok (gs_sessions sv')
     \<and> counts (gs_sessions sv') \<subseteq>\<^sub>m counts (gs_sessions sv)"

lemma delete_keeps:
  assumes "sessions_ok (gs_sessions sv)"
  shows "keeps sv (snd (delete_session disconnect sha now token sv))"
proof -
  define sv' where sv'_def: "sv' = snd (delete_session disconnect sha now token sv)"
  let ?d = "from_token sha token"
  let ?m = "(gs_sessions sv)\<lparr>sm_sessions := AList.delete ?d (sm_sessions (gs_sessions sv))\<rparr>"
  have m: "sessions_ok ?m" "counts ?m \<subseteq>\<^sub>m counts (gs_sessions sv)"
    using assms(1) by (auto simp: sessions_ok_def map_le_def)
  have cancel: "gs_jobs (snd (service_cancel_jobs now ?d (sv\<lparr>gs_sessions := ?m\<rparr>)))
      = job_action now (CancelSession ?d) (gs_jobs sv)"
    by (auto simp: service_cancel_jobs_def Let_def split: prod.splits)
  show ?thesis
  proof (cases "map_of (sm_sessions (gs_sessions sv)) ?d")
    case None
    then show ?thesis using assms(1) m
      by (simp add: keeps_def delete_session_def session_remove_def sessions_ok_def [of "gs_sessions sv"] Let_def)
  next
    case (Some stored)
    obtain r sv1 where c: "service_cancel_jobs now ?d (sv\<lparr>gs_sessions := ?m\<rparr>) = (r, sv1)"
      by (cases "service_cancel_jobs now ?d (sv\<lparr>gs_sessions := ?m\<rparr>)")
    have "gs_sessions sv1 = ?m"
      using service_cancel_jobs_frame(2) [of now ?d "sv\<lparr>gs_sessions := ?m\<rparr>"] c by simp
    moreover have "gs_jobs sv1 = job_action now (CancelSession ?d) (gs_jobs sv)" using cancel c by simp
    ultimately have "gs_sessions sv' = ?m" "gs_jobs sv' = job_action now (CancelSession ?d) (gs_jobs sv)"
      using Some assms(1) c
      by (auto simp: sv'_def delete_session_def session_remove_def sessions_ok_def Let_def
          simp del: job_action.simps split: prod.splits sum.splits)
    then show ?thesis using m quiet_moveI [of "CancelSession ?d"] by (simp add: keeps_def quiet_def sv'_def [symmetric] del: job_action.simps)
  qed
qed

text \<open>A use case: refused by the session check, or run on the touched registry.\<close>

lemma execute_keeps:
  assumes ok: "sessions_ok (gs_sessions sv)"
    and op: "\<And>session sv1. gs_jobs sv1 = gs_jobs sv \<Longrightarrow>
      quiet_move (gs_jobs sv) (gs_jobs (snd (operation session sv1)))
      \<and> gs_sessions (snd (operation session sv1)) = gs_sessions sv1"
  shows "keeps sv (snd (execute_with_resource sha now token action resource operation sv))"
proof -
  obtain t m where t: "touch sha now token (gs_sessions sv) = (t, m)"
    by (cases "touch sha now token (gs_sessions sv)")
  have m: "counts m = counts (gs_sessions sv)" "sessions_ok m" using touch_counts [OF t ok] by simp_all
  show ?thesis
  proof (cases t)
    case (Inl e)
    then show ?thesis using t m
      by (auto simp: keeps_def execute_with_resource_def touch_session_with_audit_def Let_def)
  next
    case (Inr session)
    show ?thesis
    proof (rule execute_touched [OF t [unfolded Inr], where action = action and resource = resource
          and operation = operation])
      fix trail
      let ?sv = "sv\<lparr>gs_sessions := m, gs_audit := trail\<rparr>"
      assume "gs_jobs (snd (execute_with_resource sha now token action resource operation sv))
          = gs_jobs (snd (operation session ?sv))"
        and "gs_sessions (snd (execute_with_resource sha now token action resource operation sv))
          = gs_sessions (snd (operation session ?sv))"
      then show ?thesis using op [of ?sv session] m by (simp add: keeps_def)
    qed
  qed
qed

lemma get_job_keeps: "sessions_ok (gs_sessions sv) \<Longrightarrow> keeps sv (snd (get_job sha now token job_id sv))"
  unfolding get_job_def
  by (rule execute_keeps, assumption)
    (use quiet_moveI [of "Snapshot _ job_id" _ now] in \<open>simp add: quiet_def\<close>)

lemma download_keeps: "sessions_ok (gs_sessions sv) \<Longrightarrow> keeps sv (snd (download_job_result sha now token job_id sv))"
  unfolding download_job_result_def
  by (rule execute_keeps, assumption)
    (use quiet_moveI [of "Artifact _ job_id" _ now] in \<open>simp add: quiet_def\<close>)

lemma cancel_keeps: "sessions_ok (gs_sessions sv) \<Longrightarrow> keeps sv (snd (cancel_job sha now token job_id sv))"
  unfolding cancel_job_def
proof (rule execute_keeps, assumption)
  fix session and sv1 :: "'a GatewayService"
  assume "gs_jobs sv1 = gs_jobs sv"
  moreover obtain r aborted st where "cancel_job_record now (se_user session) job_id (sy_registry (gs_jobs sv)) = (r, aborted, st)"
    using prod_cases3 by blast
  ultimately show "quiet_move (gs_jobs sv) (gs_jobs (snd (let s = gs_jobs sv1;
          (r, aborted, st) = cancel_job_record now (se_user session) job_id (sy_registry s)
        in (r, sv1\<lparr>gs_jobs := s\<lparr>sy_registry := st, sy_aborted := aborted @ sy_aborted s\<rparr>\<rparr>))))
      \<and> gs_sessions (snd (let s = gs_jobs sv1;
          (r, aborted, st) = cancel_job_record now (se_user session) job_id (sy_registry s)
        in (r, sv1\<lparr>gs_jobs := s\<lparr>sy_registry := st, sy_aborted := aborted @ sy_aborted s\<rparr>\<rparr>))) = gs_sessions sv1"
    using quiet_moveI [of "Cancel (se_user session) job_id" "gs_jobs sv" now] by (simp add: quiet_def Let_def)
qed

lemma sweep_keeps: "sessions_ok (gs_sessions sv) \<Longrightarrow> keeps sv (sweep_once disconnect now sv)"
  using drained_counts [of "gs_sessions sv"]
  by (simp add: keeps_def sweep_once_def drain_expired_def sessions_ok_def [of "gs_sessions sv"] Let_def)

lemma use_case_keeps: "sessions_ok (gs_sessions sv) \<Longrightarrow>
    keeps sv (snd (execute_with_resource sha now token action resource (\<lambda>session sv. (answer, sv)) sv))"
  by (rule execute_keeps) simp_all

lemma reap_jobs_keeps: "sessions_ok (gs_sessions sv) \<Longrightarrow>
    keeps sv (sv\<lparr>gs_jobs := job_action now Sweep (gs_jobs sv)\<rparr>)"
  using quiet_moveI [of Sweep "gs_jobs sv" now] by (simp add: keeps_def quiet_def)

text \<open>Accepting an export: refused without a trace in the hold counts, or one more hold.\<close>

lemma enqueue_refused:
  assumes e: "enqueue_report_export_job get_report sha now job_id session report_id request sv = (Inl e, sv')"
    and ok: "sessions_ok (gs_sessions sv)" and live: "\<not> js_poisoned (sy_registry (gs_jobs sv))"
    and below: "\<And>d c. counts (gs_sessions sv) d = Some c \<Longrightarrow> c < - 1"
  shows "keeps sv sv'"
proof (cases get_report)
  case (Inl err)
  then show ?thesis using e ok by (simp add: enqueue_report_export_job_def keeps_def)
next
  case (Inr u)
  obtain h m where h: "hold sha now (se_token session) (gs_sessions sv) = (h, m)"
    by (cases "hold sha now (se_token session) (gs_sessions sv)")
  obtain r st where i: "insert_job now (se_user session) (from_token sha (se_token session))
      (report_export_job now job_id report_id request) (sy_registry (gs_jobs sv)) = (r, st)"
    by (cases "insert_job now (se_user session) (from_token sha (se_token session))
      (report_export_job now job_id report_id request) (sy_registry (gs_jobs sv))")
  show ?thesis
  proof (cases h)
    case (Inl err)
    then have "gs_sessions sv' = m" "gs_jobs sv' = gs_jobs sv"
      using e Inr h by (auto simp: enqueue_report_export_job_def Let_def)
    moreover have "counts m = counts (gs_sessions sv) \<and> sessions_ok m"
      using h Inl ok touch_counts [of sha now "se_token session" "gs_sessions sv"]
      by (auto simp: hold_def touch_def sessions_ok_def Let_def split: if_splits option.splits)
    ultimately show ?thesis by (simp add: keeps_def)
  next
    case hold: (Inr d)
    obtain c where c: "counts (gs_sessions sv) d = Some c" "counts m = (counts (gs_sessions sv))(d \<mapsto> saturating_add c 1)"
      and m: "sessions_ok m"
      using hold_counts [OF h [unfolded hold] ok] by blast
    have undone: "counts (drop_hold d m) = counts (gs_sessions sv) \<and> sessions_ok (drop_hold d m)"
    proof -
      have "unat c < unat (- 1 :: u64)" using below [OF c(1)] by (simp only: word_less_nat_alt)
      then have "unat (saturating_sub (saturating_add c 1) 1) = unat c"
        by (simp add: unat_saturating_sub unat_saturating_add unsigned_minus_1_eq_mask mask_eq_exp_minus_1)
      then have "saturating_sub (saturating_add c 1) 1 = c" by (rule unsigned_word_eqI)
      moreover have "(counts (gs_sessions sv))(d \<mapsto> c) = counts (gs_sessions sv)"
        using c(1) by (simp add: fun_upd_idem)
      ultimately show ?thesis using drop_hold_counts [OF m, of d] c(2) by simp
    qed
    show ?thesis
    proof (cases r)
      case (Inl err)
      then have "st = snd (purge_expired_jobs now (sy_registry (gs_jobs sv)))"
        using i live by (auto simp: insert_job_def Let_def split: if_splits)
      then have "quiet_move (gs_jobs sv) ((gs_jobs sv)\<lparr>sy_registry := st\<rparr>)"
        using quiet_moveI [of Sweep "gs_jobs sv" now] live
        by (simp add: quiet_def sweep_expired_jobs_def case_prod_unfold Let_def)
      then show ?thesis using e Inr h hold i Inl undone
        by (auto simp: enqueue_report_export_job_def keeps_def Let_def)
    next
      case ins: (Inr v)
      then have "fst (set_job_abort_handle job_id job_id st) = Inr ()"
        using i live by (auto simp: insert_job_def set_job_abort_handle_def put_job_def Let_def split: if_splits)
      then show ?thesis
        using e Inr h hold i ins by (auto simp: enqueue_report_export_job_def Let_def split: prod.splits)
    qed
  qed
qed

lemma enqueue_accepted:
  assumes e: "enqueue_report_export_job get_report sha now job_id session report_id request sv = (Inr job, sv')"
    and ok: "sessions_ok (gs_sessions sv)"
  obtains c where "counts (gs_sessions sv) (from_token sha (se_token session)) = Some c"
    and "counts (gs_sessions sv') = (counts (gs_sessions sv))(from_token sha (se_token session) \<mapsto> saturating_add c 1)"
    and "sessions_ok (gs_sessions sv')"
proof -
  obtain h m where h: "hold sha now (se_token session) (gs_sessions sv) = (h, m)"
    by (cases "hold sha now (se_token session) (gs_sessions sv)")
  obtain d where d: "h = Inr d" and m: "gs_sessions sv' = m"
    using e h
    by (cases get_report; cases h)
      (auto simp: enqueue_report_export_job_def Let_def and_then_eq_Inr split: prod.splits sum.splits)
  show ?thesis
    by (rule hold_counts [OF h [unfolded d] ok]) (use that m in auto)
qed

section \<open>The invariant\<close>

definition holders :: "'s System \<Rightarrow> SessionTokenDigest \<Rightarrow> string set" where
  "holders sys d = {job_id. map_of (ap_holds sys) job_id = Some d}"

definition system_inv :: "nat \<Rightarrow> 's System \<Rightarrow> bool" where
  "system_inv n sys \<longleftrightarrow>
     sessions_ok (gs_sessions (ap_service sys)) \<and> job_inv (gs_jobs (ap_service sys))
     \<and> wf_map (ap_holds sys) \<and> length (ap_holds sys) \<le> n
     \<and> dom (map_of (ap_holds sys)) = dom (map_of (sy_workers (gs_jobs (ap_service sys))))
     \<and> (\<forall>job_id d r. map_of (ap_holds sys) job_id = Some d \<longrightarrow>
          job_lookup (gs_jobs (ap_service sys)) job_id = Some r \<longrightarrow> jr_session_token_digest r = d)
     \<and> (\<forall>d c. counts (gs_sessions (ap_service sys)) d = Some c \<longrightarrow> unat c = card (holders sys d))"

lemma system_invD:
  assumes "system_inv n sys"
  shows "sessions_ok (gs_sessions (ap_service sys))" and "job_inv (gs_jobs (ap_service sys))"
    and "wf_map (ap_holds sys)" and "length (ap_holds sys) \<le> n"
    and "dom (map_of (ap_holds sys)) = dom (map_of (sy_workers (gs_jobs (ap_service sys))))"
    and "map_of (ap_holds sys) job_id = Some d \<Longrightarrow>
      job_lookup (gs_jobs (ap_service sys)) job_id = Some r \<Longrightarrow> jr_session_token_digest r = d"
    and "counts (gs_sessions (ap_service sys)) d = Some c \<Longrightarrow> unat c = card (holders sys d)"
  using assms unfolding system_inv_def by blast+

lemma finite_holders [simp]: "finite (holders sys d)"
  by (rule finite_subset [OF _ finite_dom_map_of [of "ap_holds sys"]]) (auto simp: holders_def)

lemma holders_bound:
  assumes "system_inv n sys"
  shows "card (holders sys d) \<le> n"
proof -
  have "card (holders sys d) \<le> card (fst ` set (ap_holds sys))"
    by (rule card_mono) (auto simp: holders_def dest!: map_of_SomeD intro: rev_image_eqI)
  also have "\<dots> \<le> length (ap_holds sys)"
    using card_image_le [of "set (ap_holds sys)" fst] card_length [of "ap_holds sys"] by simp
  finally show ?thesis using system_invD(4) [OF assms] by simp
qed

text \<open>Records of known jobs keep their session.\<close>

lemma session_kept:
  assumes inv: "job_inv s" and known: "job_id \<in> set (sy_ids s)"
    and after: "job_lookup (job_action now act s) job_id = Some r'"
  shows "\<exists>r. job_lookup s job_id = Some r \<and> jr_session_token_digest r' = jr_session_token_digest r"
proof (cases "job_lookup s job_id")
  case None
  then show ?thesis using gone_action [OF inv None known, of now act] after by simp
next
  case (Some r)
  show ?thesis
  proof (cases "is_terminal (status_of r)")
    case True
    then show ?thesis using finished_action [OF inv Some, of now act] after Some by auto
  next
    case False
    then show ?thesis using unfinished_action [OF inv Some, of now act] after Some
      by (auto simp: same_job_def)
  qed
qed

lemma worker_known: "job_inv s \<Longrightarrow> job_id \<in> dom (map_of (sy_workers s)) \<Longrightarrow> job_id \<in> set (sy_ids s)"
  using job_invD(7) [of s job_id] by auto

lemma quiet_move_inv: "quiet_move s s' \<Longrightarrow> job_inv s \<Longrightarrow> job_inv s'"
  by (auto simp: quiet_move_def job_action_inv)

lemma session_kept_move:
  assumes "quiet_move s s'" and "job_inv s" and "job_id \<in> set (sy_ids s)" and "job_lookup s' job_id = Some r'"
  shows "\<exists>r. job_lookup s job_id = Some r \<and> jr_session_token_digest r' = jr_session_token_digest r"
  using assms(1,4) session_kept [OF assms(2,3)] unfolding quiet_move_def by metis

lemma keeps_inv:
  assumes inv: "system_inv n sys" and k: "keeps (ap_service sys) sv"
  shows "system_inv n (with_service sv sys)"
proof -
  note D = system_invD [OF inv]
  let ?s = "gs_jobs (ap_service sys)"
  have move: "quiet_move ?s (gs_jobs sv)" and sess: "sessions_ok (gs_sessions sv)"
    and le: "counts (gs_sessions sv) \<subseteq>\<^sub>m counts (gs_sessions (ap_service sys))"
    using k by (simp_all add: keeps_def)
  have workers: "sy_workers (gs_jobs sv) = sy_workers ?s"
    using move by (auto simp: quiet_move_def quiet_workers)
  have digest: "jr_session_token_digest r = d"
    if hd: "map_of (ap_holds sys) job_id = Some d" and lk: "job_lookup (gs_jobs sv) job_id = Some r" for job_id d r
  proof -
    have "job_id \<in> set (sy_ids ?s)"
      using hd D(5) by (intro worker_known [OF D(2)]) (auto simp: dom_def)
    then obtain q where "job_lookup ?s job_id = Some q" "jr_session_token_digest r = jr_session_token_digest q"
      using session_kept_move [OF move D(2) _ lk] by blast
    then show ?thesis using D(6) [OF hd] by simp
  qed
  have "unat c = card (holders sys d)" if "counts (gs_sessions sv) d = Some c" for d c
    using le that D(7) [of d c] by (auto simp: map_le_def dom_def)
  then show ?thesis
    using D sess quiet_move_inv [OF move D(2)] workers digest
    by (simp add: system_inv_def with_service_def holders_def)
qed

text \<open>Steps of one worker change that worker only, and never bring one to life.\<close>

definition worker_act :: "JobAction \<Rightarrow> string \<Rightarrow> bool" where
  "worker_act act job_id = (act = WorkerRun job_id \<or> (\<exists>artifact. act = WorkerSucceed job_id artifact)
     \<or> (\<exists>error. act = WorkerFail job_id error) \<or> act = WorkerStop job_id)"

lemma worker_act_workers:
  assumes "worker_act act job_id" and "job_inv s"
  shows "map_of (sy_workers (job_action now act s)) other =
      (if other = job_id then map_of (sy_workers (job_action now act s)) job_id else map_of (sy_workers s) other)"
    and "map_of (sy_workers s) job_id = None \<Longrightarrow> map_of (sy_workers (job_action now act s)) job_id = None"
  using assms job_invD(3) [OF assms(2)]
  by (auto simp: worker_act_def Let_def split: prod.splits)

lemma card_holders_delete:
  assumes "wf_map hs" and "map_of hs job_id = Some d" and "finite {k. map_of hs k = Some d'}"
  shows "card {k. map_of (AList.delete job_id hs) k = Some d'}
    = (if d' = d then card {k. map_of hs k = Some d'} - 1 else card {k. map_of hs k = Some d'})"
proof -
  have "{k. map_of (AList.delete job_id hs) k = Some d'} = {k. map_of hs k = Some d'} - {job_id}"
    by auto
  then show ?thesis using assms(2,3) by (auto simp: card_Diff_singleton_if)
qed

lemma worker_step_inv:
  assumes inv: "system_inv n sys" and act: "worker_act act job_id"
  shows "system_inv n (worker_step now act job_id sys)"
proof -
  note D = system_invD [OF inv]
  let ?s = "gs_jobs (ap_service sys)"
  let ?s' = "job_action now act ?s"
  let ?m = "gs_sessions (ap_service sys)"
  let ?h = "ap_holds sys"
  have s': "job_inv ?s'" by (rule job_action_inv [OF D(2)])
  have digest: "jr_session_token_digest r = d"
    if hd: "map_of ?h k = Some d" and lk: "job_lookup ?s' k = Some r" for k d r
  proof -
    have "k \<in> set (sy_ids ?s)"
      using hd D(5) by (intro worker_known [OF D(2)]) (auto simp: dom_def)
    from session_kept [OF D(2) this lk] show ?thesis using D(6) [OF hd] by auto
  qed
  have others: "map_of (sy_workers ?s') k = map_of (sy_workers ?s) k" if "k \<noteq> job_id" for k
    using worker_act_workers(1) [OF act D(2), of now k] that by simp
  have count: "unat c = card {k. map_of ?h k = Some d}" if "counts ?m d = Some c" for d c
    using D(7) [OF that] by (simp add: holders_def)
  show ?thesis
  proof (cases "map_of (sy_workers ?s') job_id = None \<and> map_of ?h job_id \<noteq> None")
    case False
    have "dom (map_of ?h) = dom (map_of (sy_workers ?s'))"
    proof (rule set_eqI)
      fix k
      show "k \<in> dom (map_of ?h) \<longleftrightarrow> k \<in> dom (map_of (sy_workers ?s'))"
        using False D(5) others [of k] worker_act_workers(2) [OF act D(2), of now]
        by (cases "k = job_id") auto
    qed
    moreover have "worker_step now act job_id sys = with_service ((ap_service sys)\<lparr>gs_jobs := ?s'\<rparr>) sys"
      using False
      by (cases "map_of (sy_workers ?s') job_id"; cases "map_of ?h job_id")
        (simp_all add: worker_step_def with_service_def Let_def del: job_action.simps)
    ultimately show ?thesis using D s' digest count
      by (simp add: system_inv_def with_service_def holders_def del: job_action.simps)
  next
    case True
    then obtain d where d: "map_of ?h job_id = Some d" by auto
    let ?m' = "drop_hold d ?m" and ?h' = "AList.delete job_id ?h"
    have step: "worker_step now act job_id sys
        = sys\<lparr>ap_service := (ap_service sys)\<lparr>gs_jobs := ?s', gs_sessions := ?m'\<rparr>, ap_holds := ?h'\<rparr>"
      using True d by (simp add: worker_step_def Let_def del: job_action.simps)
    have doms: "dom (map_of ?h') = dom (map_of (sy_workers ?s'))"
    proof (rule set_eqI)
      fix k
      show "k \<in> dom (map_of ?h') \<longleftrightarrow> k \<in> dom (map_of (sy_workers ?s'))"
        using True D(5) others [of k] by (cases "k = job_id") auto
    qed
    have m': "sessions_ok ?m'" using drop_hold_counts [OF D(1), of d] by simp
    have count': "unat c = card {k. map_of ?h' k = Some d'}" if c: "counts ?m' d' = Some c" for d' c
    proof -
      have fin: "finite {k. map_of ?h k = Some d'}" using finite_holders [of sys d'] by (simp add: holders_def)
      note card = card_holders_delete [OF D(3) d fin]
      show ?thesis
      proof (cases "counts ?m d")
        case None
        then have "counts ?m d' = Some c" "d' \<noteq> d" using c drop_hold_counts [OF D(1), of d] by auto
        then show ?thesis using count card by simp
      next
        case (Some c0)
        then have "counts ?m' = (counts ?m)(d \<mapsto> saturating_sub c0 1)"
          using drop_hold_counts [OF D(1), of d] by simp
        then show ?thesis using c count [OF Some] count [of d' c] card
          by (cases "d' = d") (auto simp: unat_saturating_sub)
      qed
    qed
    have "length ?h' \<le> n" using D(4) length_delete_le [of job_id ?h] by simp
    then show ?thesis unfolding step
      using D s' m' doms count' digest
      by (simp add: system_inv_def holders_def wf_map_delete del: job_action.simps)
  qed
qed

lemma execute_refused:
  assumes "touch sha now token (gs_sessions sv) = (Inl e, m)"
  shows "fst (execute_with_resource sha now token action resource operation sv) = Inl e
    \<and> gs_jobs (snd (execute_with_resource sha now token action resource operation sv)) = gs_jobs sv
    \<and> gs_sessions (snd (execute_with_resource sha now token action resource operation sv)) = m"
  using assms by (auto simp: execute_with_resource_def touch_session_with_audit_def Let_def)

text \<open>What an export request does to sessions and jobs, refused or accepted.\<close>

lemma export_cases:
  assumes ok: "sessions_ok (gs_sessions sv)" and live: "\<not> js_poisoned (sy_registry (gs_jobs sv))"
    and below: "\<And>d c. counts (gs_sessions sv) d = Some c \<Longrightarrow> c < - 1"
    and random: "job_id \<notin> set (sy_ids (gs_jobs sv))"
    and run: "create_report_export_job get_report sha now job_id token report_id request sv = (r, sv')"
  obtains (refused) e where "r = Inl e" "keeps sv sv'"
  | (accepted) job user c q where "r = Inr job" "sessions_ok (gs_sessions sv')"
      "gs_jobs sv' = run_jobs [(now, Enqueue user (from_token sha token) report_id request job_id),
        (now, AttachHandle job_id)] (gs_jobs sv)"
      "job_lookup (gs_jobs sv') job_id = Some q" "jr_session_token_digest q = from_token sha token"
      "sy_workers (gs_jobs sv') = AList.update job_id Spawned (sy_workers (gs_jobs sv))"
      "counts (gs_sessions sv) (from_token sha token) = Some c"
      "counts (gs_sessions sv') = (counts (gs_sessions sv))(from_token sha token \<mapsto> saturating_add c 1)"
proof -
  obtain t m where t: "touch sha now token (gs_sessions sv) = (t, m)"
    by (cases "touch sha now token (gs_sessions sv)")
  have m: "counts m = counts (gs_sessions sv)" "sessions_ok m" using touch_counts [OF t ok] by simp_all
  show ?thesis
  proof (cases t)
    case (Inl e)
    have "r = Inl e" "keeps sv sv'"
      using execute_refused [OF t [unfolded Inl], of "''create''" "''report_export''"
          "\<lambda>session. enqueue_report_export_job get_report sha now job_id session report_id request"] run m
      by (auto simp: create_report_export_job_def keeps_def)
    then show ?thesis by (rule refused)
  next
    case (Inr session)
    have token: "se_token session = token"
      using t Inr by (auto simp: touch_def Let_def split: if_splits option.splits)
    let ?enqueue = "\<lambda>session. enqueue_report_export_job get_report sha now job_id session report_id request"
    obtain trail where e: "r = fst (?enqueue session (sv\<lparr>gs_sessions := m, gs_audit := trail\<rparr>))"
      "gs_jobs sv' = gs_jobs (snd (?enqueue session (sv\<lparr>gs_sessions := m, gs_audit := trail\<rparr>)))"
      "gs_sessions sv' = gs_sessions (snd (?enqueue session (sv\<lparr>gs_sessions := m, gs_audit := trail\<rparr>)))"
      by (rule execute_touched [OF t [unfolded Inr], where action = "''create''" and resource = "''report_export''"
            and operation = ?enqueue]) (use run in \<open>simp add: create_report_export_job_def\<close>)
    let ?sv = "sv\<lparr>gs_sessions := m, gs_audit := trail\<rparr>"
    obtain sv2 where en: "?enqueue session ?sv = (r, sv2)" using e(1) by (cases "?enqueue session ?sv") simp
    show ?thesis
    proof (cases r)
      case (Inl err)
      have "keeps ?sv sv2"
        using enqueue_refused [OF en [unfolded Inl]] m live below by simp
      then have "keeps sv sv'" using e en m by (simp add: keeps_def)
      with Inl show ?thesis by (rule refused)
    next
      case (Inr job)
      have "sessions_ok (gs_sessions ?sv)" using m by simp
      from enqueue_accepted [OF en [unfolded Inr] this] obtain c where
        "counts m (from_token sha token) = Some c" "sessions_ok (gs_sessions sv2)"
        "counts (gs_sessions sv2) = (counts m)(from_token sha token \<mapsto> saturating_add c 1)"
        unfolding token by auto
      moreover have "job_id \<notin> set (sy_ids (gs_jobs ?sv))" using random by simp
      from enqueue_runs [OF en [unfolded Inr] this] obtain q where
        "gs_jobs sv2 = run_jobs [(now, Enqueue (se_user session) (from_token sha token) report_id request job_id),
          (now, AttachHandle job_id)] (gs_jobs sv)"
        "job_lookup (gs_jobs sv2) job_id = Some q" "jr_session_token_digest q = from_token sha token"
        "sy_workers (gs_jobs sv2) = AList.update job_id Spawned (sy_workers (gs_jobs sv))"
        unfolding token by (auto simp del: run_jobs.simps)
      moreover have "gs_jobs sv' = gs_jobs sv2" "gs_sessions sv' = gs_sessions sv2" using e(2,3) en by simp_all
      ultimately show ?thesis using Inr m(1) by (intro accepted) simp_all
    qed
  qed
qed

lemma export_inv:
  assumes inv: "system_inv n sys" and n: "n < 2 ^ 64 - 1"
    and random: "job_id \<notin> set (sy_ids (gs_jobs (ap_service sys)))"
  shows "system_inv (Suc n) (system_action authenticate disconnect sha now
    (Export job_id token report_id request get_report) sys)"
proof -
  note D = system_invD [OF inv]
  let ?sv = "ap_service sys" and ?d = "from_token sha token"
  obtain r sv' where run: "create_report_export_job get_report sha now job_id token report_id request ?sv = (r, sv')"
    by (cases "create_report_export_job get_report sha now job_id token report_id request ?sv")
  have below: "c < - 1" if "counts (gs_sessions ?sv) d = Some c" for d c
  proof -
    have "unat c \<le> n" using D(7) [OF that] holders_bound [OF inv, of d] by simp
    then show ?thesis using n
      by (simp add: word_less_nat_alt unsigned_minus_1_eq_mask mask_eq_exp_minus_1)
  qed
  show ?thesis
  proof (rule export_cases [OF D(1) job_invD(1) [OF D(2)] below random run], assumption)
    fix e
    assume refused: "r = Inl e" "keeps ?sv sv'"
    have "system_inv n (with_service sv' sys)" by (rule keeps_inv [OF inv refused(2)])
    then show ?thesis using refused(1) run by (auto simp: system_inv_def)
  next
    fix job user c q
    assume accepted: "r = Inr job" "sessions_ok (gs_sessions sv')"
      "gs_jobs sv' = run_jobs [(now, Enqueue user ?d report_id request job_id), (now, AttachHandle job_id)] (gs_jobs ?sv)"
      "job_lookup (gs_jobs sv') job_id = Some q" "jr_session_token_digest q = ?d"
      "sy_workers (gs_jobs sv') = AList.update job_id Spawned (sy_workers (gs_jobs ?sv))"
      "counts (gs_sessions ?sv) ?d = Some c"
      "counts (gs_sessions sv') = (counts (gs_sessions ?sv))(?d \<mapsto> saturating_add c 1)"
    have fresh: "map_of (ap_holds sys) job_id = None"
    proof (rule ccontr)
      assume "map_of (ap_holds sys) job_id \<noteq> None"
      then have "job_id \<in> dom (map_of (sy_workers (gs_jobs ?sv)))" using D(5) by auto
      then show False using worker_known [OF D(2)] random by blast
    qed
    have inv': "job_inv (gs_jobs sv')" unfolding accepted(3) by (rule run_jobs_inv [OF D(2)])
    have digest: "jr_session_token_digest p = d"
      if hd: "map_of (ap_holds sys) k = Some d" and lk: "job_lookup (gs_jobs sv') k = Some p" for k d p
    proof -
      let ?s = "job_action now (Enqueue user ?d report_id request job_id) (gs_jobs ?sv)"
      have known: "k \<in> set (sy_ids (gs_jobs ?sv))"
        using hd D(5) by (intro worker_known [OF D(2)]) (auto simp: dom_def)
      have known': "k \<in> set (sy_ids ?s)" using known sy_ids_mono by blast
      have "job_lookup (job_action now (AttachHandle job_id) ?s) k = Some p"
        using lk accepted(3) by (simp del: job_action.simps)
      from session_kept [OF job_action_inv [OF D(2)] known' this]
      obtain p1 where "job_lookup ?s k = Some p1" "jr_session_token_digest p = jr_session_token_digest p1" by blast
      with session_kept [OF D(2) known] D(6) [OF hd] show ?thesis by metis
    qed
    have fin: "finite {k. map_of (ap_holds sys) k = Some d}" for d
      using finite_holders [of sys d] by (simp add: holders_def)
    have set: "{k. ((map_of (ap_holds sys))(job_id \<mapsto> ?d)) k = Some d}
        = (if d = ?d then insert job_id {k. map_of (ap_holds sys) k = Some d} else {k. map_of (ap_holds sys) k = Some d})" for d
      using fresh by auto
    have added: "unat (saturating_add c 1) = Suc (unat c)"
      using below [OF accepted(7)]
      by (simp add: unat_saturating_add word_less_nat_alt unsigned_minus_1_eq_mask mask_eq_exp_minus_1)
    have count: "unat c' = card {k. ((map_of (ap_holds sys))(job_id \<mapsto> ?d)) k = Some d}"
      if "counts (gs_sessions sv') d = Some c'" for d c'
      using that D(7) [of d c'] D(7) [OF accepted(7)] added fin fresh
      unfolding set accepted(8) by (auto simp: holders_def split: if_splits)
    have "length (AList.update job_id ?d (ap_holds sys)) \<le> Suc n"
      using D(4) fresh by (simp add: update_fresh)
    then show ?thesis
      using accepted run D inv' digest count fresh
      by (auto simp: system_inv_def with_service_def holders_def wf_map_update)
  qed
qed

lemma login_inv:
  assumes inv: "system_inv n sys" and random: "random_ok sha (Login uuid username b) sys"
  shows "system_inv n (system_action authenticate disconnect sha now (Login uuid username b) sys)"
proof -
  note D = system_invD [OF inv]
  let ?d = "from_token sha (fresh_token uuid)"
  let ?sv = "snd (create_session authenticate disconnect sha (\<lambda>sv. sv) now uuid username b (ap_service sys))"
  have new: "counts (gs_sessions (ap_service sys)) ?d = None" "?d \<notin> snd ` set (ap_holds sys)"
    using random by (simp_all add: random_ok_def counts_def Let_def)
  then have none: "holders sys ?d = {}"
    by (auto simp: holders_def dest!: map_of_SomeD intro: rev_image_eqI)
  have "gs_jobs ?sv = gs_jobs (ap_service sys) \<and> sessions_ok (gs_sessions ?sv)
    \<and> counts (gs_sessions ?sv) \<subseteq>\<^sub>m (counts (gs_sessions (ap_service sys)))(?d \<mapsto> 0)"
    by (rule create_session_effect [OF D(1) new(1) refl refl])
  then have eff: "gs_jobs ?sv = gs_jobs (ap_service sys)" "sessions_ok (gs_sessions ?sv)"
    "counts (gs_sessions ?sv) \<subseteq>\<^sub>m (counts (gs_sessions (ap_service sys)))(?d \<mapsto> 0)"
    by simp_all
  have "unat c = card (holders sys d)" if c: "counts (gs_sessions ?sv) d = Some c" for d c
  proof -
    have "((counts (gs_sessions (ap_service sys)))(?d \<mapsto> 0)) d = Some c"
      using eff(3) c by (auto simp: map_le_def dom_def)
    then show ?thesis using D(7) [of d c] none by (auto split: if_splits)
  qed
  then show ?thesis using D eff(1,2)
    by (simp add: system_inv_def with_service_def holders_def)
qed

lemma system_inv_Suc: "system_inv n sys \<Longrightarrow> system_inv (Suc n) sys"
  by (simp add: system_inv_def)

lemma system_action_inv:
  assumes inv: "system_inv n sys" and n: "n < 2 ^ 64 - 1" and random: "random_ok sha act sys"
  shows "system_inv (Suc n) (system_action authenticate disconnect sha now act sys)"
proof -
  note D = system_invD [OF inv]
  note keep = system_inv_Suc [OF keeps_inv [OF inv]]
  note work = system_inv_Suc [OF worker_step_inv [OF inv]]
  show ?thesis
  proof (cases act)
    case (Login uuid username b)
    show ?thesis unfolding Login
      by (rule system_inv_Suc [OF login_inv [OF inv random [unfolded Login]]])
  next
    case (Export job_id token report_id request get_report)
    then show ?thesis using export_inv [OF inv n] random by (simp add: random_ok_def)
  next
    case (Logout token)
    then show ?thesis using keep [OF delete_keeps [OF D(1)]] by simp
  next
    case ReapSessions
    then show ?thesis using keep [OF sweep_keeps [OF D(1)]] by simp
  next
    case (UseCase token answer)
    then show ?thesis using keep [OF use_case_keeps [OF D(1)]] by simp
  next
    case (ReadJob token job_id)
    then show ?thesis using keep [OF get_job_keeps [OF D(1)]] by simp
  next
    case (StopExport token job_id)
    then show ?thesis using keep [OF cancel_keeps [OF D(1)]] by simp
  next
    case (Download token job_id)
    then show ?thesis using keep [OF download_keeps [OF D(1)]] by simp
  next
    case ReapJobs
    then show ?thesis using keep [OF reap_jobs_keeps [OF D(1)]] by (simp del: job_action.simps)
  qed (simp_all add: work worker_act_def)
qed

lemma run_system_inv:
  "system_inv n sys \<Longrightarrow> n + length acts < 2 ^ 64 \<Longrightarrow> random_run authenticate disconnect sha acts sys \<Longrightarrow>
     system_inv (n + length acts) (run_system authenticate disconnect sha acts sys)"
proof (induction acts arbitrary: n sys)
  case Nil
  then show ?case by simp
next
  case (Cons a acts)
  obtain now act where a: "a = (now, act)" by (cases a)
  have "system_inv (Suc n) (system_action authenticate disconnect sha now act sys)"
    using Cons.prems by (intro system_action_inv) (simp_all add: a)
  from Cons.IH [OF this] Cons.prems show ?case by (simp add: a)
qed

lemma new_system_inv: "sessions_ok m \<Longrightarrow> sm_sessions m = [] \<Longrightarrow> system_inv 0 (new_system auth m)"
  using job_inv_new [of default_job_policy]
  by (simp add: system_inv_def new_system_def new_service_def counts_def holders_def job_lookup_def
      new_job_system_def new_job_registry_def)

text \<open>An unfinished job has a live worker, whose hold keeps its session from expiring.\<close>

lemma unfinished_job_holds:
  assumes inv: "system_inv n sys" and lk: "job_lookup (gs_jobs (ap_service sys)) job_id = Some r"
    and unfinished: "\<not> is_terminal (status_of r)"
  shows "job_id \<in> holders sys (jr_session_token_digest r)"
proof -
  note D = system_invD [OF inv]
  have "worker_ok (gs_jobs (ap_service sys)) job_id r" "record_ok job_id r"
    using job_invD(5,6) [OF D(2), of job_id r] lk by (simp_all add: job_lookup_def)
  then have "map_of (sy_workers (gs_jobs (ap_service sys))) job_id \<noteq> None"
    using unfinished by (cases "status_of r") (auto simp: worker_ok_def record_ok_def status_of_def Let_def)
  then obtain d where "map_of (ap_holds sys) job_id = Some d" using D(5) by (auto simp: dom_def set_eq_iff)
  then show ?thesis using D(6) lk by (auto simp: holders_def)
qed

lemma unfinished_job_keeps_session:
  assumes inv: "system_inv n sys" and lk: "job_lookup (gs_jobs (ap_service sys)) job_id = Some r"
    and unfinished: "\<not> is_terminal (status_of r)" and active: "ss_state s = Active"
    and s: "map_of (sm_sessions (gs_sessions (ap_service sys))) (jr_session_token_digest r) = Some s"
  shows "\<not> is_expired_at now idle s"
proof -
  have "card (holders sys (jr_session_token_digest r)) > 0"
    using unfinished_job_holds [OF inv lk unfinished] finite_holders [of sys "jr_session_token_digest r"]
    by (auto simp: card_gt_0_iff)
  moreover have "unat (ss_hold_count s) = card (holders sys (jr_session_token_digest r))"
    using system_invD(7) [OF inv] s by (simp add: counts_def)
  ultimately have "ss_hold_count s > 0" by (simp add: word_less_nat_alt)
  with active show ?thesis by (rule is_expired_at_held)
qed

section \<open>Properties\<close>

text \<open>
  C9. Exports and sessions fit together: along every run of the whole application, with
  random identifiers that are new and fewer than \<open>2 ^ 64\<close> steps, the hold count of each
  registered session is exactly the number of live workers that own a hold on it. So a
  session with an unfinished export never expires by idling, at whatever time it is looked
  at, and the hold of a worker that ended is never left behind.
\<close>

theorem holds_match_workers:
  assumes "random_run authenticate disconnect sha acts (new_system auth (with_limits idle limits))"
    and "length acts < 2 ^ 64"
  shows "let sys = run_system authenticate disconnect sha acts (new_system auth (with_limits idle limits));
             jobs = gs_jobs (ap_service sys)
    in \<forall>d s. map_of (sm_sessions (gs_sessions (ap_service sys))) d = Some s \<longrightarrow>
         unat (ss_hold_count s) = card {job_id. map_of (ap_holds sys) job_id = Some d}
         \<and> {job_id. map_of (ap_holds sys) job_id = Some d} \<subseteq> dom (map_of (sy_workers jobs))
         \<and> ((\<exists>job_id r. job_lookup jobs job_id = Some r \<and> jr_session_token_digest r = d
               \<and> \<not> is_terminal (status_of r)) \<and> ss_state s = Active \<longrightarrow>
             (\<forall>now. \<not> is_expired_at now idle s))"
proof -
  let ?sys = "run_system authenticate disconnect sha acts (new_system auth (with_limits idle limits))"
  have "system_inv 0 (new_system auth (with_limits idle limits))"
    by (rule new_system_inv) (simp_all add: with_limits_def sessions_ok_def)
  from run_system_inv [OF this _ assms(1)] assms(2) have inv: "system_inv (0 + length acts) ?sys" by simp
  have count: "unat (ss_hold_count s) = card (holders ?sys d)" and workers: "holders ?sys d \<subseteq> dom (map_of (sy_workers (gs_jobs (ap_service ?sys))))"
    if "map_of (sm_sessions (gs_sessions (ap_service ?sys))) d = Some s" for d s
    using system_invD(5,7) [OF inv] that by (auto simp: counts_def holders_def dom_def set_eq_iff)
  then show ?thesis using unfinished_job_keeps_session [OF inv]
    unfolding Let_def holders_def [symmetric] by blast
qed

definition demo_login :: "unit \<Rightarrow> string \<Rightarrow> unit \<Rightarrow> string result \<times> unit" where
  "demo_login b token auth = (Inr ''ann'', auth)"

definition demo_logout :: "SessionTokenDigest \<Rightarrow> unit \<Rightarrow> unit result \<times> unit" where
  "demo_logout d auth = (Inr (), auth)"

definition demo_day :: "(u64 \<times> unit SystemAction) list" where
  "demo_day =
     [(5, Login ''a'' ''ann'' ()),
      (6, Export ''j'' (fresh_token ''a'') ''r'' demo_request (Inr ())),
      (7, StartWork ''j''), (8, Logout (fresh_token ''a'')), (9, FinishWork ''j'' demo_artifact)]"

theorem holds_match_workers_witness:
  "let sys = run_system demo_login demo_logout one_digest demo_day (new_system () (with_limits 60 default_limits))
   in \<forall>d s. map_of (sm_sessions (gs_sessions (ap_service sys))) d = Some s \<longrightarrow>
        unat (ss_hold_count s) = card {job_id. map_of (ap_holds sys) job_id = Some d}"
proof -
  let ?sys = "new_system () (with_limits 60 default_limits)"
  let ?sv = "snd (create_session demo_login demo_logout one_digest (\<lambda>sv. sv) 5 ''a'' ''ann'' () (ap_service ?sys))"
  have "gs_jobs ?sv = gs_jobs (ap_service ?sys) \<and> sessions_ok (gs_sessions ?sv)
    \<and> counts (gs_sessions ?sv) \<subseteq>\<^sub>m (counts (gs_sessions (ap_service ?sys)))(from_token one_digest (fresh_token ''a'') \<mapsto> 0)"
    by (rule create_session_effect [OF _ _ refl refl])
      (simp_all add: new_system_def new_service_def with_limits_def sessions_ok_def counts_def)
  then have "gs_jobs ?sv = new_job_system default_job_policy" by (simp add: new_system_def new_service_def)
  then have "random_run demo_login demo_logout one_digest demo_day ?sys"
    by (simp add: demo_day_def random_ok_def with_service_def new_job_system_def del: system_action.simps(3-))
      (simp add: new_system_def new_service_def with_limits_def)
  moreover have "length demo_day < 2 ^ 64" by (simp add: demo_day_def)
  ultimately show ?thesis using holds_match_workers by (fastforce simp only: Let_def)
qed

end
