(* ===== verification/Rate_Limit.thy ===== *)
theory Rate_Limit
  imports Http
begin

text \<open>
  The rate limiter, \<open>crates/gvm-gateway-rest/src/rate_limit.rs\<close>: fixed windows per subject and
  for all requests together, in a bounded table of buckets that is pruned as the clock
  advances. The clock is an argument; the lock's poison flag is part of the state.
\<close>

section \<open>State\<close>

definition MAX_RATE_LIMIT_BUCKETS :: nat where
  "MAX_RATE_LIMIT_BUCKETS = 16384"

record RateLimitConfig =
  rl_window_secs :: u64
  rl_global_per_window :: "u64 option"
  rl_subject_per_window :: "u64 option"

definition default_rate_limit :: RateLimitConfig where
  "default_rate_limit =
     \<lparr>rl_window_secs = 60, rl_global_per_window = Some 1000, rl_subject_per_window = Some 500\<rparr>"

definition disabled_rate_limit :: RateLimitConfig where
  "disabled_rate_limit =
     \<lparr>rl_window_secs = 60, rl_global_per_window = None, rl_subject_per_window = None\<rparr>"

record RateBucket =
  rb_window_started_at :: u64
  rb_count :: u64

record RateLimitState =
  rs_poisoned :: bool
  rs_buckets :: "(string, RateBucket) hash_map"
  rs_last_pruned_at :: u64

record RateLimiter =
  lm_config :: RateLimitConfig
  lm_trusted_proxy_cidrs :: "TrustedProxyCidr list"
  lm_state :: RateLimitState

definition new_limiter :: "RateLimitConfig \<Rightarrow> TrustedProxyCidr list \<Rightarrow> RateLimiter" where
  "new_limiter config cidrs =
     \<lparr>lm_config = config, lm_trusted_proxy_cidrs = cidrs,
      lm_state = \<lparr>rs_poisoned = False, rs_buckets = [], rs_last_pruned_at = 0\<rparr>\<rparr>"

section \<open>Checking a key\<close>

definition bucket_dead :: "u64 \<Rightarrow> RateBucket \<Rightarrow> u64 \<Rightarrow> bool" where
  "bucket_dead window_secs bucket now =
     (saturating_sub now (rb_window_started_at bucket) \<ge> window_secs)"

definition prune_expired_buckets :: "u64 \<Rightarrow> u64 \<Rightarrow> RateLimitState \<Rightarrow> RateLimitState" where
  "prune_expired_buckets now window_secs st =
     st\<lparr>rs_buckets := retain (\<lambda>_ bucket. saturating_sub now (rb_window_started_at bucket) < window_secs)
          (rs_buckets st),
        rs_last_pruned_at := now\<rparr>"

definition count_request ::
    "u64 \<Rightarrow> string \<Rightarrow> u64 \<Rightarrow> u64 \<Rightarrow> RateLimitState \<Rightarrow> u64 option \<times> RateLimitState" where
  "count_request window_secs key limit now st =
     (let bucket = (case map_of (rs_buckets st) key of
            Some b \<Rightarrow> b | None \<Rightarrow> \<lparr>rb_window_started_at = now, rb_count = 0\<rparr>);
          bucket = (if saturating_sub now (rb_window_started_at bucket) \<ge> window_secs
            then \<lparr>rb_window_started_at = now, rb_count = 0\<rparr> else bucket);
          put = (\<lambda>b. st\<lparr>rs_buckets := AList.update key b (rs_buckets st)\<rparr>)
      in if rb_count bucket \<ge> limit
         then (Some (max (saturating_sub window_secs (saturating_sub now (rb_window_started_at bucket))) 1),
               put bucket)
         else (None, put (bucket\<lparr>rb_count := rb_count bucket + 1\<rparr>)))"

definition check_key ::
    "u64 \<Rightarrow> string \<Rightarrow> u64 \<Rightarrow> u64 \<Rightarrow> RateLimitState \<Rightarrow> u64 option \<times> RateLimitState" where
  "check_key window key limit now st =
     (if limit = 0 then (Some (max window 1), st)
      else
        let window_secs = max window 1
        in if rs_poisoned st then (Some window_secs, st)
           else
             let st = (if saturating_sub now (rs_last_pruned_at st) \<ge> 1
                       then prune_expired_buckets now window_secs st else st)
             in if map_of (rs_buckets st) key = None \<and> length (rs_buckets st) \<ge> MAX_RATE_LIMIT_BUCKETS
                then (let st = prune_expired_buckets now window_secs st
                      in if length (rs_buckets st) \<ge> MAX_RATE_LIMIT_BUCKETS then (Some window_secs, st)
                         else count_request window_secs key limit now st)
                else count_request window_secs key limit now st)"

section \<open>Subjects\<close>

text \<open>FNV-1a at 64 bits, printed as sixteen hexadecimal digits.\<close>

definition fnv1a :: "string \<Rightarrow> u64" where
  "fnv1a s = foldl (\<lambda>hash c. (hash XOR of_nat (of_char c)) * 0x100000001b3) 0xcbf29ce484222325 s"

definition hex16 :: "u64 \<Rightarrow> string" where
  "hex16 w = map (\<lambda>i. hex_digit (unat (drop_bit (4 * i) w AND 15))) (rev [0..<16])"

definition stable_hash :: "string \<Rightarrow> string" where
  "stable_hash s = hex16 (fnv1a s)"

definition forwarded_for_client_ip :: "HeaderMap \<Rightarrow> IpAddr option" where
  "forwarded_for_client_ip headers =
     Option.bind (header_text headers ''x-forwarded-for'')
       (\<lambda>value. parse_ip (trim (hd (split_on (CHR '','') value))))"

definition is_trusted :: "TrustedProxyCidr list \<Rightarrow> IpAddr \<Rightarrow> bool" where
  "is_trusted cidrs ip = list_ex (\<lambda>cidr. contains cidr ip = Some True) cidrs"

definition source_ip :: "Request \<Rightarrow> TrustedProxyCidr list \<Rightarrow> IpAddr option" where
  "source_ip request cidrs =
     (case rq_peer request of
        None \<Rightarrow> None
      | Some peer_ip \<Rightarrow>
          if is_trusted cidrs peer_ip
          then Some (case forwarded_for_client_ip (rq_headers request) of
                       Some ip \<Rightarrow> ip | None \<Rightarrow> peer_ip)
          else Some peer_ip)"

definition source_subject :: "Request \<Rightarrow> TrustedProxyCidr list \<Rightarrow> string" where
  "source_subject request cidrs =
     (case source_ip request cidrs of
        Some ip \<Rightarrow> ''ip:'' @ show_ip ip
      | None \<Rightarrow> ''unknown-source'')"

definition rate_limit_subject :: "Request \<Rightarrow> TrustedProxyCidr list \<Rightarrow> string" where
  "rate_limit_subject request cidrs =
     (if rq_path request = ''/api/v1/session''
      then ''session-create:'' @ source_subject request cidrs
      else
        let auth = (case header_text (rq_headers request) ''authorization'' of Some v \<Rightarrow> v | None \<Rightarrow> [])
        in case strip_prefix ''Bearer '' auth of
             Some token \<Rightarrow> ''bearer:'' @ stable_hash token
           | None \<Rightarrow>
               (case strip_prefix ''Basic '' auth of
                  Some credentials \<Rightarrow> ''basic:'' @ stable_hash credentials
                | None \<Rightarrow> ''anonymous:'' @ source_subject request cidrs))"

section \<open>Checking a request\<close>

definition limiter_key :: "string \<Rightarrow> u64 \<Rightarrow> u64 \<Rightarrow> RateLimiter \<Rightarrow> u64 option \<times> RateLimiter" where
  "limiter_key key limit now limiter =
     (let (r, st) = check_key (rl_window_secs (lm_config limiter)) key limit now (lm_state limiter)
      in (r, limiter\<lparr>lm_state := st\<rparr>))"

definition check_request :: "u64 \<Rightarrow> Request \<Rightarrow> RateLimiter \<Rightarrow> u64 option \<times> RateLimiter" where
  "check_request now request limiter =
     (let (r, limiter) = (case rl_global_per_window (lm_config limiter) of
            Some limit \<Rightarrow> limiter_key ''global'' limit now limiter
          | None \<Rightarrow> (None, limiter))
      in case r of
           Some retry_after \<Rightarrow> (Some retry_after, limiter)
         | None \<Rightarrow>
             (case rl_subject_per_window (lm_config limiter) of
                Some limit \<Rightarrow>
                  limiter_key (rate_limit_subject request (lm_trusted_proxy_cidrs limiter)) limit now limiter
              | None \<Rightarrow> (None, limiter)))"

definition is_rate_limited_path :: "string \<Rightarrow> bool" where
  "is_rate_limited_path path = (starts_with ''/api/v1/'' path \<and> path \<noteq> ''/api/v1/openapi.json'')"

definition too_many_requests_response :: "string \<Rightarrow> u64 \<Rightarrow> 'j Response" where
  "too_many_requests_response inst retry_after_secs =
     (let response = gateway_error
            (TooManyRequests (''rate limit exceeded; retry after '' @ show_nat (unat retry_after_secs) @ '' seconds''))
            inst
      in response\<lparr>rp_headers := set_header ''retry-after'' (show_nat (unat retry_after_secs))
           (rp_headers response)\<rparr>)"

section \<open>Buckets as an expiring store\<close>

definition live_buckets ::
    "u64 \<Rightarrow> u64 \<Rightarrow> (string, RateBucket) hash_map \<Rightarrow> (string, RateBucket) hash_map" where
  "live_buckets window_secs now m =
     retain (\<lambda>_ bucket. saturating_sub now (rb_window_started_at bucket) < window_secs) m"

interpretation bucket_store: expiring_store "bucket_dead w" "live_buckets w" for w
proof unfold_locales
  show "wf_map m \<Longrightarrow> map_of (live_buckets w now m) k =
      (case map_of m k of None \<Rightarrow> None | Some v \<Rightarrow> if bucket_dead w v now then None else Some v)" for m now k
    by (auto simp: live_buckets_def map_of_retain bucket_dead_def not_less split: option.splits)
  show "wf_map m \<Longrightarrow> wf_map (live_buckets w now m)" for m now
    by (simp add: live_buckets_def)
  show "t \<le> t' \<Longrightarrow> bucket_dead w v t \<Longrightarrow> bucket_dead w v t'" for t t' v
    unfolding bucket_dead_def using saturating_sub_mono order_trans by blast
qed

lemma prune_buckets: "rs_buckets (prune_expired_buckets now w st) = live_buckets w now (rs_buckets st)"
  by (simp add: prune_expired_buckets_def live_buckets_def)

lemma bucket_dead_nat:
  "bucket_dead w b now \<longleftrightarrow> unat w \<le> unat now - unat (rb_window_started_at b)"
  by (simp add: bucket_dead_def word_le_nat_alt unat_saturating_sub)

section \<open>Counting admitted requests\<close>

text \<open>The history \<open>h\<close> lists the key and time of every request that was counted.\<close>

definition hits :: "(string \<times> nat) list \<Rightarrow> string \<Rightarrow> nat \<Rightarrow> nat \<Rightarrow> nat" where
  "hits h k lo hi = length (filter (\<lambda>(k', x). k' = k \<and> lo \<le> x \<and> x < hi) h)"

definition hits_from :: "(string \<times> nat) list \<Rightarrow> string \<Rightarrow> nat \<Rightarrow> nat" where
  "hits_from h k lo = length (filter (\<lambda>(k', x). k' = k \<and> lo \<le> x) h)"

lemma hits_simps [simp]:
  "hits [] k lo hi = 0" "hits_from [] k lo = 0"
  "hits ((k', x) # h) k lo hi = (if k' = k \<and> lo \<le> x \<and> x < hi then 1 else 0) + hits h k lo hi"
  "hits_from ((k', x) # h) k lo = (if k' = k \<and> lo \<le> x then 1 else 0) + hits_from h k lo"
  by (simp_all add: hits_def hits_from_def)

lemma hits_from_mono: "lo \<le> lo' \<Longrightarrow> hits_from h k lo' \<le> hits_from h k lo"
  by (induction h) auto

lemma hits_split: "hits h k lo hi \<le> hits h k lo mid + hits_from h k mid"
  by (induction h) auto

lemma hits_le_from: "hits h k lo hi \<le> hits_from h k lo"
  by (induction h) auto

text \<open>
  What the table knows about one key. The windows of a key do not overlap, so an interval of
  one window length meets at most two of them.
\<close>

definition key_inv ::
    "nat \<Rightarrow> u64 \<Rightarrow> (string \<times> nat) list \<Rightarrow> string \<Rightarrow> nat \<Rightarrow> RateBucket option \<Rightarrow> bool" where
  "key_inv W limit h k now bucket \<longleftrightarrow>
     (\<forall>t. hits h k t (t + W) \<le> 2 * unat limit)
     \<and> (case bucket of
          None \<Rightarrow> hits_from h k now = 0 \<and> (\<forall>t. now < t + W \<longrightarrow> hits_from h k t \<le> unat limit)
        | Some b \<Rightarrow>
            unat (rb_window_started_at b) \<le> now
            \<and> rb_count b \<le> limit
            \<and> hits_from h k (unat (rb_window_started_at b)) = unat (rb_count b)
            \<and> hits_from h k (unat (rb_window_started_at b) + W) = 0
            \<and> (\<forall>t. unat (rb_window_started_at b) < t + W \<longrightarrow>
                   hits h k t (unat (rb_window_started_at b)) \<le> unat limit))"

lemma key_inv_later: "key_inv W limit h k now b \<Longrightarrow> now \<le> now' \<Longrightarrow> key_inv W limit h k now' b"
  using hits_from_mono [of now now' h k] by (auto simp: key_inv_def split: option.splits)

text \<open>A bucket whose window is over can be forgotten.\<close>

lemma key_inv_forget:
  assumes inv: "key_inv W limit h k now (Some b)" and over: "unat (rb_window_started_at b) + W \<le> now"
  shows "key_inv W limit h k now None"
proof -
  let ?s = "unat (rb_window_started_at b)"
  have "hits_from h k now = 0"
    using inv hits_from_mono [OF over, of h k] by (simp add: key_inv_def)
  moreover have "hits_from h k t \<le> unat limit" if "now < t + W" for t
  proof -
    have "?s \<le> t" using that over by simp
    then have "hits_from h k t \<le> unat (rb_count b)" using inv hits_from_mono [of ?s t h k] by (simp add: key_inv_def)
    also have "\<dots> \<le> unat limit" using inv by (simp add: key_inv_def word_le_nat_alt)
    finally show ?thesis .
  qed
  ultimately show ?thesis using inv by (simp add: key_inv_def)
qed

lemma key_inv_open:
  assumes "key_inv W limit h k (unat now) None"
  shows "key_inv W limit h k (unat now) (Some \<lparr>rb_window_started_at = now, rb_count = 0\<rparr>)"
  using assms hits_from_mono [of "unat now" "unat now + W" h k] order_trans [OF hits_le_from]
  by (simp add: key_inv_def)

lemma key_inv_count:
  assumes inv: "key_inv W limit h k (unat now) (Some b)" and live: "unat now < unat (rb_window_started_at b) + W"
    and room: "rb_count b < limit"
  shows "key_inv W limit ((k, unat now) # h) k (unat now) (Some (b\<lparr>rb_count := rb_count b + 1\<rparr>))"
proof -
  let ?s = "unat (rb_window_started_at b)"
  have succ: "unat (rb_count b + 1) = unat (rb_count b) + 1"
  proof -
    have "unat (rb_count b) + 1 < 2 ^ LENGTH(64)"
      using room unat_below [of limit] by (simp add: word_less_nat_alt)
    then show ?thesis using unat_add_lem [of "rb_count b" 1] by simp
  qed
  have room': "unat (rb_count b) + 1 \<le> unat limit" using room by (simp add: word_less_nat_alt)
  have s: "?s \<le> unat now" using inv by (simp add: key_inv_def)
  have "hits ((k, unat now) # h) k t (t + W) \<le> 2 * unat limit" for t
  proof (cases "t \<le> unat now \<and> unat now < t + W")
    case True
    then have "hits h k t ?s \<le> unat limit" using inv s by (simp add: key_inv_def)
    moreover have "hits h k t (t + W) \<le> hits h k t ?s + unat (rb_count b)"
      using inv hits_split [of h k t "t + W" ?s] by (simp add: key_inv_def)
    ultimately show ?thesis using True room' by simp
  next
    case False
    then show ?thesis using inv by (auto simp: key_inv_def)
  qed
  then show ?thesis
    using inv s live succ room' by (auto simp: key_inv_def word_le_nat_alt)
qed

lemma key_inv_other: "k \<noteq> k' \<Longrightarrow> key_inv W limit ((k', x) # h) k now b = key_inv W limit h k now b"
  by (simp add: key_inv_def split: option.splits)

section \<open>The table\<close>

definition table_inv ::
    "u64 \<Rightarrow> (string \<Rightarrow> u64) \<Rightarrow> (string \<times> nat) list \<Rightarrow> nat \<Rightarrow> RateLimitState \<Rightarrow> bool" where
  "table_inv w lim h now st \<longleftrightarrow>
     wf_map (rs_buckets st) \<and> length (rs_buckets st) \<le> MAX_RATE_LIMIT_BUCKETS
     \<and> (\<forall>k. key_inv (unat w) (lim k) h k now (map_of (rs_buckets st) k))"

lemma table_inv_later: "table_inv w lim h now st \<Longrightarrow> now \<le> now' \<Longrightarrow> table_inv w lim h now' st"
  by (auto simp: table_inv_def intro: key_inv_later)

lemma prune_inv:
  assumes inv: "table_inv w lim h (unat now) st"
  shows "table_inv w lim h (unat now) (prune_expired_buckets now w st)"
proof -
  have wf: "wf_map (rs_buckets st)" using inv by (simp add: table_inv_def)
  have "key_inv (unat w) (lim k) h k (unat now) (map_of (live_buckets w now (rs_buckets st)) k)" for k
  proof -
    have "key_inv (unat w) (lim k) h k (unat now) (map_of (rs_buckets st) k)"
      using inv by (simp add: table_inv_def)
    then show ?thesis
      using key_inv_forget [of "unat w" "lim k" h k "unat now"]
      by (auto simp: bucket_store.sweep_lookup [OF wf] bucket_dead_nat key_inv_def split: option.splits)
  qed
  moreover have "length (live_buckets w now (rs_buckets st)) \<le> MAX_RATE_LIMIT_BUCKETS"
    using inv length_retain_le [of _ "rs_buckets st"] unfolding live_buckets_def table_inv_def
    by (meson order_trans)
  ultimately show ?thesis
    using wf by (simp add: table_inv_def prune_buckets bucket_store.sweep_wf)
qed

text \<open>The bucket a request is counted in: the live one, or a new one.\<close>

definition current_bucket :: "u64 \<Rightarrow> u64 \<Rightarrow> RateBucket option \<Rightarrow> RateBucket" where
  "current_bucket w now b =
     (case b of
        None \<Rightarrow> \<lparr>rb_window_started_at = now, rb_count = 0\<rparr>
      | Some b \<Rightarrow> if bucket_dead w b now then \<lparr>rb_window_started_at = now, rb_count = 0\<rparr> else b)"

lemma count_request_eq:
  "count_request w key limit now st =
     (let b = current_bucket w now (map_of (rs_buckets st) key);
          put = (\<lambda>b. st\<lparr>rs_buckets := AList.update key b (rs_buckets st)\<rparr>)
      in if limit \<le> rb_count b
         then (Some (max (saturating_sub w (saturating_sub now (rb_window_started_at b))) 1), put b)
         else (None, put (b\<lparr>rb_count := rb_count b + 1\<rparr>)))"
  unfolding count_request_def current_bucket_def bucket_dead_def Let_def
  by (cases "map_of (rs_buckets st) key") auto

lemma current_bucket_inv:
  assumes "key_inv (unat w) limit h k (unat now) b" and "w \<noteq> 0"
  shows "key_inv (unat w) limit h k (unat now) (Some (current_bucket w now b))
    \<and> unat now < unat (rb_window_started_at (current_bucket w now b)) + unat w"
proof (cases b)
  case None
  then show ?thesis using assms key_inv_open [of "unat w" limit h k now]
    by (simp add: current_bucket_def unat_gt_0)
next
  case (Some a)
  then have s: "unat (rb_window_started_at a) \<le> unat now" using assms(1) by (simp add: key_inv_def)
  show ?thesis
  proof (cases "bucket_dead w a now")
    case True
    then have "key_inv (unat w) limit h k (unat now) None"
      using key_inv_forget [of "unat w" limit h k "unat now" a] assms(1) Some s by (simp add: bucket_dead_nat)
    then show ?thesis using True Some assms(2) key_inv_open [of "unat w" limit h k now]
      by (simp add: current_bucket_def unat_gt_0)
  next
    case False
    then show ?thesis using assms(1) Some s by (simp add: current_bucket_def bucket_dead_nat)
  qed
qed

lemma count_request_inv:
  assumes inv: "table_inv w lim h (unat now) st" and w: "w \<noteq> 0"
    and room: "map_of (rs_buckets st) key \<noteq> None \<or> length (rs_buckets st) < MAX_RATE_LIMIT_BUCKETS"
    and step: "count_request w key (lim key) now st = (r, st')"
  shows "table_inv w lim (if r = None then (key, unat now) # h else h) (unat now) st'"
proof -
  let ?b = "current_bucket w now (map_of (rs_buckets st) key)"
  have k: "key_inv (unat w) (lim k) h k (unat now) (map_of (rs_buckets st) k)" for k
    using inv by (simp add: table_inv_def)
  have b: "key_inv (unat w) (lim key) h key (unat now) (Some ?b)"
      "unat now < unat (rb_window_started_at ?b) + unat w"
    using current_bucket_inv [OF k w] by simp_all
  have len: "length (AList.update key b (rs_buckets st)) \<le> MAX_RATE_LIMIT_BUCKETS" for b
    using inv room by (auto simp: table_inv_def length_update)
  have wf: "wf_map (rs_buckets st)" using inv by (simp add: table_inv_def)
  show ?thesis
  proof (cases "lim key \<le> rb_count ?b")
    case True
    then have "st' = st\<lparr>rs_buckets := AList.update key ?b (rs_buckets st)\<rparr>" "r \<noteq> None"
      using step by (auto simp: count_request_eq Let_def)
    then show ?thesis using b k len wf by (auto simp: table_inv_def)
  next
    case False
    then have "st' = st\<lparr>rs_buckets := AList.update key (?b\<lparr>rb_count := rb_count ?b + 1\<rparr>) (rs_buckets st)\<rparr>"
      "r = None" using step by (auto simp: count_request_eq Let_def)
    then show ?thesis
      using key_inv_count [OF b] False k len wf by (simp add: table_inv_def key_inv_other)
  qed
qed

text \<open>The four ways a check ends, with the state each of them works on.\<close>

definition pruned_if_due :: "u64 \<Rightarrow> u64 \<Rightarrow> RateLimitState \<Rightarrow> RateLimitState" where
  "pruned_if_due now w st =
     (if saturating_sub now (rs_last_pruned_at st) \<ge> 1 then prune_expired_buckets now w st else st)"

lemma check_key_cases:
  assumes "check_key window key limit now st = (r, st')"
  obtains (off) "limit = 0 \<or> rs_poisoned st" "r = Some (max window 1)" "st' = st"
    | (full) "r = Some (max window 1)" "length (rs_buckets st') \<ge> MAX_RATE_LIMIT_BUCKETS"
        "st' = prune_expired_buckets now (max window 1) (pruned_if_due now (max window 1) st)"
        "map_of (rs_buckets (pruned_if_due now (max window 1) st)) key = None"
    | (prune) st2 where "st2 = prune_expired_buckets now (max window 1) (pruned_if_due now (max window 1) st)"
        "length (rs_buckets st2) < MAX_RATE_LIMIT_BUCKETS"
        "count_request (max window 1) key limit now st2 = (r, st')"
    | (count) st1 where "st1 = pruned_if_due now (max window 1) st"
        "map_of (rs_buckets st1) key \<noteq> None \<or> length (rs_buckets st1) < MAX_RATE_LIMIT_BUCKETS"
        "count_request (max window 1) key limit now st1 = (r, st')"
proof (cases "limit = 0 \<or> rs_poisoned st")
  case True
  then show thesis using assms off unfolding check_key_def Let_def by (auto split: if_splits)
next
  case False
  let ?st1 = "pruned_if_due now (max window 1) st"
  let ?st2 = "prune_expired_buckets now (max window 1) ?st1"
  have eq: "check_key window key limit now st =
     (if map_of (rs_buckets ?st1) key = None \<and> length (rs_buckets ?st1) \<ge> MAX_RATE_LIMIT_BUCKETS
      then if length (rs_buckets ?st2) \<ge> MAX_RATE_LIMIT_BUCKETS then (Some (max window 1), ?st2)
           else count_request (max window 1) key limit now ?st2
      else count_request (max window 1) key limit now ?st1)"
    using False unfolding check_key_def pruned_if_due_def Let_def by simp
  show thesis
    using assms full prune [OF refl] count [OF refl] unfolding eq by (fastforce split: if_splits)
qed

lemma max_window_pos: "max (window :: u64) 1 \<noteq> 0"
  by (metis max.cobounded2 word_le_0_iff zero_neq_one)

lemma check_key_inv:
  assumes inv: "table_inv (max window 1) lim h before st" and now: "before \<le> unat now"
    and step: "check_key window key (lim key) now st = (r, st')"
  shows "table_inv (max window 1) lim (if r = None then (key, unat now) # h else h) (unat now) st'"
proof -
  let ?w = "max window 1"
  have st: "table_inv ?w lim h (unat now) st" using inv now by (rule table_inv_later)
  then have st1: "table_inv ?w lim h (unat now) (pruned_if_due now ?w st)"
    using prune_inv by (simp add: pruned_if_due_def)
  then have st2: "table_inv ?w lim h (unat now) (prune_expired_buckets now ?w (pruned_if_due now ?w st))"
    by (rule prune_inv)
  from step show ?thesis
  proof (cases rule: check_key_cases)
    case off then show ?thesis using st by auto
  next
    case full then show ?thesis using st2 by auto
  next
    case prune then show ?thesis using count_request_inv [OF st2 max_window_pos] by blast
  next
    case count then show ?thesis using count_request_inv [OF st1 max_window_pos] by blast
  qed
qed

section \<open>Runs of the limiter\<close>

text \<open>The requests a limiter admits out of a sequence, with their clock readings.\<close>

fun run_limiter ::
    "(u64 \<times> Request) list \<Rightarrow> RateLimiter \<Rightarrow> (u64 \<times> Request) list \<times> RateLimiter" where
  "run_limiter [] limiter = ([], limiter)"
| "run_limiter ((now, request) # rest) limiter =
     (let (r, limiter) = check_request now request limiter;
          (admitted, limiter) = run_limiter rest limiter
      in (if r = None then (now, request) # admitted else admitted, limiter))"

definition admitted_in :: "(u64 \<times> Request) list \<Rightarrow> nat \<Rightarrow> nat \<Rightarrow> nat" where
  "admitted_in admitted lo hi = length (filter (\<lambda>(t, q). lo \<le> unat t \<and> unat t < hi) admitted)"

definition admitted_of ::
    "TrustedProxyCidr list \<Rightarrow> (u64 \<times> Request) list \<Rightarrow> string \<Rightarrow> nat \<Rightarrow> nat \<Rightarrow> nat" where
  "admitted_of cidrs admitted k lo hi =
     length (filter (\<lambda>(t, q). rate_limit_subject q cidrs = k \<and> lo \<le> unat t \<and> unat t < hi) admitted)"

lemma admitted_simps [simp]:
  "admitted_in [] lo hi = 0" "admitted_of cidrs [] k lo hi = 0"
  "admitted_in ((t, q) # a) lo hi = (if lo \<le> unat t \<and> unat t < hi then 1 else 0) + admitted_in a lo hi"
  "admitted_of cidrs ((t, q) # a) k lo hi =
     (if rate_limit_subject q cidrs = k \<and> lo \<le> unat t \<and> unat t < hi then 1 else 0) + admitted_of cidrs a k lo hi"
  by (simp_all add: admitted_in_def admitted_of_def)

definition key_limit :: "RateLimitConfig \<Rightarrow> string \<Rightarrow> u64" where
  "key_limit config k =
     (case (if k = ''global'' then rl_global_per_window config else rl_subject_per_window config) of
        Some limit \<Rightarrow> limit | None \<Rightarrow> 0)"

lemma subject_not_global: "rate_limit_subject q cidrs \<noteq> ''global''"
  by (simp add: rate_limit_subject_def Let_def split: option.splits)

definition limiter_inv :: "(string \<times> nat) list \<Rightarrow> nat \<Rightarrow> RateLimiter \<Rightarrow> bool" where
  "limiter_inv h now limiter =
     table_inv (max (rl_window_secs (lm_config limiter)) 1) (key_limit (lm_config limiter)) h now (lm_state limiter)"

text \<open>The keys a request is counted under.\<close>

definition request_keys :: "RateLimiter \<Rightarrow> Request \<Rightarrow> string list" where
  "request_keys limiter q =
     (if rl_subject_per_window (lm_config limiter) = None then []
      else [rate_limit_subject q (lm_trusted_proxy_cidrs limiter)])
     @ (if rl_global_per_window (lm_config limiter) = None then [] else [''global''])"

lemma limiter_key_inv:
  assumes "limiter_inv h before limiter" and "before \<le> unat now"
    and "limit = key_limit (lm_config limiter) key"
    and "limiter_key key limit now limiter = (r, limiter')"
  shows "limiter_inv (if r = None then (key, unat now) # h else h) (unat now) limiter'
    \<and> lm_config limiter' = lm_config limiter
    \<and> lm_trusted_proxy_cidrs limiter' = lm_trusted_proxy_cidrs limiter"
proof -
  obtain st where "check_key (rl_window_secs (lm_config limiter)) key (key_limit (lm_config limiter) key) now (lm_state limiter) = (r, st)"
    "limiter' = limiter\<lparr>lm_state := st\<rparr>"
    using assms(3,4) by (auto simp: limiter_key_def split: prod.splits)
  with check_key_inv [OF assms(1) [unfolded limiter_inv_def] assms(2) this(1)]
  show ?thesis by (simp add: limiter_inv_def)
qed

lemma check_request_inv:
  assumes inv: "limiter_inv h before limiter" and now: "before \<le> unat now"
    and step: "check_request now q limiter = (r, limiter')"
  shows "lm_config limiter' = lm_config limiter
    \<and> lm_trusted_proxy_cidrs limiter' = lm_trusted_proxy_cidrs limiter
    \<and> (\<exists>h'. limiter_inv (h' @ h) (unat now) limiter'
         \<and> (r = None \<longrightarrow> h' = map (\<lambda>k. (k, unat now)) (request_keys limiter q)))"
proof -
  let ?c = "lm_config limiter" and ?s = "rate_limit_subject q (lm_trusted_proxy_cidrs limiter)"
  obtain g lg where g: "(case rl_global_per_window ?c of Some limit \<Rightarrow> limiter_key ''global'' limit now limiter
      | None \<Rightarrow> (None, limiter)) = (g, lg)" by fastforce
  let ?h = "if rl_global_per_window ?c = None \<or> g \<noteq> None then h else (''global'', unat now) # h"
  have here: "limiter_inv h (unat now) limiter"
    using inv now by (auto simp: limiter_inv_def intro: table_inv_later)
  have lg: "limiter_inv ?h (unat now) lg \<and> lm_config lg = ?c
      \<and> lm_trusted_proxy_cidrs lg = lm_trusted_proxy_cidrs limiter"
    using g here limiter_key_inv [OF inv now, of _ "''global''" g lg]
    by (auto simp: key_limit_def split: option.splits)
  show ?thesis
  proof (cases g)
    case (Some retry)
    then have "r = Some retry" "limiter' = lg"
      using step unfolding check_request_def g Let_def by auto
    then show ?thesis using lg Some by (auto intro!: exI [of _ "[]"])
  next
    case None
    show ?thesis
    proof (cases "rl_subject_per_window ?c")
      case subject: None
      then have "r = None" "limiter' = lg"
        using step None lg unfolding check_request_def g Let_def by auto
      then show ?thesis using lg None subject
        by (auto simp: request_keys_def intro!: exI [of _ "map (\<lambda>k. (k, unat now)) (request_keys limiter q)"])
    next
      case (Some limit)
      then have key: "limiter_key ?s limit now lg = (r, limiter')" and lim: "limit = key_limit (lm_config lg) ?s"
        using step None lg subject_not_global unfolding check_request_def g Let_def by (auto simp: key_limit_def)
      have inv': "limiter_inv (if r = None then (?s, unat now) # ?h else ?h) (unat now) limiter'"
        and same: "lm_config limiter' = ?c" "lm_trusted_proxy_cidrs limiter' = lm_trusted_proxy_cidrs limiter"
        using limiter_key_inv [OF conjunct1 [OF lg] _ lim key] lg by auto
      let ?h' = "(if r = None then [(?s, unat now)] else []) @ (if rl_global_per_window ?c = None then [] else [(''global'', unat now)])"
      have "limiter_inv (?h' @ h) (unat now) limiter'" using inv' None by (auto split: if_splits)
      moreover have "r = None \<longrightarrow> ?h' = map (\<lambda>k. (k, unat now)) (request_keys limiter q)"
        using Some by (simp add: request_keys_def)
      ultimately show ?thesis using same by blast
    qed
  qed
qed

lemma filter_keys_eq:
  "rl_global_per_window (lm_config limiter) \<noteq> None \<Longrightarrow>
     hits (map (\<lambda>k. (k, x)) (request_keys limiter q)) ''global'' lo hi = (if lo \<le> x \<and> x < hi then 1 else 0)"
  "rl_subject_per_window (lm_config limiter) \<noteq> None \<Longrightarrow> k \<noteq> ''global'' \<Longrightarrow>
     hits (map (\<lambda>k. (k, x)) (request_keys limiter q)) k lo hi
       = (if rate_limit_subject q (lm_trusted_proxy_cidrs limiter) = k \<and> lo \<le> x \<and> x < hi then 1 else 0)"
  using subject_not_global by (auto simp: request_keys_def)

lemma hits_append: "hits (h @ h') k lo hi = hits h k lo hi + hits h' k lo hi"
  by (simp add: hits_def)

lemma run_limiter_inv:
  assumes "sorted_wrt (\<le>) (map fst reqs)" and "\<forall>t \<in> fst ` set reqs. before \<le> unat t"
    and "limiter_inv h before limiter" and "run_limiter reqs limiter = (admitted, limiter')"
  shows "\<exists>h' now. limiter_inv h' now limiter' \<and> lm_config limiter' = lm_config limiter
    \<and> (\<forall>lo hi. rl_global_per_window (lm_config limiter) \<noteq> None \<longrightarrow>
          admitted_in admitted lo hi + hits h ''global'' lo hi \<le> hits h' ''global'' lo hi)
    \<and> (\<forall>k lo hi. rl_subject_per_window (lm_config limiter) \<noteq> None \<and> k \<noteq> ''global'' \<longrightarrow>
          admitted_of (lm_trusted_proxy_cidrs limiter) admitted k lo hi + hits h k lo hi \<le> hits h' k lo hi)"
  using assms
proof (induction reqs arbitrary: before h limiter admitted limiter')
  case Nil
  then show ?case by auto
next
  case (Cons p reqs)
  obtain now q where p: "p = (now, q)" by (cases p)
  obtain r l1 where r: "check_request now q limiter = (r, l1)" by (cases "check_request now q limiter")
  obtain a l2 where a: "run_limiter reqs l1 = (a, l2)" by (cases "run_limiter reqs l1")
  have adm: "admitted = (if r = None then (now, q) # a else a)" "limiter' = l2"
    using Cons.prems(4) by (auto simp: p r a)
  have same: "lm_config l1 = lm_config limiter" "lm_trusted_proxy_cidrs l1 = lm_trusted_proxy_cidrs limiter"
    and ex: "\<exists>h1. limiter_inv (h1 @ h) (unat now) l1 \<and> (r = None \<longrightarrow> h1 = map (\<lambda>k. (k, unat now)) (request_keys limiter q))"
    using check_request_inv [OF Cons.prems(3) _ r] Cons.prems(2) p by auto
  then obtain h1 where h1: "limiter_inv (h1 @ h) (unat now) l1"
    "r = None \<longrightarrow> h1 = map (\<lambda>k. (k, unat now)) (request_keys limiter q)" by blast
  have "\<forall>t \<in> fst ` set reqs. unat now \<le> unat t" using Cons.prems(1) p by (auto simp: word_le_nat_alt)
  moreover have "sorted_wrt (\<le>) (map fst reqs)" using Cons.prems(1) p by simp
  ultimately have "\<forall>t \<in> fst ` set reqs. unat now \<le> unat t" "sorted_wrt (\<le>) (map fst reqs)" by blast+
  from Cons.IH [OF this(2,1) h1(1) a] obtain h' now' where IH:
    "limiter_inv h' now' l2" "lm_config l2 = lm_config l1"
    "\<And>lo hi. rl_global_per_window (lm_config l1) \<noteq> None \<Longrightarrow>
        admitted_in a lo hi + hits (h1 @ h) ''global'' lo hi \<le> hits h' ''global'' lo hi"
    "\<And>k lo hi. rl_subject_per_window (lm_config l1) \<noteq> None \<Longrightarrow> k \<noteq> ''global'' \<Longrightarrow>
        admitted_of (lm_trusted_proxy_cidrs l1) a k lo hi + hits (h1 @ h) k lo hi \<le> hits h' k lo hi"
    by blast
  have "admitted_in admitted lo hi + hits h ''global'' lo hi \<le> hits h' ''global'' lo hi"
    if "rl_global_per_window (lm_config limiter) \<noteq> None" for lo hi
    using IH(3) [of lo hi] that same h1(2) filter_keys_eq(1) [OF that, of "unat now" q lo hi] adm
    by (auto simp: hits_append)
  moreover have "admitted_of (lm_trusted_proxy_cidrs limiter) admitted k lo hi + hits h k lo hi \<le> hits h' k lo hi"
    if "rl_subject_per_window (lm_config limiter) \<noteq> None" "k \<noteq> ''global''" for k lo hi
    using IH(4) [of k lo hi] that same h1(2) filter_keys_eq(2) [OF that, of "unat now" q lo hi] adm
    by (auto simp: hits_append split: if_splits)
  ultimately show ?case using IH(1) IH(2) [unfolded same(1)] unfolding adm(2) by blast
qed

lemma new_limiter_inv: "limiter_inv [] 0 (new_limiter config cidrs)"
  by (simp add: limiter_inv_def new_limiter_def table_inv_def key_inv_def)

lemma limiter_bound:
  "limiter_inv h now limiter \<Longrightarrow>
     hits h k t (t + unat (max (rl_window_secs (lm_config limiter)) 1)) \<le> 2 * unat (key_limit (lm_config limiter) k)"
  unfolding limiter_inv_def table_inv_def key_inv_def by blast

section \<open>Properties\<close>

text \<open>
  C29. The limiter bounds the load. Whatever the requests and their subjects, as long as the
  clock does not go back, in every interval of one window length at most twice the global
  limit of requests is admitted, and at most twice the subject limit for each subject; the
  table never holds more than 16384 buckets. (Twice, because an interval can meet two fixed
  windows.)
\<close>

theorem rate_limit_bound:
  assumes clock: "sorted_wrt (\<le>) (map fst reqs)"
    and run: "run_limiter reqs (new_limiter config cidrs) = (admitted, limiter)"
  shows "(\<forall>G t. rl_global_per_window config = Some G \<longrightarrow>
        admitted_in admitted t (t + unat (max (rl_window_secs config) 1)) \<le> 2 * unat G)
    \<and> (\<forall>S k t. rl_subject_per_window config = Some S \<longrightarrow>
        admitted_of cidrs admitted k t (t + unat (max (rl_window_secs config) 1)) \<le> 2 * unat S)
    \<and> length (rs_buckets (lm_state limiter)) \<le> MAX_RATE_LIMIT_BUCKETS"
proof -
  have cfg: "lm_config (new_limiter config cidrs) = config" "lm_trusted_proxy_cidrs (new_limiter config cidrs) = cidrs"
    by (simp_all add: new_limiter_def)
  obtain h now where h: "limiter_inv h now limiter" "lm_config limiter = config"
    "\<And>lo hi. rl_global_per_window config \<noteq> None \<Longrightarrow> admitted_in admitted lo hi \<le> hits h ''global'' lo hi"
    "\<And>k lo hi. rl_subject_per_window config \<noteq> None \<Longrightarrow> k \<noteq> ''global'' \<Longrightarrow>
        admitted_of cidrs admitted k lo hi \<le> hits h k lo hi"
    using run_limiter_inv [OF clock _ new_limiter_inv run] by (auto simp: cfg)
  have "admitted_of cidrs admitted ''global'' lo hi = 0" for lo hi
    using subject_not_global by (simp add: admitted_of_def split: prod.splits)
  then show ?thesis
    using h order_trans [OF h(3) limiter_bound [OF h(1), unfolded h(2), of "''global''"]]
      order_trans [OF h(4) limiter_bound [OF h(1), unfolded h(2)]]
    by (auto simp: key_limit_def limiter_inv_def table_inv_def)
      (metis (no_types, lifting) le0 option.distinct(1) option.simps(5))
qed

definition get_request :: "string \<Rightarrow> IpAddr option \<Rightarrow> HeaderMap \<Rightarrow> Request" where
  "get_request path peer headers =
     \<lparr>rq_method = ''GET'', rq_path = path, rq_query = None, rq_headers = headers, rq_peer = peer, rq_body = []\<rparr>"

definition demo_requests :: "(u64 \<times> Request) list" where
  "demo_requests =
     [(5, get_request ''/api/v1/tasks'' None []), (9, get_request ''/api/v1/tasks'' None []),
      (11, get_request ''/api/v1/tasks'' None [])]"

definition demo_limits :: RateLimitConfig where
  "demo_limits = \<lparr>rl_window_secs = 10, rl_global_per_window = Some 1, rl_subject_per_window = Some 1\<rparr>"

theorem rate_limit_bound_witness:
  "admitted_in (fst (run_limiter demo_requests (new_limiter demo_limits []))) 5 15 \<le> 2"
proof -
  have "sorted_wrt (\<le>) (map fst demo_requests)" by (simp add: demo_requests_def)
  note bound = conjunct1 [OF rate_limit_bound [OF this surjective_pairing, of demo_limits "[]"]]
  have "rl_global_per_window demo_limits = Some 1" and "unat (max (rl_window_secs demo_limits) 1) = 10"
    by (simp_all add: demo_limits_def unat_max_word)
  with bound [rule_format, of 1 5] show ?thesis by simp
qed

lemma check_key_length:
  assumes "length (rs_buckets st) \<le> MAX_RATE_LIMIT_BUCKETS"
    and "check_key window key limit now st = (r, st')"
  shows "length (rs_buckets st') \<le> MAX_RATE_LIMIT_BUCKETS"
proof -
  have prune: "length (rs_buckets (prune_expired_buckets n w s)) \<le> length (rs_buckets s)" for n w s
    by (simp add: prune_expired_buckets_def length_retain_le)
  have count: "length (rs_buckets s') \<le> MAX_RATE_LIMIT_BUCKETS"
    if "count_request w key limit now s = (r, s')" "length (rs_buckets s) \<le> MAX_RATE_LIMIT_BUCKETS"
      "map_of (rs_buckets s) key \<noteq> None \<or> length (rs_buckets s) < MAX_RATE_LIMIT_BUCKETS" for w s s'
    using that by (auto simp: count_request_eq Let_def length_update split: if_splits)
  have st1: "length (rs_buckets (pruned_if_due now w st)) \<le> MAX_RATE_LIMIT_BUCKETS" for w
    using assms(1) prune order_trans by (auto simp: pruned_if_due_def) blast
  from assms(2) show ?thesis
  proof (cases rule: check_key_cases)
    case off then show ?thesis using assms(1) by simp
  next
    case full then show ?thesis using order_trans [OF prune st1] by simp
  next
    case prune then show ?thesis using count [OF prune(3)] by simp
  next
    case count': count then show ?thesis using count [OF count'(3)] st1 by simp
  qed
qed

lemma check_key_expired:
  assumes "limit \<noteq> 0" and "\<not> rs_poisoned st" and "length (rs_buckets st) \<le> MAX_RATE_LIMIT_BUCKETS"
    and wf: "wf_map (rs_buckets st)"
    and b: "map_of (rs_buckets st) key = Some b" and dead: "bucket_dead (max window 1) b now"
  shows "fst (check_key window key limit now st) = None"
proof -
  let ?w = "max window 1"
  have fresh: "fst (count_request ?w key limit now s) = None"
    if "map_of (rs_buckets s) key = None \<or> map_of (rs_buckets s) key = Some b" for s
    using that dead assms(1) by (auto simp: count_request_eq current_bucket_def Let_def word_le_0_iff)
  have pruned: "map_of (rs_buckets (prune_expired_buckets now ?w st)) key = None"
    using b dead by (simp add: prune_buckets bucket_store.sweep_lookup [OF wf])
  have live: "\<not> saturating_sub now (rb_window_started_at b) < ?w"
    using dead unfolding bucket_dead_def not_less .
  have "(key, b) \<in> set (rs_buckets st)" using b by (rule map_of_SomeD)
  then have "length (rs_buckets (prune_expired_buckets now ?w st)) < length (rs_buckets st)"
    using live unfolding prune_buckets live_buckets_def retain_def
    by (intro length_filter_less [of "(key, b)"]) simp_all
  then have small: "length (rs_buckets (prune_expired_buckets now ?w st)) < MAX_RATE_LIMIT_BUCKETS"
    using assms(3) by simp
  show ?thesis
    using assms(1,2) fresh [of st] fresh [of "prune_expired_buckets now ?w st"] b pruned small
    unfolding check_key_def Let_def by simp
qed

lemma max_one_nat: "unat (max (x :: u64) 1) = max (unat x) 1"
  by (simp add: unat_max_word)

lemma count_retry:
  assumes "count_request w key limit now st = (Some r, st')"
  shows "r = max (saturating_sub w (saturating_sub now (rb_window_started_at (current_bucket w now (map_of (rs_buckets st) key))))) 1
    \<and> map_of (rs_buckets st') key = Some (current_bucket w now (map_of (rs_buckets st) key))"
  using assms by (auto simp: count_request_eq Let_def split: if_splits)

lemma retry_after_bounds:
  assumes "check_key window key limit now st = (Some r, st')"
  shows "1 \<le> r \<and> r \<le> max window 1"
proof -
  have count: "1 \<le> r \<and> r \<le> max window 1" if "count_request (max window 1) key limit now s = (Some r, st')" for s
    using count_retry [OF that] by (simp add: word_le_nat_alt unat_max_word unat_saturating_sub)
  from assms show ?thesis
    by (cases rule: check_key_cases) (use count in \<open>auto simp: word_le_nat_alt unat_max_word\<close>)
qed

text \<open>
  The answer to a refused request is honest: the time to wait is between one second and
  the window length, and a client that is refused because of its own count and retries after
  exactly that time, with nothing else in between, is admitted.
\<close>

lemma retry_after_is_enough:
  assumes refused: "check_key window key limit now st = (Some r, st')"
    and st: "limit \<noteq> 0" "\<not> rs_poisoned st" "wf_map (rs_buckets st)" "length (rs_buckets st) \<le> MAX_RATE_LIMIT_BUCKETS"
    and own: "map_of (rs_buckets st') key = Some b" and clock: "rb_window_started_at b \<le> now"
    and fits: "unat now + unat r < 2 ^ 64"
  shows "1 \<le> r \<and> r \<le> max window 1 \<and> fst (check_key window key limit (now + r) st') = None"
proof -
  let ?w = "max window 1"
  have st1: "wf_map (rs_buckets (pruned_if_due now ?w st))" "\<not> rs_poisoned (pruned_if_due now ?w st)"
    using st by (simp_all add: pruned_if_due_def prune_buckets bucket_store.sweep_wf prune_expired_buckets_def)
  have counted: "r = max (saturating_sub ?w (saturating_sub now (rb_window_started_at b))) 1
      \<and> wf_map (rs_buckets st') \<and> \<not> rs_poisoned st'"
    if "count_request ?w key limit now s = (Some r, st')" "wf_map (rs_buckets s)" "\<not> rs_poisoned s" for s
    using count_retry [OF that(1)] own that by (auto simp: count_request_eq Let_def split: if_splits)
  from refused have "r = max (saturating_sub ?w (saturating_sub now (rb_window_started_at b))) 1
      \<and> wf_map (rs_buckets st') \<and> \<not> rs_poisoned st'"
  proof (cases rule: check_key_cases)
    case off then show ?thesis using st by simp
  next
    case full
    then have "map_of (rs_buckets st') key = None"
      using st1(1) by (simp add: prune_buckets bucket_store.sweep_lookup)
    then show ?thesis using own by simp
  next
    case (prune s)
    then show ?thesis using counted st1
      by (simp add: prune_buckets bucket_store.sweep_wf prune_expired_buckets_def)
  next
    case (count s)
    then show ?thesis using counted st1 by blast
  qed
  then have r: "r = max (saturating_sub ?w (saturating_sub now (rb_window_started_at b))) 1"
    and st': "wf_map (rs_buckets st')" "\<not> rs_poisoned st'" by blast+
  have "unat ?w \<le> (unat now - unat (rb_window_started_at b)) + unat r"
    unfolding r unat_max_word [of _ 1] unat_saturating_sub by linarith
  moreover have "unat (now + r) = unat now + unat r" using fits unat_add_lem [of now r] by simp
  ultimately have "bucket_dead ?w b (now + r)"
    using clock by (simp add: bucket_dead_nat word_le_nat_alt)
  then have "fst (check_key window key limit (now + r) st') = None"
    using check_key_expired [OF st(1) st'(2) check_key_length [OF st(4) refused] st'(1) own] by blast
  then show ?thesis using retry_after_bounds [OF refused] by blast
qed

definition demo_table :: RateLimitState where
  "demo_table =
     \<lparr>rs_poisoned = False, rs_buckets = [(''k'', \<lparr>rb_window_started_at = 5, rb_count = 1\<rparr>)],
      rs_last_pruned_at = 9\<rparr>"

lemma retry_after_is_enough_witness:
  "check_key 10 ''k'' 1 9 demo_table = (Some 6, demo_table) \<and> fst (check_key 10 ''k'' 1 15 demo_table) = None"
proof -
  have r: "check_key 10 ''k'' 1 9 demo_table = (Some 6, demo_table)"
    by (simp add: check_key_def count_request_def demo_table_def saturating_sub_def MAX_RATE_LIMIT_BUCKETS_def max_def Let_def word_le_nat_alt)
  have "fst (check_key 10 ''k'' 1 (9 + 6) demo_table) = None"
    using retry_after_is_enough [OF r, of "\<lparr>rb_window_started_at = 5, rb_count = 1\<rparr>"]
    by (simp add: demo_table_def MAX_RATE_LIMIT_BUCKETS_def wf_map_def)
  with r show ?thesis by simp
qed

section \<open>Properties of the subjects\<close>

lemma digit_char_not_comma: "d < 10 \<Longrightarrow> digit_char d \<noteq> CHR '',''"
proof
  assume "d < 10" and "digit_char d = CHR '',''"
  then have "dec_digit (CHR '','') = Some d" using dec_digit_char by metis
  then show False by (simp add: dec_digit_def)
qed

lemma split_on_append: "d \<notin> set s \<Longrightarrow> hd (split_on d (s @ d # r)) = s"
proof (induction s)
  case (Cons c s)
  then show ?case by (cases "split_on d (s @ d # r)") auto
qed simp

text \<open>
  Whose address a request is charged to: with an untrusted peer it is the peer's and no
  \<open>X-Forwarded-For\<close> value changes the subject; with a trusted one it is the first entry of
  the header when that is an address, and the peer's when the header is not text.
\<close>

lemma source_attribution:
  assumes "rq_peer q = Some peer"
  shows "(\<not> is_trusted cidrs peer \<longrightarrow>
        rate_limit_subject (q\<lparr>rq_headers := AList.update ''x-forwarded-for'' v (rq_headers q)\<rparr>) cidrs
          = rate_limit_subject q cidrs
        \<and> source_ip q cidrs = Some peer)
    \<and> (is_trusted cidrs peer \<longrightarrow>
        source_ip (q\<lparr>rq_headers := AList.update ''x-forwarded-for'' (Text (show_ipv4 a @ '','' @ rest)) (rq_headers q)\<rparr>) cidrs
          = Some (V4 a)
        \<and> source_ip (q\<lparr>rq_headers := AList.update ''x-forwarded-for'' (Opaque bytes) (rq_headers q)\<rparr>) cidrs
          = Some peer)"
proof -
  have comma: "CHR '','' \<notin> set (show_ipv4 a)"
    using split_show_ipv4 [of a] digit_char_not_comma by force
  have "trim (show_ipv4 a) = show_ipv4 a" by (rule trim_show_ipv4)
  then have first: "parse_ip (trim (hd (split_on (CHR '','') (show_ipv4 a @ CHR '','' # rest)))) = Some (V4 a)"
    by (simp add: split_on_append [OF comma] parse_show_ipv4)
  show ?thesis
  proof (cases "is_trusted cidrs peer")
    case True
    then show ?thesis using assms first by (simp add: source_ip_def forwarded_for_client_ip_def)
  next
    case False
    then have ip: "source_ip q cidrs = Some peer"
      "source_ip (q\<lparr>rq_headers := AList.update ''x-forwarded-for'' v (rq_headers q)\<rparr>) cidrs = Some peer"
      using assms by (simp_all add: source_ip_def)
    then have same: "source_subject (q\<lparr>rq_headers := AList.update ''x-forwarded-for'' v (rq_headers q)\<rparr>) cidrs
        = source_subject q cidrs" by (simp add: source_subject_def)
    have "rate_limit_subject (q\<lparr>rq_headers := AList.update ''x-forwarded-for'' v (rq_headers q)\<rparr>) cidrs
        = rate_limit_subject q cidrs" unfolding rate_limit_subject_def same by simp
    then show ?thesis using False ip by simp
  qed
qed

lemma source_attribution_witness:
  "source_ip (get_request ''/api/v1/session'' (Some (V4 (Ipv4Addr 10 0 0 1)))
      [(''x-forwarded-for'', Text ''1.2.3.4, 5.6.7.8'')]) [\<lparr>cidr_network = V4 (Ipv4Addr 10 0 0 0), cidr_prefix_len = 8\<rparr>]
     = Some (V4 (Ipv4Addr 1 2 3 4))"
proof -
  let ?c = "[\<lparr>cidr_network = V4 (Ipv4Addr 10 0 0 0), cidr_prefix_len = 8\<rparr>]"
  let ?q = "get_request ''/api/v1/session'' (Some (V4 (Ipv4Addr 10 0 0 1))) []"
  have t: "is_trusted ?c (V4 (Ipv4Addr 10 0 0 1))" by code_simp
  have s: "show_ipv4 (Ipv4Addr 1 2 3 4) = ''1.2.3.4''" by code_simp
  have "rq_peer ?q = Some (V4 (Ipv4Addr 10 0 0 1))" by (simp add: get_request_def)
  from source_attribution [OF this, of ?c undefined "Ipv4Addr 1 2 3 4" "'' 5.6.7.8''" "[]"] t
  show ?thesis by (simp add: get_request_def s)
qed

text \<open>How a request identifies itself.\<close>

datatype SubjectKind = SessionSource | BearerToken string | BasicCredentials string | AnonymousSource

definition subject_kind :: "Request \<Rightarrow> SubjectKind" where
  "subject_kind q =
     (if rq_path q = ''/api/v1/session'' then SessionSource
      else case header_text (rq_headers q) ''authorization'' of
             None \<Rightarrow> AnonymousSource
           | Some auth \<Rightarrow>
               (case strip_prefix ''Bearer '' auth of
                  Some t \<Rightarrow> BearerToken (stable_hash t)
                | None \<Rightarrow> (case strip_prefix ''Basic '' auth of
                             Some c \<Rightarrow> BasicCredentials (stable_hash c) | None \<Rightarrow> AnonymousSource)))"

lemma rate_limit_subject_kind:
  "rate_limit_subject q cidrs =
     (case subject_kind q of
        SessionSource \<Rightarrow> ''session-create:'' @ source_subject q cidrs
      | BearerToken h \<Rightarrow> ''bearer:'' @ h
      | BasicCredentials h \<Rightarrow> ''basic:'' @ h
      | AnonymousSource \<Rightarrow> ''anonymous:'' @ source_subject q cidrs)"
  by (simp add: rate_limit_subject_def subject_kind_def Let_def split: option.splits)

text \<open>
  Subjects do not mix: requests that share a bucket identify themselves in the same way,
  with the same token hash where they carry a token, and, where they are told apart by their
  address, with the same IPv4 address.
\<close>

lemma subjects_do_not_mix:
  assumes "rate_limit_subject q cidrs = rate_limit_subject q' cidrs"
  shows "subject_kind q = subject_kind q'
    \<and> (subject_kind q \<in> {SessionSource, AnonymousSource} \<and> source_ip q cidrs = Some (V4 a)
        \<and> source_ip q' cidrs = Some (V4 a') \<longrightarrow> a = a')"
proof -
  have "a = a'" if "show_ipv4 a = show_ipv4 a'"
    using that parse_show_ipv4 by (metis IpAddr.inject(1) option.inject)
  then show ?thesis
    using assms by (auto simp: rate_limit_subject_kind source_subject_def split: SubjectKind.splits)
qed

lemma subjects_do_not_mix_witness:
  "subject_kind (get_request ''/api/v1/tasks'' (Some (V4 (Ipv4Addr 10 0 0 1))) [])
     = subject_kind (get_request ''/api/v1/reports'' (Some (V4 (Ipv4Addr 10 0 0 1))) [])"
proof (rule conjunct1 [OF subjects_do_not_mix [where cidrs = "[]"]])
  show "rate_limit_subject (get_request ''/api/v1/tasks'' (Some (V4 (Ipv4Addr 10 0 0 1))) []) []
    = rate_limit_subject (get_request ''/api/v1/reports'' (Some (V4 (Ipv4Addr 10 0 0 1))) []) []"
    by (simp add: rate_limit_subject_def get_request_def header_text_def header_get_def source_subject_def source_ip_def is_trusted_def)
qed

text \<open>The hash agrees with the published values of the code's own tests.\<close>

lemma stable_hash_vectors:
  "stable_hash ''gvm_sess_secret'' = ''7731b204acf83e17''"
  "stable_hash ''YWRtaW46YWRtaW4='' = ''53cfaadc3e07c384''"
  by code_simp+

end
