(* ===== verification/Shutdown.thy ===== *)
theory Shutdown
  imports Prelude
begin

text \<open>
  Graceful shutdown, \<open>crates/gvm-gateway-rest/src/shutdown.rs\<close>. The operations are sequences of
  atomic accesses that several threads interleave; the step relation below has one step for
  each access, in any order, as a sequentially consistent memory gives them. The number of
  requests is a natural number: it never comes near the width of \<open>usize\<close>.
\<close>

section \<open>The runtime and its atomic accesses\<close>

datatype ShutdownPhase = Running | Draining | Stopped

text \<open>
  \<open>sr_watch\<close>, \<open>sr_version\<close> and \<open>sr_receivers\<close> are the watch channel, whose \<open>send\<close> does nothing
  while it has no receiver; \<open>sr_notified\<close> counts the calls of \<open>notify_waiters\<close>, each of which
  completes the futures created before it.
\<close>

record ShutdownRuntime =
  sr_phase :: ShutdownPhase
  sr_in_flight :: nat
  sr_watch :: ShutdownPhase
  sr_version :: nat
  sr_receivers :: nat
  sr_notified :: nat

definition new_shutdown :: ShutdownRuntime where
  "new_shutdown =
     \<lparr>sr_phase = Running, sr_in_flight = 0, sr_watch = Running, sr_version = 0, sr_receivers = 0,
      sr_notified = 0\<rparr>"

definition from_u8 :: "u8 \<Rightarrow> ShutdownPhase" where
  "from_u8 v = (if v = 1 then Draining else if v = 2 then Stopped else Running)"

definition is_shutting_down :: "ShutdownRuntime \<Rightarrow> bool" where
  "is_shutting_down r = (sr_phase r \<noteq> Running)"

definition watch_send :: "ShutdownPhase \<Rightarrow> ShutdownRuntime \<Rightarrow> ShutdownRuntime" where
  "watch_send p r =
     (if sr_receivers r = 0 then r else r\<lparr>sr_watch := p, sr_version := sr_version r + 1\<rparr>)"

definition notify_waiters :: "ShutdownRuntime \<Rightarrow> ShutdownRuntime" where
  "notify_waiters r = r\<lparr>sr_notified := sr_notified r + 1\<rparr>"

definition notify_if_drained :: "ShutdownRuntime \<Rightarrow> ShutdownRuntime" where
  "notify_if_drained r = (if sr_in_flight r = 0 then notify_waiters r else r)"

text \<open>The operations when nothing interferes.\<close>

definition begin_shutdown :: "ShutdownRuntime \<Rightarrow> bool \<times> ShutdownRuntime" where
  "begin_shutdown r =
     (if sr_phase r = Running
      then (True, notify_if_drained (watch_send Draining (r\<lparr>sr_phase := Draining\<rparr>)))
      else (False, r))"

definition mark_stopped :: "ShutdownRuntime \<Rightarrow> ShutdownRuntime" where
  "mark_stopped r = notify_waiters (watch_send Stopped (r\<lparr>sr_phase := Stopped\<rparr>))"

definition finish_request :: "ShutdownRuntime \<Rightarrow> ShutdownRuntime" where
  "finish_request r =
     (let previous = sr_in_flight r; r = r\<lparr>sr_in_flight := previous - 1\<rparr>
      in if previous = 1 \<and> is_shutting_down r then notify_waiters r else r)"

definition try_track_request :: "ShutdownRuntime \<Rightarrow> bool \<times> ShutdownRuntime" where
  "try_track_request r =
     (if is_shutting_down r then (False, r)
      else
        let r = r\<lparr>sr_in_flight := sr_in_flight r + 1\<rparr>
        in if is_shutting_down r then (False, finish_request r) else (True, r))"

section \<open>Threads\<close>

text \<open>
  Where a request is: before the first check, after it, counted but not yet admitted,
  admitted, about to give its count back, after that with the previous count it read, over.
\<close>

datatype (plugins only: code size) RequestPc =
    ReqStart | ReqChecked | ReqCounted | ReqAdmitted | ReqReleasing | ReqReleased nat | ReqOver

datatype BeginPc = BeginStart | BeginSwapped | BeginSent | BeginOver

text \<open>\<open>wait_for_zero_in_flight\<close>: it waits on a future created when \<open>sr_notified\<close> had the given value.\<close>

datatype ZeroPc = ZeroLoad | ZeroCreate | ZeroWait nat | ZeroReturned

text \<open>\<open>wait_for_shutdown_start\<close>: a receiver has seen the given version.\<close>

datatype (plugins only: code size) StartPc = StartCheck | StartSubscribe | StartBorrow nat | StartWait nat | StartReturned

record DrainSystem =
  ds_runtime :: ShutdownRuntime
  ds_requests :: "RequestPc list"
  ds_begin :: BeginPc
  ds_zero :: ZeroPc
  ds_start :: StartPc

definition initial_drain :: "DrainSystem \<Rightarrow> bool" where
  "initial_drain s \<longleftrightarrow>
     s = \<lparr>ds_runtime = new_shutdown, ds_requests = [], ds_begin = BeginStart, ds_zero = ZeroLoad,
          ds_start = StartCheck\<rparr>"

text \<open>One atomic access of a request.\<close>

fun request_step :: "ShutdownRuntime \<Rightarrow> RequestPc \<Rightarrow> (ShutdownRuntime \<times> RequestPc) option" where
  "request_step r ReqStart = Some (r, if is_shutting_down r then ReqOver else ReqChecked)"
| "request_step r ReqChecked = Some (r\<lparr>sr_in_flight := sr_in_flight r + 1\<rparr>, ReqCounted)"
| "request_step r ReqCounted = Some (r, if is_shutting_down r then ReqReleasing else ReqAdmitted)"
| "request_step r ReqAdmitted = Some (r, ReqReleasing)"
| "request_step r ReqReleasing = Some (r\<lparr>sr_in_flight := sr_in_flight r - 1\<rparr>, ReqReleased (sr_in_flight r))"
| "request_step r (ReqReleased previous) =
     Some (if previous = 1 \<and> is_shutting_down r then notify_waiters r else r, ReqOver)"
| "request_step r ReqOver = None"

fun begin_step :: "ShutdownRuntime \<Rightarrow> BeginPc \<Rightarrow> (ShutdownRuntime \<times> BeginPc) option" where
  "begin_step r BeginStart =
     Some (if sr_phase r = Running then (r\<lparr>sr_phase := Draining\<rparr>, BeginSwapped) else (r, BeginOver))"
| "begin_step r BeginSwapped = Some (watch_send Draining r, BeginSent)"
| "begin_step r BeginSent = Some (notify_if_drained r, BeginOver)"
| "begin_step r BeginOver = None"

fun zero_step :: "ShutdownRuntime \<Rightarrow> ZeroPc \<Rightarrow> ZeroPc option" where
  "zero_step r ZeroLoad = Some (if sr_in_flight r = 0 then ZeroReturned else ZeroCreate)"
| "zero_step r ZeroCreate = Some (ZeroWait (sr_notified r))"
| "zero_step r (ZeroWait n) = (if n < sr_notified r then Some ZeroLoad else None)"
| "zero_step r ZeroReturned = None"

fun start_step :: "ShutdownRuntime \<Rightarrow> StartPc \<Rightarrow> (ShutdownRuntime \<times> StartPc) option" where
  "start_step r StartCheck = Some (r, if is_shutting_down r then StartReturned else StartSubscribe)"
| "start_step r StartSubscribe = Some (r\<lparr>sr_receivers := sr_receivers r + 1\<rparr>, StartBorrow (sr_version r))"
| "start_step r (StartBorrow v) = Some (r, if sr_watch r \<noteq> Running then StartReturned else StartWait v)"
| "start_step r (StartWait v) = (if sr_version r \<noteq> v then Some (r, StartBorrow (sr_version r)) else None)"
| "start_step r StartReturned = None"

inductive drain_step :: "DrainSystem \<Rightarrow> DrainSystem \<Rightarrow> bool" where
  arrive: "drain_step s (s\<lparr>ds_requests := ds_requests s @ [ReqStart]\<rparr>)"
| request: "i < length (ds_requests s) \<Longrightarrow> request_step (ds_runtime s) (ds_requests s ! i) = Some (r, pc) \<Longrightarrow>
     drain_step s (s\<lparr>ds_runtime := r, ds_requests := (ds_requests s)[i := pc]\<rparr>)"
| stop: "begin_step (ds_runtime s) (ds_begin s) = Some (r, pc) \<Longrightarrow>
     drain_step s (s\<lparr>ds_runtime := r, ds_begin := pc\<rparr>)"
| zero: "zero_step (ds_runtime s) (ds_zero s) = Some pc \<Longrightarrow> drain_step s (s\<lparr>ds_zero := pc\<rparr>)"
| start: "start_step (ds_runtime s) (ds_start s) = Some (r, pc) \<Longrightarrow>
     drain_step s (s\<lparr>ds_runtime := r, ds_start := pc\<rparr>)"

inductive_cases drain_stepE: "drain_step s t"

section \<open>The count is exact\<close>

definition counted :: "RequestPc \<Rightarrow> bool" where
  "counted pc = (pc = ReqCounted \<or> pc = ReqAdmitted \<or> pc = ReqReleasing)"

definition count_exact :: "DrainSystem \<Rightarrow> bool" where
  "count_exact s \<longleftrightarrow> sr_in_flight (ds_runtime s) = length (filter counted (ds_requests s))"

lemma counted_simps [simp]:
  "\<not> counted ReqStart" "\<not> counted ReqChecked" "counted ReqCounted" "counted ReqAdmitted"
  "counted ReqReleasing" "\<not> counted (ReqReleased n)" "\<not> counted ReqOver"
  by (simp_all add: counted_def)

lemma filter_update_length:
  assumes "i < length xs"
  shows "length (filter p (xs[i := y])) + (if p (xs ! i) then 1 else 0)
    = length (filter p xs) + (if p y then 1 else 0)"
  using assms
proof (induction xs arbitrary: i)
  case (Cons x xs)
  then show ?case by (cases i) auto
qed simp

lemma request_step_count:
  "request_step r pc = Some (r', pc') \<Longrightarrow>
     (counted pc \<longrightarrow> 0 < sr_in_flight r) \<Longrightarrow>
     sr_in_flight r' + (if counted pc then 1 else 0) = sr_in_flight r + (if counted pc' then 1 else 0)
     \<and> sr_phase r' = sr_phase r"
  by (cases pc) (auto simp: notify_waiters_def split: if_splits)

lemma begin_step_frame:
  "begin_step r pc = Some (r', pc') \<Longrightarrow>
     sr_in_flight r' = sr_in_flight r \<and> (is_shutting_down r \<longrightarrow> is_shutting_down r')"
  by (cases pc) (auto simp: watch_send_def notify_if_drained_def notify_waiters_def is_shutting_down_def split: if_splits)

lemma start_step_frame:
  "start_step r pc = Some (r', pc') \<Longrightarrow> sr_in_flight r' = sr_in_flight r \<and> sr_phase r' = sr_phase r"
  by (cases pc) (auto split: if_splits)

lemma counted_member: "i < length xs \<Longrightarrow> counted (xs ! i) \<Longrightarrow> 0 < length (filter counted xs)"
  by (metis filter_empty_conv length_greater_0_conv nth_mem)

lemma count_exact_step:
  assumes "count_exact s" and "drain_step s t"
  shows "count_exact t"
  using assms(2)
proof cases
  case (request i r pc)
  have "sr_in_flight r + (if counted (ds_requests s ! i) then 1 else 0)
      = sr_in_flight (ds_runtime s) + (if counted pc then 1 else 0)"
    using request_step_count [OF request(3)] counted_member [OF request(2)] assms(1)
    by (auto simp: count_exact_def)
  then show ?thesis
    using filter_update_length [OF request(2), of counted pc] assms(1) request(1)
    by (simp add: count_exact_def)
qed (use assms(1) begin_step_frame start_step_frame in \<open>auto simp: count_exact_def\<close>)

interpretation drain: safe_machine initial_drain drain_step count_exact
proof unfold_locales
  show "initial_drain s \<Longrightarrow> count_exact s" for s
    by (simp add: initial_drain_def count_exact_def new_shutdown_def)
qed (rule count_exact_step)

section \<open>Nobody is admitted after the drain\<close>

definition quiet :: "DrainSystem \<Rightarrow> bool" where
  "quiet s \<longleftrightarrow> is_shutting_down (ds_runtime s) \<and> ReqAdmitted \<notin> set (ds_requests s)"

lemma request_step_admit:
  "request_step r pc = Some (r', ReqAdmitted) \<Longrightarrow> \<not> is_shutting_down r"
  by (cases pc) (auto split: if_splits)

lemma quiet_step:
  assumes "quiet s" and "drain_step s t"
  shows "quiet t"
  using assms(2)
proof cases
  case (request i r pc)
  have "sr_phase r = sr_phase (ds_runtime s)"
    using request(3) by (cases "ds_requests s ! i") (auto simp: notify_waiters_def split: if_splits)
  moreover have "pc \<noteq> ReqAdmitted" using request_step_admit request(3) assms(1) by (auto simp: quiet_def)
  ultimately show ?thesis
    using assms(1) request(1) set_update_subset_insert [of "ds_requests s" i pc]
    by (auto simp: quiet_def is_shutting_down_def)
qed (use assms(1) begin_step_frame start_step_frame in \<open>auto simp: quiet_def is_shutting_down_def\<close>)

lemma drained_quiet:
  "count_exact s \<Longrightarrow> is_shutting_down (ds_runtime s) \<Longrightarrow> sr_in_flight (ds_runtime s) = 0 \<Longrightarrow> quiet s"
  by (auto simp: quiet_def count_exact_def filter_empty_conv)

section \<open>The waiter for the drain\<close>

text \<open>
  A waiter whose future exists while a request is still counted is woken: as long as it has
  not been, some request is counted or is about to notify.
\<close>

definition wake_pending :: "nat \<Rightarrow> DrainSystem \<Rightarrow> bool" where
  "wake_pending n s \<longleftrightarrow>
     is_shutting_down (ds_runtime s) \<and> n \<le> sr_notified (ds_runtime s)
     \<and> (n < sr_notified (ds_runtime s) \<or> 0 < sr_in_flight (ds_runtime s) \<or> ReqReleased 1 \<in> set (ds_requests s))"

lemma set_update_other: "i < length xs \<Longrightarrow> xs ! i \<noteq> x \<Longrightarrow> x \<in> set xs \<Longrightarrow> x \<in> set (xs[i := y])"
  by (metis in_set_conv_nth length_list_update nth_list_update_neq)

lemma begin_step_notified: "begin_step r pc = Some (r', pc') \<Longrightarrow> sr_notified r \<le> sr_notified r'"
  by (cases pc) (auto simp: watch_send_def notify_if_drained_def notify_waiters_def split: if_splits)

lemma start_step_notified: "start_step r pc = Some (r', pc') \<Longrightarrow> sr_notified r' = sr_notified r"
  by (cases pc) (auto split: if_splits)

lemma wake_pending_step:
  assumes "wake_pending n s" and "drain_step s t"
  shows "wake_pending n t"
  using assms(2)
proof cases
  case (request i r pc)
  let ?pc = "ds_requests s ! i"
  have phase: "sr_phase r = sr_phase (ds_runtime s)" and mono: "sr_notified (ds_runtime s) \<le> sr_notified r"
    using request(3) by (cases ?pc; auto simp: notify_waiters_def split: if_splits)+
  consider (woken) "n < sr_notified (ds_runtime s)"
    | (releasing) "?pc = ReqReleasing" "0 < sr_in_flight (ds_runtime s)"
    | (notify) "?pc = ReqReleased 1"
    | (other) "?pc \<noteq> ReqReleasing" "?pc \<noteq> ReqReleased 1"
        "0 < sr_in_flight (ds_runtime s) \<or> ReqReleased 1 \<in> set (ds_requests s)"
    | (last) "?pc = ReqReleasing" "sr_in_flight (ds_runtime s) = 0" "ReqReleased 1 \<in> set (ds_requests s)"
    using assms(1) by (auto simp: wake_pending_def)
  then show ?thesis
  proof cases
    case woken then show ?thesis using assms(1) request(1) phase mono by (auto simp: wake_pending_def is_shutting_down_def)
  next
    case releasing
    then have "r = (ds_runtime s)\<lparr>sr_in_flight := sr_in_flight (ds_runtime s) - 1\<rparr>"
      "pc = ReqReleased (sr_in_flight (ds_runtime s))" using request(3) by auto
    then show ?thesis using releasing(2) assms(1) request(1,2) set_update_memI [OF request(2), of pc]
      by (cases "sr_in_flight (ds_runtime s) = 1") (auto simp: wake_pending_def is_shutting_down_def)
  next
    case notify
    then have "sr_notified r = sr_notified (ds_runtime s) + 1 \<and> sr_in_flight r = sr_in_flight (ds_runtime s)"
      using request(3) assms(1) by (auto simp: wake_pending_def notify_waiters_def)
    then show ?thesis using assms(1) request(1) phase by (auto simp: wake_pending_def is_shutting_down_def)
  next
    case other
    then have "sr_in_flight (ds_runtime s) \<le> sr_in_flight r"
      using request(3) by (cases ?pc) (auto simp: notify_waiters_def split: if_splits)
    then show ?thesis using other assms(1) request(1,2) phase mono set_update_other [OF request(2), of "ReqReleased 1" pc]
      by (auto simp: wake_pending_def is_shutting_down_def)
  next
    case last
    then show ?thesis using assms(1) request(1,2,3) phase mono set_update_other [OF request(2), of "ReqReleased 1" pc]
      by (auto simp: wake_pending_def is_shutting_down_def)
  qed
next
  case (stop r pc)
  then show ?thesis
    using assms(1) begin_step_frame [OF stop(2)] begin_step_notified [OF stop(2)] by (auto simp: wake_pending_def)
next
  case (start r pc)
  then show ?thesis
    using assms(1) start_step_frame [OF start(2)] start_step_notified [OF start(2)]
    by (simp add: wake_pending_def is_shutting_down_def)
qed (use assms(1) in \<open>simp_all add: wake_pending_def\<close>)

section \<open>Waiting in vain\<close>

definition waits_forever :: "DrainSystem \<Rightarrow> bool" where
  "waits_forever s \<longleftrightarrow> (\<forall>t. drain_step\<^sup>*\<^sup>* s t \<longrightarrow> ds_zero t = ds_zero s \<and> ds_zero t \<noteq> ZeroReturned)"

text \<open>
  A waiter is too late when the shutdown has begun, its notifications are given and no
  request is left that could give another: requests that arrive now are refused at once.
\<close>

definition too_late :: "nat \<Rightarrow> DrainSystem \<Rightarrow> bool" where
  "too_late n s \<longleftrightarrow>
     ds_zero s = ZeroWait n \<and> sr_notified (ds_runtime s) = n \<and> is_shutting_down (ds_runtime s)
     \<and> ds_begin s = BeginOver \<and> set (ds_requests s) \<subseteq> {ReqStart, ReqOver}"

lemma too_late_step:
  assumes "too_late n s" and "drain_step s t"
  shows "too_late n t"
  using assms(2)
proof cases
  case (request i r pc)
  have "set (ds_requests s) \<subseteq> {ReqStart, ReqOver}" using assms(1) by (simp add: too_late_def)
  then have "ds_requests s ! i \<in> {ReqStart, ReqOver}" using nth_mem [OF request(2)] by blast
  then have "pc = ReqOver" "r = ds_runtime s" using request(3) assms(1) by (auto simp: too_late_def)
  then show ?thesis using assms(1) request(1) set_update_subset_insert [of "ds_requests s" i pc]
    by (auto simp: too_late_def)
qed (use assms(1) start_step_frame start_step_notified in \<open>auto simp: too_late_def is_shutting_down_def\<close>)

lemma too_late_forever:
  assumes "too_late n s"
  shows "waits_forever s"
proof -
  have "drain_step\<^sup>*\<^sup>* s t \<Longrightarrow> too_late n t" for t
    by (induction rule: rtranclp_induct) (auto intro: assms too_late_step)
  then show ?thesis using assms by (auto simp: waits_forever_def too_late_def)
qed

text \<open>
  One request: it is admitted, the shutdown begins, the waiter reads a count of one, the
  request ends and notifies, and only then the waiter creates its future.
\<close>

definition drain_start :: DrainSystem where
  "drain_start =
     \<lparr>ds_runtime = new_shutdown, ds_requests = [], ds_begin = BeginStart, ds_zero = ZeroLoad,
      ds_start = StartCheck\<rparr>"

lemma request_at:
  "i < length (ds_requests s) \<Longrightarrow> request_step (ds_runtime s) (ds_requests s ! i) = Some (r, pc) \<Longrightarrow>
     t = s\<lparr>ds_runtime := r, ds_requests := (ds_requests s)[i := pc]\<rparr> \<Longrightarrow> drain_step\<^sup>*\<^sup>* t u \<Longrightarrow> drain_step\<^sup>*\<^sup>* s u"
  by (blast intro: converse_rtranclp_into_rtranclp drain_step.request)

fun run_requests :: "nat \<Rightarrow> DrainSystem \<Rightarrow> DrainSystem" where
  "run_requests 0 s = s"
| "run_requests (Suc n) s =
     (case request_step (ds_runtime s) (ds_requests s ! 0) of
        None \<Rightarrow> s
      | Some (r, pc) \<Rightarrow> run_requests n (s\<lparr>ds_runtime := r, ds_requests := (ds_requests s)[0 := pc]\<rparr>))"

lemma run_requests_steps: "ds_requests s \<noteq> [] \<Longrightarrow> drain_step\<^sup>*\<^sup>* s (run_requests n s)"
proof (induction n arbitrary: s)
  case (Suc n)
  show ?case
  proof (cases "request_step (ds_runtime s) (ds_requests s ! 0)")
    case (Some p)
    obtain r pc where p: "p = (r, pc)" by (cases p)
    let ?t = "s\<lparr>ds_runtime := r, ds_requests := (ds_requests s)[0 := pc]\<rparr>"
    have "drain_step s ?t" using Some p Suc.prems by (intro drain_step.request) auto
    moreover have "drain_step\<^sup>*\<^sup>* ?t (run_requests n ?t)" using Suc by simp
    ultimately show ?thesis using Some p by (simp add: converse_rtranclp_into_rtranclp)
  qed simp
qed simp

fun run_begin :: "nat \<Rightarrow> DrainSystem \<Rightarrow> DrainSystem" where
  "run_begin 0 s = s"
| "run_begin (Suc n) s =
     (case begin_step (ds_runtime s) (ds_begin s) of
        None \<Rightarrow> s
      | Some (r, pc) \<Rightarrow> run_begin n (s\<lparr>ds_runtime := r, ds_begin := pc\<rparr>))"

lemma run_begin_steps: "drain_step\<^sup>*\<^sup>* s (run_begin n s)"
proof (induction n arbitrary: s)
  case (Suc n)
  show ?case
  proof (cases "begin_step (ds_runtime s) (ds_begin s)")
    case (Some p)
    obtain r pc where p: "p = (r, pc)" by (cases p)
    have "drain_step s (s\<lparr>ds_runtime := r, ds_begin := pc\<rparr>)" using Some p by (intro drain_step.stop) simp
    then show ?thesis using Suc Some p by (simp add: converse_rtranclp_into_rtranclp)
  qed simp
qed simp

fun run_zero :: "nat \<Rightarrow> DrainSystem \<Rightarrow> DrainSystem" where
  "run_zero 0 s = s"
| "run_zero (Suc n) s =
     (case zero_step (ds_runtime s) (ds_zero s) of None \<Rightarrow> s | Some pc \<Rightarrow> run_zero n (s\<lparr>ds_zero := pc\<rparr>))"

lemma run_zero_steps: "drain_step\<^sup>*\<^sup>* s (run_zero n s)"
proof (induction n arbitrary: s)
  case (Suc n)
  show ?case
  proof (cases "zero_step (ds_runtime s) (ds_zero s)")
    case (Some pc)
    have "drain_step s (s\<lparr>ds_zero := pc\<rparr>)" using Some by (intro drain_step.zero) simp
    then show ?thesis using Suc Some by (simp add: converse_rtranclp_into_rtranclp)
  qed simp
qed simp

lemma arrive_steps: "drain_step\<^sup>*\<^sup>* s (s\<lparr>ds_requests := ds_requests s @ [ReqStart]\<rparr>)"
  by (blast intro: drain_step.arrive)

definition lost_wakeup_run :: DrainSystem where
  "lost_wakeup_run =
     run_zero 1 (run_requests 3 (run_zero 1 (run_begin 3 (run_requests 3
       (drain_start\<lparr>ds_requests := [ReqStart]\<rparr>)))))"

lemma lost_wakeup_reached: "drain_step\<^sup>*\<^sup>* drain_start lost_wakeup_run"
proof -
  have ne: "ds_requests (run_zero n s) = ds_requests s" "ds_requests (run_begin n s) = ds_requests s" for n s
    by (induction n arbitrary: s) (auto split: option.splits)
  have ne': "ds_requests s \<noteq> [] \<Longrightarrow> ds_requests (run_requests n s) \<noteq> []" for n s
    by (induction n arbitrary: s) (auto split: option.splits)
  have "drain_step\<^sup>*\<^sup>* drain_start (drain_start\<lparr>ds_requests := [ReqStart]\<rparr>)"
    using arrive_steps [of drain_start] by (simp add: drain_start_def)
  then show ?thesis
    unfolding lost_wakeup_run_def
    by (intro rtranclp_trans [OF _ run_zero_steps] rtranclp_trans [OF _ run_begin_steps]
        rtranclp_trans [OF _ run_requests_steps]) (simp_all add: ne ne' del: run_zero.simps run_begin.simps run_requests.simps)
qed

lemma lost_wakeup_state:
  "lost_wakeup_run =
     \<lparr>ds_runtime = new_shutdown\<lparr>sr_phase := Draining, sr_notified := 1\<rparr>, ds_requests = [ReqOver],
      ds_begin = BeginOver, ds_zero = ZeroWait 1, ds_start = StartCheck\<rparr>"
  by (simp add: lost_wakeup_run_def drain_start_def new_shutdown_def is_shutting_down_def watch_send_def
      notify_if_drained_def notify_waiters_def eval_nat_numeral)

section \<open>Properties\<close>

text \<open>
  C31. The drain is final: when the count of requests is zero after the shutdown has begun,
  which is what the waiter for the drain returns on, no request is being served and none is
  ever admitted again, however the threads interleave.
\<close>

theorem drained_means_drained:
  assumes "initial_drain s0" and "drain_step\<^sup>*\<^sup>* s0 s"
    and "is_shutting_down (ds_runtime s)" and "sr_in_flight (ds_runtime s) = 0" and "drain_step\<^sup>*\<^sup>* s t"
  shows "ReqAdmitted \<notin> set (ds_requests t)"
proof -
  have "count_exact s" using assms(1,2) by (rule drain.reachable_inv)
  then have "quiet s" using assms(3,4) by (rule drained_quiet)
  with \<open>count_exact s\<close> have "quiet t"
    using drain.steps_stable [OF assms(5), where p = quiet] quiet_step by blast
  then show ?thesis by (simp add: quiet_def)
qed

theorem drained_means_drained_witness:
  "ReqAdmitted \<notin> set (ds_requests (lost_wakeup_run\<lparr>ds_requests := ds_requests lost_wakeup_run @ [ReqStart]\<rparr>))"
proof (rule drained_means_drained [OF _ lost_wakeup_reached _ _ arrive_steps])
  show "initial_drain drain_start" by (simp add: initial_drain_def drain_start_def)
  show "is_shutting_down (ds_runtime lost_wakeup_run)" "sr_in_flight (ds_runtime lost_wakeup_run) = 0"
    by (simp_all add: lost_wakeup_state is_shutting_down_def new_shutdown_def)
qed

text \<open>
  A waiter that already waits is woken: when its future was created during the shutdown
  while some request was still counted, then once no request is counted or about to give its
  count back, the future is complete, so the waiter goes on.
\<close>

lemma timely_waiter_is_woken:
  assumes "is_shutting_down (ds_runtime s)" and "0 < sr_in_flight (ds_runtime s)"
    and "drain_step\<^sup>*\<^sup>* s t"
    and "sr_in_flight (ds_runtime t) = 0" and "ReqReleased 1 \<notin> set (ds_requests t)"
  shows "sr_notified (ds_runtime s) < sr_notified (ds_runtime t)
    \<and> zero_step (ds_runtime t) (ZeroWait (sr_notified (ds_runtime s))) = Some ZeroLoad"
proof -
  have "wake_pending (sr_notified (ds_runtime s)) s" using assms(1,2) by (simp add: wake_pending_def)
  with assms(3) have "wake_pending (sr_notified (ds_runtime s)) t"
    by (induction rule: rtranclp_induct) (auto intro: wake_pending_step)
  then show ?thesis using assms(4,5) by (simp add: wake_pending_def)
qed

definition draining_one :: DrainSystem where
  "draining_one = run_begin 3 (run_requests 3 (drain_start\<lparr>ds_requests := [ReqStart]\<rparr>))"

lemma timely_waiter_is_woken_witness:
  "zero_step (ds_runtime (run_requests 3 draining_one)) (ZeroWait 0) = Some ZeroLoad"
proof -
  have d: "draining_one =
     \<lparr>ds_runtime = new_shutdown\<lparr>sr_phase := Draining, sr_in_flight := 1\<rparr>, ds_requests = [ReqAdmitted],
      ds_begin = BeginOver, ds_zero = ZeroLoad, ds_start = StartCheck\<rparr>"
    by (simp add: draining_one_def drain_start_def new_shutdown_def is_shutting_down_def watch_send_def
        notify_if_drained_def eval_nat_numeral)
  have t: "sr_in_flight (ds_runtime (run_requests 3 draining_one)) = 0"
    "ReqReleased 1 \<notin> set (ds_requests (run_requests 3 draining_one))"
    by (simp_all add: d new_shutdown_def is_shutting_down_def notify_waiters_def eval_nat_numeral)
  have "drain_step\<^sup>*\<^sup>* draining_one (run_requests 3 draining_one)"
    by (rule run_requests_steps) (simp add: d)
  from timely_waiter_is_woken [OF _ _ this t] show ?thesis
    by (simp add: d new_shutdown_def is_shutting_down_def del: run_requests.simps)
qed

text \<open>
  C33. A waiter can be too late. There is a run with a single request in which the waiter for
  the drain reads a count of one, the request ends and notifies, and only then the waiter
  creates its future: nothing is left to wake it, although no request is in flight, so that
  the server leaves only when its drain timeout is over.
\<close>

theorem drain_wakeup_can_be_lost:
  "initial_drain drain_start \<and> drain_step\<^sup>*\<^sup>* drain_start lost_wakeup_run
   \<and> sr_in_flight (ds_runtime lost_wakeup_run) = 0 \<and> waits_forever lost_wakeup_run"
proof -
  have "too_late 1 lost_wakeup_run"
    by (simp add: too_late_def lost_wakeup_state is_shutting_down_def new_shutdown_def)
  then show ?thesis
    using lost_wakeup_reached too_late_forever
    by (simp add: initial_drain_def drain_start_def lost_wakeup_state new_shutdown_def)
qed

text \<open>
  The operations are their atomic accesses: when no other thread interferes, the steps of
  \<open>begin_shutdown\<close>, of \<open>try_track_request\<close> and of giving a request back add up to the whole
  operation, with its result.
\<close>

lemma operations_are_their_steps:
  "run_begin 3 (s\<lparr>ds_begin := BeginStart\<rparr>)
     = s\<lparr>ds_begin := BeginOver, ds_runtime := snd (begin_shutdown (ds_runtime s))\<rparr>
   \<and> run_requests 3 (s\<lparr>ds_requests := ReqStart # rest\<rparr>)
     = s\<lparr>ds_requests := (if fst (try_track_request (ds_runtime s)) then ReqAdmitted else ReqOver) # rest,
         ds_runtime := snd (try_track_request (ds_runtime s))\<rparr>
   \<and> run_requests 3 (s\<lparr>ds_requests := ReqAdmitted # rest\<rparr>)
     = s\<lparr>ds_requests := ReqOver # rest, ds_runtime := finish_request (ds_runtime s)\<rparr>"
proof (intro conjI)
  show "run_begin 3 (s\<lparr>ds_begin := BeginStart\<rparr>)
     = s\<lparr>ds_begin := BeginOver, ds_runtime := snd (begin_shutdown (ds_runtime s))\<rparr>"
    by (cases "sr_phase (ds_runtime s) = Running") (simp_all add: eval_nat_numeral begin_shutdown_def)
  show "run_requests 3 (s\<lparr>ds_requests := ReqStart # rest\<rparr>)
     = s\<lparr>ds_requests := (if fst (try_track_request (ds_runtime s)) then ReqAdmitted else ReqOver) # rest,
         ds_runtime := snd (try_track_request (ds_runtime s))\<rparr>"
    by (cases "is_shutting_down (ds_runtime s)")
      (simp_all add: eval_nat_numeral try_track_request_def is_shutting_down_def Let_def)
  show "run_requests 3 (s\<lparr>ds_requests := ReqAdmitted # rest\<rparr>)
     = s\<lparr>ds_requests := ReqOver # rest, ds_runtime := finish_request (ds_runtime s)\<rparr>"
    by (simp add: eval_nat_numeral finish_request_def is_shutting_down_def Let_def)
qed

section \<open>Missing the start of the shutdown\<close>

fun run_start :: "nat \<Rightarrow> DrainSystem \<Rightarrow> DrainSystem" where
  "run_start 0 s = s"
| "run_start (Suc n) s =
     (case start_step (ds_runtime s) (ds_start s) of
        None \<Rightarrow> s
      | Some (r, pc) \<Rightarrow> run_start n (s\<lparr>ds_runtime := r, ds_start := pc\<rparr>))"

lemma run_start_steps: "drain_step\<^sup>*\<^sup>* s (run_start n s)"
proof (induction n arbitrary: s)
  case (Suc n)
  show ?case
  proof (cases "start_step (ds_runtime s) (ds_start s)")
    case (Some p)
    obtain r pc where p: "p = (r, pc)" by (cases p)
    have "drain_step s (s\<lparr>ds_runtime := r, ds_start := pc\<rparr>)" using Some p by (intro drain_step.start) simp
    then show ?thesis using Suc Some p by (simp add: converse_rtranclp_into_rtranclp)
  qed simp
qed simp

definition misses_start :: "DrainSystem \<Rightarrow> bool" where
  "misses_start s \<longleftrightarrow>
     ds_start s = StartWait (sr_version (ds_runtime s)) \<and> is_shutting_down (ds_runtime s) \<and> ds_begin s = BeginOver"

definition never_sees_start :: "DrainSystem \<Rightarrow> bool" where
  "never_sees_start s \<longleftrightarrow> (\<forall>t. drain_step\<^sup>*\<^sup>* s t \<longrightarrow> misses_start t)"

lemma misses_start_step:
  assumes "misses_start s" and "drain_step s t"
  shows "misses_start t"
  using assms(2)
proof cases
  case (request i r pc)
  have "sr_version r = sr_version (ds_runtime s) \<and> sr_phase r = sr_phase (ds_runtime s)"
    using request(3) by (cases "ds_requests s ! i") (auto simp: notify_waiters_def split: if_splits)
  then show ?thesis using assms(1) request(1) by (simp add: misses_start_def is_shutting_down_def)
qed (use assms(1) in \<open>auto simp: misses_start_def\<close>)

definition missed_start_run :: DrainSystem where
  "missed_start_run = run_start 2 (run_begin 3 (run_start 1 drain_start))"

text \<open>
  The start of the shutdown can be missed: a waiter for it that has just read the phase as
  running and has not subscribed yet finds, after the shutdown has begun, the old value in the
  channel, since sending to a channel without a receiver stores nothing, and waits for a
  change that never comes.
\<close>

lemma shutdown_start_can_be_missed:
  "initial_drain drain_start \<and> drain_step\<^sup>*\<^sup>* drain_start missed_start_run
   \<and> is_shutting_down (ds_runtime missed_start_run) \<and> never_sees_start missed_start_run"
proof -
  have steps: "drain_step\<^sup>*\<^sup>* drain_start missed_start_run"
    unfolding missed_start_run_def
    by (intro rtranclp_trans [OF _ run_start_steps] rtranclp_trans [OF _ run_begin_steps]) simp
  have miss: "misses_start missed_start_run"
    by (simp add: missed_start_run_def drain_start_def new_shutdown_def misses_start_def is_shutting_down_def
        watch_send_def notify_if_drained_def notify_waiters_def eval_nat_numeral)
  have "misses_start t" if "drain_step\<^sup>*\<^sup>* missed_start_run t" for t
    using that by (induction rule: rtranclp_induct) (auto intro: miss misses_start_step)
  then show ?thesis using steps miss
    by (simp add: never_sees_start_def initial_drain_def drain_start_def misses_start_def)
qed

end
