(* ===== verification/Pipeline.thy ===== *)
theory Pipeline
  imports Handlers Rate_Limit Shutdown
begin

text \<open>
  The layers every request passes, from the outside in: security headers, CORS and the rate
  limiter (\<open>crates/gvm-gateway-rest/src/security.rs\<close>), the shutdown gate (\<open>router.rs\<close>), and the
  request-scoped session for Basic credentials (\<open>security.rs\<close>). A layer takes the rest of the
  stack as a function. Tracing headers are not modelled.
\<close>

section \<open>Configuration and state\<close>

record RestSecurityConfig =
  sc_cors_allowed_origins :: "string list"
  sc_rate_limit :: RateLimitConfig
  sc_trusted_proxy_cidrs :: "TrustedProxyCidr list"
  sc_native_tls_enabled :: bool

record 'w Gateway =
  gw_limiter :: RateLimiter
  gw_shutdown :: ShutdownRuntime
  gw_app :: 'w

type_synonym ('w, 'j) layer = "Request \<Rightarrow> 'w Gateway \<Rightarrow> 'j RestBody Response \<times> 'w Gateway"

definition new_security_runtime :: "RestSecurityConfig \<Rightarrow> RateLimiter" where
  "new_security_runtime config = new_limiter (sc_rate_limit config) (sc_trusted_proxy_cidrs config)"

section \<open>CORS and security headers\<close>

definition is_cors_preflight :: "Request \<Rightarrow> bool" where
  "is_cors_preflight q =
     (rq_method q = ''OPTIONS'' \<and> contains_key (rq_headers q) ''origin''
      \<and> contains_key (rq_headers q) ''access-control-request-method'')"

text \<open>A value that was text can always be made a header value again.\<close>

definition allowed_origin :: "RestSecurityConfig \<Rightarrow> HeaderMap \<Rightarrow> string option" where
  "allowed_origin config headers =
     (case header_text headers ''origin'' of
        None \<Rightarrow> None
      | Some origin \<Rightarrow>
          if list_ex (\<lambda>allowed. allowed = origin) (sc_cors_allowed_origins config) then Some origin else None)"

definition apply_cors_headers ::
    "RestSecurityConfig \<Rightarrow> HeaderMap \<Rightarrow> (string, string) hash_map \<Rightarrow> (string, string) hash_map" where
  "apply_cors_headers config request headers =
     (case allowed_origin config request of
        None \<Rightarrow> headers
      | Some origin \<Rightarrow>
          set_header ''vary'' ''Origin'' (set_header ''access-control-allow-origin'' origin headers))"

definition DOCS_CSP :: string where
  "DOCS_CSP = ''default-src '' @ [CHR 0x27] @ ''none'' @ [CHR 0x27] @ ''; base-uri '' @ [CHR 0x27] @ ''none'' @ [CHR 0x27]
     @ ''; script-src '' @ [CHR 0x27] @ ''self'' @ [CHR 0x27] @ ''; connect-src '' @ [CHR 0x27] @ ''self'' @ [CHR 0x27]
     @ ''; style-src '' @ [CHR 0x27] @ ''unsafe-inline'' @ [CHR 0x27]
     @ ''; img-src data: https:; font-src data:; frame-ancestors '' @ [CHR 0x27] @ ''none'' @ [CHR 0x27]
     @ ''; form-action '' @ [CHR 0x27] @ ''none'' @ [CHR 0x27]"

definition apply_security_headers ::
    "string \<Rightarrow> bool \<Rightarrow> (string, string) hash_map \<Rightarrow> (string, string) hash_map" where
  "apply_security_headers path native_tls_enabled headers =
     (let headers = set_header ''x-content-type-options'' ''nosniff'' headers;
          headers = set_header ''x-frame-options'' ''DENY'' headers;
          headers = set_header ''referrer-policy'' ''no-referrer'' headers;
          headers = (if path = ''/api/v1/docs'' then set_header ''content-security-policy'' DOCS_CSP headers
                     else headers);
          headers = (if starts_with ''/api/'' path then set_header ''cache-control'' ''no-store'' headers
                     else headers)
      in if native_tls_enabled
         then set_header ''strict-transport-security'' ''max-age=31536000; includeSubDomains'' headers
         else headers)"

definition cors_preflight_response ::
    "RestSecurityConfig \<Rightarrow> HeaderMap \<Rightarrow> string \<Rightarrow> 'j RestBody Response" where
  "cors_preflight_response config headers inst =
     (case allowed_origin config headers of
        None \<Rightarrow>
          (let response = gateway_error (Forbidden ''CORS origin is not allowed'') inst
           in response\<lparr>rp_headers := apply_security_headers inst (sc_native_tls_enabled config) (rp_headers response)\<rparr>)
      | Some origin \<Rightarrow>
          (let hs = [];
               hs = set_header ''access-control-allow-origin'' origin hs;
               hs = set_header ''vary'' ''Origin'' hs;
               hs = set_header ''access-control-allow-methods'' ''GET,POST,PUT,DELETE,OPTIONS'' hs;
               hs = set_header ''access-control-allow-headers'' ''Authorization,Content-Type,Traceparent,Tracestate,Baggage'' hs;
               hs = set_header ''access-control-max-age'' ''600'' hs
           in \<lparr>rp_status = 204, rp_headers = apply_security_headers inst (sc_native_tls_enabled config) hs,
               rp_body = NoBody\<rparr>))"

definition finish_headers ::
    "RestSecurityConfig \<Rightarrow> Request \<Rightarrow> 'j Response \<Rightarrow> 'j Response" where
  "finish_headers config q response =
     response\<lparr>rp_headers := apply_cors_headers config (rq_headers q)
        (apply_security_headers (rq_path q) (sc_native_tls_enabled config) (rp_headers response))\<rparr>"

definition security_middleware ::
    "RestSecurityConfig \<Rightarrow> u64 \<Rightarrow> ('w, 'j) layer \<Rightarrow> ('w, 'j) layer" where
  "security_middleware config now run_next q g =
     (if is_cors_preflight q then (cors_preflight_response config (rq_headers q) (rq_path q), g)
      else
        let (refusal, g) =
              (if is_rate_limited_path (rq_path q)
               then (let (r, limiter) = check_request now q (gw_limiter g) in (r, g\<lparr>gw_limiter := limiter\<rparr>))
               else (None, g))
        in case refusal of
             Some retry_after \<Rightarrow>
               (finish_headers config q (too_many_requests_response (rq_path q) retry_after), g)
           | None \<Rightarrow>
               (let (response, g) = run_next q g in (finish_headers config q response, g)))"

section \<open>The shutdown gate\<close>

definition should_bypass_shutdown_gate :: "string \<Rightarrow> bool" where
  "should_bypass_shutdown_gate path = (path \<in> {''/health'', ''/ready''})"

text \<open>The guard of an admitted request is dropped after the rest of the stack has answered.\<close>

definition shutdown_gate_middleware :: "('w, 'j) layer \<Rightarrow> ('w, 'j) layer" where
  "shutdown_gate_middleware run_next q g =
     (if should_bypass_shutdown_gate (rq_path q) then run_next q g
      else
        case try_track_request (gw_shutdown g) of
          (False, sh) \<Rightarrow>
            (error_response (rest_service_unavailable
               ''The gateway is shutting down and no longer accepts new requests.'' (rq_path q)),
             g\<lparr>gw_shutdown := sh\<rparr>)
        | (True, sh) \<Rightarrow>
            (let (response, g) = run_next q (g\<lparr>gw_shutdown := sh\<rparr>)
             in (response, g\<lparr>gw_shutdown := finish_request (gw_shutdown g)\<rparr>)))"

section \<open>Request-scoped sessions\<close>

text \<open>
  \<open>create_op\<close> and \<open>delete_op\<close> are the session use cases of the application; \<open>header_ok\<close> tells
  whether a text can be a header value.
\<close>

definition request_scoped_basic_auth_middleware ::
    "(string \<Rightarrow> string option) \<Rightarrow> (string \<Rightarrow> bool) \<Rightarrow> (string \<Rightarrow> string \<Rightarrow> 'w \<Rightarrow> SessionCreated result \<times> 'w)
      \<Rightarrow> (string \<Rightarrow> 'w \<Rightarrow> unit result \<times> 'w) \<Rightarrow> ('w, 'j) layer \<Rightarrow> ('w, 'j) layer" where
  "request_scoped_basic_auth_middleware decode header_ok create_op delete_op run_next q g =
     (if \<not> uses_request_scoped_basic_auth q then run_next q g
      else
        case basic_credentials decode (rq_headers q) of
          Inl e \<Rightarrow> (gateway_error e (rq_path q), g)
        | Inr (username, password) \<Rightarrow>
            (case create_op username password (gw_app g) of
               (Inl e, app) \<Rightarrow> (gateway_error e (rq_path q), g\<lparr>gw_app := app\<rparr>)
             | (Inr created, app) \<Rightarrow>
                 (let token = sc_token created; g = g\<lparr>gw_app := app\<rparr>
                  in if \<not> header_ok (''Bearer '' @ token)
                     then (gateway_error (BackendUnavailable ''failed to prepare request-scoped session'') (rq_path q),
                           g\<lparr>gw_app := snd (delete_op token (gw_app g))\<rparr>)
                     else
                       let (response, g) = run_next
                             (q\<lparr>rq_headers := AList.update ''authorization'' (Text (''Bearer '' @ token)) (rq_headers q)\<rparr>) g;
                           (r, app) = delete_op token (gw_app g);
                           g = g\<lparr>gw_app := app\<rparr>
                       in case r of
                            Inr _ \<Rightarrow> (response, g)
                          | Inl e \<Rightarrow>
                              if is_success (rp_status response) then (gateway_error e (rq_path q), g)
                              else (response, g))))"

text \<open>The stack of \<open>router.rs\<close>.\<close>

definition gateway_stack ::
    "RestSecurityConfig \<Rightarrow> u64 \<Rightarrow> (string \<Rightarrow> string option) \<Rightarrow> (string \<Rightarrow> bool)
      \<Rightarrow> (string \<Rightarrow> string \<Rightarrow> 'w \<Rightarrow> SessionCreated result \<times> 'w) \<Rightarrow> (string \<Rightarrow> 'w \<Rightarrow> unit result \<times> 'w)
      \<Rightarrow> ('w, 'j) layer \<Rightarrow> ('w, 'j) layer" where
  "gateway_stack config now decode header_ok create_op delete_op route =
     security_middleware config now
       (shutdown_gate_middleware
          (request_scoped_basic_auth_middleware decode header_ok create_op delete_op route))"

definition not_found_route :: "('w, 'j) layer" where
  "not_found_route q g = (error_response (rest_not_found (rq_path q)), g)"

definition method_not_allowed_route :: "('w, 'j) layer" where
  "method_not_allowed_route q g = (error_response (rest_method_not_allowed (rq_path q)), g)"

section \<open>Headers\<close>

lemma security_headers_lookup:
  "map_of (apply_security_headers path tls hs) ''x-content-type-options'' = Some ''nosniff''"
  "map_of (apply_security_headers path tls hs) ''x-frame-options'' = Some ''DENY''"
  "map_of (apply_security_headers path tls hs) ''referrer-policy'' = Some ''no-referrer''"
  "starts_with ''/api/'' path \<Longrightarrow> map_of (apply_security_headers path tls hs) ''cache-control'' = Some ''no-store''"
  "tls \<Longrightarrow> map_of (apply_security_headers path tls hs) ''strict-transport-security''
      = Some ''max-age=31536000; includeSubDomains''"
  "map_of (apply_security_headers path tls hs) ''access-control-allow-origin'' = map_of hs ''access-control-allow-origin''"
  by (simp_all add: apply_security_headers_def Let_def)

lemma cors_headers_lookup:
  "n \<noteq> ''vary'' \<Longrightarrow> n \<noteq> ''access-control-allow-origin'' \<Longrightarrow>
     map_of (apply_cors_headers config rq hs) n = map_of hs n"
  "map_of (apply_cors_headers config rq hs) ''access-control-allow-origin'' =
     (case allowed_origin config rq of None \<Rightarrow> map_of hs ''access-control-allow-origin'' | Some origin \<Rightarrow> Some origin)"
  by (simp_all add: apply_cors_headers_def split: option.splits)

text \<open>The hardening headers of a response to a path.\<close>

definition hardened :: "RestSecurityConfig \<Rightarrow> string \<Rightarrow> 'j Response \<Rightarrow> bool" where
  "hardened config path response \<longleftrightarrow>
     has_header ''x-content-type-options'' ''nosniff'' response
     \<and> has_header ''x-frame-options'' ''DENY'' response
     \<and> has_header ''referrer-policy'' ''no-referrer'' response
     \<and> (starts_with ''/api/'' path \<longrightarrow> has_header ''cache-control'' ''no-store'' response)
     \<and> (sc_native_tls_enabled config \<longrightarrow>
          has_header ''strict-transport-security'' ''max-age=31536000; includeSubDomains'' response)"

lemma hardened_finish: "hardened config (rq_path q) (finish_headers config q response)"
  by (simp add: hardened_def has_header_def finish_headers_def cors_headers_lookup security_headers_lookup)

lemma hardened_preflight: "hardened config path (cors_preflight_response config headers path)"
  by (cases "allowed_origin config headers")
    (simp_all add: hardened_def has_header_def cors_preflight_response_def security_headers_lookup Let_def)

section \<open>Properties\<close>

text \<open>
  Every response is hardened: whatever the request, the limits, the phase of the gateway
  and the route's answer, the response carries the three fixed security headers, forbids
  caching below \<open>/api/\<close>, and announces strict transport security when TLS ends here.
\<close>

lemma every_response_hardened:
  "hardened config (rq_path q)
     (fst (gateway_stack config now decode header_ok create_op delete_op route q g))"
  by (auto simp: gateway_stack_def security_middleware_def hardened_preflight hardened_finish Let_def
      split: prod.splits option.splits)

text \<open>
  A request over its limit does nothing: it is answered 429 with the waiting time, and
  neither the application nor the shutdown state sees it.
\<close>

lemma limited_request_has_no_effect:
  assumes "\<not> is_cors_preflight q" and "is_rate_limited_path (rq_path q)"
    and "check_request now q (gw_limiter g) = (Some retry_after, limiter)"
  shows "\<exists>response. gateway_stack config now decode header_ok create_op delete_op route q g
       = (response, g\<lparr>gw_limiter := limiter\<rparr>)
     \<and> rp_status response = 429 \<and> has_header ''retry-after'' (show_nat (unat retry_after)) response"
proof -
  let ?r = "finish_headers config q (too_many_requests_response (rq_path q) retry_after) :: 'b RestBody Response"
  have "gateway_stack config now decode header_ok create_op delete_op route q g = (?r, g\<lparr>gw_limiter := limiter\<rparr>)"
    using assms by (simp add: gateway_stack_def security_middleware_def)
  moreover have "rp_status ?r = 429"
    by (simp add: finish_headers_def too_many_requests_response_def gateway_error_status Let_def)
  moreover have "has_header ''retry-after'' (show_nat (unat retry_after)) ?r"
    by (simp add: has_header_def finish_headers_def cors_headers_lookup too_many_requests_response_def
        apply_security_headers_def Let_def)
  ultimately show ?thesis by blast
qed

definition demo_security :: RestSecurityConfig where
  "demo_security =
     \<lparr>sc_cors_allowed_origins = [''https://ui.example''],
      sc_rate_limit = \<lparr>rl_window_secs = 60, rl_global_per_window = Some 0, rl_subject_per_window = None\<rparr>,
      sc_trusted_proxy_cidrs = [], sc_native_tls_enabled = False\<rparr>"

definition demo_gateway :: "ShutdownPhase \<Rightarrow> nat Gateway" where
  "demo_gateway phase =
     \<lparr>gw_limiter = new_security_runtime demo_security, gw_shutdown = new_shutdown\<lparr>sr_phase := phase\<rparr>, gw_app = 7\<rparr>"

lemma limited_request_has_no_effect_witness:
  "gw_app (snd (gateway_stack demo_security 5 (\<lambda>s. None) (\<lambda>s. True) (\<lambda>u p w. (Inl (Internal ''''), w + 1))
     (\<lambda>t w. (Inr (), w + 1)) (\<lambda>q g. (rest_health :: unit RestBody Response, g\<lparr>gw_app := 0\<rparr>))
     (get_request ''/api/v1/tasks'' None []) (demo_gateway Running))) = 7"
proof -
  have "\<not> is_cors_preflight (get_request ''/api/v1/tasks'' None [])"
    and "is_rate_limited_path (rq_path (get_request ''/api/v1/tasks'' None []))"
    and "check_request 5 (get_request ''/api/v1/tasks'' None []) (gw_limiter (demo_gateway Running))
      = (Some 60, gw_limiter (demo_gateway Running))"
    by (simp_all add: is_cors_preflight_def get_request_def is_rate_limited_path_def starts_with_def
        check_request_def limiter_key_def check_key_def demo_gateway_def new_security_runtime_def
        new_limiter_def demo_security_def max_def word_le_nat_alt)
  from limited_request_has_no_effect [OF this, of demo_security "\<lambda>s. None" "\<lambda>s. True"
      "\<lambda>u p w. (Inl (Internal ''''), w + 1)" "\<lambda>t w. (Inr (), w + 1)" "\<lambda>q g. (rest_health :: unit RestBody Response, g\<lparr>gw_app := 0\<rparr>)"]
  show ?thesis by (auto simp: demo_gateway_def)
qed

text \<open>
  A draining gateway serves the probes only: any other request leaves the application and
  the count of requests as they were, and is answered 503, or 429 when it is also over its
  limit, or as a CORS preflight.
\<close>

lemma draining_serves_probes_only:
  assumes "is_shutting_down (gw_shutdown g)" and "\<not> should_bypass_shutdown_gate (rq_path q)"
  shows "gw_app (snd (gateway_stack config now decode header_ok create_op delete_op route q g)) = gw_app g
    \<and> gw_shutdown (snd (gateway_stack config now decode header_ok create_op delete_op route q g)) = gw_shutdown g
    \<and> (is_cors_preflight q
       \<or> rp_status (fst (gateway_stack config now decode header_ok create_op delete_op route q g)) \<in> {503, 429})"
proof -
  have gate: "shutdown_gate_middleware run_next q g' =
      (error_response (rest_service_unavailable
         ''The gateway is shutting down and no longer accepts new requests.'' (rq_path q)), g')"
    if "gw_shutdown g' = gw_shutdown g" for run_next :: "('a, 'b) layer" and g'
    using assms that by (simp add: shutdown_gate_middleware_def try_track_request_def)
  have s503: "rp_status (finish_headers config q (error_response (rest_service_unavailable d p))) = 503" for d p
    by (simp add: finish_headers_def error_response_def rest_error_defs)
  have s429: "rp_status (finish_headers config q (too_many_requests_response p r)) = 429" for p r
    by (simp add: finish_headers_def too_many_requests_response_def gateway_error_status Let_def)
  show ?thesis
    by (auto simp: gateway_stack_def security_middleware_def gate s503 s429 Let_def split: prod.splits option.splits)
qed

lemma draining_serves_probes_only_witness:
  "gw_app (snd (gateway_stack demo_security 5 (\<lambda>s. None) (\<lambda>s. True) (\<lambda>u p w. (Inl (Internal ''''), w + 1))
     (\<lambda>t w. (Inr (), w + 1)) (\<lambda>q g. (rest_health :: unit RestBody Response, g\<lparr>gw_app := 0\<rparr>))
     (get_request ''/metrics'' None []) (demo_gateway Draining))) = 7"
proof -
  have "is_shutting_down (gw_shutdown (demo_gateway Draining))"
    and "\<not> should_bypass_shutdown_gate (rq_path (get_request ''/metrics'' None []))"
    by (simp_all add: demo_gateway_def is_shutting_down_def should_bypass_shutdown_gate_def get_request_def)
  note drained = draining_serves_probes_only [OF this, of demo_security 5 "\<lambda>s. None" "\<lambda>s. True"
      "\<lambda>u p w. (Inl (Internal ''''), w + 1)" "\<lambda>t w. (Inr (), w + 1)" "\<lambda>q g. (rest_health :: unit RestBody Response, g\<lparr>gw_app := 0\<rparr>)"]
  have "gw_app (demo_gateway Draining) = 7" by (simp add: demo_gateway_def)
  with drained show ?thesis by simp
qed

text \<open>
  Only configured origins are let in: when the route itself sets no CORS header, a
  response allows an origin only if the request came from it and the configuration lists it.
\<close>

lemma cors_allows_configured_origins_only:
  assumes route: "\<And>q g. map_of (rp_headers (fst (route q g))) ''access-control-allow-origin'' = None"
    and allowed: "has_header ''access-control-allow-origin'' origin
      (fst (gateway_stack config now decode header_ok create_op delete_op route q g))"
  shows "header_text (rq_headers q) ''origin'' = Some origin \<and> origin \<in> set (sc_cors_allowed_origins config)"
proof -
  have none: "map_of (rp_headers (gateway_error e p)) ''access-control-allow-origin'' = None" for e p
    by (simp add: gateway_error_def error_response_def)
  let ?scoped = "request_scoped_basic_auth_middleware decode header_ok create_op delete_op route"
  have scoped: "map_of (rp_headers (fst (?scoped q' g'))) ''access-control-allow-origin'' = None" for q' g'
    unfolding request_scoped_basic_auth_middleware_def Let_def case_prod_unfold
    by (simp add: route none split: sum.split)
  have gate: "map_of (rp_headers (fst (shutdown_gate_middleware ?scoped q' g'))) ''access-control-allow-origin'' = None" for q' g'
    unfolding shutdown_gate_middleware_def Let_def case_prod_unfold
    by (simp add: scoped error_response_def split: bool.split)
  have finish: "allowed_origin config (rq_headers q) = Some origin"
    if "has_header ''access-control-allow-origin'' origin (finish_headers config q r)"
      "map_of (rp_headers r) ''access-control-allow-origin'' = None" for r :: "'b RestBody Response"
    using that by (simp add: has_header_def finish_headers_def cors_headers_lookup security_headers_lookup split: option.splits)
  have limited: "map_of (rp_headers (too_many_requests_response p r)) ''access-control-allow-origin'' = None" for p r
    by (simp add: too_many_requests_response_def none Let_def)
  have preflight: "allowed_origin config (rq_headers q) = Some origin"
    if "has_header ''access-control-allow-origin'' origin (cors_preflight_response config (rq_headers q) (rq_path q))"
    using that by (simp add: has_header_def cors_preflight_response_def security_headers_lookup none Let_def split: option.splits)
  have "allowed_origin config (rq_headers q) = Some origin"
  proof (cases "is_cors_preflight q")
    case True
    then show ?thesis using allowed preflight by (simp add: gateway_stack_def security_middleware_def)
  next
    case False
    obtain r g' where limit: "(if is_rate_limited_path (rq_path q)
        then (let (r, limiter) = check_request now q (gw_limiter g) in (r, g\<lparr>gw_limiter := limiter\<rparr>))
        else (None, g)) = (r, g')" by fastforce
    show ?thesis
      using allowed False finish [OF _ limited] finish [OF _ gate]
      unfolding gateway_stack_def security_middleware_def limit
      by (cases r) (auto simp: case_prod_unfold Let_def)
  qed
  then show ?thesis by (auto simp: allowed_origin_def list_ex_iff split: option.splits if_splits)
qed

lemma cors_allows_configured_origins_only_witness:
  "header_text [(''origin'', Text ''https://ui.example'')] ''origin'' = Some ''https://ui.example''
    \<and> ''https://ui.example'' \<in> set (sc_cors_allowed_origins demo_security)"
proof -
  let ?q = "get_request ''/health'' None [(''origin'', Text ''https://ui.example'')]"
  have "has_header ''access-control-allow-origin'' ''https://ui.example''
      (fst (gateway_stack demo_security 5 (\<lambda>s. None) (\<lambda>s. True) (\<lambda>u p w. (Inl (Internal ''''), w + 1))
        (\<lambda>t w. (Inr (), w + 1)) (\<lambda>q g. (rest_health :: unit RestBody Response, g)) ?q (demo_gateway Running)))"
    by (simp add: gateway_stack_def security_middleware_def is_cors_preflight_def contains_key_def header_get_def
        get_request_def is_rate_limited_path_def starts_with_def shutdown_gate_middleware_def
        should_bypass_shutdown_gate_def request_scoped_basic_auth_middleware_def
        uses_request_scoped_basic_auth_def is_basic_auth_def header_text_def has_header_def finish_headers_def
        apply_cors_headers_def allowed_origin_def demo_security_def)
  from cors_allows_configured_origins_only [OF _ this] show ?thesis
    by (simp add: rest_health_def ok_json_def json_response_def get_request_def)
qed

text \<open>
  C30. A request-scoped session ends with its request: whatever the route does and answers,
  after a request with Basic credentials the session created for it is registered no more, as
  long as no thread has died holding the registry's lock.
\<close>

lemma delete_session_sessions:
  "gs_sessions (snd (delete_session disconnect sha now token sv)) = snd (session_remove sha token (gs_sessions sv))"
  by (auto simp: delete_session_def Let_def case_prod_unfold split: sum.split option.split)

lemma deleted_not_registered:
  assumes "\<not> sm_poisoned (gs_sessions (snd (delete_session disconnect sha now token sv)))"
  shows "sha token \<notin> registered (gs_sessions (snd (delete_session disconnect sha now token sv)))"
  using assms unfolding delete_session_sessions
  by (auto simp: session_remove_def registered_def from_token_def Let_def split: if_splits option.splits)

theorem scoped_session_ends_with_request:
  assumes "uses_request_scoped_basic_auth q" and "basic_credentials decode (rq_headers q) = Inr (user, password)"
    and "create_op user password (gw_app g) = (Inr created, app)"
    and "request_scoped_basic_auth_middleware decode header_ok create_op (delete_session disconnect sha now) route q g
      = (response, g')"
    and "\<not> sm_poisoned (gs_sessions (gw_app g'))"
  shows "sha (sc_token created) \<notin> registered (gs_sessions (gw_app g'))"
proof -
  have "\<exists>sv. gw_app g' = snd (delete_session disconnect sha now (sc_token created) sv)"
    using assms(1-4) unfolding request_scoped_basic_auth_middleware_def
    by (auto simp: Let_def case_prod_unfold split: if_splits sum.splits)
  then show ?thesis using deleted_not_registered assms(5) by metis
qed

definition demo_login :: "string \<Rightarrow> string \<Rightarrow> GvmdAdapter GatewayService \<Rightarrow> SessionCreated result \<times> GvmdAdapter GatewayService" where
  "demo_login user password sv =
     create_session (connect_session one_digest) disconnect_session one_digest id 5 ''a'' user demo_backend sv"

definition demo_service_gateway :: "GvmdAdapter GatewayService Gateway" where
  "demo_service_gateway =
     \<lparr>gw_limiter = new_security_runtime demo_security, gw_shutdown = new_shutdown,
      gw_app = new_service unix_socket (new_manager 60)\<rparr>"

lemma demo_login_ok:
  "\<exists>created app. demo_login ''ann'' ''pw'' (gw_app demo_service_gateway) = (Inr created, app)
     \<and> \<not> sm_poisoned (gs_sessions app)"
proof -
  let ?r = "demo_login ''ann'' ''pw'' (gw_app demo_service_gateway)"
  have "is_ok (fst ?r) \<and> \<not> sm_poisoned (gs_sessions (snd ?r))"
    by (simp add: demo_login_def demo_service_gateway_def create_session_def create_draining_expired_def
        enforce_session_limits_def new_service_def new_manager_def with_limits_def default_limits_def
        DEFAULT_MAX_GLOBAL_SESSIONS_def DEFAULT_MAX_SESSIONS_PER_USER_def remove_all_def
        expired_session_digests_def disconnect_expired_sessions_def emit_def
        unix_socket_def connect_session_def connect_authenticated_client_def session_capability_def
        probe_credential_store_capability_def demo_backend_def Let_def)
  then show ?thesis by (cases ?r; cases "fst ?r") auto
qed

theorem scoped_session_ends_with_request_witness:
  "\<exists>created app response g'. demo_login ''ann'' ''pw'' (gw_app demo_service_gateway) = (Inr created, app)
     \<and> request_scoped_basic_auth_middleware (\<lambda>s. Some s) (\<lambda>s. True) demo_login
         (delete_session disconnect_session one_digest 6) (\<lambda>q g. (rest_health :: unit RestBody Response, g))
         (get_request ''/api/v1/tasks'' None [(''authorization'', Text ''Basic ann:pw'')]) demo_service_gateway
       = (response, g')
     \<and> one_digest (sc_token created) \<notin> registered (gs_sessions (gw_app g'))"
proof -
  let ?q = "get_request ''/api/v1/tasks'' None [(''authorization'', Text ''Basic ann:pw'')]"
  let ?delete = "delete_session disconnect_session one_digest 6"
  let ?route = "\<lambda>q g. (rest_health :: unit RestBody Response, g)"
  obtain created app where login: "demo_login ''ann'' ''pw'' (gw_app demo_service_gateway) = (Inr created, app)"
    and ok: "\<not> sm_poisoned (gs_sessions app)" using demo_login_ok by blast
  have uses: "uses_request_scoped_basic_auth ?q"
    by (simp add: uses_request_scoped_basic_auth_def is_basic_auth_def header_text_def header_get_def get_request_def
        classify_runtime_route_def starts_with_def)
  have utf8: "utf8_valid ''ann:pw''" by code_simp
  have cred: "basic_credentials (\<lambda>s. Some s) (rq_headers ?q) = Inr (''ann'', ''pw'')"
    by (simp add: basic_credentials_def is_basic_auth_def header_text_def header_get_def get_request_def
        decode_credentials_def utf8)
  obtain response g' where run: "request_scoped_basic_auth_middleware (\<lambda>s. Some s) (\<lambda>s. True) demo_login ?delete ?route ?q
      demo_service_gateway = (response, g')" by (rule prod.exhaust)
  have "gw_app g' = snd (?delete (sc_token created) app)"
    using run uses cred login unfolding request_scoped_basic_auth_middleware_def
    by (auto simp: Let_def case_prod_unfold split: if_splits sum.splits)
  then have "\<not> sm_poisoned (gs_sessions (gw_app g'))"
    using ok by (auto simp: delete_session_sessions session_remove_def Let_def split: option.splits)
  from scoped_session_ends_with_request [OF uses cred login run this] login run show ?thesis by blast
qed

text \<open>
  The gate counts exactly: a route that leaves the shutdown state alone leaves, seen
  through the gate, the same count of requests behind as before, whether the request was
  admitted, refused or let through to a probe.
\<close>

lemma gate_gives_count_back:
  assumes "\<And>q g. gw_shutdown (snd (route q g)) = gw_shutdown g"
  shows "sr_in_flight (gw_shutdown (snd (shutdown_gate_middleware route q g))) = sr_in_flight (gw_shutdown g)"
  using assms
  by (auto simp: shutdown_gate_middleware_def try_track_request_def finish_request_def notify_waiters_def
      is_shutting_down_def Let_def case_prod_unfold)

lemma gate_gives_count_back_witness:
  "sr_in_flight (gw_shutdown (snd (shutdown_gate_middleware (\<lambda>q g. (rest_health :: unit RestBody Response, g\<lparr>gw_app := 8\<rparr>))
      (get_request ''/api/v1/tasks'' None []) (demo_gateway Running)))) = 0"
  using gate_gives_count_back [of "\<lambda>q g. (rest_health :: unit RestBody Response, g\<lparr>gw_app := 8\<rparr>)"
      "get_request ''/api/v1/tasks'' None []" "demo_gateway Running"]
  by (simp add: demo_gateway_def new_shutdown_def)

end
