(* ===== verification/Config.thy ===== *)
theory Config
  imports Pipeline
begin

text \<open>
  Start-up configuration, \<open>crates/gvm-gateway/src/config.rs\<close>: built-in defaults, an optional
  TOML file, environment variables and the command line, each overriding what is below it;
  the backend endpoint and the consistency of the TLS settings. Reading a file and parsing
  TOML are library calls and arguments; a path is a string, absolute when it starts with a
  slash. \<open>main.rs\<close> builds the session registry and the security layer from the result.
\<close>

section \<open>The configuration\<close>

datatype LocalLogOutput = Stdout | Journald

datatype TransportSecurityMode = Disabled | TerminatedByProxy | Native

record TransportSecurityConfig =
  ts_mode :: TransportSecurityMode
  ts_tls_certificate_path :: "string option"
  ts_tls_private_key_path :: "string option"

record NativeTlsFiles =
  nt_certificate_path :: string
  nt_private_key_path :: string

record SessionConfig =
  sn_idle_timeout_secs :: u64
  sn_limits :: SessionLimits

record GatewayConfig =
  gc_bind :: string
  gc_otlp_endpoint :: "string option"
  gc_telemetry_service_name :: string
  gc_telemetry_service_namespace :: "string option"
  gc_telemetry_deployment_environment :: "string option"
  gc_telemetry_service_instance_id :: "string option"
  gc_local_log_output :: LocalLogOutput
  gc_gvmd_endpoint :: string
  gc_shutdown_drain_timeout_secs :: u64
  gc_session :: SessionConfig
  gc_rest_security :: RestSecurityConfig
  gc_transport_security :: TransportSecurityConfig

record FileConfig =
  fc_bind :: "string option"
  fc_otlp_endpoint :: "string option"
  fc_telemetry_service_name :: "string option"
  fc_telemetry_service_namespace :: "string option"
  fc_telemetry_deployment_environment :: "string option"
  fc_telemetry_service_instance_id :: "string option"
  fc_local_log_output :: "LocalLogOutput option"
  fc_gvmd_endpoint :: "string option"
  fc_shutdown_drain_timeout_secs :: "u64 option"
  fc_session_idle_timeout_secs :: "u64 option"
  fc_session_max_global :: "u64 option"
  fc_session_max_per_user :: "u64 option"
  fc_cors_allowed_origins :: "string list option"
  fc_rate_limit_window_secs :: "u64 option"
  fc_rate_limit_global_per_window :: "u64 option"
  fc_rate_limit_subject_per_window :: "u64 option"
  fc_trusted_proxy_cidrs :: "string list option"
  fc_transport_security_mode :: "TransportSecurityMode option"
  fc_tls_certificate_path :: "string option"
  fc_tls_private_key_path :: "string option"

record CliArgs =
  cli_config :: "string option"
  cli_bind :: "string option"

type_synonym environment = "string \<Rightarrow> string option"

datatype IoError = FileNotFound | OtherIo string

datatype ConfigError = Io IoError | ParseToml string | InvalidValue string

definition DEFAULT_CONFIG_PATH :: string where
  "DEFAULT_CONFIG_PATH = ''/etc/gvm-gateway/gvm-gateway.toml''"

definition default_session_config :: SessionConfig where
  "default_session_config = \<lparr>sn_idle_timeout_secs = 300, sn_limits = default_limits\<rparr>"

definition default_rest_security :: RestSecurityConfig where
  "default_rest_security =
     \<lparr>sc_cors_allowed_origins = [], sc_rate_limit = default_rate_limit,
      sc_trusted_proxy_cidrs = [], sc_native_tls_enabled = False\<rparr>"

definition default_transport_security :: TransportSecurityConfig where
  "default_transport_security =
     \<lparr>ts_mode = Disabled, ts_tls_certificate_path = None, ts_tls_private_key_path = None\<rparr>"

definition default_config :: GatewayConfig where
  "default_config =
     \<lparr>gc_bind = ''127.0.0.1:8080'',
      gc_otlp_endpoint = None,
      gc_telemetry_service_name = ''gvm-gateway'',
      gc_telemetry_service_namespace = Some ''greenbone'',
      gc_telemetry_deployment_environment = None,
      gc_telemetry_service_instance_id = None,
      gc_local_log_output = Stdout,
      gc_gvmd_endpoint = ''unix:///run/gvmd/gvmd.sock'',
      gc_shutdown_drain_timeout_secs = 30,
      gc_session = default_session_config,
      gc_rest_security = default_rest_security,
      gc_transport_security = default_transport_security\<rparr>"

section \<open>Reading single values\<close>

definition quoted :: "string \<Rightarrow> string" where
  "quoted s = [CHR 0x27] @ s @ [CHR 0x27]"

definition local_log_parse :: "string \<Rightarrow> string \<Rightarrow> ConfigError + LocalLogOutput" where
  "local_log_parse source v =
     (let s = trim v
      in if s = ''stdout'' then Inr Stdout
         else if s = ''journald'' then Inr Journald
         else Inl (InvalidValue (source @ '' must be one of: stdout, journald (got '' @ quoted s @ '')'')))"

definition mode_parse :: "string \<Rightarrow> string \<Rightarrow> ConfigError + TransportSecurityMode" where
  "mode_parse source v =
     (let s = trim v
      in if s = ''disabled'' then Inr Disabled
         else if s = ''terminated_by_proxy'' then Inr TerminatedByProxy
         else if s = ''native'' then Inr Native
         else Inl (InvalidValue (source @ '' must be one of: disabled, terminated_by_proxy, native (got ''
                @ quoted s @ '')'')))"

fun mode_as_str :: "TransportSecurityMode \<Rightarrow> string" where
  "mode_as_str Disabled = ''disabled''"
| "mode_as_str TerminatedByProxy = ''terminated_by_proxy''"
| "mode_as_str Native = ''native''"

definition parse_u64 :: "string \<Rightarrow> string \<Rightarrow> ConfigError + u64" where
  "parse_u64 name v =
     (case parse_unsigned (2 ^ 64) v of
        None \<Rightarrow> Inl (InvalidValue (name @ '' must be an unsigned integer''))
      | Some n \<Rightarrow> Inr (of_nat n))"

definition limit_to_option :: "u64 \<Rightarrow> u64 option" where
  "limit_to_option limit = (if limit = 0 then None else Some limit)"

definition parse_trusted_proxy_cidrs :: "string \<Rightarrow> string list \<Rightarrow> ConfigError + TrustedProxyCidr list" where
  "parse_trusted_proxy_cidrs name =
     collect_results (\<lambda>cidr.
       case cidr_from_str cidr of
         Inl e \<Rightarrow> Inl (InvalidValue (name @ '' contains invalid CIDR '' @ quoted cidr @ '': '' @ e))
       | Inr c \<Rightarrow> Inr c)"

text \<open>The list form of an environment variable: split at commas, trimmed, without empty parts.\<close>

definition comma_list :: "string \<Rightarrow> string list" where
  "comma_list v = filter (\<lambda>s. s \<noteq> []) (map trim (split_on (CHR '','') v))"

definition require_path :: "string \<Rightarrow> string option \<Rightarrow> ConfigError + string" where
  "require_path name path =
     (case path of
        None \<Rightarrow> Inl (InvalidValue (name @ '' must be set when transport_security_mode=native''))
      | Some p \<Rightarrow>
          if p = [] then Inl (InvalidValue (name @ '' must not be empty when transport_security_mode=native''))
          else Inr p)"

definition validate_transport :: "TransportSecurityConfig \<Rightarrow> ConfigError + unit" where
  "validate_transport ts =
     (if ts_mode ts = Native
      then and_then (require_path ''tls_certificate_path'' (ts_tls_certificate_path ts)) (\<lambda>_.
             and_then (require_path ''tls_private_key_path'' (ts_tls_private_key_path ts)) (\<lambda>_. Inr ()))
      else if ts_tls_certificate_path ts \<noteq> None \<or> ts_tls_private_key_path ts \<noteq> None
      then Inl (InvalidValue (mode_as_str (ts_mode ts)
             @ '' mode must not set tls_certificate_path or tls_private_key_path''))
      else Inr ())"

definition native_tls_files :: "TransportSecurityConfig \<Rightarrow> ConfigError + NativeTlsFiles option" where
  "native_tls_files ts =
     and_then (validate_transport ts) (\<lambda>_.
       if ts_mode ts \<noteq> Native then Inr None
       else and_then (require_path ''tls_certificate_path'' (ts_tls_certificate_path ts)) (\<lambda>cert.
              and_then (require_path ''tls_private_key_path'' (ts_tls_private_key_path ts)) (\<lambda>key.
                Inr (Some \<lparr>nt_certificate_path = cert, nt_private_key_path = key\<rparr>))))"

definition absolute_socket_path :: "string \<Rightarrow> ConfigError + string" where
  "absolute_socket_path path =
     (if \<not> starts_with ''/'' path
      then Inl (InvalidValue (''gvmd_endpoint must resolve to an absolute Unix socket path: '' @ path))
      else Inr path)"

definition parse_gvmd_endpoint :: "string \<Rightarrow> ConfigError + string" where
  "parse_gvmd_endpoint endpoint =
     (let v = trim endpoint
      in if v = [] then Inl (InvalidValue ''gvmd_endpoint must not be empty'')
         else case strip_prefix ''unix://'' v of
           Some path \<Rightarrow> absolute_socket_path path
         | None \<Rightarrow>
             if starts_with ''/'' v then absolute_socket_path v
             else Inl (InvalidValue (''unsupported gvmd_endpoint '' @ quoted v
                    @ ''; expected unix:///path/to/gvmd.sock'')))"

section \<open>The layers\<close>

definition load_file_config ::
    "(string \<Rightarrow> IoError + string) \<Rightarrow> string option \<Rightarrow> string \<Rightarrow> ConfigError + string option" where
  "load_file_config read_to_string explicit_path default_config_path =
     (case explicit_path of
        Some path \<Rightarrow>
          (case read_to_string path of Inl e \<Rightarrow> Inl (Io e) | Inr content \<Rightarrow> Inr (Some content))
      | None \<Rightarrow>
          (case read_to_string default_config_path of
             Inr content \<Rightarrow> Inr (Some content)
           | Inl e \<Rightarrow> if e = FileNotFound then Inr None else Inl (Io e)))"

text \<open>
  An assignment guarded by \<open>if let Some\<close> keeps the value below when there is none;
  \<open>limit\<close> is the same for a limit, where zero switches the limit off.
\<close>

definition over :: "'a option \<Rightarrow> 'a \<Rightarrow> 'a" where
  "over v below = unwrap_or v below"

definition over_some :: "'a option \<Rightarrow> 'a option \<Rightarrow> 'a option" where
  "over_some v below = (case v of Some x \<Rightarrow> Some x | None \<Rightarrow> below)"

definition over_limit :: "u64 option \<Rightarrow> u64 option \<Rightarrow> u64 option" where
  "over_limit v below = (case v of Some n \<Rightarrow> limit_to_option n | None \<Rightarrow> below)"

definition apply_security_file_config :: "FileConfig \<Rightarrow> RestSecurityConfig \<Rightarrow> ConfigError + RestSecurityConfig" where
  "apply_security_file_config f sec =
     (let rl = sc_rate_limit sec;
          sec = sec\<lparr>sc_cors_allowed_origins := over (fc_cors_allowed_origins f) (sc_cors_allowed_origins sec),
                    sc_rate_limit := rl\<lparr>rl_window_secs := over (fc_rate_limit_window_secs f) (rl_window_secs rl),
                      rl_global_per_window := over_limit (fc_rate_limit_global_per_window f) (rl_global_per_window rl),
                      rl_subject_per_window := over_limit (fc_rate_limit_subject_per_window f) (rl_subject_per_window rl)\<rparr>\<rparr>
      in case fc_trusted_proxy_cidrs f of
           None \<Rightarrow> Inr sec
         | Some cidrs \<Rightarrow>
             and_then (parse_trusted_proxy_cidrs ''trusted_proxy_cidrs'' cidrs) (\<lambda>cs.
               Inr (sec\<lparr>sc_trusted_proxy_cidrs := cs\<rparr>)))"

definition apply_file_config :: "FileConfig \<Rightarrow> GatewayConfig \<Rightarrow> ConfigError + GatewayConfig" where
  "apply_file_config f c =
     (let ses = gc_session c; lim = sn_limits ses; ts = gc_transport_security c;
          c = c\<lparr>gc_bind := over (fc_bind f) (gc_bind c),
                gc_otlp_endpoint := over_some (fc_otlp_endpoint f) (gc_otlp_endpoint c),
                gc_telemetry_service_name := over (fc_telemetry_service_name f) (gc_telemetry_service_name c),
                gc_telemetry_service_namespace :=
                  over_some (fc_telemetry_service_namespace f) (gc_telemetry_service_namespace c),
                gc_telemetry_deployment_environment :=
                  over_some (fc_telemetry_deployment_environment f) (gc_telemetry_deployment_environment c),
                gc_telemetry_service_instance_id :=
                  over_some (fc_telemetry_service_instance_id f) (gc_telemetry_service_instance_id c),
                gc_local_log_output := over (fc_local_log_output f) (gc_local_log_output c),
                gc_gvmd_endpoint := over (fc_gvmd_endpoint f) (gc_gvmd_endpoint c),
                gc_shutdown_drain_timeout_secs :=
                  over (fc_shutdown_drain_timeout_secs f) (gc_shutdown_drain_timeout_secs c),
                gc_session :=
                  ses\<lparr>sn_idle_timeout_secs := over (fc_session_idle_timeout_secs f) (sn_idle_timeout_secs ses),
                      sn_limits := lim\<lparr>max_global := over_limit (fc_session_max_global f) (max_global lim),
                        max_per_user := over_limit (fc_session_max_per_user f) (max_per_user lim)\<rparr>\<rparr>,
                gc_transport_security :=
                  ts\<lparr>ts_mode := over (fc_transport_security_mode f) (ts_mode ts),
                     ts_tls_certificate_path := over_some (fc_tls_certificate_path f) (ts_tls_certificate_path ts),
                     ts_tls_private_key_path := over_some (fc_tls_private_key_path f) (ts_tls_private_key_path ts)\<rparr>\<rparr>
      in and_then (apply_security_file_config f (gc_rest_security c)) (\<lambda>sec.
           Inr (c\<lparr>gc_rest_security := sec\<rparr>)))"

text \<open>A variable that is parsed: absent, or parsed under its own name.\<close>

definition env_parsed ::
    "environment \<Rightarrow> string \<Rightarrow> (string \<Rightarrow> string \<Rightarrow> ConfigError + 'a) \<Rightarrow> ConfigError + 'a option" where
  "env_parsed env name parse = map_transpose (parse name) (env name)"

definition apply_security_env_config :: "environment \<Rightarrow> RestSecurityConfig \<Rightarrow> ConfigError + RestSecurityConfig" where
  "apply_security_env_config env sec =
     and_then (env_parsed env ''GVM_GATEWAY_RATE_LIMIT_WINDOW_SECS'' parse_u64) (\<lambda>window.
     and_then (env_parsed env ''GVM_GATEWAY_RATE_LIMIT_GLOBAL_PER_WINDOW'' parse_u64) (\<lambda>global.
     and_then (env_parsed env ''GVM_GATEWAY_RATE_LIMIT_SUBJECT_PER_WINDOW'' parse_u64) (\<lambda>subject.
     and_then (env_parsed env ''GVM_GATEWAY_TRUSTED_PROXY_CIDRS''
                 (\<lambda>name v. parse_trusted_proxy_cidrs name (comma_list v))) (\<lambda>cidrs.
     (let rl = sc_rate_limit sec
      in Inr (sec\<lparr>sc_cors_allowed_origins :=
                    over (map_option comma_list (env ''GVM_GATEWAY_CORS_ALLOWED_ORIGINS'')) (sc_cors_allowed_origins sec),
                  sc_rate_limit := rl\<lparr>rl_window_secs := over window (rl_window_secs rl),
                    rl_global_per_window := over_limit global (rl_global_per_window rl),
                    rl_subject_per_window := over_limit subject (rl_subject_per_window rl)\<rparr>,
                  sc_trusted_proxy_cidrs := over cidrs (sc_trusted_proxy_cidrs sec)\<rparr>))))))"

definition apply_env_config :: "environment \<Rightarrow> GatewayConfig \<Rightarrow> ConfigError + GatewayConfig" where
  "apply_env_config env c =
     and_then (env_parsed env ''GVM_GATEWAY_LOCAL_LOG_OUTPUT'' local_log_parse) (\<lambda>log.
     and_then (env_parsed env ''GVM_GATEWAY_SHUTDOWN_DRAIN_TIMEOUT_SECS'' parse_u64) (\<lambda>drain.
     and_then (env_parsed env ''GVM_GATEWAY_SESSION_IDLE_TIMEOUT_SECS'' parse_u64) (\<lambda>idle.
     and_then (env_parsed env ''GVM_GATEWAY_SESSION_MAX_GLOBAL'' parse_u64) (\<lambda>global.
     and_then (env_parsed env ''GVM_GATEWAY_SESSION_MAX_PER_USER'' parse_u64) (\<lambda>per_user.
     and_then (env_parsed env ''GVM_GATEWAY_TRANSPORT_SECURITY_MODE'' mode_parse) (\<lambda>mode.
     and_then (apply_security_env_config env (gc_rest_security c)) (\<lambda>sec.
     (let ses = gc_session c; lim = sn_limits ses; ts = gc_transport_security c
      in Inr (c\<lparr>gc_bind := over (env ''GVM_GATEWAY_BIND'') (gc_bind c),
                gc_otlp_endpoint := over_some (env ''GVM_GATEWAY_OTLP_ENDPOINT'') (gc_otlp_endpoint c),
                gc_telemetry_service_name :=
                  over (env ''GVM_GATEWAY_TELEMETRY_SERVICE_NAME'') (gc_telemetry_service_name c),
                gc_telemetry_service_namespace :=
                  over_some (env ''GVM_GATEWAY_TELEMETRY_SERVICE_NAMESPACE'') (gc_telemetry_service_namespace c),
                gc_telemetry_deployment_environment :=
                  over_some (env ''GVM_GATEWAY_TELEMETRY_DEPLOYMENT_ENVIRONMENT'')
                    (gc_telemetry_deployment_environment c),
                gc_telemetry_service_instance_id :=
                  over_some (env ''GVM_GATEWAY_TELEMETRY_SERVICE_INSTANCE_ID'') (gc_telemetry_service_instance_id c),
                gc_local_log_output := over log (gc_local_log_output c),
                gc_gvmd_endpoint := over (env ''GVM_GATEWAY_GVMD_ENDPOINT'') (gc_gvmd_endpoint c),
                gc_shutdown_drain_timeout_secs := over drain (gc_shutdown_drain_timeout_secs c),
                gc_session :=
                  ses\<lparr>sn_idle_timeout_secs := over idle (sn_idle_timeout_secs ses),
                      sn_limits := lim\<lparr>max_global := over_limit global (max_global lim),
                        max_per_user := over_limit per_user (max_per_user lim)\<rparr>\<rparr>,
                gc_rest_security := sec,
                gc_transport_security :=
                  ts\<lparr>ts_mode := over mode (ts_mode ts),
                     ts_tls_certificate_path :=
                       over_some (env ''GVM_GATEWAY_TLS_CERTIFICATE_PATH'') (ts_tls_certificate_path ts),
                     ts_tls_private_key_path :=
                       over_some (env ''GVM_GATEWAY_TLS_PRIVATE_KEY_PATH'') (ts_tls_private_key_path ts)\<rparr>\<rparr>)))))))))"

definition load_config_with_default_path ::
    "(string \<Rightarrow> IoError + string) \<Rightarrow> (string \<Rightarrow> string + FileConfig) \<Rightarrow> CliArgs \<Rightarrow> environment \<Rightarrow> string
      \<Rightarrow> ConfigError + GatewayConfig" where
  "load_config_with_default_path read_to_string from_str cli env default_config_path =
     and_then (load_file_config read_to_string (cli_config cli) default_config_path) (\<lambda>content.
     and_then (case content of
                 None \<Rightarrow> Inr default_config
               | Some text \<Rightarrow>
                   (case from_str text of
                      Inl e \<Rightarrow> Inl (ParseToml e)
                    | Inr f \<Rightarrow> apply_file_config f default_config)) (\<lambda>c.
     and_then (apply_env_config env c) (\<lambda>c.
     (let c = c\<lparr>gc_bind := over (cli_bind cli) (gc_bind c)\<rparr>
      in and_then (validate_transport (gc_transport_security c)) (\<lambda>_. Inr c)))))"

definition load_config ::
    "(string \<Rightarrow> IoError + string) \<Rightarrow> (string \<Rightarrow> string + FileConfig) \<Rightarrow> CliArgs \<Rightarrow> environment
      \<Rightarrow> ConfigError + GatewayConfig" where
  "load_config read_to_string from_str cli env =
     load_config_with_default_path read_to_string from_str cli env DEFAULT_CONFIG_PATH"

text \<open>
  The start of the process, \<open>main.rs\<close>: the socket of the backend, the TLS files, the
  security configuration and the session registry a configuration gives.
\<close>

definition start_gateway ::
    "GatewayConfig \<Rightarrow> ConfigError + string \<times> NativeTlsFiles option \<times> RestSecurityConfig \<times> SessionManager" where
  "start_gateway c =
     and_then (parse_gvmd_endpoint (gc_gvmd_endpoint c)) (\<lambda>socket.
     and_then (native_tls_files (gc_transport_security c)) (\<lambda>tls.
       Inr (socket, tls, (gc_rest_security c)\<lparr>sc_native_tls_enabled := tls \<noteq> None\<rparr>,
            with_limits (sn_idle_timeout_secs (gc_session c)) (sn_limits (gc_session c)))))"

section \<open>What an environment and a file contribute\<close>

fun first_of :: "'a option list \<Rightarrow> 'a \<Rightarrow> 'a" where
  "first_of [] d = d"
| "first_of (None # vs) d = first_of vs d"
| "first_of (Some v # vs) d = v"

definition first_some :: "'a option list \<Rightarrow> 'a option" where
  "first_some vs = first_of (map (map_option Some) vs) None"

definition env_u64 :: "environment \<Rightarrow> string \<Rightarrow> u64 option" where
  "env_u64 env name = map_option of_nat (Option.bind (env name) (parse_unsigned (2 ^ 64)))"

definition env_log :: "environment \<Rightarrow> LocalLogOutput option" where
  "env_log env = map_option (\<lambda>v. if trim v = ''journald'' then Journald else Stdout)
     (env ''GVM_GATEWAY_LOCAL_LOG_OUTPUT'')"

definition env_mode :: "environment \<Rightarrow> TransportSecurityMode option" where
  "env_mode env = map_option (\<lambda>v. if trim v = ''native'' then Native
       else if trim v = ''terminated_by_proxy'' then TerminatedByProxy else Disabled)
     (env ''GVM_GATEWAY_TRANSPORT_SECURITY_MODE'')"

definition readable :: "(string \<Rightarrow> bool) \<Rightarrow> string option \<Rightarrow> bool" where
  "readable ok v = (case v of None \<Rightarrow> True | Some s \<Rightarrow> ok s)"

definition is_number :: "string \<Rightarrow> bool" where
  "is_number v = (parse_unsigned (2 ^ 64) v \<noteq> None)"

definition are_cidrs :: "string list \<Rightarrow> bool" where
  "are_cidrs = list_all (\<lambda>s. is_ok (cidr_from_str s))"

definition cidrs_of :: "string list \<Rightarrow> TrustedProxyCidr list" where
  "cidrs_of = map (\<lambda>s. case cidr_from_str s of Inr c \<Rightarrow> c | Inl _ \<Rightarrow> \<lparr>cidr_network = V4 (Ipv4Addr 0 0 0 0), cidr_prefix_len = 0\<rparr>)"

definition env_ok :: "environment \<Rightarrow> bool" where
  "env_ok env \<longleftrightarrow>
     list_all (\<lambda>name. readable is_number (env name))
       [''GVM_GATEWAY_SHUTDOWN_DRAIN_TIMEOUT_SECS'', ''GVM_GATEWAY_SESSION_IDLE_TIMEOUT_SECS'',
        ''GVM_GATEWAY_SESSION_MAX_GLOBAL'', ''GVM_GATEWAY_SESSION_MAX_PER_USER'',
        ''GVM_GATEWAY_RATE_LIMIT_WINDOW_SECS'', ''GVM_GATEWAY_RATE_LIMIT_GLOBAL_PER_WINDOW'',
        ''GVM_GATEWAY_RATE_LIMIT_SUBJECT_PER_WINDOW'']
     \<and> readable (\<lambda>v. trim v \<in> {''stdout'', ''journald''}) (env ''GVM_GATEWAY_LOCAL_LOG_OUTPUT'')
     \<and> readable (\<lambda>v. trim v \<in> {''disabled'', ''terminated_by_proxy'', ''native''})
         (env ''GVM_GATEWAY_TRANSPORT_SECURITY_MODE'')
     \<and> readable (\<lambda>v. are_cidrs (comma_list v)) (env ''GVM_GATEWAY_TRUSTED_PROXY_CIDRS'')"

definition empty_file :: FileConfig where
  "empty_file =
     \<lparr>fc_bind = None, fc_otlp_endpoint = None, fc_telemetry_service_name = None,
      fc_telemetry_service_namespace = None, fc_telemetry_deployment_environment = None,
      fc_telemetry_service_instance_id = None, fc_local_log_output = None, fc_gvmd_endpoint = None,
      fc_shutdown_drain_timeout_secs = None, fc_session_idle_timeout_secs = None,
      fc_session_max_global = None, fc_session_max_per_user = None, fc_cors_allowed_origins = None,
      fc_rate_limit_window_secs = None, fc_rate_limit_global_per_window = None,
      fc_rate_limit_subject_per_window = None, fc_trusted_proxy_cidrs = None,
      fc_transport_security_mode = None, fc_tls_certificate_path = None,
      fc_tls_private_key_path = None\<rparr>"

text \<open>
  The file that takes effect: the named one, or the packaged one if it exists. A missing
  packaged file counts as empty; an unreadable or malformed file takes no effect at all.
\<close>

definition file_in_effect ::
    "(string \<Rightarrow> IoError + string) \<Rightarrow> (string \<Rightarrow> string + FileConfig) \<Rightarrow> string option \<Rightarrow> string
      \<Rightarrow> FileConfig option" where
  "file_in_effect read_to_string from_str explicit_path default_config_path =
     (case read_to_string (unwrap_or explicit_path default_config_path) of
        Inr text \<Rightarrow> (case from_str text of Inl _ \<Rightarrow> None | Inr f \<Rightarrow> Some f)
      | Inl e \<Rightarrow> if explicit_path = None \<and> e = FileNotFound then Some empty_file else None)"

text \<open>Every setting, from the highest layer that names it.\<close>

definition layered_config :: "FileConfig \<Rightarrow> environment \<Rightarrow> CliArgs \<Rightarrow> GatewayConfig" where
  "layered_config f env cli =
     \<lparr>gc_bind = first_of [cli_bind cli, env ''GVM_GATEWAY_BIND'', fc_bind f] ''127.0.0.1:8080'',
      gc_otlp_endpoint = first_some [env ''GVM_GATEWAY_OTLP_ENDPOINT'', fc_otlp_endpoint f],
      gc_telemetry_service_name =
        first_of [env ''GVM_GATEWAY_TELEMETRY_SERVICE_NAME'', fc_telemetry_service_name f] ''gvm-gateway'',
      gc_telemetry_service_namespace = first_some
        [env ''GVM_GATEWAY_TELEMETRY_SERVICE_NAMESPACE'', fc_telemetry_service_namespace f, Some ''greenbone''],
      gc_telemetry_deployment_environment = first_some
        [env ''GVM_GATEWAY_TELEMETRY_DEPLOYMENT_ENVIRONMENT'', fc_telemetry_deployment_environment f],
      gc_telemetry_service_instance_id = first_some
        [env ''GVM_GATEWAY_TELEMETRY_SERVICE_INSTANCE_ID'', fc_telemetry_service_instance_id f],
      gc_local_log_output = first_of [env_log env, fc_local_log_output f] Stdout,
      gc_gvmd_endpoint =
        first_of [env ''GVM_GATEWAY_GVMD_ENDPOINT'', fc_gvmd_endpoint f] ''unix:///run/gvmd/gvmd.sock'',
      gc_shutdown_drain_timeout_secs = first_of
        [env_u64 env ''GVM_GATEWAY_SHUTDOWN_DRAIN_TIMEOUT_SECS'', fc_shutdown_drain_timeout_secs f] 30,
      gc_session =
        \<lparr>sn_idle_timeout_secs = first_of
           [env_u64 env ''GVM_GATEWAY_SESSION_IDLE_TIMEOUT_SECS'', fc_session_idle_timeout_secs f] 300,
         sn_limits =
           \<lparr>max_global = limit_to_option (first_of
              [env_u64 env ''GVM_GATEWAY_SESSION_MAX_GLOBAL'', fc_session_max_global f] DEFAULT_MAX_GLOBAL_SESSIONS),
            max_per_user = limit_to_option (first_of
              [env_u64 env ''GVM_GATEWAY_SESSION_MAX_PER_USER'', fc_session_max_per_user f]
              DEFAULT_MAX_SESSIONS_PER_USER)\<rparr>\<rparr>,
      gc_rest_security =
        \<lparr>sc_cors_allowed_origins = first_of
           [map_option comma_list (env ''GVM_GATEWAY_CORS_ALLOWED_ORIGINS''), fc_cors_allowed_origins f] [],
         sc_rate_limit =
           \<lparr>rl_window_secs = first_of
              [env_u64 env ''GVM_GATEWAY_RATE_LIMIT_WINDOW_SECS'', fc_rate_limit_window_secs f] 60,
            rl_global_per_window = limit_to_option (first_of
              [env_u64 env ''GVM_GATEWAY_RATE_LIMIT_GLOBAL_PER_WINDOW'', fc_rate_limit_global_per_window f] 1000),
            rl_subject_per_window = limit_to_option (first_of
              [env_u64 env ''GVM_GATEWAY_RATE_LIMIT_SUBJECT_PER_WINDOW'', fc_rate_limit_subject_per_window f] 500)\<rparr>,
         sc_trusted_proxy_cidrs = cidrs_of (first_of
           [map_option comma_list (env ''GVM_GATEWAY_TRUSTED_PROXY_CIDRS''), fc_trusted_proxy_cidrs f] []),
         sc_native_tls_enabled = False\<rparr>,
      gc_transport_security =
        \<lparr>ts_mode = first_of [env_mode env, fc_transport_security_mode f] Disabled,
         ts_tls_certificate_path = first_some [env ''GVM_GATEWAY_TLS_CERTIFICATE_PATH'', fc_tls_certificate_path f],
         ts_tls_private_key_path = first_some [env ''GVM_GATEWAY_TLS_PRIVATE_KEY_PATH'', fc_tls_private_key_path f]\<rparr>\<rparr>"

section \<open>Lemmas\<close>

text \<open>The declarative reading of a list of layers is the nested overriding of the code.\<close>

lemma over_simps [simp]: "over None d = d" "over (Some x) d = x"
  by (simp_all add: over_def unwrap_or_def)

lemma over_some_simps [simp]: "over_some None w = w" "over_some (Some x) w = Some x"
  by (simp_all add: over_some_def)

lemma over_limit_simps [simp]: "over_limit None w = w" "over_limit (Some n) w = limit_to_option n"
  by (simp_all add: over_limit_def)

lemma first_of_over: "first_of [] d = d" "first_of (v # vs) d = over v (first_of vs d)"
  by simp (cases v; simp)

lemma first_some_over: "first_some [] = None" "first_some (v # vs) = over_some v (first_some vs)"
  by (simp add: first_some_def) (cases v; simp add: first_some_def)

lemma limit_over: "limit_to_option (over v d) = over_limit v (limit_to_option d)"
  by (cases v) simp_all

lemma cidrs_over: "cidrs_of (over v d) = over (map_option cidrs_of v) (cidrs_of d)"
  by (cases v) simp_all

lemmas layer_simps = first_of_over first_some_over limit_over cidrs_over

lemma parse_u64_Inr: "parse_u64 name v = Inr x \<longleftrightarrow> is_number v \<and> x = of_nat (the (parse_unsigned (2 ^ 64) v))"
  by (auto simp: parse_u64_def is_number_def split: option.splits)

lemma env_parsed_u64:
  "env_parsed env name parse_u64 = Inr x \<longleftrightarrow> readable is_number (env name) \<and> x = env_u64 env name"
  by (cases "env name")
    (auto simp: env_parsed_def and_then_eq_Inr parse_u64_Inr readable_def env_u64_def is_number_def)

lemma env_parsed_log:
  "env_parsed env ''GVM_GATEWAY_LOCAL_LOG_OUTPUT'' local_log_parse = Inr x \<longleftrightarrow>
     readable (\<lambda>v. trim v \<in> {''stdout'', ''journald''}) (env ''GVM_GATEWAY_LOCAL_LOG_OUTPUT'') \<and> x = env_log env"
  by (cases "env ''GVM_GATEWAY_LOCAL_LOG_OUTPUT''")
    (auto simp: env_parsed_def and_then_eq_Inr local_log_parse_def readable_def env_log_def Let_def)

lemma env_parsed_mode:
  "env_parsed env ''GVM_GATEWAY_TRANSPORT_SECURITY_MODE'' mode_parse = Inr x \<longleftrightarrow>
     readable (\<lambda>v. trim v \<in> {''disabled'', ''terminated_by_proxy'', ''native''})
       (env ''GVM_GATEWAY_TRANSPORT_SECURITY_MODE'') \<and> x = env_mode env"
  by (cases "env ''GVM_GATEWAY_TRANSPORT_SECURITY_MODE''")
    (auto simp: env_parsed_def and_then_eq_Inr mode_parse_def readable_def env_mode_def Let_def)

lemma parse_cidrs_Inr: "parse_trusted_proxy_cidrs name vs = Inr cs \<longleftrightarrow> are_cidrs vs \<and> cs = cidrs_of vs"
proof (induction vs arbitrary: cs)
  case Nil
  then show ?case by (auto simp: parse_trusted_proxy_cidrs_def are_cidrs_def cidrs_of_def)
next
  case (Cons v vs)
  then show ?case
    by (cases "cidr_from_str v")
      (auto simp: parse_trusted_proxy_cidrs_def are_cidrs_def cidrs_of_def and_then_eq_Inr)
qed

lemma env_parsed_cidrs:
  "env_parsed env name (\<lambda>name v. parse_trusted_proxy_cidrs name (comma_list v)) = Inr x \<longleftrightarrow>
     readable (\<lambda>v. are_cidrs (comma_list v)) (env name)
     \<and> x = map_option cidrs_of (map_option comma_list (env name))"
  by (cases "env name") (auto simp: env_parsed_def and_then_eq_Inr parse_cidrs_Inr readable_def)

lemmas env_parsed_iffs = env_parsed_u64 env_parsed_log env_parsed_mode env_parsed_cidrs

definition env_security :: "environment \<Rightarrow> RestSecurityConfig \<Rightarrow> RestSecurityConfig" where
  "env_security env sec =
     (let rl = sc_rate_limit sec
      in sec\<lparr>sc_cors_allowed_origins :=
               over (map_option comma_list (env ''GVM_GATEWAY_CORS_ALLOWED_ORIGINS'')) (sc_cors_allowed_origins sec),
             sc_rate_limit := rl\<lparr>rl_window_secs :=
                 over (env_u64 env ''GVM_GATEWAY_RATE_LIMIT_WINDOW_SECS'') (rl_window_secs rl),
               rl_global_per_window :=
                 over_limit (env_u64 env ''GVM_GATEWAY_RATE_LIMIT_GLOBAL_PER_WINDOW'') (rl_global_per_window rl),
               rl_subject_per_window :=
                 over_limit (env_u64 env ''GVM_GATEWAY_RATE_LIMIT_SUBJECT_PER_WINDOW'') (rl_subject_per_window rl)\<rparr>,
             sc_trusted_proxy_cidrs :=
               over (map_option cidrs_of (map_option comma_list (env ''GVM_GATEWAY_TRUSTED_PROXY_CIDRS'')))
                 (sc_trusted_proxy_cidrs sec)\<rparr>)"

lemma security_env_layer:
  "apply_security_env_config env sec = Inr sec' \<longleftrightarrow>
     list_all (\<lambda>name. readable is_number (env name))
       [''GVM_GATEWAY_RATE_LIMIT_WINDOW_SECS'', ''GVM_GATEWAY_RATE_LIMIT_GLOBAL_PER_WINDOW'',
        ''GVM_GATEWAY_RATE_LIMIT_SUBJECT_PER_WINDOW'']
     \<and> readable (\<lambda>v. are_cidrs (comma_list v)) (env ''GVM_GATEWAY_TRUSTED_PROXY_CIDRS'')
     \<and> sec' = env_security env sec"
  by (auto simp add: apply_security_env_config_def and_then_eq_Inr env_parsed_iffs env_security_def Let_def)

definition env_layer :: "environment \<Rightarrow> RestSecurityConfig \<Rightarrow> GatewayConfig \<Rightarrow> GatewayConfig" where
  "env_layer env sec c =
     (let ses = gc_session c; lim = sn_limits ses; ts = gc_transport_security c
      in c\<lparr>gc_bind := over (env ''GVM_GATEWAY_BIND'') (gc_bind c),
           gc_otlp_endpoint := over_some (env ''GVM_GATEWAY_OTLP_ENDPOINT'') (gc_otlp_endpoint c),
           gc_telemetry_service_name :=
             over (env ''GVM_GATEWAY_TELEMETRY_SERVICE_NAME'') (gc_telemetry_service_name c),
           gc_telemetry_service_namespace :=
             over_some (env ''GVM_GATEWAY_TELEMETRY_SERVICE_NAMESPACE'') (gc_telemetry_service_namespace c),
           gc_telemetry_deployment_environment :=
             over_some (env ''GVM_GATEWAY_TELEMETRY_DEPLOYMENT_ENVIRONMENT'')
               (gc_telemetry_deployment_environment c),
           gc_telemetry_service_instance_id :=
             over_some (env ''GVM_GATEWAY_TELEMETRY_SERVICE_INSTANCE_ID'') (gc_telemetry_service_instance_id c),
           gc_local_log_output := over (env_log env) (gc_local_log_output c),
           gc_gvmd_endpoint := over (env ''GVM_GATEWAY_GVMD_ENDPOINT'') (gc_gvmd_endpoint c),
           gc_shutdown_drain_timeout_secs :=
             over (env_u64 env ''GVM_GATEWAY_SHUTDOWN_DRAIN_TIMEOUT_SECS'') (gc_shutdown_drain_timeout_secs c),
           gc_session :=
             ses\<lparr>sn_idle_timeout_secs :=
                   over (env_u64 env ''GVM_GATEWAY_SESSION_IDLE_TIMEOUT_SECS'') (sn_idle_timeout_secs ses),
                 sn_limits := lim\<lparr>max_global :=
                     over_limit (env_u64 env ''GVM_GATEWAY_SESSION_MAX_GLOBAL'') (max_global lim),
                   max_per_user :=
                     over_limit (env_u64 env ''GVM_GATEWAY_SESSION_MAX_PER_USER'') (max_per_user lim)\<rparr>\<rparr>,
           gc_rest_security := sec,
           gc_transport_security :=
             ts\<lparr>ts_mode := over (env_mode env) (ts_mode ts),
                ts_tls_certificate_path :=
                  over_some (env ''GVM_GATEWAY_TLS_CERTIFICATE_PATH'') (ts_tls_certificate_path ts),
                ts_tls_private_key_path :=
                  over_some (env ''GVM_GATEWAY_TLS_PRIVATE_KEY_PATH'') (ts_tls_private_key_path ts)\<rparr>\<rparr>)"

lemma env_layer_Inr:
  "apply_env_config env c = Inr c' \<longleftrightarrow>
     list_all (\<lambda>name. readable is_number (env name))
       [''GVM_GATEWAY_SHUTDOWN_DRAIN_TIMEOUT_SECS'', ''GVM_GATEWAY_SESSION_IDLE_TIMEOUT_SECS'',
        ''GVM_GATEWAY_SESSION_MAX_GLOBAL'', ''GVM_GATEWAY_SESSION_MAX_PER_USER'']
     \<and> readable (\<lambda>v. trim v \<in> {''stdout'', ''journald''}) (env ''GVM_GATEWAY_LOCAL_LOG_OUTPUT'')
     \<and> readable (\<lambda>v. trim v \<in> {''disabled'', ''terminated_by_proxy'', ''native''})
         (env ''GVM_GATEWAY_TRANSPORT_SECURITY_MODE'')
     \<and> (\<exists>sec. apply_security_env_config env (gc_rest_security c) = Inr sec \<and> c' = env_layer env sec c)"
proof -
  have "apply_env_config env c = Inr c' \<longleftrightarrow>
     (readable (\<lambda>v. trim v \<in> {''stdout'', ''journald''}) (env ''GVM_GATEWAY_LOCAL_LOG_OUTPUT'')
     \<and> readable is_number (env ''GVM_GATEWAY_SHUTDOWN_DRAIN_TIMEOUT_SECS'')
     \<and> readable is_number (env ''GVM_GATEWAY_SESSION_IDLE_TIMEOUT_SECS'')
     \<and> readable is_number (env ''GVM_GATEWAY_SESSION_MAX_GLOBAL'')
     \<and> readable is_number (env ''GVM_GATEWAY_SESSION_MAX_PER_USER'')
     \<and> readable (\<lambda>v. trim v \<in> {''disabled'', ''terminated_by_proxy'', ''native''})
         (env ''GVM_GATEWAY_TRANSPORT_SECURITY_MODE'')
     \<and> (\<exists>sec. apply_security_env_config env (gc_rest_security c) = Inr sec \<and> env_layer env sec c = c'))"
    by (simp only: apply_env_config_def and_then_eq_Inr env_parsed_iffs env_layer_def Let_def
        sum.inject ex_simps simp_thms conj_assoc)
  then show ?thesis by auto
qed

definition file_ok :: "FileConfig \<Rightarrow> bool" where
  "file_ok f \<longleftrightarrow> (case fc_trusted_proxy_cidrs f of None \<Rightarrow> True | Some vs \<Rightarrow> are_cidrs vs)"

abbreviation no_env :: environment where
  "no_env \<equiv> \<lambda>_. None"

abbreviation no_cli :: CliArgs where
  "no_cli \<equiv> \<lparr>cli_config = None, cli_bind = None\<rparr>"

lemmas default_config_defs =
  default_config_def default_session_config_def default_rest_security_def default_transport_security_def
  default_limits_def default_rate_limit_def

lemma default_limit_values:
  "limit_to_option DEFAULT_MAX_GLOBAL_SESSIONS = Some DEFAULT_MAX_GLOBAL_SESSIONS"
  "limit_to_option DEFAULT_MAX_SESSIONS_PER_USER = Some DEFAULT_MAX_SESSIONS_PER_USER"
  "limit_to_option 1000 = Some 1000" "limit_to_option 500 = Some 500"
  by (simp_all add: limit_to_option_def DEFAULT_MAX_GLOBAL_SESSIONS_def DEFAULT_MAX_SESSIONS_PER_USER_def)

lemma cidrs_of_Nil [simp]: "cidrs_of [] = []"
  by (simp add: cidrs_of_def)

lemma over_some_None [simp]: "over_some v None = v"
  by (cases v) simp_all

lemma env_none [simp]:
  "env_u64 no_env name = None" "env_log no_env = None" "env_mode no_env = None"
  by (simp_all add: env_u64_def env_log_def env_mode_def)

lemma file_layer_Inr:
  "apply_file_config f default_config = Inr c \<longleftrightarrow> file_ok f \<and> c = layered_config f no_env no_cli"
proof (cases "fc_trusted_proxy_cidrs f")
  case None
  then show ?thesis
    by (simp add: apply_file_config_def apply_security_file_config_def default_config_defs layered_config_def
        layer_simps default_limit_values file_ok_def Let_def) (rule eq_commute)
next
  case (Some vs)
  then show ?thesis
    by (simp add: apply_file_config_def apply_security_file_config_def default_config_defs layered_config_def
        layer_simps default_limit_values file_ok_def Let_def and_then_eq_Inr parse_cidrs_Inr) auto
qed

lemma no_file: "layered_config empty_file no_env no_cli = default_config" "file_ok empty_file"
  by (simp_all add: empty_file_def layered_config_def layer_simps default_config_defs default_limit_values file_ok_def)

text \<open>The first two layers together.\<close>

lemma base_layer_Inr:
  "and_then (load_file_config read_to_string path default_path) (\<lambda>content.
       case content of
         None \<Rightarrow> Inr default_config
       | Some text \<Rightarrow>
           (case from_str text of Inl e \<Rightarrow> Inl (ParseToml e) | Inr f \<Rightarrow> apply_file_config f default_config)) = Inr c
   \<longleftrightarrow> (\<exists>f. file_in_effect read_to_string from_str path default_path = Some f \<and> file_ok f
          \<and> c = layered_config f no_env no_cli)"
  by (cases path)
    (auto simp: load_file_config_def file_in_effect_def unwrap_or_def file_layer_Inr no_file
      split: sum.splits if_splits)

lemma env_over_file:
  "env_layer env (env_security env (gc_rest_security (layered_config f no_env no_cli)))
     (layered_config f no_env no_cli) = layered_config f env no_cli"
  by (simp add: env_layer_def env_security_def layered_config_def layer_simps Let_def)

lemma and_then_assoc: "and_then (and_then r f) g = and_then r (\<lambda>x. and_then (f x) g)"
  by (cases r) simp_all

lemma layers_Inr:
  "apply_env_config env (layered_config f no_env no_cli) = Inr c \<longleftrightarrow> env_ok env \<and> c = layered_config f env no_cli"
  unfolding env_layer_Inr security_env_layer env_ok_def by (auto simp: env_over_file)

lemma cli_over_env: "(layered_config f env no_cli)\<lparr>gc_bind := over (cli_bind cli) (gc_bind (layered_config f env no_cli))\<rparr>
    = layered_config f env cli"
  by (simp add: layered_config_def layer_simps)

lemma compose_layers:
  assumes "\<And>f e. next_layer (base_of f) = Inr e \<longleftrightarrow> ok \<and> e = full_of f"
  shows "(\<exists>b. (\<exists>f. P f \<and> Q f \<and> b = base_of f) \<and> (\<exists>e. next_layer b = Inr e \<and> R e))
    \<longleftrightarrow> (\<exists>f. P f \<and> Q f \<and> ok \<and> R (full_of f))"
  by (auto simp: assms)

section \<open>Properties\<close>

text \<open>
  C32. Loading the configuration is overriding layer by layer: it succeeds exactly when the
  file that takes effect is readable and has well-formed proxy ranges, every numeric, mode,
  log and range variable of the environment is well-formed, and the TLS settings fit the
  mode; then each setting is that of the highest layer that names it (command line,
  environment, file, default), a limit of zero switches the limit off, and comma-separated
  variables replace the lists of the file.
\<close>

theorem config_is_layered:
  "load_config_with_default_path read_to_string from_str cli env default_path = Inr c \<longleftrightarrow>
     (\<exists>f. file_in_effect read_to_string from_str (cli_config cli) default_path = Some f
        \<and> file_ok f \<and> env_ok env \<and> c = layered_config f env cli
        \<and> validate_transport (gc_transport_security c) = Inr ())"
proof -
  let ?base = "and_then (load_file_config read_to_string (cli_config cli) default_path) (\<lambda>content.
       case content of
         None \<Rightarrow> Inr default_config
       | Some text \<Rightarrow>
           (case from_str text of Inl e \<Rightarrow> Inl (ParseToml e) | Inr f \<Rightarrow> apply_file_config f default_config))"
  have load: "load_config_with_default_path read_to_string from_str cli env default_path =
      and_then ?base (\<lambda>b. and_then (apply_env_config env b) (\<lambda>e.
        let e = e\<lparr>gc_bind := over (cli_bind cli) (gc_bind e)\<rparr>
        in and_then (validate_transport (gc_transport_security e)) (\<lambda>_. Inr e)))"
    unfolding load_config_with_default_path_def and_then_assoc ..
  let ?finish = "\<lambda>e. let e = e\<lparr>gc_bind := over (cli_bind cli) (gc_bind e)\<rparr>
      in and_then (validate_transport (gc_transport_security e)) (\<lambda>_. Inr e)"
  have "load_config_with_default_path read_to_string from_str cli env default_path = Inr c \<longleftrightarrow>
      (\<exists>f. file_in_effect read_to_string from_str (cli_config cli) default_path = Some f
         \<and> file_ok f \<and> env_ok env \<and> ?finish (layered_config f env no_cli) = Inr c)"
    unfolding load and_then_eq_Inr [of ?base] base_layer_Inr and_then_eq_Inr [of "apply_env_config env _"]
    by (rule compose_layers [where R = "\<lambda>e. ?finish e = Inr c" and full_of = "\<lambda>f. layered_config f env no_cli"])
      (rule layers_Inr)
  then show ?thesis by (auto simp: and_then_eq_Inr cli_over_env Let_def)
qed

text \<open>
  The TLS settings of a loaded configuration fit its mode, and the process starts
  accordingly: native mode has two non-empty paths, which are the files the listener loads,
  and every response announces strict transport security; the other modes have no path, and
  the security layer does not announce it.
\<close>

lemma tls_settings_fit_the_mode:
  assumes "load_config read_to_string from_str cli env = Inr c"
  shows "(ts_mode (gc_transport_security c) = Native
      \<longrightarrow> (\<exists>cert key. cert \<noteq> [] \<and> key \<noteq> []
           \<and> ts_tls_certificate_path (gc_transport_security c) = Some cert
           \<and> ts_tls_private_key_path (gc_transport_security c) = Some key
           \<and> native_tls_files (gc_transport_security c)
               = Inr (Some \<lparr>nt_certificate_path = cert, nt_private_key_path = key\<rparr>)))
    \<and> (ts_mode (gc_transport_security c) \<noteq> Native
      \<longrightarrow> ts_tls_certificate_path (gc_transport_security c) = None
         \<and> ts_tls_private_key_path (gc_transport_security c) = None
         \<and> native_tls_files (gc_transport_security c) = Inr None)
    \<and> (\<forall>socket tls sec sessions. start_gateway c = Inr (socket, tls, sec, sessions)
      \<longrightarrow> sc_native_tls_enabled sec = (ts_mode (gc_transport_security c) = Native)
         \<and> starts_with ''/'' socket)"
proof -
  let ?ts = "gc_transport_security c"
  have valid: "validate_transport ?ts = Inr ()"
    using assms by (auto simp: load_config_def load_config_with_default_path_def and_then_eq_Inr Let_def)
  have native: "\<exists>cert key. cert \<noteq> [] \<and> key \<noteq> [] \<and> ts_tls_certificate_path ?ts = Some cert
      \<and> ts_tls_private_key_path ?ts = Some key
      \<and> native_tls_files ?ts = Inr (Some \<lparr>nt_certificate_path = cert, nt_private_key_path = key\<rparr>)"
    if "ts_mode ?ts = Native"
    using valid that
    by (auto simp: validate_transport_def native_tls_files_def require_path_def and_then_eq_Inr
        split: option.splits if_splits)
  have plain: "ts_tls_certificate_path ?ts = None \<and> ts_tls_private_key_path ?ts = None \<and> native_tls_files ?ts = Inr None"
    if "ts_mode ?ts \<noteq> Native"
    using valid that by (auto simp: validate_transport_def native_tls_files_def split: if_splits)
  have "sc_native_tls_enabled sec = (ts_mode ?ts = Native) \<and> starts_with ''/'' socket"
    if "start_gateway c = Inr (socket, tls, sec, sessions)" for socket tls sec sessions
    using that native plain
    by (cases "ts_mode ?ts = Native")
      (auto simp: start_gateway_def and_then_eq_Inr parse_gvmd_endpoint_def absolute_socket_path_def Let_def
        split: option.splits if_splits)
  then show ?thesis using native plain by blast
qed

definition demo_cli :: CliArgs where
  "demo_cli = \<lparr>cli_config = Some ''conf'', cli_bind = Some ''0.0.0.0:1''\<rparr>"

definition demo_env :: environment where
  "demo_env = [''GVM_GATEWAY_TRANSPORT_SECURITY_MODE'' \<mapsto> ''native'', ''GVM_GATEWAY_SESSION_MAX_GLOBAL'' \<mapsto> ''0'']"

definition demo_read :: "string \<Rightarrow> IoError + string" where
  "demo_read p = (if p = ''conf'' then Inr ''text'' else Inl FileNotFound)"

definition demo_toml :: "string \<Rightarrow> string + FileConfig" where
  "demo_toml text = Inr (empty_file\<lparr>fc_bind := Some ''file'', fc_session_max_global := Some 7,
     fc_tls_certificate_path := Some ''c'', fc_tls_private_key_path := Some ''k''\<rparr>)"

lemma demo_config:
  "\<exists>c. load_config demo_read demo_toml demo_cli demo_env = Inr c
     \<and> gc_bind c = ''0.0.0.0:1'' \<and> max_global (sn_limits (gc_session c)) = None
     \<and> ts_mode (gc_transport_security c) = Native"
proof -
  have trims: "trim ''native'' = ''native''" by (rule trim_graphic) simp_all
  have zero: "parse_unsigned 18446744073709551616 ''0'' = Some 0"
    by (simp add: parse_unsigned_def dec_digit_def)
  show ?thesis
    by (simp add: load_config_def load_config_with_default_path_def load_file_config_def demo_read_def
        demo_toml_def demo_cli_def demo_env_def apply_file_config_def apply_security_file_config_def
        default_config_defs empty_file_def apply_env_config_def env_parsed_def mode_parse_def trims
        parse_u64_def zero apply_security_env_config_def validate_transport_def require_path_def
        limit_to_option_def Let_def)
qed

lemma tls_settings_fit_the_mode_witness:
  "\<exists>c cert key. load_config demo_read demo_toml demo_cli demo_env = Inr c \<and> cert \<noteq> [] \<and> key \<noteq> []
     \<and> native_tls_files (gc_transport_security c)
         = Inr (Some \<lparr>nt_certificate_path = cert, nt_private_key_path = key\<rparr>)"
proof -
  obtain c where c: "load_config demo_read demo_toml demo_cli demo_env = Inr c"
      and mode: "ts_mode (gc_transport_security c) = Native"
    using demo_config by blast
  show ?thesis using tls_settings_fit_the_mode [OF c] mode c by blast
qed

text \<open>
  The backend endpoint: exactly the absolute paths, bare or behind \<open>unix://\<close> and with
  white space around, are accepted, and the socket is that path.
\<close>

lemma gvmd_endpoint_accepts:
  "parse_gvmd_endpoint s = Inr p \<longleftrightarrow>
     starts_with ''/'' p \<and> (trim s = p \<or> trim s = ''unix://'' @ p)"
proof -
  have bare: "strip_prefix ''unix://'' p = None" if "starts_with ''/'' p" for p
    using that by (auto simp: starts_with_iff)
  show ?thesis
    by (auto simp: parse_gvmd_endpoint_def absolute_socket_path_def Let_def bare starts_with_iff
        strip_prefix_Some split: option.splits if_splits)
qed

end
