(* ===== verification/Gmp_Entities.thy ===== *)
theory Gmp_Entities
  imports Text
begin

text \<open>
  What the commands and the answers of the client library share: updates of a field, named
  entities, and the metadata of a resource.
\<close>

section \<open>Updates\<close>

text \<open>An update of a scalar is omitted unless it is set, an update of a collection unless it replaces.\<close>

datatype 'a ScalarUpdate = Omitted | Set 'a
datatype 'a CollectionUpdate = CollectionOmitted | Clear | Replace 'a

text \<open>
  Making an update of a list, and the default: \<open>supporting_inputs_test.rs\<close> states that an empty
  list clears the collection and that an update that is not given is omitted.
\<close>

fun collection_from :: "'a list \<Rightarrow> 'a list CollectionUpdate" where
  "collection_from [] = Clear"
| "collection_from (x # xs) = Replace (x # xs)"

section \<open>Entities\<close>

record NamedEntity =
  ne_id :: string
  ne_name :: string

record EntityMeta =
  em_id :: string
  em_name :: string
  em_comment :: "string option"
  em_owner :: "string option"
  em_creation_time :: "string option"
  em_modification_time :: "string option"
  em_in_use :: bool
  em_writable :: bool

text \<open>Floating-point numbers are never computed with: they are read, and passed on.\<close>

typedecl f64

text \<open>The host access of a user and the configuration of an agent are sent and read.\<close>

record UserHostAccess =
  ha_allow :: bool
  ha_hosts :: string

record GmpAgentRetryConfig =
  gar_attempts :: "u32 option"
  gar_delay_in_seconds :: "u32 option"
  gar_max_jitter_in_seconds :: "u32 option"

record GmpAgentControlConfig =
  gac_retry :: "GmpAgentRetryConfig option"

record GmpAgentScriptExecutorConfig =
  gax_bulk_size :: "u32 option"
  gax_bulk_throttle_time_in_ms :: "u32 option"
  gax_indexer_dir_depth :: "u32 option"
  gax_scheduler_cron_time :: "string list"

record GmpAgentHeartbeatConfig =
  gah_interval_in_seconds :: "u32 option"
  gah_miss_until_inactive :: "u32 option"

record GmpAgentConfig =
  gag_agent_control :: "GmpAgentControlConfig option"
  gag_agent_script_executor :: "GmpAgentScriptExecutorConfig option"
  gag_heartbeat :: "GmpAgentHeartbeatConfig option"

end
