(* ===== verification/Gmp_Data.thy ===== *)
theory Gmp_Data
  imports Gmp_Entities
begin

text \<open>
  Commands of the client library for alerts, schedules, port lists, feeds, scanners, results,
  credentials, identities, assets, annotations, security information, configs, agents and
  reports: what the port operations of
  \<open>crates/gvm-gateway-gvmd/src/gvmd_adapter/ports\<close> build. The names are those of the library's
  builder functions and option structs. An option that the gateway leaves out in every command
  is not repeated here.
\<close>

section \<open>Commands\<close>

record ListOpts =
  lo_filter_string :: "string option"
  lo_details :: "bool option"

subsection \<open>Alerts, schedules, port lists, feeds, scanners and results\<close>

record AlertOpts =
  ao_name :: "string option"
  ao_comment :: "string option"
  ao_event :: "string option"
  ao_event_data :: "(string \<times> string) list"
  ao_condition :: "string option"
  ao_condition_data :: "(string \<times> string) list"
  ao_method :: "string option"
  ao_method_data :: "(string \<times> string) list"
  ao_filter_id :: "string option"

datatype (plugins only: code size) AlertCommand =
    GetAlerts ListOpts
  | CreateAlert string AlertOpts
  | GetAlert string
  | ModifyAlert string AlertOpts
  | DeleteAlert string bool

record ScheduleOpts =
  so_name :: "string option"
  so_comment :: "string option"
  so_icalendar :: "string option"
  so_timezone :: "string option"

datatype (plugins only: code size) ScheduleCommand =
    GetSchedules ListOpts
  | CreateSchedule string ScheduleOpts
  | GetSchedule string
  | ModifySchedule string ScheduleOpts
  | DeleteSchedule string bool

record PortListOpts =
  plo_comment :: "string option"
  plo_port_range :: "string option"

record ModifyPortListOpts =
  plm_name :: "string option"
  plm_comment :: "string option"

datatype (plugins only: code size) PortListCommand =
    GetPortLists ListOpts
  | CreatePortList string PortListOpts
  | GetPortList string
  | ModifyPortList string ModifyPortListOpts
  | DeletePortList string bool

datatype (plugins only: code size) InventoryCommand =
    GetFeeds
  | GetFeed string
  | GetScanners ListOpts
  | GetScanner string
  | GetResults ListOpts
  | GetResult string

subsection \<open>Credentials\<close>

record CredentialOpts =
  cd_comment :: "string option"
  cd_credential_type :: "string option"
  cd_login :: "string option"
  cd_password :: "string option"
  cd_private_key :: "string option"
  cd_certificate :: "string option"
  cd_community :: "string option"
  cd_auth_algorithm :: "string option"
  cd_privacy_password :: "string option"
  cd_privacy_algorithm :: "string option"

record ModifyCredentialOpts =
  cm_name :: "string option"
  cm_comment :: "string option"
  cm_login :: "string option"
  cm_password :: "string option"
  cm_private_key :: "string option"
  cm_certificate :: "string option"
  cm_community :: "string option"
  cm_auth_algorithm :: "string option"
  cm_privacy_password :: "string option"
  cm_privacy_algorithm :: "string option"

record ModifyCredentialStoreCredentialOpts =
  csc_name :: "string option"
  csc_comment :: "string option"
  csc_credential_store_id :: "string option"
  csc_vault_id :: "string option"
  csc_host_identifier :: "string option"

record ModifyCredentialStoreOpts =
  csm_active :: "bool option"
  csm_host :: "string option"
  csm_path :: "string option"
  csm_port :: "u16 option"
  csm_comment :: "string option"
  csm_preferences :: "(string \<times> string) list"

datatype (plugins only: code size) CredentialStoreCredentialType =
    ClientCertificate | PasswordOnly | PgpEncryptionKey | SmimeCertificate | Snmp | UsernamePassword | UsernameSshKey

datatype (plugins only: code size) CredentialCommand =
    GetCredentialStores
  | GetCredentialStore string "bool option"
  | ModifyCredentialStore string ModifyCredentialStoreOpts
  | VerifyCredentialStore string
  | GetCredentials ListOpts
  | CreateCredential string CredentialOpts
  | CreateCredentialStoreCredential string CredentialStoreCredentialType string string "string option" "string option"
  | GetCredential string
  | ModifyCredential string ModifyCredentialOpts
  | ModifyCredentialStoreCredential string ModifyCredentialStoreCredentialOpts
  | DeleteCredential string bool

subsection \<open>Users, groups, roles, permissions and settings\<close>

text \<open>The hosts a user may scan: only the listed ones, or all but the listed ones.\<close>

record UserOpts =
  us_comment :: "string option"
  us_password :: "string option"
  us_host_access :: "UserHostAccess option"
  us_role_ids :: "string list"
  us_auth_type :: "string option"

record ModifyUserOpts =
  um_new_name :: "string option"
  um_comment :: "string option"
  um_password :: "string option"
  um_host_access :: "UserHostAccess option"
  um_role_ids :: "string list CollectionUpdate"
  um_auth_type :: "string option"

datatype (plugins only: code size) UserCommand =
    GetUsers ListOpts
  | CreateUser string UserOpts
  | GetUser string
  | ModifyUser string ModifyUserOpts
  | DeleteUser string bool

text \<open>Groups and roles have the same options: a comment and their users.\<close>

record MembersOpts =
  mb_comment :: "string option"
  mb_users :: "string list"

record PermissionOpts =
  pe_comment :: "string option"
  pe_name :: "string option"
  pe_resource_id :: "string option"
  pe_resource_type :: "string option"
  pe_subject_type :: "string option"
  pe_subject_id :: "string option"

datatype (plugins only: code size) AccessCommand =
    GetGroups ListOpts
  | CreateGroup string MembersOpts
  | GetGroup string
  | ModifyGroup string MembersOpts
  | DeleteGroup string bool
  | GetRoles ListOpts
  | CreateRole string MembersOpts
  | GetRole string
  | ModifyRole string MembersOpts
  | DeleteRole string bool
  | GetPermissions ListOpts
  | CreatePermission PermissionOpts
  | GetPermission string
  | ModifyPermission string PermissionOpts
  | DeletePermission string bool
  | GetUserSettings "string option"
  | GetUserSetting string
  | ModifyUserSetting string string

subsection \<open>Assets, hosts, operating systems and certificates\<close>

datatype AssetType = AssetTypeHost | AssetTypeOs | AssetTypeCustom string

record GetAssetsOpts =
  as_asset_id :: "string option"
  as_type :: "AssetType option"
  as_filter_string :: "string option"
  as_details :: "bool option"

record HostOpts =
  ho_comment :: "string option"
  ho_value :: "string option"

datatype (plugins only: code size) AssetCommand =
    GetAssets GetAssetsOpts
  | ModifyAsset string "string option"
  | DeleteAsset string
  | GetHosts ListOpts
  | CreateHost HostOpts
  | GetHost string
  | ModifyHost string HostOpts
  | DeleteHost string bool
  | GetOperatingSystems ListOpts
  | GetOperatingSystem string "bool option"
  | ModifyOperatingSystem string "string option"
  | DeleteOperatingSystem string
  | GetTlsCertificates ListOpts
  | GetTlsCertificate string

subsection \<open>Report formats, filters, tags, tickets, notes and overrides\<close>

record FilterOpts =
  fo_comment :: "string option"
  fo_term :: "string option"
  fo_filter_type :: "string option"

record TagOpts =
  tgo_comment :: "string option"
  tgo_value :: "string option"
  tgo_resource_type :: "string option"
  tgo_resource_id :: "string option"
  tgo_active :: "bool option"

record AnnotationListOpts =
  an_filter_string :: "string option"
  an_details :: "bool option"
  an_result :: "bool option"

record 'h NoteOpts =
  no_text :: "string option"
  no_hosts :: 'h
  no_port :: "string option"
  no_severity :: "string option"
  no_task_id :: "string option"
  no_result_id :: "string option"
  no_active :: "bool option"
  no_orphan :: "bool option"

record 'h OverrideOpts =
  ov_text :: "string option"
  ov_hosts :: 'h
  ov_port :: "string option"
  ov_severity :: "string option"
  ov_new_severity :: "string option"
  ov_task_id :: "string option"
  ov_result_id :: "string option"
  ov_active :: "bool option"

datatype (plugins only: code size) SupportCommand =
    GetReportFormats ListOpts
  | GetReportFormat string
  | GetFilters ListOpts
  | CreateFilter string FilterOpts
  | ModifyFilter string FilterOpts
  | DeleteFilter string bool
  | CloneFilter string
  | GetTags ListOpts
  | CreateTag string TagOpts
  | GetTag string
  | ModifyTag string TagOpts
  | DeleteTag string bool
  | CloneTag string
  | GetTickets ListOpts
  | GetTicket string
  | GetNotes AnnotationListOpts
  | CreateNote string "string list NoteOpts"
  | ModifyNote string "string list CollectionUpdate NoteOpts"
  | DeleteNote string bool
  | GetOverrides AnnotationListOpts
  | CreateOverride string "string list OverrideOpts"
  | ModifyOverride string "string list CollectionUpdate OverrideOpts"
  | DeleteOverride string bool

subsection \<open>Security information\<close>

record GetNvtsOpts =
  gn_filter_string :: "string option"
  gn_details :: "bool option"
  gn_preferences :: "bool option"
  gn_preference_count :: "bool option"
  gn_timeout :: "bool option"
  gn_config_id :: "string option"
  gn_preferences_config_id :: "string option"
  gn_family :: "string option"
  gn_sort_order :: "string option"
  gn_sort_field :: "string option"

datatype (plugins only: code size) SecInfoCommand =
    GetNvts GetNvtsOpts
  | GetNvt string
  | GetNvtFamilies
  | GetVulns "string option"
  | GetCves "string option"
  | GetCve string
  | GetCpes "string option"
  | GetCpe string
  | GetCertBundAdvisories "string option"
  | GetCertBundAdvisory string
  | GetDfnCertAdvisories "string option"
  | GetDfnCertAdvisory string

subsection \<open>Configs, scan configs and policies\<close>

datatype ConfigUsageType = ConfigUsageScan | ConfigUsageAudit | ConfigUsagePolicy | ConfigUsageCustom string

record GetConfigsOpts =
  gc_filter_string :: "string option"
  gc_details :: "bool option"
  gc_usage_type :: "ConfigUsageType option"

record ModifyConfigOpts =
  cfm_name :: "string option"
  cfm_comment :: "string option"
  cfm_usage_type :: "ConfigUsageType option"

record NvtFamilySelection =
  nfs_name :: string
  nfs_growing :: bool
  nfs_all :: bool

record GetPreferencesOpts =
  gp_nvt_oid :: "string option"
  gp_config_id :: "string option"

datatype (plugins only: code size) ConfigCommand =
    GetConfigs GetConfigsOpts
  | GetConfig string "bool option"
  | DeleteConfig string "bool option"
  | CloneConfig string
  | GetScanConfigs ListOpts
  | CreateScanConfig string "string option" "string option"
  | GetScanConfig string
  | ModifyConfigGeneric string ModifyConfigOpts
  | DeleteScanConfig string bool
  | GetScanConfigNvts GetNvtsOpts
  | GetScanConfigPreferences GetPreferencesOpts
  | GetScanConfigPreference string GetPreferencesOpts
  | SetNvtSelection string string "string list"
  | SetFamilySelection string "NvtFamilySelection list" bool
  | SetNvtPreference string string string "string option"
  | SetScannerPreference string string "string option"
  | GetPolicies ListOpts
  | CreatePolicy string "string option"
  | DeletePolicy string

subsection \<open>Agents and agent groups\<close>

text \<open>The configuration of an agent: the same records in commands and in answers.\<close>

record ModifyAgentOpts =
  ma_authorized :: "bool option"
  ma_update_to_latest :: "bool option"
  ma_comment :: "string option"
  ma_config :: "GmpAgentConfig option"

record ModifyAgentGroupOpts =
  mg_name :: "string option"
  mg_comment :: "string option"
  mg_agent_ids :: "string list"

datatype AgentInstallerLanguage = LanguageEn | LanguageDe

datatype (plugins only: code size) AgentCommand =
    GetAgents "string option"
  | GetAgent string
  | ModifyAgent "string list" ModifyAgentOpts
  | DeleteAgent "string list"
  | SyncAgents
  | GetAgentSupportBundle string "u32 option"
  | ModifyAgentControlScanConfig string "GmpAgentConfig option" "bool option"
  | GetAgentInstallerInstruction string AgentInstallerLanguage string
  | GetAgentGroups "string option" bool
  | CreateAgentGroup string "string list" string "string option"
  | GetAgentGroup string
  | ModifyAgentGroup string string ModifyAgentGroupOpts
  | DeleteAgentGroup string bool
  | CloneAgentGroup string

subsection \<open>Reports\<close>

record GetReportsOpts =
  gr_report_id :: "string option"
  gr_filter_string :: "string option"
  gr_details :: "bool option"

record GetReportExportOpts =
  ge_report_format_id :: string
  ge_report_config_id :: "string option"
  ge_filter_string :: "string option"
  ge_filter_id :: "string option"

datatype (plugins only: code size) ReportCommand =
    GetReports GetReportsOpts
  | GetReportExport string GetReportExportOpts
  | DeleteReport string bool
  | GetReportResults ListOpts
  | GetReportVulns string ListOpts
  | GetReportHosts string ListOpts
  | GetReportPorts string ListOpts
  | GetReportApplications string ListOpts
  | GetReportOperatingSystems string ListOpts
  | GetReportCves string ListOpts
  | GetReportTlsCertificates string ListOpts
  | GetReportErrors string ListOpts
  | GetReportClosedCves string ListOpts

end
