(* ===== verification/Gmp.thy ===== *)
theory Gmp
  imports Service Gmp_Data
begin

text \<open>
  The port operations of the gvmd adapter, \<open>crates/gvm-gateway-gvmd/src/gvmd_adapter\<close>, as far as
  they are shared: sending a command over the connection of a session (\<open>mod.rs\<close>), resolving
  saved filters (\<open>mod.rs\<close>, \<open>filters.rs\<close>), and the argument parsers of \<open>conversions.rs\<close>.
  The client library is an argument \<open>L\<close>: what a command answers and how answers are read.
  The daemon behind it has a state \<open>'g\<close> of its own.
\<close>

section \<open>Commands\<close>

text \<open>
  A command is what the gateway hands to the builder functions of the client library: the
  function and its arguments, with the field names of its option structs. Fields that the
  gateway always leaves out are not repeated here. The commands of other resources are those
  of \<open>Gmp_Data\<close>.
\<close>

datatype TargetPortSelection = PortList string | PortRange string

record GetTargetsOpts =
  gt_filter_string :: "string option"
  gt_details :: "bool option"

record CreateTargetOpts =
  co_comment :: "string option"
  co_hosts :: "string list \<times> string list"
  co_alive_test :: "string option"
  co_ports :: TargetPortSelection
  co_ssh_credential_id :: "string option"
  co_smb_credential_id :: "string option"
  co_esxi_credential_id :: "string option"
  co_snmp_credential_id :: "string option"
  co_reverse_lookup_only :: "bool option"
  co_reverse_lookup_unify :: "bool option"

record ModifyTargetOpts =
  mo_name :: "string option"
  mo_comment :: "string option"
  mo_hosts :: "(string list \<times> string list) option"
  mo_reverse_lookup_only :: "bool option"
  mo_reverse_lookup_unify :: "bool option"
  mo_alive_test :: "string option"
  mo_port_list_id :: "string ScalarUpdate"
  mo_ssh_credential_id :: "string ScalarUpdate"
  mo_smb_credential_id :: "string ScalarUpdate"
  mo_esxi_credential_id :: "string ScalarUpdate"
  mo_snmp_credential_id :: "string ScalarUpdate"

record GetSpecializedOpts =
  gs_filter_string :: "string option"
  gs_trash :: "bool option"
  gs_tasks :: "bool option"

record ModifyOciImageTargetOpts =
  oi_name :: "string option"
  oi_comment :: "string option"
  oi_image_references :: "string list"
  oi_credential_id :: "string option"

record ModifyWebApplicationTargetOpts =
  wa_name :: "string option"
  wa_comment :: "string option"
  wa_urls :: "string list"
  wa_exclude_urls :: "string list"
  wa_credential_id :: "string option"

datatype HostsOrdering = Sequential | RandomOrder | ReverseOrder

record GetTasksOpts =
  gk_filter_string :: "string option"
  gk_details :: "bool option"
  gk_ignore_pagination :: "bool option"

text \<open>The options of a new task; those of a classic task also order its hosts.\<close>

record TaskOpts =
  ct_alterable :: "bool option"
  ct_schedule_id :: "string option"
  ct_alert_ids :: "string list"
  ct_comment :: "string option"
  ct_schedule_periods :: "u32 option"
  ct_observers :: "string list"
  ct_preferences :: "(string \<times> string) list"

record CreateTaskOpts = TaskOpts +
  ct_hosts_ordering :: "HostsOrdering option"

record ModifyTaskOpts =
  mt_name :: "string option"
  mt_comment :: "string option"
  mt_alterable :: "bool option"
  mt_hosts_ordering :: "HostsOrdering option"
  mt_schedule_id :: "string ScalarUpdate"
  mt_schedule_periods :: "u32 option"
  mt_target_id :: "string option"
  mt_config_id :: "string option"
  mt_scanner_id :: "string option"
  mt_alert_ids :: "string list option"
  mt_observers :: "string list CollectionUpdate"
  mt_preferences :: "(string \<times> string) list"

datatype (plugins only: code size) GmpCommand =
    GetFilter string
  | GetTargets GetTargetsOpts
  | CreateTarget string CreateTargetOpts
  | CloneTarget string
  | GetTarget string
  | ModifyTarget string ModifyTargetOpts
  | DeleteTarget string bool
  | GetOciImageTargets GetSpecializedOpts
  | CreateOciImageTarget string "string list" "string option" "string option"
  | CloneOciImageTarget string
  | GetOciImageTarget string "bool option"
  | ModifyOciImageTarget string ModifyOciImageTargetOpts
  | DeleteOciImageTarget string bool
  | GetWebApplicationTargets GetSpecializedOpts
  | CreateWebApplicationTarget string "string list" "string option" "string list" "string option"
  | CloneWebApplicationTarget string
  | GetWebApplicationTarget string "bool option"
  | ModifyWebApplicationTarget string ModifyWebApplicationTargetOpts
  | DeleteWebApplicationTarget string bool
  | GetTasks GetTasksOpts
  | CreateTask string string string string CreateTaskOpts
  | CreateAgentGroupTask string string string TaskOpts
  | CreateOciImageTargetTask string string string TaskOpts
  | CreateWebApplicationTask string string string TaskOpts
  | CreateImportTask string "string option"
  | CloneTask string
  | GetTask string
  | ModifyTask string ModifyTaskOpts
  | DeleteTask string bool
  | StartTask string
  | StopTask string
  | ResumeTask string
  | GetAudits GetTasksOpts
  | CreateAudit string string string string CreateTaskOpts
  | ModifyAudit string ModifyTaskOpts
  | DeleteAudit string
  | StartAudit string
  | StopAudit string
  | ResumeAudit string
  | OnAlerts AlertCommand
  | OnSchedules ScheduleCommand
  | OnPortLists PortListCommand
  | OnInventory InventoryCommand
  | OnCredentials CredentialCommand
  | OnUsers UserCommand
  | OnAccess AccessCommand
  | OnAssets AssetCommand
  | OnSupport SupportCommand
  | OnSecInfo SecInfoCommand
  | OnConfigs ConfigCommand
  | OnAgents AgentCommand
  | OnReports ReportCommand

section \<open>Answers\<close>

definition resource_ref_from_named_entity :: "NamedEntity \<Rightarrow> ResourceRef" where
  "resource_ref_from_named_entity entity =
     \<lparr>rr_id = ne_id entity, rr_name = (if ne_name entity = [] then None else Some (ne_name entity))\<rparr>"

record GmpTarget =
  xt_meta :: EntityMeta
  xt_hosts :: "string list"
  xt_exclude_hosts :: "string list"
  xt_alive_tests :: "string option"
  xt_port_list :: "NamedEntity option"
  xt_reverse_lookup_only :: bool
  xt_reverse_lookup_unify :: bool
  xt_ssh_credential :: "NamedEntity option"
  xt_smb_credential :: "NamedEntity option"
  xt_esxi_credential :: "NamedEntity option"
  xt_snmp_credential :: "NamedEntity option"

record GmpOciImageTarget =
  xo_meta :: EntityMeta
  xo_image_references :: "string list"
  xo_credential :: "NamedEntity option"
  xo_tasks :: "NamedEntity list"

record GmpWebApplicationTarget =
  xw_meta :: EntityMeta
  xw_urls :: "string list"
  xw_exclude_urls :: "string list"
  xw_credential :: "NamedEntity option"
  xw_tasks :: "NamedEntity list"

record TaskReportResultCount =
  rc_critical :: "u32 option"
  rc_high :: "u32 option"
  rc_medium :: "u32 option"
  rc_low :: "u32 option"
  rc_log :: "u32 option"
  rc_false_positive :: "u32 option"

record TaskReportComplianceCount =
  cc_yes :: "u32 option"
  cc_no :: "u32 option"
  cc_incomplete :: "u32 option"

record TaskReportReference =
  rp_id :: string
  rp_timestamp :: "string option"
  rp_scan_start :: "string option"
  rp_scan_end :: "string option"
  rp_result_count :: "TaskReportResultCount option"
  rp_severity :: "string option"
  rp_compliance_count :: "TaskReportComplianceCount option"

record GmpObservers =
  xb_users :: "string list"
  xb_groups :: "NamedEntity list"
  xb_roles :: "NamedEntity list"

text \<open>
  The report references of the library have the fields of the domain type, which stands for
  both.
\<close>

record GmpTask =
  xk_meta :: EntityMeta
  xk_status :: "string option"
  xk_progress :: "int option"
  xk_target :: "NamedEntity option"
  xk_agent_group :: "NamedEntity option"
  xk_oci_image_target :: "NamedEntity option"
  xk_web_application_target :: "NamedEntity option"
  xk_config :: "NamedEntity option"
  xk_scanner :: "NamedEntity option"
  xk_schedule :: "NamedEntity option"
  xk_alerts :: "NamedEntity list"
  xk_alterable :: "bool option"
  xk_hosts_ordering :: "string option"
  xk_observers :: "GmpObservers option"
  xk_schedule_periods :: "u32 option"
  xk_last_report :: "TaskReportReference option"
  xk_current_report :: "TaskReportReference option"
  xk_report_count :: "u32 option"
  xk_usage_type :: "string option"
  xk_trend :: "string option"

text \<open>
  The builder of a filter: a saved filter, clauses of the gateway, a checked fragment of the
  client (\<open>Inl\<close> the reserved term it uses), and the page.
\<close>

record 'f FilterBuilder =
  fb_new :: 'f
  fb_with_filter_string :: "string option \<Rightarrow> 'f \<Rightarrow> 'f"
  fb_with_clause :: "string \<Rightarrow> 'f \<Rightarrow> 'f"
  fb_try_with_filter_string :: "string option \<Rightarrow> string list \<Rightarrow> 'f \<Rightarrow> string + 'f"
  fb_with_pagination :: "u32 \<Rightarrow> u32 \<Rightarrow> 'f \<Rightarrow> 'f"
  fb_build :: "'f \<Rightarrow> string option"

record ('r, 'g, 'f) GmpLibrary =
  lb_call :: "SessionTokenDigest \<Rightarrow> GmpCommand \<Rightarrow> 'g \<Rightarrow> (GvmError + 'r) \<times> 'g"
  lb_refused :: "GmpCommand \<Rightarrow> string option"
  lb_entity_id :: "string \<Rightarrow> string option"
  lb_alive_test :: "string \<Rightarrow> string option"
  lb_target_host :: "string \<Rightarrow> string + string"
  lb_target_hosts :: "string list \<Rightarrow> string list \<Rightarrow> string + string list \<times> string list"
  lb_filter :: "'f FilterBuilder"
  lb_created :: "'r \<Rightarrow> ParseError + string"
  lb_action :: "'r \<Rightarrow> ParseError + unit"
  lb_report_id :: "'r \<Rightarrow> ParseError + string option"
  lb_filter_terms :: "'r \<Rightarrow> ParseError + string option list"
  lb_targets :: "'r \<Rightarrow> ParseError + GmpTarget Counted"
  lb_oci_image_targets :: "'r \<Rightarrow> ParseError + GmpOciImageTarget Counted"
  lb_web_application_targets :: "'r \<Rightarrow> ParseError + GmpWebApplicationTarget Counted"
  lb_tasks :: "'r \<Rightarrow> ParseError + GmpTask Counted"

section \<open>Port operations\<close>

text \<open>
  The adapter with the daemon behind it. \<open>gv_sent\<close> lists the commands that were sent, each
  with the session whose connection carried it.
\<close>

record 'g Gvmd =
  gv_adapter :: GvmdAdapter
  gv_daemon :: 'g
  gv_sent :: "(SessionTokenDigest \<times> GmpCommand) list"

type_synonym ('w, 'a) operation = "'w \<Rightarrow> 'a result \<times> 'w"

text \<open>The question mark after an awaited call, and after a call that keeps the state.\<close>

definition pure :: "'a result \<Rightarrow> ('w, 'a) operation" where
  "pure r w = (r, w)"

definition chain :: "('w, 'a) operation \<Rightarrow> ('a \<Rightarrow> ('w, 'b) operation) \<Rightarrow> ('w, 'b) operation" where
  "chain m f w = (case m w of (Inl e, w) \<Rightarrow> (Inl e, w) | (Inr x, w) \<Rightarrow> f x w)"

definition checked :: "'a result \<Rightarrow> ('a \<Rightarrow> ('w, 'b) operation) \<Rightarrow> ('w, 'b) operation" where
  "checked r f = chain (pure r) f"

lemma chain_simps [simp]:
  "chain (pure r) f w = (case r of Inl e \<Rightarrow> (Inl e, w) | Inr x \<Rightarrow> f x w)"
  "checked (Inl e) f w = (Inl e, w)"
  "checked (Inr x) f w = f x w"
  by (simp_all add: chain_def pure_def checked_def split: sum.split)

lemma checked_Inr: "checked (Inr x) f = f x"
  by (simp add: fun_eq_iff)

text \<open>\<open>call_with_session\<close>: the permit of the command is given back when the answer is there.\<close>

definition call :: "(string \<Rightarrow> u8 list) \<Rightarrow> ('r, 'g, 'f) GmpLibrary \<Rightarrow> string \<Rightarrow> GmpCommand \<Rightarrow> ('g Gvmd, 'r) operation" where
  "call sha L session_token command w =
     (case and_then (session_client sha session_token (gv_adapter w)) (\<lambda>client. fst (client_lock client)) of
        Inl e \<Rightarrow> (Inl e, w)
      | Inr _ \<Rightarrow>
          let d = from_token sha session_token;
              (answer, daemon) = lb_call L d command (gv_daemon w);
              w = w\<lparr>gv_daemon := daemon, gv_sent := gv_sent w @ [(d, command)]\<rparr>
          in (case answer of Inl e \<Rightarrow> (Inl (map_gvm_error e), w) | Inr response \<Rightarrow> (Inr response, w)))"

text \<open>Reading an answer, and building a command whose builder may refuse its arguments.\<close>

definition read_with :: "('r \<Rightarrow> ParseError + 'a) \<Rightarrow> 'r \<Rightarrow> 'a result" where
  "read_with from_response response =
     (case from_response response of Inl e \<Rightarrow> Inl (map_parse_error e) | Inr v \<Rightarrow> Inr v)"

definition build :: "('r, 'g, 'f) GmpLibrary \<Rightarrow> GmpCommand \<Rightarrow> GmpCommand result" where
  "build L command = (case lb_refused L command of Some text \<Rightarrow> Inl (InvalidInput text) | None \<Rightarrow> Inr command)"

definition parse_entity_id :: "('r, 'g, 'f) GmpLibrary \<Rightarrow> string \<Rightarrow> string result" where
  "parse_entity_id L v =
     (case lb_entity_id L v of None \<Rightarrow> Inl (InvalidInput (''invalid UUID: '' @ v)) | Some ident \<Rightarrow> Inr ident)"

definition parse_filter_id :: "('r, 'g, 'f) GmpLibrary \<Rightarrow> string \<Rightarrow> string result" where
  "parse_filter_id L v =
     (case lb_entity_id L v of None \<Rightarrow> Inl (InvalidInput ''invalid filterId'') | Some ident \<Rightarrow> Inr ident)"

definition parse_alive_test :: "('r, 'g, 'f) GmpLibrary \<Rightarrow> string \<Rightarrow> string result" where
  "parse_alive_test L v =
     (case lb_alive_test L v of None \<Rightarrow> Inl (InvalidInput (''invalid aliveTest: '' @ v)) | Some t \<Rightarrow> Inr t)"

definition parse_hosts_ordering :: "string \<Rightarrow> HostsOrdering result" where
  "parse_hosts_ordering v =
     (if v = ''sequential'' then Inr Sequential
      else if v = ''random'' then Inr RandomOrder
      else if v = ''reverse'' then Inr ReverseOrder
      else Inl (InvalidInput (''invalid hostsOrdering: '' @ v)))"

section \<open>Filters\<close>

definition composed_filter ::
    "'f FilterBuilder \<Rightarrow> string option \<Rightarrow> string option \<Rightarrow> string option \<Rightarrow> (u32 \<times> u32) option \<Rightarrow> string list
      \<Rightarrow> string option result" where
  "composed_filter B prefix saved_filter_string filter_string pagination reserved_terms =
     (let f = fb_with_filter_string B saved_filter_string (fb_new B);
          f = (case prefix of Some p \<Rightarrow> fb_with_clause B p f | None \<Rightarrow> f)
      in case fb_try_with_filter_string B filter_string reserved_terms f of
           Inl reserved \<Rightarrow> Inl (InvalidInput (''filter contains reserved term '' @ [CHR 0x27] @ reserved @ [CHR 0x27]))
         | Inr f \<Rightarrow>
             Inr (fb_build B (case pagination of Some (page, per_page) \<Rightarrow> fb_with_pagination B page per_page f
                              | None \<Rightarrow> f)))"

definition saved_filter_term ::
    "(string \<Rightarrow> u8 list) \<Rightarrow> ('r, 'g, 'f) GmpLibrary \<Rightarrow> string \<Rightarrow> string option \<Rightarrow> ('g Gvmd, string option) operation" where
  "saved_filter_term sha L session_token filter_id =
     (case filter_id of
        None \<Rightarrow> pure (Inr None)
      | Some ident \<Rightarrow>
          chain (call sha L session_token (GetFilter ident)) (\<lambda>response.
          checked (read_with (lb_filter_terms L) response) (\<lambda>terms.
            pure (case terms of
                    [] \<Rightarrow> Inl (NotFound (''filter '' @ ident @ '' not found''))
                  | filter_term # _ \<Rightarrow> Inr filter_term))))"

definition filter_resolving_filter_id ::
    "(string \<Rightarrow> u8 list) \<Rightarrow> ('r, 'g, 'f) GmpLibrary \<Rightarrow> string \<Rightarrow> string option \<Rightarrow> string option \<Rightarrow> string option
      \<Rightarrow> string list \<Rightarrow> ('g Gvmd, string option) operation" where
  "filter_resolving_filter_id sha L session_token prefix filter_string filter_id reserved_terms =
     chain (saved_filter_term sha L session_token filter_id) (\<lambda>saved.
       pure (composed_filter (lb_filter L) prefix saved filter_string None reserved_terms))"

definition paginated_filter_resolving_filter_id ::
    "(string \<Rightarrow> u8 list) \<Rightarrow> ('r, 'g, 'f) GmpLibrary \<Rightarrow> string \<Rightarrow> string option \<Rightarrow> string option \<Rightarrow> string option
      \<Rightarrow> u32 \<Rightarrow> u32 \<Rightarrow> string list \<Rightarrow> ('g Gvmd, string option) operation" where
  "paginated_filter_resolving_filter_id sha L session_token prefix filter_string filter_id page per_page reserved_terms =
     chain (saved_filter_term sha L session_token filter_id) (\<lambda>saved.
       pure (composed_filter (lb_filter L) prefix saved filter_string (Some (page, per_page)) reserved_terms))"

section \<open>An operation speaks for one session\<close>

text \<open>
  From one state to a later one, only commands of the session \<open>d\<close> were sent, and none unless
  this session has a connection.
\<close>

definition spoke_for :: "SessionTokenDigest \<Rightarrow> 'g Gvmd \<Rightarrow> 'g Gvmd \<Rightarrow> bool" where
  "spoke_for d w w' \<longleftrightarrow>
     gv_adapter w' = gv_adapter w
     \<and> (\<exists>commands. gv_sent w' = gv_sent w @ map (Pair d) commands
          \<and> (commands \<noteq> [] \<longrightarrow> map_of (ga_sessions (gv_adapter w)) d \<noteq> None)
          \<and> (commands = [] \<longrightarrow> gv_daemon w' = gv_daemon w))"

lemma spoke_for_refl [intro!]: "spoke_for d w w"
  by (simp add: spoke_for_def)

lemma spoke_for_trans:
  assumes "spoke_for d w w'" and "spoke_for d w' w''"
  shows "spoke_for d w w''"
proof -
  obtain cs where cs: "gv_sent w' = gv_sent w @ map (Pair d) cs"
    "cs \<noteq> [] \<longrightarrow> map_of (ga_sessions (gv_adapter w)) d \<noteq> None" "cs = [] \<longrightarrow> gv_daemon w' = gv_daemon w"
    using assms(1) by (auto simp: spoke_for_def)
  obtain cs' where cs': "gv_sent w'' = gv_sent w' @ map (Pair d) cs'"
    "cs' \<noteq> [] \<longrightarrow> map_of (ga_sessions (gv_adapter w')) d \<noteq> None" "cs' = [] \<longrightarrow> gv_daemon w'' = gv_daemon w'"
    using assms(2) by (auto simp: spoke_for_def)
  show ?thesis
    using assms cs cs' unfolding spoke_for_def by (intro conjI exI [of _ "cs @ cs'"]) (auto simp: spoke_for_def)
qed

definition speaks_for :: "SessionTokenDigest \<Rightarrow> ('g Gvmd, 'a) operation \<Rightarrow> bool" where
  "speaks_for d m \<longleftrightarrow> (\<forall>w. spoke_for d w (snd (m w)))"

named_theorems speaks

lemma speaks_pure [speaks]: "speaks_for d (pure r)"
  by (auto simp: speaks_for_def pure_def)

lemma speaks_chain [speaks]:
  "speaks_for d m \<Longrightarrow> (\<And>x. speaks_for d (f x)) \<Longrightarrow> speaks_for d (chain m f)"
  unfolding speaks_for_def chain_def by (auto split: prod.split sum.split intro: spoke_for_trans)

lemma speaks_checked [speaks]: "(\<And>x. speaks_for d (f x)) \<Longrightarrow> speaks_for d (checked r f)"
  by (cases r) (simp_all add: speaks_for_def spoke_for_refl)

lemma one_command: "\<exists>commands. [(d, c)] = map (Pair d) commands \<and> (commands = [] \<longrightarrow> P)"
  by (rule exI [of _ "[c]"]) simp

lemma speaks_call [speaks]: "d = from_token sha session_token \<Longrightarrow> speaks_for d (call sha L session_token command)"
  by (auto simp: speaks_for_def spoke_for_def call_def session_client_def Let_def and_then_def one_command
      split: prod.splits sum.splits option.splits if_splits)

lemma speaks_if [speaks]: "speaks_for d m \<Longrightarrow> speaks_for d m' \<Longrightarrow> speaks_for d (if b then m else m')"
  by simp

lemma speaks_option [speaks]:
  "speaks_for d m \<Longrightarrow> (\<And>x. speaks_for d (f x)) \<Longrightarrow> speaks_for d (case v of None \<Rightarrow> m | Some x \<Rightarrow> f x)"
  by (cases v) simp_all

lemma speaks_saved_filter [speaks]: "d = from_token sha session_token \<Longrightarrow> speaks_for d (saved_filter_term sha L session_token filter_id)"
  unfolding saved_filter_term_def by (intro speaks)

lemma speaks_filter [speaks]:
  "d = from_token sha session_token \<Longrightarrow>
     speaks_for d (filter_resolving_filter_id sha L session_token prefix filter_string filter_id reserved_terms)"
  unfolding filter_resolving_filter_id_def by (intro speaks)

lemma speaks_paginated_filter [speaks]:
  "d = from_token sha session_token \<Longrightarrow>
     speaks_for d (paginated_filter_resolving_filter_id sha L session_token prefix filter_string filter_id page per_page reserved_terms)"
  unfolding paginated_filter_resolving_filter_id_def by (intro speaks)

section \<open>Use cases of one port operation\<close>

text \<open>A use case that calls one port operation with the token of the session it checked.\<close>

definition on_port :: "('s, 'a) operation \<Rightarrow> 's GatewayService \<Rightarrow> 'a result \<times> 's GatewayService" where
  "on_port operation sv = (let (r, auth) = operation (gs_auth sv) in (r, sv\<lparr>gs_auth := auth\<rparr>))"

definition use_port ::
    "(string \<Rightarrow> u8 list) \<Rightarrow> u64 \<Rightarrow> string \<Rightarrow> string \<Rightarrow> string \<Rightarrow> (string \<Rightarrow> ('s, 'a) operation)
      \<Rightarrow> 's GatewayService \<Rightarrow> 'a result \<times> 's GatewayService" where
  "use_port sha now session_token action resource port =
     execute_with_resource sha now session_token action resource (\<lambda>session. on_port (port (se_token session)))"

lemma on_port_frame [simp]:
  "gs_sessions (snd (on_port m sv)) = gs_sessions sv" "gs_jobs (snd (on_port m sv)) = gs_jobs sv"
  "gs_auth (snd (on_port m sv)) = snd (m (gs_auth sv))" "fst (on_port m sv) = fst (m (gs_auth sv))"
  by (simp_all add: on_port_def case_prod_unfold Let_def)

text \<open>The outcome of a use case: refused without a call, or the answer of the port.\<close>

lemma use_port_cases:
  assumes t: "touch sha now token (gs_sessions sv) = (t, m)"
  shows "(case t of
      Inl e \<Rightarrow> fst (use_port sha now token action resource port sv) = Inl e
        \<and> gs_auth (snd (use_port sha now token action resource port sv)) = gs_auth sv
    | Inr session \<Rightarrow> se_token session = token
        \<and> fst (use_port sha now token action resource port sv) = fst (port token (gs_auth sv))
        \<and> gs_auth (snd (use_port sha now token action resource port sv)) = snd (port token (gs_auth sv)))
    \<and> gs_sessions (snd (use_port sha now token action resource port sv)) = m
    \<and> gs_jobs (snd (use_port sha now token action resource port sv)) = gs_jobs sv"
proof (cases t)
  case (Inl e)
  then show ?thesis using t
    by (auto simp: use_port_def execute_with_resource_def touch_session_with_audit_def Let_def)
next
  case (Inr session)
  have "se_token session = token"
    using t Inr by (auto simp: touch_def Let_def split: if_splits option.splits)
  then show ?thesis using t Inr
    by (cases "fst (port token (gs_auth sv))")
      (auto simp: use_port_def execute_with_resource_def touch_session_with_audit_def on_port_def Let_def
        split: prod.splits sum.splits)
qed

text \<open>
  What the application layer relies on when it calls a port with the token of a session: an
  operation that speaks for a session moves the state of the backend within the frame of that
  session. Then a use case does, whether it is refused or calls the port.
\<close>

locale session_backend =
  fixes frame :: "SessionTokenDigest \<Rightarrow> 's \<Rightarrow> 's \<Rightarrow> bool"
    and speaks_as :: "SessionTokenDigest \<Rightarrow> ('s, 'a) operation \<Rightarrow> bool"
  assumes frame_refl: "frame d w w"
    and speaks_frame: "speaks_as d m \<Longrightarrow> frame d w (snd (m w))"
begin

lemma use_case_frame:
  assumes "speaks_as (from_token sha token) (port token)"
  shows "frame (from_token sha token) (gs_auth sv) (gs_auth (snd (use_port sha now token action resource port sv)))"
proof -
  obtain t m where t: "touch sha now token (gs_sessions sv) = (t, m)"
    by (cases "touch sha now token (gs_sessions sv)")
  from use_port_cases [OF this, of action resource port] assms show ?thesis
    by (cases t) (simp_all add: frame_refl speaks_frame)
qed

end

interpretation gvmd_backend: session_backend spoke_for speaks_for
  by unfold_locales (auto simp: speaks_for_def)

lemma dead_use_case:
  assumes "touch sha now token (gs_sessions sv) = (Inl e, m)"
  shows "fst (use_port sha now token action resource port sv) = Inl e"
    and "gs_auth (snd (use_port sha now token action resource port sv)) = gs_auth sv"
  using use_port_cases [OF assms, of action resource port] by simp_all

section \<open>Updates of a field\<close>

definition scalar_update :: "'a option \<Rightarrow> 'a ScalarUpdate" where
  "scalar_update v = (case v of Some x \<Rightarrow> Set x | None \<Rightarrow> Omitted)"

section \<open>Pages, items and new resources\<close>

text \<open>A page of a listing; its pagination is \<open>None\<close> after a division by zero (see \<open>paged_pagination\<close>).\<close>

type_synonym 'a Page = "'a list \<times> Pagination option"

text \<open>The answer to a listing: its items and their total number.\<close>

definition fetch_items ::
    "(string \<Rightarrow> u8 list) \<Rightarrow> ('r, 'g, 'f) GmpLibrary \<Rightarrow> string \<Rightarrow> GmpCommand \<Rightarrow> ('r \<Rightarrow> ParseError + 'i Counted) \<Rightarrow> ('i \<Rightarrow> 'a)
      \<Rightarrow> ('g Gvmd, 'a list \<times> u32) operation" where
  "fetch_items sha L session_token command from_response convert =
     chain (call sha L session_token command) (\<lambda>response.
     checked (read_with from_response response) (\<lambda>parsed.
       let items = map convert (ct_items parsed)
       in pure (Inr (items, gvmd_total (ct_filtered parsed) (ct_total parsed) (length items)))))"

text \<open>The first item of an answer, and the identifier of a new resource.\<close>

definition fetch_first ::
    "(string \<Rightarrow> u8 list) \<Rightarrow> ('r, 'g, 'f) GmpLibrary \<Rightarrow> string \<Rightarrow> GmpCommand \<Rightarrow> ('r \<Rightarrow> ParseError + 'i Counted) \<Rightarrow> ('i \<Rightarrow> 'a)
      \<Rightarrow> string \<Rightarrow> ('g Gvmd, 'a) operation" where
  "fetch_first sha L session_token command from_response convert missing =
     chain (call sha L session_token command) (\<lambda>response.
     checked (read_with from_response response) (\<lambda>parsed.
       pure (case ct_items parsed of [] \<Rightarrow> Inl (NotFound missing) | item # _ \<Rightarrow> Inr (convert item))))"

definition call_create ::
    "(string \<Rightarrow> u8 list) \<Rightarrow> ('r, 'g, 'f) GmpLibrary \<Rightarrow> string \<Rightarrow> GmpCommand \<Rightarrow> ('g Gvmd, string) operation" where
  "call_create sha L session_token command =
     chain (call sha L session_token command) (\<lambda>response. pure (read_with (lb_created L) response))"

definition call_action ::
    "(string \<Rightarrow> u8 list) \<Rightarrow> ('r, 'g, 'f) GmpLibrary \<Rightarrow> string \<Rightarrow> GmpCommand \<Rightarrow> ('g Gvmd, unit) operation" where
  "call_action sha L session_token command =
     chain (call sha L session_token command) (\<lambda>response. pure (read_with (lb_action L) response))"

lemma speaks_fetch [speaks]:
  "d = from_token sha session_token \<Longrightarrow> speaks_for d (fetch_items sha L session_token command from_response convert)"
  "d = from_token sha session_token \<Longrightarrow> speaks_for d (fetch_first sha L session_token command from_response convert missing)"
  "d = from_token sha session_token \<Longrightarrow> speaks_for d (call_create sha L session_token command)"
  "d = from_token sha session_token \<Longrightarrow> speaks_for d (call_action sha L session_token command)"
  unfolding fetch_items_def fetch_first_def call_create_def call_action_def Let_def by (intro speaks; simp)+

section \<open>What operations send\<close>

text \<open>A call sends its command or, without a usable connection, nothing.\<close>

lemma call_sent:
  "gv_sent (snd (call sha L token command w)) = gv_sent w @ [(from_token sha token, command)]
     \<or> gv_sent (snd (call sha L token command w)) = gv_sent w \<and> \<not> is_ok (fst (call sha L token command w))"
  by (auto simp: call_def Let_def split: prod.splits sum.splits)

lemma call_action_sent:
  "gv_sent (snd (call_action sha L token command w)) = gv_sent w @ [(from_token sha token, command)]
     \<or> gv_sent (snd (call_action sha L token command w)) = gv_sent w \<and> \<not> is_ok (fst (call_action sha L token command w))"
  using call_sent [of sha L token command w]
  by (auto simp: call_action_def chain_def pure_def split: prod.splits sum.splits)

lemma fetch_first_sent:
  "gv_sent (snd (fetch_first sha L token command from_response convert missing w))
       = gv_sent w @ [(from_token sha token, command)]
     \<or> gv_sent (snd (fetch_first sha L token command from_response convert missing w)) = gv_sent w
       \<and> \<not> is_ok (fst (fetch_first sha L token command from_response convert missing w))"
  using call_sent [of sha L token command w]
  by (auto simp: fetch_first_def chain_def checked_def pure_def split: prod.splits sum.splits)

lemma checked_cases:
  assumes "\<And>e. r = Inl e \<Longrightarrow> P (Inl e, w)" and "\<And>x. r = Inr x \<Longrightarrow> P (f x w)"
  shows "P (checked r f w)"
  using assms by (cases r) simp_all

end
