(* ===== verification/Targets.thy ===== *)
theory Targets
  imports Gmp
begin

text \<open>
  Targets of three kinds below the REST adapter: the domain types (\<open>gvm-gateway-domain/src/targets.rs\<close>,
  \<open>specialized_targets.rs\<close>), the port (\<open>ports.rs\<close>), its implementation by the gvmd adapter
  (\<open>gvm-gateway-gvmd/src/gvmd_adapter/ports/targets.rs\<close>) and the use cases
  (\<open>gvm-gateway-app/src/targets.rs\<close>).
\<close>

section \<open>Domain types\<close>

record Target =
  tg_id :: string
  tg_name :: string
  tg_comment :: "string option"
  tg_hosts :: "string list"
  tg_exclude_hosts :: "string list"
  tg_alive_test :: "string option"
  tg_port_list :: "ResourceRef option"
  tg_reverse_lookup_only :: bool
  tg_reverse_lookup_unify :: bool
  tg_ssh_credential :: "ResourceRef option"
  tg_smb_credential :: "ResourceRef option"
  tg_esxi_credential :: "ResourceRef option"
  tg_snmp_credential :: "ResourceRef option"
  tg_in_use :: bool
  tg_writable :: bool

record TargetQuery =
  tq_filter_string :: "string option"
  tq_filter_id :: "string option"
  tq_page :: u32
  tq_per_page :: u32

record CreateTargetInput =
  ci_name :: string
  ci_comment :: "string option"
  ci_hosts :: "string list"
  ci_exclude_hosts :: "string list"
  ci_alive_test :: "string option"
  ci_port_list_id :: "string option"
  ci_reverse_lookup_only :: "bool option"
  ci_reverse_lookup_unify :: "bool option"
  ci_ssh_credential_id :: "string option"
  ci_smb_credential_id :: "string option"
  ci_esxi_credential_id :: "string option"
  ci_snmp_credential_id :: "string option"

record ModifyTargetInput =
  mi_name :: "string option"
  mi_comment :: "string option"
  mi_hosts :: "string list option"
  mi_exclude_hosts :: "string list option"
  mi_alive_test :: "string option"
  mi_port_list_id :: "string option"
  mi_reverse_lookup_only :: "bool option"
  mi_reverse_lookup_unify :: "bool option"
  mi_ssh_credential_id :: "string option"
  mi_smb_credential_id :: "string option"
  mi_esxi_credential_id :: "string option"
  mi_snmp_credential_id :: "string option"

record SpecializedTargetQuery =
  sq_filter_string :: "string option"
  sq_filter_id :: "string option"
  sq_trash :: bool
  sq_page :: u32
  sq_per_page :: u32

record OciImageTarget =
  ot_id :: string
  ot_name :: string
  ot_comment :: "string option"
  ot_image_references :: "string list"
  ot_credential :: "ResourceRef option"
  ot_tasks :: "ResourceRef list"
  ot_in_use :: bool
  ot_writable :: bool

record CreateOciImageTargetInput =
  coi_name :: string
  coi_comment :: "string option"
  coi_image_references :: "string list"
  coi_credential_id :: "string option"

record ModifyOciImageTargetInput =
  moi_name :: "string option"
  moi_comment :: "string option"
  moi_image_references :: "string list option"
  moi_credential_id :: "string option"

record WebApplicationTarget =
  wt_id :: string
  wt_name :: string
  wt_comment :: "string option"
  wt_urls :: "string list"
  wt_exclude_urls :: "string list"
  wt_credential :: "ResourceRef option"
  wt_tasks :: "ResourceRef list"
  wt_in_use :: bool
  wt_writable :: bool

record CreateWebApplicationTargetInput =
  cwi_name :: string
  cwi_comment :: "string option"
  cwi_urls :: "string list"
  cwi_exclude_urls :: "string list"
  cwi_credential_id :: "string option"

record ModifyWebApplicationTargetInput =
  mwi_name :: "string option"
  mwi_comment :: "string option"
  mwi_urls :: "string list option"
  mwi_exclude_urls :: "string list option"
  mwi_credential_id :: "string option"

section \<open>The port\<close>

record 's TargetPort =
  tp_list_targets :: "string \<Rightarrow> TargetQuery \<Rightarrow> ('s, Target Page) operation"
  tp_create_target :: "string \<Rightarrow> CreateTargetInput \<Rightarrow> ('s, string) operation"
  tp_clone_target :: "string \<Rightarrow> string \<Rightarrow> ('s, string) operation"
  tp_get_target :: "string \<Rightarrow> string \<Rightarrow> ('s, Target) operation"
  tp_modify_target :: "string \<Rightarrow> string \<Rightarrow> ModifyTargetInput \<Rightarrow> ('s, Target) operation"
  tp_delete_target :: "string \<Rightarrow> string \<Rightarrow> bool \<Rightarrow> ('s, unit) operation"
  tp_list_oci_image_targets :: "string \<Rightarrow> SpecializedTargetQuery \<Rightarrow> ('s, OciImageTarget Page) operation"
  tp_create_oci_image_target :: "string \<Rightarrow> CreateOciImageTargetInput \<Rightarrow> ('s, string) operation"
  tp_clone_oci_image_target :: "string \<Rightarrow> string \<Rightarrow> ('s, string) operation"
  tp_get_oci_image_target :: "string \<Rightarrow> string \<Rightarrow> ('s, OciImageTarget) operation"
  tp_modify_oci_image_target :: "string \<Rightarrow> string \<Rightarrow> ModifyOciImageTargetInput \<Rightarrow> ('s, OciImageTarget) operation"
  tp_delete_oci_image_target :: "string \<Rightarrow> string \<Rightarrow> bool \<Rightarrow> ('s, unit) operation"
  tp_list_web_application_targets :: "string \<Rightarrow> SpecializedTargetQuery \<Rightarrow> ('s, WebApplicationTarget Page) operation"
  tp_create_web_application_target :: "string \<Rightarrow> CreateWebApplicationTargetInput \<Rightarrow> ('s, string) operation"
  tp_clone_web_application_target :: "string \<Rightarrow> string \<Rightarrow> ('s, string) operation"
  tp_get_web_application_target :: "string \<Rightarrow> string \<Rightarrow> ('s, WebApplicationTarget) operation"
  tp_modify_web_application_target ::
    "string \<Rightarrow> string \<Rightarrow> ModifyWebApplicationTargetInput \<Rightarrow> ('s, WebApplicationTarget) operation"
  tp_delete_web_application_target :: "string \<Rightarrow> string \<Rightarrow> bool \<Rightarrow> ('s, unit) operation"

section \<open>The port of the adapter\<close>

definition target_from_gmp :: "GmpTarget \<Rightarrow> Target" where
  "target_from_gmp t =
     (let ref = map_option resource_ref_from_named_entity; meta = xt_meta t
      in \<lparr>tg_id = em_id meta, tg_name = em_name meta, tg_comment = em_comment meta,
          tg_hosts = xt_hosts t, tg_exclude_hosts = xt_exclude_hosts t, tg_alive_test = xt_alive_tests t,
          tg_port_list = ref (xt_port_list t), tg_reverse_lookup_only = xt_reverse_lookup_only t,
          tg_reverse_lookup_unify = xt_reverse_lookup_unify t, tg_ssh_credential = ref (xt_ssh_credential t),
          tg_smb_credential = ref (xt_smb_credential t), tg_esxi_credential = ref (xt_esxi_credential t),
          tg_snmp_credential = ref (xt_snmp_credential t), tg_in_use = em_in_use meta,
          tg_writable = em_writable meta\<rparr>)"

definition oci_image_target_from_gmp :: "GmpOciImageTarget \<Rightarrow> OciImageTarget" where
  "oci_image_target_from_gmp t =
     (let meta = xo_meta t
      in \<lparr>ot_id = em_id meta, ot_name = em_name meta, ot_comment = em_comment meta,
          ot_image_references = xo_image_references t,
          ot_credential = map_option resource_ref_from_named_entity (xo_credential t),
          ot_tasks = map resource_ref_from_named_entity (xo_tasks t),
          ot_in_use = em_in_use meta, ot_writable = em_writable meta\<rparr>)"

definition web_application_target_from_gmp :: "GmpWebApplicationTarget \<Rightarrow> WebApplicationTarget" where
  "web_application_target_from_gmp t =
     (let meta = xw_meta t
      in \<lparr>wt_id = em_id meta, wt_name = em_name meta, wt_comment = em_comment meta,
          wt_urls = xw_urls t, wt_exclude_urls = xw_exclude_urls t,
          wt_credential = map_option resource_ref_from_named_entity (xw_credential t),
          wt_tasks = map resource_ref_from_named_entity (xw_tasks t),
          wt_in_use = em_in_use meta, wt_writable = em_writable meta\<rparr>)"

definition target_hosts ::
    "('r, 'g, 'f) GmpLibrary \<Rightarrow> string list \<Rightarrow> string list \<Rightarrow> (string list \<times> string list) result" where
  "target_hosts L included excluded =
     (let parse = collect_results (\<lambda>host. case lb_target_host L host of
                    Inl e \<Rightarrow> Inl (InvalidInput e) | Inr h \<Rightarrow> Inr h)
      in and_then (parse included) (\<lambda>included.
         and_then (parse excluded) (\<lambda>excluded.
           case lb_target_hosts L included excluded of Inl e \<Rightarrow> Inl (InvalidInput e) | Inr hs \<Rightarrow> Inr hs)))"

definition default_target_ports :: TargetPortSelection where
  "default_target_ports = PortRange ''T:1-65535''"

subsection \<open>Targets\<close>

definition gvmd_list_targets ::
    "(string \<Rightarrow> u8 list) \<Rightarrow> ('r, 'g, 'f) GmpLibrary \<Rightarrow> string \<Rightarrow> TargetQuery \<Rightarrow> ('g Gvmd, Target Page) operation" where
  "gvmd_list_targets sha L session_token query =
     (let page = tq_page query; per_page = tq_per_page query;
          fetch = (\<lambda>filter_string. fetch_items sha L session_token
            (GetTargets \<lparr>gt_filter_string = filter_string, gt_details = Some True\<rparr>) (lb_targets L) target_from_gmp)
      in checked (map_transpose (parse_filter_id L) (tq_filter_id query)) (\<lambda>filter_id.
         chain (paginated_filter_resolving_filter_id sha L session_token None (tq_filter_string query) filter_id
                  page per_page []) (\<lambda>filter_string.
         chain (fetch filter_string) (\<lambda>(items, total).
           if needs_client_side_pagination_fallback items total page
           then chain (filter_resolving_filter_id sha L session_token None (tq_filter_string query) filter_id [])
                  (\<lambda>filter_string.
                chain (fetch filter_string) (\<lambda>(items, total).
                  pure (Inr (paged_slice items page per_page, paged_pagination total page per_page))))
           else pure (Inr (items, paged_pagination total page per_page))))))"

definition gvmd_create_target ::
    "(string \<Rightarrow> u8 list) \<Rightarrow> ('r, 'g, 'f) GmpLibrary \<Rightarrow> string \<Rightarrow> CreateTargetInput \<Rightarrow> ('g Gvmd, string) operation" where
  "gvmd_create_target sha L session_token input =
     checked (target_hosts L (ci_hosts input) (ci_exclude_hosts input)) (\<lambda>hosts.
     checked (map_transpose (parse_entity_id L) (ci_port_list_id input)) (\<lambda>port_list.
     checked (map_transpose (parse_alive_test L) (ci_alive_test input)) (\<lambda>alive_test.
     checked (map_transpose (parse_entity_id L) (ci_ssh_credential_id input)) (\<lambda>ssh.
     checked (map_transpose (parse_entity_id L) (ci_smb_credential_id input)) (\<lambda>smb.
     checked (map_transpose (parse_entity_id L) (ci_esxi_credential_id input)) (\<lambda>esxi.
     checked (map_transpose (parse_entity_id L) (ci_snmp_credential_id input)) (\<lambda>snmp.
     checked (build L (CreateTarget (ci_name input)
       \<lparr>co_comment = ci_comment input, co_hosts = hosts, co_alive_test = alive_test,
        co_ports = (case port_list of Some p \<Rightarrow> PortList p | None \<Rightarrow> default_target_ports),
        co_ssh_credential_id = ssh, co_smb_credential_id = smb, co_esxi_credential_id = esxi,
        co_snmp_credential_id = snmp, co_reverse_lookup_only = ci_reverse_lookup_only input,
        co_reverse_lookup_unify = ci_reverse_lookup_unify input\<rparr>)) (\<lambda>request.
       call_create sha L session_token request))))))))"

definition gvmd_clone_target ::
    "(string \<Rightarrow> u8 list) \<Rightarrow> ('r, 'g, 'f) GmpLibrary \<Rightarrow> string \<Rightarrow> string \<Rightarrow> ('g Gvmd, string) operation" where
  "gvmd_clone_target sha L session_token ident =
     checked (parse_entity_id L ident) (\<lambda>ident. call_create sha L session_token (CloneTarget ident))"

definition gvmd_get_target ::
    "(string \<Rightarrow> u8 list) \<Rightarrow> ('r, 'g, 'f) GmpLibrary \<Rightarrow> string \<Rightarrow> string \<Rightarrow> ('g Gvmd, Target) operation" where
  "gvmd_get_target sha L session_token ident =
     checked (parse_entity_id L ident) (\<lambda>target_id.
       fetch_first sha L session_token (GetTarget target_id) (lb_targets L) target_from_gmp
         (''target '' @ ident @ '' not found''))"

text \<open>Hosts and excluded hosts are replaced together; excluded hosts alone are refused.\<close>

definition updated_hosts ::
    "('r, 'g, 'f) GmpLibrary \<Rightarrow> string list option \<Rightarrow> string list option \<Rightarrow> (string list \<times> string list) option result" where
  "updated_hosts L hosts excluded =
     (case hosts of
        Some included \<Rightarrow> map_transpose (\<lambda>inc. target_hosts L inc (unwrap_or excluded [])) (Some included)
      | None \<Rightarrow>
          (case excluded of
             None \<Rightarrow> Inr None
           | Some _ \<Rightarrow> Inl (InvalidInput ''excludeHosts requires hosts so both lists can be replaced atomically'')))"

definition gvmd_modify_target ::
    "(string \<Rightarrow> u8 list) \<Rightarrow> ('r, 'g, 'f) GmpLibrary \<Rightarrow> string \<Rightarrow> string \<Rightarrow> ModifyTargetInput
      \<Rightarrow> ('g Gvmd, Target) operation" where
  "gvmd_modify_target sha L session_token ident input =
     checked (parse_entity_id L ident) (\<lambda>target_id.
     checked (updated_hosts L (mi_hosts input) (mi_exclude_hosts input)) (\<lambda>hosts.
     checked (map_transpose (parse_alive_test L) (mi_alive_test input)) (\<lambda>alive_test.
     checked (map_transpose (parse_entity_id L) (mi_port_list_id input)) (\<lambda>port_list.
     checked (map_transpose (parse_entity_id L) (mi_ssh_credential_id input)) (\<lambda>ssh.
     checked (map_transpose (parse_entity_id L) (mi_smb_credential_id input)) (\<lambda>smb.
     checked (map_transpose (parse_entity_id L) (mi_esxi_credential_id input)) (\<lambda>esxi.
     checked (map_transpose (parse_entity_id L) (mi_snmp_credential_id input)) (\<lambda>snmp.
     checked (build L (ModifyTarget target_id
       \<lparr>mo_name = mi_name input, mo_comment = mi_comment input, mo_hosts = hosts,
        mo_reverse_lookup_only = mi_reverse_lookup_only input,
        mo_reverse_lookup_unify = mi_reverse_lookup_unify input, mo_alive_test = alive_test,
        mo_port_list_id = scalar_update port_list, mo_ssh_credential_id = scalar_update ssh,
        mo_smb_credential_id = scalar_update smb, mo_esxi_credential_id = scalar_update esxi,
        mo_snmp_credential_id = scalar_update snmp\<rparr>)) (\<lambda>request.
     chain (call_action sha L session_token request) (\<lambda>_.
       gvmd_get_target sha L session_token ident))))))))))"

definition gvmd_delete_target ::
    "(string \<Rightarrow> u8 list) \<Rightarrow> ('r, 'g, 'f) GmpLibrary \<Rightarrow> string \<Rightarrow> string \<Rightarrow> bool \<Rightarrow> ('g Gvmd, unit) operation" where
  "gvmd_delete_target sha L session_token ident ultimate =
     checked (parse_entity_id L ident) (\<lambda>ident. call_action sha L session_token (DeleteTarget ident ultimate))"

subsection \<open>OCI image targets and web application targets\<close>

text \<open>
  Both listings have the same shape: an empty page is fetched again without paging and cut
  here.
\<close>

definition list_specialized ::
    "(string \<Rightarrow> u8 list) \<Rightarrow> ('r, 'g, 'f) GmpLibrary \<Rightarrow> (GetSpecializedOpts \<Rightarrow> GmpCommand)
      \<Rightarrow> ('r \<Rightarrow> ParseError + 'i Counted) \<Rightarrow> ('i \<Rightarrow> 'a) \<Rightarrow> string \<Rightarrow> SpecializedTargetQuery \<Rightarrow> ('g Gvmd, 'a Page) operation" where
  "list_specialized sha L command from_response convert session_token query =
     (let page = sq_page query; per_page = sq_per_page query;
          fetch = (\<lambda>filter_string. fetch_items sha L session_token
            (command \<lparr>gs_filter_string = filter_string, gs_trash = Some (sq_trash query), gs_tasks = Some True\<rparr>)
            from_response convert)
      in checked (map_transpose (parse_filter_id L) (sq_filter_id query)) (\<lambda>filter_id.
         chain (paginated_filter_resolving_filter_id sha L session_token None (sq_filter_string query) filter_id
                  page per_page []) (\<lambda>filter_string.
         chain (fetch filter_string) (\<lambda>(items, total).
           if items = [] \<or> needs_client_side_pagination_fallback items total page
           then chain (filter_resolving_filter_id sha L session_token None (sq_filter_string query) filter_id [])
                  (\<lambda>filter_string.
                chain (fetch filter_string) (\<lambda>(items, total).
                  pure (Inr (paged_slice items page per_page, paged_pagination total page per_page))))
           else pure (Inr (items, paged_pagination total page per_page))))))"

definition gvmd_list_oci_image_targets ::
    "(string \<Rightarrow> u8 list) \<Rightarrow> ('r, 'g, 'f) GmpLibrary \<Rightarrow> string \<Rightarrow> SpecializedTargetQuery
      \<Rightarrow> ('g Gvmd, OciImageTarget Page) operation" where
  "gvmd_list_oci_image_targets sha L =
     list_specialized sha L GetOciImageTargets (lb_oci_image_targets L) oci_image_target_from_gmp"

definition gvmd_create_oci_image_target ::
    "(string \<Rightarrow> u8 list) \<Rightarrow> ('r, 'g, 'f) GmpLibrary \<Rightarrow> string \<Rightarrow> CreateOciImageTargetInput \<Rightarrow> ('g Gvmd, string) operation" where
  "gvmd_create_oci_image_target sha L session_token input =
     checked (map_transpose (parse_entity_id L) (coi_credential_id input)) (\<lambda>credential.
       call_create sha L session_token (CreateOciImageTarget (coi_name input) (coi_image_references input)
         (coi_comment input) credential))"

definition gvmd_clone_oci_image_target ::
    "(string \<Rightarrow> u8 list) \<Rightarrow> ('r, 'g, 'f) GmpLibrary \<Rightarrow> string \<Rightarrow> string \<Rightarrow> ('g Gvmd, string) operation" where
  "gvmd_clone_oci_image_target sha L session_token ident =
     checked (parse_entity_id L ident) (\<lambda>ident. call_create sha L session_token (CloneOciImageTarget ident))"

definition gvmd_get_oci_image_target ::
    "(string \<Rightarrow> u8 list) \<Rightarrow> ('r, 'g, 'f) GmpLibrary \<Rightarrow> string \<Rightarrow> string \<Rightarrow> ('g Gvmd, OciImageTarget) operation" where
  "gvmd_get_oci_image_target sha L session_token ident =
     checked (parse_entity_id L ident) (\<lambda>target_id.
       fetch_first sha L session_token (GetOciImageTarget target_id (Some True)) (lb_oci_image_targets L)
         oci_image_target_from_gmp (''OCI image target '' @ ident @ '' not found''))"

definition gvmd_modify_oci_image_target ::
    "(string \<Rightarrow> u8 list) \<Rightarrow> ('r, 'g, 'f) GmpLibrary \<Rightarrow> string \<Rightarrow> string \<Rightarrow> ModifyOciImageTargetInput
      \<Rightarrow> ('g Gvmd, OciImageTarget) operation" where
  "gvmd_modify_oci_image_target sha L session_token ident input =
     checked (parse_entity_id L ident) (\<lambda>target_id.
     checked (map_transpose (parse_entity_id L) (moi_credential_id input)) (\<lambda>credential.
     chain (call_action sha L session_token (ModifyOciImageTarget target_id
       \<lparr>oi_name = moi_name input, oi_comment = moi_comment input,
        oi_image_references = unwrap_or (moi_image_references input) [], oi_credential_id = credential\<rparr>)) (\<lambda>_.
       gvmd_get_oci_image_target sha L session_token ident)))"

definition gvmd_delete_oci_image_target ::
    "(string \<Rightarrow> u8 list) \<Rightarrow> ('r, 'g, 'f) GmpLibrary \<Rightarrow> string \<Rightarrow> string \<Rightarrow> bool \<Rightarrow> ('g Gvmd, unit) operation" where
  "gvmd_delete_oci_image_target sha L session_token ident ultimate =
     checked (parse_entity_id L ident) (\<lambda>ident. call_action sha L session_token (DeleteOciImageTarget ident ultimate))"

definition gvmd_list_web_application_targets ::
    "(string \<Rightarrow> u8 list) \<Rightarrow> ('r, 'g, 'f) GmpLibrary \<Rightarrow> string \<Rightarrow> SpecializedTargetQuery
      \<Rightarrow> ('g Gvmd, WebApplicationTarget Page) operation" where
  "gvmd_list_web_application_targets sha L =
     list_specialized sha L GetWebApplicationTargets (lb_web_application_targets L) web_application_target_from_gmp"

definition gvmd_create_web_application_target ::
    "(string \<Rightarrow> u8 list) \<Rightarrow> ('r, 'g, 'f) GmpLibrary \<Rightarrow> string \<Rightarrow> CreateWebApplicationTargetInput
      \<Rightarrow> ('g Gvmd, string) operation" where
  "gvmd_create_web_application_target sha L session_token input =
     checked (map_transpose (parse_entity_id L) (cwi_credential_id input)) (\<lambda>credential.
       call_create sha L session_token (CreateWebApplicationTarget (cwi_name input) (cwi_urls input)
         (cwi_comment input) (cwi_exclude_urls input) credential))"

definition gvmd_clone_web_application_target ::
    "(string \<Rightarrow> u8 list) \<Rightarrow> ('r, 'g, 'f) GmpLibrary \<Rightarrow> string \<Rightarrow> string \<Rightarrow> ('g Gvmd, string) operation" where
  "gvmd_clone_web_application_target sha L session_token ident =
     checked (parse_entity_id L ident) (\<lambda>ident. call_create sha L session_token (CloneWebApplicationTarget ident))"

definition gvmd_get_web_application_target ::
    "(string \<Rightarrow> u8 list) \<Rightarrow> ('r, 'g, 'f) GmpLibrary \<Rightarrow> string \<Rightarrow> string \<Rightarrow> ('g Gvmd, WebApplicationTarget) operation" where
  "gvmd_get_web_application_target sha L session_token ident =
     checked (parse_entity_id L ident) (\<lambda>target_id.
       fetch_first sha L session_token (GetWebApplicationTarget target_id (Some True)) (lb_web_application_targets L)
         web_application_target_from_gmp (''web application target '' @ ident @ '' not found''))"

definition gvmd_modify_web_application_target ::
    "(string \<Rightarrow> u8 list) \<Rightarrow> ('r, 'g, 'f) GmpLibrary \<Rightarrow> string \<Rightarrow> string \<Rightarrow> ModifyWebApplicationTargetInput
      \<Rightarrow> ('g Gvmd, WebApplicationTarget) operation" where
  "gvmd_modify_web_application_target sha L session_token ident input =
     checked (parse_entity_id L ident) (\<lambda>target_id.
     checked (map_transpose (parse_entity_id L) (mwi_credential_id input)) (\<lambda>credential.
     chain (call_action sha L session_token (ModifyWebApplicationTarget target_id
       \<lparr>wa_name = mwi_name input, wa_comment = mwi_comment input, wa_urls = unwrap_or (mwi_urls input) [],
        wa_exclude_urls = unwrap_or (mwi_exclude_urls input) [], wa_credential_id = credential\<rparr>)) (\<lambda>_.
       gvmd_get_web_application_target sha L session_token ident)))"

definition gvmd_delete_web_application_target ::
    "(string \<Rightarrow> u8 list) \<Rightarrow> ('r, 'g, 'f) GmpLibrary \<Rightarrow> string \<Rightarrow> string \<Rightarrow> bool \<Rightarrow> ('g Gvmd, unit) operation" where
  "gvmd_delete_web_application_target sha L session_token ident ultimate =
     checked (parse_entity_id L ident) (\<lambda>ident. call_action sha L session_token (DeleteWebApplicationTarget ident ultimate))"

text \<open>
  An update cannot remove all excluded addresses of a web application target: an empty list
  sends exactly the command of an omitted one.
\<close>

lemma web_target_exclusions_cannot_be_cleared:
  "gvmd_modify_web_application_target sha L token ident (input\<lparr>mwi_exclude_urls := Some []\<rparr>) =
     gvmd_modify_web_application_target sha L token ident (input\<lparr>mwi_exclude_urls := None\<rparr>)"
  by (simp add: gvmd_modify_web_application_target_def unwrap_or_def)

subsection \<open>The adapter implements the port\<close>

definition gvmd_target_port :: "(string \<Rightarrow> u8 list) \<Rightarrow> ('r, 'g, 'f) GmpLibrary \<Rightarrow> 'g Gvmd TargetPort" where
  "gvmd_target_port sha L =
     \<lparr>tp_list_targets = gvmd_list_targets sha L,
      tp_create_target = gvmd_create_target sha L,
      tp_clone_target = gvmd_clone_target sha L,
      tp_get_target = gvmd_get_target sha L,
      tp_modify_target = gvmd_modify_target sha L,
      tp_delete_target = gvmd_delete_target sha L,
      tp_list_oci_image_targets = gvmd_list_oci_image_targets sha L,
      tp_create_oci_image_target = gvmd_create_oci_image_target sha L,
      tp_clone_oci_image_target = gvmd_clone_oci_image_target sha L,
      tp_get_oci_image_target = gvmd_get_oci_image_target sha L,
      tp_modify_oci_image_target = gvmd_modify_oci_image_target sha L,
      tp_delete_oci_image_target = gvmd_delete_oci_image_target sha L,
      tp_list_web_application_targets = gvmd_list_web_application_targets sha L,
      tp_create_web_application_target = gvmd_create_web_application_target sha L,
      tp_clone_web_application_target = gvmd_clone_web_application_target sha L,
      tp_get_web_application_target = gvmd_get_web_application_target sha L,
      tp_modify_web_application_target = gvmd_modify_web_application_target sha L,
      tp_delete_web_application_target = gvmd_delete_web_application_target sha L\<rparr>"

section \<open>Use cases\<close>

definition list_targets ::
    "'s TargetPort \<Rightarrow> (string \<Rightarrow> u8 list) \<Rightarrow> u64 \<Rightarrow> string \<Rightarrow> TargetQuery \<Rightarrow> 's GatewayService
      \<Rightarrow> (Target Page) result \<times> 's GatewayService" where
  "list_targets port sha now session_token query =
     use_port sha now session_token ''list'' ''target'' (\<lambda>token. tp_list_targets port token query)"

definition create_target ::
    "'s TargetPort \<Rightarrow> (string \<Rightarrow> u8 list) \<Rightarrow> u64 \<Rightarrow> string \<Rightarrow> CreateTargetInput \<Rightarrow> 's GatewayService
      \<Rightarrow> string result \<times> 's GatewayService" where
  "create_target port sha now session_token input =
     use_port sha now session_token ''create'' ''target'' (\<lambda>token. tp_create_target port token input)"

definition clone_target ::
    "'s TargetPort \<Rightarrow> (string \<Rightarrow> u8 list) \<Rightarrow> u64 \<Rightarrow> string \<Rightarrow> string \<Rightarrow> 's GatewayService
      \<Rightarrow> string result \<times> 's GatewayService" where
  "clone_target port sha now session_token ident =
     use_port sha now session_token ''create'' ''target'' (\<lambda>token. tp_clone_target port token ident)"

definition get_target ::
    "'s TargetPort \<Rightarrow> (string \<Rightarrow> u8 list) \<Rightarrow> u64 \<Rightarrow> string \<Rightarrow> string \<Rightarrow> 's GatewayService
      \<Rightarrow> Target result \<times> 's GatewayService" where
  "get_target port sha now session_token ident =
     use_port sha now session_token ''read'' ''target'' (\<lambda>token. tp_get_target port token ident)"

definition modify_target ::
    "'s TargetPort \<Rightarrow> (string \<Rightarrow> u8 list) \<Rightarrow> u64 \<Rightarrow> string \<Rightarrow> string \<Rightarrow> ModifyTargetInput \<Rightarrow> 's GatewayService
      \<Rightarrow> Target result \<times> 's GatewayService" where
  "modify_target port sha now session_token ident input =
     use_port sha now session_token ''modify'' ''target'' (\<lambda>token. tp_modify_target port token ident input)"

definition delete_target ::
    "'s TargetPort \<Rightarrow> (string \<Rightarrow> u8 list) \<Rightarrow> u64 \<Rightarrow> string \<Rightarrow> string \<Rightarrow> bool \<Rightarrow> 's GatewayService
      \<Rightarrow> unit result \<times> 's GatewayService" where
  "delete_target port sha now session_token ident ultimate =
     use_port sha now session_token ''delete'' ''target'' (\<lambda>token. tp_delete_target port token ident ultimate)"

definition list_oci_image_targets ::
    "'s TargetPort \<Rightarrow> (string \<Rightarrow> u8 list) \<Rightarrow> u64 \<Rightarrow> string \<Rightarrow> SpecializedTargetQuery \<Rightarrow> 's GatewayService
      \<Rightarrow> (OciImageTarget Page) result \<times> 's GatewayService" where
  "list_oci_image_targets port sha now session_token query =
     use_port sha now session_token ''list'' ''oci_image_target'' (\<lambda>token. tp_list_oci_image_targets port token query)"

definition create_oci_image_target ::
    "'s TargetPort \<Rightarrow> (string \<Rightarrow> u8 list) \<Rightarrow> u64 \<Rightarrow> string \<Rightarrow> CreateOciImageTargetInput \<Rightarrow> 's GatewayService
      \<Rightarrow> string result \<times> 's GatewayService" where
  "create_oci_image_target port sha now session_token input =
     use_port sha now session_token ''create'' ''oci_image_target'' (\<lambda>token. tp_create_oci_image_target port token input)"

definition clone_oci_image_target ::
    "'s TargetPort \<Rightarrow> (string \<Rightarrow> u8 list) \<Rightarrow> u64 \<Rightarrow> string \<Rightarrow> string \<Rightarrow> 's GatewayService
      \<Rightarrow> string result \<times> 's GatewayService" where
  "clone_oci_image_target port sha now session_token ident =
     use_port sha now session_token ''create'' ''oci_image_target'' (\<lambda>token. tp_clone_oci_image_target port token ident)"

definition get_oci_image_target ::
    "'s TargetPort \<Rightarrow> (string \<Rightarrow> u8 list) \<Rightarrow> u64 \<Rightarrow> string \<Rightarrow> string \<Rightarrow> 's GatewayService
      \<Rightarrow> OciImageTarget result \<times> 's GatewayService" where
  "get_oci_image_target port sha now session_token ident =
     use_port sha now session_token ''read'' ''oci_image_target'' (\<lambda>token. tp_get_oci_image_target port token ident)"

definition modify_oci_image_target ::
    "'s TargetPort \<Rightarrow> (string \<Rightarrow> u8 list) \<Rightarrow> u64 \<Rightarrow> string \<Rightarrow> string \<Rightarrow> ModifyOciImageTargetInput \<Rightarrow> 's GatewayService
      \<Rightarrow> OciImageTarget result \<times> 's GatewayService" where
  "modify_oci_image_target port sha now session_token ident input =
     use_port sha now session_token ''modify'' ''oci_image_target'' (\<lambda>token. tp_modify_oci_image_target port token ident input)"

definition delete_oci_image_target ::
    "'s TargetPort \<Rightarrow> (string \<Rightarrow> u8 list) \<Rightarrow> u64 \<Rightarrow> string \<Rightarrow> string \<Rightarrow> bool \<Rightarrow> 's GatewayService
      \<Rightarrow> unit result \<times> 's GatewayService" where
  "delete_oci_image_target port sha now session_token ident ultimate =
     use_port sha now session_token ''delete'' ''oci_image_target'' (\<lambda>token. tp_delete_oci_image_target port token ident ultimate)"

definition list_web_application_targets ::
    "'s TargetPort \<Rightarrow> (string \<Rightarrow> u8 list) \<Rightarrow> u64 \<Rightarrow> string \<Rightarrow> SpecializedTargetQuery \<Rightarrow> 's GatewayService
      \<Rightarrow> (WebApplicationTarget Page) result \<times> 's GatewayService" where
  "list_web_application_targets port sha now session_token query =
     use_port sha now session_token ''list'' ''web_application_target'' (\<lambda>token. tp_list_web_application_targets port token query)"

definition create_web_application_target ::
    "'s TargetPort \<Rightarrow> (string \<Rightarrow> u8 list) \<Rightarrow> u64 \<Rightarrow> string \<Rightarrow> CreateWebApplicationTargetInput \<Rightarrow> 's GatewayService
      \<Rightarrow> string result \<times> 's GatewayService" where
  "create_web_application_target port sha now session_token input =
     use_port sha now session_token ''create'' ''web_application_target'' (\<lambda>token. tp_create_web_application_target port token input)"

definition clone_web_application_target ::
    "'s TargetPort \<Rightarrow> (string \<Rightarrow> u8 list) \<Rightarrow> u64 \<Rightarrow> string \<Rightarrow> string \<Rightarrow> 's GatewayService
      \<Rightarrow> string result \<times> 's GatewayService" where
  "clone_web_application_target port sha now session_token ident =
     use_port sha now session_token ''create'' ''web_application_target'' (\<lambda>token. tp_clone_web_application_target port token ident)"

definition get_web_application_target ::
    "'s TargetPort \<Rightarrow> (string \<Rightarrow> u8 list) \<Rightarrow> u64 \<Rightarrow> string \<Rightarrow> string \<Rightarrow> 's GatewayService
      \<Rightarrow> WebApplicationTarget result \<times> 's GatewayService" where
  "get_web_application_target port sha now session_token ident =
     use_port sha now session_token ''read'' ''web_application_target'' (\<lambda>token. tp_get_web_application_target port token ident)"

definition modify_web_application_target ::
    "'s TargetPort \<Rightarrow> (string \<Rightarrow> u8 list) \<Rightarrow> u64 \<Rightarrow> string \<Rightarrow> string \<Rightarrow> ModifyWebApplicationTargetInput \<Rightarrow> 's GatewayService
      \<Rightarrow> WebApplicationTarget result \<times> 's GatewayService" where
  "modify_web_application_target port sha now session_token ident input =
     use_port sha now session_token ''modify'' ''web_application_target'' (\<lambda>token. tp_modify_web_application_target port token ident input)"

definition delete_web_application_target ::
    "'s TargetPort \<Rightarrow> (string \<Rightarrow> u8 list) \<Rightarrow> u64 \<Rightarrow> string \<Rightarrow> string \<Rightarrow> bool \<Rightarrow> 's GatewayService
      \<Rightarrow> unit result \<times> 's GatewayService" where
  "delete_web_application_target port sha now session_token ident ultimate =
     use_port sha now session_token ''delete'' ''web_application_target'' (\<lambda>token. tp_delete_web_application_target port token ident ultimate)"

section \<open>Every operation speaks for its session\<close>

lemma speaks_list_specialized [speaks]:
  "d = from_token sha session_token \<Longrightarrow>
     speaks_for d (list_specialized sha L command from_response convert session_token query)"
  unfolding list_specialized_def Let_def by (auto intro!: speaks split: prod.split)

lemma speaks_list_targets [speaks]:
  "d = from_token sha session_token \<Longrightarrow> speaks_for d (gvmd_list_targets sha L session_token query)"
  unfolding gvmd_list_targets_def Let_def by (auto intro!: speaks split: prod.split)

lemma speaks_create_target [speaks]:
  "d = from_token sha session_token \<Longrightarrow> speaks_for d (gvmd_create_target sha L session_token input)"
  unfolding gvmd_create_target_def by (intro speaks)

lemma speaks_clone_target [speaks]:
  "d = from_token sha session_token \<Longrightarrow> speaks_for d (gvmd_clone_target sha L session_token ident)"
  unfolding gvmd_clone_target_def by (intro speaks)

lemma speaks_get_target [speaks]:
  "d = from_token sha session_token \<Longrightarrow> speaks_for d (gvmd_get_target sha L session_token ident)"
  unfolding gvmd_get_target_def by (intro speaks)

lemma speaks_modify_target [speaks]:
  "d = from_token sha session_token \<Longrightarrow> speaks_for d (gvmd_modify_target sha L session_token ident input)"
  unfolding gvmd_modify_target_def by (intro speaks)

lemma speaks_delete_target [speaks]:
  "d = from_token sha session_token \<Longrightarrow> speaks_for d (gvmd_delete_target sha L session_token ident ultimate)"
  unfolding gvmd_delete_target_def by (intro speaks)

lemma speaks_list_oci_image_targets [speaks]:
  "d = from_token sha session_token \<Longrightarrow> speaks_for d (gvmd_list_oci_image_targets sha L session_token query)"
  unfolding gvmd_list_oci_image_targets_def by (intro speaks)

lemma speaks_create_oci_image_target [speaks]:
  "d = from_token sha session_token \<Longrightarrow> speaks_for d (gvmd_create_oci_image_target sha L session_token input)"
  unfolding gvmd_create_oci_image_target_def by (intro speaks)

lemma speaks_clone_oci_image_target [speaks]:
  "d = from_token sha session_token \<Longrightarrow> speaks_for d (gvmd_clone_oci_image_target sha L session_token ident)"
  unfolding gvmd_clone_oci_image_target_def by (intro speaks)

lemma speaks_get_oci_image_target [speaks]:
  "d = from_token sha session_token \<Longrightarrow> speaks_for d (gvmd_get_oci_image_target sha L session_token ident)"
  unfolding gvmd_get_oci_image_target_def by (intro speaks)

lemma speaks_modify_oci_image_target [speaks]:
  "d = from_token sha session_token \<Longrightarrow> speaks_for d (gvmd_modify_oci_image_target sha L session_token ident input)"
  unfolding gvmd_modify_oci_image_target_def by (intro speaks)

lemma speaks_delete_oci_image_target [speaks]:
  "d = from_token sha session_token \<Longrightarrow> speaks_for d (gvmd_delete_oci_image_target sha L session_token ident ultimate)"
  unfolding gvmd_delete_oci_image_target_def by (intro speaks)

lemma speaks_list_web_application_targets [speaks]:
  "d = from_token sha session_token \<Longrightarrow> speaks_for d (gvmd_list_web_application_targets sha L session_token query)"
  unfolding gvmd_list_web_application_targets_def by (intro speaks)

lemma speaks_create_web_application_target [speaks]:
  "d = from_token sha session_token \<Longrightarrow> speaks_for d (gvmd_create_web_application_target sha L session_token input)"
  unfolding gvmd_create_web_application_target_def by (intro speaks)

lemma speaks_clone_web_application_target [speaks]:
  "d = from_token sha session_token \<Longrightarrow> speaks_for d (gvmd_clone_web_application_target sha L session_token ident)"
  unfolding gvmd_clone_web_application_target_def by (intro speaks)

lemma speaks_get_web_application_target [speaks]:
  "d = from_token sha session_token \<Longrightarrow> speaks_for d (gvmd_get_web_application_target sha L session_token ident)"
  unfolding gvmd_get_web_application_target_def by (intro speaks)

lemma speaks_modify_web_application_target [speaks]:
  "d = from_token sha session_token \<Longrightarrow> speaks_for d (gvmd_modify_web_application_target sha L session_token ident input)"
  unfolding gvmd_modify_web_application_target_def by (intro speaks)

lemma speaks_delete_web_application_target [speaks]:
  "d = from_token sha session_token \<Longrightarrow> speaks_for d (gvmd_delete_web_application_target sha L session_token ident ultimate)"
  unfolding gvmd_delete_web_application_target_def by (intro speaks)

end
