(* ===== verification/Rest_Base.thy ===== *)
theory Rest_Base
  imports Gmp Rest_Jobs
begin

text \<open>
  What the endpoints of all resources share: the open enums (\<open>open_enum.rs\<close>), the bodies of
  listings (\<open>dto.rs\<close>), checks of request bodies, and what a handler does to the application, in
  rules that follow the generic handlers of \<open>crates/gvm-gateway-rest/src/handler.rs\<close>.
\<close>

section \<open>Open enums\<close>

text \<open>The functions the macro \<open>open_string_enum\<close> makes for a table of variants.\<close>

definition open_enum_parse :: "(string \<times> 'v) list \<Rightarrow> (string \<Rightarrow> 'v) \<Rightarrow> string \<Rightarrow> 'v" where
  "open_enum_parse table unknown v = (case map_of table v of Some x \<Rightarrow> x | None \<Rightarrow> unknown v)"

fun open_enum_name :: "(string \<times> 'v) list \<Rightarrow> 'v \<Rightarrow> string option" where
  "open_enum_name [] x = None"
| "open_enum_name ((v, y) # table) x = (if y = x then Some v else open_enum_name table x)"

section \<open>Listings\<close>

record PaginationResponse =
  pr_page :: u32
  pr_per_page :: u32
  pr_total :: u32
  pr_total_pages :: u32

definition pagination_response :: "Pagination \<Rightarrow> PaginationResponse" where
  "pagination_response p =
     \<lparr>pr_page = pg_page p, pr_per_page = pg_per_page p, pr_total = pg_total p, pr_total_pages = pg_total_pages p\<rparr>"

type_synonym 'a ListResponse = "'a list \<times> PaginationResponse option"

definition list_response :: "('a \<Rightarrow> 'b) \<Rightarrow> 'a Page \<Rightarrow> 'b ListResponse" where
  "list_response item page = (map item (fst page), map_option pagination_response (snd page))"

section \<open>Checks\<close>

definition required_name :: "string option \<Rightarrow> string result" where
  "required_name v =
     (case v of
        None \<Rightarrow> Inl (InvalidInput ''name is required'')
      | Some s \<Rightarrow> if trim s = [] then Inl (InvalidInput ''name is required'') else Inr s)"

definition is_uuid :: "(string \<Rightarrow> string option) \<Rightarrow> string \<Rightarrow> bool" where
  "is_uuid uuid s \<longleftrightarrow> uuid s \<noteq> None"

lemma check_uuid_ok: "check_uuid uuid field s = Inr u \<longleftrightarrow> is_uuid uuid s"
  by (auto simp: check_uuid_def validate_uuid_def is_uuid_def)

lemma optional_uuid_ok: "validate_optional_uuid uuid field v = Inr u \<longleftrightarrow> pred_option (is_uuid uuid) v"
  unfolding validate_optional_uuid_def by (cases v) (auto simp: check_uuid_ok)

lemma required_name_ok: "required_name v = Inr s \<longleftrightarrow> v = Some s \<and> trim s \<noteq> []"
  unfolding required_name_def by (cases v) auto

lemmas uuid_and_name_checks = and_then_eq_Inr check_uuid_ok optional_uuid_ok required_name_ok

section \<open>What a handler does to the application\<close>

definition answered :: "'j Response \<times> 'w \<Rightarrow> nat \<times> 'w" where
  "answered rw = (rp_status (fst rw), snd rw)"

text \<open>
  A handler that reads the token first or after the identifier: without a token the
  application is not touched, with one it moves only as the use case called with this token
  moves it.
\<close>

definition within_token ::
    "(string \<Rightarrow> 'w \<Rightarrow> bool \<times> 'w \<Rightarrow> bool) \<Rightarrow> Request \<Rightarrow> 'w \<Rightarrow> 'j Response \<times> 'w \<Rightarrow> bool" where
  "within_token R q w rw \<longleftrightarrow>
     (let succeeded = is_success (rp_status (fst rw))
      in case bearer_token (rq_headers q) of
           Inl e \<Rightarrow> snd rw = w \<and> \<not> succeeded
         | Inr token \<Rightarrow> R token w (succeeded, snd rw))"

definition outcome :: "'a result \<times> 'w \<Rightarrow> bool \<times> 'w" where
  "outcome rw = (is_ok (fst rw), snd rw)"

named_theorems within

lemma respond_outcome:
  "(\<And>v. is_success (rp_status (success v))) \<Longrightarrow>
     is_success (rp_status (fst (respond q success rw))) = is_ok (fst rw) \<and> snd (respond q success rw) = snd rw"
  by (cases rw; cases "fst rw") (auto simp: respond_def gateway_error_not_success)

lemmas within_simps = within_token_def outcome_def respond_outcome gateway_error_not_success Let_def

lemma within_list [within]:
  "(\<And>token. R token w (False, w)) \<Longrightarrow> (\<And>token query. R token w (outcome (operation token query w))) \<Longrightarrow>
     within_token R q w (list_resource parse_query operation to_dto q w)"
  by (auto simp: within_simps list_resource_def split: sum.split)

lemma within_create [within]:
  "(\<And>token. R token w (False, w)) \<Longrightarrow> (\<And>token input. R token w (outcome (operation token input w))) \<Longrightarrow>
     within_token R q w (create_resource uuid from_slice validate_into operation q w)"
  by (auto simp: within_simps create_resource_def create_resource_with_json_error_def split: sum.split)

lemma within_clone [within]:
  "(\<And>token. R token w (False, w)) \<Longrightarrow> (\<And>token. R token w (outcome (operation token ident w))) \<Longrightarrow>
     within_token R q w (clone_resource uuid path operation ident q w)"
  by (auto simp: within_simps clone_resource_def split: sum.split)

lemma within_get [within]:
  "(\<And>token. R token w (False, w)) \<Longrightarrow> (\<And>token. R token w (outcome (operation token ident w))) \<Longrightarrow>
     within_token R q w (get_resource uuid operation to_dto ident q w)"
  by (auto simp: within_simps get_resource_def split: sum.split)

lemma within_update [within]:
  "(\<And>token. R token w (False, w)) \<Longrightarrow> (\<And>token input. R token w (outcome (operation token ident input w))) \<Longrightarrow>
     within_token R q w (update_resource uuid from_slice validate_into operation to_dto ident q w)"
  by (auto simp: within_simps update_resource_def update_resource_with_json_error_def split: sum.split)

lemma within_delete [within]:
  "(\<And>token. R token w (False, w)) \<Longrightarrow> (\<And>token ultimate. R token w (outcome (operation token ident ultimate w))) \<Longrightarrow>
     within_token R q w (delete_resource uuid decode operation ident q w)"
  by (auto simp: within_simps delete_resource_def split: sum.split)

lemma within_plain_delete [within]:
  "(\<And>token. R token w (False, w)) \<Longrightarrow> (\<And>token. R token w (outcome (operation token ident w))) \<Longrightarrow>
     within_token R q w (delete_resource_without_ultimate uuid operation ident q w)"
  by (auto simp: within_simps delete_resource_without_ultimate_def split: sum.split)

text \<open>
  What a request may do: move the backend within the frame of its session, and neither move it
  nor succeed when the session is refused.
\<close>

definition own_session ::
    "(string \<Rightarrow> u8 list) \<Rightarrow> u64 \<Rightarrow> string \<Rightarrow> 'g Gvmd GatewayService \<Rightarrow> bool \<times> 'g Gvmd GatewayService \<Rightarrow> bool" where
  "own_session sha now token sv result \<longleftrightarrow>
     (let (succeeded, sv') = result
      in if is_ok (fst (touch sha now token (gs_sessions sv)))
         then spoke_for (from_token sha token) (gs_auth sv) (gs_auth sv')
         else gs_auth sv' = gs_auth sv \<and> \<not> succeeded)"

lemma own_session_refl: "own_session sha now token sv (False, sv)"
  by (auto simp: own_session_def)

lemma own_session_use_port:
  assumes "speaks_for (from_token sha token) (port token)"
  shows "own_session sha now token sv (outcome (use_port sha now token action resource port sv))"
proof (cases "fst (touch sha now token (gs_sessions sv))")
  case (Inl e)
  then have "touch sha now token (gs_sessions sv) = (Inl e, snd (touch sha now token (gs_sessions sv)))"
    by (simp add: prod_eq_iff)
  from dead_use_case [OF this, of action resource port] Inl show ?thesis by (simp add: own_session_def outcome_def)
next
  case (Inr session)
  then show ?thesis using gvmd_backend.use_case_frame [where port = port, OF assms]
    by (simp add: own_session_def outcome_def)
qed

lemma within_answered:
  "within_token R q w rw \<Longrightarrow>
     (let (status, w') = answered rw
      in case bearer_token (rq_headers q) of
           Inl e \<Rightarrow> w' = w \<and> \<not> is_success status
         | Inr token \<Rightarrow> R token w (is_success status, w'))"
  by (simp add: within_token_def answered_def Let_def split: sum.splits)

end
