(* ===== verification/Rest_Targets.thy ===== *)
theory Rest_Targets
  imports Targets Rest_Base
begin

text \<open>
  The target endpoints, \<open>crates/gvm-gateway-rest/src/targets.rs\<close>, \<open>specialized_targets.rs\<close> and the
  open enums of \<open>open_enum.rs\<close>: request and response bodies, their validation, and the handlers
  as instances of the generic ones. The deserializers of the bodies, the UUID parser and the
  decoder of query pairs are library functions and arguments.
\<close>

section \<open>Open enums\<close>

text \<open>A value that is not known is kept verbatim.\<close>

datatype (plugins only: code size) AliveTest =
    ScanConfigDefault | IcmpPing | TcpAckServicePing | TcpSynServicePing | ArpPing
  | IcmpTcpAckServicePing | IcmpArpPing | TcpAckServiceArpPing | IcmpTcpAckServiceArpPing
  | ConsiderAlive | UnknownAliveTest string

definition alive_test_values :: "(string \<times> AliveTest) list" where
  "alive_test_values =
     [(''Scan Config Default'', ScanConfigDefault), (''ICMP Ping'', IcmpPing),
      (''TCP-ACK Service Ping'', TcpAckServicePing), (''TCP-SYN Service Ping'', TcpSynServicePing),
      (''ARP Ping'', ArpPing), (''ICMP, TCP-ACK Service Ping'', IcmpTcpAckServicePing),
      (''ICMP, ARP Ping'', IcmpArpPing), (''TCP-ACK Service, ARP Ping'', TcpAckServiceArpPing),
      (''ICMP, TCP-ACK Service, ARP Ping'', IcmpTcpAckServiceArpPing), (''Consider Alive'', ConsiderAlive)]"

definition alive_test_parse :: "string \<Rightarrow> AliveTest" where
  "alive_test_parse = open_enum_parse alive_test_values UnknownAliveTest"

definition alive_test_as_str :: "AliveTest \<Rightarrow> string" where
  "alive_test_as_str t =
     (case t of UnknownAliveTest v \<Rightarrow> v
      | _ \<Rightarrow> (case open_enum_name alive_test_values t of Some v \<Rightarrow> v | None \<Rightarrow> []))"

section \<open>Response bodies\<close>

record TargetResponse =
  tr_id :: string
  tr_name :: string
  tr_comment :: "string option"
  tr_hosts :: "string list"
  tr_exclude_hosts :: "string list"
  tr_alive_test :: "AliveTest option"
  tr_port_list :: "ResourceRefResponse option"
  tr_reverse_lookup_only :: bool
  tr_reverse_lookup_unify :: bool
  tr_ssh_credential :: "ResourceRefResponse option"
  tr_smb_credential :: "ResourceRefResponse option"
  tr_esxi_credential :: "ResourceRefResponse option"
  tr_snmp_credential :: "ResourceRefResponse option"
  tr_in_use :: bool
  tr_writable :: bool

definition target_response :: "(string \<Rightarrow> string option) \<Rightarrow> Target \<Rightarrow> TargetResponse" where
  "target_response uuid t =
     (let ref = map_option (resource_ref_response uuid)
      in \<lparr>tr_id = parse_uuid uuid (tg_id t), tr_name = tg_name t, tr_comment = tg_comment t,
          tr_hosts = tg_hosts t, tr_exclude_hosts = tg_exclude_hosts t,
          tr_alive_test = map_option alive_test_parse (tg_alive_test t), tr_port_list = ref (tg_port_list t),
          tr_reverse_lookup_only = tg_reverse_lookup_only t, tr_reverse_lookup_unify = tg_reverse_lookup_unify t,
          tr_ssh_credential = ref (tg_ssh_credential t), tr_smb_credential = ref (tg_smb_credential t),
          tr_esxi_credential = ref (tg_esxi_credential t), tr_snmp_credential = ref (tg_snmp_credential t),
          tr_in_use = tg_in_use t, tr_writable = tg_writable t\<rparr>)"

record OciImageTargetResponse =
  or_id :: string
  or_name :: string
  or_comment :: "string option"
  or_image_references :: "string list"
  or_credential :: "ResourceRefResponse option"
  or_tasks :: "ResourceRefResponse list"
  or_in_use :: bool
  or_writable :: bool

definition oci_image_target_response :: "(string \<Rightarrow> string option) \<Rightarrow> OciImageTarget \<Rightarrow> OciImageTargetResponse" where
  "oci_image_target_response uuid t =
     \<lparr>or_id = parse_uuid uuid (ot_id t), or_name = ot_name t, or_comment = ot_comment t,
      or_image_references = ot_image_references t,
      or_credential = map_option (resource_ref_response uuid) (ot_credential t),
      or_tasks = map (resource_ref_response uuid) (ot_tasks t), or_in_use = ot_in_use t,
      or_writable = ot_writable t\<rparr>"

record WebApplicationTargetResponse =
  wr_id :: string
  wr_name :: string
  wr_comment :: "string option"
  wr_urls :: "string list"
  wr_exclude_urls :: "string list"
  wr_credential :: "ResourceRefResponse option"
  wr_tasks :: "ResourceRefResponse list"
  wr_in_use :: bool
  wr_writable :: bool

definition web_application_target_response ::
    "(string \<Rightarrow> string option) \<Rightarrow> WebApplicationTarget \<Rightarrow> WebApplicationTargetResponse" where
  "web_application_target_response uuid t =
     \<lparr>wr_id = parse_uuid uuid (wt_id t), wr_name = wt_name t, wr_comment = wt_comment t,
      wr_urls = wt_urls t, wr_exclude_urls = wt_exclude_urls t,
      wr_credential = map_option (resource_ref_response uuid) (wt_credential t),
      wr_tasks = map (resource_ref_response uuid) (wt_tasks t), wr_in_use = wt_in_use t,
      wr_writable = wt_writable t\<rparr>"

section \<open>Queries\<close>

definition target_list_query ::
    "(string \<Rightarrow> (string \<times> string) list) \<Rightarrow> (string \<Rightarrow> string option) \<Rightarrow> string \<Rightarrow> TargetQuery result" where
  "target_list_query decode uuid query =
     and_then (parse_collection_query decode (\<lambda>s. uuid s \<noteq> None) query) (\<lambda>parsed.
       Inr \<lparr>tq_filter_string = cq_filter_string parsed, tq_filter_id = cq_filter_id parsed,
            tq_page = cq_page parsed, tq_per_page = cq_per_page parsed\<rparr>)"

fun trash_loop :: "bool \<Rightarrow> (string \<times> string) list \<Rightarrow> bool result" where
  "trash_loop trash [] = Inr trash"
| "trash_loop trash ((key, v) # pairs) =
     (if key = ''trash'' then
        (case parse_bool v of
           None \<Rightarrow> Inl (InvalidInput ''trash must be true or false'')
         | Some b \<Rightarrow> trash_loop b pairs)
      else trash_loop trash pairs)"

definition parse_specialized_query ::
    "(string \<Rightarrow> (string \<times> string) list) \<Rightarrow> (string \<Rightarrow> string option) \<Rightarrow> string \<Rightarrow> SpecializedTargetQuery result" where
  "parse_specialized_query decode uuid raw =
     and_then (parse_collection_query decode (\<lambda>s. uuid s \<noteq> None) raw) (\<lambda>common.
     and_then (trash_loop False (decode raw)) (\<lambda>trash.
       Inr \<lparr>sq_filter_string = cq_filter_string common, sq_filter_id = cq_filter_id common, sq_trash = trash,
            sq_page = cq_page common, sq_per_page = cq_per_page common\<rparr>))"

section \<open>Request bodies\<close>

definition required_values :: "string \<Rightarrow> string list \<Rightarrow> unit result" where
  "required_values field vs =
     (if vs = [] \<or> list_ex (\<lambda>v. trim v = []) vs
      then Inl (InvalidInput (field @ '' must contain at least one non-empty entry'')) else Inr ())"

record CreateTargetRequest =
  cr_name :: "string option"
  cr_comment :: "string option"
  cr_hosts :: "string list"
  cr_exclude_hosts :: "string list"
  cr_alive_test :: "string option"
  cr_port_list_id :: "string option"
  cr_reverse_lookup_only :: "bool option"
  cr_reverse_lookup_unify :: "bool option"
  cr_ssh_credential_id :: "string option"
  cr_smb_credential_id :: "string option"
  cr_esxi_credential_id :: "string option"
  cr_snmp_credential_id :: "string option"

definition validate_create_target ::
    "(string \<Rightarrow> string option) \<Rightarrow> CreateTargetRequest \<Rightarrow> CreateTargetInput result" where
  "validate_create_target uuid r =
     and_then (required_name (cr_name r)) (\<lambda>name.
     and_then (if cr_hosts r = [] then Inl (InvalidInput ''hosts must contain at least one entry'') else Inr ()) (\<lambda>_.
     and_then (validate_optional_uuid uuid ''portListId'' (cr_port_list_id r)) (\<lambda>_.
     and_then (validate_optional_uuid uuid ''sshCredentialId'' (cr_ssh_credential_id r)) (\<lambda>_.
     and_then (validate_optional_uuid uuid ''smbCredentialId'' (cr_smb_credential_id r)) (\<lambda>_.
     and_then (validate_optional_uuid uuid ''esxiCredentialId'' (cr_esxi_credential_id r)) (\<lambda>_.
     and_then (validate_optional_uuid uuid ''snmpCredentialId'' (cr_snmp_credential_id r)) (\<lambda>_.
       Inr \<lparr>ci_name = name, ci_comment = cr_comment r, ci_hosts = cr_hosts r,
            ci_exclude_hosts = cr_exclude_hosts r, ci_alive_test = cr_alive_test r,
            ci_port_list_id = cr_port_list_id r, ci_reverse_lookup_only = cr_reverse_lookup_only r,
            ci_reverse_lookup_unify = cr_reverse_lookup_unify r, ci_ssh_credential_id = cr_ssh_credential_id r,
            ci_smb_credential_id = cr_smb_credential_id r, ci_esxi_credential_id = cr_esxi_credential_id r,
            ci_snmp_credential_id = cr_snmp_credential_id r\<rparr>)))))))"

record ModifyTargetRequest =
  mr_name :: "string option"
  mr_comment :: "string option"
  mr_hosts :: "string list option"
  mr_exclude_hosts :: "string list option"
  mr_alive_test :: "string option"
  mr_port_list_id :: "string option"
  mr_reverse_lookup_only :: "bool option"
  mr_reverse_lookup_unify :: "bool option"
  mr_ssh_credential_id :: "string option"
  mr_smb_credential_id :: "string option"
  mr_esxi_credential_id :: "string option"
  mr_snmp_credential_id :: "string option"

definition validate_modify_target ::
    "(string \<Rightarrow> string option) \<Rightarrow> ModifyTargetRequest \<Rightarrow> ModifyTargetInput result" where
  "validate_modify_target uuid r =
     and_then (validate_optional_uuid uuid ''portListId'' (mr_port_list_id r)) (\<lambda>_.
     and_then (validate_optional_uuid uuid ''sshCredentialId'' (mr_ssh_credential_id r)) (\<lambda>_.
     and_then (validate_optional_uuid uuid ''smbCredentialId'' (mr_smb_credential_id r)) (\<lambda>_.
     and_then (validate_optional_uuid uuid ''esxiCredentialId'' (mr_esxi_credential_id r)) (\<lambda>_.
     and_then (validate_optional_uuid uuid ''snmpCredentialId'' (mr_snmp_credential_id r)) (\<lambda>_.
       Inr \<lparr>mi_name = mr_name r, mi_comment = mr_comment r, mi_hosts = mr_hosts r,
            mi_exclude_hosts = mr_exclude_hosts r, mi_alive_test = mr_alive_test r,
            mi_port_list_id = mr_port_list_id r, mi_reverse_lookup_only = mr_reverse_lookup_only r,
            mi_reverse_lookup_unify = mr_reverse_lookup_unify r, mi_ssh_credential_id = mr_ssh_credential_id r,
            mi_smb_credential_id = mr_smb_credential_id r, mi_esxi_credential_id = mr_esxi_credential_id r,
            mi_snmp_credential_id = mr_snmp_credential_id r\<rparr>)))))"

record CreateOciImageTargetRequest =
  cor_name :: string
  cor_comment :: "string option"
  cor_image_references :: "string list"
  cor_credential_id :: "string option"

definition validate_create_oci_image_target :: "CreateOciImageTargetRequest \<Rightarrow> CreateOciImageTargetInput result" where
  "validate_create_oci_image_target r =
     and_then (required_name (Some (cor_name r))) (\<lambda>name.
     and_then (required_values ''imageReferences'' (cor_image_references r)) (\<lambda>_.
       Inr \<lparr>coi_name = name, coi_comment = cor_comment r, coi_image_references = cor_image_references r,
            coi_credential_id = cor_credential_id r\<rparr>))"

record ModifyOciImageTargetRequest =
  mor_name :: "string option"
  mor_comment :: "string option"
  mor_image_references :: "string list option"
  mor_credential_id :: "string option"

definition validate_modify_oci_image_target :: "ModifyOciImageTargetRequest \<Rightarrow> ModifyOciImageTargetInput result" where
  "validate_modify_oci_image_target r =
     and_then (case mor_image_references r of None \<Rightarrow> Inr () | Some vs \<Rightarrow> required_values ''imageReferences'' vs) (\<lambda>_.
       Inr \<lparr>moi_name = mor_name r, moi_comment = mor_comment r, moi_image_references = mor_image_references r,
            moi_credential_id = mor_credential_id r\<rparr>)"

record CreateWebApplicationTargetRequest =
  cwr_name :: string
  cwr_comment :: "string option"
  cwr_urls :: "string list"
  cwr_exclude_urls :: "string list"
  cwr_credential_id :: "string option"

definition validate_create_web_application_target ::
    "CreateWebApplicationTargetRequest \<Rightarrow> CreateWebApplicationTargetInput result" where
  "validate_create_web_application_target r =
     and_then (required_name (Some (cwr_name r))) (\<lambda>name.
     and_then (required_values ''urls'' (cwr_urls r)) (\<lambda>_.
       Inr \<lparr>cwi_name = name, cwi_comment = cwr_comment r, cwi_urls = cwr_urls r,
            cwi_exclude_urls = cwr_exclude_urls r, cwi_credential_id = cwr_credential_id r\<rparr>))"

record ModifyWebApplicationTargetRequest =
  mwr_name :: "string option"
  mwr_comment :: "string option"
  mwr_urls :: "string list option"
  mwr_exclude_urls :: "string list option"
  mwr_credential_id :: "string option"

definition validate_modify_web_application_target ::
    "ModifyWebApplicationTargetRequest \<Rightarrow> ModifyWebApplicationTargetInput result" where
  "validate_modify_web_application_target r =
     and_then (case mwr_urls r of None \<Rightarrow> Inr () | Some vs \<Rightarrow> required_values ''urls'' vs) (\<lambda>_.
       Inr \<lparr>mwi_name = mwr_name r, mwi_comment = mwr_comment r, mwi_urls = mwr_urls r,
            mwi_exclude_urls = mwr_exclude_urls r, mwi_credential_id = mwr_credential_id r\<rparr>)"

section \<open>Handlers\<close>

definition rest_list_targets ::
    "(string \<Rightarrow> (string \<times> string) list) \<Rightarrow> (string \<Rightarrow> string option) \<Rightarrow> 's TargetPort \<Rightarrow> (string \<Rightarrow> u8 list) \<Rightarrow> u64
      \<Rightarrow> Request \<Rightarrow> 's GatewayService \<Rightarrow> TargetResponse ListResponse RestBody Response \<times> 's GatewayService" where
  "rest_list_targets decode uuid port sha now =
     list_resource (target_list_query decode uuid) (\<lambda>session query. list_targets port sha now session query)
       (list_response (target_response uuid))"

definition rest_create_target ::
    "(string \<Rightarrow> string option) \<Rightarrow> (u8 list \<Rightarrow> string + CreateTargetRequest) \<Rightarrow> 's TargetPort \<Rightarrow> (string \<Rightarrow> u8 list) \<Rightarrow> u64
      \<Rightarrow> Request \<Rightarrow> 's GatewayService \<Rightarrow> TargetResponse RestBody Response \<times> 's GatewayService" where
  "rest_create_target uuid from_slice port sha now =
     create_resource uuid from_slice (validate_create_target uuid)
       (\<lambda>session input. create_target port sha now session input)"

definition rest_clone_target ::
    "(string \<Rightarrow> string option) \<Rightarrow> 's TargetPort \<Rightarrow> (string \<Rightarrow> u8 list) \<Rightarrow> u64 \<Rightarrow> string
      \<Rightarrow> Request \<Rightarrow> 's GatewayService \<Rightarrow> TargetResponse RestBody Response \<times> 's GatewayService" where
  "rest_clone_target uuid port sha now =
     clone_resource uuid ''/api/v1/targets'' (\<lambda>session ident. clone_target port sha now session ident)"

definition rest_get_target ::
    "(string \<Rightarrow> string option) \<Rightarrow> 's TargetPort \<Rightarrow> (string \<Rightarrow> u8 list) \<Rightarrow> u64 \<Rightarrow> string
      \<Rightarrow> Request \<Rightarrow> 's GatewayService \<Rightarrow> TargetResponse RestBody Response \<times> 's GatewayService" where
  "rest_get_target uuid port sha now =
     get_resource uuid (\<lambda>session ident. get_target port sha now session ident) (target_response uuid)"

definition rest_update_target ::
    "(string \<Rightarrow> string option) \<Rightarrow> (u8 list \<Rightarrow> string + ModifyTargetRequest) \<Rightarrow> 's TargetPort \<Rightarrow> (string \<Rightarrow> u8 list) \<Rightarrow> u64 \<Rightarrow> string
      \<Rightarrow> Request \<Rightarrow> 's GatewayService \<Rightarrow> TargetResponse RestBody Response \<times> 's GatewayService" where
  "rest_update_target uuid from_slice port sha now =
     update_resource uuid from_slice (validate_modify_target uuid)
       (\<lambda>session ident input. modify_target port sha now session ident input) (target_response uuid)"

definition rest_delete_target ::
    "(string \<Rightarrow> (string \<times> string) list) \<Rightarrow> (string \<Rightarrow> string option) \<Rightarrow> 's TargetPort \<Rightarrow> (string \<Rightarrow> u8 list) \<Rightarrow> u64 \<Rightarrow> string
      \<Rightarrow> Request \<Rightarrow> 's GatewayService \<Rightarrow> TargetResponse RestBody Response \<times> 's GatewayService" where
  "rest_delete_target decode uuid port sha now =
     delete_resource uuid decode (\<lambda>session ident ultimate. delete_target port sha now session ident ultimate)"

definition rest_list_oci_image_targets ::
    "(string \<Rightarrow> (string \<times> string) list) \<Rightarrow> (string \<Rightarrow> string option) \<Rightarrow> 's TargetPort \<Rightarrow> (string \<Rightarrow> u8 list) \<Rightarrow> u64
      \<Rightarrow> Request \<Rightarrow> 's GatewayService \<Rightarrow> OciImageTargetResponse ListResponse RestBody Response \<times> 's GatewayService" where
  "rest_list_oci_image_targets decode uuid port sha now =
     list_resource (parse_specialized_query decode uuid) (\<lambda>session query. list_oci_image_targets port sha now session query)
       (list_response (oci_image_target_response uuid))"

definition rest_create_oci_image_target ::
    "(string \<Rightarrow> string option) \<Rightarrow> (u8 list \<Rightarrow> string + CreateOciImageTargetRequest) \<Rightarrow> 's TargetPort \<Rightarrow> (string \<Rightarrow> u8 list) \<Rightarrow> u64
      \<Rightarrow> Request \<Rightarrow> 's GatewayService \<Rightarrow> OciImageTargetResponse RestBody Response \<times> 's GatewayService" where
  "rest_create_oci_image_target uuid from_slice port sha now =
     create_resource uuid from_slice (validate_create_oci_image_target)
       (\<lambda>session input. create_oci_image_target port sha now session input)"

definition rest_clone_oci_image_target ::
    "(string \<Rightarrow> string option) \<Rightarrow> 's TargetPort \<Rightarrow> (string \<Rightarrow> u8 list) \<Rightarrow> u64 \<Rightarrow> string
      \<Rightarrow> Request \<Rightarrow> 's GatewayService \<Rightarrow> OciImageTargetResponse RestBody Response \<times> 's GatewayService" where
  "rest_clone_oci_image_target uuid port sha now =
     clone_resource uuid ''/api/v1/oci-image-targets'' (\<lambda>session ident. clone_oci_image_target port sha now session ident)"

definition rest_get_oci_image_target ::
    "(string \<Rightarrow> string option) \<Rightarrow> 's TargetPort \<Rightarrow> (string \<Rightarrow> u8 list) \<Rightarrow> u64 \<Rightarrow> string
      \<Rightarrow> Request \<Rightarrow> 's GatewayService \<Rightarrow> OciImageTargetResponse RestBody Response \<times> 's GatewayService" where
  "rest_get_oci_image_target uuid port sha now =
     get_resource uuid (\<lambda>session ident. get_oci_image_target port sha now session ident) (oci_image_target_response uuid)"

definition rest_update_oci_image_target ::
    "(string \<Rightarrow> string option) \<Rightarrow> (u8 list \<Rightarrow> string + ModifyOciImageTargetRequest) \<Rightarrow> 's TargetPort \<Rightarrow> (string \<Rightarrow> u8 list) \<Rightarrow> u64 \<Rightarrow> string
      \<Rightarrow> Request \<Rightarrow> 's GatewayService \<Rightarrow> OciImageTargetResponse RestBody Response \<times> 's GatewayService" where
  "rest_update_oci_image_target uuid from_slice port sha now =
     update_resource uuid from_slice (validate_modify_oci_image_target)
       (\<lambda>session ident input. modify_oci_image_target port sha now session ident input) (oci_image_target_response uuid)"

definition rest_delete_oci_image_target ::
    "(string \<Rightarrow> (string \<times> string) list) \<Rightarrow> (string \<Rightarrow> string option) \<Rightarrow> 's TargetPort \<Rightarrow> (string \<Rightarrow> u8 list) \<Rightarrow> u64 \<Rightarrow> string
      \<Rightarrow> Request \<Rightarrow> 's GatewayService \<Rightarrow> OciImageTargetResponse RestBody Response \<times> 's GatewayService" where
  "rest_delete_oci_image_target decode uuid port sha now =
     delete_resource uuid decode (\<lambda>session ident ultimate. delete_oci_image_target port sha now session ident ultimate)"

definition rest_list_web_application_targets ::
    "(string \<Rightarrow> (string \<times> string) list) \<Rightarrow> (string \<Rightarrow> string option) \<Rightarrow> 's TargetPort \<Rightarrow> (string \<Rightarrow> u8 list) \<Rightarrow> u64
      \<Rightarrow> Request \<Rightarrow> 's GatewayService \<Rightarrow> WebApplicationTargetResponse ListResponse RestBody Response \<times> 's GatewayService" where
  "rest_list_web_application_targets decode uuid port sha now =
     list_resource (parse_specialized_query decode uuid) (\<lambda>session query. list_web_application_targets port sha now session query)
       (list_response (web_application_target_response uuid))"

definition rest_create_web_application_target ::
    "(string \<Rightarrow> string option) \<Rightarrow> (u8 list \<Rightarrow> string + CreateWebApplicationTargetRequest) \<Rightarrow> 's TargetPort \<Rightarrow> (string \<Rightarrow> u8 list) \<Rightarrow> u64
      \<Rightarrow> Request \<Rightarrow> 's GatewayService \<Rightarrow> WebApplicationTargetResponse RestBody Response \<times> 's GatewayService" where
  "rest_create_web_application_target uuid from_slice port sha now =
     create_resource uuid from_slice (validate_create_web_application_target)
       (\<lambda>session input. create_web_application_target port sha now session input)"

definition rest_clone_web_application_target ::
    "(string \<Rightarrow> string option) \<Rightarrow> 's TargetPort \<Rightarrow> (string \<Rightarrow> u8 list) \<Rightarrow> u64 \<Rightarrow> string
      \<Rightarrow> Request \<Rightarrow> 's GatewayService \<Rightarrow> WebApplicationTargetResponse RestBody Response \<times> 's GatewayService" where
  "rest_clone_web_application_target uuid port sha now =
     clone_resource uuid ''/api/v1/web-application-targets'' (\<lambda>session ident. clone_web_application_target port sha now session ident)"

definition rest_get_web_application_target ::
    "(string \<Rightarrow> string option) \<Rightarrow> 's TargetPort \<Rightarrow> (string \<Rightarrow> u8 list) \<Rightarrow> u64 \<Rightarrow> string
      \<Rightarrow> Request \<Rightarrow> 's GatewayService \<Rightarrow> WebApplicationTargetResponse RestBody Response \<times> 's GatewayService" where
  "rest_get_web_application_target uuid port sha now =
     get_resource uuid (\<lambda>session ident. get_web_application_target port sha now session ident) (web_application_target_response uuid)"

definition rest_update_web_application_target ::
    "(string \<Rightarrow> string option) \<Rightarrow> (u8 list \<Rightarrow> string + ModifyWebApplicationTargetRequest) \<Rightarrow> 's TargetPort \<Rightarrow> (string \<Rightarrow> u8 list) \<Rightarrow> u64 \<Rightarrow> string
      \<Rightarrow> Request \<Rightarrow> 's GatewayService \<Rightarrow> WebApplicationTargetResponse RestBody Response \<times> 's GatewayService" where
  "rest_update_web_application_target uuid from_slice port sha now =
     update_resource uuid from_slice (validate_modify_web_application_target)
       (\<lambda>session ident input. modify_web_application_target port sha now session ident input) (web_application_target_response uuid)"

definition rest_delete_web_application_target ::
    "(string \<Rightarrow> (string \<times> string) list) \<Rightarrow> (string \<Rightarrow> string option) \<Rightarrow> 's TargetPort \<Rightarrow> (string \<Rightarrow> u8 list) \<Rightarrow> u64 \<Rightarrow> string
      \<Rightarrow> Request \<Rightarrow> 's GatewayService \<Rightarrow> WebApplicationTargetResponse RestBody Response \<times> 's GatewayService" where
  "rest_delete_web_application_target decode uuid port sha now =
     delete_resource uuid decode (\<lambda>session ident ultimate. delete_web_application_target port sha now session ident ultimate)"

section \<open>The routes of the targets\<close>

text \<open>The deserializers of the request bodies.\<close>

record TargetBodies =
  tb_create_target :: "u8 list \<Rightarrow> string + CreateTargetRequest"
  tb_modify_target :: "u8 list \<Rightarrow> string + ModifyTargetRequest"
  tb_create_oci_image_target :: "u8 list \<Rightarrow> string + CreateOciImageTargetRequest"
  tb_modify_oci_image_target :: "u8 list \<Rightarrow> string + ModifyOciImageTargetRequest"
  tb_create_web_application_target :: "u8 list \<Rightarrow> string + CreateWebApplicationTargetRequest"
  tb_modify_web_application_target :: "u8 list \<Rightarrow> string + ModifyWebApplicationTargetRequest"

text \<open>The route a request was sent to, with the identifier in its path.\<close>

datatype (plugins only: code size) TargetRoute =
    ListTargets
  | PostTarget
  | CloneTargetOf string
  | GetTargetBy string
  | PutTarget string
  | DeleteTargetBy string
  | ListOciImageTargets
  | PostOciImageTarget
  | CloneOciImageTargetOf string
  | GetOciImageTargetBy string
  | PutOciImageTarget string
  | DeleteOciImageTargetBy string
  | ListWebApplicationTargets
  | PostWebApplicationTarget
  | CloneWebApplicationTargetOf string
  | GetWebApplicationTargetBy string
  | PutWebApplicationTarget string
  | DeleteWebApplicationTargetBy string

fun serve_target ::
    "(string \<Rightarrow> (string \<times> string) list) \<Rightarrow> (string \<Rightarrow> string option) \<Rightarrow> TargetBodies \<Rightarrow> 's TargetPort
      \<Rightarrow> (string \<Rightarrow> u8 list) \<Rightarrow> u64 \<Rightarrow> TargetRoute \<Rightarrow> Request \<Rightarrow> 's GatewayService \<Rightarrow> nat \<times> 's GatewayService" where
  "serve_target decode uuid bodies port sha now ListTargets q sv = answered (rest_list_targets decode uuid port sha now q sv)"
| "serve_target decode uuid bodies port sha now PostTarget q sv = answered (rest_create_target uuid (tb_create_target bodies) port sha now q sv)"
| "serve_target decode uuid bodies port sha now (CloneTargetOf ident) q sv = answered (rest_clone_target uuid port sha now ident q sv)"
| "serve_target decode uuid bodies port sha now (GetTargetBy ident) q sv = answered (rest_get_target uuid port sha now ident q sv)"
| "serve_target decode uuid bodies port sha now (PutTarget ident) q sv =
     answered (rest_update_target uuid (tb_modify_target bodies) port sha now ident q sv)"
| "serve_target decode uuid bodies port sha now (DeleteTargetBy ident) q sv = answered (rest_delete_target decode uuid port sha now ident q sv)"
| "serve_target decode uuid bodies port sha now ListOciImageTargets q sv = answered (rest_list_oci_image_targets decode uuid port sha now q sv)"
| "serve_target decode uuid bodies port sha now PostOciImageTarget q sv = answered (rest_create_oci_image_target uuid (tb_create_oci_image_target bodies) port sha now q sv)"
| "serve_target decode uuid bodies port sha now (CloneOciImageTargetOf ident) q sv = answered (rest_clone_oci_image_target uuid port sha now ident q sv)"
| "serve_target decode uuid bodies port sha now (GetOciImageTargetBy ident) q sv = answered (rest_get_oci_image_target uuid port sha now ident q sv)"
| "serve_target decode uuid bodies port sha now (PutOciImageTarget ident) q sv =
     answered (rest_update_oci_image_target uuid (tb_modify_oci_image_target bodies) port sha now ident q sv)"
| "serve_target decode uuid bodies port sha now (DeleteOciImageTargetBy ident) q sv = answered (rest_delete_oci_image_target decode uuid port sha now ident q sv)"
| "serve_target decode uuid bodies port sha now ListWebApplicationTargets q sv = answered (rest_list_web_application_targets decode uuid port sha now q sv)"
| "serve_target decode uuid bodies port sha now PostWebApplicationTarget q sv = answered (rest_create_web_application_target uuid (tb_create_web_application_target bodies) port sha now q sv)"
| "serve_target decode uuid bodies port sha now (CloneWebApplicationTargetOf ident) q sv = answered (rest_clone_web_application_target uuid port sha now ident q sv)"
| "serve_target decode uuid bodies port sha now (GetWebApplicationTargetBy ident) q sv = answered (rest_get_web_application_target uuid port sha now ident q sv)"
| "serve_target decode uuid bodies port sha now (PutWebApplicationTarget ident) q sv =
     answered (rest_update_web_application_target uuid (tb_modify_web_application_target bodies) port sha now ident q sv)"
| "serve_target decode uuid bodies port sha now (DeleteWebApplicationTargetBy ident) q sv = answered (rest_delete_web_application_target decode uuid port sha now ident q sv)"

section \<open>Bundles\<close>

lemmas target_use_case_defs =
  list_targets_def create_target_def clone_target_def get_target_def modify_target_def delete_target_def list_oci_image_targets_def create_oci_image_target_def clone_oci_image_target_def get_oci_image_target_def modify_oci_image_target_def delete_oci_image_target_def list_web_application_targets_def create_web_application_target_def clone_web_application_target_def get_web_application_target_def modify_web_application_target_def delete_web_application_target_def gvmd_target_port_def

lemmas target_handler_defs =
  rest_list_targets_def rest_create_target_def rest_clone_target_def rest_get_target_def rest_update_target_def rest_delete_target_def rest_list_oci_image_targets_def rest_create_oci_image_target_def rest_clone_oci_image_target_def rest_get_oci_image_target_def rest_update_oci_image_target_def rest_delete_oci_image_target_def rest_list_web_application_targets_def rest_create_web_application_target_def rest_clone_web_application_target_def rest_get_web_application_target_def rest_update_web_application_target_def rest_delete_web_application_target_def

section \<open>Properties\<close>

text \<open>
  A request for a target of any kind acts for its own session only. Without a bearer token
  it changes nothing and does not succeed. With a token, every command it sends runs on the
  connection that was authenticated for the session of this token; it sends none when there is
  no such connection; and when the session is unknown or expired, nothing reaches the backend
  and the request does not succeed.
\<close>

lemma target_requests_act_for_their_session:
  "let (status, sv') = serve_target decode uuid bodies (gvmd_target_port sha L) sha now route q sv
   in case bearer_token (rq_headers q) of
        Inl e \<Rightarrow> sv' = sv \<and> \<not> is_success status
      | Inr token \<Rightarrow> own_session sha now token sv (is_success status, sv')"
  by (cases route; (simp only: serve_target.simps target_handler_defs target_use_case_defs TargetPort.simps;
      rule within_answered; intro within own_session_refl own_session_use_port speaks refl))

text \<open>What an update of a target hands to the daemon: the given fields, and nothing for the others.\<close>

definition updates_binding :: "('r, 'g, 'f) GmpLibrary \<Rightarrow> string option \<Rightarrow> string ScalarUpdate \<Rightarrow> bool" where
  "updates_binding L given update =
     (case given of
        None \<Rightarrow> update = Omitted
      | Some s \<Rightarrow> (case lb_entity_id L s of None \<Rightarrow> False | Some ident \<Rightarrow> update = Set ident))"

definition updates_target :: "('r, 'g, 'f) GmpLibrary \<Rightarrow> ModifyTargetInput \<Rightarrow> ModifyTargetOpts \<Rightarrow> bool" where
  "updates_target L input opts \<longleftrightarrow>
     mo_name opts = mi_name input \<and> mo_comment opts = mi_comment input
     \<and> mo_reverse_lookup_only opts = mi_reverse_lookup_only input
     \<and> mo_reverse_lookup_unify opts = mi_reverse_lookup_unify input
     \<and> (case mi_alive_test input of
          None \<Rightarrow> mo_alive_test opts = None
        | Some s \<Rightarrow> lb_alive_test L s \<noteq> None \<and> mo_alive_test opts = lb_alive_test L s)
     \<and> (case mi_hosts input of
          None \<Rightarrow> mi_exclude_hosts input = None \<and> mo_hosts opts = None
        | Some hosts \<Rightarrow>
            map_option Inr (mo_hosts opts) = Some (target_hosts L hosts (unwrap_or (mi_exclude_hosts input) [])))
     \<and> updates_binding L (mi_port_list_id input) (mo_port_list_id opts)
     \<and> updates_binding L (mi_ssh_credential_id input) (mo_ssh_credential_id opts)
     \<and> updates_binding L (mi_smb_credential_id input) (mo_smb_credential_id opts)
     \<and> updates_binding L (mi_esxi_credential_id input) (mo_esxi_credential_id opts)
     \<and> updates_binding L (mi_snmp_credential_id input) (mo_snmp_credential_id opts)"

lemma binding_given:
  "map_transpose (parse_entity_id L) given = Inr v \<Longrightarrow> updates_binding L given (scalar_update v)"
  by (cases given; cases "lb_entity_id L (the given)")
    (auto simp: updates_binding_def scalar_update_def parse_entity_id_def map_transpose_def)

lemma alive_test_given:
  "map_transpose (parse_alive_test L) given = Inr v \<Longrightarrow>
     (case given of None \<Rightarrow> v = None | Some s \<Rightarrow> lb_alive_test L s \<noteq> None \<and> v = lb_alive_test L s)"
  by (cases given; cases "lb_alive_test L (the given)") (auto simp: parse_alive_test_def map_transpose_def)

lemma hosts_given:
  "updated_hosts L hosts excluded = Inr v \<Longrightarrow>
     (case hosts of None \<Rightarrow> excluded = None \<and> v = None
      | Some inc \<Rightarrow> map_option Inr v = Some (target_hosts L inc (unwrap_or excluded [])))"
  by (auto simp: updated_hosts_def map_transpose_def and_then_eq_Inr split: option.splits)

definition update_outcome ::
    "('r, 'g, 'f) GmpLibrary \<Rightarrow> SessionTokenDigest \<Rightarrow> string \<Rightarrow> ModifyTargetInput \<Rightarrow> 'g Gvmd
      \<Rightarrow> Target result \<times> 'g Gvmd \<Rightarrow> bool" where
  "update_outcome L d ident input w result \<longleftrightarrow>
     (let (r, w') = result
      in gv_sent w' = gv_sent w \<and> \<not> is_ok r
         \<or> (\<exists>target_id opts. lb_entity_id L ident = Some target_id \<and> updates_target L input opts
              \<and> (gv_sent w' = gv_sent w @ [(d, ModifyTarget target_id opts)] \<and> \<not> is_ok r
                 \<or> gv_sent w' = gv_sent w @ [(d, ModifyTarget target_id opts), (d, GetTarget target_id)])))"

lemma modify_then_get:
  assumes "parse_entity_id L ident = Inr target_id" and "updates_target L input opts"
  shows "update_outcome L (from_token sha token) ident input w
    (chain (call_action sha L token (ModifyTarget target_id opts)) (\<lambda>_. gvmd_get_target sha L token ident) w)"
proof -
  obtain r w1 where a: "call_action sha L token (ModifyTarget target_id opts) w = (r, w1)"
    by (cases "call_action sha L token (ModifyTarget target_id opts) w")
  have ident: "lb_entity_id L ident = Some target_id"
    using assms(1) by (simp add: parse_entity_id_def split: option.splits)
  note sent = call_action_sent [of sha L token "ModifyTarget target_id opts" w, unfolded a fst_conv snd_conv]
  show ?thesis
  proof (cases r)
    case (Inl e)
    then show ?thesis using sent a ident assms(2) by (auto simp: update_outcome_def chain_def)
  next
    case (Inr u)
    obtain r' w2 where g: "fetch_first sha L token (GetTarget target_id) (lb_targets L) target_from_gmp
        (''target '' @ ident @ '' not found'') w1 = (r', w2)"
      by (cases "fetch_first sha L token (GetTarget target_id) (lb_targets L) target_from_gmp
        (''target '' @ ident @ '' not found'') w1")
    show ?thesis
      using sent a Inr ident assms fetch_first_sent [of sha L token "GetTarget target_id" "lb_targets L" target_from_gmp
          "''target '' @ ident @ '' not found''" w1, unfolded g fst_conv snd_conv] g
      by (auto simp: update_outcome_def chain_def gvmd_get_target_def)
  qed
qed

text \<open>
  C15. An update of a target changes what it is given and nothing else: either it is refused
  and nothing is sent, or one modify command is sent, which carries every field of the request,
  omits every binding the request omits, and replaces hosts and excluded hosts together;
  excluded hosts alone are refused. The answer is then the target read back after the change.
\<close>

theorem target_update_changes_given_fields:
  "let (r, w') = gvmd_modify_target sha L token ident input w; d = from_token sha token
   in gv_sent w' = gv_sent w \<and> \<not> is_ok r
      \<or> (\<exists>target_id opts. lb_entity_id L ident = Some target_id \<and> updates_target L input opts
           \<and> (gv_sent w' = gv_sent w @ [(d, ModifyTarget target_id opts)] \<and> \<not> is_ok r
              \<or> gv_sent w' = gv_sent w @ [(d, ModifyTarget target_id opts), (d, GetTarget target_id)]))"
proof -
  have "update_outcome L (from_token sha token) ident input w (gvmd_modify_target sha L token ident input w)"
    unfolding gvmd_modify_target_def
    by (rule checked_cases, simp add: update_outcome_def)+
      (auto simp: build_def updates_target_def binding_given alive_test_given hosts_given
        intro!: modify_then_get split: option.splits)
  then show ?thesis by (simp add: update_outcome_def Let_def)
qed

text \<open>
  Alive tests are an open enum: every string the backend may send, known or not, is
  printed in a response exactly as it was received, and a value is unknown exactly when it is
  none of the documented ones.
\<close>

lemma alive_test_roundtrip:
  "alive_test_as_str (alive_test_parse v) = v
   \<and> ((\<exists>s. alive_test_parse v = UnknownAliveTest s) = (v \<notin> fst ` set alive_test_values))
   \<and> (alive_test_parse (alive_test_as_str t) = t \<longleftrightarrow> t \<notin> UnknownAliveTest ` fst ` set alive_test_values)"
proof -
  have parse: "alive_test_parse v = (case map_of alive_test_values v of Some x \<Rightarrow> x | None \<Rightarrow> UnknownAliveTest v)" for v
    by (simp add: alive_test_parse_def open_enum_parse_def)
  have names: "alive_test_as_str x = v" if "map_of alive_test_values v = Some x" for v x
    using that unfolding alive_test_values_def
    by (auto simp: alive_test_as_str_def alive_test_values_def split: if_splits)
  have known: "\<not> (\<exists>s. x = UnknownAliveTest s)" if "map_of alive_test_values v = Some x" for v x
    using that unfolding alive_test_values_def by (auto split: if_splits)
  have listed: "map_of alive_test_values v = None \<longleftrightarrow> v \<notin> fst ` set alive_test_values" for v
    by (simp add: map_of_eq_None_iff)
  have known_back: "alive_test_parse (alive_test_as_str t) = t" if "\<not> (\<exists>s. t = UnknownAliveTest s)"
    using that by (cases t) (simp_all add: alive_test_as_str_def alive_test_parse_def open_enum_parse_def alive_test_values_def)
  have unknown: "alive_test_parse (alive_test_as_str (UnknownAliveTest s)) = UnknownAliveTest s
      \<longleftrightarrow> map_of alive_test_values s = None" for s
    using known by (fastforce simp: parse alive_test_as_str_def split: option.splits)
  have "alive_test_as_str (alive_test_parse v) = v"
    using names by (auto simp: parse alive_test_as_str_def split: option.splits)
  moreover have "(\<exists>s. alive_test_parse v = UnknownAliveTest s) = (v \<notin> fst ` set alive_test_values)"
    using known listed [of v] by (cases "map_of alive_test_values v") (auto simp: parse)
  moreover have "alive_test_parse (alive_test_as_str t) = t \<longleftrightarrow> t \<notin> UnknownAliveTest ` fst ` set alive_test_values"
    using known_back unknown listed by (cases "\<exists>s. t = UnknownAliveTest s") auto
  ultimately show ?thesis by blast
qed

end
