(* ===== verification/Tasks.thy ===== *)
theory Tasks
  imports Gmp
begin

text \<open>
  Tasks and audits below the REST adapter: the domain types (\<open>gvm-gateway-domain/src/tasks.rs\<close>),
  the port (\<open>ports.rs\<close>), its implementation by the gvmd adapter
  (\<open>gvm-gateway-gvmd/src/gvmd_adapter/ports/tasks.rs\<close>) and the use cases
  (\<open>gvm-gateway-app/src/tasks.rs\<close>).
\<close>

section \<open>Domain types\<close>

record TaskObservers =
  ob_users :: "string list"
  ob_groups :: "ResourceRef list"
  ob_roles :: "ResourceRef list"

definition no_observers :: TaskObservers where
  "no_observers = \<lparr>ob_users = [], ob_groups = [], ob_roles = []\<rparr>"

record Task =
  tk_id :: string
  tk_name :: string
  tk_comment :: "string option"
  tk_status :: string
  tk_progress :: "int option"
  tk_target :: "ResourceRef option"
  tk_agent_group :: "ResourceRef option"
  tk_oci_image_target :: "ResourceRef option"
  tk_web_application_target :: "ResourceRef option"
  tk_scan_config :: "ResourceRef option"
  tk_scanner :: "ResourceRef option"
  tk_schedule :: "ResourceRef option"
  tk_alerts :: "ResourceRef list"
  tk_alterable :: "bool option"
  tk_hosts_ordering :: "string option"
  tk_observers :: TaskObservers
  tk_schedule_periods :: "u32 option"
  tk_last_report :: "TaskReportReference option"
  tk_current_report :: "TaskReportReference option"
  tk_report_count :: "u32 option"
  tk_usage_type :: "string option"
  tk_trend :: "string option"
  tk_in_use :: bool
  tk_writable :: bool

record TaskQuery =
  kq_filter_string :: "string option"
  kq_filter_id :: "string option"
  kq_page :: u32
  kq_per_page :: u32

text \<open>The identifiers of a new task: its target, and then scan configuration and scanner.\<close>

datatype (plugins only: code size) CreateTaskTarget =
    Classic string string string
  | AgentGroup string string
  | OciImage string string
  | WebApplication string string
  | Import

text \<open>Preferences are the pairs of a hash map in the order of its iteration.\<close>

record CreateTaskInput =
  ki_name :: string
  ki_comment :: "string option"
  ki_target :: CreateTaskTarget
  ki_schedule_id :: "string option"
  ki_alert_ids :: "string list"
  ki_alterable :: "bool option"
  ki_hosts_ordering :: "string option"
  ki_observers :: "string list"
  ki_schedule_periods :: "u32 option"
  ki_preferences :: "(string \<times> string) list"

record ModifyTaskInput =
  ji_name :: "string option"
  ji_comment :: "string option"
  ji_target_id :: "string option"
  ji_scan_config_id :: "string option"
  ji_scanner_id :: "string option"
  ji_schedule_id :: "string option"
  ji_alert_ids :: "string list option"
  ji_alterable :: "bool option"
  ji_hosts_ordering :: "string option"
  ji_observers :: "string list"
  ji_schedule_periods :: "u32 option"
  ji_preferences :: "(string \<times> string) list"

record TaskAction =
  ta_report_id :: string

section \<open>The port\<close>

record 's TaskPort =
  kp_list_tasks :: "string \<Rightarrow> TaskQuery \<Rightarrow> ('s, Task Page) operation"
  kp_create_task :: "string \<Rightarrow> CreateTaskInput \<Rightarrow> ('s, string) operation"
  kp_clone_task :: "string \<Rightarrow> string \<Rightarrow> ('s, string) operation"
  kp_get_task :: "string \<Rightarrow> string \<Rightarrow> ('s, Task) operation"
  kp_modify_task :: "string \<Rightarrow> string \<Rightarrow> ModifyTaskInput \<Rightarrow> ('s, Task) operation"
  kp_delete_task :: "string \<Rightarrow> string \<Rightarrow> bool \<Rightarrow> ('s, unit) operation"
  kp_start_task :: "string \<Rightarrow> string \<Rightarrow> ('s, TaskAction) operation"
  kp_stop_task :: "string \<Rightarrow> string \<Rightarrow> ('s, unit) operation"
  kp_resume_task :: "string \<Rightarrow> string \<Rightarrow> ('s, TaskAction) operation"
  kp_list_audits :: "string \<Rightarrow> TaskQuery \<Rightarrow> ('s, Task Page) operation"
  kp_create_audit :: "string \<Rightarrow> CreateTaskInput \<Rightarrow> ('s, string) operation"
  kp_get_audit :: "string \<Rightarrow> string \<Rightarrow> ('s, Task) operation"
  kp_modify_audit :: "string \<Rightarrow> string \<Rightarrow> ModifyTaskInput \<Rightarrow> ('s, Task) operation"
  kp_delete_audit :: "string \<Rightarrow> string \<Rightarrow> ('s, unit) operation"
  kp_start_audit :: "string \<Rightarrow> string \<Rightarrow> ('s, TaskAction) operation"
  kp_stop_audit :: "string \<Rightarrow> string \<Rightarrow> ('s, unit) operation"
  kp_resume_audit :: "string \<Rightarrow> string \<Rightarrow> ('s, TaskAction) operation"

section \<open>The port of the adapter\<close>

definition task_from_gmp :: "GmpTask \<Rightarrow> Task" where
  "task_from_gmp t =
     (let ref = map_option resource_ref_from_named_entity; refs = map resource_ref_from_named_entity; meta = xk_meta t
      in \<lparr>tk_id = em_id meta, tk_name = em_name meta, tk_comment = em_comment meta,
          tk_status = unwrap_or (xk_status t) ''New'', tk_progress = xk_progress t, tk_target = ref (xk_target t),
          tk_agent_group = ref (xk_agent_group t), tk_oci_image_target = ref (xk_oci_image_target t),
          tk_web_application_target = ref (xk_web_application_target t), tk_scan_config = ref (xk_config t),
          tk_scanner = ref (xk_scanner t), tk_schedule = ref (xk_schedule t), tk_alerts = refs (xk_alerts t),
          tk_alterable = xk_alterable t, tk_hosts_ordering = xk_hosts_ordering t,
          tk_observers = (case xk_observers t of
              Some ob \<Rightarrow> \<lparr>ob_users = xb_users ob, ob_groups = refs (xb_groups ob), ob_roles = refs (xb_roles ob)\<rparr>
            | None \<Rightarrow> no_observers),
          tk_schedule_periods = xk_schedule_periods t, tk_last_report = xk_last_report t,
          tk_current_report = xk_current_report t, tk_report_count = xk_report_count t,
          tk_usage_type = xk_usage_type t, tk_trend = xk_trend t, tk_in_use = em_in_use meta,
          tk_writable = em_writable meta\<rparr>)"

text \<open>The listings of tasks and audits differ in the command only.\<close>

definition list_task_items ::
    "(string \<Rightarrow> u8 list) \<Rightarrow> ('r, 'g, 'f) GmpLibrary \<Rightarrow> (GetTasksOpts \<Rightarrow> GmpCommand) \<Rightarrow> string \<Rightarrow> TaskQuery
      \<Rightarrow> ('g Gvmd, Task Page) operation" where
  "list_task_items sha L command session_token query =
     checked (map_transpose (parse_filter_id L) (kq_filter_id query)) (\<lambda>filter_id.
     chain (paginated_filter_resolving_filter_id sha L session_token None (kq_filter_string query) filter_id
              (kq_page query) (kq_per_page query) []) (\<lambda>filter_string.
     chain (fetch_items sha L session_token
              (command \<lparr>gk_filter_string = filter_string, gk_details = Some True, gk_ignore_pagination = None\<rparr>)
              (lb_tasks L) task_from_gmp) (\<lambda>(items, total).
       pure (Inr (items, paged_pagination total (kq_page query) (kq_per_page query))))))"

definition gvmd_list_tasks ::
    "(string \<Rightarrow> u8 list) \<Rightarrow> ('r, 'g, 'f) GmpLibrary \<Rightarrow> string \<Rightarrow> TaskQuery \<Rightarrow> ('g Gvmd, Task Page) operation" where
  "gvmd_list_tasks sha L = list_task_items sha L GetTasks"

definition only_classic_orders_hosts :: "CreateTaskInput \<Rightarrow> unit result" where
  "only_classic_orders_hosts input =
     (if ki_hosts_ordering input \<noteq> None then Inl (InvalidInput ''hostsOrdering is only valid for classic tasks'')
      else Inr ())"

definition gvmd_create_task ::
    "(string \<Rightarrow> u8 list) \<Rightarrow> ('r, 'g, 'f) GmpLibrary \<Rightarrow> string \<Rightarrow> CreateTaskInput \<Rightarrow> ('g Gvmd, string) operation" where
  "gvmd_create_task sha L session_token input =
     checked (map_transpose (parse_entity_id L) (ki_schedule_id input)) (\<lambda>schedule.
     checked (collect_results (parse_entity_id L) (ki_alert_ids input)) (\<lambda>alerts.
       let name = ki_name input;
           opts = \<lparr>ct_alterable = ki_alterable input, ct_schedule_id = schedule, ct_alert_ids = alerts,
             ct_comment = ki_comment input, ct_schedule_periods = ki_schedule_periods input,
             ct_observers = ki_observers input, ct_preferences = ki_preferences input\<rparr>
       in case ki_target input of
            Classic target_id scan_config_id scanner_id \<Rightarrow>
              checked (map_transpose parse_hosts_ordering (ki_hosts_ordering input)) (\<lambda>ordering.
              checked (parse_entity_id L scan_config_id) (\<lambda>scan_config.
              checked (parse_entity_id L target_id) (\<lambda>target.
              checked (parse_entity_id L scanner_id) (\<lambda>scanner.
                call_create sha L session_token
                  (CreateTask name scan_config target scanner (TaskOpts.extend opts \<lparr>ct_hosts_ordering = ordering\<rparr>))))))
          | AgentGroup agent_group_id scanner_id \<Rightarrow>
              checked (only_classic_orders_hosts input) (\<lambda>_.
              checked (parse_entity_id L agent_group_id) (\<lambda>agent_group.
              checked (parse_entity_id L scanner_id) (\<lambda>scanner.
                call_create sha L session_token (CreateAgentGroupTask name agent_group scanner opts))))
          | OciImage oci_image_target_id scanner_id \<Rightarrow>
              checked (only_classic_orders_hosts input) (\<lambda>_.
              checked (parse_entity_id L oci_image_target_id) (\<lambda>target.
              checked (parse_entity_id L scanner_id) (\<lambda>scanner.
                call_create sha L session_token (CreateOciImageTargetTask name target scanner opts))))
          | WebApplication web_application_target_id scanner_id \<Rightarrow>
              checked (only_classic_orders_hosts input) (\<lambda>_.
              checked (parse_entity_id L web_application_target_id) (\<lambda>target.
              checked (parse_entity_id L scanner_id) (\<lambda>scanner.
                call_create sha L session_token (CreateWebApplicationTask name target scanner opts))))
          | Import \<Rightarrow>
              if schedule \<noteq> None \<or> alerts \<noteq> [] \<or> ki_alterable input \<noteq> None \<or> ki_hosts_ordering input \<noteq> None
                 \<or> ki_observers input \<noteq> [] \<or> ki_schedule_periods input \<noteq> None \<or> ki_preferences input \<noteq> []
              then pure (Inl (InvalidInput ''import tasks accept only type, name, and comment''))
              else call_create sha L session_token (CreateImportTask name (ki_comment input))))"

definition gvmd_clone_task ::
    "(string \<Rightarrow> u8 list) \<Rightarrow> ('r, 'g, 'f) GmpLibrary \<Rightarrow> string \<Rightarrow> string \<Rightarrow> ('g Gvmd, string) operation" where
  "gvmd_clone_task sha L session_token ident =
     checked (parse_entity_id L ident) (\<lambda>ident. call_create sha L session_token (CloneTask ident))"

definition gvmd_get_task ::
    "(string \<Rightarrow> u8 list) \<Rightarrow> ('r, 'g, 'f) GmpLibrary \<Rightarrow> string \<Rightarrow> string \<Rightarrow> ('g Gvmd, Task) operation" where
  "gvmd_get_task sha L session_token ident =
     checked (parse_entity_id L ident) (\<lambda>task_id.
       fetch_first sha L session_token (GetTask task_id) (lb_tasks L) task_from_gmp
         (''task '' @ ident @ '' not found''))"

text \<open>The arguments of an update, checked in the order of the code; tasks and audits share them.\<close>

definition task_update_opts :: "('r, 'g, 'f) GmpLibrary \<Rightarrow> ModifyTaskInput \<Rightarrow> ModifyTaskOpts result" where
  "task_update_opts L input =
     and_then (map_transpose (parse_entity_id L) (ji_target_id input)) (\<lambda>target.
     and_then (map_transpose (parse_entity_id L) (ji_scan_config_id input)) (\<lambda>config.
     and_then (map_transpose (parse_entity_id L) (ji_scanner_id input)) (\<lambda>scanner.
     and_then (map_transpose (parse_entity_id L) (ji_schedule_id input)) (\<lambda>schedule.
     and_then (map_transpose (collect_results (parse_entity_id L)) (ji_alert_ids input)) (\<lambda>alerts.
     and_then (map_transpose parse_hosts_ordering (ji_hosts_ordering input)) (\<lambda>ordering.
       Inr \<lparr>mt_name = ji_name input, mt_comment = ji_comment input, mt_alterable = ji_alterable input,
            mt_hosts_ordering = ordering, mt_schedule_id = scalar_update schedule,
            mt_schedule_periods = ji_schedule_periods input, mt_target_id = target, mt_config_id = config,
            mt_scanner_id = scanner, mt_alert_ids = alerts, mt_observers = Replace (ji_observers input),
            mt_preferences = ji_preferences input\<rparr>))))))"

definition gvmd_modify_task ::
    "(string \<Rightarrow> u8 list) \<Rightarrow> ('r, 'g, 'f) GmpLibrary \<Rightarrow> string \<Rightarrow> string \<Rightarrow> ModifyTaskInput \<Rightarrow> ('g Gvmd, Task) operation" where
  "gvmd_modify_task sha L session_token ident input =
     checked (parse_entity_id L ident) (\<lambda>task_id.
     checked (task_update_opts L input) (\<lambda>opts.
     checked (build L (ModifyTask task_id opts)) (\<lambda>request.
     chain (call_action sha L session_token request) (\<lambda>_.
       gvmd_get_task sha L session_token ident))))"

definition gvmd_delete_task ::
    "(string \<Rightarrow> u8 list) \<Rightarrow> ('r, 'g, 'f) GmpLibrary \<Rightarrow> string \<Rightarrow> string \<Rightarrow> bool \<Rightarrow> ('g Gvmd, unit) operation" where
  "gvmd_delete_task sha L session_token ident ultimate =
     checked (parse_entity_id L ident) (\<lambda>ident. call_action sha L session_token (DeleteTask ident ultimate))"

text \<open>Starting and resuming answer with the identifier of the report that is written.\<close>

definition call_report ::
    "(string \<Rightarrow> u8 list) \<Rightarrow> ('r, 'g, 'f) GmpLibrary \<Rightarrow> string \<Rightarrow> GmpCommand \<Rightarrow> string \<Rightarrow> ('g Gvmd, TaskAction) operation" where
  "call_report sha L session_token command missing =
     chain (call sha L session_token command) (\<lambda>response.
     checked (read_with (lb_report_id L) response) (\<lambda>report_id.
       pure (case report_id of None \<Rightarrow> Inl (BackendUnavailable missing) | Some r \<Rightarrow> Inr \<lparr>ta_report_id = r\<rparr>)))"

definition gvmd_start_task ::
    "(string \<Rightarrow> u8 list) \<Rightarrow> ('r, 'g, 'f) GmpLibrary \<Rightarrow> string \<Rightarrow> string \<Rightarrow> ('g Gvmd, TaskAction) operation" where
  "gvmd_start_task sha L session_token ident =
     checked (parse_entity_id L ident) (\<lambda>ident.
       call_report sha L session_token (StartTask ident) ''start_task did not return a report_id'')"

definition gvmd_stop_task ::
    "(string \<Rightarrow> u8 list) \<Rightarrow> ('r, 'g, 'f) GmpLibrary \<Rightarrow> string \<Rightarrow> string \<Rightarrow> ('g Gvmd, unit) operation" where
  "gvmd_stop_task sha L session_token ident =
     checked (parse_entity_id L ident) (\<lambda>ident. call_action sha L session_token (StopTask ident))"

definition gvmd_resume_task ::
    "(string \<Rightarrow> u8 list) \<Rightarrow> ('r, 'g, 'f) GmpLibrary \<Rightarrow> string \<Rightarrow> string \<Rightarrow> ('g Gvmd, TaskAction) operation" where
  "gvmd_resume_task sha L session_token ident =
     checked (parse_entity_id L ident) (\<lambda>ident.
       call_report sha L session_token (ResumeTask ident) ''resume_task did not return a report_id'')"

subsection \<open>Audits\<close>

definition gvmd_list_audits ::
    "(string \<Rightarrow> u8 list) \<Rightarrow> ('r, 'g, 'f) GmpLibrary \<Rightarrow> string \<Rightarrow> TaskQuery \<Rightarrow> ('g Gvmd, Task Page) operation" where
  "gvmd_list_audits sha L = list_task_items sha L GetAudits"

definition gvmd_create_audit ::
    "(string \<Rightarrow> u8 list) \<Rightarrow> ('r, 'g, 'f) GmpLibrary \<Rightarrow> string \<Rightarrow> CreateTaskInput \<Rightarrow> ('g Gvmd, string) operation" where
  "gvmd_create_audit sha L session_token input =
     (case ki_target input of
        Classic target_id scan_config_id scanner_id \<Rightarrow>
          checked (parse_entity_id L scan_config_id) (\<lambda>scan_config.
          checked (parse_entity_id L target_id) (\<lambda>target.
          checked (parse_entity_id L scanner_id) (\<lambda>scanner.
          checked (map_transpose (parse_entity_id L) (ki_schedule_id input)) (\<lambda>schedule.
          checked (collect_results (parse_entity_id L) (ki_alert_ids input)) (\<lambda>alerts.
          checked (map_transpose parse_hosts_ordering (ki_hosts_ordering input)) (\<lambda>ordering.
            call_create sha L session_token (CreateAudit (ki_name input) scan_config target scanner
              \<lparr>ct_alterable = ki_alterable input, ct_schedule_id = schedule, ct_alert_ids = alerts,
               ct_comment = ki_comment input, ct_schedule_periods = ki_schedule_periods input,
               ct_observers = ki_observers input, ct_preferences = ki_preferences input,
               ct_hosts_ordering = ordering\<rparr>)))))))
      | _ \<Rightarrow> pure (Inl (InvalidInput ''audits require targetId, scanConfigId, and scannerId'')))"

text \<open>An audit is fetched through the listing of audits, so the identifier of a scan task is not found.\<close>

definition gvmd_get_audit ::
    "(string \<Rightarrow> u8 list) \<Rightarrow> ('r, 'g, 'f) GmpLibrary \<Rightarrow> string \<Rightarrow> string \<Rightarrow> ('g Gvmd, Task) operation" where
  "gvmd_get_audit sha L session_token ident =
     checked (parse_entity_id L ident) (\<lambda>_.
       fetch_first sha L session_token
         (GetAudits \<lparr>gk_filter_string = Some (''uuid='' @ ident), gk_details = Some True,
            gk_ignore_pagination = Some True\<rparr>)
         (lb_tasks L) task_from_gmp (''audit '' @ ident @ '' not found''))"

definition gvmd_modify_audit ::
    "(string \<Rightarrow> u8 list) \<Rightarrow> ('r, 'g, 'f) GmpLibrary \<Rightarrow> string \<Rightarrow> string \<Rightarrow> ModifyTaskInput \<Rightarrow> ('g Gvmd, Task) operation" where
  "gvmd_modify_audit sha L session_token ident input =
     checked (parse_entity_id L ident) (\<lambda>task_id.
     checked (task_update_opts L input) (\<lambda>opts.
     checked (build L (ModifyAudit task_id opts)) (\<lambda>request.
     chain (call_action sha L session_token request) (\<lambda>_.
       gvmd_get_audit sha L session_token ident))))"

definition gvmd_delete_audit ::
    "(string \<Rightarrow> u8 list) \<Rightarrow> ('r, 'g, 'f) GmpLibrary \<Rightarrow> string \<Rightarrow> string \<Rightarrow> ('g Gvmd, unit) operation" where
  "gvmd_delete_audit sha L session_token ident =
     checked (parse_entity_id L ident) (\<lambda>ident. call_action sha L session_token (DeleteAudit ident))"

definition gvmd_start_audit ::
    "(string \<Rightarrow> u8 list) \<Rightarrow> ('r, 'g, 'f) GmpLibrary \<Rightarrow> string \<Rightarrow> string \<Rightarrow> ('g Gvmd, TaskAction) operation" where
  "gvmd_start_audit sha L session_token ident =
     chain (gvmd_get_audit sha L session_token ident) (\<lambda>_.
     checked (parse_entity_id L ident) (\<lambda>ident.
       call_report sha L session_token (StartAudit ident) ''start_audit did not return a report_id''))"

definition gvmd_stop_audit ::
    "(string \<Rightarrow> u8 list) \<Rightarrow> ('r, 'g, 'f) GmpLibrary \<Rightarrow> string \<Rightarrow> string \<Rightarrow> ('g Gvmd, unit) operation" where
  "gvmd_stop_audit sha L session_token ident =
     chain (gvmd_get_audit sha L session_token ident) (\<lambda>_.
     checked (parse_entity_id L ident) (\<lambda>ident. call_action sha L session_token (StopAudit ident)))"

definition gvmd_resume_audit ::
    "(string \<Rightarrow> u8 list) \<Rightarrow> ('r, 'g, 'f) GmpLibrary \<Rightarrow> string \<Rightarrow> string \<Rightarrow> ('g Gvmd, TaskAction) operation" where
  "gvmd_resume_audit sha L session_token ident =
     chain (gvmd_get_audit sha L session_token ident) (\<lambda>_.
     checked (parse_entity_id L ident) (\<lambda>ident.
       call_report sha L session_token (ResumeAudit ident) ''resume_audit did not return a report_id''))"

definition gvmd_task_port :: "(string \<Rightarrow> u8 list) \<Rightarrow> ('r, 'g, 'f) GmpLibrary \<Rightarrow> 'g Gvmd TaskPort" where
  "gvmd_task_port sha L =
     \<lparr>kp_list_tasks = gvmd_list_tasks sha L,
      kp_create_task = gvmd_create_task sha L,
      kp_clone_task = gvmd_clone_task sha L,
      kp_get_task = gvmd_get_task sha L,
      kp_modify_task = gvmd_modify_task sha L,
      kp_delete_task = gvmd_delete_task sha L,
      kp_start_task = gvmd_start_task sha L,
      kp_stop_task = gvmd_stop_task sha L,
      kp_resume_task = gvmd_resume_task sha L,
      kp_list_audits = gvmd_list_audits sha L,
      kp_create_audit = gvmd_create_audit sha L,
      kp_get_audit = gvmd_get_audit sha L,
      kp_modify_audit = gvmd_modify_audit sha L,
      kp_delete_audit = gvmd_delete_audit sha L,
      kp_start_audit = gvmd_start_audit sha L,
      kp_stop_audit = gvmd_stop_audit sha L,
      kp_resume_audit = gvmd_resume_audit sha L\<rparr>"

section \<open>Use cases\<close>

definition list_tasks ::
    "'s TaskPort \<Rightarrow> (string \<Rightarrow> u8 list) \<Rightarrow> u64 \<Rightarrow> string \<Rightarrow> TaskQuery \<Rightarrow> 's GatewayService
      \<Rightarrow> (Task Page) result \<times> 's GatewayService" where
  "list_tasks port sha now session_token query =
     use_port sha now session_token ''list'' ''task'' (\<lambda>token. kp_list_tasks port token query)"

definition create_task ::
    "'s TaskPort \<Rightarrow> (string \<Rightarrow> u8 list) \<Rightarrow> u64 \<Rightarrow> string \<Rightarrow> CreateTaskInput \<Rightarrow> 's GatewayService
      \<Rightarrow> string result \<times> 's GatewayService" where
  "create_task port sha now session_token input =
     use_port sha now session_token ''create'' ''task'' (\<lambda>token. kp_create_task port token input)"

definition clone_task ::
    "'s TaskPort \<Rightarrow> (string \<Rightarrow> u8 list) \<Rightarrow> u64 \<Rightarrow> string \<Rightarrow> string \<Rightarrow> 's GatewayService
      \<Rightarrow> string result \<times> 's GatewayService" where
  "clone_task port sha now session_token ident =
     use_port sha now session_token ''create'' ''task'' (\<lambda>token. kp_clone_task port token ident)"

definition get_task ::
    "'s TaskPort \<Rightarrow> (string \<Rightarrow> u8 list) \<Rightarrow> u64 \<Rightarrow> string \<Rightarrow> string \<Rightarrow> 's GatewayService
      \<Rightarrow> Task result \<times> 's GatewayService" where
  "get_task port sha now session_token ident =
     use_port sha now session_token ''read'' ''task'' (\<lambda>token. kp_get_task port token ident)"

definition modify_task ::
    "'s TaskPort \<Rightarrow> (string \<Rightarrow> u8 list) \<Rightarrow> u64 \<Rightarrow> string \<Rightarrow> string \<Rightarrow> ModifyTaskInput \<Rightarrow> 's GatewayService
      \<Rightarrow> Task result \<times> 's GatewayService" where
  "modify_task port sha now session_token ident input =
     use_port sha now session_token ''modify'' ''task'' (\<lambda>token. kp_modify_task port token ident input)"

definition delete_task ::
    "'s TaskPort \<Rightarrow> (string \<Rightarrow> u8 list) \<Rightarrow> u64 \<Rightarrow> string \<Rightarrow> string \<Rightarrow> bool \<Rightarrow> 's GatewayService
      \<Rightarrow> unit result \<times> 's GatewayService" where
  "delete_task port sha now session_token ident ultimate =
     use_port sha now session_token ''delete'' ''task'' (\<lambda>token. kp_delete_task port token ident ultimate)"

definition start_task ::
    "'s TaskPort \<Rightarrow> (string \<Rightarrow> u8 list) \<Rightarrow> u64 \<Rightarrow> string \<Rightarrow> string \<Rightarrow> 's GatewayService
      \<Rightarrow> TaskAction result \<times> 's GatewayService" where
  "start_task port sha now session_token ident =
     use_port sha now session_token ''start'' ''task'' (\<lambda>token. kp_start_task port token ident)"

definition stop_task ::
    "'s TaskPort \<Rightarrow> (string \<Rightarrow> u8 list) \<Rightarrow> u64 \<Rightarrow> string \<Rightarrow> string \<Rightarrow> 's GatewayService
      \<Rightarrow> unit result \<times> 's GatewayService" where
  "stop_task port sha now session_token ident =
     use_port sha now session_token ''stop'' ''task'' (\<lambda>token. kp_stop_task port token ident)"

definition resume_task ::
    "'s TaskPort \<Rightarrow> (string \<Rightarrow> u8 list) \<Rightarrow> u64 \<Rightarrow> string \<Rightarrow> string \<Rightarrow> 's GatewayService
      \<Rightarrow> TaskAction result \<times> 's GatewayService" where
  "resume_task port sha now session_token ident =
     use_port sha now session_token ''resume'' ''task'' (\<lambda>token. kp_resume_task port token ident)"

definition list_audits ::
    "'s TaskPort \<Rightarrow> (string \<Rightarrow> u8 list) \<Rightarrow> u64 \<Rightarrow> string \<Rightarrow> TaskQuery \<Rightarrow> 's GatewayService
      \<Rightarrow> (Task Page) result \<times> 's GatewayService" where
  "list_audits port sha now session_token query =
     use_port sha now session_token ''list'' ''audit'' (\<lambda>token. kp_list_audits port token query)"

definition create_audit ::
    "'s TaskPort \<Rightarrow> (string \<Rightarrow> u8 list) \<Rightarrow> u64 \<Rightarrow> string \<Rightarrow> CreateTaskInput \<Rightarrow> 's GatewayService
      \<Rightarrow> string result \<times> 's GatewayService" where
  "create_audit port sha now session_token input =
     use_port sha now session_token ''create'' ''audit'' (\<lambda>token. kp_create_audit port token input)"

definition get_audit ::
    "'s TaskPort \<Rightarrow> (string \<Rightarrow> u8 list) \<Rightarrow> u64 \<Rightarrow> string \<Rightarrow> string \<Rightarrow> 's GatewayService
      \<Rightarrow> Task result \<times> 's GatewayService" where
  "get_audit port sha now session_token ident =
     use_port sha now session_token ''read'' ''audit'' (\<lambda>token. kp_get_audit port token ident)"

definition modify_audit ::
    "'s TaskPort \<Rightarrow> (string \<Rightarrow> u8 list) \<Rightarrow> u64 \<Rightarrow> string \<Rightarrow> string \<Rightarrow> ModifyTaskInput \<Rightarrow> 's GatewayService
      \<Rightarrow> Task result \<times> 's GatewayService" where
  "modify_audit port sha now session_token ident input =
     use_port sha now session_token ''modify'' ''audit'' (\<lambda>token. kp_modify_audit port token ident input)"

definition delete_audit ::
    "'s TaskPort \<Rightarrow> (string \<Rightarrow> u8 list) \<Rightarrow> u64 \<Rightarrow> string \<Rightarrow> string \<Rightarrow> 's GatewayService
      \<Rightarrow> unit result \<times> 's GatewayService" where
  "delete_audit port sha now session_token ident =
     use_port sha now session_token ''delete'' ''audit'' (\<lambda>token. kp_delete_audit port token ident)"

definition start_audit ::
    "'s TaskPort \<Rightarrow> (string \<Rightarrow> u8 list) \<Rightarrow> u64 \<Rightarrow> string \<Rightarrow> string \<Rightarrow> 's GatewayService
      \<Rightarrow> TaskAction result \<times> 's GatewayService" where
  "start_audit port sha now session_token ident =
     use_port sha now session_token ''start'' ''audit'' (\<lambda>token. kp_start_audit port token ident)"

definition stop_audit ::
    "'s TaskPort \<Rightarrow> (string \<Rightarrow> u8 list) \<Rightarrow> u64 \<Rightarrow> string \<Rightarrow> string \<Rightarrow> 's GatewayService
      \<Rightarrow> unit result \<times> 's GatewayService" where
  "stop_audit port sha now session_token ident =
     use_port sha now session_token ''stop'' ''audit'' (\<lambda>token. kp_stop_audit port token ident)"

definition resume_audit ::
    "'s TaskPort \<Rightarrow> (string \<Rightarrow> u8 list) \<Rightarrow> u64 \<Rightarrow> string \<Rightarrow> string \<Rightarrow> 's GatewayService
      \<Rightarrow> TaskAction result \<times> 's GatewayService" where
  "resume_audit port sha now session_token ident =
     use_port sha now session_token ''resume'' ''audit'' (\<lambda>token. kp_resume_audit port token ident)"

section \<open>Every operation speaks for its session\<close>

lemma speaks_list_task_items [speaks]:
  "d = from_token sha session_token \<Longrightarrow> speaks_for d (list_task_items sha L command session_token query)"
  unfolding list_task_items_def by (auto intro!: speaks split: prod.split)

lemma speaks_call_report [speaks]:
  "d = from_token sha session_token \<Longrightarrow> speaks_for d (call_report sha L session_token command missing)"
  unfolding call_report_def by (intro speaks)

lemma speaks_get_task [speaks]:
  "d = from_token sha session_token \<Longrightarrow> speaks_for d (gvmd_get_task sha L session_token ident)"
  unfolding gvmd_get_task_def by (intro speaks)

lemma speaks_list_tasks [speaks]:
  "d = from_token sha session_token \<Longrightarrow> speaks_for d (gvmd_list_tasks sha L session_token query)"
  unfolding gvmd_list_tasks_def by (intro speaks)

lemma speaks_create_task [speaks]:
  "d = from_token sha session_token \<Longrightarrow> speaks_for d (gvmd_create_task sha L session_token input)"
  unfolding gvmd_create_task_def Let_def by (auto intro!: speaks split: CreateTaskTarget.split)

lemma speaks_clone_task [speaks]:
  "d = from_token sha session_token \<Longrightarrow> speaks_for d (gvmd_clone_task sha L session_token ident)"
  unfolding gvmd_clone_task_def by (intro speaks)

lemma speaks_modify_task [speaks]:
  "d = from_token sha session_token \<Longrightarrow> speaks_for d (gvmd_modify_task sha L session_token ident input)"
  unfolding gvmd_modify_task_def by (intro speaks)

lemma speaks_delete_task [speaks]:
  "d = from_token sha session_token \<Longrightarrow> speaks_for d (gvmd_delete_task sha L session_token ident ultimate)"
  unfolding gvmd_delete_task_def by (intro speaks)

lemma speaks_start_task [speaks]:
  "d = from_token sha session_token \<Longrightarrow> speaks_for d (gvmd_start_task sha L session_token ident)"
  unfolding gvmd_start_task_def by (intro speaks)

lemma speaks_stop_task [speaks]:
  "d = from_token sha session_token \<Longrightarrow> speaks_for d (gvmd_stop_task sha L session_token ident)"
  unfolding gvmd_stop_task_def by (intro speaks)

lemma speaks_resume_task [speaks]:
  "d = from_token sha session_token \<Longrightarrow> speaks_for d (gvmd_resume_task sha L session_token ident)"
  unfolding gvmd_resume_task_def by (intro speaks)

lemma speaks_get_audit [speaks]:
  "d = from_token sha session_token \<Longrightarrow> speaks_for d (gvmd_get_audit sha L session_token ident)"
  unfolding gvmd_get_audit_def by (intro speaks)

lemma speaks_list_audits [speaks]:
  "d = from_token sha session_token \<Longrightarrow> speaks_for d (gvmd_list_audits sha L session_token query)"
  unfolding gvmd_list_audits_def by (intro speaks)

lemma speaks_create_audit [speaks]:
  "d = from_token sha session_token \<Longrightarrow> speaks_for d (gvmd_create_audit sha L session_token input)"
  unfolding gvmd_create_audit_def by (auto intro!: speaks split: CreateTaskTarget.split)

lemma speaks_modify_audit [speaks]:
  "d = from_token sha session_token \<Longrightarrow> speaks_for d (gvmd_modify_audit sha L session_token ident input)"
  unfolding gvmd_modify_audit_def by (intro speaks)

lemma speaks_delete_audit [speaks]:
  "d = from_token sha session_token \<Longrightarrow> speaks_for d (gvmd_delete_audit sha L session_token ident)"
  unfolding gvmd_delete_audit_def by (intro speaks)

lemma speaks_start_audit [speaks]:
  "d = from_token sha session_token \<Longrightarrow> speaks_for d (gvmd_start_audit sha L session_token ident)"
  unfolding gvmd_start_audit_def by (intro speaks)

lemma speaks_stop_audit [speaks]:
  "d = from_token sha session_token \<Longrightarrow> speaks_for d (gvmd_stop_audit sha L session_token ident)"
  unfolding gvmd_stop_audit_def by (intro speaks)

lemma speaks_resume_audit [speaks]:
  "d = from_token sha session_token \<Longrightarrow> speaks_for d (gvmd_resume_audit sha L session_token ident)"
  unfolding gvmd_resume_audit_def by (intro speaks)

section \<open>Properties\<close>

lemma call_report_sent:
  "gv_sent (snd (call_report sha L token command missing w)) = gv_sent w @ [(from_token sha token, command)]
     \<or> gv_sent (snd (call_report sha L token command missing w)) = gv_sent w
       \<and> \<not> is_ok (fst (call_report sha L token command missing w))"
  using call_sent [of sha L token command w]
  by (auto simp: call_report_def chain_def checked_def pure_def split: prod.splits sum.splits)

lemma get_audit_sent:
  "gv_sent (snd (gvmd_get_audit sha L token ident w)) = gv_sent w @
       [(from_token sha token, GetAudits \<lparr>gk_filter_string = Some (''uuid='' @ ident), gk_details = Some True,
          gk_ignore_pagination = Some True\<rparr>)]
     \<or> gv_sent (snd (gvmd_get_audit sha L token ident w)) = gv_sent w \<and> \<not> is_ok (fst (gvmd_get_audit sha L token ident w))"
  unfolding gvmd_get_audit_def
  by (rule checked_cases) (simp_all add: fetch_first_sent)

text \<open>
  An action on an audit: nothing is sent after a lookup that did not find the audit, and one
  command is sent after one that did.
\<close>

definition after_lookup ::
    "SessionTokenDigest \<Rightarrow> GmpCommand \<Rightarrow> 'g Gvmd \<Rightarrow> Task result \<times> 'g Gvmd \<Rightarrow> 'a result \<times> 'g Gvmd \<Rightarrow> bool" where
  "after_lookup d command w lookup result \<longleftrightarrow>
     (let (found, w1) = lookup; (r, w') = result
      in gv_sent w' = gv_sent w1 \<and> \<not> is_ok r
         \<or> is_ok found \<and> gv_sent w1 \<noteq> gv_sent w \<and> gv_sent w' = gv_sent w1 @ [(d, command)])"

lemma after_lookup_chain:
  assumes sent: "\<And>w. gv_sent (snd (action w)) = gv_sent w @ [(d, command)] \<or> gv_sent (snd (action w)) = gv_sent w \<and> \<not> is_ok (fst (action w))"
    and looked: "gv_sent (snd (lookup w)) \<noteq> gv_sent w \<or> \<not> is_ok (fst (lookup w))"
  shows "after_lookup d command w (lookup w) (chain lookup (\<lambda>_. action) w)"
proof -
  obtain found w1 where l: "lookup w = (found, w1)" by (cases "lookup w")
  show ?thesis
    using sent [of w1] looked l by (cases found; cases "action w1") (auto simp: after_lookup_def chain_def)
qed

text \<open>
  C16. Starting, stopping and resuming an audit act on audits only. Each first looks the
  identifier up in the listing of audits; the action is sent only when this lookup was sent and
  found an item, over the same connection, and it then names the identifier of the request. A
  refused or failed lookup sends no action and makes the request fail.
\<close>

theorem audit_actions_look_up_first:
  "let d = from_token sha token; lookup = gvmd_get_audit sha L token ident w
   in case lb_entity_id L ident of
        None \<Rightarrow> gvmd_start_audit sha L token ident w = (Inl (InvalidInput (''invalid UUID: '' @ ident)), w)
          \<and> gvmd_stop_audit sha L token ident w = (Inl (InvalidInput (''invalid UUID: '' @ ident)), w)
          \<and> gvmd_resume_audit sha L token ident w = (Inl (InvalidInput (''invalid UUID: '' @ ident)), w)
      | Some audit_id \<Rightarrow>
          after_lookup d (StartAudit audit_id) w lookup (gvmd_start_audit sha L token ident w)
          \<and> after_lookup d (StopAudit audit_id) w lookup (gvmd_stop_audit sha L token ident w)
          \<and> after_lookup d (ResumeAudit audit_id) w lookup (gvmd_resume_audit sha L token ident w)"
proof (cases "lb_entity_id L ident")
  case None
  then show ?thesis
    by (simp add: Let_def gvmd_start_audit_def gvmd_stop_audit_def gvmd_resume_audit_def gvmd_get_audit_def
        parse_entity_id_def chain_def)
next
  case (Some audit_id)
  have looked: "gv_sent (snd (gvmd_get_audit sha L token ident w)) \<noteq> gv_sent w
      \<or> \<not> is_ok (fst (gvmd_get_audit sha L token ident w))"
    using get_audit_sent [of sha L token ident w] by auto
  show ?thesis
    unfolding gvmd_start_audit_def gvmd_stop_audit_def gvmd_resume_audit_def Let_def Some
    by (simp add: parse_entity_id_def Some checked_Inr)
      (intro conjI after_lookup_chain call_report_sent call_action_sent looked)
qed

text \<open>
  An update of a task or an audit always replaces its observers by those of the request, while
  every other field that the request omits is left as it is.
\<close>

lemma task_update_replaces_observers:
  "task_update_opts L input = Inr opts \<Longrightarrow> mt_observers opts = Replace (ji_observers input)"
  by (auto simp: task_update_opts_def and_then_eq_Inr)

lemma task_update_keeps_omitted:
  "task_update_opts L (input\<lparr>ji_name := None, ji_comment := None, ji_target_id := None, ji_schedule_id := None, ji_alert_ids := None\<rparr>) = Inr opts \<Longrightarrow>
     mt_name opts = None \<and> mt_comment opts = None \<and> mt_target_id opts = None \<and> mt_schedule_id opts = Omitted
     \<and> mt_alert_ids opts = None"
  by (auto simp: task_update_opts_def and_then_eq_Inr scalar_update_def)

end
