(* ===== verification/Rest_Tasks.thy ===== *)
theory Rest_Tasks
  imports Tasks Rest_Base
begin

text \<open>
  The endpoints of tasks and audits, \<open>crates/gvm-gateway-rest/src/tasks.rs\<close>: request and response
  bodies, their validation, and the handlers.
\<close>

section \<open>Response bodies\<close>

datatype HostsOrderingValue = SequentialValue | RandomValue | ReverseValue | UnknownOrdering string

definition hosts_ordering_values :: "(string \<times> HostsOrderingValue) list" where
  "hosts_ordering_values = [(''sequential'', SequentialValue), (''random'', RandomValue), (''reverse'', ReverseValue)]"

definition hosts_ordering_parse :: "string \<Rightarrow> HostsOrderingValue" where
  "hosts_ordering_parse = open_enum_parse hosts_ordering_values UnknownOrdering"

datatype (plugins only: code size) TaskStatus =
    StatusNew | StatusRequested | StatusQueued | StatusRunning | StatusStopRequested | StatusStopping
  | StatusProcessing | StatusDone | StatusStopped | StatusError | StatusDeleteRequested
  | StatusUltimateDeleteRequested | StatusContainer | StatusInterrupted | UnknownStatus string

definition task_status_values :: "(string \<times> TaskStatus) list" where
  "task_status_values =
     [(''New'', StatusNew), (''Requested'', StatusRequested), (''Queued'', StatusQueued),
      (''Running'', StatusRunning), (''Stop Requested'', StatusStopRequested), (''Stopping'', StatusStopping),
      (''Processing'', StatusProcessing), (''Done'', StatusDone), (''Stopped'', StatusStopped),
      (''Error'', StatusError), (''Delete Requested'', StatusDeleteRequested),
      (''Ultimate Delete Requested'', StatusUltimateDeleteRequested), (''Container'', StatusContainer),
      (''Interrupted'', StatusInterrupted)]"

definition task_status_parse :: "string \<Rightarrow> TaskStatus" where
  "task_status_parse = open_enum_parse task_status_values UnknownStatus"

record TaskObserversResponse =
  to_users :: "string list"
  to_groups :: "ResourceRefResponse list"
  to_roles :: "ResourceRefResponse list"

definition task_observers_response :: "(string \<Rightarrow> string option) \<Rightarrow> TaskObservers \<Rightarrow> TaskObserversResponse" where
  "task_observers_response uuid ob =
     \<lparr>to_users = ob_users ob, to_groups = map (resource_ref_response uuid) (ob_groups ob),
      to_roles = map (resource_ref_response uuid) (ob_roles ob)\<rparr>"

text \<open>The counts of a report have the fields of the domain types, which stand for them.\<close>

record TaskReportReferenceResponse =
  tf_id :: string
  tf_timestamp :: "string option"
  tf_scan_start :: "string option"
  tf_scan_end :: "string option"
  tf_result_count :: "TaskReportResultCount option"
  tf_severity :: "string option"
  tf_compliance_count :: "TaskReportComplianceCount option"

definition task_report_reference_response ::
    "(string \<Rightarrow> string option) \<Rightarrow> TaskReportReference \<Rightarrow> TaskReportReferenceResponse" where
  "task_report_reference_response uuid r =
     \<lparr>tf_id = parse_uuid uuid (rp_id r), tf_timestamp = rp_timestamp r, tf_scan_start = rp_scan_start r,
      tf_scan_end = rp_scan_end r, tf_result_count = rp_result_count r, tf_severity = rp_severity r,
      tf_compliance_count = rp_compliance_count r\<rparr>"

record TaskResponse =
  ts_id :: string
  ts_name :: string
  ts_comment :: "string option"
  ts_status :: TaskStatus
  ts_progress :: "int option"
  ts_target :: "ResourceRefResponse option"
  ts_agent_group :: "ResourceRefResponse option"
  ts_oci_image_target :: "ResourceRefResponse option"
  ts_web_application_target :: "ResourceRefResponse option"
  ts_scan_config :: "ResourceRefResponse option"
  ts_scanner :: "ResourceRefResponse option"
  ts_schedule :: "ResourceRefResponse option"
  ts_alerts :: "ResourceRefResponse list"
  ts_alterable :: "bool option"
  ts_hosts_ordering :: "HostsOrderingValue option"
  ts_observers :: TaskObserversResponse
  ts_schedule_periods :: "u32 option"
  ts_last_report :: "TaskReportReferenceResponse option"
  ts_current_report :: "TaskReportReferenceResponse option"
  ts_report_count :: "u32 option"
  ts_usage_type :: "string option"
  ts_trend :: "string option"
  ts_in_use :: bool
  ts_writable :: bool

definition task_response :: "(string \<Rightarrow> string option) \<Rightarrow> Task \<Rightarrow> TaskResponse" where
  "task_response uuid t =
     (let ref = map_option (resource_ref_response uuid)
      in \<lparr>ts_id = parse_uuid uuid (tk_id t), ts_name = tk_name t, ts_comment = tk_comment t,
          ts_status = task_status_parse (tk_status t), ts_progress = tk_progress t, ts_target = ref (tk_target t),
          ts_agent_group = ref (tk_agent_group t), ts_oci_image_target = ref (tk_oci_image_target t),
          ts_web_application_target = ref (tk_web_application_target t), ts_scan_config = ref (tk_scan_config t),
          ts_scanner = ref (tk_scanner t), ts_schedule = ref (tk_schedule t),
          ts_alerts = map (resource_ref_response uuid) (tk_alerts t), ts_alterable = tk_alterable t,
          ts_hosts_ordering = map_option hosts_ordering_parse (tk_hosts_ordering t),
          ts_observers = task_observers_response uuid (tk_observers t),
          ts_schedule_periods = tk_schedule_periods t,
          ts_last_report = map_option (task_report_reference_response uuid) (tk_last_report t),
          ts_current_report = map_option (task_report_reference_response uuid) (tk_current_report t),
          ts_report_count = tk_report_count t, ts_usage_type = tk_usage_type t, ts_trend = tk_trend t,
          ts_in_use = tk_in_use t, ts_writable = tk_writable t\<rparr>)"

section \<open>Request bodies\<close>

definition task_list_query ::
    "(string \<Rightarrow> (string \<times> string) list) \<Rightarrow> (string \<Rightarrow> string option) \<Rightarrow> string \<Rightarrow> TaskQuery result" where
  "task_list_query decode uuid query =
     and_then (parse_collection_query decode (\<lambda>s. uuid s \<noteq> None) query) (\<lambda>parsed.
       Inr \<lparr>kq_filter_string = cq_filter_string parsed, kq_filter_id = cq_filter_id parsed,
            kq_page = cq_page parsed, kq_per_page = cq_per_page parsed\<rparr>)"

record CreateTaskRequest =
  kr_name :: "string option"
  kr_comment :: "string option"
  kr_task_type :: "string option"
  kr_target_id :: "string option"
  kr_agent_group_id :: "string option"
  kr_oci_image_target_id :: "string option"
  kr_web_application_target_id :: "string option"
  kr_scan_config_id :: "string option"
  kr_scanner_id :: "string option"
  kr_schedule_id :: "string option"
  kr_alert_ids :: "string list"
  kr_alterable :: "bool option"
  kr_hosts_ordering :: "string option"
  kr_observers :: "string list"
  kr_schedule_periods :: "u32 option"
  kr_preferences :: "(string \<times> string) list"

definition selectors :: "CreateTaskRequest \<Rightarrow> nat" where
  "selectors r =
     length (filter (\<lambda>selected. selected)
       [kr_target_id r \<noteq> None, kr_agent_group_id r \<noteq> None, kr_oci_image_target_id r \<noteq> None,
        kr_web_application_target_id r \<noteq> None])"

definition inferred_type :: "CreateTaskRequest \<Rightarrow> string option" where
  "inferred_type r =
     (if kr_target_id r \<noteq> None then Some ''classic''
      else if kr_agent_group_id r \<noteq> None then Some ''agentGroup''
      else if kr_oci_image_target_id r \<noteq> None then Some ''ociImage''
      else if kr_web_application_target_id r \<noteq> None then Some ''webApplication''
      else None)"

definition selected_type :: "CreateTaskRequest \<Rightarrow> string result" where
  "selected_type r =
     (case kr_task_type r of
        Some explicit \<Rightarrow>
          (case inferred_type r of
             Some inferred \<Rightarrow>
               if explicit \<noteq> inferred
               then Inl (InvalidInput (''type '' @ explicit @ '' does not match the supplied '' @ inferred @ '' target selector''))
               else Inr explicit
           | None \<Rightarrow> Inr explicit)
      | None \<Rightarrow>
          (case inferred_type r of
             Some inferred \<Rightarrow> Inr inferred
           | None \<Rightarrow> Inl (InvalidInput ''one task target selector is required unless type is import'')))"

definition required_uuid :: "(string \<Rightarrow> string option) \<Rightarrow> string \<Rightarrow> string option \<Rightarrow> string result" where
  "required_uuid uuid field v =
     (case v of
        None \<Rightarrow> Inl (InvalidInput (field @ '' is required''))
      | Some s \<Rightarrow> and_then (check_uuid uuid field s) (\<lambda>_. Inr s))"

definition import_only :: "CreateTaskRequest \<Rightarrow> bool" where
  "import_only r \<longleftrightarrow>
     selectors r = 0 \<and> kr_scan_config_id r = None \<and> kr_scanner_id r = None \<and> kr_schedule_id r = None
     \<and> kr_alert_ids r = [] \<and> kr_alterable r = None \<and> kr_hosts_ordering r = None \<and> kr_observers r = []
     \<and> kr_schedule_periods r = None \<and> kr_preferences r = []"

definition task_target :: "(string \<Rightarrow> string option) \<Rightarrow> CreateTaskRequest \<Rightarrow> string \<Rightarrow> CreateTaskTarget result" where
  "task_target uuid r kind =
     (if kind = ''classic'' then
        and_then (required_uuid uuid ''targetId'' (kr_target_id r)) (\<lambda>target.
        and_then (required_uuid uuid ''scanConfigId'' (kr_scan_config_id r)) (\<lambda>scan_config.
        and_then (required_uuid uuid ''scannerId'' (kr_scanner_id r)) (\<lambda>scanner.
          Inr (Classic target scan_config scanner))))
      else if kind = ''agentGroup'' then
        and_then (required_uuid uuid ''agentGroupId'' (kr_agent_group_id r)) (\<lambda>agents.
        and_then (required_uuid uuid ''scannerId'' (kr_scanner_id r)) (\<lambda>scanner. Inr (AgentGroup agents scanner)))
      else if kind = ''ociImage'' then
        and_then (required_uuid uuid ''ociImageTargetId'' (kr_oci_image_target_id r)) (\<lambda>target.
        and_then (required_uuid uuid ''scannerId'' (kr_scanner_id r)) (\<lambda>scanner. Inr (OciImage target scanner)))
      else if kind = ''webApplication'' then
        and_then (required_uuid uuid ''webApplicationTargetId'' (kr_web_application_target_id r)) (\<lambda>target.
        and_then (required_uuid uuid ''scannerId'' (kr_scanner_id r)) (\<lambda>scanner. Inr (WebApplication target scanner)))
      else if kind = ''import'' then
        if import_only r then Inr Import
        else Inl (InvalidInput ''import tasks accept only type, name, and comment'')
      else Inl (InvalidInput (''unsupported task type: '' @ kind)))"

text \<open>The alert identifiers are checked in their order; the message names the index.\<close>

fun validate_alert_ids :: "(string \<Rightarrow> string option) \<Rightarrow> nat \<Rightarrow> string list \<Rightarrow> unit result" where
  "validate_alert_ids uuid index [] = Inr ()"
| "validate_alert_ids uuid index (alert # alerts) =
     and_then (check_uuid uuid (''alertIds['' @ show_nat index @ '']'') alert) (\<lambda>_.
       validate_alert_ids uuid (Suc index) alerts)"

fun is_classic :: "CreateTaskTarget \<Rightarrow> bool" where
  "is_classic (Classic target scan_config scanner) = True"
| "is_classic _ = False"

definition validate_create_task :: "(string \<Rightarrow> string option) \<Rightarrow> CreateTaskRequest \<Rightarrow> CreateTaskInput result" where
  "validate_create_task uuid r =
     and_then (required_name (kr_name r)) (\<lambda>name.
     and_then (if selectors r > 1
       then Inl (InvalidInput ''exactly one of targetId, agentGroupId, ociImageTargetId, or webApplicationTargetId is allowed'')
       else Inr ()) (\<lambda>_.
     and_then (selected_type r) (\<lambda>kind.
     and_then (task_target uuid r kind) (\<lambda>target.
     and_then (if \<not> is_classic target \<and> kr_scan_config_id r \<noteq> None
       then Inl (InvalidInput ''scanConfigId is only valid for classic tasks'') else Inr ()) (\<lambda>_.
     and_then (if \<not> (is_classic target \<or> target = Import) \<and> kr_hosts_ordering r \<noteq> None
       then Inl (InvalidInput ''hostsOrdering is only valid for classic tasks'') else Inr ()) (\<lambda>_.
     and_then (validate_optional_uuid uuid ''scheduleId'' (kr_schedule_id r)) (\<lambda>_.
     and_then (validate_alert_ids uuid 0 (kr_alert_ids r)) (\<lambda>_.
       Inr \<lparr>ki_name = name, ki_comment = kr_comment r, ki_target = target, ki_schedule_id = kr_schedule_id r,
            ki_alert_ids = kr_alert_ids r, ki_alterable = kr_alterable r,
            ki_hosts_ordering = kr_hosts_ordering r, ki_observers = kr_observers r,
            ki_schedule_periods = kr_schedule_periods r, ki_preferences = kr_preferences r\<rparr>))))))))"

record ModifyTaskRequest =
  jr_name :: "string option"
  jr_comment :: "string option"
  jr_target_id :: "string option"
  jr_scan_config_id :: "string option"
  jr_scanner_id :: "string option"
  jr_schedule_id :: "string option"
  jr_alert_ids :: "string list option"
  jr_alterable :: "bool option"
  jr_hosts_ordering :: "string option"
  jr_observers :: "string list"
  jr_schedule_periods :: "u32 option"
  jr_preferences :: "(string \<times> string) list"

definition validate_modify_task :: "(string \<Rightarrow> string option) \<Rightarrow> ModifyTaskRequest \<Rightarrow> ModifyTaskInput result" where
  "validate_modify_task uuid r =
     and_then (validate_optional_uuid uuid ''targetId'' (jr_target_id r)) (\<lambda>_.
     and_then (validate_optional_uuid uuid ''scanConfigId'' (jr_scan_config_id r)) (\<lambda>_.
     and_then (validate_optional_uuid uuid ''scannerId'' (jr_scanner_id r)) (\<lambda>_.
     and_then (validate_optional_uuid uuid ''scheduleId'' (jr_schedule_id r)) (\<lambda>_.
     and_then (case jr_alert_ids r of None \<Rightarrow> Inr () | Some alerts \<Rightarrow> validate_alert_ids uuid 0 alerts) (\<lambda>_.
       Inr \<lparr>ji_name = jr_name r, ji_comment = jr_comment r, ji_target_id = jr_target_id r,
            ji_scan_config_id = jr_scan_config_id r, ji_scanner_id = jr_scanner_id r,
            ji_schedule_id = jr_schedule_id r, ji_alert_ids = jr_alert_ids r, ji_alterable = jr_alterable r,
            ji_hosts_ordering = jr_hosts_ordering r, ji_observers = jr_observers r,
            ji_schedule_periods = jr_schedule_periods r, ji_preferences = jr_preferences r\<rparr>)))))"

section \<open>Handlers\<close>

text \<open>
  The handlers of starting, stopping and resuming are written out in the code, with the same
  checks; \<open>success\<close> is the response of each.
\<close>

definition action_resource ::
    "(string \<Rightarrow> string option) \<Rightarrow> (string \<Rightarrow> string \<Rightarrow> 'w \<Rightarrow> 'a result \<times> 'w) \<Rightarrow> ('a \<Rightarrow> 'j Response)
      \<Rightarrow> string \<Rightarrow> Request \<Rightarrow> 'w \<Rightarrow> 'j Response \<times> 'w" where
  "action_resource uuid operation success ident q w =
     (case check_uuid uuid ''id'' ident of
        Inl e \<Rightarrow> (gateway_error e (rq_path q), w)
      | Inr _ \<Rightarrow>
          (case bearer_token (rq_headers q) of
             Inl e \<Rightarrow> (gateway_error e (rq_path q), w)
           | Inr session \<Rightarrow> respond q success (operation session ident w)))"

record TaskActionResponse =
  tn_report_id :: string

definition task_action_response :: "(string \<Rightarrow> string option) \<Rightarrow> TaskAction \<Rightarrow> TaskActionResponse RestBody Response" where
  "task_action_response uuid a = ok_resource \<lparr>tn_report_id = parse_uuid uuid (ta_report_id a)\<rparr>"

definition ok_empty :: "'j Response" where
  "ok_empty = \<lparr>rp_status = 200, rp_headers = [], rp_body = NoBody\<rparr>"

definition rest_list_tasks ::
    "(string \<Rightarrow> (string \<times> string) list) \<Rightarrow> (string \<Rightarrow> string option) \<Rightarrow> 's TaskPort \<Rightarrow> (string \<Rightarrow> u8 list) \<Rightarrow> u64
      \<Rightarrow> Request \<Rightarrow> 's GatewayService \<Rightarrow> TaskResponse ListResponse RestBody Response \<times> 's GatewayService" where
  "rest_list_tasks decode uuid port sha now =
     list_resource (task_list_query decode uuid) (\<lambda>session query. list_tasks port sha now session query)
       (list_response (task_response uuid))"

definition rest_create_task ::
    "(string \<Rightarrow> string option) \<Rightarrow> (u8 list \<Rightarrow> string + CreateTaskRequest) \<Rightarrow> 's TaskPort \<Rightarrow> (string \<Rightarrow> u8 list) \<Rightarrow> u64
      \<Rightarrow> Request \<Rightarrow> 's GatewayService \<Rightarrow> TaskResponse RestBody Response \<times> 's GatewayService" where
  "rest_create_task uuid from_slice port sha now =
     create_resource uuid from_slice (validate_create_task uuid)
       (\<lambda>session input. create_task port sha now session input)"

definition rest_clone_task ::
    "(string \<Rightarrow> string option) \<Rightarrow> 's TaskPort \<Rightarrow> (string \<Rightarrow> u8 list) \<Rightarrow> u64 \<Rightarrow> string
      \<Rightarrow> Request \<Rightarrow> 's GatewayService \<Rightarrow> TaskResponse RestBody Response \<times> 's GatewayService" where
  "rest_clone_task uuid port sha now =
     clone_resource uuid ''/api/v1/tasks'' (\<lambda>session ident. clone_task port sha now session ident)"

definition rest_get_task ::
    "(string \<Rightarrow> string option) \<Rightarrow> 's TaskPort \<Rightarrow> (string \<Rightarrow> u8 list) \<Rightarrow> u64 \<Rightarrow> string
      \<Rightarrow> Request \<Rightarrow> 's GatewayService \<Rightarrow> TaskResponse RestBody Response \<times> 's GatewayService" where
  "rest_get_task uuid port sha now =
     get_resource uuid (\<lambda>session ident. get_task port sha now session ident) (task_response uuid)"

definition rest_update_task ::
    "(string \<Rightarrow> string option) \<Rightarrow> (u8 list \<Rightarrow> string + ModifyTaskRequest) \<Rightarrow> 's TaskPort \<Rightarrow> (string \<Rightarrow> u8 list) \<Rightarrow> u64 \<Rightarrow> string
      \<Rightarrow> Request \<Rightarrow> 's GatewayService \<Rightarrow> TaskResponse RestBody Response \<times> 's GatewayService" where
  "rest_update_task uuid from_slice port sha now =
     update_resource uuid from_slice (validate_modify_task uuid)
       (\<lambda>session ident input. modify_task port sha now session ident input) (task_response uuid)"

definition rest_delete_task ::
    "(string \<Rightarrow> (string \<times> string) list) \<Rightarrow> (string \<Rightarrow> string option) \<Rightarrow> 's TaskPort \<Rightarrow> (string \<Rightarrow> u8 list) \<Rightarrow> u64 \<Rightarrow> string
      \<Rightarrow> Request \<Rightarrow> 's GatewayService \<Rightarrow> TaskResponse RestBody Response \<times> 's GatewayService" where
  "rest_delete_task decode uuid port sha now =
     delete_resource uuid decode (\<lambda>session ident ultimate. delete_task port sha now session ident ultimate)"

definition rest_start_task ::
    "(string \<Rightarrow> string option) \<Rightarrow> 's TaskPort \<Rightarrow> (string \<Rightarrow> u8 list) \<Rightarrow> u64 \<Rightarrow> string
      \<Rightarrow> Request \<Rightarrow> 's GatewayService \<Rightarrow> TaskActionResponse RestBody Response \<times> 's GatewayService" where
  "rest_start_task uuid port sha now =
     action_resource uuid (\<lambda>session ident. start_task port sha now session ident) (task_action_response uuid)"

definition rest_stop_task ::
    "(string \<Rightarrow> string option) \<Rightarrow> 's TaskPort \<Rightarrow> (string \<Rightarrow> u8 list) \<Rightarrow> u64 \<Rightarrow> string
      \<Rightarrow> Request \<Rightarrow> 's GatewayService \<Rightarrow> TaskResponse RestBody Response \<times> 's GatewayService" where
  "rest_stop_task uuid port sha now =
     action_resource uuid (\<lambda>session ident. stop_task port sha now session ident) (\<lambda>_. ok_empty)"

definition rest_resume_task ::
    "(string \<Rightarrow> string option) \<Rightarrow> 's TaskPort \<Rightarrow> (string \<Rightarrow> u8 list) \<Rightarrow> u64 \<Rightarrow> string
      \<Rightarrow> Request \<Rightarrow> 's GatewayService \<Rightarrow> TaskActionResponse RestBody Response \<times> 's GatewayService" where
  "rest_resume_task uuid port sha now =
     action_resource uuid (\<lambda>session ident. resume_task port sha now session ident) (task_action_response uuid)"

definition rest_list_audits ::
    "(string \<Rightarrow> (string \<times> string) list) \<Rightarrow> (string \<Rightarrow> string option) \<Rightarrow> 's TaskPort \<Rightarrow> (string \<Rightarrow> u8 list) \<Rightarrow> u64
      \<Rightarrow> Request \<Rightarrow> 's GatewayService \<Rightarrow> TaskResponse ListResponse RestBody Response \<times> 's GatewayService" where
  "rest_list_audits decode uuid port sha now =
     list_resource (task_list_query decode uuid) (\<lambda>session query. list_audits port sha now session query)
       (list_response (task_response uuid))"

definition rest_create_audit ::
    "(string \<Rightarrow> string option) \<Rightarrow> (u8 list \<Rightarrow> string + CreateTaskRequest) \<Rightarrow> 's TaskPort \<Rightarrow> (string \<Rightarrow> u8 list) \<Rightarrow> u64
      \<Rightarrow> Request \<Rightarrow> 's GatewayService \<Rightarrow> TaskResponse RestBody Response \<times> 's GatewayService" where
  "rest_create_audit uuid from_slice port sha now =
     create_resource uuid from_slice (validate_create_task uuid)
       (\<lambda>session input. create_audit port sha now session input)"

definition rest_get_audit ::
    "(string \<Rightarrow> string option) \<Rightarrow> 's TaskPort \<Rightarrow> (string \<Rightarrow> u8 list) \<Rightarrow> u64 \<Rightarrow> string
      \<Rightarrow> Request \<Rightarrow> 's GatewayService \<Rightarrow> TaskResponse RestBody Response \<times> 's GatewayService" where
  "rest_get_audit uuid port sha now =
     get_resource uuid (\<lambda>session ident. get_audit port sha now session ident) (task_response uuid)"

definition rest_update_audit ::
    "(string \<Rightarrow> string option) \<Rightarrow> (u8 list \<Rightarrow> string + ModifyTaskRequest) \<Rightarrow> 's TaskPort \<Rightarrow> (string \<Rightarrow> u8 list) \<Rightarrow> u64 \<Rightarrow> string
      \<Rightarrow> Request \<Rightarrow> 's GatewayService \<Rightarrow> TaskResponse RestBody Response \<times> 's GatewayService" where
  "rest_update_audit uuid from_slice port sha now =
     update_resource uuid from_slice (validate_modify_task uuid)
       (\<lambda>session ident input. modify_audit port sha now session ident input) (task_response uuid)"

definition rest_delete_audit ::
    "(string \<Rightarrow> string option) \<Rightarrow> 's TaskPort \<Rightarrow> (string \<Rightarrow> u8 list) \<Rightarrow> u64 \<Rightarrow> string
      \<Rightarrow> Request \<Rightarrow> 's GatewayService \<Rightarrow> TaskResponse RestBody Response \<times> 's GatewayService" where
  "rest_delete_audit uuid port sha now =
     delete_resource_without_ultimate uuid (\<lambda>session ident. delete_audit port sha now session ident)"

definition rest_start_audit ::
    "(string \<Rightarrow> string option) \<Rightarrow> 's TaskPort \<Rightarrow> (string \<Rightarrow> u8 list) \<Rightarrow> u64 \<Rightarrow> string
      \<Rightarrow> Request \<Rightarrow> 's GatewayService \<Rightarrow> TaskActionResponse RestBody Response \<times> 's GatewayService" where
  "rest_start_audit uuid port sha now =
     action_resource uuid (\<lambda>session ident. start_audit port sha now session ident) (task_action_response uuid)"

definition rest_stop_audit ::
    "(string \<Rightarrow> string option) \<Rightarrow> 's TaskPort \<Rightarrow> (string \<Rightarrow> u8 list) \<Rightarrow> u64 \<Rightarrow> string
      \<Rightarrow> Request \<Rightarrow> 's GatewayService \<Rightarrow> TaskResponse RestBody Response \<times> 's GatewayService" where
  "rest_stop_audit uuid port sha now =
     action_resource uuid (\<lambda>session ident. stop_audit port sha now session ident) (\<lambda>_. ok_empty)"

definition rest_resume_audit ::
    "(string \<Rightarrow> string option) \<Rightarrow> 's TaskPort \<Rightarrow> (string \<Rightarrow> u8 list) \<Rightarrow> u64 \<Rightarrow> string
      \<Rightarrow> Request \<Rightarrow> 's GatewayService \<Rightarrow> TaskActionResponse RestBody Response \<times> 's GatewayService" where
  "rest_resume_audit uuid port sha now =
     action_resource uuid (\<lambda>session ident. resume_audit port sha now session ident) (task_action_response uuid)"

section \<open>The routes of the router\<close>

text \<open>The bodies are decoded by serde; the decoders are parameters.\<close>

record TaskBodies =
  kb_create_task :: "u8 list \<Rightarrow> string + CreateTaskRequest"
  kb_modify_task :: "u8 list \<Rightarrow> string + ModifyTaskRequest"

datatype (plugins only: code size) TaskRoute =
    ListTasks
  | PostTask
  | GetTaskBy string
  | PutTask string
  | DeleteTaskBy string
  | CloneTaskOf string
  | StartTaskBy string
  | StopTaskBy string
  | ResumeTaskBy string
  | ListAudits
  | PostAudit
  | GetAuditBy string
  | PutAudit string
  | DeleteAuditBy string
  | StartAuditBy string
  | StopAuditBy string
  | ResumeAuditBy string

fun serve_task ::
    "(string \<Rightarrow> (string \<times> string) list) \<Rightarrow> (string \<Rightarrow> string option) \<Rightarrow> TaskBodies \<Rightarrow> 's TaskPort
      \<Rightarrow> (string \<Rightarrow> u8 list) \<Rightarrow> u64 \<Rightarrow> TaskRoute \<Rightarrow> Request \<Rightarrow> 's GatewayService \<Rightarrow> nat \<times> 's GatewayService" where
  "serve_task decode uuid bodies port sha now ListTasks q sv = answered (rest_list_tasks decode uuid port sha now q sv)"
| "serve_task decode uuid bodies port sha now PostTask q sv = answered (rest_create_task uuid (kb_create_task bodies) port sha now q sv)"
| "serve_task decode uuid bodies port sha now (GetTaskBy ident) q sv = answered (rest_get_task uuid port sha now ident q sv)"
| "serve_task decode uuid bodies port sha now (PutTask ident) q sv =
     answered (rest_update_task uuid (kb_modify_task bodies) port sha now ident q sv)"
| "serve_task decode uuid bodies port sha now (DeleteTaskBy ident) q sv = answered (rest_delete_task decode uuid port sha now ident q sv)"
| "serve_task decode uuid bodies port sha now (CloneTaskOf ident) q sv = answered (rest_clone_task uuid port sha now ident q sv)"
| "serve_task decode uuid bodies port sha now (StartTaskBy ident) q sv = answered (rest_start_task uuid port sha now ident q sv)"
| "serve_task decode uuid bodies port sha now (StopTaskBy ident) q sv = answered (rest_stop_task uuid port sha now ident q sv)"
| "serve_task decode uuid bodies port sha now (ResumeTaskBy ident) q sv = answered (rest_resume_task uuid port sha now ident q sv)"
| "serve_task decode uuid bodies port sha now ListAudits q sv = answered (rest_list_audits decode uuid port sha now q sv)"
| "serve_task decode uuid bodies port sha now PostAudit q sv = answered (rest_create_audit uuid (kb_create_task bodies) port sha now q sv)"
| "serve_task decode uuid bodies port sha now (GetAuditBy ident) q sv = answered (rest_get_audit uuid port sha now ident q sv)"
| "serve_task decode uuid bodies port sha now (PutAudit ident) q sv =
     answered (rest_update_audit uuid (kb_modify_task bodies) port sha now ident q sv)"
| "serve_task decode uuid bodies port sha now (DeleteAuditBy ident) q sv = answered (rest_delete_audit uuid port sha now ident q sv)"
| "serve_task decode uuid bodies port sha now (StartAuditBy ident) q sv = answered (rest_start_audit uuid port sha now ident q sv)"
| "serve_task decode uuid bodies port sha now (StopAuditBy ident) q sv = answered (rest_stop_audit uuid port sha now ident q sv)"
| "serve_task decode uuid bodies port sha now (ResumeAuditBy ident) q sv = answered (rest_resume_audit uuid port sha now ident q sv)"

lemma within_action [within]:
  "(\<And>v. is_success (rp_status (success v))) \<Longrightarrow> (\<And>token. R token w (False, w))
     \<Longrightarrow> (\<And>token. R token w (outcome (operation token ident w)))
     \<Longrightarrow> within_token R q w (action_resource uuid operation success ident q w)"
  by (auto simp: within_simps action_resource_def split: sum.split)

lemma task_action_success [within]:
  "is_success (rp_status (task_action_response uuid a))" "is_success (rp_status ok_empty)"
  by (auto simp: task_action_response_def ok_resource_def ok_json_def json_response_def ok_empty_def is_success_def)

lemmas task_use_case_defs =
  list_tasks_def create_task_def clone_task_def get_task_def modify_task_def delete_task_def start_task_def
  stop_task_def resume_task_def list_audits_def create_audit_def get_audit_def modify_audit_def
  delete_audit_def start_audit_def stop_audit_def resume_audit_def gvmd_task_port_def

lemmas task_handler_defs =
  rest_list_tasks_def rest_create_task_def rest_clone_task_def rest_get_task_def rest_update_task_def
  rest_delete_task_def rest_start_task_def rest_stop_task_def rest_resume_task_def rest_list_audits_def
  rest_create_audit_def rest_get_audit_def rest_update_audit_def rest_delete_audit_def
  rest_start_audit_def rest_stop_audit_def rest_resume_audit_def

section \<open>Properties\<close>

text \<open>
  A request for a task or an audit, the starting, stopping and resuming of scans included,
  acts for its own session only: without a bearer token it changes nothing and does not
  succeed; with one, every command it sends runs on the connection authenticated for the
  session of this token, and a refused session reaches no backend and is never answered with
  success.
\<close>

lemma task_requests_act_for_their_session:
  "let (status, sv') = serve_task decode uuid bodies (gvmd_task_port sha L) sha now route q sv
   in case bearer_token (rq_headers q) of
        Inl e \<Rightarrow> sv' = sv \<and> \<not> is_success status
      | Inr token \<Rightarrow> own_session sha now token sv (is_success status, sv')"
  by (cases route; (simp only: serve_task.simps task_handler_defs task_use_case_defs TaskPort.simps;
      rule within_answered; intro within own_session_refl own_session_use_port speaks refl))

text \<open>Which kind of task a request asks for, stated without the order of the checks.\<close>

fun asks_for :: "CreateTaskTarget \<Rightarrow> CreateTaskRequest \<Rightarrow> bool" where
  "asks_for (Classic target scan_config scanner) r \<longleftrightarrow>
     kr_task_type r \<in> {None, Some ''classic''} \<and> kr_target_id r = Some target
     \<and> kr_agent_group_id r = None \<and> kr_oci_image_target_id r = None \<and> kr_web_application_target_id r = None
     \<and> kr_scan_config_id r = Some scan_config \<and> kr_scanner_id r = Some scanner"
| "asks_for (AgentGroup agents scanner) r \<longleftrightarrow>
     kr_task_type r \<in> {None, Some ''agentGroup''} \<and> kr_agent_group_id r = Some agents
     \<and> kr_target_id r = None \<and> kr_oci_image_target_id r = None \<and> kr_web_application_target_id r = None
     \<and> kr_scan_config_id r = None \<and> kr_scanner_id r = Some scanner \<and> kr_hosts_ordering r = None"
| "asks_for (OciImage target scanner) r \<longleftrightarrow>
     kr_task_type r \<in> {None, Some ''ociImage''} \<and> kr_oci_image_target_id r = Some target
     \<and> kr_target_id r = None \<and> kr_agent_group_id r = None \<and> kr_web_application_target_id r = None
     \<and> kr_scan_config_id r = None \<and> kr_scanner_id r = Some scanner \<and> kr_hosts_ordering r = None"
| "asks_for (WebApplication target scanner) r \<longleftrightarrow>
     kr_task_type r \<in> {None, Some ''webApplication''} \<and> kr_web_application_target_id r = Some target
     \<and> kr_target_id r = None \<and> kr_agent_group_id r = None \<and> kr_oci_image_target_id r = None
     \<and> kr_scan_config_id r = None \<and> kr_scanner_id r = Some scanner \<and> kr_hosts_ordering r = None"
| "asks_for Import r \<longleftrightarrow> kr_task_type r = Some ''import'' \<and> import_only r"

fun target_uuids :: "CreateTaskTarget \<Rightarrow> string list" where
  "target_uuids (Classic target scan_config scanner) = [target, scan_config, scanner]"
| "target_uuids (AgentGroup agents scanner) = [agents, scanner]"
| "target_uuids (OciImage target scanner) = [target, scanner]"
| "target_uuids (WebApplication target scanner) = [target, scanner]"
| "target_uuids Import = []"

lemma alert_ids_ok: "validate_alert_ids uuid index alerts = Inr u \<longleftrightarrow> list_all (is_uuid uuid) alerts"
  by (induction alerts arbitrary: index) (auto simp: and_then_eq_Inr check_uuid_ok)

lemma required_uuid_ok: "required_uuid uuid field v = Inr s \<longleftrightarrow> v = Some s \<and> is_uuid uuid s"
  unfolding required_uuid_def by (cases v) (auto simp: and_then_eq_Inr check_uuid_ok)

lemmas request_checks =
  uuid_and_name_checks alert_ids_ok required_uuid_ok

fun kind_name :: "CreateTaskTarget \<Rightarrow> string" where
  "kind_name (Classic target scan_config scanner) = ''classic''"
| "kind_name (AgentGroup agents scanner) = ''agentGroup''"
| "kind_name (OciImage target scanner) = ''ociImage''"
| "kind_name (WebApplication target scanner) = ''webApplication''"
| "kind_name Import = ''import''"

fun brings :: "CreateTaskTarget \<Rightarrow> CreateTaskRequest \<Rightarrow> bool" where
  "brings (Classic target scan_config scanner) r \<longleftrightarrow>
     kr_target_id r = Some target \<and> kr_scan_config_id r = Some scan_config \<and> kr_scanner_id r = Some scanner"
| "brings (AgentGroup agents scanner) r \<longleftrightarrow> kr_agent_group_id r = Some agents \<and> kr_scanner_id r = Some scanner"
| "brings (OciImage target scanner) r \<longleftrightarrow> kr_oci_image_target_id r = Some target \<and> kr_scanner_id r = Some scanner"
| "brings (WebApplication target scanner) r \<longleftrightarrow>
     kr_web_application_target_id r = Some target \<and> kr_scanner_id r = Some scanner"
| "brings Import r \<longleftrightarrow> import_only r"

lemma target_built:
  assumes "task_target uuid r kind = Inr target"
  shows "kind = kind_name target \<and> brings target r \<and> list_all (is_uuid uuid) (target_uuids target)"
  using assms unfolding task_target_def
  by (simp split: if_split_asm add: request_checks) auto

lemma target_builds:
  "brings target r \<Longrightarrow> list_all (is_uuid uuid) (target_uuids target) \<Longrightarrow>
     task_target uuid r (kind_name target) = Inr target"
  by (cases target) (simp_all add: task_target_def request_checks)

lemma selected_type_ok:
  "selected_type r = Inr kind \<longleftrightarrow>
     kr_task_type r = Some kind \<and> inferred_type r \<in> {None, Some kind}
     \<or> kr_task_type r = None \<and> inferred_type r = Some kind"
  by (auto simp: selected_type_def split: option.splits if_splits)

lemma one_selector:
  "kr_target_id r = Some t \<Longrightarrow> selectors r \<le> 1 \<longleftrightarrow>
     kr_agent_group_id r = None \<and> kr_oci_image_target_id r = None \<and> kr_web_application_target_id r = None"
  "kr_agent_group_id r = Some t \<Longrightarrow> selectors r \<le> 1 \<longleftrightarrow>
     kr_target_id r = None \<and> kr_oci_image_target_id r = None \<and> kr_web_application_target_id r = None"
  "kr_oci_image_target_id r = Some t \<Longrightarrow> selectors r \<le> 1 \<longleftrightarrow>
     kr_target_id r = None \<and> kr_agent_group_id r = None \<and> kr_web_application_target_id r = None"
  "kr_web_application_target_id r = Some t \<Longrightarrow> selectors r \<le> 1 \<longleftrightarrow>
     kr_target_id r = None \<and> kr_agent_group_id r = None \<and> kr_oci_image_target_id r = None"
  "selectors r = 0 \<longleftrightarrow> kr_target_id r = None \<and> kr_agent_group_id r = None
     \<and> kr_oci_image_target_id r = None \<and> kr_web_application_target_id r = None"
  unfolding selectors_def
  by (cases "kr_target_id r"; cases "kr_agent_group_id r"; cases "kr_oci_image_target_id r";
      cases "kr_web_application_target_id r"; simp)+

lemma asks_iff:
  "asks_for target r \<longleftrightarrow> brings target r \<and> selected_type r = Inr (kind_name target) \<and> selectors r \<le> 1
     \<and> (is_classic target \<or> kr_scan_config_id r = None)
     \<and> (is_classic target \<or> target = Import \<or> kr_hosts_ordering r = None)"
proof (cases target)
  case Import
  have "selectors r \<le> 1" if "selectors r = 0" using that by simp
  then show ?thesis using Import one_selector(5) [of r]
    by (auto simp: selected_type_ok inferred_type_def import_only_def simp del: One_nat_def)
qed (auto simp: selected_type_ok one_selector inferred_type_def simp del: One_nat_def)

lemma kind_of_target:
  "(\<exists>kind. selected_type r = Inr kind \<and> task_target uuid r kind = Inr target) \<and> selectors r \<le> 1
     \<and> (is_classic target \<or> kr_scan_config_id r = None)
     \<and> (is_classic target \<or> target = Import \<or> kr_hosts_ordering r = None)
   \<longleftrightarrow> asks_for target r \<and> list_all (is_uuid uuid) (target_uuids target)"
  unfolding asks_iff
  by (rule iffI; elim conjE exE; (drule target_built)?; simp add: target_builds del: One_nat_def)

text \<open>
  C12. A request to create a task is accepted exactly when it is a request for one kind of
  task: it has a name that is not blank, selects one target or is an import, names a type, if
  any, that fits the selector, brings every identifier this kind needs and no field this kind
  does not take, and all its identifiers are UUIDs. What is accepted is handed on unchanged.
\<close>

theorem task_request_accepted_iff:
  "validate_create_task uuid r = Inr input \<longleftrightarrow>
     kr_name r = Some (ki_name input) \<and> trim (ki_name input) \<noteq> []
     \<and> asks_for (ki_target input) r \<and> list_all (is_uuid uuid) (target_uuids (ki_target input))
     \<and> pred_option (is_uuid uuid) (kr_schedule_id r) \<and> list_all (is_uuid uuid) (kr_alert_ids r)
     \<and> input = \<lparr>ki_name = ki_name input, ki_comment = kr_comment r, ki_target = ki_target input,
          ki_schedule_id = kr_schedule_id r, ki_alert_ids = kr_alert_ids r, ki_alterable = kr_alterable r,
          ki_hosts_ordering = kr_hosts_ordering r, ki_observers = kr_observers r,
          ki_schedule_periods = kr_schedule_periods r, ki_preferences = kr_preferences r\<rparr>"
proof -
  have guard: "(if c then Inl e else Inr ()) = Inr u \<longleftrightarrow> \<not> c" for c and e :: GatewayError and u
    by simp
  have made: "input = \<lparr>ki_name = name, ki_comment = c, ki_target = target, ki_schedule_id = s, ki_alert_ids = a,
        ki_alterable = b, ki_hosts_ordering = h, ki_observers = os, ki_schedule_periods = p, ki_preferences = ps\<rparr>
      \<longleftrightarrow> name = ki_name input \<and> target = ki_target input
        \<and> input = \<lparr>ki_name = ki_name input, ki_comment = c, ki_target = ki_target input, ki_schedule_id = s,
            ki_alert_ids = a, ki_alterable = b, ki_hosts_ordering = h, ki_observers = os,
            ki_schedule_periods = p, ki_preferences = ps\<rparr>"
    for name c target s a b h os p ps
    by (cases input) auto
  show ?thesis
    unfolding validate_create_task_def
    apply (simp only: request_checks guard sum.inject eq_commute [of _ input])
    apply (subst made, subst conj_assoc [symmetric, of "asks_for (ki_target input) r"], subst kind_of_target [symmetric])
    apply (rule iffI; elim exE conjE; intro conjI exI; (assumption | simp))
    done
qed

end
