(* ===== verification/Gmp_Answers.thy ===== *)
theory Gmp_Answers
  imports Gmp_Entities
begin

text \<open>
  Answers of the client library to the commands of \<open>Gmp_Data\<close>: what the port operations of
  \<open>crates/gvm-gateway-gvmd/src/gvmd_adapter/ports\<close> read. The names are those of the library's
  response structs.
\<close>

record GmpAlert =
  gal_meta :: EntityMeta
  gal_event :: "string option"
  gal_condition :: "string option"
  gal_method :: "string option"
  gal_event_data :: "(string \<times> string) list"
  gal_condition_data :: "(string \<times> string) list"
  gal_method_data :: "(string \<times> string) list"
  gal_filter :: "NamedEntity option"

record GmpSchedule =
  gsd_meta :: EntityMeta
  gsd_icalendar :: "string option"
  gsd_timezone :: "string option"
  gsd_first_run :: "string option"
  gsd_next_run :: "string option"
  gsd_duration :: "u32 option"

record GmpPortList =
  gpl_meta :: EntityMeta
  gpl_port_count :: "u32 option"
  gpl_tcp_count :: "u32 option"
  gpl_udp_count :: "u32 option"
  gpl_port_range :: "string option"

record GmpFeed =
  gfd_type :: string
  gfd_name :: string
  gfd_version :: string
  gfd_description :: "string option"
  gfd_status :: "string option"
  gfd_sync_not_available :: "string option"
  gfd_currently_syncing :: "string option"

record GmpFeeds =
  gfd_items :: "GmpFeed list"
  gfd_feed_owner_set :: bool
  gfd_feed_roles_set :: bool
  gfd_feed_resources_access :: bool

record GmpScanner =
  gsn_meta :: EntityMeta
  gsn_host :: "string option"
  gsn_port :: "u16 option"
  gsn_scanner_type :: "string option"
  gsn_credential :: "NamedEntity option"
  gsn_ca_pub :: "string option"

text \<open>\<open>severity_score()\<close> and \<open>cvss_base_score()\<close> of the library are read as fields.\<close>

record GmpResultNvt =
  gnv_oid :: string
  gnv_name :: "string option"
  gnv_family :: "string option"
  gnv_cvss_base_score :: "f64 option"
  gnv_cves :: "string list"
  gnv_tags :: "string option"

record GmpScanResult =
  grs_meta :: EntityMeta
  grs_host :: "string option"
  grs_port :: "string option"
  grs_severity_score :: "f64 option"
  grs_threat :: "string option"
  grs_nvt :: "GmpResultNvt option"
  grs_description :: "string option"
  grs_task :: "NamedEntity option"
  grs_report :: "NamedEntity option"

record GmpCredential =
  gcd_meta :: EntityMeta
  gcd_type :: "string option"
  gcd_login :: "string option"

record GmpCredentialStore =
  gcs_id :: "string option"
  gcs_name :: string
  gcs_type :: "string option"

record GmpUser =
  gus_meta :: EntityMeta
  gus_roles :: "NamedEntity list"
  gus_groups :: "NamedEntity list"
  gus_host_access :: "UserHostAccess option"
  gus_hosts :: "string option"
  gus_authentication_type :: "string option"

record GmpMembers =
  gmb_meta :: EntityMeta
  gmb_users :: "string list"

record GmpPermission =
  gpm_meta :: EntityMeta
  gpm_subject_type :: "string option"
  gpm_subject :: "NamedEntity option"
  gpm_resource_type :: "string option"
  gpm_resource :: "NamedEntity option"

record GmpUserSetting =
  gst_id :: string
  gst_name :: string
  gst_value :: "string option"
  gst_comment :: "string option"

record GmpHost =
  ghs_meta :: EntityMeta
  ghs_ip :: "string option"
  ghs_hostname :: "string option"
  ghs_severity :: "string option"
  ghs_os :: "string option"

record GmpOperatingSystemHost =
  goh_id :: string
  goh_name :: string
  goh_severity :: "string option"

record GmpOperatingSystem =
  gos_meta :: EntityMeta
  gos_value :: "string option"
  gos_hosts_count :: "u32 option"
  gos_severity :: "string option"
  gos_title :: string
  gos_installs :: u32
  gos_all_installs :: u32
  gos_latest_severity :: "string option"
  gos_highest_severity :: "string option"
  gos_average_severity :: "string option"
  gos_host_count :: u32
  gos_hosts :: "GmpOperatingSystemHost list"

record GmpAssetIdentifier =
  gai_name :: "string option"
  gai_value :: "string option"
  gai_source :: "string option"

text \<open>\<open>as_gmp_str()\<close> of the type of a generic asset is read as a field. The enum may grow.\<close>

record GmpGenericAsset =
  gga_meta :: EntityMeta
  gga_type :: "string option"
  gga_asset_type :: "string option"
  gga_value :: "string option"
  gga_identifiers :: "GmpAssetIdentifier list"
  gga_severity :: "string option"

datatype GmpAsset = HostAsset GmpHost | OperatingSystemAsset GmpOperatingSystem | GenericAssetOf GmpGenericAsset | OtherAsset

record GmpTlsCertificate =
  gtl_meta :: EntityMeta
  gtl_subject_dn :: "string option"
  gtl_issuer_dn :: "string option"
  gtl_activation_time :: "string option"
  gtl_expiration_time :: "string option"
  gtl_md5_fingerprint :: "string option"
  gtl_sha256_fingerprint :: "string option"
  gtl_certificate :: "string option"
  gtl_valid :: bool

record GmpReportFormat =
  grf_meta :: EntityMeta
  grf_content_type :: "string option"
  grf_extension :: "string option"
  grf_summary :: "string option"
  grf_trust :: "string option"
  grf_active :: bool
  grf_predefined :: bool

record GmpFilter =
  gfi_meta :: EntityMeta
  gfi_type :: "string option"
  gfi_term :: "string option"

record GmpTag =
  gtg_meta :: EntityMeta
  gtg_value :: "string option"
  gtg_resource_type :: "string option"
  gtg_resource_count :: "u32 option"
  gtg_active :: bool

record GmpTicket =
  gti_meta :: EntityMeta
  gti_status :: "string option"
  gti_assigned_to :: "NamedEntity option"
  gti_result :: "NamedEntity option"
  gti_task :: "NamedEntity option"
  gti_open_note :: "string option"
  gti_fixed_note :: "string option"
  gti_closed_note :: "string option"

record GmpNvtReference =
  gnr_oid :: string
  gnr_name :: "string option"
  gnr_type :: "string option"

record GmpNote =
  gno_meta :: EntityMeta
  gno_text :: "string option"
  gno_nvt :: "GmpNvtReference option"
  gno_hosts :: "string list"
  gno_port :: "string option"
  gno_severity :: "string option"
  gno_task :: "NamedEntity option"
  gno_result :: "NamedEntity option"
  gno_active :: bool
  gno_end_time :: "string option"

record GmpOverride =
  gov_meta :: EntityMeta
  gov_text :: "string option"
  gov_nvt :: "GmpNvtReference option"
  gov_hosts :: "string list"
  gov_port :: "string option"
  gov_severity :: "string option"
  gov_new_severity :: "string option"
  gov_task :: "NamedEntity option"
  gov_result :: "NamedEntity option"
  gov_active :: bool
  gov_end_time :: "string option"

record GmpNvt =
  gnt_oid :: string
  gnt_name :: string
  gnt_family :: "string option"
  gnt_cvss_base_score :: "f64 option"
  gnt_severity_score :: "f64 option"
  gnt_tags :: "string option"
  gnt_solution_type :: "string option"

record GmpNvtFamily =
  gnf_name :: string
  gnf_max_nvt_count :: "u32 option"

text \<open>Vulnerabilities, CVEs, CPEs and advisories are an identifier and a name.\<close>

record GmpSecInfo =
  gsi_id :: string
  gsi_name :: string

record GmpScanConfig =
  gsg_meta :: EntityMeta
  gsg_family_count :: "u32 option"
  gsg_nvt_count :: "u32 option"
  gsg_type :: "u32 option"
  gsg_usage_type :: "string option"

text \<open>\<open>as_gmp_str()\<close> of the usage type of a generic config is read as a field.\<close>

record GmpGenericConfig =
  ggc_meta :: EntityMeta
  ggc_type :: "u32 option"
  ggc_usage_type :: "string option"

record GmpPreferenceNvt =
  gpn_oid :: string
  gpn_name :: "string option"

record GmpPreference =
  gpr_nvt :: "GmpPreferenceNvt option"
  gpr_name :: string
  gpr_id :: "string option"
  gpr_type :: "string option"
  gpr_value :: "string option"
  gpr_alternatives :: "string list"
  gpr_default :: "string option"

record GmpAgent =
  gan_meta :: EntityMeta
  gan_authorized :: "bool option"
  gan_update_to_latest :: "bool option"
  gan_status :: "string option"
  gan_version :: "string option"
  gan_last_update_time :: "string option"
  gan_last_contact_time :: "string option"
  gan_scanner :: "NamedEntity option"
  gan_config :: "GmpAgentConfig option"

record GmpAgentGroup =
  gap_meta :: EntityMeta
  gap_scheduler_cron_time :: "string option"
  gap_agents :: "NamedEntity list"

record GmpAgentInstallerInstruction =
  gii_language :: string
  gii_instruction :: string

record GmpAgentSupportBundle =
  gsb_content :: "u8 list"
  gsb_content_type :: "string option"
  gsb_name :: string
  gsb_size :: "u32 option"
  gsb_encoding :: "string option"

record GmpReportResultCount =
  grc_full :: "u32 option"
  grc_high :: "u32 option option"
  grc_medium :: "u32 option option"
  grc_low :: "u32 option option"
  grc_log :: "u32 option option"
  grc_debug :: "u32 option option"
  grc_false_positive :: "u32 option option"

text \<open>The severity of a report is its full severity, if it has any.\<close>

record GmpReport =
  grp_meta :: EntityMeta
  grp_task :: "NamedEntity option"
  grp_scan_start :: "string option"
  grp_scan_end :: "string option"
  grp_severity :: "string option option"
  grp_result_count :: "GmpReportResultCount option"

record GmpReportExport =
  gre_bytes :: "u8 list"
  gre_content_type :: "string option"
  gre_extension :: "string option"

record GmpReportVulnerability =
  grv_id :: "string option"
  grv_name :: "string option"
  grv_host :: "string option"
  grv_port :: "string option"
  grv_severity :: "string option"
  grv_threat :: "string option"
  grv_nvt_oid :: "string option"
  grv_family :: "string option"
  grv_cves :: "string list"
  grv_hosts_count :: "u32 option"
  grv_occurrences :: "u32 option"

record GmpReportSummary =
  gry_id :: "string option"
  gry_name :: "string option"
  gry_severity :: "string option"

record GmpReportTlsCertificate =
  grt_id :: "string option"
  grt_name :: "string option"
  grt_host :: "string option"
  grt_port :: "string option"
  grt_subject :: "string option"
  grt_issuer :: "string option"
  grt_activation_time :: "string option"
  grt_expiration_time :: "string option"
  grt_sha256_fingerprint :: "string option"

record GmpReportError =
  gro_id :: "string option"
  gro_name :: "string option"
  gro_host :: "string option"
  gro_port :: "string option"
  gro_description :: "string option"
  gro_nvt_name :: "string option"

record GmpReportClosedCve =
  grl_id :: "string option"
  grl_name :: "string option"
  grl_host :: "string option"
  grl_severity :: "string option"
  grl_threat :: "string option"
  grl_nvt_oid :: "string option"
  grl_cve :: "string option"

end
