(* ===== verification/Resources.thy ===== *)
theory Resources
  imports Gmp Gmp_Answers "HOL-Library.List_Lexorder" "HOL-Library.Char_ord"
begin

text \<open>
  What the port operations of the other resources share: the order in which they look up the
  client of the session, wait for its lock and read their arguments
  (\<open>crates/gvm-gateway-gvmd/src/gvmd_adapter/ports\<close>), the queries and ports of
  \<open>crates/gvm-gateway-domain/src\<close> for resources that are listed, created, read, modified and
  deleted, and which commands each step may send.
\<close>

section \<open>Queries and ports\<close>

text \<open>
  The domain has one query type for each resource, all with these fields: \<open>AlertQuery\<close>,
  \<open>ScheduleQuery\<close>, \<open>CredentialQuery\<close> and so on.
\<close>

record ListQuery =
  lq_filter_string :: "string option"
  lq_filter_id :: "string option"
  lq_page :: u32
  lq_per_page :: u32

text \<open>
  The port of a resource, for the traits that have these five operations: items, inputs of
  creation and inputs of modification are the parameters.
\<close>

record ('s, 'a, 'c, 'm) CrudPort =
  cp_list :: "string \<Rightarrow> ListQuery \<Rightarrow> ('s, 'a Page) operation"
  cp_create :: "string \<Rightarrow> 'c \<Rightarrow> ('s, string) operation"
  cp_get :: "string \<Rightarrow> string \<Rightarrow> ('s, 'a) operation"
  cp_modify :: "string \<Rightarrow> string \<Rightarrow> 'm \<Rightarrow> ('s, 'a) operation"
  cp_delete :: "string \<Rightarrow> string \<Rightarrow> bool \<Rightarrow> ('s, unit) operation"

text \<open>The port of a resource that is listed and read only.\<close>

record ('s, 'a) ReadPort =
  rp_list :: "string \<Rightarrow> ListQuery \<Rightarrow> ('s, 'a Page) operation"
  rp_get :: "string \<Rightarrow> string \<Rightarrow> ('s, 'a) operation"

section \<open>The library for these resources\<close>

text \<open>
  How the client library reads the answers, and which texts it takes for an enumeration of its
  own: the value that is sent, if the text names one.
\<close>

record 'r ResourceLibrary =
  bl_alerts :: "'r \<Rightarrow> ParseError + GmpAlert Counted"
  bl_alert_event :: "string \<Rightarrow> string option"
  bl_alert_condition :: "string \<Rightarrow> string option"
  bl_alert_method :: "string \<Rightarrow> string option"
  bl_schedules :: "'r \<Rightarrow> ParseError + GmpSchedule Counted"
  bl_port_lists :: "'r \<Rightarrow> ParseError + GmpPortList Counted"
  bl_feeds :: "'r \<Rightarrow> ParseError + GmpFeeds"
  bl_feed_type :: "string \<Rightarrow> string option"
  bl_scanners :: "'r \<Rightarrow> ParseError + GmpScanner Counted"
  bl_results :: "'r \<Rightarrow> ParseError + GmpScanResult Counted"
  bl_credentials :: "'r \<Rightarrow> ParseError + GmpCredential Counted"
  bl_credential_stores :: "'r \<Rightarrow> ParseError + GmpCredentialStore list"
  bl_credential_type :: "string \<Rightarrow> string option"
  bl_snmp_auth_algorithm :: "string \<Rightarrow> string option"
  bl_snmp_privacy_algorithm :: "string \<Rightarrow> string option"
  bl_users :: "'r \<Rightarrow> ParseError + GmpUser Counted"
  bl_user_auth_type :: "string \<Rightarrow> string option"
  bl_groups :: "'r \<Rightarrow> ParseError + GmpMembers Counted"
  bl_roles :: "'r \<Rightarrow> ParseError + GmpMembers Counted"
  bl_permissions :: "'r \<Rightarrow> ParseError + GmpPermission Counted"
  bl_permission_subject_type :: "string \<Rightarrow> string option"
  bl_user_settings :: "'r \<Rightarrow> ParseError + GmpUserSetting list"
  bl_setting_modified :: "'r \<Rightarrow> ParseError + unit"
  bl_assets :: "'r \<Rightarrow> ParseError + GmpAsset Counted"
  bl_hosts :: "'r \<Rightarrow> ParseError + GmpHost Counted"
  bl_operating_systems :: "'r \<Rightarrow> ParseError + GmpOperatingSystem Counted"
  bl_tls_certificates :: "'r \<Rightarrow> ParseError + GmpTlsCertificate Counted"
  bl_report_formats :: "'r \<Rightarrow> ParseError + GmpReportFormat Counted"
  bl_filters :: "'r \<Rightarrow> ParseError + GmpFilter Counted"
  bl_filter_type :: "string \<Rightarrow> string option"
  bl_entity_type :: "string \<Rightarrow> string option"
  bl_tags :: "'r \<Rightarrow> ParseError + GmpTag Counted"
  bl_tickets :: "'r \<Rightarrow> ParseError + GmpTicket Counted"
  bl_notes :: "'r \<Rightarrow> ParseError + GmpNote Counted"
  bl_overrides :: "'r \<Rightarrow> ParseError + GmpOverride Counted"
  bl_nvts :: "'r \<Rightarrow> ParseError + GmpNvt Counted"
  bl_nvt_families :: "'r \<Rightarrow> ParseError + GmpNvtFamily Counted"
  bl_vulnerabilities :: "'r \<Rightarrow> ParseError + GmpSecInfo Counted"
  bl_cves :: "'r \<Rightarrow> ParseError + GmpSecInfo Counted"
  bl_cpes :: "'r \<Rightarrow> ParseError + GmpSecInfo Counted"
  bl_cert_bund_advisories :: "'r \<Rightarrow> ParseError + GmpSecInfo Counted"
  bl_dfn_cert_advisories :: "'r \<Rightarrow> ParseError + GmpSecInfo Counted"
  bl_configs :: "'r \<Rightarrow> ParseError + GmpGenericConfig Counted"
  bl_scan_configs :: "'r \<Rightarrow> ParseError + GmpScanConfig Counted"
  bl_preferences :: "'r \<Rightarrow> ParseError + GmpPreference list"
  bl_agents :: "'r \<Rightarrow> ParseError + GmpAgent Counted"
  bl_agent_groups :: "'r \<Rightarrow> ParseError + GmpAgentGroup Counted"
  bl_agent_installer_instruction :: "'r \<Rightarrow> ParseError + GmpAgentInstallerInstruction"
  bl_agent_support_bundle :: "'r \<Rightarrow> ParseError + GmpAgentSupportBundle"
  bl_reports :: "'r \<Rightarrow> ParseError + GmpReport Counted"
  bl_report_export :: "'r \<Rightarrow> ParseError + GmpReportExport"
  bl_report_vulnerabilities :: "'r \<Rightarrow> ParseError + GmpReportVulnerability Counted"
  bl_report_hosts :: "'r \<Rightarrow> ParseError + GmpReportSummary Counted"
  bl_report_ports :: "'r \<Rightarrow> ParseError + GmpReportSummary Counted"
  bl_report_applications :: "'r \<Rightarrow> ParseError + GmpReportSummary Counted"
  bl_report_operating_systems :: "'r \<Rightarrow> ParseError + GmpReportSummary Counted"
  bl_report_cves :: "'r \<Rightarrow> ParseError + GmpReportSummary Counted"
  bl_report_tls_certificates :: "'r \<Rightarrow> ParseError + GmpReportTlsCertificate Counted"
  bl_report_errors :: "'r \<Rightarrow> ParseError + GmpReportError Counted"
  bl_report_closed_cves :: "'r \<Rightarrow> ParseError + GmpReportClosedCve Counted"
  bl_parse_f64 :: "string \<Rightarrow> f64 option"

definition parse_known :: "string \<Rightarrow> (string \<Rightarrow> string option) \<Rightarrow> string \<Rightarrow> string result" where
  "parse_known name known v =
     (case known v of None \<Rightarrow> Inl (InvalidInput (''invalid '' @ name @ '': '' @ v)) | Some x \<Rightarrow> Inr x)"

section \<open>Steps of the adapter\<close>

text \<open>
  \<open>self.session_client(session_token)?\<close>, and \<open>client.lock().await?\<close> after it. The lock is given
  back when the statement ends.
\<close>

definition connected :: "(string \<Rightarrow> u8 list) \<Rightarrow> string \<Rightarrow> ('g Gvmd, SessionClient) operation" where
  "connected sha session_token w = (session_client sha session_token (gv_adapter w), w)"

definition locked :: "(string \<Rightarrow> u8 list) \<Rightarrow> string \<Rightarrow> ('g Gvmd, unit) operation" where
  "locked sha session_token =
     chain (connected sha session_token) (\<lambda>client.
       checked (fst (client_lock client)) (\<lambda>_. pure (Inr ())))"

text \<open>
  A command whose arguments are read after the lock is taken: the busy or missing session is
  reported before an argument that cannot be read.
\<close>

definition then_call ::
    "(string \<Rightarrow> u8 list) \<Rightarrow> string \<Rightarrow> 'c result \<Rightarrow> ('c \<Rightarrow> ('g Gvmd, 'a) operation) \<Rightarrow> ('g Gvmd, 'a) operation" where
  "then_call sha session_token command send =
     chain (locked sha session_token) (\<lambda>_. checked command send)"

text \<open>
  The listing: the filter of the query and the saved filter it names become the filter of the
  command, and the answer is one page with the total of the backend. The identifier of the
  saved filter is read before or after the session is looked up.
\<close>

definition list_filtered ::
    "(string \<Rightarrow> u8 list) \<Rightarrow> ('r, 'g, 'f) GmpLibrary \<Rightarrow> string option \<Rightarrow> string list \<Rightarrow> (string option \<Rightarrow> GmpCommand)
      \<Rightarrow> ('r \<Rightarrow> ParseError + 'i Counted) \<Rightarrow> ('i \<Rightarrow> 'a) \<Rightarrow> string \<Rightarrow> ListQuery \<Rightarrow> ('g Gvmd, 'a Page) operation" where
  "list_filtered sha L prefix reserved_terms command from_response convert session_token query =
     checked (map_transpose (parse_filter_id L) (lq_filter_id query)) (\<lambda>filter_id.
     chain (paginated_filter_resolving_filter_id sha L session_token prefix (lq_filter_string query) filter_id
              (lq_page query) (lq_per_page query) reserved_terms) (\<lambda>filter_string.
     chain (fetch_items sha L session_token (command filter_string) from_response convert) (\<lambda>(items, total).
       pure (Inr (items, paged_pagination total (lq_page query) (lq_per_page query))))))"

definition list_resources ::
    "(string \<Rightarrow> u8 list) \<Rightarrow> ('r, 'g, 'f) GmpLibrary \<Rightarrow> string option \<Rightarrow> string list \<Rightarrow> (string option \<Rightarrow> GmpCommand)
      \<Rightarrow> ('r \<Rightarrow> ParseError + 'i Counted) \<Rightarrow> ('i \<Rightarrow> 'a) \<Rightarrow> string \<Rightarrow> ListQuery \<Rightarrow> ('g Gvmd, 'a Page) operation" where
  "list_resources sha L prefix reserved_terms command from_response convert session_token query =
     chain (connected sha session_token) (\<lambda>_.
       list_filtered sha L prefix reserved_terms command from_response convert session_token query)"

text \<open>Reading the item with an identifier, and deleting it.\<close>

definition get_one ::
    "(string \<Rightarrow> u8 list) \<Rightarrow> ('r, 'g, 'f) GmpLibrary \<Rightarrow> (string \<Rightarrow> GmpCommand) \<Rightarrow> ('r \<Rightarrow> ParseError + 'i Counted) \<Rightarrow> ('i \<Rightarrow> 'a)
      \<Rightarrow> string \<Rightarrow> string \<Rightarrow> string \<Rightarrow> ('g Gvmd, 'a) operation" where
  "get_one sha L command from_response convert kind session_token ident =
     then_call sha session_token (parse_entity_id L ident) (\<lambda>entity_id.
       fetch_first sha L session_token (command entity_id) from_response convert (kind @ '' '' @ ident @ '' not found''))"

definition delete_one ::
    "(string \<Rightarrow> u8 list) \<Rightarrow> ('r, 'g, 'f) GmpLibrary \<Rightarrow> (string \<Rightarrow> GmpCommand) \<Rightarrow> string \<Rightarrow> string \<Rightarrow> ('g Gvmd, unit) operation" where
  "delete_one sha L command session_token ident =
     then_call sha session_token (parse_entity_id L ident) (\<lambda>entity_id.
       call_action sha L session_token (command entity_id))"

text \<open>Modifying an item and reading it back.\<close>

definition modify_and_get ::
    "(string \<Rightarrow> u8 list) \<Rightarrow> ('r, 'g, 'f) GmpLibrary \<Rightarrow> GmpCommand result \<Rightarrow> string \<Rightarrow> ('g Gvmd, 'a) operation
      \<Rightarrow> ('g Gvmd, 'a) operation" where
  "modify_and_get sha L command session_token read_back =
     chain (then_call sha session_token command (call_action sha L session_token)) (\<lambda>_. read_back)"

section \<open>Which commands the steps send\<close>

lemma speaks_connected [speaks]: "speaks_for d (connected sha session_token)"
  by (simp add: speaks_for_def connected_def spoke_for_refl)

lemma speaks_steps [speaks]:
  "speaks_for d (locked sha session_token)"
  "(\<And>c. speaks_for d (send c)) \<Longrightarrow> speaks_for d (then_call sha session_token command send)"
  unfolding locked_def then_call_def by (intro speaks; simp)+

lemma speaks_resources [speaks]:
  "d = from_token sha session_token \<Longrightarrow>
     speaks_for d (list_filtered sha L prefix reserved_terms command from_response convert session_token query)"
  "d = from_token sha session_token \<Longrightarrow>
     speaks_for d (list_resources sha L prefix reserved_terms command from_response convert session_token query)"
  "d = from_token sha session_token \<Longrightarrow> speaks_for d (get_one sha L get_command from_response convert kind session_token ident)"
  "d = from_token sha session_token \<Longrightarrow> speaks_for d (delete_one sha L get_command session_token ident)"
  "d = from_token sha session_token \<Longrightarrow> speaks_for d read_back \<Longrightarrow>
     speaks_for d (modify_and_get sha L modify_command session_token read_back)"
  unfolding list_filtered_def list_resources_def get_one_def delete_one_def modify_and_get_def
  by (auto intro!: speaks split: prod.split)

text \<open>Looking a session up and waiting for its lock send nothing.\<close>

lemma connected_cases:
  "snd (connected sha session_token w) = w" "snd (locked sha session_token w) = w"
  by (auto simp: connected_def locked_def chain_def checked_def pure_def split: prod.splits sum.splits)

lemma then_call_cases:
  "(\<exists>e. then_call sha session_token command send w = (Inl e, w))
     \<or> (\<exists>c. command = Inr c \<and> then_call sha session_token command send w = send c w)"
  using connected_cases(2) [of sha session_token w]
  by (cases "locked sha session_token w"; cases command) (auto simp: then_call_def chain_def split: sum.split)

end
