(* ===== verification/Rest_Resources.thy ===== *)
theory Rest_Resources
  imports Resources Rest_Base
begin

text \<open>
  What the endpoints of the other resources share: their list queries, the checks of their
  request bodies, and what a request for one of them may do. The handlers are instances of the
  generic handlers of \<open>crates/gvm-gateway-rest/src/handler.rs\<close>; those that are written out in the
  code have the same steps in the same order.
\<close>

section \<open>Queries and checks\<close>

definition list_query ::
    "(string \<Rightarrow> (string \<times> string) list) \<Rightarrow> (string \<Rightarrow> string option) \<Rightarrow> string \<Rightarrow> ListQuery result" where
  "list_query decode uuid query =
     and_then (collection_list_query decode (\<lambda>s. uuid s \<noteq> None) query) (\<lambda>parsed.
       Inr \<lparr>lq_filter_string = cl_filter_string parsed, lq_filter_id = cl_filter_id parsed,
            lq_page = cl_page parsed, lq_per_page = cl_per_page parsed\<rparr>)"

text \<open>A text that must not be blank, and one that must be given and not be blank.\<close>

definition not_blank :: "string \<Rightarrow> string \<Rightarrow> unit result" where
  "not_blank field v = (if trim v = [] then Inl (InvalidInput (field @ '' is required'')) else Inr ())"

definition required_text :: "string \<Rightarrow> string option \<Rightarrow> string result" where
  "required_text field v =
     (case v of
        None \<Rightarrow> Inl (InvalidInput (field @ '' is required''))
      | Some s \<Rightarrow> if trim s = [] then Inl (InvalidInput (field @ '' is required'')) else Inr s)"

lemma not_blank_ok: "not_blank field v = Inr u \<longleftrightarrow> trim v \<noteq> []"
  by (auto simp: not_blank_def)

lemma required_text_ok: "required_text field v = Inr s \<longleftrightarrow> v = Some s \<and> trim s \<noteq> []"
  by (auto simp: required_text_def split: option.splits)

text \<open>The same reader appears under the names \<open>require_name\<close> and \<open>require_nvt_oid\<close>.\<close>

lemma required_name_text: "required_name v = required_text ''name'' v"
  by (simp add: required_name_def required_text_def split: option.split)

lemmas body_checks = uuid_and_name_checks not_blank_ok required_text_ok

section \<open>Routes of a resource\<close>

text \<open>The routes of a resource that is listed, created, read, modified and deleted.\<close>

datatype (plugins only: code size) CrudRoute = ListAll | PostNew | GetBy string | PutBy string | DeleteBy string

text \<open>A request that does nothing but what its own session may do.\<close>

definition acts_for_own_session ::
    "(string \<Rightarrow> u8 list) \<Rightarrow> u64 \<Rightarrow> Request \<Rightarrow> 'g Gvmd GatewayService \<Rightarrow> nat \<times> 'g Gvmd GatewayService \<Rightarrow> bool" where
  "acts_for_own_session sha now q sv result \<longleftrightarrow>
     (let (status, sv') = result
      in case bearer_token (rq_headers q) of
           Inl e \<Rightarrow> sv' = sv \<and> \<not> is_success status
         | Inr token \<Rightarrow> own_session sha now token sv (is_success status, sv'))"

lemma acts_answered:
  "within_token (own_session sha now) q sv rw \<Longrightarrow> acts_for_own_session sha now q sv (answered rw)"
  unfolding acts_for_own_session_def by (rule within_answered)

lemma within_authenticated [within]:
  "(\<And>token. R token w (False, w)) \<Longrightarrow> (\<And>token. R token w (outcome (operation token w))) \<Longrightarrow>
     within_token R q w (authenticated_resource operation to_dto q w)"
  by (auto simp: within_simps authenticated_resource_def split: sum.split)

lemma within_create_with_error [within]:
  "(\<And>token. R token w (False, w)) \<Longrightarrow> (\<And>token input. R token w (outcome (operation token input w))) \<Longrightarrow>
     within_token R q w (create_resource_with_json_error map_error uuid from_slice validate_into operation q w)"
  by (auto simp: within_simps create_resource_with_json_error_def split: sum.split)

lemma within_update_with_error [within]:
  "(\<And>token. R token w (False, w)) \<Longrightarrow> (\<And>token input. R token w (outcome (operation token ident input w))) \<Longrightarrow>
     within_token R q w (update_resource_with_json_error map_error uuid from_slice validate_into operation to_dto ident q w)"
  by (auto simp: within_simps update_resource_with_json_error_def split: sum.split)

lemmas own_session_rules = own_session_refl own_session_use_port

end
