(* ===== verification/Sent_Commands.thy ===== *)
theory Sent_Commands
  imports Rest_Resources
begin

text \<open>
  Methods of the client library that send a command and read its answer themselves, and which
  commands an operation may send, at a state: the list of sent commands grows by commands of
  one session that satisfy a predicate. The rules follow the composition of the operations.
\<close>

section \<open>Methods of the client\<close>

text \<open>
  A method of the client that sends a command and reads its answer, under the lock of the
  session like \<open>call\<close>, with the error it gives converted by \<open>map_error\<close>.
\<close>

definition client_method ::
    "(GvmError \<Rightarrow> GatewayError) \<Rightarrow> (string \<Rightarrow> u8 list) \<Rightarrow> ('r, 'g, 'f) GmpLibrary \<Rightarrow> string \<Rightarrow> GmpCommand
      \<Rightarrow> ('r \<Rightarrow> ParseError + 'a) \<Rightarrow> ('g Gvmd, 'a) operation" where
  "client_method map_error sha L session_token command from_response w =
     (case and_then (session_client sha session_token (gv_adapter w)) (\<lambda>client. fst (client_lock client)) of
        Inl e \<Rightarrow> (Inl e, w)
      | Inr _ \<Rightarrow>
          let d = from_token sha session_token;
              (answer, daemon) = lb_call L d command (gv_daemon w);
              w = w\<lparr>gv_daemon := daemon, gv_sent := gv_sent w @ [(d, command)]\<rparr>
          in (case answer of
                Inl e \<Rightarrow> (Inl (map_error e), w)
              | Inr response \<Rightarrow>
                  (case from_response response of
                     Inl e \<Rightarrow> (Inl (map_error (GvmParse e)), w)
                   | Inr v \<Rightarrow> (Inr v, w))))"

lemma speaks_client_method [speaks]:
  "d = from_token sha session_token \<Longrightarrow> speaks_for d (client_method map_error sha L session_token command from_response)"
  by (auto simp: speaks_for_def spoke_for_def client_method_def session_client_def Let_def and_then_def one_command
      split: prod.splits sum.splits option.splits if_splits)

section \<open>Sent commands\<close>

definition sends_at :: "SessionTokenDigest \<Rightarrow> (GmpCommand \<Rightarrow> bool) \<Rightarrow> ('g Gvmd, 'a) operation \<Rightarrow> 'g Gvmd \<Rightarrow> bool" where
  "sends_at d P m w \<longleftrightarrow>
     (\<exists>commands. gv_sent (snd (m w)) = gv_sent w @ map (Pair d) commands \<and> list_all P commands)"

named_theorems sends

lemma sends_pure [sends]: "sends_at d P (pure r) w"
  by (simp add: sends_at_def pure_def)

lemma sends_chain_at:
  assumes "sends_at d P m w" and "\<And>x w'. m w = (Inr x, w') \<Longrightarrow> sends_at d P (f x) w'"
  shows "sends_at d P (chain m f) w"
proof (cases "m w")
  case (Pair r w')
  obtain cs where cs: "gv_sent w' = gv_sent w @ map (Pair d) cs" "list_all P cs"
    using assms(1) Pair by (auto simp: sends_at_def)
  show ?thesis
  proof (cases r)
    case (Inl e)
    then show ?thesis using cs Pair by (auto simp: sends_at_def chain_def)
  next
    case (Inr x)
    obtain cs' where "gv_sent (snd (f x w')) = gv_sent w' @ map (Pair d) cs'" "list_all P cs'"
      using assms(2) Pair Inr by (auto simp: sends_at_def)
    then show ?thesis
      using cs Pair Inr by (auto simp: sends_at_def chain_def intro!: exI [of _ "cs @ cs'"])
  qed
qed

lemma sends_chain [sends]:
  "sends_at d P m w \<Longrightarrow> (\<And>x w'. sends_at d P (f x) w') \<Longrightarrow> sends_at d P (chain m f) w"
  by (rule sends_chain_at)

lemma sends_checked_at: "(\<And>x. r = Inr x \<Longrightarrow> sends_at d P (f x) w) \<Longrightarrow> sends_at d P (checked r f) w"
  by (cases r) (simp_all add: sends_at_def)

lemma sends_checked [sends]: "(\<And>x. sends_at d P (f x) w) \<Longrightarrow> sends_at d P (checked r f) w"
  by (rule sends_checked_at)

lemma sends_if [sends]: "(b \<Longrightarrow> sends_at d P m w) \<Longrightarrow> (\<not> b \<Longrightarrow> sends_at d P m' w) \<Longrightarrow> sends_at d P (if b then m else m') w"
  by simp

lemma sends_call [sends]:
  "d = from_token sha session_token \<Longrightarrow> P command \<Longrightarrow> sends_at d P (call sha L session_token command) w"
  using call_sent [of sha L session_token command w]
  by (auto simp: sends_at_def intro: exI [of _ "[command]"])

lemma sends_connected [sends]: "sends_at d P (connected sha session_token) w" "sends_at d P (locked sha session_token) w"
  by (simp_all add: sends_at_def connected_cases)

lemma sends_then_call_at:
  "(\<And>c. command = Inr c \<Longrightarrow> sends_at d P (send c) w) \<Longrightarrow> sends_at d P (then_call sha session_token command send) w"
  using then_call_cases [of sha session_token command send w] by (auto simp: sends_at_def)

lemma sends_then_call [sends]:
  "(\<And>c. sends_at d P (send c) w) \<Longrightarrow> sends_at d P (then_call sha session_token command send) w"
  by (rule sends_then_call_at)

lemma sends_fetch [sends]:
  "d = from_token sha session_token \<Longrightarrow> P command \<Longrightarrow> sends_at d P (call_create sha L session_token command) w"
  "d = from_token sha session_token \<Longrightarrow> P command \<Longrightarrow> sends_at d P (call_action sha L session_token command) w"
  "d = from_token sha session_token \<Longrightarrow> P command \<Longrightarrow> sends_at d P (fetch_first sha L session_token command reader convert missing) w"
  "d = from_token sha session_token \<Longrightarrow> P command \<Longrightarrow> sends_at d P (fetch_items sha L session_token command reader convert) w"
  unfolding call_create_def call_action_def fetch_first_def fetch_items_def Let_def
  by (intro sends; simp)+

lemma sends_get_one [sends]:
  "d = from_token sha session_token \<Longrightarrow> (\<And>ident. P (command ident)) \<Longrightarrow>
     sends_at d P (get_one sha L command reader convert kind session_token ident) w"
  unfolding get_one_def by (intro sends)

lemma sends_modify_and_get:
  "d = from_token sha session_token \<Longrightarrow> (\<And>c. command = Inr c \<Longrightarrow> P c) \<Longrightarrow> (\<And>w. sends_at d P read_back w) \<Longrightarrow>
     sends_at d P (modify_and_get sha L command session_token read_back) w"
  unfolding modify_and_get_def by (intro sends_chain sends_then_call_at sends_fetch)

lemma connected_client:
  "connected sha session_token w = (Inr client, w') \<Longrightarrow>
     w' = w \<and> map_of (ga_sessions (gv_adapter w)) (from_token sha session_token) = Some client"
  by (auto simp: connected_def session_client_def split: if_splits option.splits)

text \<open>
  An operation that is one command: it is refused and sends nothing, or it sends exactly one
  command, which satisfies a predicate.
\<close>

definition sends_one :: "SessionTokenDigest \<Rightarrow> (GmpCommand \<Rightarrow> bool) \<Rightarrow> ('g Gvmd, 'a) operation \<Rightarrow> 'g Gvmd \<Rightarrow> bool" where
  "sends_one d P m w \<longleftrightarrow>
     gv_sent (snd (m w)) = gv_sent w \<and> \<not> is_ok (fst (m w))
     \<or> (\<exists>command. P command \<and> gv_sent (snd (m w)) = gv_sent w @ [(d, command)])"

lemma sends_one_checked: "(\<And>x. r = Inr x \<Longrightarrow> sends_one d P (f x) w) \<Longrightarrow> sends_one d P (checked r f) w"
  by (cases r) (simp_all add: sends_one_def)

lemma sends_one_connected:
  "(\<And>client. map_of (ga_sessions (gv_adapter w)) (from_token sha session_token) = Some client \<Longrightarrow> sends_one d P (f client) w) \<Longrightarrow>
     sends_one d P (chain (connected sha session_token) f) w"
  using connected_client [of sha session_token w] connected_cases(1) [of sha session_token w]
  by (cases "connected sha session_token w") (auto simp: sends_one_def chain_def split: sum.split)

lemma sends_one_then_call:
  "(\<And>c. command = Inr c \<Longrightarrow> sends_one d P (send c) w) \<Longrightarrow> sends_one d P (then_call sha session_token command send) w"
  using then_call_cases [of sha session_token command send w] by (auto simp: sends_one_def)

lemma sends_one_create:
  "d = from_token sha session_token \<Longrightarrow> P command \<Longrightarrow> sends_one d P (call_create sha L session_token command) w"
  using call_sent [of sha L session_token command w]
  by (auto simp: sends_one_def call_create_def chain_def pure_def split: prod.splits sum.splits)

lemma sends_one_action:
  "d = from_token sha session_token \<Longrightarrow> P command \<Longrightarrow> sends_one d P (call_action sha L session_token command) w"
  using call_action_sent [of sha L session_token command w] by (auto simp: sends_one_def)

lemmas sends_one_rules = sends_one_connected sends_one_checked sends_one_then_call sends_one_create sends_one_action

end
