(* ===== verification/Steps.thy ===== *)
theory Steps
  imports Sent_Commands
begin

text \<open>
  What an operation of the adapter can answer, in rules that follow its composition, and the
  steps of the handlers of \<open>crates/gvm-gateway-rest/src\<close> that check more than the generic
  handlers of \<open>handler.rs\<close> do: each check answers with its error or goes on.
\<close>

section \<open>Filters without a saved one\<close>

definition paginated_filter ::
    "'f FilterBuilder \<Rightarrow> string option \<Rightarrow> string option \<Rightarrow> u32 \<Rightarrow> u32 \<Rightarrow> string list \<Rightarrow> string option result" where
  "paginated_filter F prefix filter_string page per_page reserved_terms =
     (let f = (case prefix of Some p \<Rightarrow> fb_with_clause F p (fb_new F) | None \<Rightarrow> fb_new F)
      in case fb_try_with_filter_string F filter_string reserved_terms f of
           Inl reserved \<Rightarrow> Inl (InvalidInput (''filter contains reserved term '' @ [CHR 0x27] @ reserved @ [CHR 0x27]))
         | Inr f \<Rightarrow> Inr (fb_build F (fb_with_pagination F page per_page f)))"

section \<open>Answers of operations\<close>

definition returns :: "('a \<Rightarrow> bool) \<Rightarrow> ('w, 'a) operation \<Rightarrow> bool" where
  "returns Q m \<longleftrightarrow> (\<forall>w x. fst (m w) = Inr x \<longrightarrow> Q x)"

lemma returns_pure: "(\<And>x. r = Inr x \<Longrightarrow> Q x) \<Longrightarrow> returns Q (pure r)"
  by (simp add: returns_def pure_def)

lemma returns_chain: "returns P m \<Longrightarrow> (\<And>x. P x \<Longrightarrow> returns Q (f x)) \<Longrightarrow> returns Q (chain m f)"
  unfolding returns_def chain_def by (auto split: prod.splits sum.splits) (metis fst_conv)

lemma returns_after: "(\<And>x. returns Q (f x)) \<Longrightarrow> returns Q (chain m f)"
  by (rule returns_chain [where P = "\<lambda>_. True"]) (simp_all add: returns_def)

lemma returns_checked: "(\<And>x. r = Inr x \<Longrightarrow> returns Q (f x)) \<Longrightarrow> returns Q (checked r f)"
  by (cases r) (simp_all add: returns_def)

lemma returns_if: "(b \<Longrightarrow> returns Q m) \<Longrightarrow> (\<not> b \<Longrightarrow> returns Q m') \<Longrightarrow> returns Q (if b then m else m')"
  by simp

lemma returns_prod: "(\<And>x y. p = (x, y) \<Longrightarrow> returns Q (f x y)) \<Longrightarrow> returns Q (case p of (x, y) \<Rightarrow> f x y)"
  by (cases p) simp

lemma returns_then_call: "(\<And>c. returns Q (send c)) \<Longrightarrow> returns Q (then_call sha session_token command send)"
  unfolding then_call_def by (intro returns_after returns_checked)

lemma returns_case: "returns Q m \<Longrightarrow> (case fst (m w) of Inl e \<Rightarrow> True | Inr x \<Rightarrow> Q x)"
  by (auto simp: returns_def split: sum.split)

section \<open>Steps of handlers\<close>

text \<open>
  A check before the rest of a handler, and the end of a handler that answers without a body.
\<close>

definition after_check ::
    "'a result \<Rightarrow> ('a \<Rightarrow> Request \<Rightarrow> 'w \<Rightarrow> 'j Response \<times> 'w) \<Rightarrow> Request \<Rightarrow> 'w \<Rightarrow> 'j Response \<times> 'w" where
  "after_check r handler q w =
     (case r of Inl e \<Rightarrow> (gateway_error e (rq_path q), w) | Inr x \<Rightarrow> handler x q w)"

definition after_query ::
    "(string \<Rightarrow> 'a result) \<Rightarrow> ('a \<Rightarrow> Request \<Rightarrow> 'w \<Rightarrow> 'j Response \<times> 'w) \<Rightarrow> Request \<Rightarrow> 'w \<Rightarrow> 'j Response \<times> 'w" where
  "after_query parse handler q w = after_check (parse (query_text q)) handler q w"

definition after_body ::
    "(u8 list \<Rightarrow> 'a result) \<Rightarrow> ('a \<Rightarrow> Request \<Rightarrow> 'w \<Rightarrow> 'j Response \<times> 'w) \<Rightarrow> Request \<Rightarrow> 'w \<Rightarrow> 'j Response \<times> 'w" where
  "after_body parse handler q w = after_check (parse (rq_body q)) handler q w"

definition authenticated_command ::
    "(string \<Rightarrow> 'w \<Rightarrow> unit result \<times> 'w) \<Rightarrow> Request \<Rightarrow> 'w \<Rightarrow> 'j RestBody Response \<times> 'w" where
  "authenticated_command operation q w =
     (case bearer_token (rq_headers q) of
        Inl e \<Rightarrow> (gateway_error e (rq_path q), w)
      | Inr session \<Rightarrow> respond q (\<lambda>_. no_content) (operation session w))"

text \<open>Handlers that read the token first, then the query or the body.\<close>

definition authenticated_query ::
    "(string \<Rightarrow> 'q result) \<Rightarrow> (string \<Rightarrow> 'q \<Rightarrow> 'w \<Rightarrow> 'a result \<times> 'w) \<Rightarrow> ('a \<Rightarrow> 'j RestBody Response)
      \<Rightarrow> Request \<Rightarrow> 'w \<Rightarrow> 'j RestBody Response \<times> 'w" where
  "authenticated_query parse operation answer q w =
     (case bearer_token (rq_headers q) of
        Inl e \<Rightarrow> (gateway_error e (rq_path q), w)
      | Inr session \<Rightarrow>
          (case parse (query_text q) of
             Inl e \<Rightarrow> (gateway_error e (rq_path q), w)
           | Inr query \<Rightarrow> respond q answer (operation session query w)))"

definition authenticated_body ::
    "(u8 list \<Rightarrow> 'i result) \<Rightarrow> (string \<Rightarrow> 'i \<Rightarrow> 'w \<Rightarrow> unit result \<times> 'w) \<Rightarrow> Request \<Rightarrow> 'w \<Rightarrow> 'j RestBody Response \<times> 'w" where
  "authenticated_body parse operation q w =
     (case bearer_token (rq_headers q) of
        Inl e \<Rightarrow> (gateway_error e (rq_path q), w)
      | Inr session \<Rightarrow>
          (case parse (rq_body q) of
             Inl e \<Rightarrow> (gateway_error e (rq_path q), w)
           | Inr input \<Rightarrow> respond q (\<lambda>_. no_content) (operation session input w)))"

lemma within_steps [within]:
  "(\<And>token. R token w (False, w)) \<Longrightarrow> (\<And>x. within_token R q w (handler x q w)) \<Longrightarrow>
     within_token R q w (after_check r handler q w)"
  "(\<And>token. R token w (False, w)) \<Longrightarrow> (\<And>x. within_token R q w (handler x q w)) \<Longrightarrow>
     within_token R q w (after_query parse handler q w)"
  "(\<And>token. R token w (False, w)) \<Longrightarrow> (\<And>x. within_token R q w (handler x q w)) \<Longrightarrow>
     within_token R q w (after_body parse' handler q w)"
  "(\<And>token. R token w (False, w)) \<Longrightarrow> (\<And>token. R token w (outcome (operation token w))) \<Longrightarrow>
     within_token R q w (authenticated_command operation q w)"
  by (auto simp: within_simps after_check_def after_query_def after_body_def authenticated_command_def split: sum.split)

lemma within_query_and_body [within]:
  "(\<And>token. R token w (False, w)) \<Longrightarrow> (\<And>token x. R token w (outcome (operation token x w))) \<Longrightarrow>
     (\<And>v. is_success (rp_status (answer v))) \<Longrightarrow> within_token R q w (authenticated_query parse operation answer q w)"
  "(\<And>token. R token w (False, w)) \<Longrightarrow> (\<And>token x. R token w (outcome (operation' token x w))) \<Longrightarrow>
     within_token R q w (authenticated_body parse' operation' q w)"
  by (auto simp: within_simps authenticated_query_def authenticated_body_def split: sum.split)

end
