(* ===== verification/Supporting.thy ===== *)
theory Supporting
  imports Steps "HOL-Library.Product_Lexorder" "HOL-Library.Option_ord"
begin

text \<open>
  What the supporting resources share (\<open>supporting_resources.rs\<close> of the crates): their metadata,
  query keys of their own, and references to vulnerability tests.
\<close>

section \<open>Metadata\<close>

record SupportingResourceMeta =
  sm_id :: string
  sm_name :: string
  sm_comment :: "string option"
  sm_creation_time :: "string option"
  sm_modification_time :: "string option"
  sm_writable :: bool
  sm_in_use :: bool

definition supporting_meta_from_gmp :: "EntityMeta \<Rightarrow> SupportingResourceMeta" where
  "supporting_meta_from_gmp x =
     \<lparr>sm_id = em_id x, sm_name = em_name x, sm_comment = em_comment x,
       sm_creation_time = em_creation_time x, sm_modification_time = em_modification_time x,
       sm_writable = em_writable x, sm_in_use = em_in_use x\<rparr>"

record SupportingResourceMetaResponse =
  smr_id :: string
  smr_name :: string
  smr_comment :: "string option"
  smr_creation_time :: "string option"
  smr_modification_time :: "string option"
  smr_writable :: bool
  smr_in_use :: bool

definition supporting_resource_meta_response :: "(string \<Rightarrow> string option) \<Rightarrow> SupportingResourceMeta \<Rightarrow> SupportingResourceMetaResponse" where
  "supporting_resource_meta_response uuid x =
     \<lparr>smr_id = parse_uuid uuid (sm_id x), smr_name = sm_name x, smr_comment = sm_comment x,
       smr_creation_time = sm_creation_time x, smr_modification_time = sm_modification_time x,
       smr_writable = sm_writable x, smr_in_use = sm_in_use x\<rparr>"

section \<open>Query keys\<close>

text \<open>The last value of a parameter; none of its values may be blank.\<close>

fun open_query_value :: "string \<Rightarrow> string option \<Rightarrow> (string \<times> string) list \<Rightarrow> string option result" where
  "open_query_value parameter found [] = Inr found"
| "open_query_value parameter found ((key, v) # pairs) =
     (if key = parameter then
        (if trim v = [] then Inl (InvalidInput (parameter @ '' must not be empty''))
         else open_query_value parameter (Some v) pairs)
      else open_query_value parameter found pairs)"

section \<open>References to vulnerability tests\<close>

record NvtRef =
  nv_oid :: "string option"
  nv_name :: "string option"
  nv_family :: "string option"
  nv_cvss_base :: "f64 option"
  nv_cves :: "string list"
  nv_tags :: "string option"

record NvtRefResponse =
  nvr_oid :: "string option"
  nvr_name :: "string option"
  nvr_family :: "string option"
  nvr_cvss_base :: "f64 option"
  nvr_cves :: "string list"
  nvr_tags :: "string option"

definition nvt_ref_response :: "NvtRef \<Rightarrow> NvtRefResponse" where
  "nvt_ref_response n =
     \<lparr>nvr_oid = nv_oid n, nvr_name = nv_name n, nvr_family = nv_family n,
       nvr_cvss_base = nv_cvss_base n, nvr_cves = nv_cves n, nvr_tags = nv_tags n\<rparr>"

end
