(* ===== verification/Assets.thy ===== *)
theory Assets
  imports Supporting
begin

text \<open>
  Assets, from the request to the command: hosts, operating systems and TLS certificates of
  \<open>supporting_resources.rs\<close> and the generic assets of \<open>generic_resources.rs\<close> of the crates
  \<open>gvm-gateway-domain\<close>, \<open>gvm-gateway-gvmd\<close> (under \<open>gvmd_adapter/ports\<close>), \<open>gvm-gateway-app\<close> and
  \<open>gvm-gateway-rest\<close>. Texts are compared by their bytes, an absent text is the smallest.
\<close>

section \<open>Domain\<close>

record Host =
  hs_meta :: SupportingResourceMeta
  hs_ip :: "string option"
  hs_hostname :: "string option"
  hs_severity :: "string option"
  hs_os :: "string option"

record CreateHostInput =
  hci_value :: string
  hci_comment :: "string option"

record ModifyHostInput =
  hmi_comment :: "string option"

record OperatingSystemHost =
  oh_id :: string
  oh_name :: string
  oh_severity :: "string option"

record OperatingSystem =
  os_meta :: SupportingResourceMeta
  os_value :: "string option"
  os_hosts_count :: "u32 option"
  os_severity :: "string option"
  os_title :: string
  os_installs :: u32
  os_all_installs :: u32
  os_latest_severity :: "string option"
  os_highest_severity :: "string option"
  os_average_severity :: "string option"
  os_host_count :: u32
  os_hosts :: "OperatingSystemHost list"

record ModifyOperatingSystemInput =
  osi_comment :: "string option"

record TlsCertificateAsset =
  tl_meta :: SupportingResourceMeta
  tl_subject_dn :: "string option"
  tl_issuer_dn :: "string option"
  tl_activation_time :: "string option"
  tl_expiration_time :: "string option"
  tl_md5_fingerprint :: "string option"
  tl_sha256_fingerprint :: "string option"
  tl_certificate :: "string option"
  tl_valid :: bool

record AssetQuery = ListQuery +
  aq_asset_type :: string

record ModifyAssetInput =
  mai_comment :: "string option"

record AssetIdentifier =
  ai_name :: "string option"
  ai_value :: "string option"
  ai_source :: "string option"

record AssetHost =
  ah_id :: string
  ah_name :: string
  ah_severity :: "string option"

record GenericAsset =
  gna_meta :: SupportingResourceMeta
  gna_asset_type :: string
  gna_value :: "string option"
  gna_identifiers :: "AssetIdentifier list"
  gna_severity :: "string option"
  gna_ip :: "string option"
  gna_hostname :: "string option"
  gna_os :: "string option"
  gna_hosts_count :: "u32 option"
  gna_title :: "string option"
  gna_installs :: "u32 option"
  gna_all_installs :: "u32 option"
  gna_latest_severity :: "string option"
  gna_highest_severity :: "string option"
  gna_average_severity :: "string option"
  gna_host_count :: "u32 option"
  gna_hosts :: "AssetHost list"

record 's AssetPort =
  ap_list_assets :: "string \<Rightarrow> AssetQuery \<Rightarrow> ('s, GenericAsset Page) operation"
  ap_get_asset :: "string \<Rightarrow> string \<Rightarrow> string \<Rightarrow> ('s, GenericAsset) operation"
  ap_modify_asset :: "string \<Rightarrow> string \<Rightarrow> string \<Rightarrow> ModifyAssetInput \<Rightarrow> ('s, GenericAsset) operation"
  ap_delete_asset :: "string \<Rightarrow> string \<Rightarrow> ('s, unit) operation"
  ap_list_hosts :: "string \<Rightarrow> ListQuery \<Rightarrow> ('s, Host Page) operation"
  ap_get_host :: "string \<Rightarrow> string \<Rightarrow> ('s, Host) operation"
  ap_create_host :: "string \<Rightarrow> CreateHostInput \<Rightarrow> ('s, string) operation"
  ap_modify_host :: "string \<Rightarrow> string \<Rightarrow> ModifyHostInput \<Rightarrow> ('s, Host) operation"
  ap_delete_host :: "string \<Rightarrow> string \<Rightarrow> ('s, unit) operation"
  ap_list_operating_systems :: "string \<Rightarrow> ListQuery \<Rightarrow> ('s, OperatingSystem Page) operation"
  ap_get_operating_system :: "string \<Rightarrow> string \<Rightarrow> ('s, OperatingSystem) operation"
  ap_modify_operating_system :: "string \<Rightarrow> string \<Rightarrow> ModifyOperatingSystemInput \<Rightarrow> ('s, OperatingSystem) operation"
  ap_delete_operating_system :: "string \<Rightarrow> string \<Rightarrow> ('s, unit) operation"
  ap_list_tls_certificates :: "string \<Rightarrow> ListQuery \<Rightarrow> ('s, TlsCertificateAsset Page) operation"
  ap_get_tls_certificate :: "string \<Rightarrow> string \<Rightarrow> ('s, TlsCertificateAsset) operation"

section \<open>Conversions\<close>

definition host_from_gmp :: "GmpHost \<Rightarrow> Host" where
  "host_from_gmp x =
     \<lparr>hs_meta = supporting_meta_from_gmp (ghs_meta x), hs_ip = ghs_ip x,
       hs_hostname = ghs_hostname x, hs_severity = ghs_severity x, hs_os = ghs_os x\<rparr>"

definition operating_system_host_from_gmp :: "GmpOperatingSystemHost \<Rightarrow> OperatingSystemHost" where
  "operating_system_host_from_gmp x =
     \<lparr>oh_id = goh_id x, oh_name = goh_name x, oh_severity = goh_severity x\<rparr>"

definition operating_system_from_gmp :: "GmpOperatingSystem \<Rightarrow> OperatingSystem" where
  "operating_system_from_gmp x =
     \<lparr>os_meta = supporting_meta_from_gmp (gos_meta x), os_value = gos_value x,
       os_hosts_count = gos_hosts_count x, os_severity = gos_severity x, os_title = gos_title x,
       os_installs = gos_installs x, os_all_installs = gos_all_installs x,
       os_latest_severity = gos_latest_severity x, os_highest_severity = gos_highest_severity x,
       os_average_severity = gos_average_severity x, os_host_count = gos_host_count x,
       os_hosts = map operating_system_host_from_gmp (gos_hosts x)\<rparr>"

definition tls_certificate_asset_from_gmp :: "GmpTlsCertificate \<Rightarrow> TlsCertificateAsset" where
  "tls_certificate_asset_from_gmp x =
     \<lparr>tl_meta = supporting_meta_from_gmp (gtl_meta x), tl_subject_dn = gtl_subject_dn x,
       tl_issuer_dn = gtl_issuer_dn x, tl_activation_time = gtl_activation_time x,
       tl_expiration_time = gtl_expiration_time x, tl_md5_fingerprint = gtl_md5_fingerprint x,
       tl_sha256_fingerprint = gtl_sha256_fingerprint x, tl_certificate = gtl_certificate x,
       tl_valid = gtl_valid x\<rparr>"

definition generic_asset_from_gmp :: "GmpAsset \<Rightarrow> GenericAsset result" where
  "generic_asset_from_gmp asset =
     (case asset of
        HostAsset host \<Rightarrow>
          let v = (case ghs_ip host of
                     Some ip \<Rightarrow> Some ip
                   | None \<Rightarrow> (case ghs_hostname host of Some name \<Rightarrow> Some name | None \<Rightarrow> Some (em_name (ghs_meta host))))
          in Inr \<lparr>gna_meta = supporting_meta_from_gmp (ghs_meta host), gna_asset_type = ''host'', gna_value = v,
            gna_identifiers = [], gna_severity = ghs_severity host, gna_ip = ghs_ip host,
            gna_hostname = ghs_hostname host, gna_os = ghs_os host, gna_hosts_count = None, gna_title = None,
            gna_installs = None, gna_all_installs = None, gna_latest_severity = None,
            gna_highest_severity = None, gna_average_severity = None, gna_host_count = None,
            gna_hosts = []\<rparr>
      | OperatingSystemAsset a \<Rightarrow>
          Inr \<lparr>gna_meta = supporting_meta_from_gmp (gos_meta a), gna_asset_type = ''os'',
            gna_value = gos_value a, gna_identifiers = [], gna_severity = gos_severity a, gna_ip = None,
            gna_hostname = None, gna_os = None, gna_hosts_count = gos_hosts_count a,
            gna_title = Some (gos_title a), gna_installs = Some (gos_installs a),
            gna_all_installs = Some (gos_all_installs a), gna_latest_severity = gos_latest_severity a,
            gna_highest_severity = gos_highest_severity a, gna_average_severity = gos_average_severity a,
            gna_host_count = Some (gos_host_count a),
            gna_hosts = map (\<lambda>host. \<lparr>ah_id = goh_id host, ah_name = goh_name host, ah_severity = goh_severity host\<rparr>) (gos_hosts a)\<rparr>
      | GenericAssetOf a \<Rightarrow>
          Inr \<lparr>gna_meta = supporting_meta_from_gmp (gga_meta a),
            gna_asset_type = (case gga_type a of Some t \<Rightarrow> t | None \<Rightarrow> unwrap_or (gga_asset_type a) ''unknown''),
            gna_value = gga_value a,
            gna_identifiers = map (\<lambda>i. \<lparr>ai_name = gai_name i, ai_value = gai_value i, ai_source = gai_source i\<rparr>) (gga_identifiers a),
            gna_severity = gga_severity a, gna_ip = None, gna_hostname = None, gna_os = None,
            gna_hosts_count = None, gna_title = None, gna_installs = None, gna_all_installs = None,
            gna_latest_severity = None, gna_highest_severity = None, gna_average_severity = None,
            gna_host_count = None, gna_hosts = []\<rparr>
      | OtherAsset \<Rightarrow> Inl (NotImplemented ''unsupported asset response variant''))"

definition parse_asset_type :: "string \<Rightarrow> AssetType" where
  "parse_asset_type v = (if v = ''host'' then AssetTypeHost else if v = ''os'' then AssetTypeOs else AssetTypeCustom v)"

definition host_opts_from_create_input :: "CreateHostInput \<Rightarrow> HostOpts" where
  "host_opts_from_create_input input = \<lparr>ho_comment = hci_comment input, ho_value = Some (hci_value input)\<rparr>"

definition host_opts_from_modify_input :: "ModifyHostInput \<Rightarrow> HostOpts" where
  "host_opts_from_modify_input input = \<lparr>ho_comment = hmi_comment input, ho_value = None\<rparr>"

section \<open>Adapter\<close>

text \<open>The order of assets and of hosts within a page.\<close>

definition asset_order :: "GenericAsset \<Rightarrow> string \<times> string \<times> string option \<times> string" where
  "asset_order a = (gna_asset_type a, sm_name (gna_meta a), gna_value a, sm_id (gna_meta a))"

definition host_order :: "Host \<Rightarrow> string \<times> string option \<times> string" where
  "host_order h = (sm_name (hs_meta h), hs_ip h, sm_id (hs_meta h))"

definition gvmd_list_assets ::
    "(string \<Rightarrow> u8 list) \<Rightarrow> ('r, 'g, 'f) GmpLibrary \<Rightarrow> 'r ResourceLibrary \<Rightarrow> string
      \<Rightarrow> AssetQuery \<Rightarrow> ('g Gvmd, GenericAsset Page) operation" where
  "gvmd_list_assets sha L B session_token query =
     chain (list_resources sha L None [] (\<lambda>filter_string. OnAssets (GetAssets
         \<lparr>as_asset_id = None, as_type = Some (parse_asset_type (aq_asset_type query)), as_filter_string = filter_string, as_details = Some True\<rparr>))
       (bl_assets B) (\<lambda>asset. asset) session_token (ListQuery.truncate query)) (\<lambda>(items, pagination).
     checked (collect_results generic_asset_from_gmp items) (\<lambda>items.
       pure (Inr (sort_key asset_order items, pagination))))"

lemma speaks_list_assets [speaks]:
  "d = from_token sha session_token \<Longrightarrow> speaks_for d (gvmd_list_assets sha L B session_token query)"
  unfolding gvmd_list_assets_def by (auto intro!: speaks split: prod.split option.split)

definition gvmd_get_asset ::
    "(string \<Rightarrow> u8 list) \<Rightarrow> ('r, 'g, 'f) GmpLibrary \<Rightarrow> 'r ResourceLibrary \<Rightarrow> string \<Rightarrow> string
      \<Rightarrow> string \<Rightarrow> ('g Gvmd, GenericAsset) operation" where
  "gvmd_get_asset sha L B session_token ident asset_type =
     chain (then_call sha session_token (parse_entity_id L ident) (\<lambda>asset_id.
       fetch_first sha L session_token (OnAssets (GetAssets
           \<lparr>as_asset_id = Some asset_id, as_type = Some (parse_asset_type asset_type), as_filter_string = None, as_details = Some True\<rparr>))
         (bl_assets B) (\<lambda>asset. asset) (''asset '' @ ident @ '' not found''))) (\<lambda>asset.
     pure (generic_asset_from_gmp asset))"

lemma speaks_get_asset [speaks]:
  "d = from_token sha session_token \<Longrightarrow> speaks_for d (gvmd_get_asset sha L B session_token ident asset_type)"
  unfolding gvmd_get_asset_def by (auto intro!: speaks split: prod.split option.split)

definition gvmd_modify_asset ::
    "(string \<Rightarrow> u8 list) \<Rightarrow> ('r, 'g, 'f) GmpLibrary \<Rightarrow> 'r ResourceLibrary \<Rightarrow> string \<Rightarrow> string
      \<Rightarrow> string \<Rightarrow> ModifyAssetInput \<Rightarrow> ('g Gvmd, GenericAsset) operation" where
  "gvmd_modify_asset sha L B session_token ident asset_type input =
     chain (connected sha session_token) (\<lambda>_.
     checked (parse_entity_id L ident) (\<lambda>entity_id.
     chain (call_action sha L session_token (OnAssets (ModifyAsset entity_id (mai_comment input)))) (\<lambda>_.
       gvmd_get_asset sha L B session_token ident asset_type)))"

lemma speaks_modify_asset [speaks]:
  "d = from_token sha session_token \<Longrightarrow> speaks_for d (gvmd_modify_asset sha L B session_token ident asset_type input)"
  unfolding gvmd_modify_asset_def by (auto intro!: speaks split: prod.split option.split)

definition gvmd_delete_asset ::
    "(string \<Rightarrow> u8 list) \<Rightarrow> ('r, 'g, 'f) GmpLibrary \<Rightarrow> 'r ResourceLibrary \<Rightarrow> string \<Rightarrow> string
      \<Rightarrow> ('g Gvmd, unit) operation" where
  "gvmd_delete_asset sha L B session_token ident =
     delete_one sha L (\<lambda>entity_id. OnAssets (DeleteAsset entity_id)) session_token ident"

lemma speaks_delete_asset [speaks]:
  "d = from_token sha session_token \<Longrightarrow> speaks_for d (gvmd_delete_asset sha L B session_token ident)"
  unfolding gvmd_delete_asset_def by (auto intro!: speaks split: prod.split option.split)

definition gvmd_list_hosts ::
    "(string \<Rightarrow> u8 list) \<Rightarrow> ('r, 'g, 'f) GmpLibrary \<Rightarrow> 'r ResourceLibrary \<Rightarrow> string
      \<Rightarrow> ListQuery \<Rightarrow> ('g Gvmd, Host Page) operation" where
  "gvmd_list_hosts sha L B session_token query =
     chain (list_resources sha L None [] (\<lambda>filter_string. OnAssets (GetHosts \<lparr>lo_filter_string = filter_string, lo_details = Some True\<rparr>))
       (bl_hosts B) host_from_gmp session_token query) (\<lambda>(items, pagination).
       pure (Inr (sort_key host_order items, pagination)))"

lemma speaks_list_hosts [speaks]:
  "d = from_token sha session_token \<Longrightarrow> speaks_for d (gvmd_list_hosts sha L B session_token query)"
  unfolding gvmd_list_hosts_def by (auto intro!: speaks split: prod.split option.split)

definition gvmd_get_host ::
    "(string \<Rightarrow> u8 list) \<Rightarrow> ('r, 'g, 'f) GmpLibrary \<Rightarrow> 'r ResourceLibrary \<Rightarrow> string \<Rightarrow> string
      \<Rightarrow> ('g Gvmd, Host) operation" where
  "gvmd_get_host sha L B session_token ident =
     get_one sha L (\<lambda>ident. OnAssets (GetHost ident)) (bl_hosts B) host_from_gmp ''host'' session_token ident"

lemma speaks_get_host [speaks]:
  "d = from_token sha session_token \<Longrightarrow> speaks_for d (gvmd_get_host sha L B session_token ident)"
  unfolding gvmd_get_host_def by (auto intro!: speaks split: prod.split option.split)

definition gvmd_create_host ::
    "(string \<Rightarrow> u8 list) \<Rightarrow> ('r, 'g, 'f) GmpLibrary \<Rightarrow> 'r ResourceLibrary \<Rightarrow> string
      \<Rightarrow> CreateHostInput \<Rightarrow> ('g Gvmd, string) operation" where
  "gvmd_create_host sha L B session_token input =
     then_call sha session_token (Inr ()) (\<lambda>_.
       call_create sha L session_token (OnAssets (CreateHost (host_opts_from_create_input input))))"

lemma speaks_create_host [speaks]:
  "d = from_token sha session_token \<Longrightarrow> speaks_for d (gvmd_create_host sha L B session_token input)"
  unfolding gvmd_create_host_def by (auto intro!: speaks split: prod.split option.split)

definition gvmd_modify_host ::
    "(string \<Rightarrow> u8 list) \<Rightarrow> ('r, 'g, 'f) GmpLibrary \<Rightarrow> 'r ResourceLibrary \<Rightarrow> string \<Rightarrow> string
      \<Rightarrow> ModifyHostInput \<Rightarrow> ('g Gvmd, Host) operation" where
  "gvmd_modify_host sha L B session_token ident input =
     chain (connected sha session_token) (\<lambda>_.
     checked (parse_entity_id L ident) (\<lambda>entity_id.
     chain (call_action sha L session_token (OnAssets (ModifyHost entity_id (host_opts_from_modify_input input)))) (\<lambda>_.
       gvmd_get_host sha L B session_token ident)))"

lemma speaks_modify_host [speaks]:
  "d = from_token sha session_token \<Longrightarrow> speaks_for d (gvmd_modify_host sha L B session_token ident input)"
  unfolding gvmd_modify_host_def by (auto intro!: speaks split: prod.split option.split)

definition gvmd_delete_host ::
    "(string \<Rightarrow> u8 list) \<Rightarrow> ('r, 'g, 'f) GmpLibrary \<Rightarrow> 'r ResourceLibrary \<Rightarrow> string \<Rightarrow> string
      \<Rightarrow> ('g Gvmd, unit) operation" where
  "gvmd_delete_host sha L B session_token ident =
     delete_one sha L (\<lambda>entity_id. OnAssets (DeleteHost entity_id False)) session_token ident"

lemma speaks_delete_host [speaks]:
  "d = from_token sha session_token \<Longrightarrow> speaks_for d (gvmd_delete_host sha L B session_token ident)"
  unfolding gvmd_delete_host_def by (auto intro!: speaks split: prod.split option.split)

definition gvmd_list_operating_systems ::
    "(string \<Rightarrow> u8 list) \<Rightarrow> ('r, 'g, 'f) GmpLibrary \<Rightarrow> 'r ResourceLibrary \<Rightarrow> string
      \<Rightarrow> ListQuery \<Rightarrow> ('g Gvmd, OperatingSystem Page) operation" where
  "gvmd_list_operating_systems sha L B session_token query =
     list_resources sha L None [] (\<lambda>filter_string. OnAssets (GetOperatingSystems \<lparr>lo_filter_string = filter_string, lo_details = Some True\<rparr>)) (bl_operating_systems B) operating_system_from_gmp
       session_token query"

lemma speaks_list_operating_systems [speaks]:
  "d = from_token sha session_token \<Longrightarrow> speaks_for d (gvmd_list_operating_systems sha L B session_token query)"
  unfolding gvmd_list_operating_systems_def by (auto intro!: speaks split: prod.split option.split)

definition gvmd_get_operating_system ::
    "(string \<Rightarrow> u8 list) \<Rightarrow> ('r, 'g, 'f) GmpLibrary \<Rightarrow> 'r ResourceLibrary \<Rightarrow> string \<Rightarrow> string
      \<Rightarrow> ('g Gvmd, OperatingSystem) operation" where
  "gvmd_get_operating_system sha L B session_token ident =
     get_one sha L (\<lambda>ident. OnAssets (GetOperatingSystem ident (Some True))) (bl_operating_systems B) operating_system_from_gmp ''operating system'' session_token ident"

lemma speaks_get_operating_system [speaks]:
  "d = from_token sha session_token \<Longrightarrow> speaks_for d (gvmd_get_operating_system sha L B session_token ident)"
  unfolding gvmd_get_operating_system_def by (auto intro!: speaks split: prod.split option.split)

definition gvmd_modify_operating_system ::
    "(string \<Rightarrow> u8 list) \<Rightarrow> ('r, 'g, 'f) GmpLibrary \<Rightarrow> 'r ResourceLibrary \<Rightarrow> string \<Rightarrow> string
      \<Rightarrow> ModifyOperatingSystemInput \<Rightarrow> ('g Gvmd, OperatingSystem) operation" where
  "gvmd_modify_operating_system sha L B session_token ident input =
     chain (connected sha session_token) (\<lambda>_.
     checked (parse_entity_id L ident) (\<lambda>entity_id.
     chain (call_action sha L session_token (OnAssets (ModifyOperatingSystem entity_id (osi_comment input)))) (\<lambda>_.
       gvmd_get_operating_system sha L B session_token ident)))"

lemma speaks_modify_operating_system [speaks]:
  "d = from_token sha session_token \<Longrightarrow> speaks_for d (gvmd_modify_operating_system sha L B session_token ident input)"
  unfolding gvmd_modify_operating_system_def by (auto intro!: speaks split: prod.split option.split)

text \<open>A deletion that the daemon refuses with status 400 is a conflict: the operating system is in use.\<close>

definition operating_system_deletion_error :: "GvmError \<Rightarrow> GatewayError" where
  "operating_system_deletion_error error =
     (case error of
        GvmServer status message text \<Rightarrow> if status = 400 then Conflict message else map_gvm_error error
      | _ \<Rightarrow> map_gvm_error error)"

definition gvmd_delete_operating_system ::
    "(string \<Rightarrow> u8 list) \<Rightarrow> ('r, 'g, 'f) GmpLibrary \<Rightarrow> 'r ResourceLibrary \<Rightarrow> string \<Rightarrow> string
      \<Rightarrow> ('g Gvmd, unit) operation" where
  "gvmd_delete_operating_system sha L B session_token ident =
     then_call sha session_token (parse_entity_id L ident) (\<lambda>entity_id.
       client_method operating_system_deletion_error sha L session_token (OnAssets (DeleteOperatingSystem entity_id))
         (lb_action L))"

lemma speaks_delete_operating_system [speaks]:
  "d = from_token sha session_token \<Longrightarrow> speaks_for d (gvmd_delete_operating_system sha L B session_token ident)"
  unfolding gvmd_delete_operating_system_def by (auto intro!: speaks split: prod.split option.split)

definition gvmd_list_tls_certificates ::
    "(string \<Rightarrow> u8 list) \<Rightarrow> ('r, 'g, 'f) GmpLibrary \<Rightarrow> 'r ResourceLibrary \<Rightarrow> string
      \<Rightarrow> ListQuery \<Rightarrow> ('g Gvmd, TlsCertificateAsset Page) operation" where
  "gvmd_list_tls_certificates sha L B session_token query =
     list_resources sha L None [] (\<lambda>filter_string. OnAssets (GetTlsCertificates \<lparr>lo_filter_string = filter_string, lo_details = Some True\<rparr>)) (bl_tls_certificates B) tls_certificate_asset_from_gmp
       session_token query"

lemma speaks_list_tls_certificates [speaks]:
  "d = from_token sha session_token \<Longrightarrow> speaks_for d (gvmd_list_tls_certificates sha L B session_token query)"
  unfolding gvmd_list_tls_certificates_def by (auto intro!: speaks split: prod.split option.split)

definition gvmd_get_tls_certificate ::
    "(string \<Rightarrow> u8 list) \<Rightarrow> ('r, 'g, 'f) GmpLibrary \<Rightarrow> 'r ResourceLibrary \<Rightarrow> string \<Rightarrow> string
      \<Rightarrow> ('g Gvmd, TlsCertificateAsset) operation" where
  "gvmd_get_tls_certificate sha L B session_token ident =
     get_one sha L (\<lambda>ident. OnAssets (GetTlsCertificate ident)) (bl_tls_certificates B) tls_certificate_asset_from_gmp ''tls certificate'' session_token ident"

lemma speaks_get_tls_certificate [speaks]:
  "d = from_token sha session_token \<Longrightarrow> speaks_for d (gvmd_get_tls_certificate sha L B session_token ident)"
  unfolding gvmd_get_tls_certificate_def by (auto intro!: speaks split: prod.split option.split)

definition gvmd_asset_port ::
    "(string \<Rightarrow> u8 list) \<Rightarrow> ('r, 'g, 'f) GmpLibrary \<Rightarrow> 'r ResourceLibrary
      \<Rightarrow> 'g Gvmd AssetPort" where
  "gvmd_asset_port sha L B =
     \<lparr>ap_list_assets = gvmd_list_assets sha L B,
      ap_get_asset = gvmd_get_asset sha L B,
      ap_modify_asset = gvmd_modify_asset sha L B,
      ap_delete_asset = gvmd_delete_asset sha L B,
      ap_list_hosts = gvmd_list_hosts sha L B,
      ap_get_host = gvmd_get_host sha L B,
      ap_create_host = gvmd_create_host sha L B,
      ap_modify_host = gvmd_modify_host sha L B,
      ap_delete_host = gvmd_delete_host sha L B,
      ap_list_operating_systems = gvmd_list_operating_systems sha L B,
      ap_get_operating_system = gvmd_get_operating_system sha L B,
      ap_modify_operating_system = gvmd_modify_operating_system sha L B,
      ap_delete_operating_system = gvmd_delete_operating_system sha L B,
      ap_list_tls_certificates = gvmd_list_tls_certificates sha L B,
      ap_get_tls_certificate = gvmd_get_tls_certificate sha L B\<rparr>"

section \<open>Use cases\<close>

definition list_assets ::
    "'s AssetPort \<Rightarrow> (string \<Rightarrow> u8 list) \<Rightarrow> u64 \<Rightarrow> string \<Rightarrow> AssetQuery \<Rightarrow> 's GatewayService
      \<Rightarrow> GenericAsset Page result \<times> 's GatewayService" where
  "list_assets port sha now session_token query =
     use_port sha now session_token ''list'' ''asset'' (\<lambda>token. ap_list_assets port token query)"

definition get_asset ::
    "'s AssetPort \<Rightarrow> (string \<Rightarrow> u8 list) \<Rightarrow> u64 \<Rightarrow> string \<Rightarrow> string \<Rightarrow> string
      \<Rightarrow> 's GatewayService \<Rightarrow> GenericAsset result \<times> 's GatewayService" where
  "get_asset port sha now session_token ident asset_type =
     use_port sha now session_token ''read'' ''asset'' (\<lambda>token. ap_get_asset port token ident asset_type)"

definition modify_asset ::
    "'s AssetPort \<Rightarrow> (string \<Rightarrow> u8 list) \<Rightarrow> u64 \<Rightarrow> string \<Rightarrow> string \<Rightarrow> string
      \<Rightarrow> ModifyAssetInput \<Rightarrow> 's GatewayService
      \<Rightarrow> GenericAsset result \<times> 's GatewayService" where
  "modify_asset port sha now session_token ident asset_type input =
     use_port sha now session_token ''modify'' ''asset'' (\<lambda>token. ap_modify_asset port token ident asset_type input)"

definition delete_asset ::
    "'s AssetPort \<Rightarrow> (string \<Rightarrow> u8 list) \<Rightarrow> u64 \<Rightarrow> string \<Rightarrow> string \<Rightarrow> 's GatewayService
      \<Rightarrow> unit result \<times> 's GatewayService" where
  "delete_asset port sha now session_token ident =
     use_port sha now session_token ''delete'' ''asset'' (\<lambda>token. ap_delete_asset port token ident)"

definition list_hosts ::
    "'s AssetPort \<Rightarrow> (string \<Rightarrow> u8 list) \<Rightarrow> u64 \<Rightarrow> string \<Rightarrow> ListQuery \<Rightarrow> 's GatewayService
      \<Rightarrow> Host Page result \<times> 's GatewayService" where
  "list_hosts port sha now session_token query =
     use_port sha now session_token ''list'' ''host'' (\<lambda>token. ap_list_hosts port token query)"

definition get_host ::
    "'s AssetPort \<Rightarrow> (string \<Rightarrow> u8 list) \<Rightarrow> u64 \<Rightarrow> string \<Rightarrow> string \<Rightarrow> 's GatewayService
      \<Rightarrow> Host result \<times> 's GatewayService" where
  "get_host port sha now session_token ident =
     use_port sha now session_token ''read'' ''host'' (\<lambda>token. ap_get_host port token ident)"

definition create_host ::
    "'s AssetPort \<Rightarrow> (string \<Rightarrow> u8 list) \<Rightarrow> u64 \<Rightarrow> string \<Rightarrow> CreateHostInput
      \<Rightarrow> 's GatewayService \<Rightarrow> string result \<times> 's GatewayService" where
  "create_host port sha now session_token input =
     use_port sha now session_token ''create'' ''host'' (\<lambda>token. ap_create_host port token input)"

definition modify_host ::
    "'s AssetPort \<Rightarrow> (string \<Rightarrow> u8 list) \<Rightarrow> u64 \<Rightarrow> string \<Rightarrow> string \<Rightarrow> ModifyHostInput
      \<Rightarrow> 's GatewayService \<Rightarrow> Host result \<times> 's GatewayService" where
  "modify_host port sha now session_token ident input =
     use_port sha now session_token ''modify'' ''host'' (\<lambda>token. ap_modify_host port token ident input)"

definition delete_host ::
    "'s AssetPort \<Rightarrow> (string \<Rightarrow> u8 list) \<Rightarrow> u64 \<Rightarrow> string \<Rightarrow> string \<Rightarrow> 's GatewayService
      \<Rightarrow> unit result \<times> 's GatewayService" where
  "delete_host port sha now session_token ident =
     use_port sha now session_token ''delete'' ''host'' (\<lambda>token. ap_delete_host port token ident)"

definition list_operating_systems ::
    "'s AssetPort \<Rightarrow> (string \<Rightarrow> u8 list) \<Rightarrow> u64 \<Rightarrow> string \<Rightarrow> ListQuery \<Rightarrow> 's GatewayService
      \<Rightarrow> OperatingSystem Page result \<times> 's GatewayService" where
  "list_operating_systems port sha now session_token query =
     use_port sha now session_token ''list'' ''operating_system'' (\<lambda>token. ap_list_operating_systems port token query)"

definition get_operating_system ::
    "'s AssetPort \<Rightarrow> (string \<Rightarrow> u8 list) \<Rightarrow> u64 \<Rightarrow> string \<Rightarrow> string \<Rightarrow> 's GatewayService
      \<Rightarrow> OperatingSystem result \<times> 's GatewayService" where
  "get_operating_system port sha now session_token ident =
     use_port sha now session_token ''read'' ''operating_system'' (\<lambda>token. ap_get_operating_system port token ident)"

definition modify_operating_system ::
    "'s AssetPort \<Rightarrow> (string \<Rightarrow> u8 list) \<Rightarrow> u64 \<Rightarrow> string \<Rightarrow> string
      \<Rightarrow> ModifyOperatingSystemInput \<Rightarrow> 's GatewayService
      \<Rightarrow> OperatingSystem result \<times> 's GatewayService" where
  "modify_operating_system port sha now session_token ident input =
     use_port sha now session_token ''modify'' ''operating_system'' (\<lambda>token. ap_modify_operating_system port token ident input)"

definition delete_operating_system ::
    "'s AssetPort \<Rightarrow> (string \<Rightarrow> u8 list) \<Rightarrow> u64 \<Rightarrow> string \<Rightarrow> string \<Rightarrow> 's GatewayService
      \<Rightarrow> unit result \<times> 's GatewayService" where
  "delete_operating_system port sha now session_token ident =
     use_port sha now session_token ''delete'' ''operating_system'' (\<lambda>token. ap_delete_operating_system port token ident)"

definition list_tls_certificates ::
    "'s AssetPort \<Rightarrow> (string \<Rightarrow> u8 list) \<Rightarrow> u64 \<Rightarrow> string \<Rightarrow> ListQuery \<Rightarrow> 's GatewayService
      \<Rightarrow> TlsCertificateAsset Page result \<times> 's GatewayService" where
  "list_tls_certificates port sha now session_token query =
     use_port sha now session_token ''list'' ''tls_certificate'' (\<lambda>token. ap_list_tls_certificates port token query)"

definition get_tls_certificate ::
    "'s AssetPort \<Rightarrow> (string \<Rightarrow> u8 list) \<Rightarrow> u64 \<Rightarrow> string \<Rightarrow> string \<Rightarrow> 's GatewayService
      \<Rightarrow> TlsCertificateAsset result \<times> 's GatewayService" where
  "get_tls_certificate port sha now session_token ident =
     use_port sha now session_token ''read'' ''tls_certificate'' (\<lambda>token. ap_get_tls_certificate port token ident)"

section \<open>Responses\<close>

record HostResponse =
  hsr_meta :: SupportingResourceMetaResponse
  hsr_ip :: "string option"
  hsr_hostname :: "string option"
  hsr_severity :: "string option"
  hsr_os :: "string option"

definition host_response :: "(string \<Rightarrow> string option) \<Rightarrow> Host \<Rightarrow> HostResponse" where
  "host_response uuid x =
     \<lparr>hsr_meta = supporting_resource_meta_response uuid (hs_meta x), hsr_ip = hs_ip x,
       hsr_hostname = hs_hostname x, hsr_severity = hs_severity x, hsr_os = hs_os x\<rparr>"

record OperatingSystemHostResponse =
  ohr_id :: string
  ohr_name :: string
  ohr_severity :: "string option"

definition operating_system_host_response :: "(string \<Rightarrow> string option) \<Rightarrow> OperatingSystemHost \<Rightarrow> OperatingSystemHostResponse" where
  "operating_system_host_response uuid x =
     \<lparr>ohr_id = parse_uuid uuid (oh_id x), ohr_name = oh_name x, ohr_severity = oh_severity x\<rparr>"

record OperatingSystemResponse =
  osr_meta :: SupportingResourceMetaResponse
  osr_value :: "string option"
  osr_hosts_count :: "u32 option"
  osr_severity :: "string option"
  osr_title :: string
  osr_installs :: u32
  osr_all_installs :: u32
  osr_latest_severity :: "string option"
  osr_highest_severity :: "string option"
  osr_average_severity :: "string option"
  osr_host_count :: u32
  osr_hosts :: "OperatingSystemHostResponse list"

definition operating_system_response :: "(string \<Rightarrow> string option) \<Rightarrow> OperatingSystem \<Rightarrow> OperatingSystemResponse" where
  "operating_system_response uuid x =
     \<lparr>osr_meta = supporting_resource_meta_response uuid (os_meta x), osr_value = os_value x,
       osr_hosts_count = os_hosts_count x, osr_severity = os_severity x, osr_title = os_title x,
       osr_installs = os_installs x, osr_all_installs = os_all_installs x,
       osr_latest_severity = os_latest_severity x, osr_highest_severity = os_highest_severity x,
       osr_average_severity = os_average_severity x, osr_host_count = os_host_count x,
       osr_hosts = map (operating_system_host_response uuid) (os_hosts x)\<rparr>"

record TlsCertificateAssetResponse =
  tlr_meta :: SupportingResourceMetaResponse
  tlr_subject_dn :: "string option"
  tlr_issuer_dn :: "string option"
  tlr_activation_time :: "string option"
  tlr_expiration_time :: "string option"
  tlr_md5_fingerprint :: "string option"
  tlr_sha256_fingerprint :: "string option"
  tlr_certificate :: "string option"
  tlr_valid :: bool

definition tls_certificate_asset_response :: "(string \<Rightarrow> string option) \<Rightarrow> TlsCertificateAsset \<Rightarrow> TlsCertificateAssetResponse" where
  "tls_certificate_asset_response uuid x =
     \<lparr>tlr_meta = supporting_resource_meta_response uuid (tl_meta x),
       tlr_subject_dn = tl_subject_dn x, tlr_issuer_dn = tl_issuer_dn x,
       tlr_activation_time = tl_activation_time x, tlr_expiration_time = tl_expiration_time x,
       tlr_md5_fingerprint = tl_md5_fingerprint x, tlr_sha256_fingerprint = tl_sha256_fingerprint x,
       tlr_certificate = tl_certificate x, tlr_valid = tl_valid x\<rparr>"

datatype AssetTypeValue =
    AssetHost | AssetOperatingSystem | AssetTlsCertificate | UnknownAssetType string

definition asset_type_values :: "(string \<times> AssetTypeValue) list" where
  "asset_type_values =
     [(''host'', AssetHost), (''os'', AssetOperatingSystem), (''tls_certificate'',
      AssetTlsCertificate)]"

definition asset_type_parse :: "string \<Rightarrow> AssetTypeValue" where
  "asset_type_parse = open_enum_parse asset_type_values UnknownAssetType"

definition asset_type_as_str :: "AssetTypeValue \<Rightarrow> string" where
  "asset_type_as_str t =
     (case t of UnknownAssetType s \<Rightarrow> s
      | _ \<Rightarrow> (case open_enum_name asset_type_values t of Some v \<Rightarrow> v | None \<Rightarrow> []))"

record AssetIdentifierResponse =
  air_name :: "string option"
  air_value :: "string option"
  air_source :: "string option"

record AssetHostResponse =
  ahr_id :: string
  ahr_name :: string
  ahr_severity :: "string option"

record GenericAssetResponse =
  gnar_meta :: SupportingResourceMetaResponse
  gnar_asset_type :: AssetTypeValue
  gnar_value :: "string option"
  gnar_identifiers :: "AssetIdentifierResponse list"
  gnar_severity :: "string option"
  gnar_ip :: "string option"
  gnar_hostname :: "string option"
  gnar_os :: "string option"
  gnar_hosts_count :: "u32 option"
  gnar_title :: "string option"
  gnar_installs :: "u32 option"
  gnar_all_installs :: "u32 option"
  gnar_latest_severity :: "string option"
  gnar_highest_severity :: "string option"
  gnar_average_severity :: "string option"
  gnar_host_count :: "u32 option"
  gnar_hosts :: "AssetHostResponse list"

definition generic_asset_response :: "(string \<Rightarrow> string option) \<Rightarrow> GenericAsset \<Rightarrow> GenericAssetResponse" where
  "generic_asset_response uuid x =
     \<lparr>gnar_meta = supporting_resource_meta_response uuid (gna_meta x),
      gnar_asset_type = asset_type_parse (gna_asset_type x),
      gnar_value = gna_value x,
      gnar_identifiers = map (\<lambda>i. \<lparr>air_name = ai_name i, air_value = ai_value i, air_source = ai_source i\<rparr>) (gna_identifiers x),
      gnar_severity = gna_severity x,
      gnar_ip = gna_ip x,
      gnar_hostname =
      gna_hostname x,
      gnar_os = gna_os x,
      gnar_hosts_count = gna_hosts_count x,
      gnar_title = gna_title x,
      gnar_installs = gna_installs x,
      gnar_all_installs = gna_all_installs x,
      gnar_latest_severity = gna_latest_severity x,
      gnar_highest_severity = gna_highest_severity x,
      gnar_average_severity = gna_average_severity x,
      gnar_host_count = gna_host_count
      x,
      gnar_hosts = map (\<lambda>h. \<lparr>ahr_id = parse_uuid uuid (ah_id h), ahr_name = ah_name h, ahr_severity = ah_severity h\<rparr>) (gna_hosts x)\<rparr>"

section \<open>Requests\<close>

record CreateHostRequest =
  hcr_value :: "string option"
  hcr_comment :: "string option"

record ModifyHostRequest =
  hmr_comment :: "string option"

record ModifyOperatingSystemRequest =
  osq_comment :: "string option"

record ModifyGenericAssetRequest =
  mar_comment :: "string option"

definition validate_create_host :: "CreateHostRequest \<Rightarrow> CreateHostInput result" where
  "validate_create_host r =
     and_then (required_text ''value'' (hcr_value r)) (\<lambda>v. Inr \<lparr>hci_value = v, hci_comment = hcr_comment r\<rparr>)"

definition validate_modify_host :: "ModifyHostRequest \<Rightarrow> ModifyHostInput result" where
  "validate_modify_host r = Inr \<lparr>hmi_comment = hmr_comment r\<rparr>"

definition validate_modify_operating_system :: "ModifyOperatingSystemRequest \<Rightarrow> ModifyOperatingSystemInput result" where
  "validate_modify_operating_system r = Inr \<lparr>osi_comment = osq_comment r\<rparr>"

definition validate_modify_asset :: "ModifyGenericAssetRequest \<Rightarrow> ModifyAssetInput result" where
  "validate_modify_asset r = Inr \<lparr>mai_comment = mar_comment r\<rparr>"

definition required_asset_type :: "(string \<Rightarrow> (string \<times> string) list) \<Rightarrow> string \<Rightarrow> string result" where
  "required_asset_type decode raw =
     and_then (open_query_value ''type'' None (decode raw)) (\<lambda>t.
       case t of
         None \<Rightarrow> Inl (InvalidInput ''type is required because typed gvmd asset reads are type-scoped'')
       | Some v \<Rightarrow> Inr v)"

definition parse_asset_query ::
    "(string \<Rightarrow> (string \<times> string) list) \<Rightarrow> (string \<Rightarrow> string option) \<Rightarrow> string \<Rightarrow> AssetQuery result" where
  "parse_asset_query decode uuid raw =
     and_then (parse_collection_query decode (\<lambda>s. uuid s \<noteq> None) raw) (\<lambda>common.
     and_then (required_asset_type decode raw) (\<lambda>asset_type.
       Inr \<lparr>lq_filter_string = cq_filter_string common, lq_filter_id = cq_filter_id common,
            lq_page = cq_page common, lq_per_page = cq_per_page common, aq_asset_type = asset_type\<rparr>))"

text \<open>
  Three deletions refuse the parameter that other deletions have. The reading of the optional
  query is the same in all of them, the text of the refusal is an argument.
\<close>

definition reject_ultimate :: "(string \<Rightarrow> (string \<times> string) list) \<Rightarrow> string \<Rightarrow> string option \<Rightarrow> unit result" where
  "reject_ultimate decode text query =
     (if list_ex (\<lambda>(key, _). key = ''ultimate'') (case query of None \<Rightarrow> [] | Some s \<Rightarrow> decode s)
      then Inl (InvalidInput text) else Inr ())"

section \<open>Handlers\<close>

text \<open>Steps before a generic handler: the type of the asset, and the refusal of a parameter.\<close>

definition with_asset_type ::
    "(string \<Rightarrow> (string \<times> string) list) \<Rightarrow> (string \<Rightarrow> Request \<Rightarrow> 'w \<Rightarrow> 'j Response \<times> 'w) \<Rightarrow> Request \<Rightarrow> 'w \<Rightarrow> 'j Response \<times> 'w" where
  "with_asset_type decode handler q w =
     (case required_asset_type decode (query_text q) of
        Inl e \<Rightarrow> (gateway_error e (rq_path q), w)
      | Inr asset_type \<Rightarrow> handler asset_type q w)"

definition rejecting ::
    "(string option \<Rightarrow> unit result) \<Rightarrow> (Request \<Rightarrow> 'w \<Rightarrow> 'j Response \<times> 'w) \<Rightarrow> Request \<Rightarrow> 'w \<Rightarrow> 'j Response \<times> 'w" where
  "rejecting reject handler q w =
     (case reject (rq_query q) of Inl e \<Rightarrow> (gateway_error e (rq_path q), w) | Inr _ \<Rightarrow> handler q w)"

definition delete_rejecting ::
    "(string \<Rightarrow> string option) \<Rightarrow> (string option \<Rightarrow> unit result) \<Rightarrow> (string \<Rightarrow> string \<Rightarrow> 'w \<Rightarrow> unit result \<times> 'w)
      \<Rightarrow> string \<Rightarrow> Request \<Rightarrow> 'w \<Rightarrow> 'j RestBody Response \<times> 'w" where
  "delete_rejecting uuid reject operation ident q w =
     (case check_uuid uuid ''id'' ident of
        Inl e \<Rightarrow> (gateway_error e (rq_path q), w)
      | Inr _ \<Rightarrow>
          (case reject (rq_query q) of
             Inl e \<Rightarrow> (gateway_error e (rq_path q), w)
           | Inr _ \<Rightarrow>
               (case bearer_token (rq_headers q) of
                  Inl e \<Rightarrow> (gateway_error e (rq_path q), w)
                | Inr session \<Rightarrow> respond q (\<lambda>_. no_content) (operation session ident w))))"

lemma within_asset_steps [within]:
  "(\<And>token. R token w (False, w)) \<Longrightarrow> (\<And>asset_type. within_token R q w (handler asset_type q w)) \<Longrightarrow>
     within_token R q w (with_asset_type decode handler q w)"
  "(\<And>token. R token w (False, w)) \<Longrightarrow> within_token R q w (handler' q w) \<Longrightarrow>
     within_token R q w (rejecting reject handler' q w)"
  "(\<And>token. R token w (False, w)) \<Longrightarrow> (\<And>token. R token w (outcome (operation token ident w))) \<Longrightarrow>
     within_token R q w (delete_rejecting uuid reject operation ident q w)"
  by (auto simp: within_simps with_asset_type_def rejecting_def delete_rejecting_def split: sum.split)

definition rest_list_assets ::
    "(string \<Rightarrow> (string \<times> string) list) \<Rightarrow> (string \<Rightarrow> string option) \<Rightarrow> 's AssetPort
      \<Rightarrow> (string \<Rightarrow> u8 list) \<Rightarrow> u64 \<Rightarrow> Request \<Rightarrow> 's GatewayService
      \<Rightarrow> GenericAssetResponse ListResponse RestBody Response \<times> 's GatewayService" where
  "rest_list_assets decode uuid port sha now =
     list_resource (parse_asset_query decode uuid) (\<lambda>session query. list_assets port sha now session query) (list_response (generic_asset_response uuid))"

definition rest_get_asset ::
    "(string \<Rightarrow> (string \<times> string) list) \<Rightarrow> (string \<Rightarrow> string option) \<Rightarrow> 's AssetPort
      \<Rightarrow> (string \<Rightarrow> u8 list) \<Rightarrow> u64 \<Rightarrow> string \<Rightarrow> Request \<Rightarrow> 's GatewayService
      \<Rightarrow> GenericAssetResponse RestBody Response \<times> 's GatewayService" where
  "rest_get_asset decode uuid port sha now ident =
     with_asset_type decode (\<lambda>asset_type.
       get_resource uuid (\<lambda>session ident. get_asset port sha now session ident asset_type) (generic_asset_response uuid) ident)"

definition rest_update_asset ::
    "(string \<Rightarrow> (string \<times> string) list) \<Rightarrow> (string \<Rightarrow> string option) \<Rightarrow> (u8 list \<Rightarrow> string + ModifyGenericAssetRequest)
      \<Rightarrow> 's AssetPort \<Rightarrow> (string \<Rightarrow> u8 list) \<Rightarrow> u64 \<Rightarrow> string \<Rightarrow> Request \<Rightarrow> 's GatewayService
      \<Rightarrow> GenericAssetResponse RestBody Response \<times> 's GatewayService" where
  "rest_update_asset decode uuid from_slice port sha now ident =
     with_asset_type decode (\<lambda>asset_type.
       update_resource uuid from_slice validate_modify_asset
         (\<lambda>session ident input. modify_asset port sha now session ident asset_type input) (generic_asset_response uuid) ident)"

definition rest_delete_asset ::
    "(string \<Rightarrow> (string \<times> string) list) \<Rightarrow> (string \<Rightarrow> string option) \<Rightarrow> 's AssetPort
      \<Rightarrow> (string \<Rightarrow> u8 list) \<Rightarrow> u64 \<Rightarrow> string \<Rightarrow> Request \<Rightarrow> 's GatewayService
      \<Rightarrow> GenericAssetResponse RestBody Response \<times> 's GatewayService" where
  "rest_delete_asset decode uuid port sha now ident =
     rejecting (reject_ultimate decode ''ultimate is not supported for generic asset deletion'')
       (delete_resource_without_ultimate uuid (\<lambda>session ident. delete_asset port sha now session ident) ident)"

definition rest_list_hosts ::
    "(string \<Rightarrow> (string \<times> string) list) \<Rightarrow> (string \<Rightarrow> string option) \<Rightarrow> 's AssetPort
      \<Rightarrow> (string \<Rightarrow> u8 list) \<Rightarrow> u64 \<Rightarrow> Request \<Rightarrow> 's GatewayService
      \<Rightarrow> HostResponse ListResponse RestBody Response \<times> 's GatewayService" where
  "rest_list_hosts decode uuid port sha now =
     list_resource (list_query decode uuid) (\<lambda>session query. list_hosts port sha now session query) (list_response (host_response uuid))"

definition rest_get_host ::
    "(string \<Rightarrow> string option) \<Rightarrow> 's AssetPort \<Rightarrow> (string \<Rightarrow> u8 list) \<Rightarrow> u64 \<Rightarrow> string
      \<Rightarrow> Request \<Rightarrow> 's GatewayService
      \<Rightarrow> HostResponse RestBody Response \<times> 's GatewayService" where
  "rest_get_host uuid port sha now =
     get_resource uuid (\<lambda>session ident. get_host port sha now session ident) (host_response uuid)"

definition rest_create_host ::
    "(string \<Rightarrow> string option) \<Rightarrow> (u8 list \<Rightarrow> string + CreateHostRequest) \<Rightarrow> 's AssetPort
      \<Rightarrow> (string \<Rightarrow> u8 list) \<Rightarrow> u64 \<Rightarrow> Request \<Rightarrow> 's GatewayService
      \<Rightarrow> HostResponse RestBody Response \<times> 's GatewayService" where
  "rest_create_host uuid from_slice port sha now =
     create_resource uuid from_slice (validate_create_host) (\<lambda>session input. create_host port sha now session input)"

definition rest_update_host ::
    "(string \<Rightarrow> string option) \<Rightarrow> (u8 list \<Rightarrow> string + ModifyHostRequest) \<Rightarrow> 's AssetPort
      \<Rightarrow> (string \<Rightarrow> u8 list) \<Rightarrow> u64 \<Rightarrow> string \<Rightarrow> Request \<Rightarrow> 's GatewayService
      \<Rightarrow> HostResponse RestBody Response \<times> 's GatewayService" where
  "rest_update_host uuid from_slice port sha now =
     update_resource uuid from_slice (validate_modify_host) (\<lambda>session ident input. modify_host port sha now session ident input) (host_response uuid)"

definition rest_delete_host ::
    "(string \<Rightarrow> (string \<times> string) list) \<Rightarrow> (string \<Rightarrow> string option) \<Rightarrow> 's AssetPort
      \<Rightarrow> (string \<Rightarrow> u8 list) \<Rightarrow> u64 \<Rightarrow> string \<Rightarrow> Request \<Rightarrow> 's GatewayService
      \<Rightarrow> HostResponse RestBody Response \<times> 's GatewayService" where
  "rest_delete_host decode uuid port sha now ident =
     delete_rejecting uuid (reject_ultimate decode ''the `ultimate` query parameter is not supported for host deletion'')
       (\<lambda>session ident. delete_host port sha now session ident) ident"

definition rest_list_operating_systems ::
    "(string \<Rightarrow> (string \<times> string) list) \<Rightarrow> (string \<Rightarrow> string option) \<Rightarrow> 's AssetPort
      \<Rightarrow> (string \<Rightarrow> u8 list) \<Rightarrow> u64 \<Rightarrow> Request \<Rightarrow> 's GatewayService
      \<Rightarrow> OperatingSystemResponse ListResponse RestBody Response \<times> 's GatewayService" where
  "rest_list_operating_systems decode uuid port sha now =
     list_resource (list_query decode uuid) (\<lambda>session query. list_operating_systems port sha now session query) (list_response (operating_system_response uuid))"

definition rest_get_operating_system ::
    "(string \<Rightarrow> string option) \<Rightarrow> 's AssetPort \<Rightarrow> (string \<Rightarrow> u8 list) \<Rightarrow> u64 \<Rightarrow> string
      \<Rightarrow> Request \<Rightarrow> 's GatewayService
      \<Rightarrow> OperatingSystemResponse RestBody Response \<times> 's GatewayService" where
  "rest_get_operating_system uuid port sha now =
     get_resource uuid (\<lambda>session ident. get_operating_system port sha now session ident) (operating_system_response uuid)"

definition rest_update_operating_system ::
    "(string \<Rightarrow> string option) \<Rightarrow> (u8 list \<Rightarrow> string + ModifyOperatingSystemRequest)
      \<Rightarrow> 's AssetPort \<Rightarrow> (string \<Rightarrow> u8 list) \<Rightarrow> u64 \<Rightarrow> string \<Rightarrow> Request \<Rightarrow> 's GatewayService
      \<Rightarrow> OperatingSystemResponse RestBody Response \<times> 's GatewayService" where
  "rest_update_operating_system uuid from_slice port sha now =
     update_resource uuid from_slice (validate_modify_operating_system) (\<lambda>session ident input. modify_operating_system port sha now session ident input) (operating_system_response uuid)"

definition rest_delete_operating_system ::
    "(string \<Rightarrow> (string \<times> string) list) \<Rightarrow> (string \<Rightarrow> string option) \<Rightarrow> 's AssetPort
      \<Rightarrow> (string \<Rightarrow> u8 list) \<Rightarrow> u64 \<Rightarrow> string \<Rightarrow> Request \<Rightarrow> 's GatewayService
      \<Rightarrow> OperatingSystemResponse RestBody Response \<times> 's GatewayService" where
  "rest_delete_operating_system decode uuid port sha now ident =
     delete_rejecting uuid
       (reject_ultimate decode ''the `ultimate` query parameter is not supported for operating-system deletion'')
       (\<lambda>session ident. delete_operating_system port sha now session ident) ident"

definition rest_list_tls_certificates ::
    "(string \<Rightarrow> (string \<times> string) list) \<Rightarrow> (string \<Rightarrow> string option) \<Rightarrow> 's AssetPort
      \<Rightarrow> (string \<Rightarrow> u8 list) \<Rightarrow> u64 \<Rightarrow> Request \<Rightarrow> 's GatewayService
      \<Rightarrow> TlsCertificateAssetResponse ListResponse RestBody Response \<times> 's GatewayService" where
  "rest_list_tls_certificates decode uuid port sha now =
     list_resource (list_query decode uuid) (\<lambda>session query. list_tls_certificates port sha now session query) (list_response (tls_certificate_asset_response uuid))"

definition rest_get_tls_certificate ::
    "(string \<Rightarrow> string option) \<Rightarrow> 's AssetPort \<Rightarrow> (string \<Rightarrow> u8 list) \<Rightarrow> u64 \<Rightarrow> string
      \<Rightarrow> Request \<Rightarrow> 's GatewayService
      \<Rightarrow> TlsCertificateAssetResponse RestBody Response \<times> 's GatewayService" where
  "rest_get_tls_certificate uuid port sha now =
     get_resource uuid (\<lambda>session ident. get_tls_certificate port sha now session ident) (tls_certificate_asset_response uuid)"

record AssetBodies =
  ab_modify_asset :: "u8 list \<Rightarrow> string + ModifyGenericAssetRequest"
  ab_create_host :: "u8 list \<Rightarrow> string + CreateHostRequest"
  ab_modify_host :: "u8 list \<Rightarrow> string + ModifyHostRequest"
  ab_modify_operating_system :: "u8 list \<Rightarrow> string + ModifyOperatingSystemRequest"

datatype (plugins only: code size) AssetRoute =
    RouteListAssets
  | RouteGetAsset string
  | RouteModifyAsset string
  | RouteDeleteAsset string
  | RouteListHosts
  | RouteGetHost string
  | RouteCreateHost
  | RouteModifyHost string
  | RouteDeleteHost string
  | RouteListOperatingSystems
  | RouteGetOperatingSystem string
  | RouteModifyOperatingSystem string
  | RouteDeleteOperatingSystem string
  | RouteListTlsCertificates
  | RouteGetTlsCertificate string

fun serve_assets ::
    "(string \<Rightarrow> (string \<times> string) list) \<Rightarrow> (string \<Rightarrow> string option) \<Rightarrow> AssetBodies
      \<Rightarrow> 's AssetPort \<Rightarrow> (string \<Rightarrow> u8 list) \<Rightarrow> u64 \<Rightarrow> AssetRoute \<Rightarrow> Request
      \<Rightarrow> 's GatewayService \<Rightarrow> nat \<times> 's GatewayService" where
  "serve_assets decode uuid bodies port sha now RouteListAssets q sv =
     answered (rest_list_assets decode uuid port sha now q sv)"
| "serve_assets decode uuid bodies port sha now (RouteGetAsset ident) q sv =
     answered (rest_get_asset decode uuid port sha now ident q sv)"
| "serve_assets decode uuid bodies port sha now (RouteModifyAsset ident) q sv =
     answered (rest_update_asset decode uuid (ab_modify_asset bodies) port sha now ident q sv)"
| "serve_assets decode uuid bodies port sha now (RouteDeleteAsset ident) q sv =
     answered (rest_delete_asset decode uuid port sha now ident q sv)"
| "serve_assets decode uuid bodies port sha now RouteListHosts q sv =
     answered (rest_list_hosts decode uuid port sha now q sv)"
| "serve_assets decode uuid bodies port sha now (RouteGetHost ident) q sv =
     answered (rest_get_host uuid port sha now ident q sv)"
| "serve_assets decode uuid bodies port sha now RouteCreateHost q sv =
     answered (rest_create_host uuid (ab_create_host bodies) port sha now q sv)"
| "serve_assets decode uuid bodies port sha now (RouteModifyHost ident) q sv =
     answered (rest_update_host uuid (ab_modify_host bodies) port sha now ident q sv)"
| "serve_assets decode uuid bodies port sha now (RouteDeleteHost ident) q sv =
     answered (rest_delete_host decode uuid port sha now ident q sv)"
| "serve_assets decode uuid bodies port sha now RouteListOperatingSystems q sv =
     answered (rest_list_operating_systems decode uuid port sha now q sv)"
| "serve_assets decode uuid bodies port sha now (RouteGetOperatingSystem ident) q sv =
     answered (rest_get_operating_system uuid port sha now ident q sv)"
| "serve_assets decode uuid bodies port sha now (RouteModifyOperatingSystem ident) q sv =
     answered (rest_update_operating_system uuid (ab_modify_operating_system bodies) port sha now ident q sv)"
| "serve_assets decode uuid bodies port sha now (RouteDeleteOperatingSystem ident) q sv =
     answered (rest_delete_operating_system decode uuid port sha now ident q sv)"
| "serve_assets decode uuid bodies port sha now RouteListTlsCertificates q sv =
     answered (rest_list_tls_certificates decode uuid port sha now q sv)"
| "serve_assets decode uuid bodies port sha now (RouteGetTlsCertificate ident) q sv =
     answered (rest_get_tls_certificate uuid port sha now ident q sv)"

lemma assets_act_for_own_session:
  "acts_for_own_session sha now q sv
     (serve_assets decode uuid bodies (gvmd_asset_port sha L B) sha now route q sv)"
  by (cases route; (simp only: serve_assets.simps rest_list_assets_def rest_get_asset_def rest_update_asset_def rest_delete_asset_def
        rest_list_hosts_def rest_get_host_def rest_create_host_def rest_update_host_def
        rest_delete_host_def rest_list_operating_systems_def rest_get_operating_system_def
        rest_update_operating_system_def rest_delete_operating_system_def
        rest_list_tls_certificates_def rest_get_tls_certificate_def
        list_assets_def get_asset_def modify_asset_def delete_asset_def list_hosts_def
        get_host_def create_host_def modify_host_def delete_host_def list_operating_systems_def
        get_operating_system_def modify_operating_system_def delete_operating_system_def
        list_tls_certificates_def get_tls_certificate_def
        gvmd_asset_port_def AssetPort.simps;
      rule acts_answered; intro within own_session_rules speaks refl))

section \<open>Order and conflicts\<close>

text \<open>The hosts of a page are answered in the order of their names, addresses and identifiers.\<close>

lemma hosts_page_sorted:
  "gvmd_list_hosts sha L B token query w = (Inr (items, pagination), w') \<Longrightarrow> sorted (map host_order items)"
  by (auto simp: gvmd_list_hosts_def chain_def pure_def split: prod.splits sum.splits)

lemma assets_page_sorted:
  "gvmd_list_assets sha L B token query w = (Inr (items, pagination), w') \<Longrightarrow> sorted (map asset_order items)"
  by (auto simp: gvmd_list_assets_def chain_def checked_def pure_def split: prod.splits sum.splits)

text \<open>An operating system that is still in use is a conflict of the request, not an invalid request.\<close>

lemma operating_system_in_use:
  "status_for_gateway_error (operating_system_deletion_error (GvmServer 400 message text)) = 409"
  by (simp add: operating_system_deletion_error_def)

text \<open>The name under which a host asset is listed: its address, or its host name, or its name.\<close>

lemma host_asset_value:
  "generic_asset_from_gmp (HostAsset host) = Inr a \<Longrightarrow>
     gna_asset_type a = ''host'' \<and> gna_value a \<noteq> None \<and> (ghs_ip host \<noteq> None \<longrightarrow> gna_value a = ghs_ip host)"
  by (auto simp: generic_asset_from_gmp_def Let_def split: option.splits)

text \<open>
  The type of an asset is required, and the last one given counts: a request without it is
  refused before its identifier and its token are looked at.
\<close>

lemma asset_type_comes_first:
  "decode (query_text q) = [] \<Longrightarrow>
     fst (rest_get_asset decode uuid port sha now ident q sv)
       = gateway_error (InvalidInput ''type is required because typed gvmd asset reads are type-scoped'') (rq_path q)
     \<and> snd (rest_get_asset decode uuid port sha now ident q sv) = sv"
  by (simp add: rest_get_asset_def with_asset_type_def required_asset_type_def)

end
