(* ===== verification/Alerts.thy ===== *)
theory Alerts
  imports Rest_Resources
begin

text \<open>
  Alerts, from the request to the command: \<open>alerts.rs\<close> of the crates \<open>gvm-gateway-domain\<close>,
  \<open>gvm-gateway-gvmd\<close> (under \<open>gvmd_adapter/ports\<close>), \<open>gvm-gateway-app\<close> and \<open>gvm-gateway-rest\<close>.
  A map from names to texts is the list of its entries.
\<close>

section \<open>Domain\<close>

record Alert =
  al_id :: string
  al_name :: string
  al_comment :: "string option"
  al_event :: "string option"
  al_condition :: "string option"
  al_method :: "string option"
  al_event_data :: "(string \<times> string) list"
  al_condition_data :: "(string \<times> string) list"
  al_method_data :: "(string \<times> string) list"
  al_filter :: "ResourceRef option"
  al_in_use :: bool
  al_writable :: bool

record CreateAlertInput =
  ali_name :: string
  ali_comment :: "string option"
  ali_event :: "string option"
  ali_condition :: "string option"
  ali_method :: "string option"
  ali_event_data :: "(string \<times> string) list"
  ali_condition_data :: "(string \<times> string) list"
  ali_method_data :: "(string \<times> string) list"
  ali_filter_id :: "string option"

record ModifyAlertInput =
  alm_name :: "string option"
  alm_comment :: "string option"
  alm_event :: "string option"
  alm_condition :: "string option"
  alm_method :: "string option"
  alm_event_data :: "((string \<times> string) list) option"
  alm_condition_data :: "((string \<times> string) list) option"
  alm_method_data :: "((string \<times> string) list) option"
  alm_filter_id :: "string option"

type_synonym 's AlertPort = "('s, Alert, CreateAlertInput, ModifyAlertInput) CrudPort"

section \<open>Adapter\<close>

definition alert_from_gmp :: "GmpAlert \<Rightarrow> Alert" where
  "alert_from_gmp a =
     \<lparr>al_id = em_id (gal_meta a), al_name = em_name (gal_meta a), al_comment = em_comment (gal_meta a),
      al_event = gal_event a, al_condition = gal_condition a, al_method = gal_method a,
      al_event_data = gal_event_data a, al_condition_data = gal_condition_data a,
      al_method_data = gal_method_data a,
      al_filter = map_option (\<lambda>resource. \<lparr>rr_id = ne_id resource, rr_name = Some (ne_name resource)\<rparr>) (gal_filter a),
      al_in_use = em_in_use (gal_meta a), al_writable = em_writable (gal_meta a)\<rparr>"

definition parse_alert_event :: "'r ResourceLibrary \<Rightarrow> string \<Rightarrow> string result" where
  "parse_alert_event B = parse_known ''event'' (bl_alert_event B)"

definition parse_alert_condition :: "'r ResourceLibrary \<Rightarrow> string \<Rightarrow> string result" where
  "parse_alert_condition B = parse_known ''condition'' (bl_alert_condition B)"

definition parse_alert_method :: "'r ResourceLibrary \<Rightarrow> string \<Rightarrow> string result" where
  "parse_alert_method B = parse_known ''method'' (bl_alert_method B)"

text \<open>The entries of a map are sent in the order of their names.\<close>

definition alert_data :: "(string \<times> string) list \<Rightarrow> (string \<times> string) list" where
  "alert_data entries = sort_key fst entries"

text \<open>The texts of event, condition and method are read in this order, each if it is given.\<close>

definition alert_opts ::
    "('r, 'g, 'f) GmpLibrary \<Rightarrow> 'r ResourceLibrary \<Rightarrow> string option \<Rightarrow> string option \<Rightarrow> string option \<Rightarrow> string option
      \<Rightarrow> string option \<Rightarrow> (string \<times> string) list \<Rightarrow> (string \<times> string) list \<Rightarrow> (string \<times> string) list \<Rightarrow> string option
      \<Rightarrow> AlertOpts result" where
  "alert_opts L B name comment event condition meth event_data condition_data meth_data filter_id =
     and_then (map_transpose (parse_alert_event B) event) (\<lambda>event.
     and_then (map_transpose (parse_alert_condition B) condition) (\<lambda>condition.
     and_then (map_transpose (parse_alert_method B) meth) (\<lambda>meth.
     and_then (map_transpose (parse_entity_id L) filter_id) (\<lambda>filter_id.
       Inr \<lparr>ao_name = name, ao_comment = comment, ao_event = event, ao_event_data = alert_data event_data,
            ao_condition = condition, ao_condition_data = alert_data condition_data, ao_method = meth,
            ao_method_data = alert_data meth_data, ao_filter_id = filter_id\<rparr>))))"

definition gvmd_list_alerts ::
    "(string \<Rightarrow> u8 list) \<Rightarrow> ('r, 'g, 'f) GmpLibrary \<Rightarrow> 'r ResourceLibrary \<Rightarrow> string
      \<Rightarrow> ListQuery \<Rightarrow> ('g Gvmd, Alert Page) operation" where
  "gvmd_list_alerts sha L B =
     list_resources sha L None [] (\<lambda>filter_string. OnAlerts (GetAlerts \<lparr>lo_filter_string = filter_string, lo_details = Some True\<rparr>)) (bl_alerts B) alert_from_gmp"

definition gvmd_create_alert ::
    "(string \<Rightarrow> u8 list) \<Rightarrow> ('r, 'g, 'f) GmpLibrary \<Rightarrow> 'r ResourceLibrary \<Rightarrow> string
      \<Rightarrow> CreateAlertInput \<Rightarrow> ('g Gvmd, string) operation" where
  "gvmd_create_alert sha L B session_token input =
     then_call sha session_token
       (alert_opts L B None (ali_comment input) (ali_event input) (ali_condition input) (ali_method input)
          (ali_event_data input) (ali_condition_data input) (ali_method_data input) (ali_filter_id input))
       (\<lambda>opts. call_create sha L session_token (OnAlerts (CreateAlert (ali_name input) opts)))"

definition gvmd_get_alert ::
    "(string \<Rightarrow> u8 list) \<Rightarrow> ('r, 'g, 'f) GmpLibrary \<Rightarrow> 'r ResourceLibrary \<Rightarrow> string \<Rightarrow> string
      \<Rightarrow> ('g Gvmd, Alert) operation" where
  "gvmd_get_alert sha L B = get_one sha L (\<lambda>ident. OnAlerts (GetAlert ident)) (bl_alerts B) alert_from_gmp ''alert''"

definition gvmd_modify_alert ::
    "(string \<Rightarrow> u8 list) \<Rightarrow> ('r, 'g, 'f) GmpLibrary \<Rightarrow> 'r ResourceLibrary \<Rightarrow> string \<Rightarrow> string
      \<Rightarrow> ModifyAlertInput \<Rightarrow> ('g Gvmd, Alert) operation" where
  "gvmd_modify_alert sha L B session_token ident input =
     modify_and_get sha L
       (and_then (parse_entity_id L ident) (\<lambda>entity_id.
        and_then (alert_opts L B (alm_name input) (alm_comment input) (alm_event input) (alm_condition input)
           (alm_method input) (unwrap_or (alm_event_data input) []) (unwrap_or (alm_condition_data input) [])
           (unwrap_or (alm_method_data input) []) (alm_filter_id input)) (\<lambda>opts.
          Inr (OnAlerts (ModifyAlert entity_id opts)))))
       session_token (gvmd_get_alert sha L B session_token ident)"

definition gvmd_delete_alert ::
    "(string \<Rightarrow> u8 list) \<Rightarrow> ('r, 'g, 'f) GmpLibrary \<Rightarrow> 'r ResourceLibrary \<Rightarrow> string \<Rightarrow> string
      \<Rightarrow> bool \<Rightarrow> ('g Gvmd, unit) operation" where
  "gvmd_delete_alert sha L B session_token ident ultimate =
     delete_one sha L (\<lambda>entity_id. OnAlerts (DeleteAlert entity_id ultimate)) session_token ident"

definition gvmd_alert_port ::
    "(string \<Rightarrow> u8 list) \<Rightarrow> ('r, 'g, 'f) GmpLibrary \<Rightarrow> 'r ResourceLibrary
      \<Rightarrow> 'g Gvmd AlertPort" where
  "gvmd_alert_port sha L B =
     \<lparr>cp_list = gvmd_list_alerts sha L B,
      cp_create = gvmd_create_alert sha L B,
      cp_get = gvmd_get_alert sha L B,
      cp_modify = gvmd_modify_alert sha L B,
      cp_delete = gvmd_delete_alert sha L B\<rparr>"

lemma speaks_alerts [speaks]:
  "d = from_token sha session_token \<Longrightarrow> speaks_for d (gvmd_list_alerts sha L B session_token query)"
  "d = from_token sha session_token \<Longrightarrow> speaks_for d (gvmd_create_alert sha L B session_token input)"
  "d = from_token sha session_token \<Longrightarrow> speaks_for d (gvmd_get_alert sha L B session_token ident)"
  "d = from_token sha session_token \<Longrightarrow> speaks_for d (gvmd_modify_alert sha L B session_token ident update)"
  "d = from_token sha session_token \<Longrightarrow> speaks_for d (gvmd_delete_alert sha L B session_token ident ultimate)"
  unfolding gvmd_list_alerts_def gvmd_create_alert_def gvmd_get_alert_def gvmd_modify_alert_def gvmd_delete_alert_def
  by (auto intro!: speaks split: option.split)

section \<open>Use cases\<close>

definition list_alerts ::
    "'s AlertPort \<Rightarrow> (string \<Rightarrow> u8 list) \<Rightarrow> u64 \<Rightarrow> string \<Rightarrow> ListQuery \<Rightarrow> 's GatewayService
      \<Rightarrow> Alert Page result \<times> 's GatewayService" where
  "list_alerts port sha now session_token query =
     use_port sha now session_token ''list'' ''alert'' (\<lambda>token. cp_list port token query)"

definition create_alert ::
    "'s AlertPort \<Rightarrow> (string \<Rightarrow> u8 list) \<Rightarrow> u64 \<Rightarrow> string \<Rightarrow> CreateAlertInput
      \<Rightarrow> 's GatewayService \<Rightarrow> string result \<times> 's GatewayService" where
  "create_alert port sha now session_token input =
     use_port sha now session_token ''create'' ''alert'' (\<lambda>token. cp_create port token input)"

definition get_alert ::
    "'s AlertPort \<Rightarrow> (string \<Rightarrow> u8 list) \<Rightarrow> u64 \<Rightarrow> string \<Rightarrow> string \<Rightarrow> 's GatewayService
      \<Rightarrow> Alert result \<times> 's GatewayService" where
  "get_alert port sha now session_token ident =
     use_port sha now session_token ''read'' ''alert'' (\<lambda>token. cp_get port token ident)"

definition modify_alert ::
    "'s AlertPort \<Rightarrow> (string \<Rightarrow> u8 list) \<Rightarrow> u64 \<Rightarrow> string \<Rightarrow> string \<Rightarrow> ModifyAlertInput
      \<Rightarrow> 's GatewayService \<Rightarrow> Alert result \<times> 's GatewayService" where
  "modify_alert port sha now session_token ident input =
     use_port sha now session_token ''modify'' ''alert'' (\<lambda>token. cp_modify port token ident input)"

definition delete_alert ::
    "'s AlertPort \<Rightarrow> (string \<Rightarrow> u8 list) \<Rightarrow> u64 \<Rightarrow> string \<Rightarrow> string \<Rightarrow> bool
      \<Rightarrow> 's GatewayService \<Rightarrow> unit result \<times> 's GatewayService" where
  "delete_alert port sha now session_token ident ultimate =
     use_port sha now session_token ''delete'' ''alert'' (\<lambda>token. cp_delete port token ident ultimate)"

section \<open>Endpoints\<close>

datatype AlertEventValue =
    EventTaskRunStatusChanged | EventUpdatedSecInfo | EventNewSecInfo | UnknownAlertEvent string

definition alert_event_values :: "(string \<times> AlertEventValue) list" where
  "alert_event_values =
     [(''task_run_status_changed'', EventTaskRunStatusChanged), (''updated_secinfo'',
      EventUpdatedSecInfo), (''new_secinfo'', EventNewSecInfo)]"

definition alert_event_parse :: "string \<Rightarrow> AlertEventValue" where
  "alert_event_parse = open_enum_parse alert_event_values UnknownAlertEvent"

definition alert_event_as_str :: "AlertEventValue \<Rightarrow> string" where
  "alert_event_as_str t =
     (case t of UnknownAlertEvent s \<Rightarrow> s
      | _ \<Rightarrow> (case open_enum_name alert_event_values t of Some v \<Rightarrow> v | None \<Rightarrow> []))"

datatype (plugins only: code size) AlertConditionValue =
    ConditionAlways | ConditionFilterCountAtLeast | ConditionFilterCountChanged |
  ConditionSeverityAtLeast | ConditionSeverityChanged | UnknownAlertCondition string

definition alert_condition_values :: "(string \<times> AlertConditionValue) list" where
  "alert_condition_values =
     [(''always'', ConditionAlways), (''filter_count_at_least'', ConditionFilterCountAtLeast),
      (''filter_count_changed'', ConditionFilterCountChanged), (''severity_at_least'',
      ConditionSeverityAtLeast), (''severity_changed'', ConditionSeverityChanged)]"

definition alert_condition_parse :: "string \<Rightarrow> AlertConditionValue" where
  "alert_condition_parse = open_enum_parse alert_condition_values UnknownAlertCondition"

definition alert_condition_as_str :: "AlertConditionValue \<Rightarrow> string" where
  "alert_condition_as_str t =
     (case t of UnknownAlertCondition s \<Rightarrow> s
      | _ \<Rightarrow> (case open_enum_name alert_condition_values t of Some v \<Rightarrow> v | None \<Rightarrow> []))"

datatype (plugins only: code size) AlertMethodValue =
    MethodEmail | MethodHttpGet | MethodScp | MethodSendEmail | MethodSmb | MethodSnmp |
  MethodSourcefireConnector | MethodStartTask | MethodSyslog | MethodTippingpoint |
  MethodVeriniceCe | MethodVeriniceNet | MethodAlemba | UnknownAlertMethod string

definition alert_method_values :: "(string \<times> AlertMethodValue) list" where
  "alert_method_values =
     [(''email'', MethodEmail), (''http_get'', MethodHttpGet), (''scp'', MethodScp),
      (''send_email'', MethodSendEmail), (''smb'', MethodSmb), (''snmp'', MethodSnmp),
      (''sourcefire_connector'', MethodSourcefireConnector), (''start_task'', MethodStartTask),
      (''syslog'', MethodSyslog), (''tippingpoint'', MethodTippingpoint), (''verinice_ce'',
      MethodVeriniceCe), (''verinice_net'', MethodVeriniceNet), (''alemba'', MethodAlemba)]"

definition alert_method_parse :: "string \<Rightarrow> AlertMethodValue" where
  "alert_method_parse = open_enum_parse alert_method_values UnknownAlertMethod"

definition alert_method_as_str :: "AlertMethodValue \<Rightarrow> string" where
  "alert_method_as_str t =
     (case t of UnknownAlertMethod s \<Rightarrow> s
      | _ \<Rightarrow> (case open_enum_name alert_method_values t of Some v \<Rightarrow> v | None \<Rightarrow> []))"

record AlertResponse =
  alr_id :: string
  alr_name :: string
  alr_comment :: "string option"
  alr_event :: "AlertEventValue option"
  alr_condition :: "AlertConditionValue option"
  alr_method :: "AlertMethodValue option"
  alr_event_data :: "(string \<times> string) list"
  alr_condition_data :: "(string \<times> string) list"
  alr_method_data :: "(string \<times> string) list"
  alr_filter :: "ResourceRefResponse option"
  alr_in_use :: bool
  alr_writable :: bool

definition alert_response :: "(string \<Rightarrow> string option) \<Rightarrow> Alert \<Rightarrow> AlertResponse" where
  "alert_response uuid alert =
     \<lparr>alr_id = parse_uuid uuid (al_id alert), alr_name = al_name alert,
       alr_comment = al_comment alert, alr_event = map_option alert_event_parse (al_event alert),
       alr_condition = map_option alert_condition_parse (al_condition alert),
       alr_method = map_option alert_method_parse (al_method alert),
       alr_event_data = al_event_data alert, alr_condition_data = al_condition_data alert,
       alr_method_data = al_method_data alert,
       alr_filter = map_option (resource_ref_response uuid) (al_filter alert),
       alr_in_use = al_in_use alert, alr_writable = al_writable alert\<rparr>"

record CreateAlertRequest =
  alc_name :: string
  alc_comment :: "string option"
  alc_event :: "AlertEventValue option"
  alc_condition :: "AlertConditionValue option"
  alc_method :: "AlertMethodValue option"
  alc_event_data :: "(string \<times> string) list"
  alc_condition_data :: "(string \<times> string) list"
  alc_method_data :: "(string \<times> string) list"
  alc_filter_id :: "string option"

definition validate_create_alert ::
    "(string \<Rightarrow> string option) \<Rightarrow> CreateAlertRequest \<Rightarrow> CreateAlertInput result" where
  "validate_create_alert uuid r =
     and_then (not_blank ''name'' (alc_name r)) (\<lambda>_.
     and_then (validate_optional_uuid uuid ''filterId'' (alc_filter_id r)) (\<lambda>_.
       Inr \<lparr>ali_name = alc_name r, ali_comment = alc_comment r,
        ali_event = map_option (\<lambda>event. alert_event_as_str event) (alc_event r),
        ali_condition = map_option (\<lambda>condition. alert_condition_as_str condition) (alc_condition r),
        ali_method = map_option (\<lambda>method0. alert_method_as_str method0) (alc_method r),
        ali_event_data = alc_event_data r, ali_condition_data = alc_condition_data r,
        ali_method_data = alc_method_data r, ali_filter_id = alc_filter_id r\<rparr>))"

record ModifyAlertRequest =
  alu_name :: "string option"
  alu_comment :: "string option"
  alu_event :: "string option"
  alu_condition :: "string option"
  alu_method :: "string option"
  alu_event_data :: "((string \<times> string) list) option"
  alu_condition_data :: "((string \<times> string) list) option"
  alu_method_data :: "((string \<times> string) list) option"
  alu_filter_id :: "string option"

definition validate_modify_alert ::
    "(string \<Rightarrow> string option) \<Rightarrow> ModifyAlertRequest \<Rightarrow> ModifyAlertInput result" where
  "validate_modify_alert uuid r =
     and_then (validate_optional_uuid uuid ''filterId'' (alu_filter_id r)) (\<lambda>_.
       Inr \<lparr>alm_name = alu_name r, alm_comment = alu_comment r, alm_event = alu_event r,
        alm_condition = alu_condition r, alm_method = alu_method r, alm_event_data = alu_event_data r,
        alm_condition_data = alu_condition_data r, alm_method_data = alu_method_data r,
        alm_filter_id = alu_filter_id r\<rparr>)"

definition rest_list_alerts ::
    "(string \<Rightarrow> (string \<times> string) list) \<Rightarrow> (string \<Rightarrow> string option) \<Rightarrow> 's AlertPort
      \<Rightarrow> (string \<Rightarrow> u8 list) \<Rightarrow> u64 \<Rightarrow> Request \<Rightarrow> 's GatewayService
      \<Rightarrow> AlertResponse ListResponse RestBody Response \<times> 's GatewayService" where
  "rest_list_alerts decode uuid port sha now =
     list_resource (list_query decode uuid) (\<lambda>session query. list_alerts port sha now session query)
       (list_response (alert_response uuid))"

definition rest_create_alert ::
    "(string \<Rightarrow> string option) \<Rightarrow> (u8 list \<Rightarrow> string + CreateAlertRequest) \<Rightarrow> 's AlertPort
      \<Rightarrow> (string \<Rightarrow> u8 list) \<Rightarrow> u64 \<Rightarrow> Request \<Rightarrow> 's GatewayService
      \<Rightarrow> AlertResponse RestBody Response \<times> 's GatewayService" where
  "rest_create_alert uuid from_slice port sha now =
     create_resource uuid from_slice (validate_create_alert uuid)
       (\<lambda>session input. create_alert port sha now session input)"

definition rest_get_alert ::
    "(string \<Rightarrow> string option) \<Rightarrow> 's AlertPort \<Rightarrow> (string \<Rightarrow> u8 list) \<Rightarrow> u64 \<Rightarrow> string
      \<Rightarrow> Request \<Rightarrow> 's GatewayService
      \<Rightarrow> AlertResponse RestBody Response \<times> 's GatewayService" where
  "rest_get_alert uuid port sha now =
     get_resource uuid (\<lambda>session ident. get_alert port sha now session ident) (alert_response uuid)"

definition rest_update_alert ::
    "(string \<Rightarrow> string option) \<Rightarrow> (u8 list \<Rightarrow> string + ModifyAlertRequest) \<Rightarrow> 's AlertPort
      \<Rightarrow> (string \<Rightarrow> u8 list) \<Rightarrow> u64 \<Rightarrow> string \<Rightarrow> Request \<Rightarrow> 's GatewayService
      \<Rightarrow> AlertResponse RestBody Response \<times> 's GatewayService" where
  "rest_update_alert uuid from_slice port sha now =
     update_resource uuid from_slice (validate_modify_alert uuid)
       (\<lambda>session ident input. modify_alert port sha now session ident input) (alert_response uuid)"

definition rest_delete_alert ::
    "(string \<Rightarrow> (string \<times> string) list) \<Rightarrow> (string \<Rightarrow> string option) \<Rightarrow> 's AlertPort
      \<Rightarrow> (string \<Rightarrow> u8 list) \<Rightarrow> u64 \<Rightarrow> string \<Rightarrow> Request \<Rightarrow> 's GatewayService
      \<Rightarrow> AlertResponse RestBody Response \<times> 's GatewayService" where
  "rest_delete_alert decode uuid port sha now =
     delete_resource uuid decode (\<lambda>session ident ultimate. delete_alert port sha now session ident ultimate)"

fun serve_alerts ::
    "(string \<Rightarrow> (string \<times> string) list) \<Rightarrow> (string \<Rightarrow> string option) \<Rightarrow> (u8 list \<Rightarrow> string + CreateAlertRequest)
      \<Rightarrow> (u8 list \<Rightarrow> string + ModifyAlertRequest) \<Rightarrow> 's AlertPort \<Rightarrow> (string \<Rightarrow> u8 list)
      \<Rightarrow> u64 \<Rightarrow> CrudRoute \<Rightarrow> Request \<Rightarrow> 's GatewayService \<Rightarrow> nat \<times> 's GatewayService" where
  "serve_alerts decode uuid cbody mbody port sha now ListAll q sv = answered (rest_list_alerts decode uuid port sha now q sv)"
| "serve_alerts decode uuid cbody mbody port sha now PostNew q sv = answered (rest_create_alert uuid cbody port sha now q sv)"
| "serve_alerts decode uuid cbody mbody port sha now (GetBy ident) q sv = answered (rest_get_alert uuid port sha now ident q sv)"
| "serve_alerts decode uuid cbody mbody port sha now (PutBy ident) q sv = answered (rest_update_alert uuid mbody port sha now ident q sv)"
| "serve_alerts decode uuid cbody mbody port sha now (DeleteBy ident) q sv = answered (rest_delete_alert decode uuid port sha now ident q sv)"

lemma alerts_act_for_own_session:
  "acts_for_own_session sha now q sv
     (serve_alerts decode uuid cbody mbody (gvmd_alert_port sha L B) sha now route q sv)"
  by (cases route; (simp only: serve_alerts.simps rest_list_alerts_def rest_create_alert_def rest_get_alert_def rest_update_alert_def rest_delete_alert_def
        list_alerts_def create_alert_def get_alert_def modify_alert_def delete_alert_def gvmd_alert_port_def CrudPort.simps;
      rule acts_answered; intro within own_session_rules speaks refl))

end
