(* ===== verification/Schedules.thy ===== *)
theory Schedules
  imports Rest_Resources
begin

text \<open>
  Schedules, from the request to the command: \<open>schedules.rs\<close> of the crates
  \<open>gvm-gateway-domain\<close>, \<open>gvm-gateway-gvmd\<close> (under \<open>gvmd_adapter/ports\<close>), \<open>gvm-gateway-app\<close> and
  \<open>gvm-gateway-rest\<close>.
\<close>

section \<open>Domain\<close>

record Schedule =
  sd_id :: string
  sd_name :: string
  sd_comment :: "string option"
  sd_icalendar :: "string option"
  sd_timezone :: "string option"
  sd_first_run :: "string option"
  sd_next_run :: "string option"
  sd_duration :: "u32 option"
  sd_in_use :: bool
  sd_writable :: bool

record CreateScheduleInput =
  sdi_name :: string
  sdi_comment :: "string option"
  sdi_icalendar :: string
  sdi_timezone :: string

record ModifyScheduleInput =
  sdm_name :: "string option"
  sdm_comment :: "string option"
  sdm_icalendar :: "string option"
  sdm_timezone :: "string option"

type_synonym 's SchedulePort = "('s, Schedule, CreateScheduleInput, ModifyScheduleInput) CrudPort"

section \<open>Adapter\<close>

definition schedule_from_gmp :: "GmpSchedule \<Rightarrow> Schedule" where
  "schedule_from_gmp x =
     \<lparr>sd_id = em_id (gsd_meta x), sd_name = em_name (gsd_meta x),
       sd_comment = em_comment (gsd_meta x), sd_icalendar = gsd_icalendar x,
       sd_timezone = gsd_timezone x, sd_first_run = gsd_first_run x, sd_next_run = gsd_next_run x,
       sd_duration = gsd_duration x, sd_in_use = em_in_use (gsd_meta x),
       sd_writable = em_writable (gsd_meta x)\<rparr>"

definition gvmd_list_schedules ::
    "(string \<Rightarrow> u8 list) \<Rightarrow> ('r, 'g, 'f) GmpLibrary \<Rightarrow> 'r ResourceLibrary \<Rightarrow> string
      \<Rightarrow> ListQuery \<Rightarrow> ('g Gvmd, Schedule Page) operation" where
  "gvmd_list_schedules sha L B =
     list_resources sha L None [] (\<lambda>filter_string. OnSchedules (GetSchedules \<lparr>lo_filter_string = filter_string, lo_details = Some True\<rparr>)) (bl_schedules B) schedule_from_gmp"

definition gvmd_create_schedule ::
    "(string \<Rightarrow> u8 list) \<Rightarrow> ('r, 'g, 'f) GmpLibrary \<Rightarrow> 'r ResourceLibrary \<Rightarrow> string
      \<Rightarrow> CreateScheduleInput \<Rightarrow> ('g Gvmd, string) operation" where
  "gvmd_create_schedule sha L B session_token input =
     then_call sha session_token (Inr ()) (\<lambda>_.
       call_create sha L session_token (OnSchedules (CreateSchedule (sdi_name input)
         \<lparr>so_name = None, so_comment = sdi_comment input, so_icalendar = Some (sdi_icalendar input),
          so_timezone = Some (sdi_timezone input)\<rparr>)))"

definition gvmd_get_schedule ::
    "(string \<Rightarrow> u8 list) \<Rightarrow> ('r, 'g, 'f) GmpLibrary \<Rightarrow> 'r ResourceLibrary \<Rightarrow> string \<Rightarrow> string
      \<Rightarrow> ('g Gvmd, Schedule) operation" where
  "gvmd_get_schedule sha L B = get_one sha L (\<lambda>ident. OnSchedules (GetSchedule ident)) (bl_schedules B) schedule_from_gmp ''schedule''"

definition gvmd_modify_schedule ::
    "(string \<Rightarrow> u8 list) \<Rightarrow> ('r, 'g, 'f) GmpLibrary \<Rightarrow> 'r ResourceLibrary \<Rightarrow> string \<Rightarrow> string
      \<Rightarrow> ModifyScheduleInput \<Rightarrow> ('g Gvmd, Schedule) operation" where
  "gvmd_modify_schedule sha L B session_token ident input =
     modify_and_get sha L
       (and_then (parse_entity_id L ident) (\<lambda>entity_id.
          Inr (OnSchedules (ModifySchedule entity_id
            \<lparr>so_name = sdm_name input, so_comment = sdm_comment input, so_icalendar = sdm_icalendar input,
             so_timezone = sdm_timezone input\<rparr>))))
       session_token (gvmd_get_schedule sha L B session_token ident)"

definition gvmd_delete_schedule ::
    "(string \<Rightarrow> u8 list) \<Rightarrow> ('r, 'g, 'f) GmpLibrary \<Rightarrow> 'r ResourceLibrary \<Rightarrow> string \<Rightarrow> string
      \<Rightarrow> bool \<Rightarrow> ('g Gvmd, unit) operation" where
  "gvmd_delete_schedule sha L B session_token ident ultimate =
     delete_one sha L (\<lambda>entity_id. OnSchedules (DeleteSchedule entity_id ultimate)) session_token ident"

definition gvmd_schedule_port ::
    "(string \<Rightarrow> u8 list) \<Rightarrow> ('r, 'g, 'f) GmpLibrary \<Rightarrow> 'r ResourceLibrary
      \<Rightarrow> 'g Gvmd SchedulePort" where
  "gvmd_schedule_port sha L B =
     \<lparr>cp_list = gvmd_list_schedules sha L B,
      cp_create = gvmd_create_schedule sha L B,
      cp_get = gvmd_get_schedule sha L B,
      cp_modify = gvmd_modify_schedule sha L B,
      cp_delete = gvmd_delete_schedule sha L B\<rparr>"

lemma speaks_schedules [speaks]:
  "d = from_token sha session_token \<Longrightarrow> speaks_for d (gvmd_list_schedules sha L B session_token query)"
  "d = from_token sha session_token \<Longrightarrow> speaks_for d (gvmd_create_schedule sha L B session_token input)"
  "d = from_token sha session_token \<Longrightarrow> speaks_for d (gvmd_get_schedule sha L B session_token ident)"
  "d = from_token sha session_token \<Longrightarrow> speaks_for d (gvmd_modify_schedule sha L B session_token ident update)"
  "d = from_token sha session_token \<Longrightarrow> speaks_for d (gvmd_delete_schedule sha L B session_token ident ultimate)"
  unfolding gvmd_list_schedules_def gvmd_create_schedule_def gvmd_get_schedule_def gvmd_modify_schedule_def gvmd_delete_schedule_def
  by (auto intro!: speaks split: option.split)

section \<open>Use cases\<close>

definition list_schedules ::
    "'s SchedulePort \<Rightarrow> (string \<Rightarrow> u8 list) \<Rightarrow> u64 \<Rightarrow> string \<Rightarrow> ListQuery
      \<Rightarrow> 's GatewayService \<Rightarrow> Schedule Page result \<times> 's GatewayService" where
  "list_schedules port sha now session_token query =
     use_port sha now session_token ''list'' ''schedule'' (\<lambda>token. cp_list port token query)"

definition create_schedule ::
    "'s SchedulePort \<Rightarrow> (string \<Rightarrow> u8 list) \<Rightarrow> u64 \<Rightarrow> string \<Rightarrow> CreateScheduleInput
      \<Rightarrow> 's GatewayService \<Rightarrow> string result \<times> 's GatewayService" where
  "create_schedule port sha now session_token input =
     use_port sha now session_token ''create'' ''schedule'' (\<lambda>token. cp_create port token input)"

definition get_schedule ::
    "'s SchedulePort \<Rightarrow> (string \<Rightarrow> u8 list) \<Rightarrow> u64 \<Rightarrow> string \<Rightarrow> string \<Rightarrow> 's GatewayService
      \<Rightarrow> Schedule result \<times> 's GatewayService" where
  "get_schedule port sha now session_token ident =
     use_port sha now session_token ''read'' ''schedule'' (\<lambda>token. cp_get port token ident)"

definition modify_schedule ::
    "'s SchedulePort \<Rightarrow> (string \<Rightarrow> u8 list) \<Rightarrow> u64 \<Rightarrow> string \<Rightarrow> string \<Rightarrow> ModifyScheduleInput
      \<Rightarrow> 's GatewayService \<Rightarrow> Schedule result \<times> 's GatewayService" where
  "modify_schedule port sha now session_token ident input =
     use_port sha now session_token ''modify'' ''schedule'' (\<lambda>token. cp_modify port token ident input)"

definition delete_schedule ::
    "'s SchedulePort \<Rightarrow> (string \<Rightarrow> u8 list) \<Rightarrow> u64 \<Rightarrow> string \<Rightarrow> string \<Rightarrow> bool
      \<Rightarrow> 's GatewayService \<Rightarrow> unit result \<times> 's GatewayService" where
  "delete_schedule port sha now session_token ident ultimate =
     use_port sha now session_token ''delete'' ''schedule'' (\<lambda>token. cp_delete port token ident ultimate)"

section \<open>Endpoints\<close>

record ScheduleResponse =
  sdr_id :: string
  sdr_name :: string
  sdr_comment :: "string option"
  sdr_icalendar :: "string option"
  sdr_timezone :: "string option"
  sdr_first_run :: "string option"
  sdr_next_run :: "string option"
  sdr_duration :: "u32 option"
  sdr_in_use :: bool
  sdr_writable :: bool

definition schedule_response :: "(string \<Rightarrow> string option) \<Rightarrow> Schedule \<Rightarrow> ScheduleResponse" where
  "schedule_response uuid x =
     \<lparr>sdr_id = parse_uuid uuid (sd_id x), sdr_name = sd_name x, sdr_comment = sd_comment x,
       sdr_icalendar = sd_icalendar x, sdr_timezone = sd_timezone x, sdr_first_run = sd_first_run x,
       sdr_next_run = sd_next_run x, sdr_duration = sd_duration x, sdr_in_use = sd_in_use x,
       sdr_writable = sd_writable x\<rparr>"

record CreateScheduleRequest =
  sdc_name :: string
  sdc_comment :: "string option"
  sdc_icalendar :: string
  sdc_timezone :: string

definition validate_create_schedule :: "CreateScheduleRequest \<Rightarrow> CreateScheduleInput result" where
  "validate_create_schedule r =
     and_then (not_blank ''name'' (sdc_name r)) (\<lambda>_.
     and_then (not_blank ''icalendar'' (sdc_icalendar r)) (\<lambda>_.
     and_then (not_blank ''timezone'' (sdc_timezone r)) (\<lambda>_.
       Inr \<lparr>sdi_name = sdc_name r, sdi_comment = sdc_comment r, sdi_icalendar = sdc_icalendar r,
        sdi_timezone = sdc_timezone r\<rparr>)))"

record ModifyScheduleRequest =
  sdu_name :: "string option"
  sdu_comment :: "string option"
  sdu_icalendar :: "string option"
  sdu_timezone :: "string option"

definition validate_modify_schedule :: "ModifyScheduleRequest \<Rightarrow> ModifyScheduleInput result" where
  "validate_modify_schedule r =
       Inr \<lparr>sdm_name = sdu_name r, sdm_comment = sdu_comment r, sdm_icalendar = sdu_icalendar r,
        sdm_timezone = sdu_timezone r\<rparr>"

definition rest_list_schedules ::
    "(string \<Rightarrow> (string \<times> string) list) \<Rightarrow> (string \<Rightarrow> string option)
      \<Rightarrow> 's SchedulePort \<Rightarrow> (string \<Rightarrow> u8 list) \<Rightarrow> u64 \<Rightarrow> Request \<Rightarrow> 's GatewayService
      \<Rightarrow> ScheduleResponse ListResponse RestBody Response \<times> 's GatewayService" where
  "rest_list_schedules decode uuid port sha now =
     list_resource (list_query decode uuid) (\<lambda>session query. list_schedules port sha now session query)
       (list_response (schedule_response uuid))"

definition rest_create_schedule ::
    "(string \<Rightarrow> string option) \<Rightarrow> (u8 list \<Rightarrow> string + CreateScheduleRequest)
      \<Rightarrow> 's SchedulePort \<Rightarrow> (string \<Rightarrow> u8 list) \<Rightarrow> u64 \<Rightarrow> Request \<Rightarrow> 's GatewayService
      \<Rightarrow> ScheduleResponse RestBody Response \<times> 's GatewayService" where
  "rest_create_schedule uuid from_slice port sha now =
     create_resource uuid from_slice (validate_create_schedule)
       (\<lambda>session input. create_schedule port sha now session input)"

definition rest_get_schedule ::
    "(string \<Rightarrow> string option) \<Rightarrow> 's SchedulePort \<Rightarrow> (string \<Rightarrow> u8 list) \<Rightarrow> u64 \<Rightarrow> string
      \<Rightarrow> Request \<Rightarrow> 's GatewayService
      \<Rightarrow> ScheduleResponse RestBody Response \<times> 's GatewayService" where
  "rest_get_schedule uuid port sha now =
     get_resource uuid (\<lambda>session ident. get_schedule port sha now session ident) (schedule_response uuid)"

definition rest_update_schedule ::
    "(string \<Rightarrow> string option) \<Rightarrow> (u8 list \<Rightarrow> string + ModifyScheduleRequest)
      \<Rightarrow> 's SchedulePort \<Rightarrow> (string \<Rightarrow> u8 list) \<Rightarrow> u64 \<Rightarrow> string \<Rightarrow> Request
      \<Rightarrow> 's GatewayService \<Rightarrow> ScheduleResponse RestBody Response \<times> 's GatewayService" where
  "rest_update_schedule uuid from_slice port sha now =
     update_resource uuid from_slice (validate_modify_schedule)
       (\<lambda>session ident input. modify_schedule port sha now session ident input) (schedule_response uuid)"

definition rest_delete_schedule ::
    "(string \<Rightarrow> (string \<times> string) list) \<Rightarrow> (string \<Rightarrow> string option)
      \<Rightarrow> 's SchedulePort \<Rightarrow> (string \<Rightarrow> u8 list) \<Rightarrow> u64 \<Rightarrow> string \<Rightarrow> Request
      \<Rightarrow> 's GatewayService \<Rightarrow> ScheduleResponse RestBody Response \<times> 's GatewayService" where
  "rest_delete_schedule decode uuid port sha now =
     delete_resource uuid decode (\<lambda>session ident ultimate. delete_schedule port sha now session ident ultimate)"

fun serve_schedules ::
    "(string \<Rightarrow> (string \<times> string) list) \<Rightarrow> (string \<Rightarrow> string option) \<Rightarrow> (u8 list \<Rightarrow> string + CreateScheduleRequest)
      \<Rightarrow> (u8 list \<Rightarrow> string + ModifyScheduleRequest) \<Rightarrow> 's SchedulePort \<Rightarrow> (string \<Rightarrow> u8 list)
      \<Rightarrow> u64 \<Rightarrow> CrudRoute \<Rightarrow> Request \<Rightarrow> 's GatewayService \<Rightarrow> nat \<times> 's GatewayService" where
  "serve_schedules decode uuid cbody mbody port sha now ListAll q sv = answered (rest_list_schedules decode uuid port sha now q sv)"
| "serve_schedules decode uuid cbody mbody port sha now PostNew q sv = answered (rest_create_schedule uuid cbody port sha now q sv)"
| "serve_schedules decode uuid cbody mbody port sha now (GetBy ident) q sv = answered (rest_get_schedule uuid port sha now ident q sv)"
| "serve_schedules decode uuid cbody mbody port sha now (PutBy ident) q sv = answered (rest_update_schedule uuid mbody port sha now ident q sv)"
| "serve_schedules decode uuid cbody mbody port sha now (DeleteBy ident) q sv = answered (rest_delete_schedule decode uuid port sha now ident q sv)"

lemma schedules_act_for_own_session:
  "acts_for_own_session sha now q sv
     (serve_schedules decode uuid cbody mbody (gvmd_schedule_port sha L B) sha now route q sv)"
  by (cases route; (simp only: serve_schedules.simps rest_list_schedules_def rest_create_schedule_def rest_get_schedule_def rest_update_schedule_def rest_delete_schedule_def
        list_schedules_def create_schedule_def get_schedule_def modify_schedule_def delete_schedule_def gvmd_schedule_port_def CrudPort.simps;
      rule acts_answered; intro within own_session_rules speaks refl))

text \<open>A blank icalendar or time zone is refused when a schedule is created, and passed on when it is modified.\<close>

lemma schedule_blanks:
  "validate_create_schedule r = Inr input \<longleftrightarrow>
     trim (sdc_name r) \<noteq> [] \<and> trim (sdc_icalendar r) \<noteq> [] \<and> trim (sdc_timezone r) \<noteq> []
     \<and> input = \<lparr>sdi_name = sdc_name r, sdi_comment = sdc_comment r, sdi_icalendar = sdc_icalendar r,
          sdi_timezone = sdc_timezone r\<rparr>"
  "\<exists>input. validate_modify_schedule u = Inr input \<and> sdm_icalendar input = sdu_icalendar u"
  by (auto simp: validate_create_schedule_def validate_modify_schedule_def body_checks)

end
