(* ===== verification/Port_Lists.thy ===== *)
theory Port_Lists
  imports Rest_Resources
begin

text \<open>
  Port lists, from the request to the command: \<open>port_lists.rs\<close> of the crates
  \<open>gvm-gateway-domain\<close>, \<open>gvm-gateway-gvmd\<close> (under \<open>gvmd_adapter/ports\<close>), \<open>gvm-gateway-app\<close> and
  \<open>gvm-gateway-rest\<close>.
\<close>

section \<open>Domain\<close>

record PortList =
  pl_id :: string
  pl_name :: string
  pl_comment :: "string option"
  pl_port_count :: "u32 option"
  pl_tcp_count :: "u32 option"
  pl_udp_count :: "u32 option"
  pl_port_range :: "string option"
  pl_in_use :: bool
  pl_writable :: bool

record CreatePortListInput =
  pli_name :: string
  pli_comment :: "string option"
  pli_port_range :: "string option"

record ModifyPortListInput =
  plu_name :: "string option"
  plu_comment :: "string option"
  plu_port_range :: "string option"

type_synonym 's PortListPort = "('s, PortList, CreatePortListInput, ModifyPortListInput) CrudPort"

section \<open>Adapter\<close>

definition port_list_from_gmp :: "GmpPortList \<Rightarrow> PortList" where
  "port_list_from_gmp x =
     \<lparr>pl_id = em_id (gpl_meta x), pl_name = em_name (gpl_meta x),
       pl_comment = em_comment (gpl_meta x), pl_port_count = gpl_port_count x,
       pl_tcp_count = gpl_tcp_count x, pl_udp_count = gpl_udp_count x,
       pl_port_range = gpl_port_range x, pl_in_use = em_in_use (gpl_meta x),
       pl_writable = em_writable (gpl_meta x)\<rparr>"

definition gvmd_list_port_lists ::
    "(string \<Rightarrow> u8 list) \<Rightarrow> ('r, 'g, 'f) GmpLibrary \<Rightarrow> 'r ResourceLibrary \<Rightarrow> string
      \<Rightarrow> ListQuery \<Rightarrow> ('g Gvmd, PortList Page) operation" where
  "gvmd_list_port_lists sha L B =
     list_resources sha L None [] (\<lambda>filter_string. OnPortLists (GetPortLists \<lparr>lo_filter_string = filter_string, lo_details = Some True\<rparr>)) (bl_port_lists B) port_list_from_gmp"

definition gvmd_create_port_list ::
    "(string \<Rightarrow> u8 list) \<Rightarrow> ('r, 'g, 'f) GmpLibrary \<Rightarrow> 'r ResourceLibrary \<Rightarrow> string
      \<Rightarrow> CreatePortListInput \<Rightarrow> ('g Gvmd, string) operation" where
  "gvmd_create_port_list sha L B session_token input =
     then_call sha session_token (Inr ()) (\<lambda>_.
       call_create sha L session_token (OnPortLists (CreatePortList (pli_name input)
         \<lparr>plo_comment = pli_comment input, plo_port_range = pli_port_range input\<rparr>)))"

definition gvmd_get_port_list ::
    "(string \<Rightarrow> u8 list) \<Rightarrow> ('r, 'g, 'f) GmpLibrary \<Rightarrow> 'r ResourceLibrary \<Rightarrow> string \<Rightarrow> string
      \<Rightarrow> ('g Gvmd, PortList) operation" where
  "gvmd_get_port_list sha L B = get_one sha L (\<lambda>ident. OnPortLists (GetPortList ident)) (bl_port_lists B) port_list_from_gmp ''port list''"

definition gvmd_modify_port_list ::
    "(string \<Rightarrow> u8 list) \<Rightarrow> ('r, 'g, 'f) GmpLibrary \<Rightarrow> 'r ResourceLibrary \<Rightarrow> string \<Rightarrow> string
      \<Rightarrow> ModifyPortListInput \<Rightarrow> ('g Gvmd, PortList) operation" where
  "gvmd_modify_port_list sha L B session_token ident input =
     checked (if plu_port_range input \<noteq> None
       then Inl (InvalidInput ''portRange cannot be replaced atomically; update individual port ranges instead'')
       else Inr ()) (\<lambda>_.
       modify_and_get sha L
         (and_then (parse_entity_id L ident) (\<lambda>entity_id.
            Inr (OnPortLists (ModifyPortList entity_id \<lparr>plm_name = plu_name input, plm_comment = plu_comment input\<rparr>))))
         session_token (gvmd_get_port_list sha L B session_token ident))"

definition gvmd_delete_port_list ::
    "(string \<Rightarrow> u8 list) \<Rightarrow> ('r, 'g, 'f) GmpLibrary \<Rightarrow> 'r ResourceLibrary \<Rightarrow> string \<Rightarrow> string
      \<Rightarrow> bool \<Rightarrow> ('g Gvmd, unit) operation" where
  "gvmd_delete_port_list sha L B session_token ident ultimate =
     delete_one sha L (\<lambda>entity_id. OnPortLists (DeletePortList entity_id ultimate)) session_token ident"

definition gvmd_port_list_port ::
    "(string \<Rightarrow> u8 list) \<Rightarrow> ('r, 'g, 'f) GmpLibrary \<Rightarrow> 'r ResourceLibrary
      \<Rightarrow> 'g Gvmd PortListPort" where
  "gvmd_port_list_port sha L B =
     \<lparr>cp_list = gvmd_list_port_lists sha L B,
      cp_create = gvmd_create_port_list sha L B,
      cp_get = gvmd_get_port_list sha L B,
      cp_modify = gvmd_modify_port_list sha L B,
      cp_delete = gvmd_delete_port_list sha L B\<rparr>"

lemma speaks_port_lists [speaks]:
  "d = from_token sha session_token \<Longrightarrow> speaks_for d (gvmd_list_port_lists sha L B session_token query)"
  "d = from_token sha session_token \<Longrightarrow> speaks_for d (gvmd_create_port_list sha L B session_token input)"
  "d = from_token sha session_token \<Longrightarrow> speaks_for d (gvmd_get_port_list sha L B session_token ident)"
  "d = from_token sha session_token \<Longrightarrow> speaks_for d (gvmd_modify_port_list sha L B session_token ident update)"
  "d = from_token sha session_token \<Longrightarrow> speaks_for d (gvmd_delete_port_list sha L B session_token ident ultimate)"
  unfolding gvmd_list_port_lists_def gvmd_create_port_list_def gvmd_get_port_list_def gvmd_modify_port_list_def gvmd_delete_port_list_def
  by (auto intro!: speaks split: option.split)

section \<open>Use cases\<close>

definition list_port_lists ::
    "'s PortListPort \<Rightarrow> (string \<Rightarrow> u8 list) \<Rightarrow> u64 \<Rightarrow> string \<Rightarrow> ListQuery
      \<Rightarrow> 's GatewayService \<Rightarrow> PortList Page result \<times> 's GatewayService" where
  "list_port_lists port sha now session_token query =
     use_port sha now session_token ''list'' ''port_list'' (\<lambda>token. cp_list port token query)"

definition create_port_list ::
    "'s PortListPort \<Rightarrow> (string \<Rightarrow> u8 list) \<Rightarrow> u64 \<Rightarrow> string \<Rightarrow> CreatePortListInput
      \<Rightarrow> 's GatewayService \<Rightarrow> string result \<times> 's GatewayService" where
  "create_port_list port sha now session_token input =
     use_port sha now session_token ''create'' ''port_list'' (\<lambda>token. cp_create port token input)"

definition get_port_list ::
    "'s PortListPort \<Rightarrow> (string \<Rightarrow> u8 list) \<Rightarrow> u64 \<Rightarrow> string \<Rightarrow> string \<Rightarrow> 's GatewayService
      \<Rightarrow> PortList result \<times> 's GatewayService" where
  "get_port_list port sha now session_token ident =
     use_port sha now session_token ''read'' ''port_list'' (\<lambda>token. cp_get port token ident)"

definition modify_port_list ::
    "'s PortListPort \<Rightarrow> (string \<Rightarrow> u8 list) \<Rightarrow> u64 \<Rightarrow> string \<Rightarrow> string \<Rightarrow> ModifyPortListInput
      \<Rightarrow> 's GatewayService \<Rightarrow> PortList result \<times> 's GatewayService" where
  "modify_port_list port sha now session_token ident input =
     use_port sha now session_token ''modify'' ''port_list'' (\<lambda>token. cp_modify port token ident input)"

definition delete_port_list ::
    "'s PortListPort \<Rightarrow> (string \<Rightarrow> u8 list) \<Rightarrow> u64 \<Rightarrow> string \<Rightarrow> string \<Rightarrow> bool
      \<Rightarrow> 's GatewayService \<Rightarrow> unit result \<times> 's GatewayService" where
  "delete_port_list port sha now session_token ident ultimate =
     use_port sha now session_token ''delete'' ''port_list'' (\<lambda>token. cp_delete port token ident ultimate)"

section \<open>Endpoints\<close>

record PortListResponse =
  plr_id :: string
  plr_name :: string
  plr_comment :: "string option"
  plr_port_count :: "u32 option"
  plr_tcp_count :: "u32 option"
  plr_udp_count :: "u32 option"
  plr_port_range :: "string option"
  plr_in_use :: bool
  plr_writable :: bool

definition port_list_response :: "(string \<Rightarrow> string option) \<Rightarrow> PortList \<Rightarrow> PortListResponse" where
  "port_list_response uuid x =
     \<lparr>plr_id = parse_uuid uuid (pl_id x), plr_name = pl_name x, plr_comment = pl_comment x,
       plr_port_count = pl_port_count x, plr_tcp_count = pl_tcp_count x,
       plr_udp_count = pl_udp_count x, plr_port_range = pl_port_range x, plr_in_use = pl_in_use x,
       plr_writable = pl_writable x\<rparr>"

record CreatePortListRequest =
  plc_name :: string
  plc_comment :: "string option"
  plc_port_range :: "string option"

definition validate_create_port_list :: "CreatePortListRequest \<Rightarrow> CreatePortListInput result" where
  "validate_create_port_list r =
     and_then (not_blank ''name'' (plc_name r)) (\<lambda>_.
       Inr \<lparr>pli_name = plc_name r, pli_comment = plc_comment r, pli_port_range = plc_port_range r\<rparr>)"

record ModifyPortListRequest =
  plq_name :: "string option"
  plq_comment :: "string option"
  plq_port_range :: "string option"

definition validate_modify_port_list :: "ModifyPortListRequest \<Rightarrow> ModifyPortListInput result" where
  "validate_modify_port_list r =
       Inr \<lparr>plu_name = plq_name r, plu_comment = plq_comment r, plu_port_range = plq_port_range r\<rparr>"

definition rest_list_port_lists ::
    "(string \<Rightarrow> (string \<times> string) list) \<Rightarrow> (string \<Rightarrow> string option)
      \<Rightarrow> 's PortListPort \<Rightarrow> (string \<Rightarrow> u8 list) \<Rightarrow> u64 \<Rightarrow> Request \<Rightarrow> 's GatewayService
      \<Rightarrow> PortListResponse ListResponse RestBody Response \<times> 's GatewayService" where
  "rest_list_port_lists decode uuid port sha now =
     list_resource (list_query decode uuid) (\<lambda>session query. list_port_lists port sha now session query)
       (list_response (port_list_response uuid))"

definition rest_create_port_list ::
    "(string \<Rightarrow> string option) \<Rightarrow> (u8 list \<Rightarrow> string + CreatePortListRequest)
      \<Rightarrow> 's PortListPort \<Rightarrow> (string \<Rightarrow> u8 list) \<Rightarrow> u64 \<Rightarrow> Request \<Rightarrow> 's GatewayService
      \<Rightarrow> PortListResponse RestBody Response \<times> 's GatewayService" where
  "rest_create_port_list uuid from_slice port sha now =
     create_resource uuid from_slice (validate_create_port_list)
       (\<lambda>session input. create_port_list port sha now session input)"

definition rest_get_port_list ::
    "(string \<Rightarrow> string option) \<Rightarrow> 's PortListPort \<Rightarrow> (string \<Rightarrow> u8 list) \<Rightarrow> u64 \<Rightarrow> string
      \<Rightarrow> Request \<Rightarrow> 's GatewayService
      \<Rightarrow> PortListResponse RestBody Response \<times> 's GatewayService" where
  "rest_get_port_list uuid port sha now =
     get_resource uuid (\<lambda>session ident. get_port_list port sha now session ident) (port_list_response uuid)"

definition rest_update_port_list ::
    "(string \<Rightarrow> string option) \<Rightarrow> (u8 list \<Rightarrow> string + ModifyPortListRequest)
      \<Rightarrow> 's PortListPort \<Rightarrow> (string \<Rightarrow> u8 list) \<Rightarrow> u64 \<Rightarrow> string \<Rightarrow> Request
      \<Rightarrow> 's GatewayService \<Rightarrow> PortListResponse RestBody Response \<times> 's GatewayService" where
  "rest_update_port_list uuid from_slice port sha now =
     update_resource uuid from_slice (validate_modify_port_list)
       (\<lambda>session ident input. modify_port_list port sha now session ident input) (port_list_response uuid)"

definition rest_delete_port_list ::
    "(string \<Rightarrow> (string \<times> string) list) \<Rightarrow> (string \<Rightarrow> string option)
      \<Rightarrow> 's PortListPort \<Rightarrow> (string \<Rightarrow> u8 list) \<Rightarrow> u64 \<Rightarrow> string \<Rightarrow> Request
      \<Rightarrow> 's GatewayService \<Rightarrow> PortListResponse RestBody Response \<times> 's GatewayService" where
  "rest_delete_port_list decode uuid port sha now =
     delete_resource uuid decode (\<lambda>session ident ultimate. delete_port_list port sha now session ident ultimate)"

fun serve_port_lists ::
    "(string \<Rightarrow> (string \<times> string) list) \<Rightarrow> (string \<Rightarrow> string option) \<Rightarrow> (u8 list \<Rightarrow> string + CreatePortListRequest)
      \<Rightarrow> (u8 list \<Rightarrow> string + ModifyPortListRequest) \<Rightarrow> 's PortListPort \<Rightarrow> (string \<Rightarrow> u8 list)
      \<Rightarrow> u64 \<Rightarrow> CrudRoute \<Rightarrow> Request \<Rightarrow> 's GatewayService \<Rightarrow> nat \<times> 's GatewayService" where
  "serve_port_lists decode uuid cbody mbody port sha now ListAll q sv = answered (rest_list_port_lists decode uuid port sha now q sv)"
| "serve_port_lists decode uuid cbody mbody port sha now PostNew q sv = answered (rest_create_port_list uuid cbody port sha now q sv)"
| "serve_port_lists decode uuid cbody mbody port sha now (GetBy ident) q sv = answered (rest_get_port_list uuid port sha now ident q sv)"
| "serve_port_lists decode uuid cbody mbody port sha now (PutBy ident) q sv = answered (rest_update_port_list uuid mbody port sha now ident q sv)"
| "serve_port_lists decode uuid cbody mbody port sha now (DeleteBy ident) q sv = answered (rest_delete_port_list decode uuid port sha now ident q sv)"

lemma port_lists_act_for_own_session:
  "acts_for_own_session sha now q sv
     (serve_port_lists decode uuid cbody mbody (gvmd_port_list_port sha L B) sha now route q sv)"
  by (cases route; (simp only: serve_port_lists.simps rest_list_port_lists_def rest_create_port_list_def rest_get_port_list_def rest_update_port_list_def rest_delete_port_list_def
        list_port_lists_def create_port_list_def get_port_list_def modify_port_list_def delete_port_list_def gvmd_port_list_port_def CrudPort.simps;
      rule acts_answered; intro within own_session_rules speaks refl))

text \<open>
  An update of a port list with a port range is refused before anything is sent, whatever the
  session: port ranges are not replaced.
\<close>

lemma port_range_is_not_replaced:
  "plu_port_range input \<noteq> None \<Longrightarrow>
     fst (gvmd_modify_port_list sha L B session_token ident input w)
       = Inl (InvalidInput ''portRange cannot be replaced atomically; update individual port ranges instead'')
     \<and> snd (gvmd_modify_port_list sha L B session_token ident input w) = w"
  by (simp add: gvmd_modify_port_list_def)

end
