(* ===== verification/Credentials.thy ===== *)
theory Credentials
  imports Sent_Commands
begin

text \<open>
  Credentials and credential stores, from the request to the command: \<open>credentials.rs\<close> of the
  crates \<open>gvm-gateway-domain\<close>, \<open>gvm-gateway-gvmd\<close> (under \<open>gvmd_adapter/ports\<close>), \<open>gvm-gateway-app\<close>
  and \<open>gvm-gateway-rest\<close>, and what \<open>gvm-gateway-domain/src/log_safety.rs\<close> hides of them.
\<close>

section \<open>Domain\<close>

record Credential =
  cr_id :: string
  cr_name :: string
  cr_comment :: "string option"
  cr_credential_type :: "string option"
  cr_login :: "string option"
  cr_in_use :: bool
  cr_writable :: bool

record CredentialStore =
  cst_id :: "string option"
  cst_name :: string
  cst_provider :: "string option"
  cst_default :: "bool option"
  cst_writable :: "bool option"

record CredentialStorePreferenceInput =
  csp_name :: string
  csp_value :: string

record ModifyCredentialStoreInput =
  csi_active :: "bool option"
  csi_host :: "string option"
  csi_path :: "string option"
  csi_port :: "u16 option"
  csi_comment :: "string option"
  csi_preferences :: "CredentialStorePreferenceInput list"

record CreateCredentialInput =
  cri_name :: string
  cri_comment :: "string option"
  cri_credential_type :: string
  cri_login :: "string option"
  cri_password :: "string option"
  cri_private_key :: "string option"
  cri_certificate :: "string option"
  cri_community :: "string option"
  cri_auth_algorithm :: "string option"
  cri_privacy_algorithm :: "string option"
  cri_privacy_password :: "string option"
  cri_credential_store_id :: "string option"
  cri_vault_id :: "string option"
  cri_host_identifier :: "string option"

record ModifyCredentialInput =
  crm_name :: "string option"
  crm_comment :: "string option"
  crm_login :: "string option"
  crm_password :: "string option"
  crm_private_key :: "string option"
  crm_certificate :: "string option"
  crm_community :: "string option"
  crm_auth_algorithm :: "string option"
  crm_privacy_algorithm :: "string option"
  crm_privacy_password :: "string option"
  crm_credential_store_id :: "string option"
  crm_vault_id :: "string option"
  crm_host_identifier :: "string option"

subsection \<open>Debug output\<close>

text \<open>
  What the \<open>Debug\<close> implementations hand to the formatter: the fields in their order. Texts and
  optional texts are printed as they are, a hidden value as a fixed marker.
\<close>

datatype HiddenValue = HiddenValue

definition hide_value :: "'a \<Rightarrow> HiddenValue" where
  "hide_value v = HiddenValue"

definition hide_optional_value :: "'a option \<Rightarrow> HiddenValue option" where
  "hide_optional_value v = map_option hide_value v"

datatype DebugValue = DebugText string | DebugOptional "string option" | DebugHidden "HiddenValue option"

definition debug_create_credential_input :: "CreateCredentialInput \<Rightarrow> (string \<times> DebugValue) list" where
  "debug_create_credential_input input =
     [(''name'', DebugText (cri_name input)),
      (''comment'', DebugOptional (cri_comment input)),
      (''credential_type'', DebugText (cri_credential_type input)),
      (''login'', DebugOptional (cri_login input)),
      (''password'', DebugHidden (hide_optional_value (cri_password input))),
      (''private_key'', DebugHidden (hide_optional_value (cri_private_key input))),
      (''certificate'', DebugOptional (cri_certificate input)),
      (''community'', DebugHidden (hide_optional_value (cri_community input))),
      (''auth_algorithm'', DebugOptional (cri_auth_algorithm input)),
      (''privacy_algorithm'', DebugOptional (cri_privacy_algorithm input)),
      (''privacy_password'', DebugHidden (hide_optional_value (cri_privacy_password input))),
      (''credential_store_id'', DebugOptional (cri_credential_store_id input)),
      (''vault_id'', DebugHidden (hide_optional_value (cri_vault_id input))),
      (''host_identifier'', DebugHidden (hide_optional_value (cri_host_identifier input)))]"

definition debug_modify_credential_input :: "ModifyCredentialInput \<Rightarrow> (string \<times> DebugValue) list" where
  "debug_modify_credential_input input =
     [(''name'', DebugOptional (crm_name input)),
      (''comment'', DebugOptional (crm_comment input)),
      (''login'', DebugOptional (crm_login input)),
      (''password'', DebugHidden (hide_optional_value (crm_password input))),
      (''private_key'', DebugHidden (hide_optional_value (crm_private_key input))),
      (''certificate'', DebugOptional (crm_certificate input)),
      (''community'', DebugHidden (hide_optional_value (crm_community input))),
      (''auth_algorithm'', DebugOptional (crm_auth_algorithm input)),
      (''privacy_algorithm'', DebugOptional (crm_privacy_algorithm input)),
      (''privacy_password'', DebugHidden (hide_optional_value (crm_privacy_password input))),
      (''credential_store_id'', DebugOptional (crm_credential_store_id input)),
      (''vault_id'', DebugHidden (hide_optional_value (crm_vault_id input))),
      (''host_identifier'', DebugHidden (hide_optional_value (crm_host_identifier input)))]"

subsection \<open>The port\<close>

record 's CredentialPort =
  kp_credentials :: "('s, Credential, CreateCredentialInput, ModifyCredentialInput) CrudPort"
  kp_list_credential_stores :: "string \<Rightarrow> ('s, CredentialStore list) operation"
  kp_get_credential_store :: "string \<Rightarrow> string \<Rightarrow> ('s, CredentialStore) operation"
  kp_modify_credential_store :: "string \<Rightarrow> string \<Rightarrow> ModifyCredentialStoreInput \<Rightarrow> ('s, CredentialStore) operation"
  kp_verify_credential_store :: "string \<Rightarrow> string \<Rightarrow> ('s, unit) operation"

section \<open>Adapter\<close>

definition credential_from_gmp :: "GmpCredential \<Rightarrow> Credential" where
  "credential_from_gmp x =
     \<lparr>cr_id = em_id (gcd_meta x), cr_name = em_name (gcd_meta x),
       cr_comment = em_comment (gcd_meta x), cr_credential_type = gcd_type x, cr_login = gcd_login x,
       cr_in_use = em_in_use (gcd_meta x), cr_writable = em_writable (gcd_meta x)\<rparr>"

definition credential_store_from_gmp :: "GmpCredentialStore \<Rightarrow> CredentialStore" where
  "credential_store_from_gmp x =
     \<lparr>cst_id = gcs_id x, cst_name = gcs_name x, cst_provider = gcs_type x, cst_default = None,
       cst_writable = None\<rparr>"

definition parse_credential_type :: "'r ResourceLibrary \<Rightarrow> string \<Rightarrow> string result" where
  "parse_credential_type B = parse_known ''credential type'' (bl_credential_type B)"

definition parse_snmp_auth_algorithm :: "'r ResourceLibrary \<Rightarrow> string \<Rightarrow> string result" where
  "parse_snmp_auth_algorithm B = parse_known ''authAlgorithm'' (bl_snmp_auth_algorithm B)"

definition parse_snmp_privacy_algorithm :: "'r ResourceLibrary \<Rightarrow> string \<Rightarrow> string result" where
  "parse_snmp_privacy_algorithm B = parse_known ''privacyAlgorithm'' (bl_snmp_privacy_algorithm B)"

subsection \<open>Credential stores\<close>

definition unsupported_credential_store_error :: GatewayError where
  "unsupported_credential_store_error =
     NotImplemented ''credential stores are not available because gvmd does not expose `get_credential_stores` on this backend instance; the proxy does not synthesize credential store entries''"

definition stores_supported :: "SessionClient \<Rightarrow> unit result" where
  "stores_supported client =
     (if cl_capability client = Unsupported then Inl unsupported_credential_store_error else Inr ())"

definition map_credential_store_error :: "GvmError \<Rightarrow> GatewayError" where
  "map_credential_store_error error =
     (if credential_store_capability_unavailable error then unsupported_credential_store_error
      else map_gvm_error error)"

definition gvmd_list_credential_stores ::
    "(string \<Rightarrow> u8 list) \<Rightarrow> ('r, 'g, 'f) GmpLibrary \<Rightarrow> 'r ResourceLibrary \<Rightarrow> string
      \<Rightarrow> ('g Gvmd, CredentialStore list) operation" where
  "gvmd_list_credential_stores sha L B session_token =
     chain (connected sha session_token) (\<lambda>client.
     checked (stores_supported client) (\<lambda>_.
     chain (client_method map_credential_store_error sha L session_token (OnCredentials GetCredentialStores)
              (bl_credential_stores B)) (\<lambda>items.
       pure (Inr (map credential_store_from_gmp items)))))"

definition gvmd_get_credential_store ::
    "(string \<Rightarrow> u8 list) \<Rightarrow> ('r, 'g, 'f) GmpLibrary \<Rightarrow> 'r ResourceLibrary \<Rightarrow> string \<Rightarrow> string
      \<Rightarrow> ('g Gvmd, CredentialStore) operation" where
  "gvmd_get_credential_store sha L B session_token ident =
     chain (connected sha session_token) (\<lambda>client.
     checked (stores_supported client) (\<lambda>_.
     then_call sha session_token (parse_entity_id L ident) (\<lambda>store_id.
     chain (client_method map_credential_store_error sha L session_token
              (OnCredentials (GetCredentialStore store_id (Some True))) (bl_credential_stores B)) (\<lambda>items.
       pure (case items of
               [] \<Rightarrow> Inl (NotFound (''credential store '' @ ident @ '' not found''))
             | item # _ \<Rightarrow> Inr (credential_store_from_gmp item))))))"

definition gvmd_modify_credential_store ::
    "(string \<Rightarrow> u8 list) \<Rightarrow> ('r, 'g, 'f) GmpLibrary \<Rightarrow> 'r ResourceLibrary \<Rightarrow> string \<Rightarrow> string
      \<Rightarrow> ModifyCredentialStoreInput \<Rightarrow> ('g Gvmd, CredentialStore) operation" where
  "gvmd_modify_credential_store sha L B session_token ident input =
     chain (connected sha session_token) (\<lambda>client.
     checked (stores_supported client) (\<lambda>_.
       modify_and_get sha L
         (and_then (parse_entity_id L ident) (\<lambda>store_id.
            Inr (OnCredentials (ModifyCredentialStore store_id
              \<lparr>csm_active = csi_active input, csm_host = csi_host input, csm_path = csi_path input,
               csm_port = csi_port input, csm_comment = csi_comment input,
               csm_preferences = map (\<lambda>preference. (csp_name preference, csp_value preference)) (csi_preferences input)\<rparr>))))
         session_token (gvmd_get_credential_store sha L B session_token ident)))"

definition gvmd_verify_credential_store ::
    "(string \<Rightarrow> u8 list) \<Rightarrow> ('r, 'g, 'f) GmpLibrary \<Rightarrow> 'r ResourceLibrary \<Rightarrow> string \<Rightarrow> string
      \<Rightarrow> ('g Gvmd, unit) operation" where
  "gvmd_verify_credential_store sha L B session_token ident =
     chain (connected sha session_token) (\<lambda>client.
     checked (stores_supported client) (\<lambda>_.
     then_call sha session_token (parse_entity_id L ident) (\<lambda>store_id.
       client_method map_credential_store_error sha L session_token
         (OnCredentials (VerifyCredentialStore store_id)) (lb_action L))))"

subsection \<open>Credentials\<close>

definition parse_credential_store_type :: "string \<Rightarrow> CredentialStoreCredentialType option" where
  "parse_credential_store_type v =
     (if v = ''cs_cc'' then Some ClientCertificate
      else if v = ''cs_pw'' then Some PasswordOnly
      else if v = ''cs_pgp'' then Some PgpEncryptionKey
      else if v = ''cs_smime'' then Some SmimeCertificate
      else if v = ''cs_snmp'' then Some Snmp
      else if v = ''cs_up'' then Some UsernamePassword
      else if v = ''cs_usk'' then Some UsernameSshKey
      else None)"

definition ensure_no_local_secret_fields :: "string option list \<Rightarrow> unit result" where
  "ensure_no_local_secret_fields given =
     (if list_ex (\<lambda>v. v \<noteq> None) given
      then Inl (InvalidInput ''credential-store references cannot be combined with local credential values'')
      else Inr ())"

text \<open>The local fields of a new credential, and of a change.\<close>

definition create_local_fields :: "CreateCredentialInput \<Rightarrow> string option list" where
  "create_local_fields input =
     [cri_login input, cri_password input, cri_private_key input, cri_certificate input, cri_community input,
      cri_auth_algorithm input, cri_privacy_algorithm input, cri_privacy_password input]"

definition modify_local_fields :: "ModifyCredentialInput \<Rightarrow> string option list" where
  "modify_local_fields input =
     [crm_login input, crm_password input, crm_private_key input, crm_certificate input, crm_community input,
      crm_auth_algorithm input, crm_privacy_algorithm input, crm_privacy_password input]"

text \<open>
  A credential of a store: its checks and its vault before the lock, the identifier of the store
  after it.
\<close>

definition store_backed_command ::
    "(string \<Rightarrow> u8 list) \<Rightarrow> ('r, 'g, 'f) GmpLibrary \<Rightarrow> string \<Rightarrow> SessionClient \<Rightarrow> CredentialStoreCredentialType
      \<Rightarrow> CreateCredentialInput \<Rightarrow> ('g Gvmd, string) operation" where
  "store_backed_command sha L session_token client credential_type input =
     checked (stores_supported client) (\<lambda>_.
     checked (ensure_no_local_secret_fields (create_local_fields input)) (\<lambda>_.
     checked (case cri_vault_id input of
                None \<Rightarrow> Inl (InvalidInput ''vaultId is required for a credential-store-backed credential'')
              | Some v \<Rightarrow> Inr v) (\<lambda>vault_id.
     checked (case cri_host_identifier input of
                None \<Rightarrow> Inl (InvalidInput ''hostIdentifier is required for a credential-store-backed credential'')
              | Some h \<Rightarrow> Inr h) (\<lambda>host_identifier.
     then_call sha session_token (map_transpose (parse_entity_id L) (cri_credential_store_id input)) (\<lambda>store_id.
       call_create sha L session_token
         (OnCredentials (CreateCredentialStoreCredential (cri_name input) credential_type vault_id host_identifier
            (cri_comment input) store_id)))))))"

definition local_credential_command ::
    "'r ResourceLibrary \<Rightarrow> CreateCredentialInput \<Rightarrow> GmpCommand result" where
  "local_credential_command B input =
     and_then (parse_credential_type B (cri_credential_type input)) (\<lambda>credential_type.
     and_then (map_transpose (parse_snmp_auth_algorithm B) (cri_auth_algorithm input)) (\<lambda>auth_algorithm.
     and_then (map_transpose (parse_snmp_privacy_algorithm B) (cri_privacy_algorithm input)) (\<lambda>privacy_algorithm.
       Inr (OnCredentials (CreateCredential (cri_name input)
         \<lparr>cd_comment = cri_comment input, cd_credential_type = Some credential_type, cd_login = cri_login input,
          cd_password = cri_password input, cd_private_key = cri_private_key input,
          cd_certificate = cri_certificate input, cd_community = cri_community input,
          cd_auth_algorithm = auth_algorithm, cd_privacy_password = cri_privacy_password input,
          cd_privacy_algorithm = privacy_algorithm\<rparr>)))))"

definition modified_credential_command ::
    "('r, 'g, 'f) GmpLibrary \<Rightarrow> 'r ResourceLibrary \<Rightarrow> string \<Rightarrow> ModifyCredentialInput \<Rightarrow> GmpCommand result" where
  "modified_credential_command L B ident input =
     and_then (parse_entity_id L ident) (\<lambda>credential_id.
     and_then (map_transpose (parse_snmp_auth_algorithm B) (crm_auth_algorithm input)) (\<lambda>auth_algorithm.
     and_then (map_transpose (parse_snmp_privacy_algorithm B) (crm_privacy_algorithm input)) (\<lambda>privacy_algorithm.
       Inr (OnCredentials (ModifyCredential credential_id
         \<lparr>cm_name = crm_name input, cm_comment = crm_comment input, cm_login = crm_login input,
          cm_password = crm_password input, cm_private_key = crm_private_key input,
          cm_certificate = crm_certificate input, cm_community = crm_community input,
          cm_auth_algorithm = auth_algorithm, cm_privacy_password = crm_privacy_password input,
          cm_privacy_algorithm = privacy_algorithm\<rparr>)))))"

definition has_store_fields :: "string option \<Rightarrow> string option \<Rightarrow> string option \<Rightarrow> bool" where
  "has_store_fields store_id vault_id host_identifier \<longleftrightarrow>
     store_id \<noteq> None \<or> vault_id \<noteq> None \<or> host_identifier \<noteq> None"

definition gvmd_list_credentials ::
    "(string \<Rightarrow> u8 list) \<Rightarrow> ('r, 'g, 'f) GmpLibrary \<Rightarrow> 'r ResourceLibrary \<Rightarrow> string
      \<Rightarrow> ListQuery \<Rightarrow> ('g Gvmd, Credential Page) operation" where
  "gvmd_list_credentials sha L B =
     list_resources sha L None [] (\<lambda>filter_string. OnCredentials (GetCredentials \<lparr>lo_filter_string = filter_string, lo_details = Some True\<rparr>)) (bl_credentials B) credential_from_gmp"

definition gvmd_create_credential ::
    "(string \<Rightarrow> u8 list) \<Rightarrow> ('r, 'g, 'f) GmpLibrary \<Rightarrow> 'r ResourceLibrary \<Rightarrow> string
      \<Rightarrow> CreateCredentialInput \<Rightarrow> ('g Gvmd, string) operation" where
  "gvmd_create_credential sha L B session_token input =
     chain (connected sha session_token) (\<lambda>client.
       case parse_credential_store_type (cri_credential_type input) of
         None \<Rightarrow>
           checked (if has_store_fields (cri_credential_store_id input) (cri_vault_id input) (cri_host_identifier input)
             then Inl (InvalidInput ''credential-store fields require a credential type with the `cs_` prefix'')
             else Inr ()) (\<lambda>_.
           then_call sha session_token (local_credential_command B input) (call_create sha L session_token))
       | Some credential_type \<Rightarrow> store_backed_command sha L session_token client credential_type input)"

definition gvmd_get_credential ::
    "(string \<Rightarrow> u8 list) \<Rightarrow> ('r, 'g, 'f) GmpLibrary \<Rightarrow> 'r ResourceLibrary \<Rightarrow> string \<Rightarrow> string
      \<Rightarrow> ('g Gvmd, Credential) operation" where
  "gvmd_get_credential sha L B = get_one sha L (\<lambda>ident. OnCredentials (GetCredential ident)) (bl_credentials B) credential_from_gmp ''credential''"

definition gvmd_modify_credential ::
    "(string \<Rightarrow> u8 list) \<Rightarrow> ('r, 'g, 'f) GmpLibrary \<Rightarrow> 'r ResourceLibrary \<Rightarrow> string \<Rightarrow> string
      \<Rightarrow> ModifyCredentialInput \<Rightarrow> ('g Gvmd, Credential) operation" where
  "gvmd_modify_credential sha L B session_token ident input =
     chain (connected sha session_token) (\<lambda>client.
       if has_store_fields (crm_credential_store_id input) (crm_vault_id input) (crm_host_identifier input)
       then
         checked (stores_supported client) (\<lambda>_.
         checked (ensure_no_local_secret_fields (modify_local_fields input)) (\<lambda>_.
           modify_and_get sha L
             (and_then (parse_entity_id L ident) (\<lambda>credential_id.
              and_then (map_transpose (parse_entity_id L) (crm_credential_store_id input)) (\<lambda>store_id.
                Inr (OnCredentials (ModifyCredentialStoreCredential credential_id
                  \<lparr>csc_name = crm_name input, csc_comment = crm_comment input, csc_credential_store_id = store_id,
                   csc_vault_id = crm_vault_id input, csc_host_identifier = crm_host_identifier input\<rparr>)))))
             session_token (gvmd_get_credential sha L B session_token ident)))
       else
         modify_and_get sha L (modified_credential_command L B ident input) session_token
           (gvmd_get_credential sha L B session_token ident))"

definition gvmd_delete_credential ::
    "(string \<Rightarrow> u8 list) \<Rightarrow> ('r, 'g, 'f) GmpLibrary \<Rightarrow> 'r ResourceLibrary \<Rightarrow> string \<Rightarrow> string
      \<Rightarrow> bool \<Rightarrow> ('g Gvmd, unit) operation" where
  "gvmd_delete_credential sha L B session_token ident ultimate =
     delete_one sha L (\<lambda>entity_id. OnCredentials (DeleteCredential entity_id ultimate)) session_token ident"

definition gvmd_credential_port ::
    "(string \<Rightarrow> u8 list) \<Rightarrow> ('r, 'g, 'f) GmpLibrary \<Rightarrow> 'r ResourceLibrary \<Rightarrow> 'g Gvmd CredentialPort" where
  "gvmd_credential_port sha L B =
     \<lparr>kp_credentials =
        \<lparr>cp_list = gvmd_list_credentials sha L B, cp_create = gvmd_create_credential sha L B,
         cp_get = gvmd_get_credential sha L B, cp_modify = gvmd_modify_credential sha L B,
         cp_delete = gvmd_delete_credential sha L B\<rparr>,
      kp_list_credential_stores = gvmd_list_credential_stores sha L B,
      kp_get_credential_store = gvmd_get_credential_store sha L B,
      kp_modify_credential_store = gvmd_modify_credential_store sha L B,
      kp_verify_credential_store = gvmd_verify_credential_store sha L B\<rparr>"

section \<open>Use cases\<close>

definition list_credential_stores ::
    "'s CredentialPort \<Rightarrow> (string \<Rightarrow> u8 list) \<Rightarrow> u64 \<Rightarrow> string \<Rightarrow> 's GatewayService
      \<Rightarrow> CredentialStore list result \<times> 's GatewayService" where
  "list_credential_stores port sha now session_token =
     use_port sha now session_token ''list'' ''credential_store'' (\<lambda>token. kp_list_credential_stores port token)"

definition get_credential_store ::
    "'s CredentialPort \<Rightarrow> (string \<Rightarrow> u8 list) \<Rightarrow> u64 \<Rightarrow> string \<Rightarrow> string \<Rightarrow> 's GatewayService
      \<Rightarrow> CredentialStore result \<times> 's GatewayService" where
  "get_credential_store port sha now session_token ident =
     use_port sha now session_token ''read'' ''credential_store'' (\<lambda>token. kp_get_credential_store port token ident)"

definition modify_credential_store ::
    "'s CredentialPort \<Rightarrow> (string \<Rightarrow> u8 list) \<Rightarrow> u64 \<Rightarrow> string \<Rightarrow> string
      \<Rightarrow> ModifyCredentialStoreInput \<Rightarrow> 's GatewayService
      \<Rightarrow> CredentialStore result \<times> 's GatewayService" where
  "modify_credential_store port sha now session_token ident input =
     use_port sha now session_token ''modify'' ''credential_store'' (\<lambda>token. kp_modify_credential_store port token ident input)"

definition verify_credential_store ::
    "'s CredentialPort \<Rightarrow> (string \<Rightarrow> u8 list) \<Rightarrow> u64 \<Rightarrow> string \<Rightarrow> string \<Rightarrow> 's GatewayService
      \<Rightarrow> unit result \<times> 's GatewayService" where
  "verify_credential_store port sha now session_token ident =
     use_port sha now session_token ''verify'' ''credential_store'' (\<lambda>token. kp_verify_credential_store port token ident)"

definition list_credentials ::
    "'s CredentialPort \<Rightarrow> (string \<Rightarrow> u8 list) \<Rightarrow> u64 \<Rightarrow> string \<Rightarrow> ListQuery
      \<Rightarrow> 's GatewayService \<Rightarrow> Credential Page result \<times> 's GatewayService" where
  "list_credentials port sha now session_token query =
     use_port sha now session_token ''list'' ''credential'' (\<lambda>token. cp_list (kp_credentials port) token query)"

definition create_credential ::
    "'s CredentialPort \<Rightarrow> (string \<Rightarrow> u8 list) \<Rightarrow> u64 \<Rightarrow> string \<Rightarrow> CreateCredentialInput
      \<Rightarrow> 's GatewayService \<Rightarrow> string result \<times> 's GatewayService" where
  "create_credential port sha now session_token input =
     use_port sha now session_token ''create'' ''credential'' (\<lambda>token. cp_create (kp_credentials port) token input)"

definition get_credential ::
    "'s CredentialPort \<Rightarrow> (string \<Rightarrow> u8 list) \<Rightarrow> u64 \<Rightarrow> string \<Rightarrow> string \<Rightarrow> 's GatewayService
      \<Rightarrow> Credential result \<times> 's GatewayService" where
  "get_credential port sha now session_token ident =
     use_port sha now session_token ''read'' ''credential'' (\<lambda>token. cp_get (kp_credentials port) token ident)"

definition modify_credential ::
    "'s CredentialPort \<Rightarrow> (string \<Rightarrow> u8 list) \<Rightarrow> u64 \<Rightarrow> string \<Rightarrow> string
      \<Rightarrow> ModifyCredentialInput \<Rightarrow> 's GatewayService
      \<Rightarrow> Credential result \<times> 's GatewayService" where
  "modify_credential port sha now session_token ident input =
     use_port sha now session_token ''modify'' ''credential'' (\<lambda>token. cp_modify (kp_credentials port) token ident input)"

definition delete_credential ::
    "'s CredentialPort \<Rightarrow> (string \<Rightarrow> u8 list) \<Rightarrow> u64 \<Rightarrow> string \<Rightarrow> string \<Rightarrow> bool
      \<Rightarrow> 's GatewayService \<Rightarrow> unit result \<times> 's GatewayService" where
  "delete_credential port sha now session_token ident ultimate =
     use_port sha now session_token ''delete'' ''credential'' (\<lambda>token. cp_delete (kp_credentials port) token ident ultimate)"

section \<open>Endpoints\<close>

datatype (plugins only: code size) CredentialTypeValue =
    TypeClientCertificate | TypePasswordOnly | TypeSnmpV1Or2c | TypeSnmpV3 | TypeUsernamePassword |
  TypeUsernameSshKey | TypeCredentialStoreClientCertificate | TypeCredentialStorePasswordOnly |
  TypeCredentialStorePgpEncryptionKey | TypeCredentialStoreSmimeCertificate |
  TypeCredentialStoreSnmp | TypeCredentialStoreUsernamePassword |
  TypeCredentialStoreUsernameSshKey | UnknownCredentialType string

definition credential_type_values :: "(string \<times> CredentialTypeValue) list" where
  "credential_type_values =
     [(''cc'', TypeClientCertificate), (''pw'', TypePasswordOnly), (''snmp'', TypeSnmpV1Or2c),
      (''snmpv3'', TypeSnmpV3), (''up'', TypeUsernamePassword), (''usk'', TypeUsernameSshKey),
      (''cs_cc'', TypeCredentialStoreClientCertificate), (''cs_pw'',
      TypeCredentialStorePasswordOnly), (''cs_pgp'', TypeCredentialStorePgpEncryptionKey),
      (''cs_smime'', TypeCredentialStoreSmimeCertificate), (''cs_snmp'', TypeCredentialStoreSnmp),
      (''cs_up'', TypeCredentialStoreUsernamePassword), (''cs_usk'',
      TypeCredentialStoreUsernameSshKey)]"

definition credential_type_parse :: "string \<Rightarrow> CredentialTypeValue" where
  "credential_type_parse = open_enum_parse credential_type_values UnknownCredentialType"

definition credential_type_as_str :: "CredentialTypeValue \<Rightarrow> string" where
  "credential_type_as_str t =
     (case t of UnknownCredentialType s \<Rightarrow> s
      | _ \<Rightarrow> (case open_enum_name credential_type_values t of Some v \<Rightarrow> v | None \<Rightarrow> []))"

record CredentialResponse =
  crr_id :: string
  crr_name :: string
  crr_comment :: "string option"
  crr_credential_type :: "CredentialTypeValue option"
  crr_login :: "string option"
  crr_in_use :: bool
  crr_writable :: bool

record CredentialStoreResponse =
  csr_id :: "string option"
  csr_name :: string
  csr_provider :: "string option"
  csr_default :: "bool option"
  csr_writable :: "bool option"

record CredentialStorePreferenceRequest =
  csq_name :: string
  csq_value :: string

record ModifyCredentialStoreRequest =
  csu_active :: "bool option"
  csu_host :: "string option"
  csu_path :: "string option"
  csu_port :: "u16 option"
  csu_comment :: "string option"
  csu_preferences :: "CredentialStorePreferenceRequest list"

record CreateCredentialRequest =
  crc_name :: string
  crc_comment :: "string option"
  crc_credential_type :: CredentialTypeValue
  crc_login :: "string option"
  crc_password :: "string option"
  crc_private_key :: "string option"
  crc_certificate :: "string option"
  crc_community :: "string option"
  crc_auth_algorithm :: "string option"
  crc_privacy_algorithm :: "string option"
  crc_privacy_password :: "string option"
  crc_credential_store_id :: "string option"
  crc_vault_id :: "string option"
  crc_host_identifier :: "string option"

record ModifyCredentialRequest =
  cru_name :: "string option"
  cru_comment :: "string option"
  cru_login :: "string option"
  cru_password :: "string option"
  cru_private_key :: "string option"
  cru_certificate :: "string option"
  cru_community :: "string option"
  cru_auth_algorithm :: "string option"
  cru_privacy_algorithm :: "string option"
  cru_privacy_password :: "string option"
  cru_credential_store_id :: "string option"
  cru_vault_id :: "string option"
  cru_host_identifier :: "string option"

definition credential_response :: "(string \<Rightarrow> string option) \<Rightarrow> Credential \<Rightarrow> CredentialResponse" where
  "credential_response uuid x =
     \<lparr>crr_id = parse_uuid uuid (cr_id x), crr_name = cr_name x, crr_comment = cr_comment x,
       crr_credential_type = map_option credential_type_parse (cr_credential_type x),
       crr_login = cr_login x, crr_in_use = cr_in_use x, crr_writable = cr_writable x\<rparr>"

definition credential_store_response :: "CredentialStore \<Rightarrow> CredentialStoreResponse" where
  "credential_store_response x =
     \<lparr>csr_id = cst_id x, csr_name = cst_name x, csr_provider = cst_provider x,
       csr_default = cst_default x, csr_writable = cst_writable x\<rparr>"

definition validate_preference :: "CredentialStorePreferenceRequest \<Rightarrow> CredentialStorePreferenceInput result" where
  "validate_preference preference =
     (if trim (csq_name preference) = [] then Inl (InvalidInput ''preference name is required'')
      else if length (csq_name preference) > 1024 \<or> length (csq_value preference) > 65536
      then Inl (InvalidInput ''credential-store preference exceeds the supported size'')
      else Inr \<lparr>csp_name = csq_name preference, csp_value = csq_value preference\<rparr>)"

definition validate_modify_credential_store :: "ModifyCredentialStoreRequest \<Rightarrow> ModifyCredentialStoreInput result" where
  "validate_modify_credential_store r =
     (if length (csu_preferences r) > 256 then Inl (InvalidInput ''preferences must contain at most 256 entries'')
      else and_then (collect_results validate_preference (csu_preferences r)) (\<lambda>preferences.
        Inr \<lparr>csi_active = csu_active r, csi_host = csu_host r, csi_path = csu_path r, csi_port = csu_port r,
             csi_comment = csu_comment r, csi_preferences = preferences\<rparr>))"

definition missing_text :: "string option \<Rightarrow> bool" where
  "missing_text v = (v = None \<or> v = Some [])"

definition request_local_fields :: "CreateCredentialRequest \<Rightarrow> string option list" where
  "request_local_fields r =
     [crc_login r, crc_password r, crc_private_key r, crc_certificate r, crc_community r, crc_auth_algorithm r,
      crc_privacy_algorithm r, crc_privacy_password r]"

definition validate_create_credential :: "CreateCredentialRequest \<Rightarrow> CreateCredentialInput result" where
  "validate_create_credential r =
     and_then (not_blank ''name'' (crc_name r)) (\<lambda>_.
     and_then (not_blank ''type'' (credential_type_as_str (crc_credential_type r))) (\<lambda>_.
     and_then
       (if starts_with ''cs_'' (credential_type_as_str (crc_credential_type r)) then
          if missing_text (crc_vault_id r) \<or> missing_text (crc_host_identifier r)
          then Inl (InvalidInput ''vaultId and hostIdentifier are required for credential-store-backed credentials'')
          else if list_ex (\<lambda>v. v \<noteq> None) (request_local_fields r)
          then Inl (InvalidInput ''credential-store references cannot be combined with local credential values'')
          else Inr ()
        else if has_store_fields (crc_credential_store_id r) (crc_vault_id r) (crc_host_identifier r)
        then Inl (InvalidInput ''credential-store fields require a credential type with the `cs_` prefix'')
        else Inr ()) (\<lambda>_.
       Inr \<lparr>cri_name = crc_name r, cri_comment = crc_comment r,
          cri_credential_type = credential_type_as_str (crc_credential_type r),
          cri_login = crc_login r, cri_password = crc_password r, cri_private_key = crc_private_key r,
          cri_certificate = crc_certificate r, cri_community = crc_community r,
          cri_auth_algorithm = crc_auth_algorithm r, cri_privacy_algorithm = crc_privacy_algorithm r,
          cri_privacy_password = crc_privacy_password r,
          cri_credential_store_id = crc_credential_store_id r, cri_vault_id = crc_vault_id r,
          cri_host_identifier = crc_host_identifier r\<rparr>)))"

definition validate_modify_credential :: "ModifyCredentialRequest \<Rightarrow> ModifyCredentialInput result" where
  "validate_modify_credential r =
     Inr \<lparr>crm_name = cru_name r, crm_comment = cru_comment r, crm_login = cru_login r,
       crm_password = cru_password r, crm_private_key = cru_private_key r,
       crm_certificate = cru_certificate r, crm_community = cru_community r,
       crm_auth_algorithm = cru_auth_algorithm r, crm_privacy_algorithm = cru_privacy_algorithm r,
       crm_privacy_password = cru_privacy_password r,
       crm_credential_store_id = cru_credential_store_id r, crm_vault_id = cru_vault_id r,
       crm_host_identifier = cru_host_identifier r\<rparr>"

text \<open>
  The error of an unreadable body names the place only, not the text around it: the error of
  the reader is the line, the column and a message.
\<close>

type_synonym JsonError = "nat \<times> nat \<times> string"

definition credential_json_body_error :: "JsonError \<Rightarrow> GatewayError" where
  "credential_json_body_error error =
     (let (line, column, message) = error
      in InvalidInput (''invalid JSON body at line '' @ show_nat line @ '', column '' @ show_nat column))"

definition rest_list_credentials ::
    "(string \<Rightarrow> (string \<times> string) list) \<Rightarrow> (string \<Rightarrow> string option)
      \<Rightarrow> 's CredentialPort \<Rightarrow> (string \<Rightarrow> u8 list) \<Rightarrow> u64 \<Rightarrow> Request \<Rightarrow> 's GatewayService
      \<Rightarrow> CredentialResponse ListResponse RestBody Response \<times> 's GatewayService" where
  "rest_list_credentials decode uuid port sha now =
     list_resource (list_query decode uuid) (\<lambda>session query. list_credentials port sha now session query)
       (list_response (credential_response uuid))"

definition rest_list_credential_stores ::
    "'s CredentialPort \<Rightarrow> (string \<Rightarrow> u8 list) \<Rightarrow> u64 \<Rightarrow> Request \<Rightarrow> 's GatewayService
      \<Rightarrow> (CredentialStoreResponse list) RestBody Response \<times> 's GatewayService" where
  "rest_list_credential_stores port sha now =
     authenticated_resource (\<lambda>session. list_credential_stores port sha now session) (map credential_store_response)"

definition rest_get_credential_store ::
    "(string \<Rightarrow> string option) \<Rightarrow> 's CredentialPort \<Rightarrow> (string \<Rightarrow> u8 list) \<Rightarrow> u64 \<Rightarrow> string
      \<Rightarrow> Request \<Rightarrow> 's GatewayService
      \<Rightarrow> CredentialStoreResponse RestBody Response \<times> 's GatewayService" where
  "rest_get_credential_store uuid port sha now =
     get_resource uuid (\<lambda>session ident. get_credential_store port sha now session ident) credential_store_response"

definition rest_update_credential_store ::
    "(string \<Rightarrow> string option) \<Rightarrow> (u8 list \<Rightarrow> JsonError + ModifyCredentialStoreRequest)
      \<Rightarrow> 's CredentialPort \<Rightarrow> (string \<Rightarrow> u8 list) \<Rightarrow> u64 \<Rightarrow> string \<Rightarrow> Request
      \<Rightarrow> 's GatewayService
      \<Rightarrow> CredentialStoreResponse RestBody Response \<times> 's GatewayService" where
  "rest_update_credential_store uuid from_slice port sha now =
     update_resource_with_json_error credential_json_body_error uuid from_slice validate_modify_credential_store
       (\<lambda>session ident input. modify_credential_store port sha now session ident input) credential_store_response"

text \<open>The steps of this handler are written out in the code; they are those of a deletion without options.\<close>

definition rest_verify_credential_store ::
    "(string \<Rightarrow> string option) \<Rightarrow> 's CredentialPort \<Rightarrow> (string \<Rightarrow> u8 list) \<Rightarrow> u64 \<Rightarrow> string
      \<Rightarrow> Request \<Rightarrow> 's GatewayService
      \<Rightarrow> CredentialResponse RestBody Response \<times> 's GatewayService" where
  "rest_verify_credential_store uuid port sha now =
     delete_resource_without_ultimate uuid (\<lambda>session ident. verify_credential_store port sha now session ident)"

definition rest_create_credential ::
    "(string \<Rightarrow> string option) \<Rightarrow> (u8 list \<Rightarrow> JsonError + CreateCredentialRequest)
      \<Rightarrow> 's CredentialPort \<Rightarrow> (string \<Rightarrow> u8 list) \<Rightarrow> u64 \<Rightarrow> Request \<Rightarrow> 's GatewayService
      \<Rightarrow> CredentialResponse RestBody Response \<times> 's GatewayService" where
  "rest_create_credential uuid from_slice port sha now =
     create_resource_with_json_error credential_json_body_error uuid from_slice validate_create_credential
       (\<lambda>session input. create_credential port sha now session input)"

definition rest_get_credential ::
    "(string \<Rightarrow> string option) \<Rightarrow> 's CredentialPort \<Rightarrow> (string \<Rightarrow> u8 list) \<Rightarrow> u64 \<Rightarrow> string
      \<Rightarrow> Request \<Rightarrow> 's GatewayService
      \<Rightarrow> CredentialResponse RestBody Response \<times> 's GatewayService" where
  "rest_get_credential uuid port sha now =
     get_resource uuid (\<lambda>session ident. get_credential port sha now session ident) (credential_response uuid)"

definition rest_update_credential ::
    "(string \<Rightarrow> string option) \<Rightarrow> (u8 list \<Rightarrow> JsonError + ModifyCredentialRequest)
      \<Rightarrow> 's CredentialPort \<Rightarrow> (string \<Rightarrow> u8 list) \<Rightarrow> u64 \<Rightarrow> string \<Rightarrow> Request
      \<Rightarrow> 's GatewayService \<Rightarrow> CredentialResponse RestBody Response \<times> 's GatewayService" where
  "rest_update_credential uuid from_slice port sha now =
     update_resource_with_json_error credential_json_body_error uuid from_slice validate_modify_credential
       (\<lambda>session ident input. modify_credential port sha now session ident input) (credential_response uuid)"

definition rest_delete_credential ::
    "(string \<Rightarrow> (string \<times> string) list) \<Rightarrow> (string \<Rightarrow> string option)
      \<Rightarrow> 's CredentialPort \<Rightarrow> (string \<Rightarrow> u8 list) \<Rightarrow> u64 \<Rightarrow> string \<Rightarrow> Request
      \<Rightarrow> 's GatewayService \<Rightarrow> CredentialResponse RestBody Response \<times> 's GatewayService" where
  "rest_delete_credential decode uuid port sha now =
     delete_resource uuid decode (\<lambda>session ident ultimate. delete_credential port sha now session ident ultimate)"

section \<open>Routes\<close>

datatype (plugins only: code size) CredentialRoute =
    CredentialsAs CrudRoute
  | ListStores
  | GetStore string
  | PutStore string
  | VerifyStore string

record CredentialBodies =
  kb_create :: "u8 list \<Rightarrow> JsonError + CreateCredentialRequest"
  kb_modify :: "u8 list \<Rightarrow> JsonError + ModifyCredentialRequest"
  kb_modify_store :: "u8 list \<Rightarrow> JsonError + ModifyCredentialStoreRequest"

fun serve_credentials ::
    "(string \<Rightarrow> (string \<times> string) list) \<Rightarrow> (string \<Rightarrow> string option) \<Rightarrow> CredentialBodies \<Rightarrow> 's CredentialPort
      \<Rightarrow> (string \<Rightarrow> u8 list) \<Rightarrow> u64 \<Rightarrow> CredentialRoute \<Rightarrow> Request \<Rightarrow> 's GatewayService \<Rightarrow> nat \<times> 's GatewayService" where
  "serve_credentials decode uuid bodies port sha now (CredentialsAs ListAll) q sv =
     answered (rest_list_credentials decode uuid port sha now q sv)"
| "serve_credentials decode uuid bodies port sha now (CredentialsAs PostNew) q sv =
     answered (rest_create_credential uuid (kb_create bodies) port sha now q sv)"
| "serve_credentials decode uuid bodies port sha now (CredentialsAs (GetBy ident)) q sv =
     answered (rest_get_credential uuid port sha now ident q sv)"
| "serve_credentials decode uuid bodies port sha now (CredentialsAs (PutBy ident)) q sv =
     answered (rest_update_credential uuid (kb_modify bodies) port sha now ident q sv)"
| "serve_credentials decode uuid bodies port sha now (CredentialsAs (DeleteBy ident)) q sv =
     answered (rest_delete_credential decode uuid port sha now ident q sv)"
| "serve_credentials decode uuid bodies port sha now ListStores q sv =
     answered (rest_list_credential_stores port sha now q sv)"
| "serve_credentials decode uuid bodies port sha now (GetStore ident) q sv =
     answered (rest_get_credential_store uuid port sha now ident q sv)"
| "serve_credentials decode uuid bodies port sha now (PutStore ident) q sv =
     answered (rest_update_credential_store uuid (kb_modify_store bodies) port sha now ident q sv)"
| "serve_credentials decode uuid bodies port sha now (VerifyStore ident) q sv =
     answered (rest_verify_credential_store uuid port sha now ident q sv)"

section \<open>Every request acts for its session\<close>

lemma speaks_credential_stores [speaks]:
  "d = from_token sha session_token \<Longrightarrow> speaks_for d (gvmd_list_credential_stores sha L B session_token)"
  "d = from_token sha session_token \<Longrightarrow> speaks_for d (gvmd_get_credential_store sha L B session_token ident)"
  "d = from_token sha session_token \<Longrightarrow> speaks_for d (gvmd_verify_credential_store sha L B session_token ident)"
  unfolding gvmd_list_credential_stores_def gvmd_get_credential_store_def gvmd_verify_credential_store_def
  by (intro speaks; simp)+

lemma speaks_modify_credential_store [speaks]:
  "d = from_token sha session_token \<Longrightarrow> speaks_for d (gvmd_modify_credential_store sha L B session_token ident update)"
  unfolding gvmd_modify_credential_store_def by (intro speaks; simp)

lemma speaks_store_backed [speaks]:
  "d = from_token sha session_token \<Longrightarrow>
     speaks_for d (store_backed_command sha L session_token client credential_type input)"
  unfolding store_backed_command_def by (intro speaks; simp)

lemma speaks_credentials [speaks]:
  "d = from_token sha session_token \<Longrightarrow> speaks_for d (gvmd_list_credentials sha L B session_token query)"
  "d = from_token sha session_token \<Longrightarrow> speaks_for d (gvmd_create_credential sha L B session_token input)"
  "d = from_token sha session_token \<Longrightarrow> speaks_for d (gvmd_get_credential sha L B session_token ident)"
  "d = from_token sha session_token \<Longrightarrow> speaks_for d (gvmd_delete_credential sha L B session_token ident ultimate)"
  unfolding gvmd_list_credentials_def gvmd_create_credential_def gvmd_get_credential_def gvmd_delete_credential_def
  by (intro speaks; simp)+

lemma speaks_modify_credential [speaks]:
  "d = from_token sha session_token \<Longrightarrow> speaks_for d (gvmd_modify_credential sha L B session_token ident update)"
  unfolding gvmd_modify_credential_def by (intro speaks; simp)

lemmas rest_credential_defs =
  rest_list_credentials_def rest_create_credential_def rest_get_credential_def rest_update_credential_def
  rest_delete_credential_def rest_list_credential_stores_def rest_get_credential_store_def
  rest_update_credential_store_def rest_verify_credential_store_def

lemmas credential_use_cases =
  list_credentials_def create_credential_def get_credential_def modify_credential_def delete_credential_def
  list_credential_stores_def get_credential_store_def modify_credential_store_def verify_credential_store_def

lemma credentials_as_act:
  "acts_for_own_session sha now q sv
     (serve_credentials decode uuid bodies (gvmd_credential_port sha L B) sha now (CredentialsAs route) q sv)"
  by (cases route; (simp only: serve_credentials.simps rest_credential_defs
        credential_use_cases gvmd_credential_port_def CredentialPort.simps CrudPort.simps;
      rule acts_answered; intro within own_session_rules speaks refl))

lemma credentials_act_for_own_session:
  "acts_for_own_session sha now q sv
     (serve_credentials decode uuid bodies (gvmd_credential_port sha L B) sha now route q sv)"
  by (cases route; ((simp only:, rule credentials_as_act) | (simp only: serve_credentials.simps rest_credential_defs
        credential_use_cases gvmd_credential_port_def CredentialPort.simps CrudPort.simps;
      rule acts_answered; intro within own_session_rules speaks refl)))

section \<open>Secrets stay out of the debug output\<close>

text \<open>Two inputs that differ in secret values only, not in which of them are given.\<close>

definition same_but_secrets :: "CreateCredentialInput \<Rightarrow> CreateCredentialInput \<Rightarrow> bool" where
  "same_but_secrets a b \<longleftrightarrow>
     (\<exists>password key community privacy vault host.
        b = a\<lparr>cri_password := map_option password (cri_password a), cri_private_key := map_option key (cri_private_key a),
              cri_community := map_option community (cri_community a),
              cri_privacy_password := map_option privacy (cri_privacy_password a),
              cri_vault_id := map_option vault (cri_vault_id a),
              cri_host_identifier := map_option host (cri_host_identifier a)\<rparr>)"

lemma hide_optional_value_map [simp]: "hide_optional_value (map_option f v) = hide_optional_value v"
  by (cases v) (simp_all add: hide_optional_value_def hide_value_def)

lemma debug_hides_secrets:
  "same_but_secrets a b \<Longrightarrow> debug_create_credential_input b = debug_create_credential_input a"
  by (auto simp: same_but_secrets_def debug_create_credential_input_def)

section \<open>Credentials of stores and local credentials\<close>

lemma no_local_secrets: "ensure_no_local_secret_fields given = Inr u \<longleftrightarrow> list_all (\<lambda>v. v = None) given"
  by (auto simp: ensure_no_local_secret_fields_def list_all_iff list_ex_iff)

lemma stores_supported_ok: "stores_supported client = Inr u \<longleftrightarrow> cl_capability client \<noteq> Unsupported"
  by (simp add: stores_supported_def)

definition asks_for_store :: "CreateCredentialRequest \<Rightarrow> bool" where
  "asks_for_store r = starts_with ''cs_'' (credential_type_as_str (crc_credential_type r))"

text \<open>What a new credential may be: local, or of a store, and never a mixture of both.\<close>

definition new_credential_command ::
    "SessionClient option \<Rightarrow> CreateCredentialInput \<Rightarrow> GmpCommand \<Rightarrow> bool" where
  "new_credential_command client input command =
     (case command of
        OnCredentials (CreateCredential name opts) \<Rightarrow>
          name = cri_name input \<and> parse_credential_store_type (cri_credential_type input) = None
          \<and> \<not> has_store_fields (cri_credential_store_id input) (cri_vault_id input) (cri_host_identifier input)
          \<and> cd_login opts = cri_login input \<and> cd_password opts = cri_password input
          \<and> cd_private_key opts = cri_private_key input \<and> cd_community opts = cri_community input
          \<and> cd_privacy_password opts = cri_privacy_password input
      | OnCredentials (CreateCredentialStoreCredential name credential_type vault host comment store) \<Rightarrow>
          name = cri_name input \<and> parse_credential_store_type (cri_credential_type input) = Some credential_type
          \<and> list_all (\<lambda>v. v = None) (create_local_fields input)
          \<and> cri_vault_id input = Some vault \<and> cri_host_identifier input = Some host
          \<and> (case client of None \<Rightarrow> False | Some c \<Rightarrow> cl_capability c \<noteq> Unsupported)
      | _ \<Rightarrow> False)"

lemma local_credential_ok:
  "local_credential_command B input = Inr command \<Longrightarrow> parse_credential_store_type (cri_credential_type input) = None \<Longrightarrow>
     \<not> has_store_fields (cri_credential_store_id input) (cri_vault_id input) (cri_host_identifier input) \<Longrightarrow>
     new_credential_command client input command"
  by (auto simp: local_credential_command_def new_credential_command_def and_then_eq_Inr)

text \<open>
  C13. Creating a credential is refused with nothing sent, or sends exactly one command: for a
  credential of a store only if the session's backend has not been found to lack stores, with
  the vault and host of the request and without any local secret; otherwise a local credential
  with exactly the secrets of the request and no reference to a store.
\<close>

theorem credential_is_local_or_of_a_store:
  "sends_one (from_token sha token)
     (new_credential_command (map_of (ga_sessions (gv_adapter w)) (from_token sha token)) input)
     (gvmd_create_credential sha L B token input) w"
proof -
  have local: "sends_one d (new_credential_command client input)
      (checked (if has_store_fields (cri_credential_store_id input) (cri_vault_id input) (cri_host_identifier input)
          then Inl e else Inr ()) (\<lambda>_. then_call sha token (local_credential_command B input) (call_create sha L token))) w"
    if "parse_credential_store_type (cri_credential_type input) = None" "d = from_token sha token" for d client e
    using that by (intro sends_one_checked sends_one_then_call sends_one_create) (auto intro: local_credential_ok split: if_splits)
  have store: "sends_one d (new_credential_command (Some client) input)
      (store_backed_command sha L token client credential_type input) w"
    if "parse_credential_store_type (cri_credential_type input) = Some credential_type" "d = from_token sha token"
    for d client credential_type
    unfolding store_backed_command_def
    by (intro sends_one_checked sends_one_then_call sends_one_create)
      (use that in \<open>auto simp: new_credential_command_def no_local_secrets stores_supported_ok split: option.splits\<close>)
  show ?thesis
    unfolding gvmd_create_credential_def
  proof (rule sends_one_connected)
    fix client
    assume "map_of (ga_sessions (gv_adapter w)) (from_token sha token) = Some client"
    then show "sends_one (from_token sha token)
        (new_credential_command (map_of (ga_sessions (gv_adapter w)) (from_token sha token)) input)
        (case parse_credential_store_type (cri_credential_type input) of
           None \<Rightarrow> checked (if has_store_fields (cri_credential_store_id input) (cri_vault_id input) (cri_host_identifier input)
             then Inl (InvalidInput ''credential-store fields require a credential type with the `cs_` prefix'')
             else Inr ()) (\<lambda>_. then_call sha token (local_credential_command B input) (call_create sha L token))
         | Some credential_type \<Rightarrow> store_backed_command sha L token client credential_type input) w"
      by (cases "parse_credential_store_type (cri_credential_type input)";
          simp only: option.case local store)
  qed
qed

text \<open>
  A request to create a credential is accepted exactly when it has a name and a type and,
  for a type of a store, a vault and a host and no local secret, for any other type no reference
  to a store; it is handed on field by field.
\<close>

lemma credential_request_accepted_iff:
  "validate_create_credential r = Inr input \<longleftrightarrow>
     trim (crc_name r) \<noteq> [] \<and> trim (credential_type_as_str (crc_credential_type r)) \<noteq> []
     \<and> (if asks_for_store r
        then crc_vault_id r \<notin> {None, Some []} \<and> crc_host_identifier r \<notin> {None, Some []}
          \<and> list_all (\<lambda>v. v = None) (request_local_fields r)
        else crc_credential_store_id r = None \<and> crc_vault_id r = None \<and> crc_host_identifier r = None)
     \<and> input = \<lparr>cri_name = crc_name r, cri_comment = crc_comment r,
          cri_credential_type = credential_type_as_str (crc_credential_type r), cri_login = crc_login r,
          cri_password = crc_password r, cri_private_key = crc_private_key r, cri_certificate = crc_certificate r,
          cri_community = crc_community r, cri_auth_algorithm = crc_auth_algorithm r,
          cri_privacy_algorithm = crc_privacy_algorithm r, cri_privacy_password = crc_privacy_password r,
          cri_credential_store_id = crc_credential_store_id r, cri_vault_id = crc_vault_id r,
          cri_host_identifier = crc_host_identifier r\<rparr>"
  unfolding validate_create_credential_def asks_for_store_def
  by (auto simp: and_then_eq_Inr not_blank_ok missing_text_def has_store_fields_def list_ex_iff list_all_iff split: if_splits)

end
