(* ===== verification/Identity.thy ===== *)
theory Identity
  imports Sent_Commands
begin

text \<open>
  Users, groups, roles, permissions and user settings, from the request to the command:
  \<open>identity.rs\<close> of the crates \<open>gvm-gateway-domain\<close>, \<open>gvm-gateway-gvmd\<close> (under
  \<open>gvmd_adapter/ports\<close>), \<open>gvm-gateway-app\<close> and \<open>gvm-gateway-rest\<close>.
\<close>

section \<open>Domain\<close>

record IdentityOwner =
  io_name :: string

record IdentityResourceMeta =
  im_id :: string
  im_name :: string
  im_comment :: "string option"
  im_owner :: "IdentityOwner option"
  im_creation_time :: "string option"
  im_modification_time :: "string option"
  im_writable :: bool
  im_in_use :: bool

record User =
  ur_meta :: IdentityResourceMeta
  ur_roles :: "ResourceRef list"
  ur_groups :: "ResourceRef list"
  ur_hosts_allow :: "bool option"
  ur_hosts :: "string option"
  ur_authentication_type :: "string option"

record CreateUserInput =
  uci_name :: string
  uci_comment :: "string option"
  uci_password :: "string option"
  uci_hosts :: "string option"
  uci_role_ids :: "string list"
  uci_authentication_type :: "string option"

record ModifyUserInput =
  umi_name :: "string option"
  umi_comment :: "string option"
  umi_password :: "string option"
  umi_hosts :: "string option"
  umi_role_ids :: "(string list) option"
  umi_authentication_type :: "string option"

record Group =
  gr_meta :: IdentityResourceMeta
  gr_users :: "string list"

record CreateGroupInput =
  gci_name :: string
  gci_comment :: "string option"
  gci_users :: "string list"

record ModifyGroupInput =
  gmi_comment :: "string option"
  gmi_users :: "(string list) option"

record Role =
  ro_meta :: IdentityResourceMeta
  ro_users :: "string list"

record CreateRoleInput =
  rci_name :: string
  rci_comment :: "string option"
  rci_users :: "string list"

record ModifyRoleInput =
  rmi_comment :: "string option"
  rmi_users :: "(string list) option"

record Permission =
  pm_meta :: IdentityResourceMeta
  pm_subject_type :: "string option"
  pm_subject :: "ResourceRef option"
  pm_resource_type :: "string option"
  pm_resource :: "ResourceRef option"

record CreatePermissionInput =
  pci_name :: "string option"
  pci_comment :: "string option"
  pci_subject_type :: "string option"
  pci_subject_id :: "string option"
  pci_resource_type :: "string option"
  pci_resource_id :: "string option"

record ModifyPermissionInput =
  pmi_name :: "string option"
  pmi_comment :: "string option"
  pmi_subject_type :: "string option"
  pmi_subject_id :: "string option"
  pmi_resource_type :: "string option"
  pmi_resource_id :: "string option"

record UserSettingQuery =
  usq_filter_string :: "string option"
  usq_filter_id :: "string option"

record UserSetting =
  ust_id :: string
  ust_name :: string
  ust_value :: "string option"
  ust_comment :: "string option"

record UserSettingList =
  usl_data :: "UserSetting list"

record ModifyUserSettingInput =
  usm_value :: string

type_synonym 's UserPort = "('s, User, CreateUserInput, ModifyUserInput) CrudPort"
type_synonym 's GroupPort = "('s, Group, CreateGroupInput, ModifyGroupInput) CrudPort"
type_synonym 's RolePort = "('s, Role, CreateRoleInput, ModifyRoleInput) CrudPort"
type_synonym 's PermissionPort = "('s, Permission, CreatePermissionInput, ModifyPermissionInput) CrudPort"

record 's IdentityPort =
  idp_users :: "'s UserPort"
  idp_groups :: "'s GroupPort"
  idp_roles :: "'s RolePort"
  idp_permissions :: "'s PermissionPort"
  idp_list_user_settings :: "string \<Rightarrow> UserSettingQuery \<Rightarrow> ('s, UserSettingList) operation"
  idp_get_user_setting :: "string \<Rightarrow> string \<Rightarrow> ('s, UserSetting) operation"
  idp_modify_user_setting :: "string \<Rightarrow> string \<Rightarrow> ModifyUserSettingInput \<Rightarrow> ('s, UserSetting) operation"

section \<open>Adapter\<close>

definition identity_meta_from_gmp :: "EntityMeta \<Rightarrow> IdentityResourceMeta" where
  "identity_meta_from_gmp x =
     \<lparr>im_id = em_id x, im_name = em_name x, im_comment = em_comment x,
      im_owner = map_option (\<lambda>owner. \<lparr>io_name = owner\<rparr>) (em_owner x), im_creation_time = em_creation_time x,
      im_modification_time = em_modification_time x, im_writable = em_writable x, im_in_use = em_in_use x\<rparr>"

definition user_from_gmp :: "GmpUser \<Rightarrow> User" where
  "user_from_gmp user =
     \<lparr>ur_meta = identity_meta_from_gmp (gus_meta user),
      ur_roles = map resource_ref_from_named_entity (gus_roles user),
      ur_groups = map resource_ref_from_named_entity (gus_groups user),
      ur_hosts_allow = map_option ha_allow (gus_host_access user), ur_hosts = gus_hosts user,
      ur_authentication_type = gus_authentication_type user\<rparr>"

definition group_from_gmp :: "GmpMembers \<Rightarrow> Group" where
  "group_from_gmp x =
     \<lparr>gr_meta = identity_meta_from_gmp (gmb_meta x), gr_users = gmb_users x\<rparr>"

definition role_from_gmp :: "GmpMembers \<Rightarrow> Role" where
  "role_from_gmp x =
     \<lparr>ro_meta = identity_meta_from_gmp (gmb_meta x), ro_users = gmb_users x\<rparr>"

definition permission_from_gmp :: "GmpPermission \<Rightarrow> Permission" where
  "permission_from_gmp x =
     \<lparr>pm_meta = identity_meta_from_gmp (gpm_meta x), pm_subject_type = gpm_subject_type x,
       pm_subject = map_option resource_ref_from_named_entity (gpm_subject x),
       pm_resource_type = gpm_resource_type x,
       pm_resource = map_option resource_ref_from_named_entity (gpm_resource x)\<rparr>"

definition user_setting_from_gmp :: "GmpUserSetting \<Rightarrow> UserSetting" where
  "user_setting_from_gmp x =
     \<lparr>ust_id = gst_id x, ust_name = gst_name x, ust_value = gst_value x,
       ust_comment = gst_comment x\<rparr>"

definition parse_user_auth_type :: "'r ResourceLibrary \<Rightarrow> string \<Rightarrow> string result" where
  "parse_user_auth_type B = parse_known ''authenticationType'' (bl_user_auth_type B)"

definition parse_permission_subject_type :: "'r ResourceLibrary \<Rightarrow> string \<Rightarrow> string result" where
  "parse_permission_subject_type B = parse_known ''subjectType'' (bl_permission_subject_type B)"

text \<open>The listing of these resources reports an unreadable filter identifier as any other identifier.\<close>

definition list_identities ::
    "(string \<Rightarrow> u8 list) \<Rightarrow> ('r, 'g, 'f) GmpLibrary \<Rightarrow> (string option \<Rightarrow> GmpCommand) \<Rightarrow> ('r \<Rightarrow> ParseError + 'i Counted)
      \<Rightarrow> ('i \<Rightarrow> 'a) \<Rightarrow> string \<Rightarrow> ListQuery \<Rightarrow> ('g Gvmd, 'a Page) operation" where
  "list_identities sha L command from_response convert session_token query =
     checked (map_transpose (parse_entity_id L) (lq_filter_id query)) (\<lambda>filter_id.
     chain (paginated_filter_resolving_filter_id sha L session_token None (lq_filter_string query) filter_id
              (lq_page query) (lq_per_page query) []) (\<lambda>filter_string.
     chain (fetch_items sha L session_token (command filter_string) from_response convert) (\<lambda>(items, total).
       pure (Inr (items, paged_pagination total (lq_page query) (lq_per_page query))))))"

lemma speaks_list_identities [speaks]:
  "d = from_token sha session_token \<Longrightarrow>
     speaks_for d (list_identities sha L command from_response convert session_token query)"
  unfolding list_identities_def by (auto intro!: speaks split: prod.split)

subsection \<open>Users\<close>

definition gvmd_list_users ::
    "(string \<Rightarrow> u8 list) \<Rightarrow> ('r, 'g, 'f) GmpLibrary \<Rightarrow> 'r ResourceLibrary \<Rightarrow> string
      \<Rightarrow> ListQuery \<Rightarrow> ('g Gvmd, User Page) operation" where
  "gvmd_list_users sha L B =
     list_identities sha L (\<lambda>filter_string. OnUsers (GetUsers \<lparr>lo_filter_string = filter_string, lo_details = Some True\<rparr>)) (bl_users B) user_from_gmp"

definition gvmd_create_user ::
    "(string \<Rightarrow> u8 list) \<Rightarrow> ('r, 'g, 'f) GmpLibrary \<Rightarrow> 'r ResourceLibrary \<Rightarrow> string
      \<Rightarrow> CreateUserInput \<Rightarrow> ('g Gvmd, string) operation" where
  "gvmd_create_user sha L B session_token input =
     checked (collect_results (parse_entity_id L) (uci_role_ids input)) (\<lambda>role_ids.
     checked (map_transpose (parse_user_auth_type B) (uci_authentication_type input)) (\<lambda>auth_type.
       call_create sha L session_token (OnUsers (CreateUser (uci_name input)
         \<lparr>us_comment = uci_comment input, us_password = uci_password input,
          us_host_access = map_option (\<lambda>hosts. \<lparr>ha_allow = True, ha_hosts = hosts\<rparr>) (uci_hosts input),
          us_role_ids = role_ids, us_auth_type = auth_type\<rparr>))))"

definition get_gmp_user ::
    "(string \<Rightarrow> u8 list) \<Rightarrow> ('r, 'g, 'f) GmpLibrary \<Rightarrow> 'r ResourceLibrary \<Rightarrow> string \<Rightarrow> string \<Rightarrow> ('g Gvmd, GmpUser) operation" where
  "get_gmp_user sha L B session_token ident =
     checked (parse_entity_id L ident) (\<lambda>user_id.
       fetch_first sha L session_token (OnUsers (GetUser user_id)) (bl_users B) (\<lambda>user. user)
         (''user '' @ ident @ '' not found''))"

definition gvmd_get_user ::
    "(string \<Rightarrow> u8 list) \<Rightarrow> ('r, 'g, 'f) GmpLibrary \<Rightarrow> 'r ResourceLibrary \<Rightarrow> string \<Rightarrow> string
      \<Rightarrow> ('g Gvmd, User) operation" where
  "gvmd_get_user sha L B session_token ident =
     chain (get_gmp_user sha L B session_token ident) (\<lambda>user. pure (Inr (user_from_gmp user)))"

text \<open>Hosts that are given become the hosts the user may scan; otherwise the daemon is asked for the present ones.\<close>

definition updated_host_access ::
    "(string \<Rightarrow> u8 list) \<Rightarrow> ('r, 'g, 'f) GmpLibrary \<Rightarrow> 'r ResourceLibrary \<Rightarrow> string \<Rightarrow> string \<Rightarrow> string option
      \<Rightarrow> ('g Gvmd, UserHostAccess option) operation" where
  "updated_host_access sha L B session_token ident hosts =
     (case hosts of
        Some hosts \<Rightarrow> pure (Inr (Some \<lparr>ha_allow = True, ha_hosts = hosts\<rparr>))
      | None \<Rightarrow> chain (get_gmp_user sha L B session_token ident) (\<lambda>user. pure (Inr (gus_host_access user))))"

definition gvmd_modify_user ::
    "(string \<Rightarrow> u8 list) \<Rightarrow> ('r, 'g, 'f) GmpLibrary \<Rightarrow> 'r ResourceLibrary \<Rightarrow> string \<Rightarrow> string
      \<Rightarrow> ModifyUserInput \<Rightarrow> ('g Gvmd, User) operation" where
  "gvmd_modify_user sha L B session_token ident input =
     checked (parse_entity_id L ident) (\<lambda>user_id.
     chain (updated_host_access sha L B session_token ident (umi_hosts input)) (\<lambda>host_access.
     checked (map_transpose (collect_results (parse_entity_id L)) (umi_role_ids input)) (\<lambda>role_ids.
     checked (map_transpose (parse_user_auth_type B) (umi_authentication_type input)) (\<lambda>auth_type.
     chain (call_action sha L session_token (OnUsers (ModifyUser user_id
       \<lparr>um_new_name = umi_name input, um_comment = umi_comment input, um_password = umi_password input,
        um_host_access = host_access,
        um_role_ids = (case role_ids of Some ids \<Rightarrow> collection_from ids | None \<Rightarrow> CollectionOmitted),
        um_auth_type = auth_type\<rparr>))) (\<lambda>_.
       gvmd_get_user sha L B session_token ident)))))"

definition gvmd_delete_user ::
    "(string \<Rightarrow> u8 list) \<Rightarrow> ('r, 'g, 'f) GmpLibrary \<Rightarrow> 'r ResourceLibrary \<Rightarrow> string \<Rightarrow> string
      \<Rightarrow> bool \<Rightarrow> ('g Gvmd, unit) operation" where
  "gvmd_delete_user sha L B session_token ident ultimate =
     checked (parse_entity_id L ident) (\<lambda>user_id. call_action sha L session_token (OnUsers (DeleteUser user_id ultimate)))"

definition gvmd_user_port ::
    "(string \<Rightarrow> u8 list) \<Rightarrow> ('r, 'g, 'f) GmpLibrary \<Rightarrow> 'r ResourceLibrary \<Rightarrow> 'g Gvmd UserPort" where
  "gvmd_user_port sha L B =
     \<lparr>cp_list = gvmd_list_users sha L B,
      cp_create = gvmd_create_user sha L B,
      cp_get = gvmd_get_user sha L B,
      cp_modify = gvmd_modify_user sha L B,
      cp_delete = gvmd_delete_user sha L B\<rparr>"

subsection \<open>Groups and roles\<close>

definition gvmd_list_groups ::
    "(string \<Rightarrow> u8 list) \<Rightarrow> ('r, 'g, 'f) GmpLibrary \<Rightarrow> 'r ResourceLibrary \<Rightarrow> string
      \<Rightarrow> ListQuery \<Rightarrow> ('g Gvmd, Group Page) operation" where
  "gvmd_list_groups sha L B =
     list_identities sha L (\<lambda>filter_string. OnAccess (GetGroups \<lparr>lo_filter_string = filter_string, lo_details = Some True\<rparr>)) (bl_groups B) group_from_gmp"

definition gvmd_create_group ::
    "(string \<Rightarrow> u8 list) \<Rightarrow> ('r, 'g, 'f) GmpLibrary \<Rightarrow> 'r ResourceLibrary \<Rightarrow> string
      \<Rightarrow> CreateGroupInput \<Rightarrow> ('g Gvmd, string) operation" where
  "gvmd_create_group sha L B session_token input =
     then_call sha session_token (Inr ()) (\<lambda>_.
       call_create sha L session_token (OnAccess (CreateGroup (gci_name input)
         \<lparr>mb_comment = gci_comment input, mb_users = gci_users input\<rparr>)))"

definition gvmd_get_group ::
    "(string \<Rightarrow> u8 list) \<Rightarrow> ('r, 'g, 'f) GmpLibrary \<Rightarrow> 'r ResourceLibrary \<Rightarrow> string \<Rightarrow> string
      \<Rightarrow> ('g Gvmd, Group) operation" where
  "gvmd_get_group sha L B = get_one sha L (\<lambda>ident. OnAccess (GetGroup ident)) (bl_groups B) group_from_gmp ''group''"

definition gvmd_modify_group ::
    "(string \<Rightarrow> u8 list) \<Rightarrow> ('r, 'g, 'f) GmpLibrary \<Rightarrow> 'r ResourceLibrary \<Rightarrow> string \<Rightarrow> string
      \<Rightarrow> ModifyGroupInput \<Rightarrow> ('g Gvmd, Group) operation" where
  "gvmd_modify_group sha L B session_token ident input =
     modify_and_get sha L
       (and_then (parse_entity_id L ident) (\<lambda>group_id.
          Inr (OnAccess (ModifyGroup group_id
            \<lparr>mb_comment = gmi_comment input, mb_users = unwrap_or (gmi_users input) []\<rparr>))))
       session_token (gvmd_get_group sha L B session_token ident)"

definition gvmd_delete_group ::
    "(string \<Rightarrow> u8 list) \<Rightarrow> ('r, 'g, 'f) GmpLibrary \<Rightarrow> 'r ResourceLibrary \<Rightarrow> string \<Rightarrow> string
      \<Rightarrow> bool \<Rightarrow> ('g Gvmd, unit) operation" where
  "gvmd_delete_group sha L B session_token ident ultimate =
     delete_one sha L (\<lambda>entity_id. OnAccess (DeleteGroup entity_id ultimate)) session_token ident"

definition gvmd_group_port ::
    "(string \<Rightarrow> u8 list) \<Rightarrow> ('r, 'g, 'f) GmpLibrary \<Rightarrow> 'r ResourceLibrary
      \<Rightarrow> 'g Gvmd GroupPort" where
  "gvmd_group_port sha L B =
     \<lparr>cp_list = gvmd_list_groups sha L B,
      cp_create = gvmd_create_group sha L B,
      cp_get = gvmd_get_group sha L B,
      cp_modify = gvmd_modify_group sha L B,
      cp_delete = gvmd_delete_group sha L B\<rparr>"

definition gvmd_list_roles ::
    "(string \<Rightarrow> u8 list) \<Rightarrow> ('r, 'g, 'f) GmpLibrary \<Rightarrow> 'r ResourceLibrary \<Rightarrow> string
      \<Rightarrow> ListQuery \<Rightarrow> ('g Gvmd, Role Page) operation" where
  "gvmd_list_roles sha L B session_token query =
     chain (connected sha session_token) (\<lambda>_.
       list_identities sha L (\<lambda>filter_string. OnAccess (GetRoles \<lparr>lo_filter_string = filter_string, lo_details = Some True\<rparr>)) (bl_roles B) role_from_gmp session_token query)"

definition gvmd_create_role ::
    "(string \<Rightarrow> u8 list) \<Rightarrow> ('r, 'g, 'f) GmpLibrary \<Rightarrow> 'r ResourceLibrary \<Rightarrow> string
      \<Rightarrow> CreateRoleInput \<Rightarrow> ('g Gvmd, string) operation" where
  "gvmd_create_role sha L B session_token input =
     then_call sha session_token (Inr ()) (\<lambda>_.
       call_create sha L session_token (OnAccess (CreateRole (rci_name input)
         \<lparr>mb_comment = rci_comment input, mb_users = rci_users input\<rparr>)))"

definition gvmd_get_role ::
    "(string \<Rightarrow> u8 list) \<Rightarrow> ('r, 'g, 'f) GmpLibrary \<Rightarrow> 'r ResourceLibrary \<Rightarrow> string \<Rightarrow> string
      \<Rightarrow> ('g Gvmd, Role) operation" where
  "gvmd_get_role sha L B = get_one sha L (\<lambda>ident. OnAccess (GetRole ident)) (bl_roles B) role_from_gmp ''role''"

definition gvmd_modify_role ::
    "(string \<Rightarrow> u8 list) \<Rightarrow> ('r, 'g, 'f) GmpLibrary \<Rightarrow> 'r ResourceLibrary \<Rightarrow> string \<Rightarrow> string
      \<Rightarrow> ModifyRoleInput \<Rightarrow> ('g Gvmd, Role) operation" where
  "gvmd_modify_role sha L B session_token ident input =
     modify_and_get sha L
       (and_then (parse_entity_id L ident) (\<lambda>role_id.
          Inr (OnAccess (ModifyRole role_id
            \<lparr>mb_comment = rmi_comment input, mb_users = unwrap_or (rmi_users input) []\<rparr>))))
       session_token (gvmd_get_role sha L B session_token ident)"

definition gvmd_delete_role ::
    "(string \<Rightarrow> u8 list) \<Rightarrow> ('r, 'g, 'f) GmpLibrary \<Rightarrow> 'r ResourceLibrary \<Rightarrow> string \<Rightarrow> string
      \<Rightarrow> bool \<Rightarrow> ('g Gvmd, unit) operation" where
  "gvmd_delete_role sha L B session_token ident ultimate =
     delete_one sha L (\<lambda>entity_id. OnAccess (DeleteRole entity_id ultimate)) session_token ident"

definition gvmd_role_port ::
    "(string \<Rightarrow> u8 list) \<Rightarrow> ('r, 'g, 'f) GmpLibrary \<Rightarrow> 'r ResourceLibrary \<Rightarrow> 'g Gvmd RolePort" where
  "gvmd_role_port sha L B =
     \<lparr>cp_list = gvmd_list_roles sha L B,
      cp_create = gvmd_create_role sha L B,
      cp_get = gvmd_get_role sha L B,
      cp_modify = gvmd_modify_role sha L B,
      cp_delete = gvmd_delete_role sha L B\<rparr>"

subsection \<open>Permissions and settings\<close>

text \<open>The identifiers and the type of the subject are read in the order of the fields.\<close>

definition permission_opts ::
    "('r, 'g, 'f) GmpLibrary \<Rightarrow> 'r ResourceLibrary \<Rightarrow> string option \<Rightarrow> string option \<Rightarrow> string option \<Rightarrow> string option
      \<Rightarrow> string option \<Rightarrow> string option \<Rightarrow> PermissionOpts result" where
  "permission_opts L B name comment resource_id resource_type subject_type subject_id =
     and_then (map_transpose (parse_entity_id L) resource_id) (\<lambda>resource_id.
     and_then (map_transpose (parse_permission_subject_type B) subject_type) (\<lambda>subject_type.
     and_then (map_transpose (parse_entity_id L) subject_id) (\<lambda>subject_id.
       Inr \<lparr>pe_comment = comment, pe_name = name, pe_resource_id = resource_id, pe_resource_type = resource_type,
            pe_subject_type = subject_type, pe_subject_id = subject_id\<rparr>)))"

definition gvmd_list_permissions ::
    "(string \<Rightarrow> u8 list) \<Rightarrow> ('r, 'g, 'f) GmpLibrary \<Rightarrow> 'r ResourceLibrary \<Rightarrow> string
      \<Rightarrow> ListQuery \<Rightarrow> ('g Gvmd, Permission Page) operation" where
  "gvmd_list_permissions sha L B session_token query =
     chain (connected sha session_token) (\<lambda>_.
       list_identities sha L (\<lambda>filter_string. OnAccess (GetPermissions \<lparr>lo_filter_string = filter_string, lo_details = Some True\<rparr>)) (bl_permissions B) permission_from_gmp session_token query)"

definition gvmd_create_permission ::
    "(string \<Rightarrow> u8 list) \<Rightarrow> ('r, 'g, 'f) GmpLibrary \<Rightarrow> 'r ResourceLibrary \<Rightarrow> string
      \<Rightarrow> CreatePermissionInput \<Rightarrow> ('g Gvmd, string) operation" where
  "gvmd_create_permission sha L B session_token input =
     then_call sha session_token
       (permission_opts L B (pci_name input) (pci_comment input) (pci_resource_id input) (pci_resource_type input)
          (pci_subject_type input) (pci_subject_id input))
       (\<lambda>opts. call_create sha L session_token (OnAccess (CreatePermission opts)))"

definition gvmd_get_permission ::
    "(string \<Rightarrow> u8 list) \<Rightarrow> ('r, 'g, 'f) GmpLibrary \<Rightarrow> 'r ResourceLibrary \<Rightarrow> string \<Rightarrow> string
      \<Rightarrow> ('g Gvmd, Permission) operation" where
  "gvmd_get_permission sha L B = get_one sha L (\<lambda>ident. OnAccess (GetPermission ident)) (bl_permissions B) permission_from_gmp ''permission''"

definition gvmd_modify_permission ::
    "(string \<Rightarrow> u8 list) \<Rightarrow> ('r, 'g, 'f) GmpLibrary \<Rightarrow> 'r ResourceLibrary \<Rightarrow> string \<Rightarrow> string
      \<Rightarrow> ModifyPermissionInput \<Rightarrow> ('g Gvmd, Permission) operation" where
  "gvmd_modify_permission sha L B session_token ident input =
     modify_and_get sha L
       (and_then (parse_entity_id L ident) (\<lambda>permission_id.
        and_then (permission_opts L B (pmi_name input) (pmi_comment input) (pmi_resource_id input) (pmi_resource_type input)
          (pmi_subject_type input) (pmi_subject_id input)) (\<lambda>opts.
          Inr (OnAccess (ModifyPermission permission_id opts)))))
       session_token (gvmd_get_permission sha L B session_token ident)"

definition gvmd_delete_permission ::
    "(string \<Rightarrow> u8 list) \<Rightarrow> ('r, 'g, 'f) GmpLibrary \<Rightarrow> 'r ResourceLibrary \<Rightarrow> string \<Rightarrow> string
      \<Rightarrow> bool \<Rightarrow> ('g Gvmd, unit) operation" where
  "gvmd_delete_permission sha L B session_token ident ultimate =
     delete_one sha L (\<lambda>entity_id. OnAccess (DeletePermission entity_id ultimate)) session_token ident"

definition gvmd_permission_port ::
    "(string \<Rightarrow> u8 list) \<Rightarrow> ('r, 'g, 'f) GmpLibrary \<Rightarrow> 'r ResourceLibrary
      \<Rightarrow> 'g Gvmd PermissionPort" where
  "gvmd_permission_port sha L B =
     \<lparr>cp_list = gvmd_list_permissions sha L B,
      cp_create = gvmd_create_permission sha L B,
      cp_get = gvmd_get_permission sha L B,
      cp_modify = gvmd_modify_permission sha L B,
      cp_delete = gvmd_delete_permission sha L B\<rparr>"

definition gvmd_list_user_settings ::
    "(string \<Rightarrow> u8 list) \<Rightarrow> ('r, 'g, 'f) GmpLibrary \<Rightarrow> 'r ResourceLibrary \<Rightarrow> string
      \<Rightarrow> UserSettingQuery \<Rightarrow> ('g Gvmd, UserSettingList) operation" where
  "gvmd_list_user_settings sha L B session_token query =
     chain (connected sha session_token) (\<lambda>_.
     checked (map_transpose (parse_entity_id L) (usq_filter_id query)) (\<lambda>filter_id.
     chain (filter_resolving_filter_id sha L session_token None (usq_filter_string query) filter_id []) (\<lambda>filter_string.
     chain (call sha L session_token (OnAccess (GetUserSettings filter_string))) (\<lambda>response.
     checked (read_with (bl_user_settings B) response) (\<lambda>settings.
       pure (Inr \<lparr>usl_data = sort_key ust_name (map user_setting_from_gmp settings)\<rparr>))))))"

definition gvmd_get_user_setting ::
    "(string \<Rightarrow> u8 list) \<Rightarrow> ('r, 'g, 'f) GmpLibrary \<Rightarrow> 'r ResourceLibrary \<Rightarrow> string \<Rightarrow> string
      \<Rightarrow> ('g Gvmd, UserSetting) operation" where
  "gvmd_get_user_setting sha L B session_token ident =
     then_call sha session_token (parse_entity_id L ident) (\<lambda>setting_id.
     chain (call sha L session_token (OnAccess (GetUserSetting setting_id))) (\<lambda>response.
     checked (read_with (bl_user_settings B) response) (\<lambda>settings.
       pure (case settings of
               [] \<Rightarrow> Inl (NotFound (''user setting '' @ ident @ '' not found''))
             | setting # _ \<Rightarrow> Inr (user_setting_from_gmp setting)))))"

definition gvmd_modify_user_setting ::
    "(string \<Rightarrow> u8 list) \<Rightarrow> ('r, 'g, 'f) GmpLibrary \<Rightarrow> 'r ResourceLibrary \<Rightarrow> string \<Rightarrow> string
      \<Rightarrow> ModifyUserSettingInput \<Rightarrow> ('g Gvmd, UserSetting) operation" where
  "gvmd_modify_user_setting sha L B session_token ident input =
     chain (then_call sha session_token (parse_entity_id L ident) (\<lambda>setting_id.
            chain (call sha L session_token (OnAccess (ModifyUserSetting setting_id (usm_value input)))) (\<lambda>response.
              pure (read_with (bl_setting_modified B) response)))) (\<lambda>_.
       gvmd_get_user_setting sha L B session_token ident)"

definition gvmd_identity_port ::
    "(string \<Rightarrow> u8 list) \<Rightarrow> ('r, 'g, 'f) GmpLibrary \<Rightarrow> 'r ResourceLibrary \<Rightarrow> 'g Gvmd IdentityPort" where
  "gvmd_identity_port sha L B =
     \<lparr>idp_users = gvmd_user_port sha L B, idp_groups = gvmd_group_port sha L B, idp_roles = gvmd_role_port sha L B,
      idp_permissions = gvmd_permission_port sha L B, idp_list_user_settings = gvmd_list_user_settings sha L B,
      idp_get_user_setting = gvmd_get_user_setting sha L B,
      idp_modify_user_setting = gvmd_modify_user_setting sha L B\<rparr>"

lemma speaks_get_gmp_user [speaks]:
  "d = from_token sha session_token \<Longrightarrow> speaks_for d (get_gmp_user sha L B session_token ident)"
  unfolding get_gmp_user_def by (intro speaks; simp)

lemma speaks_updated_host_access [speaks]:
  "d = from_token sha session_token \<Longrightarrow> speaks_for d (updated_host_access sha L B session_token ident hosts)"
  unfolding updated_host_access_def by (intro speaks; simp)

lemma speaks_users [speaks]:
  "d = from_token sha session_token \<Longrightarrow> speaks_for d (gvmd_list_users sha L B session_token query)"
  "d = from_token sha session_token \<Longrightarrow> speaks_for d (gvmd_create_user sha L B session_token input)"
  "d = from_token sha session_token \<Longrightarrow> speaks_for d (gvmd_get_user sha L B session_token ident)"
  "d = from_token sha session_token \<Longrightarrow> speaks_for d (gvmd_delete_user sha L B session_token ident ultimate)"
  unfolding gvmd_list_users_def gvmd_create_user_def gvmd_get_user_def gvmd_delete_user_def
  by (intro speaks; simp)+

lemma speaks_modify_user [speaks]:
  "d = from_token sha session_token \<Longrightarrow> speaks_for d (gvmd_modify_user sha L B session_token ident update)"
  unfolding gvmd_modify_user_def by (intro speaks; simp)

lemma speaks_groups [speaks]:
  "d = from_token sha session_token \<Longrightarrow> speaks_for d (gvmd_list_groups sha L B session_token query)"
  "d = from_token sha session_token \<Longrightarrow> speaks_for d (gvmd_create_group sha L B session_token input)"
  "d = from_token sha session_token \<Longrightarrow> speaks_for d (gvmd_get_group sha L B session_token ident)"
  "d = from_token sha session_token \<Longrightarrow> speaks_for d (gvmd_modify_group sha L B session_token ident update)"
  "d = from_token sha session_token \<Longrightarrow> speaks_for d (gvmd_delete_group sha L B session_token ident ultimate)"
  unfolding gvmd_list_groups_def gvmd_create_group_def gvmd_get_group_def gvmd_modify_group_def gvmd_delete_group_def
  by (auto intro!: speaks split: option.split)

lemma speaks_roles [speaks]:
  "d = from_token sha session_token \<Longrightarrow> speaks_for d (gvmd_list_roles sha L B session_token query)"
  "d = from_token sha session_token \<Longrightarrow> speaks_for d (gvmd_create_role sha L B session_token input)"
  "d = from_token sha session_token \<Longrightarrow> speaks_for d (gvmd_get_role sha L B session_token ident)"
  "d = from_token sha session_token \<Longrightarrow> speaks_for d (gvmd_modify_role sha L B session_token ident update)"
  "d = from_token sha session_token \<Longrightarrow> speaks_for d (gvmd_delete_role sha L B session_token ident ultimate)"
  unfolding gvmd_list_roles_def gvmd_create_role_def gvmd_get_role_def gvmd_modify_role_def gvmd_delete_role_def
  by (auto intro!: speaks split: option.split)

lemma speaks_permissions [speaks]:
  "d = from_token sha session_token \<Longrightarrow> speaks_for d (gvmd_list_permissions sha L B session_token query)"
  "d = from_token sha session_token \<Longrightarrow> speaks_for d (gvmd_create_permission sha L B session_token input)"
  "d = from_token sha session_token \<Longrightarrow> speaks_for d (gvmd_get_permission sha L B session_token ident)"
  "d = from_token sha session_token \<Longrightarrow> speaks_for d (gvmd_modify_permission sha L B session_token ident update)"
  "d = from_token sha session_token \<Longrightarrow> speaks_for d (gvmd_delete_permission sha L B session_token ident ultimate)"
  unfolding gvmd_list_permissions_def gvmd_create_permission_def gvmd_get_permission_def gvmd_modify_permission_def gvmd_delete_permission_def
  by (auto intro!: speaks split: option.split)

lemma speaks_user_settings [speaks]:
  "d = from_token sha session_token \<Longrightarrow> speaks_for d (gvmd_list_user_settings sha L B session_token query)"
  "d = from_token sha session_token \<Longrightarrow> speaks_for d (gvmd_get_user_setting sha L B session_token ident)"
  unfolding gvmd_list_user_settings_def gvmd_get_user_setting_def by (intro speaks; simp)+

lemma speaks_modify_user_setting [speaks]:
  "d = from_token sha session_token \<Longrightarrow> speaks_for d (gvmd_modify_user_setting sha L B session_token ident input)"
  unfolding gvmd_modify_user_setting_def by (intro speaks; simp)

section \<open>Use cases\<close>

definition list_users ::
    "'s UserPort \<Rightarrow> (string \<Rightarrow> u8 list) \<Rightarrow> u64 \<Rightarrow> string \<Rightarrow> ListQuery \<Rightarrow> 's GatewayService
      \<Rightarrow> User Page result \<times> 's GatewayService" where
  "list_users port sha now session_token query =
     use_port sha now session_token ''list'' ''user'' (\<lambda>token. cp_list port token query)"

definition create_user ::
    "'s UserPort \<Rightarrow> (string \<Rightarrow> u8 list) \<Rightarrow> u64 \<Rightarrow> string \<Rightarrow> CreateUserInput
      \<Rightarrow> 's GatewayService \<Rightarrow> string result \<times> 's GatewayService" where
  "create_user port sha now session_token input =
     use_port sha now session_token ''create'' ''user'' (\<lambda>token. cp_create port token input)"

definition get_user ::
    "'s UserPort \<Rightarrow> (string \<Rightarrow> u8 list) \<Rightarrow> u64 \<Rightarrow> string \<Rightarrow> string \<Rightarrow> 's GatewayService
      \<Rightarrow> User result \<times> 's GatewayService" where
  "get_user port sha now session_token ident =
     use_port sha now session_token ''read'' ''user'' (\<lambda>token. cp_get port token ident)"

definition modify_user ::
    "'s UserPort \<Rightarrow> (string \<Rightarrow> u8 list) \<Rightarrow> u64 \<Rightarrow> string \<Rightarrow> string \<Rightarrow> ModifyUserInput
      \<Rightarrow> 's GatewayService \<Rightarrow> User result \<times> 's GatewayService" where
  "modify_user port sha now session_token ident input =
     use_port sha now session_token ''modify'' ''user'' (\<lambda>token. cp_modify port token ident input)"

definition delete_user ::
    "'s UserPort \<Rightarrow> (string \<Rightarrow> u8 list) \<Rightarrow> u64 \<Rightarrow> string \<Rightarrow> string \<Rightarrow> bool
      \<Rightarrow> 's GatewayService \<Rightarrow> unit result \<times> 's GatewayService" where
  "delete_user port sha now session_token ident ultimate =
     use_port sha now session_token ''delete'' ''user'' (\<lambda>token. cp_delete port token ident ultimate)"

definition list_groups ::
    "'s GroupPort \<Rightarrow> (string \<Rightarrow> u8 list) \<Rightarrow> u64 \<Rightarrow> string \<Rightarrow> ListQuery \<Rightarrow> 's GatewayService
      \<Rightarrow> Group Page result \<times> 's GatewayService" where
  "list_groups port sha now session_token query =
     use_port sha now session_token ''list'' ''group'' (\<lambda>token. cp_list port token query)"

definition create_group ::
    "'s GroupPort \<Rightarrow> (string \<Rightarrow> u8 list) \<Rightarrow> u64 \<Rightarrow> string \<Rightarrow> CreateGroupInput
      \<Rightarrow> 's GatewayService \<Rightarrow> string result \<times> 's GatewayService" where
  "create_group port sha now session_token input =
     use_port sha now session_token ''create'' ''group'' (\<lambda>token. cp_create port token input)"

definition get_group ::
    "'s GroupPort \<Rightarrow> (string \<Rightarrow> u8 list) \<Rightarrow> u64 \<Rightarrow> string \<Rightarrow> string \<Rightarrow> 's GatewayService
      \<Rightarrow> Group result \<times> 's GatewayService" where
  "get_group port sha now session_token ident =
     use_port sha now session_token ''read'' ''group'' (\<lambda>token. cp_get port token ident)"

definition modify_group ::
    "'s GroupPort \<Rightarrow> (string \<Rightarrow> u8 list) \<Rightarrow> u64 \<Rightarrow> string \<Rightarrow> string \<Rightarrow> ModifyGroupInput
      \<Rightarrow> 's GatewayService \<Rightarrow> Group result \<times> 's GatewayService" where
  "modify_group port sha now session_token ident input =
     use_port sha now session_token ''modify'' ''group'' (\<lambda>token. cp_modify port token ident input)"

definition delete_group ::
    "'s GroupPort \<Rightarrow> (string \<Rightarrow> u8 list) \<Rightarrow> u64 \<Rightarrow> string \<Rightarrow> string \<Rightarrow> bool
      \<Rightarrow> 's GatewayService \<Rightarrow> unit result \<times> 's GatewayService" where
  "delete_group port sha now session_token ident ultimate =
     use_port sha now session_token ''delete'' ''group'' (\<lambda>token. cp_delete port token ident ultimate)"

definition list_roles ::
    "'s RolePort \<Rightarrow> (string \<Rightarrow> u8 list) \<Rightarrow> u64 \<Rightarrow> string \<Rightarrow> ListQuery \<Rightarrow> 's GatewayService
      \<Rightarrow> Role Page result \<times> 's GatewayService" where
  "list_roles port sha now session_token query =
     use_port sha now session_token ''list'' ''role'' (\<lambda>token. cp_list port token query)"

definition create_role ::
    "'s RolePort \<Rightarrow> (string \<Rightarrow> u8 list) \<Rightarrow> u64 \<Rightarrow> string \<Rightarrow> CreateRoleInput
      \<Rightarrow> 's GatewayService \<Rightarrow> string result \<times> 's GatewayService" where
  "create_role port sha now session_token input =
     use_port sha now session_token ''create'' ''role'' (\<lambda>token. cp_create port token input)"

definition get_role ::
    "'s RolePort \<Rightarrow> (string \<Rightarrow> u8 list) \<Rightarrow> u64 \<Rightarrow> string \<Rightarrow> string \<Rightarrow> 's GatewayService
      \<Rightarrow> Role result \<times> 's GatewayService" where
  "get_role port sha now session_token ident =
     use_port sha now session_token ''read'' ''role'' (\<lambda>token. cp_get port token ident)"

definition modify_role ::
    "'s RolePort \<Rightarrow> (string \<Rightarrow> u8 list) \<Rightarrow> u64 \<Rightarrow> string \<Rightarrow> string \<Rightarrow> ModifyRoleInput
      \<Rightarrow> 's GatewayService \<Rightarrow> Role result \<times> 's GatewayService" where
  "modify_role port sha now session_token ident input =
     use_port sha now session_token ''modify'' ''role'' (\<lambda>token. cp_modify port token ident input)"

definition delete_role ::
    "'s RolePort \<Rightarrow> (string \<Rightarrow> u8 list) \<Rightarrow> u64 \<Rightarrow> string \<Rightarrow> string \<Rightarrow> bool
      \<Rightarrow> 's GatewayService \<Rightarrow> unit result \<times> 's GatewayService" where
  "delete_role port sha now session_token ident ultimate =
     use_port sha now session_token ''delete'' ''role'' (\<lambda>token. cp_delete port token ident ultimate)"

definition list_permissions ::
    "'s PermissionPort \<Rightarrow> (string \<Rightarrow> u8 list) \<Rightarrow> u64 \<Rightarrow> string \<Rightarrow> ListQuery
      \<Rightarrow> 's GatewayService \<Rightarrow> Permission Page result \<times> 's GatewayService" where
  "list_permissions port sha now session_token query =
     use_port sha now session_token ''list'' ''permission'' (\<lambda>token. cp_list port token query)"

definition create_permission ::
    "'s PermissionPort \<Rightarrow> (string \<Rightarrow> u8 list) \<Rightarrow> u64 \<Rightarrow> string \<Rightarrow> CreatePermissionInput
      \<Rightarrow> 's GatewayService \<Rightarrow> string result \<times> 's GatewayService" where
  "create_permission port sha now session_token input =
     use_port sha now session_token ''create'' ''permission'' (\<lambda>token. cp_create port token input)"

definition get_permission ::
    "'s PermissionPort \<Rightarrow> (string \<Rightarrow> u8 list) \<Rightarrow> u64 \<Rightarrow> string \<Rightarrow> string \<Rightarrow> 's GatewayService
      \<Rightarrow> Permission result \<times> 's GatewayService" where
  "get_permission port sha now session_token ident =
     use_port sha now session_token ''read'' ''permission'' (\<lambda>token. cp_get port token ident)"

definition modify_permission ::
    "'s PermissionPort \<Rightarrow> (string \<Rightarrow> u8 list) \<Rightarrow> u64 \<Rightarrow> string \<Rightarrow> string
      \<Rightarrow> ModifyPermissionInput \<Rightarrow> 's GatewayService
      \<Rightarrow> Permission result \<times> 's GatewayService" where
  "modify_permission port sha now session_token ident input =
     use_port sha now session_token ''modify'' ''permission'' (\<lambda>token. cp_modify port token ident input)"

definition delete_permission ::
    "'s PermissionPort \<Rightarrow> (string \<Rightarrow> u8 list) \<Rightarrow> u64 \<Rightarrow> string \<Rightarrow> string \<Rightarrow> bool
      \<Rightarrow> 's GatewayService \<Rightarrow> unit result \<times> 's GatewayService" where
  "delete_permission port sha now session_token ident ultimate =
     use_port sha now session_token ''delete'' ''permission'' (\<lambda>token. cp_delete port token ident ultimate)"

definition list_user_settings ::
    "'s IdentityPort \<Rightarrow> (string \<Rightarrow> u8 list) \<Rightarrow> u64 \<Rightarrow> string \<Rightarrow> UserSettingQuery
      \<Rightarrow> 's GatewayService \<Rightarrow> UserSettingList result \<times> 's GatewayService" where
  "list_user_settings port sha now session_token query =
     use_port sha now session_token ''list'' ''user_setting'' (\<lambda>token. idp_list_user_settings port token query)"

definition get_user_setting ::
    "'s IdentityPort \<Rightarrow> (string \<Rightarrow> u8 list) \<Rightarrow> u64 \<Rightarrow> string \<Rightarrow> string \<Rightarrow> 's GatewayService
      \<Rightarrow> UserSetting result \<times> 's GatewayService" where
  "get_user_setting port sha now session_token ident =
     use_port sha now session_token ''read'' ''user_setting'' (\<lambda>token. idp_get_user_setting port token ident)"

definition modify_user_setting ::
    "'s IdentityPort \<Rightarrow> (string \<Rightarrow> u8 list) \<Rightarrow> u64 \<Rightarrow> string \<Rightarrow> string
      \<Rightarrow> ModifyUserSettingInput \<Rightarrow> 's GatewayService
      \<Rightarrow> UserSetting result \<times> 's GatewayService" where
  "modify_user_setting port sha now session_token ident input =
     use_port sha now session_token ''modify'' ''user_setting'' (\<lambda>token. idp_modify_user_setting port token ident input)"

section \<open>Responses\<close>

record IdentityOwnerResponse =
  ior_name :: string

definition identity_owner_response :: "IdentityOwner \<Rightarrow> IdentityOwnerResponse" where
  "identity_owner_response x =
     \<lparr>ior_name = io_name x\<rparr>"

record IdentityMetaResponse =
  imr_id :: string
  imr_name :: string
  imr_comment :: "string option"
  imr_owner :: "IdentityOwnerResponse option"
  imr_creation_time :: "string option"
  imr_modification_time :: "string option"
  imr_writable :: bool
  imr_in_use :: bool

definition identity_meta_response :: "(string \<Rightarrow> string option) \<Rightarrow> IdentityResourceMeta \<Rightarrow> IdentityMetaResponse" where
  "identity_meta_response uuid x =
     \<lparr>imr_id = parse_uuid uuid (im_id x), imr_name = im_name x, imr_comment = im_comment x,
       imr_owner = map_option identity_owner_response (im_owner x),
       imr_creation_time = im_creation_time x, imr_modification_time = im_modification_time x,
       imr_writable = im_writable x, imr_in_use = im_in_use x\<rparr>"

datatype AuthenticationTypeValue =
    AuthFile | AuthLdapConnect | AuthRadiusConnect | UnknownAuthenticationType string

definition authentication_type_values :: "(string \<times> AuthenticationTypeValue) list" where
  "authentication_type_values =
     [(''file'', AuthFile), (''ldap_connect'', AuthLdapConnect), (''radius_connect'',
      AuthRadiusConnect)]"

definition authentication_type_parse :: "string \<Rightarrow> AuthenticationTypeValue" where
  "authentication_type_parse = open_enum_parse authentication_type_values UnknownAuthenticationType"

definition authentication_type_as_str :: "AuthenticationTypeValue \<Rightarrow> string" where
  "authentication_type_as_str t =
     (case t of UnknownAuthenticationType s \<Rightarrow> s
      | _ \<Rightarrow> (case open_enum_name authentication_type_values t of Some v \<Rightarrow> v | None \<Rightarrow> []))"

record UserResponse =
  urr_meta :: IdentityMetaResponse
  urr_roles :: "ResourceRefResponse list"
  urr_groups :: "ResourceRefResponse list"
  urr_hosts_allow :: "bool option"
  urr_hosts :: "string option"
  urr_authentication_type :: "AuthenticationTypeValue option"

definition user_response :: "(string \<Rightarrow> string option) \<Rightarrow> User \<Rightarrow> UserResponse" where
  "user_response uuid x =
     \<lparr>urr_meta = identity_meta_response uuid (ur_meta x),
       urr_roles = map (resource_ref_response uuid) (ur_roles x),
       urr_groups = map (resource_ref_response uuid) (ur_groups x),
       urr_hosts_allow = ur_hosts_allow x, urr_hosts = ur_hosts x,
       urr_authentication_type = map_option authentication_type_parse (ur_authentication_type x)\<rparr>"

record GroupResponse =
  grr_meta :: IdentityMetaResponse
  grr_users :: "string list"

definition group_response :: "(string \<Rightarrow> string option) \<Rightarrow> Group \<Rightarrow> GroupResponse" where
  "group_response uuid x =
     \<lparr>grr_meta = identity_meta_response uuid (gr_meta x), grr_users = gr_users x\<rparr>"

record RoleResponse =
  ror_meta :: IdentityMetaResponse
  ror_users :: "string list"

definition role_response :: "(string \<Rightarrow> string option) \<Rightarrow> Role \<Rightarrow> RoleResponse" where
  "role_response uuid x =
     \<lparr>ror_meta = identity_meta_response uuid (ro_meta x), ror_users = ro_users x\<rparr>"

record PermissionResponse =
  pmr_meta :: IdentityMetaResponse
  pmr_subject_type :: "string option"
  pmr_subject :: "ResourceRefResponse option"
  pmr_resource_type :: "string option"
  pmr_resource :: "ResourceRefResponse option"

definition permission_response :: "(string \<Rightarrow> string option) \<Rightarrow> Permission \<Rightarrow> PermissionResponse" where
  "permission_response uuid x =
     \<lparr>pmr_meta = identity_meta_response uuid (pm_meta x), pmr_subject_type = pm_subject_type x,
       pmr_subject = map_option (resource_ref_response uuid) (pm_subject x),
       pmr_resource_type = pm_resource_type x,
       pmr_resource = map_option (resource_ref_response uuid) (pm_resource x)\<rparr>"

record UserSettingResponse =
  usr_id :: string
  usr_name :: string
  usr_value :: "string option"
  usr_comment :: "string option"

definition user_setting_response :: "(string \<Rightarrow> string option) \<Rightarrow> UserSetting \<Rightarrow> UserSettingResponse" where
  "user_setting_response uuid x =
     \<lparr>usr_id = parse_uuid uuid (ust_id x), usr_name = ust_name x, usr_value = ust_value x,
       usr_comment = ust_comment x\<rparr>"

definition user_setting_list_response :: "(string \<Rightarrow> string option) \<Rightarrow> UserSettingList \<Rightarrow> UserSettingResponse list" where
  "user_setting_list_response uuid settings = map (user_setting_response uuid) (usl_data settings)"

section \<open>Requests\<close>

definition validate_uuid_list :: "(string \<Rightarrow> string option) \<Rightarrow> string \<Rightarrow> string list \<Rightarrow> string list result" where
  "validate_uuid_list uuid field vs = and_then (collect_results (check_uuid uuid field) vs) (\<lambda>_. Inr vs)"

definition validate_auth_type :: "string option \<Rightarrow> unit result" where
  "validate_auth_type v =
     (case v of
        None \<Rightarrow> Inr ()
      | Some s \<Rightarrow>
          if s = ''file'' \<or> s = ''ldap_connect'' \<or> s = ''radius_connect'' then Inr ()
          else Inl (InvalidInput (''authenticationType must be one of file, ldap_connect, radius_connect; got '' @ s)))"

definition validate_subject_type :: "string option \<Rightarrow> unit result" where
  "validate_subject_type v =
     (case v of
        None \<Rightarrow> Inr ()
      | Some s \<Rightarrow>
          if s = ''user'' \<or> s = ''group'' \<or> s = ''role'' then Inr ()
          else Inl (InvalidInput (''subjectType must be one of user, group, role; got '' @ s)))"

record CreateUserRequest =
  urc_name :: "string option"
  urc_comment :: "string option"
  urc_password :: "string option"
  urc_hosts :: "string option"
  urc_roles :: "(string list) option"
  urc_authentication_type :: "string option"

record ModifyUserRequest =
  uru_name :: "string option"
  uru_comment :: "string option"
  uru_password :: "string option"
  uru_hosts :: "string option"
  uru_roles :: "(string list) option"
  uru_authentication_type :: "string option"

record CreateGroupRequest =
  grc_name :: "string option"
  grc_comment :: "string option"
  grc_users :: "(string list) option"

record ModifyGroupRequest =
  gru_comment :: "string option"
  gru_users :: "(string list) option"

record CreateRoleRequest =
  roc_name :: "string option"
  roc_comment :: "string option"
  roc_users :: "(string list) option"

record ModifyRoleRequest =
  rou_comment :: "string option"
  rou_users :: "(string list) option"

record CreatePermissionRequest =
  pmc_name :: "string option"
  pmc_comment :: "string option"
  pmc_subject_type :: "string option"
  pmc_subject_id :: "string option"
  pmc_resource_type :: "string option"
  pmc_resource_id :: "string option"

record ModifyPermissionRequest =
  pmu_name :: "string option"
  pmu_comment :: "string option"
  pmu_subject_type :: "string option"
  pmu_subject_id :: "string option"
  pmu_resource_type :: "string option"
  pmu_resource_id :: "string option"

record ModifyUserSettingRequest =
  usu_value :: "string option"

definition validate_create_user ::
    "(string \<Rightarrow> string option) \<Rightarrow> CreateUserRequest \<Rightarrow> CreateUserInput result" where
  "validate_create_user uuid r =
     and_then (required_text ''name'' (urc_name r)) (\<lambda>name.
     and_then (validate_uuid_list uuid ''roles'' (unwrap_or (urc_roles r) [])) (\<lambda>role_ids.
     and_then (validate_auth_type (urc_authentication_type r)) (\<lambda>_.
       Inr \<lparr>uci_name = name, uci_comment = urc_comment r, uci_password = urc_password r,
        uci_hosts = urc_hosts r, uci_role_ids = role_ids,
        uci_authentication_type = urc_authentication_type r\<rparr>)))"

definition validate_modify_user ::
    "(string \<Rightarrow> string option) \<Rightarrow> ModifyUserRequest \<Rightarrow> ModifyUserInput result" where
  "validate_modify_user uuid r =
     and_then (map_transpose (validate_uuid_list uuid ''roles'') (uru_roles r)) (\<lambda>role_ids.
     and_then (validate_auth_type (uru_authentication_type r)) (\<lambda>_.
       Inr \<lparr>umi_name = uru_name r, umi_comment = uru_comment r, umi_password = uru_password r,
        umi_hosts = uru_hosts r, umi_role_ids = role_ids,
        umi_authentication_type = uru_authentication_type r\<rparr>))"

definition validate_create_group :: "CreateGroupRequest \<Rightarrow> CreateGroupInput result" where
  "validate_create_group r =
     and_then (required_text ''name'' (grc_name r)) (\<lambda>name.
       Inr \<lparr>gci_name = name, gci_comment = grc_comment r, gci_users = unwrap_or (grc_users r) []\<rparr>)"

definition validate_modify_group :: "ModifyGroupRequest \<Rightarrow> ModifyGroupInput result" where
  "validate_modify_group r = Inr \<lparr>gmi_comment = gru_comment r, gmi_users = gru_users r\<rparr>"

definition validate_create_role :: "CreateRoleRequest \<Rightarrow> CreateRoleInput result" where
  "validate_create_role r =
     and_then (required_text ''name'' (roc_name r)) (\<lambda>name.
       Inr \<lparr>rci_name = name, rci_comment = roc_comment r, rci_users = unwrap_or (roc_users r) []\<rparr>)"

definition validate_modify_role :: "ModifyRoleRequest \<Rightarrow> ModifyRoleInput result" where
  "validate_modify_role r = Inr \<lparr>rmi_comment = rou_comment r, rmi_users = rou_users r\<rparr>"

definition validate_create_permission ::
    "(string \<Rightarrow> string option) \<Rightarrow> CreatePermissionRequest \<Rightarrow> CreatePermissionInput result" where
  "validate_create_permission uuid r =
     and_then (validate_subject_type (pmc_subject_type r)) (\<lambda>_.
     and_then (validate_optional_uuid uuid ''subjectId'' (pmc_subject_id r)) (\<lambda>_.
     and_then (validate_optional_uuid uuid ''resourceId'' (pmc_resource_id r)) (\<lambda>_.
       Inr \<lparr>pci_name = pmc_name r, pci_comment = pmc_comment r, pci_subject_type = pmc_subject_type r,
        pci_subject_id = pmc_subject_id r, pci_resource_type = pmc_resource_type r,
        pci_resource_id = pmc_resource_id r\<rparr>)))"

definition validate_modify_permission ::
    "(string \<Rightarrow> string option) \<Rightarrow> ModifyPermissionRequest \<Rightarrow> ModifyPermissionInput result" where
  "validate_modify_permission uuid r =
     and_then (validate_subject_type (pmu_subject_type r)) (\<lambda>_.
     and_then (validate_optional_uuid uuid ''subjectId'' (pmu_subject_id r)) (\<lambda>_.
     and_then (validate_optional_uuid uuid ''resourceId'' (pmu_resource_id r)) (\<lambda>_.
       Inr \<lparr>pmi_name = pmu_name r, pmi_comment = pmu_comment r, pmi_subject_type = pmu_subject_type r,
        pmi_subject_id = pmu_subject_id r, pmi_resource_type = pmu_resource_type r,
        pmi_resource_id = pmu_resource_id r\<rparr>)))"

definition validate_modify_user_setting :: "ModifyUserSettingRequest \<Rightarrow> ModifyUserSettingInput result" where
  "validate_modify_user_setting r =
     (case usu_value r of None \<Rightarrow> Inl (InvalidInput ''value is required'') | Some v \<Rightarrow> Inr \<lparr>usm_value = v\<rparr>)"

definition user_settings_query ::
    "(string \<Rightarrow> (string \<times> string) list) \<Rightarrow> (string \<Rightarrow> string option) \<Rightarrow> string \<Rightarrow> UserSettingQuery result" where
  "user_settings_query decode uuid query =
     and_then (parse_filter_only_query decode (\<lambda>s. uuid s \<noteq> None) query) (\<lambda>parsed.
       Inr \<lparr>usq_filter_string = fq_filter_string parsed, usq_filter_id = fq_filter_id parsed\<rparr>)"

section \<open>Handlers and routes\<close>

definition rest_list_users ::
    "(string \<Rightarrow> (string \<times> string) list) \<Rightarrow> (string \<Rightarrow> string option) \<Rightarrow> 's UserPort
      \<Rightarrow> (string \<Rightarrow> u8 list) \<Rightarrow> u64 \<Rightarrow> Request \<Rightarrow> 's GatewayService
      \<Rightarrow> UserResponse ListResponse RestBody Response \<times> 's GatewayService" where
  "rest_list_users decode uuid port sha now =
     list_resource (list_query decode uuid) (\<lambda>session query. list_users port sha now session query)
       (list_response (user_response uuid))"

definition rest_create_user ::
    "(string \<Rightarrow> string option) \<Rightarrow> (u8 list \<Rightarrow> string + CreateUserRequest) \<Rightarrow> 's UserPort
      \<Rightarrow> (string \<Rightarrow> u8 list) \<Rightarrow> u64 \<Rightarrow> Request \<Rightarrow> 's GatewayService
      \<Rightarrow> UserResponse RestBody Response \<times> 's GatewayService" where
  "rest_create_user uuid from_slice port sha now =
     create_resource uuid from_slice (validate_create_user uuid)
       (\<lambda>session input. create_user port sha now session input)"

definition rest_get_user ::
    "(string \<Rightarrow> string option) \<Rightarrow> 's UserPort \<Rightarrow> (string \<Rightarrow> u8 list) \<Rightarrow> u64 \<Rightarrow> string
      \<Rightarrow> Request \<Rightarrow> 's GatewayService
      \<Rightarrow> UserResponse RestBody Response \<times> 's GatewayService" where
  "rest_get_user uuid port sha now =
     get_resource uuid (\<lambda>session ident. get_user port sha now session ident) (user_response uuid)"

definition rest_update_user ::
    "(string \<Rightarrow> string option) \<Rightarrow> (u8 list \<Rightarrow> string + ModifyUserRequest) \<Rightarrow> 's UserPort
      \<Rightarrow> (string \<Rightarrow> u8 list) \<Rightarrow> u64 \<Rightarrow> string \<Rightarrow> Request \<Rightarrow> 's GatewayService
      \<Rightarrow> UserResponse RestBody Response \<times> 's GatewayService" where
  "rest_update_user uuid from_slice port sha now =
     update_resource uuid from_slice (validate_modify_user uuid)
       (\<lambda>session ident input. modify_user port sha now session ident input) (user_response uuid)"

definition rest_delete_user ::
    "(string \<Rightarrow> (string \<times> string) list) \<Rightarrow> (string \<Rightarrow> string option) \<Rightarrow> 's UserPort
      \<Rightarrow> (string \<Rightarrow> u8 list) \<Rightarrow> u64 \<Rightarrow> string \<Rightarrow> Request \<Rightarrow> 's GatewayService
      \<Rightarrow> UserResponse RestBody Response \<times> 's GatewayService" where
  "rest_delete_user decode uuid port sha now =
     delete_resource uuid decode (\<lambda>session ident ultimate. delete_user port sha now session ident ultimate)"

definition rest_list_groups ::
    "(string \<Rightarrow> (string \<times> string) list) \<Rightarrow> (string \<Rightarrow> string option) \<Rightarrow> 's GroupPort
      \<Rightarrow> (string \<Rightarrow> u8 list) \<Rightarrow> u64 \<Rightarrow> Request \<Rightarrow> 's GatewayService
      \<Rightarrow> GroupResponse ListResponse RestBody Response \<times> 's GatewayService" where
  "rest_list_groups decode uuid port sha now =
     list_resource (list_query decode uuid) (\<lambda>session query. list_groups port sha now session query)
       (list_response (group_response uuid))"

definition rest_create_group ::
    "(string \<Rightarrow> string option) \<Rightarrow> (u8 list \<Rightarrow> string + CreateGroupRequest) \<Rightarrow> 's GroupPort
      \<Rightarrow> (string \<Rightarrow> u8 list) \<Rightarrow> u64 \<Rightarrow> Request \<Rightarrow> 's GatewayService
      \<Rightarrow> GroupResponse RestBody Response \<times> 's GatewayService" where
  "rest_create_group uuid from_slice port sha now =
     create_resource uuid from_slice (validate_create_group)
       (\<lambda>session input. create_group port sha now session input)"

definition rest_get_group ::
    "(string \<Rightarrow> string option) \<Rightarrow> 's GroupPort \<Rightarrow> (string \<Rightarrow> u8 list) \<Rightarrow> u64 \<Rightarrow> string
      \<Rightarrow> Request \<Rightarrow> 's GatewayService
      \<Rightarrow> GroupResponse RestBody Response \<times> 's GatewayService" where
  "rest_get_group uuid port sha now =
     get_resource uuid (\<lambda>session ident. get_group port sha now session ident) (group_response uuid)"

definition rest_update_group ::
    "(string \<Rightarrow> string option) \<Rightarrow> (u8 list \<Rightarrow> string + ModifyGroupRequest) \<Rightarrow> 's GroupPort
      \<Rightarrow> (string \<Rightarrow> u8 list) \<Rightarrow> u64 \<Rightarrow> string \<Rightarrow> Request \<Rightarrow> 's GatewayService
      \<Rightarrow> GroupResponse RestBody Response \<times> 's GatewayService" where
  "rest_update_group uuid from_slice port sha now =
     update_resource uuid from_slice (validate_modify_group)
       (\<lambda>session ident input. modify_group port sha now session ident input) (group_response uuid)"

definition rest_delete_group ::
    "(string \<Rightarrow> (string \<times> string) list) \<Rightarrow> (string \<Rightarrow> string option) \<Rightarrow> 's GroupPort
      \<Rightarrow> (string \<Rightarrow> u8 list) \<Rightarrow> u64 \<Rightarrow> string \<Rightarrow> Request \<Rightarrow> 's GatewayService
      \<Rightarrow> GroupResponse RestBody Response \<times> 's GatewayService" where
  "rest_delete_group decode uuid port sha now =
     delete_resource uuid decode (\<lambda>session ident ultimate. delete_group port sha now session ident ultimate)"

definition rest_list_roles ::
    "(string \<Rightarrow> (string \<times> string) list) \<Rightarrow> (string \<Rightarrow> string option) \<Rightarrow> 's RolePort
      \<Rightarrow> (string \<Rightarrow> u8 list) \<Rightarrow> u64 \<Rightarrow> Request \<Rightarrow> 's GatewayService
      \<Rightarrow> RoleResponse ListResponse RestBody Response \<times> 's GatewayService" where
  "rest_list_roles decode uuid port sha now =
     list_resource (list_query decode uuid) (\<lambda>session query. list_roles port sha now session query)
       (list_response (role_response uuid))"

definition rest_create_role ::
    "(string \<Rightarrow> string option) \<Rightarrow> (u8 list \<Rightarrow> string + CreateRoleRequest) \<Rightarrow> 's RolePort
      \<Rightarrow> (string \<Rightarrow> u8 list) \<Rightarrow> u64 \<Rightarrow> Request \<Rightarrow> 's GatewayService
      \<Rightarrow> RoleResponse RestBody Response \<times> 's GatewayService" where
  "rest_create_role uuid from_slice port sha now =
     create_resource uuid from_slice (validate_create_role)
       (\<lambda>session input. create_role port sha now session input)"

definition rest_get_role ::
    "(string \<Rightarrow> string option) \<Rightarrow> 's RolePort \<Rightarrow> (string \<Rightarrow> u8 list) \<Rightarrow> u64 \<Rightarrow> string
      \<Rightarrow> Request \<Rightarrow> 's GatewayService
      \<Rightarrow> RoleResponse RestBody Response \<times> 's GatewayService" where
  "rest_get_role uuid port sha now =
     get_resource uuid (\<lambda>session ident. get_role port sha now session ident) (role_response uuid)"

definition rest_update_role ::
    "(string \<Rightarrow> string option) \<Rightarrow> (u8 list \<Rightarrow> string + ModifyRoleRequest) \<Rightarrow> 's RolePort
      \<Rightarrow> (string \<Rightarrow> u8 list) \<Rightarrow> u64 \<Rightarrow> string \<Rightarrow> Request \<Rightarrow> 's GatewayService
      \<Rightarrow> RoleResponse RestBody Response \<times> 's GatewayService" where
  "rest_update_role uuid from_slice port sha now =
     update_resource uuid from_slice (validate_modify_role)
       (\<lambda>session ident input. modify_role port sha now session ident input) (role_response uuid)"

definition rest_delete_role ::
    "(string \<Rightarrow> (string \<times> string) list) \<Rightarrow> (string \<Rightarrow> string option) \<Rightarrow> 's RolePort
      \<Rightarrow> (string \<Rightarrow> u8 list) \<Rightarrow> u64 \<Rightarrow> string \<Rightarrow> Request \<Rightarrow> 's GatewayService
      \<Rightarrow> RoleResponse RestBody Response \<times> 's GatewayService" where
  "rest_delete_role decode uuid port sha now =
     delete_resource uuid decode (\<lambda>session ident ultimate. delete_role port sha now session ident ultimate)"

definition rest_list_permissions ::
    "(string \<Rightarrow> (string \<times> string) list) \<Rightarrow> (string \<Rightarrow> string option)
      \<Rightarrow> 's PermissionPort \<Rightarrow> (string \<Rightarrow> u8 list) \<Rightarrow> u64 \<Rightarrow> Request \<Rightarrow> 's GatewayService
      \<Rightarrow> PermissionResponse ListResponse RestBody Response \<times> 's GatewayService" where
  "rest_list_permissions decode uuid port sha now =
     list_resource (list_query decode uuid) (\<lambda>session query. list_permissions port sha now session query)
       (list_response (permission_response uuid))"

definition rest_create_permission ::
    "(string \<Rightarrow> string option) \<Rightarrow> (u8 list \<Rightarrow> string + CreatePermissionRequest)
      \<Rightarrow> 's PermissionPort \<Rightarrow> (string \<Rightarrow> u8 list) \<Rightarrow> u64 \<Rightarrow> Request \<Rightarrow> 's GatewayService
      \<Rightarrow> PermissionResponse RestBody Response \<times> 's GatewayService" where
  "rest_create_permission uuid from_slice port sha now =
     create_resource uuid from_slice (validate_create_permission uuid)
       (\<lambda>session input. create_permission port sha now session input)"

definition rest_get_permission ::
    "(string \<Rightarrow> string option) \<Rightarrow> 's PermissionPort \<Rightarrow> (string \<Rightarrow> u8 list) \<Rightarrow> u64 \<Rightarrow> string
      \<Rightarrow> Request \<Rightarrow> 's GatewayService
      \<Rightarrow> PermissionResponse RestBody Response \<times> 's GatewayService" where
  "rest_get_permission uuid port sha now =
     get_resource uuid (\<lambda>session ident. get_permission port sha now session ident) (permission_response uuid)"

definition rest_update_permission ::
    "(string \<Rightarrow> string option) \<Rightarrow> (u8 list \<Rightarrow> string + ModifyPermissionRequest)
      \<Rightarrow> 's PermissionPort \<Rightarrow> (string \<Rightarrow> u8 list) \<Rightarrow> u64 \<Rightarrow> string \<Rightarrow> Request
      \<Rightarrow> 's GatewayService \<Rightarrow> PermissionResponse RestBody Response \<times> 's GatewayService" where
  "rest_update_permission uuid from_slice port sha now =
     update_resource uuid from_slice (validate_modify_permission uuid)
       (\<lambda>session ident input. modify_permission port sha now session ident input) (permission_response uuid)"

definition rest_delete_permission ::
    "(string \<Rightarrow> (string \<times> string) list) \<Rightarrow> (string \<Rightarrow> string option)
      \<Rightarrow> 's PermissionPort \<Rightarrow> (string \<Rightarrow> u8 list) \<Rightarrow> u64 \<Rightarrow> string \<Rightarrow> Request
      \<Rightarrow> 's GatewayService \<Rightarrow> PermissionResponse RestBody Response \<times> 's GatewayService" where
  "rest_delete_permission decode uuid port sha now =
     delete_resource uuid decode (\<lambda>session ident ultimate. delete_permission port sha now session ident ultimate)"

definition rest_list_user_settings ::
    "(string \<Rightarrow> (string \<times> string) list) \<Rightarrow> (string \<Rightarrow> string option)
      \<Rightarrow> 's IdentityPort \<Rightarrow> (string \<Rightarrow> u8 list) \<Rightarrow> u64 \<Rightarrow> Request \<Rightarrow> 's GatewayService
      \<Rightarrow> (UserSettingResponse list) RestBody Response \<times> 's GatewayService" where
  "rest_list_user_settings decode uuid port sha now =
     list_resource (user_settings_query decode uuid) (\<lambda>session query. list_user_settings port sha now session query)
       (user_setting_list_response uuid)"

definition rest_get_user_setting ::
    "(string \<Rightarrow> string option) \<Rightarrow> 's IdentityPort \<Rightarrow> (string \<Rightarrow> u8 list) \<Rightarrow> u64 \<Rightarrow> string
      \<Rightarrow> Request \<Rightarrow> 's GatewayService
      \<Rightarrow> UserSettingResponse RestBody Response \<times> 's GatewayService" where
  "rest_get_user_setting uuid port sha now =
     get_resource uuid (\<lambda>session ident. get_user_setting port sha now session ident) (user_setting_response uuid)"

definition rest_update_user_setting ::
    "(string \<Rightarrow> string option) \<Rightarrow> (u8 list \<Rightarrow> string + ModifyUserSettingRequest)
      \<Rightarrow> 's IdentityPort \<Rightarrow> (string \<Rightarrow> u8 list) \<Rightarrow> u64 \<Rightarrow> string \<Rightarrow> Request
      \<Rightarrow> 's GatewayService \<Rightarrow> UserSettingResponse RestBody Response \<times> 's GatewayService" where
  "rest_update_user_setting uuid from_slice port sha now =
     update_resource uuid from_slice validate_modify_user_setting
       (\<lambda>session ident input. modify_user_setting port sha now session ident input) (user_setting_response uuid)"

fun serve_users ::
    "(string \<Rightarrow> (string \<times> string) list) \<Rightarrow> (string \<Rightarrow> string option) \<Rightarrow> (u8 list \<Rightarrow> string + CreateUserRequest)
      \<Rightarrow> (u8 list \<Rightarrow> string + ModifyUserRequest) \<Rightarrow> 's UserPort \<Rightarrow> (string \<Rightarrow> u8 list) \<Rightarrow> u64
      \<Rightarrow> CrudRoute \<Rightarrow> Request \<Rightarrow> 's GatewayService \<Rightarrow> nat \<times> 's GatewayService" where
  "serve_users decode uuid cbody mbody port sha now ListAll q sv = answered (rest_list_users decode uuid port sha now q sv)"
| "serve_users decode uuid cbody mbody port sha now PostNew q sv = answered (rest_create_user uuid cbody port sha now q sv)"
| "serve_users decode uuid cbody mbody port sha now (GetBy ident) q sv = answered (rest_get_user uuid port sha now ident q sv)"
| "serve_users decode uuid cbody mbody port sha now (PutBy ident) q sv = answered (rest_update_user uuid mbody port sha now ident q sv)"
| "serve_users decode uuid cbody mbody port sha now (DeleteBy ident) q sv = answered (rest_delete_user decode uuid port sha now ident q sv)"

lemma users_act_for_own_session:
  "acts_for_own_session sha now q sv
     (serve_users decode uuid cbody mbody (gvmd_user_port sha L B) sha now route q sv)"
  by (cases route; (simp only: serve_users.simps rest_list_users_def rest_create_user_def rest_get_user_def rest_update_user_def rest_delete_user_def
        list_users_def create_user_def get_user_def modify_user_def delete_user_def gvmd_user_port_def CrudPort.simps;
      rule acts_answered; intro within own_session_rules speaks refl))

fun serve_groups ::
    "(string \<Rightarrow> (string \<times> string) list) \<Rightarrow> (string \<Rightarrow> string option) \<Rightarrow> (u8 list \<Rightarrow> string + CreateGroupRequest)
      \<Rightarrow> (u8 list \<Rightarrow> string + ModifyGroupRequest) \<Rightarrow> 's GroupPort \<Rightarrow> (string \<Rightarrow> u8 list)
      \<Rightarrow> u64 \<Rightarrow> CrudRoute \<Rightarrow> Request \<Rightarrow> 's GatewayService \<Rightarrow> nat \<times> 's GatewayService" where
  "serve_groups decode uuid cbody mbody port sha now ListAll q sv = answered (rest_list_groups decode uuid port sha now q sv)"
| "serve_groups decode uuid cbody mbody port sha now PostNew q sv = answered (rest_create_group uuid cbody port sha now q sv)"
| "serve_groups decode uuid cbody mbody port sha now (GetBy ident) q sv = answered (rest_get_group uuid port sha now ident q sv)"
| "serve_groups decode uuid cbody mbody port sha now (PutBy ident) q sv = answered (rest_update_group uuid mbody port sha now ident q sv)"
| "serve_groups decode uuid cbody mbody port sha now (DeleteBy ident) q sv = answered (rest_delete_group decode uuid port sha now ident q sv)"

lemma groups_act_for_own_session:
  "acts_for_own_session sha now q sv
     (serve_groups decode uuid cbody mbody (gvmd_group_port sha L B) sha now route q sv)"
  by (cases route; (simp only: serve_groups.simps rest_list_groups_def rest_create_group_def rest_get_group_def rest_update_group_def rest_delete_group_def
        list_groups_def create_group_def get_group_def modify_group_def delete_group_def gvmd_group_port_def CrudPort.simps;
      rule acts_answered; intro within own_session_rules speaks refl))

fun serve_roles ::
    "(string \<Rightarrow> (string \<times> string) list) \<Rightarrow> (string \<Rightarrow> string option) \<Rightarrow> (u8 list \<Rightarrow> string + CreateRoleRequest)
      \<Rightarrow> (u8 list \<Rightarrow> string + ModifyRoleRequest) \<Rightarrow> 's RolePort \<Rightarrow> (string \<Rightarrow> u8 list) \<Rightarrow> u64
      \<Rightarrow> CrudRoute \<Rightarrow> Request \<Rightarrow> 's GatewayService \<Rightarrow> nat \<times> 's GatewayService" where
  "serve_roles decode uuid cbody mbody port sha now ListAll q sv = answered (rest_list_roles decode uuid port sha now q sv)"
| "serve_roles decode uuid cbody mbody port sha now PostNew q sv = answered (rest_create_role uuid cbody port sha now q sv)"
| "serve_roles decode uuid cbody mbody port sha now (GetBy ident) q sv = answered (rest_get_role uuid port sha now ident q sv)"
| "serve_roles decode uuid cbody mbody port sha now (PutBy ident) q sv = answered (rest_update_role uuid mbody port sha now ident q sv)"
| "serve_roles decode uuid cbody mbody port sha now (DeleteBy ident) q sv = answered (rest_delete_role decode uuid port sha now ident q sv)"

lemma roles_act_for_own_session:
  "acts_for_own_session sha now q sv
     (serve_roles decode uuid cbody mbody (gvmd_role_port sha L B) sha now route q sv)"
  by (cases route; (simp only: serve_roles.simps rest_list_roles_def rest_create_role_def rest_get_role_def rest_update_role_def rest_delete_role_def
        list_roles_def create_role_def get_role_def modify_role_def delete_role_def gvmd_role_port_def CrudPort.simps;
      rule acts_answered; intro within own_session_rules speaks refl))

fun serve_permissions ::
    "(string \<Rightarrow> (string \<times> string) list) \<Rightarrow> (string \<Rightarrow> string option) \<Rightarrow> (u8 list \<Rightarrow> string + CreatePermissionRequest)
      \<Rightarrow> (u8 list \<Rightarrow> string + ModifyPermissionRequest) \<Rightarrow> 's PermissionPort \<Rightarrow> (string \<Rightarrow> u8 list)
      \<Rightarrow> u64 \<Rightarrow> CrudRoute \<Rightarrow> Request \<Rightarrow> 's GatewayService \<Rightarrow> nat \<times> 's GatewayService" where
  "serve_permissions decode uuid cbody mbody port sha now ListAll q sv = answered (rest_list_permissions decode uuid port sha now q sv)"
| "serve_permissions decode uuid cbody mbody port sha now PostNew q sv = answered (rest_create_permission uuid cbody port sha now q sv)"
| "serve_permissions decode uuid cbody mbody port sha now (GetBy ident) q sv = answered (rest_get_permission uuid port sha now ident q sv)"
| "serve_permissions decode uuid cbody mbody port sha now (PutBy ident) q sv = answered (rest_update_permission uuid mbody port sha now ident q sv)"
| "serve_permissions decode uuid cbody mbody port sha now (DeleteBy ident) q sv = answered (rest_delete_permission decode uuid port sha now ident q sv)"

lemma permissions_act_for_own_session:
  "acts_for_own_session sha now q sv
     (serve_permissions decode uuid cbody mbody (gvmd_permission_port sha L B) sha now route q sv)"
  by (cases route; (simp only: serve_permissions.simps rest_list_permissions_def rest_create_permission_def rest_get_permission_def rest_update_permission_def rest_delete_permission_def
        list_permissions_def create_permission_def get_permission_def modify_permission_def delete_permission_def gvmd_permission_port_def CrudPort.simps;
      rule acts_answered; intro within own_session_rules speaks refl))

record IdentityBodies =
  ib_create_user :: "u8 list \<Rightarrow> string + CreateUserRequest"
  ib_modify_user :: "u8 list \<Rightarrow> string + ModifyUserRequest"
  ib_create_group :: "u8 list \<Rightarrow> string + CreateGroupRequest"
  ib_modify_group :: "u8 list \<Rightarrow> string + ModifyGroupRequest"
  ib_create_role :: "u8 list \<Rightarrow> string + CreateRoleRequest"
  ib_modify_role :: "u8 list \<Rightarrow> string + ModifyRoleRequest"
  ib_create_permission :: "u8 list \<Rightarrow> string + CreatePermissionRequest"
  ib_modify_permission :: "u8 list \<Rightarrow> string + ModifyPermissionRequest"
  ib_modify_user_setting :: "u8 list \<Rightarrow> string + ModifyUserSettingRequest"

datatype (plugins only: code size) IdentityRoute =
    UsersAs CrudRoute
  | GroupsAs CrudRoute
  | RolesAs CrudRoute
  | PermissionsAs CrudRoute
  | ListSettings
  | GetSetting string
  | PutSetting string

fun serve_identity ::
    "(string \<Rightarrow> (string \<times> string) list) \<Rightarrow> (string \<Rightarrow> string option) \<Rightarrow> IdentityBodies \<Rightarrow> 's IdentityPort
      \<Rightarrow> (string \<Rightarrow> u8 list) \<Rightarrow> u64 \<Rightarrow> IdentityRoute \<Rightarrow> Request \<Rightarrow> 's GatewayService \<Rightarrow> nat \<times> 's GatewayService" where
  "serve_identity decode uuid bodies port sha now (UsersAs route) q sv =
     serve_users decode uuid (ib_create_user bodies) (ib_modify_user bodies) (idp_users port) sha now route q sv"
| "serve_identity decode uuid bodies port sha now (GroupsAs route) q sv =
     serve_groups decode uuid (ib_create_group bodies) (ib_modify_group bodies) (idp_groups port) sha now route q sv"
| "serve_identity decode uuid bodies port sha now (RolesAs route) q sv =
     serve_roles decode uuid (ib_create_role bodies) (ib_modify_role bodies) (idp_roles port) sha now route q sv"
| "serve_identity decode uuid bodies port sha now (PermissionsAs route) q sv =
     serve_permissions decode uuid (ib_create_permission bodies) (ib_modify_permission bodies) (idp_permissions port)
       sha now route q sv"
| "serve_identity decode uuid bodies port sha now ListSettings q sv =
     answered (rest_list_user_settings decode uuid port sha now q sv)"
| "serve_identity decode uuid bodies port sha now (GetSetting ident) q sv =
     answered (rest_get_user_setting uuid port sha now ident q sv)"
| "serve_identity decode uuid bodies port sha now (PutSetting ident) q sv =
     answered (rest_update_user_setting uuid (ib_modify_user_setting bodies) port sha now ident q sv)"

lemma identity_acts_for_own_session:
  "acts_for_own_session sha now q sv
     (serve_identity decode uuid bodies (gvmd_identity_port sha L B) sha now route q sv)"
  by (cases route; simp only: serve_identity.simps gvmd_identity_port_def IdentityPort.simps;
      rule users_act_for_own_session groups_act_for_own_session roles_act_for_own_session permissions_act_for_own_session
        acts_answered;
      (simp only: rest_list_user_settings_def rest_get_user_setting_def rest_update_user_setting_def
         list_user_settings_def get_user_setting_def modify_user_setting_def IdentityPort.simps)?;
      (intro within own_session_rules speaks refl)?)

section \<open>Updates\<close>

text \<open>The commands an update of a user that does not name hosts may send.\<close>

definition keeps_hosts_of :: "GmpUser \<Rightarrow> GmpCommand \<Rightarrow> bool" where
  "keeps_hosts_of user command =
     (case command of
        OnUsers (ModifyUser user_id opts) \<Rightarrow> um_host_access opts = gus_host_access user
      | OnUsers (GetUser user_id) \<Rightarrow> True
      | _ \<Rightarrow> False)"

lemma sends_get_user [sends]:
  "d = from_token sha session_token \<Longrightarrow> sends_at d (keeps_hosts_of user) (get_gmp_user sha L B session_token ident) w"
  unfolding get_gmp_user_def by (intro sends) (auto simp: keeps_hosts_of_def)

lemma sends_gvmd_get_user [sends]:
  "d = from_token sha session_token \<Longrightarrow> sends_at d (keeps_hosts_of user) (gvmd_get_user sha L B session_token ident) w"
  unfolding gvmd_get_user_def by (intro sends)

text \<open>
  C14. An update of a user that does not name hosts never loosens the restriction of the hosts
  the user may scan: when the present user cannot be read, its error is the answer and nothing
  is changed; otherwise every change that is sent carries the restriction that was read.
\<close>

theorem user_update_keeps_hosts:
  "case get_gmp_user sha L B token ident w of
     (Inl e, w') \<Rightarrow> gvmd_modify_user sha L B token ident (input\<lparr>umi_hosts := None\<rparr>) w = (Inl e, w')
   | (Inr user, w') \<Rightarrow>
       sends_at (from_token sha token) (keeps_hosts_of user)
         (gvmd_modify_user sha L B token ident (input\<lparr>umi_hosts := None\<rparr>)) w"
proof (cases "parse_entity_id L ident")
  case (Inl e)
  then show ?thesis by (simp add: get_gmp_user_def gvmd_modify_user_def)
next
  case (Inr user_id)
  show ?thesis
  proof (cases "get_gmp_user sha L B token ident w")
    case (Pair r w')
    show ?thesis
    proof (cases r)
      case err: (Inl e)
      then show ?thesis using Pair Inr by (simp add: gvmd_modify_user_def updated_host_access_def chain_def)
    next
      case user: (Inr user)
      have "sends_at (from_token sha token) (keeps_hosts_of user)
         (gvmd_modify_user sha L B token ident (input\<lparr>umi_hosts := None\<rparr>)) w"
        unfolding gvmd_modify_user_def updated_host_access_def Inr checked_Inr
        by (rule sends_chain_at)
          (auto intro!: sends simp: keeps_hosts_of_def chain_def Pair user pure_def split: prod.splits)
      then show ?thesis using Pair user by simp
    qed
  qed
qed

text \<open>Hosts that are given replace the restriction by a list of the only hosts the user may scan.\<close>

lemma user_update_sets_hosts:
  "updated_host_access sha L B token ident (Some hosts) w = (Inr (Some \<lparr>ha_allow = True, ha_hosts = hosts\<rparr>), w)"
  by (simp add: updated_host_access_def pure_def)

text \<open>
  An update of a group or a role that omits its users is sent like one that names no users: the
  two requests cannot be told apart by the daemon.
\<close>

lemma group_update_omitted_users:
  "gvmd_modify_group sha L B token ident (input\<lparr>gmi_users := None\<rparr>)
     = gvmd_modify_group sha L B token ident (input\<lparr>gmi_users := Some []\<rparr>)"
  "gvmd_modify_role sha L B token ident (update\<lparr>rmi_users := None\<rparr>)
     = gvmd_modify_role sha L B token ident (update\<lparr>rmi_users := Some []\<rparr>)"
  by (simp_all add: fun_eq_iff gvmd_modify_group_def gvmd_modify_role_def unwrap_or_def)

text \<open>An update of a user, in contrast, tells omitted roles and no roles apart.\<close>

lemma no_roles_clear: "collection_from ([] :: 'a list) = Clear" "collection_from vs \<noteq> CollectionOmitted"
  by (simp_all, cases vs, simp_all)

end
