(* ===== verification/Annotations.thy ===== *)
theory Annotations
  imports Supporting
begin

text \<open>
  Report formats, filters, tags, tickets, notes and overrides, from the request to the command:
  \<open>supporting_resources.rs\<close> of the crates \<open>gvm-gateway-domain\<close>, \<open>gvm-gateway-gvmd\<close> (under
  \<open>gvmd_adapter/ports\<close>), \<open>gvm-gateway-app\<close> and \<open>gvm-gateway-rest\<close>, with the options of
  \<open>gvmd_adapter/supporting_inputs.rs\<close>.
\<close>

section \<open>Domain\<close>

record ReportFormat =
  rpf_meta :: SupportingResourceMeta
  rpf_content_type :: "string option"
  rpf_extension :: "string option"
  rpf_summary :: "string option"
  rpf_trust :: "string option"
  rpf_active :: bool
  rpf_predefined :: bool

record Filter =
  fl_meta :: SupportingResourceMeta
  fl_filter_type :: "string option"
  fl_term :: "string option"

record CreateFilterInput =
  fci_name :: string
  fci_comment :: "string option"
  fci_term :: "string option"
  fci_filter_type :: "string option"

record ModifyFilterInput =
  fmi_comment :: "string option"
  fmi_term :: "string option"
  fmi_filter_type :: "string option"

record Tag =
  tag_meta :: SupportingResourceMeta
  tag_value :: "string option"
  tag_resource_type :: "string option"
  tag_resource_count :: "u32 option"
  tag_active :: bool

record CreateTagInput =
  tci_name :: string
  tci_comment :: "string option"
  tci_value :: "string option"
  tci_resource_type :: "string option"
  tci_resource_id :: "string option"
  tci_active :: "bool option"

record ModifyTagInput =
  tmi_comment :: "string option"
  tmi_value :: "string option"
  tmi_resource_type :: "string option"
  tmi_resource_id :: "string option"
  tmi_active :: "bool option"

record Ticket =
  tkt_meta :: SupportingResourceMeta
  tkt_status :: "string option"
  tkt_assigned_to :: "ResourceRef option"
  tkt_result :: "ResourceRef option"
  tkt_task :: "ResourceRef option"
  tkt_open_note :: "string option"
  tkt_fixed_note :: "string option"
  tkt_closed_note :: "string option"

record Note =
  nt_meta :: SupportingResourceMeta
  nt_text :: "string option"
  nt_nvt :: "NvtRef option"
  nt_hosts :: "string list"
  nt_port :: "string option"
  nt_severity :: "string option"
  nt_task :: "ResourceRef option"
  nt_result :: "ResourceRef option"
  nt_active :: bool
  nt_end_time :: "string option"

record CreateNoteInput =
  nci_nvt_oid :: string
  nci_text :: "string option"
  nci_hosts :: "string list"
  nci_port :: "string option"
  nci_severity :: "string option"
  nci_task_id :: "string option"
  nci_result_id :: "string option"
  nci_active :: "bool option"
  nci_orphan :: "bool option"

record ModifyNoteInput =
  nmi_text :: "string option"
  nmi_hosts :: "(string list) option"
  nmi_port :: "string option"
  nmi_severity :: "string option"
  nmi_task_id :: "string option"
  nmi_result_id :: "string option"
  nmi_active :: "bool option"
  nmi_orphan :: "bool option"

record Override =
  ore_meta :: SupportingResourceMeta
  ore_text :: "string option"
  ore_nvt :: "NvtRef option"
  ore_hosts :: "string list"
  ore_port :: "string option"
  ore_severity :: "string option"
  ore_new_severity :: "string option"
  ore_task :: "ResourceRef option"
  ore_result :: "ResourceRef option"
  ore_active :: bool
  ore_end_time :: "string option"

record CreateOverrideInput =
  ovi_nvt_oid :: string
  ovi_text :: "string option"
  ovi_hosts :: "string list"
  ovi_port :: "string option"
  ovi_severity :: "string option"
  ovi_new_severity :: "string option"
  ovi_task_id :: "string option"
  ovi_result_id :: "string option"
  ovi_active :: "bool option"

record ModifyOverrideInput =
  ovm_text :: "string option"
  ovm_hosts :: "(string list) option"
  ovm_port :: "string option"
  ovm_severity :: "string option"
  ovm_new_severity :: "string option"
  ovm_task_id :: "string option"
  ovm_result_id :: "string option"
  ovm_active :: "bool option"

record 's AnnotationPort =
  np_list_report_formats :: "string \<Rightarrow> ListQuery \<Rightarrow> ('s, ReportFormat Page) operation"
  np_get_report_format :: "string \<Rightarrow> string \<Rightarrow> ('s, ReportFormat) operation"
  np_list_filters :: "string \<Rightarrow> ListQuery \<Rightarrow> ('s, Filter Page) operation"
  np_get_filter :: "string \<Rightarrow> string \<Rightarrow> ('s, Filter) operation"
  np_create_filter :: "string \<Rightarrow> CreateFilterInput \<Rightarrow> ('s, string) operation"
  np_modify_filter :: "string \<Rightarrow> string \<Rightarrow> ModifyFilterInput \<Rightarrow> ('s, Filter) operation"
  np_delete_filter :: "string \<Rightarrow> string \<Rightarrow> bool \<Rightarrow> ('s, unit) operation"
  np_clone_filter :: "string \<Rightarrow> string \<Rightarrow> ('s, string) operation"
  np_list_tags :: "string \<Rightarrow> ListQuery \<Rightarrow> ('s, Tag Page) operation"
  np_get_tag :: "string \<Rightarrow> string \<Rightarrow> ('s, Tag) operation"
  np_create_tag :: "string \<Rightarrow> CreateTagInput \<Rightarrow> ('s, string) operation"
  np_modify_tag :: "string \<Rightarrow> string \<Rightarrow> ModifyTagInput \<Rightarrow> ('s, Tag) operation"
  np_delete_tag :: "string \<Rightarrow> string \<Rightarrow> bool \<Rightarrow> ('s, unit) operation"
  np_clone_tag :: "string \<Rightarrow> string \<Rightarrow> ('s, string) operation"
  np_list_tickets :: "string \<Rightarrow> ListQuery \<Rightarrow> ('s, Ticket Page) operation"
  np_get_ticket :: "string \<Rightarrow> string \<Rightarrow> ('s, Ticket) operation"
  np_list_notes :: "string \<Rightarrow> ListQuery \<Rightarrow> ('s, Note Page) operation"
  np_get_note :: "string \<Rightarrow> string \<Rightarrow> ('s, Note) operation"
  np_create_note :: "string \<Rightarrow> CreateNoteInput \<Rightarrow> ('s, string) operation"
  np_modify_note :: "string \<Rightarrow> string \<Rightarrow> ModifyNoteInput \<Rightarrow> ('s, Note) operation"
  np_delete_note :: "string \<Rightarrow> string \<Rightarrow> bool \<Rightarrow> ('s, unit) operation"
  np_list_overrides :: "string \<Rightarrow> ListQuery \<Rightarrow> ('s, Override Page) operation"
  np_get_override :: "string \<Rightarrow> string \<Rightarrow> ('s, Override) operation"
  np_create_override :: "string \<Rightarrow> CreateOverrideInput \<Rightarrow> ('s, string) operation"
  np_modify_override :: "string \<Rightarrow> string \<Rightarrow> ModifyOverrideInput \<Rightarrow> ('s, Override) operation"
  np_delete_override :: "string \<Rightarrow> string \<Rightarrow> bool \<Rightarrow> ('s, unit) operation"

section \<open>Conversions\<close>

definition nvt_ref_from_gmp :: "GmpNvtReference \<Rightarrow> NvtRef" where
  "nvt_ref_from_gmp nvt =
     \<lparr>nv_oid = Some (gnr_oid nvt), nv_name = gnr_name nvt, nv_family = gnr_type nvt, nv_cvss_base = None,
      nv_cves = [], nv_tags = None\<rparr>"

definition report_format_from_gmp :: "GmpReportFormat \<Rightarrow> ReportFormat" where
  "report_format_from_gmp x =
     \<lparr>rpf_meta = supporting_meta_from_gmp (grf_meta x), rpf_content_type = grf_content_type x,
       rpf_extension = grf_extension x, rpf_summary = grf_summary x, rpf_trust = grf_trust x,
       rpf_active = grf_active x, rpf_predefined = grf_predefined x\<rparr>"

definition filter_from_gmp :: "GmpFilter \<Rightarrow> Filter" where
  "filter_from_gmp x =
     \<lparr>fl_meta = supporting_meta_from_gmp (gfi_meta x), fl_filter_type = gfi_type x,
       fl_term = gfi_term x\<rparr>"

definition tag_from_gmp :: "GmpTag \<Rightarrow> Tag" where
  "tag_from_gmp x =
     \<lparr>tag_meta = supporting_meta_from_gmp (gtg_meta x), tag_value = gtg_value x,
       tag_resource_type = gtg_resource_type x, tag_resource_count = gtg_resource_count x,
       tag_active = gtg_active x\<rparr>"

definition ticket_from_gmp :: "GmpTicket \<Rightarrow> Ticket" where
  "ticket_from_gmp x =
     \<lparr>tkt_meta = supporting_meta_from_gmp (gti_meta x), tkt_status = gti_status x,
       tkt_assigned_to = map_option resource_ref_from_named_entity (gti_assigned_to x),
       tkt_result = map_option resource_ref_from_named_entity (gti_result x),
       tkt_task = map_option resource_ref_from_named_entity (gti_task x),
       tkt_open_note = gti_open_note x, tkt_fixed_note = gti_fixed_note x,
       tkt_closed_note = gti_closed_note x\<rparr>"

definition note_from_gmp :: "GmpNote \<Rightarrow> Note" where
  "note_from_gmp x =
     \<lparr>nt_meta = supporting_meta_from_gmp (gno_meta x), nt_text = gno_text x,
       nt_nvt = map_option nvt_ref_from_gmp (gno_nvt x), nt_hosts = gno_hosts x, nt_port = gno_port x,
       nt_severity = gno_severity x, nt_task = map_option resource_ref_from_named_entity (gno_task x),
       nt_result = map_option resource_ref_from_named_entity (gno_result x), nt_active = gno_active x,
       nt_end_time = gno_end_time x\<rparr>"

definition override_from_gmp :: "GmpOverride \<Rightarrow> Override" where
  "override_from_gmp x =
     \<lparr>ore_meta = supporting_meta_from_gmp (gov_meta x), ore_text = gov_text x,
       ore_nvt = map_option nvt_ref_from_gmp (gov_nvt x), ore_hosts = gov_hosts x,
       ore_port = gov_port x, ore_severity = gov_severity x, ore_new_severity = gov_new_severity x,
       ore_task = map_option resource_ref_from_named_entity (gov_task x),
       ore_result = map_option resource_ref_from_named_entity (gov_result x),
       ore_active = gov_active x, ore_end_time = gov_end_time x\<rparr>"

section \<open>Options of the commands\<close>

definition parse_filter_type :: "'r ResourceLibrary \<Rightarrow> string \<Rightarrow> string result" where
  "parse_filter_type B = parse_known ''filter type'' (bl_filter_type B)"

definition parse_entity_type :: "'r ResourceLibrary \<Rightarrow> string \<Rightarrow> string result" where
  "parse_entity_type B = parse_known ''resource type'' (bl_entity_type B)"

definition collection_update :: "string list option \<Rightarrow> string list CollectionUpdate" where
  "collection_update vs = (case vs of Some xs \<Rightarrow> collection_from xs | None \<Rightarrow> CollectionOmitted)"

definition filter_opts_from_create_input :: "'r ResourceLibrary \<Rightarrow> CreateFilterInput \<Rightarrow> FilterOpts result" where
  "filter_opts_from_create_input B input =
     and_then (map_transpose (parse_filter_type B) (fci_filter_type input)) (\<lambda>filter_type.
       Inr \<lparr>fo_comment = fci_comment input, fo_term = fci_term input, fo_filter_type = filter_type\<rparr>)"

definition filter_opts_from_modify_input :: "'r ResourceLibrary \<Rightarrow> ModifyFilterInput \<Rightarrow> FilterOpts result" where
  "filter_opts_from_modify_input B input =
     and_then (map_transpose (parse_filter_type B) (fmi_filter_type input)) (\<lambda>filter_type.
       Inr \<lparr>fo_comment = fmi_comment input, fo_term = fmi_term input, fo_filter_type = filter_type\<rparr>)"

definition tag_opts_from_create_input ::
    "('r, 'g, 'f) GmpLibrary \<Rightarrow> 'r ResourceLibrary \<Rightarrow> CreateTagInput \<Rightarrow> TagOpts result" where
  "tag_opts_from_create_input L B input =
     and_then (map_transpose (parse_entity_type B) (tci_resource_type input)) (\<lambda>resource_type.
     and_then (map_transpose (parse_entity_id L) (tci_resource_id input)) (\<lambda>resource_id.
       Inr \<lparr>tgo_comment = tci_comment input, tgo_value = tci_value input, tgo_resource_type = resource_type,
            tgo_resource_id = resource_id, tgo_active = tci_active input\<rparr>))"

definition tag_opts_from_modify_input ::
    "('r, 'g, 'f) GmpLibrary \<Rightarrow> 'r ResourceLibrary \<Rightarrow> ModifyTagInput \<Rightarrow> TagOpts result" where
  "tag_opts_from_modify_input L B input =
     and_then (map_transpose (parse_entity_type B) (tmi_resource_type input)) (\<lambda>resource_type.
     and_then (map_transpose (parse_entity_id L) (tmi_resource_id input)) (\<lambda>resource_id.
       Inr \<lparr>tgo_comment = tmi_comment input, tgo_value = tmi_value input, tgo_resource_type = resource_type,
            tgo_resource_id = resource_id, tgo_active = tmi_active input\<rparr>))"

definition note_opts_from_create_input :: "('r, 'g, 'f) GmpLibrary \<Rightarrow> CreateNoteInput \<Rightarrow> string list NoteOpts result" where
  "note_opts_from_create_input L input =
     and_then (map_transpose (parse_entity_id L) (nci_task_id input)) (\<lambda>task_id.
     and_then (map_transpose (parse_entity_id L) (nci_result_id input)) (\<lambda>result_id.
       Inr \<lparr>no_text = nci_text input, no_hosts = nci_hosts input, no_port = nci_port input,
            no_severity = nci_severity input, no_task_id = task_id, no_result_id = result_id,
            no_active = nci_active input, no_orphan = nci_orphan input\<rparr>))"

definition note_opts_from_modify_input :: "('r, 'g, 'f) GmpLibrary \<Rightarrow> ModifyNoteInput \<Rightarrow> string list CollectionUpdate NoteOpts result" where
  "note_opts_from_modify_input L input =
     and_then (map_transpose (parse_entity_id L) (nmi_task_id input)) (\<lambda>task_id.
     and_then (map_transpose (parse_entity_id L) (nmi_result_id input)) (\<lambda>result_id.
       Inr \<lparr>no_text = nmi_text input, no_hosts = collection_update (nmi_hosts input), no_port = nmi_port input,
            no_severity = nmi_severity input, no_task_id = task_id, no_result_id = result_id,
            no_active = nmi_active input, no_orphan = nmi_orphan input\<rparr>))"

definition override_opts_from_create_input :: "('r, 'g, 'f) GmpLibrary \<Rightarrow> CreateOverrideInput \<Rightarrow> string list OverrideOpts result" where
  "override_opts_from_create_input L input =
     and_then (map_transpose (parse_entity_id L) (ovi_task_id input)) (\<lambda>task_id.
     and_then (map_transpose (parse_entity_id L) (ovi_result_id input)) (\<lambda>result_id.
       Inr \<lparr>ov_text = ovi_text input, ov_hosts = ovi_hosts input, ov_port = ovi_port input,
            ov_severity = ovi_severity input, ov_new_severity = ovi_new_severity input, ov_task_id = task_id, ov_result_id = result_id,
            ov_active = ovi_active input\<rparr>))"

definition override_opts_from_modify_input :: "('r, 'g, 'f) GmpLibrary \<Rightarrow> ModifyOverrideInput \<Rightarrow> string list CollectionUpdate OverrideOpts result" where
  "override_opts_from_modify_input L input =
     and_then (map_transpose (parse_entity_id L) (ovm_task_id input)) (\<lambda>task_id.
     and_then (map_transpose (parse_entity_id L) (ovm_result_id input)) (\<lambda>result_id.
       Inr \<lparr>ov_text = ovm_text input, ov_hosts = collection_update (ovm_hosts input), ov_port = ovm_port input,
            ov_severity = ovm_severity input, ov_new_severity = ovm_new_severity input, ov_task_id = task_id, ov_result_id = result_id,
            ov_active = ovm_active input\<rparr>))"

section \<open>Adapter\<close>

definition gvmd_list_report_formats ::
    "(string \<Rightarrow> u8 list) \<Rightarrow> ('r, 'g, 'f) GmpLibrary \<Rightarrow> 'r ResourceLibrary \<Rightarrow> string
      \<Rightarrow> ListQuery \<Rightarrow> ('g Gvmd, ReportFormat Page) operation" where
  "gvmd_list_report_formats sha L B session_token query =
     list_resources sha L None [] (\<lambda>filter_string. OnSupport (GetReportFormats \<lparr>lo_filter_string = filter_string, lo_details = Some True\<rparr>)) (bl_report_formats B) report_format_from_gmp
       session_token query"

lemma speaks_list_report_formats [speaks]:
  "d = from_token sha session_token \<Longrightarrow> speaks_for d (gvmd_list_report_formats sha L B session_token query)"
  unfolding gvmd_list_report_formats_def by (auto intro!: speaks split: prod.split option.split)

definition gvmd_get_report_format ::
    "(string \<Rightarrow> u8 list) \<Rightarrow> ('r, 'g, 'f) GmpLibrary \<Rightarrow> 'r ResourceLibrary \<Rightarrow> string \<Rightarrow> string
      \<Rightarrow> ('g Gvmd, ReportFormat) operation" where
  "gvmd_get_report_format sha L B session_token ident =
     get_one sha L (\<lambda>ident. OnSupport (GetReportFormat ident)) (bl_report_formats B) report_format_from_gmp ''report format'' session_token ident"

lemma speaks_get_report_format [speaks]:
  "d = from_token sha session_token \<Longrightarrow> speaks_for d (gvmd_get_report_format sha L B session_token ident)"
  unfolding gvmd_get_report_format_def by (auto intro!: speaks split: prod.split option.split)

definition gvmd_list_filters ::
    "(string \<Rightarrow> u8 list) \<Rightarrow> ('r, 'g, 'f) GmpLibrary \<Rightarrow> 'r ResourceLibrary \<Rightarrow> string
      \<Rightarrow> ListQuery \<Rightarrow> ('g Gvmd, Filter Page) operation" where
  "gvmd_list_filters sha L B session_token query =
     list_resources sha L None [] (\<lambda>filter_string. OnSupport (GetFilters \<lparr>lo_filter_string = filter_string, lo_details = Some True\<rparr>)) (bl_filters B) filter_from_gmp
       session_token query"

lemma speaks_list_filters [speaks]:
  "d = from_token sha session_token \<Longrightarrow> speaks_for d (gvmd_list_filters sha L B session_token query)"
  unfolding gvmd_list_filters_def by (auto intro!: speaks split: prod.split option.split)

definition gvmd_get_filter ::
    "(string \<Rightarrow> u8 list) \<Rightarrow> ('r, 'g, 'f) GmpLibrary \<Rightarrow> 'r ResourceLibrary \<Rightarrow> string \<Rightarrow> string
      \<Rightarrow> ('g Gvmd, Filter) operation" where
  "gvmd_get_filter sha L B session_token ident =
     get_one sha L (\<lambda>ident. GetFilter ident) (bl_filters B) filter_from_gmp ''filter'' session_token ident"

lemma speaks_get_filter [speaks]:
  "d = from_token sha session_token \<Longrightarrow> speaks_for d (gvmd_get_filter sha L B session_token ident)"
  unfolding gvmd_get_filter_def by (auto intro!: speaks split: prod.split option.split)

definition gvmd_create_filter ::
    "(string \<Rightarrow> u8 list) \<Rightarrow> ('r, 'g, 'f) GmpLibrary \<Rightarrow> 'r ResourceLibrary \<Rightarrow> string
      \<Rightarrow> CreateFilterInput \<Rightarrow> ('g Gvmd, string) operation" where
  "gvmd_create_filter sha L B session_token input =
     chain (connected sha session_token) (\<lambda>_.
     checked (filter_opts_from_create_input B input) (\<lambda>opts.
       call_create sha L session_token (OnSupport (CreateFilter (fci_name input) opts))))"

lemma speaks_create_filter [speaks]:
  "d = from_token sha session_token \<Longrightarrow> speaks_for d (gvmd_create_filter sha L B session_token input)"
  unfolding gvmd_create_filter_def by (auto intro!: speaks split: prod.split option.split)

definition gvmd_modify_filter ::
    "(string \<Rightarrow> u8 list) \<Rightarrow> ('r, 'g, 'f) GmpLibrary \<Rightarrow> 'r ResourceLibrary \<Rightarrow> string \<Rightarrow> string
      \<Rightarrow> ModifyFilterInput \<Rightarrow> ('g Gvmd, Filter) operation" where
  "gvmd_modify_filter sha L B session_token ident input =
     chain (connected sha session_token) (\<lambda>_.
     checked (parse_entity_id L ident) (\<lambda>entity_id.
       modify_and_get sha L
         (and_then (filter_opts_from_modify_input B input) (\<lambda>opts. Inr (OnSupport (ModifyFilter entity_id opts))))
         session_token (gvmd_get_filter sha L B session_token ident)))"

lemma speaks_modify_filter [speaks]:
  "d = from_token sha session_token \<Longrightarrow> speaks_for d (gvmd_modify_filter sha L B session_token ident input)"
  unfolding gvmd_modify_filter_def by (auto intro!: speaks split: prod.split option.split)

definition gvmd_delete_filter ::
    "(string \<Rightarrow> u8 list) \<Rightarrow> ('r, 'g, 'f) GmpLibrary \<Rightarrow> 'r ResourceLibrary \<Rightarrow> string \<Rightarrow> string
      \<Rightarrow> bool \<Rightarrow> ('g Gvmd, unit) operation" where
  "gvmd_delete_filter sha L B session_token ident ultimate =
     delete_one sha L (\<lambda>entity_id. OnSupport (DeleteFilter entity_id ultimate)) session_token ident"

lemma speaks_delete_filter [speaks]:
  "d = from_token sha session_token \<Longrightarrow> speaks_for d (gvmd_delete_filter sha L B session_token ident ultimate)"
  unfolding gvmd_delete_filter_def by (auto intro!: speaks split: prod.split option.split)

definition gvmd_clone_filter ::
    "(string \<Rightarrow> u8 list) \<Rightarrow> ('r, 'g, 'f) GmpLibrary \<Rightarrow> 'r ResourceLibrary \<Rightarrow> string \<Rightarrow> string
      \<Rightarrow> ('g Gvmd, string) operation" where
  "gvmd_clone_filter sha L B session_token ident =
     then_call sha session_token (parse_entity_id L ident) (\<lambda>entity_id.
       call_create sha L session_token (OnSupport (CloneFilter entity_id)))"

lemma speaks_clone_filter [speaks]:
  "d = from_token sha session_token \<Longrightarrow> speaks_for d (gvmd_clone_filter sha L B session_token ident)"
  unfolding gvmd_clone_filter_def by (auto intro!: speaks split: prod.split option.split)

definition gvmd_list_tags ::
    "(string \<Rightarrow> u8 list) \<Rightarrow> ('r, 'g, 'f) GmpLibrary \<Rightarrow> 'r ResourceLibrary \<Rightarrow> string
      \<Rightarrow> ListQuery \<Rightarrow> ('g Gvmd, Tag Page) operation" where
  "gvmd_list_tags sha L B session_token query =
     list_resources sha L None [] (\<lambda>filter_string. OnSupport (GetTags \<lparr>lo_filter_string = filter_string, lo_details = Some True\<rparr>)) (bl_tags B) tag_from_gmp
       session_token query"

lemma speaks_list_tags [speaks]:
  "d = from_token sha session_token \<Longrightarrow> speaks_for d (gvmd_list_tags sha L B session_token query)"
  unfolding gvmd_list_tags_def by (auto intro!: speaks split: prod.split option.split)

definition gvmd_get_tag ::
    "(string \<Rightarrow> u8 list) \<Rightarrow> ('r, 'g, 'f) GmpLibrary \<Rightarrow> 'r ResourceLibrary \<Rightarrow> string \<Rightarrow> string
      \<Rightarrow> ('g Gvmd, Tag) operation" where
  "gvmd_get_tag sha L B session_token ident =
     get_one sha L (\<lambda>ident. OnSupport (GetTag ident)) (bl_tags B) tag_from_gmp ''tag'' session_token ident"

lemma speaks_get_tag [speaks]:
  "d = from_token sha session_token \<Longrightarrow> speaks_for d (gvmd_get_tag sha L B session_token ident)"
  unfolding gvmd_get_tag_def by (auto intro!: speaks split: prod.split option.split)

definition gvmd_create_tag ::
    "(string \<Rightarrow> u8 list) \<Rightarrow> ('r, 'g, 'f) GmpLibrary \<Rightarrow> 'r ResourceLibrary \<Rightarrow> string
      \<Rightarrow> CreateTagInput \<Rightarrow> ('g Gvmd, string) operation" where
  "gvmd_create_tag sha L B session_token input =
     chain (connected sha session_token) (\<lambda>_.
     checked (tag_opts_from_create_input L B input) (\<lambda>opts.
       call_create sha L session_token (OnSupport (CreateTag (tci_name input) opts))))"

lemma speaks_create_tag [speaks]:
  "d = from_token sha session_token \<Longrightarrow> speaks_for d (gvmd_create_tag sha L B session_token input)"
  unfolding gvmd_create_tag_def by (auto intro!: speaks split: prod.split option.split)

definition gvmd_modify_tag ::
    "(string \<Rightarrow> u8 list) \<Rightarrow> ('r, 'g, 'f) GmpLibrary \<Rightarrow> 'r ResourceLibrary \<Rightarrow> string \<Rightarrow> string
      \<Rightarrow> ModifyTagInput \<Rightarrow> ('g Gvmd, Tag) operation" where
  "gvmd_modify_tag sha L B session_token ident input =
     chain (connected sha session_token) (\<lambda>_.
     checked (parse_entity_id L ident) (\<lambda>entity_id.
       modify_and_get sha L
         (and_then (tag_opts_from_modify_input L B input) (\<lambda>opts. Inr (OnSupport (ModifyTag entity_id opts))))
         session_token (gvmd_get_tag sha L B session_token ident)))"

lemma speaks_modify_tag [speaks]:
  "d = from_token sha session_token \<Longrightarrow> speaks_for d (gvmd_modify_tag sha L B session_token ident input)"
  unfolding gvmd_modify_tag_def by (auto intro!: speaks split: prod.split option.split)

definition gvmd_delete_tag ::
    "(string \<Rightarrow> u8 list) \<Rightarrow> ('r, 'g, 'f) GmpLibrary \<Rightarrow> 'r ResourceLibrary \<Rightarrow> string \<Rightarrow> string
      \<Rightarrow> bool \<Rightarrow> ('g Gvmd, unit) operation" where
  "gvmd_delete_tag sha L B session_token ident ultimate =
     delete_one sha L (\<lambda>entity_id. OnSupport (DeleteTag entity_id ultimate)) session_token ident"

lemma speaks_delete_tag [speaks]:
  "d = from_token sha session_token \<Longrightarrow> speaks_for d (gvmd_delete_tag sha L B session_token ident ultimate)"
  unfolding gvmd_delete_tag_def by (auto intro!: speaks split: prod.split option.split)

definition gvmd_clone_tag ::
    "(string \<Rightarrow> u8 list) \<Rightarrow> ('r, 'g, 'f) GmpLibrary \<Rightarrow> 'r ResourceLibrary \<Rightarrow> string \<Rightarrow> string
      \<Rightarrow> ('g Gvmd, string) operation" where
  "gvmd_clone_tag sha L B session_token ident =
     then_call sha session_token (parse_entity_id L ident) (\<lambda>entity_id.
       call_create sha L session_token (OnSupport (CloneTag entity_id)))"

lemma speaks_clone_tag [speaks]:
  "d = from_token sha session_token \<Longrightarrow> speaks_for d (gvmd_clone_tag sha L B session_token ident)"
  unfolding gvmd_clone_tag_def by (auto intro!: speaks split: prod.split option.split)

definition gvmd_list_tickets ::
    "(string \<Rightarrow> u8 list) \<Rightarrow> ('r, 'g, 'f) GmpLibrary \<Rightarrow> 'r ResourceLibrary \<Rightarrow> string
      \<Rightarrow> ListQuery \<Rightarrow> ('g Gvmd, Ticket Page) operation" where
  "gvmd_list_tickets sha L B session_token query =
     list_resources sha L None [] (\<lambda>filter_string. OnSupport (GetTickets \<lparr>lo_filter_string = filter_string, lo_details = Some True\<rparr>)) (bl_tickets B) ticket_from_gmp
       session_token query"

lemma speaks_list_tickets [speaks]:
  "d = from_token sha session_token \<Longrightarrow> speaks_for d (gvmd_list_tickets sha L B session_token query)"
  unfolding gvmd_list_tickets_def by (auto intro!: speaks split: prod.split option.split)

definition gvmd_get_ticket ::
    "(string \<Rightarrow> u8 list) \<Rightarrow> ('r, 'g, 'f) GmpLibrary \<Rightarrow> 'r ResourceLibrary \<Rightarrow> string \<Rightarrow> string
      \<Rightarrow> ('g Gvmd, Ticket) operation" where
  "gvmd_get_ticket sha L B session_token ident =
     get_one sha L (\<lambda>ident. OnSupport (GetTicket ident)) (bl_tickets B) ticket_from_gmp ''ticket'' session_token ident"

lemma speaks_get_ticket [speaks]:
  "d = from_token sha session_token \<Longrightarrow> speaks_for d (gvmd_get_ticket sha L B session_token ident)"
  unfolding gvmd_get_ticket_def by (auto intro!: speaks split: prod.split option.split)

text \<open>
  The daemon is asked for the page of one item with the identifier in its filter, and of the
  answer the item with this identifier counts, not the first one. Notes and overrides are read
  in the same way.
\<close>

definition get_annotation ::
    "(string \<Rightarrow> u8 list) \<Rightarrow> ('r, 'g, 'f) GmpLibrary \<Rightarrow> (AnnotationListOpts \<Rightarrow> GmpCommand) \<Rightarrow> ('r \<Rightarrow> ParseError + 'i Counted)
      \<Rightarrow> ('i \<Rightarrow> string) \<Rightarrow> ('i \<Rightarrow> 'a) \<Rightarrow> string \<Rightarrow> string \<Rightarrow> string \<Rightarrow> ('g Gvmd, 'a) operation" where
  "get_annotation sha L command from_response item_id convert kind session_token ident =
     chain (connected sha session_token) (\<lambda>_.
     checked (parse_entity_id L ident) (\<lambda>entity_id.
     then_call sha session_token (paginated_filter (lb_filter L) (Some (''uuid='' @ entity_id)) None 1 1 []) (\<lambda>filter_string.
     chain (call sha L session_token (command \<lparr>an_filter_string = filter_string, an_details = Some True, an_result = Some True\<rparr>)) (\<lambda>response.
     checked (read_with from_response response) (\<lambda>parsed.
       pure (case find (\<lambda>item. item_id item = entity_id) (ct_items parsed) of
               None \<Rightarrow> Inl (NotFound (kind @ '' '' @ ident @ '' not found''))
             | Some item \<Rightarrow> Inr (convert item)))))))"

lemma speaks_get_annotation [speaks]:
  "d = from_token sha session_token \<Longrightarrow>
     speaks_for d (get_annotation sha L command from_response item_id convert kind session_token ident)"
  unfolding get_annotation_def by (auto intro!: speaks)

definition gvmd_list_notes ::
    "(string \<Rightarrow> u8 list) \<Rightarrow> ('r, 'g, 'f) GmpLibrary \<Rightarrow> 'r ResourceLibrary \<Rightarrow> string
      \<Rightarrow> ListQuery \<Rightarrow> ('g Gvmd, Note Page) operation" where
  "gvmd_list_notes sha L B session_token query =
     list_resources sha L None [] (\<lambda>filter_string. OnSupport (GetNotes \<lparr>an_filter_string = filter_string, an_details = Some True, an_result = Some True\<rparr>)) (bl_notes B) note_from_gmp
       session_token query"

lemma speaks_list_notes [speaks]:
  "d = from_token sha session_token \<Longrightarrow> speaks_for d (gvmd_list_notes sha L B session_token query)"
  unfolding gvmd_list_notes_def by (auto intro!: speaks split: prod.split option.split)

definition gvmd_get_note ::
    "(string \<Rightarrow> u8 list) \<Rightarrow> ('r, 'g, 'f) GmpLibrary \<Rightarrow> 'r ResourceLibrary \<Rightarrow> string \<Rightarrow> string
      \<Rightarrow> ('g Gvmd, Note) operation" where
  "gvmd_get_note sha L B session_token ident =
     get_annotation sha L (\<lambda>opts. OnSupport (GetNotes opts)) (bl_notes B) (\<lambda>item. em_id (gno_meta item)) note_from_gmp ''note''
       session_token ident"

lemma speaks_get_note [speaks]:
  "d = from_token sha session_token \<Longrightarrow> speaks_for d (gvmd_get_note sha L B session_token ident)"
  unfolding gvmd_get_note_def by (auto intro!: speaks split: prod.split option.split)

definition gvmd_create_note ::
    "(string \<Rightarrow> u8 list) \<Rightarrow> ('r, 'g, 'f) GmpLibrary \<Rightarrow> 'r ResourceLibrary \<Rightarrow> string
      \<Rightarrow> CreateNoteInput \<Rightarrow> ('g Gvmd, string) operation" where
  "gvmd_create_note sha L B session_token input =
     chain (connected sha session_token) (\<lambda>_.
     checked (note_opts_from_create_input L input) (\<lambda>opts.
       call_create sha L session_token (OnSupport (CreateNote (nci_nvt_oid input) opts))))"

lemma speaks_create_note [speaks]:
  "d = from_token sha session_token \<Longrightarrow> speaks_for d (gvmd_create_note sha L B session_token input)"
  unfolding gvmd_create_note_def by (auto intro!: speaks split: prod.split option.split)

definition gvmd_modify_note ::
    "(string \<Rightarrow> u8 list) \<Rightarrow> ('r, 'g, 'f) GmpLibrary \<Rightarrow> 'r ResourceLibrary \<Rightarrow> string \<Rightarrow> string
      \<Rightarrow> ModifyNoteInput \<Rightarrow> ('g Gvmd, Note) operation" where
  "gvmd_modify_note sha L B session_token ident input =
     chain (connected sha session_token) (\<lambda>_.
     checked (parse_entity_id L ident) (\<lambda>entity_id.
       modify_and_get sha L
         (and_then (note_opts_from_modify_input L input) (\<lambda>opts. Inr (OnSupport (ModifyNote entity_id opts))))
         session_token (gvmd_get_note sha L B session_token ident)))"

lemma speaks_modify_note [speaks]:
  "d = from_token sha session_token \<Longrightarrow> speaks_for d (gvmd_modify_note sha L B session_token ident input)"
  unfolding gvmd_modify_note_def by (auto intro!: speaks split: prod.split option.split)

definition gvmd_delete_note ::
    "(string \<Rightarrow> u8 list) \<Rightarrow> ('r, 'g, 'f) GmpLibrary \<Rightarrow> 'r ResourceLibrary \<Rightarrow> string \<Rightarrow> string
      \<Rightarrow> bool \<Rightarrow> ('g Gvmd, unit) operation" where
  "gvmd_delete_note sha L B session_token ident ultimate =
     delete_one sha L (\<lambda>entity_id. OnSupport (DeleteNote entity_id ultimate)) session_token ident"

lemma speaks_delete_note [speaks]:
  "d = from_token sha session_token \<Longrightarrow> speaks_for d (gvmd_delete_note sha L B session_token ident ultimate)"
  unfolding gvmd_delete_note_def by (auto intro!: speaks split: prod.split option.split)

definition gvmd_list_overrides ::
    "(string \<Rightarrow> u8 list) \<Rightarrow> ('r, 'g, 'f) GmpLibrary \<Rightarrow> 'r ResourceLibrary \<Rightarrow> string
      \<Rightarrow> ListQuery \<Rightarrow> ('g Gvmd, Override Page) operation" where
  "gvmd_list_overrides sha L B session_token query =
     list_resources sha L None [] (\<lambda>filter_string. OnSupport (GetOverrides \<lparr>an_filter_string = filter_string, an_details = Some True, an_result = Some True\<rparr>)) (bl_overrides B) override_from_gmp
       session_token query"

lemma speaks_list_overrides [speaks]:
  "d = from_token sha session_token \<Longrightarrow> speaks_for d (gvmd_list_overrides sha L B session_token query)"
  unfolding gvmd_list_overrides_def by (auto intro!: speaks split: prod.split option.split)

definition gvmd_get_override ::
    "(string \<Rightarrow> u8 list) \<Rightarrow> ('r, 'g, 'f) GmpLibrary \<Rightarrow> 'r ResourceLibrary \<Rightarrow> string \<Rightarrow> string
      \<Rightarrow> ('g Gvmd, Override) operation" where
  "gvmd_get_override sha L B session_token ident =
     get_annotation sha L (\<lambda>opts. OnSupport (GetOverrides opts)) (bl_overrides B) (\<lambda>item. em_id (gov_meta item)) override_from_gmp ''override''
       session_token ident"

lemma speaks_get_override [speaks]:
  "d = from_token sha session_token \<Longrightarrow> speaks_for d (gvmd_get_override sha L B session_token ident)"
  unfolding gvmd_get_override_def by (auto intro!: speaks split: prod.split option.split)

definition gvmd_create_override ::
    "(string \<Rightarrow> u8 list) \<Rightarrow> ('r, 'g, 'f) GmpLibrary \<Rightarrow> 'r ResourceLibrary \<Rightarrow> string
      \<Rightarrow> CreateOverrideInput \<Rightarrow> ('g Gvmd, string) operation" where
  "gvmd_create_override sha L B session_token input =
     chain (connected sha session_token) (\<lambda>_.
     checked (override_opts_from_create_input L input) (\<lambda>opts.
       call_create sha L session_token (OnSupport (CreateOverride (ovi_nvt_oid input) opts))))"

lemma speaks_create_override [speaks]:
  "d = from_token sha session_token \<Longrightarrow> speaks_for d (gvmd_create_override sha L B session_token input)"
  unfolding gvmd_create_override_def by (auto intro!: speaks split: prod.split option.split)

definition gvmd_modify_override ::
    "(string \<Rightarrow> u8 list) \<Rightarrow> ('r, 'g, 'f) GmpLibrary \<Rightarrow> 'r ResourceLibrary \<Rightarrow> string \<Rightarrow> string
      \<Rightarrow> ModifyOverrideInput \<Rightarrow> ('g Gvmd, Override) operation" where
  "gvmd_modify_override sha L B session_token ident input =
     chain (connected sha session_token) (\<lambda>_.
     checked (parse_entity_id L ident) (\<lambda>entity_id.
       modify_and_get sha L
         (and_then (override_opts_from_modify_input L input) (\<lambda>opts. Inr (OnSupport (ModifyOverride entity_id opts))))
         session_token (gvmd_get_override sha L B session_token ident)))"

lemma speaks_modify_override [speaks]:
  "d = from_token sha session_token \<Longrightarrow> speaks_for d (gvmd_modify_override sha L B session_token ident input)"
  unfolding gvmd_modify_override_def by (auto intro!: speaks split: prod.split option.split)

definition gvmd_delete_override ::
    "(string \<Rightarrow> u8 list) \<Rightarrow> ('r, 'g, 'f) GmpLibrary \<Rightarrow> 'r ResourceLibrary \<Rightarrow> string \<Rightarrow> string
      \<Rightarrow> bool \<Rightarrow> ('g Gvmd, unit) operation" where
  "gvmd_delete_override sha L B session_token ident ultimate =
     delete_one sha L (\<lambda>entity_id. OnSupport (DeleteOverride entity_id ultimate)) session_token ident"

lemma speaks_delete_override [speaks]:
  "d = from_token sha session_token \<Longrightarrow> speaks_for d (gvmd_delete_override sha L B session_token ident ultimate)"
  unfolding gvmd_delete_override_def by (auto intro!: speaks split: prod.split option.split)

definition gvmd_annotation_port ::
    "(string \<Rightarrow> u8 list) \<Rightarrow> ('r, 'g, 'f) GmpLibrary \<Rightarrow> 'r ResourceLibrary
      \<Rightarrow> 'g Gvmd AnnotationPort" where
  "gvmd_annotation_port sha L B =
     \<lparr>np_list_report_formats = gvmd_list_report_formats sha L B,
      np_get_report_format = gvmd_get_report_format sha L B,
      np_list_filters = gvmd_list_filters sha L B,
      np_get_filter = gvmd_get_filter sha L B,
      np_create_filter = gvmd_create_filter sha L B,
      np_modify_filter = gvmd_modify_filter sha L B,
      np_delete_filter = gvmd_delete_filter sha L B,
      np_clone_filter = gvmd_clone_filter sha L B,
      np_list_tags = gvmd_list_tags sha L B,
      np_get_tag = gvmd_get_tag sha L B,
      np_create_tag = gvmd_create_tag sha L B,
      np_modify_tag = gvmd_modify_tag sha L B,
      np_delete_tag = gvmd_delete_tag sha L B,
      np_clone_tag = gvmd_clone_tag sha L B,
      np_list_tickets = gvmd_list_tickets sha L B,
      np_get_ticket = gvmd_get_ticket sha L B,
      np_list_notes = gvmd_list_notes sha L B,
      np_get_note = gvmd_get_note sha L B,
      np_create_note = gvmd_create_note sha L B,
      np_modify_note = gvmd_modify_note sha L B,
      np_delete_note = gvmd_delete_note sha L B,
      np_list_overrides = gvmd_list_overrides sha L B,
      np_get_override = gvmd_get_override sha L B,
      np_create_override = gvmd_create_override sha L B,
      np_modify_override = gvmd_modify_override sha L B,
      np_delete_override = gvmd_delete_override sha L B\<rparr>"

section \<open>Use cases\<close>

definition list_report_formats ::
    "'s AnnotationPort \<Rightarrow> (string \<Rightarrow> u8 list) \<Rightarrow> u64 \<Rightarrow> string \<Rightarrow> ListQuery
      \<Rightarrow> 's GatewayService \<Rightarrow> ReportFormat Page result \<times> 's GatewayService" where
  "list_report_formats port sha now session_token query =
     use_port sha now session_token ''list'' ''report_format'' (\<lambda>token. np_list_report_formats port token query)"

definition get_report_format ::
    "'s AnnotationPort \<Rightarrow> (string \<Rightarrow> u8 list) \<Rightarrow> u64 \<Rightarrow> string \<Rightarrow> string \<Rightarrow> 's GatewayService
      \<Rightarrow> ReportFormat result \<times> 's GatewayService" where
  "get_report_format port sha now session_token ident =
     use_port sha now session_token ''read'' ''report_format'' (\<lambda>token. np_get_report_format port token ident)"

definition list_filters ::
    "'s AnnotationPort \<Rightarrow> (string \<Rightarrow> u8 list) \<Rightarrow> u64 \<Rightarrow> string \<Rightarrow> ListQuery
      \<Rightarrow> 's GatewayService \<Rightarrow> Filter Page result \<times> 's GatewayService" where
  "list_filters port sha now session_token query =
     use_port sha now session_token ''list'' ''filter'' (\<lambda>token. np_list_filters port token query)"

definition get_filter ::
    "'s AnnotationPort \<Rightarrow> (string \<Rightarrow> u8 list) \<Rightarrow> u64 \<Rightarrow> string \<Rightarrow> string \<Rightarrow> 's GatewayService
      \<Rightarrow> Filter result \<times> 's GatewayService" where
  "get_filter port sha now session_token ident =
     use_port sha now session_token ''read'' ''filter'' (\<lambda>token. np_get_filter port token ident)"

definition create_filter ::
    "'s AnnotationPort \<Rightarrow> (string \<Rightarrow> u8 list) \<Rightarrow> u64 \<Rightarrow> string \<Rightarrow> CreateFilterInput
      \<Rightarrow> 's GatewayService \<Rightarrow> string result \<times> 's GatewayService" where
  "create_filter port sha now session_token input =
     use_port sha now session_token ''create'' ''filter'' (\<lambda>token. np_create_filter port token input)"

definition modify_filter ::
    "'s AnnotationPort \<Rightarrow> (string \<Rightarrow> u8 list) \<Rightarrow> u64 \<Rightarrow> string \<Rightarrow> string \<Rightarrow> ModifyFilterInput
      \<Rightarrow> 's GatewayService \<Rightarrow> Filter result \<times> 's GatewayService" where
  "modify_filter port sha now session_token ident input =
     use_port sha now session_token ''modify'' ''filter'' (\<lambda>token. np_modify_filter port token ident input)"

definition delete_filter ::
    "'s AnnotationPort \<Rightarrow> (string \<Rightarrow> u8 list) \<Rightarrow> u64 \<Rightarrow> string \<Rightarrow> string \<Rightarrow> bool
      \<Rightarrow> 's GatewayService \<Rightarrow> unit result \<times> 's GatewayService" where
  "delete_filter port sha now session_token ident ultimate =
     use_port sha now session_token ''delete'' ''filter'' (\<lambda>token. np_delete_filter port token ident ultimate)"

definition clone_filter ::
    "'s AnnotationPort \<Rightarrow> (string \<Rightarrow> u8 list) \<Rightarrow> u64 \<Rightarrow> string \<Rightarrow> string \<Rightarrow> 's GatewayService
      \<Rightarrow> string result \<times> 's GatewayService" where
  "clone_filter port sha now session_token ident =
     use_port sha now session_token ''create'' ''filter'' (\<lambda>token. np_clone_filter port token ident)"

definition list_tags ::
    "'s AnnotationPort \<Rightarrow> (string \<Rightarrow> u8 list) \<Rightarrow> u64 \<Rightarrow> string \<Rightarrow> ListQuery
      \<Rightarrow> 's GatewayService \<Rightarrow> Tag Page result \<times> 's GatewayService" where
  "list_tags port sha now session_token query =
     use_port sha now session_token ''list'' ''tag'' (\<lambda>token. np_list_tags port token query)"

definition get_tag ::
    "'s AnnotationPort \<Rightarrow> (string \<Rightarrow> u8 list) \<Rightarrow> u64 \<Rightarrow> string \<Rightarrow> string \<Rightarrow> 's GatewayService
      \<Rightarrow> Tag result \<times> 's GatewayService" where
  "get_tag port sha now session_token ident =
     use_port sha now session_token ''read'' ''tag'' (\<lambda>token. np_get_tag port token ident)"

definition create_tag ::
    "'s AnnotationPort \<Rightarrow> (string \<Rightarrow> u8 list) \<Rightarrow> u64 \<Rightarrow> string \<Rightarrow> CreateTagInput
      \<Rightarrow> 's GatewayService \<Rightarrow> string result \<times> 's GatewayService" where
  "create_tag port sha now session_token input =
     use_port sha now session_token ''create'' ''tag'' (\<lambda>token. np_create_tag port token input)"

definition modify_tag ::
    "'s AnnotationPort \<Rightarrow> (string \<Rightarrow> u8 list) \<Rightarrow> u64 \<Rightarrow> string \<Rightarrow> string \<Rightarrow> ModifyTagInput
      \<Rightarrow> 's GatewayService \<Rightarrow> Tag result \<times> 's GatewayService" where
  "modify_tag port sha now session_token ident input =
     use_port sha now session_token ''modify'' ''tag'' (\<lambda>token. np_modify_tag port token ident input)"

definition delete_tag ::
    "'s AnnotationPort \<Rightarrow> (string \<Rightarrow> u8 list) \<Rightarrow> u64 \<Rightarrow> string \<Rightarrow> string \<Rightarrow> bool
      \<Rightarrow> 's GatewayService \<Rightarrow> unit result \<times> 's GatewayService" where
  "delete_tag port sha now session_token ident ultimate =
     use_port sha now session_token ''delete'' ''tag'' (\<lambda>token. np_delete_tag port token ident ultimate)"

definition clone_tag ::
    "'s AnnotationPort \<Rightarrow> (string \<Rightarrow> u8 list) \<Rightarrow> u64 \<Rightarrow> string \<Rightarrow> string \<Rightarrow> 's GatewayService
      \<Rightarrow> string result \<times> 's GatewayService" where
  "clone_tag port sha now session_token ident =
     use_port sha now session_token ''create'' ''tag'' (\<lambda>token. np_clone_tag port token ident)"

definition list_tickets ::
    "'s AnnotationPort \<Rightarrow> (string \<Rightarrow> u8 list) \<Rightarrow> u64 \<Rightarrow> string \<Rightarrow> ListQuery
      \<Rightarrow> 's GatewayService \<Rightarrow> Ticket Page result \<times> 's GatewayService" where
  "list_tickets port sha now session_token query =
     use_port sha now session_token ''list'' ''ticket'' (\<lambda>token. np_list_tickets port token query)"

definition get_ticket ::
    "'s AnnotationPort \<Rightarrow> (string \<Rightarrow> u8 list) \<Rightarrow> u64 \<Rightarrow> string \<Rightarrow> string \<Rightarrow> 's GatewayService
      \<Rightarrow> Ticket result \<times> 's GatewayService" where
  "get_ticket port sha now session_token ident =
     use_port sha now session_token ''read'' ''ticket'' (\<lambda>token. np_get_ticket port token ident)"

definition list_notes ::
    "'s AnnotationPort \<Rightarrow> (string \<Rightarrow> u8 list) \<Rightarrow> u64 \<Rightarrow> string \<Rightarrow> ListQuery
      \<Rightarrow> 's GatewayService \<Rightarrow> Note Page result \<times> 's GatewayService" where
  "list_notes port sha now session_token query =
     use_port sha now session_token ''list'' ''note'' (\<lambda>token. np_list_notes port token query)"

definition get_note ::
    "'s AnnotationPort \<Rightarrow> (string \<Rightarrow> u8 list) \<Rightarrow> u64 \<Rightarrow> string \<Rightarrow> string \<Rightarrow> 's GatewayService
      \<Rightarrow> Note result \<times> 's GatewayService" where
  "get_note port sha now session_token ident =
     use_port sha now session_token ''read'' ''note'' (\<lambda>token. np_get_note port token ident)"

definition create_note ::
    "'s AnnotationPort \<Rightarrow> (string \<Rightarrow> u8 list) \<Rightarrow> u64 \<Rightarrow> string \<Rightarrow> CreateNoteInput
      \<Rightarrow> 's GatewayService \<Rightarrow> string result \<times> 's GatewayService" where
  "create_note port sha now session_token input =
     use_port sha now session_token ''create'' ''note'' (\<lambda>token. np_create_note port token input)"

definition modify_note ::
    "'s AnnotationPort \<Rightarrow> (string \<Rightarrow> u8 list) \<Rightarrow> u64 \<Rightarrow> string \<Rightarrow> string \<Rightarrow> ModifyNoteInput
      \<Rightarrow> 's GatewayService \<Rightarrow> Note result \<times> 's GatewayService" where
  "modify_note port sha now session_token ident input =
     use_port sha now session_token ''modify'' ''note'' (\<lambda>token. np_modify_note port token ident input)"

definition delete_note ::
    "'s AnnotationPort \<Rightarrow> (string \<Rightarrow> u8 list) \<Rightarrow> u64 \<Rightarrow> string \<Rightarrow> string \<Rightarrow> bool
      \<Rightarrow> 's GatewayService \<Rightarrow> unit result \<times> 's GatewayService" where
  "delete_note port sha now session_token ident ultimate =
     use_port sha now session_token ''delete'' ''note'' (\<lambda>token. np_delete_note port token ident ultimate)"

definition list_overrides ::
    "'s AnnotationPort \<Rightarrow> (string \<Rightarrow> u8 list) \<Rightarrow> u64 \<Rightarrow> string \<Rightarrow> ListQuery
      \<Rightarrow> 's GatewayService \<Rightarrow> Override Page result \<times> 's GatewayService" where
  "list_overrides port sha now session_token query =
     use_port sha now session_token ''list'' ''override'' (\<lambda>token. np_list_overrides port token query)"

definition get_override ::
    "'s AnnotationPort \<Rightarrow> (string \<Rightarrow> u8 list) \<Rightarrow> u64 \<Rightarrow> string \<Rightarrow> string \<Rightarrow> 's GatewayService
      \<Rightarrow> Override result \<times> 's GatewayService" where
  "get_override port sha now session_token ident =
     use_port sha now session_token ''read'' ''override'' (\<lambda>token. np_get_override port token ident)"

definition create_override ::
    "'s AnnotationPort \<Rightarrow> (string \<Rightarrow> u8 list) \<Rightarrow> u64 \<Rightarrow> string \<Rightarrow> CreateOverrideInput
      \<Rightarrow> 's GatewayService \<Rightarrow> string result \<times> 's GatewayService" where
  "create_override port sha now session_token input =
     use_port sha now session_token ''create'' ''override'' (\<lambda>token. np_create_override port token input)"

definition modify_override ::
    "'s AnnotationPort \<Rightarrow> (string \<Rightarrow> u8 list) \<Rightarrow> u64 \<Rightarrow> string \<Rightarrow> string
      \<Rightarrow> ModifyOverrideInput \<Rightarrow> 's GatewayService
      \<Rightarrow> Override result \<times> 's GatewayService" where
  "modify_override port sha now session_token ident input =
     use_port sha now session_token ''modify'' ''override'' (\<lambda>token. np_modify_override port token ident input)"

definition delete_override ::
    "'s AnnotationPort \<Rightarrow> (string \<Rightarrow> u8 list) \<Rightarrow> u64 \<Rightarrow> string \<Rightarrow> string \<Rightarrow> bool
      \<Rightarrow> 's GatewayService \<Rightarrow> unit result \<times> 's GatewayService" where
  "delete_override port sha now session_token ident ultimate =
     use_port sha now session_token ''delete'' ''override'' (\<lambda>token. np_delete_override port token ident ultimate)"

section \<open>Responses\<close>

record ReportFormatResponse =
  rpfr_meta :: SupportingResourceMetaResponse
  rpfr_content_type :: "string option"
  rpfr_extension :: "string option"
  rpfr_summary :: "string option"
  rpfr_trust :: "string option"
  rpfr_active :: bool
  rpfr_predefined :: bool

definition report_format_response :: "(string \<Rightarrow> string option) \<Rightarrow> ReportFormat \<Rightarrow> ReportFormatResponse" where
  "report_format_response uuid x =
     \<lparr>rpfr_meta = supporting_resource_meta_response uuid (rpf_meta x),
       rpfr_content_type = rpf_content_type x, rpfr_extension = rpf_extension x,
       rpfr_summary = rpf_summary x, rpfr_trust = rpf_trust x, rpfr_active = rpf_active x,
       rpfr_predefined = rpf_predefined x\<rparr>"

record FilterResponse =
  flr_meta :: SupportingResourceMetaResponse
  flr_filter_type :: "string option"
  flr_term :: "string option"

definition filter_response :: "(string \<Rightarrow> string option) \<Rightarrow> Filter \<Rightarrow> FilterResponse" where
  "filter_response uuid x =
     \<lparr>flr_meta = supporting_resource_meta_response uuid (fl_meta x),
       flr_filter_type = fl_filter_type x, flr_term = fl_term x\<rparr>"

record TagResponse =
  tagr_meta :: SupportingResourceMetaResponse
  tagr_value :: "string option"
  tagr_resource_type :: "string option"
  tagr_resource_count :: "u32 option"
  tagr_active :: bool

definition tag_response :: "(string \<Rightarrow> string option) \<Rightarrow> Tag \<Rightarrow> TagResponse" where
  "tag_response uuid x =
     \<lparr>tagr_meta = supporting_resource_meta_response uuid (tag_meta x), tagr_value = tag_value x,
       tagr_resource_type = tag_resource_type x, tagr_resource_count = tag_resource_count x,
       tagr_active = tag_active x\<rparr>"

datatype TicketStatusValue =
    TicketOpen | TicketFixed | TicketClosed | UnknownTicketStatus string

definition ticket_status_values :: "(string \<times> TicketStatusValue) list" where
  "ticket_status_values =
     [(''Open'', TicketOpen), (''Fixed'', TicketFixed), (''Closed'', TicketClosed)]"

definition ticket_status_parse :: "string \<Rightarrow> TicketStatusValue" where
  "ticket_status_parse = open_enum_parse ticket_status_values UnknownTicketStatus"

definition ticket_status_as_str :: "TicketStatusValue \<Rightarrow> string" where
  "ticket_status_as_str t =
     (case t of UnknownTicketStatus s \<Rightarrow> s
      | _ \<Rightarrow> (case open_enum_name ticket_status_values t of Some v \<Rightarrow> v | None \<Rightarrow> []))"

record TicketResponse =
  tktr_meta :: SupportingResourceMetaResponse
  tktr_status :: "TicketStatusValue option"
  tktr_assigned_to :: "ResourceRefResponse option"
  tktr_result :: "ResourceRefResponse option"
  tktr_task :: "ResourceRefResponse option"
  tktr_open_note :: "string option"
  tktr_fixed_note :: "string option"
  tktr_closed_note :: "string option"

definition ticket_response :: "(string \<Rightarrow> string option) \<Rightarrow> Ticket \<Rightarrow> TicketResponse" where
  "ticket_response uuid x =
     \<lparr>tktr_meta = supporting_resource_meta_response uuid (tkt_meta x),
       tktr_status = map_option ticket_status_parse (tkt_status x),
       tktr_assigned_to = map_option (resource_ref_response uuid) (tkt_assigned_to x),
       tktr_result = map_option (resource_ref_response uuid) (tkt_result x),
       tktr_task = map_option (resource_ref_response uuid) (tkt_task x),
       tktr_open_note = tkt_open_note x, tktr_fixed_note = tkt_fixed_note x,
       tktr_closed_note = tkt_closed_note x\<rparr>"

record NoteResponse =
  ntr_meta :: SupportingResourceMetaResponse
  ntr_text :: "string option"
  ntr_nvt :: "NvtRefResponse option"
  ntr_hosts :: "string list"
  ntr_port :: "string option"
  ntr_severity :: "string option"
  ntr_task :: "ResourceRefResponse option"
  ntr_result :: "ResourceRefResponse option"
  ntr_active :: bool
  ntr_end_time :: "string option"

definition note_response :: "(string \<Rightarrow> string option) \<Rightarrow> Note \<Rightarrow> NoteResponse" where
  "note_response uuid x =
     \<lparr>ntr_meta = supporting_resource_meta_response uuid (nt_meta x), ntr_text = nt_text x,
       ntr_nvt = map_option nvt_ref_response (nt_nvt x), ntr_hosts = nt_hosts x, ntr_port = nt_port x,
       ntr_severity = nt_severity x, ntr_task = map_option (resource_ref_response uuid) (nt_task x),
       ntr_result = map_option (resource_ref_response uuid) (nt_result x), ntr_active = nt_active x,
       ntr_end_time = nt_end_time x\<rparr>"

record OverrideResponse =
  orer_meta :: SupportingResourceMetaResponse
  orer_text :: "string option"
  orer_nvt :: "NvtRefResponse option"
  orer_hosts :: "string list"
  orer_port :: "string option"
  orer_severity :: "string option"
  orer_new_severity :: "string option"
  orer_task :: "ResourceRefResponse option"
  orer_result :: "ResourceRefResponse option"
  orer_active :: bool
  orer_end_time :: "string option"

definition override_response :: "(string \<Rightarrow> string option) \<Rightarrow> Override \<Rightarrow> OverrideResponse" where
  "override_response uuid x =
     \<lparr>orer_meta = supporting_resource_meta_response uuid (ore_meta x), orer_text = ore_text x,
       orer_nvt = map_option nvt_ref_response (ore_nvt x), orer_hosts = ore_hosts x,
       orer_port = ore_port x, orer_severity = ore_severity x, orer_new_severity = ore_new_severity x,
       orer_task = map_option (resource_ref_response uuid) (ore_task x),
       orer_result = map_option (resource_ref_response uuid) (ore_result x),
       orer_active = ore_active x, orer_end_time = ore_end_time x\<rparr>"

section \<open>Requests\<close>

record CreateFilterRequest =
  fcr_name :: "string option"
  fcr_comment :: "string option"
  fcr_term :: "string option"
  fcr_filter_type :: "string option"

record ModifyFilterRequest =
  fmr_comment :: "string option"
  fmr_term :: "string option"
  fmr_filter_type :: "string option"

record CreateTagRequest =
  tcr_name :: "string option"
  tcr_comment :: "string option"
  tcr_value :: "string option"
  tcr_resource_type :: "string option"
  tcr_resource_id :: "string option"
  tcr_active :: "bool option"

record ModifyTagRequest =
  tmr_comment :: "string option"
  tmr_value :: "string option"
  tmr_resource_type :: "string option"
  tmr_resource_id :: "string option"
  tmr_active :: "bool option"

record CreateNoteRequest =
  ncr_nvt_oid :: "string option"
  ncr_text :: "string option"
  ncr_hosts :: "string list"
  ncr_port :: "string option"
  ncr_severity :: "string option"
  ncr_task_id :: "string option"
  ncr_result_id :: "string option"
  ncr_active :: "bool option"
  ncr_orphan :: "bool option"

record ModifyNoteRequest =
  nmr_text :: "string option"
  nmr_hosts :: "(string list) option"
  nmr_port :: "string option"
  nmr_severity :: "string option"
  nmr_task_id :: "string option"
  nmr_result_id :: "string option"
  nmr_active :: "bool option"
  nmr_orphan :: "bool option"

record CreateOverrideRequest =
  ovc_nvt_oid :: "string option"
  ovc_text :: "string option"
  ovc_hosts :: "string list"
  ovc_port :: "string option"
  ovc_severity :: "string option"
  ovc_new_severity :: "string option"
  ovc_task_id :: "string option"
  ovc_result_id :: "string option"
  ovc_active :: "bool option"

record ModifyOverrideRequest =
  ovu_text :: "string option"
  ovu_hosts :: "(string list) option"
  ovu_port :: "string option"
  ovu_severity :: "string option"
  ovu_new_severity :: "string option"
  ovu_task_id :: "string option"
  ovu_result_id :: "string option"
  ovu_active :: "bool option"

definition validate_create_filter :: "CreateFilterRequest \<Rightarrow> CreateFilterInput result" where
  "validate_create_filter r =
     and_then (required_text ''name'' (fcr_name r)) (\<lambda>name.
       Inr \<lparr>fci_name = name, fci_comment = fcr_comment r, fci_term = fcr_term r,
        fci_filter_type = fcr_filter_type r\<rparr>)"

definition validate_modify_filter :: "ModifyFilterRequest \<Rightarrow> ModifyFilterInput result" where
  "validate_modify_filter r =
       Inr \<lparr>fmi_comment = fmr_comment r, fmi_term = fmr_term r,
        fmi_filter_type = fmr_filter_type r\<rparr>"

definition validate_create_tag ::
    "(string \<Rightarrow> string option) \<Rightarrow> CreateTagRequest \<Rightarrow> CreateTagInput result" where
  "validate_create_tag uuid r =
     and_then (required_text ''name'' (tcr_name r)) (\<lambda>name.
     and_then (validate_optional_uuid uuid ''resourceId'' (tcr_resource_id r)) (\<lambda>_.
       Inr \<lparr>tci_name = name, tci_comment = tcr_comment r, tci_value = tcr_value r,
        tci_resource_type = tcr_resource_type r, tci_resource_id = tcr_resource_id r,
        tci_active = tcr_active r\<rparr>))"

definition validate_modify_tag ::
    "(string \<Rightarrow> string option) \<Rightarrow> ModifyTagRequest \<Rightarrow> ModifyTagInput result" where
  "validate_modify_tag uuid r =
     and_then (validate_optional_uuid uuid ''resourceId'' (tmr_resource_id r)) (\<lambda>_.
       Inr \<lparr>tmi_comment = tmr_comment r, tmi_value = tmr_value r, tmi_resource_type = tmr_resource_type r,
        tmi_resource_id = tmr_resource_id r, tmi_active = tmr_active r\<rparr>)"

definition validate_create_note ::
    "(string \<Rightarrow> string option) \<Rightarrow> CreateNoteRequest \<Rightarrow> CreateNoteInput result" where
  "validate_create_note uuid r =
     and_then (validate_optional_uuid uuid ''taskId'' (ncr_task_id r)) (\<lambda>_.
     and_then (validate_optional_uuid uuid ''resultId'' (ncr_result_id r)) (\<lambda>_.
     and_then (required_text ''nvtOid'' (ncr_nvt_oid r)) (\<lambda>nvt_oid.
       Inr \<lparr>nci_nvt_oid = nvt_oid, nci_text = ncr_text r, nci_hosts = ncr_hosts r, nci_port = ncr_port r,
        nci_severity = ncr_severity r, nci_task_id = ncr_task_id r, nci_result_id = ncr_result_id r,
        nci_active = ncr_active r, nci_orphan = ncr_orphan r\<rparr>)))"

definition validate_modify_note ::
    "(string \<Rightarrow> string option) \<Rightarrow> ModifyNoteRequest \<Rightarrow> ModifyNoteInput result" where
  "validate_modify_note uuid r =
     and_then (validate_optional_uuid uuid ''taskId'' (nmr_task_id r)) (\<lambda>_.
     and_then (validate_optional_uuid uuid ''resultId'' (nmr_result_id r)) (\<lambda>_.
       Inr \<lparr>nmi_text = nmr_text r, nmi_hosts = nmr_hosts r, nmi_port = nmr_port r,
        nmi_severity = nmr_severity r, nmi_task_id = nmr_task_id r, nmi_result_id = nmr_result_id r,
        nmi_active = nmr_active r, nmi_orphan = nmr_orphan r\<rparr>))"

definition validate_create_override ::
    "(string \<Rightarrow> string option) \<Rightarrow> CreateOverrideRequest \<Rightarrow> CreateOverrideInput result" where
  "validate_create_override uuid r =
     and_then (validate_optional_uuid uuid ''taskId'' (ovc_task_id r)) (\<lambda>_.
     and_then (validate_optional_uuid uuid ''resultId'' (ovc_result_id r)) (\<lambda>_.
     and_then (required_text ''nvtOid'' (ovc_nvt_oid r)) (\<lambda>nvt_oid.
       Inr \<lparr>ovi_nvt_oid = nvt_oid, ovi_text = ovc_text r, ovi_hosts = ovc_hosts r, ovi_port = ovc_port r,
        ovi_severity = ovc_severity r, ovi_new_severity = ovc_new_severity r,
        ovi_task_id = ovc_task_id r, ovi_result_id = ovc_result_id r,
        ovi_active = ovc_active r\<rparr>)))"

definition validate_modify_override ::
    "(string \<Rightarrow> string option) \<Rightarrow> ModifyOverrideRequest \<Rightarrow> ModifyOverrideInput result" where
  "validate_modify_override uuid r =
     and_then (validate_optional_uuid uuid ''taskId'' (ovu_task_id r)) (\<lambda>_.
     and_then (validate_optional_uuid uuid ''resultId'' (ovu_result_id r)) (\<lambda>_.
       Inr \<lparr>ovm_text = ovu_text r, ovm_hosts = ovu_hosts r, ovm_port = ovu_port r,
        ovm_severity = ovu_severity r, ovm_new_severity = ovu_new_severity r,
        ovm_task_id = ovu_task_id r, ovm_result_id = ovu_result_id r,
        ovm_active = ovu_active r\<rparr>))"

section \<open>Handlers\<close>

definition rest_list_report_formats ::
    "(string \<Rightarrow> (string \<times> string) list) \<Rightarrow> (string \<Rightarrow> string option)
      \<Rightarrow> 's AnnotationPort \<Rightarrow> (string \<Rightarrow> u8 list) \<Rightarrow> u64 \<Rightarrow> Request \<Rightarrow> 's GatewayService
      \<Rightarrow> ReportFormatResponse ListResponse RestBody Response \<times> 's GatewayService" where
  "rest_list_report_formats decode uuid port sha now =
     list_resource (list_query decode uuid) (\<lambda>session query. list_report_formats port sha now session query) (list_response (report_format_response uuid))"

definition rest_get_report_format ::
    "(string \<Rightarrow> string option) \<Rightarrow> 's AnnotationPort \<Rightarrow> (string \<Rightarrow> u8 list) \<Rightarrow> u64 \<Rightarrow> string
      \<Rightarrow> Request \<Rightarrow> 's GatewayService
      \<Rightarrow> ReportFormatResponse RestBody Response \<times> 's GatewayService" where
  "rest_get_report_format uuid port sha now =
     get_resource uuid (\<lambda>session ident. get_report_format port sha now session ident) (report_format_response uuid)"

definition rest_list_filters ::
    "(string \<Rightarrow> (string \<times> string) list) \<Rightarrow> (string \<Rightarrow> string option)
      \<Rightarrow> 's AnnotationPort \<Rightarrow> (string \<Rightarrow> u8 list) \<Rightarrow> u64 \<Rightarrow> Request \<Rightarrow> 's GatewayService
      \<Rightarrow> FilterResponse ListResponse RestBody Response \<times> 's GatewayService" where
  "rest_list_filters decode uuid port sha now =
     list_resource (list_query decode uuid) (\<lambda>session query. list_filters port sha now session query) (list_response (filter_response uuid))"

definition rest_get_filter ::
    "(string \<Rightarrow> string option) \<Rightarrow> 's AnnotationPort \<Rightarrow> (string \<Rightarrow> u8 list) \<Rightarrow> u64 \<Rightarrow> string
      \<Rightarrow> Request \<Rightarrow> 's GatewayService
      \<Rightarrow> FilterResponse RestBody Response \<times> 's GatewayService" where
  "rest_get_filter uuid port sha now =
     get_resource uuid (\<lambda>session ident. get_filter port sha now session ident) (filter_response uuid)"

definition rest_create_filter ::
    "(string \<Rightarrow> string option) \<Rightarrow> (u8 list \<Rightarrow> string + CreateFilterRequest)
      \<Rightarrow> 's AnnotationPort \<Rightarrow> (string \<Rightarrow> u8 list) \<Rightarrow> u64 \<Rightarrow> Request \<Rightarrow> 's GatewayService
      \<Rightarrow> FilterResponse RestBody Response \<times> 's GatewayService" where
  "rest_create_filter uuid from_slice port sha now =
     create_resource uuid from_slice (validate_create_filter) (\<lambda>session input. create_filter port sha now session input)"

definition rest_update_filter ::
    "(string \<Rightarrow> string option) \<Rightarrow> (u8 list \<Rightarrow> string + ModifyFilterRequest)
      \<Rightarrow> 's AnnotationPort \<Rightarrow> (string \<Rightarrow> u8 list) \<Rightarrow> u64 \<Rightarrow> string \<Rightarrow> Request
      \<Rightarrow> 's GatewayService \<Rightarrow> FilterResponse RestBody Response \<times> 's GatewayService" where
  "rest_update_filter uuid from_slice port sha now =
     update_resource uuid from_slice (validate_modify_filter) (\<lambda>session ident input. modify_filter port sha now session ident input) (filter_response uuid)"

definition rest_delete_filter ::
    "(string \<Rightarrow> (string \<times> string) list) \<Rightarrow> (string \<Rightarrow> string option)
      \<Rightarrow> 's AnnotationPort \<Rightarrow> (string \<Rightarrow> u8 list) \<Rightarrow> u64 \<Rightarrow> string \<Rightarrow> Request
      \<Rightarrow> 's GatewayService \<Rightarrow> FilterResponse RestBody Response \<times> 's GatewayService" where
  "rest_delete_filter decode uuid port sha now =
     delete_resource uuid decode (\<lambda>session ident ultimate. delete_filter port sha now session ident ultimate)"

definition rest_clone_filter ::
    "(string \<Rightarrow> string option) \<Rightarrow> 's AnnotationPort \<Rightarrow> (string \<Rightarrow> u8 list) \<Rightarrow> u64 \<Rightarrow> string
      \<Rightarrow> Request \<Rightarrow> 's GatewayService
      \<Rightarrow> FilterResponse RestBody Response \<times> 's GatewayService" where
  "rest_clone_filter uuid port sha now =
     clone_resource uuid ''/api/v1/filters'' (\<lambda>session ident. clone_filter port sha now session ident)"

definition rest_list_tags ::
    "(string \<Rightarrow> (string \<times> string) list) \<Rightarrow> (string \<Rightarrow> string option)
      \<Rightarrow> 's AnnotationPort \<Rightarrow> (string \<Rightarrow> u8 list) \<Rightarrow> u64 \<Rightarrow> Request \<Rightarrow> 's GatewayService
      \<Rightarrow> TagResponse ListResponse RestBody Response \<times> 's GatewayService" where
  "rest_list_tags decode uuid port sha now =
     list_resource (list_query decode uuid) (\<lambda>session query. list_tags port sha now session query) (list_response (tag_response uuid))"

definition rest_get_tag ::
    "(string \<Rightarrow> string option) \<Rightarrow> 's AnnotationPort \<Rightarrow> (string \<Rightarrow> u8 list) \<Rightarrow> u64 \<Rightarrow> string
      \<Rightarrow> Request \<Rightarrow> 's GatewayService
      \<Rightarrow> TagResponse RestBody Response \<times> 's GatewayService" where
  "rest_get_tag uuid port sha now =
     get_resource uuid (\<lambda>session ident. get_tag port sha now session ident) (tag_response uuid)"

definition rest_create_tag ::
    "(string \<Rightarrow> string option) \<Rightarrow> (u8 list \<Rightarrow> string + CreateTagRequest) \<Rightarrow> 's AnnotationPort
      \<Rightarrow> (string \<Rightarrow> u8 list) \<Rightarrow> u64 \<Rightarrow> Request \<Rightarrow> 's GatewayService
      \<Rightarrow> TagResponse RestBody Response \<times> 's GatewayService" where
  "rest_create_tag uuid from_slice port sha now =
     create_resource uuid from_slice (validate_create_tag uuid) (\<lambda>session input. create_tag port sha now session input)"

definition rest_update_tag ::
    "(string \<Rightarrow> string option) \<Rightarrow> (u8 list \<Rightarrow> string + ModifyTagRequest) \<Rightarrow> 's AnnotationPort
      \<Rightarrow> (string \<Rightarrow> u8 list) \<Rightarrow> u64 \<Rightarrow> string \<Rightarrow> Request \<Rightarrow> 's GatewayService
      \<Rightarrow> TagResponse RestBody Response \<times> 's GatewayService" where
  "rest_update_tag uuid from_slice port sha now =
     update_resource uuid from_slice (validate_modify_tag uuid) (\<lambda>session ident input. modify_tag port sha now session ident input) (tag_response uuid)"

definition rest_delete_tag ::
    "(string \<Rightarrow> (string \<times> string) list) \<Rightarrow> (string \<Rightarrow> string option)
      \<Rightarrow> 's AnnotationPort \<Rightarrow> (string \<Rightarrow> u8 list) \<Rightarrow> u64 \<Rightarrow> string \<Rightarrow> Request
      \<Rightarrow> 's GatewayService \<Rightarrow> TagResponse RestBody Response \<times> 's GatewayService" where
  "rest_delete_tag decode uuid port sha now =
     delete_resource uuid decode (\<lambda>session ident ultimate. delete_tag port sha now session ident ultimate)"

definition rest_clone_tag ::
    "(string \<Rightarrow> string option) \<Rightarrow> 's AnnotationPort \<Rightarrow> (string \<Rightarrow> u8 list) \<Rightarrow> u64 \<Rightarrow> string
      \<Rightarrow> Request \<Rightarrow> 's GatewayService
      \<Rightarrow> TagResponse RestBody Response \<times> 's GatewayService" where
  "rest_clone_tag uuid port sha now =
     clone_resource uuid ''/api/v1/tags'' (\<lambda>session ident. clone_tag port sha now session ident)"

definition rest_list_tickets ::
    "(string \<Rightarrow> (string \<times> string) list) \<Rightarrow> (string \<Rightarrow> string option)
      \<Rightarrow> 's AnnotationPort \<Rightarrow> (string \<Rightarrow> u8 list) \<Rightarrow> u64 \<Rightarrow> Request \<Rightarrow> 's GatewayService
      \<Rightarrow> TicketResponse ListResponse RestBody Response \<times> 's GatewayService" where
  "rest_list_tickets decode uuid port sha now =
     list_resource (list_query decode uuid) (\<lambda>session query. list_tickets port sha now session query) (list_response (ticket_response uuid))"

definition rest_get_ticket ::
    "(string \<Rightarrow> string option) \<Rightarrow> 's AnnotationPort \<Rightarrow> (string \<Rightarrow> u8 list) \<Rightarrow> u64 \<Rightarrow> string
      \<Rightarrow> Request \<Rightarrow> 's GatewayService
      \<Rightarrow> TicketResponse RestBody Response \<times> 's GatewayService" where
  "rest_get_ticket uuid port sha now =
     get_resource uuid (\<lambda>session ident. get_ticket port sha now session ident) (ticket_response uuid)"

definition rest_list_notes ::
    "(string \<Rightarrow> (string \<times> string) list) \<Rightarrow> (string \<Rightarrow> string option)
      \<Rightarrow> 's AnnotationPort \<Rightarrow> (string \<Rightarrow> u8 list) \<Rightarrow> u64 \<Rightarrow> Request \<Rightarrow> 's GatewayService
      \<Rightarrow> NoteResponse ListResponse RestBody Response \<times> 's GatewayService" where
  "rest_list_notes decode uuid port sha now =
     list_resource (list_query decode uuid) (\<lambda>session query. list_notes port sha now session query) (list_response (note_response uuid))"

definition rest_get_note ::
    "(string \<Rightarrow> string option) \<Rightarrow> 's AnnotationPort \<Rightarrow> (string \<Rightarrow> u8 list) \<Rightarrow> u64 \<Rightarrow> string
      \<Rightarrow> Request \<Rightarrow> 's GatewayService
      \<Rightarrow> NoteResponse RestBody Response \<times> 's GatewayService" where
  "rest_get_note uuid port sha now =
     get_resource uuid (\<lambda>session ident. get_note port sha now session ident) (note_response uuid)"

definition rest_create_note ::
    "(string \<Rightarrow> string option) \<Rightarrow> (u8 list \<Rightarrow> string + CreateNoteRequest)
      \<Rightarrow> 's AnnotationPort \<Rightarrow> (string \<Rightarrow> u8 list) \<Rightarrow> u64 \<Rightarrow> Request \<Rightarrow> 's GatewayService
      \<Rightarrow> NoteResponse RestBody Response \<times> 's GatewayService" where
  "rest_create_note uuid from_slice port sha now =
     create_resource uuid from_slice (validate_create_note uuid) (\<lambda>session input. create_note port sha now session input)"

definition rest_update_note ::
    "(string \<Rightarrow> string option) \<Rightarrow> (u8 list \<Rightarrow> string + ModifyNoteRequest)
      \<Rightarrow> 's AnnotationPort \<Rightarrow> (string \<Rightarrow> u8 list) \<Rightarrow> u64 \<Rightarrow> string \<Rightarrow> Request
      \<Rightarrow> 's GatewayService \<Rightarrow> NoteResponse RestBody Response \<times> 's GatewayService" where
  "rest_update_note uuid from_slice port sha now =
     update_resource uuid from_slice (validate_modify_note uuid) (\<lambda>session ident input. modify_note port sha now session ident input) (note_response uuid)"

definition rest_delete_note ::
    "(string \<Rightarrow> (string \<times> string) list) \<Rightarrow> (string \<Rightarrow> string option)
      \<Rightarrow> 's AnnotationPort \<Rightarrow> (string \<Rightarrow> u8 list) \<Rightarrow> u64 \<Rightarrow> string \<Rightarrow> Request
      \<Rightarrow> 's GatewayService \<Rightarrow> NoteResponse RestBody Response \<times> 's GatewayService" where
  "rest_delete_note decode uuid port sha now =
     delete_resource uuid decode (\<lambda>session ident ultimate. delete_note port sha now session ident ultimate)"

definition rest_list_overrides ::
    "(string \<Rightarrow> (string \<times> string) list) \<Rightarrow> (string \<Rightarrow> string option)
      \<Rightarrow> 's AnnotationPort \<Rightarrow> (string \<Rightarrow> u8 list) \<Rightarrow> u64 \<Rightarrow> Request \<Rightarrow> 's GatewayService
      \<Rightarrow> OverrideResponse ListResponse RestBody Response \<times> 's GatewayService" where
  "rest_list_overrides decode uuid port sha now =
     list_resource (list_query decode uuid) (\<lambda>session query. list_overrides port sha now session query) (list_response (override_response uuid))"

definition rest_get_override ::
    "(string \<Rightarrow> string option) \<Rightarrow> 's AnnotationPort \<Rightarrow> (string \<Rightarrow> u8 list) \<Rightarrow> u64 \<Rightarrow> string
      \<Rightarrow> Request \<Rightarrow> 's GatewayService
      \<Rightarrow> OverrideResponse RestBody Response \<times> 's GatewayService" where
  "rest_get_override uuid port sha now =
     get_resource uuid (\<lambda>session ident. get_override port sha now session ident) (override_response uuid)"

definition rest_create_override ::
    "(string \<Rightarrow> string option) \<Rightarrow> (u8 list \<Rightarrow> string + CreateOverrideRequest)
      \<Rightarrow> 's AnnotationPort \<Rightarrow> (string \<Rightarrow> u8 list) \<Rightarrow> u64 \<Rightarrow> Request \<Rightarrow> 's GatewayService
      \<Rightarrow> OverrideResponse RestBody Response \<times> 's GatewayService" where
  "rest_create_override uuid from_slice port sha now =
     create_resource uuid from_slice (validate_create_override uuid) (\<lambda>session input. create_override port sha now session input)"

definition rest_update_override ::
    "(string \<Rightarrow> string option) \<Rightarrow> (u8 list \<Rightarrow> string + ModifyOverrideRequest)
      \<Rightarrow> 's AnnotationPort \<Rightarrow> (string \<Rightarrow> u8 list) \<Rightarrow> u64 \<Rightarrow> string \<Rightarrow> Request
      \<Rightarrow> 's GatewayService \<Rightarrow> OverrideResponse RestBody Response \<times> 's GatewayService" where
  "rest_update_override uuid from_slice port sha now =
     update_resource uuid from_slice (validate_modify_override uuid) (\<lambda>session ident input. modify_override port sha now session ident input) (override_response uuid)"

definition rest_delete_override ::
    "(string \<Rightarrow> (string \<times> string) list) \<Rightarrow> (string \<Rightarrow> string option)
      \<Rightarrow> 's AnnotationPort \<Rightarrow> (string \<Rightarrow> u8 list) \<Rightarrow> u64 \<Rightarrow> string \<Rightarrow> Request
      \<Rightarrow> 's GatewayService \<Rightarrow> OverrideResponse RestBody Response \<times> 's GatewayService" where
  "rest_delete_override decode uuid port sha now =
     delete_resource uuid decode (\<lambda>session ident ultimate. delete_override port sha now session ident ultimate)"

record AnnotationBodies =
  nb_create_filter :: "u8 list \<Rightarrow> string + CreateFilterRequest"
  nb_modify_filter :: "u8 list \<Rightarrow> string + ModifyFilterRequest"
  nb_create_tag :: "u8 list \<Rightarrow> string + CreateTagRequest"
  nb_modify_tag :: "u8 list \<Rightarrow> string + ModifyTagRequest"
  nb_create_note :: "u8 list \<Rightarrow> string + CreateNoteRequest"
  nb_modify_note :: "u8 list \<Rightarrow> string + ModifyNoteRequest"
  nb_create_override :: "u8 list \<Rightarrow> string + CreateOverrideRequest"
  nb_modify_override :: "u8 list \<Rightarrow> string + ModifyOverrideRequest"

datatype (plugins only: code size) AnnotationRoute =
    RouteListReportFormats
  | RouteGetReportFormat string
  | RouteListFilters
  | RouteGetFilter string
  | RouteCreateFilter
  | RouteModifyFilter string
  | RouteDeleteFilter string
  | RouteCloneFilter string
  | RouteListTags
  | RouteGetTag string
  | RouteCreateTag
  | RouteModifyTag string
  | RouteDeleteTag string
  | RouteCloneTag string
  | RouteListTickets
  | RouteGetTicket string
  | RouteListNotes
  | RouteGetNote string
  | RouteCreateNote
  | RouteModifyNote string
  | RouteDeleteNote string
  | RouteListOverrides
  | RouteGetOverride string
  | RouteCreateOverride
  | RouteModifyOverride string
  | RouteDeleteOverride string

fun serve_annotations ::
    "(string \<Rightarrow> (string \<times> string) list) \<Rightarrow> (string \<Rightarrow> string option)
      \<Rightarrow> AnnotationBodies \<Rightarrow> 's AnnotationPort \<Rightarrow> (string \<Rightarrow> u8 list) \<Rightarrow> u64
      \<Rightarrow> AnnotationRoute \<Rightarrow> Request \<Rightarrow> 's GatewayService \<Rightarrow> nat \<times> 's GatewayService" where
  "serve_annotations decode uuid bodies port sha now RouteListReportFormats q sv =
     answered (rest_list_report_formats decode uuid port sha now q sv)"
| "serve_annotations decode uuid bodies port sha now (RouteGetReportFormat ident) q sv =
     answered (rest_get_report_format uuid port sha now ident q sv)"
| "serve_annotations decode uuid bodies port sha now RouteListFilters q sv =
     answered (rest_list_filters decode uuid port sha now q sv)"
| "serve_annotations decode uuid bodies port sha now (RouteGetFilter ident) q sv =
     answered (rest_get_filter uuid port sha now ident q sv)"
| "serve_annotations decode uuid bodies port sha now RouteCreateFilter q sv =
     answered (rest_create_filter uuid (nb_create_filter bodies) port sha now q sv)"
| "serve_annotations decode uuid bodies port sha now (RouteModifyFilter ident) q sv =
     answered (rest_update_filter uuid (nb_modify_filter bodies) port sha now ident q sv)"
| "serve_annotations decode uuid bodies port sha now (RouteDeleteFilter ident) q sv =
     answered (rest_delete_filter decode uuid port sha now ident q sv)"
| "serve_annotations decode uuid bodies port sha now (RouteCloneFilter ident) q sv =
     answered (rest_clone_filter uuid port sha now ident q sv)"
| "serve_annotations decode uuid bodies port sha now RouteListTags q sv =
     answered (rest_list_tags decode uuid port sha now q sv)"
| "serve_annotations decode uuid bodies port sha now (RouteGetTag ident) q sv =
     answered (rest_get_tag uuid port sha now ident q sv)"
| "serve_annotations decode uuid bodies port sha now RouteCreateTag q sv =
     answered (rest_create_tag uuid (nb_create_tag bodies) port sha now q sv)"
| "serve_annotations decode uuid bodies port sha now (RouteModifyTag ident) q sv =
     answered (rest_update_tag uuid (nb_modify_tag bodies) port sha now ident q sv)"
| "serve_annotations decode uuid bodies port sha now (RouteDeleteTag ident) q sv =
     answered (rest_delete_tag decode uuid port sha now ident q sv)"
| "serve_annotations decode uuid bodies port sha now (RouteCloneTag ident) q sv =
     answered (rest_clone_tag uuid port sha now ident q sv)"
| "serve_annotations decode uuid bodies port sha now RouteListTickets q sv =
     answered (rest_list_tickets decode uuid port sha now q sv)"
| "serve_annotations decode uuid bodies port sha now (RouteGetTicket ident) q sv =
     answered (rest_get_ticket uuid port sha now ident q sv)"
| "serve_annotations decode uuid bodies port sha now RouteListNotes q sv =
     answered (rest_list_notes decode uuid port sha now q sv)"
| "serve_annotations decode uuid bodies port sha now (RouteGetNote ident) q sv =
     answered (rest_get_note uuid port sha now ident q sv)"
| "serve_annotations decode uuid bodies port sha now RouteCreateNote q sv =
     answered (rest_create_note uuid (nb_create_note bodies) port sha now q sv)"
| "serve_annotations decode uuid bodies port sha now (RouteModifyNote ident) q sv =
     answered (rest_update_note uuid (nb_modify_note bodies) port sha now ident q sv)"
| "serve_annotations decode uuid bodies port sha now (RouteDeleteNote ident) q sv =
     answered (rest_delete_note decode uuid port sha now ident q sv)"
| "serve_annotations decode uuid bodies port sha now RouteListOverrides q sv =
     answered (rest_list_overrides decode uuid port sha now q sv)"
| "serve_annotations decode uuid bodies port sha now (RouteGetOverride ident) q sv =
     answered (rest_get_override uuid port sha now ident q sv)"
| "serve_annotations decode uuid bodies port sha now RouteCreateOverride q sv =
     answered (rest_create_override uuid (nb_create_override bodies) port sha now q sv)"
| "serve_annotations decode uuid bodies port sha now (RouteModifyOverride ident) q sv =
     answered (rest_update_override uuid (nb_modify_override bodies) port sha now ident q sv)"
| "serve_annotations decode uuid bodies port sha now (RouteDeleteOverride ident) q sv =
     answered (rest_delete_override decode uuid port sha now ident q sv)"

lemma annotations_act_for_own_session:
  "acts_for_own_session sha now q sv
     (serve_annotations decode uuid bodies (gvmd_annotation_port sha L B) sha now route q sv)"
  by (cases route; (simp only: serve_annotations.simps rest_list_report_formats_def rest_get_report_format_def rest_list_filters_def
        rest_get_filter_def rest_create_filter_def rest_update_filter_def rest_delete_filter_def
        rest_clone_filter_def rest_list_tags_def rest_get_tag_def rest_create_tag_def
        rest_update_tag_def rest_delete_tag_def rest_clone_tag_def rest_list_tickets_def
        rest_get_ticket_def rest_list_notes_def rest_get_note_def rest_create_note_def
        rest_update_note_def rest_delete_note_def rest_list_overrides_def rest_get_override_def
        rest_create_override_def rest_update_override_def rest_delete_override_def
        list_report_formats_def get_report_format_def list_filters_def get_filter_def
        create_filter_def modify_filter_def delete_filter_def clone_filter_def list_tags_def
        get_tag_def create_tag_def modify_tag_def delete_tag_def clone_tag_def list_tickets_def
        get_ticket_def list_notes_def get_note_def create_note_def modify_note_def delete_note_def
        list_overrides_def get_override_def create_override_def modify_override_def
        delete_override_def
        gvmd_annotation_port_def AnnotationPort.simps;
      rule acts_answered; intro within own_session_rules speaks refl))

section \<open>Reading and updating annotations\<close>

lemma get_annotation_asked:
  assumes "\<And>item. ident_of (convert item) = item_id item"
  shows "returns (\<lambda>x. lb_entity_id L ident = Some (ident_of x))
    (get_annotation sha L command from_response item_id convert kind session_token ident)"
  unfolding get_annotation_def
  by (intro returns_after returns_checked returns_then_call returns_pure)
    (auto simp: assms parse_entity_id_def find_Some_iff split: option.splits)

text \<open>
  C36. A note or an override that is read, also after an update, is the one with the identifier
  that was asked for, whichever items the daemon answers with and in whichever order.
\<close>

theorem annotation_read_is_asked:
  "(case fst (gvmd_get_note sha L B session_token ident w) of
      Inl e \<Rightarrow> True | Inr note \<Rightarrow> lb_entity_id L ident = Some (sm_id (nt_meta note)))
   \<and> (case fst (gvmd_get_override sha L B session_token ident w) of
        Inl e \<Rightarrow> True | Inr override \<Rightarrow> lb_entity_id L ident = Some (sm_id (ore_meta override)))"
  unfolding gvmd_get_note_def gvmd_get_override_def
  by (rule conjI; rule returns_case, rule get_annotation_asked;
      simp add: note_from_gmp_def override_from_gmp_def supporting_meta_from_gmp_def)

text \<open>The hosts of an annotation: not given leaves them, an empty list clears them.\<close>

lemma annotation_update_hosts:
  "note_opts_from_modify_input L input = Inr opts \<Longrightarrow>
     no_hosts opts = (case nmi_hosts input of None \<Rightarrow> CollectionOmitted | Some [] \<Rightarrow> Clear | Some hosts \<Rightarrow> Replace hosts)"
  "override_opts_from_modify_input L input' = Inr opts' \<Longrightarrow>
     ov_hosts opts' = (case ovm_hosts input' of None \<Rightarrow> CollectionOmitted | Some [] \<Rightarrow> Clear | Some hosts \<Rightarrow> Replace hosts)"
  by (auto simp: note_opts_from_modify_input_def override_opts_from_modify_input_def collection_update_def and_then_def
      split: sum.splits option.split list.split)

end
