(* ===== verification/Security_Info.thy ===== *)
theory Security_Info
  imports Supporting
begin

text \<open>
  Security information, from the request to the command: NVTs and their families,
  vulnerabilities, CVEs, CPEs and the advisories of CERT-Bund and DFN-CERT, in
  \<open>supporting_resources.rs\<close> of the crates \<open>gvm-gateway-domain\<close>, \<open>gvm-gateway-gvmd\<close> (under
  \<open>gvmd_adapter/ports\<close>), \<open>gvm-gateway-app\<close> and \<open>gvm-gateway-rest\<close>. The identifiers of these
  resources are not UUIDs and are handed to the library as they are.
\<close>

section \<open>Domain\<close>

record NvtQuery = ListQuery +
  nq_config_id :: "string option"
  nq_preferences_config_id :: "string option"
  nq_family :: "string option"
  nq_include_preferences :: "bool option"
  nq_include_preference_count :: "bool option"
  nq_include_timeout :: "bool option"
  nq_sort_order :: "string option"
  nq_sort_field :: "string option"

record Nvt =
  nvx_oid :: string
  nvx_name :: string
  nvx_family :: "string option"
  nvx_cvss_base :: "f64 option"
  nvx_severity :: "f64 option"
  nvx_tags :: "string option"
  nvx_solution_type :: "string option"

record NvtFamily =
  nfy_name :: string
  nfy_max_nvt_count :: "u32 option"

record Vulnerability =
  sqvu_id :: string
  sqvu_name :: string

record Cve =
  sqve_id :: string
  sqve_name :: string

record Cpe =
  sqpe_id :: string
  sqpe_name :: string

record CertBundAdvisory =
  sqcb_id :: string
  sqcb_name :: string

record DfnCertAdvisory =
  sqdc_id :: string
  sqdc_name :: string

record 's SecurityInfoPort =
  ip_list_nvts :: "string \<Rightarrow> NvtQuery \<Rightarrow> ('s, Nvt Page) operation"
  ip_get_nvt :: "string \<Rightarrow> string \<Rightarrow> ('s, Nvt) operation"
  ip_list_nvt_families :: "string \<Rightarrow> u32 \<Rightarrow> u32 \<Rightarrow> ('s, NvtFamily Page) operation"
  ip_list_vulnerabilities :: "string \<Rightarrow> ListQuery \<Rightarrow> ('s, Vulnerability Page) operation"
  ip_list_cves :: "string \<Rightarrow> ListQuery \<Rightarrow> ('s, Cve Page) operation"
  ip_get_cve :: "string \<Rightarrow> string \<Rightarrow> ('s, Cve) operation"
  ip_list_cpes :: "string \<Rightarrow> ListQuery \<Rightarrow> ('s, Cpe Page) operation"
  ip_get_cpe :: "string \<Rightarrow> string \<Rightarrow> ('s, Cpe) operation"
  ip_list_cert_bund_advisories :: "string \<Rightarrow> ListQuery \<Rightarrow> ('s, CertBundAdvisory Page) operation"
  ip_get_cert_bund_advisory :: "string \<Rightarrow> string \<Rightarrow> ('s, CertBundAdvisory) operation"
  ip_list_dfn_cert_advisories :: "string \<Rightarrow> ListQuery \<Rightarrow> ('s, DfnCertAdvisory Page) operation"
  ip_get_dfn_cert_advisory :: "string \<Rightarrow> string \<Rightarrow> ('s, DfnCertAdvisory) operation"

section \<open>Conversions\<close>

definition nvt_from_gmp :: "GmpNvt \<Rightarrow> Nvt" where
  "nvt_from_gmp nvt =
     \<lparr>nvx_oid = gnt_oid nvt, nvx_name = gnt_name nvt, nvx_family = gnt_family nvt,
      nvx_cvss_base = gnt_cvss_base_score nvt, nvx_severity = gnt_severity_score nvt,
      nvx_tags = gnt_tags nvt, nvx_solution_type = gnt_solution_type nvt\<rparr>"

definition nvt_family_from_gmp :: "GmpNvtFamily \<Rightarrow> NvtFamily" where
  "nvt_family_from_gmp x =
     \<lparr>nfy_name = gnf_name x, nfy_max_nvt_count = gnf_max_nvt_count x\<rparr>"

definition vulnerability_from_gmp :: "GmpSecInfo \<Rightarrow> Vulnerability" where
  "vulnerability_from_gmp x =
     \<lparr>sqvu_id = gsi_id x, sqvu_name = gsi_name x\<rparr>"

definition cve_from_gmp :: "GmpSecInfo \<Rightarrow> Cve" where
  "cve_from_gmp x =
     \<lparr>sqve_id = gsi_id x, sqve_name = gsi_name x\<rparr>"

definition cpe_from_gmp :: "GmpSecInfo \<Rightarrow> Cpe" where
  "cpe_from_gmp x =
     \<lparr>sqpe_id = gsi_id x, sqpe_name = gsi_name x\<rparr>"

definition cert_bund_advisory_from_gmp :: "GmpSecInfo \<Rightarrow> CertBundAdvisory" where
  "cert_bund_advisory_from_gmp x =
     \<lparr>sqcb_id = gsi_id x, sqcb_name = gsi_name x\<rparr>"

definition dfn_cert_advisory_from_gmp :: "GmpSecInfo \<Rightarrow> DfnCertAdvisory" where
  "dfn_cert_advisory_from_gmp x =
     \<lparr>sqdc_id = gsi_id x, sqdc_name = gsi_name x\<rparr>"

section \<open>Adapter\<close>

definition nvt_opts :: "('r, 'g, 'f) GmpLibrary \<Rightarrow> NvtQuery \<Rightarrow> string option \<Rightarrow> GetNvtsOpts result" where
  "nvt_opts L query filter_string =
     (let entity_id = (\<lambda>field. map_transpose (\<lambda>v.
            case lb_entity_id L v of None \<Rightarrow> Inl (InvalidInput (''invalid '' @ field)) | Some ident \<Rightarrow> Inr ident))
      in and_then (case nq_sort_order query of
                     None \<Rightarrow> Inr ()
                   | Some sort_order \<Rightarrow>
                       if sort_order = ''ascending'' \<or> sort_order = ''descending'' then Inr ()
                       else Inl (InvalidInput ''sortOrder must be ascending or descending'')) (\<lambda>_.
         and_then (entity_id ''configId'' (nq_config_id query)) (\<lambda>config_id.
         and_then (entity_id ''preferencesConfigId'' (nq_preferences_config_id query)) (\<lambda>preferences_config_id.
           Inr \<lparr>gn_filter_string = filter_string, gn_details = Some True,
                gn_preferences = nq_include_preferences query,
                gn_preference_count = nq_include_preference_count query, gn_timeout = nq_include_timeout query,
                gn_config_id = config_id, gn_preferences_config_id = preferences_config_id,
                gn_family = nq_family query, gn_sort_order = nq_sort_order query,
                gn_sort_field = nq_sort_field query\<rparr>))))"

definition nvt_order :: "Nvt \<Rightarrow> string \<times> string" where
  "nvt_order nvt = (nvx_oid nvt, nvx_name nvt)"

text \<open>The page is cut by the gateway when the daemon did not cut it.\<close>

definition gvmd_list_nvts ::
    "(string \<Rightarrow> u8 list) \<Rightarrow> ('r, 'g, 'f) GmpLibrary \<Rightarrow> 'r ResourceLibrary \<Rightarrow> string
      \<Rightarrow> NvtQuery \<Rightarrow> ('g Gvmd, Nvt Page) operation" where
  "gvmd_list_nvts sha L B session_token query =
     (let page = lq_page query; per_page = lq_per_page query;
          fetch = (\<lambda>opts. chain (fetch_items sha L session_token (OnSecInfo (GetNvts opts)) (bl_nvts B) nvt_from_gmp)
            (\<lambda>(items, total). pure (Inr (sort_key nvt_order items, total))))
      in chain (connected sha session_token) (\<lambda>_.
         checked (map_transpose (parse_filter_id L) (lq_filter_id query)) (\<lambda>filter_id.
         chain (paginated_filter_resolving_filter_id sha L session_token None (lq_filter_string query) filter_id
                  page per_page []) (\<lambda>filter_string.
         chain (then_call sha session_token (nvt_opts L query filter_string) fetch) (\<lambda>(items, total).
           if needs_client_side_pagination_fallback items total page \<or> backend_ignored_pagination items per_page
           then chain (filter_resolving_filter_id sha L session_token None (lq_filter_string query) filter_id [])
                  (\<lambda>filter_string.
                checked (nvt_opts L query filter_string) (\<lambda>opts.
                chain (fetch opts) (\<lambda>(items, total).
                  pure (Inr (paged_slice items page per_page, paged_pagination total page per_page)))))
           else pure (Inr (items, paged_pagination total page per_page)))))))"

lemma speaks_list_nvts [speaks]:
  "d = from_token sha session_token \<Longrightarrow> speaks_for d (gvmd_list_nvts sha L B session_token query)"
  unfolding gvmd_list_nvts_def Let_def by (auto intro!: speaks split: prod.split option.split)

definition gvmd_get_nvt ::
    "(string \<Rightarrow> u8 list) \<Rightarrow> ('r, 'g, 'f) GmpLibrary \<Rightarrow> 'r ResourceLibrary \<Rightarrow> string \<Rightarrow> string
      \<Rightarrow> ('g Gvmd, Nvt) operation" where
  "gvmd_get_nvt sha L B session_token ident =
     fetch_first sha L session_token (OnSecInfo (GetNvt ident)) (bl_nvts B) nvt_from_gmp
       (''nvt '' @ ident @ '' not found'')"

lemma speaks_get_nvt [speaks]:
  "d = from_token sha session_token \<Longrightarrow> speaks_for d (gvmd_get_nvt sha L B session_token ident)"
  unfolding gvmd_get_nvt_def by (auto intro!: speaks split: prod.split option.split)

definition gvmd_list_nvt_families ::
    "(string \<Rightarrow> u8 list) \<Rightarrow> ('r, 'g, 'f) GmpLibrary \<Rightarrow> 'r ResourceLibrary \<Rightarrow> string \<Rightarrow> u32
      \<Rightarrow> u32 \<Rightarrow> ('g Gvmd, NvtFamily Page) operation" where
  "gvmd_list_nvt_families sha L B session_token page per_page =
     chain (call sha L session_token (OnSecInfo GetNvtFamilies)) (\<lambda>response.
     checked (read_with (bl_nvt_families B) response) (\<lambda>parsed.
       let items = sort_key nfy_name (map nvt_family_from_gmp (ct_items parsed));
           total = unwrap_or (ct_total parsed) (of_nat (length items))
       in pure (Inr (paged_slice items page per_page, paged_pagination total page per_page))))"

lemma speaks_list_nvt_families [speaks]:
  "d = from_token sha session_token \<Longrightarrow> speaks_for d (gvmd_list_nvt_families sha L B session_token page per_page)"
  unfolding gvmd_list_nvt_families_def Let_def by (auto intro!: speaks split: prod.split option.split)

definition gvmd_list_vulnerabilities ::
    "(string \<Rightarrow> u8 list) \<Rightarrow> ('r, 'g, 'f) GmpLibrary \<Rightarrow> 'r ResourceLibrary \<Rightarrow> string
      \<Rightarrow> ListQuery \<Rightarrow> ('g Gvmd, Vulnerability Page) operation" where
  "gvmd_list_vulnerabilities sha L B session_token query =
     list_resources sha L None [] (\<lambda>filter_string. OnSecInfo (GetVulns filter_string)) (bl_vulnerabilities B)
       vulnerability_from_gmp session_token query"

lemma speaks_list_vulnerabilities [speaks]:
  "d = from_token sha session_token \<Longrightarrow> speaks_for d (gvmd_list_vulnerabilities sha L B session_token query)"
  unfolding gvmd_list_vulnerabilities_def by (auto intro!: speaks split: prod.split option.split)

text \<open>
  The other listings and readings go through methods of the client that read the answer
  themselves. They are written alike for all four resources.
\<close>

definition list_sec_info ::
    "(string \<Rightarrow> u8 list) \<Rightarrow> ('r, 'g, 'f) GmpLibrary \<Rightarrow> (string option \<Rightarrow> SecInfoCommand) \<Rightarrow> ('r \<Rightarrow> ParseError + 'i Counted)
      \<Rightarrow> ('i \<Rightarrow> 'a) \<Rightarrow> string \<Rightarrow> ListQuery \<Rightarrow> ('g Gvmd, 'a Page) operation" where
  "list_sec_info sha L command from_response convert session_token query =
     chain (connected sha session_token) (\<lambda>_.
     checked (map_transpose (parse_filter_id L) (lq_filter_id query)) (\<lambda>filter_id.
     chain (paginated_filter_resolving_filter_id sha L session_token None (lq_filter_string query) filter_id
              (lq_page query) (lq_per_page query) []) (\<lambda>filter_string.
     chain (client_method map_gvm_error sha L session_token (OnSecInfo (command filter_string)) from_response) (\<lambda>parsed.
       let total = gvmd_total (ct_filtered parsed) (ct_total parsed) (length (ct_items parsed))
       in pure (Inr (map convert (ct_items parsed), paged_pagination total (lq_page query) (lq_per_page query)))))))"

definition get_sec_info ::
    "(string \<Rightarrow> u8 list) \<Rightarrow> ('r, 'g, 'f) GmpLibrary \<Rightarrow> (string \<Rightarrow> SecInfoCommand) \<Rightarrow> ('r \<Rightarrow> ParseError + 'i Counted)
      \<Rightarrow> ('i \<Rightarrow> 'a) \<Rightarrow> string \<Rightarrow> string \<Rightarrow> string \<Rightarrow> ('g Gvmd, 'a) operation" where
  "get_sec_info sha L command from_response convert kind session_token ident =
     chain (client_method map_gvm_error sha L session_token (OnSecInfo (command ident)) from_response) (\<lambda>parsed.
       pure (case ct_items parsed of
               [] \<Rightarrow> Inl (NotFound (kind @ '' '' @ ident @ '' not found''))
             | item # _ \<Rightarrow> Inr (convert item)))"

lemma speaks_sec_info [speaks]:
  "d = from_token sha session_token \<Longrightarrow> speaks_for d (list_sec_info sha L command from_response convert session_token query)"
  "d = from_token sha session_token \<Longrightarrow> speaks_for d (get_sec_info sha L get_command from_response convert kind session_token ident)"
  unfolding list_sec_info_def get_sec_info_def Let_def by (intro speaks; simp)+

definition gvmd_list_cves ::
    "(string \<Rightarrow> u8 list) \<Rightarrow> ('r, 'g, 'f) GmpLibrary \<Rightarrow> 'r ResourceLibrary \<Rightarrow> string
      \<Rightarrow> ListQuery \<Rightarrow> ('g Gvmd, Cve Page) operation" where
  "gvmd_list_cves sha L B session_token query =
     list_sec_info sha L GetCves (bl_cves B) cve_from_gmp session_token query"

lemma speaks_list_cves [speaks]:
  "d = from_token sha session_token \<Longrightarrow> speaks_for d (gvmd_list_cves sha L B session_token query)"
  unfolding gvmd_list_cves_def by (auto intro!: speaks split: prod.split option.split)

definition gvmd_get_cve ::
    "(string \<Rightarrow> u8 list) \<Rightarrow> ('r, 'g, 'f) GmpLibrary \<Rightarrow> 'r ResourceLibrary \<Rightarrow> string \<Rightarrow> string
      \<Rightarrow> ('g Gvmd, Cve) operation" where
  "gvmd_get_cve sha L B session_token ident =
     get_sec_info sha L GetCve (bl_cves B) cve_from_gmp ''cve'' session_token ident"

lemma speaks_get_cve [speaks]:
  "d = from_token sha session_token \<Longrightarrow> speaks_for d (gvmd_get_cve sha L B session_token ident)"
  unfolding gvmd_get_cve_def by (auto intro!: speaks split: prod.split option.split)

definition gvmd_list_cpes ::
    "(string \<Rightarrow> u8 list) \<Rightarrow> ('r, 'g, 'f) GmpLibrary \<Rightarrow> 'r ResourceLibrary \<Rightarrow> string
      \<Rightarrow> ListQuery \<Rightarrow> ('g Gvmd, Cpe Page) operation" where
  "gvmd_list_cpes sha L B session_token query =
     list_sec_info sha L GetCpes (bl_cpes B) cpe_from_gmp session_token query"

lemma speaks_list_cpes [speaks]:
  "d = from_token sha session_token \<Longrightarrow> speaks_for d (gvmd_list_cpes sha L B session_token query)"
  unfolding gvmd_list_cpes_def by (auto intro!: speaks split: prod.split option.split)

definition gvmd_get_cpe ::
    "(string \<Rightarrow> u8 list) \<Rightarrow> ('r, 'g, 'f) GmpLibrary \<Rightarrow> 'r ResourceLibrary \<Rightarrow> string \<Rightarrow> string
      \<Rightarrow> ('g Gvmd, Cpe) operation" where
  "gvmd_get_cpe sha L B session_token ident =
     get_sec_info sha L GetCpe (bl_cpes B) cpe_from_gmp ''cpe'' session_token ident"

lemma speaks_get_cpe [speaks]:
  "d = from_token sha session_token \<Longrightarrow> speaks_for d (gvmd_get_cpe sha L B session_token ident)"
  unfolding gvmd_get_cpe_def by (auto intro!: speaks split: prod.split option.split)

definition gvmd_list_cert_bund_advisories ::
    "(string \<Rightarrow> u8 list) \<Rightarrow> ('r, 'g, 'f) GmpLibrary \<Rightarrow> 'r ResourceLibrary \<Rightarrow> string
      \<Rightarrow> ListQuery \<Rightarrow> ('g Gvmd, CertBundAdvisory Page) operation" where
  "gvmd_list_cert_bund_advisories sha L B session_token query =
     list_sec_info sha L GetCertBundAdvisories (bl_cert_bund_advisories B) cert_bund_advisory_from_gmp session_token query"

lemma speaks_list_cert_bund_advisories [speaks]:
  "d = from_token sha session_token \<Longrightarrow> speaks_for d (gvmd_list_cert_bund_advisories sha L B session_token query)"
  unfolding gvmd_list_cert_bund_advisories_def by (auto intro!: speaks split: prod.split option.split)

definition gvmd_get_cert_bund_advisory ::
    "(string \<Rightarrow> u8 list) \<Rightarrow> ('r, 'g, 'f) GmpLibrary \<Rightarrow> 'r ResourceLibrary \<Rightarrow> string \<Rightarrow> string
      \<Rightarrow> ('g Gvmd, CertBundAdvisory) operation" where
  "gvmd_get_cert_bund_advisory sha L B session_token ident =
     get_sec_info sha L GetCertBundAdvisory (bl_cert_bund_advisories B) cert_bund_advisory_from_gmp ''cert bund advisory'' session_token ident"

lemma speaks_get_cert_bund_advisory [speaks]:
  "d = from_token sha session_token \<Longrightarrow> speaks_for d (gvmd_get_cert_bund_advisory sha L B session_token ident)"
  unfolding gvmd_get_cert_bund_advisory_def by (auto intro!: speaks split: prod.split option.split)

definition gvmd_list_dfn_cert_advisories ::
    "(string \<Rightarrow> u8 list) \<Rightarrow> ('r, 'g, 'f) GmpLibrary \<Rightarrow> 'r ResourceLibrary \<Rightarrow> string
      \<Rightarrow> ListQuery \<Rightarrow> ('g Gvmd, DfnCertAdvisory Page) operation" where
  "gvmd_list_dfn_cert_advisories sha L B session_token query =
     list_sec_info sha L GetDfnCertAdvisories (bl_dfn_cert_advisories B) dfn_cert_advisory_from_gmp session_token query"

lemma speaks_list_dfn_cert_advisories [speaks]:
  "d = from_token sha session_token \<Longrightarrow> speaks_for d (gvmd_list_dfn_cert_advisories sha L B session_token query)"
  unfolding gvmd_list_dfn_cert_advisories_def by (auto intro!: speaks split: prod.split option.split)

definition gvmd_get_dfn_cert_advisory ::
    "(string \<Rightarrow> u8 list) \<Rightarrow> ('r, 'g, 'f) GmpLibrary \<Rightarrow> 'r ResourceLibrary \<Rightarrow> string \<Rightarrow> string
      \<Rightarrow> ('g Gvmd, DfnCertAdvisory) operation" where
  "gvmd_get_dfn_cert_advisory sha L B session_token ident =
     get_sec_info sha L GetDfnCertAdvisory (bl_dfn_cert_advisories B) dfn_cert_advisory_from_gmp ''dfn cert advisory'' session_token ident"

lemma speaks_get_dfn_cert_advisory [speaks]:
  "d = from_token sha session_token \<Longrightarrow> speaks_for d (gvmd_get_dfn_cert_advisory sha L B session_token ident)"
  unfolding gvmd_get_dfn_cert_advisory_def by (auto intro!: speaks split: prod.split option.split)

definition gvmd_security_info_port ::
    "(string \<Rightarrow> u8 list) \<Rightarrow> ('r, 'g, 'f) GmpLibrary \<Rightarrow> 'r ResourceLibrary
      \<Rightarrow> 'g Gvmd SecurityInfoPort" where
  "gvmd_security_info_port sha L B =
     \<lparr>ip_list_nvts = gvmd_list_nvts sha L B,
      ip_get_nvt = gvmd_get_nvt sha L B,
      ip_list_nvt_families = gvmd_list_nvt_families sha L B,
      ip_list_vulnerabilities = gvmd_list_vulnerabilities sha L B,
      ip_list_cves = gvmd_list_cves sha L B,
      ip_get_cve = gvmd_get_cve sha L B,
      ip_list_cpes = gvmd_list_cpes sha L B,
      ip_get_cpe = gvmd_get_cpe sha L B,
      ip_list_cert_bund_advisories = gvmd_list_cert_bund_advisories sha L B,
      ip_get_cert_bund_advisory = gvmd_get_cert_bund_advisory sha L B,
      ip_list_dfn_cert_advisories = gvmd_list_dfn_cert_advisories sha L B,
      ip_get_dfn_cert_advisory = gvmd_get_dfn_cert_advisory sha L B\<rparr>"

section \<open>Use cases\<close>

definition list_nvts ::
    "'s SecurityInfoPort \<Rightarrow> (string \<Rightarrow> u8 list) \<Rightarrow> u64 \<Rightarrow> string \<Rightarrow> NvtQuery
      \<Rightarrow> 's GatewayService \<Rightarrow> Nvt Page result \<times> 's GatewayService" where
  "list_nvts port sha now session_token query =
     use_port sha now session_token ''list'' ''nvt'' (\<lambda>token. ip_list_nvts port token query)"

definition get_nvt ::
    "'s SecurityInfoPort \<Rightarrow> (string \<Rightarrow> u8 list) \<Rightarrow> u64 \<Rightarrow> string \<Rightarrow> string
      \<Rightarrow> 's GatewayService \<Rightarrow> Nvt result \<times> 's GatewayService" where
  "get_nvt port sha now session_token ident =
     use_port sha now session_token ''read'' ''nvt'' (\<lambda>token. ip_get_nvt port token ident)"

definition list_nvt_families ::
    "'s SecurityInfoPort \<Rightarrow> (string \<Rightarrow> u8 list) \<Rightarrow> u64 \<Rightarrow> string \<Rightarrow> u32 \<Rightarrow> u32
      \<Rightarrow> 's GatewayService \<Rightarrow> NvtFamily Page result \<times> 's GatewayService" where
  "list_nvt_families port sha now session_token page per_page =
     use_port sha now session_token ''list'' ''nvt_family'' (\<lambda>token. ip_list_nvt_families port token page per_page)"

definition list_vulnerabilities ::
    "'s SecurityInfoPort \<Rightarrow> (string \<Rightarrow> u8 list) \<Rightarrow> u64 \<Rightarrow> string \<Rightarrow> ListQuery
      \<Rightarrow> 's GatewayService \<Rightarrow> Vulnerability Page result \<times> 's GatewayService" where
  "list_vulnerabilities port sha now session_token query =
     use_port sha now session_token ''list'' ''vulnerability'' (\<lambda>token. ip_list_vulnerabilities port token query)"

definition list_cves ::
    "'s SecurityInfoPort \<Rightarrow> (string \<Rightarrow> u8 list) \<Rightarrow> u64 \<Rightarrow> string \<Rightarrow> ListQuery
      \<Rightarrow> 's GatewayService \<Rightarrow> Cve Page result \<times> 's GatewayService" where
  "list_cves port sha now session_token query =
     use_port sha now session_token ''list'' ''cve'' (\<lambda>token. ip_list_cves port token query)"

definition get_cve ::
    "'s SecurityInfoPort \<Rightarrow> (string \<Rightarrow> u8 list) \<Rightarrow> u64 \<Rightarrow> string \<Rightarrow> string
      \<Rightarrow> 's GatewayService \<Rightarrow> Cve result \<times> 's GatewayService" where
  "get_cve port sha now session_token ident =
     use_port sha now session_token ''read'' ''cve'' (\<lambda>token. ip_get_cve port token ident)"

definition list_cpes ::
    "'s SecurityInfoPort \<Rightarrow> (string \<Rightarrow> u8 list) \<Rightarrow> u64 \<Rightarrow> string \<Rightarrow> ListQuery
      \<Rightarrow> 's GatewayService \<Rightarrow> Cpe Page result \<times> 's GatewayService" where
  "list_cpes port sha now session_token query =
     use_port sha now session_token ''list'' ''cpe'' (\<lambda>token. ip_list_cpes port token query)"

definition get_cpe ::
    "'s SecurityInfoPort \<Rightarrow> (string \<Rightarrow> u8 list) \<Rightarrow> u64 \<Rightarrow> string \<Rightarrow> string
      \<Rightarrow> 's GatewayService \<Rightarrow> Cpe result \<times> 's GatewayService" where
  "get_cpe port sha now session_token ident =
     use_port sha now session_token ''read'' ''cpe'' (\<lambda>token. ip_get_cpe port token ident)"

definition list_cert_bund_advisories ::
    "'s SecurityInfoPort \<Rightarrow> (string \<Rightarrow> u8 list) \<Rightarrow> u64 \<Rightarrow> string \<Rightarrow> ListQuery
      \<Rightarrow> 's GatewayService \<Rightarrow> CertBundAdvisory Page result \<times> 's GatewayService" where
  "list_cert_bund_advisories port sha now session_token query =
     use_port sha now session_token ''list'' ''cert_bund_advisory'' (\<lambda>token. ip_list_cert_bund_advisories port token query)"

definition get_cert_bund_advisory ::
    "'s SecurityInfoPort \<Rightarrow> (string \<Rightarrow> u8 list) \<Rightarrow> u64 \<Rightarrow> string \<Rightarrow> string
      \<Rightarrow> 's GatewayService \<Rightarrow> CertBundAdvisory result \<times> 's GatewayService" where
  "get_cert_bund_advisory port sha now session_token ident =
     use_port sha now session_token ''read'' ''cert_bund_advisory'' (\<lambda>token. ip_get_cert_bund_advisory port token ident)"

definition list_dfn_cert_advisories ::
    "'s SecurityInfoPort \<Rightarrow> (string \<Rightarrow> u8 list) \<Rightarrow> u64 \<Rightarrow> string \<Rightarrow> ListQuery
      \<Rightarrow> 's GatewayService \<Rightarrow> DfnCertAdvisory Page result \<times> 's GatewayService" where
  "list_dfn_cert_advisories port sha now session_token query =
     use_port sha now session_token ''list'' ''dfn_cert_advisory'' (\<lambda>token. ip_list_dfn_cert_advisories port token query)"

definition get_dfn_cert_advisory ::
    "'s SecurityInfoPort \<Rightarrow> (string \<Rightarrow> u8 list) \<Rightarrow> u64 \<Rightarrow> string \<Rightarrow> string
      \<Rightarrow> 's GatewayService \<Rightarrow> DfnCertAdvisory result \<times> 's GatewayService" where
  "get_dfn_cert_advisory port sha now session_token ident =
     use_port sha now session_token ''read'' ''dfn_cert_advisory'' (\<lambda>token. ip_get_dfn_cert_advisory port token ident)"

section \<open>Responses\<close>

record NvtResponse =
  nvxr_oid :: string
  nvxr_name :: string
  nvxr_family :: "string option"
  nvxr_cvss_base :: "f64 option"
  nvxr_severity :: "f64 option"
  nvxr_tags :: "string option"
  nvxr_solution_type :: "string option"

definition nvt_response :: "Nvt \<Rightarrow> NvtResponse" where
  "nvt_response x =
     \<lparr>nvxr_oid = nvx_oid x, nvxr_name = nvx_name x, nvxr_family = nvx_family x,
       nvxr_cvss_base = nvx_cvss_base x, nvxr_severity = nvx_severity x, nvxr_tags = nvx_tags x,
       nvxr_solution_type = nvx_solution_type x\<rparr>"

record NvtFamilyResponse =
  nfyr_name :: string
  nfyr_max_nvt_count :: "u32 option"

definition nvt_family_response :: "NvtFamily \<Rightarrow> NvtFamilyResponse" where
  "nvt_family_response x =
     \<lparr>nfyr_name = nfy_name x, nfyr_max_nvt_count = nfy_max_nvt_count x\<rparr>"

record VulnerabilityResponse =
  sqvur_id :: string
  sqvur_name :: string

definition vulnerability_response :: "Vulnerability \<Rightarrow> VulnerabilityResponse" where
  "vulnerability_response x =
     \<lparr>sqvur_id = sqvu_id x, sqvur_name = sqvu_name x\<rparr>"

record CveResponse =
  sqver_id :: string
  sqver_name :: string

definition cve_response :: "Cve \<Rightarrow> CveResponse" where
  "cve_response x =
     \<lparr>sqver_id = sqve_id x, sqver_name = sqve_name x\<rparr>"

record CpeResponse =
  sqper_id :: string
  sqper_name :: string

definition cpe_response :: "Cpe \<Rightarrow> CpeResponse" where
  "cpe_response x =
     \<lparr>sqper_id = sqpe_id x, sqper_name = sqpe_name x\<rparr>"

record CertBundAdvisoryResponse =
  sqcbr_id :: string
  sqcbr_name :: string

definition cert_bund_advisory_response :: "CertBundAdvisory \<Rightarrow> CertBundAdvisoryResponse" where
  "cert_bund_advisory_response x =
     \<lparr>sqcbr_id = sqcb_id x, sqcbr_name = sqcb_name x\<rparr>"

record DfnCertAdvisoryResponse =
  sqdcr_id :: string
  sqdcr_name :: string

definition dfn_cert_advisory_response :: "DfnCertAdvisory \<Rightarrow> DfnCertAdvisoryResponse" where
  "dfn_cert_advisory_response x =
     \<lparr>sqdcr_id = sqdc_id x, sqdcr_name = sqdc_name x\<rparr>"

section \<open>Requests\<close>

datatype NvtSortOrder = Ascending | Descending

primrec nvt_sort_order_as_str :: "NvtSortOrder \<Rightarrow> string" where
  "nvt_sort_order_as_str Ascending = ''ascending''"
| "nvt_sort_order_as_str Descending = ''descending''"

record NvtListQuery = ListQuery +
  nl_config_id :: "string option"
  nl_preferences_config_id :: "string option"
  nl_family :: "string option"
  nl_include_preferences :: "bool option"
  nl_include_preference_count :: "bool option"
  nl_include_timeout :: "bool option"
  nl_sort_order :: "NvtSortOrder option"
  nl_sort_field :: "string option"

definition parse_query_bool :: "string \<Rightarrow> string \<Rightarrow> bool result" where
  "parse_query_bool field v =
     (case parse_bool v of None \<Rightarrow> Inl (InvalidInput (field @ '' must be true or false'')) | Some b \<Rightarrow> Inr b)"

definition nonempty_query_value :: "string \<Rightarrow> string \<Rightarrow> string result" where
  "nonempty_query_value field v =
     (if trim v = [] then Inl (InvalidInput (field @ '' must not be empty'')) else Inr (trim v))"

definition parse_sort_order :: "string \<Rightarrow> NvtSortOrder result" where
  "parse_sort_order v =
     (if v = ''ascending'' then Inr Ascending
      else if v = ''descending'' then Inr Descending
      else Inl (InvalidInput ''sortOrder must be ascending or descending''))"

text \<open>One parameter of the query, and the loop over them.\<close>

definition nvt_query_step :: "(string \<Rightarrow> bool) \<Rightarrow> string \<Rightarrow> string \<Rightarrow> NvtListQuery \<Rightarrow> NvtListQuery result" where
  "nvt_query_step uuid_ok key v r =
     (if key \<in> {''filter'', ''filterId'', ''page'', ''perPage'', ''per_page''} then Inr r
      else if key = ''configId'' then
        and_then (validate_uuid uuid_ok ''configId'' v) (\<lambda>_. Inr (r\<lparr>nl_config_id := Some v\<rparr>))
      else if key = ''preferencesConfigId'' then
        and_then (validate_uuid uuid_ok ''preferencesConfigId'' v) (\<lambda>_. Inr (r\<lparr>nl_preferences_config_id := Some v\<rparr>))
      else if key = ''family'' then
        and_then (nonempty_query_value ''family'' v) (\<lambda>s. Inr (r\<lparr>nl_family := Some s\<rparr>))
      else if key = ''includePreferences'' then
        and_then (parse_query_bool ''includePreferences'' v) (\<lambda>b. Inr (r\<lparr>nl_include_preferences := Some b\<rparr>))
      else if key = ''includePreferenceCount'' then
        and_then (parse_query_bool ''includePreferenceCount'' v) (\<lambda>b. Inr (r\<lparr>nl_include_preference_count := Some b\<rparr>))
      else if key = ''includeTimeout'' then
        and_then (parse_query_bool ''includeTimeout'' v) (\<lambda>b. Inr (r\<lparr>nl_include_timeout := Some b\<rparr>))
      else if key = ''sortOrder'' then
        and_then (parse_sort_order v) (\<lambda>d. Inr (r\<lparr>nl_sort_order := Some d\<rparr>))
      else if key = ''sortField'' then
        and_then (nonempty_query_value ''sortField'' v) (\<lambda>s. Inr (r\<lparr>nl_sort_field := Some s\<rparr>))
      else Inl (InvalidInput (''unsupported NVT query parameter: '' @ key)))"

primrec nvt_query_loop :: "(string \<Rightarrow> bool) \<Rightarrow> (string \<times> string) list \<Rightarrow> NvtListQuery \<Rightarrow> NvtListQuery result" where
  "nvt_query_loop uuid_ok [] r = Inr r"
| "nvt_query_loop uuid_ok (pair # pairs) r =
     and_then (nvt_query_step uuid_ok (fst pair) (snd pair) r) (nvt_query_loop uuid_ok pairs)"

definition nvt_list_query_parsed ::
    "(string \<Rightarrow> (string \<times> string) list) \<Rightarrow> (string \<Rightarrow> bool) \<Rightarrow> string \<Rightarrow> NvtListQuery result" where
  "nvt_list_query_parsed decode uuid_ok query =
     and_then (parse_collection_query decode uuid_ok query) (\<lambda>common.
     and_then (nvt_query_loop uuid_ok (decode query)
       \<lparr>lq_filter_string = cq_filter_string common, lq_filter_id = cq_filter_id common, lq_page = cq_page common,
        lq_per_page = cq_per_page common, nl_config_id = None, nl_preferences_config_id = None, nl_family = None,
        nl_include_preferences = None, nl_include_preference_count = None, nl_include_timeout = None,
        nl_sort_order = None, nl_sort_field = None\<rparr>) (\<lambda>r.
       if nl_include_timeout r = Some True \<and> nl_config_id r = None
       then Inl (InvalidInput ''includeTimeout=true requires configId'')
       else Inr r))"

definition nvt_query :: "NvtListQuery \<Rightarrow> NvtQuery" where
  "nvt_query q =
     \<lparr>lq_filter_string = lq_filter_string q, lq_filter_id = lq_filter_id q, lq_page = lq_page q,
      lq_per_page = lq_per_page q, nq_config_id = nl_config_id q,
      nq_preferences_config_id = nl_preferences_config_id q, nq_family = nl_family q,
      nq_include_preferences = nl_include_preferences q,
      nq_include_preference_count = nl_include_preference_count q, nq_include_timeout = nl_include_timeout q,
      nq_sort_order = map_option nvt_sort_order_as_str (nl_sort_order q), nq_sort_field = nl_sort_field q\<rparr>"

definition nvt_list_query ::
    "(string \<Rightarrow> (string \<times> string) list) \<Rightarrow> (string \<Rightarrow> string option) \<Rightarrow> string \<Rightarrow> NvtQuery result" where
  "nvt_list_query decode uuid query =
     and_then (nvt_list_query_parsed decode (\<lambda>s. uuid s \<noteq> None) query) (\<lambda>q. Inr (nvt_query q))"

text \<open>Families are listed by page only: a filter is refused, other parameters are ignored.\<close>

fun pagination_only_loop :: "u32 option \<Rightarrow> u32 option \<Rightarrow> (string \<times> string) list \<Rightarrow> (u32 option \<times> u32 option) result" where
  "pagination_only_loop page per_page [] = Inr (page, per_page)"
| "pagination_only_loop page per_page ((key, v) # pairs) =
     (if key = ''filter'' \<or> key = ''filterId'' then Inl (InvalidInput (key @ '' is not supported on this endpoint''))
      else if key = ''page'' then
        (case parse_u32 v of
           None \<Rightarrow> Inl (InvalidInput ''page must be a positive integer'')
         | Some p \<Rightarrow> pagination_only_loop (Some p) per_page pairs)
      else if key = ''perPage'' \<or> key = ''per_page'' then
        (case parse_u32 v of
           None \<Rightarrow> Inl (InvalidInput ''perPage must be a positive integer'')
         | Some n \<Rightarrow>
             if n = 0 \<or> n > 1000 then Inl (InvalidInput ''perPage must be between 1 and 1000'')
             else pagination_only_loop page (Some n) pairs)
      else pagination_only_loop page per_page pairs)"

definition pagination_only_query :: "(string \<Rightarrow> (string \<times> string) list) \<Rightarrow> string \<Rightarrow> (u32 \<times> u32) result" where
  "pagination_only_query decode query =
     and_then (pagination_only_loop None None (decode query)) (\<lambda>(page, per_page).
       let page = unwrap_or page 1
       in if page = 0 then Inl (InvalidInput ''page must be greater than or equal to 1'')
          else Inr (page, unwrap_or per_page 25))"

section \<open>Handlers\<close>

definition rest_list_nvts ::
    "(string \<Rightarrow> (string \<times> string) list) \<Rightarrow> (string \<Rightarrow> string option)
      \<Rightarrow> 's SecurityInfoPort \<Rightarrow> (string \<Rightarrow> u8 list) \<Rightarrow> u64 \<Rightarrow> Request \<Rightarrow> 's GatewayService
      \<Rightarrow> NvtResponse ListResponse RestBody Response \<times> 's GatewayService" where
  "rest_list_nvts decode uuid port sha now =
     list_resource (nvt_list_query decode uuid) (\<lambda>session query. list_nvts port sha now session query) (list_response nvt_response)"

definition rest_get_nvt ::
    "'s SecurityInfoPort \<Rightarrow> (string \<Rightarrow> u8 list) \<Rightarrow> u64 \<Rightarrow> string \<Rightarrow> Request
      \<Rightarrow> 's GatewayService \<Rightarrow> NvtResponse RestBody Response \<times> 's GatewayService" where
  "rest_get_nvt port sha now ident =
     authenticated_resource (\<lambda>session. get_nvt port sha now session ident) (nvt_response)"

definition rest_list_nvt_families ::
    "(string \<Rightarrow> (string \<times> string) list) \<Rightarrow> 's SecurityInfoPort \<Rightarrow> (string \<Rightarrow> u8 list)
      \<Rightarrow> u64 \<Rightarrow> Request \<Rightarrow> 's GatewayService
      \<Rightarrow> NvtFamilyResponse ListResponse RestBody Response \<times> 's GatewayService" where
  "rest_list_nvt_families decode port sha now =
     list_resource (pagination_only_query decode)
       (\<lambda>session query. list_nvt_families port sha now session (fst query) (snd query))
       (list_response nvt_family_response)"

definition rest_list_vulnerabilities ::
    "(string \<Rightarrow> (string \<times> string) list) \<Rightarrow> (string \<Rightarrow> string option)
      \<Rightarrow> 's SecurityInfoPort \<Rightarrow> (string \<Rightarrow> u8 list) \<Rightarrow> u64 \<Rightarrow> Request \<Rightarrow> 's GatewayService
      \<Rightarrow> VulnerabilityResponse ListResponse RestBody Response \<times> 's GatewayService" where
  "rest_list_vulnerabilities decode uuid port sha now =
     list_resource (list_query decode uuid) (\<lambda>session query. list_vulnerabilities port sha now session query) (list_response vulnerability_response)"

definition rest_list_cves ::
    "(string \<Rightarrow> (string \<times> string) list) \<Rightarrow> (string \<Rightarrow> string option)
      \<Rightarrow> 's SecurityInfoPort \<Rightarrow> (string \<Rightarrow> u8 list) \<Rightarrow> u64 \<Rightarrow> Request \<Rightarrow> 's GatewayService
      \<Rightarrow> CveResponse ListResponse RestBody Response \<times> 's GatewayService" where
  "rest_list_cves decode uuid port sha now =
     list_resource (list_query decode uuid) (\<lambda>session query. list_cves port sha now session query) (list_response cve_response)"

definition rest_get_cve ::
    "'s SecurityInfoPort \<Rightarrow> (string \<Rightarrow> u8 list) \<Rightarrow> u64 \<Rightarrow> string \<Rightarrow> Request
      \<Rightarrow> 's GatewayService \<Rightarrow> CveResponse RestBody Response \<times> 's GatewayService" where
  "rest_get_cve port sha now ident =
     authenticated_resource (\<lambda>session. get_cve port sha now session ident) (cve_response)"

definition rest_list_cpes ::
    "(string \<Rightarrow> (string \<times> string) list) \<Rightarrow> (string \<Rightarrow> string option)
      \<Rightarrow> 's SecurityInfoPort \<Rightarrow> (string \<Rightarrow> u8 list) \<Rightarrow> u64 \<Rightarrow> Request \<Rightarrow> 's GatewayService
      \<Rightarrow> CpeResponse ListResponse RestBody Response \<times> 's GatewayService" where
  "rest_list_cpes decode uuid port sha now =
     list_resource (list_query decode uuid) (\<lambda>session query. list_cpes port sha now session query) (list_response cpe_response)"

definition rest_get_cpe ::
    "'s SecurityInfoPort \<Rightarrow> (string \<Rightarrow> u8 list) \<Rightarrow> u64 \<Rightarrow> string \<Rightarrow> Request
      \<Rightarrow> 's GatewayService \<Rightarrow> CpeResponse RestBody Response \<times> 's GatewayService" where
  "rest_get_cpe port sha now ident =
     authenticated_resource (\<lambda>session. get_cpe port sha now session ident) (cpe_response)"

definition rest_list_cert_bund_advisories ::
    "(string \<Rightarrow> (string \<times> string) list) \<Rightarrow> (string \<Rightarrow> string option)
      \<Rightarrow> 's SecurityInfoPort \<Rightarrow> (string \<Rightarrow> u8 list) \<Rightarrow> u64 \<Rightarrow> Request \<Rightarrow> 's GatewayService
      \<Rightarrow> CertBundAdvisoryResponse ListResponse RestBody Response \<times> 's GatewayService" where
  "rest_list_cert_bund_advisories decode uuid port sha now =
     list_resource (list_query decode uuid) (\<lambda>session query. list_cert_bund_advisories port sha now session query) (list_response cert_bund_advisory_response)"

definition rest_get_cert_bund_advisory ::
    "'s SecurityInfoPort \<Rightarrow> (string \<Rightarrow> u8 list) \<Rightarrow> u64 \<Rightarrow> string \<Rightarrow> Request
      \<Rightarrow> 's GatewayService
      \<Rightarrow> CertBundAdvisoryResponse RestBody Response \<times> 's GatewayService" where
  "rest_get_cert_bund_advisory port sha now ident =
     authenticated_resource (\<lambda>session. get_cert_bund_advisory port sha now session ident) (cert_bund_advisory_response)"

definition rest_list_dfn_cert_advisories ::
    "(string \<Rightarrow> (string \<times> string) list) \<Rightarrow> (string \<Rightarrow> string option)
      \<Rightarrow> 's SecurityInfoPort \<Rightarrow> (string \<Rightarrow> u8 list) \<Rightarrow> u64 \<Rightarrow> Request \<Rightarrow> 's GatewayService
      \<Rightarrow> DfnCertAdvisoryResponse ListResponse RestBody Response \<times> 's GatewayService" where
  "rest_list_dfn_cert_advisories decode uuid port sha now =
     list_resource (list_query decode uuid) (\<lambda>session query. list_dfn_cert_advisories port sha now session query) (list_response dfn_cert_advisory_response)"

definition rest_get_dfn_cert_advisory ::
    "'s SecurityInfoPort \<Rightarrow> (string \<Rightarrow> u8 list) \<Rightarrow> u64 \<Rightarrow> string \<Rightarrow> Request
      \<Rightarrow> 's GatewayService
      \<Rightarrow> DfnCertAdvisoryResponse RestBody Response \<times> 's GatewayService" where
  "rest_get_dfn_cert_advisory port sha now ident =
     authenticated_resource (\<lambda>session. get_dfn_cert_advisory port sha now session ident) (dfn_cert_advisory_response)"

datatype (plugins only: code size) SecurityInfoRoute =
    RouteListNvts
  | RouteGetNvt string
  | RouteListNvtFamilies
  | RouteListVulnerabilities
  | RouteListCves
  | RouteGetCve string
  | RouteListCpes
  | RouteGetCpe string
  | RouteListCertBundAdvisories
  | RouteGetCertBundAdvisory string
  | RouteListDfnCertAdvisories
  | RouteGetDfnCertAdvisory string

fun serve_security_info ::
    "(string \<Rightarrow> (string \<times> string) list) \<Rightarrow> (string \<Rightarrow> string option)
      \<Rightarrow> 's SecurityInfoPort \<Rightarrow> (string \<Rightarrow> u8 list) \<Rightarrow> u64 \<Rightarrow> SecurityInfoRoute \<Rightarrow> Request
      \<Rightarrow> 's GatewayService \<Rightarrow> nat \<times> 's GatewayService" where
  "serve_security_info decode uuid port sha now RouteListNvts q sv =
     answered (rest_list_nvts decode uuid port sha now q sv)"
| "serve_security_info decode uuid port sha now (RouteGetNvt ident) q sv =
     answered (rest_get_nvt port sha now ident q sv)"
| "serve_security_info decode uuid port sha now RouteListNvtFamilies q sv =
     answered (rest_list_nvt_families decode port sha now q sv)"
| "serve_security_info decode uuid port sha now RouteListVulnerabilities q sv =
     answered (rest_list_vulnerabilities decode uuid port sha now q sv)"
| "serve_security_info decode uuid port sha now RouteListCves q sv =
     answered (rest_list_cves decode uuid port sha now q sv)"
| "serve_security_info decode uuid port sha now (RouteGetCve ident) q sv =
     answered (rest_get_cve port sha now ident q sv)"
| "serve_security_info decode uuid port sha now RouteListCpes q sv =
     answered (rest_list_cpes decode uuid port sha now q sv)"
| "serve_security_info decode uuid port sha now (RouteGetCpe ident) q sv =
     answered (rest_get_cpe port sha now ident q sv)"
| "serve_security_info decode uuid port sha now RouteListCertBundAdvisories q sv =
     answered (rest_list_cert_bund_advisories decode uuid port sha now q sv)"
| "serve_security_info decode uuid port sha now (RouteGetCertBundAdvisory ident) q sv =
     answered (rest_get_cert_bund_advisory port sha now ident q sv)"
| "serve_security_info decode uuid port sha now RouteListDfnCertAdvisories q sv =
     answered (rest_list_dfn_cert_advisories decode uuid port sha now q sv)"
| "serve_security_info decode uuid port sha now (RouteGetDfnCertAdvisory ident) q sv =
     answered (rest_get_dfn_cert_advisory port sha now ident q sv)"

lemma security_info_acts_for_own_session:
  "acts_for_own_session sha now q sv
     (serve_security_info decode uuid (gvmd_security_info_port sha L B) sha now route q sv)"
  by (cases route; (simp only: serve_security_info.simps rest_list_nvts_def rest_get_nvt_def rest_list_nvt_families_def
        rest_list_vulnerabilities_def rest_list_cves_def rest_get_cve_def rest_list_cpes_def
        rest_get_cpe_def rest_list_cert_bund_advisories_def rest_get_cert_bund_advisory_def
        rest_list_dfn_cert_advisories_def rest_get_dfn_cert_advisory_def
        list_nvts_def get_nvt_def list_nvt_families_def list_vulnerabilities_def list_cves_def
        get_cve_def list_cpes_def get_cpe_def list_cert_bund_advisories_def
        get_cert_bund_advisory_def list_dfn_cert_advisories_def get_dfn_cert_advisory_def
        gvmd_security_info_port_def SecurityInfoPort.simps;
      rule acts_answered; intro within own_session_rules speaks refl))

section \<open>Pages of NVTs\<close>

lemma sorted_slice: "sorted (map f xs) \<Longrightarrow> sorted (map f (paged_slice xs page per_page))"
  by (simp add: paged_slice_def take_map [symmetric] drop_map [symmetric] sorted_wrt_take sorted_wrt_drop Let_def)

lemma length_slice: "length (paged_slice xs page per_page) \<le> unat per_page"
  by (simp add: paged_slice_def Let_def)

lemma sorted_fetch:
  "returns (\<lambda>(items, total). sorted (map f items))
     (chain (fetch_items sha L session_token command from_response convert) (\<lambda>(items, total).
       pure (Inr (sort_key f items, total))))"
  by (rule returns_after) (auto intro: returns_pure split: prod.split)

lemma nvt_page:
  "returns (\<lambda>(items, pagination). sorted (map nvt_order items) \<and> length items \<le> unat (lq_per_page query))
     (gvmd_list_nvts sha L B session_token query)"
  unfolding gvmd_list_nvts_def Let_def
  apply (rule returns_after, rule returns_checked, rule returns_after)
  apply (rule returns_chain [where P = "\<lambda>(items, total). sorted (map nvt_order items)"])
   apply (rule returns_then_call, rule sorted_fetch)
  apply (rule returns_prod, rule returns_if)
   apply (rule returns_after, rule returns_checked, rule returns_chain, rule sorted_fetch)
   apply (auto intro!: returns_pure simp: sorted_slice length_slice backend_ignored_pagination_def)
  done

text \<open>
  C35. A page of NVTs is sorted by identifier and name in ascending order and holds no more
  items than were asked for, whatever the daemon answers: a daemon that ignores the page is
  asked for all, and the gateway cuts the page. This holds for every query, so also for one that
  asks for another field or for the descending order: the order the API documents
  for \<open>sortField\<close> and \<open>sortOrder\<close> decides at most which items are on the page.
\<close>

theorem nvt_page_sorted_and_bounded:
  "case fst (gvmd_list_nvts sha L B session_token query w) of
     Inl e \<Rightarrow> True
   | Inr (items, pagination) \<Rightarrow> sorted (map nvt_order items) \<and> length items \<le> unat (lq_per_page query)"
  by (rule returns_case [OF nvt_page])

text \<open>The page of families is cut from the sorted list of all of them.\<close>

lemma nvt_families_page:
  "returns (\<lambda>(items, pagination). sorted (map nfy_name items) \<and> length items \<le> unat per_page)
     (gvmd_list_nvt_families sha L B session_token page per_page)"
  unfolding gvmd_list_nvt_families_def Let_def
  by (intro returns_after returns_checked returns_pure) (auto simp: sorted_slice length_slice)

section \<open>Queries for NVTs\<close>

text \<open>
  An accepted query asks for timeouts only together with a config, and its direction is one of
  the two that the adapter lets through: the check of the adapter never refuses it.
\<close>

lemma nvt_list_query_accepted:
  assumes "nvt_list_query decode uuid query = Inr r"
  shows "nq_include_timeout r = Some True \<longrightarrow> nq_config_id r \<noteq> None"
    and "nq_sort_order r \<in> {None, Some ''ascending'', Some ''descending''}"
proof -
  obtain q where q: "nvt_list_query_parsed decode (\<lambda>s. uuid s \<noteq> None) query = Inr q" "r = nvt_query q"
    using assms by (auto simp: nvt_list_query_def and_then_def split: sum.splits)
  show "nq_include_timeout r = Some True \<longrightarrow> nq_config_id r \<noteq> None"
    using q by (auto simp: nvt_list_query_parsed_def nvt_query_def and_then_def split: sum.splits if_splits)
  show "nq_sort_order r \<in> {None, Some ''ascending'', Some ''descending''}"
  proof (cases "nl_sort_order q")
    case (Some d)
    then show ?thesis using q by (cases d) (simp_all add: nvt_query_def)
  qed (use q in \<open>simp add: nvt_query_def\<close>)
qed

end
