(* ===== verification/Scan_Configs.thy ===== *)
theory Scan_Configs
  imports Security_Info
begin

text \<open>
  Scan configs, policies and generic configs, from the request to the command: what a scan
  config selects, its preferences, and the configs of every usage type, in \<open>scan_configs.rs\<close>
  and \<open>generic_resources.rs\<close> of the crates \<open>gvm-gateway-domain\<close>, \<open>gvm-gateway-gvmd\<close> (under
  \<open>gvmd_adapter/ports\<close>), \<open>gvm-gateway-app\<close> and \<open>gvm-gateway-rest\<close>.
\<close>

section \<open>Domain\<close>

record GenericConfigQuery = ListQuery +
  gq_usage_type :: "string option"

record GenericConfig =
  gnc_id :: string
  gnc_name :: string
  gnc_comment :: "string option"
  gnc_config_type :: "u32 option"
  gnc_usage_type :: string
  gnc_in_use :: bool
  gnc_writable :: bool

record ScanConfig =
  scc_id :: string
  scc_name :: string
  scc_comment :: "string option"
  scc_family_count :: "u32 option"
  scc_nvt_count :: "u32 option"
  scc_config_type :: "u32 option"
  scc_usage_type :: "string option"
  scc_in_use :: bool
  scc_writable :: bool

record CreateScanConfigInput =
  sci_name :: string
  sci_comment :: "string option"
  sci_base_scan_config_id :: "string option"

record ModifyScanConfigInput =
  scm_name :: "string option"
  scm_comment :: "string option"

record ScanConfigNvtQuery =
  scq_family :: "string option"
  scq_page :: u32
  scq_per_page :: u32

record ScanConfigPreferenceNvt =
  spn_oid :: string
  spn_name :: "string option"

record ScanConfigPreference =
  spr_nvt :: "ScanConfigPreferenceNvt option"
  spr_name :: string
  spr_id :: "string option"
  spr_preference_type :: "string option"
  spr_value :: "string option"
  spr_alternatives :: "string list"
  spr_default :: "string option"

record ScanConfigPreferenceQuery =
  spq_nvt_oid :: "string option"

record ScanConfigFamilySelection =
  sfs_name :: string
  sfs_growing :: bool
  sfs_all :: bool

record SetScanConfigFamilySelectionInput =
  sfi_families :: "ScanConfigFamilySelection list"
  sfi_auto_add_new_families :: bool

record 's ScanConfigPort =
  xp_list_configs :: "string \<Rightarrow> GenericConfigQuery \<Rightarrow> ('s, GenericConfig Page) operation"
  xp_get_config :: "string \<Rightarrow> string \<Rightarrow> ('s, GenericConfig) operation"
  xp_delete_config :: "string \<Rightarrow> string \<Rightarrow> bool \<Rightarrow> ('s, unit) operation"
  xp_clone_config :: "string \<Rightarrow> string \<Rightarrow> ('s, string) operation"
  xp_list_scan_configs :: "string \<Rightarrow> ListQuery \<Rightarrow> ('s, ScanConfig Page) operation"
  xp_create_scan_config :: "string \<Rightarrow> CreateScanConfigInput \<Rightarrow> ('s, string) operation"
  xp_get_scan_config :: "string \<Rightarrow> string \<Rightarrow> ('s, ScanConfig) operation"
  xp_modify_scan_config :: "string \<Rightarrow> string \<Rightarrow> ModifyScanConfigInput \<Rightarrow> ('s, ScanConfig) operation"
  xp_delete_scan_config :: "string \<Rightarrow> string \<Rightarrow> bool \<Rightarrow> ('s, unit) operation"
  xp_list_scan_config_nvts :: "string \<Rightarrow> string \<Rightarrow> ScanConfigNvtQuery \<Rightarrow> ('s, Nvt Page) operation"
  xp_get_scan_config_nvt :: "string \<Rightarrow> string \<Rightarrow> string \<Rightarrow> ('s, Nvt) operation"
  xp_list_scan_config_preferences :: "string \<Rightarrow> string \<Rightarrow> ScanConfigPreferenceQuery \<Rightarrow> ('s, ScanConfigPreference list) operation"
  xp_get_scan_config_preference :: "string \<Rightarrow> string \<Rightarrow> string \<Rightarrow> ScanConfigPreferenceQuery \<Rightarrow> ('s, ScanConfigPreference) operation"
  xp_set_scan_config_nvt_selection :: "string \<Rightarrow> string \<Rightarrow> string \<Rightarrow> string list \<Rightarrow> ('s, unit) operation"
  xp_set_scan_config_family_selection :: "string \<Rightarrow> string \<Rightarrow> SetScanConfigFamilySelectionInput \<Rightarrow> ('s, unit) operation"
  xp_set_scan_config_preference :: "string \<Rightarrow> string \<Rightarrow> string \<Rightarrow> string option \<Rightarrow> string option \<Rightarrow> ('s, unit) operation"
  xp_list_policies :: "string \<Rightarrow> ListQuery \<Rightarrow> ('s, ScanConfig Page) operation"
  xp_get_policy :: "string \<Rightarrow> string \<Rightarrow> ('s, ScanConfig) operation"
  xp_create_policy :: "string \<Rightarrow> CreateScanConfigInput \<Rightarrow> ('s, string) operation"
  xp_modify_policy :: "string \<Rightarrow> string \<Rightarrow> ModifyScanConfigInput \<Rightarrow> ('s, ScanConfig) operation"
  xp_delete_policy :: "string \<Rightarrow> string \<Rightarrow> ('s, unit) operation"

section \<open>Conversions\<close>

definition scan_config_from_gmp :: "GmpScanConfig \<Rightarrow> ScanConfig" where
  "scan_config_from_gmp config =
     \<lparr>scc_id = em_id (gsg_meta config), scc_name = em_name (gsg_meta config), scc_comment = em_comment (gsg_meta config),
      scc_family_count = gsg_family_count config, scc_nvt_count = gsg_nvt_count config,
      scc_config_type = gsg_type config, scc_usage_type = gsg_usage_type config,
      scc_in_use = em_in_use (gsg_meta config), scc_writable = em_writable (gsg_meta config)\<rparr>"

definition generic_config_from_gmp :: "GmpGenericConfig \<Rightarrow> GenericConfig" where
  "generic_config_from_gmp config =
     \<lparr>gnc_id = em_id (ggc_meta config), gnc_name = em_name (ggc_meta config), gnc_comment = em_comment (ggc_meta config),
      gnc_config_type = ggc_type config, gnc_usage_type = unwrap_or (ggc_usage_type config) ''unknown'',
      gnc_in_use = em_in_use (ggc_meta config), gnc_writable = em_writable (ggc_meta config)\<rparr>"

definition preference_from_gmp :: "GmpPreference \<Rightarrow> ScanConfigPreference" where
  "preference_from_gmp preference =
     \<lparr>spr_nvt = map_option (\<lambda>nvt. \<lparr>spn_oid = gpn_oid nvt, spn_name = gpn_name nvt\<rparr>) (gpr_nvt preference),
      spr_name = gpr_name preference, spr_id = gpr_id preference, spr_preference_type = gpr_type preference,
      spr_value = gpr_value preference, spr_alternatives = gpr_alternatives preference,
      spr_default = gpr_default preference\<rparr>"

definition parse_config_usage_type :: "string \<Rightarrow> ConfigUsageType" where
  "parse_config_usage_type v =
     (if v = ''scan'' then ConfigUsageScan
      else if v = ''audit'' then ConfigUsageAudit
      else if v = ''policy'' then ConfigUsagePolicy
      else ConfigUsageCustom v)"

section \<open>Adapter\<close>

definition config_order :: "GenericConfig \<Rightarrow> string \<times> string \<times> string" where
  "config_order c = (gnc_usage_type c, gnc_name c, gnc_id c)"

definition gvmd_list_configs ::
    "(string \<Rightarrow> u8 list) \<Rightarrow> ('r, 'g, 'f) GmpLibrary \<Rightarrow> 'r ResourceLibrary \<Rightarrow> string
      \<Rightarrow> GenericConfigQuery \<Rightarrow> ('g Gvmd, GenericConfig Page) operation" where
  "gvmd_list_configs sha L B session_token query =
     chain (list_resources sha L None [] (\<lambda>filter_string. OnConfigs (GetConfigs
         \<lparr>gc_filter_string = filter_string, gc_details = Some True,
          gc_usage_type = map_option parse_config_usage_type (gq_usage_type query)\<rparr>))
       (bl_configs B) generic_config_from_gmp session_token (ListQuery.truncate query)) (\<lambda>(items, pagination).
       pure (Inr (sort_key config_order items, pagination)))"

lemma speaks_list_configs [speaks]:
  "d = from_token sha session_token \<Longrightarrow> speaks_for d (gvmd_list_configs sha L B session_token query)"
  unfolding gvmd_list_configs_def by (auto intro!: speaks split: prod.split option.split)

definition gvmd_get_config ::
    "(string \<Rightarrow> u8 list) \<Rightarrow> ('r, 'g, 'f) GmpLibrary \<Rightarrow> 'r ResourceLibrary \<Rightarrow> string \<Rightarrow> string
      \<Rightarrow> ('g Gvmd, GenericConfig) operation" where
  "gvmd_get_config sha L B session_token ident =
     get_one sha L (\<lambda>ident. OnConfigs (GetConfig ident (Some True))) (bl_configs B) generic_config_from_gmp
       ''config'' session_token ident"

lemma speaks_get_config [speaks]:
  "d = from_token sha session_token \<Longrightarrow> speaks_for d (gvmd_get_config sha L B session_token ident)"
  unfolding gvmd_get_config_def by (auto intro!: speaks split: prod.split option.split)

definition gvmd_delete_config ::
    "(string \<Rightarrow> u8 list) \<Rightarrow> ('r, 'g, 'f) GmpLibrary \<Rightarrow> 'r ResourceLibrary \<Rightarrow> string \<Rightarrow> string
      \<Rightarrow> bool \<Rightarrow> ('g Gvmd, unit) operation" where
  "gvmd_delete_config sha L B session_token ident ultimate =
     delete_one sha L (\<lambda>entity_id. OnConfigs (DeleteConfig entity_id (if ultimate then Some True else None)))
       session_token ident"

lemma speaks_delete_config [speaks]:
  "d = from_token sha session_token \<Longrightarrow> speaks_for d (gvmd_delete_config sha L B session_token ident ultimate)"
  unfolding gvmd_delete_config_def by (auto intro!: speaks split: prod.split option.split)

definition gvmd_clone_config ::
    "(string \<Rightarrow> u8 list) \<Rightarrow> ('r, 'g, 'f) GmpLibrary \<Rightarrow> 'r ResourceLibrary \<Rightarrow> string \<Rightarrow> string
      \<Rightarrow> ('g Gvmd, string) operation" where
  "gvmd_clone_config sha L B session_token ident =
     then_call sha session_token (parse_entity_id L ident) (\<lambda>entity_id.
       call_create sha L session_token (OnConfigs (CloneConfig entity_id)))"

lemma speaks_clone_config [speaks]:
  "d = from_token sha session_token \<Longrightarrow> speaks_for d (gvmd_clone_config sha L B session_token ident)"
  unfolding gvmd_clone_config_def by (auto intro!: speaks split: prod.split option.split)

definition gvmd_list_scan_configs ::
    "(string \<Rightarrow> u8 list) \<Rightarrow> ('r, 'g, 'f) GmpLibrary \<Rightarrow> 'r ResourceLibrary \<Rightarrow> string
      \<Rightarrow> ListQuery \<Rightarrow> ('g Gvmd, ScanConfig Page) operation" where
  "gvmd_list_scan_configs sha L B session_token query =
     list_resources sha L None [] (\<lambda>filter_string. OnConfigs (GetScanConfigs \<lparr>lo_filter_string = filter_string, lo_details = Some True\<rparr>)) (bl_scan_configs B) scan_config_from_gmp
       session_token query"

lemma speaks_list_scan_configs [speaks]:
  "d = from_token sha session_token \<Longrightarrow> speaks_for d (gvmd_list_scan_configs sha L B session_token query)"
  unfolding gvmd_list_scan_configs_def by (auto intro!: speaks split: prod.split option.split)

definition gvmd_create_scan_config ::
    "(string \<Rightarrow> u8 list) \<Rightarrow> ('r, 'g, 'f) GmpLibrary \<Rightarrow> 'r ResourceLibrary \<Rightarrow> string
      \<Rightarrow> CreateScanConfigInput \<Rightarrow> ('g Gvmd, string) operation" where
  "gvmd_create_scan_config sha L B session_token input =
     chain (connected sha session_token) (\<lambda>_.
     checked (map_transpose (parse_entity_id L) (sci_base_scan_config_id input)) (\<lambda>base_id.
       call_create sha L session_token (OnConfigs (CreateScanConfig (sci_name input) base_id (sci_comment input)))))"

lemma speaks_create_scan_config [speaks]:
  "d = from_token sha session_token \<Longrightarrow> speaks_for d (gvmd_create_scan_config sha L B session_token input)"
  unfolding gvmd_create_scan_config_def by (auto intro!: speaks split: prod.split option.split)

text \<open>A policy is not read as a scan config.\<close>

definition gvmd_get_scan_config ::
    "(string \<Rightarrow> u8 list) \<Rightarrow> ('r, 'g, 'f) GmpLibrary \<Rightarrow> 'r ResourceLibrary \<Rightarrow> string \<Rightarrow> string
      \<Rightarrow> ('g Gvmd, ScanConfig) operation" where
  "gvmd_get_scan_config sha L B session_token ident =
     then_call sha session_token (parse_entity_id L ident) (\<lambda>entity_id.
     chain (call sha L session_token (OnConfigs (GetScanConfig entity_id))) (\<lambda>response.
     checked (read_with (bl_scan_configs B) response) (\<lambda>parsed.
       pure (case ct_items parsed of
               [] \<Rightarrow> Inl (NotFound (''scan config '' @ ident @ '' not found''))
             | item # _ \<Rightarrow>
                 if gsg_usage_type item \<noteq> Some ''policy'' then Inr (scan_config_from_gmp item)
                 else Inl (NotFound (''scan config '' @ ident @ '' not found''))))))"

lemma speaks_get_scan_config [speaks]:
  "d = from_token sha session_token \<Longrightarrow> speaks_for d (gvmd_get_scan_config sha L B session_token ident)"
  unfolding gvmd_get_scan_config_def by (auto intro!: speaks split: prod.split option.split)

definition gvmd_modify_scan_config ::
    "(string \<Rightarrow> u8 list) \<Rightarrow> ('r, 'g, 'f) GmpLibrary \<Rightarrow> 'r ResourceLibrary \<Rightarrow> string \<Rightarrow> string
      \<Rightarrow> ModifyScanConfigInput \<Rightarrow> ('g Gvmd, ScanConfig) operation" where
  "gvmd_modify_scan_config sha L B session_token ident input =
     chain (connected sha session_token) (\<lambda>_.
     checked (parse_entity_id L ident) (\<lambda>config_id.
     chain (call_action sha L session_token (OnConfigs (ModifyConfigGeneric config_id
         \<lparr>cfm_name = scm_name input, cfm_comment = scm_comment input, cfm_usage_type = Some ConfigUsageScan\<rparr>))) (\<lambda>_.
       gvmd_get_scan_config sha L B session_token ident)))"

lemma speaks_modify_scan_config [speaks]:
  "d = from_token sha session_token \<Longrightarrow> speaks_for d (gvmd_modify_scan_config sha L B session_token ident input)"
  unfolding gvmd_modify_scan_config_def by (auto intro!: speaks split: prod.split option.split)

definition gvmd_delete_scan_config ::
    "(string \<Rightarrow> u8 list) \<Rightarrow> ('r, 'g, 'f) GmpLibrary \<Rightarrow> 'r ResourceLibrary \<Rightarrow> string \<Rightarrow> string
      \<Rightarrow> bool \<Rightarrow> ('g Gvmd, unit) operation" where
  "gvmd_delete_scan_config sha L B session_token ident ultimate =
     delete_one sha L (\<lambda>entity_id. OnConfigs (DeleteScanConfig entity_id ultimate)) session_token ident"

lemma speaks_delete_scan_config [speaks]:
  "d = from_token sha session_token \<Longrightarrow> speaks_for d (gvmd_delete_scan_config sha L B session_token ident ultimate)"
  unfolding gvmd_delete_scan_config_def by (auto intro!: speaks split: prod.split option.split)

definition gvmd_list_scan_config_nvts ::
    "(string \<Rightarrow> u8 list) \<Rightarrow> ('r, 'g, 'f) GmpLibrary \<Rightarrow> 'r ResourceLibrary \<Rightarrow> string \<Rightarrow> string
      \<Rightarrow> ScanConfigNvtQuery \<Rightarrow> ('g Gvmd, Nvt Page) operation" where
  "gvmd_list_scan_config_nvts sha L B session_token ident query =
     then_call sha session_token
       (and_then (paginated_filter (lb_filter L) None None (scq_page query) (scq_per_page query) []) (\<lambda>filter_string.
        and_then (parse_entity_id L ident) (\<lambda>config_id.
        and_then (parse_entity_id L ident) (\<lambda>preferences_config_id.
          Inr \<lparr>gn_filter_string = filter_string, gn_details = Some True, gn_preferences = Some True,
          gn_preference_count = Some True, gn_timeout = Some True, gn_config_id = Some config_id,
          gn_preferences_config_id = Some preferences_config_id, gn_family = scq_family query,
          gn_sort_order = Some ''ascending'', gn_sort_field = Some ''name''\<rparr>))))
       (\<lambda>opts. chain (fetch_items sha L session_token (OnConfigs (GetScanConfigNvts opts)) (bl_nvts B) nvt_from_gmp)
          (\<lambda>(items, total). pure (Inr (items, paged_pagination total (scq_page query) (scq_per_page query)))))"

lemma speaks_list_scan_config_nvts [speaks]:
  "d = from_token sha session_token \<Longrightarrow> speaks_for d (gvmd_list_scan_config_nvts sha L B session_token ident query)"
  unfolding gvmd_list_scan_config_nvts_def by (auto intro!: speaks split: prod.split option.split)

definition gvmd_get_scan_config_nvt ::
    "(string \<Rightarrow> u8 list) \<Rightarrow> ('r, 'g, 'f) GmpLibrary \<Rightarrow> 'r ResourceLibrary \<Rightarrow> string \<Rightarrow> string
      \<Rightarrow> string \<Rightarrow> ('g Gvmd, Nvt) operation" where
  "gvmd_get_scan_config_nvt sha L B session_token ident oid =
     then_call sha session_token
       (and_then (parse_entity_id L ident) (\<lambda>config_id.
        and_then (parse_entity_id L ident) (\<lambda>preferences_config_id.
          Inr \<lparr>gn_filter_string = Some (''oid='' @ oid), gn_details = Some True, gn_preferences = Some True,
          gn_preference_count = Some True, gn_timeout = Some True, gn_config_id = Some config_id,
          gn_preferences_config_id = Some preferences_config_id, gn_family = None,
          gn_sort_order = None, gn_sort_field = None\<rparr>)))
       (\<lambda>opts. chain (call sha L session_token (OnConfigs (GetScanConfigNvts opts))) (\<lambda>response.
          checked (read_with (bl_nvts B) response) (\<lambda>parsed.
            pure (case find (\<lambda>item. gnt_oid item = oid) (ct_items parsed) of
                    None \<Rightarrow> Inl (NotFound (''NVT '' @ oid @ '' not selected by scan config '' @ ident))
                  | Some item \<Rightarrow> Inr (nvt_from_gmp item)))))"

lemma speaks_get_scan_config_nvt [speaks]:
  "d = from_token sha session_token \<Longrightarrow> speaks_for d (gvmd_get_scan_config_nvt sha L B session_token ident oid)"
  unfolding gvmd_get_scan_config_nvt_def by (auto intro!: speaks split: prod.split option.split)

definition gvmd_list_scan_config_preferences ::
    "(string \<Rightarrow> u8 list) \<Rightarrow> ('r, 'g, 'f) GmpLibrary \<Rightarrow> 'r ResourceLibrary \<Rightarrow> string \<Rightarrow> string
      \<Rightarrow> ScanConfigPreferenceQuery \<Rightarrow> ('g Gvmd, ScanConfigPreference list) operation" where
  "gvmd_list_scan_config_preferences sha L B session_token ident query =
     then_call sha session_token (parse_entity_id L ident) (\<lambda>config_id.
     chain (call sha L session_token (OnConfigs (GetScanConfigPreferences \<lparr>gp_nvt_oid = spq_nvt_oid query, gp_config_id = Some config_id\<rparr>))) (\<lambda>response.
     checked (read_with (bl_preferences B) response) (\<lambda>items.
       pure (Inr (map preference_from_gmp items)))))"

lemma speaks_list_scan_config_preferences [speaks]:
  "d = from_token sha session_token \<Longrightarrow> speaks_for d (gvmd_list_scan_config_preferences sha L B session_token ident query)"
  unfolding gvmd_list_scan_config_preferences_def by (auto intro!: speaks split: prod.split option.split)

definition gvmd_get_scan_config_preference ::
    "(string \<Rightarrow> u8 list) \<Rightarrow> ('r, 'g, 'f) GmpLibrary \<Rightarrow> 'r ResourceLibrary \<Rightarrow> string \<Rightarrow> string
      \<Rightarrow> string \<Rightarrow> ScanConfigPreferenceQuery \<Rightarrow> ('g Gvmd, ScanConfigPreference) operation" where
  "gvmd_get_scan_config_preference sha L B session_token ident name query =
     then_call sha session_token (parse_entity_id L ident) (\<lambda>config_id.
     chain (call sha L session_token (OnConfigs (GetScanConfigPreference name
         \<lparr>gp_nvt_oid = spq_nvt_oid query, gp_config_id = Some config_id\<rparr>))) (\<lambda>response.
     checked (read_with (bl_preferences B) response) (\<lambda>items.
       pure (case items of
               [] \<Rightarrow> Inl (NotFound (''preference '' @ name @ '' not found''))
             | item # _ \<Rightarrow> Inr (preference_from_gmp item)))))"

lemma speaks_get_scan_config_preference [speaks]:
  "d = from_token sha session_token \<Longrightarrow> speaks_for d (gvmd_get_scan_config_preference sha L B session_token ident name query)"
  unfolding gvmd_get_scan_config_preference_def by (auto intro!: speaks split: prod.split option.split)

definition gvmd_set_scan_config_nvt_selection ::
    "(string \<Rightarrow> u8 list) \<Rightarrow> ('r, 'g, 'f) GmpLibrary \<Rightarrow> 'r ResourceLibrary \<Rightarrow> string \<Rightarrow> string
      \<Rightarrow> string \<Rightarrow> string list \<Rightarrow> ('g Gvmd, unit) operation" where
  "gvmd_set_scan_config_nvt_selection sha L B session_token ident family nvt_oids =
     then_call sha session_token (parse_entity_id L ident) (\<lambda>config_id.
       call_action sha L session_token (OnConfigs (SetNvtSelection config_id family nvt_oids)))"

lemma speaks_set_scan_config_nvt_selection [speaks]:
  "d = from_token sha session_token \<Longrightarrow> speaks_for d (gvmd_set_scan_config_nvt_selection sha L B session_token ident family nvt_oids)"
  unfolding gvmd_set_scan_config_nvt_selection_def by (auto intro!: speaks split: prod.split option.split)

definition gvmd_set_scan_config_family_selection ::
    "(string \<Rightarrow> u8 list) \<Rightarrow> ('r, 'g, 'f) GmpLibrary \<Rightarrow> 'r ResourceLibrary \<Rightarrow> string \<Rightarrow> string
      \<Rightarrow> SetScanConfigFamilySelectionInput \<Rightarrow> ('g Gvmd, unit) operation" where
  "gvmd_set_scan_config_family_selection sha L B session_token ident input =
     then_call sha session_token (parse_entity_id L ident) (\<lambda>config_id.
       call_action sha L session_token (OnConfigs (SetFamilySelection config_id
         (map (\<lambda>family. \<lparr>nfs_name = sfs_name family, nfs_growing = sfs_growing family, nfs_all = sfs_all family\<rparr>)
           (sfi_families input))
         (sfi_auto_add_new_families input))))"

lemma speaks_set_scan_config_family_selection [speaks]:
  "d = from_token sha session_token \<Longrightarrow> speaks_for d (gvmd_set_scan_config_family_selection sha L B session_token ident input)"
  unfolding gvmd_set_scan_config_family_selection_def by (auto intro!: speaks split: prod.split option.split)

definition gvmd_set_scan_config_preference ::
    "(string \<Rightarrow> u8 list) \<Rightarrow> ('r, 'g, 'f) GmpLibrary \<Rightarrow> 'r ResourceLibrary \<Rightarrow> string \<Rightarrow> string
      \<Rightarrow> string \<Rightarrow> string option \<Rightarrow> string option \<Rightarrow> ('g Gvmd, unit) operation" where
  "gvmd_set_scan_config_preference sha L B session_token ident name nvt_oid v =
     checked (parse_entity_id L ident) (\<lambda>config_id.
     chain (connected sha session_token) (\<lambda>_.
       call_action sha L session_token (OnConfigs (case nvt_oid of
           Some nvt_oid \<Rightarrow> SetNvtPreference config_id name nvt_oid v
         | None \<Rightarrow> SetScannerPreference config_id name v))))"

lemma speaks_set_scan_config_preference [speaks]:
  "d = from_token sha session_token \<Longrightarrow> speaks_for d (gvmd_set_scan_config_preference sha L B session_token ident name nvt_oid v)"
  unfolding gvmd_set_scan_config_preference_def by (auto intro!: speaks split: prod.split option.split)

definition gvmd_list_policies ::
    "(string \<Rightarrow> u8 list) \<Rightarrow> ('r, 'g, 'f) GmpLibrary \<Rightarrow> 'r ResourceLibrary \<Rightarrow> string
      \<Rightarrow> ListQuery \<Rightarrow> ('g Gvmd, ScanConfig Page) operation" where
  "gvmd_list_policies sha L B session_token query =
     list_resources sha L None [] (\<lambda>filter_string. OnConfigs (GetPolicies \<lparr>lo_filter_string = filter_string, lo_details = Some True\<rparr>)) (bl_scan_configs B) scan_config_from_gmp
       session_token query"

lemma speaks_list_policies [speaks]:
  "d = from_token sha session_token \<Longrightarrow> speaks_for d (gvmd_list_policies sha L B session_token query)"
  unfolding gvmd_list_policies_def by (auto intro!: speaks split: prod.split option.split)

definition gvmd_get_policy ::
    "(string \<Rightarrow> u8 list) \<Rightarrow> ('r, 'g, 'f) GmpLibrary \<Rightarrow> 'r ResourceLibrary \<Rightarrow> string \<Rightarrow> string
      \<Rightarrow> ('g Gvmd, ScanConfig) operation" where
  "gvmd_get_policy sha L B session_token ident =
     checked (parse_entity_id L ident) (\<lambda>_.
     chain (connected sha session_token) (\<lambda>_.
       fetch_first sha L session_token (OnConfigs (GetPolicies
           \<lparr>lo_filter_string = Some (''uuid='' @ ident), lo_details = Some True\<rparr>))
         (bl_scan_configs B) scan_config_from_gmp (''policy '' @ ident @ '' not found'')))"

lemma speaks_get_policy [speaks]:
  "d = from_token sha session_token \<Longrightarrow> speaks_for d (gvmd_get_policy sha L B session_token ident)"
  unfolding gvmd_get_policy_def by (auto intro!: speaks split: prod.split option.split)

definition gvmd_create_policy ::
    "(string \<Rightarrow> u8 list) \<Rightarrow> ('r, 'g, 'f) GmpLibrary \<Rightarrow> 'r ResourceLibrary \<Rightarrow> string
      \<Rightarrow> CreateScanConfigInput \<Rightarrow> ('g Gvmd, string) operation" where
  "gvmd_create_policy sha L B session_token input =
     then_call sha session_token (Inr ()) (\<lambda>_.
       call_create sha L session_token (OnConfigs (CreatePolicy (sci_name input) (sci_comment input))))"

lemma speaks_create_policy [speaks]:
  "d = from_token sha session_token \<Longrightarrow> speaks_for d (gvmd_create_policy sha L B session_token input)"
  unfolding gvmd_create_policy_def by (auto intro!: speaks split: prod.split option.split)

definition gvmd_modify_policy ::
    "(string \<Rightarrow> u8 list) \<Rightarrow> ('r, 'g, 'f) GmpLibrary \<Rightarrow> 'r ResourceLibrary \<Rightarrow> string \<Rightarrow> string
      \<Rightarrow> ModifyScanConfigInput \<Rightarrow> ('g Gvmd, ScanConfig) operation" where
  "gvmd_modify_policy sha L B session_token ident input =
     chain (connected sha session_token) (\<lambda>_.
     checked (parse_entity_id L ident) (\<lambda>config_id.
     chain (call_action sha L session_token (OnConfigs (ModifyConfigGeneric config_id
         \<lparr>cfm_name = scm_name input, cfm_comment = scm_comment input, cfm_usage_type = Some ConfigUsagePolicy\<rparr>))) (\<lambda>_.
       gvmd_get_policy sha L B session_token ident)))"

lemma speaks_modify_policy [speaks]:
  "d = from_token sha session_token \<Longrightarrow> speaks_for d (gvmd_modify_policy sha L B session_token ident input)"
  unfolding gvmd_modify_policy_def by (auto intro!: speaks split: prod.split option.split)

definition gvmd_delete_policy ::
    "(string \<Rightarrow> u8 list) \<Rightarrow> ('r, 'g, 'f) GmpLibrary \<Rightarrow> 'r ResourceLibrary \<Rightarrow> string \<Rightarrow> string
      \<Rightarrow> ('g Gvmd, unit) operation" where
  "gvmd_delete_policy sha L B session_token ident =
     delete_one sha L (\<lambda>entity_id. OnConfigs (DeletePolicy entity_id)) session_token ident"

lemma speaks_delete_policy [speaks]:
  "d = from_token sha session_token \<Longrightarrow> speaks_for d (gvmd_delete_policy sha L B session_token ident)"
  unfolding gvmd_delete_policy_def by (auto intro!: speaks split: prod.split option.split)

definition gvmd_scan_config_port ::
    "(string \<Rightarrow> u8 list) \<Rightarrow> ('r, 'g, 'f) GmpLibrary \<Rightarrow> 'r ResourceLibrary
      \<Rightarrow> 'g Gvmd ScanConfigPort" where
  "gvmd_scan_config_port sha L B =
     \<lparr>xp_list_configs = gvmd_list_configs sha L B,
      xp_get_config = gvmd_get_config sha L B,
      xp_delete_config = gvmd_delete_config sha L B,
      xp_clone_config = gvmd_clone_config sha L B,
      xp_list_scan_configs = gvmd_list_scan_configs sha L B,
      xp_create_scan_config = gvmd_create_scan_config sha L B,
      xp_get_scan_config = gvmd_get_scan_config sha L B,
      xp_modify_scan_config = gvmd_modify_scan_config sha L B,
      xp_delete_scan_config = gvmd_delete_scan_config sha L B,
      xp_list_scan_config_nvts = gvmd_list_scan_config_nvts sha L B,
      xp_get_scan_config_nvt = gvmd_get_scan_config_nvt sha L B,
      xp_list_scan_config_preferences = gvmd_list_scan_config_preferences sha L B,
      xp_get_scan_config_preference = gvmd_get_scan_config_preference sha L B,
      xp_set_scan_config_nvt_selection = gvmd_set_scan_config_nvt_selection sha L B,
      xp_set_scan_config_family_selection = gvmd_set_scan_config_family_selection sha L B,
      xp_set_scan_config_preference = gvmd_set_scan_config_preference sha L B,
      xp_list_policies = gvmd_list_policies sha L B,
      xp_get_policy = gvmd_get_policy sha L B,
      xp_create_policy = gvmd_create_policy sha L B,
      xp_modify_policy = gvmd_modify_policy sha L B,
      xp_delete_policy = gvmd_delete_policy sha L B\<rparr>"

section \<open>Use cases\<close>

definition list_configs ::
    "'s ScanConfigPort \<Rightarrow> (string \<Rightarrow> u8 list) \<Rightarrow> u64 \<Rightarrow> string \<Rightarrow> GenericConfigQuery
      \<Rightarrow> 's GatewayService \<Rightarrow> GenericConfig Page result \<times> 's GatewayService" where
  "list_configs port sha now session_token query =
     use_port sha now session_token ''list'' ''config'' (\<lambda>token. xp_list_configs port token query)"

definition get_config ::
    "'s ScanConfigPort \<Rightarrow> (string \<Rightarrow> u8 list) \<Rightarrow> u64 \<Rightarrow> string \<Rightarrow> string \<Rightarrow> 's GatewayService
      \<Rightarrow> GenericConfig result \<times> 's GatewayService" where
  "get_config port sha now session_token ident =
     use_port sha now session_token ''read'' ''config'' (\<lambda>token. xp_get_config port token ident)"

definition delete_config ::
    "'s ScanConfigPort \<Rightarrow> (string \<Rightarrow> u8 list) \<Rightarrow> u64 \<Rightarrow> string \<Rightarrow> string \<Rightarrow> bool
      \<Rightarrow> 's GatewayService \<Rightarrow> unit result \<times> 's GatewayService" where
  "delete_config port sha now session_token ident ultimate =
     use_port sha now session_token ''delete'' ''config'' (\<lambda>token. xp_delete_config port token ident ultimate)"

definition clone_config ::
    "'s ScanConfigPort \<Rightarrow> (string \<Rightarrow> u8 list) \<Rightarrow> u64 \<Rightarrow> string \<Rightarrow> string \<Rightarrow> 's GatewayService
      \<Rightarrow> string result \<times> 's GatewayService" where
  "clone_config port sha now session_token ident =
     use_port sha now session_token ''create'' ''config'' (\<lambda>token. xp_clone_config port token ident)"

definition list_scan_configs ::
    "'s ScanConfigPort \<Rightarrow> (string \<Rightarrow> u8 list) \<Rightarrow> u64 \<Rightarrow> string \<Rightarrow> ListQuery
      \<Rightarrow> 's GatewayService \<Rightarrow> ScanConfig Page result \<times> 's GatewayService" where
  "list_scan_configs port sha now session_token query =
     use_port sha now session_token ''list'' ''scan_config'' (\<lambda>token. xp_list_scan_configs port token query)"

definition create_scan_config ::
    "'s ScanConfigPort \<Rightarrow> (string \<Rightarrow> u8 list) \<Rightarrow> u64 \<Rightarrow> string \<Rightarrow> CreateScanConfigInput
      \<Rightarrow> 's GatewayService \<Rightarrow> string result \<times> 's GatewayService" where
  "create_scan_config port sha now session_token input =
     use_port sha now session_token ''create'' ''scan_config'' (\<lambda>token. xp_create_scan_config port token input)"

definition get_scan_config ::
    "'s ScanConfigPort \<Rightarrow> (string \<Rightarrow> u8 list) \<Rightarrow> u64 \<Rightarrow> string \<Rightarrow> string \<Rightarrow> 's GatewayService
      \<Rightarrow> ScanConfig result \<times> 's GatewayService" where
  "get_scan_config port sha now session_token ident =
     use_port sha now session_token ''read'' ''scan_config'' (\<lambda>token. xp_get_scan_config port token ident)"

definition modify_scan_config ::
    "'s ScanConfigPort \<Rightarrow> (string \<Rightarrow> u8 list) \<Rightarrow> u64 \<Rightarrow> string \<Rightarrow> string
      \<Rightarrow> ModifyScanConfigInput \<Rightarrow> 's GatewayService
      \<Rightarrow> ScanConfig result \<times> 's GatewayService" where
  "modify_scan_config port sha now session_token ident input =
     use_port sha now session_token ''modify'' ''scan_config'' (\<lambda>token. xp_modify_scan_config port token ident input)"

definition delete_scan_config ::
    "'s ScanConfigPort \<Rightarrow> (string \<Rightarrow> u8 list) \<Rightarrow> u64 \<Rightarrow> string \<Rightarrow> string \<Rightarrow> bool
      \<Rightarrow> 's GatewayService \<Rightarrow> unit result \<times> 's GatewayService" where
  "delete_scan_config port sha now session_token ident ultimate =
     use_port sha now session_token ''delete'' ''scan_config'' (\<lambda>token. xp_delete_scan_config port token ident ultimate)"

definition list_scan_config_nvts ::
    "'s ScanConfigPort \<Rightarrow> (string \<Rightarrow> u8 list) \<Rightarrow> u64 \<Rightarrow> string \<Rightarrow> string
      \<Rightarrow> ScanConfigNvtQuery \<Rightarrow> 's GatewayService \<Rightarrow> Nvt Page result \<times> 's GatewayService" where
  "list_scan_config_nvts port sha now session_token ident query =
     use_port sha now session_token ''list'' ''scan_config_nvt'' (\<lambda>token. xp_list_scan_config_nvts port token ident query)"

definition get_scan_config_nvt ::
    "'s ScanConfigPort \<Rightarrow> (string \<Rightarrow> u8 list) \<Rightarrow> u64 \<Rightarrow> string \<Rightarrow> string \<Rightarrow> string
      \<Rightarrow> 's GatewayService \<Rightarrow> Nvt result \<times> 's GatewayService" where
  "get_scan_config_nvt port sha now session_token ident oid =
     use_port sha now session_token ''read'' ''scan_config_nvt'' (\<lambda>token. xp_get_scan_config_nvt port token ident oid)"

definition list_scan_config_preferences ::
    "'s ScanConfigPort \<Rightarrow> (string \<Rightarrow> u8 list) \<Rightarrow> u64 \<Rightarrow> string \<Rightarrow> string
      \<Rightarrow> ScanConfigPreferenceQuery \<Rightarrow> 's GatewayService
      \<Rightarrow> ScanConfigPreference list result \<times> 's GatewayService" where
  "list_scan_config_preferences port sha now session_token ident query =
     use_port sha now session_token ''list'' ''scan_config_preference'' (\<lambda>token. xp_list_scan_config_preferences port token ident query)"

definition get_scan_config_preference ::
    "'s ScanConfigPort \<Rightarrow> (string \<Rightarrow> u8 list) \<Rightarrow> u64 \<Rightarrow> string \<Rightarrow> string \<Rightarrow> string
      \<Rightarrow> ScanConfigPreferenceQuery \<Rightarrow> 's GatewayService
      \<Rightarrow> ScanConfigPreference result \<times> 's GatewayService" where
  "get_scan_config_preference port sha now session_token ident name query =
     use_port sha now session_token ''read'' ''scan_config_preference'' (\<lambda>token. xp_get_scan_config_preference port token ident name query)"

definition set_scan_config_nvt_selection ::
    "'s ScanConfigPort \<Rightarrow> (string \<Rightarrow> u8 list) \<Rightarrow> u64 \<Rightarrow> string \<Rightarrow> string \<Rightarrow> string
      \<Rightarrow> string list \<Rightarrow> 's GatewayService \<Rightarrow> unit result \<times> 's GatewayService" where
  "set_scan_config_nvt_selection port sha now session_token ident family nvt_oids =
     use_port sha now session_token ''modify'' ''scan_config'' (\<lambda>token. xp_set_scan_config_nvt_selection port token ident family nvt_oids)"

definition set_scan_config_family_selection ::
    "'s ScanConfigPort \<Rightarrow> (string \<Rightarrow> u8 list) \<Rightarrow> u64 \<Rightarrow> string \<Rightarrow> string
      \<Rightarrow> SetScanConfigFamilySelectionInput \<Rightarrow> 's GatewayService
      \<Rightarrow> unit result \<times> 's GatewayService" where
  "set_scan_config_family_selection port sha now session_token ident input =
     use_port sha now session_token ''modify'' ''scan_config'' (\<lambda>token. xp_set_scan_config_family_selection port token ident input)"

definition set_scan_config_preference ::
    "'s ScanConfigPort \<Rightarrow> (string \<Rightarrow> u8 list) \<Rightarrow> u64 \<Rightarrow> string \<Rightarrow> string \<Rightarrow> string
      \<Rightarrow> string option \<Rightarrow> string option \<Rightarrow> 's GatewayService
      \<Rightarrow> unit result \<times> 's GatewayService" where
  "set_scan_config_preference port sha now session_token ident name nvt_oid v =
     use_port sha now session_token ''modify'' ''scan_config_preference'' (\<lambda>token. xp_set_scan_config_preference port token ident name nvt_oid v)"

definition list_policies ::
    "'s ScanConfigPort \<Rightarrow> (string \<Rightarrow> u8 list) \<Rightarrow> u64 \<Rightarrow> string \<Rightarrow> ListQuery
      \<Rightarrow> 's GatewayService \<Rightarrow> ScanConfig Page result \<times> 's GatewayService" where
  "list_policies port sha now session_token query =
     use_port sha now session_token ''list'' ''policy'' (\<lambda>token. xp_list_policies port token query)"

definition get_policy ::
    "'s ScanConfigPort \<Rightarrow> (string \<Rightarrow> u8 list) \<Rightarrow> u64 \<Rightarrow> string \<Rightarrow> string \<Rightarrow> 's GatewayService
      \<Rightarrow> ScanConfig result \<times> 's GatewayService" where
  "get_policy port sha now session_token ident =
     use_port sha now session_token ''read'' ''policy'' (\<lambda>token. xp_get_policy port token ident)"

definition create_policy ::
    "'s ScanConfigPort \<Rightarrow> (string \<Rightarrow> u8 list) \<Rightarrow> u64 \<Rightarrow> string \<Rightarrow> CreateScanConfigInput
      \<Rightarrow> 's GatewayService \<Rightarrow> string result \<times> 's GatewayService" where
  "create_policy port sha now session_token input =
     use_port sha now session_token ''create'' ''policy'' (\<lambda>token. xp_create_policy port token input)"

definition modify_policy ::
    "'s ScanConfigPort \<Rightarrow> (string \<Rightarrow> u8 list) \<Rightarrow> u64 \<Rightarrow> string \<Rightarrow> string
      \<Rightarrow> ModifyScanConfigInput \<Rightarrow> 's GatewayService
      \<Rightarrow> ScanConfig result \<times> 's GatewayService" where
  "modify_policy port sha now session_token ident input =
     use_port sha now session_token ''modify'' ''policy'' (\<lambda>token. xp_modify_policy port token ident input)"

definition delete_policy ::
    "'s ScanConfigPort \<Rightarrow> (string \<Rightarrow> u8 list) \<Rightarrow> u64 \<Rightarrow> string \<Rightarrow> string \<Rightarrow> 's GatewayService
      \<Rightarrow> unit result \<times> 's GatewayService" where
  "delete_policy port sha now session_token ident =
     use_port sha now session_token ''delete'' ''policy'' (\<lambda>token. xp_delete_policy port token ident)"

section \<open>Responses\<close>

datatype ScanConfigTypeValue = ScanConfigOpenVas | ScanConfigOsp | UnknownScanConfigType u32

definition scan_config_type_parse :: "u32 \<Rightarrow> ScanConfigTypeValue" where
  "scan_config_type_parse v =
     (if v = 0 then ScanConfigOpenVas else if v = 1 then ScanConfigOsp else UnknownScanConfigType v)"

datatype ConfigUsageTypeValue =
    ConfigUsageValueScan | ConfigUsageValueAudit | ConfigUsageValuePolicy | UnknownConfigUsageType
  string

definition config_usage_type_values :: "(string \<times> ConfigUsageTypeValue) list" where
  "config_usage_type_values =
     [(''scan'', ConfigUsageValueScan), (''audit'', ConfigUsageValueAudit), (''policy'',
      ConfigUsageValuePolicy)]"

definition config_usage_type_parse :: "string \<Rightarrow> ConfigUsageTypeValue" where
  "config_usage_type_parse = open_enum_parse config_usage_type_values UnknownConfigUsageType"

definition config_usage_type_as_str :: "ConfigUsageTypeValue \<Rightarrow> string" where
  "config_usage_type_as_str t =
     (case t of UnknownConfigUsageType s \<Rightarrow> s
      | _ \<Rightarrow> (case open_enum_name config_usage_type_values t of Some v \<Rightarrow> v | None \<Rightarrow> []))"

record ScanConfigResponse =
  scr_id :: string
  scr_name :: string
  scr_comment :: "string option"
  scr_family_count :: "u32 option"
  scr_nvt_count :: "u32 option"
  scr_config_type :: "ScanConfigTypeValue option"
  scr_usage_type :: "string option"
  scr_in_use :: bool
  scr_writable :: bool

definition scan_config_response :: "(string \<Rightarrow> string option) \<Rightarrow> ScanConfig \<Rightarrow> ScanConfigResponse" where
  "scan_config_response uuid sc =
     \<lparr>scr_id = parse_uuid uuid (scc_id sc), scr_name = scc_name sc, scr_comment = scc_comment sc,
      scr_family_count = scc_family_count sc, scr_nvt_count = scc_nvt_count sc,
      scr_config_type = map_option scan_config_type_parse (scc_config_type sc), scr_usage_type = scc_usage_type sc,
      scr_in_use = scc_in_use sc, scr_writable = scc_writable sc\<rparr>"

record GenericConfigResponse =
  gcr_id :: string
  gcr_name :: string
  gcr_comment :: "string option"
  gcr_config_type :: "u32 option"
  gcr_usage_type :: ConfigUsageTypeValue
  gcr_in_use :: bool
  gcr_writable :: bool

definition generic_config_response :: "(string \<Rightarrow> string option) \<Rightarrow> GenericConfig \<Rightarrow> GenericConfigResponse" where
  "generic_config_response uuid config =
     \<lparr>gcr_id = parse_uuid uuid (gnc_id config), gcr_name = gnc_name config, gcr_comment = gnc_comment config,
      gcr_config_type = gnc_config_type config, gcr_usage_type = config_usage_type_parse (gnc_usage_type config),
      gcr_in_use = gnc_in_use config, gcr_writable = gnc_writable config\<rparr>"

record ScanConfigPreferenceNvtResponse =
  spnr_oid :: string
  spnr_name :: "string option"

record ScanConfigPreferenceResponse =
  sprr_nvt :: "ScanConfigPreferenceNvtResponse option"
  sprr_name :: string
  sprr_id :: "string option"
  sprr_preference_type :: "string option"
  sprr_value :: "string option"
  sprr_alternatives :: "string list"
  sprr_default :: "string option"

definition scan_config_preference_response :: "ScanConfigPreference \<Rightarrow> ScanConfigPreferenceResponse" where
  "scan_config_preference_response p =
     \<lparr>sprr_nvt = map_option (\<lambda>nvt. \<lparr>spnr_oid = spn_oid nvt, spnr_name = spn_name nvt\<rparr>) (spr_nvt p),
      sprr_name = spr_name p, sprr_id = spr_id p, sprr_preference_type = spr_preference_type p,
      sprr_value = spr_value p, sprr_alternatives = spr_alternatives p, sprr_default = spr_default p\<rparr>"

section \<open>Requests\<close>

record CreateScanConfigRequest =
  scrq_name :: "string option"
  scrq_comment :: "string option"
  scrq_base_scan_config_id :: "string option"

record ModifyScanConfigRequest =
  scmq_name :: "string option"
  scmq_comment :: "string option"

record SetNvtSelectionRequest =
  nsr_nvt_oids :: "string list"

record FamilySelectionRequest =
  fsr_name :: string
  fsr_growing :: bool
  fsr_all :: bool

record SetFamilySelectionRequest =
  fsq_families :: "FamilySelectionRequest list"
  fsq_auto_add_new_families :: bool

record SetPreferenceRequest =
  spf_nvt_oid :: "string option"
  spf_value :: "string option"

definition validate_create_scan_config ::
    "(string \<Rightarrow> string option) \<Rightarrow> CreateScanConfigRequest \<Rightarrow> CreateScanConfigInput result" where
  "validate_create_scan_config uuid r =
     and_then (required_text ''name'' (scrq_name r)) (\<lambda>name.
     and_then (validate_optional_uuid uuid ''baseScanConfigId'' (scrq_base_scan_config_id r)) (\<lambda>_.
       Inr \<lparr>sci_name = name, sci_comment = scrq_comment r, sci_base_scan_config_id = scrq_base_scan_config_id r\<rparr>))"

definition validate_modify_scan_config :: "ModifyScanConfigRequest \<Rightarrow> ModifyScanConfigInput result" where
  "validate_modify_scan_config r = Inr \<lparr>scm_name = scmq_name r, scm_comment = scmq_comment r\<rparr>"

text \<open>Texts are compared by their length in bytes.\<close>

definition require_bounded :: "string \<Rightarrow> string \<Rightarrow> nat \<Rightarrow> string result" where
  "require_bounded field v limit =
     (if trim v = [] \<or> length v > limit
      then Inl (InvalidInput (field @ '' must contain between 1 and '' @ show_nat limit @ '' bytes''))
      else Inr v)"

definition require_oid :: "string \<Rightarrow> string \<Rightarrow> string result" where
  "require_oid field v =
     (if v = [] \<or> length v > 255 \<or> list_ex (\<lambda>part. part = []) (split_on (CHR ''.'') v)
         \<or> list_ex (\<lambda>b. dec_digit b = None \<and> b \<noteq> CHR ''.'') v
      then Inl (InvalidInput (field @ '' must be a dotted numeric OID''))
      else Inr v)"

text \<open>The variables of the loop: family, page and page size.\<close>

fun config_nvt_loop :: "string option \<Rightarrow> u32 \<Rightarrow> u32 \<Rightarrow> (string \<times> string) list \<Rightarrow> (string option \<times> u32 \<times> u32) result" where
  "config_nvt_loop family page per_page [] = Inr (family, page, per_page)"
| "config_nvt_loop family page per_page ((key, v) # pairs) =
     (if key = ''family'' then
        and_then (require_bounded ''family'' v 512) (\<lambda>family. config_nvt_loop (Some family) page per_page pairs)
      else if key = ''page'' then
        (case parse_u32 v of
           None \<Rightarrow> Inl (InvalidInput ''page must be a positive integer'')
         | Some p \<Rightarrow> config_nvt_loop family p per_page pairs)
      else if key = ''perPage'' \<or> key = ''per_page'' then
        (case parse_u32 v of
           None \<Rightarrow> Inl (InvalidInput ''perPage must be a positive integer'')
         | Some n \<Rightarrow> config_nvt_loop family page n pairs)
      else config_nvt_loop family page per_page pairs)"

definition parse_scan_config_nvt_query ::
    "(string \<Rightarrow> (string \<times> string) list) \<Rightarrow> string \<Rightarrow> ScanConfigNvtQuery result" where
  "parse_scan_config_nvt_query decode query =
     and_then (config_nvt_loop None 1 25 (decode query)) (\<lambda>(family, page, per_page).
       if page = 0 \<or> per_page = 0 \<or> per_page > 1000
       then Inl (InvalidInput ''page must be at least 1 and perPage between 1 and 1000'')
       else Inr \<lparr>scq_family = family, scq_page = page, scq_per_page = per_page\<rparr>)"

fun preference_query_loop :: "string option \<Rightarrow> (string \<times> string) list \<Rightarrow> string option result" where
  "preference_query_loop nvt_oid [] = Inr nvt_oid"
| "preference_query_loop nvt_oid ((key, v) # pairs) =
     (if key = ''nvtOid'' then and_then (require_oid ''nvtOid'' v) (\<lambda>oid. preference_query_loop (Some oid) pairs)
      else preference_query_loop nvt_oid pairs)"

definition parse_preference_query ::
    "(string \<Rightarrow> (string \<times> string) list) \<Rightarrow> string \<Rightarrow> ScanConfigPreferenceQuery result" where
  "parse_preference_query decode query =
     and_then (preference_query_loop None (decode query)) (\<lambda>nvt_oid. Inr \<lparr>spq_nvt_oid = nvt_oid\<rparr>)"

definition parse_config_query ::
    "(string \<Rightarrow> (string \<times> string) list) \<Rightarrow> (string \<Rightarrow> string option) \<Rightarrow> string \<Rightarrow> GenericConfigQuery result" where
  "parse_config_query decode uuid raw =
     and_then (parse_collection_query decode (\<lambda>s. uuid s \<noteq> None) raw) (\<lambda>common.
     and_then (open_query_value ''usageType'' None (decode raw)) (\<lambda>usage_type.
       Inr \<lparr>lq_filter_string = cq_filter_string common, lq_filter_id = cq_filter_id common,
            lq_page = cq_page common, lq_per_page = cq_per_page common, gq_usage_type = usage_type\<rparr>))"

definition validate_nvt_selection :: "SetNvtSelectionRequest \<Rightarrow> string list result" where
  "validate_nvt_selection r =
     (if length (nsr_nvt_oids r) > 10000 \<or> list_ex (\<lambda>oid. \<not> is_ok (require_oid ''nvtOids'' oid)) (nsr_nvt_oids r)
      then Inl (InvalidInput ''nvtOids must contain at most 10000 non-empty OIDs'')
      else Inr (nsr_nvt_oids r))"

definition validate_family_selection :: "SetFamilySelectionRequest \<Rightarrow> SetScanConfigFamilySelectionInput result" where
  "validate_family_selection r =
     (if length (fsq_families r) > 1000
         \<or> list_ex (\<lambda>family. trim (fsr_name family) = [] \<or> length (fsr_name family) > 512) (fsq_families r)
      then Inl (InvalidInput ''families must contain at most 1000 non-empty family names'')
      else Inr
        \<lparr>sfi_families = map (\<lambda>family. \<lparr>sfs_name = fsr_name family, sfs_growing = fsr_growing family,
           sfs_all = fsr_all family\<rparr>) (fsq_families r),
         sfi_auto_add_new_families = fsq_auto_add_new_families r\<rparr>)"

definition validate_set_preference :: "SetPreferenceRequest \<Rightarrow> (string option \<times> string option) result" where
  "validate_set_preference r =
     (if (case spf_nvt_oid r of None \<Rightarrow> False | Some oid \<Rightarrow> \<not> is_ok (require_oid ''nvtOid'' oid))
         \<or> (case spf_value r of None \<Rightarrow> False | Some v \<Rightarrow> length v > 65536)
      then Inl (InvalidInput ''nvtOid must be non-empty and preference values are limited to 65536 bytes'')
      else Inr (spf_nvt_oid r, spf_value r))"

section \<open>Handlers\<close>

definition rest_list_configs ::
    "(string \<Rightarrow> (string \<times> string) list) \<Rightarrow> (string \<Rightarrow> string option)
      \<Rightarrow> 's ScanConfigPort \<Rightarrow> (string \<Rightarrow> u8 list) \<Rightarrow> u64 \<Rightarrow> Request \<Rightarrow> 's GatewayService
      \<Rightarrow> GenericConfigResponse ListResponse RestBody Response \<times> 's GatewayService" where
  "rest_list_configs decode uuid port sha now =
     list_resource (parse_config_query decode uuid) (\<lambda>session query. list_configs port sha now session query) (list_response (generic_config_response uuid))"

definition rest_get_config ::
    "(string \<Rightarrow> string option) \<Rightarrow> 's ScanConfigPort \<Rightarrow> (string \<Rightarrow> u8 list) \<Rightarrow> u64 \<Rightarrow> string
      \<Rightarrow> Request \<Rightarrow> 's GatewayService
      \<Rightarrow> GenericConfigResponse RestBody Response \<times> 's GatewayService" where
  "rest_get_config uuid port sha now =
     get_resource uuid (\<lambda>session ident. get_config port sha now session ident) (generic_config_response uuid)"

definition rest_delete_config ::
    "(string \<Rightarrow> (string \<times> string) list) \<Rightarrow> (string \<Rightarrow> string option)
      \<Rightarrow> 's ScanConfigPort \<Rightarrow> (string \<Rightarrow> u8 list) \<Rightarrow> u64 \<Rightarrow> string \<Rightarrow> Request
      \<Rightarrow> 's GatewayService
      \<Rightarrow> GenericConfigResponse RestBody Response \<times> 's GatewayService" where
  "rest_delete_config decode uuid port sha now =
     delete_resource uuid decode (\<lambda>session ident ultimate. delete_config port sha now session ident ultimate)"

definition rest_clone_config ::
    "(string \<Rightarrow> string option) \<Rightarrow> 's ScanConfigPort \<Rightarrow> (string \<Rightarrow> u8 list) \<Rightarrow> u64 \<Rightarrow> string
      \<Rightarrow> Request \<Rightarrow> 's GatewayService
      \<Rightarrow> GenericConfigResponse RestBody Response \<times> 's GatewayService" where
  "rest_clone_config uuid port sha now =
     clone_resource uuid ''/api/v1/configs'' (\<lambda>session ident. clone_config port sha now session ident)"

definition rest_list_scan_configs ::
    "(string \<Rightarrow> (string \<times> string) list) \<Rightarrow> (string \<Rightarrow> string option)
      \<Rightarrow> 's ScanConfigPort \<Rightarrow> (string \<Rightarrow> u8 list) \<Rightarrow> u64 \<Rightarrow> Request \<Rightarrow> 's GatewayService
      \<Rightarrow> ScanConfigResponse ListResponse RestBody Response \<times> 's GatewayService" where
  "rest_list_scan_configs decode uuid port sha now =
     list_resource (list_query decode uuid) (\<lambda>session query. list_scan_configs port sha now session query) (list_response (scan_config_response uuid))"

definition rest_create_scan_config ::
    "(string \<Rightarrow> string option) \<Rightarrow> (u8 list \<Rightarrow> string + CreateScanConfigRequest)
      \<Rightarrow> 's ScanConfigPort \<Rightarrow> (string \<Rightarrow> u8 list) \<Rightarrow> u64 \<Rightarrow> Request \<Rightarrow> 's GatewayService
      \<Rightarrow> ScanConfigResponse RestBody Response \<times> 's GatewayService" where
  "rest_create_scan_config uuid from_slice port sha now =
     create_resource uuid from_slice (validate_create_scan_config uuid) (\<lambda>session input. create_scan_config port sha now session input)"

definition rest_get_scan_config ::
    "(string \<Rightarrow> string option) \<Rightarrow> 's ScanConfigPort \<Rightarrow> (string \<Rightarrow> u8 list) \<Rightarrow> u64 \<Rightarrow> string
      \<Rightarrow> Request \<Rightarrow> 's GatewayService
      \<Rightarrow> ScanConfigResponse RestBody Response \<times> 's GatewayService" where
  "rest_get_scan_config uuid port sha now =
     get_resource uuid (\<lambda>session ident. get_scan_config port sha now session ident) (scan_config_response uuid)"

definition rest_update_scan_config ::
    "(string \<Rightarrow> string option) \<Rightarrow> (u8 list \<Rightarrow> string + ModifyScanConfigRequest)
      \<Rightarrow> 's ScanConfigPort \<Rightarrow> (string \<Rightarrow> u8 list) \<Rightarrow> u64 \<Rightarrow> string \<Rightarrow> Request
      \<Rightarrow> 's GatewayService \<Rightarrow> ScanConfigResponse RestBody Response \<times> 's GatewayService" where
  "rest_update_scan_config uuid from_slice port sha now =
     update_resource uuid from_slice (validate_modify_scan_config) (\<lambda>session ident input. modify_scan_config port sha now session ident input) (scan_config_response uuid)"

definition rest_delete_scan_config ::
    "(string \<Rightarrow> (string \<times> string) list) \<Rightarrow> (string \<Rightarrow> string option)
      \<Rightarrow> 's ScanConfigPort \<Rightarrow> (string \<Rightarrow> u8 list) \<Rightarrow> u64 \<Rightarrow> string \<Rightarrow> Request
      \<Rightarrow> 's GatewayService \<Rightarrow> ScanConfigResponse RestBody Response \<times> 's GatewayService" where
  "rest_delete_scan_config decode uuid port sha now =
     delete_resource uuid decode (\<lambda>session ident ultimate. delete_scan_config port sha now session ident ultimate)"

definition rest_list_scan_config_nvts ::
    "(string \<Rightarrow> (string \<times> string) list) \<Rightarrow> (string \<Rightarrow> string option)
      \<Rightarrow> 's ScanConfigPort \<Rightarrow> (string \<Rightarrow> u8 list) \<Rightarrow> u64 \<Rightarrow> string \<Rightarrow> Request
      \<Rightarrow> 's GatewayService
      \<Rightarrow> NvtResponse ListResponse RestBody Response \<times> 's GatewayService" where
  "rest_list_scan_config_nvts decode uuid port sha now ident =
     after_check (check_uuid uuid ''id'' ident) (\<lambda>_.
     after_query (parse_scan_config_nvt_query decode) (\<lambda>query.
       authenticated_resource (\<lambda>session. list_scan_config_nvts port sha now session ident query)
         (list_response nvt_response)))"

definition rest_get_scan_config_nvt ::
    "(string \<Rightarrow> string option) \<Rightarrow> 's ScanConfigPort \<Rightarrow> (string \<Rightarrow> u8 list) \<Rightarrow> u64 \<Rightarrow> string
      \<Rightarrow> string \<Rightarrow> Request \<Rightarrow> 's GatewayService
      \<Rightarrow> NvtResponse RestBody Response \<times> 's GatewayService" where
  "rest_get_scan_config_nvt uuid port sha now ident oid =
     after_check (check_uuid uuid ''id'' ident) (\<lambda>_.
     after_check (require_oid ''oid'' oid) (\<lambda>oid.
       authenticated_resource (\<lambda>session. get_scan_config_nvt port sha now session ident oid) nvt_response))"

definition rest_list_scan_config_preferences ::
    "(string \<Rightarrow> (string \<times> string) list) \<Rightarrow> (string \<Rightarrow> string option)
      \<Rightarrow> 's ScanConfigPort \<Rightarrow> (string \<Rightarrow> u8 list) \<Rightarrow> u64 \<Rightarrow> string \<Rightarrow> Request
      \<Rightarrow> 's GatewayService
      \<Rightarrow> ScanConfigPreferenceResponse list RestBody Response \<times> 's GatewayService" where
  "rest_list_scan_config_preferences decode uuid port sha now ident =
     after_check (check_uuid uuid ''id'' ident) (\<lambda>_.
     after_query (parse_preference_query decode) (\<lambda>query.
       authenticated_resource (\<lambda>session. list_scan_config_preferences port sha now session ident query)
         (map scan_config_preference_response)))"

definition rest_get_scan_config_preference ::
    "(string \<Rightarrow> (string \<times> string) list) \<Rightarrow> (string \<Rightarrow> string option)
      \<Rightarrow> 's ScanConfigPort \<Rightarrow> (string \<Rightarrow> u8 list) \<Rightarrow> u64 \<Rightarrow> string \<Rightarrow> string \<Rightarrow> Request
      \<Rightarrow> 's GatewayService
      \<Rightarrow> ScanConfigPreferenceResponse RestBody Response \<times> 's GatewayService" where
  "rest_get_scan_config_preference decode uuid port sha now ident name =
     after_check (check_uuid uuid ''id'' ident) (\<lambda>_.
     after_check (require_bounded ''name'' name 512) (\<lambda>name.
     after_query (parse_preference_query decode) (\<lambda>query.
       authenticated_resource (\<lambda>session. get_scan_config_preference port sha now session ident name query)
         scan_config_preference_response)))"

definition rest_set_scan_config_nvt_selection ::
    "(string \<Rightarrow> string option) \<Rightarrow> (u8 list \<Rightarrow> string + SetNvtSelectionRequest)
      \<Rightarrow> 's ScanConfigPort \<Rightarrow> (string \<Rightarrow> u8 list) \<Rightarrow> u64 \<Rightarrow> string \<Rightarrow> string \<Rightarrow> Request
      \<Rightarrow> 's GatewayService \<Rightarrow> ScanConfigResponse RestBody Response \<times> 's GatewayService" where
  "rest_set_scan_config_nvt_selection uuid from_slice port sha now ident family =
     after_check (check_uuid uuid ''id'' ident) (\<lambda>_.
     after_check (require_bounded ''family'' family 512) (\<lambda>family.
     after_body (\<lambda>body. and_then (parse_json_body_with from_slice
         (\<lambda>_. InvalidInput ''request body must be a valid NVT selection'') body) validate_nvt_selection) (\<lambda>nvt_oids.
       authenticated_command (\<lambda>session. set_scan_config_nvt_selection port sha now session ident family nvt_oids))))"

definition rest_set_scan_config_family_selection ::
    "(string \<Rightarrow> string option) \<Rightarrow> (u8 list \<Rightarrow> string + SetFamilySelectionRequest)
      \<Rightarrow> 's ScanConfigPort \<Rightarrow> (string \<Rightarrow> u8 list) \<Rightarrow> u64 \<Rightarrow> string \<Rightarrow> Request
      \<Rightarrow> 's GatewayService \<Rightarrow> ScanConfigResponse RestBody Response \<times> 's GatewayService" where
  "rest_set_scan_config_family_selection uuid from_slice port sha now ident =
     after_check (check_uuid uuid ''id'' ident) (\<lambda>_.
     after_body (\<lambda>body. and_then (parse_json_body_with from_slice
         (\<lambda>_. InvalidInput ''request body must be a valid family selection'') body) validate_family_selection) (\<lambda>input.
       authenticated_command (\<lambda>session. set_scan_config_family_selection port sha now session ident input)))"

definition rest_set_scan_config_preference ::
    "(string \<Rightarrow> string option) \<Rightarrow> (u8 list \<Rightarrow> string + SetPreferenceRequest)
      \<Rightarrow> 's ScanConfigPort \<Rightarrow> (string \<Rightarrow> u8 list) \<Rightarrow> u64 \<Rightarrow> string \<Rightarrow> string \<Rightarrow> Request
      \<Rightarrow> 's GatewayService \<Rightarrow> ScanConfigResponse RestBody Response \<times> 's GatewayService" where
  "rest_set_scan_config_preference uuid from_slice port sha now ident name =
     after_check (check_uuid uuid ''id'' ident) (\<lambda>_.
     after_check (require_bounded ''name'' name 512) (\<lambda>name.
     after_body (\<lambda>body. and_then (parse_json_body_with from_slice
         (\<lambda>_. InvalidInput ''request body must be a valid preference update'') body) validate_set_preference) (\<lambda>update.
       authenticated_command (\<lambda>session. set_scan_config_preference port sha now session ident name
         (fst update) (snd update)))))"

definition rest_list_policies ::
    "(string \<Rightarrow> (string \<times> string) list) \<Rightarrow> (string \<Rightarrow> string option)
      \<Rightarrow> 's ScanConfigPort \<Rightarrow> (string \<Rightarrow> u8 list) \<Rightarrow> u64 \<Rightarrow> Request \<Rightarrow> 's GatewayService
      \<Rightarrow> ScanConfigResponse ListResponse RestBody Response \<times> 's GatewayService" where
  "rest_list_policies decode uuid port sha now =
     list_resource (list_query decode uuid) (\<lambda>session query. list_policies port sha now session query) (list_response (scan_config_response uuid))"

definition rest_get_policy ::
    "(string \<Rightarrow> string option) \<Rightarrow> 's ScanConfigPort \<Rightarrow> (string \<Rightarrow> u8 list) \<Rightarrow> u64 \<Rightarrow> string
      \<Rightarrow> Request \<Rightarrow> 's GatewayService
      \<Rightarrow> ScanConfigResponse RestBody Response \<times> 's GatewayService" where
  "rest_get_policy uuid port sha now =
     get_resource uuid (\<lambda>session ident. get_policy port sha now session ident) (scan_config_response uuid)"

definition rest_create_policy ::
    "(string \<Rightarrow> string option) \<Rightarrow> (u8 list \<Rightarrow> string + CreateScanConfigRequest)
      \<Rightarrow> 's ScanConfigPort \<Rightarrow> (string \<Rightarrow> u8 list) \<Rightarrow> u64 \<Rightarrow> Request \<Rightarrow> 's GatewayService
      \<Rightarrow> ScanConfigResponse RestBody Response \<times> 's GatewayService" where
  "rest_create_policy uuid from_slice port sha now =
     create_resource uuid from_slice (validate_create_scan_config uuid) (\<lambda>session input. create_policy port sha now session input)"

definition rest_update_policy ::
    "(string \<Rightarrow> string option) \<Rightarrow> (u8 list \<Rightarrow> string + ModifyScanConfigRequest)
      \<Rightarrow> 's ScanConfigPort \<Rightarrow> (string \<Rightarrow> u8 list) \<Rightarrow> u64 \<Rightarrow> string \<Rightarrow> Request
      \<Rightarrow> 's GatewayService \<Rightarrow> ScanConfigResponse RestBody Response \<times> 's GatewayService" where
  "rest_update_policy uuid from_slice port sha now =
     update_resource uuid from_slice (validate_modify_scan_config) (\<lambda>session ident input. modify_policy port sha now session ident input) (scan_config_response uuid)"

definition rest_delete_policy ::
    "(string \<Rightarrow> string option) \<Rightarrow> 's ScanConfigPort \<Rightarrow> (string \<Rightarrow> u8 list) \<Rightarrow> u64 \<Rightarrow> string
      \<Rightarrow> Request \<Rightarrow> 's GatewayService
      \<Rightarrow> ScanConfigResponse RestBody Response \<times> 's GatewayService" where
  "rest_delete_policy uuid port sha now =
     delete_resource_without_ultimate uuid (\<lambda>session ident. delete_policy port sha now session ident)"

record ScanConfigBodies =
  xb_create_scan_config :: "u8 list \<Rightarrow> string + CreateScanConfigRequest"
  xb_modify_scan_config :: "u8 list \<Rightarrow> string + ModifyScanConfigRequest"
  xb_set_scan_config_nvt_selection :: "u8 list \<Rightarrow> string + SetNvtSelectionRequest"
  xb_set_scan_config_family_selection :: "u8 list \<Rightarrow> string + SetFamilySelectionRequest"
  xb_set_scan_config_preference :: "u8 list \<Rightarrow> string + SetPreferenceRequest"
  xb_create_policy :: "u8 list \<Rightarrow> string + CreateScanConfigRequest"
  xb_modify_policy :: "u8 list \<Rightarrow> string + ModifyScanConfigRequest"

datatype (plugins only: code size) ScanConfigRoute =
    RouteListConfigs
  | RouteGetConfig string
  | RouteDeleteConfig string
  | RouteCloneConfig string
  | RouteListScanConfigs
  | RouteCreateScanConfig
  | RouteGetScanConfig string
  | RouteModifyScanConfig string
  | RouteDeleteScanConfig string
  | RouteListScanConfigNvts string
  | RouteGetScanConfigNvt string string
  | RouteListScanConfigPreferences string
  | RouteGetScanConfigPreference string string
  | RouteSetScanConfigNvtSelection string string
  | RouteSetScanConfigFamilySelection string
  | RouteSetScanConfigPreference string string
  | RouteListPolicies
  | RouteGetPolicy string
  | RouteCreatePolicy
  | RouteModifyPolicy string
  | RouteDeletePolicy string

fun serve_scan_configs ::
    "(string \<Rightarrow> (string \<times> string) list) \<Rightarrow> (string \<Rightarrow> string option)
      \<Rightarrow> ScanConfigBodies \<Rightarrow> 's ScanConfigPort \<Rightarrow> (string \<Rightarrow> u8 list) \<Rightarrow> u64
      \<Rightarrow> ScanConfigRoute \<Rightarrow> Request \<Rightarrow> 's GatewayService \<Rightarrow> nat \<times> 's GatewayService" where
  "serve_scan_configs decode uuid bodies port sha now RouteListConfigs q sv =
     answered (rest_list_configs decode uuid port sha now q sv)"
| "serve_scan_configs decode uuid bodies port sha now (RouteGetConfig ident) q sv =
     answered (rest_get_config uuid port sha now ident q sv)"
| "serve_scan_configs decode uuid bodies port sha now (RouteDeleteConfig ident) q sv =
     answered (rest_delete_config decode uuid port sha now ident q sv)"
| "serve_scan_configs decode uuid bodies port sha now (RouteCloneConfig ident) q sv =
     answered (rest_clone_config uuid port sha now ident q sv)"
| "serve_scan_configs decode uuid bodies port sha now RouteListScanConfigs q sv =
     answered (rest_list_scan_configs decode uuid port sha now q sv)"
| "serve_scan_configs decode uuid bodies port sha now RouteCreateScanConfig q sv =
     answered (rest_create_scan_config uuid (xb_create_scan_config bodies) port sha now q sv)"
| "serve_scan_configs decode uuid bodies port sha now (RouteGetScanConfig ident) q sv =
     answered (rest_get_scan_config uuid port sha now ident q sv)"
| "serve_scan_configs decode uuid bodies port sha now (RouteModifyScanConfig ident) q sv =
     answered (rest_update_scan_config uuid (xb_modify_scan_config bodies) port sha now ident q sv)"
| "serve_scan_configs decode uuid bodies port sha now (RouteDeleteScanConfig ident) q sv =
     answered (rest_delete_scan_config decode uuid port sha now ident q sv)"
| "serve_scan_configs decode uuid bodies port sha now (RouteListScanConfigNvts ident) q sv =
     answered (rest_list_scan_config_nvts decode uuid port sha now ident q sv)"
| "serve_scan_configs decode uuid bodies port sha now (RouteGetScanConfigNvt ident oid) q sv =
     answered (rest_get_scan_config_nvt uuid port sha now ident oid q sv)"
| "serve_scan_configs decode uuid bodies port sha now (RouteListScanConfigPreferences ident) q sv =
     answered (rest_list_scan_config_preferences decode uuid port sha now ident q sv)"
| "serve_scan_configs decode uuid bodies port sha now (RouteGetScanConfigPreference ident name) q sv =
     answered (rest_get_scan_config_preference decode uuid port sha now ident name q sv)"
| "serve_scan_configs decode uuid bodies port sha now (RouteSetScanConfigNvtSelection ident family) q sv =
     answered (rest_set_scan_config_nvt_selection uuid (xb_set_scan_config_nvt_selection bodies) port sha now ident family q sv)"
| "serve_scan_configs decode uuid bodies port sha now (RouteSetScanConfigFamilySelection ident) q sv =
     answered (rest_set_scan_config_family_selection uuid (xb_set_scan_config_family_selection bodies) port sha now ident q sv)"
| "serve_scan_configs decode uuid bodies port sha now (RouteSetScanConfigPreference ident name) q sv =
     answered (rest_set_scan_config_preference uuid (xb_set_scan_config_preference bodies) port sha now ident name q sv)"
| "serve_scan_configs decode uuid bodies port sha now RouteListPolicies q sv =
     answered (rest_list_policies decode uuid port sha now q sv)"
| "serve_scan_configs decode uuid bodies port sha now (RouteGetPolicy ident) q sv =
     answered (rest_get_policy uuid port sha now ident q sv)"
| "serve_scan_configs decode uuid bodies port sha now RouteCreatePolicy q sv =
     answered (rest_create_policy uuid (xb_create_policy bodies) port sha now q sv)"
| "serve_scan_configs decode uuid bodies port sha now (RouteModifyPolicy ident) q sv =
     answered (rest_update_policy uuid (xb_modify_policy bodies) port sha now ident q sv)"
| "serve_scan_configs decode uuid bodies port sha now (RouteDeletePolicy ident) q sv =
     answered (rest_delete_policy uuid port sha now ident q sv)"

lemma scan_configs_act_for_own_session:
  "acts_for_own_session sha now q sv
     (serve_scan_configs decode uuid bodies (gvmd_scan_config_port sha L B) sha now route q sv)"
  by (cases route; (simp only: serve_scan_configs.simps rest_list_configs_def rest_get_config_def rest_delete_config_def rest_clone_config_def
        rest_list_scan_configs_def rest_create_scan_config_def rest_get_scan_config_def
        rest_update_scan_config_def rest_delete_scan_config_def rest_list_scan_config_nvts_def
        rest_get_scan_config_nvt_def rest_list_scan_config_preferences_def
        rest_get_scan_config_preference_def rest_set_scan_config_nvt_selection_def
        rest_set_scan_config_family_selection_def rest_set_scan_config_preference_def
        rest_list_policies_def rest_get_policy_def rest_create_policy_def rest_update_policy_def
        rest_delete_policy_def
        list_configs_def get_config_def delete_config_def clone_config_def list_scan_configs_def
        create_scan_config_def get_scan_config_def modify_scan_config_def delete_scan_config_def
        list_scan_config_nvts_def get_scan_config_nvt_def list_scan_config_preferences_def
        get_scan_config_preference_def set_scan_config_nvt_selection_def
        set_scan_config_family_selection_def set_scan_config_preference_def list_policies_def
        get_policy_def create_policy_def modify_policy_def delete_policy_def
        gvmd_scan_config_port_def ScanConfigPort.simps;
      rule acts_answered; intro within own_session_rules speaks refl))

section \<open>Policies and scan configs\<close>

text \<open>
  A scan config that is read is not a policy, also when it is read back after an update.\<close>

lemma scan_config_is_no_policy:
  "case fst (gvmd_get_scan_config sha L B session_token ident w) of
     Inl e \<Rightarrow> True
   | Inr config \<Rightarrow> scc_usage_type config \<noteq> Some ''policy''"
  by (rule returns_case)
    (auto simp: gvmd_get_scan_config_def scan_config_from_gmp_def split: list.splits if_splits
      intro!: returns_then_call returns_after returns_checked returns_pure)

text \<open>The base of a new policy is not sent: two inputs that differ in it only are the same.\<close>

lemma policy_base_is_ignored:
  "gvmd_create_policy sha L B session_token (input\<lparr>sci_base_scan_config_id := base\<rparr>) =
     gvmd_create_policy sha L B session_token input"
  by (simp add: gvmd_create_policy_def)

section \<open>Object identifiers\<close>

text \<open>Numbers between dots.\<close>

definition dotted_numbers :: "string \<Rightarrow> bool" where
  "dotted_numbers v \<longleftrightarrow> list_all (\<lambda>part. part \<noteq> [] \<and> list_all (\<lambda>b. dec_digit b \<noteq> None) part) (split_on (CHR ''.'') v)"

lemma split_on_all: "list_all (list_all P) (split_on c v) \<longleftrightarrow> list_all (\<lambda>b. P b \<or> b = c) v"
proof (induction v)
  case (Cons b v)
  then show ?case by (cases "split_on c v") auto
qed simp

lemma list_all_conj: "list_all (\<lambda>x. P x \<and> Q x) xs \<longleftrightarrow> list_all P xs \<and> list_all Q xs"
  by (auto simp: list_all_iff)

text \<open>
  C37. A text is accepted as an object identifier exactly when it has at most 255 bytes and is
  made of decimal numbers between dots; it is handed on unchanged.
\<close>

theorem oid_accepted_iff:
  "require_oid field v =
     (if length v \<le> 255 \<and> dotted_numbers v then Inr v
      else Inl (InvalidInput (field @ '' must be a dotted numeric OID'')))"
proof -
  have parts: "dotted_numbers v \<longleftrightarrow>
      \<not> list_ex (\<lambda>part. part = []) (split_on (CHR ''.'') v) \<and> \<not> list_ex (\<lambda>b. dec_digit b = None \<and> b \<noteq> CHR ''.'') v"
    unfolding dotted_numbers_def list_all_conj split_on_all by (auto simp: list_ex_iff list_all_iff)
  have "v = [] \<Longrightarrow> \<not> dotted_numbers v"
    by (simp add: dotted_numbers_def)
  then show ?thesis
    unfolding require_oid_def parts by (auto simp: list_ex_iff)
qed

end
