(* ===== verification/Agents.thy ===== *)
theory Agents
  imports Supporting
begin

text \<open>
  Agents and agent groups, from the request to the command: \<open>agents.rs\<close> of the crates
  \<open>gvm-gateway-domain\<close>, \<open>gvm-gateway-gvmd\<close> (under \<open>gvmd_adapter/ports\<close>), \<open>gvm-gateway-app\<close> and
  \<open>gvm-gateway-rest\<close>. The reader of URIs is an argument: whether a text is a URI, and if so
  whether it has a scheme and an authority.
\<close>

section \<open>Domain\<close>

record AgentGroupQuery = ListQuery +
  agq_trash :: bool

record AgentRetryConfig =
  art_attempts :: "u32 option"
  art_delay_in_seconds :: "u32 option"
  art_max_jitter_in_seconds :: "u32 option"

record AgentControlConfig =
  act_retry :: "AgentRetryConfig option"

record AgentScriptExecutorConfig =
  axe_bulk_size :: "u32 option"
  axe_bulk_throttle_time_in_ms :: "u32 option"
  axe_indexer_dir_depth :: "u32 option"
  axe_scheduler_cron_time :: "string list"

record AgentHeartbeatConfig =
  ahb_interval_in_seconds :: "u32 option"
  ahb_miss_until_inactive :: "u32 option"

record AgentConfig =
  acg_agent_control :: "AgentControlConfig option"
  acg_agent_script_executor :: "AgentScriptExecutorConfig option"
  acg_heartbeat :: "AgentHeartbeatConfig option"

record Agent =
  agt_meta :: SupportingResourceMeta
  agt_authorized :: "bool option"
  agt_update_to_latest :: "bool option"
  agt_status :: "string option"
  agt_version :: "string option"
  agt_last_update_time :: "string option"
  agt_last_contact_time :: "string option"
  agt_scanner :: "ResourceRef option"
  agt_config :: "AgentConfig option"

record ModifyAgentInput =
  ami_authorized :: "bool option"
  ami_update_to_latest :: "bool option"
  ami_comment :: "string option"
  ami_config :: "AgentConfig option"

record ModifyAgentControlScanConfigInput =
  acs_agent_defaults :: "AgentConfig option"
  acs_update_to_latest :: "bool option"

record AgentInstallerInstruction =
  aii_language :: string
  aii_instruction :: string

record AgentInstallerInstructionQuery =
  aiq_language :: string
  aiq_origin_url :: string

record AgentSupportBundleQuery =
  abq_days :: "u32 option"

record AgentSupportBundle =
  asb_artifact :: JobArtifact
  asb_size :: "u64 option"
  asb_encoding :: "string option"

record AgentGroup =
  agg_meta :: SupportingResourceMeta
  agg_scheduler_cron_time :: "string option"
  agg_agents :: "ResourceRef list"

record CreateAgentGroupInput =
  agc_name :: string
  agc_scheduler_cron_time :: string
  agc_comment :: "string option"
  agc_agent_ids :: "string list"

record ModifyAgentGroupInput =
  agm_scheduler_cron_time :: string
  agm_name :: "string option"
  agm_comment :: "string option"
  agm_agent_ids :: "(string list) option"

record 's AgentPort =
  gp_list_agents :: "string \<Rightarrow> ListQuery \<Rightarrow> ('s, Agent Page) operation"
  gp_get_agent :: "string \<Rightarrow> string \<Rightarrow> ('s, Agent) operation"
  gp_modify_agent :: "string \<Rightarrow> string \<Rightarrow> ModifyAgentInput \<Rightarrow> ('s, Agent) operation"
  gp_delete_agent :: "string \<Rightarrow> string \<Rightarrow> ('s, unit) operation"
  gp_sync_agents :: "string \<Rightarrow> ('s, unit) operation"
  gp_get_agent_support_bundle :: "string \<Rightarrow> string \<Rightarrow> AgentSupportBundleQuery \<Rightarrow> ('s, AgentSupportBundle) operation"
  gp_modify_agent_control_scan_config :: "string \<Rightarrow> string \<Rightarrow> ModifyAgentControlScanConfigInput \<Rightarrow> ('s, unit) operation"
  gp_get_agent_installer_instruction :: "string \<Rightarrow> string \<Rightarrow> AgentInstallerInstructionQuery \<Rightarrow> ('s, AgentInstallerInstruction) operation"
  gp_list_agent_groups :: "string \<Rightarrow> AgentGroupQuery \<Rightarrow> ('s, AgentGroup Page) operation"
  gp_create_agent_group :: "string \<Rightarrow> CreateAgentGroupInput \<Rightarrow> ('s, string) operation"
  gp_get_agent_group :: "string \<Rightarrow> string \<Rightarrow> ('s, AgentGroup) operation"
  gp_modify_agent_group :: "string \<Rightarrow> string \<Rightarrow> ModifyAgentGroupInput \<Rightarrow> ('s, AgentGroup) operation"
  gp_delete_agent_group :: "string \<Rightarrow> string \<Rightarrow> bool \<Rightarrow> ('s, unit) operation"
  gp_clone_agent_group :: "string \<Rightarrow> string \<Rightarrow> ('s, string) operation"

section \<open>Conversions\<close>

definition agent_retry_config_from_gmp :: "GmpAgentRetryConfig \<Rightarrow> AgentRetryConfig" where
  "agent_retry_config_from_gmp x =
     \<lparr>art_attempts = gar_attempts x, art_delay_in_seconds = gar_delay_in_seconds x,
      art_max_jitter_in_seconds = gar_max_jitter_in_seconds x\<rparr>"

definition agent_control_config_from_gmp :: "GmpAgentControlConfig \<Rightarrow> AgentControlConfig" where
  "agent_control_config_from_gmp x =
     \<lparr>act_retry = map_option agent_retry_config_from_gmp (gac_retry x)\<rparr>"

definition agent_script_executor_config_from_gmp :: "GmpAgentScriptExecutorConfig \<Rightarrow> AgentScriptExecutorConfig" where
  "agent_script_executor_config_from_gmp x =
     \<lparr>axe_bulk_size = gax_bulk_size x,
      axe_bulk_throttle_time_in_ms = gax_bulk_throttle_time_in_ms x,
      axe_indexer_dir_depth = gax_indexer_dir_depth x,
      axe_scheduler_cron_time = gax_scheduler_cron_time x\<rparr>"

definition agent_heartbeat_config_from_gmp :: "GmpAgentHeartbeatConfig \<Rightarrow> AgentHeartbeatConfig" where
  "agent_heartbeat_config_from_gmp x =
     \<lparr>ahb_interval_in_seconds = gah_interval_in_seconds x,
      ahb_miss_until_inactive = gah_miss_until_inactive x\<rparr>"

definition agent_config_from_gmp :: "GmpAgentConfig \<Rightarrow> AgentConfig" where
  "agent_config_from_gmp x =
     \<lparr>acg_agent_control = map_option agent_control_config_from_gmp (gag_agent_control x),
      acg_agent_script_executor = map_option agent_script_executor_config_from_gmp (gag_agent_script_executor x),
      acg_heartbeat = map_option agent_heartbeat_config_from_gmp (gag_heartbeat x)\<rparr>"

definition agent_from_gmp :: "GmpAgent \<Rightarrow> Agent" where
  "agent_from_gmp x =
     \<lparr>agt_meta = supporting_meta_from_gmp (gan_meta x), agt_authorized = gan_authorized x,
      agt_update_to_latest = gan_update_to_latest x, agt_status = gan_status x,
      agt_version = gan_version x, agt_last_update_time = gan_last_update_time x,
      agt_last_contact_time = gan_last_contact_time x,
      agt_scanner = map_option resource_ref_from_named_entity (gan_scanner x),
      agt_config = map_option agent_config_from_gmp (gan_config x)\<rparr>"

definition agent_group_from_gmp :: "GmpAgentGroup \<Rightarrow> AgentGroup" where
  "agent_group_from_gmp x =
     \<lparr>agg_meta = supporting_meta_from_gmp (gap_meta x),
      agg_scheduler_cron_time = gap_scheduler_cron_time x,
      agg_agents = map resource_ref_from_named_entity (gap_agents x)\<rparr>"

definition agent_installer_instruction_from_gmp :: "GmpAgentInstallerInstruction \<Rightarrow> AgentInstallerInstruction" where
  "agent_installer_instruction_from_gmp x =
     \<lparr>aii_language = gii_language x, aii_instruction = gii_instruction x\<rparr>"

definition agent_support_bundle_from_gmp :: "GmpAgentSupportBundle \<Rightarrow> AgentSupportBundle" where
  "agent_support_bundle_from_gmp bundle =
     \<lparr>asb_artifact =
        \<lparr>ja_bytes = gsb_content bundle, ja_content_type = unwrap_or (gsb_content_type bundle) ''application/octet-stream'',
         ja_filename = gsb_name bundle\<rparr>,
      asb_size = map_option ucast (gsb_size bundle), asb_encoding = gsb_encoding bundle\<rparr>"

section \<open>Options of the commands\<close>

definition agent_retry_config_opts_from_domain :: "AgentRetryConfig \<Rightarrow> GmpAgentRetryConfig" where
  "agent_retry_config_opts_from_domain x =
     \<lparr>gar_attempts = art_attempts x, gar_delay_in_seconds = art_delay_in_seconds x,
      gar_max_jitter_in_seconds = art_max_jitter_in_seconds x\<rparr>"

definition agent_control_config_opts_from_domain :: "AgentControlConfig \<Rightarrow> GmpAgentControlConfig" where
  "agent_control_config_opts_from_domain x =
     \<lparr>gac_retry = map_option agent_retry_config_opts_from_domain (act_retry x)\<rparr>"

definition agent_script_executor_config_opts_from_domain :: "AgentScriptExecutorConfig \<Rightarrow> GmpAgentScriptExecutorConfig" where
  "agent_script_executor_config_opts_from_domain x =
     \<lparr>gax_bulk_size = axe_bulk_size x,
      gax_bulk_throttle_time_in_ms = axe_bulk_throttle_time_in_ms x,
      gax_indexer_dir_depth = axe_indexer_dir_depth x,
      gax_scheduler_cron_time = axe_scheduler_cron_time x\<rparr>"

definition agent_heartbeat_config_opts_from_domain :: "AgentHeartbeatConfig \<Rightarrow> GmpAgentHeartbeatConfig" where
  "agent_heartbeat_config_opts_from_domain x =
     \<lparr>gah_interval_in_seconds = ahb_interval_in_seconds x,
      gah_miss_until_inactive = ahb_miss_until_inactive x\<rparr>"

definition agent_config_opts_from_domain :: "AgentConfig \<Rightarrow> GmpAgentConfig" where
  "agent_config_opts_from_domain x =
     \<lparr>gag_agent_control = map_option agent_control_config_opts_from_domain (acg_agent_control x),
      gag_agent_script_executor = map_option agent_script_executor_config_opts_from_domain (acg_agent_script_executor x),
      gag_heartbeat = map_option agent_heartbeat_config_opts_from_domain (acg_heartbeat x)\<rparr>"

definition modify_agent_opts_from_input :: "ModifyAgentInput \<Rightarrow> ModifyAgentOpts" where
  "modify_agent_opts_from_input x =
     \<lparr>ma_authorized = ami_authorized x, ma_update_to_latest = ami_update_to_latest x,
      ma_comment = ami_comment x,
      ma_config = map_option agent_config_opts_from_domain (ami_config x)\<rparr>"

definition parse_agent_installer_language :: "string \<Rightarrow> AgentInstallerLanguage result" where
  "parse_agent_installer_language v =
     (if v = ''en'' then Inr LanguageEn
      else if v = ''de'' then Inr LanguageDe
      else Inl (InvalidInput ''language must be one of: en, de''))"

definition parse_entity_ids :: "('r, 'g, 'f) GmpLibrary \<Rightarrow> string list \<Rightarrow> string list result" where
  "parse_entity_ids L idents = collect_results (parse_entity_id L) idents"

definition MAX_AGENT_SUPPORT_BUNDLE_BYTES :: nat where
  "MAX_AGENT_SUPPORT_BUNDLE_BYTES = 16 * 1024 * 1024"

section \<open>Adapter\<close>

text \<open>
  Agents and agent groups are listed alike: when the daemon answers an empty page after the
  first with no total, all items are read and the gateway cuts the page.
\<close>

definition list_or_cut ::
    "(string \<Rightarrow> u8 list) \<Rightarrow> ('r, 'g, 'f) GmpLibrary \<Rightarrow> (string option \<Rightarrow> AgentCommand) \<Rightarrow> ('r \<Rightarrow> ParseError + 'i Counted)
      \<Rightarrow> ('i \<Rightarrow> 'a) \<Rightarrow> string \<Rightarrow> ListQuery \<Rightarrow> ('g Gvmd, 'a Page) operation" where
  "list_or_cut sha L command from_response convert session_token query =
     (let page = lq_page query; per_page = lq_per_page query;
          fetch = (\<lambda>filter_string. fetch_items sha L session_token (OnAgents (command filter_string)) from_response convert)
      in checked (map_transpose (parse_filter_id L) (lq_filter_id query)) (\<lambda>filter_id.
         chain (paginated_filter_resolving_filter_id sha L session_token None (lq_filter_string query) filter_id
                  page per_page []) (\<lambda>filter_string.
         chain (fetch filter_string) (\<lambda>(items, total).
           if needs_client_side_pagination_fallback items total page
           then chain (filter_resolving_filter_id sha L session_token None (lq_filter_string query) filter_id [])
                  (\<lambda>filter_string.
                chain (fetch filter_string) (\<lambda>(items, total).
                  pure (Inr (paged_slice items page per_page, paged_pagination total page per_page))))
           else pure (Inr (items, paged_pagination total page per_page))))))"

lemma speaks_list_or_cut [speaks]:
  "d = from_token sha session_token \<Longrightarrow>
     speaks_for d (list_or_cut sha L command from_response convert session_token query)"
  unfolding list_or_cut_def Let_def by (auto intro!: speaks split: prod.split)

text \<open>Reading the item with an identifier, with the identifier read before the session is looked up.\<close>

definition get_agent_item ::
    "(string \<Rightarrow> u8 list) \<Rightarrow> ('r, 'g, 'f) GmpLibrary \<Rightarrow> (string \<Rightarrow> AgentCommand) \<Rightarrow> ('r \<Rightarrow> ParseError + 'i Counted)
      \<Rightarrow> ('i \<Rightarrow> 'a) \<Rightarrow> string \<Rightarrow> string \<Rightarrow> string \<Rightarrow> ('g Gvmd, 'a) operation" where
  "get_agent_item sha L command from_response convert kind session_token ident =
     checked (parse_entity_id L ident) (\<lambda>entity_id.
       fetch_first sha L session_token (OnAgents (command entity_id)) from_response convert
         (kind @ '' '' @ ident @ '' not found''))"

lemma speaks_get_agent_item [speaks]:
  "d = from_token sha session_token \<Longrightarrow>
     speaks_for d (get_agent_item sha L command from_response convert kind session_token ident)"
  unfolding get_agent_item_def by (intro speaks)

definition gvmd_list_agents ::
    "(string \<Rightarrow> u8 list) \<Rightarrow> ('r, 'g, 'f) GmpLibrary \<Rightarrow> 'r ResourceLibrary \<Rightarrow> string
      \<Rightarrow> ListQuery \<Rightarrow> ('g Gvmd, Agent Page) operation" where
  "gvmd_list_agents sha L B session_token query =
     list_or_cut sha L GetAgents (bl_agents B) agent_from_gmp session_token query"

lemma speaks_list_agents [speaks]:
  "d = from_token sha session_token \<Longrightarrow> speaks_for d (gvmd_list_agents sha L B session_token query)"
  unfolding gvmd_list_agents_def by (auto intro!: speaks split: prod.split option.split)

definition gvmd_get_agent ::
    "(string \<Rightarrow> u8 list) \<Rightarrow> ('r, 'g, 'f) GmpLibrary \<Rightarrow> 'r ResourceLibrary \<Rightarrow> string \<Rightarrow> string
      \<Rightarrow> ('g Gvmd, Agent) operation" where
  "gvmd_get_agent sha L B session_token ident =
     get_agent_item sha L GetAgent (bl_agents B) agent_from_gmp ''agent'' session_token ident"

lemma speaks_get_agent [speaks]:
  "d = from_token sha session_token \<Longrightarrow> speaks_for d (gvmd_get_agent sha L B session_token ident)"
  unfolding gvmd_get_agent_def by (auto intro!: speaks split: prod.split option.split)

definition gvmd_modify_agent ::
    "(string \<Rightarrow> u8 list) \<Rightarrow> ('r, 'g, 'f) GmpLibrary \<Rightarrow> 'r ResourceLibrary \<Rightarrow> string \<Rightarrow> string
      \<Rightarrow> ModifyAgentInput \<Rightarrow> ('g Gvmd, Agent) operation" where
  "gvmd_modify_agent sha L B session_token ident input =
     checked (parse_entity_id L ident) (\<lambda>agent_id.
     chain (call_action sha L session_token (OnAgents (ModifyAgent [agent_id] (modify_agent_opts_from_input input)))) (\<lambda>_.
       gvmd_get_agent sha L B session_token ident))"

lemma speaks_modify_agent [speaks]:
  "d = from_token sha session_token \<Longrightarrow> speaks_for d (gvmd_modify_agent sha L B session_token ident input)"
  unfolding gvmd_modify_agent_def by (auto intro!: speaks split: prod.split option.split)

definition gvmd_delete_agent ::
    "(string \<Rightarrow> u8 list) \<Rightarrow> ('r, 'g, 'f) GmpLibrary \<Rightarrow> 'r ResourceLibrary \<Rightarrow> string \<Rightarrow> string
      \<Rightarrow> ('g Gvmd, unit) operation" where
  "gvmd_delete_agent sha L B session_token ident =
     checked (parse_entity_id L ident) (\<lambda>agent_id.
       call_action sha L session_token (OnAgents (DeleteAgent [agent_id])))"

lemma speaks_delete_agent [speaks]:
  "d = from_token sha session_token \<Longrightarrow> speaks_for d (gvmd_delete_agent sha L B session_token ident)"
  unfolding gvmd_delete_agent_def by (auto intro!: speaks split: prod.split option.split)

definition gvmd_sync_agents ::
    "(string \<Rightarrow> u8 list) \<Rightarrow> ('r, 'g, 'f) GmpLibrary \<Rightarrow> 'r ResourceLibrary \<Rightarrow> string
      \<Rightarrow> ('g Gvmd, unit) operation" where
  "gvmd_sync_agents sha L B session_token = call_action sha L session_token (OnAgents SyncAgents)"

lemma speaks_sync_agents [speaks]:
  "d = from_token sha session_token \<Longrightarrow> speaks_for d (gvmd_sync_agents sha L B session_token)"
  unfolding gvmd_sync_agents_def by (auto intro!: speaks split: prod.split option.split)

definition gvmd_get_agent_support_bundle ::
    "(string \<Rightarrow> u8 list) \<Rightarrow> ('r, 'g, 'f) GmpLibrary \<Rightarrow> 'r ResourceLibrary \<Rightarrow> string \<Rightarrow> string
      \<Rightarrow> AgentSupportBundleQuery \<Rightarrow> ('g Gvmd, AgentSupportBundle) operation" where
  "gvmd_get_agent_support_bundle sha L B session_token ident query =
     checked (parse_entity_id L ident) (\<lambda>agent_id.
     chain (call sha L session_token (OnAgents (GetAgentSupportBundle agent_id (abq_days query)))) (\<lambda>response.
     checked (read_with (bl_agent_support_bundle B) response) (\<lambda>parsed.
       let bundle = agent_support_bundle_from_gmp parsed
       in pure (if length (ja_bytes (asb_artifact bundle)) > MAX_AGENT_SUPPORT_BUNDLE_BYTES
                then Inl (BackendUnavailable (''agent support bundle exceeds the ''
                  @ show_nat MAX_AGENT_SUPPORT_BUNDLE_BYTES @ '' byte gateway limit''))
                else Inr bundle))))"

lemma speaks_get_agent_support_bundle [speaks]:
  "d = from_token sha session_token \<Longrightarrow> speaks_for d (gvmd_get_agent_support_bundle sha L B session_token ident query)"
  unfolding gvmd_get_agent_support_bundle_def Let_def by (auto intro!: speaks split: prod.split option.split)

definition gvmd_modify_agent_control_scan_config ::
    "(string \<Rightarrow> u8 list) \<Rightarrow> ('r, 'g, 'f) GmpLibrary \<Rightarrow> 'r ResourceLibrary \<Rightarrow> string \<Rightarrow> string
      \<Rightarrow> ModifyAgentControlScanConfigInput \<Rightarrow> ('g Gvmd, unit) operation" where
  "gvmd_modify_agent_control_scan_config sha L B session_token ident input =
     checked (parse_entity_id L ident) (\<lambda>config_id.
       call_action sha L session_token (OnAgents (ModifyAgentControlScanConfig config_id
         (map_option agent_config_opts_from_domain (acs_agent_defaults input)) (acs_update_to_latest input))))"

lemma speaks_modify_agent_control_scan_config [speaks]:
  "d = from_token sha session_token \<Longrightarrow> speaks_for d (gvmd_modify_agent_control_scan_config sha L B session_token ident input)"
  unfolding gvmd_modify_agent_control_scan_config_def by (auto intro!: speaks split: prod.split option.split)

definition gvmd_get_agent_installer_instruction ::
    "(string \<Rightarrow> u8 list) \<Rightarrow> ('r, 'g, 'f) GmpLibrary \<Rightarrow> 'r ResourceLibrary \<Rightarrow> string \<Rightarrow> string
      \<Rightarrow> AgentInstallerInstructionQuery \<Rightarrow> ('g Gvmd, AgentInstallerInstruction) operation" where
  "gvmd_get_agent_installer_instruction sha L B session_token scanner_id query =
     checked (parse_agent_installer_language (aiq_language query)) (\<lambda>language.
     checked (parse_entity_id L scanner_id) (\<lambda>entity_id.
     chain (call sha L session_token
       (OnAgents (GetAgentInstallerInstruction entity_id language (aiq_origin_url query)))) (\<lambda>response.
     checked (read_with (bl_agent_installer_instruction B) response) (\<lambda>parsed.
       pure (Inr (agent_installer_instruction_from_gmp parsed))))))"

lemma speaks_get_agent_installer_instruction [speaks]:
  "d = from_token sha session_token \<Longrightarrow> speaks_for d (gvmd_get_agent_installer_instruction sha L B session_token ident query)"
  unfolding gvmd_get_agent_installer_instruction_def by (auto intro!: speaks split: prod.split option.split)

definition gvmd_list_agent_groups ::
    "(string \<Rightarrow> u8 list) \<Rightarrow> ('r, 'g, 'f) GmpLibrary \<Rightarrow> 'r ResourceLibrary \<Rightarrow> string
      \<Rightarrow> AgentGroupQuery \<Rightarrow> ('g Gvmd, AgentGroup Page) operation" where
  "gvmd_list_agent_groups sha L B session_token query =
     list_or_cut sha L (\<lambda>filter_string. GetAgentGroups filter_string (agq_trash query)) (bl_agent_groups B)
       agent_group_from_gmp session_token (ListQuery.truncate query)"

lemma speaks_list_agent_groups [speaks]:
  "d = from_token sha session_token \<Longrightarrow> speaks_for d (gvmd_list_agent_groups sha L B session_token query)"
  unfolding gvmd_list_agent_groups_def by (auto intro!: speaks split: prod.split option.split)

definition gvmd_create_agent_group ::
    "(string \<Rightarrow> u8 list) \<Rightarrow> ('r, 'g, 'f) GmpLibrary \<Rightarrow> 'r ResourceLibrary \<Rightarrow> string
      \<Rightarrow> CreateAgentGroupInput \<Rightarrow> ('g Gvmd, string) operation" where
  "gvmd_create_agent_group sha L B session_token input =
     checked (parse_entity_ids L (agc_agent_ids input)) (\<lambda>agent_ids.
       call_create sha L session_token (OnAgents (CreateAgentGroup (agc_name input) agent_ids
         (agc_scheduler_cron_time input) (agc_comment input))))"

lemma speaks_create_agent_group [speaks]:
  "d = from_token sha session_token \<Longrightarrow> speaks_for d (gvmd_create_agent_group sha L B session_token input)"
  unfolding gvmd_create_agent_group_def by (auto intro!: speaks split: prod.split option.split)

definition gvmd_get_agent_group ::
    "(string \<Rightarrow> u8 list) \<Rightarrow> ('r, 'g, 'f) GmpLibrary \<Rightarrow> 'r ResourceLibrary \<Rightarrow> string \<Rightarrow> string
      \<Rightarrow> ('g Gvmd, AgentGroup) operation" where
  "gvmd_get_agent_group sha L B session_token ident =
     get_agent_item sha L GetAgentGroup (bl_agent_groups B) agent_group_from_gmp ''agent group'' session_token ident"

lemma speaks_get_agent_group [speaks]:
  "d = from_token sha session_token \<Longrightarrow> speaks_for d (gvmd_get_agent_group sha L B session_token ident)"
  unfolding gvmd_get_agent_group_def by (auto intro!: speaks split: prod.split option.split)

definition gvmd_modify_agent_group ::
    "(string \<Rightarrow> u8 list) \<Rightarrow> ('r, 'g, 'f) GmpLibrary \<Rightarrow> 'r ResourceLibrary \<Rightarrow> string \<Rightarrow> string
      \<Rightarrow> ModifyAgentGroupInput \<Rightarrow> ('g Gvmd, AgentGroup) operation" where
  "gvmd_modify_agent_group sha L B session_token ident input =
     checked (parse_entity_id L ident) (\<lambda>group_id.
     checked (map_transpose (parse_entity_ids L) (agm_agent_ids input)) (\<lambda>agent_ids.
     chain (call_action sha L session_token (OnAgents (ModifyAgentGroup group_id (agm_scheduler_cron_time input)
         \<lparr>mg_name = agm_name input, mg_comment = agm_comment input, mg_agent_ids = unwrap_or agent_ids []\<rparr>))) (\<lambda>_.
       gvmd_get_agent_group sha L B session_token ident)))"

lemma speaks_modify_agent_group [speaks]:
  "d = from_token sha session_token \<Longrightarrow> speaks_for d (gvmd_modify_agent_group sha L B session_token ident input)"
  unfolding gvmd_modify_agent_group_def by (auto intro!: speaks split: prod.split option.split)

definition gvmd_delete_agent_group ::
    "(string \<Rightarrow> u8 list) \<Rightarrow> ('r, 'g, 'f) GmpLibrary \<Rightarrow> 'r ResourceLibrary \<Rightarrow> string \<Rightarrow> string
      \<Rightarrow> bool \<Rightarrow> ('g Gvmd, unit) operation" where
  "gvmd_delete_agent_group sha L B session_token ident ultimate =
     checked (parse_entity_id L ident) (\<lambda>group_id.
       call_action sha L session_token (OnAgents (DeleteAgentGroup group_id ultimate)))"

lemma speaks_delete_agent_group [speaks]:
  "d = from_token sha session_token \<Longrightarrow> speaks_for d (gvmd_delete_agent_group sha L B session_token ident ultimate)"
  unfolding gvmd_delete_agent_group_def by (auto intro!: speaks split: prod.split option.split)

definition gvmd_clone_agent_group ::
    "(string \<Rightarrow> u8 list) \<Rightarrow> ('r, 'g, 'f) GmpLibrary \<Rightarrow> 'r ResourceLibrary \<Rightarrow> string \<Rightarrow> string
      \<Rightarrow> ('g Gvmd, string) operation" where
  "gvmd_clone_agent_group sha L B session_token ident =
     checked (parse_entity_id L ident) (\<lambda>group_id.
       call_create sha L session_token (OnAgents (CloneAgentGroup group_id)))"

lemma speaks_clone_agent_group [speaks]:
  "d = from_token sha session_token \<Longrightarrow> speaks_for d (gvmd_clone_agent_group sha L B session_token ident)"
  unfolding gvmd_clone_agent_group_def by (auto intro!: speaks split: prod.split option.split)

definition gvmd_agent_port ::
    "(string \<Rightarrow> u8 list) \<Rightarrow> ('r, 'g, 'f) GmpLibrary \<Rightarrow> 'r ResourceLibrary
      \<Rightarrow> 'g Gvmd AgentPort" where
  "gvmd_agent_port sha L B =
     \<lparr>gp_list_agents = gvmd_list_agents sha L B,
      gp_get_agent = gvmd_get_agent sha L B,
      gp_modify_agent = gvmd_modify_agent sha L B,
      gp_delete_agent = gvmd_delete_agent sha L B,
      gp_sync_agents = gvmd_sync_agents sha L B,
      gp_get_agent_support_bundle = gvmd_get_agent_support_bundle sha L B,
      gp_modify_agent_control_scan_config = gvmd_modify_agent_control_scan_config sha L B,
      gp_get_agent_installer_instruction = gvmd_get_agent_installer_instruction sha L B,
      gp_list_agent_groups = gvmd_list_agent_groups sha L B,
      gp_create_agent_group = gvmd_create_agent_group sha L B,
      gp_get_agent_group = gvmd_get_agent_group sha L B,
      gp_modify_agent_group = gvmd_modify_agent_group sha L B,
      gp_delete_agent_group = gvmd_delete_agent_group sha L B,
      gp_clone_agent_group = gvmd_clone_agent_group sha L B\<rparr>"

section \<open>Use cases\<close>

definition list_agents ::
    "'s AgentPort \<Rightarrow> (string \<Rightarrow> u8 list) \<Rightarrow> u64 \<Rightarrow> string \<Rightarrow> ListQuery \<Rightarrow> 's GatewayService
      \<Rightarrow> Agent Page result \<times> 's GatewayService" where
  "list_agents port sha now session_token query =
     use_port sha now session_token ''list'' ''agent'' (\<lambda>token. gp_list_agents port token query)"

definition get_agent ::
    "'s AgentPort \<Rightarrow> (string \<Rightarrow> u8 list) \<Rightarrow> u64 \<Rightarrow> string \<Rightarrow> string \<Rightarrow> 's GatewayService
      \<Rightarrow> Agent result \<times> 's GatewayService" where
  "get_agent port sha now session_token ident =
     use_port sha now session_token ''read'' ''agent'' (\<lambda>token. gp_get_agent port token ident)"

definition modify_agent ::
    "'s AgentPort \<Rightarrow> (string \<Rightarrow> u8 list) \<Rightarrow> u64 \<Rightarrow> string \<Rightarrow> string \<Rightarrow> ModifyAgentInput
      \<Rightarrow> 's GatewayService \<Rightarrow> Agent result \<times> 's GatewayService" where
  "modify_agent port sha now session_token ident input =
     use_port sha now session_token ''modify'' ''agent'' (\<lambda>token. gp_modify_agent port token ident input)"

definition delete_agent ::
    "'s AgentPort \<Rightarrow> (string \<Rightarrow> u8 list) \<Rightarrow> u64 \<Rightarrow> string \<Rightarrow> string \<Rightarrow> 's GatewayService
      \<Rightarrow> unit result \<times> 's GatewayService" where
  "delete_agent port sha now session_token ident =
     use_port sha now session_token ''delete'' ''agent'' (\<lambda>token. gp_delete_agent port token ident)"

definition sync_agents ::
    "'s AgentPort \<Rightarrow> (string \<Rightarrow> u8 list) \<Rightarrow> u64 \<Rightarrow> string \<Rightarrow> 's GatewayService
      \<Rightarrow> unit result \<times> 's GatewayService" where
  "sync_agents port sha now session_token =
     use_port sha now session_token ''sync'' ''agent'' (\<lambda>token. gp_sync_agents port token)"

definition get_agent_support_bundle ::
    "'s AgentPort \<Rightarrow> (string \<Rightarrow> u8 list) \<Rightarrow> u64 \<Rightarrow> string \<Rightarrow> string
      \<Rightarrow> AgentSupportBundleQuery \<Rightarrow> 's GatewayService
      \<Rightarrow> AgentSupportBundle result \<times> 's GatewayService" where
  "get_agent_support_bundle port sha now session_token ident query =
     use_port sha now session_token ''read'' ''agent_support_bundle'' (\<lambda>token. gp_get_agent_support_bundle port token ident query)"

definition modify_agent_control_scan_config ::
    "'s AgentPort \<Rightarrow> (string \<Rightarrow> u8 list) \<Rightarrow> u64 \<Rightarrow> string \<Rightarrow> string
      \<Rightarrow> ModifyAgentControlScanConfigInput \<Rightarrow> 's GatewayService
      \<Rightarrow> unit result \<times> 's GatewayService" where
  "modify_agent_control_scan_config port sha now session_token ident input =
     use_port sha now session_token ''modify'' ''agent_control_scan_config'' (\<lambda>token. gp_modify_agent_control_scan_config port token ident input)"

definition get_agent_installer_instruction ::
    "'s AgentPort \<Rightarrow> (string \<Rightarrow> u8 list) \<Rightarrow> u64 \<Rightarrow> string \<Rightarrow> string
      \<Rightarrow> AgentInstallerInstructionQuery \<Rightarrow> 's GatewayService
      \<Rightarrow> AgentInstallerInstruction result \<times> 's GatewayService" where
  "get_agent_installer_instruction port sha now session_token ident query =
     use_port sha now session_token ''read'' ''agent_installer_instruction'' (\<lambda>token. gp_get_agent_installer_instruction port token ident query)"

definition list_agent_groups ::
    "'s AgentPort \<Rightarrow> (string \<Rightarrow> u8 list) \<Rightarrow> u64 \<Rightarrow> string \<Rightarrow> AgentGroupQuery
      \<Rightarrow> 's GatewayService \<Rightarrow> AgentGroup Page result \<times> 's GatewayService" where
  "list_agent_groups port sha now session_token query =
     use_port sha now session_token ''list'' ''agent_group'' (\<lambda>token. gp_list_agent_groups port token query)"

definition create_agent_group ::
    "'s AgentPort \<Rightarrow> (string \<Rightarrow> u8 list) \<Rightarrow> u64 \<Rightarrow> string \<Rightarrow> CreateAgentGroupInput
      \<Rightarrow> 's GatewayService \<Rightarrow> string result \<times> 's GatewayService" where
  "create_agent_group port sha now session_token input =
     use_port sha now session_token ''create'' ''agent_group'' (\<lambda>token. gp_create_agent_group port token input)"

definition get_agent_group ::
    "'s AgentPort \<Rightarrow> (string \<Rightarrow> u8 list) \<Rightarrow> u64 \<Rightarrow> string \<Rightarrow> string \<Rightarrow> 's GatewayService
      \<Rightarrow> AgentGroup result \<times> 's GatewayService" where
  "get_agent_group port sha now session_token ident =
     use_port sha now session_token ''read'' ''agent_group'' (\<lambda>token. gp_get_agent_group port token ident)"

definition modify_agent_group ::
    "'s AgentPort \<Rightarrow> (string \<Rightarrow> u8 list) \<Rightarrow> u64 \<Rightarrow> string \<Rightarrow> string \<Rightarrow> ModifyAgentGroupInput
      \<Rightarrow> 's GatewayService \<Rightarrow> AgentGroup result \<times> 's GatewayService" where
  "modify_agent_group port sha now session_token ident input =
     use_port sha now session_token ''modify'' ''agent_group'' (\<lambda>token. gp_modify_agent_group port token ident input)"

definition delete_agent_group ::
    "'s AgentPort \<Rightarrow> (string \<Rightarrow> u8 list) \<Rightarrow> u64 \<Rightarrow> string \<Rightarrow> string \<Rightarrow> bool
      \<Rightarrow> 's GatewayService \<Rightarrow> unit result \<times> 's GatewayService" where
  "delete_agent_group port sha now session_token ident ultimate =
     use_port sha now session_token ''delete'' ''agent_group'' (\<lambda>token. gp_delete_agent_group port token ident ultimate)"

definition clone_agent_group ::
    "'s AgentPort \<Rightarrow> (string \<Rightarrow> u8 list) \<Rightarrow> u64 \<Rightarrow> string \<Rightarrow> string \<Rightarrow> 's GatewayService
      \<Rightarrow> string result \<times> 's GatewayService" where
  "clone_agent_group port sha now session_token ident =
     use_port sha now session_token ''create'' ''agent_group'' (\<lambda>token. gp_clone_agent_group port token ident)"

section \<open>Responses\<close>

record AgentRetryConfigResponse =
  artr_attempts :: "u32 option"
  artr_delay_in_seconds :: "u32 option"
  artr_max_jitter_in_seconds :: "u32 option"

record AgentControlConfigResponse =
  actr_retry :: "AgentRetryConfigResponse option"

record AgentScriptExecutorConfigResponse =
  axer_bulk_size :: "u32 option"
  axer_bulk_throttle_time_in_ms :: "u32 option"
  axer_indexer_dir_depth :: "u32 option"
  axer_scheduler_cron_time :: "string list"

record AgentHeartbeatConfigResponse =
  ahbr_interval_in_seconds :: "u32 option"
  ahbr_miss_until_inactive :: "u32 option"

record AgentConfigResponse =
  acgr_agent_control :: "AgentControlConfigResponse option"
  acgr_agent_script_executor :: "AgentScriptExecutorConfigResponse option"
  acgr_heartbeat :: "AgentHeartbeatConfigResponse option"

definition agent_retry_config_response :: "AgentRetryConfig \<Rightarrow> AgentRetryConfigResponse" where
  "agent_retry_config_response x =
     \<lparr>artr_attempts = art_attempts x, artr_delay_in_seconds = art_delay_in_seconds x,
      artr_max_jitter_in_seconds = art_max_jitter_in_seconds x\<rparr>"

definition agent_control_config_response :: "AgentControlConfig \<Rightarrow> AgentControlConfigResponse" where
  "agent_control_config_response x =
     \<lparr>actr_retry = map_option agent_retry_config_response (act_retry x)\<rparr>"

definition agent_script_executor_config_response :: "AgentScriptExecutorConfig \<Rightarrow> AgentScriptExecutorConfigResponse" where
  "agent_script_executor_config_response x =
     \<lparr>axer_bulk_size = axe_bulk_size x,
      axer_bulk_throttle_time_in_ms = axe_bulk_throttle_time_in_ms x,
      axer_indexer_dir_depth = axe_indexer_dir_depth x,
      axer_scheduler_cron_time = axe_scheduler_cron_time x\<rparr>"

definition agent_heartbeat_config_response :: "AgentHeartbeatConfig \<Rightarrow> AgentHeartbeatConfigResponse" where
  "agent_heartbeat_config_response x =
     \<lparr>ahbr_interval_in_seconds = ahb_interval_in_seconds x,
      ahbr_miss_until_inactive = ahb_miss_until_inactive x\<rparr>"

definition agent_config_response :: "AgentConfig \<Rightarrow> AgentConfigResponse" where
  "agent_config_response x =
     \<lparr>acgr_agent_control = map_option agent_control_config_response (acg_agent_control x),
      acgr_agent_script_executor = map_option agent_script_executor_config_response (acg_agent_script_executor x),
      acgr_heartbeat = map_option agent_heartbeat_config_response (acg_heartbeat x)\<rparr>"

record AgentResponse =
  agtr_id :: string
  agtr_name :: string
  agtr_comment :: "string option"
  agtr_creation_time :: "string option"
  agtr_modification_time :: "string option"
  agtr_writable :: bool
  agtr_in_use :: bool
  agtr_authorized :: "bool option"
  agtr_update_to_latest :: "bool option"
  agtr_status :: "string option"
  agtr_version :: "string option"
  agtr_last_update_time :: "string option"
  agtr_last_contact_time :: "string option"
  agtr_scanner :: "ResourceRefResponse option"
  agtr_config :: "AgentConfigResponse option"

record AgentInstallerInstructionResponse =
  aiir_language :: string
  aiir_instruction :: string

record AgentGroupResponse =
  aggr_id :: string
  aggr_name :: string
  aggr_comment :: "string option"
  aggr_creation_time :: "string option"
  aggr_modification_time :: "string option"
  aggr_writable :: bool
  aggr_in_use :: bool
  aggr_scheduler_cron_time :: "string option"
  aggr_agents :: "ResourceRefResponse list"

definition agent_response :: "(string \<Rightarrow> string option) \<Rightarrow> Agent \<Rightarrow> AgentResponse" where
  "agent_response uuid x =
     \<lparr>agtr_id = parse_uuid uuid ((sm_id (agt_meta x))), agtr_name = (sm_name (agt_meta x)),
      agtr_comment = (sm_comment (agt_meta x)),
      agtr_creation_time = (sm_creation_time (agt_meta x)),
      agtr_modification_time = (sm_modification_time (agt_meta x)),
      agtr_writable = (sm_writable (agt_meta x)), agtr_in_use = (sm_in_use (agt_meta x)),
      agtr_authorized = agt_authorized x, agtr_update_to_latest = agt_update_to_latest x,
      agtr_status = agt_status x, agtr_version = agt_version x,
      agtr_last_update_time = agt_last_update_time x,
      agtr_last_contact_time = agt_last_contact_time x,
      agtr_scanner = map_option (resource_ref_response uuid) (agt_scanner x),
      agtr_config = map_option agent_config_response (agt_config x)\<rparr>"

definition agent_installer_instruction_response :: "AgentInstallerInstruction \<Rightarrow> AgentInstallerInstructionResponse" where
  "agent_installer_instruction_response x =
     \<lparr>aiir_language = aii_language x, aiir_instruction = aii_instruction x\<rparr>"

definition agent_group_response :: "(string \<Rightarrow> string option) \<Rightarrow> AgentGroup \<Rightarrow> AgentGroupResponse" where
  "agent_group_response uuid x =
     \<lparr>aggr_id = parse_uuid uuid ((sm_id (agg_meta x))), aggr_name = (sm_name (agg_meta x)),
      aggr_comment = (sm_comment (agg_meta x)),
      aggr_creation_time = (sm_creation_time (agg_meta x)),
      aggr_modification_time = (sm_modification_time (agg_meta x)),
      aggr_writable = (sm_writable (agg_meta x)), aggr_in_use = (sm_in_use (agg_meta x)),
      aggr_scheduler_cron_time = agg_scheduler_cron_time x,
      aggr_agents = map (resource_ref_response uuid) (agg_agents x)\<rparr>"

text \<open>
  The name of a downloaded file. A character is replaced if it would leave the quotes or the
  directory, or is a control character: one byte below 32 or 127, or two bytes from C2 80 to
  C2 9F.
\<close>

definition unsafe_char :: "char \<Rightarrow> bool" where
  "unsafe_char c \<longleftrightarrow>
     c \<in> {CHR ''/'', CHR 0x5C, CHR 0x22, CHR 0x0D, CHR 0x0A, CHR 0x09} \<or> (of_char c :: nat) < 32 \<or> c = CHR 0x7F"

definition c1_control :: "char \<Rightarrow> char \<Rightarrow> bool" where
  "c1_control c d \<longleftrightarrow> c = CHR 0xC2 \<and> 0x80 \<le> (of_char d :: nat) \<and> (of_char d :: nat) < 0xA0"

fun sanitized :: "string \<Rightarrow> string" where
  "sanitized [] = []"
| "sanitized [c] = [if unsafe_char c then CHR ''_'' else c]"
| "sanitized (c # d # cs) =
     (if c1_control c d then CHR ''_'' # sanitized cs
      else (if unsafe_char c then CHR ''_'' else c) # sanitized (d # cs))"

definition trim_matches :: "char \<Rightarrow> string \<Rightarrow> string" where
  "trim_matches c s = trim_end_matches c (dropWhile (\<lambda>x. x = c) s)"

definition safe_attachment_filename :: "string \<Rightarrow> string" where
  "safe_attachment_filename v =
     (let name = trim_matches (CHR ''.'') (trim (sanitized v))
      in if name = [] then ''agent-support-bundle.bin'' else name)"

definition support_bundle_download :: "(string \<Rightarrow> bool) \<Rightarrow> AgentSupportBundle \<Rightarrow> AgentResponse RestBody Response" where
  "support_bundle_download header_ok bundle =
     artifact_response header_ok
       ((asb_artifact bundle)\<lparr>ja_filename := safe_attachment_filename (ja_filename (asb_artifact bundle))\<rparr>)"

section \<open>Requests\<close>

record AgentRetryConfigRequest =
  artq_attempts :: "u32 option"
  artq_delay_in_seconds :: "u32 option"
  artq_max_jitter_in_seconds :: "u32 option"

record AgentControlConfigRequest =
  actq_retry :: "AgentRetryConfigRequest option"

record AgentScriptExecutorConfigRequest =
  axeq_bulk_size :: "u32 option"
  axeq_bulk_throttle_time_in_ms :: "u32 option"
  axeq_indexer_dir_depth :: "u32 option"
  axeq_scheduler_cron_time :: "string list"

record AgentHeartbeatConfigRequest =
  ahbq_interval_in_seconds :: "u32 option"
  ahbq_miss_until_inactive :: "u32 option"

record AgentConfigRequest =
  acgq_agent_control :: "AgentControlConfigRequest option"
  acgq_agent_script_executor :: "AgentScriptExecutorConfigRequest option"
  acgq_heartbeat :: "AgentHeartbeatConfigRequest option"

record ModifyAgentRequest =
  amr_authorized :: "bool option"
  amr_update_to_latest :: "bool option"
  amr_comment :: "string option"
  amr_config :: "AgentConfigRequest option"

record ModifyAgentControlScanConfigRequest =
  acsr_agent_defaults :: "AgentConfigRequest option"
  acsr_update_to_latest :: "bool option"

record CreateAgentGroupRequest =
  agcr_name :: "string option"
  agcr_scheduler_cron_time :: "string option"
  agcr_comment :: "string option"
  agcr_agent_ids :: "string list"

record ModifyAgentGroupRequest =
  agmr_scheduler_cron_time :: "string option"
  agmr_name :: "string option"
  agmr_comment :: "string option"
  agmr_agent_ids :: "(string list) option"

definition required_trimmed :: "string \<Rightarrow> string option \<Rightarrow> string result" where
  "required_trimmed field v =
     (case v of
        None \<Rightarrow> Inl (InvalidInput (field @ '' is required''))
      | Some s \<Rightarrow> if trim s = [] then Inl (InvalidInput (field @ '' is required'')) else Inr (trim s))"

definition validate_cron_items :: "string \<Rightarrow> string list \<Rightarrow> unit result" where
  "validate_cron_items field vs =
     (if list_ex (\<lambda>v. trim v = []) vs then Inl (InvalidInput (field @ '' cannot contain empty entries'')) else Inr ())"

definition validate_agent_retry :: "AgentRetryConfigRequest \<Rightarrow> AgentRetryConfig result" where
  "validate_agent_retry r =
     Inr \<lparr>art_attempts = artq_attempts r, art_delay_in_seconds = artq_delay_in_seconds r,
          art_max_jitter_in_seconds = artq_max_jitter_in_seconds r\<rparr>"

definition validate_agent_control :: "AgentControlConfigRequest \<Rightarrow> AgentControlConfig result" where
  "validate_agent_control r =
     and_then (map_transpose validate_agent_retry (actq_retry r)) (\<lambda>retry. Inr \<lparr>act_retry = retry\<rparr>)"

definition validate_agent_executor :: "AgentScriptExecutorConfigRequest \<Rightarrow> AgentScriptExecutorConfig result" where
  "validate_agent_executor r =
     and_then (validate_cron_items ''schedulerCronTime'' (axeq_scheduler_cron_time r)) (\<lambda>_.
       Inr \<lparr>axe_bulk_size = axeq_bulk_size r, axe_bulk_throttle_time_in_ms = axeq_bulk_throttle_time_in_ms r,
            axe_indexer_dir_depth = axeq_indexer_dir_depth r, axe_scheduler_cron_time = axeq_scheduler_cron_time r\<rparr>)"

definition validate_agent_heartbeat :: "AgentHeartbeatConfigRequest \<Rightarrow> AgentHeartbeatConfig result" where
  "validate_agent_heartbeat r =
     Inr \<lparr>ahb_interval_in_seconds = ahbq_interval_in_seconds r, ahb_miss_until_inactive = ahbq_miss_until_inactive r\<rparr>"

definition validate_agent_config :: "AgentConfigRequest \<Rightarrow> AgentConfig result" where
  "validate_agent_config r =
     and_then (map_transpose validate_agent_control (acgq_agent_control r)) (\<lambda>agent_control.
     and_then (map_transpose validate_agent_executor (acgq_agent_script_executor r)) (\<lambda>agent_script_executor.
     and_then (map_transpose validate_agent_heartbeat (acgq_heartbeat r)) (\<lambda>heartbeat.
       Inr \<lparr>acg_agent_control = agent_control, acg_agent_script_executor = agent_script_executor,
            acg_heartbeat = heartbeat\<rparr>)))"

definition validate_modify_agent :: "ModifyAgentRequest \<Rightarrow> ModifyAgentInput result" where
  "validate_modify_agent r =
     and_then (map_transpose validate_agent_config (amr_config r)) (\<lambda>config.
       Inr \<lparr>ami_authorized = amr_authorized r, ami_update_to_latest = amr_update_to_latest r,
            ami_comment = amr_comment r, ami_config = config\<rparr>)"

definition validate_control_scan_config ::
    "ModifyAgentControlScanConfigRequest \<Rightarrow> ModifyAgentControlScanConfigInput result" where
  "validate_control_scan_config r =
     and_then (map_transpose validate_agent_config (acsr_agent_defaults r)) (\<lambda>agent_defaults.
       Inr \<lparr>acs_agent_defaults = agent_defaults, acs_update_to_latest = acsr_update_to_latest r\<rparr>)"

text \<open>The identifiers of agents are UUIDs already, read by the deserializer.\<close>

definition validate_create_agent_group :: "CreateAgentGroupRequest \<Rightarrow> CreateAgentGroupInput result" where
  "validate_create_agent_group r =
     and_then (required_trimmed ''name'' (agcr_name r)) (\<lambda>name.
     and_then (required_trimmed ''schedulerCronTime'' (agcr_scheduler_cron_time r)) (\<lambda>cron.
       Inr \<lparr>agc_name = name, agc_scheduler_cron_time = cron, agc_comment = agcr_comment r,
            agc_agent_ids = agcr_agent_ids r\<rparr>))"

definition validate_modify_agent_group :: "ModifyAgentGroupRequest \<Rightarrow> ModifyAgentGroupInput result" where
  "validate_modify_agent_group r =
     and_then (required_trimmed ''schedulerCronTime'' (agmr_scheduler_cron_time r)) (\<lambda>cron.
       Inr \<lparr>agm_scheduler_cron_time = cron, agm_name = agmr_name r, agm_comment = agmr_comment r,
            agm_agent_ids = agmr_agent_ids r\<rparr>)"

fun trash_loop :: "bool \<Rightarrow> (string \<times> string) list \<Rightarrow> bool result" where
  "trash_loop trash [] = Inr trash"
| "trash_loop trash ((key, v) # pairs) =
     (if key = ''trash'' then
        (case parse_bool v of
           None \<Rightarrow> Inl (InvalidInput ''trash must be true or false'')
         | Some b \<Rightarrow> trash_loop b pairs)
      else trash_loop trash pairs)"

definition parse_agent_group_query ::
    "(string \<Rightarrow> (string \<times> string) list) \<Rightarrow> (string \<Rightarrow> string option) \<Rightarrow> string \<Rightarrow> AgentGroupQuery result" where
  "parse_agent_group_query decode uuid raw =
     and_then (parse_collection_query decode (\<lambda>s. uuid s \<noteq> None) raw) (\<lambda>parsed.
     and_then (trash_loop False (decode raw)) (\<lambda>trash.
       Inr \<lparr>lq_filter_string = cq_filter_string parsed, lq_filter_id = cq_filter_id parsed,
            lq_page = cq_page parsed, lq_per_page = cq_per_page parsed, agq_trash = trash\<rparr>))"

fun days_loop :: "u32 option \<Rightarrow> (string \<times> string) list \<Rightarrow> u32 option result" where
  "days_loop days [] = Inr days"
| "days_loop days ((key, v) # pairs) =
     (if key = ''days'' then
        (case parse_u32 v of
           None \<Rightarrow> Inl (InvalidInput ''days must be a positive integer'')
         | Some n \<Rightarrow>
             if n = 0 then Inl (InvalidInput ''days must be greater than or equal to 1'')
             else days_loop (Some n) pairs)
      else days_loop days pairs)"

definition parse_agent_support_bundle_query ::
    "(string \<Rightarrow> (string \<times> string) list) \<Rightarrow> string \<Rightarrow> AgentSupportBundleQuery result" where
  "parse_agent_support_bundle_query decode raw =
     and_then (days_loop None (decode raw)) (\<lambda>days. Inr \<lparr>abq_days = days\<rparr>)"

fun instruction_loop :: "string option \<Rightarrow> string \<Rightarrow> (string \<times> string) list \<Rightarrow> string option \<times> string" where
  "instruction_loop origin_url language [] = (origin_url, language)"
| "instruction_loop origin_url language ((key, v) # pairs) =
     (if key = ''originUrl'' then instruction_loop (Some v) language pairs
      else if key = ''language'' then instruction_loop origin_url v pairs
      else instruction_loop origin_url language pairs)"

definition parse_agent_installer_instruction_query ::
    "(string \<Rightarrow> (string \<times> string) list) \<Rightarrow> (string \<Rightarrow> (bool \<times> bool) option) \<Rightarrow> string
      \<Rightarrow> AgentInstallerInstructionQuery result" where
  "parse_agent_installer_instruction_query decode uri_parts raw =
     (let (origin_url, language) = instruction_loop None ''en'' (decode raw)
      in and_then (required_trimmed ''originUrl'' origin_url) (\<lambda>origin_url.
         case uri_parts origin_url of
           None \<Rightarrow> Inl (InvalidInput ''originUrl must be a valid URI'')
         | Some (has_scheme, has_authority) \<Rightarrow>
             if \<not> has_scheme \<or> \<not> has_authority then Inl (InvalidInput ''originUrl must be an absolute URI'')
             else Inr \<lparr>aiq_language = language, aiq_origin_url = origin_url\<rparr>))"

lemma support_bundle_success [simp, within]: "is_success (rp_status (support_bundle_download header_ok bundle))"
  by (simp add: support_bundle_download_def)

section \<open>Handlers\<close>

definition rest_list_agents ::
    "(string \<Rightarrow> (string \<times> string) list) \<Rightarrow> (string \<Rightarrow> string option) \<Rightarrow> 's AgentPort
      \<Rightarrow> (string \<Rightarrow> u8 list) \<Rightarrow> u64 \<Rightarrow> Request \<Rightarrow> 's GatewayService
      \<Rightarrow> AgentResponse ListResponse RestBody Response \<times> 's GatewayService" where
  "rest_list_agents decode uuid port sha now =
     list_resource (list_query decode uuid) (\<lambda>session query. list_agents port sha now session query) (list_response (agent_response uuid))"

definition rest_get_agent ::
    "(string \<Rightarrow> string option) \<Rightarrow> 's AgentPort \<Rightarrow> (string \<Rightarrow> u8 list) \<Rightarrow> u64 \<Rightarrow> string
      \<Rightarrow> Request \<Rightarrow> 's GatewayService
      \<Rightarrow> AgentResponse RestBody Response \<times> 's GatewayService" where
  "rest_get_agent uuid port sha now =
     get_resource uuid (\<lambda>session ident. get_agent port sha now session ident) (agent_response uuid)"

definition rest_update_agent ::
    "(string \<Rightarrow> string option) \<Rightarrow> (u8 list \<Rightarrow> string + ModifyAgentRequest) \<Rightarrow> 's AgentPort
      \<Rightarrow> (string \<Rightarrow> u8 list) \<Rightarrow> u64 \<Rightarrow> string \<Rightarrow> Request \<Rightarrow> 's GatewayService
      \<Rightarrow> AgentResponse RestBody Response \<times> 's GatewayService" where
  "rest_update_agent uuid from_slice port sha now =
     update_resource uuid from_slice (validate_modify_agent) (\<lambda>session ident input. modify_agent port sha now session ident input) (agent_response uuid)"

definition rest_delete_agent ::
    "(string \<Rightarrow> string option) \<Rightarrow> 's AgentPort \<Rightarrow> (string \<Rightarrow> u8 list) \<Rightarrow> u64 \<Rightarrow> string
      \<Rightarrow> Request \<Rightarrow> 's GatewayService
      \<Rightarrow> AgentResponse RestBody Response \<times> 's GatewayService" where
  "rest_delete_agent uuid port sha now =
     delete_resource_without_ultimate uuid (\<lambda>session ident. delete_agent port sha now session ident)"

definition rest_sync_agents ::
    "'s AgentPort \<Rightarrow> (string \<Rightarrow> u8 list) \<Rightarrow> u64 \<Rightarrow> Request \<Rightarrow> 's GatewayService
      \<Rightarrow> AgentResponse RestBody Response \<times> 's GatewayService" where
  "rest_sync_agents port sha now = authenticated_command (\<lambda>session. sync_agents port sha now session)"

definition rest_get_agent_support_bundle ::
    "(string \<Rightarrow> (string \<times> string) list) \<Rightarrow> (string \<Rightarrow> bool) \<Rightarrow> 's AgentPort \<Rightarrow> (string \<Rightarrow> u8 list)
      \<Rightarrow> u64 \<Rightarrow> string \<Rightarrow> Request \<Rightarrow> 's GatewayService
      \<Rightarrow> AgentResponse RestBody Response \<times> 's GatewayService" where
  "rest_get_agent_support_bundle decode header_ok port sha now ident =
     authenticated_query (parse_agent_support_bundle_query decode)
       (\<lambda>session query. get_agent_support_bundle port sha now session ident query)
       (support_bundle_download header_ok)"

definition rest_update_agent_control_scan_config ::
    "(u8 list \<Rightarrow> string + ModifyAgentControlScanConfigRequest) \<Rightarrow> 's AgentPort \<Rightarrow> (string \<Rightarrow> u8 list)
      \<Rightarrow> u64 \<Rightarrow> string \<Rightarrow> Request \<Rightarrow> 's GatewayService
      \<Rightarrow> AgentResponse RestBody Response \<times> 's GatewayService" where
  "rest_update_agent_control_scan_config from_slice port sha now ident =
     authenticated_body (\<lambda>body. and_then (parse_json_body_with from_slice default_json_error body) validate_control_scan_config)
       (\<lambda>session input. modify_agent_control_scan_config port sha now session ident input)"

definition rest_get_agent_installer_instruction ::
    "(string \<Rightarrow> (string \<times> string) list) \<Rightarrow> (string \<Rightarrow> (bool \<times> bool) option)
      \<Rightarrow> 's AgentPort \<Rightarrow> (string \<Rightarrow> u8 list) \<Rightarrow> u64 \<Rightarrow> string \<Rightarrow> Request \<Rightarrow> 's GatewayService
      \<Rightarrow> AgentInstallerInstructionResponse RestBody Response \<times> 's GatewayService" where
  "rest_get_agent_installer_instruction decode uri_parts port sha now ident =
     list_resource (parse_agent_installer_instruction_query decode uri_parts)
       (\<lambda>session query. get_agent_installer_instruction port sha now session ident query)
       agent_installer_instruction_response"

definition rest_list_agent_groups ::
    "(string \<Rightarrow> (string \<times> string) list) \<Rightarrow> (string \<Rightarrow> string option) \<Rightarrow> 's AgentPort
      \<Rightarrow> (string \<Rightarrow> u8 list) \<Rightarrow> u64 \<Rightarrow> Request \<Rightarrow> 's GatewayService
      \<Rightarrow> AgentGroupResponse ListResponse RestBody Response \<times> 's GatewayService" where
  "rest_list_agent_groups decode uuid port sha now =
     list_resource (parse_agent_group_query decode uuid) (\<lambda>session query. list_agent_groups port sha now session query) (list_response (agent_group_response uuid))"

definition rest_create_agent_group ::
    "(string \<Rightarrow> string option) \<Rightarrow> (u8 list \<Rightarrow> string + CreateAgentGroupRequest)
      \<Rightarrow> 's AgentPort \<Rightarrow> (string \<Rightarrow> u8 list) \<Rightarrow> u64 \<Rightarrow> Request \<Rightarrow> 's GatewayService
      \<Rightarrow> AgentGroupResponse RestBody Response \<times> 's GatewayService" where
  "rest_create_agent_group uuid from_slice port sha now =
     create_resource uuid from_slice (validate_create_agent_group) (\<lambda>session input. create_agent_group port sha now session input)"

definition rest_get_agent_group ::
    "(string \<Rightarrow> string option) \<Rightarrow> 's AgentPort \<Rightarrow> (string \<Rightarrow> u8 list) \<Rightarrow> u64 \<Rightarrow> string
      \<Rightarrow> Request \<Rightarrow> 's GatewayService
      \<Rightarrow> AgentGroupResponse RestBody Response \<times> 's GatewayService" where
  "rest_get_agent_group uuid port sha now =
     get_resource uuid (\<lambda>session ident. get_agent_group port sha now session ident) (agent_group_response uuid)"

definition rest_update_agent_group ::
    "(string \<Rightarrow> string option) \<Rightarrow> (u8 list \<Rightarrow> string + ModifyAgentGroupRequest)
      \<Rightarrow> 's AgentPort \<Rightarrow> (string \<Rightarrow> u8 list) \<Rightarrow> u64 \<Rightarrow> string \<Rightarrow> Request \<Rightarrow> 's GatewayService
      \<Rightarrow> AgentGroupResponse RestBody Response \<times> 's GatewayService" where
  "rest_update_agent_group uuid from_slice port sha now =
     update_resource uuid from_slice (validate_modify_agent_group) (\<lambda>session ident input. modify_agent_group port sha now session ident input) (agent_group_response uuid)"

definition rest_delete_agent_group ::
    "(string \<Rightarrow> (string \<times> string) list) \<Rightarrow> (string \<Rightarrow> string option) \<Rightarrow> 's AgentPort
      \<Rightarrow> (string \<Rightarrow> u8 list) \<Rightarrow> u64 \<Rightarrow> string \<Rightarrow> Request \<Rightarrow> 's GatewayService
      \<Rightarrow> AgentGroupResponse RestBody Response \<times> 's GatewayService" where
  "rest_delete_agent_group decode uuid port sha now =
     delete_resource uuid decode (\<lambda>session ident ultimate. delete_agent_group port sha now session ident ultimate)"

definition rest_clone_agent_group ::
    "(string \<Rightarrow> string option) \<Rightarrow> 's AgentPort \<Rightarrow> (string \<Rightarrow> u8 list) \<Rightarrow> u64 \<Rightarrow> string
      \<Rightarrow> Request \<Rightarrow> 's GatewayService
      \<Rightarrow> AgentGroupResponse RestBody Response \<times> 's GatewayService" where
  "rest_clone_agent_group uuid port sha now =
     clone_resource uuid ''/api/v1/agent-groups'' (\<lambda>session ident. clone_agent_group port sha now session ident)"

record AgentBodies =
  gb_modify_agent :: "u8 list \<Rightarrow> string + ModifyAgentRequest"
  gb_modify_agent_control_scan_config :: "u8 list \<Rightarrow> string + ModifyAgentControlScanConfigRequest"
  gb_create_agent_group :: "u8 list \<Rightarrow> string + CreateAgentGroupRequest"
  gb_modify_agent_group :: "u8 list \<Rightarrow> string + ModifyAgentGroupRequest"
  gb_uri_parts :: "string \<Rightarrow> (bool \<times> bool) option"
  gb_header_ok :: "string \<Rightarrow> bool"

datatype (plugins only: code size) AgentRoute =
    RouteListAgents
  | RouteGetAgent string
  | RouteModifyAgent string
  | RouteDeleteAgent string
  | RouteSyncAgents
  | RouteGetAgentSupportBundle string
  | RouteModifyAgentControlScanConfig string
  | RouteGetAgentInstallerInstruction string
  | RouteListAgentGroups
  | RouteCreateAgentGroup
  | RouteGetAgentGroup string
  | RouteModifyAgentGroup string
  | RouteDeleteAgentGroup string
  | RouteCloneAgentGroup string

fun serve_agents ::
    "(string \<Rightarrow> (string \<times> string) list) \<Rightarrow> (string \<Rightarrow> string option) \<Rightarrow> AgentBodies
      \<Rightarrow> 's AgentPort \<Rightarrow> (string \<Rightarrow> u8 list) \<Rightarrow> u64 \<Rightarrow> AgentRoute \<Rightarrow> Request
      \<Rightarrow> 's GatewayService \<Rightarrow> nat \<times> 's GatewayService" where
  "serve_agents decode uuid bodies port sha now RouteListAgents q sv =
     answered (rest_list_agents decode uuid port sha now q sv)"
| "serve_agents decode uuid bodies port sha now (RouteGetAgent ident) q sv =
     answered (rest_get_agent uuid port sha now ident q sv)"
| "serve_agents decode uuid bodies port sha now (RouteModifyAgent ident) q sv =
     answered (rest_update_agent uuid (gb_modify_agent bodies) port sha now ident q sv)"
| "serve_agents decode uuid bodies port sha now (RouteDeleteAgent ident) q sv =
     answered (rest_delete_agent uuid port sha now ident q sv)"
| "serve_agents decode uuid bodies port sha now RouteSyncAgents q sv =
     answered (rest_sync_agents port sha now q sv)"
| "serve_agents decode uuid bodies port sha now (RouteGetAgentSupportBundle ident) q sv =
     answered (rest_get_agent_support_bundle decode (gb_header_ok bodies) port sha now ident q sv)"
| "serve_agents decode uuid bodies port sha now (RouteModifyAgentControlScanConfig ident) q sv =
     answered (rest_update_agent_control_scan_config (gb_modify_agent_control_scan_config bodies) port sha now ident q sv)"
| "serve_agents decode uuid bodies port sha now (RouteGetAgentInstallerInstruction ident) q sv =
     answered (rest_get_agent_installer_instruction decode (gb_uri_parts bodies) port sha now ident q sv)"
| "serve_agents decode uuid bodies port sha now RouteListAgentGroups q sv =
     answered (rest_list_agent_groups decode uuid port sha now q sv)"
| "serve_agents decode uuid bodies port sha now RouteCreateAgentGroup q sv =
     answered (rest_create_agent_group uuid (gb_create_agent_group bodies) port sha now q sv)"
| "serve_agents decode uuid bodies port sha now (RouteGetAgentGroup ident) q sv =
     answered (rest_get_agent_group uuid port sha now ident q sv)"
| "serve_agents decode uuid bodies port sha now (RouteModifyAgentGroup ident) q sv =
     answered (rest_update_agent_group uuid (gb_modify_agent_group bodies) port sha now ident q sv)"
| "serve_agents decode uuid bodies port sha now (RouteDeleteAgentGroup ident) q sv =
     answered (rest_delete_agent_group decode uuid port sha now ident q sv)"
| "serve_agents decode uuid bodies port sha now (RouteCloneAgentGroup ident) q sv =
     answered (rest_clone_agent_group uuid port sha now ident q sv)"

lemma agents_act_for_own_session:
  "acts_for_own_session sha now q sv
     (serve_agents decode uuid bodies (gvmd_agent_port sha L B) sha now route q sv)"
  by (cases route; (simp only: serve_agents.simps rest_list_agents_def rest_get_agent_def rest_update_agent_def rest_delete_agent_def
        rest_sync_agents_def rest_get_agent_support_bundle_def
        rest_update_agent_control_scan_config_def rest_get_agent_installer_instruction_def
        rest_list_agent_groups_def rest_create_agent_group_def rest_get_agent_group_def
        rest_update_agent_group_def rest_delete_agent_group_def rest_clone_agent_group_def
        list_agents_def get_agent_def modify_agent_def delete_agent_def sync_agents_def
        get_agent_support_bundle_def modify_agent_control_scan_config_def
        get_agent_installer_instruction_def list_agent_groups_def create_agent_group_def
        get_agent_group_def modify_agent_group_def delete_agent_group_def clone_agent_group_def
        gvmd_agent_port_def AgentPort.simps;
      rule acts_answered; intro within own_session_rules speaks refl))

section \<open>Downloads\<close>

lemma sanitized_safe: "list_all (\<lambda>c. \<not> unsafe_char c) (sanitized v)"
  by (induction v rule: sanitized.induct) (simp_all add: unsafe_char_def)

lemma set_ws_prefix: "set (trim_start s) \<subseteq> set s"
  by (induction s rule: trim_start.induct) (subst trim_start.simps, auto dest: in_set_dropD)

lemma set_trim_end: "set (trim_end s) \<subseteq> set s"
  by (induction s rule: trim_end.induct) (subst trim_end.simps, auto dest: in_set_takeD)

lemma set_trim_matches: "set (trim_matches c s) \<subseteq> set s"
  by (auto simp: trim_matches_def trim_end_matches_def dest!: set_dropWhileD)

lemma trim_matches_ends:
  assumes "trim_matches c s \<noteq> []"
  shows "hd (trim_matches c s) \<noteq> c" and "last (trim_matches c s) \<noteq> c"
proof -
  let ?t = "dropWhile (\<lambda>x. x = c) s"
  have t: "trim_matches c s = rev (dropWhile (\<lambda>x. x = c) (rev ?t))"
    by (simp add: trim_matches_def trim_end_matches_def)
  then have ne: "dropWhile (\<lambda>x. x = c) (rev ?t) \<noteq> []" using assms by simp
  show "last (trim_matches c s) \<noteq> c"
    using hd_dropWhile [OF ne] unfolding t by (simp add: last_rev)
  have "?t = trim_matches c s @ rev (takeWhile (\<lambda>x. x = c) (rev ?t))"
    unfolding t by (simp add: rev_append [symmetric] del: rev_append)
  then have "hd ?t = hd (trim_matches c s)" "?t \<noteq> []"
    using assms by (metis hd_append2, metis append_is_Nil_conv)
  then show "hd (trim_matches c s) \<noteq> c"
    using hd_dropWhile [of "\<lambda>x. x = c" s] by simp
qed

text \<open>
  C38. The file name of a download is never empty, does not begin or end with a dot, and has no
  slash, no backslash, no quote and no one-byte control character, whatever name the daemon gave.
\<close>

theorem attachment_name_safe:
  "safe_attachment_filename v \<noteq> [] \<and> list_all (\<lambda>c. \<not> unsafe_char c) (safe_attachment_filename v)
     \<and> hd (safe_attachment_filename v) \<noteq> CHR ''.'' \<and> last (safe_attachment_filename v) \<noteq> CHR ''.''"
proof (cases "trim_matches (CHR ''.'') (trim (sanitized v)) = []")
  case True
  then show ?thesis by (simp add: safe_attachment_filename_def unsafe_char_def)
next
  case False
  have "set (trim_matches (CHR ''.'') (trim (sanitized v))) \<subseteq> set (sanitized v)"
    using set_trim_matches set_trim_end set_ws_prefix unfolding trim_def by blast
  then show ?thesis
    using False trim_matches_ends [OF False] sanitized_safe [of v]
    by (auto simp: safe_attachment_filename_def list_all_iff)
qed

text \<open>A support bundle that is handed out is within the limit.\<close>

lemma support_bundle_bounded:
  "case fst (gvmd_get_agent_support_bundle sha L B session_token ident query w) of
     Inl e \<Rightarrow> True | Inr bundle \<Rightarrow> length (ja_bytes (asb_artifact bundle)) \<le> MAX_AGENT_SUPPORT_BUNDLE_BYTES"
  unfolding gvmd_get_agent_support_bundle_def Let_def
  by (rule returns_case, intro returns_after returns_checked returns_pure) (auto split: if_splits)

text \<open>An empty list of agents in an update sends the same command as none.\<close>

lemma agent_group_update_empty:
  "agm_agent_ids input = Some [] \<Longrightarrow>
     gvmd_modify_agent_group sha L B session_token ident input =
       gvmd_modify_agent_group sha L B session_token ident (input\<lparr>agm_agent_ids := None\<rparr>)"
  by (simp add: gvmd_modify_agent_group_def parse_entity_ids_def map_transpose_def and_then_def checked_Inr unwrap_or_def)

end
