(* ===== verification/Inventory.thy ===== *)
theory Inventory
  imports Supporting
begin

text \<open>
  Feeds, scanners and results, which are read only, from the request to the command: \<open>feeds.rs\<close>,
  \<open>scanners.rs\<close> and \<open>results.rs\<close> of the crates \<open>gvm-gateway-domain\<close>, \<open>gvm-gateway-gvmd\<close> (under
  \<open>gvmd_adapter/ports\<close>), \<open>gvm-gateway-app\<close> and \<open>gvm-gateway-rest\<close>.
\<close>

section \<open>Feeds\<close>

record Feed =
  fd_feed_type :: string
  fd_name :: string
  fd_version :: string
  fd_description :: "string option"
  fd_status :: "string option"
  fd_sync_error :: "string option"
  fd_sync_timestamp :: "string option"
  fd_currently_syncing :: bool

record FeedQuery =
  fdq_feed_type :: "string option"

record FeedList =
  fdl_data :: "Feed list"
  fdl_feed_owner_configured :: bool
  fdl_feed_roles_configured :: bool
  fdl_feed_resources_access :: bool

text \<open>
  The daemon reports a synchronisation as 0, 1, or the time it started at. The time is
  trimmed, the comparison with 0 is not.
\<close>

definition feed_from_gmp :: "GmpFeed \<Rightarrow> Feed" where
  "feed_from_gmp feed =
     \<lparr>fd_feed_type = gfd_type feed, fd_name = gfd_name feed, fd_version = gfd_version feed,
      fd_description = gfd_description feed, fd_status = gfd_status feed,
      fd_sync_error = gfd_sync_not_available feed,
      fd_sync_timestamp =
        (case map_option trim (gfd_currently_syncing feed) of
           None \<Rightarrow> None
         | Some v \<Rightarrow> if v \<noteq> [] \<and> v \<noteq> ''0'' \<and> v \<noteq> ''1'' then Some v else None),
      fd_currently_syncing = (case gfd_currently_syncing feed of None \<Rightarrow> False | Some v \<Rightarrow> v \<noteq> ''0'')\<rparr>"

definition feed_command :: "'r ResourceLibrary \<Rightarrow> string option \<Rightarrow> GmpCommand result" where
  "feed_command B feed_type =
     (case feed_type of
        None \<Rightarrow> Inr (OnInventory GetFeeds)
      | Some t \<Rightarrow>
          (case bl_feed_type B t of
             None \<Rightarrow> Inl (InvalidInput (''unsupported feed type: '' @ t))
           | Some known \<Rightarrow> Inr (OnInventory (GetFeed known))))"

definition gvmd_list_feeds ::
    "(string \<Rightarrow> u8 list) \<Rightarrow> ('r, 'g, 'f) GmpLibrary \<Rightarrow> 'r ResourceLibrary \<Rightarrow> string \<Rightarrow> FeedQuery
      \<Rightarrow> ('g Gvmd, FeedList) operation" where
  "gvmd_list_feeds sha L B session_token query =
     then_call sha session_token (feed_command B (fdq_feed_type query)) (\<lambda>command.
     chain (call sha L session_token command) (\<lambda>response.
     checked (read_with (bl_feeds B) response) (\<lambda>parsed.
       pure (Inr \<lparr>fdl_data = map feed_from_gmp (gfd_items parsed),
                  fdl_feed_owner_configured = gfd_feed_owner_set parsed,
                  fdl_feed_roles_configured = gfd_feed_roles_set parsed,
                  fdl_feed_resources_access = gfd_feed_resources_access parsed\<rparr>))))"

type_synonym 's FeedPort = "string \<Rightarrow> FeedQuery \<Rightarrow> ('s, FeedList) operation"

definition list_feeds ::
    "'s FeedPort \<Rightarrow> (string \<Rightarrow> u8 list) \<Rightarrow> u64 \<Rightarrow> string \<Rightarrow> FeedQuery \<Rightarrow> 's GatewayService
      \<Rightarrow> FeedList result \<times> 's GatewayService" where
  "list_feeds port sha now session_token query =
     use_port sha now session_token ''list'' ''feed'' (\<lambda>token. port token query)"

datatype (plugins only: code size) FeedTypeValue =
    FeedNvt | FeedCert | FeedScap | FeedGvmdData | UnknownFeedType string

definition feed_type_values :: "(string \<times> FeedTypeValue) list" where
  "feed_type_values =
     [(''NVT'', FeedNvt), (''CERT'', FeedCert), (''SCAP'', FeedScap), (''GVMD_DATA'',
      FeedGvmdData)]"

definition feed_type_parse :: "string \<Rightarrow> FeedTypeValue" where
  "feed_type_parse = open_enum_parse feed_type_values UnknownFeedType"

definition feed_type_as_str :: "FeedTypeValue \<Rightarrow> string" where
  "feed_type_as_str t =
     (case t of UnknownFeedType s \<Rightarrow> s
      | _ \<Rightarrow> (case open_enum_name feed_type_values t of Some v \<Rightarrow> v | None \<Rightarrow> []))"

record FeedResponse =
  fdr_feed_type :: FeedTypeValue
  fdr_name :: string
  fdr_version :: string
  fdr_description :: "string option"
  fdr_status :: "string option"
  fdr_sync_error :: "string option"
  fdr_sync_timestamp :: "string option"
  fdr_currently_syncing :: bool

definition feed_response :: "Feed \<Rightarrow> FeedResponse" where
  "feed_response feed =
     \<lparr>fdr_feed_type = feed_type_parse (fd_feed_type feed), fdr_name = fd_name feed,
       fdr_version = fd_version feed, fdr_description = fd_description feed,
       fdr_status = fd_status feed, fdr_sync_error = fd_sync_error feed,
       fdr_sync_timestamp = fd_sync_timestamp feed,
       fdr_currently_syncing = fd_currently_syncing feed\<rparr>"

record FeedListResponse =
  fds_data :: "FeedResponse list"
  fds_feed_owner_configured :: bool
  fds_feed_roles_configured :: bool
  fds_feed_resources_access :: bool

definition feed_list_response :: "FeedList \<Rightarrow> FeedListResponse" where
  "feed_list_response feeds =
     \<lparr>fds_data = map feed_response (fdl_data feeds),
       fds_feed_owner_configured = fdl_feed_owner_configured feeds,
       fds_feed_roles_configured = fdl_feed_roles_configured feeds,
       fds_feed_resources_access = fdl_feed_resources_access feeds\<rparr>"

datatype FeedTypeFilter = FilterNvt | FilterCert | FilterScap | FilterGvmdData

definition feed_type_filter_parse :: "string \<Rightarrow> FeedTypeFilter result" where
  "feed_type_filter_parse v =
     (if v = ''NVT'' then Inr FilterNvt
      else if v = ''CERT'' then Inr FilterCert
      else if v = ''SCAP'' then Inr FilterScap
      else if v = ''GVMD_DATA'' then Inr FilterGvmdData
      else Inl (InvalidInput (''unsupported feed type: '' @ v)))"

fun feed_type_filter_as_str :: "FeedTypeFilter \<Rightarrow> string" where
  "feed_type_filter_as_str FilterNvt = ''NVT''"
| "feed_type_filter_as_str FilterCert = ''CERT''"
| "feed_type_filter_as_str FilterScap = ''SCAP''"
| "feed_type_filter_as_str FilterGvmdData = ''GVMD_DATA''"

record FeedListQuery =
  flq_feed_type :: "FeedTypeFilter option"

fun feed_type_loop :: "FeedTypeFilter option \<Rightarrow> (string \<times> string) list \<Rightarrow> FeedTypeFilter option result" where
  "feed_type_loop feed_type [] = Inr feed_type"
| "feed_type_loop feed_type ((key, v) # pairs) =
     (if key \<noteq> ''type'' then Inl (InvalidInput (''unsupported feed query parameter: '' @ key))
      else if feed_type \<noteq> None then Inl (InvalidInput ''type may be supplied only once'')
      else and_then (feed_type_filter_parse v) (\<lambda>t. feed_type_loop (Some t) pairs))"

definition feed_list_query :: "(string \<Rightarrow> (string \<times> string) list) \<Rightarrow> string \<Rightarrow> FeedListQuery result" where
  "feed_list_query decode query =
     and_then (feed_type_loop None (decode query)) (\<lambda>feed_type. Inr \<lparr>flq_feed_type = feed_type\<rparr>)"

text \<open>The query is read before the token, unlike in the other listings.\<close>

definition rest_list_feeds ::
    "(string \<Rightarrow> (string \<times> string) list) \<Rightarrow> 's FeedPort \<Rightarrow> (string \<Rightarrow> u8 list) \<Rightarrow> u64 \<Rightarrow> Request
      \<Rightarrow> 's GatewayService \<Rightarrow> FeedListResponse RestBody Response \<times> 's GatewayService" where
  "rest_list_feeds decode port sha now q sv =
     (case feed_list_query decode (query_text q) of
        Inl e \<Rightarrow> (gateway_error e (rq_path q), sv)
      | Inr query \<Rightarrow>
          (case bearer_token (rq_headers q) of
             Inl e \<Rightarrow> (gateway_error e (rq_path q), sv)
           | Inr session \<Rightarrow>
               respond q (\<lambda>feeds. ok_resource (feed_list_response feeds))
                 (list_feeds port sha now session
                    \<lparr>fdq_feed_type = map_option feed_type_filter_as_str (flq_feed_type query)\<rparr> sv)))"

text \<open>The values of the filter are those the query may have, each once.\<close>

lemma feed_type_filter_roundtrip:
  "feed_type_filter_parse (feed_type_filter_as_str t) = Inr t"
  by (cases t) (simp_all add: feed_type_filter_parse_def)

lemma feed_type_filter_parse_as_str: "feed_type_filter_parse v = Inr t \<Longrightarrow> feed_type_filter_as_str t = v"
  by (simp add: feed_type_filter_parse_def split: if_splits; hypsubst; simp)

lemma feed_type_loop_started:
  "feed_type_loop (Some t) pairs = Inr feed_type \<longleftrightarrow> pairs = [] \<and> feed_type = Some t"
  by (cases pairs) (auto split: if_splits)

text \<open>
  A feed query is accepted exactly when it is empty or its only pair names a known type, and
  the daemon is asked for the type as it was written.
\<close>

lemma feed_query_accepted:
  "feed_list_query decode query = Inr \<lparr>flq_feed_type = feed_type\<rparr> \<longleftrightarrow>
     (decode query = [] \<and> feed_type = None)
     \<or> (\<exists>t. decode query = [(''type'', feed_type_filter_as_str t)] \<and> feed_type = Some t)"
proof (cases "decode query")
  case Nil
  then show ?thesis by (auto simp: feed_list_query_def)
next
  case (Cons pair pairs)
  obtain k v where pair: "pair = (k, v)" by (cases pair)
  show ?thesis
    by (auto simp: feed_list_query_def Cons pair and_then_def feed_type_loop_started feed_type_filter_roundtrip
        feed_type_filter_parse_as_str split: sum.splits)
qed

section \<open>Scanners and results\<close>

record Scanner =
  sn_id :: string
  sn_name :: string
  sn_comment :: "string option"
  sn_host :: "string option"
  sn_port :: "u32 option"
  sn_scanner_type :: "string option"
  sn_credential :: "ResourceRef option"
  sn_ca_pub :: "string option"
  sn_in_use :: bool
  sn_writable :: bool

definition scanner_from_gmp :: "GmpScanner \<Rightarrow> Scanner" where
  "scanner_from_gmp scanner =
     \<lparr>sn_id = em_id (gsn_meta scanner), sn_name = em_name (gsn_meta scanner), sn_comment = em_comment (gsn_meta scanner),
      sn_host = gsn_host scanner, sn_port = map_option ucast (gsn_port scanner),
      sn_scanner_type = gsn_scanner_type scanner,
      sn_credential = map_option resource_ref_from_named_entity (gsn_credential scanner),
      sn_ca_pub = gsn_ca_pub scanner, sn_in_use = em_in_use (gsn_meta scanner), sn_writable = em_writable (gsn_meta scanner)\<rparr>"

definition gvmd_list_scanners ::
    "(string \<Rightarrow> u8 list) \<Rightarrow> ('r, 'g, 'f) GmpLibrary \<Rightarrow> 'r ResourceLibrary \<Rightarrow> string
      \<Rightarrow> ListQuery \<Rightarrow> ('g Gvmd, Scanner Page) operation" where
  "gvmd_list_scanners sha L B =
     list_resources sha L None [] (\<lambda>filter_string. OnInventory (GetScanners \<lparr>lo_filter_string = filter_string, lo_details = Some True\<rparr>)) (bl_scanners B) scanner_from_gmp"

definition gvmd_get_scanner ::
    "(string \<Rightarrow> u8 list) \<Rightarrow> ('r, 'g, 'f) GmpLibrary \<Rightarrow> 'r ResourceLibrary \<Rightarrow> string \<Rightarrow> string
      \<Rightarrow> ('g Gvmd, Scanner) operation" where
  "gvmd_get_scanner sha L B = get_one sha L (\<lambda>ident. OnInventory (GetScanner ident)) (bl_scanners B) scanner_from_gmp ''scanner''"

type_synonym 's ScannerPort = "('s, Scanner) ReadPort"

definition gvmd_scanner_port ::
    "(string \<Rightarrow> u8 list) \<Rightarrow> ('r, 'g, 'f) GmpLibrary \<Rightarrow> 'r ResourceLibrary
      \<Rightarrow> 'g Gvmd ScannerPort" where
  "gvmd_scanner_port sha L B = \<lparr>rp_list = gvmd_list_scanners sha L B, rp_get = gvmd_get_scanner sha L B\<rparr>"

definition list_scanners ::
    "'s ScannerPort \<Rightarrow> (string \<Rightarrow> u8 list) \<Rightarrow> u64 \<Rightarrow> string \<Rightarrow> ListQuery \<Rightarrow> 's GatewayService
      \<Rightarrow> Scanner Page result \<times> 's GatewayService" where
  "list_scanners port sha now session_token query =
     use_port sha now session_token ''list'' ''scanner'' (\<lambda>token. rp_list port token query)"

definition get_scanner ::
    "'s ScannerPort \<Rightarrow> (string \<Rightarrow> u8 list) \<Rightarrow> u64 \<Rightarrow> string \<Rightarrow> string \<Rightarrow> 's GatewayService
      \<Rightarrow> Scanner result \<times> 's GatewayService" where
  "get_scanner port sha now session_token ident =
     use_port sha now session_token ''read'' ''scanner'' (\<lambda>token. rp_get port token ident)"

datatype ScannerTypeValue =
    ScannerOpenVas | ScannerCve | ScannerOsp | UnknownScannerType string

definition scanner_type_values :: "(string \<times> ScannerTypeValue) list" where
  "scanner_type_values =
     [(''OpenVAS'', ScannerOpenVas), (''CVE'', ScannerCve), (''OSP'', ScannerOsp)]"

definition scanner_type_parse :: "string \<Rightarrow> ScannerTypeValue" where
  "scanner_type_parse = open_enum_parse scanner_type_values UnknownScannerType"

definition scanner_type_as_str :: "ScannerTypeValue \<Rightarrow> string" where
  "scanner_type_as_str t =
     (case t of UnknownScannerType s \<Rightarrow> s
      | _ \<Rightarrow> (case open_enum_name scanner_type_values t of Some v \<Rightarrow> v | None \<Rightarrow> []))"

record ScannerResponse =
  snr_id :: string
  snr_name :: string
  snr_comment :: "string option"
  snr_host :: "string option"
  snr_port :: "u32 option"
  snr_scanner_type :: "ScannerTypeValue option"
  snr_credential :: "ResourceRefResponse option"
  snr_ca_pub :: "string option"
  snr_in_use :: bool
  snr_writable :: bool

definition scanner_response :: "(string \<Rightarrow> string option) \<Rightarrow> Scanner \<Rightarrow> ScannerResponse" where
  "scanner_response uuid x =
     \<lparr>snr_id = parse_uuid uuid (sn_id x), snr_name = sn_name x, snr_comment = sn_comment x,
       snr_host = sn_host x, snr_port = sn_port x,
       snr_scanner_type = map_option scanner_type_parse (sn_scanner_type x),
       snr_credential = map_option (resource_ref_response uuid) (sn_credential x),
       snr_ca_pub = sn_ca_pub x, snr_in_use = sn_in_use x, snr_writable = sn_writable x\<rparr>"

definition rest_list_scanners ::
    "(string \<Rightarrow> (string \<times> string) list) \<Rightarrow> (string \<Rightarrow> string option) \<Rightarrow> 's ScannerPort
      \<Rightarrow> (string \<Rightarrow> u8 list) \<Rightarrow> u64 \<Rightarrow> Request \<Rightarrow> 's GatewayService
      \<Rightarrow> ScannerResponse ListResponse RestBody Response \<times> 's GatewayService" where
  "rest_list_scanners decode uuid port sha now =
     list_resource (list_query decode uuid) (\<lambda>session query. list_scanners port sha now session query)
       (list_response (scanner_response uuid))"

definition rest_get_scanner ::
    "(string \<Rightarrow> string option) \<Rightarrow> 's ScannerPort \<Rightarrow> (string \<Rightarrow> u8 list) \<Rightarrow> u64 \<Rightarrow> string
      \<Rightarrow> Request \<Rightarrow> 's GatewayService
      \<Rightarrow> ScannerResponse RestBody Response \<times> 's GatewayService" where
  "rest_get_scanner uuid port sha now =
     get_resource uuid (\<lambda>session ident. get_scanner port sha now session ident) (scanner_response uuid)"

record ScanResult =
  sr_id :: string
  sr_name :: string
  sr_host :: "string option"
  sr_port :: "string option"
  sr_severity :: "f64 option"
  sr_threat :: "string option"
  sr_nvt :: "NvtRef option"
  sr_description :: "string option"
  sr_task :: "ResourceRef option"
  sr_report :: "ResourceRef option"
  sr_hosts_count :: "u32 option"
  sr_occurrences :: "u32 option"

definition result_from_gmp :: "GmpScanResult \<Rightarrow> ScanResult" where
  "result_from_gmp scan_result =
     \<lparr>sr_id = em_id (grs_meta scan_result), sr_name = em_name (grs_meta scan_result), sr_host = grs_host scan_result,
      sr_port = grs_port scan_result, sr_severity = grs_severity_score scan_result, sr_threat = grs_threat scan_result,
      sr_nvt = map_option (\<lambda>n. \<lparr>nv_oid = Some (gnv_oid n), nv_name = gnv_name n, nv_family = gnv_family n,
        nv_cvss_base = gnv_cvss_base_score n, nv_cves = gnv_cves n, nv_tags = gnv_tags n\<rparr>) (grs_nvt scan_result),
      sr_description = grs_description scan_result,
      sr_task = map_option resource_ref_from_named_entity (grs_task scan_result),
      sr_report = map_option resource_ref_from_named_entity (grs_report scan_result),
      sr_hosts_count = None, sr_occurrences = None\<rparr>"

definition gvmd_list_results ::
    "(string \<Rightarrow> u8 list) \<Rightarrow> ('r, 'g, 'f) GmpLibrary \<Rightarrow> 'r ResourceLibrary \<Rightarrow> string
      \<Rightarrow> ListQuery \<Rightarrow> ('g Gvmd, ScanResult Page) operation" where
  "gvmd_list_results sha L B =
     list_resources sha L None [] (\<lambda>filter_string. OnInventory (GetResults \<lparr>lo_filter_string = filter_string, lo_details = Some True\<rparr>)) (bl_results B) result_from_gmp"

definition gvmd_get_result ::
    "(string \<Rightarrow> u8 list) \<Rightarrow> ('r, 'g, 'f) GmpLibrary \<Rightarrow> 'r ResourceLibrary \<Rightarrow> string \<Rightarrow> string
      \<Rightarrow> ('g Gvmd, ScanResult) operation" where
  "gvmd_get_result sha L B = get_one sha L (\<lambda>ident. OnInventory (GetResult ident)) (bl_results B) result_from_gmp ''result''"

type_synonym 's ScanResultPort = "('s, ScanResult) ReadPort"

definition gvmd_result_port ::
    "(string \<Rightarrow> u8 list) \<Rightarrow> ('r, 'g, 'f) GmpLibrary \<Rightarrow> 'r ResourceLibrary
      \<Rightarrow> 'g Gvmd ScanResultPort" where
  "gvmd_result_port sha L B = \<lparr>rp_list = gvmd_list_results sha L B, rp_get = gvmd_get_result sha L B\<rparr>"

definition list_results ::
    "'s ScanResultPort \<Rightarrow> (string \<Rightarrow> u8 list) \<Rightarrow> u64 \<Rightarrow> string \<Rightarrow> ListQuery
      \<Rightarrow> 's GatewayService \<Rightarrow> ScanResult Page result \<times> 's GatewayService" where
  "list_results port sha now session_token query =
     use_port sha now session_token ''list'' ''result'' (\<lambda>token. rp_list port token query)"

definition get_result ::
    "'s ScanResultPort \<Rightarrow> (string \<Rightarrow> u8 list) \<Rightarrow> u64 \<Rightarrow> string \<Rightarrow> string \<Rightarrow> 's GatewayService
      \<Rightarrow> ScanResult result \<times> 's GatewayService" where
  "get_result port sha now session_token ident =
     use_port sha now session_token ''read'' ''result'' (\<lambda>token. rp_get port token ident)"

datatype (plugins only: code size) ThreatValue =
    ThreatHigh | ThreatMedium | ThreatLow | ThreatLog | ThreatAlarm | UnknownThreat string

definition threat_values :: "(string \<times> ThreatValue) list" where
  "threat_values =
     [(''High'', ThreatHigh), (''Medium'', ThreatMedium), (''Low'', ThreatLow), (''Log'',
      ThreatLog), (''Alarm'', ThreatAlarm)]"

definition threat_parse :: "string \<Rightarrow> ThreatValue" where
  "threat_parse = open_enum_parse threat_values UnknownThreat"

definition threat_as_str :: "ThreatValue \<Rightarrow> string" where
  "threat_as_str t =
     (case t of UnknownThreat s \<Rightarrow> s
      | _ \<Rightarrow> (case open_enum_name threat_values t of Some v \<Rightarrow> v | None \<Rightarrow> []))"

record ResultResponse =
  srr_id :: string
  srr_name :: string
  srr_host :: "string option"
  srr_port :: "string option"
  srr_severity :: "f64 option"
  srr_threat :: "ThreatValue option"
  srr_nvt :: "NvtRefResponse option"
  srr_description :: "string option"
  srr_task :: "ResourceRefResponse option"
  srr_report :: "ResourceRefResponse option"
  srr_hosts_count :: "u32 option"
  srr_occurrences :: "u32 option"

definition result_response :: "(string \<Rightarrow> string option) \<Rightarrow> ScanResult \<Rightarrow> ResultResponse" where
  "result_response uuid x =
     \<lparr>srr_id = parse_uuid uuid (sr_id x), srr_name = sr_name x, srr_host = sr_host x,
       srr_port = sr_port x, srr_severity = sr_severity x,
       srr_threat = map_option threat_parse (sr_threat x),
       srr_nvt = map_option nvt_ref_response (sr_nvt x), srr_description = sr_description x,
       srr_task = map_option (resource_ref_response uuid) (sr_task x),
       srr_report = map_option (resource_ref_response uuid) (sr_report x),
       srr_hosts_count = sr_hosts_count x, srr_occurrences = sr_occurrences x\<rparr>"

definition rest_list_results ::
    "(string \<Rightarrow> (string \<times> string) list) \<Rightarrow> (string \<Rightarrow> string option)
      \<Rightarrow> 's ScanResultPort \<Rightarrow> (string \<Rightarrow> u8 list) \<Rightarrow> u64 \<Rightarrow> Request \<Rightarrow> 's GatewayService
      \<Rightarrow> ResultResponse ListResponse RestBody Response \<times> 's GatewayService" where
  "rest_list_results decode uuid port sha now =
     list_resource (list_query decode uuid) (\<lambda>session query. list_results port sha now session query)
       (list_response (result_response uuid))"

definition rest_get_result ::
    "(string \<Rightarrow> string option) \<Rightarrow> 's ScanResultPort \<Rightarrow> (string \<Rightarrow> u8 list) \<Rightarrow> u64 \<Rightarrow> string
      \<Rightarrow> Request \<Rightarrow> 's GatewayService
      \<Rightarrow> ResultResponse RestBody Response \<times> 's GatewayService" where
  "rest_get_result uuid port sha now =
     get_resource uuid (\<lambda>session ident. get_result port sha now session ident) (result_response uuid)"

section \<open>Routes\<close>

record 's InventoryPorts =
  ip_feeds :: "'s FeedPort"
  ip_scanners :: "'s ScannerPort"
  ip_results :: "'s ScanResultPort"

definition gvmd_inventory_ports ::
    "(string \<Rightarrow> u8 list) \<Rightarrow> ('r, 'g, 'f) GmpLibrary \<Rightarrow> 'r ResourceLibrary \<Rightarrow> 'g Gvmd InventoryPorts" where
  "gvmd_inventory_ports sha L B =
     \<lparr>ip_feeds = gvmd_list_feeds sha L B, ip_scanners = gvmd_scanner_port sha L B, ip_results = gvmd_result_port sha L B\<rparr>"

datatype (plugins only: code size) InventoryRoute = ListFeeds | ListScanners | GetScannerBy string | ListResults | GetResultBy string

fun serve_inventory ::
    "(string \<Rightarrow> (string \<times> string) list) \<Rightarrow> (string \<Rightarrow> string option) \<Rightarrow> 's InventoryPorts \<Rightarrow> (string \<Rightarrow> u8 list) \<Rightarrow> u64
      \<Rightarrow> InventoryRoute \<Rightarrow> Request \<Rightarrow> 's GatewayService \<Rightarrow> nat \<times> 's GatewayService" where
  "serve_inventory decode uuid ports sha now ListFeeds q sv = answered (rest_list_feeds decode (ip_feeds ports) sha now q sv)"
| "serve_inventory decode uuid ports sha now ListScanners q sv = answered (rest_list_scanners decode uuid (ip_scanners ports) sha now q sv)"
| "serve_inventory decode uuid ports sha now (GetScannerBy ident) q sv = answered (rest_get_scanner uuid (ip_scanners ports) sha now ident q sv)"
| "serve_inventory decode uuid ports sha now ListResults q sv = answered (rest_list_results decode uuid (ip_results ports) sha now q sv)"
| "serve_inventory decode uuid ports sha now (GetResultBy ident) q sv = answered (rest_get_result uuid (ip_results ports) sha now ident q sv)"

lemma within_list_feeds [within]:
  "(\<And>token. R token w (False, w)) \<Longrightarrow> (\<And>token query. R token w (outcome (list_feeds port sha now token query w))) \<Longrightarrow>
     within_token R q w (rest_list_feeds decode port sha now q w)"
  by (auto simp: within_simps rest_list_feeds_def split: sum.split)

lemma speaks_inventory [speaks]:
  "d = from_token sha session_token \<Longrightarrow> speaks_for d (gvmd_list_feeds sha L B session_token feed_query)"
  "d = from_token sha session_token \<Longrightarrow> speaks_for d (gvmd_list_scanners sha L B session_token query)"
  "d = from_token sha session_token \<Longrightarrow> speaks_for d (gvmd_get_scanner sha L B session_token ident)"
  "d = from_token sha session_token \<Longrightarrow> speaks_for d (gvmd_list_results sha L B session_token query)"
  "d = from_token sha session_token \<Longrightarrow> speaks_for d (gvmd_get_result sha L B session_token ident)"
  unfolding gvmd_list_feeds_def gvmd_list_scanners_def gvmd_get_scanner_def gvmd_list_results_def gvmd_get_result_def
  by (auto intro!: speaks)

lemma inventory_acts_for_own_session:
  "acts_for_own_session sha now q sv
     (serve_inventory decode uuid (gvmd_inventory_ports sha L B) sha now route q sv)"
  by (cases route; (simp only: serve_inventory.simps gvmd_inventory_ports_def InventoryPorts.simps ReadPort.simps
        rest_list_scanners_def rest_get_scanner_def rest_list_results_def rest_get_result_def
        list_scanners_def get_scanner_def list_results_def get_result_def gvmd_scanner_port_def gvmd_result_port_def;
      rule acts_answered; intro within own_session_rules speaks refl;
      (simp only: list_feeds_def; intro own_session_rules speaks refl)?))

end
