(* ===== verification/Reports.thy ===== *)
theory Reports
  imports Supporting Inventory Exports
begin

text \<open>
  Reports, from the request to the command: listing, reading with one page of results, exporting
  and deleting them, and the listings of their details, in \<open>reports.rs\<close> of the crates
  \<open>gvm-gateway-domain\<close>, \<open>gvm-gateway-gvmd\<close> (under \<open>gvmd_adapter/ports\<close>), \<open>gvm-gateway-app\<close> and
  \<open>gvm-gateway-rest\<close>. The queries of reports and of results have the four parts of every list
  query and are values of \<open>ListQuery\<close>.
\<close>

section \<open>Domain\<close>

record ReportVulnerability =
  rvu_id :: "string option"
  rvu_nvt :: "NvtRef option"
  rvu_host :: "string option"
  rvu_port :: "string option"
  rvu_threat :: "string option"
  rvu_severity :: "f64 option"
  rvu_hosts_count :: "u32 option"
  rvu_occurrences :: "u32 option"

record ReportError =
  rer_id :: "string option"
  rer_name :: "string option"
  rer_host :: "string option"
  rer_port :: "string option"
  rer_description :: "string option"
  rer_nvt_name :: "string option"

record ReportHost =
  rho_id :: "string option"
  rho_name :: "string option"
  rho_severity :: "string option"

record ReportClosedCve =
  rcc_id :: "string option"
  rcc_nvt :: "NvtRef option"
  rcc_cve :: "string option"
  rcc_host :: "string option"
  rcc_severity :: "f64 option"
  rcc_threat :: "string option"

record ReportPortSummary =
  rpo_id :: "string option"
  rpo_name :: "string option"
  rpo_severity :: "string option"

record ReportApplication =
  rap_id :: "string option"
  rap_name :: "string option"
  rap_severity :: "string option"

record ReportOperatingSystem =
  ros_id :: "string option"
  ros_name :: "string option"
  ros_severity :: "string option"

record ReportCve =
  rcv_id :: "string option"
  rcv_name :: "string option"
  rcv_severity :: "string option"

record ResultCount =
  rct_total :: "u32 option"
  rct_high :: "u32 option"
  rct_medium :: "u32 option"
  rct_low :: "u32 option"
  rct_log :: "u32 option"
  rct_debug :: "u32 option"
  rct_false_positive :: "u32 option"

record Report =
  rpt_id :: string
  rpt_task :: "ResourceRef option"
  rpt_scan_start :: "string option"
  rpt_scan_end :: "string option"
  rpt_severity :: "f64 option"
  rpt_result_count :: "ResultCount option"
  rpt_results :: "ScanResult list"

record ReportExportRequest =
  rxr_report_format_id :: string
  rxr_report_config_id :: "string option"
  rxr_filter :: "string option"
  rxr_filter_id :: "string option"

record TlsCertificate =
  tlc_id :: "string option"
  tlc_host :: "string option"
  tlc_port :: "string option"
  tlc_subject :: string
  tlc_issuer :: "string option"
  tlc_not_before :: "string option"
  tlc_not_after :: "string option"
  tlc_fingerprint_sha256 :: "string option"

record GetReportOpts =
  gro_opts_page :: u32
  gro_opts_per_page :: u32

definition default_report_opts :: GetReportOpts where
  "default_report_opts = \<lparr>gro_opts_page = 1, gro_opts_per_page = 25\<rparr>"

record 's ReportPort =
  xr_list_reports :: "string \<Rightarrow> ListQuery \<Rightarrow> ('s, Report Page) operation"
  xr_get_report :: "string \<Rightarrow> string \<Rightarrow> GetReportOpts \<Rightarrow> ('s, Report) operation"
  xr_export_report :: "string \<Rightarrow> string \<Rightarrow> ReportExportRequest \<Rightarrow> ('s, ReportExport) operation"
  xr_delete_report :: "string \<Rightarrow> string \<Rightarrow> bool \<Rightarrow> ('s, unit) operation"
  xr_get_report_results :: "string \<Rightarrow> string \<Rightarrow> ListQuery \<Rightarrow> ('s, ScanResult Page) operation"
  xr_get_report_vulnerabilities :: "string \<Rightarrow> string \<Rightarrow> ListQuery \<Rightarrow> ('s, ReportVulnerability Page) operation"
  xr_get_report_hosts :: "string \<Rightarrow> string \<Rightarrow> ListQuery \<Rightarrow> ('s, ReportHost Page) operation"
  xr_get_report_ports :: "string \<Rightarrow> string \<Rightarrow> ListQuery \<Rightarrow> ('s, ReportPortSummary Page) operation"
  xr_get_report_applications :: "string \<Rightarrow> string \<Rightarrow> ListQuery \<Rightarrow> ('s, ReportApplication Page) operation"
  xr_get_report_operating_systems :: "string \<Rightarrow> string \<Rightarrow> ListQuery \<Rightarrow> ('s, ReportOperatingSystem Page) operation"
  xr_get_report_cves :: "string \<Rightarrow> string \<Rightarrow> ListQuery \<Rightarrow> ('s, ReportCve Page) operation"
  xr_get_report_tls_certificates :: "string \<Rightarrow> string \<Rightarrow> ListQuery \<Rightarrow> ('s, TlsCertificate Page) operation"
  xr_get_report_errors :: "string \<Rightarrow> string \<Rightarrow> ListQuery \<Rightarrow> ('s, ReportError Page) operation"
  xr_get_report_closed_cves :: "string \<Rightarrow> string \<Rightarrow> ListQuery \<Rightarrow> ('s, ReportClosedCve Page) operation"

section \<open>Conversions\<close>

text \<open>A severity of a report that is not a number is left out; one of a detail is an error.\<close>

definition report_from_gmp :: "(string \<Rightarrow> f64 option) \<Rightarrow> GmpReport \<Rightarrow> Report" where
  "report_from_gmp parse_f64 report =
     \<lparr>rpt_id = em_id (grp_meta report), rpt_task = map_option resource_ref_from_named_entity (grp_task report),
      rpt_scan_start = grp_scan_start report, rpt_scan_end = grp_scan_end report,
      rpt_severity = Option.bind (Option.bind (grp_severity report) (\<lambda>full. full)) parse_f64,
      rpt_result_count = map_option (\<lambda>rc.
        \<lparr>rct_total = grc_full rc, rct_high = Option.bind (grc_high rc) (\<lambda>full. full),
         rct_medium = Option.bind (grc_medium rc) (\<lambda>full. full), rct_low = Option.bind (grc_low rc) (\<lambda>full. full),
         rct_log = Option.bind (grc_log rc) (\<lambda>full. full), rct_debug = Option.bind (grc_debug rc) (\<lambda>full. full),
         rct_false_positive = Option.bind (grc_false_positive rc) (\<lambda>full. full)\<rparr>) (grp_result_count report),
      rpt_results = []\<rparr>"

definition parse_optional_backend_f64 :: "(string \<Rightarrow> f64 option) \<Rightarrow> string option \<Rightarrow> string \<Rightarrow> f64 option result" where
  "parse_optional_backend_f64 parse_f64 v field =
     map_transpose (\<lambda>v. case parse_f64 v of
         None \<Rightarrow> Inl (BackendUnavailable (''gvmd returned invalid '' @ field @ '': '' @ v))
       | Some x \<Rightarrow> Inr x) v"

definition result_from_report_vulnerability ::
    "(string \<Rightarrow> f64 option) \<Rightarrow> GmpReportVulnerability \<Rightarrow> ReportVulnerability result" where
  "result_from_report_vulnerability parse_f64 x =
     and_then (parse_optional_backend_f64 parse_f64 (grv_severity x) ''report vulnerability severity'') (\<lambda>severity.
       Inr \<lparr>rvu_id = grv_id x,
         rvu_nvt = Some \<lparr>nv_oid = grv_nvt_oid x, nv_name = grv_name x, nv_family = grv_family x, nv_cvss_base = None,
           nv_cves = grv_cves x, nv_tags = None\<rparr>,
         rvu_host = grv_host x, rvu_port = grv_port x, rvu_threat = grv_threat x, rvu_severity = severity,
         rvu_hosts_count = grv_hosts_count x, rvu_occurrences = grv_occurrences x\<rparr>)"

definition report_closed_cve_from_gmp ::
    "(string \<Rightarrow> f64 option) \<Rightarrow> GmpReportClosedCve \<Rightarrow> ReportClosedCve result" where
  "report_closed_cve_from_gmp parse_f64 x =
     and_then (parse_optional_backend_f64 parse_f64 (grl_severity x) ''closed CVE severity'') (\<lambda>severity.
       Inr \<lparr>rcc_id = grl_id x,
         rcc_nvt = Some \<lparr>nv_oid = grl_nvt_oid x, nv_name = grl_name x, nv_family = None, nv_cvss_base = None,
           nv_cves = (case grl_cve x of None \<Rightarrow> [] | Some cve \<Rightarrow> [cve]), nv_tags = None\<rparr>,
         rcc_cve = grl_cve x, rcc_host = grl_host x, rcc_severity = severity, rcc_threat = grl_threat x\<rparr>)"

definition tls_certificate_from_report_tls_certificate :: "GmpReportTlsCertificate \<Rightarrow> TlsCertificate" where
  "tls_certificate_from_report_tls_certificate x =
     \<lparr>tlc_id = grt_id x, tlc_host = grt_host x, tlc_port = grt_port x,
      tlc_subject = unwrap_or (case grt_subject x of Some s \<Rightarrow> Some s | None \<Rightarrow> grt_name x) [],
      tlc_issuer = grt_issuer x, tlc_not_before = grt_activation_time x, tlc_not_after = grt_expiration_time x,
      tlc_fingerprint_sha256 = grt_sha256_fingerprint x\<rparr>"

definition report_error_from_gmp :: "GmpReportError \<Rightarrow> ReportError" where
  "report_error_from_gmp x =
     \<lparr>rer_id = gro_id x, rer_name = gro_name x, rer_host = gro_host x, rer_port = gro_port x,
       rer_description = gro_description x, rer_nvt_name = gro_nvt_name x\<rparr>"

definition report_host_from_gmp :: "GmpReportSummary \<Rightarrow> ReportHost" where
  "report_host_from_gmp x =
     \<lparr>rho_id = gry_id x, rho_name = gry_name x, rho_severity = gry_severity x\<rparr>"

definition report_port_from_gmp :: "GmpReportSummary \<Rightarrow> ReportPortSummary" where
  "report_port_from_gmp x =
     \<lparr>rpo_id = gry_id x, rpo_name = gry_name x, rpo_severity = gry_severity x\<rparr>"

definition report_application_from_gmp :: "GmpReportSummary \<Rightarrow> ReportApplication" where
  "report_application_from_gmp x =
     \<lparr>rap_id = gry_id x, rap_name = gry_name x, rap_severity = gry_severity x\<rparr>"

definition report_operating_system_from_gmp :: "GmpReportSummary \<Rightarrow> ReportOperatingSystem" where
  "report_operating_system_from_gmp x =
     \<lparr>ros_id = gry_id x, ros_name = gry_name x, ros_severity = gry_severity x\<rparr>"

definition report_cve_from_gmp :: "GmpReportSummary \<Rightarrow> ReportCve" where
  "report_cve_from_gmp x =
     \<lparr>rcv_id = gry_id x, rcv_name = gry_name x, rcv_severity = gry_severity x\<rparr>"

section \<open>Adapter\<close>

text \<open>
  The options of a detail listing: the filter of the client must not name the report, and a saved
  filter is resolved first.
\<close>

definition report_detail_query ::
    "(string \<Rightarrow> u8 list) \<Rightarrow> ('r, 'g, 'f) GmpLibrary \<Rightarrow> string \<Rightarrow> ListQuery \<Rightarrow> ('g Gvmd, ListOpts) operation" where
  "report_detail_query sha L session_token query =
     checked (map_transpose (parse_entity_id L) (lq_filter_id query)) (\<lambda>filter_id.
     chain (paginated_filter_resolving_filter_id sha L session_token None (lq_filter_string query) filter_id
              (lq_page query) (lq_per_page query) [''report_id'']) (\<lambda>filter_string.
       pure (Inr \<lparr>lo_filter_string = filter_string, lo_details = Some True\<rparr>)))"

definition typed_report_detail_unsupported :: "GvmError \<Rightarrow> string \<Rightarrow> bool" where
  "typed_report_detail_unsupported error command =
     (case error of GvmUnsupportedCommand unsupported _ \<Rightarrow> unsupported = command | _ \<Rightarrow> False)"

definition unsupported_typed_report_detail_error :: "string \<Rightarrow> string \<Rightarrow> GatewayError" where
  "unsupported_typed_report_detail_error command resource =
     NotImplemented (resource @ '' are not available because gvmd does not implement '' @ [CHR 0x60] @ command @ [CHR 0x60]
       @ '' on this backend version; the proxy does not emulate unsupported GMP commands'')"

definition map_report_detail_error :: "string \<Rightarrow> string \<Rightarrow> GvmError \<Rightarrow> GatewayError" where
  "map_report_detail_error command resource error =
     (if typed_report_detail_unsupported error command then unsupported_typed_report_detail_error command resource
      else map_gvm_error error)"

text \<open>
  The nine detail listings are written alike: the command with its options, the answer read by
  the client or after it, each item converted, and one page of them.
\<close>

definition list_report_detail ::
    "(string \<Rightarrow> u8 list) \<Rightarrow> ('r, 'g, 'f) GmpLibrary \<Rightarrow> string \<Rightarrow> string \<Rightarrow> (string \<Rightarrow> ListOpts \<Rightarrow> ReportCommand)
      \<Rightarrow> ('r \<Rightarrow> ParseError + 'p) \<Rightarrow> ('p \<Rightarrow> 'i Counted result) \<Rightarrow> ('i \<Rightarrow> 'a result)
      \<Rightarrow> string \<Rightarrow> string \<Rightarrow> ListQuery \<Rightarrow> ('g Gvmd, 'a Page) operation" where
  "list_report_detail sha L command resource build_command from_response parsed_answer convert session_token report_id query =
     chain (connected sha session_token) (\<lambda>_.
     checked (parse_entity_id L report_id) (\<lambda>report_id.
     chain (report_detail_query sha L session_token query) (\<lambda>opts.
     chain (client_method (map_report_detail_error command resource) sha L session_token
              (OnReports (build_command report_id opts)) from_response) (\<lambda>answer.
     checked (parsed_answer answer) (\<lambda>parsed.
     checked (collect_results convert (ct_items parsed)) (\<lambda>items.
       let total = gvmd_total (ct_filtered parsed) (ct_total parsed) (length items)
       in pure (Inr (items, paged_pagination total (lq_page query) (lq_per_page query)))))))))"

lemma speaks_report_detail [speaks]:
  "d = from_token sha session_token \<Longrightarrow> speaks_for d (report_detail_query sha L session_token query)"
  "d = from_token sha session_token \<Longrightarrow>
     speaks_for d (list_report_detail sha L command resource build_command from_response parsed_answer convert
       session_token report_id query)"
  unfolding list_report_detail_def report_detail_query_def Let_def by (intro speaks; simp)+

definition gvmd_list_reports ::
    "(string \<Rightarrow> u8 list) \<Rightarrow> ('r, 'g, 'f) GmpLibrary \<Rightarrow> 'r ResourceLibrary \<Rightarrow> string
      \<Rightarrow> ListQuery \<Rightarrow> ('g Gvmd, Report Page) operation" where
  "gvmd_list_reports sha L B =
     list_resources sha L None [] (\<lambda>filter_string. OnReports (GetReports
         \<lparr>gr_report_id = None, gr_filter_string = filter_string, gr_details = Some False\<rparr>))
       (bl_reports B) (report_from_gmp (bl_parse_f64 B))"

lemma speaks_list_reports [speaks]:
  "d = from_token sha session_token \<Longrightarrow> speaks_for d (gvmd_list_reports sha L B session_token query)"
  unfolding gvmd_list_reports_def by (auto intro!: speaks split: prod.split option.split)

definition gvmd_get_report ::
    "(string \<Rightarrow> u8 list) \<Rightarrow> ('r, 'g, 'f) GmpLibrary \<Rightarrow> 'r ResourceLibrary \<Rightarrow> string \<Rightarrow> string
      \<Rightarrow> GetReportOpts \<Rightarrow> ('g Gvmd, Report) operation" where
  "gvmd_get_report sha L B session_token ident opts =
     chain (connected sha session_token) (\<lambda>_.
     checked (parse_entity_id L ident) (\<lambda>report_id.
     chain (fetch_first sha L session_token (OnReports (GetReports
         \<lparr>gr_report_id = Some report_id, gr_filter_string = None, gr_details = Some False\<rparr>))
         (bl_reports B) (report_from_gmp (bl_parse_f64 B)) (''report '' @ ident @ '' not found'')) (\<lambda>report.
     checked (paginated_filter (lb_filter L) (Some (''report_id='' @ ident)) None (gro_opts_page opts)
         (gro_opts_per_page opts) []) (\<lambda>filter_string.
     chain (fetch_items sha L session_token (OnReports (GetReportResults
         \<lparr>lo_filter_string = filter_string, lo_details = Some True\<rparr>)) (bl_results B) result_from_gmp) (\<lambda>(items, total).
       pure (Inr (report\<lparr>rpt_results := items\<rparr>)))))))"

lemma speaks_get_report [speaks]:
  "d = from_token sha session_token \<Longrightarrow> speaks_for d (gvmd_get_report sha L B session_token ident opts)"
  unfolding gvmd_get_report_def by (auto intro!: speaks split: prod.split option.split)

definition gvmd_export_report ::
    "(string \<Rightarrow> u8 list) \<Rightarrow> ('r, 'g, 'f) GmpLibrary \<Rightarrow> 'r ResourceLibrary \<Rightarrow> string \<Rightarrow> string
      \<Rightarrow> ReportExportRequest \<Rightarrow> ('g Gvmd, ReportExport) operation" where
  "gvmd_export_report sha L B session_token ident request =
     chain (connected sha session_token) (\<lambda>_.
     checked (parse_entity_id L ident) (\<lambda>report_id.
     checked (parse_entity_id L (rxr_report_format_id request)) (\<lambda>report_format_id.
     checked (map_transpose (parse_entity_id L) (rxr_report_config_id request)) (\<lambda>report_config_id.
     checked (map_transpose (parse_entity_id L) (rxr_filter_id request)) (\<lambda>filter_id.
     chain (client_method map_gvm_error sha L session_token (OnReports (GetReportExport report_id
         \<lparr>ge_report_format_id = report_format_id, ge_report_config_id = report_config_id,
          ge_filter_string = rxr_filter request, ge_filter_id = filter_id\<rparr>)) (bl_report_export B)) (\<lambda>export.
       pure (Inr \<lparr>rx_bytes = gre_bytes export, rx_content_type = gre_content_type export,
         rx_extension = gre_extension export\<rparr>)))))))"

lemma speaks_export_report [speaks]:
  "d = from_token sha session_token \<Longrightarrow> speaks_for d (gvmd_export_report sha L B session_token ident request)"
  unfolding gvmd_export_report_def by (auto intro!: speaks split: prod.split option.split)

definition gvmd_delete_report ::
    "(string \<Rightarrow> u8 list) \<Rightarrow> ('r, 'g, 'f) GmpLibrary \<Rightarrow> 'r ResourceLibrary \<Rightarrow> string \<Rightarrow> string
      \<Rightarrow> bool \<Rightarrow> ('g Gvmd, unit) operation" where
  "gvmd_delete_report sha L B session_token ident ultimate =
     delete_one sha L (\<lambda>report_id. OnReports (DeleteReport report_id ultimate)) session_token ident"

lemma speaks_delete_report [speaks]:
  "d = from_token sha session_token \<Longrightarrow> speaks_for d (gvmd_delete_report sha L B session_token ident ultimate)"
  unfolding gvmd_delete_report_def by (auto intro!: speaks split: prod.split option.split)

definition gvmd_get_report_results ::
    "(string \<Rightarrow> u8 list) \<Rightarrow> ('r, 'g, 'f) GmpLibrary \<Rightarrow> 'r ResourceLibrary \<Rightarrow> string \<Rightarrow> string
      \<Rightarrow> ListQuery \<Rightarrow> ('g Gvmd, ScanResult Page) operation" where
  "gvmd_get_report_results sha L B session_token ident query =
     chain (connected sha session_token) (\<lambda>_.
     checked (parse_entity_id L ident) (\<lambda>_.
     checked (map_transpose (parse_entity_id L) (lq_filter_id query)) (\<lambda>filter_id.
     chain (paginated_filter_resolving_filter_id sha L session_token (Some (''report_id='' @ ident)) (lq_filter_string query)
              filter_id (lq_page query) (lq_per_page query) [''report_id'']) (\<lambda>filter_string.
     chain (fetch_items sha L session_token (OnReports (GetReportResults
         \<lparr>lo_filter_string = filter_string, lo_details = Some True\<rparr>)) (bl_results B) result_from_gmp) (\<lambda>(items, total).
       pure (Inr (items, paged_pagination total (lq_page query) (lq_per_page query))))))))"

lemma speaks_get_report_results [speaks]:
  "d = from_token sha session_token \<Longrightarrow> speaks_for d (gvmd_get_report_results sha L B session_token ident query)"
  unfolding gvmd_get_report_results_def by (auto intro!: speaks split: prod.split option.split)

definition gvmd_get_report_vulnerabilities ::
    "(string \<Rightarrow> u8 list) \<Rightarrow> ('r, 'g, 'f) GmpLibrary \<Rightarrow> 'r ResourceLibrary \<Rightarrow> string \<Rightarrow> string
      \<Rightarrow> ListQuery \<Rightarrow> ('g Gvmd, ReportVulnerability Page) operation" where
  "gvmd_get_report_vulnerabilities sha L B =
     list_report_detail sha L ''get_report_vulns'' ''report vulnerabilities'' GetReportVulns (bl_report_vulnerabilities B) Inr (result_from_report_vulnerability (bl_parse_f64 B))"

lemma speaks_get_report_vulnerabilities [speaks]:
  "d = from_token sha session_token \<Longrightarrow> speaks_for d (gvmd_get_report_vulnerabilities sha L B session_token ident query)"
  unfolding gvmd_get_report_vulnerabilities_def by (auto intro!: speaks split: prod.split option.split)

definition gvmd_get_report_hosts ::
    "(string \<Rightarrow> u8 list) \<Rightarrow> ('r, 'g, 'f) GmpLibrary \<Rightarrow> 'r ResourceLibrary \<Rightarrow> string \<Rightarrow> string
      \<Rightarrow> ListQuery \<Rightarrow> ('g Gvmd, ReportHost Page) operation" where
  "gvmd_get_report_hosts sha L B =
     list_report_detail sha L ''get_report_hosts'' ''report hosts'' GetReportHosts Inr (read_with (bl_report_hosts B)) (\<lambda>x. Inr (report_host_from_gmp x))"

lemma speaks_get_report_hosts [speaks]:
  "d = from_token sha session_token \<Longrightarrow> speaks_for d (gvmd_get_report_hosts sha L B session_token ident query)"
  unfolding gvmd_get_report_hosts_def by (auto intro!: speaks split: prod.split option.split)

definition gvmd_get_report_ports ::
    "(string \<Rightarrow> u8 list) \<Rightarrow> ('r, 'g, 'f) GmpLibrary \<Rightarrow> 'r ResourceLibrary \<Rightarrow> string \<Rightarrow> string
      \<Rightarrow> ListQuery \<Rightarrow> ('g Gvmd, ReportPortSummary Page) operation" where
  "gvmd_get_report_ports sha L B =
     list_report_detail sha L ''get_report_ports'' ''report ports'' GetReportPorts Inr (read_with (bl_report_ports B)) (\<lambda>x. Inr (report_port_from_gmp x))"

lemma speaks_get_report_ports [speaks]:
  "d = from_token sha session_token \<Longrightarrow> speaks_for d (gvmd_get_report_ports sha L B session_token ident query)"
  unfolding gvmd_get_report_ports_def by (auto intro!: speaks split: prod.split option.split)

definition gvmd_get_report_applications ::
    "(string \<Rightarrow> u8 list) \<Rightarrow> ('r, 'g, 'f) GmpLibrary \<Rightarrow> 'r ResourceLibrary \<Rightarrow> string \<Rightarrow> string
      \<Rightarrow> ListQuery \<Rightarrow> ('g Gvmd, ReportApplication Page) operation" where
  "gvmd_get_report_applications sha L B =
     list_report_detail sha L ''get_report_applications'' ''report applications'' GetReportApplications Inr (read_with (bl_report_applications B)) (\<lambda>x. Inr (report_application_from_gmp x))"

lemma speaks_get_report_applications [speaks]:
  "d = from_token sha session_token \<Longrightarrow> speaks_for d (gvmd_get_report_applications sha L B session_token ident query)"
  unfolding gvmd_get_report_applications_def by (auto intro!: speaks split: prod.split option.split)

definition gvmd_get_report_operating_systems ::
    "(string \<Rightarrow> u8 list) \<Rightarrow> ('r, 'g, 'f) GmpLibrary \<Rightarrow> 'r ResourceLibrary \<Rightarrow> string \<Rightarrow> string
      \<Rightarrow> ListQuery \<Rightarrow> ('g Gvmd, ReportOperatingSystem Page) operation" where
  "gvmd_get_report_operating_systems sha L B =
     list_report_detail sha L ''get_report_operating_systems'' ''report operating systems'' GetReportOperatingSystems Inr (read_with (bl_report_operating_systems B)) (\<lambda>x. Inr (report_operating_system_from_gmp x))"

lemma speaks_get_report_operating_systems [speaks]:
  "d = from_token sha session_token \<Longrightarrow> speaks_for d (gvmd_get_report_operating_systems sha L B session_token ident query)"
  unfolding gvmd_get_report_operating_systems_def by (auto intro!: speaks split: prod.split option.split)

definition gvmd_get_report_cves ::
    "(string \<Rightarrow> u8 list) \<Rightarrow> ('r, 'g, 'f) GmpLibrary \<Rightarrow> 'r ResourceLibrary \<Rightarrow> string \<Rightarrow> string
      \<Rightarrow> ListQuery \<Rightarrow> ('g Gvmd, ReportCve Page) operation" where
  "gvmd_get_report_cves sha L B =
     list_report_detail sha L ''get_report_cves'' ''report CVEs'' GetReportCves Inr (read_with (bl_report_cves B)) (\<lambda>x. Inr (report_cve_from_gmp x))"

lemma speaks_get_report_cves [speaks]:
  "d = from_token sha session_token \<Longrightarrow> speaks_for d (gvmd_get_report_cves sha L B session_token ident query)"
  unfolding gvmd_get_report_cves_def by (auto intro!: speaks split: prod.split option.split)

definition gvmd_get_report_tls_certificates ::
    "(string \<Rightarrow> u8 list) \<Rightarrow> ('r, 'g, 'f) GmpLibrary \<Rightarrow> 'r ResourceLibrary \<Rightarrow> string \<Rightarrow> string
      \<Rightarrow> ListQuery \<Rightarrow> ('g Gvmd, TlsCertificate Page) operation" where
  "gvmd_get_report_tls_certificates sha L B =
     list_report_detail sha L ''get_report_tls_certificates'' ''report TLS certificates'' GetReportTlsCertificates (bl_report_tls_certificates B) Inr (\<lambda>x. Inr (tls_certificate_from_report_tls_certificate x))"

lemma speaks_get_report_tls_certificates [speaks]:
  "d = from_token sha session_token \<Longrightarrow> speaks_for d (gvmd_get_report_tls_certificates sha L B session_token ident query)"
  unfolding gvmd_get_report_tls_certificates_def by (auto intro!: speaks split: prod.split option.split)

definition gvmd_get_report_errors ::
    "(string \<Rightarrow> u8 list) \<Rightarrow> ('r, 'g, 'f) GmpLibrary \<Rightarrow> 'r ResourceLibrary \<Rightarrow> string \<Rightarrow> string
      \<Rightarrow> ListQuery \<Rightarrow> ('g Gvmd, ReportError Page) operation" where
  "gvmd_get_report_errors sha L B =
     list_report_detail sha L ''get_report_errors'' ''report errors'' GetReportErrors (bl_report_errors B) Inr (\<lambda>x. Inr (report_error_from_gmp x))"

lemma speaks_get_report_errors [speaks]:
  "d = from_token sha session_token \<Longrightarrow> speaks_for d (gvmd_get_report_errors sha L B session_token ident query)"
  unfolding gvmd_get_report_errors_def by (auto intro!: speaks split: prod.split option.split)

definition gvmd_get_report_closed_cves ::
    "(string \<Rightarrow> u8 list) \<Rightarrow> ('r, 'g, 'f) GmpLibrary \<Rightarrow> 'r ResourceLibrary \<Rightarrow> string \<Rightarrow> string
      \<Rightarrow> ListQuery \<Rightarrow> ('g Gvmd, ReportClosedCve Page) operation" where
  "gvmd_get_report_closed_cves sha L B =
     list_report_detail sha L ''get_report_closed_cves'' ''report closed CVEs'' GetReportClosedCves (bl_report_closed_cves B) Inr (report_closed_cve_from_gmp (bl_parse_f64 B))"

lemma speaks_get_report_closed_cves [speaks]:
  "d = from_token sha session_token \<Longrightarrow> speaks_for d (gvmd_get_report_closed_cves sha L B session_token ident query)"
  unfolding gvmd_get_report_closed_cves_def by (auto intro!: speaks split: prod.split option.split)

definition gvmd_report_port ::
    "(string \<Rightarrow> u8 list) \<Rightarrow> ('r, 'g, 'f) GmpLibrary \<Rightarrow> 'r ResourceLibrary
      \<Rightarrow> 'g Gvmd ReportPort" where
  "gvmd_report_port sha L B =
     \<lparr>xr_list_reports = gvmd_list_reports sha L B,
      xr_get_report = gvmd_get_report sha L B,
      xr_export_report = gvmd_export_report sha L B,
      xr_delete_report = gvmd_delete_report sha L B,
      xr_get_report_results = gvmd_get_report_results sha L B,
      xr_get_report_vulnerabilities = gvmd_get_report_vulnerabilities sha L B,
      xr_get_report_hosts = gvmd_get_report_hosts sha L B,
      xr_get_report_ports = gvmd_get_report_ports sha L B,
      xr_get_report_applications = gvmd_get_report_applications sha L B,
      xr_get_report_operating_systems = gvmd_get_report_operating_systems sha L B,
      xr_get_report_cves = gvmd_get_report_cves sha L B,
      xr_get_report_tls_certificates = gvmd_get_report_tls_certificates sha L B,
      xr_get_report_errors = gvmd_get_report_errors sha L B,
      xr_get_report_closed_cves = gvmd_get_report_closed_cves sha L B\<rparr>"

section \<open>Use cases\<close>

definition list_reports ::
    "'s ReportPort \<Rightarrow> (string \<Rightarrow> u8 list) \<Rightarrow> u64 \<Rightarrow> string \<Rightarrow> ListQuery \<Rightarrow> 's GatewayService
      \<Rightarrow> Report Page result \<times> 's GatewayService" where
  "list_reports port sha now session_token query =
     use_port sha now session_token ''list'' ''report'' (\<lambda>token. xr_list_reports port token query)"

definition get_report ::
    "'s ReportPort \<Rightarrow> (string \<Rightarrow> u8 list) \<Rightarrow> u64 \<Rightarrow> string \<Rightarrow> string \<Rightarrow> GetReportOpts
      \<Rightarrow> 's GatewayService \<Rightarrow> Report result \<times> 's GatewayService" where
  "get_report port sha now session_token ident opts =
     use_port sha now session_token ''read'' ''report'' (\<lambda>token. xr_get_report port token ident opts)"

definition export_report ::
    "'s ReportPort \<Rightarrow> (string \<Rightarrow> u8 list) \<Rightarrow> u64 \<Rightarrow> string \<Rightarrow> string \<Rightarrow> string
      \<Rightarrow> 's GatewayService \<Rightarrow> ReportExport result \<times> 's GatewayService" where
  "export_report port sha now session_token report_id report_format_id =
     use_port sha now session_token ''export'' ''report_export'' (\<lambda>token. xr_export_report port token report_id
       \<lparr>rxr_report_format_id = report_format_id, rxr_report_config_id = None, rxr_filter = None, rxr_filter_id = None\<rparr>)"

definition delete_report ::
    "'s ReportPort \<Rightarrow> (string \<Rightarrow> u8 list) \<Rightarrow> u64 \<Rightarrow> string \<Rightarrow> string \<Rightarrow> bool
      \<Rightarrow> 's GatewayService \<Rightarrow> unit result \<times> 's GatewayService" where
  "delete_report port sha now session_token ident ultimate =
     use_port sha now session_token ''delete'' ''report'' (\<lambda>token. xr_delete_report port token ident ultimate)"

definition get_report_results ::
    "'s ReportPort \<Rightarrow> (string \<Rightarrow> u8 list) \<Rightarrow> u64 \<Rightarrow> string \<Rightarrow> string \<Rightarrow> ListQuery
      \<Rightarrow> 's GatewayService \<Rightarrow> ScanResult Page result \<times> 's GatewayService" where
  "get_report_results port sha now session_token ident query =
     use_port sha now session_token ''list'' ''report_result'' (\<lambda>token. xr_get_report_results port token ident query)"

definition get_report_vulnerabilities ::
    "'s ReportPort \<Rightarrow> (string \<Rightarrow> u8 list) \<Rightarrow> u64 \<Rightarrow> string \<Rightarrow> string \<Rightarrow> ListQuery
      \<Rightarrow> 's GatewayService \<Rightarrow> ReportVulnerability Page result \<times> 's GatewayService" where
  "get_report_vulnerabilities port sha now session_token ident query =
     use_port sha now session_token ''list'' ''report_vulnerability'' (\<lambda>token. xr_get_report_vulnerabilities port token ident query)"

definition get_report_hosts ::
    "'s ReportPort \<Rightarrow> (string \<Rightarrow> u8 list) \<Rightarrow> u64 \<Rightarrow> string \<Rightarrow> string \<Rightarrow> ListQuery
      \<Rightarrow> 's GatewayService \<Rightarrow> ReportHost Page result \<times> 's GatewayService" where
  "get_report_hosts port sha now session_token ident query =
     use_port sha now session_token ''list'' ''report_host'' (\<lambda>token. xr_get_report_hosts port token ident query)"

definition get_report_ports ::
    "'s ReportPort \<Rightarrow> (string \<Rightarrow> u8 list) \<Rightarrow> u64 \<Rightarrow> string \<Rightarrow> string \<Rightarrow> ListQuery
      \<Rightarrow> 's GatewayService \<Rightarrow> ReportPortSummary Page result \<times> 's GatewayService" where
  "get_report_ports port sha now session_token ident query =
     use_port sha now session_token ''list'' ''report_port'' (\<lambda>token. xr_get_report_ports port token ident query)"

definition get_report_applications ::
    "'s ReportPort \<Rightarrow> (string \<Rightarrow> u8 list) \<Rightarrow> u64 \<Rightarrow> string \<Rightarrow> string \<Rightarrow> ListQuery
      \<Rightarrow> 's GatewayService \<Rightarrow> ReportApplication Page result \<times> 's GatewayService" where
  "get_report_applications port sha now session_token ident query =
     use_port sha now session_token ''list'' ''report_application'' (\<lambda>token. xr_get_report_applications port token ident query)"

definition get_report_operating_systems ::
    "'s ReportPort \<Rightarrow> (string \<Rightarrow> u8 list) \<Rightarrow> u64 \<Rightarrow> string \<Rightarrow> string \<Rightarrow> ListQuery
      \<Rightarrow> 's GatewayService \<Rightarrow> ReportOperatingSystem Page result \<times> 's GatewayService" where
  "get_report_operating_systems port sha now session_token ident query =
     use_port sha now session_token ''list'' ''report_operating_system'' (\<lambda>token. xr_get_report_operating_systems port token ident query)"

definition get_report_cves ::
    "'s ReportPort \<Rightarrow> (string \<Rightarrow> u8 list) \<Rightarrow> u64 \<Rightarrow> string \<Rightarrow> string \<Rightarrow> ListQuery
      \<Rightarrow> 's GatewayService \<Rightarrow> ReportCve Page result \<times> 's GatewayService" where
  "get_report_cves port sha now session_token ident query =
     use_port sha now session_token ''list'' ''report_cve'' (\<lambda>token. xr_get_report_cves port token ident query)"

definition get_report_tls_certificates ::
    "'s ReportPort \<Rightarrow> (string \<Rightarrow> u8 list) \<Rightarrow> u64 \<Rightarrow> string \<Rightarrow> string \<Rightarrow> ListQuery
      \<Rightarrow> 's GatewayService \<Rightarrow> TlsCertificate Page result \<times> 's GatewayService" where
  "get_report_tls_certificates port sha now session_token ident query =
     use_port sha now session_token ''list'' ''report_tls_certificate'' (\<lambda>token. xr_get_report_tls_certificates port token ident query)"

definition get_report_errors ::
    "'s ReportPort \<Rightarrow> (string \<Rightarrow> u8 list) \<Rightarrow> u64 \<Rightarrow> string \<Rightarrow> string \<Rightarrow> ListQuery
      \<Rightarrow> 's GatewayService \<Rightarrow> ReportError Page result \<times> 's GatewayService" where
  "get_report_errors port sha now session_token ident query =
     use_port sha now session_token ''list'' ''report_error'' (\<lambda>token. xr_get_report_errors port token ident query)"

definition get_report_closed_cves ::
    "'s ReportPort \<Rightarrow> (string \<Rightarrow> u8 list) \<Rightarrow> u64 \<Rightarrow> string \<Rightarrow> string \<Rightarrow> ListQuery
      \<Rightarrow> 's GatewayService \<Rightarrow> ReportClosedCve Page result \<times> 's GatewayService" where
  "get_report_closed_cves port sha now session_token ident query =
     use_port sha now session_token ''list'' ''report_closed_cve'' (\<lambda>token. xr_get_report_closed_cves port token ident query)"

section \<open>Responses\<close>

record ResultCountResponse =
  rctr_total :: "u32 option"
  rctr_high :: "u32 option"
  rctr_medium :: "u32 option"
  rctr_low :: "u32 option"
  rctr_log :: "u32 option"
  rctr_debug :: "u32 option"
  rctr_false_positive :: "u32 option"

definition result_count_response :: "ResultCount \<Rightarrow> ResultCountResponse" where
  "result_count_response x =
     \<lparr>rctr_total = rct_total x, rctr_high = rct_high x, rctr_medium = rct_medium x,
       rctr_low = rct_low x, rctr_log = rct_log x, rctr_debug = rct_debug x,
       rctr_false_positive = rct_false_positive x\<rparr>"

record ReportResponse =
  rptr_id :: string
  rptr_task :: "ResourceRefResponse option"
  rptr_scan_start :: "string option"
  rptr_scan_end :: "string option"
  rptr_severity :: "f64 option"
  rptr_result_count :: "ResultCountResponse option"
  rptr_results :: "ResultResponse list"

definition report_response :: "(string \<Rightarrow> string option) \<Rightarrow> Report \<Rightarrow> ReportResponse" where
  "report_response uuid x =
     \<lparr>rptr_id = parse_uuid uuid (rpt_id x),
       rptr_task = map_option (resource_ref_response uuid) (rpt_task x),
       rptr_scan_start = rpt_scan_start x, rptr_scan_end = rpt_scan_end x,
       rptr_severity = rpt_severity x,
       rptr_result_count = map_option result_count_response (rpt_result_count x),
       rptr_results = map (result_response uuid) (rpt_results x)\<rparr>"

record TlsCertificateResponse =
  tlcr_id :: "string option"
  tlcr_host :: "string option"
  tlcr_port :: "string option"
  tlcr_subject :: string
  tlcr_issuer :: "string option"
  tlcr_not_before :: "string option"
  tlcr_not_after :: "string option"
  tlcr_fingerprint_sha256 :: "string option"

definition report_tls_certificate_response :: "TlsCertificate \<Rightarrow> TlsCertificateResponse" where
  "report_tls_certificate_response x =
     \<lparr>tlcr_id = tlc_id x, tlcr_host = tlc_host x, tlcr_port = tlc_port x,
       tlcr_subject = tlc_subject x, tlcr_issuer = tlc_issuer x, tlcr_not_before = tlc_not_before x,
       tlcr_not_after = tlc_not_after x, tlcr_fingerprint_sha256 = tlc_fingerprint_sha256 x\<rparr>"

record ReportHostResponse =
  rhor_id :: "string option"
  rhor_name :: "string option"
  rhor_severity :: "string option"

definition report_host_response :: "ReportHost \<Rightarrow> ReportHostResponse" where
  "report_host_response x =
     \<lparr>rhor_id = rho_id x, rhor_name = rho_name x, rhor_severity = rho_severity x\<rparr>"

record ReportPortResponse =
  rpor_id :: "string option"
  rpor_name :: "string option"
  rpor_severity :: "string option"

definition report_port_response :: "ReportPortSummary \<Rightarrow> ReportPortResponse" where
  "report_port_response x =
     \<lparr>rpor_id = rpo_id x, rpor_name = rpo_name x, rpor_severity = rpo_severity x\<rparr>"

record ReportApplicationResponse =
  rapr_id :: "string option"
  rapr_name :: "string option"
  rapr_severity :: "string option"

definition report_application_response :: "ReportApplication \<Rightarrow> ReportApplicationResponse" where
  "report_application_response x =
     \<lparr>rapr_id = rap_id x, rapr_name = rap_name x, rapr_severity = rap_severity x\<rparr>"

record ReportOperatingSystemResponse =
  rosr_id :: "string option"
  rosr_name :: "string option"
  rosr_severity :: "string option"

definition report_operating_system_response :: "ReportOperatingSystem \<Rightarrow> ReportOperatingSystemResponse" where
  "report_operating_system_response x =
     \<lparr>rosr_id = ros_id x, rosr_name = ros_name x, rosr_severity = ros_severity x\<rparr>"

record ReportCveResponse =
  rcvr_id :: "string option"
  rcvr_name :: "string option"
  rcvr_severity :: "string option"

definition report_cve_response :: "ReportCve \<Rightarrow> ReportCveResponse" where
  "report_cve_response x =
     \<lparr>rcvr_id = rcv_id x, rcvr_name = rcv_name x, rcvr_severity = rcv_severity x\<rparr>"

record ReportVulnerabilityResponse =
  rvur_id :: "string option"
  rvur_nvt :: "NvtRefResponse option"
  rvur_host :: "string option"
  rvur_port :: "string option"
  rvur_severity :: "f64 option"
  rvur_threat :: "ThreatValue option"
  rvur_hosts_count :: "u32 option"
  rvur_occurrences :: "u32 option"

definition report_vulnerability_response :: "ReportVulnerability \<Rightarrow> ReportVulnerabilityResponse" where
  "report_vulnerability_response x =
     \<lparr>rvur_id = rvu_id x, rvur_nvt = map_option nvt_ref_response (rvu_nvt x), rvur_host = rvu_host x,
       rvur_port = rvu_port x, rvur_severity = rvu_severity x,
       rvur_threat = map_option threat_parse (rvu_threat x), rvur_hosts_count = rvu_hosts_count x,
       rvur_occurrences = rvu_occurrences x\<rparr>"

record ReportErrorResponse =
  rerr_id :: "string option"
  rerr_name :: "string option"
  rerr_host :: "string option"
  rerr_port :: "string option"
  rerr_description :: "string option"
  rerr_nvt_name :: "string option"

definition report_error_response :: "ReportError \<Rightarrow> ReportErrorResponse" where
  "report_error_response x =
     \<lparr>rerr_id = rer_id x, rerr_name = rer_name x, rerr_host = rer_host x, rerr_port = rer_port x,
       rerr_description = rer_description x, rerr_nvt_name = rer_nvt_name x\<rparr>"

record ReportClosedCveResponse =
  rccr_id :: "string option"
  rccr_nvt :: "NvtRefResponse option"
  rccr_cve :: "string option"
  rccr_host :: "string option"
  rccr_severity :: "f64 option"
  rccr_threat :: "ThreatValue option"

definition report_closed_cve_response :: "ReportClosedCve \<Rightarrow> ReportClosedCveResponse" where
  "report_closed_cve_response x =
     \<lparr>rccr_id = rcc_id x, rccr_nvt = map_option nvt_ref_response (rcc_nvt x), rccr_cve = rcc_cve x,
       rccr_host = rcc_host x, rccr_severity = rcc_severity x,
       rccr_threat = map_option threat_parse (rcc_threat x)\<rparr>"

section \<open>Handlers\<close>

text \<open>Reading a report takes the page of its results; a filter is checked and not used.\<close>

definition get_report_query ::
    "(string \<Rightarrow> (string \<times> string) list) \<Rightarrow> (string \<Rightarrow> string option) \<Rightarrow> string \<Rightarrow> GetReportOpts result" where
  "get_report_query decode uuid query =
     and_then (parse_collection_query decode (\<lambda>s. uuid s \<noteq> None) query) (\<lambda>parsed.
       Inr \<lparr>gro_opts_page = cq_page parsed, gro_opts_per_page = cq_per_page parsed\<rparr>)"

definition rest_list_reports ::
    "(string \<Rightarrow> (string \<times> string) list) \<Rightarrow> (string \<Rightarrow> string option) \<Rightarrow> 's ReportPort
      \<Rightarrow> (string \<Rightarrow> u8 list) \<Rightarrow> u64 \<Rightarrow> Request \<Rightarrow> 's GatewayService
      \<Rightarrow> ReportResponse ListResponse RestBody Response \<times> 's GatewayService" where
  "rest_list_reports decode uuid port sha now =
     list_resource (list_query decode uuid) (\<lambda>session query. list_reports port sha now session query) (list_response (report_response uuid))"

definition rest_get_report ::
    "(string \<Rightarrow> (string \<times> string) list) \<Rightarrow> (string \<Rightarrow> string option) \<Rightarrow> 's ReportPort
      \<Rightarrow> (string \<Rightarrow> u8 list) \<Rightarrow> u64 \<Rightarrow> string \<Rightarrow> Request \<Rightarrow> 's GatewayService
      \<Rightarrow> ReportResponse RestBody Response \<times> 's GatewayService" where
  "rest_get_report decode uuid port sha now ident =
     after_check (check_uuid uuid ''id'' ident) (\<lambda>_.
       authenticated_query (get_report_query decode uuid)
         (\<lambda>session opts. get_report port sha now session ident opts)
         (\<lambda>report. ok_resource (report_response uuid report)))"

definition rest_delete_report ::
    "(string \<Rightarrow> (string \<times> string) list) \<Rightarrow> (string \<Rightarrow> string option) \<Rightarrow> 's ReportPort
      \<Rightarrow> (string \<Rightarrow> u8 list) \<Rightarrow> u64 \<Rightarrow> string \<Rightarrow> Request \<Rightarrow> 's GatewayService
      \<Rightarrow> ReportResponse RestBody Response \<times> 's GatewayService" where
  "rest_delete_report decode uuid port sha now =
     delete_resource uuid decode (\<lambda>session ident ultimate. delete_report port sha now session ident ultimate)"

definition rest_get_report_results ::
    "(string \<Rightarrow> (string \<times> string) list) \<Rightarrow> (string \<Rightarrow> string option) \<Rightarrow> 's ReportPort
      \<Rightarrow> (string \<Rightarrow> u8 list) \<Rightarrow> u64 \<Rightarrow> string \<Rightarrow> Request \<Rightarrow> 's GatewayService
      \<Rightarrow> ResultResponse ListResponse RestBody Response \<times> 's GatewayService" where
  "rest_get_report_results decode uuid port sha now ident =
     after_check (check_uuid uuid ''id'' ident) (\<lambda>_.
       authenticated_query (list_query decode uuid)
         (\<lambda>session query. get_report_results port sha now session ident query)
         (\<lambda>page. ok_resource (list_response (result_response uuid) page)))"

definition rest_get_report_vulnerabilities ::
    "(string \<Rightarrow> (string \<times> string) list) \<Rightarrow> (string \<Rightarrow> string option) \<Rightarrow> 's ReportPort
      \<Rightarrow> (string \<Rightarrow> u8 list) \<Rightarrow> u64 \<Rightarrow> string \<Rightarrow> Request \<Rightarrow> 's GatewayService
      \<Rightarrow> ReportVulnerabilityResponse ListResponse RestBody Response \<times> 's GatewayService" where
  "rest_get_report_vulnerabilities decode uuid port sha now ident =
     after_check (check_uuid uuid ''id'' ident) (\<lambda>_.
       authenticated_query (list_query decode uuid)
         (\<lambda>session query. get_report_vulnerabilities port sha now session ident query)
         (\<lambda>page. ok_resource (list_response (report_vulnerability_response) page)))"

definition rest_get_report_hosts ::
    "(string \<Rightarrow> (string \<times> string) list) \<Rightarrow> (string \<Rightarrow> string option) \<Rightarrow> 's ReportPort
      \<Rightarrow> (string \<Rightarrow> u8 list) \<Rightarrow> u64 \<Rightarrow> string \<Rightarrow> Request \<Rightarrow> 's GatewayService
      \<Rightarrow> ReportHostResponse ListResponse RestBody Response \<times> 's GatewayService" where
  "rest_get_report_hosts decode uuid port sha now ident =
     after_check (check_uuid uuid ''id'' ident) (\<lambda>_.
       authenticated_query (list_query decode uuid)
         (\<lambda>session query. get_report_hosts port sha now session ident query)
         (\<lambda>page. ok_resource (list_response (report_host_response) page)))"

definition rest_get_report_ports ::
    "(string \<Rightarrow> (string \<times> string) list) \<Rightarrow> (string \<Rightarrow> string option) \<Rightarrow> 's ReportPort
      \<Rightarrow> (string \<Rightarrow> u8 list) \<Rightarrow> u64 \<Rightarrow> string \<Rightarrow> Request \<Rightarrow> 's GatewayService
      \<Rightarrow> ReportPortResponse ListResponse RestBody Response \<times> 's GatewayService" where
  "rest_get_report_ports decode uuid port sha now ident =
     after_check (check_uuid uuid ''id'' ident) (\<lambda>_.
       authenticated_query (list_query decode uuid)
         (\<lambda>session query. get_report_ports port sha now session ident query)
         (\<lambda>page. ok_resource (list_response (report_port_response) page)))"

definition rest_get_report_applications ::
    "(string \<Rightarrow> (string \<times> string) list) \<Rightarrow> (string \<Rightarrow> string option) \<Rightarrow> 's ReportPort
      \<Rightarrow> (string \<Rightarrow> u8 list) \<Rightarrow> u64 \<Rightarrow> string \<Rightarrow> Request \<Rightarrow> 's GatewayService
      \<Rightarrow> ReportApplicationResponse ListResponse RestBody Response \<times> 's GatewayService" where
  "rest_get_report_applications decode uuid port sha now ident =
     after_check (check_uuid uuid ''id'' ident) (\<lambda>_.
       authenticated_query (list_query decode uuid)
         (\<lambda>session query. get_report_applications port sha now session ident query)
         (\<lambda>page. ok_resource (list_response (report_application_response) page)))"

definition rest_get_report_operating_systems ::
    "(string \<Rightarrow> (string \<times> string) list) \<Rightarrow> (string \<Rightarrow> string option) \<Rightarrow> 's ReportPort
      \<Rightarrow> (string \<Rightarrow> u8 list) \<Rightarrow> u64 \<Rightarrow> string \<Rightarrow> Request \<Rightarrow> 's GatewayService
      \<Rightarrow> ReportOperatingSystemResponse ListResponse RestBody Response \<times> 's GatewayService" where
  "rest_get_report_operating_systems decode uuid port sha now ident =
     after_check (check_uuid uuid ''id'' ident) (\<lambda>_.
       authenticated_query (list_query decode uuid)
         (\<lambda>session query. get_report_operating_systems port sha now session ident query)
         (\<lambda>page. ok_resource (list_response (report_operating_system_response) page)))"

definition rest_get_report_cves ::
    "(string \<Rightarrow> (string \<times> string) list) \<Rightarrow> (string \<Rightarrow> string option) \<Rightarrow> 's ReportPort
      \<Rightarrow> (string \<Rightarrow> u8 list) \<Rightarrow> u64 \<Rightarrow> string \<Rightarrow> Request \<Rightarrow> 's GatewayService
      \<Rightarrow> ReportCveResponse ListResponse RestBody Response \<times> 's GatewayService" where
  "rest_get_report_cves decode uuid port sha now ident =
     after_check (check_uuid uuid ''id'' ident) (\<lambda>_.
       authenticated_query (list_query decode uuid)
         (\<lambda>session query. get_report_cves port sha now session ident query)
         (\<lambda>page. ok_resource (list_response (report_cve_response) page)))"

definition rest_get_report_tls_certificates ::
    "(string \<Rightarrow> (string \<times> string) list) \<Rightarrow> (string \<Rightarrow> string option) \<Rightarrow> 's ReportPort
      \<Rightarrow> (string \<Rightarrow> u8 list) \<Rightarrow> u64 \<Rightarrow> string \<Rightarrow> Request \<Rightarrow> 's GatewayService
      \<Rightarrow> TlsCertificateResponse ListResponse RestBody Response \<times> 's GatewayService" where
  "rest_get_report_tls_certificates decode uuid port sha now ident =
     after_check (check_uuid uuid ''id'' ident) (\<lambda>_.
       authenticated_query (list_query decode uuid)
         (\<lambda>session query. get_report_tls_certificates port sha now session ident query)
         (\<lambda>page. ok_resource (list_response (report_tls_certificate_response) page)))"

definition rest_get_report_errors ::
    "(string \<Rightarrow> (string \<times> string) list) \<Rightarrow> (string \<Rightarrow> string option) \<Rightarrow> 's ReportPort
      \<Rightarrow> (string \<Rightarrow> u8 list) \<Rightarrow> u64 \<Rightarrow> string \<Rightarrow> Request \<Rightarrow> 's GatewayService
      \<Rightarrow> ReportErrorResponse ListResponse RestBody Response \<times> 's GatewayService" where
  "rest_get_report_errors decode uuid port sha now ident =
     after_check (check_uuid uuid ''id'' ident) (\<lambda>_.
       authenticated_query (list_query decode uuid)
         (\<lambda>session query. get_report_errors port sha now session ident query)
         (\<lambda>page. ok_resource (list_response (report_error_response) page)))"

definition rest_get_report_closed_cves ::
    "(string \<Rightarrow> (string \<times> string) list) \<Rightarrow> (string \<Rightarrow> string option) \<Rightarrow> 's ReportPort
      \<Rightarrow> (string \<Rightarrow> u8 list) \<Rightarrow> u64 \<Rightarrow> string \<Rightarrow> Request \<Rightarrow> 's GatewayService
      \<Rightarrow> ReportClosedCveResponse ListResponse RestBody Response \<times> 's GatewayService" where
  "rest_get_report_closed_cves decode uuid port sha now ident =
     after_check (check_uuid uuid ''id'' ident) (\<lambda>_.
       authenticated_query (list_query decode uuid)
         (\<lambda>session query. get_report_closed_cves port sha now session ident query)
         (\<lambda>page. ok_resource (list_response (report_closed_cve_response) page)))"

datatype (plugins only: code size) ReportRoute =
    RouteListReports
  | RouteGetReport string
  | RouteDeleteReport string
  | RouteGetReportResults string
  | RouteGetReportVulnerabilities string
  | RouteGetReportHosts string
  | RouteGetReportPorts string
  | RouteGetReportApplications string
  | RouteGetReportOperatingSystems string
  | RouteGetReportCves string
  | RouteGetReportTlsCertificates string
  | RouteGetReportErrors string
  | RouteGetReportClosedCves string

fun serve_reports ::
    "(string \<Rightarrow> (string \<times> string) list) \<Rightarrow> (string \<Rightarrow> string option) \<Rightarrow> 's ReportPort
      \<Rightarrow> (string \<Rightarrow> u8 list) \<Rightarrow> u64 \<Rightarrow> ReportRoute \<Rightarrow> Request \<Rightarrow> 's GatewayService
      \<Rightarrow> nat \<times> 's GatewayService" where
  "serve_reports decode uuid port sha now RouteListReports q sv =
     answered (rest_list_reports decode uuid port sha now q sv)"
| "serve_reports decode uuid port sha now (RouteGetReport ident) q sv =
     answered (rest_get_report decode uuid port sha now ident q sv)"
| "serve_reports decode uuid port sha now (RouteDeleteReport ident) q sv =
     answered (rest_delete_report decode uuid port sha now ident q sv)"
| "serve_reports decode uuid port sha now (RouteGetReportResults ident) q sv =
     answered (rest_get_report_results decode uuid port sha now ident q sv)"
| "serve_reports decode uuid port sha now (RouteGetReportVulnerabilities ident) q sv =
     answered (rest_get_report_vulnerabilities decode uuid port sha now ident q sv)"
| "serve_reports decode uuid port sha now (RouteGetReportHosts ident) q sv =
     answered (rest_get_report_hosts decode uuid port sha now ident q sv)"
| "serve_reports decode uuid port sha now (RouteGetReportPorts ident) q sv =
     answered (rest_get_report_ports decode uuid port sha now ident q sv)"
| "serve_reports decode uuid port sha now (RouteGetReportApplications ident) q sv =
     answered (rest_get_report_applications decode uuid port sha now ident q sv)"
| "serve_reports decode uuid port sha now (RouteGetReportOperatingSystems ident) q sv =
     answered (rest_get_report_operating_systems decode uuid port sha now ident q sv)"
| "serve_reports decode uuid port sha now (RouteGetReportCves ident) q sv =
     answered (rest_get_report_cves decode uuid port sha now ident q sv)"
| "serve_reports decode uuid port sha now (RouteGetReportTlsCertificates ident) q sv =
     answered (rest_get_report_tls_certificates decode uuid port sha now ident q sv)"
| "serve_reports decode uuid port sha now (RouteGetReportErrors ident) q sv =
     answered (rest_get_report_errors decode uuid port sha now ident q sv)"
| "serve_reports decode uuid port sha now (RouteGetReportClosedCves ident) q sv =
     answered (rest_get_report_closed_cves decode uuid port sha now ident q sv)"

lemma reports_act_for_own_session:
  "acts_for_own_session sha now q sv
     (serve_reports decode uuid (gvmd_report_port sha L B) sha now route q sv)"
  by (cases route; (simp only: serve_reports.simps rest_list_reports_def rest_get_report_def rest_delete_report_def
        rest_get_report_results_def rest_get_report_vulnerabilities_def rest_get_report_hosts_def
        rest_get_report_ports_def rest_get_report_applications_def
        rest_get_report_operating_systems_def rest_get_report_cves_def
        rest_get_report_tls_certificates_def rest_get_report_errors_def
        rest_get_report_closed_cves_def
        list_reports_def get_report_def delete_report_def get_report_results_def
        get_report_vulnerabilities_def get_report_hosts_def get_report_ports_def
        get_report_applications_def get_report_operating_systems_def get_report_cves_def
        get_report_tls_certificates_def get_report_errors_def get_report_closed_cves_def
        gvmd_report_port_def ReportPort.simps;
      rule acts_answered; intro within own_session_rules speaks success_ok refl))

section \<open>Reading a report\<close>





text \<open>The first unreadable severity of a vulnerability refuses the whole page; one of a report is left out.\<close>

lemma unreadable_severities:
  "grv_severity item = Some v \<Longrightarrow> parse_f64 v = None \<Longrightarrow>
     collect_results (result_from_report_vulnerability parse_f64) (item # items)
       = Inl (BackendUnavailable (''gvmd returned invalid report vulnerability severity: '' @ v))"
  "grp_severity report = Some (Some v) \<Longrightarrow> parse_f64 v = None \<Longrightarrow> rpt_severity (report_from_gmp parse_f64 report) = None"
  by (simp_all add: result_from_report_vulnerability_def parse_optional_backend_f64_def report_from_gmp_def)

text \<open>
  A detail listing that the daemon does not implement is reported as not implemented, under
  the name of the resource; all other errors are those of every command.
\<close>

lemma unsupported_detail:
  "map_report_detail_error command resource (GvmUnsupportedCommand command text)
     = unsupported_typed_report_detail_error command resource"
  "other \<noteq> command \<Longrightarrow> map_report_detail_error command resource (GvmUnsupportedCommand other text) = NotImplemented text"
  by (simp_all add: map_report_detail_error_def typed_report_detail_unsupported_def map_gvm_error_def)

end
