(* ===== verification/Routing.thy ===== *)
theory Routing
  imports Rest_Auth
begin

text \<open>
  How a request finds its handler in \<open>crates/gvm-gateway-rest/src/router.rs\<close>: the router library is
  a parameter with one law, a table of routes takes what it finds to an endpoint, and when each
  route of a table is open to the policy its path is classified as
  (\<open>classify_runtime_route\<close>), each request is.
\<close>

section \<open>Matching a path\<close>

text \<open>
  The router library is not part of the gateway: what it finds for a method and a path in a
  table is a parameter. What the gateway relies on is \<open>router_law\<close>: a route that is found is
  one of the table, for the method of the request or \<open>GET\<close> for a \<open>HEAD\<close>, and its pattern fits the
  path segment by segment. \<open>match_first\<close> is a function with this law, for examples.
\<close>

datatype (plugins only: code size) RouteMatch = NoPath | NoMethod | Matched "string \<times> string" "string list"

type_synonym RouteTable = "(string \<times> string) list \<Rightarrow> string \<Rightarrow> string \<Rightarrow> RouteMatch"

datatype (plugins only: code size) PathSegment = Fixed string | Param

definition path_pattern :: "string \<Rightarrow> PathSegment list" where
  "path_pattern path = map (\<lambda>s. if starts_with ''{'' s then Param else Fixed s) (split_on (CHR ''/'') path)"

fun segment_fits :: "PathSegment \<Rightarrow> string \<Rightarrow> bool" where
  "segment_fits (Fixed t) s \<longleftrightarrow> s = t"
| "segment_fits Param s \<longleftrightarrow> s \<noteq> []"

definition route_fits :: "string \<Rightarrow> string \<Rightarrow> string \<times> string \<Rightarrow> bool" where
  "route_fits meth path route \<longleftrightarrow>
     (fst route = meth \<or> fst route = ''GET'' \<and> meth = ''HEAD'')
     \<and> list_all2 segment_fits (path_pattern (snd route)) (split_on (CHR ''/'') path)"

definition router_law :: "RouteTable \<Rightarrow> bool" where
  "router_law matching \<longleftrightarrow>
     (\<forall>table meth path route args. matching table meth path = Matched route args \<longrightarrow>
        route \<in> set table \<and> route_fits meth path route)"

definition match_first :: "RouteTable" where
  "match_first table meth path =
     (case find (route_fits meth path) table of
        None \<Rightarrow> NoPath
      | Some route \<Rightarrow>
          Matched route (map snd (filter (\<lambda>(x, s). x = Param)
            (zip (path_pattern (snd route)) (split_on (CHR ''/'') path)))))"

lemma match_first_law: "router_law match_first"
  by (auto simp: router_law_def match_first_def find_Some_iff split: option.splits)

section \<open>From a path to an endpoint\<close>

text \<open>The path parameters that a handler extracts; a route is a method, a path and a handler.\<close>

datatype (plugins only: code size) 'e RouteHandler =
    Plain 'e
  | WithId "string \<Rightarrow> 'e"
  | WithTwo "string \<Rightarrow> string \<Rightarrow> 'e"

type_synonym 'e Route = "string \<times> string \<times> 'e RouteHandler"

fun apply_handler :: "'e RouteHandler \<Rightarrow> string list \<Rightarrow> 'e option" where
  "apply_handler (Plain e) [] = Some e"
| "apply_handler (WithId f) [a] = Some (f a)"
| "apply_handler (WithTwo f) [a, b] = Some (f a b)"
| "apply_handler h args = None"

datatype (plugins only: code size) 'e Dispatch = NoRoute | WrongMethod | BadParameter | Serve 'e

definition dispatch :: "RouteTable \<Rightarrow> (string \<Rightarrow> string option) \<Rightarrow> 'e Route list \<Rightarrow> string \<Rightarrow> string \<Rightarrow> 'e Dispatch" where
  "dispatch matching url_decode routes meth path =
     (case matching (map (\<lambda>(m, p, h). (m, p)) routes) meth path of
        NoPath \<Rightarrow> NoRoute
      | NoMethod \<Rightarrow> WrongMethod
      | Matched entry args \<Rightarrow>
          (case map_of (map (\<lambda>(m, p, h). ((m, p), h)) routes) entry of
             None \<Rightarrow> NoRoute
           | Some h \<Rightarrow>
               (case those (map url_decode args) of
                  None \<Rightarrow> BadParameter
                | Some decoded \<Rightarrow>
                    (case apply_handler h decoded of None \<Rightarrow> BadParameter | Some e \<Rightarrow> Serve e))))"

text \<open>The libraries a request needs: the readers of queries, UUIDs, path parameters and Base64, and the header check.\<close>

record RestLibrary =
  rl_decode :: "string \<Rightarrow> (string \<times> string) list"
  rl_uuid :: "string \<Rightarrow> string option"
  rl_match :: RouteTable
  rl_url_decode :: "string \<Rightarrow> string option"
  rl_base64 :: "string \<Rightarrow> string option"
  rl_header_ok :: "string \<Rightarrow> bool"

section \<open>Paths and their policies\<close>

text \<open>A path is its segments, joined.\<close>

fun join_on :: "char \<Rightarrow> string list \<Rightarrow> string" where
  "join_on c [] = []"
| "join_on c [w] = w"
| "join_on c (w # ws) = w @ c # join_on c ws"

lemma join_on_Cons: "ws \<noteq> [] \<Longrightarrow> join_on c (w # ws) = w @ c # join_on c ws"
  by (cases ws) simp_all

lemma join_on_grow: "join_on c ((x # w) # ws) = x # join_on c (w # ws)"
  by (cases ws) simp_all

lemma join_split: "join_on c (split_on c s) = s"
proof (induction s)
  case (Cons x s)
  then show ?case by (cases "split_on c s") (auto simp: join_on_Cons join_on_grow dest: arg_cong [where f = length])
qed simp

lemma split_inject: "split_on c s = split_on c t \<Longrightarrow> s = t"
  by (metis join_split)

lemma dispatched_route:
  assumes law: "router_law matching" and "dispatch matching url_decode routes meth path = Serve e"
  shows "\<exists>m p h args. (m, p, h) \<in> set routes \<and> route_fits meth path (m, p) \<and> apply_handler h args = Some e"
proof -
  from assms(2) obtain route args h decoded
    where found: "matching (map (\<lambda>(m, p, h). (m, p)) routes) meth path = Matched route args"
      and handler: "map_of (map (\<lambda>(m, p, h). ((m, p), h)) routes) route = Some h" "apply_handler h decoded = Some e"
    by (auto simp: dispatch_def split: RouteMatch.splits option.splits)
  from handler(1) have "(fst route, snd route, h) \<in> set routes"
    by (cases route) (auto dest!: map_of_SomeD)
  with law [unfolded router_law_def, rule_format, OF found] handler(2) show ?thesis by (metis prod.collapse)
qed

text \<open>
  When every route of a table is open exactly to the policy of its path, every request is: a
  route with a parameter is protected by its first segments, one without is classified itself.
  \<open>path_ok\<close> is computed for each route; \<open>ids_protected\<close> is about all values of the parameters.
\<close>

definition in_protected_space :: "string \<Rightarrow> bool" where
  "in_protected_space p =
     (case strip_prefix ''/api/v1/'' p of
        None \<Rightarrow> False
      | Some r \<Rightarrow> list_all (\<lambda>w. \<not> starts_with w r) [''version'', ''openapi.json'', ''docs'', ''session'', ''{''])"

fun fixed_segment :: "PathSegment \<Rightarrow> bool" where
  "fixed_segment (Fixed s) \<longleftrightarrow> True"
| "fixed_segment Param \<longleftrightarrow> False"

fun path_ok :: "('e \<Rightarrow> RestRouteAuthPolicy) \<Rightarrow> 'e Route \<Rightarrow> bool" where
  "path_ok policy (m, p, Plain e) \<longleftrightarrow>
     policy e = Protected \<and> in_protected_space p
     \<or> list_all fixed_segment (path_pattern p) \<and> classify_runtime_route m p = Some (policy e)
       \<and> (m = ''GET'' \<longrightarrow> classify_runtime_route ''HEAD'' p = Some (policy e))"
| "path_ok policy (m, p, h) \<longleftrightarrow> in_protected_space p"

fun ids_protected :: "('e \<Rightarrow> RestRouteAuthPolicy) \<Rightarrow> 'e RouteHandler \<Rightarrow> bool" where
  "ids_protected policy (Plain e) \<longleftrightarrow> True"
| "ids_protected policy (WithId f) \<longleftrightarrow> (\<forall>a. policy (f a) = Protected)"
| "ids_protected policy (WithTwo g) \<longleftrightarrow> (\<forall>a b. policy (g a b) = Protected)"

lemma split_on_first: "\<exists>d rest. split_on c r = d # rest \<and> starts_with d r"
proof -
  obtain d rest where split: "split_on c r = d # rest" by (metis split_on_not_Nil list.exhaust)
  then have "r = join_on c (d # rest)" using join_split [of c r] by simp
  then have "starts_with d r" by (cases rest) (auto simp: join_on_Cons starts_with_iff)
  with split show ?thesis by blast
qed

lemma starts_with_trans: "starts_with u v \<Longrightarrow> starts_with v w \<Longrightarrow> starts_with u w"
  by (auto simp: starts_with_iff)

lemma protected_pattern:
  assumes "in_protected_space p"
  obtains d rest where "path_pattern p = Fixed [] # Fixed ''api'' # Fixed ''v1'' # Fixed d # rest"
    and "d \<noteq> ''version''" "d \<noteq> ''openapi.json''" "d \<noteq> ''docs''" "d \<noteq> ''session''"
proof -
  from assms obtain r where p: "p = ''/api/v1/'' @ r"
    and no: "\<not> starts_with ''version'' r" "\<not> starts_with ''openapi.json'' r" "\<not> starts_with ''docs'' r"
      "\<not> starts_with ''session'' r" "\<not> starts_with ''{'' r"
    by (auto simp: in_protected_space_def strip_prefix_Some split: option.splits)
  obtain d rest where split: "split_on (CHR ''/'') r = d # rest" and d: "starts_with d r"
    using split_on_first by blast
  have "path_pattern p = Fixed [] # Fixed ''api'' # Fixed ''v1'' # Fixed d
      # map (\<lambda>s. if starts_with ''{'' s then Param else Fixed s) rest"
    using no(5) starts_with_trans [OF _ d] by (auto simp: path_pattern_def p split) (auto simp: starts_with_def)
  then show thesis using no d by (intro that) auto
qed

lemma protected_space:
  assumes "list_all2 segment_fits (path_pattern p) (split_on (CHR ''/'') path)" and "in_protected_space p"
  shows "classify_runtime_route meth path = Some Protected"
proof -
  from protected_pattern [OF assms(2)] obtain d fixed where
      pattern: "path_pattern p = Fixed [] # Fixed ''api'' # Fixed ''v1'' # Fixed d # fixed"
    and d: "d \<noteq> ''version''" "d \<noteq> ''openapi.json''" "d \<noteq> ''docs''" "d \<noteq> ''session''" by blast
  with assms(1) obtain rest where split: "split_on (CHR ''/'') path = [] # ''api'' # ''v1'' # d # rest"
    by (auto simp: list_all2_Cons1)
  then have path: "path = ''/api/v1/'' @ join_on (CHR ''/'') (d # rest)"
    using join_split [of "CHR ''/''" path] by simp
  have "path \<noteq> ''/health''" "path \<noteq> ''/ready''" "path \<noteq> ''/api/v1/version''" "path \<noteq> ''/api/v1/openapi.json''"
    "path \<noteq> ''/api/v1/docs''" "path \<noteq> ''/api/v1/docs/redoc.standalone.js''" "path \<noteq> ''/api/v1/session''"
    using split d by auto
  moreover have "starts_with ''/api/v1/'' path" unfolding path by (rule starts_with_append)
  ultimately show ?thesis by (simp add: classify_runtime_route_def)
qed

lemma fixed_path:
  assumes "list_all2 segment_fits (path_pattern p) (split_on (CHR ''/'') path)"
    and "list_all fixed_segment (path_pattern p)"
  shows "path = p"
proof (rule split_inject [of "CHR ''/''"])
  have "list_all2 segment_fits (map Fixed xs) ys \<Longrightarrow> ys = xs" for xs ys
    by (induction xs arbitrary: ys) (auto simp: list_all2_Cons1 segment_fits.simps)
  moreover have "list_all fixed_segment (map (\<lambda>s. if starts_with ''{'' s then Param else Fixed s) xs) \<Longrightarrow>
      map (\<lambda>s. if starts_with ''{'' s then Param else Fixed s) xs = map Fixed xs" for xs
    by (induction xs) (simp_all split: if_splits)
  then have "path_pattern p = map Fixed (split_on (CHR ''/'') p)"
    using assms(2) unfolding path_pattern_def by blast
  ultimately show "split_on (CHR ''/'') path = split_on (CHR ''/'') p"
    using assms(1) by simp
qed

lemma route_policy:
  assumes ok: "path_ok policy (m, p, h)" "ids_protected policy h" and fits: "route_fits meth path (m, p)" and "apply_handler h args = Some e"
  shows "classify_runtime_route meth path = Some (policy e)"
proof (cases "in_protected_space p \<and> policy e = Protected")
  case True
  then show ?thesis using protected_space fits by (auto simp: route_fits_def)
next
  case False
  with ok assms(4) have h: "h = Plain e" by (cases "(h, args)" rule: apply_handler.cases) auto
  with False ok(1) have "list_all fixed_segment (path_pattern p)"
    and static: "classify_runtime_route m p = Some (policy e)"
      "m = ''GET'' \<longrightarrow> classify_runtime_route ''HEAD'' p = Some (policy e)"
    by auto
  with fits have "path = p" by (auto simp: route_fits_def intro: fixed_path)
  with static fits show ?thesis by (auto simp: route_fits_def)
qed

lemma path_ok_protected:
  "policy e = Protected \<Longrightarrow> in_protected_space p \<Longrightarrow> path_ok policy (m, p, Plain e)"
  by simp

end
