(* ===== verification/Service_Routes.thy ===== *)
theory Service_Routes
  imports Rest_Jobs Rest_Base
begin

text \<open>
  The endpoints of \<open>crates/gvm-gateway-rest/src/router.rs\<close> that are not about resources of the
  daemon: the probes, the session, time zones, export jobs and the documentation.
\<close>

datatype (plugins only: code size) ServiceEndpoint =
    HealthGet | ReadyGet | VersionGet | TimezonesGet | SessionPost | SessionGet | SessionDelete
  | ExportPost string | JobGet string | JobDelete string | JobResultGet string
  | DocsGet | RedocJsGet | OpenApiGet

text \<open>What each of them is open to.\<close>

fun service_policy :: "ServiceEndpoint \<Rightarrow> RestRouteAuthPolicy" where
  "service_policy HealthGet = Public"
| "service_policy ReadyGet = Public"
| "service_policy VersionGet = Public"
| "service_policy DocsGet = Public"
| "service_policy RedocJsGet = Public"
| "service_policy OpenApiGet = Public"
| "service_policy SessionPost = SessionCreate"
| "service_policy SessionGet = SessionCurrent"
| "service_policy SessionDelete = SessionCurrent"
| "service_policy endpoint = Protected"

text \<open>The use cases of the other endpoints; the documentation is served as it was built.\<close>

record 'w ServiceUseCases =
  uc_shutting_down :: bool
  uc_readiness :: "'w \<Rightarrow> ReadinessStatus result"
  uc_api_version :: string
  uc_gmp_version :: "string result"
  uc_timezones :: "string \<Rightarrow> 'w \<Rightarrow> (string \<times> string option) list result \<times> 'w"
  uc_create_session :: "string \<Rightarrow> string \<Rightarrow> 'w \<Rightarrow> SessionCreated result \<times> 'w"
  uc_get_session :: "string \<Rightarrow> 'w \<Rightarrow> SessionInfo result"
  uc_delete_session :: "string \<Rightarrow> 'w \<Rightarrow> unit result \<times> 'w"
  uc_create_export :: "string \<Rightarrow> string \<Rightarrow> CreateReportExportRequest \<Rightarrow> 'w \<Rightarrow> ReportExportJob result \<times> 'w"
  uc_get_job :: "string \<Rightarrow> string \<Rightarrow> 'w \<Rightarrow> ReportExportJob result \<times> 'w"
  uc_cancel_job :: "string \<Rightarrow> string \<Rightarrow> 'w \<Rightarrow> JobCancelOutcome result \<times> 'w"
  uc_job_result :: "string \<Rightarrow> string \<Rightarrow> 'w \<Rightarrow> JobArtifact result \<times> 'w"

definition answer_with :: "unit RestBody Response \<Rightarrow> 'w \<Rightarrow> nat \<times> 'w" where
  "answer_with response w = (rp_status response, w)"

fun serve_service ::
    "(string \<Rightarrow> string option) \<Rightarrow> (string \<Rightarrow> string option) \<Rightarrow> (string \<Rightarrow> bool) \<Rightarrow> (u8 list \<Rightarrow> string + CreateReportExportRequestBody) \<Rightarrow> 'w ServiceUseCases
      \<Rightarrow> ServiceEndpoint \<Rightarrow> Request \<Rightarrow> 'w \<Rightarrow> nat \<times> 'w" where
  "serve_service base64 uuid header_ok export_body uc HealthGet q w = answer_with rest_health w"
| "serve_service base64 uuid header_ok export_body uc ReadyGet q w =
     answer_with (rest_ready (uc_shutting_down uc) (uc_readiness uc w)) w"
| "serve_service base64 uuid header_ok export_body uc VersionGet q w =
     answer_with (rest_version (uc_api_version uc) (uc_gmp_version uc)) w"
| "serve_service base64 uuid header_ok export_body uc TimezonesGet q w =
     (let (r, w) = rest_list_timezones (uc_timezones uc) q w in answer_with r w)"
| "serve_service base64 uuid header_ok export_body uc SessionPost q w =
     (let (r, w) = rest_create_session base64 (uc_create_session uc) q w in answer_with r w)"
| "serve_service base64 uuid header_ok export_body uc SessionGet q w = answer_with (rest_get_session (uc_get_session uc) q w) w"
| "serve_service base64 uuid header_ok export_body uc SessionDelete q w =
     (let (r, w) = rest_delete_session (uc_delete_session uc) q w in answer_with r w)"
| "serve_service base64 uuid header_ok export_body uc (ExportPost ident) q w =
     answered (rest_create_report_export_job uuid export_body (uc_create_export uc) ident q w)"
| "serve_service base64 uuid header_ok export_body uc (JobGet ident) q w = answered (rest_get_job uuid (uc_get_job uc) ident q w)"
| "serve_service base64 uuid header_ok export_body uc (JobDelete ident) q w = answered (rest_cancel_job uuid (uc_cancel_job uc) ident q w)"
| "serve_service base64 uuid header_ok export_body uc (JobResultGet ident) q w =
     answered (rest_download_job_result uuid header_ok (uc_job_result uc) ident q w)"
| "serve_service base64 uuid header_ok export_body uc DocsGet q w = (200, w)"
| "serve_service base64 uuid header_ok export_body uc RedocJsGet q w = (200, w)"
| "serve_service base64 uuid header_ok export_body uc OpenApiGet q w = (200, w)"

text \<open>Without a bearer token, an endpoint that is not public does nothing and does not succeed.\<close>

lemma service_needs_token:
  assumes token: "bearer_token (rq_headers q) = Inl e"
    and policy: "service_policy endpoint = Protected \<or> service_policy endpoint = SessionCurrent"
  shows "let (status, w') = serve_service base64 uuid header_ok export_body uc endpoint q w
    in w' = w \<and> \<not> is_success status"
  using policy
  by (cases endpoint) (auto simp: token answered_def answer_with_def rest_list_timezones_def rest_get_session_def
      rest_delete_session_def rest_create_report_export_job_def rest_get_job_def rest_cancel_job_def
      rest_download_job_result_def gateway_error_not_success split: sum.split)

end
