(* ===== verification/Router.thy ===== *)
theory Router
  imports Rest_Targets Rest_Tasks Assets Alerts Schedules Port_Lists Credentials Identity Annotations Scan_Configs Agents Reports Routing Service_Routes
begin

text \<open>
  The table of routes of \<open>crates/gvm-gateway-rest/src/router.rs\<close>: which path and method reach
  which endpoint, and what a request does on the way from its path to the daemon. The
  theorems say for whom a request acts, and that the table fits the policies of the paths.
\<close>

section \<open>Endpoints\<close>

datatype (plugins only: code size) Endpoint =
    ToTargets TargetRoute
  | ToTasks TaskRoute
  | ToAlerts CrudRoute
  | ToSchedules CrudRoute
  | ToPortLists CrudRoute
  | ToCredentials CredentialRoute
  | ToIdentity IdentityRoute
  | ToInventory InventoryRoute
  | ToAssets AssetRoute
  | ToAnnotations AnnotationRoute
  | ToSecurityInfo SecurityInfoRoute
  | ToScanConfigs ScanConfigRoute
  | ToAgents AgentRoute
  | ToReports ReportRoute
  | ToService ServiceEndpoint

section \<open>The table\<close>

definition system_routes :: "Endpoint Route list" where
  "system_routes =
     [(''GET'', ''/health'', Plain (ToService HealthGet)),
      (''GET'', ''/ready'', Plain (ToService ReadyGet)),
      (''GET'', ''/api/v1/version'', Plain (ToService VersionGet)),
      (''GET'', ''/api/v1/timezones'', Plain (ToService TimezonesGet))]"

definition session_lifecycle_routes :: "Endpoint Route list" where
  "session_lifecycle_routes =
     [(''POST'', ''/api/v1/session'', Plain (ToService SessionPost)),
      (''GET'', ''/api/v1/session'', Plain (ToService SessionGet)),
      (''DELETE'', ''/api/v1/session'', Plain (ToService SessionDelete))]"

definition targets_routes :: "Endpoint Route list" where
  "targets_routes =
     [(''GET'', ''/api/v1/targets'', Plain (ToTargets ListTargets)),
      (''POST'', ''/api/v1/targets'', Plain (ToTargets PostTarget)),
      (''GET'', ''/api/v1/targets/{id}'', WithId (\<lambda>ident. ToTargets (GetTargetBy ident))),
      (''PUT'', ''/api/v1/targets/{id}'', WithId (\<lambda>ident. ToTargets (PutTarget ident))),
      (''DELETE'', ''/api/v1/targets/{id}'', WithId (\<lambda>ident. ToTargets (DeleteTargetBy ident))),
      (''POST'', ''/api/v1/targets/{id}/clone'', WithId (\<lambda>ident. ToTargets (CloneTargetOf ident)))]"

definition agents_and_agent_routes :: "Endpoint Route list" where
  "agents_and_agent_routes =
     [(''GET'', ''/api/v1/agents'', Plain (ToAgents RouteListAgents)),
      (''GET'', ''/api/v1/agents/{id}'', WithId (\<lambda>ident. ToAgents (RouteGetAgent ident))),
      (''PUT'', ''/api/v1/agents/{id}'', WithId (\<lambda>ident. ToAgents (RouteModifyAgent ident))),
      (''DELETE'', ''/api/v1/agents/{id}'', WithId (\<lambda>ident. ToAgents (RouteDeleteAgent ident))),
      (''POST'', ''/api/v1/agents/sync'', Plain (ToAgents RouteSyncAgents)),
      (''GET'', ''/api/v1/agents/{id}/support-bundle'', WithId (\<lambda>ident. ToAgents (RouteGetAgentSupportBundle ident))),
      (''PUT'', ''/api/v1/agent-control-scan-configs/{id}'', WithId (\<lambda>ident. ToAgents (RouteModifyAgentControlScanConfig ident))),
      (''GET'', ''/api/v1/scanners/{id}/agent-installer-instruction'', WithId (\<lambda>ident. ToAgents (RouteGetAgentInstallerInstruction ident))),
      (''GET'', ''/api/v1/agent-groups'', Plain (ToAgents RouteListAgentGroups)),
      (''POST'', ''/api/v1/agent-groups'', Plain (ToAgents RouteCreateAgentGroup)),
      (''GET'', ''/api/v1/agent-groups/{id}'', WithId (\<lambda>ident. ToAgents (RouteGetAgentGroup ident))),
      (''PUT'', ''/api/v1/agent-groups/{id}'', WithId (\<lambda>ident. ToAgents (RouteModifyAgentGroup ident))),
      (''DELETE'', ''/api/v1/agent-groups/{id}'', WithId (\<lambda>ident. ToAgents (RouteDeleteAgentGroup ident))),
      (''POST'', ''/api/v1/agent-groups/{id}/clone'', WithId (\<lambda>ident. ToAgents (RouteCloneAgentGroup ident)))]"

definition generic_assets_routes :: "Endpoint Route list" where
  "generic_assets_routes =
     [(''GET'', ''/api/v1/assets'', Plain (ToAssets RouteListAssets)),
      (''GET'', ''/api/v1/assets/{id}'', WithId (\<lambda>ident. ToAssets (RouteGetAsset ident))),
      (''PUT'', ''/api/v1/assets/{id}'', WithId (\<lambda>ident. ToAssets (RouteModifyAsset ident))),
      (''DELETE'', ''/api/v1/assets/{id}'', WithId (\<lambda>ident. ToAssets (RouteDeleteAsset ident))),
      (''GET'', ''/api/v1/configs'', Plain (ToScanConfigs RouteListConfigs)),
      (''GET'', ''/api/v1/configs/{id}'', WithId (\<lambda>ident. ToScanConfigs (RouteGetConfig ident))),
      (''DELETE'', ''/api/v1/configs/{id}'', WithId (\<lambda>ident. ToScanConfigs (RouteDeleteConfig ident))),
      (''POST'', ''/api/v1/configs/{id}/clone'', WithId (\<lambda>ident. ToScanConfigs (RouteCloneConfig ident)))]"

definition new_target_families_routes :: "Endpoint Route list" where
  "new_target_families_routes =
     [(''GET'', ''/api/v1/oci-image-targets'', Plain (ToTargets ListOciImageTargets)),
      (''POST'', ''/api/v1/oci-image-targets'', Plain (ToTargets PostOciImageTarget)),
      (''GET'', ''/api/v1/oci-image-targets/{id}'', WithId (\<lambda>ident. ToTargets (GetOciImageTargetBy ident))),
      (''PUT'', ''/api/v1/oci-image-targets/{id}'', WithId (\<lambda>ident. ToTargets (PutOciImageTarget ident))),
      (''DELETE'', ''/api/v1/oci-image-targets/{id}'', WithId (\<lambda>ident. ToTargets (DeleteOciImageTargetBy ident))),
      (''POST'', ''/api/v1/oci-image-targets/{id}/clone'', WithId (\<lambda>ident. ToTargets (CloneOciImageTargetOf ident))),
      (''GET'', ''/api/v1/web-application-targets'', Plain (ToTargets ListWebApplicationTargets)),
      (''POST'', ''/api/v1/web-application-targets'', Plain (ToTargets PostWebApplicationTarget)),
      (''GET'', ''/api/v1/web-application-targets/{id}'', WithId (\<lambda>ident. ToTargets (GetWebApplicationTargetBy ident))),
      (''PUT'', ''/api/v1/web-application-targets/{id}'', WithId (\<lambda>ident. ToTargets (PutWebApplicationTarget ident))),
      (''DELETE'', ''/api/v1/web-application-targets/{id}'', WithId (\<lambda>ident. ToTargets (DeleteWebApplicationTargetBy ident))),
      (''POST'', ''/api/v1/web-application-targets/{id}/clone'', WithId (\<lambda>ident. ToTargets (CloneWebApplicationTargetOf ident)))]"

definition alerts_routes :: "Endpoint Route list" where
  "alerts_routes =
     [(''GET'', ''/api/v1/alerts'', Plain (ToAlerts ListAll)),
      (''POST'', ''/api/v1/alerts'', Plain (ToAlerts PostNew)),
      (''GET'', ''/api/v1/alerts/{id}'', WithId (\<lambda>ident. ToAlerts (GetBy ident))),
      (''PUT'', ''/api/v1/alerts/{id}'', WithId (\<lambda>ident. ToAlerts (PutBy ident))),
      (''DELETE'', ''/api/v1/alerts/{id}'', WithId (\<lambda>ident. ToAlerts (DeleteBy ident)))]"

definition schedules_routes :: "Endpoint Route list" where
  "schedules_routes =
     [(''GET'', ''/api/v1/schedules'', Plain (ToSchedules ListAll)),
      (''POST'', ''/api/v1/schedules'', Plain (ToSchedules PostNew)),
      (''GET'', ''/api/v1/schedules/{id}'', WithId (\<lambda>ident. ToSchedules (GetBy ident))),
      (''PUT'', ''/api/v1/schedules/{id}'', WithId (\<lambda>ident. ToSchedules (PutBy ident))),
      (''DELETE'', ''/api/v1/schedules/{id}'', WithId (\<lambda>ident. ToSchedules (DeleteBy ident)))]"

definition credentials_routes :: "Endpoint Route list" where
  "credentials_routes =
     [(''GET'', ''/api/v1/credential-stores'', Plain (ToCredentials ListStores)),
      (''GET'', ''/api/v1/credential-stores/{id}'', WithId (\<lambda>ident. ToCredentials (GetStore ident))),
      (''PUT'', ''/api/v1/credential-stores/{id}'', WithId (\<lambda>ident. ToCredentials (PutStore ident))),
      (''POST'', ''/api/v1/credential-stores/{id}/actions/verify'', WithId (\<lambda>ident. ToCredentials (VerifyStore ident))),
      (''GET'', ''/api/v1/credentials'', Plain (ToCredentials (CredentialsAs ListAll))),
      (''POST'', ''/api/v1/credentials'', Plain (ToCredentials (CredentialsAs PostNew))),
      (''GET'', ''/api/v1/credentials/{id}'', WithId (\<lambda>ident. ToCredentials (CredentialsAs (GetBy ident)))),
      (''PUT'', ''/api/v1/credentials/{id}'', WithId (\<lambda>ident. ToCredentials (CredentialsAs (PutBy ident)))),
      (''DELETE'', ''/api/v1/credentials/{id}'', WithId (\<lambda>ident. ToCredentials (CredentialsAs (DeleteBy ident))))]"

definition port_lists_routes :: "Endpoint Route list" where
  "port_lists_routes =
     [(''GET'', ''/api/v1/port-lists'', Plain (ToPortLists ListAll)),
      (''POST'', ''/api/v1/port-lists'', Plain (ToPortLists PostNew)),
      (''GET'', ''/api/v1/port-lists/{id}'', WithId (\<lambda>ident. ToPortLists (GetBy ident))),
      (''PUT'', ''/api/v1/port-lists/{id}'', WithId (\<lambda>ident. ToPortLists (PutBy ident))),
      (''DELETE'', ''/api/v1/port-lists/{id}'', WithId (\<lambda>ident. ToPortLists (DeleteBy ident)))]"

definition feeds_routes :: "Endpoint Route list" where
  "feeds_routes =
     [(''GET'', ''/api/v1/feeds'', Plain (ToInventory ListFeeds))]"

definition supporting_resources_routes :: "Endpoint Route list" where
  "supporting_resources_routes =
     [(''GET'', ''/api/v1/hosts'', Plain (ToAssets RouteListHosts)),
      (''POST'', ''/api/v1/hosts'', Plain (ToAssets RouteCreateHost)),
      (''GET'', ''/api/v1/hosts/{id}'', WithId (\<lambda>ident. ToAssets (RouteGetHost ident))),
      (''PUT'', ''/api/v1/hosts/{id}'', WithId (\<lambda>ident. ToAssets (RouteModifyHost ident))),
      (''DELETE'', ''/api/v1/hosts/{id}'', WithId (\<lambda>ident. ToAssets (RouteDeleteHost ident))),
      (''GET'', ''/api/v1/tls-certificates'', Plain (ToAssets RouteListTlsCertificates)),
      (''GET'', ''/api/v1/tls-certificates/{id}'', WithId (\<lambda>ident. ToAssets (RouteGetTlsCertificate ident))),
      (''GET'', ''/api/v1/report-formats'', Plain (ToAnnotations RouteListReportFormats)),
      (''GET'', ''/api/v1/report-formats/{id}'', WithId (\<lambda>ident. ToAnnotations (RouteGetReportFormat ident))),
      (''GET'', ''/api/v1/filters'', Plain (ToAnnotations RouteListFilters)),
      (''POST'', ''/api/v1/filters'', Plain (ToAnnotations RouteCreateFilter)),
      (''GET'', ''/api/v1/filters/{id}'', WithId (\<lambda>ident. ToAnnotations (RouteGetFilter ident))),
      (''PUT'', ''/api/v1/filters/{id}'', WithId (\<lambda>ident. ToAnnotations (RouteModifyFilter ident))),
      (''DELETE'', ''/api/v1/filters/{id}'', WithId (\<lambda>ident. ToAnnotations (RouteDeleteFilter ident))),
      (''POST'', ''/api/v1/filters/{id}/clone'', WithId (\<lambda>ident. ToAnnotations (RouteCloneFilter ident))),
      (''GET'', ''/api/v1/tags'', Plain (ToAnnotations RouteListTags)),
      (''POST'', ''/api/v1/tags'', Plain (ToAnnotations RouteCreateTag)),
      (''GET'', ''/api/v1/tags/{id}'', WithId (\<lambda>ident. ToAnnotations (RouteGetTag ident))),
      (''PUT'', ''/api/v1/tags/{id}'', WithId (\<lambda>ident. ToAnnotations (RouteModifyTag ident))),
      (''DELETE'', ''/api/v1/tags/{id}'', WithId (\<lambda>ident. ToAnnotations (RouteDeleteTag ident))),
      (''POST'', ''/api/v1/tags/{id}/clone'', WithId (\<lambda>ident. ToAnnotations (RouteCloneTag ident))),
      (''GET'', ''/api/v1/tickets'', Plain (ToAnnotations RouteListTickets)),
      (''GET'', ''/api/v1/tickets/{id}'', WithId (\<lambda>ident. ToAnnotations (RouteGetTicket ident))),
      (''GET'', ''/api/v1/notes'', Plain (ToAnnotations RouteListNotes)),
      (''POST'', ''/api/v1/notes'', Plain (ToAnnotations RouteCreateNote)),
      (''GET'', ''/api/v1/notes/{id}'', WithId (\<lambda>ident. ToAnnotations (RouteGetNote ident))),
      (''PUT'', ''/api/v1/notes/{id}'', WithId (\<lambda>ident. ToAnnotations (RouteModifyNote ident))),
      (''DELETE'', ''/api/v1/notes/{id}'', WithId (\<lambda>ident. ToAnnotations (RouteDeleteNote ident))),
      (''GET'', ''/api/v1/overrides'', Plain (ToAnnotations RouteListOverrides)),
      (''POST'', ''/api/v1/overrides'', Plain (ToAnnotations RouteCreateOverride)),
      (''GET'', ''/api/v1/overrides/{id}'', WithId (\<lambda>ident. ToAnnotations (RouteGetOverride ident))),
      (''PUT'', ''/api/v1/overrides/{id}'', WithId (\<lambda>ident. ToAnnotations (RouteModifyOverride ident))),
      (''DELETE'', ''/api/v1/overrides/{id}'', WithId (\<lambda>ident. ToAnnotations (RouteDeleteOverride ident))),
      (''GET'', ''/api/v1/nvts'', Plain (ToSecurityInfo RouteListNvts)),
      (''GET'', ''/api/v1/nvts/{id}'', WithId (\<lambda>ident. ToSecurityInfo (RouteGetNvt ident))),
      (''GET'', ''/api/v1/vulnerabilities'', Plain (ToSecurityInfo RouteListVulnerabilities)),
      (''GET'', ''/api/v1/cves'', Plain (ToSecurityInfo RouteListCves)),
      (''GET'', ''/api/v1/cves/{id}'', WithId (\<lambda>ident. ToSecurityInfo (RouteGetCve ident))),
      (''GET'', ''/api/v1/cpes'', Plain (ToSecurityInfo RouteListCpes)),
      (''GET'', ''/api/v1/cpes/{id}'', WithId (\<lambda>ident. ToSecurityInfo (RouteGetCpe ident))),
      (''GET'', ''/api/v1/cert-bund-advisories'', Plain (ToSecurityInfo RouteListCertBundAdvisories)),
      (''GET'', ''/api/v1/cert-bund-advisories/{id}'', WithId (\<lambda>ident. ToSecurityInfo (RouteGetCertBundAdvisory ident))),
      (''GET'', ''/api/v1/dfn-cert-advisories'', Plain (ToSecurityInfo RouteListDfnCertAdvisories)),
      (''GET'', ''/api/v1/dfn-cert-advisories/{id}'', WithId (\<lambda>ident. ToSecurityInfo (RouteGetDfnCertAdvisory ident))),
      (''GET'', ''/api/v1/nvt-families'', Plain (ToSecurityInfo RouteListNvtFamilies))]"

definition identity_and_access_routes :: "Endpoint Route list" where
  "identity_and_access_routes =
     [(''GET'', ''/api/v1/users'', Plain (ToIdentity (UsersAs ListAll))),
      (''POST'', ''/api/v1/users'', Plain (ToIdentity (UsersAs PostNew))),
      (''GET'', ''/api/v1/users/{id}'', WithId (\<lambda>ident. ToIdentity (UsersAs (GetBy ident)))),
      (''PUT'', ''/api/v1/users/{id}'', WithId (\<lambda>ident. ToIdentity (UsersAs (PutBy ident)))),
      (''DELETE'', ''/api/v1/users/{id}'', WithId (\<lambda>ident. ToIdentity (UsersAs (DeleteBy ident)))),
      (''GET'', ''/api/v1/groups'', Plain (ToIdentity (GroupsAs ListAll))),
      (''POST'', ''/api/v1/groups'', Plain (ToIdentity (GroupsAs PostNew))),
      (''GET'', ''/api/v1/groups/{id}'', WithId (\<lambda>ident. ToIdentity (GroupsAs (GetBy ident)))),
      (''PUT'', ''/api/v1/groups/{id}'', WithId (\<lambda>ident. ToIdentity (GroupsAs (PutBy ident)))),
      (''DELETE'', ''/api/v1/groups/{id}'', WithId (\<lambda>ident. ToIdentity (GroupsAs (DeleteBy ident)))),
      (''GET'', ''/api/v1/roles'', Plain (ToIdentity (RolesAs ListAll))),
      (''POST'', ''/api/v1/roles'', Plain (ToIdentity (RolesAs PostNew))),
      (''GET'', ''/api/v1/roles/{id}'', WithId (\<lambda>ident. ToIdentity (RolesAs (GetBy ident)))),
      (''PUT'', ''/api/v1/roles/{id}'', WithId (\<lambda>ident. ToIdentity (RolesAs (PutBy ident)))),
      (''DELETE'', ''/api/v1/roles/{id}'', WithId (\<lambda>ident. ToIdentity (RolesAs (DeleteBy ident)))),
      (''GET'', ''/api/v1/permissions'', Plain (ToIdentity (PermissionsAs ListAll))),
      (''POST'', ''/api/v1/permissions'', Plain (ToIdentity (PermissionsAs PostNew))),
      (''GET'', ''/api/v1/permissions/{id}'', WithId (\<lambda>ident. ToIdentity (PermissionsAs (GetBy ident)))),
      (''PUT'', ''/api/v1/permissions/{id}'', WithId (\<lambda>ident. ToIdentity (PermissionsAs (PutBy ident)))),
      (''DELETE'', ''/api/v1/permissions/{id}'', WithId (\<lambda>ident. ToIdentity (PermissionsAs (DeleteBy ident)))),
      (''GET'', ''/api/v1/user-settings'', Plain (ToIdentity ListSettings)),
      (''GET'', ''/api/v1/user-settings/{id}'', WithId (\<lambda>ident. ToIdentity (GetSetting ident))),
      (''PUT'', ''/api/v1/user-settings/{id}'', WithId (\<lambda>ident. ToIdentity (PutSetting ident)))]"

definition tasks_routes :: "Endpoint Route list" where
  "tasks_routes =
     [(''GET'', ''/api/v1/tasks'', Plain (ToTasks ListTasks)),
      (''POST'', ''/api/v1/tasks'', Plain (ToTasks PostTask)),
      (''GET'', ''/api/v1/tasks/{id}'', WithId (\<lambda>ident. ToTasks (GetTaskBy ident))),
      (''PUT'', ''/api/v1/tasks/{id}'', WithId (\<lambda>ident. ToTasks (PutTask ident))),
      (''DELETE'', ''/api/v1/tasks/{id}'', WithId (\<lambda>ident. ToTasks (DeleteTaskBy ident))),
      (''POST'', ''/api/v1/tasks/{id}/clone'', WithId (\<lambda>ident. ToTasks (CloneTaskOf ident))),
      (''POST'', ''/api/v1/tasks/{id}/start'', WithId (\<lambda>ident. ToTasks (StartTaskBy ident))),
      (''POST'', ''/api/v1/tasks/{id}/stop'', WithId (\<lambda>ident. ToTasks (StopTaskBy ident))),
      (''POST'', ''/api/v1/tasks/{id}/resume'', WithId (\<lambda>ident. ToTasks (ResumeTaskBy ident)))]"

definition audits_routes :: "Endpoint Route list" where
  "audits_routes =
     [(''GET'', ''/api/v1/audits'', Plain (ToTasks ListAudits)),
      (''POST'', ''/api/v1/audits'', Plain (ToTasks PostAudit)),
      (''GET'', ''/api/v1/audits/{id}'', WithId (\<lambda>ident. ToTasks (GetAuditBy ident))),
      (''PUT'', ''/api/v1/audits/{id}'', WithId (\<lambda>ident. ToTasks (PutAudit ident))),
      (''DELETE'', ''/api/v1/audits/{id}'', WithId (\<lambda>ident. ToTasks (DeleteAuditBy ident))),
      (''POST'', ''/api/v1/audits/{id}/start'', WithId (\<lambda>ident. ToTasks (StartAuditBy ident))),
      (''POST'', ''/api/v1/audits/{id}/stop'', WithId (\<lambda>ident. ToTasks (StopAuditBy ident))),
      (''POST'', ''/api/v1/audits/{id}/resume'', WithId (\<lambda>ident. ToTasks (ResumeAuditBy ident)))]"

definition reports_routes :: "Endpoint Route list" where
  "reports_routes =
     [(''GET'', ''/api/v1/reports'', Plain (ToReports RouteListReports)),
      (''GET'', ''/api/v1/reports/{id}'', WithId (\<lambda>ident. ToReports (RouteGetReport ident))),
      (''POST'', ''/api/v1/reports/{id}/exports'', WithId (\<lambda>ident. ToService (ExportPost ident))),
      (''DELETE'', ''/api/v1/reports/{id}'', WithId (\<lambda>ident. ToReports (RouteDeleteReport ident))),
      (''GET'', ''/api/v1/reports/{id}/results'', WithId (\<lambda>ident. ToReports (RouteGetReportResults ident))),
      (''GET'', ''/api/v1/reports/{id}/vulnerabilities'', WithId (\<lambda>ident. ToReports (RouteGetReportVulnerabilities ident))),
      (''GET'', ''/api/v1/reports/{id}/tls-certificates'', WithId (\<lambda>ident. ToReports (RouteGetReportTlsCertificates ident))),
      (''GET'', ''/api/v1/reports/{id}/errors'', WithId (\<lambda>ident. ToReports (RouteGetReportErrors ident))),
      (''GET'', ''/api/v1/reports/{id}/closed-cves'', WithId (\<lambda>ident. ToReports (RouteGetReportClosedCves ident))),
      (''GET'', ''/api/v1/reports/{id}/hosts'', WithId (\<lambda>ident. ToReports (RouteGetReportHosts ident))),
      (''GET'', ''/api/v1/reports/{id}/ports'', WithId (\<lambda>ident. ToReports (RouteGetReportPorts ident))),
      (''GET'', ''/api/v1/reports/{id}/applications'', WithId (\<lambda>ident. ToReports (RouteGetReportApplications ident))),
      (''GET'', ''/api/v1/reports/{id}/operating-systems'', WithId (\<lambda>ident. ToReports (RouteGetReportOperatingSystems ident))),
      (''GET'', ''/api/v1/reports/{id}/cves'', WithId (\<lambda>ident. ToReports (RouteGetReportCves ident)))]"

definition jobs_routes :: "Endpoint Route list" where
  "jobs_routes =
     [(''GET'', ''/api/v1/jobs/{id}'', WithId (\<lambda>ident. ToService (JobGet ident))),
      (''DELETE'', ''/api/v1/jobs/{id}'', WithId (\<lambda>ident. ToService (JobDelete ident))),
      (''GET'', ''/api/v1/jobs/{id}/result'', WithId (\<lambda>ident. ToService (JobResultGet ident)))]"

definition results_routes :: "Endpoint Route list" where
  "results_routes =
     [(''GET'', ''/api/v1/results'', Plain (ToInventory ListResults)),
      (''GET'', ''/api/v1/results/{id}'', WithId (\<lambda>ident. ToInventory (GetResultBy ident)))]"

definition scan_configs_routes :: "Endpoint Route list" where
  "scan_configs_routes =
     [(''GET'', ''/api/v1/scan-configs'', Plain (ToScanConfigs RouteListScanConfigs)),
      (''POST'', ''/api/v1/scan-configs'', Plain (ToScanConfigs RouteCreateScanConfig)),
      (''GET'', ''/api/v1/scan-configs/{id}'', WithId (\<lambda>ident. ToScanConfigs (RouteGetScanConfig ident))),
      (''PUT'', ''/api/v1/scan-configs/{id}'', WithId (\<lambda>ident. ToScanConfigs (RouteModifyScanConfig ident))),
      (''DELETE'', ''/api/v1/scan-configs/{id}'', WithId (\<lambda>ident. ToScanConfigs (RouteDeleteScanConfig ident))),
      (''GET'', ''/api/v1/scan-configs/{id}/nvts'', WithId (\<lambda>ident. ToScanConfigs (RouteListScanConfigNvts ident))),
      (''GET'', ''/api/v1/scan-configs/{id}/nvts/{oid}'', WithTwo (\<lambda>ident oid. ToScanConfigs (RouteGetScanConfigNvt ident oid))),
      (''GET'', ''/api/v1/scan-configs/{id}/preferences'', WithId (\<lambda>ident. ToScanConfigs (RouteListScanConfigPreferences ident))),
      (''GET'', ''/api/v1/scan-configs/{id}/preferences/{name}'', WithTwo (\<lambda>ident name. ToScanConfigs (RouteGetScanConfigPreference ident name))),
      (''PUT'', ''/api/v1/scan-configs/{id}/preferences/{name}'', WithTwo (\<lambda>ident name. ToScanConfigs (RouteSetScanConfigPreference ident name))),
      (''PUT'', ''/api/v1/scan-configs/{id}/families/{family}/nvts'', WithTwo (\<lambda>ident family. ToScanConfigs (RouteSetScanConfigNvtSelection ident family))),
      (''PUT'', ''/api/v1/scan-configs/{id}/family-selection'', WithId (\<lambda>ident. ToScanConfigs (RouteSetScanConfigFamilySelection ident)))]"

definition policies_routes :: "Endpoint Route list" where
  "policies_routes =
     [(''GET'', ''/api/v1/policies'', Plain (ToScanConfigs RouteListPolicies)),
      (''POST'', ''/api/v1/policies'', Plain (ToScanConfigs RouteCreatePolicy)),
      (''GET'', ''/api/v1/policies/{id}'', WithId (\<lambda>ident. ToScanConfigs (RouteGetPolicy ident))),
      (''PUT'', ''/api/v1/policies/{id}'', WithId (\<lambda>ident. ToScanConfigs (RouteModifyPolicy ident))),
      (''DELETE'', ''/api/v1/policies/{id}'', WithId (\<lambda>ident. ToScanConfigs (RouteDeletePolicy ident)))]"

definition scanners_routes :: "Endpoint Route list" where
  "scanners_routes =
     [(''GET'', ''/api/v1/scanners'', Plain (ToInventory ListScanners)),
      (''GET'', ''/api/v1/scanners/{id}'', WithId (\<lambda>ident. ToInventory (GetScannerBy ident))),
      (''GET'', ''/api/v1/operating-systems'', Plain (ToAssets RouteListOperatingSystems)),
      (''GET'', ''/api/v1/operating-systems/{id}'', WithId (\<lambda>ident. ToAssets (RouteGetOperatingSystem ident))),
      (''PUT'', ''/api/v1/operating-systems/{id}'', WithId (\<lambda>ident. ToAssets (RouteModifyOperatingSystem ident))),
      (''DELETE'', ''/api/v1/operating-systems/{id}'', WithId (\<lambda>ident. ToAssets (RouteDeleteOperatingSystem ident)))]"

definition documented_router :: "Endpoint Route list" where
  "documented_router =
     system_routes @
     session_lifecycle_routes @
     targets_routes @
     agents_and_agent_routes @
     generic_assets_routes @
     new_target_families_routes @
     alerts_routes @
     schedules_routes @
     credentials_routes @
     port_lists_routes @
     feeds_routes @
     supporting_resources_routes @
     identity_and_access_routes @
     tasks_routes @
     audits_routes @
     reports_routes @
     jobs_routes @
     results_routes @
     scan_configs_routes @
     policies_routes @
     scanners_routes"

text \<open>The pages of the documentation are added to it.\<close>

definition page_routes :: "Endpoint Route list" where
  "page_routes =
     [(''GET'', ''/api/v1/docs'', Plain (ToService DocsGet)),
      (''GET'', ''/api/v1/docs/redoc.standalone.js'', Plain (ToService RedocJsGet)),
      (''GET'', ''/api/v1/openapi.json'', Plain (ToService OpenApiGet))]"

definition all_routes :: "Endpoint Route list" where
  "all_routes = documented_router @ page_routes"

section \<open>Serving a request\<close>

text \<open>The readers of the request bodies.\<close>

datatype (plugins only: code) RequestBodies =
    RequestBodies
      (rb_targets: TargetBodies)
      (rb_tasks: TaskBodies)
      (rb_create_alert: "u8 list \<Rightarrow> string + CreateAlertRequest")
      (rb_modify_alert: "u8 list \<Rightarrow> string + ModifyAlertRequest")
      (rb_create_schedule: "u8 list \<Rightarrow> string + CreateScheduleRequest")
      (rb_modify_schedule: "u8 list \<Rightarrow> string + ModifyScheduleRequest")
      (rb_create_port_list: "u8 list \<Rightarrow> string + CreatePortListRequest")
      (rb_modify_port_list: "u8 list \<Rightarrow> string + ModifyPortListRequest")
      (rb_credentials: CredentialBodies)
      (rb_identity: IdentityBodies)
      (rb_assets: AssetBodies)
      (rb_annotations: AnnotationBodies)
      (rb_scan_configs: ScanConfigBodies)
      (rb_agents: AgentBodies)
      (rb_export: "u8 list \<Rightarrow> string + CreateReportExportRequestBody")

text \<open>What an endpoint does; the ports of the resources are those of the gvmd adapter.\<close>

fun serve_endpoint ::
    "RestLibrary \<Rightarrow> RequestBodies \<Rightarrow> (string \<Rightarrow> u8 list) \<Rightarrow> ('r, 'g, 'f) GmpLibrary \<Rightarrow> 'r ResourceLibrary
      \<Rightarrow> 'g Gvmd GatewayService ServiceUseCases \<Rightarrow> u64 \<Rightarrow> Endpoint \<Rightarrow> Request \<Rightarrow> 'g Gvmd GatewayService
      \<Rightarrow> nat \<times> 'g Gvmd GatewayService" where
  "serve_endpoint R bodies sha L B uc now (ToTargets r) q sv =
     serve_target (rl_decode R) (rl_uuid R) (rb_targets bodies) (gvmd_target_port sha L) sha now r q sv"
| "serve_endpoint R bodies sha L B uc now (ToTasks r) q sv =
     serve_task (rl_decode R) (rl_uuid R) (rb_tasks bodies) (gvmd_task_port sha L) sha now r q sv"
| "serve_endpoint R bodies sha L B uc now (ToAlerts r) q sv =
     serve_alerts (rl_decode R) (rl_uuid R) (rb_create_alert bodies) (rb_modify_alert bodies) (gvmd_alert_port sha L B) sha now r q sv"
| "serve_endpoint R bodies sha L B uc now (ToSchedules r) q sv =
     serve_schedules (rl_decode R) (rl_uuid R) (rb_create_schedule bodies) (rb_modify_schedule bodies) (gvmd_schedule_port sha L B) sha now r q sv"
| "serve_endpoint R bodies sha L B uc now (ToPortLists r) q sv =
     serve_port_lists (rl_decode R) (rl_uuid R) (rb_create_port_list bodies) (rb_modify_port_list bodies) (gvmd_port_list_port sha L B) sha now r q sv"
| "serve_endpoint R bodies sha L B uc now (ToCredentials r) q sv =
     serve_credentials (rl_decode R) (rl_uuid R) (rb_credentials bodies) (gvmd_credential_port sha L B) sha now r q sv"
| "serve_endpoint R bodies sha L B uc now (ToIdentity r) q sv =
     serve_identity (rl_decode R) (rl_uuid R) (rb_identity bodies) (gvmd_identity_port sha L B) sha now r q sv"
| "serve_endpoint R bodies sha L B uc now (ToInventory r) q sv =
     serve_inventory (rl_decode R) (rl_uuid R) (gvmd_inventory_ports sha L B) sha now r q sv"
| "serve_endpoint R bodies sha L B uc now (ToAssets r) q sv =
     serve_assets (rl_decode R) (rl_uuid R) (rb_assets bodies) (gvmd_asset_port sha L B) sha now r q sv"
| "serve_endpoint R bodies sha L B uc now (ToAnnotations r) q sv =
     serve_annotations (rl_decode R) (rl_uuid R) (rb_annotations bodies) (gvmd_annotation_port sha L B) sha now r q sv"
| "serve_endpoint R bodies sha L B uc now (ToSecurityInfo r) q sv =
     serve_security_info (rl_decode R) (rl_uuid R) (gvmd_security_info_port sha L B) sha now r q sv"
| "serve_endpoint R bodies sha L B uc now (ToScanConfigs r) q sv =
     serve_scan_configs (rl_decode R) (rl_uuid R) (rb_scan_configs bodies) (gvmd_scan_config_port sha L B) sha now r q sv"
| "serve_endpoint R bodies sha L B uc now (ToAgents r) q sv =
     serve_agents (rl_decode R) (rl_uuid R) (rb_agents bodies) (gvmd_agent_port sha L B) sha now r q sv"
| "serve_endpoint R bodies sha L B uc now (ToReports r) q sv =
     serve_reports (rl_decode R) (rl_uuid R) (gvmd_report_port sha L B) sha now r q sv"
| "serve_endpoint R bodies sha L B uc now (ToService e) q sv =
     serve_service (rl_base64 R) (rl_uuid R) (rl_header_ok R) (rb_export bodies) uc e q sv"

definition route_request ::
    "RestLibrary \<Rightarrow> RequestBodies \<Rightarrow> (string \<Rightarrow> u8 list) \<Rightarrow> ('r, 'g, 'f) GmpLibrary \<Rightarrow> 'r ResourceLibrary
      \<Rightarrow> 'g Gvmd GatewayService ServiceUseCases \<Rightarrow> u64 \<Rightarrow> Request \<Rightarrow> 'g Gvmd GatewayService
      \<Rightarrow> nat \<times> 'g Gvmd GatewayService" where
  "route_request R bodies sha L B uc now q sv =
     (case dispatch (rl_match R) (rl_url_decode R) all_routes (rq_method q) (rq_path q) of
        NoRoute \<Rightarrow> (unat (re_status (rest_not_found (rq_path q))), sv)
      | WrongMethod \<Rightarrow> (unat (re_status (rest_method_not_allowed (rq_path q))), sv)
      | BadParameter \<Rightarrow> (400, sv)
      | Serve endpoint \<Rightarrow> serve_endpoint R bodies sha L B uc now endpoint q sv)"

section \<open>Requests for resources\<close>

lemma targets_act_for_own_session:
  "acts_for_own_session sha now q sv (serve_target decode uuid bodies (gvmd_target_port sha L) sha now route q sv)"
  unfolding acts_for_own_session_def by (rule target_requests_act_for_their_session)

lemma tasks_act_for_own_session:
  "acts_for_own_session sha now q sv (serve_task decode uuid bodies (gvmd_task_port sha L) sha now route q sv)"
  unfolding acts_for_own_session_def by (rule task_requests_act_for_their_session)

lemma resource_acts_for_own_session:
  assumes "\<And>e. endpoint \<noteq> ToService e"
  shows "acts_for_own_session sha now q sv (serve_endpoint R bodies sha L B uc now endpoint q sv)"
  by (insert assms, cases endpoint; (simp only: serve_endpoint.simps)?;
      (rule targets_act_for_own_session tasks_act_for_own_session alerts_act_for_own_session schedules_act_for_own_session
        port_lists_act_for_own_session credentials_act_for_own_session identity_acts_for_own_session
        inventory_acts_for_own_session assets_act_for_own_session annotations_act_for_own_session
        security_info_acts_for_own_session scan_configs_act_for_own_session agents_act_for_own_session
        reports_act_for_own_session | (drule meta_spec, erule notE, rule refl)))

lemma no_endpoint:
  assumes "\<And>e. dispatch (rl_match R) (rl_url_decode R) all_routes (rq_method q) (rq_path q) \<noteq> Serve e"
  shows "snd (route_request R bodies sha L B uc now q sv) = sv
    \<and> \<not> is_success (fst (route_request R bodies sha L B uc now q sv))"
proof (cases "dispatch (rl_match R) (rl_url_decode R) all_routes (rq_method q) (rq_path q)")
  case (Serve e)
  then show ?thesis using assms [of e] by simp
qed (simp_all add: route_request_def is_success_def rest_not_found_def rest_method_not_allowed_def from_parts_def
  from_custom_parts_def)

text \<open>
  C3. Whatever path and method a request has: when it reaches an endpoint of a resource, it acts
  for its own session only. Without a bearer token it changes nothing and does not succeed; with
  one, every command it sends runs on the connection that was authenticated for the session of
  this token, and when the session is unknown or expired nothing reaches the backend and the
  request does not succeed. When it reaches no endpoint, nothing changes and it does not succeed.
\<close>

theorem resource_requests_act_for_their_session:
  "case dispatch (rl_match R) (rl_url_decode R) all_routes (rq_method q) (rq_path q) of
     Serve (ToService endpoint) \<Rightarrow> True
   | Serve endpoint \<Rightarrow> acts_for_own_session sha now q sv (route_request R bodies sha L B uc now q sv)
   | _ \<Rightarrow> snd (route_request R bodies sha L B uc now q sv) = sv
       \<and> \<not> is_success (fst (route_request R bodies sha L B uc now q sv))"
proof (cases "dispatch (rl_match R) (rl_url_decode R) all_routes (rq_method q) (rq_path q)")
  case (Serve endpoint)
  then have run: "route_request R bodies sha L B uc now q sv = serve_endpoint R bodies sha L B uc now endpoint q sv"
    by (simp only: route_request_def Dispatch.case)
  have "acts_for_own_session sha now q sv (route_request R bodies sha L B uc now q sv)" if "\<And>e. endpoint \<noteq> ToService e"
    unfolding run by (rule resource_acts_for_own_session [OF that])
  then show ?thesis unfolding Serve Dispatch.case
    by (cases endpoint) (simp_all only: Endpoint.case Endpoint.distinct not_False_eq_True)
qed (use no_endpoint [of R q] in simp_all)

section \<open>Endpoints and their policies\<close>

text \<open>What each endpoint is open to.\<close>

fun policy_of :: "Endpoint \<Rightarrow> RestRouteAuthPolicy" where
  "policy_of (ToService e) = service_policy e"
| "policy_of endpoint = Protected"

lemma open_paths_ok:
  "list_all (path_ok policy_of) system_routes" "list_all (path_ok policy_of) session_lifecycle_routes"
  "list_all (path_ok policy_of) page_routes"
  by (simp_all add: system_routes_def session_lifecycle_routes_def page_routes_def path_pattern_def starts_with_def
      in_protected_space_def classify_runtime_route_def)

lemma all_paths_ok: "list_all (path_ok policy_of) all_routes"
  unfolding all_routes_def documented_router_def list_all_append
  by (intro conjI open_paths_ok)
    (simp_all add: in_protected_space_def path_ok_protected starts_with_def del: path_ok.simps(1) add:
      system_routes_def session_lifecycle_routes_def targets_routes_def
    agents_and_agent_routes_def generic_assets_routes_def new_target_families_routes_def
    alerts_routes_def schedules_routes_def credentials_routes_def port_lists_routes_def
    feeds_routes_def supporting_resources_routes_def identity_and_access_routes_def
    tasks_routes_def audits_routes_def reports_routes_def jobs_routes_def results_routes_def
    scan_configs_routes_def policies_routes_def scanners_routes_def)

lemma all_ids_protected: "list_all (\<lambda>(m, p, h). ids_protected policy_of h) all_routes"
  unfolding all_routes_def documented_router_def page_routes_def
    system_routes_def session_lifecycle_routes_def targets_routes_def
    agents_and_agent_routes_def generic_assets_routes_def new_target_families_routes_def
    alerts_routes_def schedules_routes_def credentials_routes_def port_lists_routes_def
    feeds_routes_def supporting_resources_routes_def identity_and_access_routes_def
    tasks_routes_def audits_routes_def reports_routes_def jobs_routes_def results_routes_def
    scan_configs_routes_def policies_routes_def scanners_routes_def
  by (simp only: list_all_append list.pred_inject append.simps prod.case ids_protected.simps policy_of.simps
      service_policy.simps simp_thms)

lemma dispatched_policy:
  assumes "router_law matching" and "dispatch matching url_decode all_routes meth path = Serve endpoint"
  shows "classify_runtime_route meth path = Some (policy_of endpoint)"
  using dispatched_route [OF assms] all_paths_ok all_ids_protected by (fastforce simp: list_all_iff intro: route_policy)

text \<open>
  C6. The table of routes and the classification of paths agree: the endpoint a request reaches
  is open to exactly the policy its path is classified as, for every router with the law above,
  so no resource, job or time zone is served under a public path, and only the session
  endpoints are served under theirs.
\<close>

theorem endpoints_have_the_policy_of_their_path:
  assumes "router_law matching" and "dispatch matching url_decode all_routes meth path = Serve endpoint"
  shows "classify_runtime_route meth path = Some (policy_of endpoint)"
  using assms by (rule dispatched_policy)

lemma demo_dispatch:
  "dispatch match_first Some all_routes ''DELETE'' ''/api/v1/session'' = Serve (ToService SessionDelete)"
  by (simp add: dispatch_def match_first_def all_routes_def documented_router_def system_routes_def
      session_lifecycle_routes_def route_fits_def path_pattern_def starts_with_def)

theorem endpoints_have_the_policy_of_their_path_witness:
  "classify_runtime_route ''DELETE'' ''/api/v1/session'' = Some (policy_of (ToService SessionDelete))"
  by (rule endpoints_have_the_policy_of_their_path [OF match_first_law demo_dispatch])



end
