(* ===== verification/Spec2Isabelle.thy ===== *)
theory Spec2Isabelle
  imports Gateway_Runs Config Router
begin

text \<open>
  The GVM API gateway: a REST front end of a vulnerability scanner's management daemon
  (gvmd), in Rust. A request passes the layers of the REST adapter, is answered by a handler,
  which calls a use case of the application service, which checks the caller's session and
  calls a port of the gvmd adapter, which speaks to the daemon over the connection of that
  session. Long exports run as jobs next to the requests.

  \<^bold>\<open>Theories, from the bottom to the top\<close> (paths are under \<open>crates/\<close>).

  \<^item> \<open>Prelude\<close>, \<open>Text\<close>: machine words with Rust's saturating operations, results as sums with
    the question-mark operator (\<open>and_then\<close>), hash maps as association lists with distinct
    keys, strings as their UTF-8 bytes with the string functions of the standard library that
    the gateway calls. Two contracts are locales: \<open>safe_machine\<close>, a step relation with an
    inductive invariant, and \<open>expiring_store\<close>, a keyed store that drops dead entries.
  \<^item> \<open>Errors\<close>: \<open>gvm-gateway-domain/src/error.rs\<close>, the problem responses of
    \<open>gvm-gateway-rest/src/error.rs\<close> and the problem a failed job stores.
  \<^item> \<open>Rfc3339\<close>: \<open>gvm-gateway-domain/src/time.rs\<close>.
  \<^item> \<open>Sessions\<close>: the session registry, \<open>gvm-gateway-domain/src/session.rs\<close>. The record
    \<open>SessionManager\<close> is the struct of that name with its mutex opened; each method is a
    function from the state to its result and the new state.
  \<^item> \<open>Jobs\<close>, \<open>Job_Runs\<close>: the job types of \<open>gvm-gateway-domain/src/jobs.rs\<close>, and the registry of
    \<open>gvm-gateway-app/src/jobs.rs\<close> with the worker of each job. \<open>JobSystem\<close> is the registry
    together with the live workers; \<open>run_jobs\<close> interleaves the operations of the clients, of
    the workers and of the purge in any order.
  \<^item> \<open>Adapter\<close>: the client errors, paging, and the sessions of the gvmd adapter
    (\<open>gvm-gateway-gvmd/src\<close>).
  \<^item> \<open>Service\<close>: \<open>gvm-gateway-app/src/service.rs\<close> and \<open>session.rs\<close>. \<open>GatewayService\<close> holds the
    session registry, the state of the authentication port, the job system and the audit
    trail. The port is a parameter with the contract \<open>auth_port\<close>, which \<open>Adapter\<close> discharges.
  \<^item> \<open>Exports\<close>: accepting an export and the work of its worker (\<open>gvm-gateway-app/src/jobs.rs\<close>).
  \<^item> \<open>Peer_Addr\<close>, \<open>Http\<close>, \<open>Rate_Limit\<close>, \<open>Rest_Query\<close>, \<open>Rest_Auth\<close>, \<open>Handlers\<close>: the files
    \<open>peer_addr.rs\<close>, \<open>rate_limit.rs\<close>, \<open>query.rs\<close>, \<open>auth_policy.rs\<close>, \<open>handler.rs\<close>, \<open>sessions.rs\<close>
    and \<open>system.rs\<close> of \<open>gvm-gateway-rest/src\<close>. A handler works on any state of the
    application; the use case it calls is an argument. The locale \<open>resource_handler\<close> states
    what all handlers share, and each handler interprets it.
  \<^item> \<open>Shutdown\<close>: \<open>gvm-gateway-rest/src/shutdown.rs\<close> as the atomic steps of its operations under
    any interleaving.
  \<^item> \<open>Pipeline\<close>: the layers of \<open>security.rs\<close> and \<open>router.rs\<close>, each a function of the rest of the
    stack, composed by \<open>gateway_stack\<close> in the order of the code.
  \<^item> \<open>Rest_Jobs\<close>: the bodies and handlers of \<open>gvm-gateway-rest/src/jobs.rs\<close> on the use cases of
    \<open>gvm-gateway-app/src/jobs.rs\<close>, down to the job system.
  \<^item> \<open>Gateway_Runs\<close>: logins, requests, exports, their workers with the holds they own, and both
    reapers in any order, on one state.
  \<^item> \<open>Gmp\<close>: what the ports of the gvmd adapter share. The client library is a record of functions
    (\<open>GmpLibrary\<close>) over a datatype of commands; \<open>Gvmd\<close> is the adapter, the daemon behind it and
    the list of the commands sent so far; \<open>call\<close> is \<open>call_with_session\<close> of
    \<open>gvm-gateway-gvmd/src/gvmd_adapter/mod.rs\<close>. The locale \<open>session_backend\<close> states what a use
    case relies on, and the interpretation shows it for the adapter.
    The commands are those of \<open>Gmp\<close> itself (targets, tasks) and of \<open>Gmp_Data\<close> (all others), the
    answers are records of \<open>Gmp\<close> and \<open>Gmp_Answers\<close>; \<open>Gmp_Entities\<close> holds what they share.
  \<^item> \<open>Rest_Base\<close>: what the endpoints of all resources share, and the predicate \<open>within_token\<close>: a
    handler moves the application only as the use case called with its token moves it.
  \<^item> \<open>Targets\<close>, \<open>Tasks\<close>: domain data, ports, adapter operations and use cases of targets and of
    tasks and audits (\<open>targets.rs\<close>, \<open>specialized_targets.rs\<close>, \<open>tasks.rs\<close> of the crates). A port
    trait is a record of operations, and the adapter is a value of it.
  \<^item> \<open>Rest_Targets\<close>, \<open>Rest_Tasks\<close>: their request and response bodies, validation, handlers and
    routes (\<open>gvm-gateway-rest/src\<close>).
  \<^item> \<open>Resources\<close>, \<open>Rest_Resources\<close>: the steps that the ports of the other resources share, in the
    order in which the code looks up the session, waits for its lock and reads its arguments,
    and the predicate \<open>acts_for_own_session\<close> on a request. \<open>Sent_Commands\<close> says which commands
    an operation sends and \<open>Steps\<close> what it can answer, in rules that follow its composition;
    \<open>Supporting\<close> holds the metadata of the supporting resources.
  \<^item> \<open>Alerts\<close>, \<open>Schedules\<close>, \<open>Port_Lists\<close>, \<open>Inventory\<close> (feeds, scanners, results), \<open>Credentials\<close>,
    \<open>Identity\<close> (users, groups, roles, permissions, user settings), \<open>Assets\<close> (assets, hosts,
    operating systems, TLS certificates), \<open>Annotations\<close> (report formats, filters, tags, tickets,
    notes, overrides), \<open>Security_Info\<close> (NVTs, CVEs, CPEs, advisories), \<open>Scan_Configs\<close> (scan
    configs, policies, configs), \<open>Agents\<close> and \<open>Reports\<close>: one theory for each group of resources,
    with its files of all four crates: domain data, the port, each operation of the adapter, the
    use cases, bodies with their validation, handlers, and the endpoints of the group
    (\<open>serve_\<close> and the name of the group).
  \<^item> \<open>Routing\<close>: tables of routes, the law that is expected of the router library, and when a table
    fits the policies of its paths. \<open>Service_Routes\<close>: the endpoints that are not about resources
    of the daemon. \<open>Router\<close>: the table of all routes (\<open>router.rs\<close>) and \<open>route_request\<close>, which takes a
    request to its endpoint.
  \<^item> \<open>Config\<close>: the layers of \<open>gvm-gateway/src/config.rs\<close> and what \<open>main.rs\<close> starts with them.

  \<^bold>\<open>What the theorems show.\<close> The session registry keeps its limits under every sequence of
  operations, implements a specification on partial maps, and never revives a dead session;
  a hold keeps a session. The job system keeps its invariant in every reachable state: finished
  jobs are final, unfinished ones are never lost and can finish, and a job is visible to its
  owner only. In every interleaving of logins with other operations the service holds the connections of
  its registered sessions and, beyond these, only those of logins whose session was removed
  before the backend accepted them; one theorem shows such a login. It never lets a dead
  session reach the backend, and deletes sessions completely.
  Exports collect every page and give holds back. The rate limiter admits at most twice its
  limit in any interval of one window with a table of bounded size, and its waiting times
  are exact. A request without a token changes nothing under a path that needs one. Every
  response carries the security headers, CORS names configured origins only, a draining
  gateway serves probes only, and a session made for one request ends with it. The shutdown
  is safe under every interleaving, and one theorem shows a lost wake-up. An accepted export
  is delivered to its owner over the endpoints, byte for byte, whatever else runs meanwhile; along every run of the whole
  application the hold count of a session is the number of the workers that hold it. A request
  for a resource, whatever its path and method, sends commands on the connection of its own
  session only, and none without one; the endpoint it reaches is open to exactly the policy of
  its path. An update of a target sends what it was given; the actions on an audit find it among
  the audits first; the requests that create a task are characterised; a
  credential is local or of a store; an update of a user that names no hosts keeps those it has;
  pages of NVTs are sorted and bounded; a note or override that is read is the one asked for, and
  reading a report asks for its own results; object identifiers and the names of attachments are
  checked. A configuration is exactly that of its layers, and TLS is served exactly when both files are
  configured for it.

  \<^bold>\<open>Bounds and termination.\<close> All functions are total. The loop of the JSON export counts pages
  in a \<open>u32\<close> that stays below the reported number of pages, which is the measure; the walk
  through UTF-8 text and the readers of addresses recurse on the text; the table of buckets
  holds at most 16384 entries; no other recursion is bounded by fuel.

  \<^bold>\<open>What is assumed.\<close> Code that is not in the repository is an argument: SHA-256, random
  identifiers, Base64, UUID, form, path and JSON decoding, the client of the daemon, and how the router library finds the route of a path. A theorem that
  needs a law of it states the law as a hypothesis and has a witness. The clock is read once
  per critical section and passed in. A mutex is a critical section; its poison is a flag.
  In \<open>Shutdown\<close> memory is sequentially consistent, although the code asks for acquire and
  release ordering only. A header map holds the first value of each name.

  \<^bold>\<open>Not modelled.\<close> The adapter that answers every call with a fixed error
  (\<open>static_adapter.rs\<close>), the OpenAPI document and the pages that show it, tracing and metrics, the
  limit on the size of bodies, TLS, the listener and the logger: calls of libraries without logic
  of the gateway. \<open>get_gmp_user\<close> of the adapter's authentication port. The mocks of
  \<open>test_support\<close> serve the tests only.
\<close>

end
